(* ===== verification/Prelude.thy ===== *)
theory Prelude
  imports Main "HOL-Library.AList"
begin

text \<open>
  What every component theory shares.  A Go function that returns \<open>(T, error)\<close> is a HOL
  function into \<open>err + T\<close>; a chain \<open>if err != nil { return err }\<close> is \<open>ebind\<close>.  A database
  table is a list of rows in ascending primary-key order; the four statement forms the code sends
  to it (First, UPDATE ... WHERE, DELETE ... WHERE, INSERT) are the functions below.  Every
  statement can fail for reasons outside the program (connection, driver, constraint checks of the
  engine): which statements of a run fail is the argument \<open>flt\<close>, a function on the program points
  of an operation, and the theorems quantify over it.  \<open>transaction\<close> is Begin, a body, and
  Commit, with the deferred Rollback on every other path.
\<close>

named_theorems tbl_simps \<open>rewriting of table operations\<close>
named_theorems outcome_simps \<open>inversion of successful outcomes\<close>

section \<open>Errors and outcomes\<close>

text \<open>The program points at which a database statement can fail.\<close>

datatype point = Begin | Commit | AuditBegin | AuditEnd | Stmt nat | Outside nat

type_synonym faults = "point \<Rightarrow> bool"

text \<open>
  The error values of the modelled code: a driver failure at a point, gorm's not-found error, a
  violated unique index, the sentinel errors of the service package, errors made on the spot by
  \<open>errors.New\<close> (with their text), a coded error (\<open>ProviderError\<close>, \<open>MaintenanceError\<close>) and
  \<open>errors.Join\<close>.
\<close>

datatype err =
    DbErr point
  | RecordNotFound
  | UniqueViolation
  | ErrNew string
  | ErrCoded string
  | ErrJoin err err
  | ErrAuthentication
  | ErrPeerIdentityConflict
  | ErrPeerIdentityUnverified
  | ErrPresenceActivationInvalid
  | ErrPresenceActivationStale
  | ErrPresenceActivationUnverified
  | ErrPresenceLeaseInvalid
  | ErrPresenceLeaseExpired
  | ErrAdminScopeDenied
  | ErrTwoFactorUnavailable
  | ErrTwoFactorRequired
  | ErrTwoFactorCode
  | ErrTwoFactorChallenge
  | ErrInstanceNotFound
  | ErrReadOnly
  | ErrRequestInvalid
  | ErrUnavailable
  | ErrTokenInvalid
  | ErrTokenTooLarge
  | ErrUnknownKey

definition ebind :: "err + 'a \<Rightarrow> ('a \<Rightarrow> err + 'b) \<Rightarrow> err + 'b" where
  "ebind m f = (case m of Inl e \<Rightarrow> Inl e | Inr x \<Rightarrow> f x)"

lemma ebind_Inl [simp]: "ebind (Inl e) f = Inl e"
  by (simp add: ebind_def)

lemma ebind_Inr [simp]: "ebind (Inr x) f = f x"
  by (simp add: ebind_def)

lemma ebind_eq_Inr [outcome_simps]: "ebind m f = Inr y \<longleftrightarrow> (\<exists>x. m = Inr x \<and> f x = Inr y)"
  by (cases m) simp_all

lemma ebind_eq_Inl: "ebind m f = Inl e \<longleftrightarrow> m = Inl e \<or> (\<exists>x. m = Inr x \<and> f x = Inl e)"
  by (cases m) simp_all

text \<open>A statement that the driver may fail, and a check the code makes itself.\<close>

definition stmt :: "faults \<Rightarrow> point \<Rightarrow> err + 'a \<Rightarrow> err + 'a" where
  "stmt flt p m = (if flt p then Inl (DbErr p) else m)"

definition check :: "bool \<Rightarrow> err \<Rightarrow> err + 'a \<Rightarrow> err + 'a" where
  "check ok e m = (if ok then m else Inl e)"

lemma stmt_eq_Inr [outcome_simps]: "stmt flt p m = Inr y \<longleftrightarrow> \<not> flt p \<and> m = Inr y"
  by (simp add: stmt_def)

lemma check_eq_Inr [outcome_simps]: "check ok e m = Inr y \<longleftrightarrow> ok \<and> m = Inr y"
  by (simp add: check_def)

lemma stmt_ok [simp]: "\<not> flt p \<Longrightarrow> stmt flt p m = m"
  by (simp add: stmt_def)

lemma check_True [simp]: "check True e m = m"
  by (simp add: check_def)

lemma check_False [simp]: "check False e m = Inl e"
  by (simp add: check_def)

definition no_faults :: faults where
  "no_faults = (\<lambda>_. False)"

lemma no_faults_apply [simp]: "no_faults p = False"
  by (simp add: no_faults_def)

section \<open>Transactions\<close>

definition transaction :: "faults \<Rightarrow> ('s \<Rightarrow> err + 'a \<times> 's) \<Rightarrow> 's \<Rightarrow> (err + 'a) \<times> 's" where
  "transaction flt body s =
     (if flt Begin then (Inl (DbErr Begin), s)
      else case body s of
        Inl e \<Rightarrow> (Inl e, s)
      | Inr (x, s') \<Rightarrow> if flt Commit then (Inl (DbErr Commit), s) else (Inr x, s'))"

lemma transaction_eq_Inr [outcome_simps]:
  "transaction flt body s = (Inr x, s') \<longleftrightarrow> \<not> flt Begin \<and> \<not> flt Commit \<and> body s = Inr (x, s')"
  by (auto simp: transaction_def split: sum.splits)

lemma transaction_Inl_state: "transaction flt body s = (Inl e, s') \<Longrightarrow> s' = s"
  by (auto simp: transaction_def split: sum.splits if_splits)

lemma transaction_cases:
  obtains (ok) x s' where "transaction flt body s = (Inr x, s')" "body s = Inr (x, s')"
  | (rolled_back) e where "transaction flt body s = (Inl e, s)"
proof (cases "transaction flt body s")
  case (Pair r s')
  show thesis
  proof (cases r)
    case (Inl e)
    with Pair transaction_Inl_state [of flt body s e s'] show thesis
      by (auto intro: rolled_back)
  next
    case (Inr x)
    with Pair have "transaction flt body s = (Inr x, s')" by simp
    then show thesis by (auto simp: transaction_eq_Inr intro: ok)
  qed
qed

section \<open>Tables\<close>

definition update_where :: "('r \<Rightarrow> bool) \<Rightarrow> ('r \<Rightarrow> 'r) \<Rightarrow> 'r list \<Rightarrow> 'r list" where
  "update_where P f t = map (\<lambda>r. if P r then f r else r) t"

definition delete_where :: "('r \<Rightarrow> bool) \<Rightarrow> 'r list \<Rightarrow> 'r list" where
  "delete_where P t = filter (\<lambda>r. \<not> P r) t"

definition count_where :: "('r \<Rightarrow> bool) \<Rightarrow> 'r list \<Rightarrow> nat" where
  "count_where P t = length (filter P t)"

text \<open>The primary key the database gives a new row: above every key in the table.\<close>

definition next_id :: "('r \<Rightarrow> nat) \<Rightarrow> 'r list \<Rightarrow> nat" where
  "next_id k t = Suc (foldr (\<lambda>r m. max (k r) m) t 0)"

lemma foldr_max_ge: "r \<in> set t \<Longrightarrow> k r \<le> foldr (\<lambda>r m. max (k r) m) t (0::nat)"
  by (induction t) (auto simp: le_max_iff_disj)

lemma next_id_fresh [tbl_simps]: "r \<in> set t \<Longrightarrow> k r < next_id k t"
  using foldr_max_ge [of r t k] by (simp add: next_id_def)

lemma next_id_pos [simp]: "0 < next_id k t"
  by (simp add: next_id_def)

lemma next_id_notin: "next_id k t \<notin> k ` set t"
proof
  assume "next_id k t \<in> k ` set t"
  then obtain r where "r \<in> set t" "k r = next_id k t" by auto
  then show False using next_id_fresh [of r t k] by simp
qed

lemma update_where_Nil [simp]: "update_where P f [] = []"
  by (simp add: update_where_def)

lemma update_where_Cons [simp]:
  "update_where P f (r # t) = (if P r then f r else r) # update_where P f t"
  by (simp add: update_where_def)

lemma delete_where_Nil [simp]: "delete_where P [] = []"
  by (simp add: delete_where_def)

lemma delete_where_Cons [simp]:
  "delete_where P (r # t) = (if P r then delete_where P t else r # delete_where P t)"
  by (simp add: delete_where_def)

lemma count_where_Nil [simp]: "count_where P [] = 0"
  by (simp add: count_where_def)

lemma count_where_Cons [simp]:
  "count_where P (r # t) = (if P r then Suc (count_where P t) else count_where P t)"
  by (simp add: count_where_def)

lemma set_update_where [tbl_simps]:
  "set (update_where P f t) = (\<lambda>r. if P r then f r else r) ` set t"
  by (simp add: update_where_def)

lemma set_delete_where [tbl_simps]: "set (delete_where P t) = {r \<in> set t. \<not> P r}"
  by (auto simp: delete_where_def)

lemma length_update_where [simp]: "length (update_where P f t) = length t"
  by (simp add: update_where_def)

lemma update_where_id: "(\<And>r. r \<in> set t \<Longrightarrow> \<not> P r) \<Longrightarrow> update_where P f t = t"
  by (induction t) auto

lemma map_update_where [tbl_simps]:
  "(\<And>r. k (f r) = k r) \<Longrightarrow> map k (update_where P f t) = map k t"
  by (induction t) auto

lemma distinct_map_delete_where: "distinct (map k t) \<Longrightarrow> distinct (map k (delete_where P t))"
  by (simp add: delete_where_def distinct_map_filter)

lemma count_where_0 [tbl_simps]: "count_where P t = 0 \<longleftrightarrow> (\<forall>r \<in> set t. \<not> P r)"
  by (induction t) auto

lemma count_where_pos [tbl_simps]: "0 < count_where P t \<longleftrightarrow> (\<exists>r \<in> set t. P r)"
  by (induction t) auto

lemma count_where_append [simp]: "count_where P (s @ t) = count_where P s + count_where P t"
  by (simp add: count_where_def)

lemma count_where_cong: "(\<And>r. r \<in> set t \<Longrightarrow> P r = Q r) \<Longrightarrow> count_where P t = count_where Q t"
  by (induction t) auto

lemma count_where_mono: "(\<And>r. r \<in> set t \<Longrightarrow> P r \<Longrightarrow> Q r) \<Longrightarrow> count_where P t \<le> count_where Q t"
  by (induction t) (auto simp: le_SucI)

lemma count_where_update [tbl_simps]:
  "(\<And>r. Q (f r) = Q r) \<Longrightarrow> count_where Q (update_where P f t) = count_where Q t"
  by (induction t) auto

text \<open>A table with a unique key: at most one row matches a key.\<close>

lemma count_key_le_1: "distinct (map k t) \<Longrightarrow> count_where (\<lambda>r. k r = i) t \<le> 1"
proof (induction t)
  case (Cons r t)
  then show ?case
    by (auto simp: count_where_0 image_iff intro!: le_SucI)
qed simp

lemma count_key_eq_1:
  "distinct (map k t) \<Longrightarrow> count_where (\<lambda>r. k r = i) t = 1 \<longleftrightarrow> (\<exists>r \<in> set t. k r = i)"
  using count_key_le_1 [of k t i] count_where_pos [of "\<lambda>r. k r = i" t] by linarith

text \<open>\<open>SELECT COUNT(*) ... WHERE key IN (...)\<close> equals the number of keys exactly when each has a row.\<close>

lemma count_keys_all:
  assumes t: "distinct (map k t)" and ids: "distinct ids"
  shows "count_where (\<lambda>r. Q r \<and> k r \<in> set ids) t = length ids \<longleftrightarrow>
    (\<forall>i \<in> set ids. \<exists>r \<in> set t. k r = i \<and> Q r)"
proof -
  let ?R = "{r \<in> set t. Q r \<and> k r \<in> set ids}"
  have inj: "inj_on k (set t)" and dt: "distinct t" using t by (simp_all add: distinct_map)
  have "count_where (\<lambda>r. Q r \<and> k r \<in> set ids) t = card ?R"
    using distinct_card [OF distinct_filter [OF dt], of "\<lambda>r. Q r \<and> k r \<in> set ids"]
    by (simp add: count_where_def)
  also have "\<dots> = card (k ` ?R)"
    by (rule card_image [symmetric]) (rule inj_on_subset [OF inj], blast)
  finally have c: "count_where (\<lambda>r. Q r \<and> k r \<in> set ids) t = card (k ` ?R)" .
  have sub: "k ` ?R \<subseteq> set ids" by blast
  have "card (k ` ?R) = card (set ids) \<longleftrightarrow> k ` ?R = set ids"
    using card_subset_eq [OF _ sub] by auto
  moreover have "k ` ?R = set ids \<longleftrightarrow> (\<forall>i \<in> set ids. \<exists>r \<in> set t. k r = i \<and> Q r)"
  proof
    assume eq: "k ` ?R = set ids"
    show "\<forall>i \<in> set ids. \<exists>r \<in> set t. k r = i \<and> Q r"
    proof
      fix i assume "i \<in> set ids"
      then have "i \<in> k ` ?R" using eq by simp
      then show "\<exists>r \<in> set t. k r = i \<and> Q r" by blast
    qed
  next
    assume "\<forall>i \<in> set ids. \<exists>r \<in> set t. k r = i \<and> Q r"
    then have "set ids \<subseteq> k ` ?R" by auto
    with sub show "k ` ?R = set ids" by (rule subset_antisym)
  qed
  ultimately show ?thesis using c distinct_card [OF ids] by simp
qed

lemma find_key:
  "distinct (map k t) \<Longrightarrow> r \<in> set t \<Longrightarrow> k r = i \<Longrightarrow> find (\<lambda>r. k r = i) t = Some r"
  by (induction t) (auto simp: image_iff)

lemma find_append: "find P (s @ t) = (case find P s of None \<Rightarrow> find P t | Some r \<Rightarrow> Some r)"
  by (induction s) auto

lemma find_SomeD: "find P t = Some r \<Longrightarrow> r \<in> set t \<and> P r"
  by (auto simp: find_Some_iff)

lemma key_unique: "distinct (map k t) \<Longrightarrow> r \<in> set t \<Longrightarrow> r' \<in> set t \<Longrightarrow> k r = k r' \<Longrightarrow> r = r'"
  by (auto simp: distinct_map inj_on_def)

lemma count_key_with:
  assumes "distinct (map k t)" "r \<in> set t" "P r"
  shows "count_where (\<lambda>x. k x = k r \<and> P x) t = 1"
proof -
  have "count_where (\<lambda>x. k x = k r \<and> P x) t = count_where (\<lambda>x. k x = k r) t"
    by (rule count_where_cong) (use key_unique [OF assms(1) _ assms(2)] assms(3) in auto)
  then show ?thesis using count_key_eq_1 [OF assms(1), of "k r"] assms(2) by auto
qed

lemma distinct_map_snoc:
  "distinct (map k t) \<Longrightarrow> k r \<notin> k ` set t \<Longrightarrow> distinct (map k (t @ [r]))"
  by auto

section \<open>Strings as Go sees them\<close>

text \<open>A Go string is a sequence of bytes: a \<open>char list\<close>.\<close>

definition has_prefix :: "string \<Rightarrow> string \<Rightarrow> bool" where
  "has_prefix s p \<longleftrightarrow> take (length p) s = p"

fun contains_str :: "string \<Rightarrow> string \<Rightarrow> bool" where
  "contains_str [] p = (p = [])"
| "contains_str (c # s) p = (has_prefix (c # s) p \<or> contains_str s p)"

lemma has_prefix_iff: "has_prefix s p \<longleftrightarrow> (\<exists>t. s = p @ t)"
  by (auto simp: has_prefix_def) (metis append_take_drop_id)

lemma contains_str_iff: "contains_str s p \<longleftrightarrow> (\<exists>u v. s = u @ p @ v)"
proof (induction s)
  case Nil
  then show ?case by auto
next
  case (Cons c s)
  show ?case
    by (auto simp: Cons.IH has_prefix_iff Cons_eq_append_conv)
qed

text \<open>strings.Split(s, ".") for a one-byte separator.\<close>

fun split_on :: "char \<Rightarrow> string \<Rightarrow> string list" where
  "split_on d [] = [[]]"
| "split_on d (c # s) =
     (if c = d then [] # split_on d s
      else case split_on d s of [] \<Rightarrow> [[c]] | p # ps \<Rightarrow> (c # p) # ps)"

lemma split_on_nonempty [simp]: "split_on d s \<noteq> []"
  by (induction s) (auto split: list.splits)

lemma split_on_no_sep: "d \<notin> set s \<Longrightarrow> split_on d s = [s]"
  by (induction s) auto

lemma split_on_append_sep: "d \<notin> set s \<Longrightarrow> split_on d (s @ d # t) = s # split_on d t"
  by (induction s) auto

text \<open>Decimal digits: strconv.FormatUint(n, 10) and the \<open>%d\<close> verb.\<close>

fun decimal :: "nat \<Rightarrow> string" where
  "decimal n = (if n < 10 then [char_of (48 + n)] else decimal (n div 10) @ [char_of (48 + n mod 10)])"

declare decimal.simps [simp del]

definition undecimal :: "string \<Rightarrow> nat" where
  "undecimal s = foldl (\<lambda>v c. 10 * v + (of_char c - 48)) 0 s"

lemma undecimal_snoc: "undecimal (s @ [c]) = 10 * undecimal s + (of_char c - 48)"
  by (simp add: undecimal_def)

lemma undecimal_decimal: "undecimal (decimal n) = n"
proof (induction n rule: decimal.induct)
  case (1 n)
  show ?case
  proof (cases "n < 10")
    case True
    then show ?thesis by (simp add: decimal.simps [of n] undecimal_def)
  next
    case False
    then have eq: "decimal n = decimal (n div 10) @ [char_of (48 + n mod 10)]"
      by (subst decimal.simps) simp
    have "undecimal (decimal n) = 10 * (n div 10) + n mod 10"
      using "1.IH" [OF False] unfolding eq undecimal_snoc by simp
    then show ?thesis by simp
  qed
qed

lemma decimal_inj: "decimal m = decimal n \<longleftrightarrow> m = n"
  by (metis undecimal_decimal)

section \<open>strings.TrimSpace\<close>

text \<open>The UTF-8 encodings of the runes for which unicode.IsSpace holds.\<close>

definition space_runes :: "string list" where
  "space_runes = [[CHR 0x09], [CHR 0x0A], [CHR 0x0B], [CHR 0x0C], [CHR 0x0D], [CHR 0x20],
     [CHR 0xC2, CHR 0x85], [CHR 0xC2, CHR 0xA0], [CHR 0xE1, CHR 0x9A, CHR 0x80]]
     @ map (\<lambda>n. [CHR 0xE2, CHR 0x80, char_of n])
         [128, 129, 130, 131, 132, 133, 134, 135, 136, 137, 138, 168, 169, 175 :: nat]
     @ [[CHR 0xE2, CHR 0x81, CHR 0x9F], [CHR 0xE3, CHR 0x80, CHR 0x80]]"

function trim_runes :: "string list \<Rightarrow> string \<Rightarrow> string" where
  "trim_runes rs s =
     (case find (\<lambda>r. r \<noteq> [] \<and> has_prefix s r) rs of
        None \<Rightarrow> s
      | Some r \<Rightarrow> trim_runes rs (drop (length r) s))"
  by pat_completeness auto
termination
proof (relation "measure (length \<circ> snd)")
  fix rs s r
  assume "find (\<lambda>r. r \<noteq> [] \<and> has_prefix s r) rs = Some r"
  then have "r \<noteq> [] \<and> has_prefix s r" using find_SomeD by fastforce
  then have "s \<noteq> []" by (auto simp: has_prefix_def)
  with \<open>r \<noteq> [] \<and> has_prefix s r\<close> show "((rs, drop (length r) s), rs, s) \<in> measure (length \<circ> snd)"
    by simp
qed simp

declare trim_runes.simps [simp del]

definition trim_space :: "string \<Rightarrow> string" where
  "trim_space s = rev (trim_runes (map rev space_runes) (rev (trim_runes space_runes s)))"

definition is_space_byte :: "char \<Rightarrow> bool" where
  "is_space_byte c \<longleftrightarrow> c \<in> {CHR 0x09, CHR 0x0A, CHR 0x0B, CHR 0x0C, CHR 0x0D, CHR 0x20} \<or> 128 \<le> (of_char c :: nat)"

lemma trim_runes_id:
  "(\<And>r. r \<in> set rs \<Longrightarrow> r \<noteq> [] \<Longrightarrow> \<not> has_prefix s r) \<Longrightarrow> trim_runes rs s = s"
  by (subst trim_runes.simps) (auto simp: find_None_iff split: option.split dest: find_SomeD)

lemma trim_space_plain:
  assumes "list_all (\<lambda>c. \<not> is_space_byte c) s"
  shows "trim_space s = s"
proof -
  have no: "\<not> has_prefix u r" if "list_all (\<lambda>c. \<not> is_space_byte c) u" "r \<noteq> []" "is_space_byte (hd r)" for u r
    using that by (cases u; cases r) (auto simp: has_prefix_def)
  have "list_all (\<lambda>r. r \<noteq> [] \<and> is_space_byte (hd r)) (space_runes @ map rev space_runes)"
    by code_simp
  then have sp: "r \<in> set space_runes \<union> set (map rev space_runes) \<Longrightarrow> r \<noteq> [] \<and> is_space_byte (hd r)" for r
    by (auto simp: list_all_iff)
  have 1: "trim_runes space_runes s = s"
    by (rule trim_runes_id) (use sp no assms in blast)
  have "list_all (\<lambda>c. \<not> is_space_byte c) (rev s)" using assms by (simp add: list_all_iff)
  then have 2: "trim_runes (map rev space_runes) (rev s) = rev s"
    by (intro trim_runes_id) (use sp no in blast)
  show ?thesis by (simp add: trim_space_def 1 2)
qed

end
