(* ===== verification/LoginLimiter.thy ===== *)
theory LoginLimiter
  imports Prelude
begin

text \<open>
  The login limiter (\<open>src/utils/login_limiter.go\<close>): failed attempts per address inside a sliding
  window, bans, and outstanding captchas.  The three Go maps are association lists with distinct
  keys (\<open>ll_inv\<close>); times and durations are nanoseconds; the clock is read once per operation and is
  an argument.  What the registered captcha provider returns is an argument of \<open>require_captcha\<close>.
  Each method runs under the mutex of the limiter, so a run is a sequence of operations.
\<close>

section \<open>State\<close>

record policy =
  captcha_threshold :: int
  ban_threshold :: int
  attempts_window :: int
  ban_duration :: int

record captcha_meta =
  cm_id :: string
  cm_content :: string
  cm_answer :: string
  cm_expires_at :: int

record ban_record =
  br_expires_at :: int
  br_reason :: string

record limiter =
  ll_policy :: policy
  ll_attempts :: "(string \<times> int list) list"
  ll_captchas :: "(string \<times> captcha_meta) list"
  ll_banned :: "(string \<times> ban_record) list"
  ll_provider :: bool

definition maxActiveCaptchas :: nat where "maxActiveCaptchas = 4096"

definition minute :: int where "minute = 60 * 1000000000"

definition default_security_policy :: policy where
  "default_security_policy = \<lparr>captcha_threshold = 3, ban_threshold = 5,
     attempts_window = 5 * minute, ban_duration = 30 * minute\<rparr>"

definition new_login_limiter :: "policy \<Rightarrow> limiter" where
  "new_login_limiter p =
     (let p1 = (if attempts_window p = 0 then p\<lparr>attempts_window := 5 * minute\<rparr> else p);
          p2 = (if ban_duration p1 = 0 then p1\<lparr>ban_duration := 30 * minute\<rparr> else p1)
      in \<lparr>ll_policy = p2, ll_attempts = [], ll_captchas = [], ll_banned = [], ll_provider = False\<rparr>)"

definition register_provider :: "limiter \<Rightarrow> limiter" where
  "register_provider ll = ll\<lparr>ll_provider := True\<rparr>"

definition is_disabled :: "limiter \<Rightarrow> bool" where
  "is_disabled ll \<longleftrightarrow> captcha_threshold (ll_policy ll) < 0 \<and> ban_threshold (ll_policy ll) = 0"

section \<open>Operations\<close>

definition attempts_of :: "limiter \<Rightarrow> string \<Rightarrow> int list" where
  "attempts_of ll ip = (case map_of (ll_attempts ll) ip of None \<Rightarrow> [] | Some ts \<Rightarrow> ts)"

definition prune_attempts :: "string \<Rightarrow> int \<Rightarrow> limiter \<Rightarrow> int list \<times> limiter" where
  "prune_attempts ip cutoff ll =
     (let valid = filter (\<lambda>t. t > cutoff) (attempts_of ll ip)
      in (valid,
          if length valid = 0 then ll\<lparr>ll_attempts := AList.delete ip (ll_attempts ll)\<rparr>
          else ll\<lparr>ll_attempts := AList.update ip valid (ll_attempts ll)\<rparr>))"

definition is_banned :: "int \<Rightarrow> string \<Rightarrow> limiter \<Rightarrow> bool \<times> limiter" where
  "is_banned t ip ll =
     (case map_of (ll_banned ll) ip of
        None \<Rightarrow> (False, ll)
      | Some rec \<Rightarrow> if t > br_expires_at rec
                    then (False, ll\<lparr>ll_banned := AList.delete ip (ll_banned ll)\<rparr>)
                    else (True, ll))"

definition ban_ip :: "int \<Rightarrow> string \<Rightarrow> string \<Rightarrow> limiter \<Rightarrow> limiter" where
  "ban_ip t ip reason ll =
     ll\<lparr>ll_banned := AList.update ip \<lparr>br_expires_at = t + ban_duration (ll_policy ll), br_reason = reason\<rparr>
                       (ll_banned ll),
        ll_attempts := AList.delete ip (ll_attempts ll),
        ll_captchas := AList.delete ip (ll_captchas ll)\<rparr>"

definition record_failed_attempt :: "int \<Rightarrow> string \<Rightarrow> limiter \<Rightarrow> limiter" where
  "record_failed_attempt t ip ll =
     (if is_disabled ll then ll
      else case is_banned t ip ll of
        (True, ll1) \<Rightarrow> ll1
      | (False, ll1) \<Rightarrow>
          (let (valid, ll2) = prune_attempts ip (t - attempts_window (ll_policy ll1)) ll1;
               attempts = valid @ [t];
               ll3 = ll2\<lparr>ll_attempts := AList.update ip attempts (ll_attempts ll2)\<rparr>
           in if ban_threshold (ll_policy ll3) > 0 \<and> int (length attempts) \<ge> ban_threshold (ll_policy ll3)
              then ban_ip t ip ''excessive failed attempts'' ll3
              else ll3))"

definition check_security_status :: "int \<Rightarrow> string \<Rightarrow> limiter \<Rightarrow> (bool \<times> bool) \<times> limiter" where
  "check_security_status t ip ll =
     (if is_disabled ll then ((False, False), ll)
      else case is_banned t ip ll of
        (True, ll1) \<Rightarrow> ((True, False), ll1)
      | (False, ll1) \<Rightarrow>
          (let (_, ll2) = prune_attempts ip (t - attempts_window (ll_policy ll1)) ll1
           in ((False, int (length (attempts_of ll2 ip)) \<ge> captcha_threshold (ll_policy ll2)), ll2)))"

definition require_captcha ::
    "int \<Rightarrow> (err + string \<times> string \<times> string) \<Rightarrow> int \<Rightarrow> limiter \<Rightarrow> (err + captcha_meta) \<times> limiter" where
  "require_captcha t generated expiration ll =
     (if \<not> ll_provider ll then (Inl (ErrNew ''no captcha provider available''), ll)
      else let ll1 = ll\<lparr>ll_captchas := filter (\<lambda>(_, c). cm_expires_at c > t) (ll_captchas ll)\<rparr>
      in if length (ll_captchas ll1) \<ge> maxActiveCaptchas
         then (Inl (ErrNew ''captcha capacity reached''), ll1)
         else case generated of
           Inl er \<Rightarrow> (Inl er, ll1)
         | Inr (i, content, answer) \<Rightarrow>
             (let c = \<lparr>cm_id = i, cm_content = content, cm_answer = answer, cm_expires_at = t + expiration\<rparr>
              in (Inr c, ll1\<lparr>ll_captchas := AList.update i c (ll_captchas ll1)\<rparr>)))"

definition verify_captcha :: "int \<Rightarrow> string \<Rightarrow> string \<Rightarrow> limiter \<Rightarrow> bool \<times> limiter" where
  "verify_captcha t i answer ll =
     (if \<not> ll_provider ll then (False, ll)
      else case map_of (ll_captchas ll) i of
        None \<Rightarrow> (False, ll)
      | Some c \<Rightarrow>
          (let ll1 = ll\<lparr>ll_captchas := AList.delete i (ll_captchas ll)\<rparr>
           in if t > cm_expires_at c then (False, ll1)
              else if answer = cm_answer c then (True, ll1)
              else (False, ll)))"

definition remove_attempts :: "string \<Rightarrow> limiter \<Rightarrow> limiter" where
  "remove_attempts ip ll =
     (if map_of (ll_attempts ll) ip \<noteq> None
      then ll\<lparr>ll_attempts := AList.delete ip (ll_attempts ll)\<rparr> else ll)"

definition prune_captchas :: "int \<Rightarrow> string \<Rightarrow> limiter \<Rightarrow> limiter" where
  "prune_captchas t i ll =
     (case map_of (ll_captchas ll) i of
        None \<Rightarrow> ll
      | Some c \<Rightarrow> if t > cm_expires_at c
                  then ll\<lparr>ll_captchas := AList.delete i (ll_captchas ll)\<rparr> else ll)"

definition cleanup_expired :: "int \<Rightarrow> limiter \<Rightarrow> limiter" where
  "cleanup_expired t ll =
     (let ll1 = ll\<lparr>ll_banned := filter (\<lambda>(_, r). \<not> t > br_expires_at r) (ll_banned ll)\<rparr>;
          ll2 = fold (\<lambda>ip l. snd (prune_attempts ip (t - attempts_window (ll_policy l)) l))
                  (map fst (ll_attempts ll1)) ll1
      in fold (prune_captchas t) (map fst (ll_captchas ll2)) ll2)"

text \<open>Every method as one operation, at the time it runs.\<close>

datatype limiter_op =
    RegisterProvider
  | RecordFailedAttempt string
  | CheckSecurityStatus string
  | RequireCaptcha "err + string \<times> string \<times> string" int
  | VerifyCaptcha string string
  | RemoveAttempts string
  | Cleanup

fun limiter_exec :: "int \<Rightarrow> limiter_op \<Rightarrow> limiter \<Rightarrow> limiter" where
  "limiter_exec t RegisterProvider ll = register_provider ll"
| "limiter_exec t (RecordFailedAttempt ip) ll = record_failed_attempt t ip ll"
| "limiter_exec t (CheckSecurityStatus ip) ll = snd (check_security_status t ip ll)"
| "limiter_exec t (RequireCaptcha g ex) ll = snd (require_captcha t g ex ll)"
| "limiter_exec t (VerifyCaptcha i a) ll = snd (verify_captcha t i a ll)"
| "limiter_exec t (RemoveAttempts ip) ll = remove_attempts ip ll"
| "limiter_exec t Cleanup ll = cleanup_expired t ll"

definition limiter_run :: "(int \<times> limiter_op) list \<Rightarrow> limiter \<Rightarrow> limiter" where
  "limiter_run ops ll = fold (\<lambda>(t, op). limiter_exec t op) ops ll"

section \<open>Invariant\<close>

definition ll_inv :: "limiter \<Rightarrow> bool" where
  "ll_inv ll \<longleftrightarrow>
     distinct (map fst (ll_attempts ll)) \<and> distinct (map fst (ll_captchas ll)) \<and>
     distinct (map fst (ll_banned ll)) \<and>
     length (ll_captchas ll) \<le> maxActiveCaptchas \<and>
     (\<forall>(i, c) \<in> set (ll_captchas ll). cm_id c = i) \<and>
     (\<forall>(ip, ts) \<in> set (ll_attempts ll). ts \<noteq> [] \<and>
        (ban_threshold (ll_policy ll) > 0 \<longrightarrow> int (length ts) < ban_threshold (ll_policy ll)))"

lemma set_AList_update: "x \<in> set (AList.update k v al) \<Longrightarrow> x = (k, v) \<or> x \<in> set al"
  by (induction al) (auto split: if_splits)

lemma set_AList_delete: "x \<in> set (AList.delete k al) \<Longrightarrow> x \<in> set al"
  by (simp add: AList.delete_eq)

lemma length_AList_update_le: "length (AList.update k v al) \<le> Suc (length al)"
  by (induction al) auto

lemma length_AList_delete_le: "length (AList.delete k al) \<le> length al"
  by (simp add: AList.delete_eq)

lemma distinct_fst_filter: "distinct (map fst al) \<Longrightarrow> distinct (map fst (filter P al))"
  by (rule distinct_map_filter)

lemma distinct_fst_delete: "distinct (map fst al) \<Longrightarrow> distinct (map fst (AList.delete k al))"
  by (simp add: AList.delete_eq distinct_map_filter)

lemmas alist_inv = distinct_fst_filter distinct_fst_delete distinct_update

lemma prune_attempts_frame [simp]:
  "ll_policy (snd (prune_attempts ip c ll)) = ll_policy ll"
  "ll_captchas (snd (prune_attempts ip c ll)) = ll_captchas ll"
  "ll_banned (snd (prune_attempts ip c ll)) = ll_banned ll"
  by (simp_all add: prune_attempts_def Let_def)

lemma is_banned_frame [simp]:
  "ll_policy (snd (is_banned t ip ll)) = ll_policy ll"
  "ll_captchas (snd (is_banned t ip ll)) = ll_captchas ll"
  "ll_attempts (snd (is_banned t ip ll)) = ll_attempts ll"
  by (simp_all add: is_banned_def split: option.splits)

lemma limiter_policy [simp]: "ll_policy (limiter_exec t op ll) = ll_policy ll"
proof (cases op)
  case Cleanup
  have *: "ll_policy (fold (prune_captchas t) ks l) = ll_policy l" for ks l
    by (induction ks arbitrary: l) (simp_all add: prune_captchas_def split: option.splits)
  have **: "ll_policy (fold (\<lambda>ip l. snd (prune_attempts ip (t - attempts_window (ll_policy l)) l)) ks l) = ll_policy l"
    for ks l by (induction ks arbitrary: l) simp_all
  show ?thesis using Cleanup by (simp add: cleanup_expired_def Let_def * **)
qed (simp_all add: register_provider_def record_failed_attempt_def check_security_status_def is_banned_def
    prune_attempts_def ban_ip_def require_captcha_def verify_captcha_def remove_attempts_def Let_def
    split: option.splits sum.splits prod.splits)

definition attempts_ok :: "limiter \<Rightarrow> bool" where
  "attempts_ok ll \<longleftrightarrow> distinct (map fst (ll_attempts ll)) \<and>
     (\<forall>(ip, ts) \<in> set (ll_attempts ll). ts \<noteq> [] \<and>
        (ban_threshold (ll_policy ll) > 0 \<longrightarrow> int (length ts) < ban_threshold (ll_policy ll)))"

definition captchas_ok :: "limiter \<Rightarrow> bool" where
  "captchas_ok ll \<longleftrightarrow> distinct (map fst (ll_captchas ll)) \<and> length (ll_captchas ll) \<le> maxActiveCaptchas \<and>
     (\<forall>(i, c) \<in> set (ll_captchas ll). cm_id c = i)"

lemma ll_inv_split:
  "ll_inv ll \<longleftrightarrow> attempts_ok ll \<and> captchas_ok ll \<and> distinct (map fst (ll_banned ll))"
  by (auto simp: ll_inv_def attempts_ok_def captchas_ok_def)

lemma attempts_ok_length:
  assumes "attempts_ok ll" "ban_threshold (ll_policy ll) > 0"
  shows "int (length (attempts_of ll ip)) < ban_threshold (ll_policy ll)"
proof (cases "map_of (ll_attempts ll) ip")
  case (Some ts)
  then have "(ip, ts) \<in> set (ll_attempts ll)" by (rule map_of_SomeD)
  then show ?thesis using assms Some by (auto simp: attempts_ok_def attempts_of_def)
qed (use assms in \<open>simp add: attempts_of_def\<close>)

lemma prune_attempts_ok: "attempts_ok ll \<Longrightarrow> attempts_ok (snd (prune_attempts ip c ll))"
proof -
  assume ok: "attempts_ok ll"
  let ?v = "filter (\<lambda>t. t > c) (attempts_of ll ip)"
  have len: "ban_threshold (ll_policy ll) > 0 \<longrightarrow> int (length ?v) < ban_threshold (ll_policy ll)"
  proof
    assume "ban_threshold (ll_policy ll) > 0"
    from attempts_ok_length [OF ok this, of ip] length_filter_le [of "\<lambda>t. t > c" "attempts_of ll ip"]
    show "int (length ?v) < ban_threshold (ll_policy ll)" by linarith
  qed
  show ?thesis
  proof (cases "?v = []")
    case True
    then show ?thesis using ok
      by (auto simp: prune_attempts_def attempts_ok_def alist_inv dest: set_AList_delete)
  next
    case False
    then show ?thesis using ok len
      by (auto simp: prune_attempts_def attempts_ok_def alist_inv Let_def dest!: set_AList_update)
  qed
qed

lemma attempts_ok_cong:
  "ll_attempts l = ll_attempts l' \<Longrightarrow> ll_policy l = ll_policy l' \<Longrightarrow> attempts_ok l = attempts_ok l'"
  by (simp add: attempts_ok_def)

lemma captchas_ok_cong: "ll_captchas l = ll_captchas l' \<Longrightarrow> captchas_ok l = captchas_ok l'"
  by (simp add: captchas_ok_def)

lemma captchas_ok_delete: "captchas_ok l \<Longrightarrow> captchas_ok (l\<lparr>ll_captchas := AList.delete i (ll_captchas l)\<rparr>)"
  using length_AList_delete_le [of i "ll_captchas l"]
  by (auto simp: captchas_ok_def alist_inv dest: set_AList_delete)

lemma record_failed_inv: "ll_inv ll \<Longrightarrow> ll_inv (record_failed_attempt t ip ll)"
proof -
  assume inv: "ll_inv ll"
  obtain b ll1 where b: "is_banned t ip ll = (b, ll1)" by fastforce
  then have l1: "ll1 = snd (is_banned t ip ll)" by simp
  have inv1: "ll_inv ll1"
    using inv b by (auto simp: is_banned_def ll_inv_def alist_inv split: option.splits if_splits)
  obtain valid ll2 where p: "prune_attempts ip (t - attempts_window (ll_policy ll1)) ll1 = (valid, ll2)" by fastforce
  have inv2: "ll_inv ll2"
    using inv1 prune_attempts_ok [of ll1 ip "t - attempts_window (ll_policy ll1)"]
      prune_attempts_frame [of ip "t - attempts_window (ll_policy ll1)" ll1] p
    by (simp add: ll_inv_split captchas_ok_def)
  let ?ll3 = "ll2\<lparr>ll_attempts := AList.update ip (valid @ [t]) (ll_attempts ll2)\<rparr>"
  have ban: "ll_inv (ban_ip t ip r ?ll3)" for r
    using inv2 length_AList_delete_le [of ip "ll_captchas ll2"]
    by (auto simp: ban_ip_def ll_inv_def alist_inv delete_update_same dest!: set_AList_delete)
  have noban: "ll_inv ?ll3" if "\<not> (ban_threshold (ll_policy ?ll3) > 0 \<and>
      int (length (valid @ [t])) \<ge> ban_threshold (ll_policy ?ll3))"
    using inv2 that by (auto simp: ll_inv_def alist_inv dest!: set_AList_update)
  show ?thesis
    using inv inv1 b p ban noban by (cases b) (simp_all add: record_failed_attempt_def Let_def)
qed

lemma cleanup_attempts_inv:
  "attempts_ok l \<Longrightarrow> attempts_ok (fold (\<lambda>ip l. snd (prune_attempts ip (c l) l)) ks l)"
  by (induction ks arbitrary: l) (simp_all add: prune_attempts_ok)

lemma cleanup_attempts_frame:
  "ll_captchas (fold (\<lambda>ip l. snd (prune_attempts ip (c l) l)) ks l) = ll_captchas l \<and>
   ll_banned (fold (\<lambda>ip l. snd (prune_attempts ip (c l) l)) ks l) = ll_banned l \<and>
   ll_policy (fold (\<lambda>ip l. snd (prune_attempts ip (c l) l)) ks l) = ll_policy l"
  by (induction ks arbitrary: l) simp_all

lemma prune_captchas_frame [simp]:
  "ll_attempts (prune_captchas t i l) = ll_attempts l" "ll_banned (prune_captchas t i l) = ll_banned l"
  "ll_policy (prune_captchas t i l) = ll_policy l"
  by (simp_all add: prune_captchas_def split: option.splits)

lemma cleanup_captchas_inv: "captchas_ok l \<Longrightarrow> captchas_ok (fold (prune_captchas t) ks l)"
proof (induction ks arbitrary: l)
  case (Cons i ks)
  have "captchas_ok (prune_captchas t i l)"
    using Cons.prems captchas_ok_delete [OF Cons.prems] by (simp add: prune_captchas_def split: option.splits)
  then show ?case using Cons.IH by simp
qed simp

lemma cleanup_captchas_frame:
  "ll_attempts (fold (prune_captchas t) ks l) = ll_attempts l \<and> ll_banned (fold (prune_captchas t) ks l) = ll_banned l \<and>
   ll_policy (fold (prune_captchas t) ks l) = ll_policy l"
  by (induction ks arbitrary: l) simp_all

lemma cleanup_inv: "ll_inv ll \<Longrightarrow> ll_inv (cleanup_expired t ll)"
proof -
  assume inv: "ll_inv ll"
  let ?l1 = "ll\<lparr>ll_banned := filter (\<lambda>(_, r). \<not> t > br_expires_at r) (ll_banned ll)\<rparr>"
  let ?l2 = "fold (\<lambda>ip l. snd (prune_attempts ip (t - attempts_window (ll_policy l)) l)) (map fst (ll_attempts ?l1)) ?l1"
  have l1: "ll_inv ?l1" using inv by (simp add: ll_inv_def alist_inv)
  have l2: "attempts_ok ?l2" by (rule cleanup_attempts_inv) (use l1 in \<open>simp add: ll_inv_split\<close>)
  have f: "ll_captchas ?l2 = ll_captchas ?l1" "ll_banned ?l2 = ll_banned ?l1"
    using cleanup_attempts_frame [of "\<lambda>l. t - attempts_window (ll_policy l)" "map fst (ll_attempts ?l1)" ?l1] by simp_all
  have l3: "captchas_ok (fold (prune_captchas t) (map fst (ll_captchas ?l2)) ?l2)"
    by (rule cleanup_captchas_inv) (use l1 f captchas_ok_cong [of ?l2 ?l1] in \<open>simp add: ll_inv_split\<close>)
  have "attempts_ok (fold (prune_captchas t) (map fst (ll_captchas ?l2)) ?l2)"
    using l2 cleanup_captchas_frame [of t "map fst (ll_captchas ?l2)" ?l2] by (simp add: attempts_ok_def)
  moreover have "distinct (map fst (ll_banned (fold (prune_captchas t) (map fst (ll_captchas ?l2)) ?l2)))"
    using l1 f cleanup_captchas_frame [of t "map fst (ll_captchas ?l2)" ?l2] by (simp add: ll_inv_split)
  ultimately show ?thesis using l3 by (simp add: cleanup_expired_def Let_def ll_inv_split)
qed

lemma check_status_inv: "ll_inv ll \<Longrightarrow> ll_inv (snd (check_security_status t ip ll))"
proof -
  assume inv: "ll_inv ll"
  obtain b ll1 where b: "is_banned t ip ll = (b, ll1)" by fastforce
  have inv1: "ll_inv ll1"
    using inv b by (auto simp: is_banned_def ll_inv_def alist_inv split: option.splits if_splits)
  let ?l2 = "snd (prune_attempts ip (t - attempts_window (ll_policy ll1)) ll1)"
  have "attempts_ok ?l2" "captchas_ok ?l2" "distinct (map fst (ll_banned ?l2))"
    using inv1 prune_attempts_ok [of ll1] captchas_ok_cong [of ?l2 ll1] by (simp_all add: ll_inv_split)
  then have "ll_inv ?l2" by (simp add: ll_inv_split)
  then show ?thesis using inv inv1 b
    by (cases b) (auto simp: check_security_status_def split: prod.split)
qed

lemma require_captcha_inv: "ll_inv ll \<Longrightarrow> ll_inv (snd (require_captcha t g ex ll))"
proof -
  assume inv: "ll_inv ll"
  let ?cs = "filter (\<lambda>(_, c). cm_expires_at c > t) (ll_captchas ll)"
  have len: "length ?cs \<le> maxActiveCaptchas"
    by (rule le_trans [OF length_filter_le]) (use inv in \<open>simp add: ll_inv_def\<close>)
  have l1: "ll_inv (ll\<lparr>ll_captchas := ?cs\<rparr>)"
    using inv len by (auto simp: ll_inv_def alist_inv)
  have "ll_inv (ll\<lparr>ll_captchas := AList.update i c ?cs\<rparr>)" if "length ?cs < maxActiveCaptchas" "cm_id c = i" for i c
    using l1 that length_AList_update_le [of i c ?cs]
    by (auto simp: ll_inv_def alist_inv dest!: set_AList_update)
  then show ?thesis using inv l1
    by (auto simp: require_captcha_def Let_def not_le split: sum.split prod.split)
qed

lemma verify_captcha_inv: "ll_inv ll \<Longrightarrow> ll_inv (snd (verify_captcha t i a ll))"
proof -
  assume inv: "ll_inv ll"
  then have "ll_inv (ll\<lparr>ll_captchas := AList.delete i (ll_captchas ll)\<rparr>)"
    using captchas_ok_delete [of ll i] by (simp add: ll_inv_split attempts_ok_def)
  then show ?thesis using inv by (simp add: verify_captcha_def Let_def split: option.split)
qed

lemma remove_attempts_inv: "ll_inv ll \<Longrightarrow> ll_inv (remove_attempts ip ll)"
  by (auto simp: remove_attempts_def ll_inv_def alist_inv dest!: set_AList_delete)

lemma limiter_exec_inv: "ll_inv ll \<Longrightarrow> ll_inv (limiter_exec t op ll)"
  by (cases op) (simp_all add: register_provider_def record_failed_inv check_status_inv require_captcha_inv
      verify_captcha_inv remove_attempts_inv cleanup_inv, simp add: ll_inv_def)

lemma limiter_run_Cons [simp]:
  "limiter_run [] ll = ll" "limiter_run ((t, op) # ops) ll = limiter_run ops (limiter_exec t op ll)"
  by (simp_all add: limiter_run_def)

lemma limiter_run_inv: "ll_inv ll \<Longrightarrow> ll_inv (limiter_run ops ll)"
  by (induction ops arbitrary: ll) (auto simp: limiter_exec_inv)

lemma new_limiter_inv: "ll_inv (new_login_limiter p)"
  by (simp add: new_login_limiter_def ll_inv_def Let_def maxActiveCaptchas_def)

section \<open>Refinement: one independent machine per address\<close>

text \<open>The state of one address: its attempts inside the table and its ban.\<close>

type_synonym addr_state = "int list \<times> ban_record option"

definition addr_view :: "string \<Rightarrow> limiter \<Rightarrow> addr_state" where
  "addr_view ip ll = (attempts_of ll ip, map_of (ll_banned ll) ip)"

fun addr_unban :: "int \<Rightarrow> addr_state \<Rightarrow> addr_state" where
  "addr_unban t (as, b) = (as, case b of Some r \<Rightarrow> if t > br_expires_at r then None else Some r | None \<Rightarrow> None)"

definition recent :: "policy \<Rightarrow> int \<Rightarrow> int list \<Rightarrow> int list" where
  "recent p t = filter (\<lambda>u. u > t - attempts_window p)"

fun addr_fail :: "policy \<Rightarrow> int \<Rightarrow> addr_state \<Rightarrow> addr_state" where
  "addr_fail p t s =
     (case addr_unban t s of
        (as, Some r) \<Rightarrow> (as, Some r)
      | (as, None) \<Rightarrow>
          (let as' = recent p t as @ [t]
           in if ban_threshold p > 0 \<and> int (length as') \<ge> ban_threshold p
              then ([], Some \<lparr>br_expires_at = t + ban_duration p, br_reason = ''excessive failed attempts''\<rparr>)
              else (as', None)))"

fun addr_check :: "policy \<Rightarrow> int \<Rightarrow> addr_state \<Rightarrow> addr_state" where
  "addr_check p t s =
     (case addr_unban t s of
        (as, Some r) \<Rightarrow> (as, Some r)
      | (as, None) \<Rightarrow> (recent p t as, None))"

definition policy_disabled :: "policy \<Rightarrow> bool" where
  "policy_disabled p \<longleftrightarrow> captcha_threshold p < 0 \<and> ban_threshold p = 0"

fun addr_step :: "policy \<Rightarrow> string \<Rightarrow> int \<times> limiter_op \<Rightarrow> addr_state \<Rightarrow> addr_state" where
  "addr_step p ip (t, RecordFailedAttempt ip') s =
     (if ip' = ip \<and> \<not> policy_disabled p then addr_fail p t s else s)"
| "addr_step p ip (t, CheckSecurityStatus ip') s =
     (if ip' = ip \<and> \<not> policy_disabled p then addr_check p t s else s)"
| "addr_step p ip (t, RemoveAttempts ip') s = (if ip' = ip then ([], snd s) else s)"
| "addr_step p ip (t, Cleanup) s = (recent p t (fst s), snd (addr_unban t s))"
| "addr_step p ip (t, RegisterProvider) s = s"
| "addr_step p ip (t, RequireCaptcha _ _) s = s"
| "addr_step p ip (t, VerifyCaptcha _ _) s = s"

lemma is_disabled_policy: "is_disabled ll = policy_disabled (ll_policy ll)"
  by (simp add: is_disabled_def policy_disabled_def)

lemma fst_addr_view: "fst (addr_view ip ll) = attempts_of ll ip"
  by (simp add: addr_view_def)

lemma attempts_of_update: "attempts_of (l\<lparr>ll_attempts := AList.update k v (ll_attempts l)\<rparr>) ip =
    (if ip = k then v else attempts_of l ip)"
  by (simp add: attempts_of_def update_conv')

lemma attempts_of_delete: "attempts_of (l\<lparr>ll_attempts := AList.delete k (ll_attempts l)\<rparr>) ip =
    (if ip = k then [] else attempts_of l ip)"
  by (simp add: attempts_of_def delete_conv')

lemma attempts_of_prune:
  "attempts_of (snd (prune_attempts k c l)) ip =
     (if ip = k then filter (\<lambda>u. u > c) (attempts_of l ip) else attempts_of l ip)"
  by (simp add: prune_attempts_def Let_def attempts_of_update attempts_of_delete)

lemma fst_prune: "fst (prune_attempts k c l) = filter (\<lambda>u. u > c) (attempts_of l k)"
  by (simp add: prune_attempts_def Let_def)

lemma attempts_of_cong: "ll_attempts l = ll_attempts l' \<Longrightarrow> attempts_of l ip = attempts_of l' ip"
  by (simp add: attempts_of_def)

lemma view_is_banned:
  "addr_view ip (snd (is_banned t k l)) = (if ip = k then addr_unban t (addr_view ip l) else addr_view ip l)"
  "fst (is_banned t k l) \<longleftrightarrow> snd (addr_unban t (addr_view k l)) \<noteq> None"
  by (auto simp: is_banned_def addr_view_def attempts_of_def delete_conv' split: option.split)

lemma view_record_failed:
  assumes "\<not> is_disabled ll"
  shows "addr_view ip (record_failed_attempt t k ll) =
    (if ip = k then addr_fail (ll_policy ll) t (addr_view ip ll) else addr_view ip ll)"
proof -
  obtain b ll1 where b: "is_banned t k ll = (b, ll1)" by fastforce
  then have l1: "ll1 = snd (is_banned t k ll)" and bb: "b = fst (is_banned t k ll)" by simp_all
  let ?c = "t - attempts_window (ll_policy ll)"
  obtain valid ll2 where p: "prune_attempts k ?c ll1 = (valid, ll2)" by fastforce
  then have l2: "ll2 = snd (prune_attempts k ?c ll1)" and vv: "valid = filter (\<lambda>u. u > ?c) (attempts_of ll1 k)"
    using fst_prune [of k ?c ll1] by simp_all
  have v1: "addr_view ip ll1 = (if ip = k then addr_unban t (addr_view ip ll) else addr_view ip ll)" for ip
    unfolding l1 by (rule view_is_banned)
  have ban2: "ll_banned ll2 = ll_banned ll1" "ll_policy ll2 = ll_policy ll" "ll_policy ll1 = ll_policy ll"
    by (simp_all add: l1 l2)
  show ?thesis
  proof (cases b)
    case True
    then obtain r where "snd (addr_unban t (addr_view k ll)) = Some r"
      using bb view_is_banned(2) by auto
    then have "addr_fail (ll_policy ll) t (addr_view k ll) = addr_unban t (addr_view k ll)"
      by (cases "addr_unban t (addr_view k ll)") simp
    then show ?thesis using True assms b v1 [of ip] by (simp add: record_failed_attempt_def)
  next
    case False
    then have none: "snd (addr_unban t (addr_view k ll)) = None"
      using bb view_is_banned(2) by auto
    have ak: "attempts_of ll1 k = fst (addr_unban t (addr_view k ll))" "map_of (ll_banned ll1) k = None"
      using v1 [of k] none by (simp_all add: addr_view_def)
    have other: "attempts_of ll1 ip = attempts_of ll ip" "map_of (ll_banned ll1) ip = map_of (ll_banned ll) ip" if "ip \<noteq> k"
      using v1 [of ip] that by (simp_all add: addr_view_def)
    let ?as = "recent (ll_policy ll) t (fst (addr_unban t (addr_view k ll))) @ [t]"
    have valid: "valid @ [t] = ?as" by (simp add: vv ak(1) recent_def)
    let ?ban = "ban_threshold (ll_policy ll) > 0 \<and> int (length ?as) \<ge> ban_threshold (ll_policy ll)"
    let ?l3 = "ll2\<lparr>ll_attempts := AList.update k ?as (ll_attempts ll2)\<rparr>"
    have exec: "record_failed_attempt t k ll =
        (if ?ban then ban_ip t k ''excessive failed attempts'' ?l3 else ?l3)"
      using False assms b p ban2 by (simp add: record_failed_attempt_def Let_def flip: valid)
    have af: "addr_fail (ll_policy ll) t (addr_view k ll) =
        (if ?ban then ([], Some \<lparr>br_expires_at = t + ban_duration (ll_policy ll), br_reason = ''excessive failed attempts''\<rparr>)
         else (?as, None))"
      using none by (cases "addr_unban t (addr_view k ll)") (simp add: addr_fail.simps Let_def del: addr_unban.simps)
    have a2: "attempts_of ll2 ip = attempts_of ll ip" if "ip \<noteq> k"
      using that other by (simp add: l2 attempts_of_prune)
    have l3: "attempts_of ?l3 ip = (if ip = k then ?as else attempts_of ll2 ip)" "ll_banned ?l3 = ll_banned ll1"
        "ll_policy ?l3 = ll_policy ll"
      by (simp_all add: attempts_of_update ban2)
    have b3: "addr_view i (ban_ip t k r l) = (if i = k then ([], Some \<lparr>br_expires_at = t + ban_duration (ll_policy l), br_reason = r\<rparr>)
        else addr_view i l)" for i r l
      by (simp add: ban_ip_def addr_view_def attempts_of_def delete_conv' update_conv')
    show ?thesis
    proof (cases "ip = k")
      case True
      have "addr_view k ?l3 = (?as, None)" using l3(1) True ak(2) l3(2) by (simp only: addr_view_def if_True simp_thms)
      then show ?thesis unfolding exec True af using b3 [of k] l3(3)
        by (cases ?ban) (simp_all only: if_True if_False simp_thms)
    next
      case False
      then have "addr_view ip ?l3 = addr_view ip ll" using a2 other l3 by (simp add: addr_view_def)
      then show ?thesis unfolding exec using b3 False by simp
    qed
  qed
qed

lemma view_check:
  assumes "\<not> is_disabled ll"
  shows "addr_view ip (snd (check_security_status t k ll)) =
    (if ip = k then addr_check (ll_policy ll) t (addr_view ip ll) else addr_view ip ll)"
proof -
  obtain b ll1 where b: "is_banned t k ll = (b, ll1)" by fastforce
  then have l1: "ll1 = snd (is_banned t k ll)" and bb: "b = fst (is_banned t k ll)" by simp_all
  let ?c = "t - attempts_window (ll_policy ll)"
  let ?l2 = "snd (prune_attempts k ?c ll1)"
  have v1: "addr_view ip ll1 = (if ip = k then addr_unban t (addr_view ip ll) else addr_view ip ll)" for ip
    unfolding l1 by (rule view_is_banned)
  have pol: "ll_policy ll1 = ll_policy ll" by (simp add: l1)
  have v2: "addr_view ip ?l2 = (if ip = k then (recent (ll_policy ll) t (fst (addr_view ip ll1)), snd (addr_view ip ll1))
      else addr_view ip ll1)"
    by (simp add: addr_view_def attempts_of_prune recent_def)
  show ?thesis
  proof (cases b)
    case True
    then obtain r where "snd (addr_unban t (addr_view k ll)) = Some r" using bb view_is_banned(2) by auto
    then have "addr_check (ll_policy ll) t (addr_view k ll) = addr_unban t (addr_view k ll)"
      by (cases "addr_unban t (addr_view k ll)") simp
    then show ?thesis using True assms b v1 [of ip] by (simp add: check_security_status_def)
  next
    case False
    then have "snd (addr_unban t (addr_view k ll)) = None" using bb view_is_banned(2) by auto
    then have ac: "addr_check (ll_policy ll) t (addr_view k ll) =
        (recent (ll_policy ll) t (fst (addr_unban t (addr_view k ll))), snd (addr_unban t (addr_view k ll)))"
      by (cases "addr_unban t (addr_view k ll)") (simp add: addr_check.simps del: addr_unban.simps)
    have "addr_view ip (snd (check_security_status t k ll)) = addr_view ip ?l2"
      using False assms b by (simp add: check_security_status_def pol split: prod.split)
    then show ?thesis using v1 [of ip] v1 [of k] v2 ac by simp
  qed
qed

lemma view_remove: "addr_view ip (remove_attempts k ll) = (if ip = k then ([], snd (addr_view ip ll)) else addr_view ip ll)"
  by (simp add: remove_attempts_def addr_view_def attempts_of_delete) (simp add: attempts_of_def)

lemma view_captcha [simp]:
  "addr_view ip (snd (require_captcha t g ex ll)) = addr_view ip ll"
  "addr_view ip (snd (verify_captcha t i a ll)) = addr_view ip ll"
  "addr_view ip (register_provider ll) = addr_view ip ll"
  by (simp_all add: require_captcha_def verify_captcha_def register_provider_def Let_def addr_view_def attempts_of_def
      split: option.split sum.split prod.split)

lemma view_cleanup_attempts:
  "attempts_of (fold (\<lambda>ip l. snd (prune_attempts ip (t - attempts_window (ll_policy l)) l)) ks l) ip =
     (if ip \<in> set ks then recent (ll_policy l) t (attempts_of l ip) else attempts_of l ip)"
  by (induction ks arbitrary: l) (auto simp: attempts_of_prune recent_def)

lemma map_of_filter_distinct:
  "distinct (map fst al) \<Longrightarrow>
     map_of (filter (\<lambda>(_, v). P v) al) k = (case map_of al k of Some v \<Rightarrow> if P v then Some v else None | None \<Rightarrow> None)"
proof (induction al)
  case (Cons kv al)
  obtain k' v where kv: "kv = (k', v)" by fastforce
  have "map_of al k' = None" using Cons.prems kv by (simp add: map_of_eq_None_iff)
  then show ?case using Cons kv by auto
qed simp

lemma view_cleanup:
  assumes inv: "ll_inv ll"
  shows "addr_view ip (cleanup_expired t ll) =
    (recent (ll_policy ll) t (fst (addr_view ip ll)), snd (addr_unban t (addr_view ip ll)))"
proof -
  let ?l1 = "ll\<lparr>ll_banned := filter (\<lambda>(_, r). \<not> t > br_expires_at r) (ll_banned ll)\<rparr>"
  let ?l2 = "fold (\<lambda>ip l. snd (prune_attempts ip (t - attempts_window (ll_policy l)) l)) (map fst (ll_attempts ?l1)) ?l1"
  have a2: "attempts_of ?l2 ip = recent (ll_policy ll) t (attempts_of ll ip)"
  proof (cases "ip \<in> set (map fst (ll_attempts ?l1))")
    case False
    then have "map_of (ll_attempts ll) ip = None" by (simp add: map_of_eq_None_iff)
    then show ?thesis unfolding view_cleanup_attempts by (simp add: attempts_of_def recent_def)
  next
    case True
    then show ?thesis unfolding view_cleanup_attempts by (simp add: attempts_of_def)
  qed
  have b2: "ll_banned ?l2 = ll_banned ?l1"
    using cleanup_attempts_frame [of "\<lambda>l. t - attempts_window (ll_policy l)" "map fst (ll_attempts ?l1)" ?l1] by simp
  have "addr_view ip (cleanup_expired t ll) = addr_view ip ?l2"
    using cleanup_captchas_frame [of t "map fst (ll_captchas ?l2)" ?l2]
    by (simp add: cleanup_expired_def Let_def addr_view_def attempts_of_def)
  moreover have "map_of (ll_banned ?l1) ip = snd (addr_unban t (addr_view ip ll))"
    using inv map_of_filter_distinct [of "ll_banned ll" "\<lambda>r. \<not> t > br_expires_at r" ip]
    by (auto simp: ll_inv_def addr_view_def not_less split: option.splits)
  moreover have "addr_view ip ?l2 = (attempts_of ?l2 ip, map_of (ll_banned ?l1) ip)"
    by (simp only: addr_view_def b2)
  ultimately show ?thesis by (simp only: a2 fst_addr_view)
qed

lemma view_exec:
  assumes "ll_inv ll"
  shows "addr_view ip (limiter_exec t op ll) = addr_step (ll_policy ll) ip (t, op) (addr_view ip ll)"
proof (cases "policy_disabled (ll_policy ll)")
  case True
  then show ?thesis
    using assms
    by (cases op) (auto simp: is_disabled_policy record_failed_attempt_def check_security_status_def view_remove view_cleanup)
next
  case False
  then show ?thesis
    using assms
    by (cases op) (simp_all add: is_disabled_policy view_record_failed view_check view_remove view_cleanup
        del: addr_fail.simps addr_check.simps)
qed

lemma run_policy [simp]: "ll_policy (limiter_run ops ll) = ll_policy ll"
  by (induction ops arbitrary: ll) auto

lemma view_run:
  "ll_inv ll \<Longrightarrow> addr_view ip (limiter_run ops ll) = fold (addr_step (ll_policy ll) ip) ops (addr_view ip ll)"
proof (induction ops arbitrary: ll)
  case (Cons tp ops)
  then show ?case by (cases tp) (simp add: limiter_exec_inv view_exec)
qed simp

section \<open>Properties\<close>

fun concerns :: "string \<Rightarrow> int \<times> limiter_op \<Rightarrow> bool" where
  "concerns ip (_, RecordFailedAttempt ip') = (ip' = ip)"
| "concerns ip (_, CheckSecurityStatus ip') = (ip' = ip)"
| "concerns ip (_, RemoveAttempts ip') = (ip' = ip)"
| "concerns ip (_, Cleanup) = True"
| "concerns ip _ = False"

lemma addr_step_other: "\<not> concerns ip tp \<Longrightarrow> addr_step p ip tp s = s"
  by (cases "(ip, tp)" rule: concerns.cases) auto

lemma fold_addr_filter: "fold (addr_step p ip) ops s = fold (addr_step p ip) (filter (concerns ip) ops) s"
  by (induction ops arbitrary: s) (auto simp: addr_step_other)

lemma new_limiter_view: "addr_view ip (new_login_limiter p) = ([], None)"
  by (simp add: new_login_limiter_def addr_view_def attempts_of_def Let_def)

declare addr_fail.simps [simp del] addr_check.simps [simp del]

lemma check_status_view:
  assumes "\<not> policy_disabled (ll_policy ll)"
  shows "fst (check_security_status t ip ll) =
    (case addr_unban t (addr_view ip ll) of
       (as, Some _) \<Rightarrow> (True, False)
     | (as, None) \<Rightarrow> (False, int (length (recent (ll_policy ll) t as)) \<ge> captcha_threshold (ll_policy ll)))"
proof -
  obtain b ll1 where b: "is_banned t ip ll = (b, ll1)" by fastforce
  then have l1: "ll1 = snd (is_banned t ip ll)" "b = fst (is_banned t ip ll)" by simp_all
  have "addr_view ip ll1 = addr_unban t (addr_view ip ll)" unfolding l1 by (simp add: view_is_banned)
  then have a1: "attempts_of ll1 ip = fst (addr_unban t (addr_view ip ll))" by (simp add: addr_view_def)
  show ?thesis
  proof (cases b)
    case True
    then show ?thesis using b assms view_is_banned(2) [of t ip ll]
      by (cases "addr_unban t (addr_view ip ll)") (auto simp: check_security_status_def is_disabled_policy)
  next
    case False
    then have "snd (addr_unban t (addr_view ip ll)) = None" using b view_is_banned(2) [of t ip ll] by simp
    then obtain as where as: "addr_unban t (addr_view ip ll) = (as, None)"
      by (cases "addr_unban t (addr_view ip ll)") simp
    have pol: "ll_policy ll1 = ll_policy ll" by (simp add: l1)
    let ?l2 = "snd (prune_attempts ip (t - attempts_window (ll_policy ll)) ll1)"
    have "fst (check_security_status t ip ll) = (False, int (length (attempts_of ?l2 ip)) \<ge> captcha_threshold (ll_policy ll))"
      using False b assms by (simp add: check_security_status_def is_disabled_policy pol split_beta)
    moreover have "attempts_of ?l2 ip = recent (ll_policy ll) t as"
      using a1 as by (simp add: attempts_of_prune recent_def)
    ultimately show ?thesis using as by simp
  qed
qed

text \<open>In every run of the limiter, under any policy and any interleaving of its methods, each table
  has one entry per key, at most 4096 captchas are outstanding, each stored under its own id, no
  address keeps an empty attempt list, and, when banning is enabled, no unbanned address ever holds
  as many attempts as the ban threshold.\<close>

lemma limiter_invariant: "ll_inv (limiter_run ops (new_login_limiter p))"
  by (rule limiter_run_inv [OF new_limiter_inv])

text \<open>C34: The limiter refines one independent machine per address: what it knows of an address after
  any run is what the abstract per-address machine computes from the operations of that run alone,
  so that no operation on another address, and no captcha operation, affects it.\<close>

theorem limiter_refines_addresses:
  "addr_view ip (limiter_run ops (new_login_limiter p)) =
     fold (addr_step (ll_policy (new_login_limiter p)) ip) (filter (concerns ip) ops) ([], None)"
  using view_run [OF new_limiter_inv, of ip ops p] fold_addr_filter [of "ll_policy (new_login_limiter p)" ip ops]
  by (simp add: new_limiter_view)

text \<open>How often an address failed in a list of operations, and that an operation leaves its failures alone.\<close>

definition fail_count :: "string \<Rightarrow> (int \<times> limiter_op) list \<Rightarrow> nat" where
  "fail_count ip ops = length (filter (\<lambda>(_, op). op = RecordFailedAttempt ip) ops)"

lemma fail_count_simps [simp]:
  "fail_count ip [] = 0"
  "fail_count ip ((t, op) # ops) = (if op = RecordFailedAttempt ip then Suc (fail_count ip ops) else fail_count ip ops)"
  by (simp_all add: fail_count_def)

text \<open>The attempts an address made since a time; none of them leaves the window before it is over.\<close>

definition attempts_since :: "int \<Rightarrow> int list \<Rightarrow> nat" where
  "attempts_since t0 as = length (filter (\<lambda>u. t0 \<le> u) as)"

lemma attempts_since_recent: "t < t0 + attempts_window p \<Longrightarrow> attempts_since t0 (recent p t as) = attempts_since t0 as"
  unfolding attempts_since_def recent_def filter_filter by (intro arg_cong [where f = length] filter_cong) auto

lemma attempts_since_le: "attempts_since t0 as \<le> length as"
  by (simp add: attempts_since_def)

lemma recent_le: "length (recent p t as) \<le> length as"
  by (simp add: recent_def)

lemma unban_mono: "snd (addr_unban t0 s) = None \<Longrightarrow> t0 \<le> t \<Longrightarrow> addr_unban t s = (fst s, None)"
  by (cases s) (auto split: option.splits if_splits)

text \<open>A step of an unbanned address inside the window that is neither a failure nor a reset forgets no
  attempt of the window.\<close>

lemma quiet_step:
  assumes "snd (addr_unban t0 s) = None" "t0 \<le> t" "t < t0 + attempts_window p"
    and "op \<noteq> RemoveAttempts ip" "op \<noteq> RecordFailedAttempt ip"
  shows "snd (addr_unban t0 (addr_step p ip (t, op) s)) = None \<and>
    attempts_since t0 (fst (addr_step p ip (t, op) s)) = attempts_since t0 (fst s) \<and>
    length (fst (addr_step p ip (t, op) s)) \<le> length (fst s)"
  using assms unban_mono [OF assms(1,2)] recent_le [of p t "fst s"] attempts_since_recent [OF assms(3), of "fst s"]
  by (cases op) (auto simp: addr_check.simps)

lemma window_bans:
  assumes "ban_threshold p > 0" and "snd (addr_unban t0 s) = None" and "int (length (fst s)) < ban_threshold p"
    and "\<forall>(t, op) \<in> set ops. t0 \<le> t \<and> t < t0 + attempts_window p \<and> op \<noteq> RemoveAttempts ip"
    and "ban_threshold p \<le> int (attempts_since t0 (fst s) + fail_count ip ops)"
  shows "\<exists>ops1 u ops2. ops = ops1 @ (u, RecordFailedAttempt ip) # ops2 \<and>
    int (attempts_since t0 (fst s) + fail_count ip ops1) < ban_threshold p \<and> ban_threshold p \<le> int (length (fst s) + fail_count ip ops1) + 1 \<and>
    fold (addr_step p ip) (ops1 @ [(u, RecordFailedAttempt ip)]) s =
      ([], Some \<lparr>br_expires_at = u + ban_duration p, br_reason = ''excessive failed attempts''\<rparr>)"
  using assms(2-)
proof (induction ops arbitrary: s)
  case Nil
  then show ?case using attempts_since_le [of t0 "fst s"] by simp
next
  case (Cons tp ops)
  obtain t op where tp: "tp = (t, op)" by fastforce
  have t: "t0 \<le> t" "t < t0 + attempts_window p" "op \<noteq> RemoveAttempts ip" using Cons.prems(3) tp by auto
  have en: "\<not> policy_disabled p" using assms(1) by (simp add: policy_disabled_def)
  note un = unban_mono [OF Cons.prems(1) t(1)]
  let ?s = "addr_step p ip tp s" and ?n = "if op = RecordFailedAttempt ip then 1 else 0 :: nat"
  show ?case
  proof (cases "op = RecordFailedAttempt ip \<and> ban_threshold p \<le> int (length (recent p t (fst s))) + 1")
    case True
    then have "addr_step p ip (t, RecordFailedAttempt ip) s =
        ([], Some \<lparr>br_expires_at = t + ban_duration p, br_reason = ''excessive failed attempts''\<rparr>)"
      using assms(1) en un by (simp add: addr_fail.simps Let_def)
    then show ?thesis using True tp assms(1) recent_le [of p t "fst s"] attempts_since_le [of t0 "fst s"] Cons.prems(2)
      by (intro exI [of _ "[]"] exI [of _ t] exI [of _ ops]) simp
  next
    case False
    have s: "snd (addr_unban t0 ?s) = None \<and> attempts_since t0 (fst ?s) = attempts_since t0 (fst s) + ?n \<and>
        length (fst ?s) \<le> length (fst s) + ?n \<and> int (length (fst ?s)) < ban_threshold p"
    proof (cases "op = RecordFailedAttempt ip")
      case True
      have "?s = (recent p t (fst s) @ [t], None)"
        using True False tp en un by (simp add: addr_fail.simps Let_def)
      then show ?thesis using True False recent_le [of p t "fst s"] attempts_since_recent [OF t(2), of "fst s"] t(1)
        by (simp add: attempts_since_def)
    next
      case other: False
      then show ?thesis using quiet_step [OF Cons.prems(1) t other] Cons.prems(2) tp by auto
    qed
    have "ban_threshold p \<le> int (attempts_since t0 (fst ?s) + fail_count ip ops)"
      using Cons.prems(4) s tp by (auto split: if_splits)
    with Cons.IH [of ?s] Cons.prems(3) s obtain ops1 u ops2 where r: "ops = ops1 @ (u, RecordFailedAttempt ip) # ops2"
      "int (attempts_since t0 (fst ?s) + fail_count ip ops1) < ban_threshold p" "ban_threshold p \<le> int (length (fst ?s) + fail_count ip ops1) + 1"
      "fold (addr_step p ip) (ops1 @ [(u, RecordFailedAttempt ip)]) ?s =
        ([], Some \<lparr>br_expires_at = u + ban_duration p, br_reason = ''excessive failed attempts''\<rparr>)"
      by auto
    show ?thesis
      by (rule exI [of _ "tp # ops1"], rule exI [of _ u], rule exI [of _ ops2]) (use r s tp in \<open>auto split: if_splits\<close>)
  qed
qed

text \<open>A ban stays until it is over, whatever happens, and without a further failure no other takes its place.\<close>

lemma ban_kept:
  "snd s = Some r \<Longrightarrow> \<forall>(t, op) \<in> set ops. t \<le> br_expires_at r \<Longrightarrow> snd (fold (addr_step p ip) ops s) = Some r"
proof (induction ops arbitrary: s)
  case (Cons tp ops)
  obtain t op where tp: "tp = (t, op)" by fastforce
  have "snd (addr_step p ip (t, op) s) = Some r" using Cons.prems tp
    by (cases s; cases op) (auto simp: addr_fail.simps addr_check.simps)
  then show ?case using Cons.IH [of "addr_step p ip tp s"] Cons.prems(2) tp by simp
qed simp

lemma ban_not_renewed:
  "snd s = None \<or> snd s = Some r \<Longrightarrow> fail_count ip ops = 0 \<Longrightarrow>
     snd (fold (addr_step p ip) ops s) = None \<or> snd (fold (addr_step p ip) ops s) = Some r"
proof (induction ops arbitrary: s)
  case (Cons tp ops)
  obtain t op where tp: "tp = (t, op)" by fastforce
  have "snd (addr_step p ip (t, op) s) = None \<or> snd (addr_step p ip (t, op) s) = Some r" using Cons.prems tp
    by (cases s; cases op) (auto simp: addr_check.simps split: if_splits)
  then show ?case using Cons.IH [of "addr_step p ip tp s"] Cons.prems(2) tp by (simp split: if_splits)
qed simp

lemma status_banned:
  assumes "\<not> policy_disabled (ll_policy ll)"
  shows "snd (addr_view ip ll) = Some r \<Longrightarrow> t \<le> br_expires_at r \<Longrightarrow> fst (check_security_status t ip ll) = (True, False)"
    and "snd (addr_view ip ll) = None \<or> snd (addr_view ip ll) = Some r \<Longrightarrow> br_expires_at r < t \<Longrightarrow>
      \<not> fst (fst (check_security_status t ip ll))"
    and "\<not> fst (fst (check_security_status t ip ll)) \<Longrightarrow> snd (addr_unban t (addr_view ip ll)) = None"
  using check_status_view [OF assms, of t ip] by (cases "addr_view ip ll"; force split: option.splits)+

text \<open>C14: With a ban threshold n, take any state the limiter can be in and an address not banned at t0.
  If operations follow within one window of t0, in any mix and with status checks and cleanups, where the
  address fails at least n times and its attempts are not reset by a successful login, then one of those
  failures, the n-th at the latest and not before n attempts are on record, bans it.  From then on every status check
  answers 'banned' until the ban duration is over, whatever is called in between, resets and cleanups
  included, and failures meanwhile do not prolong the ban.\<close>

theorem brute_force_banned:
  assumes "ll = limiter_run before (new_login_limiter p)" and "ban_threshold p > 0"
    and "\<not> fst (fst (check_security_status t0 ip ll))"
    and "\<forall>(t, op) \<in> set ops. t0 \<le> t \<and> t < t0 + attempts_window (ll_policy ll) \<and> op \<noteq> RemoveAttempts ip"
    and "ban_threshold p \<le> int (fail_count ip ops)"
  shows "\<exists>ops1 u ops2 ll1. ops = ops1 @ (u, RecordFailedAttempt ip) # ops2 \<and>
    int (fail_count ip ops1) < ban_threshold p \<and> ban_threshold p \<le> int (length (attempts_of ll ip) + fail_count ip ops1) + 1 \<and>
    ll1 = limiter_run (ops1 @ [(u, RecordFailedAttempt ip)]) ll \<and>
    (\<forall>during t. (\<forall>(t', op) \<in> set during. t' \<le> u + ban_duration (ll_policy ll)) \<longrightarrow>
       (t \<le> u + ban_duration (ll_policy ll) \<longrightarrow>
          fst (check_security_status t ip (limiter_run during ll1)) = (True, False)) \<and>
       (\<forall>after. fail_count ip after = 0 \<and> u + ban_duration (ll_policy ll) < t \<longrightarrow>
          \<not> fst (fst (check_security_status t ip (limiter_run (during @ after) ll1)))))"
proof -
  let ?p = "ll_policy ll"
  have thr: "ban_threshold ?p = ban_threshold p" using assms(1) by (simp add: new_login_limiter_def Let_def)
  then have en: "\<not> policy_disabled ?p" using assms(2) by (simp add: policy_disabled_def)
  have inv: "ll_inv ll" using assms(1) by (simp add: limiter_run_inv new_limiter_inv)
  have "int (length (fst (addr_view ip ll))) < ban_threshold ?p"
    using inv attempts_ok_length [of ll ip] assms(2) thr by (simp add: ll_inv_split fst_addr_view)
  from window_bans [OF _ status_banned(3) [OF en assms(3)] this assms(4)] assms(2,5) thr obtain ops1 u ops2 where
    ops: "ops = ops1 @ (u, RecordFailedAttempt ip) # ops2" "int (fail_count ip ops1) < ban_threshold p"
      "ban_threshold p \<le> int (length (attempts_of ll ip) + fail_count ip ops1) + 1"
    and ban: "fold (addr_step ?p ip) (ops1 @ [(u, RecordFailedAttempt ip)]) (addr_view ip ll) =
      ([], Some \<lparr>br_expires_at = u + ban_duration ?p, br_reason = ''excessive failed attempts''\<rparr>)"
    by (auto simp: fst_addr_view)
  define ll1 where "ll1 = limiter_run (ops1 @ [(u, RecordFailedAttempt ip)]) ll"
  have en1: "\<not> policy_disabled (ll_policy (limiter_run os ll1))" for os using en by (simp add: ll1_def)
  have v1: "snd (addr_view ip ll1) = Some \<lparr>br_expires_at = u + ban_duration ?p, br_reason = ''excessive failed attempts''\<rparr>"
    using view_run [OF inv] ban by (simp add: ll1_def)
  have v: "addr_view ip (limiter_run os ll1) = fold (addr_step ?p ip) os (addr_view ip ll1)" for os
    using view_run [of ll1 ip os] limiter_run_inv [OF inv] by (simp add: ll1_def)
  note st = status_banned [OF en1]
  show ?thesis
  proof (intro exI conjI allI impI, rule ops(1), rule ops(2), rule ops(3), rule ll1_def)
    fix during :: "(int \<times> limiter_op) list" and t
    assume "\<forall>(t', op) \<in> set during. t' \<le> u + ban_duration ?p"
    with ban_kept [OF v1] have d: "snd (addr_view ip (limiter_run during ll1)) =
        Some \<lparr>br_expires_at = u + ban_duration ?p, br_reason = ''excessive failed attempts''\<rparr>"
      by (simp add: v)
    then show "fst (check_security_status t ip (limiter_run during ll1)) = (True, False)" if "t \<le> u + ban_duration ?p"
      by (rule st(1)) (simp add: that)
    fix after assume after: "fail_count ip after = 0 \<and> u + ban_duration ?p < t"
    from ban_not_renewed [OF disjI2 [OF d]] after
    show "\<not> fst (fst (check_security_status t ip (limiter_run (during @ after) ll1)))"
      by (intro st(2)) (auto simp: v)
  qed
qed

definition demo_policy :: policy where
  "demo_policy = \<lparr>captcha_threshold = 1, ban_threshold = 2, attempts_window = 10, ban_duration = 100\<rparr>"

definition demo_attack :: "(int \<times> limiter_op) list" where
  "demo_attack = [(3, CheckSecurityStatus ''a''), (3, RecordFailedAttempt ''a''), (5, RecordFailedAttempt ''b''),
     (6, Cleanup), (7, CheckSecurityStatus ''a''), (7, RecordFailedAttempt ''a'')]"

lemma brute_force_banned_witness:
  "\<exists>ops1 u ops2 ll1. demo_attack = ops1 @ (u, RecordFailedAttempt ''a'') # ops2 \<and>
     ll1 = limiter_run (ops1 @ [(u, RecordFailedAttempt ''a'')]) (new_login_limiter demo_policy) \<and>
     fst (check_security_status (u + 100) ''a'' (limiter_run [(u + 20, CheckSecurityStatus ''a''), (u + 90, Cleanup)] ll1)) =
       (True, False)"
proof -
  have pol: "ll_policy (new_login_limiter demo_policy) = demo_policy"
    by (simp add: new_login_limiter_def demo_policy_def)
  have "\<not> fst (fst (check_security_status 3 ''a'' (new_login_limiter demo_policy)))"
    by (simp add: check_security_status_def new_login_limiter_def demo_policy_def is_disabled_def is_banned_def Let_def
        split_beta)
  then obtain ops1 u ops2 ll1 where r: "demo_attack = ops1 @ (u, RecordFailedAttempt ''a'') # ops2"
      "ll1 = limiter_run (ops1 @ [(u, RecordFailedAttempt ''a'')]) (new_login_limiter demo_policy)"
    and b: "\<forall>during t. (\<forall>(t', op) \<in> set during. t' \<le> u + ban_duration demo_policy) \<longrightarrow> t \<le> u + ban_duration demo_policy \<longrightarrow>
       fst (check_security_status t ''a'' (limiter_run during ll1)) = (True, False)"
    using brute_force_banned [of "new_login_limiter demo_policy" "[]" demo_policy 3 "''a''" demo_attack] pol
    by (auto simp: demo_attack_def demo_policy_def simp del: append.simps)
  show ?thesis
    by (intro exI conjI) (rule r, rule r, rule b [rule_format], auto simp: demo_policy_def)
qed

text \<open>A captcha is good for one login: after RequireCaptcha handed one out, its answer is accepted
  until it expires, and once it was accepted the same captcha is refused whatever the answer and
  the time.\<close>

lemma captcha_single_use:
  assumes "require_captcha t g ex ll = (Inr c, ll1)" and "t' \<le> cm_expires_at c"
  shows "\<exists>ll2. verify_captcha t' (cm_id c) (cm_answer c) ll1 = (True, ll2) \<and>
    (\<forall>t'' answer. verify_captcha t'' (cm_id c) answer ll2 = (False, ll2))"
proof -
  from assms(1) have c: "map_of (ll_captchas ll1) (cm_id c) = Some c" "ll_provider ll1"
    by (auto simp: require_captcha_def Let_def update_conv' split: if_splits sum.splits prod.splits)
  show ?thesis
    using c assms(2) by (simp add: verify_captcha_def Let_def delete_conv')
qed

lemma captcha_single_use_witness:
  "\<exists>ll2. verify_captcha 9 ''id'' ''ans'' (snd (require_captcha 5 (Inr (''id'', ''q'', ''ans'')) 10
      (register_provider (new_login_limiter demo_policy)))) = (True, ll2) \<and>
    (\<forall>t'' answer. verify_captcha t'' ''id'' answer ll2 = (False, ll2))"
proof -
  let ?ll = "register_provider (new_login_limiter demo_policy)"
  have r: "require_captcha 5 (Inr (''id'', ''q'', ''ans'')) 10 ?ll =
      (Inr \<lparr>cm_id = ''id'', cm_content = ''q'', cm_answer = ''ans'', cm_expires_at = 15\<rparr>,
       snd (require_captcha 5 (Inr (''id'', ''q'', ''ans'')) 10 ?ll))"
    by (simp add: require_captcha_def register_provider_def new_login_limiter_def maxActiveCaptchas_def Let_def)
  from captcha_single_use [OF r, of 9] show ?thesis by simp
qed

text \<open>A negative captcha threshold does not switch captchas off when banning is enabled: the status
  check then asks every address that is not banned for a captcha, even one without a failed attempt.\<close>

lemma negative_threshold_demands_captcha:
  assumes "captcha_threshold p < 0" and "ban_threshold p > 0"
  shows "fst (check_security_status t ip (new_login_limiter p)) = (False, True)"
proof -
  have pol: "captcha_threshold (ll_policy (new_login_limiter p)) = captcha_threshold p"
    "ban_threshold (ll_policy (new_login_limiter p)) = ban_threshold p"
    by (simp_all add: new_login_limiter_def Let_def)
  then have "\<not> policy_disabled (ll_policy (new_login_limiter p))" using assms by (simp add: policy_disabled_def)
  from check_status_view [OF this, of t ip] assms(1) pol show ?thesis by (simp add: new_limiter_view)
qed

lemma negative_threshold_demands_captcha_witness:
  "fst (check_security_status 0 ''a'' (new_login_limiter (default_security_policy\<lparr>captcha_threshold := -1\<rparr>))) = (False, True)"
  by (rule negative_threshold_demands_captcha) (simp_all add: default_security_policy_def)

end
