(* ===== verification/Store.thy ===== *)
theory Store
  imports Prelude
begin

text \<open>
  The data model (\<open>src/model/\<close>): one record per table row, one list of rows per table, in ascending
  primary-key order.  Fields marked \<open>gorm:"-"\<close> (not stored), the audit timestamps
  \<open>created_at\<close>/\<open>updated_at\<close> and preloaded associations are left out; nothing modelled here reads
  them.  Role strings are a datatype with one constructor for each declared constant and one for
  every other string; times are Unix seconds.  An update of a row that violates a unique index
  fails; so does an insert.
\<close>

section \<open>Rows\<close>

datatype user_role = RoleUser | RoleAdmin | RoleSuperAdmin | RoleOther string

record user_row =
  u_id :: nat
  u_username :: string
  u_email :: string
  u_password :: string
  u_nickname :: string
  u_avatar :: string
  u_language :: string
  u_theme :: string
  u_group_id :: nat
  u_role :: user_role
  u_is_admin :: "bool option"
  u_status :: int
  u_auth_version :: nat
  u_remark :: string

record token_row =
  t_id :: nat
  t_user_id :: nat
  t_device_uuid :: string
  t_device_id :: string
  t_token :: string
  t_jti :: "string option"
  t_kid :: string
  t_hash :: "string option"
  t_auth_version :: nat
  t_issued_at :: int
  t_expired_at :: int
  t_revoked_at :: "int option"
  t_revoked_reason :: string
  t_client :: string

record login_log_row =
  l_id :: nat
  l_user_id :: nat
  l_client :: string
  l_device_id :: string
  l_uuid :: string
  l_ip :: string
  l_type :: string
  l_platform :: string
  l_user_token_id :: nat
  l_is_deleted :: nat

record peer_row =
  p_row_id :: nat
  p_id :: string
  p_cpu :: string
  p_hostname :: string
  p_memory :: string
  p_os :: string
  p_username :: string
  p_uuid :: string
  p_version :: string
  p_user_id :: nat
  p_identity_source :: string
  p_identity_verified_at :: int
  p_last_sysinfo_time :: int
  p_last_online_time :: int
  p_last_online_ip :: string
  p_activation_epoch :: nat
  p_activation_id :: string
  p_activation_retired :: bool
  p_online_until :: int
  p_v2_seen_at :: int
  p_group_id :: nat
  p_alias :: string

record lease_row =
  ls_row_id :: nat
  ls_lease_id :: string
  ls_peer_row_id :: nat
  ls_network_uuid :: string
  ls_epoch :: nat
  ls_activation_id :: string
  ls_token_hash :: string
  ls_started_at :: int
  ls_renewed_at :: int
  ls_expires_at :: int
  ls_ended_at :: int
  ls_last_online_ip :: string

datatype scope_type = ScopeGroup | ScopeUser | ScopeCollection | ScopePeer | ScopeOther string

record scope_row =
  sc_id :: nat
  sc_admin :: nat
  sc_type :: scope_type
  sc_target :: nat

record group_row =
  g_id :: nat
  g_name :: string
  g_type :: int

record collection_row =
  c_id :: nat
  c_user_id :: nat
  c_name :: string

record rule_row =
  r_id :: nat
  r_user_id :: nat
  r_collection_id :: nat
  r_rule :: int
  r_type :: int
  r_to_id :: nat

record abook_row =
  ab_row_id :: nat
  ab_id :: string
  ab_username :: string
  ab_password :: string
  ab_hostname :: string
  ab_alias :: string
  ab_platform :: string
  ab_tags :: string
  ab_hash :: string
  ab_user_id :: nat
  ab_force_relay :: bool
  ab_rdp_port :: string
  ab_rdp_username :: string
  ab_online :: bool
  ab_login_name :: string
  ab_same_server :: bool
  ab_collection_id :: nat

record tag_row =
  tg_id :: nat
  tg_name :: string
  tg_user_id :: nat
  tg_color :: nat
  tg_collection_id :: nat

record two_factor_row =
  tf_id :: nat
  tf_user_id :: nat
  tf_secret :: string
  tf_pending_secret :: string
  tf_pending_expires_at :: int
  tf_enabled :: bool
  tf_last_used_step :: int

record challenge_row =
  ch_id :: nat
  ch_token_hash :: string
  ch_user_id :: nat
  ch_username :: string
  ch_client :: string
  ch_device_id :: string
  ch_uuid :: string
  ch_platform :: string
  ch_expires_at :: int
  ch_attempts :: nat
  ch_used_at :: int

record oauth_user =
  o_open_id :: string
  o_name :: string
  o_username :: string
  o_email :: string
  o_verified_email :: bool
  o_picture :: string

record third_row =
  th_id :: nat
  th_user_id :: nat
  th_user :: oauth_user
  th_union_id :: string
  th_third_type :: string
  th_oauth_type :: string
  th_op :: string

record oauth_row =
  oa_id :: nat
  oa_op :: string
  oa_type :: string
  oa_client_id :: string
  oa_client_secret :: string
  oa_auto_register :: "bool option"
  oa_scopes :: string
  oa_issuer :: string
  oa_pkce_enable :: "bool option"
  oa_pkce_method :: string

record ldap_row =
  ld_id :: nat
  ld_user_id :: nat
  ld_provider :: string
  ld_subject :: string

record setting_row =
  st_id :: nat
  st_announcement :: string
  st_geoip_enabled :: bool
  st_city_url :: string
  st_country_url :: string
  st_asn_url :: string
  st_update_hours :: nat
  st_web_login_hours :: nat
  st_client_login_hours :: nat
  st_user_token_days :: nat
  st_login_log_days :: nat
  st_audit_conn_days :: nat
  st_audit_file_days :: nat
  st_control_audit_days :: nat
  st_login_maximum_hours :: nat
  st_updated_by :: nat

text \<open>The JSON metadata of an audit event: the object the code hands to \<open>json.Marshal\<close>.\<close>

datatype meta_value = MStr string | MNum int | MBool bool | MRole user_role | MObj "(string \<times> meta_value) list" | MList "meta_value list"

type_synonym metadata = "(string \<times> meta_value) list"

record audit_row =
  ev_id :: nat
  ev_actor :: nat
  ev_action :: string
  ev_target_type :: string
  ev_target_id :: string
  ev_request_id :: string
  ev_result :: string
  ev_error_code :: string
  ev_metadata :: metadata

record db =
  users :: "user_row list"
  tokens :: "token_row list"
  login_logs :: "login_log_row list"
  peers :: "peer_row list"
  leases :: "lease_row list"
  scopes :: "scope_row list"
  groups :: "group_row list"
  collections :: "collection_row list"
  rules :: "rule_row list"
  abooks :: "abook_row list"
  tags :: "tag_row list"
  two_factors :: "two_factor_row list"
  challenges :: "challenge_row list"
  thirds :: "third_row list"
  ldap_ids :: "ldap_row list"
  events :: "audit_row list"
  invariant_locks :: "(string \<times> nat) list"
  settings :: "setting_row list"
  oauths :: "oauth_row list"

definition empty_db :: db where
  "empty_db = \<lparr>users = [], tokens = [], login_logs = [], peers = [], leases = [], scopes = [],
     groups = [], collections = [], rules = [], abooks = [], tags = [], two_factors = [],
     challenges = [], thirds = [], ldap_ids = [], events = [], invariant_locks = [], settings = [], oauths = []\<rparr>"

text \<open>Everything except the audit trail: what a failed operation must leave alone.\<close>

definition same_but_events :: "db \<Rightarrow> db \<Rightarrow> bool" where
  "same_but_events d d' \<longleftrightarrow> d' = d\<lparr>events := events d'\<rparr>"

lemma same_but_events_refl [simp]: "same_but_events d d"
  by (simp add: same_but_events_def)

lemma same_but_events_update [simp]: "same_but_events d (d\<lparr>events := es\<rparr>)"
  by (simp add: same_but_events_def)

lemma same_but_events_trans:
  "same_but_events d d' \<Longrightarrow> same_but_events d' d'' \<Longrightarrow> same_but_events d d''"
  unfolding same_but_events_def by (metis db.surjective db.update_convs(16))

lemma same_but_events_fields:
  assumes "same_but_events d d'"
  shows "users d' = users d" "tokens d' = tokens d" "scopes d' = scopes d" "peers d' = peers d"
    "leases d' = leases d" "groups d' = groups d" "collections d' = collections d"
    "two_factors d' = two_factors d" "challenges d' = challenges d" "invariant_locks d' = invariant_locks d"
    "login_logs d' = login_logs d" "abooks d' = abooks d"
proof -
  obtain es where "d' = d\<lparr>events := es\<rparr>" using assms unfolding same_but_events_def by blast
  then show "users d' = users d" "tokens d' = tokens d" "scopes d' = scopes d" "peers d' = peers d"
    "leases d' = leases d" "groups d' = groups d" "collections d' = collections d"
    "two_factors d' = two_factors d" "challenges d' = challenges d" "invariant_locks d' = invariant_locks d"
    "login_logs d' = login_logs d" "abooks d' = abooks d" by simp_all
qed

section \<open>Status, roles\<close>

definition COMMON_STATUS_ENABLE :: int where "COMMON_STATUS_ENABLE = 1"
definition COMMON_STATUS_DISABLED :: int where "COMMON_STATUS_DISABLED = 2"

lemma status_distinct [simp]:
  "COMMON_STATUS_ENABLE \<noteq> COMMON_STATUS_DISABLED" "COMMON_STATUS_DISABLED \<noteq> COMMON_STATUS_ENABLE"
  "COMMON_STATUS_ENABLE \<noteq> 0" "COMMON_STATUS_DISABLED \<noteq> 0"
  by (simp_all add: COMMON_STATUS_ENABLE_def COMMON_STATUS_DISABLED_def)

fun role_valid :: "user_role \<Rightarrow> bool" where
  "role_valid RoleUser = True"
| "role_valid RoleAdmin = True"
| "role_valid RoleSuperAdmin = True"
| "role_valid (RoleOther _) = False"

text \<open>The zero value of the Go string type, which \<open>Updates\<close> skips.\<close>

definition RoleZero :: user_role where "RoleZero = RoleOther ''''"

definition normalize_role :: "user_row \<Rightarrow> user_row" where
  "normalize_role u =
     (let u1 = (if \<not> role_valid (u_role u)
                then u\<lparr>u_role := (if u_is_admin u = Some True then RoleSuperAdmin else RoleUser)\<rparr>
                else u)
      in u1\<lparr>u_is_admin := Some (u_role u1 = RoleAdmin \<or> u_role u1 = RoleSuperAdmin)\<rparr>)"

definition effective_role :: "user_row option \<Rightarrow> user_role" where
  "effective_role ou =
     (case ou of None \<Rightarrow> RoleUser
      | Some u \<Rightarrow> if role_valid (u_role u) then u_role u
                 else if u_is_admin u = Some True then RoleSuperAdmin else RoleUser)"

definition is_admin_role :: "user_row option \<Rightarrow> bool" where
  "is_admin_role u \<longleftrightarrow> effective_role u = RoleAdmin \<or> effective_role u = RoleSuperAdmin"

definition is_super_admin :: "user_row option \<Rightarrow> bool" where
  "is_super_admin u \<longleftrightarrow> effective_role u = RoleSuperAdmin"

lemma effective_role_valid [simp]: "role_valid (effective_role u)"
  by (auto simp: effective_role_def split: option.splits)

lemma normalize_role_valid [simp]: "role_valid (u_role (normalize_role u))"
  by (simp add: normalize_role_def Let_def)

lemma normalize_role_effective:
  "u_role (normalize_role u) = effective_role (Some u)"
  "effective_role (Some (normalize_role u)) = effective_role (Some u)"
  by (simp_all add: normalize_role_def effective_role_def Let_def)

lemma normalize_role_idem: "normalize_role (normalize_role u) = normalize_role u"
  by (simp add: normalize_role_def Let_def)

lemma normalize_role_flag:
  "u_is_admin (normalize_role u) = Some (is_admin_role (Some u))"
  by (simp add: normalize_role_def is_admin_role_def effective_role_def Let_def)

text \<open>BeforeSave normalises the role of every row gorm creates or saves through the struct.\<close>

definition before_save :: "user_row \<Rightarrow> user_row" where
  "before_save u = normalize_role u"

fun scope_type_valid :: "scope_type \<Rightarrow> bool" where
  "scope_type_valid (ScopeOther _) = False"
| "scope_type_valid _ = True"

definition LoginLogClientWebAdmin :: string where "LoginLogClientWebAdmin = ''webadmin''"
definition LoginLogClientNative :: string where "LoginLogClientNative = ''client''"
definition LoginLogClientApp :: string where "LoginLogClientApp = ''app''"

definition is_native_login_client :: "string \<Rightarrow> bool" where
  "is_native_login_client client \<longleftrightarrow> client = LoginLogClientNative \<or> client = LoginLogClientApp"

section \<open>Struct updates\<close>

text \<open>gorm's \<open>Updates\<close> with a struct writes the fields that are not the zero value of their type.\<close>

definition patch :: "'a \<Rightarrow> 'a \<Rightarrow> 'a \<Rightarrow> 'a" where
  "patch zero new old = (if new = zero then old else new)"

lemma patch_zero [simp]: "patch z z old = old"
  by (simp add: patch_def)

lemma patch_nonzero: "new \<noteq> z \<Longrightarrow> patch z new old = new"
  by (simp add: patch_def)

section \<open>Security audit trail (service/securityAudit.go)\<close>

text \<open>
  The environment of one operation: which statements fail, the clock (read once per operation),
  and the UUID package, of which the code uses whether a string parses and one fresh value.
\<close>

record env =
  flt :: faults
  now :: int
  uuid_parses :: "string \<Rightarrow> bool"
  uuid_new :: string

definition begin_security_audit ::
    "env \<Rightarrow> nat \<Rightarrow> string \<Rightarrow> string \<Rightarrow> string \<Rightarrow> string \<Rightarrow> metadata \<Rightarrow> db \<Rightarrow> err + audit_row \<times> db" where
  "begin_security_audit e actor request_id action target_type target_id metadata d =
     (let rid = (if uuid_parses e request_id then request_id else uuid_new e);
          event = \<lparr>ev_id = next_id ev_id (events d), ev_actor = actor, ev_action = action,
                   ev_target_type = target_type, ev_target_id = target_id, ev_request_id = rid,
                   ev_result = ''intent'', ev_error_code = '''', ev_metadata = metadata\<rparr>
      in stmt (flt e) AuditBegin (Inr (event, d\<lparr>events := events d @ [event]\<rparr>)))"

definition rewrite_security_audit_intent ::
    "env \<Rightarrow> point \<Rightarrow> audit_row \<Rightarrow> string \<Rightarrow> metadata \<Rightarrow> db \<Rightarrow> err + audit_row \<times> db" where
  "rewrite_security_audit_intent e p event action metadata d =
     (if ev_id event = 0 then Inl (ErrNew ''security audit intent is unavailable'')
      else let matches = (\<lambda>r. ev_id r = ev_id event \<and> ev_result r = ''intent'')
      in stmt (flt e) p
           (if count_where matches (events d) \<noteq> 1
            then Inl (ErrNew ''security audit intent could not be specialized'')
            else Inr (event\<lparr>ev_action := action, ev_metadata := metadata\<rparr>,
                      d\<lparr>events := update_where matches
                           (\<lambda>r. r\<lparr>ev_action := action, ev_metadata := metadata\<rparr>) (events d)\<rparr>)))"

definition finish_security_audit ::
    "env \<Rightarrow> audit_row \<Rightarrow> bool \<Rightarrow> string \<Rightarrow> db \<Rightarrow> err + db" where
  "finish_security_audit e event ok failure_code d =
     stmt (flt e) AuditEnd
       (Inr (d\<lparr>events := update_where (\<lambda>r. ev_id r = ev_id event)
               (\<lambda>r. r\<lparr>ev_result := (if ok then ''success'' else ''failure''),
                       ev_error_code := (if ok then '''' else failure_code)\<rparr>) (events d)\<rparr>))"

definition finish_security_audit_success_tx ::
    "env \<Rightarrow> point \<Rightarrow> audit_row \<Rightarrow> db \<Rightarrow> err + db" where
  "finish_security_audit_success_tx e p event d =
     (if ev_id event = 0 then Inl (ErrNew ''security audit intent is unavailable'')
      else let matches = (\<lambda>r. ev_id r = ev_id event \<and> ev_result r = ''intent'')
      in stmt (flt e) p
           (if count_where matches (events d) \<noteq> 1
            then Inl (ErrNew ''security audit intent could not be completed'')
            else Inr (d\<lparr>events := update_where matches
                   (\<lambda>r. r\<lparr>ev_result := ''success'', ev_error_code := ''''\<rparr>) (events d)\<rparr>)))"

text \<open>
  finalizeSecurityAudit, deferred by the operations: it records the result, and an error of its
  own replaces success or is joined to the operation's error.
\<close>

definition finalize_security_audit ::
    "env \<Rightarrow> audit_row \<Rightarrow> string \<Rightarrow> (err + 'a) \<times> db \<Rightarrow> (err + 'a) \<times> db" where
  "finalize_security_audit e event failure_code outcome =
     (case outcome of
        (Inr x, d) \<Rightarrow>
          (case finish_security_audit e event True failure_code d of
             Inl a \<Rightarrow> (Inl a, d) | Inr d' \<Rightarrow> (Inr x, d'))
      | (Inl er, d) \<Rightarrow>
          (case finish_security_audit e event False failure_code d of
             Inl a \<Rightarrow> (Inl (ErrJoin er a), d) | Inr d' \<Rightarrow> (Inl er, d')))"

text \<open>The shape most operations have: intent, operation, result.\<close>

definition audited ::
    "env \<Rightarrow> nat \<Rightarrow> string \<Rightarrow> string \<Rightarrow> string \<Rightarrow> string \<Rightarrow> metadata \<Rightarrow> string
      \<Rightarrow> (audit_row \<Rightarrow> db \<Rightarrow> (err + 'a) \<times> db) \<Rightarrow> db \<Rightarrow> (err + 'a) \<times> db" where
  "audited e actor request_id action target_type target_id metadata failure_code op d =
     (case begin_security_audit e actor request_id action target_type target_id metadata d of
        Inl er \<Rightarrow> (Inl er, d)
      | Inr (event, d1) \<Rightarrow> finalize_security_audit e event failure_code (op event d1))"

lemma finalize_eq_Inr [outcome_simps]:
  "finalize_security_audit e event fc out = (Inr x, d') \<longleftrightarrow>
     (\<exists>d1. out = (Inr x, d1) \<and> \<not> flt e AuditEnd \<and>
           d' = d1\<lparr>events := update_where (\<lambda>r. ev_id r = ev_id event)
               (\<lambda>r. r\<lparr>ev_result := ''success'', ev_error_code := ''''\<rparr>) (events d1)\<rparr>)"
  by (cases out; cases "fst out")
    (auto simp: finalize_security_audit_def finish_security_audit_def stmt_def split: sum.splits if_splits)

lemma finalize_same_but_events:
  "same_but_events (snd out) (snd (finalize_security_audit e event fc out))"
  by (cases out; cases "fst out")
    (auto simp: finalize_security_audit_def finish_security_audit_def stmt_def split: sum.splits)

lemma begin_eq_Inr [outcome_simps]:
  "begin_security_audit e actor rid action tt ti md d = Inr (event, d') \<longleftrightarrow>
     \<not> flt e AuditBegin \<and> d' = d\<lparr>events := events d @ [event]\<rparr> \<and>
     event = \<lparr>ev_id = next_id ev_id (events d), ev_actor = actor, ev_action = action,
              ev_target_type = tt, ev_target_id = ti,
              ev_request_id = (if uuid_parses e rid then rid else uuid_new e),
              ev_result = ''intent'', ev_error_code = '''', ev_metadata = md\<rparr>"
  by (auto simp: begin_security_audit_def Let_def outcome_simps)

lemma audited_eq_InrE:
  assumes "audited e actor rid action tt ti md fc op d = (Inr x, d')"
  obtains event d1 d2 where
    "begin_security_audit e actor rid action tt ti md d = Inr (event, d1)"
    "op event d1 = (Inr x, d2)"
    "finalize_security_audit e event fc (Inr x, d2) = (Inr x, d')"
    "d1 = d\<lparr>events := events d @ [event]\<rparr>" "same_but_events d2 d'"
proof -
  from assms obtain event d1 where b: "begin_security_audit e actor rid action tt ti md d = Inr (event, d1)"
    and f: "finalize_security_audit e event fc (op event d1) = (Inr x, d')"
    by (auto simp: audited_def split: sum.splits prod.splits)
  then obtain d2 where o: "op event d1 = (Inr x, d2)"
    by (auto simp: outcome_simps)
  from b have "d1 = d\<lparr>events := events d @ [event]\<rparr>"
    by (simp add: outcome_simps)
  moreover from f o finalize_same_but_events [of "(Inr x, d2)" e event fc]
  have "same_but_events d2 d'" by simp
  ultimately show thesis using b f o that by simp
qed

text \<open>
  If the operation itself leaves the database alone on every failure (a transaction does), then a
  failed audited operation changes nothing but the audit trail.
\<close>

lemma audited_Inl_same:
  assumes "\<And>event d1 er d2. op event d1 = (Inl er, d2) \<Longrightarrow> same_but_events d1 d2"
    and "audited e actor rid action tt ti md fc op d = (Inl er, d')"
    and "\<not> flt e AuditEnd"
  shows "same_but_events d d'"
proof (cases "begin_security_audit e actor rid action tt ti md d")
  case (Inl er')
  with assms(2) show ?thesis by (simp add: audited_def)
next
  case (Inr p)
  then obtain event where p: "p = (event, d\<lparr>events := events d @ [event]\<rparr>)"
    by (cases p) (auto simp: outcome_simps)
  obtain r d2 where o: "op event (d\<lparr>events := events d @ [event]\<rparr>) = (r, d2)"
    by (cases "op event (d\<lparr>events := events d @ [event]\<rparr>)")
  from assms(2) Inr p o have f: "finalize_security_audit e event fc (r, d2) = (Inl er, d')"
    by (simp add: audited_def)
  with assms(3) obtain er2 where "r = Inl er2"
    by (cases r) (auto simp: finalize_security_audit_def finish_security_audit_def stmt_def)
  with assms(1) o have "same_but_events (d\<lparr>events := events d @ [event]\<rparr>) d2" by blast
  moreover from f finalize_same_but_events [of "(r, d2)" e event fc] have "same_but_events d2 d'" by simp
  ultimately show ?thesis
    using same_but_events_trans same_but_events_update by blast
qed

section \<open>Well-formed databases\<close>

text \<open>Primary keys and the unique indexes declared by the model structs.\<close>

definition wf_db :: "db \<Rightarrow> bool" where
  "wf_db d \<longleftrightarrow>
     distinct (map u_id (users d)) \<and> distinct (map u_username (users d)) \<and>
     distinct (map t_id (tokens d)) \<and>
     distinct (map the (filter (\<lambda>h. h \<noteq> None) (map t_hash (tokens d)))) \<and>
     distinct (map p_row_id (peers d)) \<and> distinct (map p_id (peers d)) \<and>
     distinct (map ls_row_id (leases d)) \<and> distinct (map ls_lease_id (leases d)) \<and>
     distinct (map ls_token_hash (leases d)) \<and>
     distinct (map (\<lambda>s. (sc_admin s, sc_type s, sc_target s)) (scopes d)) \<and>
     distinct (map g_id (groups d)) \<and> distinct (map c_id (collections d)) \<and>
     distinct (map tf_user_id (two_factors d)) \<and>
     distinct (map ch_token_hash (challenges d)) \<and>
     distinct (map ev_id (events d))"

lemma wf_db_empty: "wf_db empty_db"
  by (simp add: wf_db_def empty_db_def)

end
