(* ===== verification/GoBase64.thy ===== *)
theory GoBase64
  imports Prelude
begin

text \<open>
  What the code uses of Go's \<open>encoding/base64\<close>: the encoders StdEncoding, RawStdEncoding and
  RawURLEncoding, and their (non-strict) \<open>DecodeString\<close>, which skips carriage returns and line
  feeds anywhere, accepts any trailing bits, and wants the padding exactly when the encoding is
  padded.  Both are functions of the alphabet and of whether the encoding pads; the locale
  \<open>b64_alphabet\<close> states what an alphabet has to satisfy for decoding to undo encoding, and it
  is interpreted on the three encodings.  Bytes are characters, a byte string a \<open>string\<close>.
\<close>

definition std_alphabet :: string where
  "std_alphabet = ''ABCDEFGHIJKLMNOPQRSTUVWXYZabcdefghijklmnopqrstuvwxyz0123456789+/''"

definition url_alphabet :: string where
  "url_alphabet = ''ABCDEFGHIJKLMNOPQRSTUVWXYZabcdefghijklmnopqrstuvwxyz0123456789-_''"

definition b64_char :: "string \<Rightarrow> nat \<Rightarrow> char" where
  "b64_char alph n = alph ! (n mod 64)"

definition b64_value :: "string \<Rightarrow> char \<Rightarrow> nat option" where
  "b64_value alph c =
     (if c \<in> set alph then Some (length (takeWhile (\<lambda>x. x \<noteq> c) alph)) else None)"

definition b64_pad :: "bool \<Rightarrow> nat \<Rightarrow> string" where
  "b64_pad padded n = (if padded then replicate n (CHR ''='') else [])"

fun b64_encode :: "string \<Rightarrow> bool \<Rightarrow> string \<Rightarrow> string" where
  "b64_encode alph padded [] = []"
| "b64_encode alph padded [a] =
     [b64_char alph (of_char a div 4), b64_char alph (of_char a mod 4 * 16)] @ b64_pad padded 2"
| "b64_encode alph padded [a, b] =
     [b64_char alph (of_char a div 4), b64_char alph (of_char a mod 4 * 16 + of_char b div 16),
      b64_char alph (of_char b mod 16 * 4)] @ b64_pad padded 1"
| "b64_encode alph padded (a # b # c # r) =
     [b64_char alph (of_char a div 4), b64_char alph (of_char a mod 4 * 16 + of_char b div 16),
      b64_char alph (of_char b mod 16 * 4 + of_char c div 64), b64_char alph (of_char c mod 64)]
     @ b64_encode alph padded r"

text \<open>One to three bytes out of two to four digits; the bits left over are dropped.\<close>

definition byte1 :: "nat \<Rightarrow> nat \<Rightarrow> char" where
  "byte1 x y = char_of (x * 4 + y div 16)"

definition byte2 :: "nat \<Rightarrow> nat \<Rightarrow> char" where
  "byte2 y z = char_of (y mod 16 * 16 + z div 4)"

definition byte3 :: "nat \<Rightarrow> nat \<Rightarrow> char" where
  "byte3 z w = char_of (z mod 4 * 64 + w)"

fun b64_quanta :: "string \<Rightarrow> bool \<Rightarrow> string \<Rightarrow> string option" where
  "b64_quanta alph padded [] = Some []"
| "b64_quanta alph padded [x] = None"
| "b64_quanta alph padded [x, y] =
     (if padded then None else
      case (b64_value alph x, b64_value alph y) of
        (Some a, Some b) \<Rightarrow> Some [byte1 a b]
      | _ \<Rightarrow> None)"
| "b64_quanta alph padded [x, y, z] =
     (if padded then None else
      case (b64_value alph x, b64_value alph y, b64_value alph z) of
        (Some a, Some b, Some c) \<Rightarrow> Some [byte1 a b, byte2 b c]
      | _ \<Rightarrow> None)"
| "b64_quanta alph padded (x # y # z # w # r) =
     (case (b64_value alph x, b64_value alph y) of
        (Some a, Some b) \<Rightarrow>
          (case b64_value alph z of
             Some c \<Rightarrow>
               (case b64_value alph w of
                  Some d \<Rightarrow> map_option (\<lambda>bs. byte1 a b # byte2 b c # byte3 c d # bs)
                              (b64_quanta alph padded r)
                | None \<Rightarrow> if padded \<and> w = CHR ''='' \<and> r = [] then Some [byte1 a b, byte2 b c] else None)
           | None \<Rightarrow> if padded \<and> z = CHR ''='' \<and> w = CHR ''='' \<and> r = [] then Some [byte1 a b] else None)
      | _ \<Rightarrow> None)"

definition b64_decode :: "string \<Rightarrow> bool \<Rightarrow> string \<Rightarrow> string option" where
  "b64_decode alph padded s =
     b64_quanta alph padded (filter (\<lambda>c. c \<noteq> CHR 0x0A \<and> c \<noteq> CHR 0x0D) s)"

section \<open>Decoding undoes encoding\<close>

lemma bytes_induct [case_names Nil One Two More]:
  assumes "P []" and "\<And>a. P [a]" and "\<And>a b. P [a, b]"
    and "\<And>a b c r. P r \<Longrightarrow> P (a # b # c # r)"
  shows "P bs"
  using assms by induction_schema (pat_completeness, lexicographic_order)

lemma byte_nibbles [simp]:
  "of_char a div 4 < (64::nat)" "of_char a div 16 < (16::nat)" "of_char a div 64 < (4::nat)"
  for a :: char
  using nat_of_char_less_256 [of a] by (simp_all add: less_mult_imp_div_less)

lemma byte_round [simp]:
  "byte1 (of_char a div 4) (of_char a mod 4 * 16 + r) = a" if "r < 16"
proof -
  have "of_char a div 4 * 4 + (of_char a mod 4 * 16 + r) div 16 = (of_char a :: nat)"
    using that by simp
  then show ?thesis by (simp add: byte1_def)
qed

lemma byte_round0 [simp]: "byte1 (of_char a div 4) (of_char a mod 4 * 16) = a"
  using byte_round [of 0 a] by simp

lemma byte_round2 [simp]:
  "byte2 (m * 16 + of_char b div 16) (of_char b mod 16 * 4 + r) = b" if "r < 4"
proof -
  have "(m * 16 + of_char b div 16) mod 16 * 16 + (of_char b mod 16 * 4 + r) div 4 = (of_char b :: nat)"
    using that by simp
  then show ?thesis by (simp add: byte2_def)
qed

lemma byte_round20 [simp]:
  "byte2 (m * 16 + of_char b div 16) (of_char b mod 16 * 4) = b"
  using byte_round2 [of 0 m b] by simp

lemma byte_round3 [simp]: "byte3 (m * 4 + of_char c div 64) (of_char c mod 64) = c"
proof -
  have "(m * 4 + of_char c div 64) mod 4 * 64 + of_char c mod 64 = (of_char c :: nat)"
    by simp
  then show ?thesis by (simp add: byte3_def)
qed

lemma takeWhile_nth: "distinct xs \<Longrightarrow> n < length xs \<Longrightarrow> takeWhile (\<lambda>x. x \<noteq> xs ! n) xs = take n xs"
proof (induction xs arbitrary: n)
  case (Cons x xs)
  then show ?case by (cases n) auto
qed simp

locale b64_alphabet =
  fixes alph :: string
  assumes alph_length: "length alph = 64"
    and alph_distinct: "distinct alph"
    and alph_plain: "CHR ''='' \<notin> set alph" "CHR ''.'' \<notin> set alph"
      "CHR 0x0A \<notin> set alph" "CHR 0x0D \<notin> set alph"
begin

lemma char_in: "b64_char alph n \<in> set alph"
  using alph_length by (simp add: b64_char_def)

lemma value_char: "n < 64 \<Longrightarrow> b64_value alph (b64_char alph n) = Some n"
  using alph_length alph_distinct char_in [of n]
  by (simp add: b64_value_def b64_char_def takeWhile_nth)

lemma value_pad: "b64_value alph (CHR ''='') = None"
  using alph_plain(1) by (simp add: b64_value_def)

lemma digit_bounds:
  "of_char a mod 4 * 16 < (64::nat)" "of_char a mod 16 * 4 < (64::nat)"
  "of_char a mod 4 * 16 + of_char b div 16 < (64::nat)"
  "of_char a mod 16 * 4 + of_char b div 64 < (64::nat)" "of_char a mod 64 < (64::nat)"
  for a b :: char
proof -
  have m: "of_char a mod 4 < (4::nat)" "of_char a mod 16 < (16::nat)"
    by simp_all
  show "of_char a mod 4 * 16 < (64::nat)" "of_char a mod 16 * 4 < (64::nat)" "of_char a mod 64 < (64::nat)"
    using m by simp_all
  show "of_char a mod 4 * 16 + of_char b div 16 < (64::nat)"
    using m(1) byte_nibbles(2) [of b] by linarith
  show "of_char a mod 16 * 4 + of_char b div 64 < (64::nat)"
    using m(2) byte_nibbles(3) [of b] by linarith
qed

lemma quanta_encode: "b64_quanta alph padded (b64_encode alph padded bs) = Some bs"
  by (induction bs rule: bytes_induct)
    (cases padded; simp add: value_char value_pad digit_bounds b64_pad_def numeral_2_eq_2)+

lemma encode_chars: "set (b64_encode alph padded bs) \<subseteq> insert (CHR ''='') (set alph)"
  by (induction bs rule: bytes_induct) (auto simp: char_in b64_pad_def)

lemma decode_encode: "b64_decode alph padded (b64_encode alph padded bs) = Some bs"
proof -
  have "c \<noteq> CHR 0x0A \<and> c \<noteq> CHR 0x0D" if "c \<in> set (b64_encode alph padded bs)" for c
    using that encode_chars [of padded bs] alph_plain by auto
  then have "filter (\<lambda>c. c \<noteq> CHR 0x0A \<and> c \<noteq> CHR 0x0D) (b64_encode alph padded bs)
      = b64_encode alph padded bs"
    by (simp add: filter_id_conv)
  then show ?thesis by (simp add: b64_decode_def quanta_encode)
qed

lemma encode_no_dot: "CHR ''.'' \<notin> set (b64_encode alph padded bs)"
  using encode_chars [of padded bs] alph_plain by auto

lemma encode_inj: "b64_encode alph padded bs = b64_encode alph padded bs' \<longleftrightarrow> bs = bs'"
  by (metis decode_encode option.inject)

text \<open>
  The canonical-form test of the code, "it decodes, to n bytes, and encodes back to itself",
  holds exactly of the encodings of n bytes.
\<close>

lemma canonical_iff:
  "(case b64_decode alph padded s of
      None \<Rightarrow> False
    | Some bs \<Rightarrow> length bs = n \<and> b64_encode alph padded bs = s)
   \<longleftrightarrow> (\<exists>bs. length bs = n \<and> s = b64_encode alph padded bs)"
  by (auto simp: decode_encode split: option.splits)

end

lemma length_b64_encode:
  "length (b64_encode alph padded bs) =
     (if padded then (length bs + 2) div 3 * 4 else (4 * length bs + 2) div 3)"
proof (induction bs rule: bytes_induct)
  case (More a b c r)
  have "(length r + 5) div 3 = (length r + 2) div 3 + 1"
    and "(4 * length r + 14) div 3 = (4 * length r + 2) div 3 + 4"
    by presburger+
  with More show ?case by (simp add: ac_simps)
qed (simp_all add: b64_pad_def)

interpretation std_b64: b64_alphabet std_alphabet
  by unfold_locales (simp_all add: std_alphabet_def)

interpretation url_b64: b64_alphabet url_alphabet
  by unfold_locales (simp_all add: url_alphabet_def)

section \<open>Hexadecimal\<close>

definition hex_digit :: "nat \<Rightarrow> char" where
  "hex_digit n = (if n < 10 then char_of (48 + n) else char_of (87 + n))"

definition hex_encode :: "string \<Rightarrow> string" where
  "hex_encode bs = concat (map (\<lambda>b. [hex_digit (of_char b div 16), hex_digit (of_char b mod 16)]) bs)"

text \<open>Lower-case hexadecimal digits, as the byte tests of the code read them.\<close>

definition is_lower_hex :: "char \<Rightarrow> bool" where
  "is_lower_hex c \<longleftrightarrow>
     (let n = of_char c :: nat in (48 \<le> n \<and> n \<le> 57) \<or> (97 \<le> n \<and> n \<le> 102))"

lemma length_hex_encode [simp]: "length (hex_encode bs) = 2 * length bs"
  by (induction bs) (simp_all add: hex_encode_def)

lemma hex_digit_lower: "n < 16 \<Longrightarrow> is_lower_hex (hex_digit n)"
  by (auto simp: is_lower_hex_def hex_digit_def)

lemma hex_encode_lower: "list_all is_lower_hex (hex_encode bs)"
proof (induction bs)
  case (Cons b bs)
  then show ?case
    by (simp add: hex_encode_def hex_digit_lower)
qed (simp add: hex_encode_def)

text \<open>hex.DecodeString: pairs of digits of either case.\<close>

definition hex_value :: "char \<Rightarrow> nat option" where
  "hex_value c =
     (let n = of_char c :: nat in
      if 48 \<le> n \<and> n \<le> 57 then Some (n - 48)
      else if 97 \<le> n \<and> n \<le> 102 then Some (n - 87)
      else if 65 \<le> n \<and> n \<le> 70 then Some (n - 55)
      else None)"

fun hex_decode :: "string \<Rightarrow> string option" where
  "hex_decode [] = Some []"
| "hex_decode [_] = None"
| "hex_decode (a # b # r) =
     (case (hex_value a, hex_value b) of
        (Some x, Some y) \<Rightarrow> map_option (\<lambda>bs. char_of (16 * x + y) # bs) (hex_decode r)
      | _ \<Rightarrow> None)"

lemma hex_value_digit: "n < 16 \<Longrightarrow> hex_value (hex_digit n) = Some n"
  by (auto simp: hex_value_def hex_digit_def Let_def)

lemma hex_decode_encode: "hex_decode (hex_encode bs) = Some bs"
proof (induction bs)
  case (Cons b bs)
  have "of_char b div 16 < (16::nat)" "of_char b mod 16 < (16::nat)" by simp_all
  then show ?case using Cons by (simp add: hex_encode_def hex_value_digit mult.commute)
qed (simp add: hex_encode_def)

text \<open>A text of base64 digits whose length is a multiple of four always decodes.\<close>

lemma quanta_digits:
  "set s \<subseteq> set alph \<Longrightarrow> length s mod 4 = 0 \<Longrightarrow>
     \<exists>bs. b64_quanta alph padded s = Some bs \<and> 4 * length bs = 3 * length s"
proof (induction s rule: length_induct)
  case (1 s)
  show ?case
  proof (cases s)
    case (Cons x s1)
    with "1.prems"(2) have "length s1 \<ge> 3" by (cases s1; cases "tl s1"; cases "tl (tl s1)") auto
    then obtain y z w r where "s1 = y # z # w # r" by (auto simp: numeral_3_eq_3 Suc_le_length_iff)
    with Cons have s: "s = x # y # z # w # r" by simp
    with "1.prems"(2) have "length r mod 4 = 0" by simp
    moreover have "length r < length s" "set r \<subseteq> set alph" using s "1.prems"(1) by auto
    ultimately obtain bs where "b64_quanta alph padded r = Some bs" "4 * length bs = 3 * length r"
      using "1.IH" [rule_format, of r] by (metis (no_types))
    with s "1.prems"(1) show ?thesis by (simp add: b64_value_def)
  qed simp
qed

lemma decode_digits:
  assumes "set s \<subseteq> set alph" "CHR 0x0A \<notin> set alph" "CHR 0x0D \<notin> set alph" "length s mod 4 = 0"
  shows "\<exists>bs. b64_decode alph padded s = Some bs \<and> 4 * length bs = 3 * length s"
proof -
  have "filter (\<lambda>c. c \<noteq> CHR 0x0A \<and> c \<noteq> CHR 0x0D) s = s"
    using assms(1-3) by (auto simp: filter_id_conv)
  then show ?thesis using quanta_digits [OF assms(1,4)] by (simp add: b64_decode_def)
qed

end
