(* ===== verification/Presence.thy ===== *)
theory Presence
  imports Store GoBase64
begin

text \<open>
  Presence leases (\<open>src/service/presence.go\<close>).  A device row carries its current activation (epoch,
  id, retired flag) and the second until which it counts as online; the lease table holds one row
  per lease of an activation.  The four operations are transactions over both tables.  The hash
  \<open>sha\<close> (hex of SHA-256) and the random bytes \<open>rnd\<close> (\<open>None\<close> when the system source fails) are
  arguments.  The in-process lock taken around each operation and the row lock of the transaction
  are what makes an operation one step of \<open>presence_step\<close>.
\<close>

section \<open>Constants and validation\<close>

definition PresenceLeaseTTL :: int where "PresenceLeaseTTL = 45"
definition PresenceLegacyFallbackAfter :: int where "PresenceLegacyFallbackAfter = 90"
definition presenceLastOnlineInterval :: int where "presenceLastOnlineInterval = 30"
definition maxPresenceRouteLeases :: nat where "maxPresenceRouteLeases = 16"

lemmas presence_constants =
  PresenceLeaseTTL_def PresenceLegacyFallbackAfter_def presenceLastOnlineInterval_def

record lease_grant =
  gr_epoch :: nat
  gr_activation_id :: string
  gr_lease_id :: string
  gr_token :: string
  gr_expires_at :: int
  gr_online_until :: int

text \<open>Decodes, to n bytes, and is the canonical encoding of them.\<close>

definition canonical_b64 :: "string \<Rightarrow> bool \<Rightarrow> nat \<Rightarrow> string \<Rightarrow> bool" where
  "canonical_b64 alph padded n s \<longleftrightarrow>
     (case b64_decode alph padded s of
        None \<Rightarrow> False
      | Some bs \<Rightarrow> length bs = n \<and> b64_encode alph padded bs = s)"

definition validate_presence_activation :: "nat \<Rightarrow> string \<Rightarrow> err + unit" where
  "validate_presence_activation epoch activation_id =
     (if epoch = 0 \<or> int epoch > 2 ^ 63 - 1 \<or> length activation_id > 128
      then Inl ErrPresenceActivationInvalid
      else if \<not> canonical_b64 std_alphabet True 16 activation_id
      then Inl ErrPresenceActivationInvalid
      else Inr ())"

definition valid_route_lease_proofs :: "string list \<Rightarrow> bool" where
  "valid_route_lease_proofs proofs \<longleftrightarrow>
     \<not> (length proofs = 0 \<or> length proofs > maxPresenceRouteLeases) \<and>
     list_all (canonical_b64 std_alphabet True 32) proofs"

definition valid_presence_token :: "string \<Rightarrow> bool" where
  "valid_presence_token = canonical_b64 url_alphabet False 32"

definition valid_presence_lease_id :: "string \<Rightarrow> bool" where
  "valid_presence_lease_id = canonical_b64 url_alphabet False 16"

definition new_presence_lease_credentials :: "string option \<Rightarrow> err + string \<times> string" where
  "new_presence_lease_credentials rnd =
     (case rnd of
        None \<Rightarrow> Inl (ErrNew ''rand'')
      | Some bs \<Rightarrow> Inr (b64_encode url_alphabet False (take 16 bs), b64_encode url_alphabet False (drop 16 bs)))"

section \<open>Identity of an activation\<close>

text \<open>
  VerifyActivationIdentity asks the network verifier (\<open>None\<close>: no verifier is configured); an error
  of the verifier and a negative answer are both a refusal.
\<close>

type_synonym activation_verifier =
  "string \<Rightarrow> string \<Rightarrow> nat \<Rightarrow> string \<Rightarrow> string list \<Rightarrow> err + bool"

definition verify_activation_identity ::
    "activation_verifier option \<Rightarrow> string \<Rightarrow> string \<Rightarrow> nat \<Rightarrow> string \<Rightarrow> string list \<Rightarrow> err + unit" where
  "verify_activation_identity verifier device_id device_uuid epoch activation_id proofs =
     (if device_id = [] \<or> device_uuid = [] \<or> validate_presence_activation epoch activation_id \<noteq> Inr ()
         \<or> \<not> valid_route_lease_proofs proofs
      then Inl ErrPresenceActivationInvalid
      else case verifier of
        None \<Rightarrow> Inl ErrPresenceActivationUnverified
      | Some verify \<Rightarrow>
          (case verify device_id device_uuid epoch activation_id proofs of
             Inl _ \<Rightarrow> Inl ErrPresenceActivationUnverified
           | Inr verified \<Rightarrow> if verified then Inr () else Inl ErrPresenceActivationUnverified))"

definition verify_report_activation ::
    "activation_verifier option \<Rightarrow> peer_row option \<Rightarrow> nat \<Rightarrow> string \<Rightarrow> string list \<Rightarrow> err + unit" where
  "verify_report_activation verifier peer epoch activation_id proofs =
     (case peer of
        None \<Rightarrow> Inl ErrPresenceActivationInvalid
      | Some p \<Rightarrow>
          if p_row_id p = 0 then Inl ErrPresenceActivationInvalid
          else verify_activation_identity verifier (p_id p) (p_uuid p) epoch activation_id proofs)"

section \<open>Statements shared by the operations\<close>

definition lock_presence_peer :: "peer_row \<Rightarrow> db \<Rightarrow> err + peer_row" where
  "lock_presence_peer peer d =
     (case find (\<lambda>r. p_row_id r = p_row_id peer \<and> p_id r = p_id peer \<and> p_uuid r = p_uuid peer) (peers d) of
        None \<Rightarrow> Inl ErrPeerIdentityUnverified
      | Some cur \<Rightarrow> Inr cur)"

definition active_lease :: "peer_row \<Rightarrow> int \<Rightarrow> lease_row \<Rightarrow> bool" where
  "active_lease peer t l \<longleftrightarrow>
     ls_peer_row_id l = p_row_id peer \<and> ls_network_uuid l = p_uuid peer \<and>
     ls_epoch l = p_activation_epoch peer \<and> ls_activation_id l = p_activation_id peer \<and>
     ls_ended_at l = 0 \<and> ls_expires_at l > t"

text \<open>\<open>SELECT MAX(expires_at)\<close>; NULL, on no row, is read as 0.\<close>

definition active_presence_until :: "lease_row list \<Rightarrow> peer_row \<Rightarrow> int \<Rightarrow> int" where
  "active_presence_until ls peer t =
     (case map ls_expires_at (filter (active_lease peer t) ls) of
        [] \<Rightarrow> 0
      | x # xs \<Rightarrow> foldl max x xs)"

definition presence_lease_query ::
    "(string \<Rightarrow> string) \<Rightarrow> peer_row \<Rightarrow> nat \<Rightarrow> string \<Rightarrow> string \<Rightarrow> string \<Rightarrow> lease_row \<Rightarrow> bool" where
  "presence_lease_query sha peer epoch activation_id lease_id token l \<longleftrightarrow>
     ls_peer_row_id l = p_row_id peer \<and> ls_network_uuid l = p_uuid peer \<and> ls_epoch l = epoch \<and>
     ls_activation_id l = activation_id \<and> ls_token_hash l = sha token \<and>
     (lease_id \<noteq> [] \<longrightarrow> ls_lease_id l = lease_id)"

definition end_open_leases :: "nat \<Rightarrow> int \<Rightarrow> lease_row list \<Rightarrow> lease_row list" where
  "end_open_leases row t =
     update_where (\<lambda>l. ls_peer_row_id l = row \<and> ls_ended_at l = 0) (\<lambda>l. l\<lparr>ls_ended_at := t\<rparr>)"

definition presence_updates ::
    "peer_row \<Rightarrow> string \<Rightarrow> int \<Rightarrow> int \<Rightarrow> bool \<Rightarrow> bool \<Rightarrow> peer_row \<Rightarrow> peer_row" where
  "presence_updates peer ip t until mark_v2 touch r =
     (let r1 = r\<lparr>p_activation_epoch := p_activation_epoch peer,
                 p_activation_id := p_activation_id peer,
                 p_activation_retired := p_activation_retired peer,
                 p_online_until := until\<rparr>;
          r2 = (if mark_v2 then r1\<lparr>p_v2_seen_at := t\<rparr> else r1)
      in if touch \<and> (p_last_online_time peer = 0
                      \<or> t - p_last_online_time peer \<ge> presenceLastOnlineInterval)
         then r2\<lparr>p_last_online_time := t, p_last_online_ip := ip\<rparr> else r2)"

definition update_presence_peer ::
    "peer_row \<Rightarrow> string \<Rightarrow> int \<Rightarrow> int \<Rightarrow> bool \<Rightarrow> bool \<Rightarrow> db \<Rightarrow> err + db" where
  "update_presence_peer peer ip t until mark_v2 touch d =
     (let matches = (\<lambda>r. p_row_id r = p_row_id peer \<and> p_uuid r = p_uuid peer)
      in if count_where matches (peers d) \<noteq> 1 then Inl ErrPeerIdentityConflict
         else Inr (d\<lparr>peers := update_where matches (presence_updates peer ip t until mark_v2 touch) (peers d)\<rparr>))"

definition stale_activation :: "peer_row \<Rightarrow> nat \<Rightarrow> string \<Rightarrow> bool" where
  "stale_activation cur epoch activation_id \<longleftrightarrow>
     p_activation_epoch cur > epoch \<or>
     (p_activation_epoch cur = epoch \<and> p_activation_id cur \<noteq> [] \<and> p_activation_id cur \<noteq> activation_id)"

section \<open>The operations\<close>

definition start_body ::
    "env \<Rightarrow> peer_row \<Rightarrow> nat \<Rightarrow> string \<Rightarrow> string \<Rightarrow> string \<Rightarrow> string \<Rightarrow> string \<Rightarrow> db \<Rightarrow> err + lease_grant \<times> db" where
  "start_body e peer epoch activation_id lease_id token token_hash ip d =
     stmt (flt e) (Stmt 1) (ebind (lock_presence_peer peer d) (\<lambda>cur.
     check (\<not> stale_activation cur epoch activation_id) ErrPresenceActivationStale (
     check (\<not> (p_activation_epoch cur = epoch \<and> p_activation_id cur = activation_id
               \<and> p_activation_retired cur)) ErrPresenceActivationStale (
     ebind (if epoch > p_activation_epoch cur
            then stmt (flt e) (Stmt 2) (Inr (d\<lparr>leases := end_open_leases (p_row_id cur) (now e) (leases d)\<rparr>))
            else Inr d) (\<lambda>d1.
     let lease = \<lparr>ls_row_id = next_id ls_row_id (leases d1), ls_lease_id = lease_id,
                  ls_peer_row_id = p_row_id cur, ls_network_uuid = p_uuid cur, ls_epoch = epoch,
                  ls_activation_id = activation_id, ls_token_hash = token_hash,
                  ls_started_at = now e, ls_renewed_at = now e,
                  ls_expires_at = now e + PresenceLeaseTTL, ls_ended_at = 0, ls_last_online_ip = ip\<rparr>
     in stmt (flt e) (Stmt 3) (
     check (lease_id \<notin> ls_lease_id ` set (leases d1) \<and> token_hash \<notin> ls_token_hash ` set (leases d1))
       UniqueViolation (
     let d2 = d1\<lparr>leases := leases d1 @ [lease]\<rparr>;
         cur' = cur\<lparr>p_activation_epoch := epoch, p_activation_id := activation_id,
                    p_activation_retired := False\<rparr>;
         until = active_presence_until (leases d2) cur' (now e)
     in stmt (flt e) (Stmt 4) (
     stmt (flt e) (Stmt 5) (ebind (update_presence_peer cur' ip (now e) until True True d2) (\<lambda>d3.
     Inr (\<lparr>gr_epoch = epoch, gr_activation_id = activation_id, gr_lease_id = lease_id,
           gr_token = token, gr_expires_at = now e + PresenceLeaseTTL, gr_online_until = until\<rparr>, d3)))))))))))"

definition start_presence_lease ::
    "env \<Rightarrow> (string \<Rightarrow> string) \<Rightarrow> string option \<Rightarrow> peer_row option \<Rightarrow> nat \<Rightarrow> string \<Rightarrow> string \<Rightarrow> db
      \<Rightarrow> (err + lease_grant) \<times> db" where
  "start_presence_lease e sha rnd peer epoch activation_id ip d =
     (case peer of
        None \<Rightarrow> (Inl ErrPeerIdentityUnverified, d)
      | Some p \<Rightarrow>
          if p_row_id p = 0 then (Inl ErrPeerIdentityUnverified, d)
          else case validate_presence_activation epoch activation_id of
            Inl er \<Rightarrow> (Inl er, d)
          | Inr _ \<Rightarrow>
              (case new_presence_lease_credentials rnd of
                 Inl er \<Rightarrow> (Inl er, d)
               | Inr (lease_id, token) \<Rightarrow>
                   transaction (flt e) (start_body e p epoch activation_id lease_id token (sha token) ip) d))"

definition renew_body ::
    "env \<Rightarrow> (string \<Rightarrow> string) \<Rightarrow> peer_row \<Rightarrow> nat \<Rightarrow> string \<Rightarrow> string \<Rightarrow> string \<Rightarrow> string \<Rightarrow> db
      \<Rightarrow> err + lease_grant \<times> db" where
  "renew_body e sha peer epoch activation_id lease_id token ip d =
     stmt (flt e) (Stmt 1) (ebind (lock_presence_peer peer d) (\<lambda>cur.
     check (\<not> (p_activation_epoch cur \<noteq> epoch \<or> p_activation_id cur \<noteq> activation_id
               \<or> p_activation_retired cur)) ErrPresenceActivationStale (
     stmt (flt e) (Stmt 2) (
     case find (presence_lease_query sha cur epoch activation_id lease_id token) (leases d) of
       None \<Rightarrow> Inl ErrPresenceLeaseInvalid
     | Some lease \<Rightarrow>
         check (ls_ended_at lease = 0) ErrPresenceLeaseInvalid (
         check (\<not> ls_expires_at lease \<le> now e) ErrPresenceLeaseExpired (
         let matches = (\<lambda>l. ls_row_id l = ls_row_id lease \<and> ls_ended_at l = 0 \<and> ls_expires_at l > now e);
             d1 = d\<lparr>leases := update_where matches
                      (\<lambda>l. l\<lparr>ls_renewed_at := now e, ls_expires_at := now e + PresenceLeaseTTL,
                              ls_last_online_ip := ip\<rparr>) (leases d)\<rparr>;
             until = active_presence_until (leases d1) cur (now e)
         in stmt (flt e) (Stmt 3) (
         check (count_where matches (leases d) = 1) ErrPresenceLeaseExpired (
         stmt (flt e) (Stmt 4) (
         stmt (flt e) (Stmt 5) (ebind (update_presence_peer cur ip (now e) until True True d1) (\<lambda>d2.
         Inr (\<lparr>gr_epoch = epoch, gr_activation_id = activation_id, gr_lease_id = ls_lease_id lease,
               gr_token = [], gr_expires_at = now e + PresenceLeaseTTL, gr_online_until = until\<rparr>, d2))))))))))))"

definition lease_request_ok :: "peer_row option \<Rightarrow> nat \<Rightarrow> string \<Rightarrow> string \<Rightarrow> string \<Rightarrow> err + peer_row" where
  "lease_request_ok peer epoch activation_id lease_id token =
     (case peer of
        None \<Rightarrow> Inl ErrPeerIdentityUnverified
      | Some p \<Rightarrow>
          check (p_row_id p \<noteq> 0) ErrPeerIdentityUnverified (
          ebind (validate_presence_activation epoch activation_id) (\<lambda>_.
          check (valid_presence_token token) ErrPresenceLeaseInvalid (
          check (\<not> (lease_id \<noteq> [] \<and> \<not> valid_presence_lease_id lease_id)) ErrPresenceLeaseInvalid (
          Inr p)))))"

definition renew_presence_lease ::
    "env \<Rightarrow> (string \<Rightarrow> string) \<Rightarrow> peer_row option \<Rightarrow> nat \<Rightarrow> string \<Rightarrow> string \<Rightarrow> string \<Rightarrow> string \<Rightarrow> db
      \<Rightarrow> (err + lease_grant) \<times> db" where
  "renew_presence_lease e sha peer epoch activation_id lease_id token ip d =
     (case lease_request_ok peer epoch activation_id lease_id token of
        Inl er \<Rightarrow> (Inl er, d)
      | Inr p \<Rightarrow> transaction (flt e) (renew_body e sha p epoch activation_id lease_id token ip) d)"

definition end_body ::
    "env \<Rightarrow> (string \<Rightarrow> string) \<Rightarrow> peer_row \<Rightarrow> nat \<Rightarrow> string \<Rightarrow> string \<Rightarrow> string \<Rightarrow> string \<Rightarrow> db
      \<Rightarrow> err + lease_grant \<times> db" where
  "end_body e sha peer epoch activation_id lease_id token ip d =
     stmt (flt e) (Stmt 1) (ebind (lock_presence_peer peer d) (\<lambda>cur.
     stmt (flt e) (Stmt 2) (
     case find (presence_lease_query sha cur epoch activation_id lease_id token) (leases d) of
       None \<Rightarrow> Inl ErrPresenceLeaseInvalid
     | Some lease \<Rightarrow>
         ebind (if ls_ended_at lease = 0
                then stmt (flt e) (Stmt 3) (Inr (d\<lparr>leases := update_where
                       (\<lambda>l. ls_row_id l = ls_row_id lease \<and> ls_ended_at l = 0)
                       (\<lambda>l. l\<lparr>ls_ended_at := now e\<rparr>) (leases d)\<rparr>))
                else Inr d) (\<lambda>d1.
         let until = active_presence_until (leases d1) cur (now e);
             is_current = (p_activation_epoch cur = epoch \<and> p_activation_id cur = activation_id)
         in stmt (flt e) (Stmt 4) (
         stmt (flt e) (Stmt 5) (ebind (update_presence_peer cur ip (now e) until is_current False d1) (\<lambda>d2.
         Inr (\<lparr>gr_epoch = epoch, gr_activation_id = activation_id, gr_lease_id = ls_lease_id lease,
               gr_token = [], gr_expires_at = now e, gr_online_until = until\<rparr>, d2))))))))"

definition end_presence_lease ::
    "env \<Rightarrow> (string \<Rightarrow> string) \<Rightarrow> peer_row option \<Rightarrow> nat \<Rightarrow> string \<Rightarrow> string \<Rightarrow> string \<Rightarrow> string \<Rightarrow> db
      \<Rightarrow> (err + lease_grant) \<times> db" where
  "end_presence_lease e sha peer epoch activation_id lease_id token ip d =
     (case lease_request_ok peer epoch activation_id lease_id token of
        Inl er \<Rightarrow> (Inl er, d)
      | Inr p \<Rightarrow> transaction (flt e) (end_body e sha p epoch activation_id lease_id token ip) d)"

definition deactivate_body ::
    "env \<Rightarrow> peer_row \<Rightarrow> nat \<Rightarrow> string \<Rightarrow> string \<Rightarrow> db \<Rightarrow> err + lease_grant \<times> db" where
  "deactivate_body e peer epoch activation_id ip d =
     stmt (flt e) (Stmt 1) (ebind (lock_presence_peer peer d) (\<lambda>cur.
     check (\<not> stale_activation cur epoch activation_id) ErrPresenceActivationStale (
     let d1 = d\<lparr>leases := end_open_leases (p_row_id cur) (now e) (leases d)\<rparr>;
         cur' = cur\<lparr>p_activation_epoch := epoch, p_activation_id := activation_id,
                    p_activation_retired := True\<rparr>
     in stmt (flt e) (Stmt 2) (
     stmt (flt e) (Stmt 3) (ebind (update_presence_peer cur' ip (now e) 0 True False d1) (\<lambda>d2.
     Inr (\<lparr>gr_epoch = epoch, gr_activation_id = activation_id, gr_lease_id = [], gr_token = [],
           gr_expires_at = now e, gr_online_until = 0\<rparr>, d2)))))))"

definition deactivate_presence_activation ::
    "env \<Rightarrow> peer_row option \<Rightarrow> nat \<Rightarrow> string \<Rightarrow> string \<Rightarrow> db \<Rightarrow> (err + lease_grant) \<times> db" where
  "deactivate_presence_activation e peer epoch activation_id ip d =
     (case peer of
        None \<Rightarrow> (Inl ErrPeerIdentityUnverified, d)
      | Some p \<Rightarrow>
          if p_row_id p = 0 then (Inl ErrPeerIdentityUnverified, d)
          else case validate_presence_activation epoch activation_id of
            Inl er \<Rightarrow> (Inl er, d)
          | Inr _ \<Rightarrow> transaction (flt e) (deactivate_body e p epoch activation_id ip) d)"

definition is_online_at :: "peer_row option \<Rightarrow> int \<Rightarrow> bool" where
  "is_online_at peer t =
     (case peer of
        None \<Rightarrow> False
      | Some p \<Rightarrow>
          if p_online_until p > t then True
          else if p_v2_seen_at p > 0 \<and> t - p_v2_seen_at p \<le> PresenceLegacyFallbackAfter then False
          else p_last_online_time p > t - 60)"


section \<open>Validation accepts exactly the canonical encodings\<close>

lemma canonical_std_iff:
  "canonical_b64 std_alphabet padded n s \<longleftrightarrow> (\<exists>bs. length bs = n \<and> s = b64_encode std_alphabet padded bs)"
  unfolding canonical_b64_def by (rule std_b64.canonical_iff)

lemma canonical_url_iff:
  "canonical_b64 url_alphabet padded n s \<longleftrightarrow> (\<exists>bs. length bs = n \<and> s = b64_encode url_alphabet padded bs)"
  unfolding canonical_b64_def by (rule url_b64.canonical_iff)

lemma validate_activation_iff:
  "validate_presence_activation epoch activation_id = Inr () \<longleftrightarrow>
     0 < epoch \<and> epoch < 2 ^ 63 \<and> (\<exists>bs. length bs = 16 \<and> activation_id = b64_encode std_alphabet True bs)"
  by (auto simp: validate_presence_activation_def canonical_std_iff length_b64_encode split: if_splits)

lemma validate_activation_nonempty:
  "validate_presence_activation epoch activation_id = Inr u \<Longrightarrow> 0 < epoch \<and> activation_id \<noteq> []"
proof -
  assume "validate_presence_activation epoch activation_id = Inr u"
  then have v: "validate_presence_activation epoch activation_id = Inr ()" by simp
  then obtain bs :: string where "length bs = 16" "activation_id = b64_encode std_alphabet True bs"
    unfolding validate_activation_iff by blast
  then have "length activation_id = 24"
    by (simp add: length_b64_encode)
  with v show ?thesis unfolding validate_activation_iff by auto
qed

section \<open>What a successful operation did\<close>

lemma lock_peer_iff:
  "lock_presence_peer peer d = Inr cur \<longleftrightarrow>
     find (\<lambda>r. p_row_id r = p_row_id peer \<and> p_id r = p_id peer \<and> p_uuid r = p_uuid peer) (peers d) = Some cur"
  by (simp add: lock_presence_peer_def split: option.splits)

lemma lock_peerD:
  "lock_presence_peer peer d = Inr cur \<Longrightarrow>
     cur \<in> set (peers d) \<and> p_row_id cur = p_row_id peer \<and> p_id cur = p_id peer \<and> p_uuid cur = p_uuid peer"
  by (auto simp: lock_peer_iff dest: find_SomeD)

lemma update_peer_iff:
  "update_presence_peer peer ip t until v2 touch d = Inr d' \<longleftrightarrow>
     count_where (\<lambda>r. p_row_id r = p_row_id peer \<and> p_uuid r = p_uuid peer) (peers d) = 1 \<and>
     d' = d\<lparr>peers := update_where (\<lambda>r. p_row_id r = p_row_id peer \<and> p_uuid r = p_uuid peer)
             (presence_updates peer ip t until v2 touch) (peers d)\<rparr>"
  by (auto simp: update_presence_peer_def Let_def)

definition new_lease :: "env \<Rightarrow> peer_row \<Rightarrow> nat \<Rightarrow> string \<Rightarrow> string \<Rightarrow> string \<Rightarrow> string \<Rightarrow> lease_row list \<Rightarrow> lease_row" where
  "new_lease e cur epoch activation_id lease_id token_hash ip ls =
     \<lparr>ls_row_id = next_id ls_row_id ls, ls_lease_id = lease_id,
      ls_peer_row_id = p_row_id cur, ls_network_uuid = p_uuid cur, ls_epoch = epoch,
      ls_activation_id = activation_id, ls_token_hash = token_hash,
      ls_started_at = now e, ls_renewed_at = now e,
      ls_expires_at = now e + PresenceLeaseTTL, ls_ended_at = 0, ls_last_online_ip = ip\<rparr>"

definition activated :: "peer_row \<Rightarrow> nat \<Rightarrow> string \<Rightarrow> bool \<Rightarrow> peer_row" where
  "activated cur epoch activation_id retired =
     cur\<lparr>p_activation_epoch := epoch, p_activation_id := activation_id, p_activation_retired := retired\<rparr>"

lemma start_bodyE:
  assumes "start_body e peer epoch aid lid token th ip d = Inr (g, d')"
  obtains cur ls1 where
    "lock_presence_peer peer d = Inr cur" "\<not> stale_activation cur epoch aid"
    "\<not> (p_activation_epoch cur = epoch \<and> p_activation_id cur = aid \<and> p_activation_retired cur)"
    "ls1 = (if epoch > p_activation_epoch cur then end_open_leases (p_row_id cur) (now e) (leases d) else leases d)"
    "leases d' = ls1 @ [new_lease e cur epoch aid lid th ip ls1]"
    "gr_online_until g = active_presence_until (leases d') (activated cur epoch aid False) (now e)"
    "gr_lease_id g = lid" "gr_token g = token"
    "peers d' = update_where (\<lambda>r. p_row_id r = p_row_id cur \<and> p_uuid r = p_uuid cur)
       (presence_updates (activated cur epoch aid False) ip (now e) (gr_online_until g) True True) (peers d)"
    "lid \<notin> ls_lease_id ` set ls1" "th \<notin> ls_token_hash ` set ls1"
proof -
  from assms obtain cur where c: "lock_presence_peer peer d = Inr cur" "\<not> stale_activation cur epoch aid"
    "\<not> (p_activation_epoch cur = epoch \<and> p_activation_id cur = aid \<and> p_activation_retired cur)"
    by (auto simp: start_body_def outcome_simps)
  let ?ls = "if epoch > p_activation_epoch cur then end_open_leases (p_row_id cur) (now e) (leases d) else leases d"
  let ?new = "?ls @ [new_lease e cur epoch aid lid th ip ?ls]"
  let ?until = "active_presence_until ?new (activated cur epoch aid False) (now e)"
  have "lid \<notin> ls_lease_id ` set ?ls \<and> th \<notin> ls_token_hash ` set ?ls \<and> leases d' = ?new \<and>
      gr_online_until g = ?until \<and> gr_lease_id g = lid \<and> gr_token g = token \<and>
      peers d' = update_where (\<lambda>r. p_row_id r = p_row_id cur \<and> p_uuid r = p_uuid cur)
       (presence_updates (activated cur epoch aid False) ip (now e) ?until True True) (peers d)"
    using assms c
    by (auto simp: start_body_def outcome_simps Let_def update_peer_iff new_lease_def activated_def
        split: if_splits)
  then show thesis using c that [of cur ?ls] by simp
qed

lemma renew_bodyE:
  assumes "renew_body e sha peer epoch aid lid token ip d = Inr (g, d')"
  obtains cur lease where
    "lock_presence_peer peer d = Inr cur" "p_activation_epoch cur = epoch" "p_activation_id cur = aid"
    "\<not> p_activation_retired cur"
    "find (presence_lease_query sha cur epoch aid lid token) (leases d) = Some lease"
    "ls_ended_at lease = 0" "ls_expires_at lease > now e"
    "leases d' = update_where (\<lambda>l. ls_row_id l = ls_row_id lease \<and> ls_ended_at l = 0 \<and> ls_expires_at l > now e)
       (\<lambda>l. l\<lparr>ls_renewed_at := now e, ls_expires_at := now e + PresenceLeaseTTL, ls_last_online_ip := ip\<rparr>) (leases d)"
    "gr_online_until g = active_presence_until (leases d') cur (now e)"
    "gr_lease_id g = ls_lease_id lease"
    "peers d' = update_where (\<lambda>r. p_row_id r = p_row_id cur \<and> p_uuid r = p_uuid cur)
       (presence_updates cur ip (now e) (gr_online_until g) True True) (peers d)"
proof -
  from assms obtain cur lease where "lock_presence_peer peer d = Inr cur" "p_activation_epoch cur = epoch"
    "p_activation_id cur = aid" "\<not> p_activation_retired cur"
    "find (presence_lease_query sha cur epoch aid lid token) (leases d) = Some lease"
    by (auto simp: renew_body_def outcome_simps split: option.splits)
  then show thesis using assms that [of cur lease]
    by (auto simp: renew_body_def outcome_simps Let_def update_peer_iff)
qed

lemma end_bodyE:
  assumes "end_body e sha peer epoch aid lid token ip d = Inr (g, d')"
  obtains cur lease where
    "lock_presence_peer peer d = Inr cur"
    "find (presence_lease_query sha cur epoch aid lid token) (leases d) = Some lease"
    "leases d' = (if ls_ended_at lease = 0
       then update_where (\<lambda>l. ls_row_id l = ls_row_id lease \<and> ls_ended_at l = 0)
              (\<lambda>l. l\<lparr>ls_ended_at := now e\<rparr>) (leases d) else leases d)"
    "gr_online_until g = active_presence_until (leases d') cur (now e)"
    "peers d' = update_where (\<lambda>r. p_row_id r = p_row_id cur \<and> p_uuid r = p_uuid cur)
       (presence_updates cur ip (now e) (gr_online_until g)
          (p_activation_epoch cur = epoch \<and> p_activation_id cur = aid) False) (peers d)"
proof -
  from assms obtain cur lease where "lock_presence_peer peer d = Inr cur"
    "find (presence_lease_query sha cur epoch aid lid token) (leases d) = Some lease"
    by (auto simp: end_body_def outcome_simps split: option.splits)
  then show thesis using assms that [of cur lease]
    by (auto simp: end_body_def outcome_simps Let_def update_peer_iff split: if_splits)
qed

lemma deactivate_bodyE:
  assumes "deactivate_body e peer epoch aid ip d = Inr (g, d')"
  obtains cur where
    "lock_presence_peer peer d = Inr cur" "\<not> stale_activation cur epoch aid"
    "leases d' = end_open_leases (p_row_id cur) (now e) (leases d)"
    "peers d' = update_where (\<lambda>r. p_row_id r = p_row_id cur \<and> p_uuid r = p_uuid cur)
       (presence_updates (activated cur epoch aid True) ip (now e) 0 True False) (peers d)"
  using assms by (auto simp: deactivate_body_def outcome_simps Let_def update_peer_iff activated_def)

end
