(* ===== verification/PresenceProps.thy ===== *)
theory PresenceProps
  imports Presence
begin

text \<open>
  Properties of presence leases.  \<open>presence_inv\<close> is the invariant of the device and lease tables
  under the four operations, taken as the step relation \<open>presence_step\<close>; \<open>act_step\<close> is the
  abstract machine of a device's activation that the operations refine.
\<close>

section \<open>The transition system\<close>

inductive presence_step :: "(string \<Rightarrow> string) \<Rightarrow> db \<Rightarrow> db \<Rightarrow> bool" for sha where
  Start: "0 < now e \<Longrightarrow> presence_step sha d (snd (start_presence_lease e sha rnd peer epoch aid ip d))"
| Renew: "0 < now e \<Longrightarrow> presence_step sha d (snd (renew_presence_lease e sha peer epoch aid lid token ip d))"
| End: "0 < now e \<Longrightarrow> presence_step sha d (snd (end_presence_lease e sha peer epoch aid lid token ip d))"
| Deactivate: "0 < now e \<Longrightarrow> presence_step sha d (snd (deactivate_presence_activation e peer epoch aid ip d))"

text \<open>What the rows of one device promise; \<open>ls\<close> are the leases of all devices.\<close>

definition vouches :: "peer_row \<Rightarrow> lease_row \<Rightarrow> bool" where
  "vouches p l \<longleftrightarrow> ls_peer_row_id l = p_row_id p \<and> ls_network_uuid l = p_uuid p \<and>
     ls_epoch l = p_activation_epoch p \<and> ls_activation_id l = p_activation_id p \<and> ls_ended_at l = 0"

definition peer_ok :: "peer_row \<Rightarrow> lease_row set \<Rightarrow> bool" where
  "peer_ok p L \<longleftrightarrow>
     (p_activation_epoch p > 0 \<longrightarrow> p_activation_id p \<noteq> []) \<and>
     (\<forall>l \<in> L. ls_peer_row_id l = p_row_id p \<longrightarrow>
        ls_network_uuid l = p_uuid p \<and> 0 < ls_epoch l \<and> ls_epoch l \<le> p_activation_epoch p \<and>
        (ls_ended_at l = 0 \<longrightarrow> vouches p l \<and> \<not> p_activation_retired p)) \<and>
     (p_online_until p \<noteq> 0 \<longrightarrow> (\<exists>l \<in> L. vouches p l \<and> ls_expires_at l = p_online_until p))"

definition presence_inv :: "db \<Rightarrow> bool" where
  "presence_inv d \<longleftrightarrow>
     distinct (map p_row_id (peers d)) \<and> distinct (map ls_row_id (leases d)) \<and>
     (\<forall>p \<in> set (peers d). peer_ok p (set (leases d)))"

text \<open>A device table before any v2 report.\<close>

definition presence_init :: "db \<Rightarrow> bool" where
  "presence_init d \<longleftrightarrow> leases d = [] \<and> distinct (map p_row_id (peers d)) \<and>
     (\<forall>p \<in> set (peers d). p_activation_epoch p = 0 \<and> p_online_until p = 0)"

lemma presence_init_inv: "presence_init d \<Longrightarrow> presence_inv d"
  by (simp add: presence_init_def presence_inv_def peer_ok_def)

section \<open>The abstract activation machine\<close>

datatype activation = Activation (act_epoch: nat) (act_id: string) (act_retired: bool)

datatype act_event = Activate nat string | Retire nat string | Keep

text \<open>A newer epoch always wins; in the same epoch the identifier is fixed once it is set; a
  retired activation is final.\<close>

fun act_step :: "activation \<Rightarrow> act_event \<Rightarrow> activation option" where
  "act_step (Activation ep0 id0 r) (Activate ep i) =
     (if ep > ep0 \<or> ep = ep0 \<and> (id0 = [] \<or> id0 = i \<and> \<not> r) then Some (Activation ep i False)
      else None)"
| "act_step (Activation ep0 id0 r) (Retire ep i) =
     (if ep > ep0 \<or> ep = ep0 \<and> (id0 = [] \<or> id0 = i) then Some (Activation ep i True) else None)"
| "act_step a Keep = Some a"

definition abs_act :: "peer_row \<Rightarrow> activation" where
  "abs_act p = Activation (p_activation_epoch p) (p_activation_id p) (p_activation_retired p)"

definition act_next :: "activation \<Rightarrow> activation \<Rightarrow> bool" where
  "act_next a b \<longleftrightarrow> (\<exists>ev. act_step a ev = Some b \<and> (\<forall>ep. ev \<noteq> Activate ep [] \<and> ev \<noteq> Retire ep []))"

section \<open>Effect of the device update\<close>

lemma presence_updates_keep [simp]:
  "p_row_id (presence_updates c ip t until v2 touch r) = p_row_id r"
  "p_uuid (presence_updates c ip t until v2 touch r) = p_uuid r"
  "p_id (presence_updates c ip t until v2 touch r) = p_id r"
  "p_activation_epoch (presence_updates c ip t until v2 touch r) = p_activation_epoch c"
  "p_activation_id (presence_updates c ip t until v2 touch r) = p_activation_id c"
  "p_activation_retired (presence_updates c ip t until v2 touch r) = p_activation_retired c"
  "p_online_until (presence_updates c ip t until v2 touch r) = until"
  by (simp_all add: presence_updates_def Let_def)

lemma activated_keep [simp]:
  "p_row_id (activated c ep aid r) = p_row_id c" "p_uuid (activated c ep aid r) = p_uuid c"
  "p_activation_epoch (activated c ep aid r) = ep" "p_activation_id (activated c ep aid r) = aid"
  "p_activation_retired (activated c ep aid r) = r"
  by (simp_all add: activated_def)

text \<open>With unique row ids the update touches the locked row and no other.\<close>

lemma update_one_peer:
  assumes "distinct (map p_row_id t)" and "cur \<in> set t"
    and "p \<in> set (update_where (\<lambda>r. p_row_id r = p_row_id cur \<and> p_uuid r = p_uuid cur) f t)"
  shows "p = f cur \<or> (p \<in> set t \<and> p_row_id p \<noteq> p_row_id cur)"
proof -
  from assms(3) obtain r where r: "r \<in> set t"
    "p = (if p_row_id r = p_row_id cur \<and> p_uuid r = p_uuid cur then f r else r)"
    by (auto simp: set_update_where)
  show ?thesis
  proof (cases "p_row_id r = p_row_id cur")
    case True
    with assms(1,2) r(1) have "r = cur" by (metis key_unique)
    with r(2) show ?thesis by simp
  next
    case False
    with r show ?thesis by simp
  qed
qed

text \<open>A device only sees its own leases.\<close>

lemma peer_ok_own:
  assumes "\<And>l. ls_peer_row_id l = p_row_id p \<Longrightarrow> l \<in> L \<longleftrightarrow> l \<in> L'"
  shows "peer_ok p L = peer_ok p L'"
proof -
  have *: "(\<forall>l\<in>L. ls_peer_row_id l = p_row_id p \<longrightarrow> Q l) = (\<forall>l\<in>L'. ls_peer_row_id l = p_row_id p \<longrightarrow> Q l)" for Q
    using assms by blast
  have **: "(\<exists>l\<in>L. vouches p l \<and> Q l) = (\<exists>l\<in>L'. vouches p l \<and> Q l)" for Q
    using assms unfolding vouches_def by blast
  show ?thesis unfolding peer_ok_def * ** ..
qed

lemma presence_inv_update:
  assumes inv: "presence_inv d" and cur: "cur \<in> set (peers d)"
    and ps: "peers d' = update_where (\<lambda>r. p_row_id r = p_row_id cur \<and> p_uuid r = p_uuid cur) f (peers d)"
    and row: "\<And>r. p_row_id (f r) = p_row_id r"
    and ids: "distinct (map ls_row_id (leases d'))"
    and frame: "\<And>l. ls_peer_row_id l \<noteq> p_row_id cur \<Longrightarrow> l \<in> set (leases d') \<longleftrightarrow> l \<in> set (leases d)"
    and ok: "peer_ok (f cur) (set (leases d'))"
  shows "presence_inv d'"
  unfolding presence_inv_def
proof (intro conjI ballI)
  show "distinct (map p_row_id (peers d'))"
    using inv row by (simp add: ps map_update_where presence_inv_def)
  show "distinct (map ls_row_id (leases d'))" by (rule ids)
  fix p assume "p \<in> set (peers d')"
  then consider "p = f cur" | "p \<in> set (peers d)" "p_row_id p \<noteq> p_row_id cur"
    using update_one_peer inv cur unfolding ps presence_inv_def by blast
  then show "peer_ok p (set (leases d'))"
  proof cases
    case 1
    then show ?thesis using ok by simp
  next
    case 2
    then have "peer_ok p (set (leases d))" using inv by (simp add: presence_inv_def)
    then show ?thesis using peer_ok_own [of p "set (leases d')" "set (leases d)"] frame 2 by auto
  qed
qed

lemma foldl_max_in: "foldl max (x::int) xs \<in> set (x # xs)"
proof (induction xs arbitrary: x)
  case (Cons y ys)
  show ?case using Cons.IH [of "max x y"] by (auto simp: max_def split: if_splits)
qed simp

lemma foldl_max_ge: "y \<in> set (x # xs) \<Longrightarrow> y \<le> foldl max (x::int) xs"
proof (induction xs arbitrary: x y)
  case (Cons z zs)
  have "max x z \<le> foldl max (max x z) zs" using Cons.IH [of "max x z" "max x z"] by simp
  then show ?case using Cons.IH [of y "max x z"] Cons.prems by auto
qed simp

lemma active_until_ge: "l \<in> set ls \<Longrightarrow> active_lease p t l \<Longrightarrow> ls_expires_at l \<le> active_presence_until ls p t"
proof -
  assume l: "l \<in> set ls" "active_lease p t l"
  then have "ls_expires_at l \<in> set (map ls_expires_at (filter (active_lease p t) ls))" by simp
  then show ?thesis
    unfolding active_presence_until_def
    by (cases "map ls_expires_at (filter (active_lease p t) ls)") (auto intro: foldl_max_ge)
qed

lemma active_until_cases:
  "active_presence_until ls p t = 0 \<or>
     (\<exists>l \<in> set ls. active_lease p t l \<and> ls_expires_at l = active_presence_until ls p t)"
proof (cases "map ls_expires_at (filter (active_lease p t) ls)")
  case Nil
  then show ?thesis by (simp add: active_presence_until_def)
next
  case (Cons x xs)
  then have "active_presence_until ls p t \<in> set (map ls_expires_at (filter (active_lease p t) ls))"
    using foldl_max_in [of x xs] by (simp add: active_presence_until_def)
  then show ?thesis by auto
qed

lemma active_lease_vouches: "active_lease p t l \<longleftrightarrow> vouches p l \<and> ls_expires_at l > t"
  by (auto simp: active_lease_def vouches_def)

lemma vouches_cong:
  "p_row_id p = p_row_id q \<Longrightarrow> p_uuid p = p_uuid q \<Longrightarrow> p_activation_epoch p = p_activation_epoch q \<Longrightarrow>
   p_activation_id p = p_activation_id q \<Longrightarrow> vouches p l = vouches q l"
  by (simp add: vouches_def)

section \<open>Each operation preserves the invariant\<close>

lemma set_end_open:
  "l \<in> set (end_open_leases i t ls) \<longleftrightarrow>
     (\<exists>l0 \<in> set ls. l = (if ls_peer_row_id l0 = i \<and> ls_ended_at l0 = 0 then l0\<lparr>ls_ended_at := t\<rparr> else l0))"
  by (simp only: end_open_leases_def set_update_where image_iff)

lemma end_open_ids [simp]: "map ls_row_id (end_open_leases i t ls) = map ls_row_id ls"
  by (simp add: end_open_leases_def map_update_where)

lemma end_open_frame: "ls_peer_row_id l \<noteq> i \<Longrightarrow> l \<in> set (end_open_leases i t ls) \<longleftrightarrow> l \<in> set ls"
proof
  assume l: "l \<in> set (end_open_leases i t ls)" and "ls_peer_row_id l \<noteq> i"
  then show "l \<in> set ls" by (auto simp: set_end_open split: if_splits)
next
  assume "l \<in> set ls" and "ls_peer_row_id l \<noteq> i"
  then show "l \<in> set (end_open_leases i t ls)" unfolding set_end_open by (intro bexI [of _ l]) auto
qed

lemma end_open_own:
  assumes "l \<in> set (end_open_leases i t ls)" and "ls_peer_row_id l = i" and "t \<noteq> 0"
  obtains l0 where "l0 \<in> set ls" "ls_peer_row_id l0 = i" "ls_ended_at l \<noteq> 0"
    "ls_network_uuid l = ls_network_uuid l0" "ls_epoch l = ls_epoch l0" "ls_activation_id l = ls_activation_id l0"
proof -
  from assms(1) obtain l0 where l0: "l0 \<in> set ls"
    "l = (if ls_peer_row_id l0 = i \<and> ls_ended_at l0 = 0 then l0\<lparr>ls_ended_at := t\<rparr> else l0)"
    unfolding set_end_open by blast
  with assms(2,3) show thesis by (intro that [of l0]) (auto split: if_splits)
qed

lemma peer_okI:
  assumes "p_activation_epoch p > 0 \<Longrightarrow> p_activation_id p \<noteq> []"
    and "\<And>l. l \<in> L \<Longrightarrow> ls_peer_row_id l = p_row_id p \<Longrightarrow>
        ls_network_uuid l = p_uuid p \<and> 0 < ls_epoch l \<and> ls_epoch l \<le> p_activation_epoch p \<and>
        (ls_ended_at l = 0 \<longrightarrow> vouches p l \<and> \<not> p_activation_retired p)"
    and "p_online_until p = 0 \<or> (\<exists>l \<in> L. vouches p l \<and> ls_expires_at l = p_online_until p)"
  shows "peer_ok p L"
  using assms unfolding peer_ok_def by blast

lemma peer_okD:
  assumes "peer_ok p L"
  shows "p_activation_epoch p > 0 \<Longrightarrow> p_activation_id p \<noteq> []"
    and "l \<in> L \<Longrightarrow> ls_peer_row_id l = p_row_id p \<Longrightarrow> ls_network_uuid l = p_uuid p"
    and "l \<in> L \<Longrightarrow> ls_peer_row_id l = p_row_id p \<Longrightarrow> 0 < ls_epoch l \<and> ls_epoch l \<le> p_activation_epoch p"
    and "l \<in> L \<Longrightarrow> ls_peer_row_id l = p_row_id p \<Longrightarrow> ls_ended_at l = 0 \<Longrightarrow>
           vouches p l \<and> \<not> p_activation_retired p"
  using assms by (simp_all add: peer_ok_def)

lemma until_vouched:
  assumes "\<And>l. vouches p l = vouches q l"
  shows "active_presence_until ls q t = 0 \<or>
    (\<exists>l \<in> set ls. vouches p l \<and> ls_expires_at l = active_presence_until ls q t)"
  using active_until_cases [of ls q t] assms by (auto simp: active_lease_vouches)

lemma presence_invD:
  assumes "presence_inv d" and "lock_presence_peer peer d = Inr cur"
  shows "cur \<in> set (peers d)" "peer_ok cur (set (leases d))"
    "distinct (map p_row_id (peers d))" "distinct (map ls_row_id (leases d))"
  using assms lock_peerD [of peer d cur] by (auto simp: presence_inv_def)

lemma start_body_inv:
  assumes inv: "presence_inv d" and t: "0 < now e" and v: "validate_presence_activation epoch aid = Inr u"
    and "start_body e peer epoch aid lid token th ip d = Inr (g, d')"
  shows "presence_inv d'"
  using assms(4)
proof (rule start_bodyE)
  fix cur ls1
  assume lock: "lock_presence_peer peer d = Inr cur" and fresh: "\<not> stale_activation cur epoch aid"
    and nret: "\<not> (p_activation_epoch cur = epoch \<and> p_activation_id cur = aid \<and> p_activation_retired cur)"
    and ls1: "ls1 = (if epoch > p_activation_epoch cur then end_open_leases (p_row_id cur) (now e) (leases d) else leases d)"
    and ls: "leases d' = ls1 @ [new_lease e cur epoch aid lid th ip ls1]"
    and ps: "peers d' = update_where (\<lambda>r. p_row_id r = p_row_id cur \<and> p_uuid r = p_uuid cur)
       (presence_updates (activated cur epoch aid False) ip (now e) (gr_online_until g) True True) (peers d)"
    and un: "gr_online_until g = active_presence_until (leases d') (activated cur epoch aid False) (now e)"
  note D = presence_invD [OF inv lock]
  note P = peer_okD [OF D(2)]
  from v have ne: "aid \<noteq> []" "0 < epoch" using validate_activation_nonempty by blast+
  let ?f = "presence_updates (activated cur epoch aid False) ip (now e) (gr_online_until g) True True"
  let ?new = "new_lease e cur epoch aid lid th ip ls1"
  have nl: "ls_peer_row_id ?new = p_row_id cur" "ls_network_uuid ?new = p_uuid cur" "ls_epoch ?new = epoch"
    "ls_activation_id ?new = aid" "ls_ended_at ?new = 0" "ls_row_id ?new = next_id ls_row_id ls1"
    by (simp_all add: new_lease_def)
  have old: "ls_network_uuid l = p_uuid cur \<and> 0 < ls_epoch l \<and> ls_epoch l \<le> epoch \<and>
      (ls_ended_at l = 0 \<longrightarrow> ls_epoch l = epoch \<and> ls_activation_id l = aid)"
    if l: "l \<in> set ls1" "ls_peer_row_id l = p_row_id cur" for l
  proof (cases "epoch > p_activation_epoch cur")
    case True
    with l ls1 t show ?thesis
      by (auto elim!: end_open_own dest: P(2,3) simp: less_imp_le)
  next
    case False
    with fresh nret have eq: "p_activation_epoch cur = epoch" by (simp add: stale_activation_def)
    with ne P(1) fresh have "p_activation_id cur = aid" by (auto simp: stale_activation_def)
    then show ?thesis using False l ls1 eq P(2-4) [of l] by (auto simp: vouches_def)
  qed
  show ?thesis
  proof (rule presence_inv_update [OF inv D(1) ps])
    show "distinct (map ls_row_id (leases d'))"
    proof -
      have "distinct (map ls_row_id ls1)" using D(4) by (simp add: ls1)
      then show ?thesis using next_id_notin [of ls_row_id ls1] by (simp add: ls nl)
    qed
    show "l \<in> set (leases d') \<longleftrightarrow> l \<in> set (leases d)" if "ls_peer_row_id l \<noteq> p_row_id cur" for l
      using that end_open_frame [of l "p_row_id cur"] nl(1) by (auto simp: ls ls1)
    show "peer_ok (?f cur) (set (leases d'))"
    proof (rule peer_okI)
      show "p_online_until (?f cur) = 0 \<or>
          (\<exists>l\<in>set (leases d'). vouches (?f cur) l \<and> ls_expires_at l = p_online_until (?f cur))"
        using until_vouched [of "?f cur" "activated cur epoch aid False" "leases d'" "now e"]
        by (simp add: vouches_def un)
      show "ls_network_uuid l = p_uuid (?f cur) \<and> 0 < ls_epoch l \<and> ls_epoch l \<le> p_activation_epoch (?f cur) \<and>
          (ls_ended_at l = 0 \<longrightarrow> vouches (?f cur) l \<and> \<not> p_activation_retired (?f cur))"
        if "l \<in> set (leases d')" "ls_peer_row_id l = p_row_id (?f cur)" for l
        using that old [of l] nl ne by (auto simp: ls vouches_def)
    qed (simp add: ne)
  qed simp
qed

lemma set_update_one_lease:
  assumes ids: "distinct (map ls_row_id ls)" and lease: "lease \<in> set ls"
    and M: "\<And>l. M l \<Longrightarrow> ls_row_id l = ls_row_id lease"
  shows "l \<in> set (update_where M f ls) \<longleftrightarrow>
     l = (if M lease then f lease else lease) \<or> (l \<in> set ls \<and> ls_row_id l \<noteq> ls_row_id lease)"
proof -
  have uniq: "l0 = lease" if "l0 \<in> set ls" "ls_row_id l0 = ls_row_id lease" for l0
    using key_unique [OF ids that(1) lease that(2)] .
  show ?thesis
  proof
    assume "l \<in> set (update_where M f ls)"
    then obtain l0 where l0: "l0 \<in> set ls" "l = (if M l0 then f l0 else l0)"
      unfolding set_update_where image_iff by blast
    show "l = (if M lease then f lease else lease) \<or> (l \<in> set ls \<and> ls_row_id l \<noteq> ls_row_id lease)"
    proof (cases "ls_row_id l0 = ls_row_id lease")
      case True
      then have "l0 = lease" using uniq l0(1) by blast
      then show ?thesis using l0(2) by blast
    next
      case False
      then have "\<not> M l0" using M by blast
      then show ?thesis using l0 False by simp
    qed
  next
    assume "l = (if M lease then f lease else lease) \<or> (l \<in> set ls \<and> ls_row_id l \<noteq> ls_row_id lease)"
    then show "l \<in> set (update_where M f ls)"
      unfolding set_update_where image_iff
    proof
      assume "l = (if M lease then f lease else lease)"
      then show "\<exists>x\<in>set ls. l = (if M x then f x else x)" using lease by blast
    next
      assume *: "l \<in> set ls \<and> ls_row_id l \<noteq> ls_row_id lease"
      then have "\<not> M l" using M by auto
      with * show "\<exists>x\<in>set ls. l = (if M x then f x else x)" by (intro bexI [of _ l]) auto
    qed
  qed
qed

text \<open>A change of one own lease that keeps its identity, with the device's activation unchanged.\<close>

lemma one_lease_inv:
  assumes inv: "presence_inv d" and lock: "lock_presence_peer peer d = Inr cur"
    and lease: "lease \<in> set (leases d)" "ls_peer_row_id lease = p_row_id cur"
    and M: "\<And>l. M l \<Longrightarrow> ls_row_id l = ls_row_id lease"
    and f: "\<And>l. ls_row_id (f l) = ls_row_id l \<and> ls_peer_row_id (f l) = ls_peer_row_id l \<and>
              ls_network_uuid (f l) = ls_network_uuid l \<and> ls_epoch (f l) = ls_epoch l \<and>
              ls_activation_id (f l) = ls_activation_id l \<and> (ls_ended_at (f l) = 0 \<longrightarrow> ls_ended_at l = 0)"
    and ls: "leases d' = update_where M f (leases d)"
    and ps: "peers d' = update_where (\<lambda>r. p_row_id r = p_row_id cur \<and> p_uuid r = p_uuid cur)
       (presence_updates cur ip t (active_presence_until (leases d') cur t) v2 touch) (peers d)"
  shows "presence_inv d'"
proof -
  note D = presence_invD [OF inv lock]
  note P = peer_okD [OF D(2)]
  let ?until = "active_presence_until (leases d') cur t"
  let ?f = "presence_updates cur ip t ?until v2 touch"
  have upd: "l \<in> set (leases d') \<longleftrightarrow>
      l = (if M lease then f lease else lease) \<or> (l \<in> set (leases d) \<and> ls_row_id l \<noteq> ls_row_id lease)" for l
    unfolding ls by (rule set_update_one_lease [OF D(4) lease(1) M])
  have own: "ls_network_uuid l = p_uuid cur \<and> 0 < ls_epoch l \<and> ls_epoch l \<le> p_activation_epoch cur \<and>
      (ls_ended_at l = 0 \<longrightarrow> vouches cur l \<and> \<not> p_activation_retired cur)"
    if l: "l \<in> set (leases d')" "ls_peer_row_id l = p_row_id cur" for l
  proof -
    from l(1) obtain l0 where l0: "l0 \<in> set (leases d)" "l = l0 \<or> l = f l0"
      using lease(1) unfolding upd by (auto split: if_splits)
    have "ls_peer_row_id l0 = p_row_id cur" using l0(2) l(2) f [of l0] by auto
    then show ?thesis using P(2-4) [OF l0(1)] l0(2) f [of l0] by (auto simp: vouches_def)
  qed
  show ?thesis
  proof (rule presence_inv_update [OF inv D(1) ps])
    show "distinct (map ls_row_id (leases d'))"
      using D(4) f by (simp add: ls map_update_where)
    show "l \<in> set (leases d') \<longleftrightarrow> l \<in> set (leases d)" if "ls_peer_row_id l \<noteq> p_row_id cur" for l
    proof -
      have "l \<noteq> lease" "l \<noteq> f lease" using that lease(2) f [of lease] by auto
      moreover have "ls_row_id l \<noteq> ls_row_id lease" if "l \<in> set (leases d)"
        using key_unique [OF D(4) that lease(1)] \<open>l \<noteq> lease\<close> by blast
      ultimately show ?thesis unfolding upd by auto
    qed
    show "peer_ok (?f cur) (set (leases d'))"
    proof (rule peer_okI)
      show "p_activation_epoch (?f cur) > 0 \<Longrightarrow> p_activation_id (?f cur) \<noteq> []" using P(1) by simp
      show "p_online_until (?f cur) = 0 \<or>
          (\<exists>l\<in>set (leases d'). vouches (?f cur) l \<and> ls_expires_at l = p_online_until (?f cur))"
        using until_vouched [of "?f cur" cur "leases d'" t] by (simp add: vouches_def)
      show "ls_network_uuid l = p_uuid (?f cur) \<and> 0 < ls_epoch l \<and> ls_epoch l \<le> p_activation_epoch (?f cur) \<and>
          (ls_ended_at l = 0 \<longrightarrow> vouches (?f cur) l \<and> \<not> p_activation_retired (?f cur))"
        if "l \<in> set (leases d')" "ls_peer_row_id l = p_row_id (?f cur)" for l
        using that own [of l] by (auto simp: vouches_def)
    qed
  qed simp
qed

lemma query_own: "find (presence_lease_query sha cur ep aid lid token) ls = Some lease \<Longrightarrow>
    lease \<in> set ls \<and> ls_peer_row_id lease = p_row_id cur \<and> ls_network_uuid lease = p_uuid cur \<and>
    ls_epoch lease = ep \<and> ls_activation_id lease = aid \<and> ls_token_hash lease = sha token \<and>
    (lid \<noteq> [] \<longrightarrow> ls_lease_id lease = lid)"
  using find_SomeD [of "presence_lease_query sha cur ep aid lid token" ls lease]
  by (simp add: presence_lease_query_def)

lemma renew_body_inv:
  assumes "presence_inv d" "renew_body e sha peer epoch aid lid token ip d = Inr (g, d')"
  shows "presence_inv d'"
  using assms(2)
proof (rule renew_bodyE)
  fix cur lease
  assume *: "lock_presence_peer peer d = Inr cur"
    "find (presence_lease_query sha cur epoch aid lid token) (leases d) = Some lease"
    "leases d' = update_where (\<lambda>l. ls_row_id l = ls_row_id lease \<and> ls_ended_at l = 0 \<and> ls_expires_at l > now e)
       (\<lambda>l. l\<lparr>ls_renewed_at := now e, ls_expires_at := now e + PresenceLeaseTTL, ls_last_online_ip := ip\<rparr>) (leases d)"
    "gr_online_until g = active_presence_until (leases d') cur (now e)"
    "peers d' = update_where (\<lambda>r. p_row_id r = p_row_id cur \<and> p_uuid r = p_uuid cur)
       (presence_updates cur ip (now e) (gr_online_until g) True True) (peers d)"
  show ?thesis
    by (rule one_lease_inv [OF assms(1) *(1) _ _ _ _ *(3) *(5) [unfolded *(4)]])
      (use query_own [OF *(2)] in simp_all)
qed

lemma end_body_inv:
  assumes "presence_inv d" "0 < now e" "end_body e sha peer epoch aid lid token ip d = Inr (g, d')"
  shows "presence_inv d'"
  using assms(3)
proof (rule end_bodyE)
  fix cur lease
  assume *: "lock_presence_peer peer d = Inr cur"
    "find (presence_lease_query sha cur epoch aid lid token) (leases d) = Some lease"
    and ls: "leases d' = (if ls_ended_at lease = 0
       then update_where (\<lambda>l. ls_row_id l = ls_row_id lease \<and> ls_ended_at l = 0)
              (\<lambda>l. l\<lparr>ls_ended_at := now e\<rparr>) (leases d) else leases d)"
    and un: "gr_online_until g = active_presence_until (leases d') cur (now e)"
    and ps: "peers d' = update_where (\<lambda>r. p_row_id r = p_row_id cur \<and> p_uuid r = p_uuid cur)
       (presence_updates cur ip (now e) (gr_online_until g)
          (p_activation_epoch cur = epoch \<and> p_activation_id cur = aid) False) (peers d)"
  have l: "leases d' = update_where (\<lambda>l. ls_row_id l = ls_row_id lease \<and> ls_ended_at l = 0 \<and> ls_ended_at lease = 0)
              (\<lambda>l. l\<lparr>ls_ended_at := now e\<rparr>) (leases d)"
    unfolding ls by (simp add: update_where_id)
  show ?thesis
    by (rule one_lease_inv [OF assms(1) *(1) _ _ _ _ l ps [unfolded un]])
      (use query_own [OF *(2)] assms(2) in simp_all)
qed

lemma deactivate_body_inv:
  assumes inv: "presence_inv d" and t: "0 < now e" and v: "validate_presence_activation epoch aid = Inr u"
    and "deactivate_body e peer epoch aid ip d = Inr (g, d')"
  shows "presence_inv d'"
  using assms(4)
proof (rule deactivate_bodyE)
  fix cur
  assume lock: "lock_presence_peer peer d = Inr cur" and fresh: "\<not> stale_activation cur epoch aid"
    and ls: "leases d' = end_open_leases (p_row_id cur) (now e) (leases d)"
    and ps: "peers d' = update_where (\<lambda>r. p_row_id r = p_row_id cur \<and> p_uuid r = p_uuid cur)
       (presence_updates (activated cur epoch aid True) ip (now e) 0 True False) (peers d)"
  note D = presence_invD [OF inv lock]
  note P = peer_okD [OF D(2)]
  from v have ne: "aid \<noteq> []" "0 < epoch" using validate_activation_nonempty by blast+
  let ?f = "presence_updates (activated cur epoch aid True) ip (now e) 0 True False"
  have le: "p_activation_epoch cur \<le> epoch" using fresh by (auto simp: stale_activation_def)
  show ?thesis
  proof (rule presence_inv_update [OF inv D(1) ps])
    show "distinct (map ls_row_id (leases d'))" using D(4) by (simp add: ls)
    show "l \<in> set (leases d') \<longleftrightarrow> l \<in> set (leases d)" if "ls_peer_row_id l \<noteq> p_row_id cur" for l
      using end_open_frame [OF that] by (simp add: ls)
    show "peer_ok (?f cur) (set (leases d'))"
    proof (rule peer_okI)
      fix l assume "l \<in> set (leases d')" "ls_peer_row_id l = p_row_id (?f cur)"
      then obtain l0 where "l0 \<in> set (leases d)" "ls_peer_row_id l0 = p_row_id cur" "ls_ended_at l \<noteq> 0"
        "ls_network_uuid l = ls_network_uuid l0" "ls_epoch l = ls_epoch l0"
        using end_open_own [of l "p_row_id cur" "now e" "leases d"] t unfolding ls by auto
      then show "ls_network_uuid l = p_uuid (?f cur) \<and> 0 < ls_epoch l \<and> ls_epoch l \<le> p_activation_epoch (?f cur) \<and>
          (ls_ended_at l = 0 \<longrightarrow> vouches (?f cur) l \<and> \<not> p_activation_retired (?f cur))"
        using P(2,3) [of l0] le by auto
    qed (simp_all add: ne)
  qed simp
qed

section \<open>Steps, inverted\<close>

text \<open>An operation either leaves the database alone or commits its body.\<close>

lemma start_presence_leaseE:
  assumes "start_presence_lease e sha rnd peer epoch aid ip d = (r, d')"
  obtains (fails) er where "r = Inl er" "d' = d"
  | (commits) p lid token g where "peer = Some p" "r = Inr g" "validate_presence_activation epoch aid = Inr ()"
      "new_presence_lease_credentials rnd = Inr (lid, token)"
      "start_body e p epoch aid lid token (sha token) ip d = Inr (g, d')"
proof (cases r)
  case (Inl er)
  then have "d' = d"
    using assms transaction_Inl_state
    by (fastforce simp: start_presence_lease_def split: option.splits if_splits sum.splits prod.splits)
  with Inl show thesis by (rule fails)
next
  case (Inr g)
  with assms show thesis
    by (auto simp: start_presence_lease_def outcome_simps split: option.splits if_splits sum.splits prod.splits
        intro: commits)
qed

lemma renew_presence_leaseE:
  assumes "renew_presence_lease e sha peer epoch aid lid token ip d = (r, d')"
  obtains (fails) er where "r = Inl er" "d' = d"
  | (commits) p g where "peer = Some p" "r = Inr g" "renew_body e sha p epoch aid lid token ip d = Inr (g, d')"
proof (cases r)
  case (Inl er)
  then have "d' = d"
    using assms transaction_Inl_state by (fastforce simp: renew_presence_lease_def split: sum.splits)
  with Inl show thesis by (rule fails)
next
  case (Inr g)
  with assms show thesis
    by (auto simp: renew_presence_lease_def lease_request_ok_def outcome_simps split: sum.splits option.splits
        intro: commits)
qed

lemma end_presence_leaseE:
  assumes "end_presence_lease e sha peer epoch aid lid token ip d = (r, d')"
  obtains (fails) er where "r = Inl er" "d' = d"
  | (commits) p g where "peer = Some p" "r = Inr g" "end_body e sha p epoch aid lid token ip d = Inr (g, d')"
proof (cases r)
  case (Inl er)
  then have "d' = d"
    using assms transaction_Inl_state by (fastforce simp: end_presence_lease_def split: sum.splits)
  with Inl show thesis by (rule fails)
next
  case (Inr g)
  with assms show thesis
    by (auto simp: end_presence_lease_def lease_request_ok_def outcome_simps split: sum.splits option.splits
        intro: commits)
qed

lemma deactivate_presence_activationE:
  assumes "deactivate_presence_activation e peer epoch aid ip d = (r, d')"
  obtains (fails) er where "r = Inl er" "d' = d"
  | (commits) p g where "peer = Some p" "r = Inr g" "validate_presence_activation epoch aid = Inr ()"
      "deactivate_body e p epoch aid ip d = Inr (g, d')"
proof (cases r)
  case (Inl er)
  then have "d' = d"
    using assms transaction_Inl_state
    by (fastforce simp: deactivate_presence_activation_def split: option.splits if_splits sum.splits)
  with Inl show thesis by (rule fails)
next
  case (Inr g)
  with assms show thesis
    by (auto simp: deactivate_presence_activation_def outcome_simps split: option.splits if_splits sum.splits
        intro: commits)
qed

lemma presence_step_inv: "presence_step sha d d' \<Longrightarrow> presence_inv d \<Longrightarrow> presence_inv d'"
proof (induction rule: presence_step.induct)
  case (Start e d rnd peer epoch aid ip)
  obtain r d' where eq: "start_presence_lease e sha rnd peer epoch aid ip d = (r, d')" by fastforce
  then have "presence_inv d'" by (cases rule: start_presence_leaseE) (use Start start_body_inv in auto)
  then show ?case by (simp add: eq)
next
  case (Renew e d peer epoch aid lid token ip)
  obtain r d' where eq: "renew_presence_lease e sha peer epoch aid lid token ip d = (r, d')" by fastforce
  then have "presence_inv d'" by (cases rule: renew_presence_leaseE) (use Renew renew_body_inv in auto)
  then show ?case by (simp add: eq)
next
  case (End e d peer epoch aid lid token ip)
  obtain r d' where eq: "end_presence_lease e sha peer epoch aid lid token ip d = (r, d')" by fastforce
  then have "presence_inv d'" by (cases rule: end_presence_leaseE) (use End end_body_inv in auto)
  then show ?case by (simp add: eq)
next
  case (Deactivate e d peer epoch aid ip)
  obtain r d' where eq: "deactivate_presence_activation e peer epoch aid ip d = (r, d')" by fastforce
  then have "presence_inv d'" by (cases rule: deactivate_presence_activationE) (use Deactivate deactivate_body_inv in auto)
  then show ?case by (simp add: eq)
qed

lemma presence_steps_inv: "(presence_step sha)\<^sup>*\<^sup>* d d' \<Longrightarrow> presence_inv d \<Longrightarrow> presence_inv d'"
  by (induction rule: rtranclp_induct) (auto intro: presence_step_inv)

section \<open>Refinement of the activation machine\<close>

lemma act_next_refl [simp]: "act_next a a"
  unfolding act_next_def by (rule exI [of _ Keep]) simp

lemma act_next_update:
  assumes ids: "distinct (map p_row_id (peers d))" and cur: "cur \<in> set (peers d)"
    and ps: "peers d' = update_where (\<lambda>r. p_row_id r = p_row_id cur \<and> p_uuid r = p_uuid cur) f (peers d)"
    and row: "p_row_id (f cur) = p_row_id cur"
    and st: "act_next (abs_act cur) (abs_act (f cur))" and p: "p \<in> set (peers d)"
  shows "\<exists>p' \<in> set (peers d'). p_row_id p' = p_row_id p \<and> act_next (abs_act p) (abs_act p')"
proof (cases "p_row_id p = p_row_id cur")
  case True
  then have "p = cur" using key_unique [OF ids p cur] by blast
  moreover have "f cur \<in> set (peers d')" using cur unfolding ps set_update_where by force
  ultimately show ?thesis using row st by auto
next
  case False
  then have "p \<in> set (peers d')" using p unfolding ps set_update_where by force
  then show ?thesis by (intro bexI [of _ p]) simp_all
qed

lemma act_stepI: "act_step a ev = Some b \<Longrightarrow> \<forall>ep. ev \<noteq> Activate ep [] \<and> ev \<noteq> Retire ep [] \<Longrightarrow> act_next a b"
  unfolding act_next_def by blast

lemma abs_act_updates: "abs_act (presence_updates c ip t until v2 touch r) = abs_act c"
  by (simp add: abs_act_def)

definition rows_kept :: "db \<Rightarrow> db \<Rightarrow> bool" where
  "rows_kept d d' \<longleftrightarrow> map p_row_id (peers d') = map p_row_id (peers d) \<and>
     (\<forall>p \<in> set (peers d). \<exists>p' \<in> set (peers d'). p_row_id p' = p_row_id p \<and> act_next (abs_act p) (abs_act p'))"

lemma rows_kept_refl [simp]: "rows_kept d d"
  unfolding rows_kept_def using act_next_refl by blast

lemma act_update:
  assumes "distinct (map p_row_id (peers d))" "lock_presence_peer peer d = Inr cur"
    and "peers d' = update_where (\<lambda>r. p_row_id r = p_row_id cur \<and> p_uuid r = p_uuid cur)
       (presence_updates c ip t until v2 touch) (peers d)"
    and "act_next (abs_act cur) (abs_act c)"
  shows "rows_kept d d'"
proof -
  have cur: "cur \<in> set (peers d)" using lock_peerD [OF assms(2)] by simp
  show ?thesis unfolding rows_kept_def
    using act_next_update [OF assms(1) cur assms(3)] assms(4) by (simp add: abs_act_updates assms(3) map_update_where)
qed

text \<open>Only the device ids have to be unique for this: nothing is asked of the leases.\<close>

lemma presence_step_rows:
  assumes "presence_step sha d d'" and "distinct (map p_row_id (peers d))"
  shows "rows_kept d d'"
  using assms
proof (induction rule: presence_step.induct)
  case (Start e d rnd peer epoch aid ip)
  obtain r d' where eq: "start_presence_lease e sha rnd peer epoch aid ip d = (r, d')" by fastforce
  then show ?case
  proof (cases rule: start_presence_leaseE)
    case (commits pr lid token g)
    then have ne: "aid \<noteq> []" using validate_activation_nonempty by blast
    from commits(5) show ?thesis
    proof (rule start_bodyE)
      fix cur ls1
      assume lock: "lock_presence_peer pr d = Inr cur" and fresh: "\<not> stale_activation cur epoch aid"
        and nret: "\<not> (p_activation_epoch cur = epoch \<and> p_activation_id cur = aid \<and> p_activation_retired cur)"
        and ps: "peers d' = update_where (\<lambda>r. p_row_id r = p_row_id cur \<and> p_uuid r = p_uuid cur)
          (presence_updates (activated cur epoch aid False) ip (now e) (gr_online_until g) True True) (peers d)"
      have "act_next (abs_act cur) (abs_act (activated cur epoch aid False))"
        by (rule act_stepI [of _ "Activate epoch aid"])
          (use fresh nret ne in \<open>auto simp: abs_act_def stale_activation_def\<close>)
      then show ?thesis using act_update [OF Start(2) lock ps] by (simp add: eq)
    qed
  qed (use eq Start in auto)
next
  case (Renew e d peer epoch aid lid token ip)
  obtain r d' where eq: "renew_presence_lease e sha peer epoch aid lid token ip d = (r, d')" by fastforce
  then show ?case
  proof (cases rule: renew_presence_leaseE)
    case (commits pr g)
    from commits(3) show ?thesis
    proof (rule renew_bodyE)
      fix cur
      assume lock: "lock_presence_peer pr d = Inr cur"
        and ps: "peers d' = update_where (\<lambda>r. p_row_id r = p_row_id cur \<and> p_uuid r = p_uuid cur)
          (presence_updates cur ip (now e) (gr_online_until g) True True) (peers d)"
      from act_update [OF Renew(2) lock ps act_next_refl] show ?thesis by (simp add: eq)
    qed
  qed (use eq Renew in auto)
next
  case (End e d peer epoch aid lid token ip)
  obtain r d' where eq: "end_presence_lease e sha peer epoch aid lid token ip d = (r, d')" by fastforce
  then show ?case
  proof (cases rule: end_presence_leaseE)
    case (commits pr g)
    from commits(3) show ?thesis
    proof (rule end_bodyE)
      fix cur
      assume lock: "lock_presence_peer pr d = Inr cur"
        and ps: "peers d' = update_where (\<lambda>r. p_row_id r = p_row_id cur \<and> p_uuid r = p_uuid cur)
          (presence_updates cur ip (now e) (gr_online_until g) (p_activation_epoch cur = epoch \<and> p_activation_id cur = aid) False) (peers d)"
      from act_update [OF End(2) lock ps act_next_refl] show ?thesis by (simp add: eq)
    qed
  qed (use eq End in auto)
next
  case (Deactivate e d peer epoch aid ip)
  obtain r d' where eq: "deactivate_presence_activation e peer epoch aid ip d = (r, d')" by fastforce
  then show ?case
  proof (cases rule: deactivate_presence_activationE)
    case (commits pr g)
    then have ne: "aid \<noteq> []" using validate_activation_nonempty by blast
    from commits(4) show ?thesis
    proof (rule deactivate_bodyE)
      fix cur
      assume lock: "lock_presence_peer pr d = Inr cur" and fresh: "\<not> stale_activation cur epoch aid"
        and ps: "peers d' = update_where (\<lambda>r. p_row_id r = p_row_id cur \<and> p_uuid r = p_uuid cur)
          (presence_updates (activated cur epoch aid True) ip (now e) 0 True False) (peers d)"
      have "act_next (abs_act cur) (abs_act (activated cur epoch aid True))"
        by (rule act_stepI [of _ "Retire epoch aid"])
          (use fresh ne in \<open>auto simp: abs_act_def stale_activation_def\<close>)
      then show ?thesis using act_update [OF Deactivate(2) lock ps] by (simp add: eq)
    qed
  qed (use eq Deactivate in auto)
qed

lemma presence_step_act:
  assumes "presence_step sha d d'" and "presence_inv d" and "p \<in> set (peers d)"
  shows "\<exists>p' \<in> set (peers d'). p_row_id p' = p_row_id p \<and> act_next (abs_act p) (abs_act p')"
  using presence_step_rows [OF assms(1)] assms(2,3) by (simp add: rows_kept_def presence_inv_def)

definition act_le :: "activation \<Rightarrow> activation \<Rightarrow> bool" where
  "act_le a b \<longleftrightarrow> act_epoch a \<le> act_epoch b \<and>
     (act_epoch a = act_epoch b \<and> act_id a \<noteq> [] \<longrightarrow> act_id b = act_id a \<and> (act_retired a \<longrightarrow> act_retired b))"

lemma act_next_le: "act_next a b \<Longrightarrow> act_le a b"
proof -
  assume "act_next a b"
  then obtain ev where "act_step a ev = Some b" unfolding act_next_def by blast
  then show ?thesis
    by (cases "(a, ev)" rule: act_step.cases) (auto simp: act_le_def split: if_splits)
qed

lemma act_le_trans: "act_le a b \<Longrightarrow> act_le b c \<Longrightarrow> act_le a c"
  by (auto simp: act_le_def)

lemma act_le_refl [simp]: "act_le a a"
  by (simp add: act_le_def)

lemma presence_steps_act:
  "(presence_step sha)\<^sup>*\<^sup>* d d' \<Longrightarrow> presence_inv d \<Longrightarrow> p \<in> set (peers d) \<Longrightarrow>
     \<exists>p' \<in> set (peers d'). p_row_id p' = p_row_id p \<and> act_next\<^sup>*\<^sup>* (abs_act p) (abs_act p')"
proof (induction rule: rtranclp_induct)
  case (step d1 d2)
  then obtain p1 where p1: "p1 \<in> set (peers d1)" "p_row_id p1 = p_row_id p" "act_next\<^sup>*\<^sup>* (abs_act p) (abs_act p1)"
    by blast
  from step have "presence_inv d1" using presence_steps_inv by blast
  from presence_step_act [OF step(2) this p1(1)] obtain p2 where
    "p2 \<in> set (peers d2)" "p_row_id p2 = p_row_id p1" "act_next (abs_act p1) (abs_act p2)" by blast
  with p1 show ?case by (intro bexI [of _ p2]) auto
qed blast

lemma act_nexts_le: "act_next\<^sup>*\<^sup>* a b \<Longrightarrow> act_le a b"
  by (induction rule: rtranclp_induct) (auto intro: act_le_trans act_next_le)

lemma presence_steps_le:
  assumes "(presence_step sha)\<^sup>*\<^sup>* d d'" "presence_inv d" "p \<in> set (peers d)" "p' \<in> set (peers d')"
    and "p_row_id p' = p_row_id p"
  shows "act_le (abs_act p) (abs_act p')"
proof -
  obtain q where q: "q \<in> set (peers d')" "p_row_id q = p_row_id p" "act_le (abs_act p) (abs_act q)"
    using presence_steps_act [OF assms(1-3)] act_nexts_le by blast
  have "distinct (map p_row_id (peers d'))"
    using presence_steps_inv [OF assms(1,2)] by (simp add: presence_inv_def)
  then have "q = p'" using key_unique [of p_row_id "peers d'" q p'] q assms(4,5) by simp
  with q show ?thesis by simp
qed

section \<open>What a device sees after an operation\<close>

lemma updated_row:
  assumes inv: "presence_inv d" and lock: "lock_presence_peer peer d = Inr cur"
    and ps: "peers d' = update_where (\<lambda>r. p_row_id r = p_row_id cur \<and> p_uuid r = p_uuid cur) f (peers d)"
    and row: "\<And>r. p_row_id (f r) = p_row_id r" and q: "q \<in> set (peers d')" "p_row_id q = p_row_id peer"
  shows "q = f cur"
proof -
  have "q = f cur \<or> p_row_id q \<noteq> p_row_id cur"
    using update_one_peer [OF presence_invD(3,1) [OF inv lock], of q f] q(1) unfolding ps by blast
  with q(2) lock_peerD [OF lock] show ?thesis by simp
qed

lemma start_updated:
  assumes inv: "presence_inv d"
    and start: "start_presence_lease e sha rnd (Some peer) epoch aid ip d = (Inr g, d')"
    and q: "q \<in> set (peers d')" "p_row_id q = p_row_id peer"
  shows "p_online_until q \<ge> now e + PresenceLeaseTTL \<and> abs_act q = Activation epoch aid False \<and>
    p_online_until q = gr_online_until g \<and>
    (\<exists>cur. lock_presence_peer peer d = Inr cur \<and> p_row_id q = p_row_id cur \<and> p_uuid q = p_uuid cur \<and> p_id q = p_id cur)"
  using start
proof (cases rule: start_presence_leaseE)
  case (commits p lid token g')
    from commits(5) show "p_online_until q \<ge> now e + PresenceLeaseTTL \<and> abs_act q = Activation epoch aid False \<and>
        p_online_until q = gr_online_until g \<and>
      (\<exists>cur. lock_presence_peer peer d = Inr cur \<and> p_row_id q = p_row_id cur \<and> p_uuid q = p_uuid cur \<and> p_id q = p_id cur)"
    proof (rule start_bodyE)
      fix cur ls1
      assume lock: "lock_presence_peer p d = Inr cur"
        and ls: "leases d' = ls1 @ [new_lease e cur epoch aid lid (sha token) ip ls1]"
        and un: "gr_online_until g' = active_presence_until (leases d') (activated cur epoch aid False) (now e)"
        and ps: "peers d' = update_where (\<lambda>r. p_row_id r = p_row_id cur \<and> p_uuid r = p_uuid cur)
          (presence_updates (activated cur epoch aid False) ip (now e) (gr_online_until g') True True) (peers d)"
      let ?new = "new_lease e cur epoch aid lid (sha token) ip ls1"
      have "p = peer" using commits(1) by simp
      have qf: "q = presence_updates (activated cur epoch aid False) ip (now e) (gr_online_until g') True True cur"
        using updated_row [OF inv lock ps _ q(1)] q(2) \<open>p = peer\<close> by simp
      have "ls_expires_at ?new \<le> gr_online_until g'"
        unfolding un by (rule active_until_ge)
          (simp_all add: ls active_lease_def new_lease_def PresenceLeaseTTL_def)
      then show ?thesis using qf lock \<open>p = peer\<close> commits(2) by (simp add: abs_act_def new_lease_def)
    qed
qed simp

lemma lock_unique:
  assumes "presence_inv d" "q \<in> set (peers d)" "p_row_id q = p_row_id peer" "p_id q = p_id peer" "p_uuid q = p_uuid peer"
  shows "lock_presence_peer peer d = Inr q"
proof -
  let ?P = "\<lambda>r. p_row_id r = p_row_id peer \<and> p_id r = p_id peer \<and> p_uuid r = p_uuid peer"
  obtain r where r: "find ?P (peers d) = Some r"
    using assms find_None_iff [of ?P "peers d"] by (cases "find ?P (peers d)") auto
  then have "r \<in> set (peers d)" "p_row_id r = p_row_id q" using find_SomeD [OF r] assms(3) by auto
  then have "r = q" using key_unique [of p_row_id "peers d" r q] assms(1,2) by (simp add: presence_inv_def)
  with r show ?thesis by (simp add: lock_peer_iff)
qed

lemma credentials_valid:
  assumes "new_presence_lease_credentials rnd = Inr (lid, token)" "rnd = Some bs" "length bs = 48"
  shows "valid_presence_lease_id lid \<and> valid_presence_token token"
proof -
  have "lid = b64_encode url_alphabet False (take 16 bs)" "token = b64_encode url_alphabet False (drop 16 bs)"
    using assms by (auto simp: new_presence_lease_credentials_def)
  then show ?thesis
    unfolding valid_presence_lease_id_def valid_presence_token_def canonical_url_iff
    using assms(3) by (auto intro: exI [of _ "take 16 bs"] exI [of _ "drop 16 bs"])
qed

text \<open>The grant's own row, after the operation that issued it.\<close>

lemma start_lease_row:
  assumes inv: "presence_inv d" and t: "0 < now e"
    and start: "start_presence_lease e sha rnd (Some peer) epoch aid ip d = (Inr g, d')"
  obtains q l where "presence_inv d'" "lock_presence_peer peer d' = Inr q" "abs_act q = Activation epoch aid False"
    "find (presence_lease_query sha q epoch aid (gr_lease_id g) (gr_token g)) (leases d') = Some l"
    "ls_ended_at l = 0" "ls_expires_at l = now e + PresenceLeaseTTL"
proof -
  have inv': "presence_inv d'"
    using presence_step_inv [OF presence_step.Start [OF t, of sha d rnd "Some peer" epoch aid ip] inv] start by simp
  from start show thesis
  proof (cases rule: start_presence_leaseE)
    case (commits p lid token g')
    from commits(5) show ?thesis
    proof (rule start_bodyE)
      fix cur ls1
      assume lock: "lock_presence_peer p d = Inr cur"
        and ls: "leases d' = ls1 @ [new_lease e cur epoch aid lid (sha token) ip ls1]"
        and gi: "gr_lease_id g' = lid" "gr_token g' = token"
        and ps: "peers d' = update_where (\<lambda>r. p_row_id r = p_row_id cur \<and> p_uuid r = p_uuid cur)
          (presence_updates (activated cur epoch aid False) ip (now e) (gr_online_until g') True True) (peers d)"
        and fresh: "sha token \<notin> ls_token_hash ` set ls1"
      let ?f = "presence_updates (activated cur epoch aid False) ip (now e) (gr_online_until g') True True"
      let ?new = "new_lease e cur epoch aid lid (sha token) ip ls1"
      have peq: "p = peer" "g' = g" using commits(1,2) by simp_all
      note K = lock_peerD [OF lock]
      have "?f cur \<in> set (peers d')" using K unfolding ps set_update_where by force
      then have lq: "lock_presence_peer peer d' = Inr (?f cur)"
        by (rule lock_unique [OF inv']) (use K peq in simp_all)
      have "find (presence_lease_query sha (?f cur) epoch aid lid token) ls1 = None"
        using fresh by (auto simp: find_None_iff presence_lease_query_def image_iff)
      then have "find (presence_lease_query sha (?f cur) epoch aid lid token) (leases d') = Some ?new"
        unfolding ls by (simp add: find_append presence_lease_query_def new_lease_def)
      then show ?thesis
        using that [OF inv' lq, of ?new] gi peq by (simp add: abs_act_def new_lease_def)
    qed
  qed simp
qed

lemma renew_succeeds:
  assumes inv: "presence_inv d" and lock: "lock_presence_peer peer d = Inr q"
    and act: "abs_act q = Activation epoch aid False"
    and l: "find (presence_lease_query sha q epoch aid lid token) (leases d) = Some l"
      "ls_ended_at l = 0" "ls_expires_at l > now e" and flt: "flt e = no_faults"
    and ok: "lease_request_ok (Some peer) epoch aid lid token = Inr peer"
  shows "\<exists>g' d'. renew_presence_lease e sha (Some peer) epoch aid lid token ip d = (Inr g', d') \<and>
    gr_expires_at g' = now e + PresenceLeaseTTL \<and> gr_online_until g' \<ge> now e + PresenceLeaseTTL"
proof -
  note D = presence_invD [OF inv lock]
  let ?M = "\<lambda>x. ls_row_id x = ls_row_id l \<and> ls_ended_at x = 0 \<and> ls_expires_at x > now e"
  let ?up = "\<lambda>l. l\<lparr>ls_renewed_at := now e, ls_expires_at := now e + PresenceLeaseTTL, ls_last_online_ip := ip\<rparr>"
  have lin: "l \<in> set (leases d)" using query_own [OF l(1)] by blast
  have cl: "count_where ?M (leases d) = 1"
    using count_key_with [OF D(4) lin, of "\<lambda>x. ls_ended_at x = 0 \<and> ls_expires_at x > now e"] l by simp
  have cp: "count_where (\<lambda>r. p_row_id r = p_row_id q \<and> p_uuid r = p_uuid q) (peers d) = 1"
    using count_key_with [OF D(3) D(1), of "\<lambda>r. p_uuid r = p_uuid q"] by simp
  have qa: "p_activation_epoch q = epoch" "p_activation_id q = aid" "\<not> p_activation_retired q"
    using act by (simp_all add: abs_act_def)
  have "?up l \<in> set (update_where ?M ?up (leases d))"
    using lin l unfolding set_update_where by (intro image_eqI [of _ _ l]) simp_all
  then have "now e + PresenceLeaseTTL \<le> active_presence_until (update_where ?M ?up (leases d)) q (now e)"
    by (rule active_until_ge [of "?up l", simplified])
      (use query_own [OF l(1)] qa l(2) in \<open>simp add: active_lease_def PresenceLeaseTTL_def\<close>)
  then show ?thesis
    unfolding renew_presence_lease_def ok renew_body_def
    using lock l qa cl cp
    by (simp add: flt transaction_def Let_def update_presence_peer_def)
qed

section \<open>A concrete device\<close>

definition demo_peer :: peer_row where
  "demo_peer = \<lparr>p_row_id = 7, p_id = ''123456789'', p_cpu = '''', p_hostname = '''', p_memory = '''',
     p_os = '''', p_username = '''', p_uuid = ''u'', p_version = '''', p_user_id = 1,
     p_identity_source = ''login'', p_identity_verified_at = 1, p_last_sysinfo_time = 0,
     p_last_online_time = 0, p_last_online_ip = '''', p_activation_epoch = 0, p_activation_id = '''',
     p_activation_retired = False, p_online_until = 0, p_v2_seen_at = 0, p_group_id = 0, p_alias = ''''\<rparr>"

definition demo_db :: db where "demo_db = empty_db\<lparr>peers := [demo_peer]\<rparr>"

definition demo_env :: "int \<Rightarrow> env" where
  "demo_env t = \<lparr>flt = no_faults, now = t, uuid_parses = (\<lambda>_. False), uuid_new = ''req''\<rparr>"

definition demo_aid :: string where "demo_aid = ''AAAAAAAAAAAAAAAAAAAAAA==''"
definition demo_rnd :: "string option" where "demo_rnd = Some (replicate 48 (CHR ''k''))"

definition demo_start :: "(err + lease_grant) \<times> db" where
  "demo_start = start_presence_lease (demo_env 100) id demo_rnd (Some demo_peer) 1 demo_aid ''ip'' demo_db"

definition demo_retired :: "(err + lease_grant) \<times> db" where
  "demo_retired = deactivate_presence_activation (demo_env 120) (Some demo_peer) 1 demo_aid ''ip'' (snd demo_start)"

definition demo_grant :: lease_grant where
  "demo_grant = (case fst demo_start of Inr g \<Rightarrow> g | Inl _ \<Rightarrow> undefined)"

text \<open>The states these runs end in, evaluated once.\<close>

definition demo_lease :: lease_row where
  "demo_lease = \<lparr>ls_row_id = 1, ls_lease_id = ''a2tra2tra2tra2tra2traw'', ls_peer_row_id = 7,
     ls_network_uuid = ''u'', ls_epoch = 1, ls_activation_id = demo_aid,
     ls_token_hash = ''a2tra2tra2tra2tra2tra2tra2tra2tra2tra2tra2s'', ls_started_at = 100,
     ls_renewed_at = 100, ls_expires_at = 145, ls_ended_at = 0, ls_last_online_ip = ''ip''\<rparr>"

definition demo_online :: peer_row where
  "demo_online = demo_peer\<lparr>p_last_online_time := 100, p_last_online_ip := ''ip'', p_activation_epoch := 1,
     p_activation_id := demo_aid, p_online_until := 145, p_v2_seen_at := 100\<rparr>"

lemma demo_start_eq [code]:
  "demo_start = (Inr \<lparr>gr_epoch = 1, gr_activation_id = demo_aid, gr_lease_id = ls_lease_id demo_lease,
      gr_token = ls_token_hash demo_lease, gr_expires_at = 145, gr_online_until = 145\<rparr>,
    demo_db\<lparr>peers := [demo_online], leases := [demo_lease]\<rparr>)"
  by code_simp

lemma demo_retired_eq [code]:
  "demo_retired = (Inr \<lparr>gr_epoch = 1, gr_activation_id = demo_aid, gr_lease_id = '''', gr_token = '''',
      gr_expires_at = 120, gr_online_until = 0\<rparr>,
    demo_db\<lparr>peers := [demo_online\<lparr>p_activation_retired := True, p_online_until := 0, p_v2_seen_at := 120\<rparr>],
            leases := [demo_lease\<lparr>ls_ended_at := 120\<rparr>]\<rparr>)"
  by code_simp

lemma demo_init: "presence_init demo_db"
  by (simp add: presence_init_def demo_db_def empty_db_def demo_peer_def)

lemma demo_env_now [simp]: "now (demo_env t) = t" "flt (demo_env t) = no_faults"
  by (simp_all add: demo_env_def)

lemma demo_steps: "(presence_step id)\<^sup>*\<^sup>* demo_db (snd demo_start)"
  unfolding demo_start_def by (rule r_into_rtranclp, rule presence_step.Start) simp

section \<open>Properties\<close>

text \<open>In every state reached by presence operations from a table without v2 reports, whatever
  statements fail and in whatever order the operations come, row ids stay unique, every open lease
  belongs to the current and unretired activation of its device, no lease is of a later epoch than
  the device's, and a device that counts as online until some second has an open lease of its
  current activation that expires at exactly that second.\<close>

theorem presence_reachable_inv:
  assumes "presence_init d" and "(presence_step sha)\<^sup>*\<^sup>* d d'"
  shows "presence_inv d'"
  by (rule presence_steps_inv [OF assms(2) presence_init_inv [OF assms(1)]])

lemma presence_reachable_inv_witness:
  "presence_inv (snd demo_start) \<and> map ls_expires_at (leases (snd demo_start)) = [145]"
proof
  show "presence_inv (snd demo_start)" by (rule presence_reachable_inv [OF demo_init demo_steps])
  show "map ls_expires_at (leases (snd demo_start)) = [145]" by code_simp
qed

text \<open>C33: The presence operations refine the abstract activation machine: over any run of them a
  device's (epoch, id, retired) goes through steps of \<open>act_step\<close> only, and no device row is lost.\<close>

theorem presence_refines_activation:
  assumes "presence_inv d" and "(presence_step sha)\<^sup>*\<^sup>* d d'" and "p \<in> set (peers d)"
  shows "\<exists>p' \<in> set (peers d'). p_row_id p' = p_row_id p \<and> act_next\<^sup>*\<^sup>* (abs_act p) (abs_act p')"
  by (rule presence_steps_act [OF assms(2,1,3)])

lemma presence_refines_activation_witness:
  "\<exists>p' \<in> set (peers (snd demo_start)). p_row_id p' = 7 \<and> act_next\<^sup>*\<^sup>* (Activation 0 [] False) (abs_act p')"
  using presence_refines_activation [OF presence_init_inv [OF demo_init] demo_steps, of demo_peer]
  by (simp add: demo_db_def demo_peer_def abs_act_def)

lemma demo_retired_steps: "(presence_step id)\<^sup>*\<^sup>* demo_db (snd demo_retired)"
  using demo_steps unfolding demo_retired_def
  by (rule rtranclp.rtrancl_into_rtrancl) (rule presence_step.Deactivate, simp)

lemma issued_lease_renews_facts:
  assumes "presence_inv d" and "0 < now e" and "rnd = Some bs" and "length bs = 48"
    and "start_presence_lease e sha rnd (Some peer) epoch aid ip d = (Inr g, d')"
    and "flt e2 = no_faults"
  shows "now e2 < now e + 45 \<Longrightarrow>
      \<exists>g2 d2. renew_presence_lease e2 sha (Some peer) epoch aid (gr_lease_id g) (gr_token g) ip2 d' = (Inr g2, d2)
        \<and> gr_expires_at g2 = now e2 + 45 \<and> now e2 + 45 \<le> gr_online_until g2"
    and "now e + 45 \<le> now e2 \<Longrightarrow>
      renew_presence_lease e2 sha (Some peer) epoch aid (gr_lease_id g) (gr_token g) ip2 d'
        = (Inl ErrPresenceLeaseExpired, d')"
proof -
  obtain q l where R: "presence_inv d'" "lock_presence_peer peer d' = Inr q" "abs_act q = Activation epoch aid False"
    "find (presence_lease_query sha q epoch aid (gr_lease_id g) (gr_token g)) (leases d') = Some l"
    "ls_ended_at l = 0" "ls_expires_at l = now e + PresenceLeaseTTL"
    using start_lease_row [OF assms(1,2,5)] by blast
  from assms(5) have ok: "lease_request_ok (Some peer) epoch aid (gr_lease_id g) (gr_token g) = Inr peer"
  proof (cases rule: start_presence_leaseE)
    case (commits p lid token g')
    have "gr_lease_id g = lid \<and> gr_token g = token" using commits(2,5) by (auto elim: start_bodyE)
    moreover have "p_row_id peer \<noteq> 0"
      using assms(5) by (auto simp: start_presence_lease_def split: if_splits)
    ultimately show ?thesis
      using commits(3) credentials_valid [OF commits(4) assms(3,4)] by (simp add: lease_request_ok_def)
  qed simp
  show "now e2 < now e + 45 \<Longrightarrow>
      \<exists>g2 d2. renew_presence_lease e2 sha (Some peer) epoch aid (gr_lease_id g) (gr_token g) ip2 d' = (Inr g2, d2)
        \<and> gr_expires_at g2 = now e2 + 45 \<and> now e2 + 45 \<le> gr_online_until g2"
    using renew_succeeds [OF R(1-5) _ assms(6) ok] R(6) by (simp add: PresenceLeaseTTL_def)
  assume "now e + 45 \<le> now e2"
  then show "renew_presence_lease e2 sha (Some peer) epoch aid (gr_lease_id g) (gr_token g) ip2 d'
        = (Inl ErrPresenceLeaseExpired, d')"
    using R assms(6) unfolding renew_presence_lease_def ok renew_body_def
    by (simp add: transaction_def abs_act_def PresenceLeaseTTL_def)
qed

text \<open>The credentials StartPresenceLease hands out work: presented to RenewPresenceLease before
  the 45 seconds of the lease are over (no statement failing) they are accepted, the new expiry is
  45 seconds after the renewal and the device is online at least until then; presented later they
  are refused as expired and nothing changes.\<close>

lemma issued_lease_renews:
  assumes "presence_inv d" and "0 < now e" and "rnd = Some bs" and "length bs = 48"
    and "start_presence_lease e sha rnd (Some peer) epoch aid ip d = (Inr g, d')"
    and "flt e2 = no_faults"
  shows "(now e2 < now e + 45 \<longrightarrow>
      (\<exists>g2 d2. renew_presence_lease e2 sha (Some peer) epoch aid (gr_lease_id g) (gr_token g) ip2 d' = (Inr g2, d2)
        \<and> gr_expires_at g2 = now e2 + 45 \<and> now e2 + 45 \<le> gr_online_until g2)) \<and>
    (now e + 45 \<le> now e2 \<longrightarrow>
      renew_presence_lease e2 sha (Some peer) epoch aid (gr_lease_id g) (gr_token g) ip2 d'
        = (Inl ErrPresenceLeaseExpired, d'))"
  by (intro conjI impI issued_lease_renews_facts [OF assms])

lemma issued_lease_renews_witness:
  "\<exists>g2 d2. renew_presence_lease (demo_env 144) id (Some demo_peer) 1 demo_aid
     (gr_lease_id demo_grant) (gr_token demo_grant) ''ip'' (snd demo_start) = (Inr g2, d2) \<and> gr_expires_at g2 = 189"
proof -
  have s: "start_presence_lease (demo_env 100) id demo_rnd (Some demo_peer) 1 demo_aid ''ip'' demo_db
      = (Inr demo_grant, snd demo_start)" by code_simp
  show ?thesis
    using issued_lease_renews [OF presence_init_inv [OF demo_init] _ demo_rnd_def _ s, of "demo_env 144" "''ip''"]
    by fastforce
qed

lemma deactivation_takes_device_offline_facts:
  assumes "presence_inv d" and "0 < now e"
    and "deactivate_presence_activation e (Some peer) epoch aid ip d = (Inr g, d')"
    and "q \<in> set (peers d')" and "p_row_id q = p_row_id peer"
  shows "now e \<le> t \<and> t \<le> now e + 90 \<longrightarrow> \<not> is_online_at (Some q) t"
    and "\<forall>l \<in> set (leases d'). ls_peer_row_id l = p_row_id peer \<longrightarrow> ls_ended_at l \<noteq> 0"
    and "flt e2 = no_faults \<and> rnd \<noteq> None \<longrightarrow>
      start_presence_lease e2 sha rnd (Some peer) epoch aid ip2 d' = (Inl ErrPresenceActivationStale, d')"
proof -
  have inv': "presence_inv d'"
    using presence_step_inv [OF presence_step.Deactivate [OF assms(2), of sha d "Some peer" epoch aid ip] assms(1)]
      assms(3) by simp
  from assms(3) obtain cur where lock: "lock_presence_peer peer d = Inr cur"
    and ls: "leases d' = end_open_leases (p_row_id cur) (now e) (leases d)"
    and ps: "peers d' = update_where (\<lambda>r. p_row_id r = p_row_id cur \<and> p_uuid r = p_uuid cur)
       (presence_updates (activated cur epoch aid True) ip (now e) 0 True False) (peers d)"
    and v: "validate_presence_activation epoch aid = Inr ()"
    by (cases rule: deactivate_presence_activationE) (auto elim!: deactivate_bodyE)
  from assms(3) have v0: "p_row_id peer \<noteq> 0"
    by (auto simp: deactivate_presence_activation_def split: if_splits)
  note K = lock_peerD [OF lock]
  have q: "q = presence_updates (activated cur epoch aid True) ip (now e) 0 True False cur"
    by (rule updated_row [OF assms(1) lock ps _ assms(4,5)]) simp
  show "now e \<le> t \<and> t \<le> now e + 90 \<longrightarrow> \<not> is_online_at (Some q) t"
    using assms(2) by (simp add: q is_online_at_def presence_updates_def Let_def PresenceLegacyFallbackAfter_def)
  show "\<forall>l \<in> set (leases d'). ls_peer_row_id l = p_row_id peer \<longrightarrow> ls_ended_at l \<noteq> 0"
  proof (intro ballI impI)
    fix l assume "l \<in> set (leases d')" "ls_peer_row_id l = p_row_id peer"
    then show "ls_ended_at l \<noteq> 0"
      using end_open_own [of l "p_row_id cur" "now e" "leases d"] K assms(2) unfolding ls by auto
  qed
  have lq: "lock_presence_peer peer d' = Inr q"
    by (rule lock_unique [OF inv' assms(4)]) (use K in \<open>simp_all add: q activated_def\<close>)
  show "flt e2 = no_faults \<and> rnd \<noteq> None \<longrightarrow>
      start_presence_lease e2 sha rnd (Some peer) epoch aid ip2 d' = (Inl ErrPresenceActivationStale, d')"
    using lq v v0 by (auto simp: start_presence_lease_def start_body_def transaction_def stale_activation_def
        new_presence_lease_credentials_def q)
qed

text \<open>A successful deactivation shows the device offline at once and for the 90 seconds in which
  the legacy heartbeat is not consulted; no lease of it stays open, and a new start of the same
  activation is refused as stale with the database unchanged.\<close>

lemma deactivation_takes_device_offline:
  assumes "presence_inv d" and "0 < now e"
    and "deactivate_presence_activation e (Some peer) epoch aid ip d = (Inr g, d')"
    and "q \<in> set (peers d')" and "p_row_id q = p_row_id peer"
  shows "(now e \<le> t \<and> t \<le> now e + 90 \<longrightarrow> \<not> is_online_at (Some q) t) \<and>
    (\<forall>l \<in> set (leases d'). ls_peer_row_id l = p_row_id peer \<longrightarrow> ls_ended_at l \<noteq> 0) \<and>
    (flt e2 = no_faults \<and> rnd \<noteq> None \<longrightarrow>
      start_presence_lease e2 sha rnd (Some peer) epoch aid ip2 d' = (Inl ErrPresenceActivationStale, d'))"
  using deactivation_takes_device_offline_facts [OF assms] by blast

lemma deactivation_takes_device_offline_witness:
  "\<not> is_online_at (Some (hd (peers (snd demo_retired)))) 200"
proof -
  have s: "deactivate_presence_activation (demo_env 120) (Some demo_peer) 1 demo_aid ''ip'' (snd demo_start)
      = (Inr (case fst demo_retired of Inr g \<Rightarrow> g), snd demo_retired)" by code_simp
  have p: "peers (snd demo_retired) \<noteq> [] \<and> p_row_id (hd (peers (snd demo_retired))) = p_row_id demo_peer"
    by code_simp
  from deactivation_takes_device_offline [OF presence_steps_inv [OF demo_steps presence_init_inv [OF demo_init]] _ s hd_in_set]
    p show ?thesis by auto
qed

lemma superseded_end_harmless_facts:
  assumes "presence_inv d" and "lock_presence_peer peer d = Inr cur"
    and "p_activation_epoch cur \<noteq> epoch \<or> p_activation_id cur \<noteq> aid"
    and "end_presence_lease e sha (Some peer) epoch aid lid token ip d = (Inr g, d')"
    and "q \<in> set (peers d')" and "p_row_id q = p_row_id peer"
  shows "abs_act q = abs_act cur \<and> p_v2_seen_at q = p_v2_seen_at cur \<and>
      p_last_online_time q = p_last_online_time cur"
    and "\<forall>l \<in> set (leases d). vouches cur l \<longrightarrow> l \<in> set (leases d')"
proof -
  from assms(4) have "(abs_act q = abs_act cur \<and> p_v2_seen_at q = p_v2_seen_at cur \<and>
      p_last_online_time q = p_last_online_time cur) \<and>
      (\<forall>l \<in> set (leases d). vouches cur l \<longrightarrow> l \<in> set (leases d'))"
  proof (cases rule: end_presence_leaseE)
    case (commits p g')
    from commits(3) show ?thesis
    proof (rule end_bodyE)
      fix cur' lease
      assume lock: "lock_presence_peer p d = Inr cur'"
        and l: "find (presence_lease_query sha cur' epoch aid lid token) (leases d) = Some lease"
        and ls: "leases d' = (if ls_ended_at lease = 0
           then update_where (\<lambda>l. ls_row_id l = ls_row_id lease \<and> ls_ended_at l = 0)
              (\<lambda>l. l\<lparr>ls_ended_at := now e\<rparr>) (leases d) else leases d)"
        and ps: "peers d' = update_where (\<lambda>r. p_row_id r = p_row_id cur' \<and> p_uuid r = p_uuid cur')
          (presence_updates cur' ip (now e) (gr_online_until g')
            (p_activation_epoch cur' = epoch \<and> p_activation_id cur' = aid) False) (peers d)"
      have c: "cur' = cur" "p = peer" using lock assms(2) commits(1) by simp_all
      have "q = presence_updates cur ip (now e) (gr_online_until g') False False cur"
        using updated_row [OF assms(1) lock ps _ assms(5)] assms(3,6) c by auto
      moreover have "l \<in> set (leases d')" if "l \<in> set (leases d)" "vouches cur l" for l
      proof -
        have "l \<noteq> lease" using that(2) query_own [OF l] assms(3) c by (auto simp: vouches_def)
        then have "ls_row_id l \<noteq> ls_row_id lease"
          using key_unique [OF presence_invD(4) [OF assms(1,2)] that(1)] query_own [OF l] by blast
        then show ?thesis
          unfolding ls using that(1) by (simp add: set_update_where)
      qed
      ultimately show ?thesis by (simp add: presence_updates_def Let_def abs_act_def)
    qed
  qed simp
  then show "abs_act q = abs_act cur \<and> p_v2_seen_at q = p_v2_seen_at cur \<and>
      p_last_online_time q = p_last_online_time cur"
    and "\<forall>l \<in> set (leases d). vouches cur l \<longrightarrow> l \<in> set (leases d')" by blast+
qed

text \<open>Ending a lease of an activation that has been superseded cannot disturb the current one:
  the device keeps its activation, its v2-seen mark and its last-online data, and every lease that
  vouches for the current activation is still there, unchanged.\<close>

lemma superseded_end_harmless:
  assumes "presence_inv d" and "lock_presence_peer peer d = Inr cur"
    and "p_activation_epoch cur \<noteq> epoch \<or> p_activation_id cur \<noteq> aid"
    and "end_presence_lease e sha (Some peer) epoch aid lid token ip d = (Inr g, d')"
    and "q \<in> set (peers d')" and "p_row_id q = p_row_id peer"
  shows "(abs_act q = abs_act cur \<and> p_v2_seen_at q = p_v2_seen_at cur \<and>
      p_last_online_time q = p_last_online_time cur) \<and>
    (\<forall>l \<in> set (leases d). vouches cur l \<longrightarrow> l \<in> set (leases d'))"
  using superseded_end_harmless_facts [OF assms] by blast

definition demo_next :: "(err + lease_grant) \<times> db" where
  "demo_next = start_presence_lease (demo_env 110) id (Some (replicate 48 (CHR ''z''))) (Some demo_peer) 2 demo_aid ''ip'' (snd demo_start)"

definition demo_end_old :: "(err + lease_grant) \<times> db" where
  "demo_end_old = end_presence_lease (demo_env 115) id (Some demo_peer) 1 demo_aid '''' (gr_token demo_grant) ''ip'' (snd demo_next)"

lemma demo_next_eq [code]:
  "demo_next = (Inr \<lparr>gr_epoch = 2, gr_activation_id = demo_aid, gr_lease_id = ''enp6enp6enp6enp6enp6eg'',
      gr_token = ''enp6enp6enp6enp6enp6enp6enp6enp6enp6enp6eno'', gr_expires_at = 155, gr_online_until = 155\<rparr>,
    demo_db\<lparr>peers := [demo_online\<lparr>p_activation_epoch := 2, p_online_until := 155, p_v2_seen_at := 110\<rparr>],
            leases := [demo_lease\<lparr>ls_ended_at := 110\<rparr>,
              demo_lease\<lparr>ls_row_id := 2, ls_lease_id := ''enp6enp6enp6enp6enp6eg'', ls_epoch := 2,
                ls_token_hash := ''enp6enp6enp6enp6enp6enp6enp6enp6enp6enp6eno'', ls_started_at := 110,
                ls_renewed_at := 110, ls_expires_at := 155\<rparr>]\<rparr>)"
  by code_simp

lemma demo_end_old_eq [code]:
  "demo_end_old = (Inr \<lparr>gr_epoch = 1, gr_activation_id = demo_aid, gr_lease_id = ls_lease_id demo_lease,
      gr_token = '''', gr_expires_at = 115, gr_online_until = 155\<rparr>, snd demo_next)"
  by code_simp

lemma superseded_end_harmless_witness:
  "abs_act (hd (peers (snd demo_end_old))) = Activation 2 demo_aid False"
proof -
  have st: "(presence_step id)\<^sup>*\<^sup>* demo_db (snd demo_next)"
    using demo_steps unfolding demo_next_def
    by (rule rtranclp.rtrancl_into_rtrancl) (rule presence_step.Start, simp)
  have lk: "lock_presence_peer demo_peer (snd demo_next) = Inr (hd (peers (snd demo_next)))"
    and e: "end_presence_lease (demo_env 115) id (Some demo_peer) 1 demo_aid '''' (gr_token demo_grant) ''ip'' (snd demo_next)
      = (Inr (case fst demo_end_old of Inr g \<Rightarrow> g), snd demo_end_old)"
    and p: "peers (snd demo_end_old) \<noteq> [] \<and> p_row_id (hd (peers (snd demo_end_old))) = p_row_id demo_peer \<and>
      p_activation_epoch (hd (peers (snd demo_next))) \<noteq> 1 \<and>
      abs_act (hd (peers (snd demo_next))) = Activation 2 demo_aid False" by code_simp+
  show ?thesis
    using superseded_end_harmless [OF presence_steps_inv [OF st presence_init_inv [OF demo_init]] lk _ e hd_in_set]
      p by auto
qed

text \<open>C36: While its lease runs, a device that started an activation is reported online: from the moment
  of a successful start, at every second before now + 45.\<close>

theorem start_shows_online:
  assumes "presence_inv d"
    and "start_presence_lease e sha rnd (Some peer) epoch aid ip d = (Inr g, d')"
    and "q \<in> set (peers d')" and "p_row_id q = p_row_id peer" and "t < now e + 45"
  shows "is_online_at (Some q) t"
  using start_updated [OF assms(1-4)] assms(5) by (simp add: is_online_at_def PresenceLeaseTTL_def)

lemma start_shows_online_witness: "is_online_at (Some (hd (peers (snd demo_start)))) 144"
proof -
  have s: "start_presence_lease (demo_env 100) id demo_rnd (Some demo_peer) 1 demo_aid ''ip'' demo_db
      = (Inr demo_grant, snd demo_start)"
    and p: "peers (snd demo_start) \<noteq> [] \<and> p_row_id (hd (peers (snd demo_start))) = p_row_id demo_peer" by code_simp+
  from start_shows_online [OF presence_init_inv [OF demo_init] s hd_in_set] p show ?thesis by auto
qed

text \<open>An activation identity is accepted exactly when the device is named, the epoch is in the
  positive range of a signed 64-bit integer, the activation id is the canonical base64 of one
  16-byte string, there are between 1 and 16 route proofs, each the canonical base64 of a 32-byte
  string, and the configured verifier answers yes without an error.\<close>

lemma activation_identity_accepted_iff:
  "verify_activation_identity verifier device uuid epoch aid proofs = Inr () \<longleftrightarrow>
     device \<noteq> [] \<and> uuid \<noteq> [] \<and> 0 < epoch \<and> epoch < 2 ^ 63 \<and>
     (\<exists>bs. length bs = 16 \<and> aid = b64_encode std_alphabet True bs) \<and>
     proofs \<noteq> [] \<and> length proofs \<le> 16 \<and>
     (\<forall>pr \<in> set proofs. \<exists>bs. length bs = 32 \<and> pr = b64_encode std_alphabet True bs) \<and>
     (\<exists>verify. verifier = Some verify \<and> verify device uuid epoch aid proofs = Inr True)"
proof -
  have pr: "valid_route_lease_proofs proofs \<longleftrightarrow> proofs \<noteq> [] \<and> length proofs \<le> 16 \<and>
      (\<forall>pr \<in> set proofs. \<exists>bs. length bs = 32 \<and> pr = b64_encode std_alphabet True bs)"
    by (auto simp: valid_route_lease_proofs_def maxPresenceRouteLeases_def list_all_iff canonical_std_iff)
  have "verify_activation_identity verifier device uuid epoch aid proofs = Inr () \<longleftrightarrow>
     device \<noteq> [] \<and> uuid \<noteq> [] \<and> validate_presence_activation epoch aid = Inr () \<and> valid_route_lease_proofs proofs \<and>
     (\<exists>verify. verifier = Some verify \<and> verify device uuid epoch aid proofs = Inr True)"
    by (auto simp: verify_activation_identity_def split: option.splits sum.splits)
  then show ?thesis unfolding pr validate_activation_iff by blast
qed

lemma activation_identity_accepted_iff_witness:
  "verify_activation_identity (Some (\<lambda>_ _ _ _ _. Inr True)) ''1'' ''u'' 1 (b64_encode std_alphabet True (replicate 16 CHR ''a''))
     [b64_encode std_alphabet True (replicate 32 CHR ''a'')] = Inr ()"
  unfolding activation_identity_accepted_iff
  by (auto intro: exI [of _ "replicate 16 CHR ''a''"] exI [of _ "replicate 32 CHR ''a''"])

end
