(* ===== verification/Revocation.thy ===== *)
theory Revocation
  imports Store
begin

text \<open>
  Ending sessions (\<open>src/service/user.go\<close>, \<open>src/service/maintenance.go\<close>): revoking the token rows of
  a user, of devices or of single sessions, and the auth-version bump that goes with it.  The
  statements run inside a caller's transaction; the program points at which they may fail are
  arguments.  The locales \<open>token_revoker\<close> and \<open>session_revoker\<close> are the contract the account
  operations rely on; they are interpreted here on the model's functions.
\<close>

section \<open>Definitions\<close>

definition revoke_row :: "int \<Rightarrow> string \<Rightarrow> token_row \<Rightarrow> token_row" where
  "revoke_row t reason r = r\<lparr>t_revoked_at := Some t, t_revoked_reason := reason\<rparr>"

definition revoke_where :: "(token_row \<Rightarrow> bool) \<Rightarrow> int \<Rightarrow> string \<Rightarrow> db \<Rightarrow> db" where
  "revoke_where P t reason d =
     d\<lparr>tokens := update_where (\<lambda>r. P r \<and> t_revoked_at r = None) (revoke_row t reason) (tokens d)\<rparr>"

definition revoke_user_tokens :: "env \<Rightarrow> point \<Rightarrow> nat \<Rightarrow> string \<Rightarrow> db \<Rightarrow> err + db" where
  "revoke_user_tokens e p user_id reason d =
     stmt (flt e) p (Inr (revoke_where (\<lambda>r. t_user_id r = user_id) (now e) reason d))"

definition bump_auth_version_and_revoke_count ::
    "env \<Rightarrow> point \<Rightarrow> point \<Rightarrow> nat \<Rightarrow> string \<Rightarrow> db \<Rightarrow> err + nat \<times> db" where
  "bump_auth_version_and_revoke_count e p1 p2 user_id reason d =
     stmt (flt e) p1
       (if count_where (\<lambda>u. u_id u = user_id) (users d) \<noteq> 1
        then Inl (ErrNew ''user not found while revoking sessions'')
        else let d1 = d\<lparr>users := update_where (\<lambda>u. u_id u = user_id)
                          (\<lambda>u. u\<lparr>u_auth_version := u_auth_version u + 1\<rparr>) (users d)\<rparr>
             in stmt (flt e) p2
                  (Inr (count_where (\<lambda>r. t_user_id r = user_id \<and> t_revoked_at r = None) (tokens d1),
                        revoke_where (\<lambda>r. t_user_id r = user_id) (now e) reason d1)))"

definition bump_auth_version_and_revoke ::
    "env \<Rightarrow> point \<Rightarrow> point \<Rightarrow> nat \<Rightarrow> string \<Rightarrow> db \<Rightarrow> err + db" where
  "bump_auth_version_and_revoke e p1 p2 user_id reason d =
     ebind (bump_auth_version_and_revoke_count e p1 p2 user_id reason d) (\<lambda>(_, d'). Inr d')"

definition flush_token_by_uuid :: "env \<Rightarrow> point \<Rightarrow> string \<Rightarrow> db \<Rightarrow> (err + unit) \<times> db" where
  "flush_token_by_uuid e p device_uuid d =
     (if flt e p then (Inl (DbErr p), d)
      else (Inr (), revoke_where (\<lambda>r. t_device_uuid r = device_uuid) (now e) ''device_removed'' d))"

definition flush_token_by_uuids :: "env \<Rightarrow> point \<Rightarrow> string list \<Rightarrow> db \<Rightarrow> (err + unit) \<times> db" where
  "flush_token_by_uuids e p uuids d =
     (if length uuids = 0 then (Inr (), d)
      else if flt e p then (Inl (DbErr p), d)
      else (Inr (), revoke_where (\<lambda>r. t_device_uuid r \<in> set uuids) (now e) ''device_removed'' d))"

text \<open>FlushTokenContext; the last component is the auth version left in the caller's user struct.\<close>

definition flush_token ::
    "env \<Rightarrow> nat \<Rightarrow> string \<Rightarrow> user_row option \<Rightarrow> db \<Rightarrow> (err + user_row option) \<times> db" where
  "flush_token e actor request_id ou d =
     (case ou of
        None \<Rightarrow> (Inr None, d)
      | Some u \<Rightarrow>
          if u_id u = 0 then (Inr (Some u), d)
          else audited e actor request_id ''auth.sessions.global_revoked'' ''user'' (decimal (u_id u))
                 [(''revocation_reason'', MStr ''global_logout'')] ''AUTH_GLOBAL_REVOCATION_FAILED''
                 (\<lambda>_. transaction (flt e) (\<lambda>d1.
                    ebind (bump_auth_version_and_revoke e (Stmt 1) (Stmt 2) (u_id u) ''global_logout'' d1)
                      (\<lambda>d2. Inr (Some (u\<lparr>u_auth_version := u_auth_version u + 1\<rparr>), d2)))) d)"

definition delete_token :: "env \<Rightarrow> nat \<Rightarrow> string \<Rightarrow> token_row option \<Rightarrow> db \<Rightarrow> (err + unit) \<times> db" where
  "delete_token e actor request_id ol d =
     (case ol of
        None \<Rightarrow> (Inr (), d)
      | Some l \<Rightarrow>
          if t_id l = 0 then (Inr (), d)
          else audited e actor request_id ''auth.session.admin_revoked'' ''user_token'' (decimal (t_id l))
                 [(''user_id'', MNum (int (t_user_id l)))] ''AUTH_SESSION_REVOCATION_FAILED''
                 (\<lambda>_ d1. if flt e (Stmt 1) then (Inl (DbErr (Stmt 1)), d1)
                         else (Inr (), revoke_where (\<lambda>r. t_id r = t_id l) (now e) ''admin_revoked'' d1)) d)"

definition batch_delete_user_token :: "env \<Rightarrow> nat \<Rightarrow> string \<Rightarrow> nat list \<Rightarrow> db \<Rightarrow> (err + unit) \<times> db" where
  "batch_delete_user_token e actor request_id ids d =
     (if length ids = 0 then (Inr (), d)
      else audited e actor request_id ''auth.session.batch_admin_revoked'' ''user_token'' ''batch''
             [(''count'', MNum (int (length ids)))] ''AUTH_SESSION_REVOCATION_FAILED''
             (\<lambda>_ d1. if flt e (Stmt 1) then (Inl (DbErr (Stmt 1)), d1)
                     else (Inr (), revoke_where (\<lambda>r. t_id r \<in> set ids) (now e) ''admin_revoked'' d1)) d)"

text \<open>The row that serialises the operations that may remove an enabled super administrator.\<close>

definition acquire_enabled_admin_invariant :: "env \<Rightarrow> point \<Rightarrow> db \<Rightarrow> err + db" where
  "acquire_enabled_admin_invariant e p d =
     stmt (flt e) p
       (if count_where (\<lambda>l. fst l = ''enabled-admin'') (invariant_locks d) \<noteq> 1
        then Inl (ErrNew ''enabled-administrator invariant lock is unavailable'')
        else Inr (d\<lparr>invariant_locks := update_where (\<lambda>l. fst l = ''enabled-admin'')
                      (\<lambda>(n, g). (n, g + 1)) (invariant_locks d)\<rparr>))"

definition is_enabled_super :: "user_row \<Rightarrow> bool" where
  "is_enabled_super u \<longleftrightarrow> u_role u = RoleSuperAdmin \<and> u_status u = COMMON_STATUS_ENABLE"

definition get_admin_user_count_tx :: "env \<Rightarrow> point \<Rightarrow> db \<Rightarrow> err + nat" where
  "get_admin_user_count_tx e p d = stmt (flt e) p (Inr (count_where is_enabled_super (users d)))"

section \<open>The contract of revocation\<close>

text \<open>No token row of the user is left that is not revoked.\<close>

definition no_live_token :: "nat \<Rightarrow> db \<Rightarrow> bool" where
  "no_live_token user_id d \<longleftrightarrow> (\<forall>r \<in> set (tokens d). t_user_id r = user_id \<longrightarrow> t_revoked_at r \<noteq> None)"

text \<open>Revocation only revokes: the rows keep everything else, and what was revoked stays revoked.\<close>

definition only_revokes :: "db \<Rightarrow> db \<Rightarrow> bool" where
  "only_revokes d d' \<longleftrightarrow>
     list_all2 (\<lambda>r r'. r' = r \<or> (t_revoked_at r = None \<and> (\<exists>t reason. r' = revoke_row t reason r)))
       (tokens d) (tokens d')"

lemma revoke_where_tokens:
  "set (tokens (revoke_where P t reason d)) =
     (\<lambda>r. if P r \<and> t_revoked_at r = None then revoke_row t reason r else r) ` set (tokens d)"
  by (simp add: revoke_where_def set_update_where)

lemma revoke_row_simps [simp]:
  "t_revoked_at (revoke_row t reason r) = Some t" "t_user_id (revoke_row t reason r) = t_user_id r"
  "t_hash (revoke_row t reason r) = t_hash r" "t_id (revoke_row t reason r) = t_id r"
  "t_token (revoke_row t reason r) = t_token r"
  by (simp_all add: revoke_row_def)

lemma revoke_where_simps [simp]:
  "users (revoke_where P t reason d) = users d" "peers (revoke_where P t reason d) = peers d"
  "scopes (revoke_where P t reason d) = scopes d" "events (revoke_where P t reason d) = events d"
  by (simp_all add: revoke_where_def)

lemma revoke_where_none: "(\<And>r. t_user_id r = uid \<Longrightarrow> P r) \<Longrightarrow> no_live_token uid (revoke_where P t reason d)"
  by (auto simp: no_live_token_def revoke_where_tokens)

lemma revoke_where_only: "only_revokes d (revoke_where P t reason d)"
  unfolding only_revokes_def revoke_where_def update_where_def
  by (auto simp: list_all2_conv_all_nth)

lemma only_revokes_tokens: "tokens d = tokens d1 \<Longrightarrow> only_revokes d1 d2 \<Longrightarrow> only_revokes d d2"
  by (simp add: only_revokes_def)

locale token_revoker =
  fixes revoke :: "env \<Rightarrow> nat \<Rightarrow> string \<Rightarrow> db \<Rightarrow> err + db"
  assumes revoke_all: "revoke e uid reason d = Inr d' \<Longrightarrow> no_live_token uid d'"
    and revoke_only: "revoke e uid reason d = Inr d' \<Longrightarrow> only_revokes d d'"
begin

lemma revoke_keeps_revoked:
  assumes "revoke e uid reason d = Inr d'" "r' \<in> set (tokens d')"
  obtains r where "r \<in> set (tokens d)" "t_hash r' = t_hash r" "t_user_id r' = t_user_id r"
    "t_revoked_at r \<noteq> None \<Longrightarrow> t_revoked_at r' = t_revoked_at r"
proof -
  have l: "list_all2 (\<lambda>r r'. r' = r \<or> (t_revoked_at r = None \<and> (\<exists>t reason. r' = revoke_row t reason r)))
      (tokens d) (tokens d')"
    using revoke_only [OF assms(1)] by (simp add: only_revokes_def)
  obtain i where i: "i < length (tokens d')" "r' = tokens d' ! i"
    using assms(2) by (auto simp: in_set_conv_nth)
  then have "i < length (tokens d)" "r' = tokens d ! i \<or> (t_revoked_at (tokens d ! i) = None \<and>
      (\<exists>t reason. r' = revoke_row t reason (tokens d ! i)))"
    using l by (auto simp: list_all2_conv_all_nth)
  then show thesis by (intro that [of "tokens d ! i"]) auto
qed

end

locale session_revoker = token_revoker +
  assumes revoke_bumps: "revoke e uid reason d = Inr d' \<Longrightarrow>
      users d' = update_where (\<lambda>u. u_id u = uid) (\<lambda>u. u\<lparr>u_auth_version := u_auth_version u + 1\<rparr>) (users d)"
    and revoke_known: "revoke e uid reason d = Inr d' \<Longrightarrow> \<exists>u \<in> set (users d). u_id u = uid"
    and revoke_frame: "revoke e uid reason d = Inr d' \<Longrightarrow>
      d' = d\<lparr>users := users d', tokens := tokens d'\<rparr>"
begin

lemma revoke_enabled_super:
  assumes "revoke e uid reason d = Inr d'"
  shows "count_where is_enabled_super (users d') = count_where is_enabled_super (users d)"
  unfolding revoke_bumps [OF assms] by (rule count_where_update) (simp add: is_enabled_super_def)

end

interpretation token_rv: token_revoker "\<lambda>e. revoke_user_tokens e p" for p
  by unfold_locales (auto simp: revoke_user_tokens_def outcome_simps revoke_where_none revoke_where_only)

lemma bump_count_eq_Inr [outcome_simps]:
  "bump_auth_version_and_revoke_count e p1 p2 uid reason d = Inr (n, d') \<longleftrightarrow>
     \<not> flt e p1 \<and> \<not> flt e p2 \<and> count_where (\<lambda>u. u_id u = uid) (users d) = 1 \<and>
     n = count_where (\<lambda>r. t_user_id r = uid \<and> t_revoked_at r = None) (tokens d) \<and>
     d' = revoke_where (\<lambda>r. t_user_id r = uid) (now e) reason
            (d\<lparr>users := update_where (\<lambda>u. u_id u = uid) (\<lambda>u. u\<lparr>u_auth_version := u_auth_version u + 1\<rparr>) (users d)\<rparr>)"
  by (auto simp: bump_auth_version_and_revoke_count_def outcome_simps Let_def split: if_splits)

lemma bump_eq_Inr [outcome_simps]:
  "bump_auth_version_and_revoke e p1 p2 uid reason d = Inr d' \<longleftrightarrow>
     \<not> flt e p1 \<and> \<not> flt e p2 \<and> count_where (\<lambda>u. u_id u = uid) (users d) = 1 \<and>
     d' = revoke_where (\<lambda>r. t_user_id r = uid) (now e) reason
            (d\<lparr>users := update_where (\<lambda>u. u_id u = uid) (\<lambda>u. u\<lparr>u_auth_version := u_auth_version u + 1\<rparr>) (users d)\<rparr>)"
  by (auto simp: bump_auth_version_and_revoke_def outcome_simps split_paired_Ex)

interpretation session_rv: session_revoker "\<lambda>e. bump_auth_version_and_revoke e p1 p2" for p1 p2
proof
  fix e uid reason d d'
  assume b: "bump_auth_version_and_revoke e p1 p2 uid reason d = Inr d'"
  then have d': "d' = revoke_where (\<lambda>r. t_user_id r = uid) (now e) reason
      (d\<lparr>users := update_where (\<lambda>u. u_id u = uid) (\<lambda>u. u\<lparr>u_auth_version := u_auth_version u + 1\<rparr>) (users d)\<rparr>)"
    and c: "count_where (\<lambda>u. u_id u = uid) (users d) = 1"
    by (simp_all add: bump_eq_Inr)
  show "no_live_token uid d'" unfolding d' by (rule revoke_where_none) simp
  show "only_revokes d d'"
    unfolding d' by (rule only_revokes_tokens [OF _ revoke_where_only]) simp
  show "users d' = update_where (\<lambda>u. u_id u = uid) (\<lambda>u. u\<lparr>u_auth_version := u_auth_version u + 1\<rparr>) (users d)"
    by (simp add: d')
  show "\<exists>u \<in> set (users d). u_id u = uid"
    using c count_where_pos [of "\<lambda>u. u_id u = uid" "users d"] by simp
  show "d' = d\<lparr>users := users d', tokens := tokens d'\<rparr>"
    by (simp add: d' revoke_where_def)
qed

lemma flush_token_by_uuids_frame:
  assumes "flush_token_by_uuids e p uuids d = (Inr (), d')"
  shows "tokens d' = update_where (\<lambda>t. t_device_uuid t \<in> set uuids \<and> t_revoked_at t = None)
      (revoke_row (now e) ''device_removed'') (tokens d)"
    and "d' = d\<lparr>tokens := tokens d'\<rparr>"
proof -
  have d': "d' = revoke_where (\<lambda>t. t_device_uuid t \<in> set uuids) (now e) ''device_removed'' d"
  proof (cases "uuids = []")
    case True
    with assms show ?thesis
      by (simp add: flush_token_by_uuids_def revoke_where_def update_where_id)
  qed (use assms in \<open>auto simp: flush_token_by_uuids_def split: if_splits\<close>)
  then show "tokens d' = update_where (\<lambda>t. t_device_uuid t \<in> set uuids \<and> t_revoked_at t = None)
      (revoke_row (now e) ''device_removed'') (tokens d)" "d' = d\<lparr>tokens := tokens d'\<rparr>"
    by (simp_all add: revoke_where_def)
qed

end
