(* ===== verification/AdminScope.thy ===== *)
theory AdminScope
  imports Revocation
begin

text \<open>
  Resource scopes of scoped administrators (\<open>src/service/adminScope.go\<close>).  A \<open>gorm\<close> scope function
  that adds a WHERE clause is the predicate of that clause on rows; a subquery is the list of the
  values it selects.  Reads whose error the code ignores return nothing when they fail.
\<close>

definition MaxBatchSize :: nat where "MaxBatchSize = 1000"

record scope_set =
  ss_groups :: "nat list"
  ss_users :: "nat list"
  ss_collections :: "nat list"
  ss_peers :: "nat list"

definition find_user :: "nat \<Rightarrow> db \<Rightarrow> user_row option" where
  "find_user uid d = find (\<lambda>u. u_id u = uid) (users d)"

definition info_by_id :: "env \<Rightarrow> point \<Rightarrow> nat \<Rightarrow> db \<Rightarrow> user_row option" where
  "info_by_id e p uid d = (if flt e p then None else find_user uid d)"

section \<open>Normalisation and validation of a scope set\<close>

fun unique_loop :: "nat list \<Rightarrow> nat list \<Rightarrow> err + nat list" where
  "unique_loop [] acc = Inr acc"
| "unique_loop (i # ids) acc =
     (if i = 0 then Inl (ErrNew ''scope resource id must be greater than zero'')
      else if i \<in> set acc then unique_loop ids acc
      else unique_loop ids (acc @ [i]))"

definition unique_nonzero_ids :: "nat list \<Rightarrow> err + nat list" where
  "unique_nonzero_ids ids =
     (if length ids > MaxBatchSize then Inl (ErrNew ''scope contains more than 1000 resources'')
      else unique_loop ids [])"

definition normalize_scope_set :: "scope_set \<Rightarrow> err + scope_set" where
  "normalize_scope_set s =
     ebind (unique_nonzero_ids (ss_groups s)) (\<lambda>gs.
     ebind (unique_nonzero_ids (ss_users s)) (\<lambda>us.
     ebind (unique_nonzero_ids (ss_collections s)) (\<lambda>cs.
     ebind (unique_nonzero_ids (ss_peers s)) (\<lambda>ps.
     Inr \<lparr>ss_groups = gs, ss_users = us, ss_collections = cs, ss_peers = ps\<rparr>))))"

definition count_existing :: "env \<Rightarrow> point \<Rightarrow> ('r \<Rightarrow> nat) \<Rightarrow> 'r list \<Rightarrow> nat list \<Rightarrow> err + unit" where
  "count_existing e p key t ids =
     (if length ids = 0 then Inr ()
      else stmt (flt e) p
        (check (count_where (\<lambda>r. key r \<in> set ids) t = length ids)
           (ErrNew ''one or more scoped resources do not exist'') (Inr ())))"

definition validate_scope_set :: "env \<Rightarrow> scope_set \<Rightarrow> db \<Rightarrow> err + unit" where
  "validate_scope_set e s d =
     ebind (count_existing e (Stmt 11) g_id (groups d) (ss_groups s)) (\<lambda>_.
     ebind (if length (ss_users s) > 0
            then stmt (flt e) (Stmt 12)
              (let found = filter (\<lambda>u. u_id u \<in> set (ss_users s)) (users d)
               in check (length found = length (ss_users s)) (ErrNew ''one or more scoped users do not exist'')
                 (check (list_all (\<lambda>u. effective_role (Some u) = RoleUser) found)
                    (ErrNew ''only ordinary users can be assigned to a scoped administrator'') (Inr ())))
            else Inr ()) (\<lambda>_.
     ebind (count_existing e (Stmt 13) c_id (collections d) (ss_collections s)) (\<lambda>_.
     count_existing e (Stmt 14) p_row_id (peers d) (ss_peers s))))"

section \<open>Replacing the grants of one administrator\<close>

definition scope_rows :: "nat \<Rightarrow> scope_type \<Rightarrow> nat list \<Rightarrow> (nat \<times> scope_type \<times> nat) list" where
  "scope_rows admin ty ids = map (\<lambda>i. (admin, ty, i)) ids"

fun add_scopes :: "(nat \<times> scope_type \<times> nat) list \<Rightarrow> scope_row list \<Rightarrow> scope_row list" where
  "add_scopes [] t = t"
| "add_scopes ((a, ty, i) # rest) t =
     add_scopes rest (t @ [\<lparr>sc_id = next_id sc_id t, sc_admin = a, sc_type = ty, sc_target = i\<rparr>])"

definition scope_key :: "scope_row \<Rightarrow> nat \<times> scope_type \<times> nat" where
  "scope_key r = (sc_admin r, sc_type r, sc_target r)"

text \<open>A bulk insert under the unique index on (administrator, type, target).\<close>

definition create_scopes :: "env \<Rightarrow> point \<Rightarrow> (nat \<times> scope_type \<times> nat) list \<Rightarrow> db \<Rightarrow> err + db" where
  "create_scopes e p rows d =
     stmt (flt e) p
       (check (distinct rows \<and> set rows \<inter> scope_key ` set (scopes d) = {}) UniqueViolation
          (Inr (d\<lparr>scopes := add_scopes rows (scopes d)\<rparr>)))"

definition remove_admin_rows :: "nat \<Rightarrow> db \<Rightarrow> db" where
  "remove_admin_rows admin d = d\<lparr>scopes := delete_where (\<lambda>r. sc_admin r = admin) (scopes d)\<rparr>"

definition wanted_rows :: "nat \<Rightarrow> scope_set \<Rightarrow> (nat \<times> scope_type \<times> nat) list" where
  "wanted_rows admin s =
     scope_rows admin ScopeGroup (ss_groups s) @ scope_rows admin ScopeUser (ss_users s)
     @ scope_rows admin ScopeCollection (ss_collections s) @ scope_rows admin ScopePeer (ss_peers s)"

definition replace_body :: "env \<Rightarrow> nat \<Rightarrow> scope_set \<Rightarrow> db \<Rightarrow> err + unit \<times> db" where
  "replace_body e admin s d =
     stmt (flt e) (Stmt 1)
       (case find_user admin d of
          None \<Rightarrow> Inl RecordNotFound
        | Some locked \<Rightarrow>
            check (effective_role (Some locked) = RoleAdmin) (ErrNew ''scope target must be a scoped administrator'') (
            ebind (validate_scope_set e s d) (\<lambda>_.
            stmt (flt e) (Stmt 2) (
            let d1 = remove_admin_rows admin d;
                rows = wanted_rows admin s
            in ebind (if length rows > 0 then create_scopes e (Stmt 3) rows d1 else Inr d1) (\<lambda>d2.
               ebind (bump_auth_version_and_revoke e (Stmt 4) (Stmt 5) admin ''authorization_scope_changed'' d2) (\<lambda>d3.
               Inr ((), d3)))))))"

definition replace_scopes :: "env \<Rightarrow> nat \<Rightarrow> nat \<Rightarrow> string \<Rightarrow> scope_set \<Rightarrow> db \<Rightarrow> (err + unit) \<times> db" where
  "replace_scopes e actor admin request_id requested d =
     (if \<not> is_super_admin (info_by_id e (Outside 1) actor d) then (Inl ErrAdminScopeDenied, d)
      else case info_by_id e (Outside 2) admin d of
        None \<Rightarrow> (Inl (ErrNew ''scope target must be a scoped administrator''), d)
      | Some target \<Rightarrow>
          if u_id target = 0 \<or> effective_role (Some target) \<noteq> RoleAdmin
          then (Inl (ErrNew ''scope target must be a scoped administrator''), d)
          else (case normalize_scope_set requested of
            Inl er \<Rightarrow> (Inl er, d)
          | Inr s \<Rightarrow>
              audited e actor request_id ''authorization.scope.replaced'' ''user'' (decimal admin)
                [(''groups'', MNum (int (length (ss_groups s)))), (''users'', MNum (int (length (ss_users s)))),
                 (''collections'', MNum (int (length (ss_collections s)))), (''peers'', MNum (int (length (ss_peers s))))]
                ''AUTHORIZATION_SCOPE_UPDATE_FAILED''
                (\<lambda>_. transaction (flt e) (replace_body e admin s)) d))"

text \<open>ScopeSet orders by type and target, so each list comes out ascending.\<close>

definition scope_ids :: "nat \<Rightarrow> scope_type \<Rightarrow> db \<Rightarrow> nat list" where
  "scope_ids admin ty d = map sc_target (filter (\<lambda>r. sc_admin r = admin \<and> sc_type r = ty) (scopes d))"

definition scope_set_of :: "env \<Rightarrow> point \<Rightarrow> nat \<Rightarrow> db \<Rightarrow> err + scope_set" where
  "scope_set_of e p admin d =
     stmt (flt e) p (Inr \<lparr>ss_groups = sort (scope_ids admin ScopeGroup d), ss_users = sort (scope_ids admin ScopeUser d),
       ss_collections = sort (scope_ids admin ScopeCollection d), ss_peers = sort (scope_ids admin ScopePeer d)\<rparr>)"

section \<open>Row filters\<close>

definition effective_user_ids :: "nat \<Rightarrow> db \<Rightarrow> nat list" where
  "effective_user_ids admin d =
     map u_id (filter (\<lambda>u. u_role u = RoleUser \<and>
       (u_id u \<in> set (scope_ids admin ScopeUser d) \<or> u_group_id u \<in> set (scope_ids admin ScopeGroup d))) (users d))"

definition scoped :: "user_row option \<Rightarrow> (nat \<Rightarrow> bool) \<Rightarrow> bool" where
  "scoped actor in_scope \<longleftrightarrow>
     (if is_super_admin actor then True
      else case actor of
        None \<Rightarrow> False
      | Some a \<Rightarrow> if effective_role actor \<noteq> RoleAdmin then False else in_scope (u_id a))"

definition apply_user_scope :: "user_row option \<Rightarrow> db \<Rightarrow> user_row \<Rightarrow> bool" where
  "apply_user_scope actor d u \<longleftrightarrow> scoped actor (\<lambda>a. u_id u \<in> set (effective_user_ids a d))"

definition apply_group_scope :: "user_row option \<Rightarrow> db \<Rightarrow> group_row \<Rightarrow> bool" where
  "apply_group_scope actor d g \<longleftrightarrow> scoped actor (\<lambda>a. g_id g \<in> set (scope_ids a ScopeGroup d))"

definition apply_peer_scope :: "user_row option \<Rightarrow> db \<Rightarrow> peer_row \<Rightarrow> bool" where
  "apply_peer_scope actor d p \<longleftrightarrow>
     scoped actor (\<lambda>a. p_row_id p \<in> set (scope_ids a ScopePeer d) \<or> p_user_id p \<in> set (effective_user_ids a d))"

definition apply_collection_scope :: "user_row option \<Rightarrow> db \<Rightarrow> collection_row \<Rightarrow> bool" where
  "apply_collection_scope actor d c \<longleftrightarrow> scoped actor (\<lambda>a. c_id c \<in> set (scope_ids a ScopeCollection d))"

definition apply_address_book_scope :: "user_row option \<Rightarrow> db \<Rightarrow> abook_row \<Rightarrow> bool" where
  "apply_address_book_scope actor d b \<longleftrightarrow>
     scoped actor (\<lambda>a. ab_collection_id b \<in> set (scope_ids a ScopeCollection d) \<and> ab_collection_id b > 0)"

definition apply_tag_scope :: "user_row option \<Rightarrow> db \<Rightarrow> tag_row \<Rightarrow> bool" where
  "apply_tag_scope actor d t \<longleftrightarrow>
     scoped actor (\<lambda>a. tg_collection_id t \<in> set (scope_ids a ScopeCollection d) \<and> tg_collection_id t > 0)"

definition apply_rule_scope :: "user_row option \<Rightarrow> db \<Rightarrow> rule_row \<Rightarrow> bool" where
  "apply_rule_scope actor d r \<longleftrightarrow> scoped actor (\<lambda>a. r_collection_id r \<in> set (scope_ids a ScopeCollection d))"

section \<open>Decisions\<close>

text \<open>A count whose error is ignored stays 0.\<close>

definition count_query :: "env \<Rightarrow> point \<Rightarrow> ('r \<Rightarrow> bool) \<Rightarrow> 'r list \<Rightarrow> nat" where
  "count_query e p P t = (if flt e p then 0 else count_where P t)"

definition can_manage_user :: "env \<Rightarrow> user_row option \<Rightarrow> user_row option \<Rightarrow> db \<Rightarrow> bool" where
  "can_manage_user e actor target d \<longleftrightarrow>
     (case (actor, target) of
        (Some a, Some t) \<Rightarrow>
          (if u_id t = 0 then False
           else if is_super_admin actor then True
           else if effective_role actor \<noteq> RoleAdmin \<or> effective_role target \<noteq> RoleUser then False
           else count_query e (Outside 1)
                  (\<lambda>u. u_id u = u_id t \<and> u_id u \<in> set (effective_user_ids (u_id a) d)) (users d) = 1)
      | _ \<Rightarrow> False)"

definition can_manage_scope :: "env \<Rightarrow> user_row option \<Rightarrow> scope_type \<Rightarrow> nat \<Rightarrow> db \<Rightarrow> bool" where
  "can_manage_scope e actor ty target d \<longleftrightarrow>
     (if is_super_admin actor then True
      else case actor of
        None \<Rightarrow> False
      | Some a \<Rightarrow>
          if effective_role actor \<noteq> RoleAdmin \<or> target = 0 then False
          else count_query e (Outside 1)
                 (\<lambda>r. sc_admin r = u_id a \<and> sc_type r = ty \<and> sc_target r = target) (scopes d) = 1)"

definition can_manage_group :: "env \<Rightarrow> user_row option \<Rightarrow> nat \<Rightarrow> db \<Rightarrow> bool" where
  "can_manage_group e actor group_id d = can_manage_scope e actor ScopeGroup group_id d"

definition can_manage_collection :: "env \<Rightarrow> user_row option \<Rightarrow> nat \<Rightarrow> db \<Rightarrow> bool" where
  "can_manage_collection e actor collection_id d = can_manage_scope e actor ScopeCollection collection_id d"

definition can_manage_peer :: "env \<Rightarrow> user_row option \<Rightarrow> nat \<Rightarrow> db \<Rightarrow> bool" where
  "can_manage_peer e actor row d \<longleftrightarrow>
     (if is_super_admin actor then True
      else case actor of
        None \<Rightarrow> False
      | Some a \<Rightarrow>
          if effective_role actor \<noteq> RoleAdmin \<or> row = 0 then False
          else count_query e (Outside 1) (\<lambda>p. apply_peer_scope actor d p \<and> p_row_id p = row) (peers d) = 1)"

definition can_manage_address_book :: "env \<Rightarrow> user_row option \<Rightarrow> abook_row option \<Rightarrow> db \<Rightarrow> bool" where
  "can_manage_address_book e actor ob d \<longleftrightarrow>
     (case ob of None \<Rightarrow> False
      | Some b \<Rightarrow> ab_row_id b > 0 \<and> ab_collection_id b > 0 \<and> can_manage_collection e actor (ab_collection_id b) d)"

definition can_manage_rule :: "env \<Rightarrow> user_row option \<Rightarrow> rule_row option \<Rightarrow> db \<Rightarrow> bool" where
  "can_manage_rule e actor ore d \<longleftrightarrow>
     (case ore of None \<Rightarrow> False
      | Some r \<Rightarrow> r_id r > 0 \<and> can_manage_collection e actor (r_collection_id r) d)"

definition can_share_with_user :: "env \<Rightarrow> user_row option \<Rightarrow> nat \<Rightarrow> db \<Rightarrow> bool" where
  "can_share_with_user e actor uid d = can_manage_user e actor (info_by_id e (Outside 2) uid d) d"

definition can_share_with_group :: "env \<Rightarrow> user_row option \<Rightarrow> nat \<Rightarrow> db \<Rightarrow> bool" where
  "can_share_with_group e actor group_id d = can_manage_group e actor group_id d"

definition all_peers_manageable :: "env \<Rightarrow> user_row option \<Rightarrow> nat list \<Rightarrow> db \<Rightarrow> bool" where
  "all_peers_manageable e actor ids d \<longleftrightarrow>
     (case unique_nonzero_ids ids of
        Inl _ \<Rightarrow> False
      | Inr unique \<Rightarrow>
          if length unique \<noteq> length ids then False
          else if is_super_admin actor
          then count_query e (Outside 1) (\<lambda>p. p_row_id p \<in> set unique) (peers d) = length unique
          else count_query e (Outside 1) (\<lambda>p. apply_peer_scope actor d p \<and> p_row_id p \<in> set unique) (peers d)
               = length unique)"

section \<open>Cleaning up\<close>

text \<open>\<open>has_table\<close>: whether the migrated schema has the scope table at all.\<close>

definition remove_resource_scopes ::
    "env \<Rightarrow> point \<Rightarrow> bool \<Rightarrow> scope_type \<Rightarrow> nat list \<Rightarrow> db \<Rightarrow> err + db" where
  "remove_resource_scopes e p has_table ty ids d =
     (if length ids = 0 then Inr d
      else if \<not> has_table then Inr d
      else stmt (flt e) p (Inr (d\<lparr>scopes := delete_where (\<lambda>r. sc_type r = ty \<and> sc_target r \<in> set ids) (scopes d)\<rparr>)))"

definition remove_administrator_scopes :: "env \<Rightarrow> point \<Rightarrow> bool \<Rightarrow> nat \<Rightarrow> db \<Rightarrow> err + db" where
  "remove_administrator_scopes e p has_table admin d =
     (if \<not> has_table then Inr d else stmt (flt e) p (Inr (remove_admin_rows admin d)))"

definition record_denied :: "env \<Rightarrow> nat \<Rightarrow> string \<Rightarrow> string \<Rightarrow> string \<Rightarrow> db \<Rightarrow> db" where
  "record_denied e actor request_id target_type target_id d =
     (case begin_security_audit e actor request_id ''authorization.denied'' target_type target_id [] d of
        Inl _ \<Rightarrow> d
      | Inr (event, d1) \<Rightarrow>
          (case finish_security_audit e event False ''AUTHORIZATION_SCOPE_DENIED'' d1 of
             Inl _ \<Rightarrow> d1 | Inr d2 \<Rightarrow> d2))"

section \<open>Facts about scope sets\<close>

text \<open>The first occurrence of each element, in order.\<close>

fun firsts :: "nat list \<Rightarrow> nat list" where
  "firsts [] = []"
| "firsts (x # xs) = x # filter (\<lambda>y. y \<noteq> x) (firsts xs)"

lemma set_firsts [simp]: "set (firsts xs) = set xs"
  by (induction xs) auto

lemma distinct_firsts [simp]: "distinct (firsts xs)"
  by (induction xs) auto

lemma firsts_id: "distinct xs \<Longrightarrow> firsts xs = xs"
  by (induction xs) (auto simp: filter_id_conv)

lemma length_firsts_le: "length (firsts xs) \<le> length xs"
proof (induction xs)
  case (Cons x xs)
  have "length (filter (\<lambda>y. y \<noteq> x) (firsts xs)) \<le> length (firsts xs)" by simp
  also have "\<dots> \<le> length xs" by (rule Cons.IH)
  finally show ?case by simp
qed simp

lemma length_firsts_eq: "length (firsts xs) = length xs \<longleftrightarrow> distinct xs"
  by (metis card_distinct distinct_card distinct_firsts set_firsts)

lemma unique_loop_Inr:
  "unique_loop ids acc = Inr r \<longleftrightarrow> 0 \<notin> set ids \<and> r = acc @ filter (\<lambda>i. i \<notin> set acc) (firsts ids)"
proof (induction ids arbitrary: acc)
  case (Cons i ids)
  have "filter (\<lambda>j. j \<notin> set acc) (firsts (i # ids)) =
      (if i \<in> set acc then filter (\<lambda>j. j \<notin> set acc) (firsts ids)
       else i # filter (\<lambda>j. j \<notin> set (acc @ [i])) (firsts ids))"
    by (auto intro!: filter_cong)
  then show ?case using Cons.IH by (auto split: if_splits)
qed auto

lemma unique_ids_Inr:
  "unique_nonzero_ids ids = Inr r \<longleftrightarrow> length ids \<le> 1000 \<and> 0 \<notin> set ids \<and> r = firsts ids"
  by (auto simp: unique_nonzero_ids_def unique_loop_Inr MaxBatchSize_def)

lemma normalize_Inr:
  "normalize_scope_set s = Inr s' \<longleftrightarrow>
     (\<forall>ids \<in> {ss_groups s, ss_users s, ss_collections s, ss_peers s}. length ids \<le> 1000 \<and> 0 \<notin> set ids) \<and>
     s' = \<lparr>ss_groups = firsts (ss_groups s), ss_users = firsts (ss_users s),
           ss_collections = firsts (ss_collections s), ss_peers = firsts (ss_peers s)\<rparr>"
  by (auto simp: normalize_scope_set_def outcome_simps unique_ids_Inr)

lemma add_scopes_key: "map scope_key (add_scopes rows t) = map scope_key t @ rows"
  by (induction rows t rule: add_scopes.induct) (simp_all add: scope_key_def)

lemma add_scopes_ids:
  "distinct (map sc_id t) \<Longrightarrow> distinct (map sc_id (add_scopes rows t))"
proof (induction rows t rule: add_scopes.induct)
  case (2 a ty i rest t)
  then show ?case using next_id_notin [of sc_id t] by simp
qed simp

text \<open>\<open>scope_ids\<close> only looks at the keys.\<close>

lemma scope_ids_keys:
  "scope_ids admin ty d =
     map (snd \<circ> snd) (filter (\<lambda>k. fst k = admin \<and> fst (snd k) = ty) (map scope_key (scopes d)))"
  by (simp add: scope_ids_def scope_key_def filter_map comp_def)

end
