(* ===== verification/Peers.thy ===== *)
theory Peers
  imports AdminScope Presence
begin

text \<open>
  Device identities (\<open>src/service/peer.go\<close>, \<open>src/utils/rustdesk.go\<close>, and FindActiveNativeUserID of
  \<open>src/service/user.go\<close>): which of the three trusted paths (a native login, the rendezvous registry,
  an administrator) may create or change the row of a device.  The network verifier is an argument.
  Lookups whose error the code ignores return no row when they fail.
\<close>

section \<open>Device ids (utils/rustdesk.go)\<close>

text \<open>
  A range over a Go string decodes UTF-8; the first rune of a byte string, as the bytes it is
  written back with (an invalid byte becomes U+FFFD) and the rest.
\<close>

definition byte_in :: "nat \<Rightarrow> nat \<Rightarrow> char \<Rightarrow> bool" where
  "byte_in lo hi c \<longleftrightarrow> lo \<le> (of_char c :: nat) \<and> of_char c \<le> hi"

definition second_range :: "nat \<Rightarrow> nat \<times> nat" where
  "second_range b = (if b = 0xE0 then (0xA0, 0xBF) else if b = 0xED then (0x80, 0x9F)
     else if b = 0xF0 then (0x90, 0xBF) else if b = 0xF4 then (0x80, 0x8F) else (0x80, 0xBF))"

definition rune_length :: "string \<Rightarrow> nat" where
  "rune_length s =
     (case s of
        [] \<Rightarrow> 0
      | c # r \<Rightarrow>
          let b = of_char c :: nat; (lo, hi) = second_range b in
          if b < 0x80 then 1
          else if 0xC2 \<le> b \<and> b \<le> 0xDF then
            (case r of c1 # _ \<Rightarrow> if byte_in 0x80 0xBF c1 then 2 else 0 | _ \<Rightarrow> 0)
          else if 0xE0 \<le> b \<and> b \<le> 0xEF then
            (case r of c1 # c2 # _ \<Rightarrow> if byte_in lo hi c1 \<and> byte_in 0x80 0xBF c2 then 3 else 0 | _ \<Rightarrow> 0)
          else if 0xF0 \<le> b \<and> b \<le> 0xF4 then
            (case r of c1 # c2 # c3 # _ \<Rightarrow>
               if byte_in lo hi c1 \<and> byte_in 0x80 0xBF c2 \<and> byte_in 0x80 0xBF c3 then 4 else 0 | _ \<Rightarrow> 0)
          else 0)"

definition replacement_rune :: string where
  "replacement_rune = [CHR 0xEF, CHR 0xBF, CHR 0xBD]"

function runes :: "string \<Rightarrow> string list" where
  "runes s =
     (if s = [] then []
      else if rune_length s = 0 then replacement_rune # runes (tl s)
      else take (rune_length s) s # runes (drop (rune_length s) s))"
  by pat_completeness auto
termination by (relation "measure length") auto

declare runes.simps [simp del]

definition dropped_rune :: "string \<Rightarrow> bool" where
  "dropped_rune r \<longleftrightarrow> r \<in> set space_runes \<or> r = [CHR 0xE2, CHR 0x80, CHR 0x8B] \<or> r = [CHR 0xEF, CHR 0xBB, CHR 0xBF]"

definition normalize_rustdesk_id :: "string \<Rightarrow> string" where
  "normalize_rustdesk_id value = concat (filter (\<lambda>r. \<not> dropped_rune r) (runes value))"

section \<open>Lookups\<close>

definition first_where :: "env \<Rightarrow> point \<Rightarrow> ('r \<Rightarrow> bool) \<Rightarrow> 'r list \<Rightarrow> 'r option" where
  "first_where e p P t = (if flt e p then None else find P t)"

definition find_by_id :: "env \<Rightarrow> point \<Rightarrow> string \<Rightarrow> db \<Rightarrow> peer_row option" where
  "find_by_id e p i d = first_where e p (\<lambda>r. p_id r = normalize_rustdesk_id i) (peers d)"

definition find_by_identity :: "env \<Rightarrow> point \<Rightarrow> string \<Rightarrow> string \<Rightarrow> db \<Rightarrow> peer_row option" where
  "find_by_identity e p i uuid d =
     first_where e p (\<lambda>r. p_id r = normalize_rustdesk_id i \<and> p_uuid r = uuid) (peers d)"

definition find_by_user_id_and_id :: "env \<Rightarrow> point \<Rightarrow> nat \<Rightarrow> string \<Rightarrow> db \<Rightarrow> peer_row option" where
  "find_by_user_id_and_id e p uid i d =
     first_where e p (\<lambda>r. p_user_id r = uid \<and> p_id r = normalize_rustdesk_id i) (peers d)"

definition find_by_uuid :: "env \<Rightarrow> point \<Rightarrow> string \<Rightarrow> db \<Rightarrow> peer_row option" where
  "find_by_uuid e p uuid d = first_where e p (\<lambda>r. p_uuid r = uuid) (peers d)"

definition find_by_user_id_and_uuid :: "env \<Rightarrow> point \<Rightarrow> string \<Rightarrow> nat \<Rightarrow> db \<Rightarrow> peer_row option" where
  "find_by_user_id_and_uuid e p uuid uid d = first_where e p (\<lambda>r. p_uuid r = uuid \<and> p_user_id r = uid) (peers d)"

text \<open>The owner of a device by its currently valid native session, newest first; 0 for none.\<close>

definition native_session :: "string \<Rightarrow> string \<Rightarrow> int \<Rightarrow> db \<Rightarrow> token_row \<Rightarrow> bool" where
  "native_session uuid device_id t d r \<longleftrightarrow>
     (\<exists>u \<in> set (users d). u_id u = t_user_id r \<and> u_status u = COMMON_STATUS_ENABLE
        \<and> u_auth_version u = t_auth_version r) \<and>
     t_device_uuid r = uuid \<and> t_device_id r = device_id \<and>
     t_client r \<in> {LoginLogClientNative, LoginLogClientApp} \<and>
     t_revoked_at r = None \<and> t_expired_at r > t"

fun newest :: "token_row list \<Rightarrow> token_row option" where
  "newest [] = None"
| "newest (r # rs) =
     (case newest rs of
        None \<Rightarrow> Some r
      | Some s \<Rightarrow> if t_issued_at r > t_issued_at s \<or> (t_issued_at r = t_issued_at s \<and> t_id r > t_id s)
                  then Some r else Some s)"

definition find_active_native_user_id :: "env \<Rightarrow> point \<Rightarrow> string \<Rightarrow> string \<Rightarrow> int \<Rightarrow> db \<Rightarrow> nat" where
  "find_active_native_user_id e p uuid device_id t d =
     (let i = normalize_rustdesk_id device_id
      in if uuid = [] \<or> i = [] \<or> flt e p then 0
         else case newest (filter (native_session uuid i t d) (tokens d)) of
           None \<Rightarrow> 0 | Some r \<Rightarrow> t_user_id r)"

section \<open>Binding an identity\<close>

definition PeerIdentitySourceLogin :: string where "PeerIdentitySourceLogin = ''native_login''"
definition PeerIdentitySourceStarry :: string where "PeerIdentitySourceStarry = ''starry_registry''"
definition PeerIdentitySourceManual :: string where "PeerIdentitySourceManual = ''manual''"

definition PeerSysinfoRefreshInterval :: int where "PeerSysinfoRefreshInterval = 24 * 3600"

definition minimal_peer :: "nat \<Rightarrow> string \<Rightarrow> string \<Rightarrow> nat \<Rightarrow> string \<Rightarrow> int \<Rightarrow> peer_row" where
  "minimal_peer row i uuid uid source verified_at =
     \<lparr>p_row_id = row, p_id = i, p_cpu = '''', p_hostname = '''', p_memory = '''', p_os = '''',
      p_username = '''', p_uuid = uuid, p_version = '''', p_user_id = uid, p_identity_source = source,
      p_identity_verified_at = verified_at, p_last_sysinfo_time = 0, p_last_online_time = 0,
      p_last_online_ip = '''', p_activation_epoch = 0, p_activation_id = '''', p_activation_retired = False,
      p_online_until = 0, p_v2_seen_at = 0, p_group_id = 0, p_alias = ''''\<rparr>"

definition update_peer_row :: "nat \<Rightarrow> (peer_row \<Rightarrow> peer_row) \<Rightarrow> db \<Rightarrow> db" where
  "update_peer_row row f d = d\<lparr>peers := update_where (\<lambda>r. p_row_id r = row) f (peers d)\<rparr>"

definition create_peer_row :: "peer_row \<Rightarrow> db \<Rightarrow> err + db" where
  "create_peer_row r d =
     (if p_id r \<in> p_id ` set (peers d) then Inl UniqueViolation else Inr (d\<lparr>peers := peers d @ [r]\<rparr>))"

definition bind_login_body :: "env \<Rightarrow> string \<Rightarrow> string \<Rightarrow> nat \<Rightarrow> db \<Rightarrow> err + unit \<times> db" where
  "bind_login_body e i uuid uid d =
     stmt (flt e) (Stmt 21) (
     let by_ids = take 2 (filter (\<lambda>r. p_id r = i) (peers d)) in
     stmt (flt e) (Stmt 22) (
     let by_uuids = take 2 (filter (\<lambda>r. p_uuid r = uuid) (peers d)) in
     if length by_ids > 1 \<or> length by_uuids > 1 then Inl ErrPeerIdentityConflict
     else case by_ids of
       r # _ \<Rightarrow>
         if p_uuid r \<noteq> [] \<and> p_uuid r \<noteq> uuid then Inl ErrPeerIdentityConflict
         else if p_user_id r \<noteq> 0 \<and> p_user_id r \<noteq> uid then Inl ErrPeerIdentityConflict
         else if list_ex (\<lambda>s. p_row_id s \<noteq> p_row_id r) by_uuids then Inl ErrPeerIdentityConflict
         else stmt (flt e) (Stmt 23)
           (Inr ((), update_peer_row (p_row_id r)
              (\<lambda>x. x\<lparr>p_uuid := uuid, p_user_id := uid, p_identity_source := PeerIdentitySourceLogin,
                     p_identity_verified_at := now e\<rparr>) d))
     | [] \<Rightarrow>
         (case by_uuids of
            r # _ \<Rightarrow>
              if p_user_id r \<noteq> 0 \<and> p_user_id r \<noteq> uid then Inl ErrPeerIdentityConflict
              else stmt (flt e) (Stmt 23)
                (Inr ((), update_peer_row (p_row_id r)
                   (\<lambda>x. x\<lparr>p_id := i, p_user_id := uid, p_identity_source := PeerIdentitySourceLogin,
                          p_identity_verified_at := now e\<rparr>) d))
          | [] \<Rightarrow>
              stmt (flt e) (Stmt 23)
                (ebind (create_peer_row (minimal_peer (next_id p_row_id (peers d)) i uuid uid
                          PeerIdentitySourceLogin (now e)) d) (\<lambda>d'. Inr ((), d'))))))"

definition bind_login_identity :: "env \<Rightarrow> string \<Rightarrow> string \<Rightarrow> nat \<Rightarrow> db \<Rightarrow> (err + unit) \<times> db" where
  "bind_login_identity e device_id uuid uid d =
     (let i = normalize_rustdesk_id device_id
      in if i = [] \<or> uuid = [] \<or> uid = 0 then (Inr (), d)
         else transaction (flt e) (bind_login_body e i uuid uid) d)"

definition bind_registry_body :: "env \<Rightarrow> string \<Rightarrow> string \<Rightarrow> nat \<Rightarrow> db \<Rightarrow> err + unit \<times> db" where
  "bind_registry_body e i uuid uid d =
     stmt (flt e) (Stmt 31) (
     let by_ids = take 2 (filter (\<lambda>r. p_id r = i) (peers d)) in
     stmt (flt e) (Stmt 32) (
     let by_uuids = take 2 (filter (\<lambda>r. p_uuid r = uuid) (peers d)) in
     if length by_ids > 1 \<or> length by_uuids > 1 then Inl ErrPeerIdentityConflict
     else case by_ids of
       r # _ \<Rightarrow>
         if list_ex (\<lambda>s. p_row_id s \<noteq> p_row_id r) by_uuids then Inl ErrPeerIdentityConflict
         else if p_uuid r \<noteq> [] \<and> p_uuid r \<noteq> uuid then Inl ErrPeerIdentityConflict
         else if p_user_id r \<noteq> 0 \<and> uid \<noteq> 0 \<and> p_user_id r \<noteq> uid then Inl ErrPeerIdentityConflict
         else stmt (flt e) (Stmt 33)
           (Inr ((), update_peer_row (p_row_id r)
              (\<lambda>x. let y = x\<lparr>p_uuid := uuid, p_identity_source := PeerIdentitySourceStarry,
                            p_identity_verified_at := now e\<rparr>
                   in if uid > 0 then y\<lparr>p_user_id := uid\<rparr> else y) d))
     | [] \<Rightarrow>
         (case by_uuids of
            r # _ \<Rightarrow>
              if p_user_id r \<noteq> 0 \<and> uid \<noteq> 0 \<and> p_user_id r \<noteq> uid then Inl ErrPeerIdentityConflict
              else stmt (flt e) (Stmt 33)
                (Inr ((), update_peer_row (p_row_id r)
                   (\<lambda>x. let y = x\<lparr>p_id := i, p_identity_source := PeerIdentitySourceStarry,
                                 p_identity_verified_at := now e\<rparr>
                        in if uid > 0 then y\<lparr>p_user_id := uid\<rparr> else y) d))
          | [] \<Rightarrow>
              stmt (flt e) (Stmt 33)
                (ebind (create_peer_row (minimal_peer (next_id p_row_id (peers d)) i uuid uid
                          PeerIdentitySourceStarry (now e)) d) (\<lambda>d'. Inr ((), d'))))))"

definition bind_registry_identity :: "env \<Rightarrow> string \<Rightarrow> string \<Rightarrow> nat \<Rightarrow> db \<Rightarrow> (err + unit) \<times> db" where
  "bind_registry_identity e device_id uuid uid d =
     (let i = normalize_rustdesk_id device_id
      in if i = [] \<or> uuid = [] then (Inl ErrPeerIdentityUnverified, d)
         else transaction (flt e) (bind_registry_body e i uuid uid) d)"

text \<open>ResolveReportIdentity; \<open>network\<close> is the rendezvous verifier, \<open>None\<close> when none is configured.\<close>

definition resolve_by_registry ::
    "env \<Rightarrow> (string \<Rightarrow> string \<Rightarrow> err + bool) option \<Rightarrow> string \<Rightarrow> string \<Rightarrow> nat \<Rightarrow> db \<Rightarrow> (err + peer_row) \<times> db" where
  "resolve_by_registry e network i uuid uid d =
     (case network of
        None \<Rightarrow> (Inl ErrPeerIdentityUnverified, d)
      | Some verify \<Rightarrow>
          (case verify i uuid of
             Inl _ \<Rightarrow> (Inl ErrPeerIdentityUnverified, d)
           | Inr verified \<Rightarrow>
               if \<not> verified then (Inl ErrPeerIdentityUnverified, d)
               else case bind_registry_identity e i uuid uid d of
                 (Inl er, d1) \<Rightarrow> (Inl er, d1)
               | (Inr _, d1) \<Rightarrow>
                   (case find_by_identity e (Outside 5) i uuid d1 of
                      None \<Rightarrow> (Inl ErrPeerIdentityUnverified, d1)
                    | Some r \<Rightarrow> if p_row_id r = 0 \<or> p_uuid r \<noteq> uuid then (Inl ErrPeerIdentityUnverified, d1)
                                else (Inr r, d1))))"

definition resolve_report_identity ::
    "env \<Rightarrow> (string \<Rightarrow> string \<Rightarrow> err + bool) option \<Rightarrow> string \<Rightarrow> string \<Rightarrow> db \<Rightarrow> (err + peer_row) \<times> db" where
  "resolve_report_identity e network device_id uuid d =
     (let i = normalize_rustdesk_id device_id
      in if i = [] \<or> uuid = [] then (Inl ErrPeerIdentityUnverified, d)
         else case find_by_identity e (Outside 1) i uuid d of
           Some r \<Rightarrow> if p_row_id r > 0 then (Inr r, d) else (Inl ErrPeerIdentityUnverified, d)
         | None \<Rightarrow>
             (let peer = find_by_id e (Outside 2) i d;
                  uid = find_active_native_user_id e (Outside 3) uuid i (now e) d;
                  fillable = (case peer of None \<Rightarrow> True | Some p \<Rightarrow> p_uuid p = [])
              in if uid > 0 \<and> fillable
                 then case bind_login_identity e i uuid uid d of
                   (Inr _, d1) \<Rightarrow>
                     (case find_by_identity e (Outside 4) i uuid d1 of
                        Some r \<Rightarrow> if p_row_id r > 0 \<and> p_uuid r = uuid \<and> p_user_id r = uid then (Inr r, d1)
                                  else resolve_by_registry e network i uuid uid d1
                      | None \<Rightarrow> resolve_by_registry e network i uuid uid d1)
                 | (Inl _, d1) \<Rightarrow> resolve_by_registry e network i uuid uid d1
                 else resolve_by_registry e network i uuid uid d))"

section \<open>Reports\<close>

text \<open>
  strings.ToLower as far as a search for ASCII text can see it: ASCII letters, and the two other
  runes whose lower case is an ASCII letter.
\<close>

definition lower_rune :: "string \<Rightarrow> string" where
  "lower_rune r =
     (if r = [CHR 0xC4, CHR 0xB0] then ''i'' else if r = [CHR 0xE2, CHR 0x84, CHR 0xAA] then ''k''
      else map (\<lambda>c. if byte_in 65 90 c then char_of (of_char c + 32 :: nat) else c) r)"

definition to_lower :: "string \<Rightarrow> string" where
  "to_lower s = concat (map lower_rune (runes s))"

definition platform_from_os :: "string \<Rightarrow> string" where
  "platform_from_os os =
     (let os = to_lower os in
      if contains_str os ''android'' then ''Android''
      else if contains_str os ''windows'' then ''Windows''
      else if contains_str os ''linux'' then ''Linux''
      else if contains_str os ''ios'' then ''iOS''
      else if contains_str os ''mac'' then ''Mac OS''
      else '''')"

definition store_sysinfo_body :: "env \<Rightarrow> peer_row \<Rightarrow> string \<Rightarrow> db \<Rightarrow> err + unit \<times> db" where
  "store_sysinfo_body e report ip d =
     stmt (flt e) (Stmt 41)
       (case find (\<lambda>r. p_id r = p_id report \<and> p_uuid r = p_uuid report) (peers d) of
          None \<Rightarrow> Inl RecordNotFound
        | Some current \<Rightarrow>
            let matches = (\<lambda>r. p_row_id r = p_row_id current \<and> p_uuid r = p_uuid report) in
            stmt (flt e) (Stmt 42)
              (if count_where matches (peers d) \<noteq> 1 then Inl ErrPeerIdentityConflict
               else let d1 = d\<lparr>peers := update_where matches
                      (\<lambda>r. r\<lparr>p_cpu := p_cpu report, p_hostname := p_hostname report, p_memory := p_memory report,
                             p_os := p_os report, p_username := p_username report, p_version := p_version report,
                             p_last_sysinfo_time := now e, p_last_online_time := now e, p_last_online_ip := ip\<rparr>)
                      (peers d)\<rparr>
               in stmt (flt e) (Stmt 43)
                 (Inr ((), d1\<lparr>abooks := update_where (\<lambda>b. ab_id b = p_id report)
                    (\<lambda>b. b\<lparr>ab_username := p_username report, ab_hostname := p_hostname report,
                           ab_platform := platform_from_os (p_os report)\<rparr>) (abooks d1)\<rparr>))))"

definition store_sysinfo :: "env \<Rightarrow> peer_row option \<Rightarrow> string \<Rightarrow> db \<Rightarrow> (err + unit) \<times> db" where
  "store_sysinfo e report ip d =
     (case report of
        None \<Rightarrow> (Inl ErrPeerIdentityUnverified, d)
      | Some r \<Rightarrow>
          transaction (flt e) (store_sysinfo_body e (r\<lparr>p_id := normalize_rustdesk_id (p_id r)\<rparr>) ip) d)"

definition update_presence :: "env \<Rightarrow> peer_row option \<Rightarrow> string \<Rightarrow> db \<Rightarrow> (err + unit) \<times> db" where
  "update_presence e peer ip d =
     (case peer of
        None \<Rightarrow> (Inl ErrPeerIdentityUnverified, d)
      | Some p \<Rightarrow>
          if p_row_id p = 0 then (Inl ErrPeerIdentityUnverified, d)
          else if flt e (Stmt 44) then (Inl (DbErr (Stmt 44)), d)
          else (Inr (), d\<lparr>peers := update_where (\<lambda>r. p_row_id r = p_row_id p \<and> p_uuid r = p_uuid p)
                 (\<lambda>r. r\<lparr>p_last_online_time := now e, p_last_online_ip := ip\<rparr>) (peers d)\<rparr>))"

definition needs_sysinfo_refresh :: "peer_row option \<Rightarrow> int \<Rightarrow> bool" where
  "needs_sysinfo_refresh peer t =
     (case peer of
        None \<Rightarrow> True
      | Some p \<Rightarrow> p_last_sysinfo_time p \<le> 0 \<or> t - p_last_sysinfo_time p \<ge> PeerSysinfoRefreshInterval)"

section \<open>Ownership and removal\<close>

definition uuid_unbind_user_id :: "env \<Rightarrow> string \<Rightarrow> nat \<Rightarrow> db \<Rightarrow> db" where
  "uuid_unbind_user_id e uuid uid d =
     (case find_by_user_id_and_uuid e (Outside 6) uuid uid d of
        None \<Rightarrow> d
      | Some r \<Rightarrow> if p_row_id r > 0 \<and> \<not> flt e (Outside 7)
                  then update_peer_row (p_row_id r) (\<lambda>x. x\<lparr>p_user_id := 0\<rparr>) d else d)"

definition erase_user_id :: "env \<Rightarrow> point \<Rightarrow> nat \<Rightarrow> db \<Rightarrow> (err + unit) \<times> db" where
  "erase_user_id e p uid d =
     (if flt e p then (Inl (DbErr p), d)
      else (Inr (), d\<lparr>peers := update_where (\<lambda>r. p_user_id r = uid) (\<lambda>r. r\<lparr>p_user_id := 0\<rparr>) (peers d)\<rparr>))"

definition create_peer :: "env \<Rightarrow> peer_row \<Rightarrow> db \<Rightarrow> (err + unit) \<times> db" where
  "create_peer e u d =
     (let u1 = u\<lparr>p_id := normalize_rustdesk_id (p_id u)\<rparr>;
          u2 = (if p_identity_source u1 = [] then u1\<lparr>p_identity_source := PeerIdentitySourceManual\<rparr> else u1)
      in if flt e (Stmt 45) then (Inl (DbErr (Stmt 45)), d)
         else if p_row_id u2 \<in> p_row_id ` set (peers d) \<and> p_row_id u2 \<noteq> 0 then (Inl UniqueViolation, d)
         else case create_peer_row (u2\<lparr>p_row_id := (if p_row_id u2 = 0 then next_id p_row_id (peers d) else p_row_id u2)\<rparr>) d of
           Inl er \<Rightarrow> (Inl er, d) | Inr d1 \<Rightarrow> (Inr (), d1))"

text \<open>The rows of an \<open>IN\<close> condition, or of a struct, which gorm refuses to delete without its key.\<close>

definition delete_rows_body :: "env \<Rightarrow> bool \<Rightarrow> bool \<Rightarrow> nat list \<Rightarrow> db \<Rightarrow> err + unit \<times> db" where
  "delete_rows_body e has_table has_key ids d =
     ebind (remove_resource_scopes e (Stmt 51) has_table ScopePeer ids d) (\<lambda>d1.
     stmt (flt e) (Stmt 52) (
     stmt (flt e) (Stmt 53) (
     if \<not> has_key then Inl (ErrNew ''WHERE conditions required'') else
     Inr ((), d1\<lparr>leases := delete_where (\<lambda>l. ls_peer_row_id l \<in> set ids) (leases d1),
                 peers := delete_where (\<lambda>r. p_row_id r \<in> set ids) (peers d1)\<rparr>))))"

text \<open>Delete removes the row in a transaction and then ends the sessions of the device.\<close>

definition delete_peer :: "env \<Rightarrow> bool \<Rightarrow> peer_row \<Rightarrow> db \<Rightarrow> (err + unit) \<times> db" where
  "delete_peer e has_table u d =
     (case transaction (flt e) (delete_rows_body e has_table (p_row_id u \<noteq> 0) [p_row_id u]) d of
        (Inl er, d1) \<Rightarrow> (Inl er, d1)
      | (Inr _, d1) \<Rightarrow> flush_token_by_uuid e (Outside 8) (p_uuid u) d1)"

definition get_uuid_list_by_ids :: "env \<Rightarrow> point \<Rightarrow> nat list \<Rightarrow> db \<Rightarrow> err + string list" where
  "get_uuid_list_by_ids e p ids d =
     stmt (flt e) p (Inr (filter (\<lambda>u. u \<noteq> []) (map p_uuid (filter (\<lambda>r. p_row_id r \<in> set ids) (peers d)))))"

definition batch_delete_peers :: "env \<Rightarrow> bool \<Rightarrow> nat list \<Rightarrow> db \<Rightarrow> (err + unit) \<times> db" where
  "batch_delete_peers e has_table ids d =
     (case get_uuid_list_by_ids e (Outside 9) ids d of
        Inl er \<Rightarrow> (Inl er, d)
      | Inr uuids \<Rightarrow>
          (case transaction (flt e) (delete_rows_body e has_table True ids) d of
             (Inl er, d1) \<Rightarrow> (Inl er, d1)
           | (Inr _, d1) \<Rightarrow> flush_token_by_uuids e (Outside 8) uuids d1))"

text \<open>Update writes the non-zero fields of the given struct; without a row key gorm refuses the statement.\<close>

definition patch_peer :: "peer_row \<Rightarrow> peer_row \<Rightarrow> peer_row" where
  "patch_peer u r = \<lparr>p_row_id = p_row_id r, p_id = patch [] (p_id u) (p_id r),
     p_cpu = patch [] (p_cpu u) (p_cpu r), p_hostname = patch [] (p_hostname u) (p_hostname r),
     p_memory = patch [] (p_memory u) (p_memory r), p_os = patch [] (p_os u) (p_os r),
     p_username = patch [] (p_username u) (p_username r), p_uuid = patch [] (p_uuid u) (p_uuid r),
     p_version = patch [] (p_version u) (p_version r), p_user_id = patch 0 (p_user_id u) (p_user_id r),
     p_identity_source = patch [] (p_identity_source u) (p_identity_source r),
     p_identity_verified_at = patch 0 (p_identity_verified_at u) (p_identity_verified_at r),
     p_last_sysinfo_time = patch 0 (p_last_sysinfo_time u) (p_last_sysinfo_time r),
     p_last_online_time = patch 0 (p_last_online_time u) (p_last_online_time r),
     p_last_online_ip = patch [] (p_last_online_ip u) (p_last_online_ip r),
     p_activation_epoch = patch 0 (p_activation_epoch u) (p_activation_epoch r),
     p_activation_id = patch [] (p_activation_id u) (p_activation_id r),
     p_activation_retired = patch False (p_activation_retired u) (p_activation_retired r),
     p_online_until = patch 0 (p_online_until u) (p_online_until r),
     p_v2_seen_at = patch 0 (p_v2_seen_at u) (p_v2_seen_at r),
     p_group_id = patch 0 (p_group_id u) (p_group_id r), p_alias = patch [] (p_alias u) (p_alias r)\<rparr>"

definition update_peer :: "env \<Rightarrow> peer_row \<Rightarrow> db \<Rightarrow> (err + unit) \<times> db" where
  "update_peer e u d =
     (let u1 = (if p_id u \<noteq> [] then u\<lparr>p_id := normalize_rustdesk_id (p_id u)\<rparr> else u) in
      if flt e (Stmt 46) then (Inl (DbErr (Stmt 46)), d)
      else if p_row_id u1 = 0 then (Inl (ErrNew ''WHERE conditions required''), d)
      else if p_id u1 \<noteq> [] \<and> (\<exists>r \<in> set (peers d). p_row_id r = p_row_id u1) \<and>
              (\<exists>s \<in> set (peers d). p_row_id s \<noteq> p_row_id u1 \<and> p_id s = p_id u1)
           then (Inl UniqueViolation, d)
      else (Inr (), update_peer_row (p_row_id u1) (patch_peer u1) d))"

end
