(* ===== verification/AdminScopeProps.thy ===== *)
theory AdminScopeProps
  imports AdminScope
begin

text \<open>
  Properties of scoped administration: what a replacement of grants stores and who is left signed
  in, that decisions and listings agree, and that a scoped administrator never reaches another
  administrator.
\<close>

section \<open>Replacing grants\<close>

lemma set_wanted_rows:
  "set (wanted_rows admin s) = (\<lambda>i. (admin, ScopeGroup, i)) ` set (ss_groups s) \<union>
     (\<lambda>i. (admin, ScopeUser, i)) ` set (ss_users s) \<union>
     (\<lambda>i. (admin, ScopeCollection, i)) ` set (ss_collections s) \<union>
     (\<lambda>i. (admin, ScopePeer, i)) ` set (ss_peers s)"
  by (auto simp: wanted_rows_def scope_rows_def)

lemma filter_scope_rows:
  "filter (\<lambda>k. fst k = admin' \<and> fst (snd k) = ty') (scope_rows admin ty ids) =
     (if admin = admin' \<and> ty = ty' then scope_rows admin ty ids else [])"
  by (induction ids) (auto simp: scope_rows_def)

lemma snd_scope_rows: "map (snd \<circ> snd) (scope_rows admin ty ids) = ids"
  by (induction ids) (simp_all add: scope_rows_def)

lemma remove_admin_keys:
  "map scope_key (scopes (remove_admin_rows admin d)) = filter (\<lambda>k. fst k \<noteq> admin) (map scope_key (scopes d))"
  unfolding remove_admin_rows_def delete_where_def by (simp add: filter_map comp_def scope_key_def)

lemma create_scopes_Inr:
  "create_scopes e p rows d = Inr d' \<longleftrightarrow> \<not> flt e p \<and> distinct rows \<and> set rows \<inter> scope_key ` set (scopes d) = {} \<and>
     d' = d\<lparr>scopes := add_scopes rows (scopes d)\<rparr>"
  by (auto simp: create_scopes_def outcome_simps)

lemma replace_bodyD:
  assumes "replace_body e admin s d = Inr (u, d')"
  shows "map scope_key (scopes d') = filter (\<lambda>k. fst k \<noteq> admin) (map scope_key (scopes d)) @ wanted_rows admin s"
    and "no_live_token admin d'" and "only_revokes d d'"
    and "users d' = update_where (\<lambda>u. u_id u = admin) (\<lambda>u. u\<lparr>u_auth_version := u_auth_version u + 1\<rparr>) (users d)"
    and "\<exists>locked. find_user admin d = Some locked \<and> effective_role (Some locked) = RoleAdmin"
    and "validate_scope_set e s d = Inr ()"
proof -
  from assms obtain locked d2 where l: "find_user admin d = Some locked" "effective_role (Some locked) = RoleAdmin"
    and v: "validate_scope_set e s d = Inr ()"
    and d2: "(if length (wanted_rows admin s) > 0
        then create_scopes e (Stmt 3) (wanted_rows admin s) (remove_admin_rows admin d)
        else Inr (remove_admin_rows admin d)) = Inr d2"
    and b: "bump_auth_version_and_revoke e (Stmt 4) (Stmt 5) admin ''authorization_scope_changed'' d2 = Inr d'"
    by (auto simp: replace_body_def outcome_simps Let_def simp del: bump_eq_Inr split: option.splits)
  have k2: "map scope_key (scopes d2) = filter (\<lambda>k. fst k \<noteq> admin) (map scope_key (scopes d)) @ wanted_rows admin s"
    using d2 remove_admin_keys [of admin d] by (auto simp: create_scopes_Inr add_scopes_key split: if_splits)
  have same: "tokens d2 = tokens d" "users d2 = users d"
    using d2 by (auto simp: create_scopes_Inr remove_admin_rows_def split: if_splits)
  show "map scope_key (scopes d') = filter (\<lambda>k. fst k \<noteq> admin) (map scope_key (scopes d)) @ wanted_rows admin s"
    using b k2 by (simp add: bump_eq_Inr)
  show "no_live_token admin d'" by (rule session_rv.revoke_all [OF b])
  show "only_revokes d d'" using only_revokes_tokens [OF same(1) [symmetric] session_rv.revoke_only [OF b]] .
  show "users d' = update_where (\<lambda>u. u_id u = admin) (\<lambda>u. u\<lparr>u_auth_version := u_auth_version u + 1\<rparr>) (users d)"
    using session_rv.revoke_bumps [OF b] same by simp
  show "\<exists>locked. find_user admin d = Some locked \<and> effective_role (Some locked) = RoleAdmin" using l by blast
  show "validate_scope_set e s d = Inr ()" by (rule v)
qed

lemma replace_scopesE:
  assumes "replace_scopes e actor admin rid requested d = (Inr u, d')"
  obtains s d1 d2 where "is_super_admin (info_by_id e (Outside 1) actor d)" "normalize_scope_set requested = Inr s"
    "same_but_events d d1" "replace_body e admin s d1 = Inr (u, d2)" "same_but_events d2 d'"
proof -
  from assms obtain s where s: "normalize_scope_set requested = Inr s" "is_super_admin (info_by_id e (Outside 1) actor d)"
    and a: "audited e actor rid ''authorization.scope.replaced'' ''user'' (decimal admin)
                [(''groups'', MNum (int (length (ss_groups s)))), (''users'', MNum (int (length (ss_users s)))),
                 (''collections'', MNum (int (length (ss_collections s)))), (''peers'', MNum (int (length (ss_peers s))))]
                ''AUTHORIZATION_SCOPE_UPDATE_FAILED''
                (\<lambda>_. transaction (flt e) (replace_body e admin s)) d = (Inr u, d')"
    by (auto simp: replace_scopes_def split: if_splits option.splits sum.splits)
  from a show thesis
  proof (rule audited_eq_InrE)
    fix event d1 d2
    assume "transaction (flt e) (replace_body e admin s) d1 = (Inr u, d2)"
      "d1 = d\<lparr>events := events d @ [event]\<rparr>" "same_but_events d2 d'"
    then show thesis using s that [of s d1 d2] by (simp add: transaction_eq_Inr)
  qed
qed

section \<open>Properties\<close>

lemma scope_ids_append:
  assumes "map scope_key (scopes d') = filter (\<lambda>k. fst k \<noteq> admin) (map scope_key (scopes d)) @ wanted_rows admin s"
  shows "scope_ids admin ScopeGroup d' = ss_groups s" "scope_ids admin ScopeUser d' = ss_users s"
    "scope_ids admin ScopeCollection d' = ss_collections s" "scope_ids admin ScopePeer d' = ss_peers s"
    "b \<noteq> admin \<Longrightarrow> scope_ids b ty d' = scope_ids b ty d"
proof -
  have old: "filter (\<lambda>k. fst k = admin \<and> fst (snd k) = ty') (filter (\<lambda>k. fst k \<noteq> admin) ks) = []" for ty' ks
    by (induction ks) auto
  show "scope_ids admin ScopeGroup d' = ss_groups s" "scope_ids admin ScopeUser d' = ss_users s"
    "scope_ids admin ScopeCollection d' = ss_collections s" "scope_ids admin ScopePeer d' = ss_peers s"
    by (simp_all add: scope_ids_keys assms wanted_rows_def filter_scope_rows snd_scope_rows old)
  assume "b \<noteq> admin"
  then have "filter (\<lambda>k. fst k = b \<and> fst (snd k) = ty) (filter (\<lambda>k. fst k \<noteq> admin) ks) =
      filter (\<lambda>k. fst k = b \<and> fst (snd k) = ty) ks" for ks :: "(nat \<times> scope_type \<times> nat) list"
    by (auto simp: filter_filter intro: filter_cong)
  then show "scope_ids b ty d' = scope_ids b ty d"
    using \<open>b \<noteq> admin\<close> by (simp add: scope_ids_keys assms wanted_rows_def filter_scope_rows)
qed

lemma replace_scopes_effect_facts:
  assumes "replace_scopes e actor admin rid requested d = (Inr u, d')" and "\<not> flt e2 p"
  shows "scope_set_of e2 p admin d' = Inr \<lparr>ss_groups = sort (firsts (ss_groups requested)),
      ss_users = sort (firsts (ss_users requested)), ss_collections = sort (firsts (ss_collections requested)),
      ss_peers = sort (firsts (ss_peers requested))\<rparr>"
    and "\<forall>b ty. b \<noteq> admin \<longrightarrow> scope_ids b ty d' = scope_ids b ty d"
    and "\<exists>a. find_user admin d = Some a \<and> effective_role (Some a) = RoleAdmin"
    and "\<forall>r \<in> set (tokens d'). t_user_id r = admin \<longrightarrow> t_revoked_at r \<noteq> None"
proof -
  from assms(1) obtain s d1 d2 where s: "normalize_scope_set requested = Inr s"
    and d1: "same_but_events d d1" and b: "replace_body e admin s d1 = Inr (u, d2)" and d2: "same_but_events d2 d'"
    by (rule replace_scopesE)
  note R = replace_bodyD [OF b]
  note f1 = same_but_events_fields [OF d1] and f2 = same_but_events_fields [OF d2]
  have k: "map scope_key (scopes d') = filter (\<lambda>k. fst k \<noteq> admin) (map scope_key (scopes d)) @ wanted_rows admin s"
    using R(1) f1 f2 by simp
  have sv: "s = \<lparr>ss_groups = firsts (ss_groups requested), ss_users = firsts (ss_users requested),
      ss_collections = firsts (ss_collections requested), ss_peers = firsts (ss_peers requested)\<rparr>"
    using s unfolding normalize_Inr by blast
  show "scope_set_of e2 p admin d' = Inr \<lparr>ss_groups = sort (firsts (ss_groups requested)),
      ss_users = sort (firsts (ss_users requested)), ss_collections = sort (firsts (ss_collections requested)),
      ss_peers = sort (firsts (ss_peers requested))\<rparr>"
    using assms(2) scope_ids_append(1-4) [OF k] by (simp add: scope_set_of_def sv)
  show "\<forall>b ty. b \<noteq> admin \<longrightarrow> scope_ids b ty d' = scope_ids b ty d"
    using scope_ids_append(5) [OF k] by blast
  show "\<exists>a. find_user admin d = Some a \<and> effective_role (Some a) = RoleAdmin"
    using R(5) f1 by (simp add: find_user_def)
  show "\<forall>r \<in> set (tokens d'). t_user_id r = admin \<longrightarrow> t_revoked_at r \<noteq> None"
    using R(2) f2 by (simp add: no_live_token_def)
qed

text \<open>When ReplaceScopes succeeds, reading the administrator's grants back gives exactly the requested
  ids, each once and in ascending order, the grants of every other administrator are what they
  were, the target is a scoped administrator, and not one of its sessions is left unrevoked.\<close>

lemma replace_scopes_effect:
  assumes "replace_scopes e actor admin rid requested d = (Inr u, d')" and "\<not> flt e2 p"
  shows "(scope_set_of e2 p admin d' = Inr \<lparr>ss_groups = sort (firsts (ss_groups requested)),
      ss_users = sort (firsts (ss_users requested)), ss_collections = sort (firsts (ss_collections requested)),
      ss_peers = sort (firsts (ss_peers requested))\<rparr>) \<and>
    (\<forall>b ty. b \<noteq> admin \<longrightarrow> scope_ids b ty d' = scope_ids b ty d) \<and>
    (\<exists>a. find_user admin d = Some a \<and> effective_role (Some a) = RoleAdmin) \<and>
    (\<forall>r \<in> set (tokens d'). t_user_id r = admin \<longrightarrow> t_revoked_at r \<noteq> None)"
  using replace_scopes_effect_facts [OF assms] by blast

definition demo_user :: "nat \<Rightarrow> user_role \<Rightarrow> user_row" where
  "demo_user i r = \<lparr>u_id = i, u_username = decimal i, u_email = '''', u_password = '''', u_nickname = '''',
     u_avatar = '''', u_language = '''', u_theme = '''', u_group_id = 1, u_role = r,
     u_is_admin = Some (r \<noteq> RoleUser), u_status = COMMON_STATUS_ENABLE, u_auth_version = 1, u_remark = ''''\<rparr>"

definition demo_token_row :: "nat \<Rightarrow> nat \<Rightarrow> token_row" where
  "demo_token_row i uid = \<lparr>t_id = i, t_user_id = uid, t_device_uuid = '''', t_device_id = '''', t_token = '''',
     t_jti = Some (decimal i), t_kid = '''', t_hash = Some (decimal i), t_auth_version = 1, t_issued_at = 0,
     t_expired_at = 1000, t_revoked_at = None, t_revoked_reason = '''', t_client = ''webadmin''\<rparr>"

definition scope_db :: db where
  "scope_db = empty_db\<lparr>users := [demo_user 1 RoleSuperAdmin, demo_user 2 RoleAdmin, demo_user 3 RoleUser],
     groups := [\<lparr>g_id = 1, g_name = ''g'', g_type = 1\<rparr>], tokens := [demo_token_row 1 2, demo_token_row 2 3]\<rparr>"

definition scope_env :: env where
  "scope_env = \<lparr>flt = no_faults, now = 50, uuid_parses = (\<lambda>_. False), uuid_new = ''req''\<rparr>"

definition scope_request :: scope_set where
  "scope_request = \<lparr>ss_groups = [1], ss_users = [3, 3], ss_collections = [], ss_peers = []\<rparr>"

lemma replace_scopes_effect_witness:
  "scope_set_of scope_env (Outside 9) 2 (snd (replace_scopes scope_env 1 2 ''r'' scope_request scope_db)) =
     Inr \<lparr>ss_groups = [1], ss_users = [3], ss_collections = [], ss_peers = []\<rparr>"
proof -
  have ok: "fst (replace_scopes scope_env 1 2 ''r'' scope_request scope_db) = Inr ()" by code_simp
  then have "replace_scopes scope_env 1 2 ''r'' scope_request scope_db =
      (Inr (), snd (replace_scopes scope_env 1 2 ''r'' scope_request scope_db))" by (simp add: prod_eq_iff)
  from replace_scopes_effect [OF this, of scope_env "Outside 9", THEN conjunct1] show ?thesis
    by (simp add: scope_env_def scope_request_def)
qed

text \<open>C21: A scoped administrator can manage a user only if that user is an ordinary user in the database
  who is granted directly or through a granted group: no scoped administrator ever manages another
  administrator or a super administrator, and an ordinary user manages nobody.\<close>

theorem scoped_admin_bounded:
  assumes "can_manage_user e (Some a) (Some t) d" and "effective_role (Some a) \<noteq> RoleSuperAdmin"
  shows "effective_role (Some a) = RoleAdmin \<and> effective_role (Some t) = RoleUser \<and>
    (\<exists>u \<in> set (users d). u_id u = u_id t \<and> u_role u = RoleUser \<and>
       ((\<exists>g \<in> set (scopes d). sc_admin g = u_id a \<and> sc_type g = ScopeUser \<and> sc_target g = u_id u) \<or>
        (\<exists>g \<in> set (scopes d). sc_admin g = u_id a \<and> sc_type g = ScopeGroup \<and> sc_target g = u_group_id u)))"
proof -
  from assms have r: "effective_role (Some a) = RoleAdmin" "effective_role (Some t) = RoleUser"
    and "count_query e (Outside 1) (\<lambda>u. u_id u = u_id t \<and> u_id u \<in> set (effective_user_ids (u_id a) d)) (users d) = 1"
    by (auto simp: can_manage_user_def is_super_admin_def split: if_splits)
  then have "0 < count_where (\<lambda>u. u_id u = u_id t \<and> u_id u \<in> set (effective_user_ids (u_id a) d)) (users d)"
    by (simp add: count_query_def split: if_splits)
  then have "u_id t \<in> set (effective_user_ids (u_id a) d)" by (auto simp: count_where_pos)
  then obtain u where u: "u \<in> set (users d)" "u_id u = u_id t" "u_role u = RoleUser"
    "u_id u \<in> set (scope_ids (u_id a) ScopeUser d) \<or> u_group_id u \<in> set (scope_ids (u_id a) ScopeGroup d)"
    by (auto simp: effective_user_ids_def)
  have "(\<exists>g \<in> set (scopes d). sc_admin g = u_id a \<and> sc_type g = ScopeUser \<and> sc_target g = u_id u) \<or>
      (\<exists>g \<in> set (scopes d). sc_admin g = u_id a \<and> sc_type g = ScopeGroup \<and> sc_target g = u_group_id u)"
    using u(4) unfolding scope_ids_def by fastforce
  with r u(1-3) show ?thesis by blast
qed

lemma scoped_admin_bounded_witness:
  "can_manage_user scope_env (Some (demo_user 2 RoleAdmin)) (Some (demo_user 3 RoleUser))
     (snd (replace_scopes scope_env 1 2 ''r'' scope_request scope_db)) \<and>
   (\<exists>u \<in> set (users (snd (replace_scopes scope_env 1 2 ''r'' scope_request scope_db))). u_id u = 3 \<and> u_role u = RoleUser)"
proof
  show c: "can_manage_user scope_env (Some (demo_user 2 RoleAdmin)) (Some (demo_user 3 RoleUser))
     (snd (replace_scopes scope_env 1 2 ''r'' scope_request scope_db))" by code_simp
  have "effective_role (Some (demo_user 2 RoleAdmin)) \<noteq> RoleSuperAdmin" by code_simp
  from scoped_admin_bounded [OF c this]
  show "\<exists>u \<in> set (users (snd (replace_scopes scope_env 1 2 ''r'' scope_request scope_db))). u_id u = 3 \<and> u_role u = RoleUser"
    by (auto simp: demo_user_def)
qed

text \<open>The batch check of device operations is exact: it says yes precisely when the ids are distinct,
  non-zero, at most 1000, and each is the row of a device the actor's listing shows.\<close>

lemma all_peers_manageable_iff:
  assumes "distinct (map p_row_id (peers d))" and "\<not> flt e (Outside 1)"
  shows "all_peers_manageable e actor ids d \<longleftrightarrow>
    distinct ids \<and> 0 \<notin> set ids \<and> length ids \<le> 1000 \<and>
    (\<forall>i \<in> set ids. \<exists>p \<in> set (peers d). p_row_id p = i \<and> apply_peer_scope actor d p)"
proof (cases "unique_nonzero_ids ids")
  case (Inl er)
  then have "\<not> (length ids \<le> 1000 \<and> 0 \<notin> set ids)"
    using unique_ids_Inr [of ids "firsts ids"] by auto
  then show ?thesis using Inl by (auto simp: all_peers_manageable_def)
next
  case (Inr us)
  then have ok: "length ids \<le> 1000" "0 \<notin> set ids" "us = firsts ids" by (simp_all add: unique_ids_Inr)
  show ?thesis
  proof (cases "distinct ids")
    case False
    then show ?thesis using Inr ok length_firsts_eq [of ids] by (simp add: all_peers_manageable_def)
  next
    case True
    then have us: "us = ids" using ok(3) by (simp add: firsts_id)
    have all: "apply_peer_scope actor d p" if "is_super_admin actor" for p
      using that by (simp add: apply_peer_scope_def scoped_def)
    have "all_peers_manageable e actor ids d \<longleftrightarrow>
        count_where (\<lambda>p. apply_peer_scope actor d p \<and> p_row_id p \<in> set ids) (peers d) = length ids"
      using Inr us assms(2) all by (auto simp: all_peers_manageable_def count_query_def)
    then show ?thesis using count_keys_all [OF assms(1) True] ok True by auto
  qed
qed

lemma all_peers_manageable_iff_witness: "\<not> all_peers_manageable scope_env (Some (demo_user 2 RoleAdmin)) [7] scope_db"
  using all_peers_manageable_iff [of scope_db scope_env "Some (demo_user 2 RoleAdmin)" "[7]"]
  by (simp add: scope_db_def empty_db_def scope_env_def)

lemma decisions_match_listings_facts:
  assumes "distinct (map u_id (users d))" "distinct (map p_row_id (peers d))" "distinct (map scope_key (scopes d))"
    and "\<not> flt e (Outside 1)"
  shows "t \<in> set (users d) \<Longrightarrow> u_id t \<noteq> 0 \<Longrightarrow> role_valid (u_role t) \<Longrightarrow>
      can_manage_user e (Some a) (Some t) d \<longleftrightarrow> apply_user_scope (Some a) d t"
    and "p \<in> set (peers d) \<Longrightarrow> p_row_id p \<noteq> 0 \<Longrightarrow> can_manage_peer e (Some a) (p_row_id p) d \<longleftrightarrow> apply_peer_scope (Some a) d p"
    and "g_id g \<noteq> 0 \<Longrightarrow> can_manage_group e (Some a) (g_id g) d \<longleftrightarrow> apply_group_scope (Some a) d g"
    and "c_id c \<noteq> 0 \<Longrightarrow> can_manage_collection e (Some a) (c_id c) d \<longleftrightarrow> apply_collection_scope (Some a) d c"
proof -
  show "can_manage_user e (Some a) (Some t) d \<longleftrightarrow> apply_user_scope (Some a) d t"
    if t: "t \<in> set (users d)" "u_id t \<noteq> 0" "role_valid (u_role t)"
  proof -
    let ?E = "set (effective_user_ids (u_id a) d)"
    have "count_where (\<lambda>u. u_id u = u_id t \<and> u_id u \<in> ?E) (users d) = 1 \<longleftrightarrow> u_id t \<in> ?E"
    proof
      assume "u_id t \<in> ?E"
      then show "count_where (\<lambda>u. u_id u = u_id t \<and> u_id u \<in> ?E) (users d) = 1"
        by (rule count_key_with [OF assms(1) t(1)])
    next
      assume "count_where (\<lambda>u. u_id u = u_id t \<and> u_id u \<in> ?E) (users d) = 1"
      then have "0 < count_where (\<lambda>u. u_id u = u_id t \<and> u_id u \<in> ?E) (users d)" by simp
      then show "u_id t \<in> ?E" unfolding count_where_pos by auto
    qed
    moreover have "effective_role (Some t) = RoleUser" if E: "u_id t \<in> ?E"
    proof -
      obtain u where u: "u \<in> set (users d)" "u_id u = u_id t" "u_role u = RoleUser"
        using E by (auto simp: effective_user_ids_def)
      then have "u = t" using key_unique [OF assms(1) u(1) t(1)] by simp
      then show ?thesis using u(3) by (simp add: effective_role_def)
    qed
    ultimately show ?thesis
      using t(2) assms(4) by (auto simp: can_manage_user_def apply_user_scope_def scoped_def count_query_def)
  qed
  show "can_manage_peer e (Some a) (p_row_id p) d \<longleftrightarrow> apply_peer_scope (Some a) d p"
    if p: "p \<in> set (peers d)" "p_row_id p \<noteq> 0"
  proof -
    have "count_where (\<lambda>q. apply_peer_scope (Some a) d q \<and> p_row_id q = p_row_id p) (peers d) = 1 \<longleftrightarrow>
        apply_peer_scope (Some a) d p"
    proof -
      have "(\<exists>q \<in> set (peers d). p_row_id q = p_row_id p \<and> apply_peer_scope (Some a) d q) \<longleftrightarrow>
          apply_peer_scope (Some a) d p"
        using key_unique [OF assms(2) _ p(1)] p(1) by metis
      then show ?thesis
        using count_keys_all [OF assms(2), of "[p_row_id p]" "apply_peer_scope (Some a) d"] by simp
    qed
    then show ?thesis using p(2) assms(4)
      by (auto simp: can_manage_peer_def count_query_def) (auto simp: apply_peer_scope_def scoped_def)
  qed
  have sc: "can_manage_scope e (Some a) ty i d \<longleftrightarrow> scoped (Some a) (\<lambda>a. i \<in> set (scope_ids a ty d))" if "i \<noteq> 0" for ty i
  proof -
    have "count_where (\<lambda>r. sc_admin r = u_id a \<and> sc_type r = ty \<and> sc_target r = i) (scopes d) = 1 \<longleftrightarrow>
        i \<in> set (scope_ids (u_id a) ty d)"
      using count_key_eq_1 [OF assms(3), of "(u_id a, ty, i)"]
      by (auto simp: scope_key_def scope_ids_def)
    then show ?thesis using that assms(4) by (auto simp: can_manage_scope_def scoped_def count_query_def)
  qed
  show "can_manage_group e (Some a) (g_id g) d \<longleftrightarrow> apply_group_scope (Some a) d g" if "g_id g \<noteq> 0"
    using sc [OF that] by (simp add: can_manage_group_def apply_group_scope_def)
  show "can_manage_collection e (Some a) (c_id c) d \<longleftrightarrow> apply_collection_scope (Some a) d c" if "c_id c \<noteq> 0"
    using sc [OF that] by (simp add: can_manage_collection_def apply_collection_scope_def)
qed

text \<open>Decisions and listings agree: for a row of the database, an actor may manage a user, a device, a
  group or a collection exactly when the filter of the corresponding listing lets that row through.\<close>

theorem decisions_match_listings:
  assumes "distinct (map u_id (users d))" "distinct (map p_row_id (peers d))" "distinct (map scope_key (scopes d))"
    and "\<not> flt e (Outside 1)"
  shows "(t \<in> set (users d) \<longrightarrow> u_id t \<noteq> 0 \<longrightarrow> role_valid (u_role t) \<longrightarrow>
      can_manage_user e (Some a) (Some t) d \<longleftrightarrow> apply_user_scope (Some a) d t) \<and>
    (p \<in> set (peers d) \<longrightarrow> p_row_id p \<noteq> 0 \<longrightarrow> can_manage_peer e (Some a) (p_row_id p) d \<longleftrightarrow> apply_peer_scope (Some a) d p) \<and>
    (g_id g \<noteq> 0 \<longrightarrow> can_manage_group e (Some a) (g_id g) d \<longleftrightarrow> apply_group_scope (Some a) d g) \<and>
    (c_id c \<noteq> 0 \<longrightarrow> can_manage_collection e (Some a) (c_id c) d \<longleftrightarrow> apply_collection_scope (Some a) d c)"
  using decisions_match_listings_facts [OF assms] by blast

lemma decisions_match_listings_witness:
  "can_manage_user scope_env (Some (demo_user 1 RoleSuperAdmin)) (Some (demo_user 3 RoleUser)) scope_db \<and>
   apply_user_scope (Some (demo_user 1 RoleSuperAdmin)) scope_db (demo_user 3 RoleUser)"
proof -
  have "can_manage_user scope_env (Some (demo_user 1 RoleSuperAdmin)) (Some (demo_user 3 RoleUser)) scope_db \<longleftrightarrow>
      apply_user_scope (Some (demo_user 1 RoleSuperAdmin)) scope_db (demo_user 3 RoleUser)"
    using decisions_match_listings [of scope_db scope_env "demo_user 3 RoleUser" "demo_user 1 RoleSuperAdmin",
      THEN conjunct1] by (simp add: scope_db_def empty_db_def demo_user_def scope_env_def)
  moreover have "apply_user_scope (Some (demo_user 1 RoleSuperAdmin)) scope_db (demo_user 3 RoleUser)" by code_simp
  ultimately show ?thesis by simp
qed

end
