(* ===== verification/PeersProps.thy ===== *)
theory PeersProps
  imports Peers AdminScopeProps
begin

text \<open>
  Properties of the identity operations of \<open>Peers\<close>: the normal form of a device id, which reports
  are attributed to which row, what binding never changes, and what removing a device removes.
\<close>

section \<open>The normal form of a device id\<close>

lemma rune_length_le: "rune_length s \<le> length s"
  by (auto simp: rune_length_def Let_def split: list.splits prod.splits)

lemma rune_length_take: "rune_length (take (rune_length s) s) = rune_length s"
  by (auto simp: rune_length_def Let_def split: list.splits prod.splits)

definition whole_rune :: "string \<Rightarrow> bool" where
  "whole_rune r \<longleftrightarrow> r \<noteq> [] \<and> rune_length r = length r"

lemma rune_length_append: "whole_rune r \<Longrightarrow> rune_length (r @ s) = length r"
  by (cases r; cases "tl r"; cases "tl (tl r)"; cases "tl (tl (tl r))")
    (auto simp: whole_rune_def rune_length_def Let_def split: list.splits prod.splits if_splits)

lemma replacement_whole: "whole_rune replacement_rune"
  by (simp add: whole_rune_def replacement_rune_def rune_length_def second_range_def byte_in_def Let_def)

lemma runes_whole: "r \<in> set (runes s) \<Longrightarrow> whole_rune r"
proof (induction s rule: runes.induct)
  case (1 s)
  show ?case
  proof (cases "s = []")
    case True
    with "1.prems" show ?thesis by (simp add: runes.simps)
  next
    case s: False
    show ?thesis
    proof (cases "rune_length s = 0")
      case True
      with "1.prems" s "1.IH"(1) show ?thesis
        by (subst (asm) runes.simps) (auto intro: replacement_whole)
    next
      case False
      with rune_length_le [of s] have "whole_rune (take (rune_length s) s)"
        by (auto simp: whole_rune_def rune_length_take)
      with "1.prems" s False "1.IH"(2) show ?thesis
        by (subst (asm) runes.simps) auto
    qed
  qed
qed

lemma runes_concat: "(\<And>r. r \<in> set rs \<Longrightarrow> whole_rune r) \<Longrightarrow> runes (concat rs) = rs"
proof (induction rs)
  case Nil
  then show ?case by (simp add: runes.simps)
next
  case (Cons r rs)
  then have r: "whole_rune r" and "r \<noteq> []" by (simp_all add: whole_rune_def)
  with rune_length_append [OF r, of "concat rs"] Cons show ?case
    by (subst runes.simps) simp
qed

lemma normalize_idem: "normalize_rustdesk_id (normalize_rustdesk_id s) = normalize_rustdesk_id s"
proof -
  have "runes (normalize_rustdesk_id s) = filter (\<lambda>r. \<not> dropped_rune r) (runes s)"
    unfolding normalize_rustdesk_id_def by (rule runes_concat) (auto dest: runes_whole)
  then show ?thesis by (simp add: normalize_rustdesk_id_def)
qed

section \<open>Binding\<close>

text \<open>
  Row keys and device ids are unique, and so are the non-empty device UUIDs: at most one row claims
  an identity.
\<close>

definition identity_inv :: "db \<Rightarrow> bool" where
  "identity_inv d \<longleftrightarrow>
     distinct (map p_row_id (peers d)) \<and> inj_on p_id (set (peers d)) \<and>
     inj_on p_uuid {r \<in> set (peers d). p_uuid r \<noteq> []}"

text \<open>Every row stays; an established UUID and an established owner never change.\<close>

definition keeps_identities :: "db \<Rightarrow> db \<Rightarrow> bool" where
  "keeps_identities d d' \<longleftrightarrow>
     d' = d\<lparr>peers := peers d'\<rparr> \<and>
     (\<forall>r \<in> set (peers d). \<exists>r' \<in> set (peers d'). p_row_id r' = p_row_id r \<and>
        (p_uuid r \<noteq> [] \<longrightarrow> p_uuid r' = p_uuid r) \<and> (p_user_id r \<noteq> 0 \<longrightarrow> p_user_id r' = p_user_id r))"

lemma keeps_identities_refl [simp]: "keeps_identities d d"
  by (auto simp: keeps_identities_def)

lemma keeps_identities_trans:
  assumes "keeps_identities d d1" "keeps_identities d1 d2"
  shows "keeps_identities d d2"
proof -
  have "d2 = d\<lparr>peers := peers d2\<rparr>"
    using assms unfolding keeps_identities_def by (metis db.surjective db.update_convs(4))
  moreover have "\<exists>r2 \<in> set (peers d2). p_row_id r2 = p_row_id r \<and>
      (p_uuid r \<noteq> [] \<longrightarrow> p_uuid r2 = p_uuid r) \<and> (p_user_id r \<noteq> 0 \<longrightarrow> p_user_id r2 = p_user_id r)"
    if "r \<in> set (peers d)" for r
  proof -
    from assms(1) that obtain r1 where 1: "r1 \<in> set (peers d1)" "p_row_id r1 = p_row_id r"
        "p_uuid r \<noteq> [] \<Longrightarrow> p_uuid r1 = p_uuid r" "p_user_id r \<noteq> 0 \<Longrightarrow> p_user_id r1 = p_user_id r"
      unfolding keeps_identities_def by metis
    from assms(2) 1(1) obtain r2 where "r2 \<in> set (peers d2)" "p_row_id r2 = p_row_id r1"
        "p_uuid r1 \<noteq> [] \<Longrightarrow> p_uuid r2 = p_uuid r1" "p_user_id r1 \<noteq> 0 \<Longrightarrow> p_user_id r2 = p_user_id r1"
      unfolding keeps_identities_def by metis
    with 1 show ?thesis by metis
  qed
  ultimately show ?thesis by (simp add: keeps_identities_def)
qed

text \<open>What a successful binding of \<open>(i, uuid)\<close> does: fill the one row concerned or add one.\<close>

definition fills :: "string \<Rightarrow> string \<Rightarrow> db \<Rightarrow> db \<Rightarrow> bool" where
  "fills i uuid d d' \<longleftrightarrow>
     (\<exists>r \<in> set (peers d). \<exists>f. d' = update_peer_row (p_row_id r) f d \<and>
        p_row_id (f r) = p_row_id r \<and> p_id (f r) = i \<and> p_uuid (f r) = uuid \<and>
        (p_uuid r \<noteq> [] \<longrightarrow> p_uuid r = uuid) \<and> (p_user_id r \<noteq> 0 \<longrightarrow> p_user_id (f r) = p_user_id r) \<and>
        (\<forall>s \<in> set (peers d). s \<noteq> r \<longrightarrow> p_id s \<noteq> i \<and> p_uuid s \<noteq> uuid)) \<or>
     (\<exists>r. d' = d\<lparr>peers := peers d @ [r]\<rparr> \<and> p_row_id r = next_id p_row_id (peers d) \<and> p_id r = i \<and>
        p_uuid r = uuid \<and> (\<forall>s \<in> set (peers d). p_id s \<noteq> i \<and> p_uuid s \<noteq> uuid))"

lemma take_2_filter:
  assumes "\<not> length (take 2 (filter P t)) > 1"
  shows "take 2 (filter P t) = filter P t"
  using assms by simp

lemma filter_single:
  assumes "filter P t = [r]"
  shows "r \<in> set t" "P r" "s \<in> set t \<Longrightarrow> P s \<Longrightarrow> s = r"
proof -
  have "set (filter P t) = {r}" using assms by simp
  then show "r \<in> set t" "P r" "s \<in> set t \<Longrightarrow> P s \<Longrightarrow> s = r" by auto
qed

lemma fills_by_id:
  assumes inv: "identity_inv d" and r: "filter (\<lambda>r. p_id r = i) (peers d) = [r]"
    and u: "p_uuid r \<noteq> [] \<longrightarrow> p_uuid r = uuid"
    and others: "\<not> list_ex (\<lambda>s. p_row_id s \<noteq> p_row_id r) (filter (\<lambda>r. p_uuid r = uuid) (peers d))"
    and f: "p_row_id (f r) = p_row_id r" "p_id (f r) = p_id r" "p_uuid (f r) = uuid"
      "p_user_id r \<noteq> 0 \<longrightarrow> p_user_id (f r) = p_user_id r"
  shows "fills i uuid d (update_peer_row (p_row_id r) f d)"
proof -
  have d: "distinct (map p_row_id (peers d))" using inv by (simp add: identity_inv_def)
  note rr = filter_single [OF r]
  have "p_uuid s \<noteq> uuid" if s: "s \<in> set (peers d)" "s \<noteq> r" for s
  proof
    assume "p_uuid s = uuid"
    with s(1) others have "p_row_id s = p_row_id r" by (auto simp: list_ex_iff)
    then have "s = r" by (rule key_unique [OF d s(1) rr(1)])
    with s(2) show False by simp
  qed
  moreover have "p_id s \<noteq> i" if "s \<in> set (peers d)" "s \<noteq> r" for s
    using rr(3) [OF that(1)] that(2) by metis
  ultimately have o: "\<forall>s \<in> set (peers d). s \<noteq> r \<longrightarrow> p_id s \<noteq> i \<and> p_uuid s \<noteq> uuid" by metis
  have "p_id (f r) = i" using f(2) rr(2) by simp
  with rr(1) u f o show ?thesis
    unfolding fills_def by metis
qed

lemma fills_by_uuid:
  assumes i: "filter (\<lambda>r. p_id r = i) (peers d) = []" and r: "filter (\<lambda>r. p_uuid r = uuid) (peers d) = [r]"
    and f: "p_row_id (f r) = p_row_id r" "p_id (f r) = i" "p_uuid (f r) = p_uuid r"
      "p_user_id r \<noteq> 0 \<longrightarrow> p_user_id (f r) = p_user_id r"
  shows "fills i uuid d (update_peer_row (p_row_id r) f d)"
proof -
  note rr = filter_single [OF r]
  have "\<forall>s \<in> set (peers d). p_id s \<noteq> i" using i by (simp add: filter_empty_conv)
  then have o: "\<forall>s \<in> set (peers d). s \<noteq> r \<longrightarrow> p_id s \<noteq> i \<and> p_uuid s \<noteq> uuid"
    using rr(3) by metis
  have "p_uuid (f r) = uuid" using f(3) rr(2) by simp
  with rr(1,2) f o show ?thesis
    unfolding fills_def by metis
qed

lemma fills_new:
  assumes "filter (\<lambda>r. p_id r = i) (peers d) = []" "filter (\<lambda>r. p_uuid r = uuid) (peers d) = []"
    and "create_peer_row (minimal_peer (next_id p_row_id (peers d)) i uuid uid source t) d = Inr d'"
  shows "fills i uuid d d'"
  using assms unfolding fills_def
  by (intro disjI2) (auto simp: create_peer_row_def minimal_peer_def filter_empty_conv split: if_splits)

lemma two_rows_cases:
  obtains (none) "filter P t = []" "take 2 (filter P t) = []"
  | (one) r where "filter P t = [r]" "take 2 (filter P t) = [r]"
  | (many) "length (take 2 (filter P t)) > 1"
proof (cases "filter P t")
  case Nil
  then show thesis by (intro none) simp_all
next
  case (Cons r rs)
  then show thesis by (cases rs) (auto intro: one many)
qed

lemma bind_login_fills:
  assumes inv: "identity_inv d" and b: "bind_login_body e i uuid uid d = Inr ((), d')"
  shows "fills i uuid d d'"
proof (cases rule: two_rows_cases [of "\<lambda>r. p_id r = i" "peers d"])
  case none
  note n = this
  show ?thesis
  proof (cases rule: two_rows_cases [of "\<lambda>r. p_uuid r = uuid" "peers d"])
    case none
    with n b show ?thesis
      by (auto simp: bind_login_body_def outcome_simps intro: fills_new)
  next
    case (one r)
    with n b show ?thesis
      by (auto simp: bind_login_body_def outcome_simps split: if_splits intro!: fills_by_uuid)
  next
    case many
    with n b show ?thesis by (simp add: bind_login_body_def outcome_simps)
  qed
next
  case (one r)
  then show ?thesis using b
    by (auto simp: bind_login_body_def outcome_simps Let_def list_ex_iff split: if_splits
          intro!: fills_by_id [OF inv] dest: in_set_takeD)
next
  case many
  with b show ?thesis by (simp add: bind_login_body_def outcome_simps)
qed

lemma bind_registry_fills:
  assumes inv: "identity_inv d" and b: "bind_registry_body e i uuid uid d = Inr ((), d')"
  shows "fills i uuid d d'"
proof (cases rule: two_rows_cases [of "\<lambda>r. p_id r = i" "peers d"])
  case none
  note n = this
  show ?thesis
  proof (cases rule: two_rows_cases [of "\<lambda>r. p_uuid r = uuid" "peers d"])
    case none
    with n b show ?thesis
      by (auto simp: bind_registry_body_def outcome_simps intro: fills_new)
  next
    case (one r)
    with n b show ?thesis
      by (auto simp: bind_registry_body_def outcome_simps Let_def split: if_splits intro!: fills_by_uuid)
  next
    case many
    with n b show ?thesis by (simp add: bind_registry_body_def outcome_simps)
  qed
next
  case (one r)
  then show ?thesis using b
    by (auto simp: bind_registry_body_def outcome_simps Let_def list_ex_iff split: if_splits
          intro!: fills_by_id [OF inv] dest: in_set_takeD)
next
  case many
  with b show ?thesis by (simp add: bind_registry_body_def outcome_simps)
qed

lemma peers_update_peer_row [simp]:
  "peers (update_peer_row row f d) = update_where (\<lambda>r. p_row_id r = row) f (peers d)"
  by (simp add: update_peer_row_def)

lemma set_update_key:
  assumes "distinct (map k t)" "r \<in> set t"
  shows "set (update_where (\<lambda>x. k x = k r) f t) = insert (f r) {s \<in> set t. s \<noteq> r}"
  using key_unique [OF assms(1) _ assms(2)] assms(2) by (force simp: set_update_where)

lemma fills_keeps:
  assumes inv: "identity_inv d" and f: "fills i uuid d d'"
  shows "keeps_identities d d'"
  using f unfolding fills_def
proof (elim disjE bexE exE conjE)
  fix r f
  assume r: "r \<in> set (peers d)" and d': "d' = update_peer_row (p_row_id r) f d"
    and fr: "p_row_id (f r) = p_row_id r" "p_uuid (f r) = uuid" "p_uuid r \<noteq> [] \<longrightarrow> p_uuid r = uuid"
      "p_user_id r \<noteq> 0 \<longrightarrow> p_user_id (f r) = p_user_id r"
  have s: "set (peers d') = insert (f r) {s \<in> set (peers d). s \<noteq> r}"
    using inv r by (simp add: d' identity_inv_def set_update_key)
  have "d' = d\<lparr>peers := peers d'\<rparr>" by (simp add: d' update_peer_row_def)
  then show ?thesis
    unfolding keeps_identities_def s using fr by auto
next
  fix r assume "d' = d\<lparr>peers := peers d @ [r]\<rparr>"
  then show ?thesis by (auto simp: keeps_identities_def)
qed

lemma fills_inv:
  assumes inv: "identity_inv d" and f: "fills i uuid d d'"
  shows "identity_inv d'"
  using f unfolding fills_def
proof (elim disjE bexE exE conjE)
  fix r f
  assume r: "r \<in> set (peers d)" and d': "d' = update_peer_row (p_row_id r) f d"
    and fr: "p_row_id (f r) = p_row_id r" "p_id (f r) = i" "p_uuid (f r) = uuid"
    and o: "\<forall>s \<in> set (peers d). s \<noteq> r \<longrightarrow> p_id s \<noteq> i \<and> p_uuid s \<noteq> uuid"
  have d: "distinct (map p_row_id (peers d))" using inv by (simp add: identity_inv_def)
  have s: "set (peers d') = insert (f r) {s \<in> set (peers d). s \<noteq> r}"
    using r by (simp add: d' set_update_key [OF d])
  have "map p_row_id (peers d') = map p_row_id (peers d)"
    using key_unique [OF d _ r] fr(1) by (auto simp: d' update_where_def)
  with inv o fr show ?thesis
    unfolding identity_inv_def s by (auto simp: inj_on_def)
next
  fix r
  assume "d' = d\<lparr>peers := peers d @ [r]\<rparr>" "p_row_id r = next_id p_row_id (peers d)" "p_id r = i"
    "p_uuid r = uuid" "\<forall>s \<in> set (peers d). p_id s \<noteq> i \<and> p_uuid s \<noteq> uuid"
  with inv next_id_notin [of p_row_id "peers d"] show ?thesis
    by (auto simp: identity_inv_def inj_on_def)
qed

lemma fills_found:
  assumes "identity_inv d" "fills i uuid d d'"
  shows "\<exists>r \<in> set (peers d'). p_id r = i \<and> p_uuid r = uuid"
  using assms unfolding fills_def identity_inv_def
  by (auto simp: set_update_key)

lemma bind_login_effect:
  assumes "identity_inv d"
  shows "identity_inv (snd (bind_login_identity e i uuid uid d)) \<and>
    keeps_identities d (snd (bind_login_identity e i uuid uid d))"
  by (cases rule: transaction_cases [of "flt e" "bind_login_body e (normalize_rustdesk_id i) uuid uid" d])
    (auto simp: bind_login_identity_def Let_def assms
       dest: bind_login_fills [OF assms] fills_inv [OF assms] fills_keeps [OF assms])

lemma bind_registry_effect:
  assumes "identity_inv d"
  shows "identity_inv (snd (bind_registry_identity e i uuid uid d)) \<and>
    keeps_identities d (snd (bind_registry_identity e i uuid uid d))"
  by (cases rule: transaction_cases [of "flt e" "bind_registry_body e (normalize_rustdesk_id i) uuid uid" d])
    (auto simp: bind_registry_identity_def Let_def assms
       dest: bind_registry_fills [OF assms] fills_inv [OF assms] fills_keeps [OF assms])

lemma find_by_identity_Some:
  "find_by_identity e p i uuid d = Some r \<Longrightarrow> r \<in> set (peers d) \<and> p_id r = normalize_rustdesk_id i \<and> p_uuid r = uuid"
  by (auto simp: find_by_identity_def first_where_def dest: find_SomeD split: if_splits)

text \<open>The registry path: without a positive answer of the network nothing happens.\<close>

definition network_confirms :: "(string \<Rightarrow> string \<Rightarrow> err + bool) option \<Rightarrow> string \<Rightarrow> string \<Rightarrow> bool" where
  "network_confirms network i uuid = (case network of None \<Rightarrow> False | Some verify \<Rightarrow> verify i uuid = Inr True)"

lemma resolve_by_registry_cases:
  assumes "resolve_by_registry e network i uuid uid d = (res, d')"
  obtains (refused) "\<not> network_confirms network i uuid" "res = Inl ErrPeerIdentityUnverified" "d' = d"
  | (bound) "network_confirms network i uuid" "d' = snd (bind_registry_identity e i uuid uid d)"
      "\<And>r. res = Inr r \<Longrightarrow> find_by_identity e (Outside 5) i uuid d' = Some r"
  using assms unfolding resolve_by_registry_def network_confirms_def
  by (auto split: option.splits sum.splits prod.splits if_splits)

lemma newest_in: "newest rs = Some r \<Longrightarrow> r \<in> set rs"
  by (induction rs arbitrary: r) (auto split: option.splits if_splits)

lemma active_native_user:
  assumes "find_active_native_user_id e p uuid i t d > 0"
  obtains r where "r \<in> set (tokens d)" "native_session uuid (normalize_rustdesk_id i) t d r"
    "t_user_id r = find_active_native_user_id e p uuid i t d"
  using assms unfolding find_active_native_user_id_def Let_def
  by (auto split: if_splits option.splits dest!: newest_in)

text \<open>The three proofs of an identity the service accepts.\<close>

definition identity_proven ::
    "env \<Rightarrow> (string \<Rightarrow> string \<Rightarrow> err + bool) option \<Rightarrow> string \<Rightarrow> string \<Rightarrow> db \<Rightarrow> bool" where
  "identity_proven e network i uuid d \<longleftrightarrow>
     (\<exists>r \<in> set (peers d). p_id r = i \<and> p_uuid r = uuid) \<or>
     (\<exists>t \<in> set (tokens d). native_session uuid i (now e) d t) \<or>
     network_confirms network i uuid"

lemma resolve_cases:
  assumes "resolve_report_identity e network dev uuid d = (res, d')"
    and i: "i = normalize_rustdesk_id dev"
  obtains (refused) "res = Inl ErrPeerIdentityUnverified" "d' = d"
  | (known) r where "res = Inr r" "d' = d" "find_by_identity e (Outside 1) i uuid d = Some r" "i \<noteq> []" "uuid \<noteq> []"
  | (session) uid r where "uid > 0" "uid = find_active_native_user_id e (Outside 3) uuid i (now e) d" "i \<noteq> []" "uuid \<noteq> []"
      "d' = snd (bind_login_identity e i uuid uid d)" "res = Inr r"
      "find_by_identity e (Outside 4) i uuid d' = Some r" "p_user_id r = uid"
  | (registry) uid d1 where "resolve_by_registry e network i uuid uid d1 = (res, d')" "i \<noteq> []" "uuid \<noteq> []"
      "d1 = d \<or> uid > 0 \<and> uid = find_active_native_user_id e (Outside 3) uuid i (now e) d \<and>
         d1 = snd (bind_login_identity e i uuid uid d)"
proof (cases "i = [] \<or> uuid = []")
  case True
  with assms refused show thesis by (auto simp: resolve_report_identity_def)
next
  case ne: False
  show thesis
  proof (cases "find_by_identity e (Outside 1) i uuid d")
    case (Some r)
    with assms ne refused known show thesis
      by (auto simp: resolve_report_identity_def split: if_splits)
  next
    case None
    let ?uid = "find_active_native_user_id e (Outside 3) uuid i (now e) d"
    obtain r1 d1 where b: "bind_login_identity e i uuid ?uid d = (r1, d1)" by fastforce
    have s: "snd (bind_login_identity e i uuid ?uid d) = d1" using b by simp
    show thesis
      using assms ne None b s session [of ?uid] registry [of ?uid d] registry [of ?uid d1]
      unfolding resolve_report_identity_def Let_def
      by (auto split: if_splits option.splits sum.splits)
  qed
qed

section \<open>Properties\<close>

text \<open>Normalising a device id is idempotent, also on bytes that are not valid UTF-8: what the service
  stores and what it looks up are the same normal form.\<close>

lemma normalize_rustdesk_id_idempotent:
  "normalize_rustdesk_id (normalize_rustdesk_id s) = normalize_rustdesk_id s \<and>
   (\<forall>r \<in> set (runes (normalize_rustdesk_id s)). \<not> dropped_rune r)"
proof
  show "normalize_rustdesk_id (normalize_rustdesk_id s) = normalize_rustdesk_id s" by (rule normalize_idem)
  have "runes (normalize_rustdesk_id s) = filter (\<lambda>r. \<not> dropped_rune r) (runes s)"
    unfolding normalize_rustdesk_id_def by (rule runes_concat) (auto dest: runes_whole)
  then show "\<forall>r \<in> set (runes (normalize_rustdesk_id s)). \<not> dropped_rune r" by simp
qed

lemma normalize_rustdesk_id_idempotent_witness:
  "normalize_rustdesk_id (normalize_rustdesk_id '' 12 34'') = normalize_rustdesk_id '' 12 34''"
  using normalize_rustdesk_id_idempotent [of "'' 12 34''"] by simp

text \<open>C3: Whatever a device, a login or the rendezvous registry reports, and whichever statements fail,
  identities stay one-to-one (row keys, device ids and non-empty UUIDs are unique), no row disappears,
  and an established UUID or owner of a device is never replaced.\<close>

theorem identities_never_reassigned:
  assumes "identity_inv d"
    and "d' = snd (bind_login_identity e dev uuid uid d) \<or> d' = snd (bind_registry_identity e dev uuid uid d) \<or>
         d' = snd (resolve_report_identity e network dev uuid d)"
  shows "identity_inv d' \<and> keeps_identities d d'"
  using assms(2)
proof (elim disjE)
  assume d': "d' = snd (resolve_report_identity e network dev uuid d)"
  obtain res where r: "resolve_report_identity e network dev uuid d = (res, d')"
    using d' by (cases "resolve_report_identity e network dev uuid d") auto
  let ?i = "normalize_rustdesk_id dev"
  from r refl show ?thesis
  proof (cases rule: resolve_cases)
    case (registry uid d1)
    have d1: "identity_inv d1 \<and> keeps_identities d d1"
      using registry(4) assms(1) bind_login_effect [OF assms(1)] by auto
    from registry(1) show ?thesis
    proof (cases rule: resolve_by_registry_cases)
      case bound
      then show ?thesis using d1 bind_registry_effect [of d1] keeps_identities_trans by metis
    qed (simp add: d1)
  qed (use assms(1) bind_login_effect [OF assms(1)] in auto)
qed (use assms(1) bind_login_effect bind_registry_effect in auto)

text \<open>A report is attributed to a row only on proof: the row that is returned is in the table with the
  reported (normalised) id and UUID, both non-empty, and a report that is accepted or changes anything is
  proven by an established row, by a currently valid native session of that device, or by a positive
  answer of the rendezvous network.\<close>

lemma report_attributed_only_on_proof:
  assumes "resolve_report_identity e network dev uuid d = (res, d')"
  shows "(\<forall>r. res = Inr r \<longrightarrow> r \<in> set (peers d') \<and> p_id r = normalize_rustdesk_id dev \<and> p_uuid r = uuid \<and>
            p_id r \<noteq> [] \<and> uuid \<noteq> []) \<and>
    (d' \<noteq> d \<or> (\<exists>r. res = Inr r) \<longrightarrow> identity_proven e network (normalize_rustdesk_id dev) uuid d)"
proof -
  let ?i = "normalize_rustdesk_id dev"
  have session: "identity_proven e network ?i uuid d"
    if "find_active_native_user_id e (Outside 3) uuid ?i (now e) d > 0"
    using that by (rule active_native_user) (auto simp: identity_proven_def normalize_idem)
  from assms refl show ?thesis
  proof (cases rule: resolve_cases)
    case (known r)
    then show ?thesis
      by (auto simp: identity_proven_def normalize_idem dest!: find_by_identity_Some)
  next
    case (session uid r)
    then show ?thesis using \<open>_ \<Longrightarrow> identity_proven e network ?i uuid d\<close>
      by (auto simp: normalize_idem dest!: find_by_identity_Some)
  next
    case (registry uid d1)
    from registry(1) show ?thesis
    proof (cases rule: resolve_by_registry_cases)
      case refused
      then show ?thesis using registry(4) session by auto
    next
      case bound
      then have "identity_proven e network ?i uuid d" by (simp add: identity_proven_def)
      then show ?thesis using bound(3) registry(2,3)
        by (auto simp: normalize_idem dest!: find_by_identity_Some)
    qed
  qed simp
qed

text \<open>
  The witnesses run on one device with an established identity, one that only has an id, and the live
  native session of the second device's owner.
\<close>

definition peers_env :: env where
  "peers_env = \<lparr>flt = no_faults, now = 50, uuid_parses = (\<lambda>_. False), uuid_new = ''req''\<rparr>"

definition peers_db :: db where
  "peers_db = empty_db\<lparr>
     users := [demo_user 3 RoleUser],
     tokens := [(demo_token_row 1 3)\<lparr>t_device_uuid := ''u2'', t_device_id := ''22'', t_client := ''client''\<rparr>,
                demo_token_row 2 3, (demo_token_row 3 3)\<lparr>t_device_uuid := ''u1''\<rparr>],
     peers := [minimal_peer 1 ''11'' ''u1'' 3 ''native_login'' 5, minimal_peer 2 ''22'' '''' 0 ''manual'' 0]\<rparr>"

lemma identities_never_reassigned_witness:
  "keeps_identities peers_db (snd (resolve_report_identity peers_env None '' 22'' ''u2'' peers_db))"
proof -
  have "identity_inv peers_db"
    by (auto simp: identity_inv_def peers_db_def empty_db_def minimal_peer_def inj_on_def)
  from identities_never_reassigned [OF this, of _ peers_env "'' 22''" "''u2''" 0 None] show ?thesis by blast
qed

lemma report_attributed_only_on_proof_witness:
  "identity_proven peers_env None (normalize_rustdesk_id '' 22'') ''u2'' peers_db"
proof -
  obtain res d' where r: "resolve_report_identity peers_env None '' 22'' ''u2'' peers_db = (res, d')"
    by fastforce
  have "\<not> isl (fst (resolve_report_identity peers_env None '' 22'' ''u2'' peers_db))" by code_simp
  with r have "\<exists>r. res = Inr r" by (cases res) auto
  with report_attributed_only_on_proof [OF r] show ?thesis by blast
qed

text \<open>A successful batch removal removes exactly the listed rows, every presence lease and
  administrator grant of them, and revokes every session of a listed device that has a UUID; every other
  session is untouched.\<close>

lemma batch_delete_peers_effect:
  assumes "batch_delete_peers e has_table ids d = (Inr (), d')"
  shows "peers d' = delete_where (\<lambda>r. p_row_id r \<in> set ids) (peers d) \<and>
    (\<forall>l \<in> set (leases d'). ls_peer_row_id l \<notin> set ids) \<and>
    (has_table \<longrightarrow> (\<forall>s \<in> set (scopes d'). \<not> (sc_type s = ScopePeer \<and> sc_target s \<in> set ids))) \<and>
    tokens d' = update_where
      (\<lambda>t. t_device_uuid t \<in> p_uuid ` {r \<in> set (peers d). p_row_id r \<in> set ids} - {[]} \<and> t_revoked_at t = None)
      (revoke_row (now e) ''device_removed'') (tokens d)"
proof -
  let ?us = "filter (\<lambda>u. u \<noteq> []) (map p_uuid (filter (\<lambda>r. p_row_id r \<in> set ids) (peers d)))"
  from assms obtain d1 where b: "delete_rows_body e has_table True ids d = Inr ((), d1)"
    and f: "flush_token_by_uuids e (Outside 8) ?us d1 = (Inr (), d')"
    by (auto simp: batch_delete_peers_def get_uuid_list_by_ids_def stmt_def transaction_eq_Inr
        split: sum.splits prod.splits if_splits)
  from b have t: "tokens d1 = tokens d" and p: "peers d1 = delete_where (\<lambda>r. p_row_id r \<in> set ids) (peers d)"
    and l: "leases d1 = delete_where (\<lambda>l. ls_peer_row_id l \<in> set ids) (leases d)"
    and s: "has_table \<Longrightarrow> ids \<noteq> [] \<Longrightarrow>
      scopes d1 = delete_where (\<lambda>r. sc_type r = ScopePeer \<and> sc_target r \<in> set ids) (scopes d)"
    by (auto simp: delete_rows_body_def remove_resource_scopes_def outcome_simps split: if_splits)
  have us: "set ?us = p_uuid ` {r \<in> set (peers d). p_row_id r \<in> set ids} - {[]}" by auto
  have tok: "tokens d' = update_where
      (\<lambda>t. t_device_uuid t \<in> p_uuid ` {r \<in> set (peers d). p_row_id r \<in> set ids} - {[]} \<and> t_revoked_at t = None)
      (revoke_row (now e) ''device_removed'') (tokens d)"
    using flush_token_by_uuids_frame(1) [OF f] unfolding us t .
  have fr: "leases d' = leases d1" "peers d' = peers d1" "scopes d' = scopes d1"
    by (subst flush_token_by_uuids_frame(2) [OF f], simp)+
  show ?thesis
    unfolding tok fr p l using s by (cases "ids = []") (simp_all add: set_delete_where)
qed

lemma batch_delete_peers_effect_witness:
  "tokens (snd (batch_delete_peers peers_env True [1, 2] peers_db)) =
     [(demo_token_row 1 3)\<lparr>t_device_uuid := ''u2'', t_device_id := ''22'', t_client := ''client''\<rparr>, demo_token_row 2 3,
      revoke_row 50 ''device_removed'' ((demo_token_row 3 3)\<lparr>t_device_uuid := ''u1''\<rparr>)]"
proof -
  have "fst (batch_delete_peers peers_env True [1, 2] peers_db) = Inr ()" by code_simp
  then have "batch_delete_peers peers_env True [1, 2] peers_db =
      (Inr (), snd (batch_delete_peers peers_env True [1, 2] peers_db))" by (simp add: prod_eq_iff)
  note tok = batch_delete_peers_effect [OF this, THEN conjunct2, THEN conjunct2, THEN conjunct2]
  have "p_uuid ` {r \<in> set (peers peers_db). p_row_id r \<in> set [1, 2]} - {[]} = {''u1''}"
    by (auto simp: peers_db_def minimal_peer_def image_iff intro!: exI conjI disjI1)
  then show ?thesis
    unfolding tok by (simp add: peers_db_def demo_token_row_def peers_env_def)
qed

text \<open>Removing a single device that has no UUID ends every session that carries no device UUID, of
  every user (browser and administrator sessions carry none), while the batch removal of the same device
  leaves all sessions alone.\<close>

theorem single_delete_without_uuid_ends_unrelated_sessions:
  assumes "delete_peer e has_table u d = (Inr (), d')" and "p_uuid u = []"
    and "batch_delete_peers e has_table [p_row_id u] d = (Inr (), d'')"
    and "\<And>r. r \<in> set (peers d) \<Longrightarrow> p_row_id r = p_row_id u \<Longrightarrow> p_uuid r = []"
  shows "(\<forall>t \<in> set (tokens d'). t_device_uuid t = [] \<longrightarrow> t_revoked_at t \<noteq> None) \<and> tokens d'' = tokens d"
proof
  from assms(1,2) obtain d1 where "flush_token_by_uuid e (Outside 8) [] d1 = (Inr (), d')"
    by (auto simp: delete_peer_def split: sum.splits prod.splits)
  then show "\<forall>t \<in> set (tokens d'). t_device_uuid t = [] \<longrightarrow> t_revoked_at t \<noteq> None"
    by (auto simp: flush_token_by_uuid_def revoke_where_tokens revoke_row_def split: if_splits)
  from assms(3) obtain d1 where b: "delete_rows_body e has_table True [p_row_id u] d = Inr ((), d1)"
    and f: "flush_token_by_uuids e (Outside 8) (filter (\<lambda>u. u \<noteq> [])
              (map p_uuid (filter (\<lambda>r. p_row_id r \<in> set [p_row_id u]) (peers d)))) d1 = (Inr (), d'')"
    by (auto simp: batch_delete_peers_def get_uuid_list_by_ids_def stmt_def transaction_eq_Inr
        split: sum.splits prod.splits if_splits)
  have us: "filter (\<lambda>u. u \<noteq> []) (map p_uuid (filter (\<lambda>r. p_row_id r \<in> set [p_row_id u]) (peers d))) = []"
    using assms(4) by (auto simp: filter_empty_conv)
  from f have "d'' = d1" unfolding us by (simp add: flush_token_by_uuids_def)
  with b show "tokens d'' = tokens d"
    by (auto simp: delete_rows_body_def remove_resource_scopes_def outcome_simps split: if_splits)
qed

lemma single_delete_without_uuid_ends_unrelated_sessions_witness:
  "filter (\<lambda>t. t_device_uuid t = [] \<and> t_revoked_at t = None)
     (tokens (snd (delete_peer peers_env True (minimal_peer 2 ''22'' [] 0 ''manual'' 0) peers_db))) = []"
proof -
  let ?u = "minimal_peer 2 ''22'' [] 0 ''manual'' 0"
  have "fst (delete_peer peers_env True ?u peers_db) = Inr ()" by code_simp
  then have a: "delete_peer peers_env True ?u peers_db = (Inr (), snd (delete_peer peers_env True ?u peers_db))"
    by (simp add: prod_eq_iff)
  have "fst (batch_delete_peers peers_env True [p_row_id ?u] peers_db) = Inr ()" by code_simp
  then have b: "batch_delete_peers peers_env True [p_row_id ?u] peers_db =
      (Inr (), snd (batch_delete_peers peers_env True [p_row_id ?u] peers_db))"
    by (simp add: prod_eq_iff)
  have c: "\<And>r. r \<in> set (peers peers_db) \<Longrightarrow> p_row_id r = p_row_id ?u \<Longrightarrow> p_uuid r = []"
    by (auto simp: peers_db_def minimal_peer_def)
  have "p_uuid ?u = []" by (simp add: minimal_peer_def)
  from single_delete_without_uuid_ends_unrelated_sessions [OF a this b c] show ?thesis
    by (auto simp: filter_empty_conv)
qed

end
