(* ===== verification/TokenManager.thy ===== *)
theory TokenManager
  imports Store GoBase64
begin

text \<open>
  Access tokens (\<open>src/internal/auth/\<close>: manager.go, claims.go, jwks.go; the token settings of
  \<open>src/config/auth.go\<close>).  Instants and durations are nanoseconds.  The JWT package is an argument
  (\<open>jwt_lib\<close>): one function that signs and one that parses under a parser configuration and a key
  function; \<open>jwt_laws\<close> states its documented behaviour and is a hypothesis of the theorems that
  need it.  Files, PEM and the two X.509 parsers are arguments too (\<open>key_io\<close>).  An Ed25519 private
  key is its 64 bytes, of which the last 32 are the public key.
\<close>

definition second :: int where "second = 1000000000"

definition AlgorithmEdDSA :: string where "AlgorithmEdDSA = ''EdDSA''"
definition AccessTokenType :: string where "AccessTokenType = ''at+jwt''"
definition AccessTokenUse :: string where "AccessTokenUse = ''access''"
definition APIAudience :: string where "APIAudience = ''kessoku-api''"
definition ConnectionAudience :: string where "ConnectionAudience = ''rustdesk-connect''"
definition ConnectScope :: string where "ConnectScope = ''connect:initiate''"
definition MaxAccessTokenBytes :: int where "MaxAccessTokenBytes = 8192"

section \<open>Settings\<close>

record auth_key =
  ak_id :: string
  ak_private_key_file :: string
  ak_public_key_file :: string

record auth_config =
  ac_enabled :: bool
  ac_issuer :: string
  ac_audiences :: "string list"
  ac_access_token_ttl :: int
  ac_maximum_token_ttl :: int
  ac_clock_skew :: int
  ac_max_token_bytes :: int
  ac_legacy_token_read_enabled :: bool
  ac_current_key :: auth_key
  ac_previous_keys :: "auth_key list"

definition effective_access_token_ttl :: "auth_config \<Rightarrow> int" where
  "effective_access_token_ttl a =
     (if ac_access_token_ttl a \<le> 0 then 7 * 24 * 3600 * second else ac_access_token_ttl a)"

definition effective_maximum_token_ttl :: "auth_config \<Rightarrow> int" where
  "effective_maximum_token_ttl a =
     (if ac_maximum_token_ttl a \<le> 0 then 7 * 24 * 3600 * second else ac_maximum_token_ttl a)"

definition effective_clock_skew :: "auth_config \<Rightarrow> int" where
  "effective_clock_skew a =
     (if ac_clock_skew a < 0 then 0 else if ac_clock_skew a = 0 then 30 * second else ac_clock_skew a)"

definition effective_max_token_bytes :: "auth_config \<Rightarrow> int" where
  "effective_max_token_bytes a =
     (if ac_max_token_bytes a \<le> 0 \<or> ac_max_token_bytes a > MaxAccessTokenBytes
      then MaxAccessTokenBytes else ac_max_token_bytes a)"

section \<open>Claims and the JWT package\<close>

record access_claims =
  cl_user_id :: nat
  cl_token_use :: string
  cl_scope :: "string list"
  cl_auth_version :: nat
  cl_issuer :: string
  cl_subject :: string
  cl_audience :: "string list"
  cl_expires_at :: "int option"
  cl_not_before :: "int option"
  cl_issued_at :: "int option"
  cl_id :: string

definition has_scope :: "access_claims \<Rightarrow> string \<Rightarrow> bool" where
  "has_scope c required \<longleftrightarrow> list_ex (\<lambda>s. s = required) (cl_scope c)"

record verify_options =
  vo_audience :: string
  vo_required_scope :: string

record issued_token =
  it_token :: string
  it_jti :: string
  it_key_id :: string
  it_issued_at :: int
  it_expires_at :: int
  it_auth_version :: nat

record jwt_header =
  h_alg :: string
  h_typ :: "string option"
  h_kid :: "string option"

text \<open>The options NewParser is given.\<close>

record parser_config =
  pc_methods :: "string list"
  pc_issuer :: string
  pc_audience :: string
  pc_leeway :: int
  pc_now :: int

record jwt_lib =
  jwt_sign :: "jwt_header \<Rightarrow> access_claims \<Rightarrow> string \<Rightarrow> string option"
  jwt_parse :: "parser_config \<Rightarrow> (jwt_header \<Rightarrow> err + string) \<Rightarrow> string \<Rightarrow> err + access_claims"

text \<open>jwt.NewNumericDate keeps whole seconds; \<open>Unix()\<close> rounds down.\<close>

definition numeric_date :: "int \<Rightarrow> int" where
  "numeric_date t = t div second * second"

definition unix_seconds :: "int \<Rightarrow> int" where
  "unix_seconds t = t div second"

section \<open>Key files\<close>

record key_io =
  read_file :: "string \<Rightarrow> err + string"
  pem_block :: "string \<Rightarrow> string option"
  pkcs8_ed25519 :: "string \<Rightarrow> string option"
  pkix_ed25519 :: "string \<Rightarrow> string option"
  key_from_seed :: "string \<Rightarrow> string"

definition PublicKeySize :: nat where "PublicKeySize = 32"
definition PrivateKeySize :: nat where "PrivateKeySize = 64"
definition SeedSize :: nat where "SeedSize = 32"

definition public_of :: "string \<Rightarrow> string" where
  "public_of private_key = drop 32 private_key"

definition ErrInvalidKeyFile :: err where "ErrInvalidKeyFile = ErrCoded ''invalid Ed25519 key file''"

definition decode_key_material :: "string \<Rightarrow> err + string" where
  "decode_key_material raw =
     (let value = trim_space raw in
      case b64_decode std_alphabet False value of
        Some bs \<Rightarrow> Inr bs
      | None \<Rightarrow>
          (case b64_decode std_alphabet True value of
             Some bs \<Rightarrow> Inr bs
           | None \<Rightarrow> (case hex_decode value of Some bs \<Rightarrow> Inr bs | None \<Rightarrow> Inl ErrInvalidKeyFile)))"

definition load_private_key_file :: "key_io \<Rightarrow> string \<Rightarrow> err + string" where
  "load_private_key_file io path =
     ebind (read_file io path) (\<lambda>raw.
     case pem_block io raw of
       Some block \<Rightarrow>
         (case pkcs8_ed25519 io block of
            None \<Rightarrow> Inl ErrInvalidKeyFile
          | Some key \<Rightarrow> if length key \<noteq> PrivateKeySize then Inl ErrInvalidKeyFile else Inr key)
     | None \<Rightarrow>
         ebind (decode_key_material raw) (\<lambda>decoded.
         if length decoded = SeedSize then Inr (key_from_seed io decoded)
         else if length decoded = PrivateKeySize then Inr decoded
         else Inl ErrInvalidKeyFile))"

definition load_public_key_file :: "key_io \<Rightarrow> string \<Rightarrow> err + string" where
  "load_public_key_file io path =
     ebind (read_file io path) (\<lambda>raw.
     case pem_block io raw of
       Some block \<Rightarrow>
         (case pkix_ed25519 io block of
            None \<Rightarrow> Inl ErrInvalidKeyFile
          | Some key \<Rightarrow> if length key \<noteq> PublicKeySize then Inl ErrInvalidKeyFile else Inr key)
     | None \<Rightarrow>
         (case decode_key_material raw of
            Inl _ \<Rightarrow> Inl ErrInvalidKeyFile
          | Inr decoded \<Rightarrow> if length decoded \<noteq> PublicKeySize then Inl ErrInvalidKeyFile else Inr decoded))"

section \<open>The manager\<close>

record manager =
  m_issuer :: string
  m_audiences :: "string list"
  m_ttl :: int
  m_maximum_ttl :: int
  m_clock_skew :: int
  m_max_token_size :: int
  m_current_id :: string
  m_current :: string
  m_public :: "(string \<times> string) list"

fun add_previous_keys :: "key_io \<Rightarrow> auth_key list \<Rightarrow> (string \<times> string) list \<Rightarrow> err + (string \<times> string) list" where
  "add_previous_keys io [] keys = Inr keys"
| "add_previous_keys io (previous # rest) keys =
     (if ak_id previous = [] \<or> ak_public_key_file previous = []
      then Inl (ErrNew ''each previous auth key requires id and public-key-file'')
      else if map_of keys (ak_id previous) \<noteq> None then Inl (ErrNew ''duplicate auth key id'')
      else ebind (load_public_key_file io (ak_public_key_file previous)) (\<lambda>key.
           add_previous_keys io rest (AList.update (ak_id previous) key keys)))"

text \<open>NewManager; no manager (\<open>None\<close>) when authentication by tokens is not enabled.\<close>

definition new_manager :: "key_io \<Rightarrow> auth_config \<Rightarrow> err + manager option" where
  "new_manager io cfg =
     (if \<not> ac_enabled cfg then Inr None
      else if trim_space (ac_issuer cfg) = [] then Inl (ErrNew ''auth issuer is required'')
      else if length (ac_audiences cfg) = 0 \<or> APIAudience \<notin> set (ac_audiences cfg)
              \<or> ConnectionAudience \<notin> set (ac_audiences cfg)
        then Inl (ErrNew ''auth audiences must include'')
      else if ak_id (ac_current_key cfg) = [] \<or> ak_private_key_file (ac_current_key cfg) = []
        then Inl (ErrNew ''auth current key id and private-key-file are required'')
      else if ac_max_token_bytes cfg > MaxAccessTokenBytes
        then Inl (ErrNew ''auth max-token-bytes must not exceed 8192'')
      else let ttl = effective_access_token_ttl cfg; maximum = effective_maximum_token_ttl cfg
      in if ttl \<le> 0 \<or> ttl > maximum
         then Inl (ErrNew ''auth access-token-ttl must be positive and not exceed maximum-token-ttl'')
         else ebind (load_private_key_file io (ak_private_key_file (ac_current_key cfg))) (\<lambda>key.
              ebind (add_previous_keys io (ac_previous_keys cfg)
                       [(ak_id (ac_current_key cfg), public_of key)]) (\<lambda>public.
              Inr (Some \<lparr>m_issuer = ac_issuer cfg, m_audiences = ac_audiences cfg, m_ttl = ttl,
                         m_maximum_ttl = maximum, m_clock_skew = effective_clock_skew cfg,
                         m_max_token_size = effective_max_token_bytes cfg,
                         m_current_id = ak_id (ac_current_key cfg), m_current = key,
                         m_public = public\<rparr>))))"

definition uses_public_key_fingerprint ::
    "(string \<Rightarrow> string) \<Rightarrow> manager option \<Rightarrow> string \<Rightarrow> bool" where
  "uses_public_key_fingerprint sha om fingerprint =
     (case om of None \<Rightarrow> False
      | Some m \<Rightarrow> fingerprint \<noteq> [] \<and> list_ex (\<lambda>(_, key). hex_encode (sha key) = fingerprint) (m_public m))"

definition issue_token ::
    "jwt_lib \<Rightarrow> int \<Rightarrow> err + string \<Rightarrow> manager \<Rightarrow> nat \<Rightarrow> nat \<Rightarrow> string list \<Rightarrow> int \<Rightarrow> err + issued_token" where
  "issue_token lib t uuid m user_id auth_version audiences ttl =
     (if length (m_current m) \<noteq> PrivateKeySize
      then Inl (ErrNew ''Ed25519 access-token signer is not configured'')
      else if user_id = 0 \<or> auth_version = 0
        then Inl (ErrNew ''user id and auth version must be non-zero'')
      else ebind uuid (\<lambda>jti.
        if length audiences = 0 \<or> ttl \<le> 0 \<or> ttl > m_maximum_ttl m
        then Inl (ErrNew ''access token audience and valid lifetime are required'')
        else let expires = t + ttl;
                 claims = \<lparr>cl_user_id = user_id, cl_token_use = AccessTokenUse, cl_scope = [ConnectScope],
                    cl_auth_version = auth_version, cl_issuer = m_issuer m, cl_subject = decimal user_id,
                    cl_audience = audiences, cl_expires_at = Some (numeric_date expires),
                    cl_not_before = Some (numeric_date t), cl_issued_at = Some (numeric_date t),
                    cl_id = jti\<rparr>;
                 header = \<lparr>h_alg = AlgorithmEdDSA, h_typ = Some AccessTokenType, h_kid = Some (m_current_id m)\<rparr>
        in case jwt_sign lib header claims (m_current m) of
             None \<Rightarrow> Inl (ErrNew ''sign access token'')
           | Some signed \<Rightarrow>
               if int (length signed) > m_max_token_size m then Inl ErrTokenTooLarge
               else Inr \<lparr>it_token = signed, it_jti = jti, it_key_id = m_current_id m,
                         it_issued_at = unix_seconds t, it_expires_at = unix_seconds expires,
                         it_auth_version = auth_version\<rparr>))"

definition issue_access_token ::
    "jwt_lib \<Rightarrow> int \<Rightarrow> err + string \<Rightarrow> manager option \<Rightarrow> nat \<Rightarrow> nat \<Rightarrow> err + issued_token" where
  "issue_access_token lib t uuid om user_id auth_version =
     (case om of
        None \<Rightarrow> Inl (ErrNew ''Ed25519 access-token signer is not configured'')
      | Some m \<Rightarrow> issue_token lib t uuid m user_id auth_version (m_audiences m) (m_ttl m))"

definition issue_access_token_with_ttl ::
    "jwt_lib \<Rightarrow> int \<Rightarrow> err + string \<Rightarrow> manager option \<Rightarrow> nat \<Rightarrow> nat \<Rightarrow> int \<Rightarrow> err + issued_token" where
  "issue_access_token_with_ttl lib t uuid om user_id auth_version ttl =
     (case om of
        None \<Rightarrow> Inl (ErrNew ''Ed25519 access-token signer is not configured'')
      | Some m \<Rightarrow>
          if ttl \<le> 0 \<or> ttl > m_maximum_ttl m
          then Inl (ErrNew ''access token lifetime must be positive and not exceed maximum token lifetime'')
          else issue_token lib t uuid m user_id auth_version (m_audiences m) ttl)"

definition issue_connection_token ::
    "jwt_lib \<Rightarrow> int \<Rightarrow> err + string \<Rightarrow> manager option \<Rightarrow> nat \<Rightarrow> nat \<Rightarrow> int \<Rightarrow> err + issued_token" where
  "issue_connection_token lib t uuid om user_id auth_version ttl =
     (case om of
        None \<Rightarrow> Inl (ErrNew ''Ed25519 access-token signer is not configured'')
      | Some m \<Rightarrow>
          if ttl \<le> 0 \<or> ttl > m_maximum_ttl m
          then Inl (ErrNew ''connection token lifetime must be positive and not exceed maximum token lifetime'')
          else issue_token lib t uuid m user_id auth_version [ConnectionAudience] ttl)"

definition maximum_ttl :: "manager option \<Rightarrow> int" where
  "maximum_ttl om = (case om of None \<Rightarrow> 0 | Some m \<Rightarrow> m_maximum_ttl m)"

section \<open>Verification\<close>

definition key_function :: "manager \<Rightarrow> jwt_header \<Rightarrow> err + string" where
  "key_function m h =
     (if h_alg h \<noteq> AlgorithmEdDSA then Inl ErrTokenInvalid
      else if h_typ h \<noteq> Some AccessTokenType then Inl ErrTokenInvalid
      else case h_kid h of
        None \<Rightarrow> Inl ErrUnknownKey
      | Some kid \<Rightarrow>
          if kid = [] then Inl ErrUnknownKey
          else (case map_of (m_public m) kid of None \<Rightarrow> Inl ErrUnknownKey | Some key \<Rightarrow> Inr key))"

definition verify_parser :: "manager \<Rightarrow> string \<Rightarrow> int \<Rightarrow> parser_config" where
  "verify_parser m audience t =
     \<lparr>pc_methods = [AlgorithmEdDSA], pc_issuer = m_issuer m, pc_audience = audience,
      pc_leeway = m_clock_skew m, pc_now = t\<rparr>"

definition check_claims :: "(string \<Rightarrow> bool) \<Rightarrow> manager \<Rightarrow> verify_options \<Rightarrow> access_claims \<Rightarrow> err + access_claims" where
  "check_claims uuid_ok m opts c =
     (if cl_token_use c \<noteq> AccessTokenUse \<or> cl_user_id c = 0 \<or> cl_auth_version c = 0 then Inl ErrTokenInvalid
      else if \<not> uuid_ok (cl_id c) then Inl ErrTokenInvalid
      else if cl_subject c \<noteq> decimal (cl_user_id c) then Inl ErrTokenInvalid
      else if vo_required_scope opts \<noteq> [] \<and> \<not> has_scope c (vo_required_scope opts) then Inl ErrTokenInvalid
      else case (cl_issued_at c, cl_not_before c, cl_expires_at c) of
        (Some iat, Some _, Some ex) \<Rightarrow>
          if ex - iat > m_maximum_ttl m \<or> ex < iat then Inl ErrTokenInvalid else Inr c
      | _ \<Rightarrow> Inl ErrTokenInvalid)"

definition verify_access_token ::
    "jwt_lib \<Rightarrow> (string \<Rightarrow> bool) \<Rightarrow> int \<Rightarrow> manager option \<Rightarrow> string \<Rightarrow> verify_options \<Rightarrow> err + access_claims" where
  "verify_access_token lib uuid_ok t om token opts =
     (case om of
        None \<Rightarrow> Inl ErrTokenInvalid
      | Some m \<Rightarrow>
          if token = [] \<or> int (length token) > m_max_token_size m
          then (if int (length token) > m_max_token_size m then Inl ErrTokenTooLarge else Inl ErrTokenInvalid)
          else if vo_audience opts = [] then Inl (ErrNew ''expected audience is required'')
          else case jwt_parse lib (verify_parser m (vo_audience opts) t) (key_function m) token of
            Inl e \<Rightarrow> Inl (ErrJoin ErrTokenInvalid e)
          | Inr c \<Rightarrow> check_claims uuid_ok m opts c)"

section \<open>Published keys\<close>

record jwk =
  jwk_kty :: string
  jwk_use :: string
  jwk_kid :: string
  jwk_crv :: string
  jwk_alg :: string
  jwk_x :: string

definition public_jwk :: "string \<Rightarrow> string \<Rightarrow> jwk" where
  "public_jwk key_id key = \<lparr>jwk_kty = ''OKP'', jwk_use = ''sig'', jwk_kid = key_id, jwk_crv = ''Ed25519'',
     jwk_alg = AlgorithmEdDSA, jwk_x = b64_encode url_alphabet False key\<rparr>"

text \<open>Go compares strings byte by byte.\<close>

fun string_less_eq :: "string \<Rightarrow> string \<Rightarrow> bool" where
  "string_less_eq [] _ = True"
| "string_less_eq (_ # _) [] = False"
| "string_less_eq (a # s) (b # t) =
     ((of_char a :: nat) < of_char b \<or> (a = b \<and> string_less_eq s t))"

fun insert_string :: "string \<Rightarrow> string list \<Rightarrow> string list" where
  "insert_string x [] = [x]"
| "insert_string x (y # ys) = (if string_less_eq x y then x # y # ys else y # insert_string x ys)"

definition sort_strings :: "string list \<Rightarrow> string list" where
  "sort_strings xs = foldr insert_string xs []"

definition jwks :: "manager option \<Rightarrow> jwk list" where
  "jwks om =
     (case om of None \<Rightarrow> []
      | Some m \<Rightarrow>
          (let key = (\<lambda>kid. public_jwk kid (case map_of (m_public m) kid of Some k \<Rightarrow> k | None \<Rightarrow> []))
           in key (m_current_id m)
              # map key (sort_strings (filter (\<lambda>kid. kid \<noteq> m_current_id m) (map fst (m_public m))))))"

end
