(* ===== verification/TokenManagerProps.thy ===== *)
theory TokenManagerProps
  imports TokenManager "HOL-Library.Multiset"
begin

text \<open>
  Properties of the access-token manager.  \<open>jwt_laws\<close> is the documented behaviour of the JWT package
  the theorems rest on; \<open>signed\<close> is the relation between a public key, a compact token and the
  header and claims it carries.
\<close>

section \<open>The JWT package\<close>

definition whole_seconds :: "access_claims \<Rightarrow> bool" where
  "whole_seconds c \<longleftrightarrow>
     (\<forall>x. cl_expires_at c = Some x \<or> cl_not_before c = Some x \<or> cl_issued_at c = Some x \<longrightarrow> x mod second = 0)"

text \<open>The registered claims as the parser validates them, with a leeway on every comparison.\<close>

definition claims_accepted :: "parser_config \<Rightarrow> access_claims \<Rightarrow> bool" where
  "claims_accepted cfg c \<longleftrightarrow>
     cl_issuer c = pc_issuer cfg \<and> pc_audience cfg \<in> set (cl_audience c) \<and>
     (\<exists>ex. cl_expires_at c = Some ex \<and> pc_now cfg < ex + pc_leeway cfg) \<and>
     (\<forall>nb. cl_not_before c = Some nb \<longrightarrow> nb - pc_leeway cfg \<le> pc_now cfg) \<and>
     (\<forall>ia. cl_issued_at c = Some ia \<longrightarrow> ia - pc_leeway cfg \<le> pc_now cfg)"

lemma claims_accepted_code [code]:
  "claims_accepted cfg c \<longleftrightarrow>
     cl_issuer c = pc_issuer cfg \<and> pc_audience cfg \<in> set (cl_audience c) \<and>
     (case cl_expires_at c of None \<Rightarrow> False | Some ex \<Rightarrow> pc_now cfg < ex + pc_leeway cfg) \<and>
     (case cl_not_before c of None \<Rightarrow> True | Some nb \<Rightarrow> nb - pc_leeway cfg \<le> pc_now cfg) \<and>
     (case cl_issued_at c of None \<Rightarrow> True | Some ia \<Rightarrow> ia - pc_leeway cfg \<le> pc_now cfg)"
  by (auto simp: claims_accepted_def split: option.splits)

definition jwt_laws :: "jwt_lib \<Rightarrow> (string \<Rightarrow> string \<Rightarrow> jwt_header \<Rightarrow> access_claims \<Rightarrow> bool) \<Rightarrow> bool" where
  "jwt_laws lib signed \<longleftrightarrow>
     (\<forall>h c sk tok. jwt_sign lib h c sk = Some tok \<and> whole_seconds c \<longrightarrow> signed (public_of sk) tok h c) \<and>
     (\<forall>pk tok h c. signed pk tok h c \<longrightarrow> tok \<noteq> []) \<and>
     (\<forall>pk pk' tok h h' c c'. signed pk tok h c \<and> signed pk' tok h' c' \<longrightarrow> h = h' \<and> c = c') \<and>
     (\<forall>cfg kf tok c. jwt_parse lib cfg kf tok = Inr c \<longleftrightarrow>
        (\<exists>h pk. signed pk tok h c \<and> h_alg h \<in> set (pc_methods cfg) \<and> kf h = Inr pk \<and> claims_accepted cfg c))"

lemma jwt_laws_sign:
  "jwt_laws lib signed \<Longrightarrow> jwt_sign lib h c sk = Some tok \<Longrightarrow> whole_seconds c \<Longrightarrow> signed (public_of sk) tok h c"
  unfolding jwt_laws_def by metis

lemma jwt_laws_nonempty: "jwt_laws lib signed \<Longrightarrow> signed pk tok h c \<Longrightarrow> tok \<noteq> []"
  unfolding jwt_laws_def by metis

lemma jwt_laws_unique: "jwt_laws lib signed \<Longrightarrow> signed pk tok h c \<Longrightarrow> signed pk' tok h' c' \<Longrightarrow> h = h' \<and> c = c'"
  unfolding jwt_laws_def by metis

lemma jwt_laws_parse:
  "jwt_laws lib signed \<Longrightarrow> jwt_parse lib cfg kf tok = Inr c \<longleftrightarrow>
     (\<exists>h pk. signed pk tok h c \<and> h_alg h \<in> set (pc_methods cfg) \<and> kf h = Inr pk \<and> claims_accepted cfg c)"
  unfolding jwt_laws_def by metis

section \<open>Times\<close>

lemma second_pos [simp]: "0 < second" by (simp add: second_def)

lemma numeric_date_whole [simp]: "numeric_date t mod second = 0"
  by (simp add: numeric_date_def)

lemma numeric_date_le: "numeric_date t \<le> t"
  unfolding numeric_date_def by (metis div_mult_mod_eq le_add_same_cancel1 pos_mod_sign second_pos)

lemma numeric_date_gt: "t < numeric_date t + second"
proof -
  have "t mod second < second" by (rule pos_mod_bound) simp
  with div_mult_mod_eq [of t second] show ?thesis unfolding numeric_date_def by linarith
qed

lemma numeric_date_mono: "s \<le> t \<Longrightarrow> numeric_date s \<le> numeric_date t"
  by (simp add: numeric_date_def zdiv_mono1)

text \<open>Cutting both ends to whole seconds never makes the lifetime exceed a whole-second bound.\<close>

lemma numeric_lifetime:
  assumes "0 \<le> ttl" "ttl \<le> mx" "mx mod second = 0"
  shows "numeric_date (t + ttl) - numeric_date t \<le> mx"
proof -
  obtain k where k: "mx = k * second" using assms(3) by (metis div_mult_mod_eq add.right_neutral)
  let ?d = "(t + ttl) div second - t div second"
  have "numeric_date (t + ttl) - numeric_date t = ?d * second"
    by (simp add: numeric_date_def left_diff_distrib)
  moreover have "?d * second < ttl + second"
    using numeric_date_le [of "t + ttl"] numeric_date_gt [of t]
    by (simp add: numeric_date_def left_diff_distrib)
  then have "?d * second < (k + 1) * second" using assms(2) k by (simp add: distrib_right)
  then have "?d < k + 1" using mult_less_cancel_right_pos [OF second_pos] by blast
  then have "?d * second \<le> k * second" by (intro mult_right_mono) (simp_all add: second_def)
  ultimately show ?thesis using k by simp
qed

section \<open>Issuing and verifying\<close>

definition issued_claims :: "manager \<Rightarrow> int \<Rightarrow> string \<Rightarrow> nat \<Rightarrow> nat \<Rightarrow> string list \<Rightarrow> int \<Rightarrow> access_claims" where
  "issued_claims m t jti uid ver auds ttl =
     \<lparr>cl_user_id = uid, cl_token_use = AccessTokenUse, cl_scope = [ConnectScope],
      cl_auth_version = ver, cl_issuer = m_issuer m, cl_subject = decimal uid,
      cl_audience = auds, cl_expires_at = Some (numeric_date (t + ttl)),
      cl_not_before = Some (numeric_date t), cl_issued_at = Some (numeric_date t), cl_id = jti\<rparr>"

definition issued_header :: "manager \<Rightarrow> jwt_header" where
  "issued_header m = \<lparr>h_alg = AlgorithmEdDSA, h_typ = Some AccessTokenType, h_kid = Some (m_current_id m)\<rparr>"

lemma issue_tokenE:
  assumes "issue_token lib t uuid m uid ver auds ttl = Inr it"
  obtains jti where "uuid = Inr jti" "uid \<noteq> 0" "ver \<noteq> 0" "auds \<noteq> []" "0 < ttl" "ttl \<le> m_maximum_ttl m"
    "jwt_sign lib (issued_header m) (issued_claims m t jti uid ver auds ttl) (m_current m) = Some (it_token it)"
    "int (length (it_token it)) \<le> m_max_token_size m" "it_jti it = jti" "it_auth_version it = ver"
    "it_issued_at it = unix_seconds t" "it_expires_at it = unix_seconds (t + ttl)" "it_key_id it = m_current_id m"
  using assms
  by (auto simp: issue_token_def Let_def outcome_simps issued_header_def issued_claims_def split: if_splits option.splits)

lemma issued_whole_seconds: "whole_seconds (issued_claims m t jti uid ver auds ttl)"
  by (auto simp: whole_seconds_def issued_claims_def)

lemma verify_iff:
  assumes "jwt_laws lib signed"
  shows "verify_access_token lib uuid_ok t (Some m) tok opts = Inr c \<longleftrightarrow>
    tok \<noteq> [] \<and> int (length tok) \<le> m_max_token_size m \<and> vo_audience opts \<noteq> [] \<and>
    (\<exists>h pk. signed pk tok h c \<and> h_alg h = AlgorithmEdDSA \<and> key_function m h = Inr pk \<and>
       claims_accepted (verify_parser m (vo_audience opts) t) c) \<and>
    check_claims uuid_ok m opts c = Inr c"
proof -
  have cc: "check_claims uuid_ok m opts c' = Inr c \<Longrightarrow> c' = c" for c'
    by (auto simp: check_claims_def split: if_splits option.splits)
  have "verify_access_token lib uuid_ok t (Some m) tok opts = Inr c \<longleftrightarrow>
    tok \<noteq> [] \<and> int (length tok) \<le> m_max_token_size m \<and> vo_audience opts \<noteq> [] \<and>
    jwt_parse lib (verify_parser m (vo_audience opts) t) (key_function m) tok = Inr c \<and>
    check_claims uuid_ok m opts c = Inr c"
    by (auto simp: verify_access_token_def split: sum.splits dest: cc)
  then show ?thesis
    unfolding jwt_laws_parse [OF assms] by (auto simp: verify_parser_def)
qed

lemma key_function_iff:
  "key_function m h = Inr pk \<longleftrightarrow> h_alg h = AlgorithmEdDSA \<and> h_typ h = Some AccessTokenType \<and>
     (\<exists>kid. h_kid h = Some kid \<and> kid \<noteq> [] \<and> map_of (m_public m) kid = Some pk)"
  by (auto simp: key_function_def split: option.splits if_splits)

lemma check_claims_iff:
  "check_claims uuid_ok m opts c = Inr c \<longleftrightarrow>
     cl_token_use c = AccessTokenUse \<and> cl_user_id c \<noteq> 0 \<and> cl_auth_version c \<noteq> 0 \<and> uuid_ok (cl_id c) \<and>
     cl_subject c = decimal (cl_user_id c) \<and>
     (vo_required_scope opts = [] \<or> vo_required_scope opts \<in> set (cl_scope c)) \<and>
     (\<exists>ia nb ex. cl_issued_at c = Some ia \<and> cl_not_before c = Some nb \<and> cl_expires_at c = Some ex \<and>
        ia \<le> ex \<and> ex - ia \<le> m_maximum_ttl m)"
  by (auto simp: check_claims_def has_scope_def list_ex_iff split: option.splits)

section \<open>A concrete manager and token\<close>

definition demo_key :: string where "demo_key = replicate 32 (CHR ''s'') @ replicate 32 (CHR ''p'')"

definition demo_config :: auth_config where
  "demo_config = \<lparr>ac_enabled = True, ac_issuer = ''https://k'', ac_audiences = [APIAudience, ConnectionAudience],
     ac_access_token_ttl = 3600 * second, ac_maximum_token_ttl = 0, ac_clock_skew = 0, ac_max_token_bytes = 0,
     ac_legacy_token_read_enabled = False,
     ac_current_key = \<lparr>ak_id = ''k1'', ak_private_key_file = ''f'', ak_public_key_file = ''''\<rparr>,
     ac_previous_keys = []\<rparr>"

definition demo_manager :: manager where
  "demo_manager = \<lparr>m_issuer = ''https://k'', m_audiences = [APIAudience, ConnectionAudience],
     m_ttl = 3600 * second, m_maximum_ttl = 7 * 24 * 3600 * second, m_clock_skew = 30 * second,
     m_max_token_size = 8192, m_current_id = ''k1'', m_current = demo_key,
     m_public = [(''k1'', replicate 32 (CHR ''p''))]\<rparr>"

definition demo_io :: key_io where
  "demo_io = \<lparr>read_file = (\<lambda>_. Inr (b64_encode std_alphabet False demo_key)), pem_block = (\<lambda>_. None),
     pkcs8_ed25519 = (\<lambda>_. None), pkix_ed25519 = (\<lambda>_. None), key_from_seed = (\<lambda>s. s @ s)\<rparr>"

definition demo_t :: int where "demo_t = 1000 * second + 7"

text \<open>A JWT package that knows one header: the token spells out the audience list in one letter.\<close>

definition demo_claims :: "string list \<Rightarrow> access_claims" where
  "demo_claims auds = issued_claims demo_manager demo_t ''jti'' 5 2 auds (3600 * second)"

definition demo_token :: "string list \<Rightarrow> string" where
  "demo_token auds = (if length auds = 1 then ''C'' else ''A'')"

definition demo_signed :: "string \<Rightarrow> string \<Rightarrow> jwt_header \<Rightarrow> access_claims \<Rightarrow> bool" where
  "demo_signed pk tok h c \<longleftrightarrow> pk = public_of demo_key \<and> h = issued_header demo_manager \<and>
     (\<exists>auds \<in> {[ConnectionAudience], [APIAudience, ConnectionAudience]}. c = demo_claims auds \<and> tok = demo_token auds)"

definition demo_lib :: jwt_lib where
  "demo_lib = \<lparr>jwt_sign = (\<lambda>h c sk.
       if sk = demo_key \<and> h = issued_header demo_manager \<and>
          (c = demo_claims [ConnectionAudience] \<or> c = demo_claims [APIAudience, ConnectionAudience])
       then Some (demo_token (cl_audience c)) else None),
     jwt_parse = (\<lambda>cfg kf tok.
       let c = demo_claims (if tok = ''C'' then [ConnectionAudience] else [APIAudience, ConnectionAudience])
       in if tok \<in> {''A'', ''C''} \<and> AlgorithmEdDSA \<in> set (pc_methods cfg) \<and>
             kf (issued_header demo_manager) = Inr (public_of demo_key) \<and> claims_accepted cfg c
          then Inr c else Inl (ErrNew ''jwt''))\<rparr>"

lemma demo_claims_aud [simp]: "cl_audience (demo_claims auds) = auds"
  by (simp add: demo_claims_def issued_claims_def)

lemma demo_laws: "jwt_laws demo_lib demo_signed"
  unfolding jwt_laws_def
proof (intro conjI allI impI)
  fix h c sk tok
  assume "jwt_sign demo_lib h c sk = Some tok \<and> whole_seconds c"
  then show "demo_signed (public_of sk) tok h c"
    by (auto simp: demo_lib_def demo_signed_def split: if_splits)
next
  fix pk tok h c assume "demo_signed pk tok h c"
  then show "tok \<noteq> []" by (auto simp: demo_signed_def demo_token_def)
next
  fix pk pk' tok h h' c c'
  assume "demo_signed pk tok h c \<and> demo_signed pk' tok h' c'"
  then show "h = h'" "c = c'" by (auto simp: demo_signed_def demo_token_def)
next
  fix cfg kf tok c
  show "jwt_parse demo_lib cfg kf tok = Inr c \<longleftrightarrow>
     (\<exists>h pk. demo_signed pk tok h c \<and> h_alg h \<in> set (pc_methods cfg) \<and> kf h = Inr pk \<and> claims_accepted cfg c)"
    by (auto simp: demo_lib_def demo_signed_def demo_token_def Let_def issued_header_def split: if_splits)
qed

definition demo_issued :: issued_token where
  "demo_issued = \<lparr>it_token = ''A'', it_jti = ''jti'', it_key_id = ''k1'', it_issued_at = 1000,
     it_expires_at = 4600, it_auth_version = 2\<rparr>"

lemma demo_issue: "issue_access_token demo_lib demo_t (Inr ''jti'') (Some demo_manager) 5 2 = Inr demo_issued"
  by (simp add: issue_access_token_def issue_token_def demo_manager_def demo_key_def PrivateKeySize_def
      second_def Let_def demo_lib_def demo_claims_def issued_claims_def issued_header_def demo_token_def
      demo_issued_def unix_seconds_def demo_t_def APIAudience_def ConnectionAudience_def)

lemma demo_issue_ttl:
  "issue_access_token_with_ttl demo_lib demo_t (Inr ''jti'') (Some demo_manager) 5 2 (3600 * second) = Inr demo_issued"
  using demo_issue by (simp add: issue_access_token_with_ttl_def issue_access_token_def demo_manager_def second_def)

lemma demo_verify:
  "verify_access_token demo_lib (\<lambda>u. u = ''jti'') (2000 * second) (Some demo_manager) ''A''
     \<lparr>vo_audience = APIAudience, vo_required_scope = []\<rparr> = Inr (demo_claims [APIAudience, ConnectionAudience])"
    by (simp add: verify_access_token_def demo_manager_def APIAudience_def demo_lib_def Let_def verify_parser_def
        key_function_def issued_header_def public_of_def demo_key_def claims_accepted_def demo_claims_def
        issued_claims_def check_claims_def second_def numeric_date_def demo_t_def ConnectionAudience_def)

section \<open>Properties\<close>

lemma issue_token_verifies:
  assumes laws: "jwt_laws lib signed"
    and issued: "issue_token lib t (Inr jti) m uid ver auds ttl = Inr it"
    and ring: "m_current_id m \<noteq> []" "map_of (m_public m') (m_current_id m) = Some (public_of (m_current m))"
    and same: "m_issuer m' = m_issuer m" "m_max_token_size m \<le> m_max_token_size m'"
    and limit: "ttl \<le> m_maximum_ttl m'" "m_maximum_ttl m' mod second = 0" "0 \<le> m_clock_skew m'"
    and opts: "vo_audience opts \<noteq> []" "vo_audience opts \<in> set auds"
      "vo_required_scope opts \<in> {[], ConnectScope}"
    and jti: "uuid_ok jti" and t': "t \<le> t'"
  shows "t' < numeric_date (t + ttl) + m_clock_skew m' \<Longrightarrow>
      \<exists>c. verify_access_token lib uuid_ok t' (Some m') (it_token it) opts = Inr c \<and>
          cl_user_id c = uid \<and> cl_auth_version c = ver \<and> cl_id c = it_jti it"
    and "t' \<ge> numeric_date (t + ttl) + m_clock_skew m' \<Longrightarrow>
      \<exists>e. verify_access_token lib uuid_ok t' (Some m') (it_token it) opts = Inl e"
proof -
  from issued have I: "uid \<noteq> 0" "ver \<noteq> 0" "0 < ttl" "ttl \<le> m_maximum_ttl m"
    "jwt_sign lib (issued_header m) (issued_claims m t jti uid ver auds ttl) (m_current m) = Some (it_token it)"
    "int (length (it_token it)) \<le> m_max_token_size m" "it_jti it = jti"
    by (auto elim!: issue_tokenE)
  let ?c = "issued_claims m t jti uid ver auds ttl"
  have sg: "signed (public_of (m_current m)) (it_token it) (issued_header m) ?c"
    by (rule jwt_laws_sign [OF laws I(5) issued_whole_seconds])
  have kf: "key_function m' (issued_header m) = Inr (public_of (m_current m))"
    using ring by (simp add: key_function_iff issued_header_def)
  have alg: "h_alg (issued_header m) = AlgorithmEdDSA" by (simp add: issued_header_def)
  have le: "numeric_date t \<le> numeric_date (t + ttl)" by (rule numeric_date_mono) (use I(3) in simp)
  have ck: "check_claims uuid_ok m' opts ?c = Inr ?c"
    unfolding check_claims_iff using I opts(3) jti le numeric_lifetime [OF _ limit(1,2), of t]
    by (auto simp: issued_claims_def)
  show "\<exists>c. verify_access_token lib uuid_ok t' (Some m') (it_token it) opts = Inr c \<and>
      cl_user_id c = uid \<and> cl_auth_version c = ver \<and> cl_id c = it_jti it"
    if "t' < numeric_date (t + ttl) + m_clock_skew m'"
  proof (intro exI conjI)
    have "claims_accepted (verify_parser m' (vo_audience opts) t') ?c"
      using that opts same(1) t' limit(3) numeric_date_le [of t]
      by (simp add: claims_accepted_def verify_parser_def issued_claims_def)
    then show "verify_access_token lib uuid_ok t' (Some m') (it_token it) opts = Inr ?c"
      unfolding verify_iff [OF laws]
      using sg kf ck opts(1) I(6) same(2) jwt_laws_nonempty [OF laws sg] alg by fastforce
  qed (use I(7) in \<open>simp_all add: issued_claims_def\<close>)
  show "\<exists>e. verify_access_token lib uuid_ok t' (Some m') (it_token it) opts = Inl e"
    if late: "t' \<ge> numeric_date (t + ttl) + m_clock_skew m'"
  proof (cases "verify_access_token lib uuid_ok t' (Some m') (it_token it) opts")
    case (Inr c)
    then obtain h pk where "signed pk (it_token it) h c" "claims_accepted (verify_parser m' (vo_audience opts) t') c"
      unfolding verify_iff [OF laws] by auto
    moreover from this have "c = ?c" using jwt_laws_unique [OF laws _ sg] by blast
    ultimately show ?thesis using late by (simp add: claims_accepted_def verify_parser_def issued_claims_def)
  qed simp
qed

lemma issued_token_verifies_facts:
  assumes laws: "jwt_laws lib signed"
    and issued: "issue_access_token_with_ttl lib t (Inr jti) (Some m) uid ver ttl = Inr it"
    and ring: "m_current_id m \<noteq> []" "map_of (m_public m') (m_current_id m) = Some (public_of (m_current m))"
    and same: "m_issuer m' = m_issuer m" "m_max_token_size m \<le> m_max_token_size m'"
    and limit: "ttl \<le> m_maximum_ttl m'" "m_maximum_ttl m' mod second = 0" "0 \<le> m_clock_skew m'"
    and opts: "vo_audience opts \<noteq> []" "vo_audience opts \<in> set (m_audiences m)"
      "vo_required_scope opts \<in> {[], ConnectScope}"
    and jti: "uuid_ok jti" and t': "t \<le> t'"
  shows "t' < numeric_date (t + ttl) + m_clock_skew m' \<Longrightarrow>
      \<exists>c. verify_access_token lib uuid_ok t' (Some m') (it_token it) opts = Inr c \<and>
          cl_user_id c = uid \<and> cl_auth_version c = ver \<and> cl_id c = it_jti it"
    and "t' \<ge> numeric_date (t + ttl) + m_clock_skew m' \<Longrightarrow>
      \<exists>e. verify_access_token lib uuid_ok t' (Some m') (it_token it) opts = Inl e"
proof -
  from issued have "issue_token lib t (Inr jti) m uid ver (m_audiences m) ttl = Inr it"
    by (auto simp: issue_access_token_with_ttl_def split: if_splits)
  note core = issue_token_verifies [where uuid_ok = uuid_ok, OF laws this ring same limit opts jti t']
  show "t' < numeric_date (t + ttl) + m_clock_skew m' \<Longrightarrow>
      \<exists>c. verify_access_token lib uuid_ok t' (Some m') (it_token it) opts = Inr c \<and>
          cl_user_id c = uid \<and> cl_auth_version c = ver \<and> cl_id c = it_jti it" by (rule core(1))
  show "t' \<ge> numeric_date (t + ttl) + m_clock_skew m' \<Longrightarrow>
      \<exists>e. verify_access_token lib uuid_ok t' (Some m') (it_token it) opts = Inl e" by (rule core(2))
qed

text \<open>A token that a manager issues verifies, at every instant from its issue until its expiry (cut
  to whole seconds) plus the allowed clock skew, under every manager of the same issuer that still
  lists the signing key, whether as current or as previous key, and admits its lifetime and size:
  keys can be rotated without invalidating sessions.  The claims that come back carry the user id,
  the auth version and the jti it was issued for; from the expiry plus the skew on it is refused.\<close>

lemma issued_token_verifies:
  assumes laws: "jwt_laws lib signed"
    and issued: "issue_access_token_with_ttl lib t (Inr jti) (Some m) uid ver ttl = Inr it"
    and ring: "m_current_id m \<noteq> []" "map_of (m_public m') (m_current_id m) = Some (public_of (m_current m))"
    and same: "m_issuer m' = m_issuer m" "m_max_token_size m \<le> m_max_token_size m'"
    and limit: "ttl \<le> m_maximum_ttl m'" "m_maximum_ttl m' mod second = 0" "0 \<le> m_clock_skew m'"
    and opts: "vo_audience opts \<noteq> []" "vo_audience opts \<in> set (m_audiences m)"
      "vo_required_scope opts \<in> {[], ConnectScope}"
    and jti: "uuid_ok jti" and t': "t \<le> t'"
  shows "(t' < numeric_date (t + ttl) + m_clock_skew m' \<longrightarrow>
      (\<exists>c. verify_access_token lib uuid_ok t' (Some m') (it_token it) opts = Inr c \<and>
          cl_user_id c = uid \<and> cl_auth_version c = ver \<and> cl_id c = it_jti it)) \<and>
    (t' \<ge> numeric_date (t + ttl) + m_clock_skew m' \<longrightarrow>
      (\<exists>e. verify_access_token lib uuid_ok t' (Some m') (it_token it) opts = Inl e))"
  using issued_token_verifies_facts [of lib signed t jti m uid ver ttl it m' opts uuid_ok t', OF assms]
  by (intro conjI impI)

lemma issued_token_verifies_witness:
  "\<exists>c. verify_access_token demo_lib (\<lambda>u. u = ''jti'') (2000 * second) (Some demo_manager) ''A''
     \<lparr>vo_audience = APIAudience, vo_required_scope = []\<rparr> = Inr c \<and> cl_user_id c = 5 \<and> cl_auth_version c = 2 \<and> cl_id c = ''jti''"
proof -
  from issued_token_verifies [OF demo_laws demo_issue_ttl, of demo_manager "\<lparr>vo_audience = APIAudience, vo_required_scope = []\<rparr>"
      "\<lambda>u. u = ''jti''" "2000 * second"]
  show ?thesis
    by (simp add: demo_manager_def public_of_def demo_key_def second_def APIAudience_def demo_t_def demo_issued_def
        numeric_date_def)
qed

text \<open>C24: Whatever string verifies was signed by a key of the ring under the key id in its header, with
  the algorithm EdDSA and the type at+jwt, for this issuer and the expected audience; it has not
  expired (plus skew), its lifetime is within the maximum, it is an access token with a non-zero
  user id spelled out in its subject, a non-zero auth version and a valid jti, and it carries the
  scope that was asked for.\<close>

theorem verified_token_sound:
  assumes "jwt_laws lib signed"
    and "verify_access_token lib uuid_ok t (Some m) tok opts = Inr c"
  shows "\<exists>h kid pk ex ia. h_kid h = Some kid \<and> map_of (m_public m) kid = Some pk \<and> signed pk tok h c \<and>
    h_alg h = ''EdDSA'' \<and> h_typ h = Some ''at+jwt'' \<and>
    cl_issuer c = m_issuer m \<and> vo_audience opts \<in> set (cl_audience c) \<and>
    cl_expires_at c = Some ex \<and> cl_issued_at c = Some ia \<and> t < ex + m_clock_skew m \<and>
    ia - m_clock_skew m \<le> t \<and> ia \<le> ex \<and> ex - ia \<le> m_maximum_ttl m \<and>
    cl_token_use c = ''access'' \<and> cl_user_id c \<noteq> 0 \<and> cl_subject c = decimal (cl_user_id c) \<and>
    cl_auth_version c \<noteq> 0 \<and> uuid_ok (cl_id c) \<and>
    (vo_required_scope opts \<noteq> [] \<longrightarrow> vo_required_scope opts \<in> set (cl_scope c)) \<and>
    int (length tok) \<le> m_max_token_size m"
proof -
  from assms(2) obtain h pk where h: "signed pk tok h c" "key_function m h = Inr pk"
    "claims_accepted (verify_parser m (vo_audience opts) t) c" and ck: "check_claims uuid_ok m opts c = Inr c"
    and len: "int (length tok) \<le> m_max_token_size m"
    unfolding verify_iff [OF assms(1)] by blast
  from h(2) obtain kid where kid: "h_kid h = Some kid" "map_of (m_public m) kid = Some pk"
    "h_alg h = ''EdDSA''" "h_typ h = Some ''at+jwt''"
    unfolding key_function_iff by (auto simp: AlgorithmEdDSA_def AccessTokenType_def)
  from ck obtain ia ex where c: "cl_issued_at c = Some ia" "cl_expires_at c = Some ex" "ia \<le> ex" "ex - ia \<le> m_maximum_ttl m"
    "cl_token_use c = ''access''" "cl_user_id c \<noteq> 0" "cl_subject c = decimal (cl_user_id c)" "cl_auth_version c \<noteq> 0"
    "uuid_ok (cl_id c)" "vo_required_scope opts = [] \<or> vo_required_scope opts \<in> set (cl_scope c)"
    unfolding check_claims_iff by (auto simp: AccessTokenUse_def)
  from h(3) c(1,2) have r: "cl_issuer c = m_issuer m" "vo_audience opts \<in> set (cl_audience c)"
    "t < ex + m_clock_skew m" "ia - m_clock_skew m \<le> t"
    by (auto simp: claims_accepted_def verify_parser_def)
  show ?thesis 
    by (rule exI [of _ h], rule exI [of _ kid], rule exI [of _ pk], rule exI [of _ ex], rule exI [of _ ia])
      (use h(1) kid c r len in auto)
qed

lemma verified_token_sound_witness:
  "\<exists>h kid pk. h_kid h = Some kid \<and> map_of (m_public demo_manager) kid = Some pk \<and>
     demo_signed pk ''A'' h (demo_claims [APIAudience, ConnectionAudience])"
proof -
  from verified_token_sound [OF demo_laws demo_verify] show ?thesis by blast
qed

text \<open>A connection token is never accepted where API tokens are: whatever its lifetime and whoever
  verifies it, it fails for the API audience.\<close>

lemma connection_token_not_for_api:
  assumes "jwt_laws lib signed"
    and "issue_connection_token lib t uuid (Some m) uid ver ttl = Inr it"
  shows "\<forall>c. verify_access_token lib uuid_ok t' (Some m') (it_token it)
           \<lparr>vo_audience = APIAudience, vo_required_scope = scope\<rparr> \<noteq> Inr c"
proof (intro allI notI)
  fix c
  assume v: "verify_access_token lib uuid_ok t' (Some m') (it_token it)
           \<lparr>vo_audience = APIAudience, vo_required_scope = scope\<rparr> = Inr c"
  from assms(2) have "issue_token lib t uuid m uid ver [ConnectionAudience] ttl = Inr it"
    by (auto simp: issue_connection_token_def split: if_splits)
  then obtain jti where "jwt_sign lib (issued_header m) (issued_claims m t jti uid ver [ConnectionAudience] ttl) (m_current m)
      = Some (it_token it)"
    by (auto elim!: issue_tokenE)
  from jwt_laws_sign [OF assms(1) this issued_whole_seconds]
  have sg: "signed (public_of (m_current m)) (it_token it) (issued_header m)
      (issued_claims m t jti uid ver [ConnectionAudience] ttl)" .
  from v obtain h pk where "signed pk (it_token it) h c" "claims_accepted (verify_parser m' APIAudience t') c"
    unfolding verify_iff [OF assms(1)] by auto
  moreover from this have "c = issued_claims m t jti uid ver [ConnectionAudience] ttl"
    using jwt_laws_unique [OF assms(1) _ sg] by blast
  ultimately show False
    by (simp add: claims_accepted_def verify_parser_def issued_claims_def APIAudience_def ConnectionAudience_def)
qed

lemma connection_token_not_for_api_witness:
  "\<forall>c. verify_access_token demo_lib (\<lambda>u. u = ''jti'') (2000 * second) (Some demo_manager) ''C''
     \<lparr>vo_audience = APIAudience, vo_required_scope = []\<rparr> \<noteq> Inr c"
proof -
  have "issue_connection_token demo_lib demo_t (Inr ''jti'') (Some demo_manager) 5 2 (3600 * second) = Inr (demo_issued\<lparr>it_token := ''C''\<rparr>)"
    by (simp add: issue_connection_token_def issue_token_def demo_manager_def demo_key_def PrivateKeySize_def
      second_def Let_def demo_lib_def demo_claims_def issued_claims_def issued_header_def demo_token_def
      demo_issued_def unix_seconds_def demo_t_def ConnectionAudience_def)
  from connection_token_not_for_api [OF demo_laws this, of "\<lambda>u. u = ''jti''" "2000 * second" demo_manager "[]"]
  show ?thesis by simp
qed

lemma add_previous_keys_ring:
  "add_previous_keys io ks ring = Inr ring' \<Longrightarrow> distinct (map fst ring) \<Longrightarrow>
     distinct (map fst ring') \<and> (\<forall>k v. map_of ring k = Some v \<longrightarrow> map_of ring' k = Some v) \<and>
     set (map fst ring') = set (map fst ring) \<union> ak_id ` set ks"
proof (induction ks arbitrary: ring)
  case (Cons a ks)
  have fresh: "map_of ring (ak_id a) = None"
    using Cons.prems(1) by (cases "map_of ring (ak_id a)") (simp_all split: if_splits)
  from Cons.prems(1) obtain key where rest: "add_previous_keys io ks (AList.update (ak_id a) key ring) = Inr ring'"
    by (auto simp: outcome_simps split: if_splits)
  from Cons.IH [OF rest] Cons.prems(2) have IH: "distinct (map fst ring')"
    "\<forall>k v. map_of (AList.update (ak_id a) key ring) k = Some v \<longrightarrow> map_of ring' k = Some v"
    "set (map fst ring') = set (map fst (AList.update (ak_id a) key ring)) \<union> ak_id ` set ks"
    by (simp_all add: distinct_update)
  have "map_of ring' k = Some v" if "map_of ring k = Some v" for k v
    using IH(2) that fresh by (metis option.distinct(1) update_conv' fun_upd_other)
  moreover have "set (map fst (AList.update (ak_id a) key ring)) = set (map fst ring) \<union> {ak_id a}"
    by (auto simp: dom_update)
  ultimately show ?case using IH by auto
qed simp

lemma load_private_length:
  assumes "load_private_key_file io path = Inr key" "\<And>s. length s = 32 \<Longrightarrow> length (key_from_seed io s) = 64"
  shows "length key = 64"
  using assms by (auto simp: load_private_key_file_def outcome_simps PrivateKeySize_def SeedSize_def
      split: option.splits if_splits)

text \<open>C37: A manager that NewManager builds is well formed, whatever the configuration and the key files:
  its lifetime is positive and within the maximum, the token size within 8192 bytes, the clock skew
  not negative, both audiences are covered, the current private key is 64 bytes and its public half
  is in the ring under the current key id, and no key id occurs twice.\<close>

theorem new_manager_wf:
  assumes "new_manager io cfg = Inr (Some m)"
    and "\<And>s. length s = 32 \<Longrightarrow> length (key_from_seed io s) = 64"
  shows "0 < m_ttl m \<and> m_ttl m \<le> m_maximum_ttl m \<and> 0 < m_max_token_size m \<and> m_max_token_size m \<le> 8192 \<and>
    0 \<le> m_clock_skew m \<and> {''kessoku-api'', ''rustdesk-connect''} \<subseteq> set (m_audiences m) \<and>
    length (m_current m) = 64 \<and> m_current_id m \<noteq> [] \<and>
    map_of (m_public m) (m_current_id m) = Some (public_of (m_current m)) \<and> distinct (map fst (m_public m))"
proof -
  from assms(1) obtain key ring where k: "load_private_key_file io (ak_private_key_file (ac_current_key cfg)) = Inr key"
    "add_previous_keys io (ac_previous_keys cfg) [(ak_id (ac_current_key cfg), public_of key)] = Inr ring"
    and m: "m = \<lparr>m_issuer = ac_issuer cfg, m_audiences = ac_audiences cfg, m_ttl = effective_access_token_ttl cfg,
         m_maximum_ttl = effective_maximum_token_ttl cfg, m_clock_skew = effective_clock_skew cfg,
         m_max_token_size = effective_max_token_bytes cfg, m_current_id = ak_id (ac_current_key cfg),
         m_current = key, m_public = ring\<rparr>"
    and c: "APIAudience \<in> set (ac_audiences cfg)" "ConnectionAudience \<in> set (ac_audiences cfg)"
      "ak_id (ac_current_key cfg) \<noteq> []"
      "0 < effective_access_token_ttl cfg" "effective_access_token_ttl cfg \<le> effective_maximum_token_ttl cfg"
    by (auto simp: new_manager_def Let_def outcome_simps split: if_splits)
  have "length key = 64" using load_private_length [OF k(1) assms(2)] .
  moreover have "distinct (map fst ring)" "map_of ring (ak_id (ac_current_key cfg)) = Some (public_of key)"
    using add_previous_keys_ring [OF k(2)] by auto
  moreover have "0 < effective_max_token_bytes cfg" "effective_max_token_bytes cfg \<le> 8192" "0 \<le> effective_clock_skew cfg"
    by (simp_all add: effective_max_token_bytes_def MaxAccessTokenBytes_def effective_clock_skew_def second_def)
  ultimately show ?thesis using c by (simp add: m APIAudience_def ConnectionAudience_def)
qed

lemma demo_new_manager: "new_manager demo_io demo_config = Inr (Some demo_manager)"
  by code_simp

lemma new_manager_wf_witness: "m_ttl demo_manager \<le> m_maximum_ttl demo_manager \<and> length (m_current demo_manager) = 64"
  using new_manager_wf [OF demo_new_manager] by (simp add: demo_io_def)

lemma lower_hex_not_space: "is_lower_hex c \<Longrightarrow> \<not> is_space_byte c"
  by (auto simp: is_lower_hex_def is_space_byte_def Let_def)

lemma hex_key_files_never_load_facts:
  assumes "read_file io path = Inr (hex_encode key)" and "pem_block io (hex_encode key) = None"
  shows "length key = 32 \<or> length key = 64 \<longrightarrow> load_private_key_file io path = Inl ErrInvalidKeyFile"
    and "length key = 32 \<longrightarrow> load_public_key_file io path = Inl ErrInvalidKeyFile"
proof -
  have lower: "is_lower_hex c" if "c \<in> set (hex_encode key)" for c
    using hex_encode_lower [of key] that by (simp add: list_all_iff)
  have "trim_space (hex_encode key) = hex_encode key"
    by (rule trim_space_plain) (use lower lower_hex_not_space in \<open>auto simp: list_all_iff\<close>)
  moreover have "\<exists>bs. b64_decode std_alphabet False (hex_encode key) = Some bs \<and> 4 * length bs = 3 * length (hex_encode key)"
    if "length key = 32 \<or> length key = 64"
  proof (rule decode_digits)
    have "c \<in> set std_alphabet" if "is_lower_hex c" for c
    proof -
      have "list_all (\<lambda>n. char_of n \<in> set std_alphabet) ([48..<58] @ [97..<103 :: nat])" by code_simp
      moreover have "(of_char c :: nat) \<in> set ([48..<58] @ [97..<103])"
        using that unfolding is_lower_hex_def Let_def set_append set_upt Un_iff atLeastLessThan_iff by linarith
      ultimately have "char_of (of_char c :: nat) \<in> set std_alphabet" unfolding list_all_iff by blast
      then show ?thesis by simp
    qed
    then show "set (hex_encode key) \<subseteq> set std_alphabet" using lower by blast
    show "CHR 0x0A \<notin> set std_alphabet" "CHR 0x0D \<notin> set std_alphabet" by code_simp+
    show "length (hex_encode key) mod 4 = 0" using that by auto
  qed
  ultimately have d: "\<exists>bs. decode_key_material (hex_encode key) = Inr bs \<and> 2 * length bs = 3 * length key"
    if "length key = 32 \<or> length key = 64"
    using that by (auto simp: decode_key_material_def)
  show "length key = 32 \<or> length key = 64 \<longrightarrow> load_private_key_file io path = Inl ErrInvalidKeyFile"
    using d assms by (auto simp: load_private_key_file_def SeedSize_def PrivateKeySize_def)
  show "length key = 32 \<longrightarrow> load_public_key_file io path = Inl ErrInvalidKeyFile"
    using d assms by (auto simp: load_public_key_file_def PublicKeySize_def)
qed

text \<open>A key file that holds an Ed25519 private key or seed in hexadecimal is always refused, though the
  loader has a hexadecimal branch: 64 or 128 hexadecimal digits are also valid unpadded base64, of
  48 or 96 bytes, and that reading is tried first.  The same goes for a public key.\<close>

lemma hex_key_files_never_load:
  assumes "read_file io path = Inr (hex_encode key)" and "pem_block io (hex_encode key) = None"
  shows "(length key = 32 \<or> length key = 64 \<longrightarrow> load_private_key_file io path = Inl ErrInvalidKeyFile) \<and>
    (length key = 32 \<longrightarrow> load_public_key_file io path = Inl ErrInvalidKeyFile)"
  using hex_key_files_never_load_facts [OF assms] by blast

lemma hex_key_files_never_load_witness:
  "load_private_key_file (demo_io\<lparr>read_file := (\<lambda>_. Inr (hex_encode demo_key))\<rparr>) ''f'' = Inl ErrInvalidKeyFile"
  using hex_key_files_never_load [of "demo_io\<lparr>read_file := (\<lambda>_. Inr (hex_encode demo_key))\<rparr>" "''f''" demo_key]
  by (simp add: demo_io_def demo_key_def)

lemma mset_sort_strings [simp]: "mset (sort_strings xs) = mset xs"
proof -
  have *: "mset (insert_string x ys) = add_mset x (mset ys)" for x ys by (induction ys) auto
  show ?thesis by (induction xs) (simp_all add: sort_strings_def *)
qed

lemma mset_extract: "distinct xs \<Longrightarrow> x \<in> set xs \<Longrightarrow> mset xs = add_mset x (mset (filter (\<lambda>y. y \<noteq> x) xs))"
proof (induction xs)
  case (Cons y ys)
  show ?case
  proof (cases "y = x")
    case True
    then have "filter (\<lambda>z. z \<noteq> x) ys = ys" using Cons.prems(1) by (auto simp: filter_id_conv)
    with True show ?thesis by simp
  next
    case False
    then show ?thesis using Cons by simp
  qed
qed simp

text \<open>The published key set has one entry per key of the ring, the current key first, and shows of each
  key its id and the unpadded base64url of its public bytes.\<close>

lemma jwks_publishes_ring:
  assumes "distinct (map fst (m_public m))" and "m_current_id m \<in> set (map fst (m_public m))"
  shows "mset (map jwk_kid (jwks (Some m))) = mset (map fst (m_public m)) \<and>
    jwk_kid (hd (jwks (Some m))) = m_current_id m \<and>
    (\<forall>k \<in> set (jwks (Some m)). \<exists>key. (jwk_kid k, key) \<in> set (m_public m) \<and> jwk_x k = b64_encode url_alphabet False key)"
proof (intro conjI ballI)
  let ?rest = "sort_strings (filter (\<lambda>kid. kid \<noteq> m_current_id m) (map fst (m_public m)))"
  have kids: "map jwk_kid (jwks (Some m)) = m_current_id m # ?rest"
    by (simp add: jwks_def Let_def public_jwk_def comp_def)
  show "mset (map jwk_kid (jwks (Some m))) = mset (map fst (m_public m))"
    unfolding kids using mset_extract [OF assms] by simp
  show "jwk_kid (hd (jwks (Some m))) = m_current_id m" by (simp add: jwks_def Let_def public_jwk_def)
  fix k assume k: "k \<in> set (jwks (Some m))"
  have "set ?rest = set (filter (\<lambda>kid. kid \<noteq> m_current_id m) (map fst (m_public m)))"
    by (rule mset_eq_setD) simp
  moreover have "jwk_kid k \<in> set (map jwk_kid (jwks (Some m)))" using k by simp
  ultimately have "jwk_kid k \<in> set (map fst (m_public m))" unfolding kids using assms(2)
    by (metis (no_types, lifting) filter_is_subset list.set(2) insertE subsetD)
  then obtain key where key: "map_of (m_public m) (jwk_kid k) = Some key"
    by (cases "map_of (m_public m) (jwk_kid k)") (simp_all add: map_of_eq_None_iff)
  moreover have "jwk_x k = b64_encode url_alphabet False (case map_of (m_public m) (jwk_kid k) of Some x \<Rightarrow> x | None \<Rightarrow> [])"
    using k by (auto simp: jwks_def Let_def public_jwk_def)
  ultimately show "\<exists>key. (jwk_kid k, key) \<in> set (m_public m) \<and> jwk_x k = b64_encode url_alphabet False key"
    by (intro exI [of _ key]) (auto dest: map_of_SomeD)
qed

lemma jwks_publishes_ring_witness: "mset (map jwk_kid (jwks (Some demo_manager))) = {#''k1''#}"
  using jwks_publishes_ring [of demo_manager] by (simp add: demo_manager_def)

end
