(* ===== verification/Settings.thy ===== *)
theory Settings
  imports TokenManagerProps
begin

text \<open>
  Platform settings (\<open>src/service/system_setting.go\<close>): the singleton settings row, its defaults taken
  from the configuration, and the lifetime of a login session.  The configuration is an option (the
  code checks for a missing one); durations are nanoseconds.  url.Parse is an argument.  When several
  fields of an update are invalid the code reports one of them in Go's map order; the model keeps the
  kind of error and drops the field's name.
\<close>

section \<open>Configuration\<close>

record config =
  cf_token_expire :: int
  cf_auth :: auth_config

definition hour :: int where "hour = 3600 * second"

definition week :: int where "week = 7 * 24 * hour"

definition configured_default_login_ttl :: "config option \<Rightarrow> int" where
  "configured_default_login_ttl oc =
     (case oc of None \<Rightarrow> week
      | Some c \<Rightarrow>
          let duration = (if ac_enabled (cf_auth c) then effective_access_token_ttl (cf_auth c) else cf_token_expire c)
          in if duration \<le> 0 then week else duration)"

definition configured_default_login_hours :: "config option \<Rightarrow> nat" where
  "configured_default_login_hours oc =
     (let hours = nat (configured_default_login_ttl oc div hour) in if hours = 0 then 1 else hours)"

definition configured_maximum_login_hours :: "config option \<Rightarrow> nat" where
  "configured_maximum_login_hours oc =
     (case oc of None \<Rightarrow> 7 * 24
      | Some c \<Rightarrow>
          let duration = (if ac_enabled (cf_auth c) then effective_maximum_token_ttl (cf_auth c) else cf_token_expire c);
              duration = (if duration \<le> 0 then week else duration);
              hours = nat (duration div hour)
          in if hours = 0 then 1 else hours)"

section \<open>Reading\<close>

definition systemSettingSingletonID :: nat where "systemSettingSingletonID = 1"

definition DefaultGeoIPCityURL :: string where
  "DefaultGeoIPCityURL = ''https://github.com/P3TERX/GeoLite.mmdb/raw/download/GeoLite2-City.mmdb''"
definition DefaultGeoIPCountryURL :: string where
  "DefaultGeoIPCountryURL = ''https://github.com/P3TERX/GeoLite.mmdb/raw/download/GeoLite2-Country.mmdb''"
definition DefaultGeoIPASNURL :: string where
  "DefaultGeoIPASNURL = ''https://github.com/P3TERX/GeoLite.mmdb/raw/download/GeoLite2-ASN.mmdb''"

definition default_system_setting :: "config option \<Rightarrow> setting_row" where
  "default_system_setting oc =
     \<lparr>st_id = systemSettingSingletonID, st_announcement = '''', st_geoip_enabled = True,
      st_city_url = DefaultGeoIPCityURL, st_country_url = DefaultGeoIPCountryURL, st_asn_url = DefaultGeoIPASNURL,
      st_update_hours = 168, st_web_login_hours = configured_default_login_hours oc,
      st_client_login_hours = configured_default_login_hours oc, st_user_token_days = 0, st_login_log_days = 0,
      st_audit_conn_days = 0, st_audit_file_days = 0, st_control_audit_days = 0,
      st_login_maximum_hours = configured_maximum_login_hours oc, st_updated_by = 0\<rparr>"

text \<open>Get returns the settings and an error value; the settings are usable even when the query failed.\<close>

definition fill_setting :: "config option \<Rightarrow> setting_row \<Rightarrow> setting_row" where
  "fill_setting oc s =
     (let defaults = default_system_setting oc in
      s\<lparr>st_city_url := (if st_city_url s = [] then DefaultGeoIPCityURL else st_city_url s),
        st_country_url := (if st_country_url s = [] then DefaultGeoIPCountryURL else st_country_url s),
        st_asn_url := (if st_asn_url s = [] then DefaultGeoIPASNURL else st_asn_url s),
        st_update_hours := (if st_update_hours s = 0 then 168 else st_update_hours s),
        st_web_login_hours := (if st_web_login_hours s = 0 then st_web_login_hours defaults else st_web_login_hours s),
        st_client_login_hours :=
          (if st_client_login_hours s = 0 then st_client_login_hours defaults else st_client_login_hours s),
        st_login_maximum_hours := st_login_maximum_hours defaults\<rparr>)"

definition get_setting :: "env \<Rightarrow> point \<Rightarrow> config option \<Rightarrow> db \<Rightarrow> setting_row \<times> err option" where
  "get_setting e p oc d =
     (if flt e p then (fill_setting oc (default_system_setting oc), Some (DbErr p))
      else case find (\<lambda>s. st_id s = systemSettingSingletonID) (settings d) of
        None \<Rightarrow> (default_system_setting oc, None)
      | Some s \<Rightarrow> (fill_setting oc s, None))"

definition effective_login_ttl :: "env \<Rightarrow> point \<Rightarrow> config option \<Rightarrow> string \<Rightarrow> db \<Rightarrow> int" where
  "effective_login_ttl e p oc client d =
     (case get_setting e p oc d of
        (_, Some _) \<Rightarrow> configured_default_login_ttl oc
      | (setting, None) \<Rightarrow>
          let hours = (if is_native_login_client client then st_client_login_hours setting
                       else st_web_login_hours setting);
              maximum = configured_maximum_login_hours oc;
              hours = (if hours < 1 \<or> hours > maximum
                       then (let h = configured_default_login_hours oc in if h > maximum then maximum else h)
                       else hours);
              ttl = int hours * hour
          in case oc of
               Some c \<Rightarrow> if ac_enabled (cf_auth c) \<and> ttl > effective_maximum_token_ttl (cf_auth c)
                         then effective_maximum_token_ttl (cf_auth c) else ttl
             | None \<Rightarrow> ttl)"

section \<open>Updating\<close>

record url =
  url_scheme :: string
  url_host :: string
  url_has_user :: bool
  url_fragment :: string

definition valid_geoip_url :: "(string \<Rightarrow> url option) \<Rightarrow> string \<Rightarrow> bool" where
  "valid_geoip_url parse value =
     (case parse value of
        None \<Rightarrow> False
      | Some u \<Rightarrow> url_scheme u = ''https'' \<and> url_host u \<noteq> [] \<and> \<not> url_has_user u \<and> url_fragment u = [] \<and>
                  length value \<le> 1024)"

text \<open>validateSystemSetting fills in the login hours that are zero and returns the result.\<close>

definition validate_system_setting ::
    "(string \<Rightarrow> url option) \<Rightarrow> config option \<Rightarrow> setting_row \<Rightarrow> err + setting_row" where
  "validate_system_setting parse oc s0 =
     (let defaults = default_system_setting oc;
          s = s0\<lparr>st_web_login_hours := (if st_web_login_hours s0 = 0 then st_web_login_hours defaults else st_web_login_hours s0),
                 st_client_login_hours := (if st_client_login_hours s0 = 0 then st_client_login_hours defaults
                                           else st_client_login_hours s0)\<rparr>;
          maximum_hours = configured_maximum_login_hours oc
      in if length (st_announcement s) > 16384 \<or> CHR 0x00 \<in> set (st_announcement s)
           then Inl (ErrNew ''announcement is invalid or too long'')
         else if st_update_hours s < 1 \<or> st_update_hours s > 24 * 90
           then Inl (ErrNew ''geoip_update_hours must be between 1 and 2160'')
         else if st_web_login_hours s < 1 \<or> st_web_login_hours s > maximum_hours \<or>
                 st_client_login_hours s < 1 \<or> st_client_login_hours s > maximum_hours
           then Inl (ErrNew ''login validity is out of range'')
         else if list_ex (\<lambda>days. days > 3650) [st_user_token_days s, st_login_log_days s, st_audit_conn_days s,
                 st_audit_file_days s, st_control_audit_days s]
           then Inl (ErrNew ''retention days must be zero or between 1 and 3650'')
         else if \<not> list_all (valid_geoip_url parse) [st_city_url s, st_country_url s, st_asn_url s]
           then Inl (ErrNew ''a URL must be a valid HTTPS URL'')
         else Inr s)"

definition apply_setting :: "nat \<Rightarrow> setting_row \<Rightarrow> setting_row \<Rightarrow> setting_row" where
  "apply_setting actor s r = r\<lparr>st_announcement := st_announcement s, st_geoip_enabled := st_geoip_enabled s,
     st_city_url := st_city_url s, st_country_url := st_country_url s, st_asn_url := st_asn_url s,
     st_update_hours := st_update_hours s, st_web_login_hours := st_web_login_hours s,
     st_client_login_hours := st_client_login_hours s, st_user_token_days := st_user_token_days s,
     st_login_log_days := st_login_log_days s, st_audit_conn_days := st_audit_conn_days s,
     st_audit_file_days := st_audit_file_days s, st_control_audit_days := st_control_audit_days s,
     st_updated_by := actor\<rparr>"

definition update_setting_body :: "env \<Rightarrow> config option \<Rightarrow> nat \<Rightarrow> setting_row \<Rightarrow> db \<Rightarrow> err + unit \<times> db" where
  "update_setting_body e oc actor s d =
     stmt (flt e) (Stmt 1)
       (case find (\<lambda>r. st_id r = systemSettingSingletonID) (settings d) of
          Some _ \<Rightarrow> stmt (flt e) (Stmt 3)
            (Inr ((), d\<lparr>settings := update_where (\<lambda>r. st_id r = systemSettingSingletonID) (apply_setting actor s)
                          (settings d)\<rparr>))
        | None \<Rightarrow> stmt (flt e) (Stmt 2) (stmt (flt e) (Stmt 3)
            (Inr ((), d\<lparr>settings := settings d @ [apply_setting actor s (default_system_setting oc)]\<rparr>))))"

definition update_setting ::
    "env \<Rightarrow> (string \<Rightarrow> url option) \<Rightarrow> config option \<Rightarrow> nat \<Rightarrow> string \<Rightarrow> setting_row option \<Rightarrow> db
      \<Rightarrow> (err + unit) \<times> db" where
  "update_setting e parse oc actor request_id onext d =
     (case onext of
        None \<Rightarrow> (Inl (ErrNew ''system settings payload is required''), d)
      | Some nxt \<Rightarrow>
          (case validate_system_setting parse oc nxt of
             Inl er \<Rightarrow> (Inl er, d)
           | Inr s \<Rightarrow> audited e actor request_id ''system_settings.updated'' ''system_settings'' ''1'' []
               ''system_settings_update_failed'' (\<lambda>_. transaction (flt e) (update_setting_body e oc actor s)) d))"

section \<open>Properties\<close>

lemma hour_pos: "0 < hour" by (simp add: hour_def second_def)

lemma configured_default_login_ttl_pos: "0 < configured_default_login_ttl oc"
  by (auto simp: configured_default_login_ttl_def week_def hour_def second_def Let_def split: option.splits)

lemma configured_maximum_login_hours_pos: "0 < configured_maximum_login_hours oc"
  by (auto simp: configured_maximum_login_hours_def Let_def split: option.splits)

lemma configured_default_login_hours_pos: "0 < configured_default_login_hours oc"
  by (auto simp: configured_default_login_hours_def Let_def)

lemma hour_mult_pos: "0 < h \<Longrightarrow> 0 < int h * hour"
  by (simp add: hour_def second_def)

lemma effective_maximum_pos: "0 < effective_maximum_token_ttl a"
  by (simp add: effective_maximum_token_ttl_def second_def)

text \<open>The lifetime of a login session is always one the token manager built from the same configuration
  accepts: positive and at most its maximum, whatever the settings row holds and even when it cannot be
  read.  When the row holds a number of hours between 1 and the configured maximum for the kind of client
  that logs in, the lifetime is that number of hours, cut to the manager's maximum.\<close>

lemma login_ttl_within_manager_bounds:
  assumes "new_manager io (cf_auth c) = Inr (Some m)"
  shows "0 < effective_login_ttl e p (Some c) client d \<and>
    effective_login_ttl e p (Some c) client d \<le> maximum_ttl (Some m) \<and>
    (\<forall>s h. \<not> flt e p \<longrightarrow> find (\<lambda>s. st_id s = systemSettingSingletonID) (settings d) = Some s \<longrightarrow>
       h = (if is_native_login_client client then st_client_login_hours s else st_web_login_hours s) \<longrightarrow>
       1 \<le> h \<longrightarrow> h \<le> configured_maximum_login_hours (Some c) \<longrightarrow>
       effective_login_ttl e p (Some c) client d = min (int h * hour) (maximum_ttl (Some m)))"
proof -
  from assms have en: "ac_enabled (cf_auth c)"
    and le: "effective_access_token_ttl (cf_auth c) \<le> effective_maximum_token_ttl (cf_auth c)"
    and mx: "maximum_ttl (Some m) = effective_maximum_token_ttl (cf_auth c)"
    by (auto simp: new_manager_def maximum_ttl_def Let_def outcome_simps split: if_splits)
  let ?max = "effective_maximum_token_ttl (cf_auth c)"
  have dt: "configured_default_login_ttl (Some c) \<le> ?max"
    using le by (auto simp: configured_default_login_ttl_def en effective_access_token_ttl_def second_def Let_def
        split: if_splits)
  define hrs where "hrs s = (if is_native_login_client client then st_client_login_hours s else st_web_login_hours s)"
    for s :: setting_row
  define pick where "pick h = (if h < 1 \<or> h > configured_maximum_login_hours (Some c)
      then (let x = configured_default_login_hours (Some c)
            in if x > configured_maximum_login_hours (Some c) then configured_maximum_login_hours (Some c) else x)
      else h)" for h
  have pos: "0 < pick h" for h
    using configured_maximum_login_hours_pos [of "Some c"] configured_default_login_hours_pos [of "Some c"]
    by (auto simp: pick_def Let_def)
  have ttl: "effective_login_ttl e p (Some c) client d =
      (case get_setting e p (Some c) d of (_, Some _) \<Rightarrow> configured_default_login_ttl (Some c)
       | (s, None) \<Rightarrow> min (int (pick (hrs s)) * hour) ?max)"
    by (auto simp: effective_login_ttl_def pick_def hrs_def Let_def en min_def split: prod.splits option.splits)
  have "0 < effective_login_ttl e p (Some c) client d \<and> effective_login_ttl e p (Some c) client d \<le> ?max"
    unfolding ttl using dt configured_default_login_ttl_pos [of "Some c"] hour_mult_pos [OF pos] effective_maximum_pos
    by (auto split: prod.splits option.splits)
  moreover have "effective_login_ttl e p (Some c) client d = min (int (hrs s) * hour) ?max"
    if "\<not> flt e p" "find (\<lambda>s. st_id s = systemSettingSingletonID) (settings d) = Some s"
      "1 \<le> hrs s" "hrs s \<le> configured_maximum_login_hours (Some c)" for s
  proof -
    have "hrs (fill_setting (Some c) s) = hrs s"
      using that(3) by (auto simp: hrs_def fill_setting_def Let_def)
    then show ?thesis
      unfolding ttl using that by (simp add: get_setting_def pick_def)
  qed
  ultimately show ?thesis unfolding mx hrs_def by auto
qed

definition demo_config_root :: config where
  "demo_config_root = \<lparr>cf_token_expire = week, cf_auth = demo_config\<rparr>"

lemma login_ttl_within_manager_bounds_witness:
  "0 < effective_login_ttl \<lparr>flt = no_faults, now = 5, uuid_parses = (\<lambda>_. False), uuid_new = ''''\<rparr> (Outside 1)
         (Some demo_config_root) ''client'' empty_db"
proof -
  have "new_manager demo_io (cf_auth demo_config_root) = Inr (Some demo_manager)"
    using demo_new_manager by (simp add: demo_config_root_def)
  from login_ttl_within_manager_bounds [OF this] show ?thesis by blast
qed

end
