(* ===== verification/Directory.thy ===== *)
theory Directory
  imports Prelude
begin

text \<open>
  The LDAP directory (\<open>src/service/ldap.go\<close>, the half that does not touch the database): which connections are
  made, which searches are sent, and how an entry becomes a user.  The network, TLS, DN parsing, filter
  escaping and Unicode case folding are the argument \<open>directory\<close>.  Errors joined by the code keep their order.
\<close>

section \<open>Strings and numbers of the standard library\<close>

text \<open>strings.ToLower: the ASCII path of the library, and its case table for every other string.\<close>

definition ascii_byte :: "char \<Rightarrow> bool" where
  "ascii_byte c \<longleftrightarrow> (of_char c :: nat) < 128"

definition go_to_lower :: "(string \<Rightarrow> string) \<Rightarrow> string \<Rightarrow> string" where
  "go_to_lower table s =
     (if list_all ascii_byte s
      then map (\<lambda>c. if 65 \<le> (of_char c :: nat) \<and> (of_char c :: nat) \<le> 90 then char_of (of_char c + 32 :: nat) else c) s
      else table s)"

text \<open>strconv.Atoi: an optional sign, decimal digits, the range of a 64-bit integer.\<close>

definition digit_char :: "char \<Rightarrow> bool" where
  "digit_char c \<longleftrightarrow> 48 \<le> (of_char c :: nat) \<and> (of_char c :: nat) \<le> 57"

definition go_atoi :: "string \<Rightarrow> int option" where
  "go_atoi s =
     (let (neg, digits) = (case s of c # t \<Rightarrow> if c = CHR 0x2D then (True, t) else if c = CHR 0x2B then (False, t) else (False, s)
                           | [] \<Rightarrow> (False, []));
          n = int (undecimal digits); v = (if neg then - n else n)
      in if digits = [] \<or> \<not> list_all digit_char digits \<or> v < - (2 ^ 63) \<or> v \<ge> 2 ^ 63 then None else Some v)"

section \<open>Configuration, requests, entries\<close>

record ldap_user_config =
  lu_base_dn :: string
  lu_enable_attr :: string
  lu_enable_attr_value :: string
  lu_filter :: string
  lu_username :: string
  lu_email :: string
  lu_first_name :: string
  lu_last_name :: string
  lu_sync :: bool
  lu_admin_group :: string
  lu_allow_group :: string

record ldap_config =
  lf_enable :: bool
  lf_url :: string
  lf_tls_ca_file :: string
  lf_tls_verify :: bool
  lf_base_dn :: string
  lf_bind_dn :: string
  lf_bind_password :: string
  lf_user :: ldap_user_config

datatype ldap_scope = ScopeBaseObject | ScopeWholeSubtree

record search_request =
  rq_base :: string
  rq_scope :: ldap_scope
  rq_size_limit :: nat
  rq_time_limit :: nat
  rq_filter :: string
  rq_attributes :: "string list"

record ldap_entry =
  en_dn :: string
  en_values :: "string \<Rightarrow> string list"

record parsed_url =
  pu_scheme :: string
  pu_host :: string

record directory =
  dy_parse_url :: "string \<Rightarrow> err + parsed_url"
  dy_ca_file :: "string \<Rightarrow> err + bool"
  dy_dial :: "string \<Rightarrow> err + unit"
  dy_bind :: "string \<Rightarrow> string \<Rightarrow> err + unit"
  dy_search :: "search_request \<Rightarrow> err + ldap_entry list"
  dy_escape :: "string \<Rightarrow> string"
  dy_equal_fold :: "string \<Rightarrow> string \<Rightarrow> bool"
  dy_lower :: "string \<Rightarrow> string"
  dy_parse_dn :: "string \<Rightarrow> err + string"

record ldap_user =
  du_dn :: string
  du_username :: string
  du_email :: string
  du_first_name :: string
  du_last_name :: string
  du_member_of :: "string list"
  du_enable_value :: string
  du_enabled :: bool

definition ldap_user_name :: "ldap_user \<Rightarrow> string" where
  "ldap_user_name u = du_first_name u @ '' '' @ du_last_name u"

section \<open>Connections and searches\<close>

definition connect_and_bind :: "ldap_config \<Rightarrow> directory \<Rightarrow> string \<Rightarrow> string \<Rightarrow> err + unit" where
  "connect_and_bind cfg dy username password =
     (case dy_parse_url dy (lf_url cfg) of
        Inl er \<Rightarrow> Inl (ErrJoin (ErrNew ''UrlParseFailed'') er)
      | Inr u \<Rightarrow>
          if pu_scheme u \<noteq> ''ldaps'' \<or> \<not> lf_tls_verify cfg
          then Inl (ErrJoin (ErrNew ''LdapStartTLSFailed'') (ErrNew ''verified ldaps transport is required''))
          else ebind (if lf_tls_ca_file cfg = [] then Inr ()
                      else case dy_ca_file dy (lf_tls_ca_file cfg) of
                          Inl er \<Rightarrow> Inl (ErrJoin (ErrNew ''FileReadFailed'') er)
                        | Inr appended \<Rightarrow> check appended
                            (ErrJoin (ErrNew ''LdapStartTLSFailed'') (ErrNew ''failed to append CA certificate'')) (Inr ())) (\<lambda>_.
               case dy_dial dy (lf_url cfg) of
                 Inl er \<Rightarrow> Inl (ErrJoin (ErrNew ''LdapConnectFailed'') er)
               | Inr _ \<Rightarrow>
                   (case dy_bind dy username password of
                      Inl er \<Rightarrow> Inl (ErrJoin (ErrNew ''LdapBindServiceFailed'') er)
                    | Inr _ \<Rightarrow> Inr ())))"

definition connect_and_bind_admin :: "ldap_config \<Rightarrow> directory \<Rightarrow> err + unit" where
  "connect_and_bind_admin cfg dy = connect_and_bind cfg dy (lf_bind_dn cfg) (lf_bind_password cfg)"

definition verify_credentials :: "ldap_config \<Rightarrow> directory \<Rightarrow> string \<Rightarrow> string \<Rightarrow> err option" where
  "verify_credentials cfg dy username password =
     (case connect_and_bind cfg dy username password of
        Inl _ \<Rightarrow> Some (ErrNew ''PasswordNotMatch'') | Inr _ \<Rightarrow> None)"

definition search_result :: "ldap_config \<Rightarrow> directory \<Rightarrow> search_request \<Rightarrow> err + ldap_entry list" where
  "search_result cfg dy request = ebind (connect_and_bind_admin cfg dy) (\<lambda>_. dy_search dy request)"

definition filter_field :: "directory \<Rightarrow> string \<Rightarrow> string \<Rightarrow> string" where
  "filter_field dy field v = ''('' @ field @ ''='' @ dy_escape dy v @ '')''"

definition field_username :: "ldap_config \<Rightarrow> string" where
  "field_username cfg = (if lu_username (lf_user cfg) = [] then ''uid'' else lu_username (lf_user cfg))"

definition field_email :: "ldap_config \<Rightarrow> string" where
  "field_email cfg = (if lu_email (lf_user cfg) = [] then ''mail'' else lu_email (lf_user cfg))"

definition field_first_name :: "ldap_config \<Rightarrow> string" where
  "field_first_name cfg = (if lu_first_name (lf_user cfg) = [] then ''givenName'' else lu_first_name (lf_user cfg))"

definition field_last_name :: "ldap_config \<Rightarrow> string" where
  "field_last_name cfg = (if lu_last_name (lf_user cfg) = [] then ''sn'' else lu_last_name (lf_user cfg))"

definition field_member_of :: string where "field_member_of = ''memberOf''"

definition field_user_enable_attr :: "ldap_config \<Rightarrow> string" where
  "field_user_enable_attr cfg =
     (if lu_enable_attr (lf_user cfg) = [] then ''userAccountControl'' else lu_enable_attr (lf_user cfg))"

definition base_dn_user :: "ldap_config \<Rightarrow> string" where
  "base_dn_user cfg = (if lu_base_dn (lf_user cfg) = [] then lf_base_dn cfg else lu_base_dn (lf_user cfg))"

definition build_user_attributes :: "ldap_config \<Rightarrow> string list" where
  "build_user_attributes cfg =
     [''dn'', field_username cfg, field_email cfg, field_first_name cfg, field_last_name cfg, field_member_of,
      field_user_enable_attr cfg]"

definition build_user_search_request :: "ldap_config \<Rightarrow> string \<Rightarrow> search_request" where
  "build_user_search_request cfg filt =
     \<lparr>rq_base = base_dn_user cfg, rq_scope = ScopeWholeSubtree, rq_size_limit = 2, rq_time_limit = 10,
      rq_filter = ''(&'' @ (if lu_filter (lf_user cfg) = [] then ''(cn=*)'' else lu_filter (lf_user cfg)) @ filt @ '')'',
      rq_attributes = build_user_attributes cfg\<rparr>"

definition username_search_result :: "ldap_config \<Rightarrow> directory \<Rightarrow> string \<Rightarrow> err + ldap_entry list" where
  "username_search_result cfg dy username =
     search_result cfg dy (build_user_search_request cfg (filter_field dy (field_username cfg) username))"

definition email_search_result :: "ldap_config \<Rightarrow> directory \<Rightarrow> string \<Rightarrow> err + ldap_entry list" where
  "email_search_result cfg dy email =
     search_result cfg dy (build_user_search_request cfg (filter_field dy (field_email cfg) email))"

section \<open>Entries as users\<close>

definition is_user_enabled :: "ldap_config \<Rightarrow> directory \<Rightarrow> ldap_user \<Rightarrow> bool" where
  "is_user_enabled cfg dy u =
     (let attr = lu_enable_attr (lf_user cfg); v = lu_enable_attr_value (lf_user cfg)
      in if attr = [] \<or> v = [] then True
         else if go_to_lower (dy_lower dy) attr = ''useraccountcontrol''
         then (case go_atoi (du_enable_value u) of None \<Rightarrow> False | Some n \<Rightarrow> (n div 2) mod 2 = 0)
         else du_enable_value u = v)"

definition attribute_value :: "ldap_entry \<Rightarrow> string \<Rightarrow> string" where
  "attribute_value en a = (case en_values en a of [] \<Rightarrow> [] | v # _ \<Rightarrow> v)"

definition user_result_to_ldap_user :: "ldap_config \<Rightarrow> directory \<Rightarrow> ldap_entry \<Rightarrow> ldap_user" where
  "user_result_to_ldap_user cfg dy en =
     (let u = \<lparr>du_dn = en_dn en, du_username = attribute_value en (field_username cfg),
               du_email = attribute_value en (field_email cfg),
               du_first_name = attribute_value en (field_first_name cfg),
               du_last_name = attribute_value en (field_last_name cfg),
               du_member_of = en_values en field_member_of,
               du_enable_value = attribute_value en (field_user_enable_attr cfg), du_enabled = False\<rparr>
      in u\<lparr>du_enabled := is_user_enabled cfg dy u\<rparr>)"

definition member_request :: "directory \<Rightarrow> ldap_user \<Rightarrow> string \<Rightarrow> search_request" where
  "member_request dy u group_dn =
     \<lparr>rq_base = group_dn, rq_scope = ScopeWholeSubtree, rq_size_limit = 1, rq_time_limit = 10,
      rq_filter = ''(member='' @ dy_escape dy (du_dn u) @ '')'', rq_attributes = [''dn'']\<rparr>"

definition is_user_in_group :: "ldap_config \<Rightarrow> directory \<Rightarrow> ldap_user \<Rightarrow> string \<Rightarrow> bool" where
  "is_user_in_group cfg dy u group_dn =
     (if list_ex (\<lambda>g. dy_equal_fold dy g group_dn) (du_member_of u) then True
      else case search_result cfg dy (member_request dy u group_dn) of
             Inl _ \<Rightarrow> False | Inr entries \<Rightarrow> length entries > 0)"

definition is_user_admin :: "ldap_config \<Rightarrow> directory \<Rightarrow> ldap_user \<Rightarrow> bool" where
  "is_user_admin cfg dy u =
     (let admin_group = lu_admin_group (lf_user cfg)
      in if admin_group = [] then False
         else if length (du_member_of u) > 0 then list_ex (\<lambda>g. dy_equal_fold dy g admin_group) (du_member_of u)
         else case search_result cfg dy (member_request dy u admin_group) of
                Inl _ \<Rightarrow> False | Inr entries \<Rightarrow> length entries > 0)"

section \<open>Lookups in the directory\<close>

definition ldap_is_username_exists :: "ldap_config \<Rightarrow> directory \<Rightarrow> string \<Rightarrow> bool" where
  "ldap_is_username_exists cfg dy username =
     (if \<not> lf_enable cfg then False
      else case username_search_result cfg dy username of Inl _ \<Rightarrow> False | Inr entries \<Rightarrow> length entries > 0)"

definition ldap_is_email_exists :: "ldap_config \<Rightarrow> directory \<Rightarrow> string \<Rightarrow> bool" where
  "ldap_is_email_exists cfg dy email =
     (if \<not> lf_enable cfg then False
      else case email_search_result cfg dy email of Inl _ \<Rightarrow> False | Inr entries \<Rightarrow> length entries > 0)"

definition unique_entry :: "ldap_config \<Rightarrow> directory \<Rightarrow> err + ldap_entry list \<Rightarrow> err + ldap_user" where
  "unique_entry cfg dy result =
     (case result of
        Inl er \<Rightarrow> Inl (ErrJoin (ErrNew ''LdapSearchRequestFailed'') er)
      | Inr entries \<Rightarrow>
          if length entries \<noteq> 1 then Inl (ErrNew ''UserNotFound'')
          else Inr (user_result_to_ldap_user cfg dy (hd entries)))"

definition get_user_info_by_username_ldap :: "ldap_config \<Rightarrow> directory \<Rightarrow> string \<Rightarrow> err + ldap_user" where
  "get_user_info_by_username_ldap cfg dy username =
     (if \<not> lf_enable cfg then Inl (ErrNew ''LdapNotEnabled'')
      else unique_entry cfg dy (username_search_result cfg dy username))"

definition get_user_info_by_email_ldap :: "ldap_config \<Rightarrow> directory \<Rightarrow> string \<Rightarrow> err + ldap_user" where
  "get_user_info_by_email_ldap cfg dy email =
     (if \<not> lf_enable cfg then Inl (ErrNew ''LdapNotEnabled'')
      else unique_entry cfg dy (email_search_result cfg dy email))"

section \<open>Transport\<close>

text \<open>No credential leaves the server but over verified ldaps.\<close>

lemma connect_and_bind_Inr:
  "connect_and_bind cfg dy username password = Inr () \<longleftrightarrow>
     (\<exists>u. dy_parse_url dy (lf_url cfg) = Inr u \<and> pu_scheme u = ''ldaps'') \<and> lf_tls_verify cfg \<and>
     (lf_tls_ca_file cfg = [] \<or> dy_ca_file dy (lf_tls_ca_file cfg) = Inr True) \<and>
     dy_dial dy (lf_url cfg) = Inr () \<and> dy_bind dy username password = Inr ()"
  by (auto simp: connect_and_bind_def outcome_simps split: sum.splits if_splits)

lemma verify_credentials_None:
  "verify_credentials cfg dy dn password = None \<Longrightarrow> dy_bind dy dn password = Inr () \<and> lf_tls_verify cfg"
  by (auto simp: verify_credentials_def connect_and_bind_Inr split: sum.splits)

end
