(* ===== verification/Oauth.thy ===== *)
theory Oauth
  imports Store Directory
begin

text \<open>
  Sign-in through an OAuth provider (\<open>src/service/oauth.go\<close>, \<open>src/model/oauth.go\<close>): the in-memory store of
  pending authorisations, the provider table, the rules for endpoints, and what a callback must prove.  The
  store is a Go map under a mutex: an association list with distinct keys, one operation at a time; times are
  nanoseconds and the zero time is None.  URL and IP parsing, the random source, the provider's answers and
  the OIDC verifier are arguments.
\<close>

section \<open>Pending authorisations\<close>

record oauth_item =
  oi_user_id :: nat
  oi_id :: string
  oi_op :: string
  oi_action :: string
  oi_uuid :: string
  oi_device_name :: string
  oi_device_os :: string
  oi_device_type :: string
  oi_open_id :: string
  oi_username :: string
  oi_name :: string
  oi_email :: string
  oi_verified_email :: bool
  oi_verifier :: string
  oi_nonce :: string
  oi_claimed :: bool
  oi_expires_at :: "int option"

type_synonym oauth_store = "(string \<times> oauth_item) list"

definition maxOauthStates :: nat where "maxOauthStates = 4096"
definition oauthStateLifetime :: int where "oauthStateLifetime = 300 * 1000000000"
definition maxOauthResponseBody :: nat where "maxOauthResponseBody = 1048576"
definition OauthActionTypeLogin :: string where "OauthActionTypeLogin = ''login''"
definition OauthActionTypeBind :: string where "OauthActionTypeBind = ''bind''"

definition empty_item :: oauth_item where
  "empty_item = \<lparr>oi_user_id = 0, oi_id = [], oi_op = [], oi_action = [], oi_uuid = [], oi_device_name = [],
     oi_device_os = [], oi_device_type = [], oi_open_id = [], oi_username = [], oi_name = [], oi_email = [],
     oi_verified_email = False, oi_verifier = [], oi_nonce = [], oi_claimed = False, oi_expires_at = None\<rparr>"

definition item_to_oauth_user :: "oauth_item \<Rightarrow> oauth_user" where
  "item_to_oauth_user i = \<lparr>o_open_id = oi_open_id i, o_name = oi_name i, o_username = oi_username i,
     o_email = oi_email i, o_verified_email = oi_verified_email i, o_picture = []\<rparr>"

definition item_from_oauth_user :: "oauth_user \<Rightarrow> oauth_item \<Rightarrow> oauth_item" where
  "item_from_oauth_user u i = i\<lparr>oi_open_id := o_open_id u, oi_username := o_username u, oi_name := o_name u,
     oi_email := o_email u, oi_verified_email := o_verified_email u\<rparr>"

definition item_alive :: "int \<Rightarrow> oauth_item \<Rightarrow> bool" where
  "item_alive t i \<longleftrightarrow> (case oi_expires_at i of None \<Rightarrow> False | Some x \<Rightarrow> x > t)"

definition purge_expired :: "int \<Rightarrow> oauth_store \<Rightarrow> oauth_store" where
  "purge_expired t st = filter (\<lambda>(k, i). item_alive t i) st"

definition get_oauth_cache :: "int \<Rightarrow> string \<Rightarrow> oauth_store \<Rightarrow> oauth_item option \<times> oauth_store" where
  "get_oauth_cache t key st = (let st1 = purge_expired t st in (map_of st1 key, st1))"

text \<open>The product of a duration and a second is taken in 64 bits.\<close>

definition wrap64 :: "int \<Rightarrow> int" where
  "wrap64 n = (n + 2 ^ 63) mod 2 ^ 64 - 2 ^ 63"

definition oauth_lifetime :: "nat \<Rightarrow> int" where
  "oauth_lifetime expire =
     (let lifetime = wrap64 (wrap64 (int expire) * 1000000000)
      in if lifetime \<le> 0 \<or> lifetime > oauthStateLifetime then oauthStateLifetime else lifetime)"

definition set_oauth_cache ::
    "int \<Rightarrow> string \<Rightarrow> oauth_item option \<Rightarrow> nat \<Rightarrow> oauth_store \<Rightarrow> err option \<times> oauth_store" where
  "set_oauth_cache t key oi expire st =
     (case oi of
        None \<Rightarrow> (Some (ErrNew ''invalid OAuth state''), st)
      | Some item \<Rightarrow>
          if key = [] then (Some (ErrNew ''invalid OAuth state''), st)
          else let st1 = purge_expired t st in
            if map_of st1 key = None \<and> length st1 \<ge> maxOauthStates
            then (Some (ErrNew ''OAuth state capacity reached''), st1)
            else let clone = (if expire > 0 \<or> oi_expires_at item = None
                              then item\<lparr>oi_expires_at := Some (t + oauth_lifetime expire)\<rparr> else item)
                 in (None, AList.update key clone st1))"

definition delete_oauth_cache :: "string \<Rightarrow> oauth_store \<Rightarrow> oauth_store" where
  "delete_oauth_cache key st = AList.delete key st"

definition claim_oauth_callback :: "int \<Rightarrow> string \<Rightarrow> oauth_store \<Rightarrow> oauth_item option \<times> oauth_store" where
  "claim_oauth_callback t key st =
     (let st1 = purge_expired t st in
      case map_of st1 key of
        None \<Rightarrow> (None, st1)
      | Some item \<Rightarrow>
          if oi_claimed item \<or> oi_op item = []
             \<or> (oi_action item \<noteq> OauthActionTypeLogin \<and> oi_action item \<noteq> OauthActionTypeBind)
          then (None, st1)
          else let item' = item\<lparr>oi_claimed := True\<rparr> in (Some item', AList.update key item' st1))"

definition take_oauth_login_result ::
    "int \<Rightarrow> string \<Rightarrow> string \<Rightarrow> string \<Rightarrow> oauth_store \<Rightarrow> oauth_item option \<times> oauth_store" where
  "take_oauth_login_result t key device_id device_uuid st =
     (let st1 = purge_expired t st in
      case map_of st1 key of
        None \<Rightarrow> (None, st1)
      | Some item \<Rightarrow>
          if oi_action item \<noteq> OauthActionTypeLogin \<or> oi_id item \<noteq> device_id \<or> oi_uuid item \<noteq> device_uuid
          then (None, st1)
          else if oi_user_id item \<noteq> 0 then (Some item, AList.delete key st1) else (Some item, st1))"

definition reserve_oauth_state :: "int \<Rightarrow> string \<Rightarrow> oauth_store \<Rightarrow> err option \<times> oauth_store" where
  "reserve_oauth_state t key st = set_oauth_cache t key (Some empty_item) 300 st"

section \<open>Endpoints\<close>

text \<open>
  net.IP is a byte string of length 4 or 16; the predicates are those of the standard library, which first
  read an IPv4-mapped address as its four bytes.
\<close>

definition ip_to4 :: "nat list \<Rightarrow> nat list option" where
  "ip_to4 ip =
     (if length ip = 4 then Some ip
      else if length ip = 16 \<and> take 10 ip = replicate 10 0 \<and> ip ! 10 = 255 \<and> ip ! 11 = 255 then Some (drop 12 ip)
      else None)"

definition ip_is_loopback :: "nat list \<Rightarrow> bool" where
  "ip_is_loopback ip \<longleftrightarrow> (case ip_to4 ip of Some a \<Rightarrow> a ! 0 = 127 | None \<Rightarrow> ip = replicate 15 0 @ [1])"

definition ip_is_private :: "nat list \<Rightarrow> bool" where
  "ip_is_private ip \<longleftrightarrow>
     (case ip_to4 ip of
        Some a \<Rightarrow> a ! 0 = 10 \<or> (a ! 0 = 172 \<and> a ! 1 div 16 = 1) \<or> (a ! 0 = 192 \<and> a ! 1 = 168)
      | None \<Rightarrow> length ip = 16 \<and> ip ! 0 div 2 = 126)"

definition ip_is_unspecified :: "nat list \<Rightarrow> bool" where
  "ip_is_unspecified ip \<longleftrightarrow>
     (case ip_to4 ip of Some a \<Rightarrow> a = [0, 0, 0, 0] | None \<Rightarrow> ip = replicate 16 0)"

definition ip_is_link_local_unicast :: "nat list \<Rightarrow> bool" where
  "ip_is_link_local_unicast ip \<longleftrightarrow>
     (case ip_to4 ip of Some a \<Rightarrow> a ! 0 = 169 \<and> a ! 1 = 254
      | None \<Rightarrow> length ip = 16 \<and> ip ! 0 = 254 \<and> ip ! 1 div 64 = 2)"

definition ip_is_link_local_multicast :: "nat list \<Rightarrow> bool" where
  "ip_is_link_local_multicast ip \<longleftrightarrow>
     (case ip_to4 ip of Some a \<Rightarrow> a ! 0 = 224 \<and> a ! 1 = 0 \<and> a ! 2 = 0
      | None \<Rightarrow> length ip = 16 \<and> ip ! 0 = 255 \<and> ip ! 1 mod 16 = 2)"

definition ip_is_multicast :: "nat list \<Rightarrow> bool" where
  "ip_is_multicast ip \<longleftrightarrow>
     (case ip_to4 ip of Some a \<Rightarrow> a ! 0 div 16 = 14 | None \<Rightarrow> length ip = 16 \<and> ip ! 0 = 255)"

definition is_disallowed_oauth_ip :: "nat list \<Rightarrow> bool" where
  "is_disallowed_oauth_ip ip \<longleftrightarrow> ip_is_loopback ip \<or> ip_is_private ip \<or> ip_is_unspecified ip
     \<or> ip_is_link_local_unicast ip \<or> ip_is_link_local_multicast ip \<or> ip_is_multicast ip"

record oauth_url =
  ol_scheme :: string
  ol_hostname :: string
  ol_has_user :: bool
  ol_raw_query :: string
  ol_fragment :: string
  ol_path :: string

record url_lib =
  ur_parse :: "string \<Rightarrow> err + oauth_url"
  ur_parse_ip :: "string \<Rightarrow> nat list option"
  ur_equal_fold :: "string \<Rightarrow> string \<Rightarrow> bool"
  ur_lower :: "string \<Rightarrow> string"

definition has_suffix :: "string \<Rightarrow> string \<Rightarrow> bool" where
  "has_suffix s p \<longleftrightarrow> has_prefix (rev s) (rev p)"

definition trim_suffix :: "string \<Rightarrow> string \<Rightarrow> string" where
  "trim_suffix s p = (if has_suffix s p then take (length s - length p) s else s)"

definition validate_oauth_endpoint_url :: "url_lib \<Rightarrow> string \<Rightarrow> err + unit" where
  "validate_oauth_endpoint_url ul raw =
     ebind (ur_parse ul raw) (\<lambda>u.
     check (ol_scheme u = ''https'' \<and> ol_hostname u \<noteq> [] \<and> \<not> ol_has_user u)
       (ErrNew ''OAuth endpoints must use an absolute HTTPS URL without credentials'') (
     check (\<not> (ur_equal_fold ul (ol_hostname u) ''localhost''
               \<or> has_suffix (go_to_lower (ur_lower ul) (ol_hostname u)) ''.localhost''))
       (ErrNew ''OAuth endpoint host is local'') (
     check (case ur_parse_ip ul (ol_hostname u) of None \<Rightarrow> True | Some ip \<Rightarrow> \<not> is_disallowed_oauth_ip ip)
       (ErrNew ''OAuth endpoint address is private or local'') (Inr ()))))"

definition validate_oauth_external_origin :: "url_lib \<Rightarrow> string \<Rightarrow> err + string" where
  "validate_oauth_external_origin ul raw =
     (case validate_oauth_endpoint_url ul raw of
        Inl er \<Rightarrow> Inl (ErrJoin (ErrNew ''OAuth external origin'') er)
      | Inr _ \<Rightarrow>
          ebind (ur_parse ul raw) (\<lambda>u.
          check (\<not> (ol_raw_query u \<noteq> [] \<or> ol_fragment u \<noteq> [] \<or> (ol_path u \<noteq> [] \<and> ol_path u \<noteq> ''/'')))
            (ErrNew ''OAuth external origin must not include a path, query, or fragment'')
            (Inr (trim_suffix raw ''/''))))"

text \<open>The dialer of the HTTP client: every address of the host must be public, and the first one is dialled.\<close>

definition dial_addresses :: "(string \<Rightarrow> err + nat list list) \<Rightarrow> string \<Rightarrow> err + nat list" where
  "dial_addresses resolve host =
     ebind (resolve host) (\<lambda>addresses.
     check (\<not> list_ex is_disallowed_oauth_ip addresses)
       (ErrNew ''OAuth endpoint resolved to a private or local address'') (
     check (length addresses \<noteq> 0) (ErrNew ''OAuth endpoint did not resolve'') (Inr (hd addresses))))"

section \<open>Providers\<close>

definition OauthTypeGithub :: string where "OauthTypeGithub = ''github''"
definition OauthTypeGoogle :: string where "OauthTypeGoogle = ''google''"
definition OauthTypeOidc :: string where "OauthTypeOidc = ''oidc''"
definition OauthTypeWebauth :: string where "OauthTypeWebauth = ''webauth''"
definition PKCEMethodS256 :: string where "PKCEMethodS256 = ''S256''"
definition IssuerGoogle :: string where "IssuerGoogle = ''https://accounts.google.com''"
definition OIDC_DEFAULT_SCOPES :: string where "OIDC_DEFAULT_SCOPES = ''openid,profile,email''"

definition valid_oauth_type :: "string \<Rightarrow> bool" where
  "valid_oauth_type t \<longleftrightarrow> t \<in> set [OauthTypeGithub, OauthTypeGoogle, OauthTypeOidc, OauthTypeWebauth]"

definition format_oauth_info :: "oauth_row \<Rightarrow> err + oauth_row" where
  "format_oauth_info oa =
     (let ty = trim_space (oa_type oa) in
      if \<not> valid_oauth_type (oa_type oa) then Inl (ErrNew ''invalid Oauth type'')
      else let a1 = (if ty = OauthTypeGithub then oa\<lparr>oa_op := OauthTypeGithub\<rparr>
                     else if ty = OauthTypeGoogle then oa\<lparr>oa_op := OauthTypeGoogle\<rparr> else oa);
               a2 = (if trim_space (oa_op a1) = [] \<and> ty = OauthTypeOidc then a1\<lparr>oa_op := OauthTypeOidc\<rparr> else a1);
               a3 = (if ty = OauthTypeGoogle \<and> trim_space (oa_issuer a2) = [] then a2\<lparr>oa_issuer := IssuerGoogle\<rparr> else a2);
               a4 = (if oa_pkce_enable a3 = None then a3\<lparr>oa_pkce_enable := Some False\<rparr> else a3);
               a5 = (if oa_pkce_method a4 = [] then a4\<lparr>oa_pkce_method := PKCEMethodS256\<rparr> else a4)
           in check (\<not> (oa_pkce_enable a5 = Some True \<and> oa_pkce_method a5 \<noteq> PKCEMethodS256))
                (ErrNew ''PKCE-enabled providers must use S256'') (Inr a5))"

definition info_by_op :: "env \<Rightarrow> point \<Rightarrow> string \<Rightarrow> db \<Rightarrow> oauth_row option" where
  "info_by_op e p op d = (if flt e p then None else find (\<lambda>r. oa_op r = op) (oauths d))"

definition get_type_by_op :: "env \<Rightarrow> point \<Rightarrow> string \<Rightarrow> db \<Rightarrow> err + string" where
  "get_type_by_op e p op d =
     (case info_by_op e p op d of
        None \<Rightarrow> Inl (ErrNew (''OAuth provider with op '' @ [CHR 0x27] @ op @ [CHR 0x27] @ '' not found''))
      | Some r \<Rightarrow> Inr (oa_type r))"

definition is_oauth_provider_exist :: "env \<Rightarrow> point \<Rightarrow> string \<Rightarrow> db \<Rightarrow> bool" where
  "is_oauth_provider_exist e p op d \<longleftrightarrow> info_by_op e p op d \<noteq> None"

definition construct_scopes :: "string \<Rightarrow> string list" where
  "construct_scopes s =
     (let t = trim_space s in split_on (CHR 0x2C) (if t = [] then OIDC_DEFAULT_SCOPES else t))"

definition create_oauth :: "env \<Rightarrow> oauth_row \<Rightarrow> db \<Rightarrow> (err + unit) \<times> db" where
  "create_oauth e oa d =
     (case format_oauth_info oa of
        Inl er \<Rightarrow> (Inl er, d)
      | Inr r \<Rightarrow>
          if flt e (Outside 91) then (Inl (DbErr (Outside 91)), d)
          else let i = (if oa_id r = 0 then next_id oa_id (oauths d) else oa_id r) in
               if i \<in> oa_id ` set (oauths d) then (Inl UniqueViolation, d)
               else (Inr (), d\<lparr>oauths := oauths d @ [r\<lparr>oa_id := i\<rparr>]\<rparr>))"

definition patch_oauth :: "oauth_row \<Rightarrow> oauth_row \<Rightarrow> oauth_row" where
  "patch_oauth n r = r\<lparr>
     oa_op := patch [] (oa_op n) (oa_op r),
     oa_type := patch [] (oa_type n) (oa_type r),
     oa_client_id := patch [] (oa_client_id n) (oa_client_id r),
     oa_client_secret := patch [] (oa_client_secret n) (oa_client_secret r),
     oa_auto_register := patch None (oa_auto_register n) (oa_auto_register r),
     oa_scopes := patch [] (oa_scopes n) (oa_scopes r),
     oa_issuer := patch [] (oa_issuer n) (oa_issuer r),
     oa_pkce_enable := patch None (oa_pkce_enable n) (oa_pkce_enable r),
     oa_pkce_method := patch [] (oa_pkce_method n) (oa_pkce_method r)\<rparr>"

definition update_oauth :: "env \<Rightarrow> oauth_row \<Rightarrow> db \<Rightarrow> (err + unit) \<times> db" where
  "update_oauth e oa d =
     (case format_oauth_info oa of
        Inl er \<Rightarrow> (Inl er, d)
      | Inr n \<Rightarrow>
          if flt e (Outside 92) then (Inl (DbErr (Outside 92)), d)
          else if oa_id n = 0 then (Inl (ErrNew ''WHERE conditions required''), d)
          else (Inr (), d\<lparr>oauths := update_where (\<lambda>r. oa_id r = oa_id n) (patch_oauth n) (oauths d)\<rparr>))"

section \<open>Beginning an authorisation\<close>

text \<open>The row of the provider with its oauth2.Config; the endpoints in it are those the discovery found.\<close>

record oauth_config =
  oc_info :: oauth_row
  oc_redirect :: string
  oc_scopes :: "string list"

definition get_oauth_config ::
    "url_lib \<Rightarrow> (string \<Rightarrow> err + unit) \<Rightarrow> env \<Rightarrow> string \<Rightarrow> string \<Rightarrow> db \<Rightarrow> err + oauth_config" where
  "get_oauth_config ul discover e api_server op d =
     (case info_by_op e (Outside 93) op d of
        None \<Rightarrow> Inl (ErrNew ''ConfigNotFound'')
      | Some oa \<Rightarrow>
          if oa_id oa = 0 \<or> oa_client_id oa = [] \<or> oa_client_secret oa = [] then Inl (ErrNew ''ConfigNotFound'')
          else ebind (validate_oauth_external_origin ul api_server) (\<lambda>origin.
               let cfg = \<lparr>oc_info = oa, oc_redirect = origin @ ''/api/oidc/callback'', oc_scopes = []\<rparr> in
               check (valid_oauth_type (oa_type oa)) (ErrNew ''invalid Oauth type'') (
               if oa_type oa = OauthTypeGithub then Inr (cfg\<lparr>oc_scopes := [''read:user'', ''user:email'']\<rparr>)
               else if oa_type oa = OauthTypeOidc \<or> oa_type oa = OauthTypeGoogle
               then ebind (validate_oauth_endpoint_url ul (oa_issuer oa)) (\<lambda>_.
                    ebind (discover (oa_issuer oa)) (\<lambda>_. Inr (cfg\<lparr>oc_scopes := construct_scopes (oa_scopes oa)\<rparr>)))
               else Inl (ErrNew ''unsupported OAuth type''))))"

record auth_start =
  as_state :: string
  as_verifier :: string
  as_nonce :: string
  as_url :: string

definition begin_auth ::
    "url_lib \<Rightarrow> (string \<Rightarrow> err + unit) \<Rightarrow> (oauth_config \<Rightarrow> string \<Rightarrow> string \<Rightarrow> string \<Rightarrow> string) \<Rightarrow> env \<Rightarrow> int \<Rightarrow>
      string \<times> string \<times> string \<Rightarrow> string \<Rightarrow> string \<Rightarrow> db \<Rightarrow> oauth_store \<Rightarrow> (err + auth_start) \<times> oauth_store" where
  "begin_auth ul discover code_url e t random api_server op d st =
     (case (validate_oauth_external_origin ul api_server, random) of
        (Inl er, _) \<Rightarrow> (Inl er, st)
      | (Inr origin, state, nonce, verifier) \<Rightarrow>
          if state = [] then (Inl (ErrNew ''generate OAuth state''), st)
          else case reserve_oauth_state t state st of
            (Some er, st1) \<Rightarrow> (Inl er, st1)
          | (None, st1) \<Rightarrow>
              if op = OauthTypeWebauth
              then (Inr \<lparr>as_state = state, as_verifier = [], as_nonce = [], as_url = origin @ ''/dash/#/oauth/'' @ state\<rparr>, st1)
              else case get_oauth_config ul discover e api_server op d of
                Inl er \<Rightarrow> (Inl er, delete_oauth_cache state st1)
              | Inr cfg \<Rightarrow>
                  if nonce = [] then (Inl (ErrNew ''generate OIDC nonce''), delete_oauth_cache state st1)
                  else if oa_pkce_enable (oc_info cfg) = Some True
                  then (if oa_pkce_method (oc_info cfg) = PKCEMethodS256
                        then (Inr \<lparr>as_state = state, as_verifier = verifier, as_nonce = nonce,
                                   as_url = code_url cfg state nonce verifier\<rparr>, st1)
                        else (Inl (ErrNew ''PKCE-enabled providers must use S256''), delete_oauth_cache state st1))
                  else (Inr \<lparr>as_state = state, as_verifier = [], as_nonce = nonce,
                             as_url = code_url cfg state nonce []\<rparr>, st1))"

section \<open>The callback\<close>

text \<open>
  The answers of the provider: the token exchange with its id_token (None when the answer has no string under
  that name), the claims of a verified id_token, and the user info.
\<close>

record ('u) provider_answers =
  pa_exchange :: "string \<Rightarrow> string \<Rightarrow> err + string option"
  pa_verify :: "string \<Rightarrow> err + unit"
  pa_claims :: "string \<Rightarrow> err + string \<times> string"
  pa_user_info :: "err + nat \<times> nat \<times> (err + 'u)"

definition decode_bounded :: "nat \<times> (err + 'u) \<Rightarrow> err + 'u" where
  "decode_bounded body =
     (if fst body > maxOauthResponseBody then Inl (ErrNew ''OAuth response exceeds size limit'') else snd body)"

definition same_oidc_subject :: "string \<Rightarrow> string \<Rightarrow> bool" where
  "same_oidc_subject id_token_subject user_info_subject \<longleftrightarrow>
     trim_space id_token_subject \<noteq> [] \<and> id_token_subject = user_info_subject"

definition verified_subject ::
    "'u provider_answers \<Rightarrow> bool \<Rightarrow> string \<Rightarrow> string option \<Rightarrow> err + string" where
  "verified_subject pa require_id_token nonce raw =
     (if require_id_token \<and> (raw = None \<or> raw = Some []) then Inl (ErrNew ''IdTokenMissing'')
      else case raw of
        None \<Rightarrow> Inr []
      | Some tok \<Rightarrow>
          if tok = [] then Inr []
          else case pa_verify pa tok of
            Inl _ \<Rightarrow> Inl (ErrNew ''IdTokenVerifyError'')
          | Inr _ \<Rightarrow>
              (case pa_claims pa tok of
                 Inl _ \<Rightarrow> Inl (ErrNew ''IDTokenClaimsError'')
               | Inr (claimed_nonce, subject) \<Rightarrow>
                   if nonce \<noteq> [] \<and> claimed_nonce \<noteq> nonce then Inl (ErrNew ''NonceDoesNotMatch'')
                   else if require_id_token \<and> trim_space subject = [] then Inl (ErrNew ''OIDCSubjectMissing'')
                   else Inr subject))"

definition callback_base ::
    "'u provider_answers \<Rightarrow> ('u \<Rightarrow> string option) \<Rightarrow> string \<Rightarrow> string \<Rightarrow> string \<Rightarrow> bool \<Rightarrow> err + 'u" where
  "callback_base pa oidc_sub code verifier nonce require_id_token =
     (case pa_exchange pa code verifier of
        Inl _ \<Rightarrow> Inl (ErrNew ''GetOauthTokenError'')
      | Inr raw \<Rightarrow>
          ebind (verified_subject pa require_id_token nonce raw) (\<lambda>subject.
          case pa_user_info pa of
            Inl _ \<Rightarrow> Inl (ErrNew ''GetOauthUserInfoError'')
          | Inr (status, body) \<Rightarrow>
              if status < 200 \<or> status \<ge> 300 then Inl (ErrNew ''GetOauthUserInfoError'')
              else case decode_bounded body of
                Inl _ \<Rightarrow> Inl (ErrNew ''DecodeOauthUserInfoError'')
              | Inr user \<Rightarrow>
                  if require_id_token \<and> (case oidc_sub user of None \<Rightarrow> True | Some sub \<Rightarrow> \<not> same_oidc_subject subject sub)
                  then Inl (ErrNew ''OIDCSubjectMismatch'') else Inr user))"

record oidc_user =
  ou_sub :: string
  ou_name :: string
  ou_email :: string
  ou_email_verified :: bool
  ou_preferred_username :: string
  ou_picture :: string

record github_user =
  gu_id :: int
  gu_login :: string
  gu_name :: string
  gu_email :: string
  gu_verified_email :: bool
  gu_avatar_url :: string

record github_email =
  ge_email :: string
  ge_primary :: bool
  ge_verified :: bool

definition oidc_to_oauth_user :: "(string \<Rightarrow> string) \<Rightarrow> oidc_user \<Rightarrow> oauth_user" where
  "oidc_to_oauth_user table u =
     \<lparr>o_open_id = ou_sub u, o_name = ou_name u,
      o_username = (if ou_preferred_username u \<noteq> [] then ou_preferred_username u else go_to_lower table (ou_email u)),
      o_email = ou_email u, o_verified_email = ou_email_verified u, o_picture = ou_picture u\<rparr>"

text \<open>strconv.Itoa.\<close>

definition itoa :: "int \<Rightarrow> string" where
  "itoa n = (if n < 0 then ''-'' @ decimal (nat (- n)) else decimal (nat n))"

definition github_to_oauth_user :: "(string \<Rightarrow> string) \<Rightarrow> github_user \<Rightarrow> oauth_user" where
  "github_to_oauth_user table u =
     \<lparr>o_open_id = itoa (gu_id u), o_name = gu_name u, o_username = go_to_lower table (gu_login u),
      o_email = gu_email u, o_verified_email = gu_verified_email u, o_picture = gu_avatar_url u\<rparr>"

definition get_github_primary_email ::
    "err + nat \<times> nat \<times> (err + github_email list) \<Rightarrow> github_user \<Rightarrow> err + github_user" where
  "get_github_primary_email answer u =
     (case answer of
        Inl er \<Rightarrow> Inl (ErrJoin (ErrNew ''failed to fetch emails'') er)
      | Inr (status, body) \<Rightarrow>
          if status \<noteq> 200 then Inl (ErrNew ''failed to fetch emails'')
          else case decode_bounded body of
            Inl er \<Rightarrow> Inl (ErrJoin (ErrNew ''failed to decode response'') er)
          | Inr emails \<Rightarrow>
              (case find (\<lambda>x. ge_primary x \<and> ge_verified x) emails of
                 None \<Rightarrow> Inl (ErrNew ''no primary verified email found'')
               | Some x \<Rightarrow> Inr (u\<lparr>gu_email := ge_email x, gu_verified_email := ge_verified x\<rparr>)))"

record provider =
  pr_github :: "github_user provider_answers"
  pr_emails :: "err + nat \<times> nat \<times> (err + github_email list)"
  pr_oidc :: "oidc_user provider_answers"

definition github_callback :: "(string \<Rightarrow> string) \<Rightarrow> provider \<Rightarrow> string \<Rightarrow> string \<Rightarrow> string \<Rightarrow> err + oauth_user" where
  "github_callback table pr code verifier nonce =
     ebind (callback_base (pr_github pr) (\<lambda>_. None) code verifier nonce False) (\<lambda>u.
     ebind (get_github_primary_email (pr_emails pr) u) (\<lambda>u'. Inr (github_to_oauth_user table u')))"

definition oidc_callback :: "(string \<Rightarrow> string) \<Rightarrow> provider \<Rightarrow> string \<Rightarrow> string \<Rightarrow> string \<Rightarrow> err + oauth_user" where
  "oidc_callback table pr code verifier nonce =
     ebind (callback_base (pr_oidc pr) (\<lambda>u. Some (ou_sub u)) code verifier nonce True) (\<lambda>u.
     Inr (oidc_to_oauth_user table u))"

definition oauth_callback ::
    "url_lib \<Rightarrow> (string \<Rightarrow> err + unit) \<Rightarrow> provider \<Rightarrow> env \<Rightarrow> string \<Rightarrow> string \<Rightarrow> string \<Rightarrow> string \<Rightarrow> string \<Rightarrow> db
      \<Rightarrow> err + oauth_user" where
  "oauth_callback ul discover pr e api_server code verifier op nonce d =
     ebind (get_oauth_config ul discover e api_server op d) (\<lambda>cfg.
     let oa = oc_info cfg in
     ebind (if oa_type oa = OauthTypeGithub then github_callback (ur_lower ul) pr code verifier nonce
            else if oa_type oa = OauthTypeOidc \<or> oa_type oa = OauthTypeGoogle
            then oidc_callback (ur_lower ul) pr code verifier nonce
            else Inl (ErrNew ''unsupported OAuth type'')) (\<lambda>u.
     check (trim_space (o_open_id u) \<noteq> [] \<and> trim_space (o_username u) \<noteq> []) (ErrNew ''OauthIdentityIncomplete'') (Inr u)))"

section \<open>Binding an identity to an account\<close>

definition third_from_oauth_user :: "(string \<Rightarrow> string) \<Rightarrow> nat \<Rightarrow> oauth_user \<Rightarrow> string \<Rightarrow> string \<Rightarrow> third_row" where
  "third_from_oauth_user table uid u oauth_type op =
     \<lparr>th_id = 0, th_user_id = uid, th_user = u\<lparr>o_email := go_to_lower table (o_email u)\<rparr>, th_union_id = [],
      th_third_type = [], th_oauth_type = oauth_type, th_op = op\<rparr>"

text \<open>An account has one identity per provider, an identity of a provider one account.\<close>

definition insert_third :: "third_row \<Rightarrow> db \<Rightarrow> err + db" where
  "insert_third r d =
     (if list_ex (\<lambda>x. (th_user_id x = th_user_id r \<and> th_op x = th_op r) \<or>
                      (o_open_id (th_user x) = o_open_id (th_user r) \<and> th_op x = th_op r)) (thirds d)
      then Inl UniqueViolation
      else Inr (d\<lparr>thirds := thirds d @ [r\<lparr>th_id := next_id th_id (thirds d)\<rparr>]\<rparr>))"

definition user_third_info :: "env \<Rightarrow> point \<Rightarrow> string \<Rightarrow> string \<Rightarrow> db \<Rightarrow> third_row option" where
  "user_third_info e p op open_id d =
     (if flt e p then None else find (\<lambda>r. o_open_id (th_user r) = open_id \<and> th_op r = op) (thirds d))"

definition bind_oauth_user :: "(string \<Rightarrow> string) \<Rightarrow> env \<Rightarrow> nat \<Rightarrow> oauth_user option \<Rightarrow> string \<Rightarrow> db \<Rightarrow> (err + unit) \<times> db" where
  "bind_oauth_user table e uid ou op d =
     (case ou of
        None \<Rightarrow> (Inl (ErrNew ''invalid OAuth binding''), d)
      | Some u \<Rightarrow>
          if uid = 0 \<or> trim_space (o_open_id u) = [] then (Inl (ErrNew ''invalid OAuth binding''), d)
          else case get_type_by_op e (Outside 94) op d of
            Inl er \<Rightarrow> (Inl er, d)
          | Inr ty \<Rightarrow>
              if flt e (Outside 95) then (Inl (DbErr (Outside 95)), d)
              else (case insert_third (third_from_oauth_user table uid u ty op) d of
                      Inl er \<Rightarrow> (Inl er, d) | Inr d1 \<Rightarrow> (Inr (), d1)))"

definition unbind_third :: "env \<Rightarrow> string \<Rightarrow> nat \<Rightarrow> db \<Rightarrow> (err + unit) \<times> db" where
  "unbind_third e op uid d =
     (if flt e (Outside 96) then (Inl (DbErr (Outside 96)), d)
      else (Inr (), d\<lparr>thirds := delete_where (\<lambda>r. th_user_id r = uid \<and> th_op r = op) (thirds d)\<rparr>))"

end
