(* ===== verification/Retention.thy ===== *)
theory Retention
  imports Settings Oauth
begin

text \<open>
  Retention of database rows (\<open>src/service/data_retention.go\<close>): the deletion in batches, and the
  presence leases and user tokens the worker removes with it.  The four log tables it goes on to are
  not rows of the model (they are selected by a creation time nothing else reads), so the map of
  counts stops after the tokens.  Lookups and deletions of batch \<open>n\<close> fail at their own points.
\<close>

section \<open>Deletion in batches\<close>

definition retentionBatchSize :: nat where "retentionBatchSize = 1000"

definition presenceLeaseRecordRetention :: int where "presenceLeaseRecordRetention = 24 * 3600"

text \<open>At most \<open>n\<close> more batches; the number of rows deleted and the error, as the code returns both.\<close>

fun retention_batches ::
    "env \<Rightarrow> nat \<Rightarrow> ('r \<Rightarrow> nat) \<Rightarrow> ('r \<Rightarrow> bool) \<Rightarrow> nat \<Rightarrow> nat \<Rightarrow> 'r list \<Rightarrow> (nat \<times> err option) \<times> 'r list" where
  "retention_batches e base key old 0 deleted t = ((deleted, None), t)"
| "retention_batches e base key old (Suc n) deleted t =
     (if flt e (Outside (base + 2 * n)) then ((deleted, Some (DbErr (Outside (base + 2 * n)))), t)
      else let ids = take retentionBatchSize (sort (map key (filter old t)))
      in if ids = [] then ((deleted, None), t)
         else if flt e (Outside (base + 2 * n + 1)) then ((deleted, Some (DbErr (Outside (base + 2 * n + 1)))), t)
         else let t' = delete_where (\<lambda>r. key r \<in> set ids) t; deleted' = deleted + (length t - length t')
              in if length ids < retentionBatchSize then ((deleted', None), t')
                 else retention_batches e base key old n deleted' t')"

definition delete_retention_batches ::
    "env \<Rightarrow> nat \<Rightarrow> ('r \<Rightarrow> nat) \<Rightarrow> ('r \<Rightarrow> bool) \<Rightarrow> 'r list \<Rightarrow> (nat \<times> err option) \<times> 'r list" where
  "delete_retention_batches e base key old t = retention_batches e base key old 100 0 t"

section \<open>What is old\<close>

definition lease_expired_before :: "int \<Rightarrow> lease_row \<Rightarrow> bool" where
  "lease_expired_before cutoff l \<longleftrightarrow> ls_expires_at l < cutoff"

definition token_over_before :: "int \<Rightarrow> token_row \<Rightarrow> bool" where
  "token_over_before cutoff r \<longleftrightarrow> (t_expired_at r > 0 \<and> t_expired_at r < cutoff) \<or>
     (case t_revoked_at r of None \<Rightarrow> False | Some t \<Rightarrow> t < cutoff)"

text \<open>The duration is a product of 64 bits; \<open>now e\<close> is a whole second.\<close>

definition token_cutoff :: "int \<Rightarrow> nat \<Rightarrow> int" where
  "token_cutoff t days = t + wrap64 (- int days * (24 * 3600 * 1000000000)) div 1000000000"

definition cleanup_leases :: "env \<Rightarrow> bool \<Rightarrow> db \<Rightarrow> (nat \<times> err option) \<times> db" where
  "cleanup_leases e has_table d =
     (if has_table
      then let (r, t) = delete_retention_batches e 1000 ls_row_id
                 (lease_expired_before (now e - presenceLeaseRecordRetention)) (leases d)
           in (r, d\<lparr>leases := t\<rparr>)
      else ((0, None), d))"

definition cleanup_tokens :: "env \<Rightarrow> nat \<Rightarrow> db \<Rightarrow> (nat \<times> err option) \<times> db" where
  "cleanup_tokens e days d =
     (if days > 0
      then let (r, t) = delete_retention_batches e 1200 t_id (token_over_before (token_cutoff (now e) days)) (tokens d)
           in (r, d\<lparr>tokens := t\<rparr>)
      else ((0, None), d))"

text \<open>Cleanup up to the log tables: the counts of leases and tokens deleted.\<close>

definition cleanup_sessions :: "env \<Rightarrow> config option \<Rightarrow> bool \<Rightarrow> db \<Rightarrow> (err + nat \<times> nat) \<times> db" where
  "cleanup_sessions e oc has_table d =
     (case get_setting e (Outside 999) oc d of
        (_, Some er) \<Rightarrow> (Inl er, d)
      | (setting, None) \<Rightarrow>
          (case cleanup_leases e has_table d of
             ((_, Some er), d1) \<Rightarrow> (Inl er, d1)
           | ((n, None), d1) \<Rightarrow>
               (case cleanup_tokens e (st_user_token_days setting) d1 of
                  ((_, Some er), d2) \<Rightarrow> (Inl er, d2)
                | ((m, None), d2) \<Rightarrow> (Inr (n, m), d2))))"

section \<open>What a cleanup leaves\<close>

text \<open>Whatever fails, only old rows go, and with one row per key none else.\<close>

lemma batches_keep:
  assumes "distinct (map key t)" "retention_batches e base key old n c t = ((m, er), t')"
  shows "set t' \<subseteq> set t" "r \<in> set t \<Longrightarrow> \<not> old r \<Longrightarrow> r \<in> set t'" "c + length t = m + length t'" "distinct (map key t')"
proof -
  have "set t' \<subseteq> set t \<and> (\<forall>r \<in> set t. \<not> old r \<longrightarrow> r \<in> set t') \<and> c + length t = m + length t' \<and> distinct (map key t')"
    using assms
  proof (induction e base key old n c t rule: retention_batches.induct)
    case (2 e base key old n c t)
    let ?ids = "take retentionBatchSize (sort (map key (filter old t)))"
    let ?t = "delete_where (\<lambda>r. key r \<in> set ?ids) t"
    have kept: "r \<in> set ?t" if r: "r \<in> set t" "\<not> old r" for r
    proof -
      have "key r \<noteq> key s" if "s \<in> set t" "old s" for s
        using key_unique [OF 2(2) r(1) that(1)] r(2) that(2) by blast
      then have "key r \<notin> set ?ids" using set_take_subset [of retentionBatchSize "sort (map key (filter old t))"] by auto
      then show ?thesis using r(1) by (simp add: set_delete_where)
    qed
    have "length ?t \<le> length t" by (simp add: delete_where_def)
    with kept distinct_map_delete_where [OF 2(2), of "\<lambda>r. key r \<in> set ?ids"] 2(1) [OF _ refl _ _ refl refl] 2(2,3) show ?case
      by (auto simp: Let_def set_delete_where split: if_splits)
  qed simp
  then show "set t' \<subseteq> set t" "r \<in> set t \<Longrightarrow> \<not> old r \<Longrightarrow> r \<in> set t'" "c + length t = m + length t'" "distinct (map key t')"
    by blast+
qed

text \<open>The worker never deletes a token that could still authenticate: one that expires at or after the
  cutoff (or never) and was not revoked before it; the cutoff is not later than now.\<close>

lemma cutoff_past: "days \<le> 3650 \<Longrightarrow> token_cutoff t days = t - int days * 86400"
  by (simp add: token_cutoff_def wrap64_def)

lemma cleanup_keeps_live_tokens:
  assumes "distinct (map t_id (tokens d))" and "cleanup_sessions e oc has_table d = (out, d')"
    and "r \<in> set (tokens d)" and "t_revoked_at r = None"
    and "t_expired_at r = 0 \<or> now e \<le> t_expired_at r"
    and "\<forall>s \<in> set (settings d). st_user_token_days s \<le> 3650"
  shows "r \<in> set (tokens d')"
proof -
  have days: "st_user_token_days st \<le> 3650" if "get_setting e p oc d = (st, None)" for p st
    using that assms(6) by (auto simp: get_setting_def fill_setting_def default_system_setting_def Let_def
        split: if_splits option.splits dest!: find_SomeD)
  have live: "\<not> token_over_before (token_cutoff (now e) n) r" if "n \<le> 3650" for n
    using assms(4,5) that by (auto simp: token_over_before_def cutoff_past)
  have "r \<in> set (tokens d2)" if "cleanup_tokens e n d1 = (x, d2)" "n \<le> 3650" "tokens d1 = tokens d" for n d1 d2 x
    using that assms(1,3) live [of n] batches_keep(2) [of t_id "tokens d" e 1200]
    by (cases "fst x"; cases x) (auto simp: cleanup_tokens_def delete_retention_batches_def split: prod.splits if_splits)
  moreover have "tokens (snd (cleanup_leases e has_table d)) = tokens d"
    by (simp add: cleanup_leases_def split_beta)
  ultimately show ?thesis using assms(2,3) days
    by (fastforce simp: cleanup_sessions_def split: option.splits prod.splits)
qed

lemma cleanup_frame:
  "cleanup_sessions e oc has_table d = (out, d') \<Longrightarrow> d' = d\<lparr>leases := leases d', tokens := tokens d'\<rparr>"
  by (auto simp: cleanup_sessions_def cleanup_leases_def cleanup_tokens_def split: option.splits prod.splits if_splits)

end
