(* ===== verification/DeviceRuns.thy ===== *)
theory DeviceRuns
  imports PresenceProps PeersProps Retention
begin

text \<open>
  The life of a device: the operations of every part of the program that write the device table, as
  the steps of one run, and what no run undoes.  The administrator's device form
  (\<open>src/http/request/admin/peer.go\<close>) has no activation fields.
\<close>

section \<open>The administrator's device form\<close>

record admin_peer_form =
  pf_row_id :: nat
  pf_id :: string
  pf_cpu :: string
  pf_hostname :: string
  pf_memory :: string
  pf_os :: string
  pf_username :: string
  pf_uuid :: string
  pf_version :: string
  pf_group_id :: nat
  pf_alias :: string

definition admin_to_peer :: "admin_peer_form \<Rightarrow> peer_row" where
  "admin_to_peer f = (minimal_peer (pf_row_id f) (normalize_rustdesk_id (pf_id f)) (pf_uuid f) 0 [] 0)
     \<lparr>p_cpu := pf_cpu f, p_hostname := pf_hostname f, p_memory := pf_memory f, p_os := pf_os f,
      p_username := pf_username f, p_version := pf_version f, p_group_id := pf_group_id f, p_alias := pf_alias f\<rparr>"

section \<open>Runs\<close>

text \<open>
  Every operation that writes a device row; \<open>Other\<close> is any change that leaves the device table alone,
  such as the other operations of the program, the retention worker (which has its own step here), or
  the rest of a transaction around one of these.
\<close>

inductive device_step :: "(string \<Rightarrow> string) \<Rightarrow> db \<Rightarrow> db \<Rightarrow> bool" for sha where
  Presence: "presence_step sha d d' \<Longrightarrow> device_step sha d d'"
| BindLogin: "device_step sha d (snd (bind_login_identity e i uuid uid d))"
| BindRegistry: "device_step sha d (snd (bind_registry_identity e i uuid uid d))"
| Resolve: "device_step sha d (snd (resolve_report_identity e network i uuid d))"
| Sysinfo: "device_step sha d (snd (store_sysinfo e report ip d))"
| Report: "device_step sha d (snd (update_presence e peer ip d))"
| Unbind: "device_step sha d (uuid_unbind_user_id e uuid uid d)"
| Erase: "device_step sha d (snd (erase_user_id e pt uid d))"
| Create: "device_step sha d (snd (create_peer e (admin_to_peer form) d))"
| Update: "device_step sha d (snd (update_peer e ((admin_to_peer form)\<lparr>p_group_id := gid\<rparr>) d))"
| Delete: "device_step sha d (snd (delete_peer e has_table u d))"
| BatchDelete: "device_step sha d (snd (batch_delete_peers e has_table ids d))"
| Cleanup: "device_step sha d (snd (cleanup_sessions e oc has_table d))"
| Other: "peers d' = peers d \<Longrightarrow> device_step sha d d'"

text \<open>A run during which the device of one row is never removed.\<close>

definition device_run :: "(string \<Rightarrow> string) \<Rightarrow> nat \<Rightarrow> db \<Rightarrow> db \<Rightarrow> bool" where
  "device_run sha row = (\<lambda>d d'. device_step sha d d' \<and> row \<in> p_row_id ` set (peers d'))\<^sup>*\<^sup>*"

definition activations_named :: "db \<Rightarrow> bool" where
  "activations_named d \<longleftrightarrow> distinct (map p_row_id (peers d)) \<and>
     (\<forall>p \<in> set (peers d). 0 < p_activation_epoch p \<longrightarrow> p_activation_id p \<noteq> [])"

text \<open>A row after a step is a row from before it with its activation advanced, or a new one.\<close>

definition named :: "activation \<Rightarrow> bool" where
  "named a \<longleftrightarrow> (0 < act_epoch a \<longrightarrow> act_id a \<noteq> [])"

definition advances :: "activation \<Rightarrow> activation \<Rightarrow> bool" where
  "advances a b \<longleftrightarrow> act_le a b \<and> (named a \<longrightarrow> named b)"

lemma advances_refl [simp]: "advances a a"
  by (simp add: advances_def)

lemma advances_trans: "advances a b \<Longrightarrow> advances b c \<Longrightarrow> advances a c"
  using act_le_trans by (auto simp: advances_def)

lemma act_next_advances: "act_next a b \<Longrightarrow> advances a b"
proof -
  assume n: "act_next a b"
  then obtain ev where "act_step a ev = Some b" "\<forall>ep. ev \<noteq> Activate ep [] \<and> ev \<noteq> Retire ep []"
    unfolding act_next_def by blast
  then have "named a \<longrightarrow> named b"
    by (cases "(a, ev)" rule: act_step.cases) (auto simp: named_def split: if_splits)
  with act_next_le [OF n] show ?thesis by (simp add: advances_def)
qed

definition rows_from :: "db \<Rightarrow> db \<Rightarrow> bool" where
  "rows_from d d' \<longleftrightarrow> distinct (map p_row_id (peers d')) \<and>
     (\<forall>p' \<in> set (peers d'). (\<exists>p \<in> set (peers d). p_row_id p' = p_row_id p \<and> advances (abs_act p) (abs_act p')) \<or>
        (p_row_id p' \<notin> p_row_id ` set (peers d) \<and> named (abs_act p')))"

text \<open>Nothing is removed on the way either.\<close>

definition rows_grow :: "db \<Rightarrow> db \<Rightarrow> bool" where
  "rows_grow d d' \<longleftrightarrow> rows_from d d' \<and> p_row_id ` set (peers d) \<subseteq> p_row_id ` set (peers d')"

lemma rows_grow_trans:
  assumes "rows_grow d d1" "rows_grow d1 d2"
  shows "rows_grow d d2"
proof -
  have rows: "(\<exists>p \<in> set (peers d). p_row_id p2 = p_row_id p \<and> advances (abs_act p) (abs_act p2)) \<or>
      (p_row_id p2 \<notin> p_row_id ` set (peers d) \<and> named (abs_act p2))" if p2: "p2 \<in> set (peers d2)" for p2
  proof -
    from assms(2) p2 consider p1 where "p1 \<in> set (peers d1)" "p_row_id p2 = p_row_id p1" "advances (abs_act p1) (abs_act p2)"
      | "p_row_id p2 \<notin> p_row_id ` set (peers d1)" "named (abs_act p2)"
      unfolding rows_grow_def rows_from_def by blast
    then show ?thesis
    proof cases
      case 1
      with assms(1) show ?thesis unfolding rows_grow_def rows_from_def
        by (metis advances_def advances_trans)
    next
      case 2
      then show ?thesis using assms(1) by (auto simp: rows_grow_def)
    qed
  qed
  have ids: "distinct (map p_row_id (peers d2))" "p_row_id ` set (peers d) \<subseteq> p_row_id ` set (peers d2)"
    using assms unfolding rows_grow_def rows_from_def by (blast, meson subset_trans)
  show ?thesis unfolding rows_grow_def rows_from_def using ids rows by (intro conjI ballI)
qed

lemma rows_from_same: "distinct (map p_row_id (peers d)) \<Longrightarrow> peers d' = peers d \<Longrightarrow> rows_from d d'"
  by (auto simp: rows_from_def)

lemma rows_from_refl: "distinct (map p_row_id (peers d)) \<Longrightarrow> rows_from d d"
  by (rule rows_from_same) simp_all

lemma rows_from_peers: "peers d2 = peers d1 \<Longrightarrow> rows_from d d2 = rows_from d d1"
  by (simp add: rows_from_def)

lemma rows_from_kept:
  assumes "distinct (map p_row_id (peers d))" "rows_kept d d'"
  shows "rows_from d d'"
proof -
  have ids: "map p_row_id (peers d') = map p_row_id (peers d)" using assms(2) by (simp add: rows_kept_def)
  have "\<exists>p \<in> set (peers d). p_row_id p' = p_row_id p \<and> advances (abs_act p) (abs_act p')" if p': "p' \<in> set (peers d')" for p'
  proof -
    from p' ids obtain p where p: "p \<in> set (peers d)" "p_row_id p = p_row_id p'" by (metis image_iff image_set)
    with assms(2) obtain q where q: "q \<in> set (peers d')" "p_row_id q = p_row_id p" "act_next (abs_act p) (abs_act q)"
      unfolding rows_kept_def by metis
    have "q = p'" by (rule key_unique [of p_row_id "peers d'"]) (use assms(1) ids q p p' in simp_all)
    show ?thesis using p q(3) unfolding \<open>q = p'\<close> by (intro bexI [of _ p]) (simp_all add: act_next_advances)
  qed
  then show ?thesis using assms(1) ids by (simp add: rows_from_def)
qed

lemma rows_from_update:
  assumes "distinct (map p_row_id (peers d))" "peers d' = update_where P f (peers d)"
    and "\<And>r. p_row_id (f r) = p_row_id r" "\<And>r. abs_act (f r) = abs_act r"
  shows "rows_from d d'"
proof -
  have "\<exists>p \<in> set (peers d). p_row_id p' = p_row_id p \<and> advances (abs_act p) (abs_act p')" if "p' \<in> set (peers d')" for p'
  proof -
    from that obtain r where r: "r \<in> set (peers d)" "p' = (if P r then f r else r)"
      unfolding assms(2) set_update_where image_iff by blast
    then show ?thesis by (intro bexI [of _ r]) (simp_all add: assms(3,4))
  qed
  then show ?thesis using assms by (simp add: rows_from_def map_update_where)
qed

lemma rows_from_update_row:
  assumes "distinct (map p_row_id (peers d))" "\<And>r. p_row_id (f r) = p_row_id r" "\<And>r. abs_act (f r) = abs_act r"
  shows "rows_from d (update_peer_row row f d)"
  by (rule rows_from_update [OF assms(1) peers_update_peer_row assms(2,3)])

lemma rows_from_new:
  assumes "distinct (map p_row_id (peers d))"
    and "p_row_id r \<notin> p_row_id ` set (peers d)" "p_activation_epoch r = 0"
  shows "rows_from d (d\<lparr>peers := peers d @ [r]\<rparr>)"
  using assms by (auto simp: rows_from_def named_def abs_act_def)

lemma rows_from_delete:
  assumes "distinct (map p_row_id (peers d))" "peers d' = delete_where P (peers d)"
  shows "rows_from d d'"
proof -
  have "p' \<in> set (peers d)" if "p' \<in> set (peers d')" for p' using that by (simp add: assms(2) set_delete_where)
  then show ?thesis using assms(1) unfolding rows_from_def assms(2)
    by (metis advances_refl assms(2) distinct_map_delete_where)
qed

lemma rows_grow_same: "distinct (map p_row_id (peers d)) \<Longrightarrow> rows_grow d d"
  by (simp add: rows_grow_def rows_from_same)

lemma rows_grow_update_row:
  assumes "distinct (map p_row_id (peers d))" "\<And>r. p_row_id (f r) = p_row_id r" "\<And>r. abs_act (f r) = abs_act r"
  shows "rows_grow d (update_peer_row row f d)"
proof -
  have "map p_row_id (peers (update_peer_row row f d)) = map p_row_id (peers d)"
    by (simp add: map_update_where assms(2))
  then have "p_row_id ` set (peers (update_peer_row row f d)) = p_row_id ` set (peers d)"
    by (metis list.set_map)
  with rows_from_update_row [OF assms, of row] show ?thesis by (simp add: rows_grow_def)
qed

lemma rows_grow_new:
  assumes "distinct (map p_row_id (peers d))"
    and "p_row_id r \<notin> p_row_id ` set (peers d)" "p_activation_epoch r = 0"
  shows "rows_grow d (d\<lparr>peers := peers d @ [r]\<rparr>)"
  using rows_from_new [OF assms] by (auto simp: rows_grow_def)

lemma rows_from_transaction:
  assumes "distinct (map p_row_id (peers d))" "\<And>x d'. body d = Inr (x, d') \<Longrightarrow> rows_from d d'"
  shows "rows_from d (snd (transaction fl body d))"
  by (cases rule: transaction_cases [of fl body d]) (use assms rows_from_same in auto)

lemma rows_grow_transaction:
  assumes "distinct (map p_row_id (peers d))" "\<And>x d'. body d = Inr (x, d') \<Longrightarrow> rows_grow d d'"
  shows "rows_grow d (snd (transaction fl body d))"
  by (cases rule: transaction_cases [of fl body d]) (use assms rows_grow_same in auto)

lemma bind_login_rows:
  assumes "distinct (map p_row_id (peers d))"
  shows "rows_grow d (snd (bind_login_identity e i uuid uid d))"
proof -
  have "rows_grow d d'" if "bind_login_body e j uuid uid d = Inr (x, d')" for j x d'
    using that next_id_notin [of p_row_id "peers d"]
    by (auto simp: bind_login_body_def outcome_simps create_peer_row_def minimal_peer_def abs_act_def Let_def
        split: if_splits list.splits intro!: rows_grow_update_row [OF assms] rows_grow_new [OF assms])
  then have "rows_grow d (snd (transaction (flt e) (bind_login_body e j uuid uid) d))" for j
    by (rule rows_grow_transaction [OF assms])
  then show ?thesis using rows_grow_same [OF assms] by (simp add: bind_login_identity_def Let_def)
qed

lemma bind_registry_rows:
  assumes "distinct (map p_row_id (peers d))"
  shows "rows_grow d (snd (bind_registry_identity e i uuid uid d))"
proof -
  have "rows_grow d d'" if "bind_registry_body e j uuid uid d = Inr (x, d')" for j x d'
    using that next_id_notin [of p_row_id "peers d"]
    by (auto simp: bind_registry_body_def outcome_simps create_peer_row_def minimal_peer_def abs_act_def Let_def
        split: if_splits list.splits intro!: rows_grow_update_row [OF assms] rows_grow_new [OF assms])
  then have "rows_grow d (snd (transaction (flt e) (bind_registry_body e j uuid uid) d))" for j
    by (rule rows_grow_transaction [OF assms])
  then show ?thesis using rows_grow_same [OF assms] by (simp add: bind_registry_identity_def Let_def)
qed

lemma registry_rows:
  assumes "distinct (map p_row_id (peers d))"
  shows "rows_grow d (snd (resolve_by_registry e network i uuid uid d))"
  using bind_registry_rows [OF assms, of e i uuid uid] rows_grow_same [OF assms]
  by (auto simp: resolve_by_registry_def split: option.split sum.split prod.split)

lemma resolve_rows:
  assumes d: "distinct (map p_row_id (peers d))"
  shows "rows_grow d (snd (resolve_report_identity e network i uuid d))"
proof -
  have "rows_grow d (snd (resolve_by_registry e network j uuid' uid d1))"
    if "bind_login_identity e i' uuid uid' d = (x, d1)" for x j uuid' uid uid' i' d1
  proof -
    have l: "rows_grow d d1" using bind_login_rows [OF d, of e i' uuid uid'] that by simp
    then have "distinct (map p_row_id (peers d1))" by (simp add: rows_grow_def rows_from_def)
    from rows_grow_trans [OF l registry_rows [OF this]] show ?thesis .
  qed
  moreover have "rows_grow d d1" if "bind_login_identity e i' uuid uid' d = (x, d1)" for x uid' i' d1
    using bind_login_rows [OF d, of e i' uuid uid'] that by simp
  ultimately show ?thesis using registry_rows [OF d] rows_grow_same [OF d]
    by (auto simp: resolve_report_identity_def Let_def split: option.split sum.split prod.split)
qed

lemma delete_rows_rows:
  assumes "distinct (map p_row_id (peers d))" "delete_rows_body e has_table has_key ids d = Inr (x, d')"
  shows "rows_from d d'"
  by (rule rows_from_delete [OF assms(1), of _ "\<lambda>r. p_row_id r \<in> set ids"])
    (use assms(2) in \<open>auto simp: delete_rows_body_def outcome_simps remove_resource_scopes_def split: if_splits\<close>)

lemma flush_peers [simp]:
  "peers (snd (flush_token_by_uuid e p uuid d)) = peers d" "peers (snd (flush_token_by_uuids e p uuids d)) = peers d"
  by (auto simp: flush_token_by_uuid_def flush_token_by_uuids_def split: if_splits sum.splits prod.splits)

lemma rows_from_flush [simp]:
  "rows_from d (snd (flush_token_by_uuid e p uuid d1)) = rows_from d d1"
  "rows_from d (snd (flush_token_by_uuids e p uuids d1)) = rows_from d d1"
  by (rule rows_from_peers, simp)+

lemma device_step_rows:
  assumes "device_step sha d d'" "distinct (map p_row_id (peers d))"
  shows "rows_from d d'"
  using assms
proof (induction rule: device_step.induct)
  case (Presence d d')
  then show ?case by (intro rows_from_kept presence_step_rows)
next
  case (Resolve d e network i uuid)
  then show ?case using resolve_rows by (simp add: rows_grow_def)
next
  case (Sysinfo d e report ip)
  have "rows_from d d'" if b: "store_sysinfo_body e r ip d = Inr (x, d')" for r x d'
  proof -
    let ?f = "\<lambda>q. q\<lparr>p_cpu := p_cpu r, p_hostname := p_hostname r, p_memory := p_memory r, p_os := p_os r,
        p_username := p_username r, p_version := p_version r, p_last_sysinfo_time := now e,
        p_last_online_time := now e, p_last_online_ip := ip\<rparr>"
    obtain c where c: "find (\<lambda>q. p_id q = p_id r \<and> p_uuid q = p_uuid r) (peers d) = Some c"
      using b by (auto simp: store_sysinfo_body_def outcome_simps split: option.splits if_splits)
    then have "peers d' = update_where (\<lambda>q. p_row_id q = p_row_id c \<and> p_uuid q = p_uuid r) ?f (peers d)"
      using b by (auto simp: store_sysinfo_body_def outcome_simps Let_def split: if_splits)
    then show ?thesis by (rule rows_from_update [OF Sysinfo]) (simp_all add: abs_act_def)
  qed
  then have "rows_from d (snd (transaction (flt e) (store_sysinfo_body e r ip) d))" for r
    by (rule rows_from_transaction [OF Sysinfo])
  then show ?case using rows_from_same [OF Sysinfo] by (simp add: store_sysinfo_def split: option.split)
next
  case (Report d e peer ip)
  then show ?case
    by (auto simp: update_presence_def abs_act_def intro!: rows_from_refl rows_from_update split: option.split)
next
  case (Unbind d e uuid uid)
  then show ?case
    by (auto simp: uuid_unbind_user_id_def abs_act_def intro!: rows_from_refl rows_from_update_row split: option.split)
next
  case (Erase d e pt uid)
  then show ?case by (auto simp: erase_user_id_def abs_act_def intro!: rows_from_refl rows_from_update)
next
  case (Create d e form)
  then show ?case using next_id_notin [of p_row_id "peers d"]
    by (auto simp: create_peer_def create_peer_row_def admin_to_peer_def minimal_peer_def Let_def
        intro!: rows_from_refl rows_from_new)
next
  case (Update d e gid form)
  have "rows_from d (update_peer_row row (patch_peer u) d)"
    if "p_activation_epoch u = 0" "p_activation_id u = []" "\<not> p_activation_retired u" for row u
    by (rule rows_from_update_row [OF Update]) (simp_all add: patch_peer_def abs_act_def patch_def that)
  note u = this
  have f: "p_activation_epoch (admin_to_peer form) = 0" "p_activation_id (admin_to_peer form) = []"
    "\<not> p_activation_retired (admin_to_peer form)"
    by (simp_all add: admin_to_peer_def minimal_peer_def)
  show ?case
    using u [of "(admin_to_peer form)\<lparr>p_group_id := gid\<rparr>"] u [of "(admin_to_peer form)\<lparr>p_group_id := gid, p_id := i\<rparr>" for i] f
      rows_from_refl [OF Update]
    by (auto simp: update_peer_def Let_def)
next
  case (Delete d e has_table u)
  have "rows_from d (snd (transaction (flt e) (delete_rows_body e has_table (p_row_id u \<noteq> 0) [p_row_id u]) d))"
    by (rule rows_from_transaction [OF Delete delete_rows_rows [OF Delete]])
  then show ?case
    by (cases "transaction (flt e) (delete_rows_body e has_table (p_row_id u \<noteq> 0) [p_row_id u]) d")
      (simp add: delete_peer_def split: sum.split)
next
  case (BatchDelete d e has_table ids)
  show ?case
  proof (cases "get_uuid_list_by_ids e (Outside 9) ids d")
    case (Inr uuids)
    have "rows_from d (snd (transaction (flt e) (delete_rows_body e has_table True ids) d))"
      by (rule rows_from_transaction [OF BatchDelete delete_rows_rows [OF BatchDelete]])
    then show ?thesis
      by (cases "transaction (flt e) (delete_rows_body e has_table True ids) d")
        (simp add: batch_delete_peers_def Inr split: sum.split)
  qed (simp add: batch_delete_peers_def rows_from_refl [OF BatchDelete])
next
  case (Cleanup d e oc has_table)
  obtain out d' where c: "cleanup_sessions e oc has_table d = (out, d')" by fastforce
  show ?case using rows_from_same [OF Cleanup, of d'] cleanup_frame [OF c] c by (metis db.select_convs(4) db.surjective db.update_convs(2,5) snd_conv)
next
  case (BindLogin d e i uuid uid)
  then show ?case using bind_login_rows by (simp add: rows_grow_def)
next
  case (BindRegistry d e i uuid uid)
  then show ?case using bind_registry_rows by (simp add: rows_grow_def)
qed (simp add: rows_from_same)

section \<open>A retired activation is final\<close>

lemma activations_named_step:
  assumes "device_step sha d d'" "activations_named d"
  shows "activations_named d'"
proof -
  have "rows_from d d'" using device_step_rows [OF assms(1)] assms(2) by (simp add: activations_named_def)
  then show ?thesis using assms(2) unfolding rows_from_def activations_named_def
    by (fastforce simp: advances_def named_def abs_act_def)
qed

lemma presence_inv_named: "presence_inv d \<Longrightarrow> activations_named d"
  by (simp add: presence_inv_def peer_ok_def activations_named_def)

lemma device_run_advances:
  assumes "device_run sha (p_row_id p) d d'" "activations_named d" "p \<in> set (peers d)"
  shows "activations_named d' \<and> (\<exists>p' \<in> set (peers d'). p_row_id p' = p_row_id p \<and> advances (abs_act p) (abs_act p'))"
  using assms(1) unfolding device_run_def
proof (induction rule: rtranclp_induct)
  case base
  then show ?case using assms by auto
next
  case (step d1 d2)
  then obtain p1 where p1: "p1 \<in> set (peers d1)" "p_row_id p1 = p_row_id p" "advances (abs_act p) (abs_act p1)"
    and n1: "activations_named d1" by blast
  from step.hyps obtain p2 where p2: "p2 \<in> set (peers d2)" "p_row_id p2 = p_row_id p" and st: "device_step sha d1 d2"
    by force
  have "rows_from d1 d2" using device_step_rows [OF st] n1 by (simp add: activations_named_def)
  with p2 p1(1,2) obtain q where q: "q \<in> set (peers d1)" "p_row_id q = p_row_id p" "advances (abs_act q) (abs_act p2)"
    unfolding rows_from_def by (metis image_eqI)
  have "q = p1" by (rule key_unique [of p_row_id "peers d1"]) (use n1 q p1 in \<open>simp_all add: activations_named_def\<close>)
  with q p1 p2 show ?case using activations_named_step [OF st n1] advances_trans by blast
qed

text \<open>C12: A retired activation is final and an epoch never goes back: once a device's activation has been
  retired, then in every later state of the running server, whatever the four lease operations, identity binding, reports, the
  administrator's edits, removal of other devices, retention and everything that does not touch the device
  table do in between, the device has a later epoch or still that same activation, retired.  The run ends
  where the device itself is removed: a device registered again starts at epoch 0.  The start state has
  unique device rows and a name for every activation of an epoch above 0, which every step keeps.\<close>

theorem retired_activation_final:
  assumes "activations_named d" and "device_run sha (p_row_id p) d d'" and "p \<in> set (peers d)"
    and "p' \<in> set (peers d')" and "p_row_id p' = p_row_id p"
    and "p_activation_retired p" and "0 < p_activation_epoch p"
  shows "p_activation_epoch p < p_activation_epoch p' \<or>
    (p_activation_epoch p' = p_activation_epoch p \<and> p_activation_id p' = p_activation_id p \<and> p_activation_retired p')"
proof -
  obtain q where q: "q \<in> set (peers d')" "p_row_id q = p_row_id p" "advances (abs_act p) (abs_act q)"
    and n: "activations_named d'" using device_run_advances [OF assms(2,1,3)] by blast
  have "q = p'" by (rule key_unique [of p_row_id "peers d'"]) (use n q assms(4,5) in \<open>simp_all add: activations_named_def\<close>)
  moreover have "p_activation_id p \<noteq> []" using assms(1,3,7) by (simp add: activations_named_def)
  ultimately show ?thesis using q(3) assms(6) by (auto simp: advances_def act_le_def abs_act_def)
qed

text \<open>A retired device, renamed by an administrator and then activated again in the next epoch.\<close>

definition demo_peer_form :: admin_peer_form where
  "demo_peer_form = \<lparr>pf_row_id = 7, pf_id = '''', pf_cpu = '''', pf_hostname = ''desk'', pf_memory = '''',
     pf_os = '''', pf_username = '''', pf_uuid = '''', pf_version = '''', pf_group_id = 0, pf_alias = ''front''\<rparr>"

definition demo_renamed :: db where
  "demo_renamed = snd (update_peer (demo_env 125) ((admin_to_peer demo_peer_form)\<lparr>p_group_id := 0\<rparr>) (snd demo_retired))"

definition demo_later :: "(err + lease_grant) \<times> db" where
  "demo_later = start_presence_lease (demo_env 130) id (Some (replicate 48 (CHR ''z''))) (Some demo_peer) 2 demo_aid
     ''ip'' demo_renamed"

lemma retired_activation_final_witness:
  "p_activation_retired (hd (peers (snd demo_retired))) \<and> p_alias (hd (peers (snd demo_later))) = ''front'' \<and>
   p_activation_epoch (hd (peers (snd demo_retired))) < p_activation_epoch (hd (peers (snd demo_later)))"
proof (intro conjI)
  show r: "p_activation_retired (hd (peers (snd demo_retired)))" by code_simp
  show "p_alias (hd (peers (snd demo_later))) = ''front''" by code_simp
  have ids: "map p_row_id (peers (snd demo_retired)) = [7]" "map p_row_id (peers demo_renamed) = [7]"
    "map p_row_id (peers (snd demo_later)) = [7]" "0 < p_activation_epoch (hd (peers (snd demo_retired)))"
    by code_simp+
  have in7: "7 \<in> p_row_id ` set (peers demo_renamed)" "7 \<in> p_row_id ` set (peers (snd demo_later))"
    using ids by (metis list.set_intros(1) list.set_map)+
  have "device_step id (snd demo_retired) demo_renamed" unfolding demo_renamed_def by (rule device_step.Update)
  moreover have "device_step id demo_renamed (snd demo_later)"
    unfolding demo_later_def by (rule device_step.Presence, rule presence_step.Start) simp
  ultimately have run: "device_run id 7 (snd demo_retired) (snd demo_later)"
    unfolding device_run_def using in7 by (blast intro: rtranclp.rtrancl_into_rtrancl)
  have "activations_named (snd demo_retired)"
    by (rule presence_inv_named, rule presence_steps_inv [OF demo_retired_steps presence_init_inv [OF demo_init]])
  moreover have "hd (peers (snd demo_retired)) \<in> set (peers (snd demo_retired))" "hd (peers (snd demo_later)) \<in> set (peers (snd demo_later))"
    "p_row_id (hd (peers (snd demo_retired))) = 7" "p_row_id (hd (peers (snd demo_later))) = 7"
    using ids(1,3) by auto
  moreover have "\<not> p_activation_retired (hd (peers (snd demo_later)))" by code_simp
  ultimately show "p_activation_epoch (hd (peers (snd demo_retired))) < p_activation_epoch (hd (peers (snd demo_later)))"
    using retired_activation_final [of "snd demo_retired" id "hd (peers (snd demo_retired))" "snd demo_later"
        "hd (peers (snd demo_later))"] run r ids(4) by auto
qed

end
