(* ===== verification/Sessions.thy ===== *)
theory Sessions
  imports Peers Settings
begin

text \<open>
  Login sessions (\<open>src/service/user.go\<close>: AuthenticateAccessTokenContext, InfoByAccessTokenContext,
  GenerateTokenForClient, Login, LoginConnection, persistIssuedToken, getUuidByTokenContext,
  LogoutContext, UserTokenExpireTimestamp; \<open>src/service/authIntrospection.go\<close>;
  \<open>src/internal/auth/token_hash.go\<close>).  SHA-256, the random source and the UUID generator are arguments,
  the JWT package is that of \<open>TokenManager\<close>.  The statements of the identity binding that follows a
  login have an environment of their own, since they run after the login's transaction.
\<close>

record svc =
  sv_lib :: jwt_lib
  sv_manager :: "manager option"
  sv_config :: config
  sv_nanos :: int
  sv_uuid :: "err + string"
  sv_random :: "err + string"
  sv_sha :: "string \<Rightarrow> string"
  sv_bind_env :: env

abbreviation legacy_read :: "svc \<Rightarrow> bool" where
  "legacy_read sv \<equiv> ac_legacy_token_read_enabled (cf_auth (sv_config sv))"

section \<open>Token hashes\<close>

definition token_hash_hex :: "(string \<Rightarrow> string) \<Rightarrow> string \<Rightarrow> string" where
  "token_hash_hex sha token = hex_encode (sha token)"

definition constant_time_hash_equal :: "(string \<Rightarrow> string) \<Rightarrow> string \<Rightarrow> string \<Rightarrow> bool" where
  "constant_time_hash_equal sha token encoded_hash =
     (case hex_decode encoded_hash of
        None \<Rightarrow> False
      | Some want \<Rightarrow> if length want \<noteq> 32 then False else sha token = want)"

section \<open>Authentication\<close>

definition check_user_enable :: "user_row \<Rightarrow> bool" where
  "check_user_enable u \<longleftrightarrow> u_status u = COMMON_STATUS_ENABLE"

text \<open>A row whose key is zero is the zero struct: the lookup found nothing.\<close>

definition found :: "('r \<Rightarrow> nat) \<Rightarrow> 'r option \<Rightarrow> 'r option" where
  "found k r = (case r of None \<Rightarrow> None | Some x \<Rightarrow> if k x = 0 then None else Some x)"

definition find_token_row :: "svc \<Rightarrow> env \<Rightarrow> string \<Rightarrow> db \<Rightarrow> token_row option" where
  "find_token_row sv e token d =
     (case found t_id (first_where e (Outside 11) (\<lambda>r. t_hash r = Some (token_hash_hex (sv_sha sv) token)) (tokens d)) of
        Some r \<Rightarrow> Some r
      | None \<Rightarrow> if legacy_read sv
                then found t_id (first_where e (Outside 12) (\<lambda>r. t_token r = token) (tokens d))
                else None)"

definition verify_claims :: "svc \<Rightarrow> env \<Rightarrow> string \<Rightarrow> string \<Rightarrow> string \<Rightarrow> err + access_claims option \<times> bool" where
  "verify_claims sv e token audience required_scope =
     (case sv_manager sv of
        None \<Rightarrow> Inr (None, False)
      | Some m \<Rightarrow>
          (case verify_access_token (sv_lib sv) (uuid_parses e) (sv_nanos sv) (Some m) token
                  \<lparr>vo_audience = audience, vo_required_scope = required_scope\<rparr> of
             Inr c \<Rightarrow> Inr (Some c, False)
           | Inl _ \<Rightarrow> if \<not> legacy_read sv then Inl ErrAuthentication else Inr (None, True)))"

definition authenticate_access_token ::
    "svc \<Rightarrow> env \<Rightarrow> string \<Rightarrow> string \<Rightarrow> string \<Rightarrow> db \<Rightarrow> err + user_row \<times> token_row \<times> access_claims option" where
  "authenticate_access_token sv e token audience required_scope d =
     (if token = [] \<or> int (length token) > effective_max_token_bytes (cf_auth (sv_config sv)) then Inl ErrAuthentication
      else ebind (verify_claims sv e token audience required_scope) (\<lambda>(oc, strict_failed).
      case find_token_row sv e token d of
        None \<Rightarrow> Inl ErrAuthentication
      | Some ut \<Rightarrow>
          if strict_failed \<and> t_kid ut \<noteq> [] then Inl ErrAuthentication
          else if (case t_hash ut of None \<Rightarrow> False | Some h \<Rightarrow> \<not> constant_time_hash_equal (sv_sha sv) token h)
            then Inl ErrAuthentication
          else if t_revoked_at ut \<noteq> None \<or> t_expired_at ut \<le> now e then Inl ErrAuthentication
          else if (case oc of None \<Rightarrow> False
                   | Some c \<Rightarrow> cl_user_id c \<noteq> t_user_id ut \<or> t_jti ut \<noteq> Some (cl_id c) \<or>
                               cl_auth_version c \<noteq> t_auth_version ut)
            then Inl ErrAuthentication
          else case found u_id (first_where e (Outside 13) (\<lambda>u. u_id u = t_user_id ut) (users d)) of
            None \<Rightarrow> Inl ErrAuthentication
          | Some u \<Rightarrow>
              if \<not> check_user_enable u \<or> u_auth_version u = 0 \<or> t_auth_version ut \<noteq> u_auth_version u
              then Inl ErrAuthentication
              else Inr (u, ut, oc)))"

definition info_by_access_token :: "svc \<Rightarrow> env \<Rightarrow> string \<Rightarrow> db \<Rightarrow> (user_row \<times> token_row) option" where
  "info_by_access_token sv e token d =
     (case authenticate_access_token sv e token APIAudience [] d of
        Inl _ \<Rightarrow> None | Inr (u, ut, _) \<Rightarrow> Some (u, ut))"

record introspection_result =
  ir_active :: bool
  ir_subject :: string
  ir_jti :: string
  ir_expires_at :: int
  ir_auth_version :: nat
  ir_reason :: string

definition inactive_result :: introspection_result where
  "inactive_result = \<lparr>ir_active = False, ir_subject = '''', ir_jti = '''', ir_expires_at = 0,
     ir_auth_version = 0, ir_reason = ''inactive''\<rparr>"

definition introspect :: "svc \<Rightarrow> env \<Rightarrow> string \<Rightarrow> db \<Rightarrow> introspection_result" where
  "introspect sv e token d =
     (case sv_manager sv of
        None \<Rightarrow> inactive_result
      | Some _ \<Rightarrow>
          (case authenticate_access_token sv e token ConnectionAudience ConnectScope d of
             Inr (_, _, Some c) \<Rightarrow>
               \<lparr>ir_active = True, ir_subject = decimal (cl_user_id c), ir_jti = cl_id c,
                ir_expires_at = (case cl_expires_at c of None \<Rightarrow> 0 | Some x \<Rightarrow> unix_seconds x),
                ir_auth_version = cl_auth_version c, ir_reason = ''active''\<rparr>
           | _ \<Rightarrow> inactive_result))"

section \<open>Issuing\<close>

text \<open>A user whose version is still zero gets version 1 before anything is issued.\<close>

definition initialize_auth_version :: "env \<Rightarrow> user_row \<Rightarrow> db \<Rightarrow> err + user_row \<times> db" where
  "initialize_auth_version e u d =
     (if u_auth_version u \<noteq> 0 then Inr (u, d)
      else stmt (flt e) (Outside 21)
        (Inr (u\<lparr>u_auth_version := 1\<rparr>,
              d\<lparr>users := update_where (\<lambda>r. u_id r = u_id u) (\<lambda>r. r\<lparr>u_auth_version := 1\<rparr>) (users d)\<rparr>)))"

definition generate_token_for_client ::
    "svc \<Rightarrow> env \<Rightarrow> user_row option \<Rightarrow> string \<Rightarrow> db \<Rightarrow> (err + user_row \<times> issued_token) \<times> db" where
  "generate_token_for_client sv e ou client d =
     (case found u_id ou of
        None \<Rightarrow> (Inl (ErrNew ''cannot issue token for empty user''), d)
      | Some u0 \<Rightarrow>
          (case initialize_auth_version e u0 d of
             Inl er \<Rightarrow> (Inl er, d)
           | Inr (u, d1) \<Rightarrow>
               (let ttl = effective_login_ttl e (Outside 22) (Some (sv_config sv)) client d1 in
                case sv_manager sv of
                  Some m \<Rightarrow>
                    (let maximum = maximum_ttl (Some m);
                         ttl = (if maximum > 0 \<and> ttl > maximum then maximum else ttl)
                     in (ebind (issue_access_token_with_ttl (sv_lib sv) (sv_nanos sv) (sv_uuid sv) (Some m)
                                  (u_id u) (u_auth_version u) ttl) (\<lambda>it. Inr (u, it)), d1))
                | None \<Rightarrow>
                    (ebind (sv_random sv) (\<lambda>random. ebind (sv_uuid sv) (\<lambda>jti.
                       Inr (u, \<lparr>it_token = b64_encode url_alphabet False random, it_jti = jti, it_key_id = '''',
                               it_issued_at = unix_seconds (sv_nanos sv),
                               it_expires_at = unix_seconds (sv_nanos sv + ttl),
                               it_auth_version = u_auth_version u\<rparr>))), d1))))"

text \<open>Rows of \<open>user_tokens\<close> have a unique jti and a unique hash (NULL excepted).\<close>

definition create_token_row :: "token_row \<Rightarrow> db \<Rightarrow> err + db" where
  "create_token_row r d =
     (if (t_jti r \<noteq> None \<and> t_jti r \<in> t_jti ` set (tokens d)) \<or>
         (t_hash r \<noteq> None \<and> t_hash r \<in> t_hash ` set (tokens d))
      then Inl UniqueViolation else Inr (d\<lparr>tokens := tokens d @ [r]\<rparr>))"

definition persist_body :: "env \<Rightarrow> token_row \<Rightarrow> login_log_row \<Rightarrow> db \<Rightarrow> err + token_row \<times> db" where
  "persist_body e ut0 llog d =
     (let ut = ut0\<lparr>t_id := next_id t_id (tokens d)\<rparr> in
      stmt (flt e) (Stmt 61) (
      ebind (create_token_row ut d) (\<lambda>d1.
      stmt (flt e) (Stmt 62)
        (Inr (ut, d1\<lparr>login_logs := login_logs d1 @
           [llog\<lparr>l_id := next_id l_id (login_logs d1), l_user_token_id := t_id ut\<rparr>]\<rparr>)))))"

definition normalize_login_log :: "login_log_row \<Rightarrow> login_log_row" where
  "normalize_login_log l =
     (if is_native_login_client (l_client l) then l\<lparr>l_device_id := normalize_rustdesk_id (l_device_id l)\<rparr> else l)"

definition issued_row :: "svc \<Rightarrow> user_row \<Rightarrow> login_log_row \<Rightarrow> issued_token \<Rightarrow> token_row" where
  "issued_row sv u llog issued =
     \<lparr>t_id = 0, t_user_id = u_id u, t_device_uuid = l_uuid llog, t_device_id = l_device_id llog,
      t_token = [], t_jti = Some (it_jti issued), t_kid = it_key_id issued,
      t_hash = Some (token_hash_hex (sv_sha sv) (it_token issued)),
      t_auth_version = it_auth_version issued, t_issued_at = it_issued_at issued,
      t_expired_at = it_expires_at issued, t_revoked_at = None, t_revoked_reason = [],
      t_client = l_client llog\<rparr>"

definition persist_issued_token ::
    "svc \<Rightarrow> env \<Rightarrow> user_row option \<Rightarrow> login_log_row option \<Rightarrow> issued_token \<Rightarrow> db \<Rightarrow> token_row option \<times> db" where
  "persist_issued_token sv e ou ollog issued d =
     (case (found u_id ou, ollog) of
        (Some u, Some llog0) \<Rightarrow>
          if it_token issued = [] \<or> it_jti issued = [] then (None, d)
          else
            (let llog = normalize_login_log llog0 in
             case transaction (flt e) (persist_body e (issued_row sv u llog issued) llog) d of
               (Inl _, d1) \<Rightarrow> (None, d1)
             | (Inr ut, d1) \<Rightarrow>
                 (Some (ut\<lparr>t_token := it_token issued\<rparr>),
                  if is_native_login_client (l_client llog) \<and> l_uuid llog \<noteq> []
                  then snd (bind_login_identity (sv_bind_env sv) (l_device_id llog) (l_uuid llog) (u_id u) d1)
                  else d1))
      | _ \<Rightarrow> (None, d))"

definition login :: "svc \<Rightarrow> env \<Rightarrow> user_row option \<Rightarrow> login_log_row option \<Rightarrow> db \<Rightarrow> token_row option \<times> db" where
  "login sv e ou ollog d =
     (let client = (case ollog of None \<Rightarrow> '''' | Some l \<Rightarrow> l_client l) in
      case generate_token_for_client sv e ou client d of
        (Inl _, d1) \<Rightarrow> (None, d1)
      | (Inr (u, issued), d1) \<Rightarrow> persist_issued_token sv e (Some u) ollog issued d1)"

definition login_connection ::
    "svc \<Rightarrow> env \<Rightarrow> user_row option \<Rightarrow> login_log_row option \<Rightarrow> int \<Rightarrow> db \<Rightarrow> token_row option \<times> db" where
  "login_connection sv e ou ollog ttl d =
     (case (found u_id ou, sv_manager sv) of
        (Some u0, Some m) \<Rightarrow>
          (case initialize_auth_version e u0 d of
             Inl _ \<Rightarrow> (None, d)
           | Inr (u, d1) \<Rightarrow>
               (case issue_connection_token (sv_lib sv) (sv_nanos sv) (sv_uuid sv) (Some m) (u_id u) (u_auth_version u) ttl of
                  Inl _ \<Rightarrow> (None, d1)
                | Inr issued \<Rightarrow> persist_issued_token sv e (Some u) ollog issued d1))
      | _ \<Rightarrow> (None, d))"

definition user_token_expire_timestamp :: "svc \<Rightarrow> env \<Rightarrow> db \<Rightarrow> int" where
  "user_token_expire_timestamp sv e d =
     unix_seconds (sv_nanos sv + effective_login_ttl e (Outside 22) (Some (sv_config sv)) LoginLogClientWebAdmin d)"

section \<open>Logout\<close>

definition get_uuid_by_token :: "svc \<Rightarrow> env \<Rightarrow> user_row \<Rightarrow> string \<Rightarrow> db \<Rightarrow> string" where
  "get_uuid_by_token sv e u token d =
     (case first_where e (Outside 31)
             (\<lambda>r. t_user_id r = u_id u \<and> t_hash r = Some (token_hash_hex (sv_sha sv) token)) (tokens d) of
        Some r \<Rightarrow> t_device_uuid r
      | None \<Rightarrow>
          if legacy_read sv
          then (case first_where e (Outside 32) (\<lambda>r. t_user_id r = u_id u \<and> t_token r = token) (tokens d) of
                  Some r \<Rightarrow> t_device_uuid r | None \<Rightarrow> '''')
          else '''')"

definition logout :: "svc \<Rightarrow> env \<Rightarrow> user_row option \<Rightarrow> string \<Rightarrow> db \<Rightarrow> (err + unit) \<times> db" where
  "logout sv e ou token d =
     (case found u_id ou of
        None \<Rightarrow> (Inr (), d)
      | Some u \<Rightarrow>
          (let uuid = get_uuid_by_token sv e u token d;
               by_hash = (\<lambda>r. t_user_id r = u_id u \<and> t_hash r = Some (token_hash_hex (sv_sha sv) token));
               by_token = (\<lambda>r. t_user_id r = u_id u \<and> t_token r = token);
               unbind = (\<lambda>d1. if uuid \<noteq> [] then uuid_unbind_user_id e uuid (u_id u) d1 else d1)
           in if flt e (Outside 33) then (Inl (DbErr (Outside 33)), d)
              else if count_where (\<lambda>r. by_hash r \<and> t_revoked_at r = None) (tokens d) = 0 \<and> legacy_read sv
              then (if flt e (Outside 34) then (Inl (DbErr (Outside 34)), d)
                    else (Inr (), unbind (revoke_where by_token (now e) ''logout'' d)))
              else (Inr (), unbind (revoke_where by_hash (now e) ''logout'' d))))"

end
