(* ===== verification/SessionsProps.thy ===== *)
theory SessionsProps
  imports Sessions PeersProps
begin

text \<open>
  Properties of login sessions: what an accepted token proves, that a login's token is accepted while it
  lives, and what a logout ends.
\<close>

section \<open>What an accepted token proves\<close>

lemma found_Some: "found k r = Some x \<longleftrightarrow> r = Some x \<and> k x \<noteq> 0"
  by (auto simp: found_def split: option.splits)

lemma first_where_SomeD: "first_where e p P t = Some r \<Longrightarrow> r \<in> set t \<and> P r"
  by (auto simp: first_where_def split: if_splits dest: find_SomeD)

definition names_token :: "svc \<Rightarrow> string \<Rightarrow> token_row \<Rightarrow> bool" where
  "names_token sv token r \<longleftrightarrow>
     t_hash r = Some (token_hash_hex (sv_sha sv) token) \<or> (legacy_read sv \<and> t_token r = token)"

lemma find_token_row_Some:
  "find_token_row sv e token d = Some r \<Longrightarrow> r \<in> set (tokens d) \<and> names_token sv token r \<and> t_id r \<noteq> 0"
  by (auto simp: find_token_row_def names_token_def found_Some split: option.splits if_splits
      dest!: first_where_SomeD)

text \<open>A session row that can still authenticate its user.\<close>

definition live_session :: "int \<Rightarrow> db \<Rightarrow> token_row \<Rightarrow> user_row \<Rightarrow> bool" where
  "live_session t d r u \<longleftrightarrow>
     r \<in> set (tokens d) \<and> u \<in> set (users d) \<and> t_user_id r = u_id u \<and> t_revoked_at r = None \<and> t < t_expired_at r \<and>
     u_status u = COMMON_STATUS_ENABLE \<and> u_auth_version u \<noteq> 0 \<and> t_auth_version r = u_auth_version u"

lemma authenticate_InrE:
  assumes "authenticate_access_token sv e token aud scope d = Inr (u, ut, oc)"
  obtains sf where "token \<noteq> []" "int (length token) \<le> effective_max_token_bytes (cf_auth (sv_config sv))"
    "verify_claims sv e token aud scope = Inr (oc, sf)" "find_token_row sv e token d = Some ut"
    "sf \<Longrightarrow> t_kid ut = []" "\<And>h. t_hash ut = Some h \<Longrightarrow> constant_time_hash_equal (sv_sha sv) token h"
    "\<And>c. oc = Some c \<Longrightarrow> cl_user_id c = u_id u \<and> t_jti ut = Some (cl_id c) \<and> cl_auth_version c = t_auth_version ut"
    "live_session (now e) d ut u" "u_id u \<noteq> 0"
proof -
  have ne: "token \<noteq> []" "int (length token) \<le> effective_max_token_bytes (cf_auth (sv_config sv))"
    using assms by (auto simp: authenticate_access_token_def split: if_splits)
  obtain oc' sf where v: "verify_claims sv e token aud scope = Inr (oc', sf)"
    using assms ne by (cases "verify_claims sv e token aud scope") (auto simp: authenticate_access_token_def)
  obtain r where r: "find_token_row sv e token d = Some r"
    using assms ne v by (cases "find_token_row sv e token d") (auto simp: authenticate_access_token_def)
  have c: "\<not> (sf \<and> t_kid r \<noteq> [])" "\<not> (case t_hash r of None \<Rightarrow> False | Some h \<Rightarrow> \<not> constant_time_hash_equal (sv_sha sv) token h)"
    "\<not> (t_revoked_at r \<noteq> None \<or> t_expired_at r \<le> now e)"
    "\<not> (case oc' of None \<Rightarrow> False | Some c \<Rightarrow> cl_user_id c \<noteq> t_user_id r \<or> t_jti r \<noteq> Some (cl_id c) \<or>
          cl_auth_version c \<noteq> t_auth_version r)"
    using assms ne v r by (simp_all add: authenticate_access_token_def split: if_split_asm)
  obtain x where x: "found u_id (first_where e (Outside 13) (\<lambda>u. u_id u = t_user_id r) (users d)) = Some x"
    using assms ne v r c
    by (cases "found u_id (first_where e (Outside 13) (\<lambda>u. u_id u = t_user_id r) (users d))")
      (simp_all add: authenticate_access_token_def)
  then have u: "check_user_enable x" "u_auth_version x \<noteq> 0" "t_auth_version r = u_auth_version x"
      and e: "x = u" "r = ut" "oc' = oc"
    using assms ne v r c by (simp_all add: authenticate_access_token_def split: if_split_asm)
  from x have "x \<in> set (users d)" "u_id x = t_user_id r" "u_id x \<noteq> 0"
    by (auto simp: found_Some dest: first_where_SomeD)
  with u find_token_row_Some [OF r] c(3) have "live_session (now e) d ut u"
    by (simp add: live_session_def check_user_enable_def e)
  with ne v r c \<open>u_id x = t_user_id r\<close> \<open>u_id x \<noteq> 0\<close> show thesis
    by (intro that [of sf]) (auto simp: e)
qed

lemma verify_claims_cases:
  assumes "verify_claims sv e token aud scope = Inr (oc, sf)"
  obtains (off) "sv_manager sv = None" "oc = None" "\<not> sf"
  | (strict) m c where "sv_manager sv = Some m" "oc = Some c" "\<not> sf"
      "verify_access_token (sv_lib sv) (uuid_parses e) (sv_nanos sv) (Some m) token
         \<lparr>vo_audience = aud, vo_required_scope = scope\<rparr> = Inr c"
  | (legacy) m where "sv_manager sv = Some m" "oc = None" "sf" "legacy_read sv"
  using assms by (auto simp: verify_claims_def split: option.splits sum.splits if_splits)

text \<open>Dead: every row the token names is revoked.  Such a token never authenticates.\<close>

definition dead_token :: "svc \<Rightarrow> string \<Rightarrow> db \<Rightarrow> bool" where
  "dead_token sv token d \<longleftrightarrow> (\<forall>r \<in> set (tokens d). names_token sv token r \<longrightarrow> t_revoked_at r \<noteq> None)"

lemma dead_token_refused:
  assumes "dead_token sv token d"
  shows "authenticate_access_token sv e token aud scope d \<noteq> Inr x"
proof
  assume a: "authenticate_access_token sv e token aud scope d = Inr x"
  obtain u ut oc where x: "x = (u, ut, oc)" by (cases x) auto
  from a x show False
    using assms by (auto elim!: authenticate_InrE simp: dead_token_def live_session_def
        dest: find_token_row_Some)
qed

section \<open>Properties\<close>

text \<open>C1: An accepted access token proves a live session: there is a row for it, by its SHA-256 or, only
  where legacy reading is enabled, by its plain text, that is not revoked, not expired and of the user's
  current non-zero auth version, and the user exists and is enabled.  Where a token manager is configured,
  the token also verified under it for the audience and scope asked for, with the row's user, jti and
  version in its claims; the one exception is a row without a key id, with legacy reading enabled.\<close>

theorem authentication_sound:
  assumes "authenticate_access_token sv e token aud scope d = Inr (u, ut, oc)"
  shows "live_session (now e) d ut u \<and> names_token sv token ut \<and>
    (\<forall>h. t_hash ut = Some h \<longrightarrow> hex_decode h = Some (sv_sha sv token) \<and> length (sv_sha sv token) = 32) \<and>
    (case sv_manager sv of
       None \<Rightarrow> oc = None
     | Some m \<Rightarrow>
         (\<exists>c. oc = Some c \<and>
            verify_access_token (sv_lib sv) (uuid_parses e) (sv_nanos sv) (Some m) token
              \<lparr>vo_audience = aud, vo_required_scope = scope\<rparr> = Inr c \<and>
            cl_user_id c = u_id u \<and> Some (cl_id c) = t_jti ut \<and> cl_auth_version c = u_auth_version u) \<or>
         (legacy_read sv \<and> oc = None \<and> t_kid ut = []))"
proof (rule authenticate_InrE [OF assms])
  fix sf
  assume f: "verify_claims sv e token aud scope = Inr (oc, sf)"
      "find_token_row sv e token d = Some ut" "sf \<Longrightarrow> t_kid ut = []"
      "\<And>h. t_hash ut = Some h \<Longrightarrow> constant_time_hash_equal (sv_sha sv) token h"
      "\<And>c. oc = Some c \<Longrightarrow> cl_user_id c = u_id u \<and> t_jti ut = Some (cl_id c) \<and> cl_auth_version c = t_auth_version ut"
      "live_session (now e) d ut u"
  have h: "\<forall>h. t_hash ut = Some h \<longrightarrow> hex_decode h = Some (sv_sha sv token) \<and> length (sv_sha sv token) = 32"
    using f(4) by (auto simp: constant_time_hash_equal_def split: option.splits if_splits)
  have v: "t_auth_version ut = u_auth_version u" using f(6) by (simp add: live_session_def)
  from f(1) show ?thesis
    by (cases rule: verify_claims_cases) (use f h v find_token_row_Some [OF f(2)] in auto)
qed

section \<open>Logout\<close>

lemma unbind_frame: "tokens (uuid_unbind_user_id e uuid uid d) = tokens d"
  "users (uuid_unbind_user_id e uuid uid d) = users d"
  by (auto simp: uuid_unbind_user_id_def update_peer_row_def split: option.splits)

lemma bind_body_frame:
  "bind_login_body e i uuid uid d = Inr ((), d') \<Longrightarrow> d' = d\<lparr>peers := peers d'\<rparr>"
  by (auto simp: bind_login_body_def outcome_simps Let_def update_peer_row_def create_peer_row_def
      split: if_splits list.splits)

lemma bind_login_frame:
  "snd (bind_login_identity e i uuid uid d) = d\<lparr>peers := peers (snd (bind_login_identity e i uuid uid d))\<rparr>"
  by (cases rule: transaction_cases [of "flt e" "bind_login_body e (normalize_rustdesk_id i) uuid uid" d])
    (auto simp: bind_login_identity_def Let_def dest: bind_body_frame)

lemma find_token_row_hash:
  assumes "\<not> legacy_read sv" "find_token_row sv e token d = Some r"
  shows "t_hash r = Some (token_hash_hex (sv_sha sv) token)" "r \<in> set (tokens d)"
  using find_token_row_Some [OF assms(2)] assms(1) by (auto simp: names_token_def)

text \<open>Logging out ends exactly the session of the token: its row is revoked and no other row, user or
  version changes; from then on the token is refused at every time, for every audience and scope, whatever
  statements fail.  (Legacy reading is off and token hashes are unique, as their index demands.)\<close>

lemma logout_ends_exactly_one_session:
  assumes a: "authenticate_access_token sv e0 token aud scope d = Inr (u0, ut, oc)"
    and l: "logout sv e (Some u) token d = (Inr (), d')" and u: "u_id u = u_id u0"
    and legacy: "\<not> legacy_read sv" and inj: "inj_on t_hash {r \<in> set (tokens d). t_hash r \<noteq> None}"
  shows "(\<forall>sv' e' aud' scope' x. sv_sha sv' = sv_sha sv \<longrightarrow> \<not> legacy_read sv' \<longrightarrow>
            authenticate_access_token sv' e' token aud' scope' d' \<noteq> Inr x) \<and>
    tokens d' = update_where (\<lambda>r. r = ut) (revoke_row (now e) ''logout'') (tokens d) \<and> users d' = users d"
proof (rule authenticate_InrE [OF a])
  let ?h = "token_hash_hex (sv_sha sv) token"
  fix sf assume f: "find_token_row sv e0 token d = Some ut" and live: "live_session (now e0) d ut u0" and "u_id u0 \<noteq> 0"
  then have unz: "u_id u \<noteq> 0" using u by simp
  note ut = find_token_row_hash [OF legacy f]
  have live': "t_revoked_at ut = None" "t_user_id ut = u_id u"
    using live u by (auto simp: live_session_def)
  have row: "(t_user_id r = u_id u \<and> t_hash r = Some ?h \<and> t_revoked_at r = None) = (r = ut)"
    if "r \<in> set (tokens d)" for r
    using inj_onD [OF inj, of r ut] that ut live' by auto
  have "tokens d' = update_where (\<lambda>r. (t_user_id r = u_id u \<and> t_hash r = Some ?h) \<and> t_revoked_at r = None)
      (revoke_row (now e) ''logout'') (tokens d) \<and> users d' = users d"
    using l unz legacy by (auto simp: logout_def found_def Let_def unbind_frame revoke_where_def split: if_splits)
  moreover have "update_where (\<lambda>r. (t_user_id r = u_id u \<and> t_hash r = Some ?h) \<and> t_revoked_at r = None)
      (revoke_row (now e) ''logout'') (tokens d) = update_where (\<lambda>r. r = ut) (revoke_row (now e) ''logout'') (tokens d)"
    unfolding update_where_def by (rule map_cong) (use row in auto)
  ultimately have tok: "tokens d' = update_where (\<lambda>r. r = ut) (revoke_row (now e) ''logout'') (tokens d)"
    "users d' = users d" by simp_all
  have "dead_token sv' token d'" if "sv_sha sv' = sv_sha sv" "\<not> legacy_read sv'" for sv'
    unfolding dead_token_def tok set_update_where
  proof (intro ballI impI)
    fix r assume r: "r \<in> (\<lambda>r. if r = ut then revoke_row (now e) ''logout'' r else r) ` set (tokens d)"
      and n: "names_token sv' token r"
    then obtain r0 where r0: "r0 \<in> set (tokens d)" "r = (if r0 = ut then revoke_row (now e) ''logout'' r0 else r0)" by blast
    show "t_revoked_at r \<noteq> None"
    proof (cases "r0 = ut")
      case False
      with r0 n that have "t_hash r0 = Some ?h" by (simp add: names_token_def)
      with inj_onD [OF inj, of r0 ut] r0(1) ut False show ?thesis by auto
    qed (use r0 in simp)
  qed
  with dead_token_refused tok show ?thesis by blast
qed

section \<open>Login\<close>

text \<open>The user row after the version has been initialised.\<close>

lemma initialize_auth_versionE:
  assumes "initialize_auth_version e u d = Inr (u', d')" "distinct (map u_id (users d))" "u \<in> set (users d)"
  obtains "u' \<in> set (users d')" "u_id u' = u_id u" "u_status u' = u_status u" "u_auth_version u' \<noteq> 0"
    "distinct (map u_id (users d'))" "tokens d' = tokens d" "settings d' = settings d" "login_logs d' = login_logs d"
proof (cases "u_auth_version u = 0")
  case False
  with assms that show thesis by (auto simp: initialize_auth_version_def)
next
  case True
  with assms(1) have u': "u' = u\<lparr>u_auth_version := 1\<rparr>"
    and d': "d' = d\<lparr>users := update_where (\<lambda>r. u_id r = u_id u) (\<lambda>r. r\<lparr>u_auth_version := 1\<rparr>) (users d)\<rparr>"
    by (auto simp: initialize_auth_version_def outcome_simps)
  have "u' \<in> set (users d')"
    unfolding u' d' using assms(3) by (auto simp: set_update_where image_iff)
  moreover have "distinct (map u_id (users d'))"
    unfolding d' using assms(2) by (simp add: map_update_where)
  ultimately show thesis by (intro that) (simp_all add: u' d')
qed

lemma persist_body_eq_Inr:
  "persist_body e t llog d = Inr (ut, d') \<Longrightarrow> ut = t\<lparr>t_id := next_id t_id (tokens d)\<rparr> \<and>
     create_token_row ut d = Inr (d\<lparr>tokens := tokens d @ [ut]\<rparr>) \<and> tokens d' = tokens d @ [ut] \<and> users d' = users d"
  by (auto simp: persist_body_def Let_def outcome_simps create_token_row_def split: if_splits)

lemma persist_token:
  assumes "persist_issued_token sv e (Some u) ollog it d = (Some ut, d')"
  obtains row where "tokens d' = tokens d @ [row]" "users d' = users d" "t_id row \<noteq> 0" "t_user_id row = u_id u"
    "t_hash row = Some (token_hash_hex (sv_sha sv) (it_token it))" "t_token row = []"
    "\<forall>r \<in> set (tokens d). t_hash r \<noteq> Some (token_hash_hex (sv_sha sv) (it_token it))"
    "t_revoked_at row = None" "t_expired_at row = it_expires_at it" "t_jti row = Some (it_jti it)"
    "t_auth_version row = it_auth_version it" "t_kid row = it_key_id it" "ut = row\<lparr>t_token := it_token it\<rparr>"
proof -
  obtain llog0 where "found u_id (Some u) = Some u" "ollog = Some llog0"
    using assms by (cases ollog) (auto simp: persist_issued_token_def found_def split: if_splits)
  then obtain ut1 d1 where "transaction (flt e) (persist_body e (issued_row sv u (normalize_login_log llog0) it)
        (normalize_login_log llog0)) d = (Inr ut1, d1)"
    and ut: "ut = ut1\<lparr>t_token := it_token it\<rparr>" and d': "tokens d' = tokens d1" "users d' = users d1"
    using assms bind_login_frame
    by (auto simp: persist_issued_token_def Let_def split: if_splits prod.splits sum.splits)
      (metis db.select_convs db.update_convs(4) db.surjective)+
  then have b: "persist_body e (issued_row sv u (normalize_login_log llog0) it) (normalize_login_log llog0) d = Inr (ut1, d1)"
    by (simp add: transaction_eq_Inr)
  note r = persist_body_eq_Inr [OF b]
  then have "t_hash ut1 = Some (token_hash_hex (sv_sha sv) (it_token it))" by (simp add: issued_row_def)
  with r have "Some (token_hash_hex (sv_sha sv) (it_token it)) \<notin> t_hash ` set (tokens d)"
    by (simp add: create_token_row_def split: if_splits)
  then have "\<forall>r \<in> set (tokens d). t_hash r \<noteq> Some (token_hash_hex (sv_sha sv) (it_token it))"
    by (metis image_eqI)
  then show thesis
    by (intro that [of ut1]) (use r d' ut in \<open>auto simp: issued_row_def\<close>)
qed

text \<open>The two issuing paths.\<close>

lemma generate_managed:
  assumes "generate_token_for_client sv e (Some u) client d = (Inr (u', it), d')" and "sv_manager sv = Some m"
  obtains ttl where "initialize_auth_version e u d = Inr (u', d')"
    "issue_token (sv_lib sv) (sv_nanos sv) (sv_uuid sv) m (u_id u') (u_auth_version u') (m_audiences m) ttl = Inr it"
proof (cases "found u_id (Some u)")
  case None
  with assms show thesis by (simp add: generate_token_for_client_def)
next
  case (Some u0)
  then have u0: "u0 = u" by (simp add: found_Some)
  show thesis
  proof (cases "initialize_auth_version e u d")
    case (Inl er)
    with assms Some u0 show thesis by (simp add: generate_token_for_client_def)
  next
    case (Inr p)
    obtain x d1 where p: "p = (x, d1)" by fastforce
    with assms Some u0 Inr that show thesis
      by (auto simp: generate_token_for_client_def Let_def outcome_simps issue_access_token_with_ttl_def split: if_splits)
  qed
qed

lemma unix_seconds_mono_lt: "unix_seconds t' < unix_seconds x \<Longrightarrow> t' < numeric_date x"
proof -
  assume "unix_seconds t' < unix_seconds x"
  then have "t' div second + 1 \<le> x div second" by (simp add: unix_seconds_def)
  then have "(t' div second + 1) * second \<le> x div second * second"
    by (intro mult_right_mono) (simp_all add: second_def)
  moreover have "t' < t' div second * second + second"
    using numeric_date_gt [of t'] by (simp add: numeric_date_def)
  ultimately show ?thesis by (simp add: numeric_date_def distrib_right)
qed

lemma hash_equal_self:
  "length (sha token) = 32 \<Longrightarrow> constant_time_hash_equal sha token (token_hash_hex sha token)"
  by (simp add: constant_time_hash_equal_def token_hash_hex_def hex_decode_encode)

text \<open>C30: A login works: the token it returns is accepted by the API, under the same keys and settings, for
  the user who logged in, from its issue until the expiry it was given, while the account stays as it is.\<close>

theorem login_token_authenticates:
  assumes laws: "jwt_laws (sv_lib sv) signed"
    and login: "login sv e (Some u) ollog d = (Some ut, d')"
    and user: "u \<in> set (users d)" "u_status u = COMMON_STATUS_ENABLE" "distinct (map u_id (users d))"
    and m: "sv_manager sv = Some m" "m_current_id m \<noteq> []" "map_of (m_public m) (m_current_id m) = Some (public_of (m_current m))"
      "m_maximum_ttl m mod second = 0" "0 \<le> m_clock_skew m" "APIAudience \<in> set (m_audiences m)"
      "m_max_token_size m \<le> effective_max_token_bytes (cf_auth (sv_config sv))"
    and sha: "\<And>s. length (sv_sha sv s) = 32"
    and uuid: "\<And>j. sv_uuid sv = Inr j \<Longrightarrow> uuid_parses e' j"
    and later: "sv_nanos sv \<le> t'" "now e' = unix_seconds t'" "now e' < t_expired_at ut"
    and ok: "\<not> flt e' (Outside 11)" "\<not> flt e' (Outside 13)"
  shows "\<exists>u' row c. authenticate_access_token (sv\<lparr>sv_nanos := t'\<rparr>) e' (t_token ut) APIAudience [] d' = Inr (u', row, Some c) \<and>
    u_id u' = u_id u \<and> u_id u = cl_user_id c"
proof -
  have id: "u_id u \<noteq> 0"
    using login by (auto simp: login_def generate_token_for_client_def found_def split: if_splits)
  from login obtain u1 it d1 where g: "generate_token_for_client sv e (Some u) (case ollog of None \<Rightarrow> [] | Some l \<Rightarrow> l_client l) d
        = (Inr (u1, it), d1)" and p: "persist_issued_token sv e (Some u1) ollog it d1 = (Some ut, d')"
    by (auto simp: login_def split: prod.splits sum.splits)
  from generate_managed [OF g m(1)] obtain ttl where i: "initialize_auth_version e u d = Inr (u1, d1)"
    and issue: "issue_token (sv_lib sv) (sv_nanos sv) (sv_uuid sv) m (u_id u1) (u_auth_version u1) (m_audiences m) ttl = Inr it"
    by blast
  from i user(3,1) have U: "u1 \<in> set (users d1)" "u_id u1 = u_id u" "u_status u1 = u_status u" "u_auth_version u1 \<noteq> 0"
    "distinct (map u_id (users d1))"
    by (auto elim: initialize_auth_versionE)
  from p obtain row where R: "tokens d' = tokens d1 @ [row]" "users d' = users d1" "t_id row \<noteq> 0" "t_user_id row = u_id u1"
    "t_hash row = Some (token_hash_hex (sv_sha sv) (it_token it))"
    "\<forall>r \<in> set (tokens d1). t_hash r \<noteq> Some (token_hash_hex (sv_sha sv) (it_token it))"
    "t_revoked_at row = None" "t_expired_at row = it_expires_at it" "t_jti row = Some (it_jti it)"
    "t_auth_version row = it_auth_version it" "ut = row\<lparr>t_token := it_token it\<rparr>"
    by (elim persist_token)
  from issue obtain jti where I: "sv_uuid sv = Inr jti" "ttl \<le> m_maximum_ttl m" "it_jti it = jti"
    "it_auth_version it = u_auth_version u1" "it_expires_at it = unix_seconds (sv_nanos sv + ttl)"
    "int (length (it_token it)) \<le> m_max_token_size m"
    "jwt_sign (sv_lib sv) (issued_header m) (issued_claims m (sv_nanos sv) jti (u_id u1) (u_auth_version u1)
       (m_audiences m) ttl) (m_current m) = Some (it_token it)"
    by (elim issue_tokenE)
  have ne: "it_token it \<noteq> []"
    by (rule jwt_laws_nonempty [OF laws jwt_laws_sign [OF laws I(7) issued_whole_seconds]])
  let ?sv = "sv\<lparr>sv_nanos := t'\<rparr>"
  have "t' < numeric_date (sv_nanos sv + ttl) + m_clock_skew m"
    using unix_seconds_mono_lt [of t' "sv_nanos sv + ttl"] later(2,3) R(8,11) I(5) m(5) by simp
  from issue_token_verifies(1) [OF laws issue [unfolded I(1)] m(2,3) refl order_refl I(2) m(4,5), of
      "\<lparr>vo_audience = APIAudience, vo_required_scope = []\<rparr>" "uuid_parses e'" t', OF _ _ _ _ later(1) this]
  obtain c where v: "verify_access_token (sv_lib sv) (uuid_parses e') t' (Some m) (it_token it)
        \<lparr>vo_audience = APIAudience, vo_required_scope = []\<rparr> = Inr c"
    and c: "cl_user_id c = u_id u1" "cl_auth_version c = u_auth_version u1" "cl_id c = it_jti it"
    using m(6) uuid [OF I(1)] by (auto simp: APIAudience_def)
  have "find (\<lambda>r. t_hash r = Some (token_hash_hex (sv_sha sv) (it_token it))) (tokens d1) = None"
    using R(6) by (auto simp: find_None_iff)
  then have f: "find_token_row ?sv e' (it_token it) d' = Some row"
    by (simp add: find_token_row_def first_where_def ok R find_append found_def)
  have fu: "found u_id (first_where e' (Outside 13) (\<lambda>x. u_id x = u_id u1) (users d')) = Some u1"
    using find_key [OF U(5,1) refl] U(2) id by (simp add: first_where_def ok R(2) found_def)
  have "authenticate_access_token ?sv e' (it_token it) APIAudience [] d' = Inr (u1, row, Some c)"
    using ne I(6) m(7) v c f fu R sha later U user(2) I(4) hash_equal_self [of "sv_sha sv" "it_token it"]
    by (simp add: authenticate_access_token_def verify_claims_def m(1) check_user_enable_def)
  then show ?thesis using U(2) c(1) R(11) by auto
qed

section \<open>Witnesses\<close>

definition demo_svc :: svc where
  "demo_svc = \<lparr>sv_lib = demo_lib, sv_manager = Some demo_manager, sv_config = demo_config_root, sv_nanos = demo_t,
     sv_uuid = Inr ''jti'', sv_random = Inr (replicate 32 (CHR ''r'')),
     sv_sha = (\<lambda>s. take 32 (s @ replicate 32 (CHR ''x''))), sv_bind_env = peers_env\<rparr>"

definition session_env :: "int \<Rightarrow> env" where
  "session_env t = \<lparr>flt = no_faults, now = t, uuid_parses = (\<lambda>u. u = ''jti''), uuid_new = ''req''\<rparr>"

definition session_user :: user_row where
  "session_user = (demo_user 5 RoleUser)\<lparr>u_auth_version := 2\<rparr>"

definition session_log :: login_log_row where
  "session_log = \<lparr>l_id = 0, l_user_id = 5, l_client = ''webadmin'', l_device_id = '''', l_uuid = '''', l_ip = '''',
     l_type = ''account'', l_platform = '''', l_user_token_id = 0, l_is_deleted = 0\<rparr>"

definition session_db :: db where
  "session_db = empty_db\<lparr>users := [session_user]\<rparr>"

definition session_row :: token_row where
  "session_row = \<lparr>t_id = 1, t_user_id = 5, t_device_uuid = '''', t_device_id = '''', t_token = '''',
     t_jti = Some ''jti'', t_kid = ''k1'', t_hash = Some (token_hash_hex (sv_sha demo_svc) ''A''), t_auth_version = 2,
     t_issued_at = 1000, t_expired_at = 4600, t_revoked_at = None, t_revoked_reason = '''', t_client = ''webadmin''\<rparr>"

lemma demo_generate:
  "generate_token_for_client demo_svc (session_env 1000) (Some session_user) ''webadmin'' session_db =
     (Inr (session_user, demo_issued), session_db)"
proof -
  have ttl: "effective_login_ttl (session_env 1000) (Outside 22) (Some demo_config_root) ''webadmin'' session_db = 3600 * second"
    by code_simp
  have mx: "maximum_ttl (Some demo_manager) = 7 * 24 * 3600 * second" by (simp add: maximum_ttl_def demo_manager_def)
  show ?thesis
    using demo_issue_ttl
    by (simp add: generate_token_for_client_def found_def session_user_def demo_user_def initialize_auth_version_def
        demo_svc_def ttl mx second_def)
qed

lemma demo_login:
  "login demo_svc (session_env 1000) (Some session_user) (Some session_log) session_db =
     (Some (session_row\<lparr>t_token := ''A''\<rparr>),
      session_db\<lparr>tokens := [session_row], login_logs := [session_log\<lparr>l_id := 1, l_user_token_id := 1\<rparr>]\<rparr>)"
proof -
  have "persist_issued_token demo_svc (session_env 1000) (Some session_user) (Some session_log) demo_issued session_db =
     (Some (session_row\<lparr>t_token := ''A''\<rparr>),
      session_db\<lparr>tokens := [session_row], login_logs := [session_log\<lparr>l_id := 1, l_user_token_id := 1\<rparr>]\<rparr>)"
    by code_simp
  with demo_generate show ?thesis by (simp add: login_def session_log_def)
qed


lemma login_token_authenticates_witness:
  "\<exists>u' row c. authenticate_access_token (demo_svc\<lparr>sv_nanos := 2000 * second\<rparr>) (session_env 2000) ''A'' APIAudience []
     (session_db\<lparr>tokens := [session_row], login_logs := [session_log\<lparr>l_id := 1, l_user_token_id := 1\<rparr>]\<rparr>) =
       Inr (u', row, Some c) \<and> u_id u' = 5"
proof -
  have laws: "jwt_laws (sv_lib demo_svc) demo_signed" using demo_laws by (simp add: demo_svc_def)
  have user: "session_user \<in> set (users session_db)" "u_status session_user = COMMON_STATUS_ENABLE"
      "distinct (map u_id (users session_db))"
    by (simp_all add: session_db_def session_user_def demo_user_def)
  have m: "sv_manager demo_svc = Some demo_manager" "m_current_id demo_manager \<noteq> []"
      "map_of (m_public demo_manager) (m_current_id demo_manager) = Some (public_of (m_current demo_manager))"
      "m_maximum_ttl demo_manager mod second = 0" "0 \<le> m_clock_skew demo_manager"
      "APIAudience \<in> set (m_audiences demo_manager)"
      "m_max_token_size demo_manager \<le> effective_max_token_bytes (cf_auth (sv_config demo_svc))"
    by code_simp+
  have sha: "\<And>s. length (sv_sha demo_svc s) = 32" by (simp add: demo_svc_def min_def)
  have uuid: "\<And>j. sv_uuid demo_svc = Inr j \<Longrightarrow> uuid_parses (session_env 2000) j"
    by (simp add: demo_svc_def session_env_def)
  have later: "sv_nanos demo_svc \<le> 2000 * second" "now (session_env 2000) = unix_seconds (2000 * second)"
      "now (session_env 2000) < t_expired_at (session_row\<lparr>t_token := ''A''\<rparr>)"
    by code_simp+
  have ok: "\<not> flt (session_env 2000) (Outside 11)" "\<not> flt (session_env 2000) (Outside 13)"
    by (simp_all add: session_env_def)
  have id: "u_id session_user = 5" by (simp add: session_user_def demo_user_def)
  from login_token_authenticates [OF laws demo_login user m sha uuid later ok] show ?thesis
    unfolding id by auto
qed

text \<open>The same session, one second later, as the service sees it.\<close>

definition session_live_db :: db where
  "session_live_db = session_db\<lparr>tokens := [session_row, demo_token_row 2 5]\<rparr>"

lemma demo_authenticate:
  "authenticate_access_token (demo_svc\<lparr>sv_nanos := 2000 * second\<rparr>) (session_env 2000) ''A'' APIAudience [] session_live_db =
     Inr (session_user, session_row, Some (demo_claims [APIAudience, ConnectionAudience]))"
proof -
  have v: "verify_claims (demo_svc\<lparr>sv_nanos := 2000 * second\<rparr>) (session_env 2000) ''A'' APIAudience [] =
      Inr (Some (demo_claims [APIAudience, ConnectionAudience]), False)"
    using demo_verify by (simp add: verify_claims_def demo_svc_def session_env_def)
  have f: "find_token_row (demo_svc\<lparr>sv_nanos := 2000 * second\<rparr>) (session_env 2000) ''A'' session_live_db = Some session_row"
    by (simp add: find_token_row_def first_where_def session_env_def session_live_db_def session_row_def
        demo_svc_def found_def)
  have h: "constant_time_hash_equal (sv_sha demo_svc) ''A'' (token_hash_hex (sv_sha demo_svc) ''A'')"
    by (rule hash_equal_self) (simp add: demo_svc_def)
  show ?thesis
    using v f h by (simp add: authenticate_access_token_def demo_svc_def demo_config_root_def demo_config_def
        effective_max_token_bytes_def MaxAccessTokenBytes_def session_row_def session_env_def demo_claims_def
        issued_claims_def session_live_db_def session_db_def first_where_def session_user_def demo_user_def found_def
        check_user_enable_def)
qed

lemma authentication_sound_witness: "live_session 2000 session_live_db session_row session_user"
  using authentication_sound [OF demo_authenticate] by (simp add: session_env_def)

lemma logout_ends_exactly_one_session_witness:
  "authenticate_access_token (demo_svc\<lparr>sv_nanos := 3000 * second\<rparr>) (session_env 3000) ''A'' APIAudience []
     (snd (logout (demo_svc\<lparr>sv_nanos := 2000 * second\<rparr>) (session_env 2500) (Some session_user) ''A'' session_live_db))
       \<notin> range Inr"
proof -
  let ?sv = "demo_svc\<lparr>sv_nanos := 2000 * second\<rparr>"
  have "fst (logout ?sv (session_env 2500) (Some session_user) ''A'' session_live_db) = Inr ()"
    by (simp add: logout_def found_def session_user_def demo_user_def session_env_def demo_svc_def demo_config_root_def
        demo_config_def Let_def)
  then obtain d' where l: "logout ?sv (session_env 2500) (Some session_user) ''A'' session_live_db = (Inr (), d')"
    by (cases "logout ?sv (session_env 2500) (Some session_user) ''A'' session_live_db") simp
  have legacy: "\<not> legacy_read ?sv" by (simp add: demo_svc_def demo_config_root_def demo_config_def)
  have "length (token_hash_hex (sv_sha demo_svc) ''A'') = 64" by (simp add: token_hash_hex_def demo_svc_def)
  moreover have "length (decimal 2) = 1" by code_simp
  ultimately have "token_hash_hex (sv_sha demo_svc) ''A'' \<noteq> decimal 2" by fastforce
  then have inj: "inj_on t_hash {r \<in> set (tokens session_live_db). t_hash r \<noteq> None}"
    by (auto simp: inj_on_def session_live_db_def session_row_def demo_token_row_def)
  show ?thesis
  proof
    assume "authenticate_access_token (demo_svc\<lparr>sv_nanos := 3000 * second\<rparr>) (session_env 3000) ''A'' APIAudience []
      (snd (logout ?sv (session_env 2500) (Some session_user) ''A'' session_live_db)) \<in> range Inr"
    then obtain x where x: "authenticate_access_token (demo_svc\<lparr>sv_nanos := 3000 * second\<rparr>) (session_env 3000) ''A''
      APIAudience [] d' = Inr x" by (auto simp: l)
    have "authenticate_access_token (demo_svc\<lparr>sv_nanos := 3000 * second\<rparr>) (session_env 3000) ''A'' APIAudience [] d'
      \<noteq> Inr x"
      by (rule logout_ends_exactly_one_session [OF demo_authenticate l refl legacy inj, THEN conjunct1, rule_format])
        (use legacy in simp_all)
    then show False using x by simp
  qed
qed

end
