(* ===== verification/Users.thy ===== *)
theory Users
  imports Sessions Oauth
begin

text \<open>
  Accounts (\<open>src/service/user.go\<close>: creation, registration, removal, update, password, profile and
  preferences; \<open>src/utils/password.go\<close>).  bcrypt, MD5, the case table of \<open>unicode\<close> beyond ASCII and the LDAP
  directory (\<open>Directory\<close>) are arguments, collected in \<open>acct\<close>.  The user struct an operation is given is a \<open>user_row\<close>;
  what the operation leaves in it is part of its result.
\<close>

section \<open>What accounts take from other packages\<close>

datatype bcrypt_result = BcryptOk | BcryptMismatch | BcryptPrefix | BcryptTooShort | BcryptOther err

record acct =
  ac_bcrypt :: "string \<Rightarrow> err + string"
  ac_compare :: "string \<Rightarrow> string \<Rightarrow> bcrypt_result"
  ac_md5 :: "string \<Rightarrow> string"
  ac_lower :: "string \<Rightarrow> string"
  ac_sha :: "string \<Rightarrow> string"
  ac_ldap :: ldap_config
  ac_directory :: directory
  ac_has_scopes :: bool

definition format_username :: "acct \<Rightarrow> string \<Rightarrow> string" where
  "format_username ac username = go_to_lower (ac_lower ac) (filter (\<lambda>c. c \<noteq> CHR 0x20) username)"

section \<open>Passwords (utils/password.go)\<close>

definition encrypt_password :: "acct \<Rightarrow> string \<Rightarrow> err + string" where
  "encrypt_password ac password = ebind (ac_bcrypt ac password) (\<lambda>bs. Inr bs)"

definition verify_password :: "acct \<Rightarrow> string \<Rightarrow> string \<Rightarrow> bool \<times> string \<times> err option" where
  "verify_password ac hash input =
     (case ac_compare ac hash input of
        BcryptOk \<Rightarrow> (True, [], None)
      | r \<Rightarrow>
          if (r = BcryptPrefix \<or> r = BcryptTooShort) \<and> hash = ac_md5 ac (input @ ''rustdesk-api'')
          then (case ac_bcrypt ac input of
                  Inl er \<Rightarrow> (True, [], Some er)
                | Inr new_hash \<Rightarrow> (True, new_hash, None))
          else (case r of
                  BcryptMismatch \<Rightarrow> (False, [], None)
                | BcryptOther er \<Rightarrow> (False, [], Some er)
                | BcryptPrefix \<Rightarrow> (False, [], Some (ErrNew ''invalid hash prefix''))
                | _ \<Rightarrow> (False, [], Some (ErrNew ''hash too short''))))"

section \<open>Lookups\<close>

definition info_by_username :: "env \<Rightarrow> point \<Rightarrow> string \<Rightarrow> db \<Rightarrow> user_row option" where
  "info_by_username e p un d = found u_id (first_where e p (\<lambda>u. u_username u = un) (users d))"

definition info_by_email :: "env \<Rightarrow> point \<Rightarrow> string \<Rightarrow> db \<Rightarrow> user_row option" where
  "info_by_email e p email d = found u_id (first_where e p (\<lambda>u. u_email u = email) (users d))"

definition is_username_exists_local :: "env \<Rightarrow> point \<Rightarrow> string \<Rightarrow> db \<Rightarrow> bool" where
  "is_username_exists_local e p username d \<longleftrightarrow> info_by_username e p username d \<noteq> None"

definition is_username_exists :: "acct \<Rightarrow> env \<Rightarrow> point \<Rightarrow> string \<Rightarrow> db \<Rightarrow> bool" where
  "is_username_exists ac e p username d \<longleftrightarrow> is_username_exists_local e p username d \<or> ldap_is_username_exists (ac_ldap ac) (ac_directory ac) username"

definition is_password_empty_by_id :: "env \<Rightarrow> point \<Rightarrow> nat \<Rightarrow> db \<Rightarrow> bool" where
  "is_password_empty_by_id e p uid d \<longleftrightarrow>
     (case first_where e p (\<lambda>u. u_id u = uid) (users d) of None \<Rightarrow> False | Some u \<Rightarrow> u_password u = [])"

definition is_password_empty_by_username :: "env \<Rightarrow> point \<Rightarrow> string \<Rightarrow> db \<Rightarrow> bool" where
  "is_password_empty_by_username e p username d \<longleftrightarrow>
     (case first_where e p (\<lambda>u. u_username u = username) (users d) of None \<Rightarrow> False | Some u \<Rightarrow> u_password u = [])"

section \<open>Creation\<close>

text \<open>
  INSERT of a user struct: the hook normalises the role, the column defaults fill a status and an auth
  version that are zero, the database chooses the id; the username has a unique index.
\<close>

definition new_user_row :: "user_row list \<Rightarrow> user_row \<Rightarrow> user_row" where
  "new_user_row t u =
     (let u1 = before_save u in
      u1\<lparr>u_id := (if u_id u1 = 0 then next_id u_id t else u_id u1),
         u_status := (if u_status u1 = 0 then COMMON_STATUS_ENABLE else u_status u1),
         u_auth_version := (if u_auth_version u1 = 0 then 1 else u_auth_version u1)\<rparr>)"

definition insert_user :: "user_row \<Rightarrow> db \<Rightarrow> err + user_row \<times> db" where
  "insert_user u d =
     (let r = new_user_row (users d) u in
      if u_username r \<in> u_username ` set (users d) \<or> u_id r \<in> u_id ` set (users d) then Inl UniqueViolation
      else Inr (r, d\<lparr>users := users d @ [r]\<rparr>))"

definition create_user :: "acct \<Rightarrow> env \<Rightarrow> user_row \<Rightarrow> db \<Rightarrow> (err + user_row) \<times> db" where
  "create_user ac e u d =
     (if is_username_exists ac e (Outside 73) (u_username u) d then (Inl (ErrNew ''UsernameExists''), d)
      else let u1 = normalize_role u;
               u2 = u1\<lparr>u_username := format_username ac (u_username u1)\<rparr>
      in case encrypt_password ac (u_password u2) of
           Inl er \<Rightarrow> (Inl er, d)
         | Inr hash \<Rightarrow>
             if flt e (Outside 74) then (Inl (DbErr (Outside 74)), d)
             else case insert_user (u2\<lparr>u_password := hash\<rparr>) d of
                 Inl er \<Rightarrow> (Inl er, d)
               | Inr (r, d1) \<Rightarrow> (Inr r, d1))"

definition create_user_context ::
    "acct \<Rightarrow> env \<Rightarrow> nat \<Rightarrow> string \<Rightarrow> user_row option \<Rightarrow> db \<Rightarrow> (err + user_row) \<times> db" where
  "create_user_context ac e actor request_id ou d =
     (case ou of
        None \<Rightarrow> (Inl (ErrNew ''cannot create empty user''), d)
      | Some u \<Rightarrow>
          audited e actor request_id ''auth.user.created'' ''user'' (format_username ac (u_username u))
            [(''group_id'', MNum (int (u_group_id u))), (''role'', MRole (effective_role ou)),
             (''status'', MNum (u_status u))]
            ''AUTH_USER_CREATE_FAILED'' (\<lambda>_. create_user ac e u) d)"

definition empty_user :: user_row where
  "empty_user = \<lparr>u_id = 0, u_username = [], u_email = [], u_password = [], u_nickname = [], u_avatar = [],
     u_language = [], u_theme = [], u_group_id = 0, u_role = RoleZero, u_is_admin = None, u_status = 0,
     u_auth_version = 0, u_remark = []\<rparr>"

definition register :: "acct \<Rightarrow> env \<Rightarrow> string \<Rightarrow> string \<Rightarrow> string \<Rightarrow> int \<Rightarrow> db \<Rightarrow> user_row option \<times> db" where
  "register ac e username email password status d =
     (if length username < 2 \<or> length username > 32 \<or> length email > 254
         \<or> length password < 12 \<or> length password > 128
      then (None, d)
      else case create_user ac e (empty_user\<lparr>u_username := username, u_email := email, u_password := password,
                  u_group_id := 1, u_status := status\<rparr>) d of
             (Inl _, d1) \<Rightarrow> (None, d1)
           | (Inr u, d1) \<Rightarrow> (Some u, d1))"

section \<open>Update\<close>

text \<open>The fields a struct update writes: those that are not zero.\<close>

definition patch_user :: "user_row \<Rightarrow> user_row \<Rightarrow> user_row" where
  "patch_user n r = r\<lparr>
     u_username := patch [] (u_username n) (u_username r),
     u_email := patch [] (u_email n) (u_email r),
     u_password := patch [] (u_password n) (u_password r),
     u_nickname := patch [] (u_nickname n) (u_nickname r),
     u_avatar := patch [] (u_avatar n) (u_avatar r),
     u_language := patch [] (u_language n) (u_language r),
     u_theme := patch [] (u_theme n) (u_theme r),
     u_group_id := patch 0 (u_group_id n) (u_group_id r),
     u_role := patch RoleZero (u_role n) (u_role r),
     u_is_admin := patch None (u_is_admin n) (u_is_admin r),
     u_status := patch 0 (u_status n) (u_status r),
     u_auth_version := patch 0 (u_auth_version n) (u_auth_version r),
     u_remark := patch [] (u_remark n) (u_remark r)\<rparr>"

text \<open>The role an update asks for: the role field, or a legacy is_admin flag that disagrees with it.\<close>

definition requested_role :: "user_role \<Rightarrow> user_row \<Rightarrow> user_role" where
  "requested_role current u =
     (let wanted = (if role_valid (u_role u) then u_role u else current)
      in case u_is_admin u of
           None \<Rightarrow> wanted
         | Some flag \<Rightarrow>
             if flag \<noteq> (wanted = RoleAdmin \<or> wanted = RoleSuperAdmin)
             then (if flag then RoleSuperAdmin else RoleUser)
             else wanted)"

record update_plan =
  up_from_role :: user_role
  up_to_role :: user_role
  up_user :: user_row
  up_role_changed :: bool
  up_will_disable :: bool
  up_action :: string
  up_failure_code :: string

definition plan_update :: "user_row \<Rightarrow> user_row \<Rightarrow> update_plan" where
  "plan_update cur u =
     (let current_role = effective_role (Some cur);
          requested = requested_role current_role u;
          role_changed = (current_role \<noteq> requested);
          status_changed = (u_status cur \<noteq> u_status u);
          will_disable = (u_status cur = COMMON_STATUS_ENABLE \<and> u_status u = COMMON_STATUS_DISABLED);
          (action, code) = (if will_disable \<and> \<not> role_changed then (''auth.user.disabled'', ''AUTH_USER_DISABLE_FAILED'')
            else if role_changed then (''auth.user.role_changed'', ''AUTH_USER_ROLE_CHANGE_FAILED'')
            else if status_changed then (''auth.user.status_changed'', ''AUTH_USER_STATUS_CHANGE_FAILED'')
            else (''auth.user.updated'', ''AUTH_USER_UPDATE_FAILED''))
      in \<lparr>up_from_role = current_role, up_to_role = requested,
          up_user = normalize_role (u\<lparr>u_role := requested\<rparr>),
          up_role_changed = role_changed, up_will_disable = will_disable,
          up_action = action, up_failure_code = code\<rparr>)"

definition removes_enabled_super_admin :: "user_row \<Rightarrow> update_plan \<Rightarrow> bool" where
  "removes_enabled_super_admin cur pl \<longleftrightarrow>
     up_from_role pl = RoleSuperAdmin \<and> u_status cur = COMMON_STATUS_ENABLE \<and>
     (up_to_role pl \<noteq> RoleSuperAdmin \<or> u_status (up_user pl) = COMMON_STATUS_DISABLED)"

definition update_user_row :: "user_row \<Rightarrow> db \<Rightarrow> err + db" where
  "update_user_row n d =
     (if u_username n \<noteq> [] \<and> list_ex (\<lambda>r. u_id r \<noteq> u_id n \<and> u_username r = u_username n) (users d)
        \<and> list_ex (\<lambda>r. u_id r = u_id n) (users d)
      then Inl UniqueViolation
      else Inr (d\<lparr>users := update_where (\<lambda>r. u_id r = u_id n) (patch_user n) (users d)\<rparr>))"

definition update_guard :: "env \<Rightarrow> user_row \<Rightarrow> update_plan \<Rightarrow> db \<Rightarrow> err + unit" where
  "update_guard e cur pl d =
     (if removes_enabled_super_admin cur pl
      then ebind (get_admin_user_count_tx e (Stmt 4) d) (\<lambda>n.
           check (n > 1) (ErrNew ''The last enabled super administrator cannot be disabled or demoted'') (Inr ()))
      else Inr ())"

definition update_scopes :: "acct \<Rightarrow> env \<Rightarrow> update_plan \<Rightarrow> nat \<Rightarrow> db \<Rightarrow> err + db" where
  "update_scopes ac e pl uid d =
     (if up_role_changed pl
      then ebind (remove_administrator_scopes e (Stmt 6) (ac_has_scopes ac) uid d) (\<lambda>d1.
           remove_resource_scopes e (Stmt 7) (ac_has_scopes ac) ScopeUser [uid] d1)
      else Inr d)"

definition update_sessions :: "env \<Rightarrow> update_plan \<Rightarrow> nat \<Rightarrow> db \<Rightarrow> err + db" where
  "update_sessions e pl uid d =
     (if up_will_disable pl \<or> up_role_changed pl
      then bump_auth_version_and_revoke e (Stmt 8) (Stmt 9) uid
             (if up_role_changed pl then ''authorization_changed'' else ''user_disabled'') d
      else Inr d)"

definition update_user_body :: "acct \<Rightarrow> env \<Rightarrow> user_row \<Rightarrow> audit_row \<Rightarrow> db \<Rightarrow> err + unit \<times> db" where
  "update_user_body ac e u event d =
     ebind (acquire_enabled_admin_invariant e (Stmt 1) d) (\<lambda>d1.
     stmt (flt e) (Stmt 2) (case find_user (u_id u) d1 of
       None \<Rightarrow> Inl RecordNotFound
     | Some cur \<Rightarrow>
         let pl = plan_update cur u; uid = u_id u in
         ebind (rewrite_security_audit_intent e (Stmt 3) event (up_action pl)
             [(''from_role'', MRole (up_from_role pl)), (''to_role'', MRole (up_to_role pl)),
              (''from_status'', MNum (u_status cur)), (''to_status'', MNum (u_status u))] d1) (\<lambda>(_, d2).
         ebind (update_guard e cur pl d2) (\<lambda>_.
         stmt (flt e) (Stmt 5) (ebind (update_user_row (up_user pl) d2) (\<lambda>d3.
         ebind (update_scopes ac e pl uid d3) (\<lambda>d4.
         ebind (update_sessions e pl uid d4) (\<lambda>d5. Inr ((), d5)))))))))"

text \<open>The failure code in the audit trail is that of the plan once the current row has been read.\<close>

definition update_failure_code :: "env \<Rightarrow> user_row \<Rightarrow> db \<Rightarrow> string" where
  "update_failure_code e u d =
     (case (flt e Begin, acquire_enabled_admin_invariant e (Stmt 1) d, flt e (Stmt 2), find_user (u_id u) d) of
        (False, Inr _, False, Some cur) \<Rightarrow> up_failure_code (plan_update cur u)
      | _ \<Rightarrow> ''AUTH_USER_UPDATE_FAILED'')"

definition update_user :: "acct \<Rightarrow> env \<Rightarrow> nat \<Rightarrow> string \<Rightarrow> user_row option \<Rightarrow> db \<Rightarrow> (err + unit) \<times> db" where
  "update_user ac e actor request_id ou d =
     (case found u_id ou of
        None \<Rightarrow> (Inl (ErrNew ''cannot update empty user''), d)
      | Some u \<Rightarrow>
          if u_status u \<noteq> COMMON_STATUS_ENABLE \<and> u_status u \<noteq> COMMON_STATUS_DISABLED
          then (Inl (ErrNew ''invalid user status''), d)
          else audited e actor request_id ''auth.user.update_requested'' ''user'' (decimal (u_id u))
                 [(''requested_role'', MRole (u_role u)), (''requested_status'', MNum (u_status u))]
                 (update_failure_code e u d)
                 (\<lambda>event. transaction (flt e) (update_user_body ac e u event)) d)"

section \<open>Removal\<close>

definition ShareAddressBookRuleTypePersonal :: int where "ShareAddressBookRuleTypePersonal = 1"

definition delete_user_body :: "acct \<Rightarrow> env \<Rightarrow> nat \<Rightarrow> db \<Rightarrow> err + nat \<times> db" where
  "delete_user_body ac e uid d =
     ebind (acquire_enabled_admin_invariant e (Stmt 11) d) (\<lambda>d1.
     stmt (flt e) (Stmt 12) (case find_user uid d1 of
       None \<Rightarrow> Inl RecordNotFound
     | Some cur \<Rightarrow>
         ebind (get_admin_user_count_tx e (Stmt 13) d1) (\<lambda>n.
         check (\<not> (n \<le> 1 \<and> is_super_admin (Some cur) \<and> u_status cur = COMMON_STATUS_ENABLE))
           (ErrNew ''The last enabled super administrator cannot be deleted'') (
         ebind (revoke_user_tokens e (Stmt 14) (u_id cur) ''user_deleted'' d1) (\<lambda>d2.
         stmt (flt e) (Stmt 15) (
         let d3 = d2\<lparr>challenges := delete_where (\<lambda>r. ch_user_id r = u_id cur) (challenges d2)\<rparr> in
         stmt (flt e) (Stmt 16) (
         let d4 = d3\<lparr>two_factors := delete_where (\<lambda>r. tf_user_id r = u_id cur) (two_factors d3)\<rparr> in
         stmt (flt e) (Stmt 17) (
         let d5 = d4\<lparr>users := delete_where (\<lambda>r. u_id r = u_id cur) (users d4)\<rparr> in
         stmt (flt e) (Stmt 18) (
         let d6 = d5\<lparr>thirds := delete_where (\<lambda>r. th_user_id r = u_id cur) (thirds d5)\<rparr> in
         stmt (flt e) (Stmt 19) (
         let d7 = d6\<lparr>ldap_ids := delete_where (\<lambda>r. ld_user_id r = u_id cur) (ldap_ids d6)\<rparr> in
         stmt (flt e) (Stmt 20) (
         let d8 = d7\<lparr>abooks := delete_where (\<lambda>r. ab_user_id r = u_id cur) (abooks d7)\<rparr> in
         stmt (flt e) (Stmt 21) (
         let d9 = d8\<lparr>tags := delete_where (\<lambda>r. tg_user_id r = u_id cur) (tags d8)\<rparr> in
         stmt (flt e) (Stmt 22) (
         let owned = map c_id (filter (\<lambda>r. c_user_id r = u_id cur) (collections d9)) in
         stmt (flt e) (Stmt 23) (
         let d10 = d9\<lparr>collections := delete_where (\<lambda>r. c_user_id r = u_id cur) (collections d9)\<rparr> in
         stmt (flt e) (Stmt 24) (
         let d11 = d10\<lparr>rules := delete_where (\<lambda>r. r_user_id r = u_id cur \<or>
                (r_type r = ShareAddressBookRuleTypePersonal \<and> r_to_id r = u_id cur)) (rules d10)\<rparr> in
         ebind (remove_resource_scopes e (Stmt 25) (ac_has_scopes ac) ScopeCollection owned d11) (\<lambda>d12.
         ebind (remove_administrator_scopes e (Stmt 26) (ac_has_scopes ac) (u_id cur) d12) (\<lambda>d13.
         ebind (remove_resource_scopes e (Stmt 27) (ac_has_scopes ac) ScopeUser [u_id cur] d13) (\<lambda>d14.
         Inr (u_id cur, d14)))))))))))))))))))"

definition delete_user :: "acct \<Rightarrow> env \<Rightarrow> nat \<Rightarrow> string \<Rightarrow> user_row option \<Rightarrow> db \<Rightarrow> (err + unit) \<times> db" where
  "delete_user ac e actor request_id ou d =
     (case found u_id ou of
        None \<Rightarrow> (Inl (ErrNew ''cannot delete empty user''), d)
      | Some u \<Rightarrow>
          audited e actor request_id ''auth.user.deleted'' ''user'' (decimal (u_id u))
            [(''revocation_reason'', MStr ''user_deleted'')] ''AUTH_USER_DELETE_FAILED''
            (\<lambda>_ d1. case transaction (flt e) (delete_user_body ac e (u_id u)) d1 of
                (Inl er, d2) \<Rightarrow> (Inl er, d2)
              | (Inr uid, d2) \<Rightarrow> (Inr (), snd (erase_user_id e (Outside 75) uid d2))) d)"

section \<open>Password, profile and preferences\<close>

definition update_password ::
    "acct \<Rightarrow> env \<Rightarrow> nat \<Rightarrow> string \<Rightarrow> user_row option \<Rightarrow> string \<Rightarrow> db \<Rightarrow> (err + user_row) \<times> db" where
  "update_password ac e actor request_id ou password d =
     (case found u_id ou of
        None \<Rightarrow> (Inl (ErrNew ''cannot update password for empty user''), d)
      | Some u \<Rightarrow>
          if length password < 12 \<or> length password > 128
          then (Inl (ErrNew ''password must contain 12 to 128 bytes''), d)
          else audited e actor request_id ''auth.password.changed'' ''user'' (decimal (u_id u))
                 [(''revocation_reason'', MStr ''password_changed'')] ''AUTH_PASSWORD_CHANGE_FAILED''
                 (\<lambda>_ d1. case encrypt_password ac password of
                     Inl er \<Rightarrow> (Inl er, d1)
                   | Inr hash \<Rightarrow>
                       transaction (flt e) (\<lambda>d2.
                         stmt (flt e) (Stmt 31) (
                         let d3 = d2\<lparr>users := update_where (\<lambda>r. u_id r = u_id u) (\<lambda>r. r\<lparr>u_password := hash\<rparr>) (users d2)\<rparr>
                         in ebind (bump_auth_version_and_revoke e (Stmt 32) (Stmt 33) (u_id u) ''password_changed'' d3) (\<lambda>d4.
                            Inr ((before_save u)\<lparr>u_password := hash, u_auth_version := u_auth_version u + 1\<rparr>, d4)))) d1) d)"

definition update_own :: "env \<Rightarrow> (user_row \<Rightarrow> user_row) \<Rightarrow> user_row \<Rightarrow> db \<Rightarrow> (err + user_row) \<times> db" where
  "update_own e f u d =
     (if flt e (Outside 76) then (Inl (DbErr (Outside 76)), d)
      else (Inr (f u), d\<lparr>users := update_where (\<lambda>r. u_id r = u_id u) f (users d)\<rparr>))"

definition update_avatar :: "env \<Rightarrow> user_row option \<Rightarrow> string \<Rightarrow> string \<Rightarrow> db \<Rightarrow> (err + user_row) \<times> db" where
  "update_avatar e ou request_id avatar d =
     (case found u_id ou of
        None \<Rightarrow> (Inl (ErrNew ''invalid avatar path''), d)
      | Some u \<Rightarrow>
          if \<not> has_prefix avatar ''/media/avatars/'' \<or> contains_str avatar ''..'' \<or> length avatar > 512
          then (Inl (ErrNew ''invalid avatar path''), d)
          else audited e (u_id u) request_id ''auth.avatar.updated'' ''user'' (decimal (u_id u)) []
                 ''AUTH_AVATAR_UPDATE_FAILED'' (\<lambda>_. update_own e (\<lambda>r. r\<lparr>u_avatar := avatar\<rparr>) u) d)"

definition update_current_profile ::
    "env \<Rightarrow> user_row option \<Rightarrow> string \<Rightarrow> string \<Rightarrow> string \<Rightarrow> db \<Rightarrow> (err + user_row) \<times> db" where
  "update_current_profile e ou request_id nickname email d =
     (case found u_id ou of
        None \<Rightarrow> (Inl (ErrNew ''invalid profile''), d)
      | Some u \<Rightarrow>
          if length nickname > 64 \<or> length email > 254 \<or> CHR 0x00 \<in> set nickname \<or> CHR 0x00 \<in> set email
          then (Inl (ErrNew ''invalid profile''), d)
          else audited e (u_id u) request_id ''auth.profile.updated'' ''user'' (decimal (u_id u)) []
                 ''AUTH_PROFILE_UPDATE_FAILED'' (\<lambda>_. update_own e (\<lambda>r. r\<lparr>u_nickname := nickname, u_email := email\<rparr>) u) d)"

definition valid_preference_language :: "string \<Rightarrow> bool" where
  "valid_preference_language v \<longleftrightarrow>
     v \<in> set [''zh-CN'', ''zh-TW'', ''en'', ''ja'', ''ko'', ''fr'', ''es'', ''ru'']"

definition valid_preference_theme :: "string \<Rightarrow> bool" where
  "valid_preference_theme v \<longleftrightarrow> v = ''light'' \<or> v = ''dark''"

definition update_preferences :: "env \<Rightarrow> user_row option \<Rightarrow> string \<Rightarrow> string \<Rightarrow> db \<Rightarrow> (err + user_row) \<times> db" where
  "update_preferences e ou language theme d =
     (case found u_id ou of
        None \<Rightarrow> (Inl (ErrNew ''invalid preferences''), d)
      | Some u \<Rightarrow>
          if (language = [] \<and> theme = []) \<or> (language \<noteq> [] \<and> \<not> valid_preference_language language)
             \<or> (theme \<noteq> [] \<and> \<not> valid_preference_theme theme)
          then (Inl (ErrNew ''invalid preferences''), d)
          else update_own e (\<lambda>r. r\<lparr>u_language := patch [] language (u_language r),
                                    u_theme := patch [] theme (u_theme r)\<rparr>) u d)"

section \<open>Routes of the console\<close>

definition UserRouteNames :: "string list" where
  "UserRouteNames = [''MyTagList'', ''MyAddressBookList'', ''MyInfo'', ''MyAddressBookCollection'', ''MyPeer'',
     ''MyLoginLog'', ''AboutService'']"

definition ScopedAdminRouteNames :: "string list" where
  "ScopedAdminRouteNames = [''Peer'', ''UserGroup'', ''UserList'', ''UserAdd'', ''UserEdit'', ''UserAddressBookName'',
     ''UserAddressBook'', ''UserTag'']"

definition AdminRouteNames :: "string list" where "AdminRouteNames = [''*'']"

definition route_names :: "user_row option \<Rightarrow> string list" where
  "route_names u =
     (if is_super_admin u then AdminRouteNames
      else if effective_role u = RoleAdmin then UserRouteNames @ ScopedAdminRouteNames
      else UserRouteNames)"

end
