(* ===== verification/SignIn.thy ===== *)
theory SignIn
  imports Users
begin

text \<open>
  Signing in by password, through LDAP and through OAuth (\<open>src/service/user.go\<close>: InfoByUsernamePassword,
  InfoByOauthId, RegisterByOauth, GenerateUsernameByOauth; \<open>src/service/ldap.go\<close>: mapToLocalUser, Authenticate,
  ldapIdentityFingerprints).  A result \<open>None\<close> in place of a user is the empty struct the code returns when a
  lookup finds nothing.  \<open>ac_sha\<close> is the hexadecimal SHA-256.
\<close>

section \<open>Directory users as local accounts\<close>

definition ldap_to_user :: "ldap_user \<Rightarrow> user_row \<Rightarrow> user_row" where
  "ldap_to_user lu u = u\<lparr>u_username := du_username lu, u_email := du_email lu, u_nickname := ldap_user_name lu,
     u_status := (if du_enabled lu then COMMON_STATUS_ENABLE else COMMON_STATUS_DISABLED)\<rparr>"

definition ls_base_dn :: "ldap_config \<Rightarrow> string" where
  "ls_base_dn cfg = (if lu_base_dn (lf_user cfg) \<noteq> [] then lu_base_dn (lf_user cfg) else lf_base_dn cfg)"

definition ldap_identity_fingerprints :: "acct \<Rightarrow> string \<Rightarrow> err + string \<times> string" where
  "ldap_identity_fingerprints ac subject_dn =
     (let cfg = ac_ldap ac; dy = ac_directory ac; low = go_to_lower (ac_lower ac) in
      case dy_parse_url dy (lf_url cfg) of
        Inl er \<Rightarrow> Inl (ErrJoin (ErrNew ''UrlParseFailed'') er)
      | Inr u \<Rightarrow>
          (case dy_parse_dn dy subject_dn of
             Inl er \<Rightarrow> Inl (ErrJoin (ErrNew ''LdapToLocalUserFailed'') er)
           | Inr dn \<Rightarrow>
               Inr (ac_sha ac (low (pu_scheme u @ ''://'' @ pu_host u) @ [CHR 0x00] @ low (trim_space (ls_base_dn cfg))),
                    ac_sha ac (low dn))))"

definition insert_ldap_identity :: "ldap_row \<Rightarrow> db \<Rightarrow> err + db" where
  "insert_ldap_identity r d =
     (if list_ex (\<lambda>x. ld_provider x = ld_provider r \<and> (ld_subject x = ld_subject r \<or> ld_user_id x = ld_user_id r)) (ldap_ids d)
      then Inl UniqueViolation
      else Inr (d\<lparr>ldap_ids := ldap_ids d @ [r\<lparr>ld_id := next_id ld_id (ldap_ids d)\<rparr>]\<rparr>))"

definition ldap_role :: "bool \<Rightarrow> user_role" where
  "ldap_role is_admin = (if is_admin then RoleSuperAdmin else RoleUser)"

definition create_ldap_user_body :: "env \<Rightarrow> user_row \<Rightarrow> string \<Rightarrow> string \<Rightarrow> db \<Rightarrow> err + nat \<times> db" where
  "create_ldap_user_body e u provider subject d =
     stmt (flt e) (Stmt 81) (ebind (insert_user u d) (\<lambda>(r, d1).
     stmt (flt e) (Stmt 82) (ebind (insert_ldap_identity
        \<lparr>ld_id = 0, ld_user_id = u_id r, ld_provider = provider, ld_subject = subject\<rparr> d1) (\<lambda>d2.
     Inr (u_id r, d2)))))"

definition map_to_local_user :: "acct \<Rightarrow> env \<Rightarrow> ldap_user \<Rightarrow> db \<Rightarrow> (err + user_row option) \<times> db" where
  "map_to_local_user ac e lu d =
     (case ldap_identity_fingerprints ac (du_dn lu) of
        Inl er \<Rightarrow> (Inl er, d)
      | Inr (provider, subject) \<Rightarrow>
          (let identity = found ld_id (first_where e (Outside 81)
                 (\<lambda>r. ld_provider r = provider \<and> ld_subject r = subject) (ldap_ids d));
               is_admin = is_user_admin (ac_ldap ac) (ac_directory ac) lu
           in case identity of
             None \<Rightarrow>
               if info_by_username e (Outside 82) (du_username lu) d \<noteq> None
               then (Inl (ErrNew ''LdapIdentityCollision''), d)
               else (let u = (ldap_to_user lu empty_user)\<lparr>u_is_admin := Some is_admin, u_role := ldap_role is_admin,
                                u_group_id := 1\<rparr>
                     in case transaction (flt e) (create_ldap_user_body e u provider subject) d of
                          (Inl er, d1) \<Rightarrow> (Inl (ErrJoin (ErrNew ''LdapCreateUserFailed'') er), d1)
                        | (Inr uid, d1) \<Rightarrow> (Inr (found u_id (info_by_id e (Outside 83) uid d1)), d1))
           | Some idn \<Rightarrow>
               (case found u_id (info_by_id e (Outside 84) (ld_user_id idn) d) of
                  None \<Rightarrow> (Inl (ErrNew ''LdapIdentityCollision''), d)
                | Some u \<Rightarrow>
                    if \<not> lu_sync (lf_user (ac_ldap ac)) then (Inr (Some u), d)
                    else (let n = (ldap_to_user lu u)\<lparr>u_is_admin := Some is_admin, u_role := ldap_role is_admin\<rparr>
                          in case update_user ac e 0 [] (Some n) d of
                               (Inr _, d1) \<Rightarrow> (Inr (Some (up_user (plan_update u n))), d1)
                             | (Inl _, d1) \<Rightarrow>
                                 (Inr (Some (u\<lparr>u_username := du_username lu\<rparr>)), d1)))))"

definition ldap_authenticate :: "acct \<Rightarrow> env \<Rightarrow> string \<Rightarrow> string \<Rightarrow> db \<Rightarrow> (err + user_row option) \<times> db" where
  "ldap_authenticate ac e username password d =
     (let cfg = ac_ldap ac; dy = ac_directory ac in
      case get_user_info_by_username_ldap cfg dy username of
        Inl er \<Rightarrow> (Inl er, d)
      | Inr lu \<Rightarrow>
          if \<not> du_enabled lu then (Inl (ErrNew ''UserDisabledAtLdap''), d)
          else if \<not> is_user_admin cfg dy lu \<and> lu_allow_group (lf_user cfg) \<noteq> []
                  \<and> \<not> is_user_in_group cfg dy lu (lu_allow_group (lf_user cfg))
          then (Inl (ErrNew ''user not in allowed group''), d)
          else case verify_credentials cfg dy (du_dn lu) password of
            Some er \<Rightarrow> (Inl er, d)
          | None \<Rightarrow>
              (case map_to_local_user ac e lu d of
                 (Inl er, d1) \<Rightarrow> (Inl (ErrJoin (ErrNew ''LdapToLocalUserFailed'') er), d1)
               | (Inr ou, d1) \<Rightarrow> (Inr ou, d1)))"

definition get_user_info_by_email_local :: "acct \<Rightarrow> env \<Rightarrow> string \<Rightarrow> db \<Rightarrow> (err + user_row option) \<times> db" where
  "get_user_info_by_email_local ac e email d =
     (case get_user_info_by_email_ldap (ac_ldap ac) (ac_directory ac) email of
        Inl er \<Rightarrow> (Inl er, d)
      | Inr lu \<Rightarrow> map_to_local_user ac e lu d)"

section \<open>Passwords\<close>

text \<open>
  The sign-in by password; None is the empty user the code returns.  The rehash is stored through the user
  struct, so its save hook normalises the role of the struct that is returned.
\<close>

definition info_by_username_password ::
    "acct \<Rightarrow> env \<Rightarrow> string \<Rightarrow> string \<Rightarrow> db \<Rightarrow> user_row option \<times> db" where
  "info_by_username_password ac e username password d =
     (let local = (\<lambda>d1.
        case info_by_username e (Outside 71) username d1 of
          None \<Rightarrow> (None, d1)
        | Some u \<Rightarrow>
            (case verify_password ac (u_password u) password of
               (ok, new_hash, er) \<Rightarrow>
                 if er \<noteq> None \<or> \<not> ok then (None, d1)
                 else if new_hash \<noteq> []
                 then (Some ((before_save u)\<lparr>u_password := new_hash\<rparr>),
                       if flt e (Outside 72) then d1
                       else d1\<lparr>users := update_where (\<lambda>x. u_id x = u_id u) (\<lambda>x. x\<lparr>u_password := new_hash\<rparr>) (users d1)\<rparr>)
                 else (Some u, d1)))
      in if lf_enable (ac_ldap ac)
         then (case ldap_authenticate ac e username password d of
                 (Inr ou, d1) \<Rightarrow> (ou, d1)
               | (Inl _, d1) \<Rightarrow> local d1)
         else local d)"

section \<open>OAuth accounts\<close>

definition info_by_oauth_id :: "env \<Rightarrow> string \<Rightarrow> string \<Rightarrow> db \<Rightarrow> user_row option" where
  "info_by_oauth_id e op open_id d =
     (case found th_id (user_third_info e (Outside 85) op open_id d) of
        None \<Rightarrow> None
      | Some r \<Rightarrow> found u_id (info_by_id e (Outside 86) (th_user_id r) d))"

text \<open>
  GenerateUsernameByOauth appends random digits until the name is free; the argument lists the digits that
  will be drawn, and None means that they ran out.
\<close>

fun generate_username_by_oauth :: "(string \<Rightarrow> bool) \<Rightarrow> nat list \<Rightarrow> string \<Rightarrow> string option" where
  "generate_username_by_oauth taken digits name =
     (if \<not> taken name then Some name
      else case digits of
             [] \<Rightarrow> None
           | n # rest \<Rightarrow> generate_username_by_oauth taken rest (name @ decimal (n mod 10)))"

declare generate_username_by_oauth.simps [simp del]

definition oauth_to_user :: "oauth_user \<Rightarrow> bool \<Rightarrow> user_row \<Rightarrow> user_row" where
  "oauth_to_user ou override u =
     (if override then u\<lparr>u_username := o_username ou\<rparr> else u)
       \<lparr>u_email := o_email ou, u_nickname := o_name ou, u_avatar := o_picture ou\<rparr>"

definition register_oauth_body :: "env \<Rightarrow> user_row \<Rightarrow> third_row \<Rightarrow> db \<Rightarrow> err + user_row \<times> db" where
  "register_oauth_body e u third d =
     stmt (flt e) (Stmt 83) (ebind (insert_user u d) (\<lambda>(r, d1).
     stmt (flt e) (Stmt 84) (ebind (insert_third (third\<lparr>th_user_id := u_id r\<rparr>) d1) (\<lambda>d2. Inr (r, d2)))))"

text \<open>The second half of RegisterByOauth: link the existing account, or create one with a free name.\<close>

definition register_linked ::
    "acct \<Rightarrow> env \<Rightarrow> nat list \<Rightarrow> oauth_user \<Rightarrow> string \<Rightarrow> string \<Rightarrow> user_row option \<Rightarrow> db
      \<Rightarrow> (err + user_row option) option \<times> db" where
  "register_linked ac e digits ou ty op existing d =
     (case existing of
        Some u \<Rightarrow>
          if flt e (Outside 97) then (Some (Inl (DbErr (Outside 97))), d)
          else (case insert_third (third_from_oauth_user (ac_lower ac) (u_id u) ou ty op) d of
                  Inl er \<Rightarrow> (Some (Inl er), d)
                | Inr d1 \<Rightarrow> (Some (Inr (Some u)), d1))
      | None \<Rightarrow>
          if flt e Begin then (Some (Inl (DbErr Begin)), d)
          else case generate_username_by_oauth (\<lambda>n. is_username_exists ac e (Outside 98) n d) digits
                      (format_username ac (o_username ou)) of
            None \<Rightarrow> (None, d)
          | Some username \<Rightarrow>
              (let u = oauth_to_user ou False (empty_user\<lparr>u_username := username, u_group_id := 1\<rparr>)
               in case transaction (flt e)
                        (register_oauth_body e u (third_from_oauth_user (ac_lower ac) 0 ou ty op)) d of
                    (Inl er, d1) \<Rightarrow> (Some (Inl (ErrJoin (ErrNew ''OauthRegisterFailed'') er)), d1)
                  | (Inr r, d1) \<Rightarrow> (Some (Inr (Some r)), d1)))"

definition register_by_oauth ::
    "acct \<Rightarrow> env \<Rightarrow> nat list \<Rightarrow> oauth_user \<Rightarrow> string \<Rightarrow> db \<Rightarrow> (err + user_row option) option \<times> db" where
  "register_by_oauth ac e digits ou0 op d =
     (case found th_id (user_third_info e (Outside 87) op (o_open_id ou0) d) of
        Some ut \<Rightarrow> (Some (Inr (found u_id (info_by_id e (Outside 88) (th_user_id ut) d))), d)
      | None \<Rightarrow>
      case get_type_by_op e (Outside 89) op d of
        Inl er \<Rightarrow> (Some (Inl er), d)
      | Inr ty \<Rightarrow>
          (let by_email = (o_email ou0 \<noteq> [] \<and> o_verified_email ou0);
               ou = (if by_email then ou0\<lparr>o_email := go_to_lower (ac_lower ac) (o_email ou0)\<rparr> else ou0);
               (ldap, d1) = (if by_email then get_user_info_by_email_local ac e (o_email ou) d else (Inr None, d));
               existing = (if \<not> by_email then None
                           else case ldap of
                             Inr (Some u) \<Rightarrow> Some u
                           | _ \<Rightarrow> info_by_email e (Outside 90) (o_email ou) d1)
           in case (by_email, ldap) of
             (True, Inl er) \<Rightarrow>
               if er = ErrNew ''LdapNotEnabled'' \<or> er = ErrNew ''UserNotFound''
               then register_linked ac e digits ou ty op existing d1
               else (Some (Inl er), d1)
           | _ \<Rightarrow> register_linked ac e digits ou ty op existing d1))"

end
