(* ===== verification/Maintenance.thy ===== *)
theory Maintenance
  imports Users
begin

text \<open>
  Local maintenance (\<open>src/service/maintenance.go\<close>) and the schema gate in front of it
  (\<open>src/internal/database/schema.go\<close>).  A maintenance operation returns its result struct together with the
  error, since the command line prints the part that was filled in; \<open>mbind\<close> is the chain
  \<open>if err != nil { return result, err }\<close>.
\<close>

section \<open>The schema gate\<close>

datatype schema_state = StateEmpty | StateCurrent | StateUpgradeRequired | StateNewerThanBinary | StateInvalid

record schema_status =
  sm_installed :: "nat option"
  sm_target :: nat
  sm_state :: schema_state
  sm_migration_required :: bool
  sm_safe_to_start :: bool

text \<open>
  What the inspection reads: the table names, and MAX(version) over the version table (None for NULL).
  An installed version is a 64-bit integer, \<open>uint\<close> has 64 bits.
\<close>

record schema_view =
  sw_tables :: "err + string list"
  sw_maximum :: "err + int option"

definition inspect_schema :: "nat \<Rightarrow> schema_view option \<Rightarrow> schema_status \<times> err option" where
  "inspect_schema target view =
     (let status = \<lparr>sm_installed = None, sm_target = target, sm_state = StateInvalid,
                    sm_migration_required = False, sm_safe_to_start = False\<rparr>;
          empty = status\<lparr>sm_state := StateEmpty, sm_migration_required := True\<rparr>
      in case view of
        None \<Rightarrow> (status, Some (ErrNew ''database schema is unavailable''))
      | Some v \<Rightarrow>
          (case sw_tables v of
            Inl er \<Rightarrow> (status, Some (ErrJoin (ErrNew ''database schema is unavailable'') er))
          | Inr tables \<Rightarrow>
              let names = map trim_space tables;
                  has_version = ''versions'' \<in> set names;
                  has_application = list_ex (\<lambda>n. n \<noteq> ''versions'' \<and> n \<noteq> [] \<and> n \<noteq> ''sqlite_sequence'') names
              in if \<not> has_version
                 then if has_application
                      then (status, Some (ErrNew ''database contains application tables but no schema version table''))
                      else (empty, None)
                 else case sw_maximum v of
                     Inl er \<Rightarrow> (status, Some (ErrJoin (ErrNew ''database schema is unavailable'') er))
                   | Inr None \<Rightarrow> (empty, None)
                   | Inr (Some m) \<Rightarrow>
                       if m \<le> 0 then (status, Some (ErrNew ''database schema version is invalid''))
                       else let st = status\<lparr>sm_installed := Some (nat m)\<rparr> in
                         ((if nat m = target then st\<lparr>sm_state := StateCurrent, sm_safe_to_start := True\<rparr>
                           else if nat m < target
                           then st\<lparr>sm_state := StateUpgradeRequired, sm_migration_required := True\<rparr>
                           else st\<lparr>sm_state := StateNewerThanBinary\<rparr>), None)))"

definition require_current_schema :: "nat \<Rightarrow> schema_view option \<Rightarrow> schema_status \<times> err option" where
  "require_current_schema target view =
     (case inspect_schema target view of
        (status, Some er) \<Rightarrow> (status, Some er)
      | (status, None) \<Rightarrow>
          if sm_state status \<noteq> StateCurrent
          then (status, Some (ErrNew ''database schema does not match this binary'')) else (status, None))"

section \<open>Selectors and results\<close>

definition MaintenanceCodeSelectorInvalid :: string where "MaintenanceCodeSelectorInvalid = ''MAINTENANCE_SELECTOR_INVALID''"
definition MaintenanceCodeSchemaMismatch :: string where "MaintenanceCodeSchemaMismatch = ''MAINTENANCE_SCHEMA_MISMATCH''"
definition MaintenanceCodeUserNotFound :: string where "MaintenanceCodeUserNotFound = ''MAINTENANCE_USER_NOT_FOUND''"
definition MaintenanceCodeConfirmationMismatch :: string where
  "MaintenanceCodeConfirmationMismatch = ''MAINTENANCE_CONFIRMATION_MISMATCH''"
definition MaintenanceCodePasswordInvalid :: string where "MaintenanceCodePasswordInvalid = ''MAINTENANCE_PASSWORD_INVALID''"
definition MaintenanceCodeRecoveryFailed :: string where "MaintenanceCodeRecoveryFailed = ''MAINTENANCE_ADMIN_RECOVERY_FAILED''"
definition MaintenanceCodeTwoFactorResetFailed :: string where
  "MaintenanceCodeTwoFactorResetFailed = ''MAINTENANCE_TWO_FACTOR_RESET_FAILED''"

record selector =
  se_user_id :: nat
  se_username :: string
  se_confirm :: string

record maintenance_result =
  mr_request_id :: string
  mr_user_id :: nat
  mr_username :: string
  mr_auth_version :: nat
  mr_password_reset :: bool
  mr_two_factor_reset :: bool
  mr_two_factor_was_configured :: bool
  mr_challenges_cleared :: nat
  mr_scopes_cleared :: nat
  mr_sessions_revoked :: nat

definition empty_result :: "string \<Rightarrow> maintenance_result" where
  "empty_result request_id = \<lparr>mr_request_id = request_id, mr_user_id = 0, mr_username = [], mr_auth_version = 0,
     mr_password_reset = False, mr_two_factor_reset = False, mr_two_factor_was_configured = False,
     mr_challenges_cleared = 0, mr_scopes_cleared = 0, mr_sessions_revoked = 0\<rparr>"

definition validate_selector :: "selector \<Rightarrow> err option" where
  "validate_selector s =
     (if (se_user_id s = 0) = (se_username s = []) then Some (ErrCoded MaintenanceCodeSelectorInvalid)
      else if se_confirm s = [] then Some (ErrCoded MaintenanceCodeSelectorInvalid) else None)"

definition maintenance_audit_target :: "selector \<Rightarrow> string \<times> string" where
  "maintenance_audit_target s =
     (if se_user_id s \<noteq> 0 then (''user'', decimal (se_user_id s)) else (''user'', se_username s))"

definition find_maintenance_user :: "env \<Rightarrow> point \<Rightarrow> selector \<Rightarrow> string \<Rightarrow> db \<Rightarrow> err + user_row" where
  "find_maintenance_user e p s failure_code d =
     (if flt e p then Inl (ErrCoded failure_code)
      else case find (\<lambda>u. if se_user_id s \<noteq> 0 then u_id u = se_user_id s else u_username u = se_username s) (users d) of
             None \<Rightarrow> Inl (ErrCoded MaintenanceCodeUserNotFound)
           | Some u \<Rightarrow> Inr u)"

definition reset_two_factor_rows :: "env \<Rightarrow> point \<Rightarrow> point \<Rightarrow> nat \<Rightarrow> db \<Rightarrow> err + bool \<times> db" where
  "reset_two_factor_rows e p1 p2 uid d =
     stmt (flt e) p1 (stmt (flt e) p2
       (Inr (count_where (\<lambda>r. tf_user_id r = uid) (two_factors d) > 0,
             d\<lparr>two_factors := delete_where (\<lambda>r. tf_user_id r = uid) (two_factors d)\<rparr>)))"

definition maintenance_error_code :: "err \<Rightarrow> string \<Rightarrow> string" where
  "maintenance_error_code er fallback =
     (case er of ErrCoded code \<Rightarrow> if code \<noteq> [] then code else fallback | _ \<Rightarrow> fallback)"

text \<open>maintenanceError around a failed step, and the chain that keeps the result.\<close>

definition mfail :: "string \<Rightarrow> err + 'a \<Rightarrow> err + 'a" where
  "mfail code m = (case m of Inl _ \<Rightarrow> Inl (ErrCoded code) | Inr x \<Rightarrow> Inr x)"

definition mbind :: "maintenance_result \<Rightarrow> err + 'a \<Rightarrow> ('a \<Rightarrow> maintenance_result \<times> (err + db)) \<Rightarrow>
    maintenance_result \<times> (err + db)" where
  "mbind r m k = (case m of Inl er \<Rightarrow> (r, Inl er) | Inr x \<Rightarrow> k x)"

text \<open>
  The deferred completion of a failed operation, and the transaction around the body: its rollback leaves
  the database as it was, its commit may fail.
\<close>

definition maintenance_failed ::
    "env \<Rightarrow> audit_row \<Rightarrow> string \<Rightarrow> maintenance_result \<Rightarrow> err \<Rightarrow> db \<Rightarrow> (maintenance_result \<times> err option) \<times> db" where
  "maintenance_failed e event fallback r er d =
     (case finish_security_audit e event False (maintenance_error_code er fallback) d of
        Inl a \<Rightarrow> ((r, Some (ErrJoin er a)), d)
      | Inr d1 \<Rightarrow> ((r, Some er), d1))"

definition maintenance_tx ::
    "env \<Rightarrow> audit_row \<Rightarrow> string \<Rightarrow> maintenance_result \<Rightarrow> (db \<Rightarrow> maintenance_result \<times> (err + db)) \<Rightarrow> db
      \<Rightarrow> (maintenance_result \<times> err option) \<times> db" where
  "maintenance_tx e event code r body d =
     (if flt e Begin then maintenance_failed e event code r (ErrCoded code) d
      else case body d of
        (r1, Inl er) \<Rightarrow> maintenance_failed e event code r1 er d
      | (r1, Inr d1) \<Rightarrow>
          if flt e Commit then maintenance_failed e event code r1 (ErrCoded code) d else ((r1, None), d1))"

section \<open>Recovery of an administrator\<close>

record recover_options =
  ro_selector :: selector
  ro_request_id :: string
  ro_password :: string
  ro_reset_two_factor :: bool

definition recover_metadata :: "recover_options \<Rightarrow> metadata" where
  "recover_metadata opts =
     [(''password_reset'', MBool (ro_password opts \<noteq> [])), (''two_factor_reset'', MBool (ro_reset_two_factor opts)),
      (''revocation_reason'', MStr ''local_administrator_recovery'')]"

definition recover_row :: "string \<Rightarrow> user_row \<Rightarrow> user_row" where
  "recover_row password_hash u =
     u\<lparr>u_status := COMMON_STATUS_ENABLE, u_role := RoleSuperAdmin, u_is_admin := Some True,
       u_password := (if password_hash \<noteq> [] then password_hash else u_password u)\<rparr>"

definition recover_two_factor :: "env \<Rightarrow> bool \<Rightarrow> nat \<Rightarrow> db \<Rightarrow> err + bool option \<times> db" where
  "recover_two_factor e reset uid d =
     (if reset then ebind (mfail MaintenanceCodeRecoveryFailed (reset_two_factor_rows e (Stmt 5) (Stmt 6) uid d))
                      (\<lambda>(c, d1). Inr (Some c, d1))
      else Inr (None, d))"

definition recover_body ::
    "env \<Rightarrow> recover_options \<Rightarrow> audit_row \<Rightarrow> string \<Rightarrow> maintenance_result \<Rightarrow> db \<Rightarrow> maintenance_result \<times> (err + db)" where
  "recover_body e opts event password_hash r d =
     (let code = MaintenanceCodeRecoveryFailed; s = ro_selector opts in
      mbind r (find_maintenance_user e (Stmt 1) s code d) (\<lambda>user.
      let r1 = r\<lparr>mr_user_id := u_id user, mr_username := u_username user\<rparr>; uid = u_id user in
      mbind r1 (check (u_username user = se_confirm s) (ErrCoded MaintenanceCodeConfirmationMismatch) (Inr ())) (\<lambda>_.
      mbind r1 (mfail code (rewrite_security_audit_intent e (Stmt 2) event ''maintenance.admin.recovered''
          ([(''source'', MStr ''local_maintenance''), (''operation'', MStr ''administrator_recovery''),
            (''target_user_id'', MNum (int uid)), (''target_username'', MStr (u_username user)),
            (''previous_role'', MRole (effective_role (Some user))), (''previous_status'', MNum (u_status user))]
           @ recover_metadata opts) d)) (\<lambda>(_, d1).
      let r2 = r1\<lparr>mr_password_reset := (password_hash \<noteq> [])\<rparr> in
      mbind r2 (mfail code (stmt (flt e) (Stmt 3)
          (Inr (d1\<lparr>users := update_where (\<lambda>u. u_id u = uid) (recover_row password_hash) (users d1)\<rparr>)))) (\<lambda>d2.
      mbind r2 (mfail code (stmt (flt e) (Stmt 4) (Inr (remove_admin_rows uid d2)))) (\<lambda>d3.
      let r3 = r2\<lparr>mr_scopes_cleared := count_where (\<lambda>x. sc_admin x = uid) (scopes d2)\<rparr> in
      mbind r3 (recover_two_factor e (ro_reset_two_factor opts) uid d3) (\<lambda>(configured, d4).
      let r4 = (case configured of None \<Rightarrow> r3
                | Some c \<Rightarrow> r3\<lparr>mr_two_factor_reset := True, mr_two_factor_was_configured := c\<rparr>) in
      mbind r4 (mfail code (stmt (flt e) (Stmt 7)
          (Inr (d4\<lparr>challenges := delete_where (\<lambda>c. ch_user_id c = uid) (challenges d4)\<rparr>)))) (\<lambda>d5.
      let r5 = r4\<lparr>mr_challenges_cleared := count_where (\<lambda>c. ch_user_id c = uid) (challenges d4)\<rparr> in
      mbind r5 (mfail code (bump_auth_version_and_revoke_count e (Stmt 8) (Stmt 9) uid ''local_administrator_recovery'' d5))
        (\<lambda>(revoked, d6).
      let r6 = r5\<lparr>mr_sessions_revoked := revoked, mr_auth_version := u_auth_version user + 1\<rparr> in
      mbind r6 (mfail code (finish_security_audit_success_tx e (Stmt 10) event d6)) (\<lambda>d7. (r6, Inr d7)))))))))))"

definition recover_administrator ::
    "acct \<Rightarrow> schema_status \<times> err option \<Rightarrow> env \<Rightarrow> recover_options \<Rightarrow> db \<Rightarrow> (maintenance_result \<times> err option) \<times> db" where
  "recover_administrator ac schema e opts d =
     (let r = empty_result (ro_request_id opts); password = ro_password opts in
      case validate_selector (ro_selector opts) of
        Some er \<Rightarrow> ((r, Some er), d)
      | None \<Rightarrow>
      if password \<noteq> [] \<and> (length password < 12 \<or> length password > 128)
      then ((r, Some (ErrCoded MaintenanceCodePasswordInvalid)), d)
      else if snd schema \<noteq> None then ((r, Some (ErrCoded MaintenanceCodeSchemaMismatch)), d)
      else case maintenance_audit_target (ro_selector opts) of (tt, ti) \<Rightarrow>
        (case begin_security_audit e 0 (ro_request_id opts) ''maintenance.admin.recovered'' tt ti
                ([(''source'', MStr ''local_maintenance''), (''operation'', MStr ''administrator_recovery'')]
                 @ recover_metadata opts) d of
           Inl er \<Rightarrow> ((r, Some er), d)
         | Inr (event, d1) \<Rightarrow>
             (let r1 = r\<lparr>mr_request_id := ev_request_id event\<rparr> in
              case (if password = [] then Inr [] else encrypt_password ac password) of
                Inl er \<Rightarrow> maintenance_failed e event MaintenanceCodeRecoveryFailed r1
                            (ErrCoded MaintenanceCodeRecoveryFailed) d1
              | Inr hash \<Rightarrow> maintenance_tx e event MaintenanceCodeRecoveryFailed r1 (recover_body e opts event hash r1) d1)))"

section \<open>Reset of the second factor\<close>

definition reset_body ::
    "env \<Rightarrow> selector \<Rightarrow> audit_row \<Rightarrow> maintenance_result \<Rightarrow> db \<Rightarrow> maintenance_result \<times> (err + db)" where
  "reset_body e s event r d =
     (let code = MaintenanceCodeTwoFactorResetFailed in
      mbind r (find_maintenance_user e (Stmt 1) s code d) (\<lambda>user.
      let r1 = r\<lparr>mr_user_id := u_id user, mr_username := u_username user\<rparr>; uid = u_id user in
      mbind r1 (check (u_username user = se_confirm s) (ErrCoded MaintenanceCodeConfirmationMismatch) (Inr ())) (\<lambda>_.
      mbind r1 (mfail code (rewrite_security_audit_intent e (Stmt 2) event ''maintenance.two_factor.reset''
          [(''source'', MStr ''local_maintenance''), (''operation'', MStr ''two_factor_reset''),
           (''target_user_id'', MNum (int uid)), (''target_username'', MStr (u_username user)),
           (''revocation_reason'', MStr ''local_two_factor_reset'')] d)) (\<lambda>(_, d1).
      mbind r1 (mfail code (reset_two_factor_rows e (Stmt 5) (Stmt 6) uid d1)) (\<lambda>(configured, d2).
      let r2 = r1\<lparr>mr_two_factor_reset := True, mr_two_factor_was_configured := configured\<rparr> in
      mbind r2 (mfail code (stmt (flt e) (Stmt 7)
          (Inr (d2\<lparr>challenges := delete_where (\<lambda>c. ch_user_id c = uid) (challenges d2)\<rparr>)))) (\<lambda>d3.
      let r3 = r2\<lparr>mr_challenges_cleared := count_where (\<lambda>c. ch_user_id c = uid) (challenges d2)\<rparr> in
      mbind r3 (mfail code (bump_auth_version_and_revoke_count e (Stmt 8) (Stmt 9) uid ''local_two_factor_reset'' d3))
        (\<lambda>(revoked, d4).
      let r4 = r3\<lparr>mr_sessions_revoked := revoked, mr_auth_version := u_auth_version user + 1\<rparr> in
      mbind r4 (mfail code (finish_security_audit_success_tx e (Stmt 10) event d4)) (\<lambda>d5. (r4, Inr d5)))))))))"

definition reset_two_factor_maintenance ::
    "schema_status \<times> err option \<Rightarrow> env \<Rightarrow> selector \<Rightarrow> string \<Rightarrow> db \<Rightarrow> (maintenance_result \<times> err option) \<times> db" where
  "reset_two_factor_maintenance schema e s request_id d =
     (let r = empty_result request_id in
      case validate_selector s of
        Some er \<Rightarrow> ((r, Some er), d)
      | None \<Rightarrow>
      if snd schema \<noteq> None then ((r, Some (ErrCoded MaintenanceCodeSchemaMismatch)), d)
      else case maintenance_audit_target s of (tt, ti) \<Rightarrow>
        (case begin_security_audit e 0 request_id ''maintenance.two_factor.reset'' tt ti
                [(''source'', MStr ''local_maintenance''), (''operation'', MStr ''two_factor_reset''),
                 (''revocation_reason'', MStr ''local_two_factor_reset'')] d of
           Inl er \<Rightarrow> ((r, Some er), d)
         | Inr (event, d1) \<Rightarrow>
             (let r1 = r\<lparr>mr_request_id := ev_request_id event\<rparr> in
              maintenance_tx e event MaintenanceCodeTwoFactorResetFailed r1 (reset_body e s event r1) d1)))"

end
