(* ===== verification/AccountProps.thy ===== *)
theory AccountProps
  imports SignIn Maintenance SessionsProps
begin

text \<open>
  Properties of accounts.  \<open>account_step\<close> is one operation of the account, session, grant and maintenance
  services, with any arguments and any failing statements.  The locale \<open>account_relation\<close> states what a
  relation between databases has to satisfy to hold across every such operation; it is interpreted on the two
  relations the properties are about, and the lemmas of the operations are proved once, inside it.
\<close>

section \<open>Inversion of the guarded operations\<close>

lemma update_user_bodyE:
  assumes "update_user_body ac e u event d = Inr (x, d')"
  obtains d1 cur ev d2 d3 d4 where
    "acquire_enabled_admin_invariant e (Stmt 1) d = Inr d1" "find_user (u_id u) d1 = Some cur"
    "rewrite_security_audit_intent e (Stmt 3) event (up_action (plan_update cur u))
       [(''from_role'', MRole (up_from_role (plan_update cur u))), (''to_role'', MRole (up_to_role (plan_update cur u))),
        (''from_status'', MNum (u_status cur)), (''to_status'', MNum (u_status u))] d1 = Inr (ev, d2)"
    "update_guard e cur (plan_update cur u) d2 = Inr ()"
    "update_user_row (up_user (plan_update cur u)) d2 = Inr d3"
    "update_scopes ac e (plan_update cur u) (u_id u) d3 = Inr d4"
    "update_sessions e (plan_update cur u) (u_id u) d4 = Inr d'"
  using assms unfolding update_user_body_def Let_def
  by (auto simp: outcome_simps simp del: bump_eq_Inr split: option.splits)

lemma plan_update_up: "u_id (up_user (plan_update cur u)) = u_id u" "u_status (up_user (plan_update cur u)) = u_status u"
  "u_role (up_user (plan_update cur u)) = up_to_role (plan_update cur u)" "role_valid (up_to_role (plan_update cur u))"
proof -
  have v: "role_valid (requested_role (effective_role (Some cur)) u)"
    by (auto simp: requested_role_def Let_def split: option.splits)
  show "role_valid (up_to_role (plan_update cur u))" using v by (simp add: plan_update_def Let_def split: prod.splits)
  show "u_id (up_user (plan_update cur u)) = u_id u" "u_status (up_user (plan_update cur u)) = u_status u"
    "u_role (up_user (plan_update cur u)) = up_to_role (plan_update cur u)"
    using v by (simp_all add: plan_update_def normalize_role_def Let_def split: prod.splits)
qed

lemma patch_keeps_super:
  assumes "u_status u = COMMON_STATUS_ENABLE \<or> u_status u = COMMON_STATUS_DISABLED" and "is_enabled_super cur"
    and "\<not> removes_enabled_super_admin cur (plan_update cur u)"
  shows "is_enabled_super (patch_user (up_user (plan_update cur u)) cur)"
proof -
  have "up_from_role (plan_update cur u) = RoleSuperAdmin"
    using assms(2) by (simp add: plan_update_def is_enabled_super_def effective_role_def Let_def split: prod.splits)
  then show ?thesis
    using assms by (auto simp: removes_enabled_super_admin_def is_enabled_super_def patch_user_def plan_update_up patch_def RoleZero_def)
qed

lemma acquire_Inr:
  "acquire_enabled_admin_invariant e p d = Inr d' \<longleftrightarrow> \<not> flt e p \<and>
     count_where (\<lambda>l. fst l = ''enabled-admin'') (invariant_locks d) = 1 \<and>
     d' = d\<lparr>invariant_locks := update_where (\<lambda>l. fst l = ''enabled-admin'') (\<lambda>(n, g). (n, g + 1)) (invariant_locks d)\<rparr>"
  by (auto simp: acquire_enabled_admin_invariant_def outcome_simps split: if_splits)

lemma resource_scopes_Inr:
  "remove_resource_scopes e p has ty ids d = Inr d' \<Longrightarrow>
     d' = d\<lparr>scopes := scopes d'\<rparr> \<and> set (scopes d') \<subseteq> set (scopes d) \<and>
     (has \<longrightarrow> (\<forall>r \<in> set (scopes d'). \<not> (sc_type r = ty \<and> sc_target r \<in> set ids)))"
  by (auto simp: remove_resource_scopes_def outcome_simps set_delete_where split: if_splits)

lemma administrator_scopes_Inr:
  "remove_administrator_scopes e p has uid d = Inr d' \<Longrightarrow>
     d' = d\<lparr>scopes := scopes d'\<rparr> \<and> set (scopes d') \<subseteq> set (scopes d) \<and> (has \<longrightarrow> (\<forall>r \<in> set (scopes d'). sc_admin r \<noteq> uid))"
  by (auto simp: remove_administrator_scopes_def remove_admin_rows_def outcome_simps set_delete_where split: if_splits)

text \<open>What a successful removal did, table by table.\<close>

lemma delete_user_bodyE:
  assumes "delete_user_body ac e uid d = Inr (x, d')"
  obtains cur where "x = uid" "find_user uid d = Some cur"
    "is_super_admin (Some cur) \<and> u_status cur = COMMON_STATUS_ENABLE \<longrightarrow> count_where is_enabled_super (users d) > 1"
    "users d' = delete_where (\<lambda>r. u_id r = uid) (users d)"
    "tokens d' = tokens (revoke_where (\<lambda>r. t_user_id r = uid) (now e) ''user_deleted'' d)"
    "challenges d' = delete_where (\<lambda>r. ch_user_id r = uid) (challenges d)"
    "two_factors d' = delete_where (\<lambda>r. tf_user_id r = uid) (two_factors d)"
    "thirds d' = delete_where (\<lambda>r. th_user_id r = uid) (thirds d)"
    "ldap_ids d' = delete_where (\<lambda>r. ld_user_id r = uid) (ldap_ids d)"
    "abooks d' = delete_where (\<lambda>r. ab_user_id r = uid) (abooks d)"
    "tags d' = delete_where (\<lambda>r. tg_user_id r = uid) (tags d)"
    "collections d' = delete_where (\<lambda>r. c_user_id r = uid) (collections d)"
    "rules d' = delete_where (\<lambda>r. r_user_id r = uid \<or> (r_type r = ShareAddressBookRuleTypePersonal \<and> r_to_id r = uid)) (rules d)"
    "set (scopes d') \<subseteq> set (scopes d)" "peers d' = peers d" "events d' = events d"
    "ac_has_scopes ac \<longrightarrow> (\<forall>r \<in> set (scopes d'). sc_admin r \<noteq> uid \<and> \<not> (sc_type r = ScopeUser \<and> sc_target r = uid) \<and>
       \<not> (sc_type r = ScopeCollection \<and> (\<exists>c \<in> set (collections d). c_user_id c = uid \<and> c_id c = sc_target r)))"
proof -
  from assms obtain cur where cur: "find_user uid d = Some cur"
    by (auto simp: delete_user_body_def outcome_simps acquire_Inr find_user_def split: option.splits)
  then have id: "u_id cur = uid" by (auto simp: find_user_def dest: find_SomeD)
  from assms cur id obtain d1 d2 d3 d11 d12 d13 where
    guard: "is_super_admin (Some cur) \<and> u_status cur = COMMON_STATUS_ENABLE \<longrightarrow> count_where is_enabled_super (users d) > 1"
    and x: "x = uid" and d1: "acquire_enabled_admin_invariant e (Stmt 11) d = Inr d1"
    and d2: "d2 = revoke_where (\<lambda>r. t_user_id r = uid) (now e) ''user_deleted'' d1"
    and d11: "d11 = d2\<lparr>challenges := delete_where (\<lambda>r. ch_user_id r = uid) (challenges d2),
        two_factors := delete_where (\<lambda>r. tf_user_id r = uid) (two_factors d2),
        users := delete_where (\<lambda>r. u_id r = uid) (users d2),
        thirds := delete_where (\<lambda>r. th_user_id r = uid) (thirds d2),
        ldap_ids := delete_where (\<lambda>r. ld_user_id r = uid) (ldap_ids d2),
        abooks := delete_where (\<lambda>r. ab_user_id r = uid) (abooks d2),
        tags := delete_where (\<lambda>r. tg_user_id r = uid) (tags d2),
        collections := delete_where (\<lambda>r. c_user_id r = uid) (collections d2),
        rules := delete_where (\<lambda>r. r_user_id r = uid \<or> (r_type r = ShareAddressBookRuleTypePersonal \<and> r_to_id r = uid)) (rules d2)\<rparr>"
    and r1: "remove_resource_scopes e (Stmt 25) (ac_has_scopes ac) ScopeCollection
        (map c_id (filter (\<lambda>r. c_user_id r = uid) (collections d2))) d11 = Inr d12"
    and r2: "remove_administrator_scopes e (Stmt 26) (ac_has_scopes ac) uid d12 = Inr d13"
    and r3: "remove_resource_scopes e (Stmt 27) (ac_has_scopes ac) ScopeUser [uid] d13 = Inr d'"
    by (simp add: delete_user_body_def outcome_simps acquire_Inr find_user_def get_admin_user_count_tx_def
        revoke_user_tokens_def Let_def) (elim conjE exE, fastforce)
  note s = resource_scopes_Inr [OF r1] administrator_scopes_Inr [OF r2] resource_scopes_Inr [OF r3]
  have "d' = d13\<lparr>scopes := scopes d'\<rparr>" "d13 = d12\<lparr>scopes := scopes d13\<rparr>" "d12 = d11\<lparr>scopes := scopes d12\<rparr>"
    using s by blast+
  then have d': "d' = d11\<lparr>scopes := scopes d'\<rparr>" by (metis db.surjective db.update_convs(6))
  have fields: "users d' = users d11" "tokens d' = tokens d11" "challenges d' = challenges d11"
    "two_factors d' = two_factors d11" "thirds d' = thirds d11" "ldap_ids d' = ldap_ids d11" "abooks d' = abooks d11"
    "tags d' = tags d11" "collections d' = collections d11" "rules d' = rules d11" "peers d' = peers d11"
    "events d' = events d11"
    by (subst d', simp)+
  have base: "users d2 = users d" "tokens d2 = tokens (revoke_where (\<lambda>r. t_user_id r = uid) (now e) ''user_deleted'' d)"
    "challenges d2 = challenges d" "two_factors d2 = two_factors d" "thirds d2 = thirds d" "ldap_ids d2 = ldap_ids d"
    "abooks d2 = abooks d" "tags d2 = tags d" "collections d2 = collections d" "rules d2 = rules d" "peers d2 = peers d"
    "events d2 = events d" "scopes d2 = scopes d"
    using d1 by (auto simp: d2 acquire_Inr revoke_where_def)
  have sub: "set (scopes d') \<subseteq> set (scopes d)" "set (scopes d') \<subseteq> set (scopes d12)" "set (scopes d') \<subseteq> set (scopes d13)"
    using s by (auto simp: d11 base)
  have scoped: "\<forall>r \<in> set (scopes d'). sc_admin r \<noteq> uid \<and> \<not> (sc_type r = ScopeUser \<and> sc_target r = uid) \<and>
       \<not> (sc_type r = ScopeCollection \<and> (\<exists>c \<in> set (collections d). c_user_id c = uid \<and> c_id c = sc_target r))"
    if h: "ac_has_scopes ac"
  proof
    fix r assume r: "r \<in> set (scopes d')"
    have "\<not> (sc_type r = ScopeCollection \<and> sc_target r \<in> set (map c_id (filter (\<lambda>r. c_user_id r = uid) (collections d2))))"
      using s(1) h r sub(2) by blast
    moreover have "sc_admin r \<noteq> uid" using s(2) h r sub(3) by blast
    moreover have "\<not> (sc_type r = ScopeUser \<and> sc_target r \<in> set [uid])" using s(3) h r by blast
    ultimately show "sc_admin r \<noteq> uid \<and> \<not> (sc_type r = ScopeUser \<and> sc_target r = uid) \<and>
       \<not> (sc_type r = ScopeCollection \<and> (\<exists>c \<in> set (collections d). c_user_id c = uid \<and> c_id c = sc_target r))"
      by (auto simp: base image_iff)
  qed
  show thesis
    by (rule that [OF x cur guard]) (use sub scoped in \<open>simp_all add: fields d11 base\<close>)
qed

lemma mfail_Inr: "mfail code m = Inr x \<longleftrightarrow> m = Inr x"
  by (auto simp: mfail_def split: sum.splits)

lemma mbind_Inr: "snd (mbind r m k) = Inr d' \<longleftrightarrow> (\<exists>x. m = Inr x \<and> snd (k x) = Inr d')"
  by (auto simp: mbind_def split: sum.splits)

lemma recover_bodyE:
  assumes "snd (recover_body e opts event hash r d) = Inr d'"
  obtains user d1 d4 d6 ev c n where
    "find_maintenance_user e (Stmt 1) (ro_selector opts) MaintenanceCodeRecoveryFailed d = Inr user"
    "u_username user = se_confirm (ro_selector opts)"
    "rewrite_security_audit_intent e (Stmt 2) event ''maintenance.admin.recovered''
      ([(''source'', MStr ''local_maintenance''), (''operation'', MStr ''administrator_recovery''),
        (''target_user_id'', MNum (int (u_id user))), (''target_username'', MStr (u_username user)),
        (''previous_role'', MRole (effective_role (Some user))), (''previous_status'', MNum (u_status user))]
       @ recover_metadata opts) d = Inr (ev, d1)"
    "recover_two_factor e (ro_reset_two_factor opts) (u_id user)
       (remove_admin_rows (u_id user)
          (d1\<lparr>users := update_where (\<lambda>u. u_id u = u_id user) (recover_row hash) (users d1)\<rparr>)) = Inr (c, d4)"
    "bump_auth_version_and_revoke_count e (Stmt 8) (Stmt 9) (u_id user) ''local_administrator_recovery''
       (d4\<lparr>challenges := delete_where (\<lambda>c. ch_user_id c = u_id user) (challenges d4)\<rparr>) = Inr (n, d6)"
    "finish_security_audit_success_tx e (Stmt 10) event d6 = Inr d'"
  using assms unfolding recover_body_def Let_def
  by (auto simp: mbind_Inr mfail_Inr stmt_eq_Inr check_eq_Inr split_paired_Ex)

lemma reset_bodyE:
  assumes "snd (reset_body e s event r d) = Inr d'"
  obtains user d1 d2 d4 ev c n where
    "find_maintenance_user e (Stmt 1) s MaintenanceCodeTwoFactorResetFailed d = Inr user" "u_username user = se_confirm s"
    "rewrite_security_audit_intent e (Stmt 2) event ''maintenance.two_factor.reset''
      [(''source'', MStr ''local_maintenance''), (''operation'', MStr ''two_factor_reset''),
       (''target_user_id'', MNum (int (u_id user))), (''target_username'', MStr (u_username user)),
       (''revocation_reason'', MStr ''local_two_factor_reset'')] d = Inr (ev, d1)"
    "reset_two_factor_rows e (Stmt 5) (Stmt 6) (u_id user) d1 = Inr (c, d2)"
    "bump_auth_version_and_revoke_count e (Stmt 8) (Stmt 9) (u_id user) ''local_two_factor_reset''
       (d2\<lparr>challenges := delete_where (\<lambda>c. ch_user_id c = u_id user) (challenges d2)\<rparr>) = Inr (n, d4)"
    "finish_security_audit_success_tx e (Stmt 10) event d4 = Inr d'"
  using assms unfolding reset_body_def Let_def
  by (auto simp: mbind_Inr mfail_Inr stmt_eq_Inr check_eq_Inr split_paired_Ex)

section \<open>What an operation may do to users and tokens\<close>

locale account_relation =
  fixes R :: "db \<Rightarrow> db \<Rightarrow> bool"
  assumes R_trans: "R a b \<Longrightarrow> R b c \<Longrightarrow> R a c"
    and R_same: "users d' = users d \<Longrightarrow> tokens d' = tokens d \<Longrightarrow> R d d'"
    and R_revoke: "R d (revoke_where P t reason d)"
    and R_change: "(\<And>u. u_id (f u) = u_id u) \<Longrightarrow>
      (\<And>u. distinct (map u_id (users d)) \<Longrightarrow> u \<in> set (users d) \<Longrightarrow> u_id u = uid \<Longrightarrow> is_enabled_super u \<Longrightarrow>
         is_enabled_super (f u) \<or> count_where is_enabled_super (users d) > 1) \<Longrightarrow>
      R d (d\<lparr>users := update_where (\<lambda>u. u_id u = uid) f (users d)\<rparr>)"
    and R_remove: "(\<And>u. distinct (map u_id (users d)) \<Longrightarrow> u \<in> set (users d) \<Longrightarrow> u_id u = uid \<Longrightarrow> is_enabled_super u \<Longrightarrow>
         count_where is_enabled_super (users d) > 1) \<Longrightarrow>
      R d (d\<lparr>users := delete_where (\<lambda>u. u_id u = uid) (users d)\<rparr>)"
    and R_insert: "u_id r \<notin> u_id ` set (users d) \<Longrightarrow> R d (d\<lparr>users := users d @ [r]\<rparr>)"
    and R_login: "t_hash k \<noteq> None \<Longrightarrow> t_hash k \<notin> t_hash ` set (tokens d) \<Longrightarrow> R d (d\<lparr>tokens := tokens d @ [k]\<rparr>)"
begin

lemma R_refl: "R d d"
  by (rule R_same) simp_all

lemma R_events: "same_but_events d d' \<Longrightarrow> R d d'"
  by (rule R_same) (simp_all add: same_but_events_fields)

lemma R_finalize: "R d (snd out) \<Longrightarrow> R d (snd (finalize_security_audit e event fc out))"
  using R_trans R_events [OF finalize_same_but_events] by blast

lemma R_audited:
  assumes "\<And>event d1. R d1 (snd (op event d1))"
  shows "R d (snd (audited e actor rid action tt ti md fc op d))"
proof (cases "begin_security_audit e actor rid action tt ti md d")
  case (Inr p)
  then obtain event d1 where p: "p = (event, d1)" "d1 = d\<lparr>events := events d @ [event]\<rparr>"
    by (cases p) (auto simp: outcome_simps)
  have "R d d1" by (rule R_same) (simp_all add: p)
  then show ?thesis
    using R_finalize [OF assms [of d1 event]] R_trans by (auto simp: audited_def Inr p(1))
qed (simp add: audited_def R_refl)

lemma R_transaction:
  assumes "\<And>x d'. body d = Inr (x, d') \<Longrightarrow> R d d'"
  shows "R d (snd (transaction flt' body d))"
  by (rule transaction_cases [of flt' body d]) (auto simp: R_refl intro: assms)

lemma R_keep:
  assumes "\<And>u. u_id (f u) = u_id u" and "\<And>u. is_enabled_super u \<Longrightarrow> is_enabled_super (f u)"
  shows "R d (d\<lparr>users := update_where (\<lambda>u. u_id u = uid) f (users d)\<rparr>)"
  by (rule R_change) (use assms in auto)

lemma R_bump: "bump_auth_version_and_revoke_count e p1 p2 uid reason d = Inr (n, d') \<Longrightarrow> R d d'"
  unfolding bump_count_eq_Inr
  by (elim conjE, hypsubst, rule R_trans [OF R_keep R_revoke]) (simp_all add: is_enabled_super_def)

lemma R_bump': "bump_auth_version_and_revoke e p1 p2 uid reason d = Inr d' \<Longrightarrow> R d d'"
  unfolding bump_eq_Inr
  by (elim conjE, hypsubst, rule R_trans [OF R_keep R_revoke]) (simp_all add: is_enabled_super_def)

lemma R_acquire: "acquire_enabled_admin_invariant e p d = Inr d' \<Longrightarrow> R d d'"
  by (rule R_same) (auto simp: acquire_enabled_admin_invariant_def outcome_simps split: if_splits)

lemma R_rewrite: "rewrite_security_audit_intent e p event action md d = Inr (ev, d') \<Longrightarrow> R d d'"
  by (rule R_same) (auto simp: rewrite_security_audit_intent_def outcome_simps Let_def split: if_splits)

lemma R_finish_tx: "finish_security_audit_success_tx e p event d = Inr d' \<Longrightarrow> R d d'"
  by (rule R_same) (auto simp: finish_security_audit_success_tx_def outcome_simps Let_def split: if_splits)

lemma R_admin_scopes: "remove_administrator_scopes e p has uid d = Inr d' \<Longrightarrow> R d d'"
  by (rule R_same) (auto simp: remove_administrator_scopes_def remove_admin_rows_def outcome_simps split: if_splits)

lemma R_resource_scopes: "remove_resource_scopes e p has ty ids d = Inr d' \<Longrightarrow> R d d'"
  by (rule R_same) (auto simp: remove_resource_scopes_def outcome_simps split: if_splits)

lemma R_insert_user: "insert_user u d = Inr (r, d') \<Longrightarrow> R d d'"
  by (auto simp: insert_user_def Let_def split: if_splits intro!: R_insert)

lemmas R_pieces = R_bump R_bump' R_acquire R_rewrite R_finish_tx R_admin_scopes R_resource_scopes R_insert_user

lemma R_create_user: "R d (snd (create_user ac e u d))"
  by (auto simp: create_user_def Let_def R_refl split: sum.splits intro: R_insert_user)

lemma R_create_user_context: "R d (snd (create_user_context ac e actor rid ou d))"
  by (auto simp: create_user_context_def R_refl R_audited R_create_user split: option.splits)

lemma R_register: "R d (snd (register ac e username email password status d))"
proof -
  let ?u = "empty_user\<lparr>u_username := username, u_email := email, u_password := password, u_group_id := 1,
    u_status := status\<rparr>"
  show ?thesis
    using R_create_user [of d ac e ?u] by (auto simp: register_def R_refl split: sum.splits prod.splits)
qed

lemma R_update_body:
  assumes body: "update_user_body ac e u event d = Inr (x, d')"
    and status: "u_status u = COMMON_STATUS_ENABLE \<or> u_status u = COMMON_STATUS_DISABLED"
  shows "R d d'"
  using body
proof (rule update_user_bodyE)
  fix d1 cur ev d2 d3 d4
  let ?pl = "plan_update cur u"
  assume acq: "acquire_enabled_admin_invariant e (Stmt 1) d = Inr d1" and cur: "find_user (u_id u) d1 = Some cur"
    and rw: "rewrite_security_audit_intent e (Stmt 3) event (up_action ?pl)
       [(''from_role'', MRole (up_from_role ?pl)), (''to_role'', MRole (up_to_role ?pl)),
        (''from_status'', MNum (u_status cur)), (''to_status'', MNum (u_status u))] d1 = Inr (ev, d2)"
    and guard: "update_guard e cur ?pl d2 = Inr ()"
    and upd: "update_user_row (up_user ?pl) d2 = Inr d3"
    and sc: "update_scopes ac e ?pl (u_id u) d3 = Inr d4"
    and se: "update_sessions e ?pl (u_id u) d4 = Inr d'"
  have same: "users d2 = users d1"
    using rw by (auto simp: rewrite_security_audit_intent_def outcome_simps Let_def split: if_splits)
  have id: "u_id (up_user ?pl) = u_id u" "u_status (up_user ?pl) = u_status u" by (simp_all add: plan_update_up)
  have d3: "d3 = d2\<lparr>users := update_where (\<lambda>r. u_id r = u_id u) (patch_user (up_user ?pl)) (users d2)\<rparr>"
    using upd by (auto simp: update_user_row_def id split: if_splits)
  have "R d2 d3"
    unfolding d3
  proof (rule R_change)
    fix v assume "distinct (map u_id (users d2))" "v \<in> set (users d2)" "u_id v = u_id u" and sup: "is_enabled_super v"
    then have v: "v = cur" using cur find_key [of u_id "users d2" v] by (simp add: find_user_def same)
    show "is_enabled_super (patch_user (up_user ?pl) v) \<or> count_where is_enabled_super (users d2) > 1"
      using guard patch_keeps_super [OF status, of cur] sup unfolding v
      by (auto simp: update_guard_def get_admin_user_count_tx_def outcome_simps split: if_splits)
  qed (simp add: patch_user_def)
  moreover have "R d3 d4"
    using sc by (auto simp: update_scopes_def outcome_simps R_refl split: if_splits
        intro: R_trans R_admin_scopes R_resource_scopes)
  moreover have "R d4 d'"
    using se by (auto simp: update_sessions_def R_refl simp del: bump_eq_Inr split: if_splits intro: R_bump')
  ultimately show "R d d'"
    using R_acquire [OF acq] R_rewrite [OF rw] R_trans by blast
qed

lemma R_update_user: "R d (snd (update_user ac e actor rid ou d))"
  by (auto simp: update_user_def R_refl split: option.splits intro!: R_audited R_transaction intro: R_update_body)

lemma R_delete_body:
  assumes "delete_user_body ac e uid d = Inr (x, d')"
  shows "R d d'"
  using assms
proof (rule delete_user_bodyE)
  fix cur
  let ?r = "revoke_where (\<lambda>r. t_user_id r = uid) (now e) ''user_deleted'' d"
  assume cur: "find_user uid d = Some cur"
    and guard: "is_super_admin (Some cur) \<and> u_status cur = COMMON_STATUS_ENABLE \<longrightarrow> count_where is_enabled_super (users d) > 1"
    and u: "users d' = delete_where (\<lambda>r. u_id r = uid) (users d)" and t: "tokens d' = tokens ?r"
  have "R ?r (?r\<lparr>users := delete_where (\<lambda>r. u_id r = uid) (users ?r)\<rparr>)"
  proof (rule R_remove)
    fix v assume "distinct (map u_id (users ?r))" "v \<in> set (users ?r)" "u_id v = uid" and sup: "is_enabled_super v"
    then have "v = cur" using cur find_key [of u_id "users d" v] by (simp add: find_user_def)
    with sup guard show "count_where is_enabled_super (users ?r) > 1"
      by (simp add: is_enabled_super_def is_super_admin_def effective_role_def)
  qed
  moreover have "R (?r\<lparr>users := delete_where (\<lambda>r. u_id r = uid) (users ?r)\<rparr>) d'"
    by (rule R_same) (simp_all add: u t)
  ultimately show "R d d'" using R_revoke R_trans by blast
qed

lemma R_erase: "R d (snd (erase_user_id e p uid d))"
  by (rule R_same) (simp_all add: erase_user_id_def)

lemma R_delete_user: "R d (snd (delete_user ac e actor rid ou d))"
proof -
  have "R d1 (snd (case transaction (flt e) (delete_user_body ac e uid) d1 of
      (Inl er, d2) \<Rightarrow> (Inl er, d2) | (Inr i, d2) \<Rightarrow> (Inr (), snd (erase_user_id e (Outside 75) i d2))))" for d1 uid
  proof (cases "transaction (flt e) (delete_user_body ac e uid) d1")
    case (Pair r d2)
    have "R d1 d2" using R_transaction [of "delete_user_body ac e uid" d1 "flt e"] R_delete_body Pair by fastforce
    then show ?thesis using R_trans R_erase by (auto simp: Pair split: sum.splits)
  qed
  then show ?thesis
    by (auto simp: delete_user_def R_refl split: option.splits intro!: R_audited)
qed

lemma R_own:
  assumes "\<And>r. u_id (f r) = u_id r \<and> u_role (f r) = u_role r \<and> u_status (f r) = u_status r"
  shows "R d (snd (update_own e f u d))"
  using assms by (auto simp: update_own_def R_refl is_enabled_super_def intro!: R_keep)

lemma R_update_password: "R d (snd (update_password ac e actor rid ou password d))"
proof -
  have "R d2 d'" if "stmt (flt e) (Stmt 31) (let d3 = d2\<lparr>users := update_where (\<lambda>r. u_id r = u_id u)
        (\<lambda>r. r\<lparr>u_password := hash\<rparr>) (users d2)\<rparr>
      in ebind (bump_auth_version_and_revoke e (Stmt 32) (Stmt 33) (u_id u) ''password_changed'' d3) (\<lambda>d4.
         Inr ((before_save u)\<lparr>u_password := hash, u_auth_version := u_auth_version u + 1\<rparr>, d4))) = Inr (x, d')"
    for d2 d' x u hash
  proof -
    let ?d3 = "d2\<lparr>users := update_where (\<lambda>r. u_id r = u_id u) (\<lambda>r. r\<lparr>u_password := hash\<rparr>) (users d2)\<rparr>"
    have "bump_auth_version_and_revoke e (Stmt 32) (Stmt 33) (u_id u) ''password_changed'' ?d3 = Inr d'"
      using that by (auto simp: outcome_simps simp del: bump_eq_Inr)
    then have "R ?d3 d'" by (rule R_bump')
    moreover have "R d2 ?d3" by (rule R_keep) (simp_all add: is_enabled_super_def)
    ultimately show ?thesis using R_trans by blast
  qed
  then show ?thesis
    by (auto simp: update_password_def R_refl split: option.splits sum.splits intro!: R_audited R_transaction)
qed

lemma R_update_avatar: "R d (snd (update_avatar e ou rid avatar d))"
  by (auto simp: update_avatar_def R_refl split: option.splits intro!: R_audited R_own)

lemma R_update_profile: "R d (snd (update_current_profile e ou rid nickname email d))"
  by (auto simp: update_current_profile_def R_refl split: option.splits intro!: R_audited R_own)

lemma R_update_preferences: "R d (snd (update_preferences e ou language theme d))"
  by (auto simp: update_preferences_def R_refl split: option.splits intro!: R_own)

lemma R_flush_token: "R d (snd (flush_token e actor rid ou d))"
  by (auto simp: flush_token_def R_refl outcome_simps simp del: bump_eq_Inr split: option.splits
      intro!: R_audited R_transaction intro: R_bump')

lemma R_delete_token: "R d (snd (delete_token e actor rid ol d))"
  by (auto simp: delete_token_def R_refl R_revoke split: option.splits intro!: R_audited)

lemma R_batch_delete: "R d (snd (batch_delete_user_token e actor rid ids d))"
  by (auto simp: batch_delete_user_token_def R_refl R_revoke intro!: R_audited)

lemma R_flush_by_uuid: "R d (snd (flush_token_by_uuid e p uuid d))"
  by (simp add: flush_token_by_uuid_def R_refl R_revoke)

lemma R_flush_by_uuids: "R d (snd (flush_token_by_uuids e p uuids d))"
  by (simp add: flush_token_by_uuids_def R_refl R_revoke)

lemma R_replace_body:
  assumes "replace_body e admin s d = Inr (x, d')"
  shows "R d d'"
proof -
  from assms obtain d2 where b: "bump_auth_version_and_revoke e (Stmt 4) (Stmt 5) admin ''authorization_scope_changed'' d2 = Inr d'"
    and u: "users d2 = users d \<and> tokens d2 = tokens d"
    by (auto simp: replace_body_def outcome_simps Let_def create_scopes_def remove_admin_rows_def simp del: bump_eq_Inr
        split: option.splits if_splits)
  show ?thesis using R_same [of d2 d] u R_bump' [OF b] R_trans by metis
qed

lemma R_replace_scopes: "R d (snd (replace_scopes e actor admin rid requested d))"
  by (auto simp: replace_scopes_def R_refl split: option.splits sum.splits
      intro!: R_audited R_transaction intro: R_replace_body)

lemma R_maintenance_failed: "R d (snd (maintenance_failed e event fb r er d))"
  by (rule R_events) (auto simp: maintenance_failed_def finish_security_audit_def stmt_def split: sum.splits)

lemma R_maintenance_tx:
  assumes "\<And>d'. snd (body d) = Inr d' \<Longrightarrow> R d d'"
  shows "R d (snd (maintenance_tx e event code r body d))"
  using assms by (cases "body d") (auto simp: maintenance_tx_def R_maintenance_failed split: sum.splits)

lemma R_recover_body:
  assumes "snd (recover_body e opts event hash r d) = Inr d'"
  shows "R d d'"
  using assms
proof (rule recover_bodyE)
  fix user :: user_row and d1 d4 d6 :: db and ev c n
  let ?d2 = "d1\<lparr>users := update_where (\<lambda>u. u_id u = u_id user) (recover_row hash) (users d1)\<rparr>"
  let ?d3 = "remove_admin_rows (u_id user) ?d2"
  let ?d5 = "d4\<lparr>challenges := delete_where (\<lambda>c. ch_user_id c = u_id user) (challenges d4)\<rparr>"
  assume rw: "rewrite_security_audit_intent e (Stmt 2) event ''maintenance.admin.recovered''
      ([(''source'', MStr ''local_maintenance''), (''operation'', MStr ''administrator_recovery''),
        (''target_user_id'', MNum (int (u_id user))), (''target_username'', MStr (u_username user)),
        (''previous_role'', MRole (effective_role (Some user))), (''previous_status'', MNum (u_status user))]
       @ recover_metadata opts) d = Inr (ev, d1)"
    and tf: "recover_two_factor e (ro_reset_two_factor opts) (u_id user) ?d3 = Inr (c, d4)"
    and b: "bump_auth_version_and_revoke_count e (Stmt 8) (Stmt 9) (u_id user) ''local_administrator_recovery'' ?d5 = Inr (n, d6)"
    and f: "finish_security_audit_success_tx e (Stmt 10) event d6 = Inr d'"
  have "R d1 ?d2" by (rule R_keep) (simp_all add: recover_row_def is_enabled_super_def)
  moreover have "R ?d2 ?d3" by (rule R_same) (simp_all add: remove_admin_rows_def)
  moreover have "R ?d3 d4"
    by (rule R_same) (use tf in \<open>auto simp: recover_two_factor_def mfail_Inr reset_two_factor_rows_def outcome_simps split: if_splits\<close>)
  moreover have "R d4 ?d5" by (rule R_same) simp_all
  ultimately show "R d d'"
    using R_rewrite [OF rw] R_bump [OF b] R_finish_tx [OF f] R_trans by blast
qed

lemma R_reset_body:
  assumes "snd (reset_body e s event r d) = Inr d'"
  shows "R d d'"
  using assms
proof (rule reset_bodyE)
  fix user :: user_row and d1 d2 d4 :: db and ev c n
  let ?d3 = "d2\<lparr>challenges := delete_where (\<lambda>c. ch_user_id c = u_id user) (challenges d2)\<rparr>"
  assume rw: "rewrite_security_audit_intent e (Stmt 2) event ''maintenance.two_factor.reset''
      [(''source'', MStr ''local_maintenance''), (''operation'', MStr ''two_factor_reset''),
       (''target_user_id'', MNum (int (u_id user))), (''target_username'', MStr (u_username user)),
       (''revocation_reason'', MStr ''local_two_factor_reset'')] d = Inr (ev, d1)"
    and tf: "reset_two_factor_rows e (Stmt 5) (Stmt 6) (u_id user) d1 = Inr (c, d2)"
    and b: "bump_auth_version_and_revoke_count e (Stmt 8) (Stmt 9) (u_id user) ''local_two_factor_reset'' ?d3 = Inr (n, d4)"
    and f: "finish_security_audit_success_tx e (Stmt 10) event d4 = Inr d'"
  have "R d1 d2" by (rule R_same) (use tf in \<open>auto simp: reset_two_factor_rows_def outcome_simps\<close>)
  moreover have "R d2 ?d3" by (rule R_same) simp_all
  ultimately show "R d d'"
    using R_rewrite [OF rw] R_bump [OF b] R_finish_tx [OF f] R_trans by blast
qed

lemma R_recover: "R d (snd (recover_administrator ac schema e opts d))"
proof -
  have "R d1 (snd (maintenance_tx e event MaintenanceCodeRecoveryFailed r (recover_body e opts event hash r) d1))" for event r hash d1
    by (rule R_maintenance_tx) (rule R_recover_body)
  moreover have "begin_security_audit e 0 rid ac tt ti md d = Inr (ev, d1) \<Longrightarrow> R d d1" for rid ac tt ti md ev d1
    by (rule R_same) (auto simp: outcome_simps)
  ultimately show ?thesis
    using R_maintenance_failed R_trans
    by (auto simp: recover_administrator_def Let_def R_refl simp del: begin_eq_Inr split: option.splits sum.splits prod.splits; blast)
qed

lemma R_reset: "R d (snd (reset_two_factor_maintenance schema e s rid d))"
proof -
  have "R d1 (snd (maintenance_tx e event MaintenanceCodeTwoFactorResetFailed r (reset_body e s event r) d1))" for event r d1
    by (rule R_maintenance_tx) (rule R_reset_body)
  moreover have "begin_security_audit e 0 rid ac tt ti md d = Inr (ev, d1) \<Longrightarrow> R d d1" for rid ac tt ti md ev d1
    by (rule R_same) (auto simp: outcome_simps)
  ultimately show ?thesis
    using R_trans
    by (auto simp: reset_two_factor_maintenance_def Let_def R_refl simp del: begin_eq_Inr split: option.splits sum.splits prod.splits; blast)
qed

lemma R_map_to_local: "R d (snd (map_to_local_user ac e lu d))"
proof -
  have c: "R d (snd (transaction (flt e) (create_ldap_user_body e u provider subject) d))" for u provider subject
  proof (rule R_transaction)
    fix x d' assume "create_ldap_user_body e u provider subject d = Inr (x, d')"
    then obtain r d1 where i: "insert_user u d = Inr (r, d1)" and s: "users d' = users d1" "tokens d' = tokens d1"
      by (auto simp: create_ldap_user_body_def outcome_simps insert_ldap_identity_def split: if_splits)
    show "R d d'" using R_insert_user [OF i] R_same [OF s] R_trans by blast
  qed
  have u: "update_user ac e 0 [] (Some n) d = (r, d') \<Longrightarrow> R d d'" for n r d'
    using R_update_user [of d ac e 0 "[]" "Some n"] by simp
  have t: "transaction (flt e) (create_ldap_user_body e u provider subject) d = (r, d') \<Longrightarrow> R d d'" for u provider subject r d'
    using c [of u provider subject] by simp
  show ?thesis
    by (auto simp: map_to_local_user_def Let_def R_refl split: sum.splits prod.splits option.splits dest: u t)
qed

lemma R_ldap_authenticate: "R d (snd (ldap_authenticate ac e username password d))"
proof -
  have "map_to_local_user ac e lu d = (r, d') \<Longrightarrow> R d d'" for lu r d'
    using R_map_to_local [of d ac e lu] by simp
  then show ?thesis
    by (auto simp: ldap_authenticate_def Let_def R_refl split: sum.splits prod.splits option.splits)
qed

lemma R_sign_in: "R d (snd (info_by_username_password ac e username password d))"
proof -
  have k: "R d1 (d1\<lparr>users := update_where (\<lambda>x. u_id x = i) (\<lambda>x. x\<lparr>u_password := h\<rparr>) (users d1)\<rparr>)" for d1 i h
    by (rule R_keep) (simp_all add: is_enabled_super_def)
  have l: "ldap_authenticate ac e username password d = (r, d') \<Longrightarrow> R d d'" for r d'
    using R_ldap_authenticate [of d ac e username password] by simp
  show ?thesis
    by (auto simp: info_by_username_password_def Let_def R_refl intro: k R_trans [OF l k] split: sum.splits prod.splits option.splits dest: l)
qed

lemma R_register_linked: "R d (snd (register_linked ac e digits ou ty op existing d))"
proof -
  have "R d (snd (transaction (flt e) (register_oauth_body e u third) d))" for u third
  proof (rule R_transaction)
    fix x d' assume "register_oauth_body e u third d = Inr (x, d')"
    then obtain r d1 where i: "insert_user u d = Inr (r, d1)" and s: "users d' = users d1" "tokens d' = tokens d1"
      by (auto simp: register_oauth_body_def outcome_simps insert_third_def split: if_splits)
    show "R d d'" using R_insert_user [OF i] R_same [OF s] R_trans by blast
  qed
  then have t: "transaction (flt e) (register_oauth_body e u third) d = (r, d') \<Longrightarrow> R d d'" for u third r d'
    by (metis snd_conv)
  have i: "insert_third third d = Inr d' \<Longrightarrow> R d d'" for third d'
    by (rule R_same) (auto simp: insert_third_def split: if_splits)
  show ?thesis
    by (auto simp: register_linked_def Let_def R_refl split: sum.splits prod.splits option.splits dest: t i)
qed

lemma R_register_by_oauth: "R d (snd (register_by_oauth ac e digits ou op d))"
proof -
  have "R d (snd (get_user_info_by_email_local ac e email d))" for email
    by (auto simp: get_user_info_by_email_local_def R_refl R_map_to_local split: sum.splits)
  then have l: "get_user_info_by_email_local ac e email d = (r, d') \<Longrightarrow> R d d'" for email r d'
    by (metis snd_conv)
  show ?thesis
    by (auto simp: register_by_oauth_def Let_def R_refl R_register_linked
        split: sum.splits prod.splits option.splits if_splits dest: l intro: R_trans R_register_linked)
qed

lemma R_bind_login: "R d (snd (bind_login_identity e device_id uuid uid d))"
proof (rule R_same)
  have "bind_login_body e i uuid uid d = Inr (x, d') \<Longrightarrow> users d' = users d \<and> tokens d' = tokens d" for i x d'
    by (auto simp: bind_login_body_def outcome_simps Let_def update_peer_row_def create_peer_row_def
        split: list.splits if_splits)
  then have "users (snd (transaction f (bind_login_body e i uuid uid) d)) = users d \<and>
      tokens (snd (transaction f (bind_login_body e i uuid uid) d)) = tokens d" for f i
    by (rule_tac transaction_cases [of f "bind_login_body e i uuid uid" d]) auto
  then show "users (snd (bind_login_identity e device_id uuid uid d)) = users d"
    "tokens (snd (bind_login_identity e device_id uuid uid d)) = tokens d"
    by (auto simp: bind_login_identity_def Let_def)
qed

lemma R_initialize: "initialize_auth_version e u d = Inr (u', d') \<Longrightarrow> R d d'"
  by (auto simp: initialize_auth_version_def R_refl outcome_simps is_enabled_super_def split: if_splits intro!: R_keep)

lemma R_persist: "R d (snd (persist_issued_token sv e ou ollog issued d))"
proof -
  have "R d (snd (transaction (flt e) (persist_body e (issued_row sv u llog issued) llog) d))" for u llog
  proof (rule R_transaction)
    fix x d' assume "persist_body e (issued_row sv u llog issued) llog d = Inr (x, d')"
    then obtain d1 where c: "create_token_row ((issued_row sv u llog issued)\<lparr>t_id := next_id t_id (tokens d)\<rparr>) d = Inr d1"
      and s: "users d' = users d1" "tokens d' = tokens d1"
      by (auto simp: persist_body_def outcome_simps Let_def)
    have "R d d1"
      using c R_login [of "(issued_row sv u llog issued)\<lparr>t_id := next_id t_id (tokens d)\<rparr>" d]
      by (auto simp: create_token_row_def issued_row_def split: if_splits)
    then show "R d d'" using R_same [OF s] R_trans by blast
  qed
  then have t: "transaction (flt e) (persist_body e (issued_row sv u llog issued) llog) d = (r, d') \<Longrightarrow> R d d'" for u llog r d'
    by (metis snd_conv)
  show ?thesis
    by (auto simp: persist_issued_token_def Let_def R_refl split: sum.splits prod.splits option.splits dest: t
        intro: R_trans [OF t R_bind_login])
qed

lemma R_generate: "generate_token_for_client sv e ou client d = (r, d') \<Longrightarrow> R d d'"
  by (auto simp: generate_token_for_client_def Let_def R_refl split: sum.splits prod.splits option.splits dest: R_initialize)

lemma R_login_op: "R d (snd (login sv e ou ollog d))"
  by (auto simp: login_def Let_def split: sum.splits prod.splits dest: R_generate intro: R_trans [OF R_generate R_persist])

lemma R_login_connection: "R d (snd (login_connection sv e ou ollog ttl d))"
  by (auto simp: login_connection_def R_refl split: sum.splits prod.splits option.splits dest: R_initialize
      intro: R_trans [OF R_initialize R_persist])

lemma R_logout: "R d (snd (logout sv e ou token d))"
proof -
  have u: "R d1 (uuid_unbind_user_id e uuid uid d1)" for uuid uid d1
    by (rule R_same) (auto simp: uuid_unbind_user_id_def update_peer_row_def split: option.splits)
  show ?thesis
    by (auto simp: logout_def Let_def R_refl R_revoke split: option.splits intro: R_trans [OF R_revoke u])
qed

lemma R_delete_rows: "R d (snd (transaction flt' (delete_rows_body e has key ids) d))"
  by (rule R_transaction, rule R_same)
    (auto simp: delete_rows_body_def remove_resource_scopes_def outcome_simps split: if_splits)

lemma R_delete_peer: "R d (snd (delete_peer e has u d))"
  using R_delete_rows [of d "flt e" e has "p_row_id u \<noteq> 0" "[p_row_id u]"]
  by (auto simp: delete_peer_def split: sum.splits prod.splits intro: R_trans [OF _ R_flush_by_uuid])

lemma R_batch_delete_peers: "R d (snd (batch_delete_peers e has ids d))"
  using R_delete_rows [of d "flt e" e has True ids]
  by (auto simp: batch_delete_peers_def R_refl split: sum.splits prod.splits intro: R_trans [OF _ R_flush_by_uuids])

end

section \<open>The step relation\<close>

inductive account_step :: "db \<Rightarrow> db \<Rightarrow> bool" where
  Create: "account_step d (snd (create_user_context ac e actor rid ou d))"
| Register: "account_step d (snd (register ac e username email password status d))"
| Update: "account_step d (snd (update_user ac e actor rid ou d))"
| Delete: "account_step d (snd (delete_user ac e actor rid ou d))"
| Password: "account_step d (snd (update_password ac e actor rid ou password d))"
| Avatar: "account_step d (snd (update_avatar e ou rid avatar d))"
| Profile: "account_step d (snd (update_current_profile e ou rid nickname email d))"
| Preferences: "account_step d (snd (update_preferences e ou language theme d))"
| Flush: "account_step d (snd (flush_token e actor rid ou d))"
| Delete_token: "account_step d (snd (delete_token e actor rid ol d))"
| Batch_delete_token: "account_step d (snd (batch_delete_user_token e actor rid ids d))"
| Scopes: "account_step d (snd (replace_scopes e actor admin rid requested d))"
| Recover: "account_step d (snd (recover_administrator ac schema e opts d))"
| Reset: "account_step d (snd (reset_two_factor_maintenance schema e sel rid d))"
| Sign_in: "account_step d (snd (info_by_username_password ac e username password d))"
| Oauth: "account_step d (snd (register_by_oauth ac e digits oauth op d))"
| Login: "account_step d (snd (login sv e ou ollog d))"
| Login_connection: "account_step d (snd (login_connection sv e ou ollog ttl d))"
| Logout: "account_step d (snd (logout sv e ou token d))"
| Delete_peer: "account_step d (snd (delete_peer e has_scopes p d))"
| Delete_peers: "account_step d (snd (batch_delete_peers e has_scopes ids d))"

context account_relation
begin

lemma step_R: "account_step d d' \<Longrightarrow> R d d'"
  by (induction rule: account_step.induct)
    (rule R_create_user_context R_register R_update_user R_delete_user R_update_password R_update_avatar R_update_profile
      R_update_preferences R_flush_token R_delete_token R_batch_delete R_replace_scopes R_recover R_reset R_sign_in
      R_register_by_oauth R_login_op R_login_connection R_logout R_delete_peer R_batch_delete_peers)+

lemma steps_R: "account_step\<^sup>*\<^sup>* d d' \<Longrightarrow> R d d'"
  by (induction rule: rtranclp_induct) (auto intro: R_refl R_trans step_R)

end

section \<open>Two such relations\<close>

definition keeps_super :: "db \<Rightarrow> db \<Rightarrow> bool" where
  "keeps_super d d' \<longleftrightarrow> distinct (map u_id (users d)) \<longrightarrow> distinct (map u_id (users d')) \<and>
     ((\<exists>u \<in> set (users d). is_enabled_super u) \<longrightarrow> (\<exists>u \<in> set (users d'). is_enabled_super u))"

lemma other_super:
  assumes "distinct (map u_id t)" and "count_where is_enabled_super t > 1"
  shows "\<exists>u \<in> set t. u_id u \<noteq> uid \<and> is_enabled_super u"
proof (rule ccontr)
  assume "\<not> (\<exists>u \<in> set t. u_id u \<noteq> uid \<and> is_enabled_super u)"
  then have "count_where is_enabled_super t \<le> count_where (\<lambda>u. u_id u = uid) t"
    by (intro count_where_mono) auto
  with count_key_le_1 [OF assms(1), of uid] assms(2) show False by simp
qed

interpretation super: account_relation keeps_super
proof
  fix f :: "user_row \<Rightarrow> user_row" and d :: db and uid
  assume id: "\<And>u. u_id (f u) = u_id u"
    and g: "\<And>u. distinct (map u_id (users d)) \<Longrightarrow> u \<in> set (users d) \<Longrightarrow> u_id u = uid \<Longrightarrow> is_enabled_super u \<Longrightarrow>
      is_enabled_super (f u) \<or> count_where is_enabled_super (users d) > 1"
  show "keeps_super d (d\<lparr>users := update_where (\<lambda>u. u_id u = uid) f (users d)\<rparr>)"
    unfolding keeps_super_def
  proof (intro impI conjI)
    assume dist: "distinct (map u_id (users d))"
    then show "distinct (map u_id (users (d\<lparr>users := update_where (\<lambda>u. u_id u = uid) f (users d)\<rparr>)))"
      by (simp add: map_update_where id)
    assume "\<exists>u \<in> set (users d). is_enabled_super u"
    then obtain u where u: "u \<in> set (users d)" "is_enabled_super u" by blast
    show "\<exists>u \<in> set (users (d\<lparr>users := update_where (\<lambda>u. u_id u = uid) f (users d)\<rparr>)). is_enabled_super u"
      using u g [OF dist u(1) _ u(2)] other_super [OF dist, of uid] by (cases "u_id u = uid") (auto simp: set_update_where)
  qed
next
  fix d :: db and uid
  assume g: "\<And>u. distinct (map u_id (users d)) \<Longrightarrow> u \<in> set (users d) \<Longrightarrow> u_id u = uid \<Longrightarrow> is_enabled_super u \<Longrightarrow>
      count_where is_enabled_super (users d) > 1"
  show "keeps_super d (d\<lparr>users := delete_where (\<lambda>u. u_id u = uid) (users d)\<rparr>)"
    unfolding keeps_super_def
  proof (intro impI conjI)
    assume dist: "distinct (map u_id (users d))"
    then show "distinct (map u_id (users (d\<lparr>users := delete_where (\<lambda>u. u_id u = uid) (users d)\<rparr>)))"
      by (simp add: distinct_map_delete_where)
    assume "\<exists>u \<in> set (users d). is_enabled_super u"
    then obtain u where u: "u \<in> set (users d)" "is_enabled_super u" by blast
    show "\<exists>u \<in> set (users (d\<lparr>users := delete_where (\<lambda>u. u_id u = uid) (users d)\<rparr>)). is_enabled_super u"
      using u g [OF dist u(1) _ u(2)] other_super [OF dist, of uid] by (cases "u_id u = uid") (auto simp: set_delete_where)
  qed
qed (auto simp: keeps_super_def)

text \<open>A token hash is dead when a row carries it and every such row is revoked.\<close>

definition dead_hash :: "string \<Rightarrow> db \<Rightarrow> bool" where
  "dead_hash h d \<longleftrightarrow> (\<exists>r \<in> set (tokens d). t_hash r = Some h) \<and>
     (\<forall>r \<in> set (tokens d). t_hash r = Some h \<longrightarrow> t_revoked_at r \<noteq> None)"

lemma dead_hash_users [simp]: "dead_hash h (d\<lparr>users := us\<rparr>) = dead_hash h d"
  by (simp add: dead_hash_def)

lemma dead_hash_cong: "tokens d' = tokens d \<Longrightarrow> dead_hash h d' = dead_hash h d"
  by (simp add: dead_hash_def)

definition revocation_final :: "db \<Rightarrow> db \<Rightarrow> bool" where
  "revocation_final d d' \<longleftrightarrow> (\<forall>h. dead_hash h d \<longrightarrow> dead_hash h d')"

interpretation final: account_relation revocation_final
proof
  fix d P t reason
  show "revocation_final d (revoke_where P t reason d)"
    by (auto simp: revocation_final_def dead_hash_def revoke_where_tokens)
next
  fix k :: token_row and d :: db
  assume k: "t_hash k \<noteq> None" "t_hash k \<notin> t_hash ` set (tokens d)"
  show "revocation_final d (d\<lparr>tokens := tokens d @ [k]\<rparr>)"
    unfolding revocation_final_def dead_hash_def
  proof (intro allI impI conjI ballI)
    fix h r
    assume h: "(\<exists>r \<in> set (tokens d). t_hash r = Some h) \<and> (\<forall>r \<in> set (tokens d). t_hash r = Some h \<longrightarrow> t_revoked_at r \<noteq> None)"
    then show "\<exists>r \<in> set (tokens (d\<lparr>tokens := tokens d @ [k]\<rparr>)). t_hash r = Some h" by auto
    assume "r \<in> set (tokens (d\<lparr>tokens := tokens d @ [k]\<rparr>))" "t_hash r = Some h"
    then show "t_revoked_at r \<noteq> None" using h k(2) by (auto simp: image_iff)
  qed
qed (auto simp: revocation_final_def dest: dead_hash_cong)

end
