(* ===== verification/AccountClaims.thy ===== *)
theory AccountClaims
  imports AccountProps AdminScopeProps
begin

text \<open>
  The properties of accounts: the last enabled super administrator, the finality of a revocation, which
  changes of an account end its sessions, what a failed operation leaves behind, and what a recovery does.
\<close>

section \<open>Runs\<close>

text \<open>C4: The platform cannot lose its last enabled super administrator through the account services: once
  there is one, there is one after any sequence of creations, updates, removals, sign-ins (LDAP synchronisation
  included), grants, recoveries and logouts, in any order, with any arguments and whatever statements fail.\<close>

theorem enabled_super_admin_survives:
  assumes "account_step\<^sup>*\<^sup>* d d'" and "distinct (map u_id (users d))"
    and "u \<in> set (users d)" and "u_role u = RoleSuperAdmin" and "u_status u = COMMON_STATUS_ENABLE"
  shows "\<exists>u' \<in> set (users d'). u_role u' = RoleSuperAdmin \<and> u_status u' = COMMON_STATUS_ENABLE"
  using super.steps_R [OF assms(1)] assms(2-5) by (auto simp: keeps_super_def is_enabled_super_def)

text \<open>C11: A revocation is final: once every row of a token is revoked, no later sequence of operations, new
  logins of any user included, makes the API accept that token again, whatever the time, the audience and the
  scope.  (Legacy reading is off.)\<close>

theorem revoked_token_stays_dead:
  assumes "account_step\<^sup>*\<^sup>* d d'" and "dead_hash (token_hash_hex (sv_sha sv) token) d" and "\<not> legacy_read sv"
  shows "authenticate_access_token sv e token audience required_scope d' \<noteq> Inr x"
proof -
  have "dead_hash (token_hash_hex (sv_sha sv) token) d'"
    using final.steps_R [OF assms(1)] assms(2) by (simp add: revocation_final_def)
  then have "dead_token sv token d'"
    using assms(3) by (auto simp: dead_token_def names_token_def dead_hash_def)
  then show ?thesis by (rule dead_token_refused)
qed

section \<open>Changes that end sessions\<close>

definition ends_sessions :: "nat \<Rightarrow> db \<Rightarrow> db \<Rightarrow> bool" where
  "ends_sessions uid d d' \<longleftrightarrow> no_live_token uid d' \<and> (\<forall>r \<in> set (tokens d). t_user_id r \<noteq> uid \<longrightarrow> r \<in> set (tokens d'))"

lemma ends_revoke:
  "tokens d' = tokens (revoke_where (\<lambda>r. t_user_id r = uid) t reason d) \<Longrightarrow> ends_sessions uid d d'"
  unfolding ends_sessions_def
proof (intro conjI ballI impI)
  assume t: "tokens d' = tokens (revoke_where (\<lambda>r. t_user_id r = uid) t reason d)"
  show "no_live_token uid d'"
    using revoke_where_none [of uid "\<lambda>r. t_user_id r = uid" t reason d] by (simp add: no_live_token_def t)
  fix r assume "r \<in> set (tokens d)" "t_user_id r \<noteq> uid"
  then have "r \<in> (\<lambda>r. if t_user_id r = uid \<and> t_revoked_at r = None then revoke_row t reason r else r) ` set (tokens d)"
    by (intro rev_image_eqI) auto
  then show "r \<in> set (tokens d')" by (simp only: t revoke_where_tokens)
qed

lemma ends_bump_count:
  "bump_auth_version_and_revoke_count e p1 p2 uid reason d1 = Inr (n, d') \<Longrightarrow> tokens d1 = tokens d \<Longrightarrow> ends_sessions uid d d'"
  by (rule ends_revoke [where t = "now e" and reason = reason]) (auto simp: bump_count_eq_Inr revoke_where_def)

lemma ends_bump:
  "bump_auth_version_and_revoke e p1 p2 uid reason d1 = Inr d' \<Longrightarrow> tokens d1 = tokens d \<Longrightarrow> ends_sessions uid d d'"
  by (rule ends_revoke [where t = "now e" and reason = reason]) (auto simp: bump_eq_Inr revoke_where_def)

lemma ends_tokens: "ends_sessions uid d d' \<Longrightarrow> tokens d0 = tokens d \<Longrightarrow> tokens d1 = tokens d' \<Longrightarrow> ends_sessions uid d0 d1"
  by (simp add: ends_sessions_def no_live_token_def)

text \<open>From a successful audited operation to its body.\<close>

lemma audited_ends:
  assumes "audited e actor rid action tt ti md fc op d = (Inr x, d')"
    and "\<And>event d1 d2. op event d1 = (Inr x, d2) \<Longrightarrow> users d1 = users d \<Longrightarrow> ends_sessions uid d1 d2"
  shows "ends_sessions uid d d'"
  using assms(1)
proof (rule audited_eq_InrE)
  fix event d1 d2
  assume o: "op event d1 = (Inr x, d2)" and d1: "d1 = d\<lparr>events := events d @ [event]\<rparr>" and s: "same_but_events d2 d'"
  have "ends_sessions uid d1 d2" by (rule assms(2) [OF o]) (simp add: d1)
  then show ?thesis by (rule ends_tokens) (simp_all add: d1 same_but_events_fields [OF s])
qed

lemma update_password_ends:
  assumes "update_password ac e actor rid (Some u) password d = (Inr v, d')"
  shows "ends_sessions (u_id u) d d'"
proof -
  from assms have a: "audited e actor rid ''auth.password.changed'' ''user'' (decimal (u_id u))
      [(''revocation_reason'', MStr ''password_changed'')] ''AUTH_PASSWORD_CHANGE_FAILED''
      (\<lambda>_ d1. case encrypt_password ac password of Inl er \<Rightarrow> (Inl er, d1)
         | Inr hash \<Rightarrow> transaction (flt e) (\<lambda>d2. stmt (flt e) (Stmt 31) (
             let d3 = d2\<lparr>users := update_where (\<lambda>r. u_id r = u_id u) (\<lambda>r. r\<lparr>u_password := hash\<rparr>) (users d2)\<rparr>
             in ebind (bump_auth_version_and_revoke e (Stmt 32) (Stmt 33) (u_id u) ''password_changed'' d3) (\<lambda>d4.
                Inr ((before_save u)\<lparr>u_password := hash, u_auth_version := u_auth_version u + 1\<rparr>, d4)))) d1) d = (Inr v, d')"
    by (auto simp: update_password_def found_def split: if_splits)
  show ?thesis
    by (rule audited_ends [OF a])
      (auto simp: transaction_eq_Inr ebind_eq_Inr stmt_eq_Inr Let_def split: sum.splits intro: ends_bump)
qed

lemma update_user_ends:
  assumes op: "update_user ac e actor rid (Some u) d = (Inr v, d')" and cur: "find_user (u_id u) d = Some cur"
    and change: "requested_role (effective_role (Some cur)) u \<noteq> effective_role (Some cur) \<or>
      (u_status cur = COMMON_STATUS_ENABLE \<and> u_status u = COMMON_STATUS_DISABLED)"
  shows "ends_sessions (u_id u) d d'"
proof -
  from op have a: "audited e actor rid ''auth.user.update_requested'' ''user'' (decimal (u_id u))
      [(''requested_role'', MRole (u_role u)), (''requested_status'', MNum (u_status u))] (update_failure_code e u d)
      (\<lambda>event. transaction (flt e) (update_user_body ac e u event)) d = (Inr v, d')"
    by (auto simp: update_user_def found_def split: if_splits)
  show ?thesis
  proof (rule audited_ends [OF a])
    fix event d1 d2
    assume t: "transaction (flt e) (update_user_body ac e u event) d1 = (Inr v, d2)" and us: "users d1 = users d"
    then have "update_user_body ac e u event d1 = Inr (v, d2)" by (simp add: transaction_eq_Inr)
    then show "ends_sessions (u_id u) d1 d2"
    proof (rule update_user_bodyE)
      fix b1 cur' ev b2 b3 b4
      assume acq: "acquire_enabled_admin_invariant e (Stmt 1) d1 = Inr b1" and c: "find_user (u_id u) b1 = Some cur'"
        and rw: "rewrite_security_audit_intent e (Stmt 3) event (up_action (plan_update cur' u))
           [(''from_role'', MRole (up_from_role (plan_update cur' u))), (''to_role'', MRole (up_to_role (plan_update cur' u))),
            (''from_status'', MNum (u_status cur')), (''to_status'', MNum (u_status u))] b1 = Inr (ev, b2)"
        and up: "update_user_row (up_user (plan_update cur' u)) b2 = Inr b3"
        and sc: "update_scopes ac e (plan_update cur' u) (u_id u) b3 = Inr b4"
        and se: "update_sessions e (plan_update cur' u) (u_id u) b4 = Inr d2"
      have b1: "users b1 = users d1 \<and> tokens b1 = tokens d1" using acq by (auto simp: acquire_Inr)
      then have "cur' = cur" using c cur us by (simp add: find_user_def)
      then have "up_will_disable (plan_update cur' u) \<or> up_role_changed (plan_update cur' u)"
        using change by (auto simp: plan_update_def Let_def split: prod.splits)
      then have "bump_auth_version_and_revoke e (Stmt 8) (Stmt 9) (u_id u)
          (if up_role_changed (plan_update cur' u) then ''authorization_changed'' else ''user_disabled'') b4 = Inr d2"
        using se by (auto simp: update_sessions_def simp del: bump_eq_Inr split: if_splits)
      moreover have "tokens b4 = tokens b3"
        using sc by (auto simp: update_scopes_def remove_administrator_scopes_def remove_resource_scopes_def
            remove_admin_rows_def outcome_simps split: if_splits)
      moreover have "tokens b3 = tokens b2" using up by (auto simp: update_user_row_def split: if_splits)
      moreover have "tokens b2 = tokens b1"
        using rw by (auto simp: rewrite_security_audit_intent_def outcome_simps Let_def split: if_splits)
      ultimately show ?thesis using b1 by (auto intro: ends_bump)
    qed
  qed
qed

lemma delete_body_ends: "delete_user_body ac e uid d = Inr (x, d') \<Longrightarrow> x = uid \<and> ends_sessions uid d d'"
  by (erule delete_user_bodyE) (simp add: ends_revoke)

lemma delete_user_ends:
  assumes "delete_user ac e actor rid (Some u) d = (Inr v, d')"
  shows "ends_sessions (u_id u) d d'"
proof -
  from assms have a: "audited e actor rid ''auth.user.deleted'' ''user'' (decimal (u_id u))
      [(''revocation_reason'', MStr ''user_deleted'')] ''AUTH_USER_DELETE_FAILED''
      (\<lambda>_ d1. case transaction (flt e) (delete_user_body ac e (u_id u)) d1 of
          (Inl er, d2) \<Rightarrow> (Inl er, d2)
        | (Inr uid, d2) \<Rightarrow> (Inr (), snd (erase_user_id e (Outside 75) uid d2))) d = (Inr v, d')"
    by (auto simp: delete_user_def found_def split: if_splits)
  show ?thesis
  proof (rule audited_ends [OF a])
    fix event d1 d2
    assume "(case transaction (flt e) (delete_user_body ac e (u_id u)) d1 of
        (Inl er, d2) \<Rightarrow> (Inl er, d2)
      | (Inr uid, d2) \<Rightarrow> (Inr (), snd (erase_user_id e (Outside 75) uid d2))) = (Inr v, d2)"
    then obtain x b where b: "delete_user_body ac e (u_id u) d1 = Inr (x, b)" and d2: "tokens d2 = tokens b"
      by (auto simp: transaction_eq_Inr erase_user_id_def split: sum.splits prod.splits)
    show "ends_sessions (u_id u) d1 d2" using delete_body_ends [OF b] d2 ends_tokens by blast
  qed
qed

lemma flush_token_ends:
  assumes "flush_token e actor rid (Some u) d = (Inr v, d')" and "u_id u \<noteq> 0"
  shows "ends_sessions (u_id u) d d'"
proof -
  from assms have a: "audited e actor rid ''auth.sessions.global_revoked'' ''user'' (decimal (u_id u))
     [(''revocation_reason'', MStr ''global_logout'')] ''AUTH_GLOBAL_REVOCATION_FAILED''
     (\<lambda>_. transaction (flt e) (\<lambda>d1. ebind (bump_auth_version_and_revoke e (Stmt 1) (Stmt 2) (u_id u) ''global_logout'' d1)
       (\<lambda>d2. Inr (Some (u\<lparr>u_auth_version := u_auth_version u + 1\<rparr>), d2)))) d = (Inr v, d')"
    by (simp add: flush_token_def)
  show ?thesis
    by (rule audited_ends [OF a]) (auto simp: transaction_eq_Inr ebind_eq_Inr intro: ends_bump)
qed

text \<open>C25: Changes that take something away from an account end its sessions: when a password change, a
  change of role, the disabling of the account, its removal or a global logout succeeds, not one session of
  that user is left unrevoked, and no session of anyone else is touched.\<close>

theorem account_changes_end_sessions:
  "(update_password ac e actor rid (Some u) password d = (Inr v, d') \<longrightarrow> ends_sessions (u_id u) d d') \<and>
   (update_user ac e actor rid (Some u) d = (Inr (), d') \<and> find_user (u_id u) d = Some cur \<and>
      (requested_role (effective_role (Some cur)) u \<noteq> effective_role (Some cur) \<or>
       (u_status cur = COMMON_STATUS_ENABLE \<and> u_status u = COMMON_STATUS_DISABLED)) \<longrightarrow> ends_sessions (u_id u) d d') \<and>
   (delete_user ac e actor rid (Some u) d = (Inr (), d') \<longrightarrow> ends_sessions (u_id u) d d') \<and>
   (flush_token e actor rid (Some u) d = (Inr w, d') \<and> u_id u \<noteq> 0 \<longrightarrow> ends_sessions (u_id u) d d')"
  by (intro conjI impI; (elim conjE)?)
    (erule update_password_ends update_user_ends delete_user_ends flush_token_ends; assumption)+

section \<open>What an update writes\<close>

definition bump_version :: "user_row \<Rightarrow> user_row" where
  "bump_version r = r\<lparr>u_auth_version := u_auth_version r + 1\<rparr>"

lemma update_where_comp:
  assumes "\<And>r. P (f r) = P r"
  shows "update_where P g (update_where P f t) = update_where P (\<lambda>r. g (f r)) t"
  using assms by (induction t) auto

lemma patch_user_id: "u_id (patch_user n r) = u_id r"
  by (simp add: patch_user_def)

lemma update_user_users:
  assumes op: "update_user ac e actor rid (Some u) d = (Inr v, d')" and cur: "find_user (u_id u) d = Some cur"
  shows "users d' = update_where (\<lambda>r. u_id r = u_id u)
    (\<lambda>r. (if up_will_disable (plan_update cur u) \<or> up_role_changed (plan_update cur u) then bump_version else id)
       (patch_user (up_user (plan_update cur u)) r)) (users d)"
proof -
  from op have "audited e actor rid ''auth.user.update_requested'' ''user'' (decimal (u_id u))
      [(''requested_role'', MRole (u_role u)), (''requested_status'', MNum (u_status u))] (update_failure_code e u d)
      (\<lambda>event. transaction (flt e) (update_user_body ac e u event)) d = (Inr v, d')"
    by (auto simp: update_user_def found_def split: if_splits)
  then obtain event d1 d2 where t: "transaction (flt e) (update_user_body ac e u event) d1 = (Inr v, d2)"
    and d1: "users d1 = users d" and d2: "users d' = users d2"
    by (rule audited_eq_InrE) (auto simp: same_but_events_fields)
  from t have "update_user_body ac e u event d1 = Inr (v, d2)" by (simp add: transaction_eq_Inr)
  then show ?thesis
  proof (rule update_user_bodyE)
    fix b1 cur' ev b2 b3 b4
    let ?pl = "plan_update cur' u"
    assume acq: "acquire_enabled_admin_invariant e (Stmt 1) d1 = Inr b1" and c: "find_user (u_id u) b1 = Some cur'"
      and rw: "rewrite_security_audit_intent e (Stmt 3) event (up_action ?pl)
         [(''from_role'', MRole (up_from_role ?pl)), (''to_role'', MRole (up_to_role ?pl)),
          (''from_status'', MNum (u_status cur')), (''to_status'', MNum (u_status u))] b1 = Inr (ev, b2)"
      and up: "update_user_row (up_user ?pl) b2 = Inr b3"
      and sc: "update_scopes ac e ?pl (u_id u) b3 = Inr b4"
      and se: "update_sessions e ?pl (u_id u) b4 = Inr d2"
    have b1: "users b1 = users d1" using acq by (auto simp: acquire_Inr)
    then have cur': "cur' = cur" using c cur d1 by (simp add: find_user_def)
    have b2: "users b2 = users b1"
      using rw by (auto simp: rewrite_security_audit_intent_def outcome_simps Let_def split: if_splits)
    have b3: "users b3 = update_where (\<lambda>r. u_id r = u_id u) (patch_user (up_user ?pl)) (users b2)"
      using up by (auto simp: update_user_row_def plan_update_up split: if_splits)
    have b4: "users b4 = users b3"
      using sc by (auto simp: update_scopes_def remove_administrator_scopes_def remove_resource_scopes_def
          remove_admin_rows_def outcome_simps split: if_splits)
    have "users d2 = (if up_will_disable ?pl \<or> up_role_changed ?pl
        then update_where (\<lambda>r. u_id r = u_id u) bump_version (users b4) else users b4)"
      using se by (auto simp: update_sessions_def bump_eq_Inr bump_version_def [abs_def] split: if_splits)
    then show ?thesis
      by (simp add: d2 b4 b3 b2 b1 d1 cur' update_where_comp patch_user_id)
  qed
qed

section \<open>Failures\<close>

lemma transaction_Inl_same: "transaction f b s = (Inl er, s') \<Longrightarrow> same_but_events s s'"
  using transaction_Inl_state by fastforce

lemma audited_tx_same:
  assumes "audited e actor rid action tt ti md fc (\<lambda>event. transaction (flt e) (body event)) d = (Inl er, d')" and "\<not> flt e AuditEnd"
  shows "same_but_events d d'"
  by (rule audited_Inl_same [OF _ assms]) (rule transaction_Inl_same)

lemma update_user_failed:
  "update_user ac e actor rid ou d = (Inl er, d') \<Longrightarrow> \<not> flt e AuditEnd \<Longrightarrow> same_but_events d d'"
  by (auto simp: update_user_def split: option.splits if_splits intro: audited_tx_same)

lemma delete_user_failed:
  "delete_user ac e actor rid ou d = (Inl er, d') \<Longrightarrow> \<not> flt e AuditEnd \<Longrightarrow> same_but_events d d'"
  by (auto simp: delete_user_def split: option.splits if_splits elim!: audited_Inl_same [rotated]
      dest: transaction_Inl_same split: sum.splits prod.splits)

lemma update_password_failed:
  "update_password ac e actor rid ou password d = (Inl er, d') \<Longrightarrow> \<not> flt e AuditEnd \<Longrightarrow> same_but_events d d'"
  by (auto simp: update_password_def split: option.splits if_splits elim!: audited_Inl_same [rotated]
      dest: transaction_Inl_same split: sum.splits)

lemma create_user_failed:
  "create_user_context ac e actor rid ou d = (Inl er, d') \<Longrightarrow> \<not> flt e AuditEnd \<Longrightarrow> same_but_events d d'"
  by (auto simp: create_user_context_def create_user_def Let_def split: option.splits elim!: audited_Inl_same [rotated]
      split: sum.splits if_splits prod.splits)

lemma flush_token_failed:
  "flush_token e actor rid ou d = (Inl er, d') \<Longrightarrow> \<not> flt e AuditEnd \<Longrightarrow> same_but_events d d'"
  by (auto simp: flush_token_def split: option.splits if_splits intro: audited_tx_same)

lemma replace_scopes_failed:
  "replace_scopes e actor admin rid requested d = (Inl er, d') \<Longrightarrow> \<not> flt e AuditEnd \<Longrightarrow> same_but_events d d'"
  by (auto simp: replace_scopes_def split: option.splits sum.splits if_splits intro: audited_tx_same)

text \<open>An account operation that reports an error has changed nothing but the audit trail, whichever
  statement failed, the commit included (as long as the result of the audit record itself can be written).\<close>

theorem failed_account_operation_changes_nothing:
  assumes "\<not> flt e AuditEnd"
    and "update_user ac e actor rid ou d = (Inl er, d') \<or> delete_user ac e actor rid ou d = (Inl er, d') \<or>
      update_password ac e actor rid ou password d = (Inl er, d') \<or> create_user_context ac e actor rid ou d = (Inl er2, d') \<or>
      flush_token e actor rid ou d = (Inl er, d') \<or> replace_scopes e actor admin rid requested d = (Inl er, d')"
  shows "same_but_events d d'"
  using assms(2) update_user_failed [OF _ assms(1)] delete_user_failed [OF _ assms(1)] update_password_failed [OF _ assms(1)]
    create_user_failed [OF _ assms(1)] flush_token_failed [OF _ assms(1)] replace_scopes_failed [OF _ assms(1)]
  by (elim disjE) blast+

section \<open>Recovery\<close>

lemma maintenance_failed_same:
  "maintenance_failed e event fb r er d = (out, d') \<Longrightarrow> same_but_events d d' \<and> snd out \<noteq> None"
  by (auto simp: maintenance_failed_def finish_security_audit_def stmt_def split: sum.splits if_splits)

lemma maintenance_txE:
  assumes "maintenance_tx e event code r body d = ((r', oe), d')"
  shows "(oe \<noteq> None \<and> same_but_events d d') \<or> (oe = None \<and> snd (body d) = Inr d')"
  using assms maintenance_failed_same
  by (cases "body d") (fastforce simp: maintenance_tx_def split: if_splits sum.splits)

text \<open>The account the operator named, and what a recovery makes of the database.\<close>

definition selected :: "selector \<Rightarrow> user_row \<Rightarrow> bool" where
  "selected s u \<longleftrightarrow> (if se_user_id s \<noteq> 0 then u_id u = se_user_id s else u_username u = se_username s) \<and>
     u_username u = se_confirm s"

definition recovered :: "user_row \<Rightarrow> bool \<Rightarrow> string \<Rightarrow> db \<Rightarrow> db \<Rightarrow> bool" where
  "recovered u reset hash d d' \<longleftrightarrow>
     users d' = update_where (\<lambda>r. u_id r = u_id u) (\<lambda>r. bump_version (recover_row hash r)) (users d) \<and>
     ends_sessions (u_id u) d d' \<and>
     scopes d' = delete_where (\<lambda>r. sc_admin r = u_id u) (scopes d) \<and>
     two_factors d' = (if reset then delete_where (\<lambda>r. tf_user_id r = u_id u) (two_factors d) else two_factors d) \<and>
     challenges d' = delete_where (\<lambda>c. ch_user_id c = u_id u) (challenges d)"

lemma recover_body_recovered:
  assumes "snd (recover_body e opts event hash r d) = Inr d'"
  shows "\<exists>u \<in> set (users d). selected (ro_selector opts) u \<and> recovered u (ro_reset_two_factor opts) hash d d' \<and>
    (\<exists>ev \<in> set (events d'). ev_id ev = ev_id event \<and> ev_result ev = ''success'')"
  using assms
proof (rule recover_bodyE)
  fix u :: user_row and d1 d4 d6 :: db and ev c n
  let ?uid = "u_id u"
  let ?d2 = "d1\<lparr>users := update_where (\<lambda>r. u_id r = ?uid) (recover_row hash) (users d1)\<rparr>"
  let ?d5 = "d4\<lparr>challenges := delete_where (\<lambda>c. ch_user_id c = ?uid) (challenges d4)\<rparr>"
  assume fu: "find_maintenance_user e (Stmt 1) (ro_selector opts) MaintenanceCodeRecoveryFailed d = Inr u"
    and conf: "u_username u = se_confirm (ro_selector opts)"
    and rw: "rewrite_security_audit_intent e (Stmt 2) event ''maintenance.admin.recovered''
      ([(''source'', MStr ''local_maintenance''), (''operation'', MStr ''administrator_recovery''),
        (''target_user_id'', MNum (int ?uid)), (''target_username'', MStr (u_username u)),
        (''previous_role'', MRole (effective_role (Some u))), (''previous_status'', MNum (u_status u))]
       @ recover_metadata opts) d = Inr (ev, d1)"
    and tf: "recover_two_factor e (ro_reset_two_factor opts) ?uid (remove_admin_rows ?uid ?d2) = Inr (c, d4)"
    and b: "bump_auth_version_and_revoke_count e (Stmt 8) (Stmt 9) ?uid ''local_administrator_recovery'' ?d5 = Inr (n, d6)"
    and f: "finish_security_audit_success_tx e (Stmt 10) event d6 = Inr d'"
  have u: "u \<in> set (users d)" "selected (ro_selector opts) u"
    using fu conf by (auto simp: find_maintenance_user_def selected_def split: if_splits option.splits dest: find_SomeD)
  have d1: "same_but_events d d1"
    using rw by (auto simp: rewrite_security_audit_intent_def outcome_simps Let_def split: if_splits)
  have d4: "d4 = (remove_admin_rows ?uid ?d2)\<lparr>two_factors :=
      (if ro_reset_two_factor opts then delete_where (\<lambda>r. tf_user_id r = ?uid) (two_factors d1) else two_factors d1)\<rparr>"
    using tf by (auto simp: recover_two_factor_def mfail_Inr reset_two_factor_rows_def remove_admin_rows_def outcome_simps
        split: if_splits)
  have d6: "d6 = revoke_where (\<lambda>r. t_user_id r = ?uid) (now e) ''local_administrator_recovery''
      (?d5\<lparr>users := update_where (\<lambda>u. u_id u = ?uid) (\<lambda>u. u\<lparr>u_auth_version := u_auth_version u + 1\<rparr>) (users ?d5)\<rparr>)"
    using b by (simp add: bump_count_eq_Inr)
  have d': "same_but_events d6 d'"
    using f by (auto simp: finish_security_audit_success_tx_def outcome_simps Let_def split: if_splits)
  have ends: "ends_sessions ?uid d d'"
    by (rule ends_tokens [OF ends_bump_count [OF b refl]])
      (simp_all add: d4 remove_admin_rows_def same_but_events_fields [OF d1] same_but_events_fields [OF d'])
  have id: "u_id (recover_row hash r) = u_id r" for r by (simp add: recover_row_def)
  have "recovered u (ro_reset_two_factor opts) hash d d'"
    using ends
    by (simp add: recovered_def same_but_events_fields [OF d'] d6 d4 remove_admin_rows_def revoke_where_def
        same_but_events_fields [OF d1] update_where_comp id bump_version_def)
  moreover have "\<exists>ev \<in> set (events d'). ev_id ev = ev_id event \<and> ev_result ev = ''success''"
  proof -
    from f have c: "count_where (\<lambda>r. ev_id r = ev_id event \<and> ev_result r = ''intent'') (events d6) = 1"
      and ev: "events d' = update_where (\<lambda>r. ev_id r = ev_id event \<and> ev_result r = ''intent'')
        (\<lambda>r. r\<lparr>ev_result := ''success'', ev_error_code := []\<rparr>) (events d6)"
      by (auto simp: finish_security_audit_success_tx_def outcome_simps Let_def split: if_splits)
    from c obtain r where "r \<in> set (events d6)" "ev_id r = ev_id event" "ev_result r = ''intent''"
      using count_where_pos [of "\<lambda>r. ev_id r = ev_id event \<and> ev_result r = ''intent''" "events d6"] by auto
    then show ?thesis
      unfolding ev set_update_where by (intro rev_bexI [OF imageI, of r]) auto
  qed
  ultimately show ?thesis using u by blast
qed

lemma recover_failed:
  "recover_administrator ac schema e opts d = ((r, Some er), d') \<Longrightarrow> same_but_events d d'"
  by (auto simp: recover_administrator_def Let_def begin_eq_Inr split: option.splits if_splits sum.splits prod.splits
      dest!: maintenance_failed_same maintenance_txE intro: same_but_events_trans [OF same_but_events_update])

text \<open>Recovery is all or nothing, and so is its audit record: when it reports an error nothing but the audit
  trail has changed; when it reports none, exactly the account that matches the selector and whose name was
  confirmed is an enabled super administrator with a new auth version and (if asked for) a new password, its
  grants, sessions, login challenges and (if asked for) second factor are gone, no other account has changed,
  and the trail holds a success record.\<close>

lemma recovery_all_or_nothing:
  assumes "recover_administrator ac schema e opts d = ((r, oe), d')"
  shows "(oe \<noteq> None \<longrightarrow> same_but_events d d') \<and>
    (oe = None \<longrightarrow> snd schema = None \<and> (\<exists>u \<in> set (users d). \<exists>hash.
       (if ro_password opts = [] then hash = [] else encrypt_password ac (ro_password opts) = Inr hash) \<and>
       selected (ro_selector opts) u \<and> recovered u (ro_reset_two_factor opts) hash d d' \<and>
       (\<exists>ev \<in> set (events d'). ev_id ev = next_id ev_id (events d) \<and> ev_result ev = ''success'')))"
proof (cases oe)
  case (Some er)
  then show ?thesis using recover_failed assms by blast
next
  case None
  from assms obtain event d1 hash r1 where
    b: "begin_security_audit e 0 (ro_request_id opts) ''maintenance.admin.recovered''
          (fst (maintenance_audit_target (ro_selector opts))) (snd (maintenance_audit_target (ro_selector opts)))
          ([(''source'', MStr ''local_maintenance''), (''operation'', MStr ''administrator_recovery'')]
           @ recover_metadata opts) d = Inr (event, d1)"
    and h: "(if ro_password opts = [] then Inr [] else encrypt_password ac (ro_password opts)) = Inr hash"
    and t: "maintenance_tx e event MaintenanceCodeRecoveryFailed r1 (recover_body e opts event hash r1) d1 = ((r, oe), d')"
    and s: "snd schema = None"
    by (auto simp: None recover_administrator_def Let_def split: option.splits if_splits sum.splits prod.splits
        dest: maintenance_failed_same)
  from maintenance_txE [OF t] None have "snd (recover_body e opts event hash r1 d1) = Inr d'" by simp
  from recover_body_recovered [OF this] obtain u where u: "u \<in> set (users d1)" "selected (ro_selector opts) u"
    "recovered u (ro_reset_two_factor opts) hash d1 d'"
    "\<exists>ev \<in> set (events d'). ev_id ev = ev_id event \<and> ev_result ev = ''success''" by blast
  have d1: "d1 = d\<lparr>events := events d @ [event]\<rparr>" "ev_id event = next_id ev_id (events d)"
    using b by (auto simp: begin_eq_Inr)
  have "recovered u (ro_reset_two_factor opts) hash d d'" using u(3) by (simp add: recovered_def d1 ends_sessions_def)
  then show ?thesis using None s u h d1 by (auto split: if_splits)
qed

section \<open>Witnesses\<close>

text \<open>A concrete database: the accounts of \<open>scope_db\<close> with the invariant lock; a hash function that is a prefix.\<close>

definition demo_directory :: directory where
  "demo_directory = \<lparr>dy_parse_url = (\<lambda>_. Inr \<lparr>pu_scheme = ''ldaps'', pu_host = ''h''\<rparr>), dy_ca_file = (\<lambda>_. Inr True),
     dy_dial = (\<lambda>_. Inr ()), dy_bind = (\<lambda>dn p. if p = ''ok'' then Inr () else Inl RecordNotFound),
     dy_search = (\<lambda>rq. Inr [\<lparr>en_dn = ''cn=9'', en_values = (\<lambda>a. if a = ''uid'' then [''ldap9''] else [])\<rparr>]),
     dy_escape = id, dy_equal_fold = (\<lambda>a b. a = b), dy_lower = id, dy_parse_dn = Inr\<rparr>"

definition demo_ldap :: "bool \<Rightarrow> ldap_config" where
  "demo_ldap enabled = \<lparr>lf_enable = enabled, lf_url = ''ldaps://h'', lf_tls_ca_file = [], lf_tls_verify = True,
     lf_base_dn = ''dc'', lf_bind_dn = ''cn=svc'', lf_bind_password = ''ok'',
     lf_user = \<lparr>lu_base_dn = [], lu_enable_attr = [], lu_enable_attr_value = [], lu_filter = [], lu_username = [],
       lu_email = [], lu_first_name = [], lu_last_name = [], lu_sync = True, lu_admin_group = ''adm'', lu_allow_group = []\<rparr>\<rparr>"

definition demo_acct :: "bool \<Rightarrow> acct" where
  "demo_acct ldap = \<lparr>ac_bcrypt = (\<lambda>p. if length p \<le> 72 then Inr (CHR ''$'' # p) else Inl RecordNotFound),
     ac_compare = (\<lambda>h p. if h = CHR ''$'' # p then BcryptOk else if h \<noteq> [] \<and> hd h = CHR ''$'' then BcryptMismatch else BcryptPrefix),
     ac_md5 = (\<lambda>s. CHR ''m'' # s), ac_lower = id, ac_sha = id, ac_ldap = demo_ldap ldap, ac_directory = demo_directory,
     ac_has_scopes = True\<rparr>"

definition account_db :: db where
  "account_db = scope_db\<lparr>invariant_locks := [(''enabled-admin'', 0)]\<rparr>"

lemma demo_password_change:
  "update_password (demo_acct False) scope_env 1 ''r'' (Some (demo_user 3 RoleUser)) ''twelve bytes'' account_db =
     (Inr ((demo_user 3 RoleUser)\<lparr>u_password := ''$twelve bytes'', u_auth_version := 2\<rparr>),
      snd (update_password (demo_acct False) scope_env 1 ''r'' (Some (demo_user 3 RoleUser)) ''twelve bytes'' account_db))"
  by code_simp

lemma account_changes_end_sessions_witness:
  "ends_sessions 3 account_db
     (snd (update_password (demo_acct False) scope_env 1 ''r'' (Some (demo_user 3 RoleUser)) ''twelve bytes'' account_db))"
  using account_changes_end_sessions [THEN conjunct1, THEN mp, OF demo_password_change] by (simp add: demo_user_def)

lemma enabled_super_admin_survives_witness:
  "\<exists>u' \<in> set (users (snd (delete_user (demo_acct False) scope_env 1 ''r'' (Some (demo_user 1 RoleSuperAdmin)) account_db))).
     u_role u' = RoleSuperAdmin \<and> u_status u' = COMMON_STATUS_ENABLE"
proof (rule enabled_super_admin_survives [where u = "demo_user 1 RoleSuperAdmin"])
  show "account_step\<^sup>*\<^sup>* account_db
      (snd (delete_user (demo_acct False) scope_env 1 ''r'' (Some (demo_user 1 RoleSuperAdmin)) account_db))"
    by (rule r_into_rtranclp) (rule account_step.Delete)
qed (simp_all add: account_db_def scope_db_def empty_db_def demo_user_def)

definition revoked_db :: db where
  "revoked_db = account_db\<lparr>tokens := [revoke_row 7 ''logout'' session_row]\<rparr>"

lemma revoked_token_stays_dead_witness:
  "authenticate_access_token (demo_svc\<lparr>sv_nanos := 3000 * second\<rparr>) (session_env 3000) ''A'' APIAudience []
     (snd (login demo_svc (session_env 2000) (Some session_user) (Some session_log) revoked_db)) \<notin> range Inr"
proof
  assume "authenticate_access_token (demo_svc\<lparr>sv_nanos := 3000 * second\<rparr>) (session_env 3000) ''A'' APIAudience []
     (snd (login demo_svc (session_env 2000) (Some session_user) (Some session_log) revoked_db)) \<in> range Inr"
  then obtain x where x: "authenticate_access_token (demo_svc\<lparr>sv_nanos := 3000 * second\<rparr>) (session_env 3000) ''A''
      APIAudience [] (snd (login demo_svc (session_env 2000) (Some session_user) (Some session_log) revoked_db)) = Inr x" by blast
  have "dead_hash (token_hash_hex (sv_sha (demo_svc\<lparr>sv_nanos := 3000 * second\<rparr>)) ''A'') revoked_db"
    by (simp add: dead_hash_def revoked_db_def session_row_def revoke_row_def demo_svc_def)
  moreover have "\<not> legacy_read (demo_svc\<lparr>sv_nanos := 3000 * second\<rparr>)"
    by (simp add: demo_svc_def demo_config_root_def demo_config_def)
  moreover have "account_step\<^sup>*\<^sup>* revoked_db (snd (login demo_svc (session_env 2000) (Some session_user) (Some session_log) revoked_db))"
    by (rule r_into_rtranclp) (rule account_step.Login)
  ultimately show False
    using revoked_token_stays_dead x by blast
qed

lemma failed_account_operation_changes_nothing_witness:
  "same_but_events account_db
     (snd (delete_user (demo_acct False) scope_env 1 ''r'' (Some (demo_user 1 RoleSuperAdmin)) account_db))"
proof (rule failed_account_operation_changes_nothing [OF _ disjI2 [OF disjI1]])
  show "\<not> flt scope_env AuditEnd" by (simp add: scope_env_def)
  show "delete_user (demo_acct False) scope_env 1 ''r'' (Some (demo_user 1 RoleSuperAdmin)) account_db =
      (Inl (ErrNew ''The last enabled super administrator cannot be deleted''),
       snd (delete_user (demo_acct False) scope_env 1 ''r'' (Some (demo_user 1 RoleSuperAdmin)) account_db))"
    by code_simp
qed

definition demo_recover :: recover_options where
  "demo_recover = \<lparr>ro_selector = \<lparr>se_user_id = 3, se_username = [], se_confirm = decimal 3\<rparr>, ro_request_id = ''r'',
     ro_password = [], ro_reset_two_factor = True\<rparr>"

definition demo_schema :: "schema_status \<times> err option" where
  "demo_schema = require_current_schema 7 (Some \<lparr>sw_tables = Inr [''versions'', ''users''], sw_maximum = Inr (Some 7)\<rparr>)"

lemma recovery_all_or_nothing_witness:
  "\<exists>u \<in> set (users account_db). selected (ro_selector demo_recover) u \<and>
     recovered u True [] account_db (snd (recover_administrator (demo_acct False) demo_schema scope_env demo_recover account_db))"
proof -
  have n: "snd (fst (recover_administrator (demo_acct False) demo_schema scope_env demo_recover account_db)) = None" by code_simp
  have "recover_administrator (demo_acct False) demo_schema scope_env demo_recover account_db =
      ((fst (fst (recover_administrator (demo_acct False) demo_schema scope_env demo_recover account_db)),
        snd (fst (recover_administrator (demo_acct False) demo_schema scope_env demo_recover account_db))),
       snd (recover_administrator (demo_acct False) demo_schema scope_env demo_recover account_db))" by simp
  from recovery_all_or_nothing [OF this, THEN conjunct2, THEN mp, OF n] show ?thesis
    by (auto simp: demo_recover_def)
qed

end
