(* ===== verification/SignInProps.thy ===== *)
theory SignInProps
  imports AccountClaims
begin

text \<open>
  Properties of signing in: what a directory sign-in has proven, what the synchronisation of a directory role
  leaves in the caller's hands, the upgrade of legacy password hashes, and names for OAuth accounts.
\<close>

section \<open>Frames\<close>

lemma audited_field:
  assumes ev: "\<And>es d. F (d\<lparr>events := es\<rparr>) = F d" and op: "\<And>event d1. F (snd (op event d1)) = F d1"
  shows "F (snd (audited e actor rid action tt ti md fc op d)) = F d"
proof (cases "begin_security_audit e actor rid action tt ti md d")
  case (Inr p)
  then obtain event where p: "p = (event, d\<lparr>events := events d @ [event]\<rparr>)"
    by (cases p) (auto simp: begin_eq_Inr)
  let ?o = "op event (d\<lparr>events := events d @ [event]\<rparr>)"
  obtain es where "snd (finalize_security_audit e event fc ?o) = (snd ?o)\<lparr>events := es\<rparr>"
    using finalize_same_but_events [of ?o e event fc] unfolding same_but_events_def by blast
  then show ?thesis by (simp add: audited_def Inr p ev op)
qed (simp add: audited_def)

lemma update_user_ldap_ids: "ldap_ids (snd (update_user ac e actor rid ou d)) = ldap_ids d"
proof -
  have body: "ldap_ids d2 = ldap_ids d1" if "update_user_body ac e u event d1 = Inr (x, d2)" for u event x d1 d2
    using that
    by (rule update_user_bodyE)
      (auto simp: acquire_Inr rewrite_security_audit_intent_def update_user_row_def update_scopes_def update_sessions_def
        remove_administrator_scopes_def remove_resource_scopes_def remove_admin_rows_def revoke_where_def outcome_simps
        Let_def split: if_splits)
  have "ldap_ids (snd (transaction (flt e) (update_user_body ac e u event) d1)) = ldap_ids d1" for u event d1
    by (rule transaction_cases [of "flt e" "update_user_body ac e u event" d1]) (auto dest: body)
  then show ?thesis
    by (auto simp: update_user_def split: option.splits intro!: audited_field)
qed

lemma found_Some_iff: "found k r = Some x \<longleftrightarrow> r = Some x \<and> k x \<noteq> 0"
  by (rule found_Some)

lemma info_by_id_SomeD: "info_by_id e p uid d = Some u \<Longrightarrow> u \<in> set (users d) \<and> u_id u = uid"
  by (auto simp: info_by_id_def find_user_def split: if_splits dest: find_SomeD)

section \<open>Directory sign-in\<close>

text \<open>The account an identity of the directory is bound to.\<close>

definition bound_to :: "db \<Rightarrow> string \<times> string \<Rightarrow> user_row \<Rightarrow> bool" where
  "bound_to d identity u \<longleftrightarrow>
     (\<exists>i \<in> set (ldap_ids d). ld_user_id i = u_id u \<and> (ld_provider i, ld_subject i) = identity)"

lemma map_to_local_bound:
  assumes "map_to_local_user ac e lu d = (Inr (Some u), d')"
  shows "\<exists>identity. ldap_identity_fingerprints ac (du_dn lu) = Inr identity \<and> bound_to d' identity u"
proof -
  from assms obtain provider subject where f: "ldap_identity_fingerprints ac (du_dn lu) = Inr (provider, subject)"
    by (auto simp: map_to_local_user_def split: sum.splits prod.splits)
  let ?idn = "found ld_id (first_where e (Outside 81) (\<lambda>r. ld_provider r = provider \<and> ld_subject r = subject) (ldap_ids d))"
  show ?thesis
  proof (cases ?idn)
    case None
    with assms f obtain n uid where t: "transaction (flt e) (create_ldap_user_body e n provider subject) d = (Inr uid, d')"
      and u: "info_by_id e (Outside 83) uid d' = Some u"
      by (auto simp: map_to_local_user_def Let_def found_Some split: sum.splits prod.splits if_splits)
    then have "u_id u = uid" using info_by_id_SomeD by blast
    then show ?thesis
      using t f by (auto simp: transaction_eq_Inr create_ldap_user_body_def insert_ldap_identity_def bound_to_def outcome_simps
          split: if_splits)
  next
    case (Some i)
    then have i: "i \<in> set (ldap_ids d)" "ld_provider i = provider" "ld_subject i = subject"
      by (auto simp: found_Some first_where_def split: if_splits dest: find_SomeD)
    have "ldap_ids d' = ldap_ids d \<and> u_id u = ld_user_id i"
    proof -
      from assms f Some obtain u0 where u0: "found u_id (info_by_id e (Outside 84) (ld_user_id i) d) = Some u0"
        by (auto simp: map_to_local_user_def Let_def split: option.splits)
      let ?n = "(ldap_to_user lu u0)\<lparr>u_is_admin := Some (is_user_admin (ac_ldap ac) (ac_directory ac) lu),
          u_role := ldap_role (is_user_admin (ac_ldap ac) (ac_directory ac) lu)\<rparr>"
      have "u_id u0 = ld_user_id i" using u0 by (auto simp: found_Some dest: info_by_id_SomeD)
      moreover have "u_id ?n = u_id u0" by (simp add: ldap_to_user_def)
      ultimately show ?thesis
        using assms f Some u0 update_user_ldap_ids [of ac e 0 "[]" "Some ?n" d]
        by (auto simp: map_to_local_user_def Let_def plan_update_up split: option.splits if_splits sum.splits prod.splits)
    qed
    with i f show ?thesis by (auto simp: bound_to_def)
  qed
qed

text \<open>C28: A directory sign-in proves what it should: it succeeds only when LDAP is enabled, the connection is
  verified ldaps, the search for the name found exactly one entry, that entry is enabled and (unless it is an
  administrator) in the allowed group, and the directory accepted the password for the distinguished name of that
  very entry; the account it yields is the one its identity is bound to.\<close>

theorem ldap_sign_in_proven:
  assumes "ldap_authenticate ac e username password d = (Inr ou, d')"
  shows "\<exists>entry lu. lf_enable (ac_ldap ac) \<and> lf_tls_verify (ac_ldap ac) \<and>
    (\<exists>u. dy_parse_url (ac_directory ac) (lf_url (ac_ldap ac)) = Inr u \<and> pu_scheme u = ''ldaps'') \<and>
    username_search_result (ac_ldap ac) (ac_directory ac) username = Inr [entry] \<and>
    lu = user_result_to_ldap_user (ac_ldap ac) (ac_directory ac) entry \<and> du_enabled lu \<and>
    (lu_allow_group (lf_user (ac_ldap ac)) = [] \<or> is_user_admin (ac_ldap ac) (ac_directory ac) lu \<or>
     is_user_in_group (ac_ldap ac) (ac_directory ac) lu (lu_allow_group (lf_user (ac_ldap ac)))) \<and>
    dy_bind (ac_directory ac) (en_dn entry) password = Inr () \<and>
    (case ou of None \<Rightarrow> True | Some u \<Rightarrow> \<exists>identity. ldap_identity_fingerprints ac (en_dn entry) = Inr identity \<and> bound_to d' identity u)"
proof -
  let ?cfg = "ac_ldap ac" and ?dy = "ac_directory ac"
  from assms obtain lu where g: "get_user_info_by_username_ldap ?cfg ?dy username = Inr lu" and en: "du_enabled lu"
    and gr: "lu_allow_group (lf_user ?cfg) = [] \<or> is_user_admin ?cfg ?dy lu \<or> is_user_in_group ?cfg ?dy lu (lu_allow_group (lf_user ?cfg))"
    and v: "verify_credentials ?cfg ?dy (du_dn lu) password = None"
    and m: "map_to_local_user ac e lu d = (Inr ou, d')"
    by (auto simp: ldap_authenticate_def Let_def split: sum.splits if_splits option.splits prod.splits)
  from g obtain entry where e: "lf_enable ?cfg" "username_search_result ?cfg ?dy username = Inr [entry]"
    "lu = user_result_to_ldap_user ?cfg ?dy entry"
    by (auto simp: get_user_info_by_username_ldap_def unique_entry_def length_Suc_conv split: if_splits sum.splits)
  then have dn: "du_dn lu = en_dn entry" by (simp add: user_result_to_ldap_user_def Let_def)
  have c: "connect_and_bind ?cfg ?dy (en_dn entry) password = Inr ()"
    using v by (auto simp: verify_credentials_def dn split: sum.splits)
  show ?thesis
    using e en gr c m map_to_local_bound [of ac e lu d _ d'] unfolding connect_and_bind_Inr dn
    by (auto split: option.splits)
qed

text \<open>When the synchronisation of a directory user changes the role of the account, the auth version in the
  database goes up but the user struct handed back to the sign-in keeps the old one; no session stored for that
  struct's version is live afterwards, so the login in progress returns a token that is refused from the start.\<close>

theorem ldap_role_sync_returns_stale_version:
  assumes op: "map_to_local_user ac e lu d = (Inr (Some u), d')"
    and cur: "cur \<in> set (users d)" "u_id cur = u_id u" "distinct (map u_id (users d))" "role_valid (u_role cur)"
    and role: "u_role u \<noteq> u_role cur"
  shows "(\<forall>v \<in> set (users d'). u_id v = u_id u \<longrightarrow> u_auth_version v = u_auth_version u + 1) \<and>
    (\<forall>t r v. t_user_id r = u_id u \<and> t_auth_version r = u_auth_version u \<longrightarrow> \<not> live_session t d' r v)"
proof -
  from op obtain provider subject where f: "ldap_identity_fingerprints ac (du_dn lu) = Inr (provider, subject)"
    by (auto simp: map_to_local_user_def split: sum.splits prod.splits)
  let ?idn = "found ld_id (first_where e (Outside 81) (\<lambda>r. ld_provider r = provider \<and> ld_subject r = subject) (ldap_ids d))"
  have "\<forall>v \<in> set (users d'). u_id v = u_id u \<longrightarrow> u_auth_version v = u_auth_version u + 1"
  proof (cases ?idn)
    case None
    with op f obtain n uid where t: "transaction (flt e) (create_ldap_user_body e n provider subject) d = (Inr uid, d')"
      and u: "info_by_id e (Outside 83) uid d' = Some u"
      by (auto simp: map_to_local_user_def Let_def found_Some split: sum.splits prod.splits if_splits)
    from u have "u_id u = uid" using info_by_id_SomeD by blast
    moreover have "uid \<notin> u_id ` set (users d)"
      using t by (auto simp: transaction_eq_Inr create_ldap_user_body_def insert_user_def outcome_simps Let_def split: if_splits)
    ultimately show ?thesis using cur(1,2) by (metis imageI)
  next
    case (Some i)
    with op f obtain u0 where u0: "found u_id (info_by_id e (Outside 84) (ld_user_id i) d) = Some u0"
      by (auto simp: map_to_local_user_def Let_def split: option.splits)
    let ?adm = "is_user_admin (ac_ldap ac) (ac_directory ac) lu"
    let ?n = "(ldap_to_user lu u0)\<lparr>u_is_admin := Some ?adm, u_role := ldap_role ?adm\<rparr>"
    have in_d: "u0 \<in> set (users d)" and id0: "u_id u0 = ld_user_id i"
      using u0 by (auto simp: found_Some dest: info_by_id_SomeD)
    have n: "u_id ?n = u_id u0" "u_auth_version ?n = u_auth_version u0" by (simp_all add: ldap_to_user_def)
    from op f Some u0 have sync: "(u = u0 \<or> u = u0\<lparr>u_username := du_username lu\<rparr>) \<or>
        (update_user ac e 0 [] (Some ?n) d = (Inr (), d') \<and> u = up_user (plan_update u0 ?n))"
      by (auto simp: map_to_local_user_def Let_def split: if_splits sum.splits prod.splits)
    then have "u_id u = u_id u0" using n(1) by (auto simp: plan_update_up)
    then have c: "cur = u0" using key_unique [OF cur(3,1) in_d] cur(2) by simp
    then have up: "update_user ac e 0 [] (Some ?n) d = (Inr (), d')" and u: "u = up_user (plan_update u0 ?n)"
      using sync role by auto
    have fnd: "find_user (u_id ?n) d = Some u0" using find_key [OF cur(3) in_d, of "u_id u0"] by (simp add: find_user_def n)
    have ver: "u_auth_version u = u_auth_version u0"
      using n(2) by (simp add: u plan_update_def normalize_role_def Let_def split: prod.splits)
    have "up_role_changed (plan_update u0 ?n)"
      using role cur(4) by (simp add: u c plan_update_up) (simp add: plan_update_def effective_role_def Let_def split: prod.splits)
    then have us: "users d' = update_where (\<lambda>r. u_id r = u_id u0) (\<lambda>r. bump_version (patch_user u r)) (users d)"
      using update_user_users [OF up fnd] by (simp add: n u)
    show ?thesis
    proof (intro ballI impI)
      fix v assume v: "v \<in> set (users d')" "u_id v = u_id u"
      then obtain r where r: "r \<in> set (users d)" "v = (if u_id r = u_id u0 then bump_version (patch_user u r) else r)"
        by (auto simp: us set_update_where)
      with v \<open>u_id u = u_id u0\<close> have "u_id r = u_id u0" by (auto simp: bump_version_def patch_user_id split: if_splits)
      then have "r = u0" using key_unique [OF cur(3) r(1) in_d] by simp
      then show "u_auth_version v = u_auth_version u + 1"
        using r(2) ver by (simp add: bump_version_def patch_user_def patch_def)
    qed
  qed
  then show ?thesis by (auto simp: live_session_def)
qed

section \<open>Passwords\<close>

text \<open>A legacy MD5 hash is replaced at the first successful sign-in and only then: after it the stored hash is
  a bcrypt hash of the same password (for the account that signed in, and for no other), and a sign-in with a
  wrong password changes nothing.  LDAP is off and bcrypt never returns an empty hash.\<close>

lemma legacy_password_upgraded:
  assumes "\<not> lf_enable (ac_ldap ac)" and "\<And>p h. ac_bcrypt ac p = Inr h \<Longrightarrow> h \<noteq> []"
    and "find (\<lambda>u. u_username u = username) (users d) = Some u" and "u_id u \<noteq> 0"
    and "\<not> flt e (Outside 71)" and "\<not> flt e (Outside 72)"
    and "ac_compare ac (u_password u) password \<in> {BcryptPrefix, BcryptTooShort}"
  shows "info_by_username_password ac e username password d =
    (if u_password u \<noteq> ac_md5 ac (password @ ''rustdesk-api'') then (None, d)
     else case ac_bcrypt ac password of
       Inl _ \<Rightarrow> (None, d)
     | Inr h \<Rightarrow> (Some ((before_save u)\<lparr>u_password := h\<rparr>),
                 d\<lparr>users := update_where (\<lambda>x. u_id x = u_id u) (\<lambda>x. x\<lparr>u_password := h\<rparr>) (users d)\<rparr>))"
  using assms
  by (auto simp: info_by_username_password_def info_by_username_def first_where_def found_def verify_password_def Let_def
      split: sum.splits)

section \<open>Names of OAuth accounts\<close>

text \<open>C35: The search for a free user name ends and finds one: if no taken name is longer than n, then as many draws
  of a digit as make the wanted name longer than n are always enough, and the result is free and starts with the wanted name.\<close>

theorem generated_username_free:
  assumes "\<And>name. taken name \<Longrightarrow> length name \<le> n" and "n < length wanted + length digits"
  shows "\<exists>name rest. generate_username_by_oauth taken digits wanted = Some name \<and> \<not> taken name \<and> name = wanted @ rest"
proof -
  have len: "0 < length (decimal (k mod 10))" for k by (simp add: decimal.simps)
  show ?thesis
    using assms(2)
  proof (induction digits arbitrary: wanted)
    case Nil
    then have "\<not> taken wanted" using assms(1) [of wanted] by auto
    then show ?case by (simp add: generate_username_by_oauth.simps)
  next
    case (Cons k rest)
    show ?case
    proof (cases "taken wanted")
      case True
      have "n < length (wanted @ decimal (k mod 10)) + length rest"
        using Cons.prems len [of k] by (simp only: length_append list.size)
      from Cons.IH [OF this] True show ?thesis by (auto simp: generate_username_by_oauth.simps [of taken "k # rest"])
    qed (simp add: generate_username_by_oauth.simps)
  qed
qed

section \<open>Witnesses\<close>

definition ldap_entry9 :: ldap_user where
  "ldap_entry9 = \<lparr>du_dn = ''cn=9'', du_username = ''ldap9'', du_email = [], du_first_name = [], du_last_name = [],
     du_member_of = [], du_enable_value = [], du_enabled = True\<rparr>"

text \<open>The ordinary user 3 is bound to the entry; the directory puts it in the administrator group.\<close>

definition ldap_bound_db :: db where
  "ldap_bound_db = account_db\<lparr>ldap_ids := [\<lparr>ld_id = 1, ld_user_id = 3,
     ld_provider = ''ldaps://h'' @ [CHR 0x00] @ ''dc'', ld_subject = ''cn=9''\<rparr>]\<rparr>"

lemma ldap_sign_in_proven_witness:
  "\<exists>identity u. ldap_identity_fingerprints (demo_acct True) ''cn=9'' = Inr identity \<and>
     bound_to (snd (ldap_authenticate (demo_acct True) scope_env ''ldap9'' ''ok'' account_db)) identity u"
proof -
  let ?o = "ldap_authenticate (demo_acct True) scope_env ''ldap9'' ''ok'' account_db"
  have ok: "case fst ?o of Inr (Some u) \<Rightarrow> u_id u = 4 | _ \<Rightarrow> False" by code_simp
  then obtain u where u: "fst ?o = Inr (Some u)" by (auto split: sum.splits option.splits)
  then have o: "?o = (Inr (Some u), snd ?o)" by (simp add: prod_eq_iff)
  have e: "username_search_result (ac_ldap (demo_acct True)) (ac_directory (demo_acct True)) ''ldap9'' =
      Inr [\<lparr>en_dn = ''cn=9'', en_values = (\<lambda>a. if a = ''uid'' then [''ldap9''] else [])\<rparr>]"
    by (simp add: username_search_result_def search_result_def connect_and_bind_admin_def connect_and_bind_def demo_acct_def
        demo_ldap_def demo_directory_def)
  from ldap_sign_in_proven [OF o] e show ?thesis by auto
qed

lemma ldap_role_sync_returns_stale_version_witness:
  "\<exists>v \<in> set (users (snd (map_to_local_user (demo_acct True) scope_env ldap_entry9 ldap_bound_db))).
     u_id v = 3 \<and> u_auth_version v = 2"
proof -
  let ?o = "map_to_local_user (demo_acct True) scope_env ldap_entry9 ldap_bound_db"
  have ok: "case fst ?o of Inr (Some u) \<Rightarrow> u_id u = 3 \<and> u_role u = RoleSuperAdmin \<and> u_auth_version u = 1 | _ \<Rightarrow> False"
    by code_simp
  then obtain u where u: "fst ?o = Inr (Some u)" "u_id u = 3" "u_role u = RoleSuperAdmin" "u_auth_version u = 1"
    by (auto split: sum.splits option.splits)
  then have o: "?o = (Inr (Some u), snd ?o)" by (simp add: prod_eq_iff)
  have mem: "list_ex (\<lambda>v. u_id v = 3) (users (snd ?o))" by code_simp
  have "\<forall>v \<in> set (users (snd ?o)). u_id v = u_id u \<longrightarrow> u_auth_version v = u_auth_version u + 1"
    by (rule ldap_role_sync_returns_stale_version [OF o, of "demo_user 3 RoleUser", THEN conjunct1])
      (simp_all add: u ldap_bound_db_def account_db_def scope_db_def empty_db_def demo_user_def)
  with mem u show ?thesis by (auto simp: list_ex_iff)
qed

definition legacy_db :: db where
  "legacy_db = account_db\<lparr>users := [(demo_user 3 RoleUser)\<lparr>u_password := ''mpwrustdesk-api''\<rparr>]\<rparr>"

lemma legacy_password_upgraded_witness:
  "map u_password (users (snd (info_by_username_password (demo_acct False) scope_env (decimal 3) ''pw'' legacy_db))) = [''$pw'']"
proof -
  have "info_by_username_password (demo_acct False) scope_env (decimal 3) ''pw'' legacy_db =
    (if u_password ((demo_user 3 RoleUser)\<lparr>u_password := ''mpwrustdesk-api''\<rparr>) \<noteq> ac_md5 (demo_acct False) (''pw'' @ ''rustdesk-api'')
     then (None, legacy_db)
     else case ac_bcrypt (demo_acct False) ''pw'' of
       Inl _ \<Rightarrow> (None, legacy_db)
     | Inr h \<Rightarrow> (Some ((before_save ((demo_user 3 RoleUser)\<lparr>u_password := ''mpwrustdesk-api''\<rparr>))\<lparr>u_password := h\<rparr>),
                 legacy_db\<lparr>users := update_where (\<lambda>x. u_id x = u_id ((demo_user 3 RoleUser)\<lparr>u_password := ''mpwrustdesk-api''\<rparr>))
                   (\<lambda>x. x\<lparr>u_password := h\<rparr>) (users legacy_db)\<rparr>))"
    by (rule legacy_password_upgraded)
      (auto simp: demo_acct_def demo_ldap_def legacy_db_def demo_user_def scope_env_def split: if_splits)
  then show ?thesis by (simp add: demo_acct_def legacy_db_def demo_user_def)
qed

lemma generated_username_free_witness:
  "\<exists>name rest. generate_username_by_oauth (\<lambda>n. n = ''ab'') [3] ''ab'' = Some name \<and> name \<noteq> ''ab'' \<and> name = ''ab'' @ rest"
  by (rule generated_username_free [where n = 2]) simp_all

end
