(* ===== verification/OauthProps.thy ===== *)
theory OauthProps
  imports Oauth
begin

text \<open>
  Properties of OAuth sign-in: the store of pending authorisations under any sequence of its operations, what an
  accepted callback has proven, and which addresses the client refuses to dial.
\<close>

section \<open>Runs of the store\<close>

datatype oauth_op =
    Get string
  | Set string "oauth_item option" nat
  | Drop string
  | Claim string
  | Take string string string
  | Reserve string

fun oauth_step :: "int \<times> oauth_op \<Rightarrow> oauth_store \<Rightarrow> oauth_store" where
  "oauth_step (t, Get k) st = snd (get_oauth_cache t k st)"
| "oauth_step (t, Set k oi x) st = snd (set_oauth_cache t k oi x st)"
| "oauth_step (t, Drop k) st = delete_oauth_cache k st"
| "oauth_step (t, Claim k) st = snd (claim_oauth_callback t k st)"
| "oauth_step (t, Take k dev uuid) st = snd (take_oauth_login_result t k dev uuid st)"
| "oauth_step (t, Reserve k) st = snd (reserve_oauth_state t k st)"

definition oauth_run :: "(int \<times> oauth_op) list \<Rightarrow> oauth_store \<Rightarrow> oauth_store" where
  "oauth_run ops st = fold oauth_step ops st"

definition store_ok :: "oauth_store \<Rightarrow> bool" where
  "store_ok st \<longleftrightarrow> distinct (map fst st) \<and> length st \<le> maxOauthStates \<and>
     (\<forall>(k, i) \<in> set st. k \<noteq> [] \<and> oi_expires_at i \<noteq> None)"

lemma purge_ok: "store_ok st \<Longrightarrow> store_ok (purge_expired t st)"
  by (auto simp: store_ok_def purge_expired_def distinct_map_filter intro: le_trans [OF length_filter_le])

lemma length_update_le: "length (AList.update k v st) = (if k \<in> fst ` set st then length st else Suc (length st))"
  by (induction st) auto

lemma set_update_sub: "set (AList.update k v st) \<subseteq> insert (k, v) (set st)"
  by (induction st) auto

lemma update_ok:
  assumes "store_ok st" "k \<noteq> []" "oi_expires_at v \<noteq> None" "map_of st k = None \<Longrightarrow> length st < maxOauthStates"
  shows "store_ok (AList.update k v st)"
  using assms set_update_sub [of k v st]
  by (auto simp: store_ok_def distinct_update length_update_le map_of_eq_None_iff)

lemma delete_ok: "store_ok st \<Longrightarrow> store_ok (AList.delete k st)"
  by (auto simp: store_ok_def AList.delete_eq distinct_map_filter intro: le_trans [OF length_filter_le])

lemma map_of_key: "store_ok st \<Longrightarrow> map_of st k = Some i \<Longrightarrow> k \<noteq> [] \<and> oi_expires_at i \<noteq> None"
  by (auto simp: store_ok_def dest!: map_of_SomeD)

lemma set_cache_ok: "store_ok st \<Longrightarrow> store_ok (snd (set_oauth_cache t k oi x st))"
  by (auto simp: set_oauth_cache_def Let_def not_le purge_ok intro!: update_ok split: option.splits)

lemma step_ok: "store_ok st \<Longrightarrow> store_ok (oauth_step op st)"
  by (cases "(op, st)" rule: oauth_step.cases)
    (auto simp: get_oauth_cache_def delete_oauth_cache_def claim_oauth_callback_def take_oauth_login_result_def
      reserve_oauth_state_def Let_def set_cache_ok delete_ok purge_ok intro!: update_ok split: option.splits dest: map_of_key [OF purge_ok])

lemma run_ok: "store_ok st \<Longrightarrow> store_ok (oauth_run ops st)"
  by (induction ops arbitrary: st) (simp_all add: oauth_run_def step_ok)

lemma empty_ok: "store_ok []"
  by (simp add: store_ok_def)

text \<open>The store of pending authorisations stays bounded: whatever callers do, from the empty store on there
  are never more than 4096 entries, one per key, no entry under the empty key, and each has an expiry.\<close>

lemma oauth_store_bounded:
  "store_ok (oauth_run ops [])"
  by (rule run_ok [OF empty_ok])

section \<open>One use\<close>

lemma map_of_purge: "distinct (map fst st) \<Longrightarrow> map_of (purge_expired t st) k =
    (case map_of st k of None \<Rightarrow> None | Some i \<Rightarrow> if item_alive t i then Some i else None)"
  by (induction st) (auto simp: purge_expired_def map_of_eq_None_iff rev_image_eqI split: option.splits)

lemma store_ok_distinct: "store_ok st \<Longrightarrow> distinct (map fst st)"
  by (simp add: store_ok_def)

text \<open>An invariant of one key: what is stored there, if anything, satisfies P.\<close>

definition at_key :: "string \<Rightarrow> (oauth_item \<Rightarrow> bool) \<Rightarrow> oauth_store \<Rightarrow> bool" where
  "at_key k P st \<longleftrightarrow> (\<forall>i. map_of st k = Some i \<longrightarrow> P i)"

fun writes :: "string \<Rightarrow> (oauth_item \<Rightarrow> bool) \<Rightarrow> oauth_op \<Rightarrow> bool" where
  "writes k P (Set k' oi x) = (k' = k \<longrightarrow> (case oi of None \<Rightarrow> True | Some i \<Rightarrow> P i))"
| "writes k P (Reserve k') = (k' \<noteq> k)"
| "writes k P _ = True"

lemma at_key_purge: "distinct (map fst st) \<Longrightarrow> at_key k P st \<Longrightarrow> at_key k P (purge_expired t st)"
  by (auto simp: at_key_def map_of_purge split: option.splits if_splits)

lemma at_key_step:
  assumes "store_ok st" "at_key k P st" "writes k P op"
    and P: "\<And>i x. P i \<Longrightarrow> P (i\<lparr>oi_expires_at := x\<rparr>)" "\<And>i. P i \<Longrightarrow> P (i\<lparr>oi_claimed := True\<rparr>)"
  shows "at_key k P (oauth_step (t, op) st)"
proof -
  have p: "at_key k P (purge_expired t st)" by (rule at_key_purge [OF store_ok_distinct [OF assms(1)] assms(2)])
  then show ?thesis
    using assms(2,3) P
    by (cases op) (auto simp: at_key_def get_oauth_cache_def delete_oauth_cache_def claim_oauth_callback_def
        take_oauth_login_result_def reserve_oauth_state_def set_oauth_cache_def Let_def update_conv' delete_conv'
        split: option.splits if_splits)
qed

lemma at_key_run:
  assumes "store_ok st" "at_key k P st" "\<forall>(t, op) \<in> set ops. writes k P op"
    and "\<And>i x. P i \<Longrightarrow> P (i\<lparr>oi_expires_at := x\<rparr>)" "\<And>i. P i \<Longrightarrow> P (i\<lparr>oi_claimed := True\<rparr>)"
  shows "at_key k P (oauth_run ops st)"
  using assms(1-3)
proof (induction ops arbitrary: st)
  case (Cons op ops)
  obtain t o' where op: "op = (t, o')" by (cases op)
  show ?case
    using Cons.IH [OF step_ok [OF Cons.prems(1), of op]] at_key_step [OF Cons.prems(1,2), of o' t] Cons.prems(3) assms(4,5)
    by (auto simp: oauth_run_def op)
qed (simp add: oauth_run_def)

text \<open>C15: A pending authorisation is good for one callback and one login.  Once a callback claimed it, no later
  claim of that state succeeds, as long as nobody stores an unclaimed item under it again; once a device took a
  finished login, the item it got was its own (device id and UUID), and nothing is found under that state by
  anyone until something is stored there again.\<close>

theorem oauth_state_single_use:
  assumes "st = oauth_run ops []"
  shows "(claim_oauth_callback t k st = (Some i, st1) \<and> (\<forall>(t, op) \<in> set ops2. writes k oi_claimed op) \<longrightarrow>
      fst (claim_oauth_callback t2 k (oauth_run ops2 st1)) = None) \<and>
    (take_oauth_login_result t k dev uuid st = (Some i, st1) \<longrightarrow>
      oi_id i = dev \<and> oi_uuid i = uuid \<and> oi_action i = OauthActionTypeLogin \<and>
      (oi_user_id i \<noteq> 0 \<and> (\<forall>(t, op) \<in> set ops2. writes k (\<lambda>_. False) op) \<longrightarrow>
        fst (take_oauth_login_result t2 k dev2 uuid2 (oauth_run ops2 st1)) = None \<and>
        fst (get_oauth_cache t2 k (oauth_run ops2 st1)) = None))"
proof (intro conjI impI; (elim conjE)?)
  have ok: "store_ok st" unfolding assms by (rule run_ok [OF empty_ok])
  {
    assume c: "claim_oauth_callback t k st = (Some i, st1)" and w: "\<forall>(t, op) \<in> set ops2. writes k oi_claimed op"
    have ok1: "store_ok st1" using step_ok [OF ok, of "(t, Claim k)"] c by simp
    have "at_key k oi_claimed st1"
      using c by (auto simp: claim_oauth_callback_def at_key_def Let_def update_conv' split: option.splits if_splits)
    from at_key_run [OF ok1 this w] have "at_key k oi_claimed (oauth_run ops2 st1)" by simp
    then have "at_key k oi_claimed (purge_expired t2 (oauth_run ops2 st1))"
      by (rule at_key_purge [OF store_ok_distinct [OF run_ok [OF ok1]]])
    then show "fst (claim_oauth_callback t2 k (oauth_run ops2 st1)) = None"
      by (auto simp: claim_oauth_callback_def at_key_def Let_def split: option.splits)
  }
  assume tk: "take_oauth_login_result t k dev uuid st = (Some i, st1)"
  then show "oi_id i = dev" "oi_uuid i = uuid" "oi_action i = OauthActionTypeLogin"
    by (auto simp: take_oauth_login_result_def Let_def split: option.splits if_splits)
  assume u: "oi_user_id i \<noteq> 0" and w: "\<forall>(t, op) \<in> set ops2. writes k (\<lambda>_. False) op"
  have ok1: "store_ok st1" using step_ok [OF ok, of "(t, Take k dev uuid)"] tk by simp
  have "at_key k (\<lambda>_. False) st1"
    using tk u by (auto simp: take_oauth_login_result_def at_key_def Let_def delete_conv' split: option.splits if_splits)
  from at_key_run [OF ok1 this w] have "at_key k (\<lambda>_. False) (oauth_run ops2 st1)" by simp
  then have "at_key k (\<lambda>_. False) (purge_expired t2 (oauth_run ops2 st1))"
    by (rule at_key_purge [OF store_ok_distinct [OF run_ok [OF ok1]]])
  then show "fst (take_oauth_login_result t2 k dev2 uuid2 (oauth_run ops2 st1)) = None"
    "fst (get_oauth_cache t2 k (oauth_run ops2 st1)) = None"
    by (auto simp: take_oauth_login_result_def get_oauth_cache_def at_key_def Let_def split: option.splits)
qed

definition sample_item :: oauth_item where
  "sample_item = empty_item\<lparr>oi_op := ''oidc'', oi_action := OauthActionTypeLogin, oi_id := ''dev'', oi_uuid := ''uu''\<rparr>"

lemmas store_ops = oauth_run_def claim_oauth_callback_def take_oauth_login_result_def reserve_oauth_state_def
  set_oauth_cache_def get_oauth_cache_def purge_expired_def item_alive_def oauth_lifetime_def wrap64_def
  sample_item_def empty_item_def maxOauthStates_def oauthStateLifetime_def OauthActionTypeLogin_def

lemma oauth_state_single_use_witness:
  "fst (claim_oauth_callback 1 ''s'' (oauth_run [(0, Set ''s'' (Some sample_item) 300)] [])) \<noteq> None \<and>
   fst (claim_oauth_callback 2 ''s'' (snd (claim_oauth_callback 1 ''s''
     (oauth_run [(0, Set ''s'' (Some sample_item) 300)] [])))) = None"
proof -
  define st where "st = oauth_run [(0, Set ''s'' (Some sample_item) 300)] []"
  have c: "claim_oauth_callback 1 ''s'' st =
      (Some (sample_item\<lparr>oi_claimed := True, oi_expires_at := Some 300000000000\<rparr>), snd (claim_oauth_callback 1 ''s'' st))"
    by (simp add: st_def store_ops Let_def)
  have "fst (claim_oauth_callback 2 ''s'' (oauth_run [] (snd (claim_oauth_callback 1 ''s'' st)))) = None"
    using oauth_state_single_use [OF st_def, of 1 "''s''"
      "sample_item\<lparr>oi_claimed := True, oi_expires_at := Some 300000000000\<rparr>" "snd (claim_oauth_callback 1 ''s'' st)" "[]" 2] c
    by simp
  with c show ?thesis by (metis fst_conv id_apply fold_Nil oauth_run_def option.distinct(1) st_def)
qed

section \<open>What a callback proves\<close>

text \<open>C29: An identity accepted from an OpenID provider is proven: the issuer is an endpoint the client may contact,
  the code was exchanged with the verifier of this very authorisation for an id_token that the provider's keys
  verify, the token carries the nonce of this authorisation (when there is one), and its subject, which is not
  blank, is the identity that is returned.\<close>

theorem oidc_identity_proven:
  assumes "oauth_callback ul discover pr e api_server code verifier op nonce d = Inr u"
    and "find (\<lambda>r. oa_op r = op) (oauths d) = Some oa" and "oa_type oa \<noteq> OauthTypeGithub"
  shows "\<exists>tok n. validate_oauth_endpoint_url ul (oa_issuer oa) = Inr () \<and>
    pa_exchange (pr_oidc pr) code verifier = Inr (Some tok) \<and> tok \<noteq> [] \<and> pa_verify (pr_oidc pr) tok = Inr () \<and>
    pa_claims (pr_oidc pr) tok = Inr (n, o_open_id u) \<and> (nonce \<noteq> [] \<longrightarrow> n = nonce) \<and> trim_space (o_open_id u) \<noteq> []"
proof -
  from assms obtain v where cfg: "validate_oauth_endpoint_url ul (oa_issuer oa) = Inr ()"
    and b: "callback_base (pr_oidc pr) (\<lambda>u. Some (ou_sub u)) code verifier nonce True = Inr v"
    and u: "u = oidc_to_oauth_user (ur_lower ul) v"
    by (auto simp: oauth_callback_def get_oauth_config_def info_by_op_def oidc_callback_def outcome_simps Let_def
        split: if_splits option.splits)
  from b obtain raw where x: "pa_exchange (pr_oidc pr) code verifier = Inr raw"
    by (cases "pa_exchange (pr_oidc pr) code verifier") (auto simp: callback_base_def)
  with b obtain subject where s: "verified_subject (pr_oidc pr) True nonce raw = Inr subject"
    by (cases "verified_subject (pr_oidc pr) True nonce raw") (auto simp: callback_base_def)
  with b x obtain status body where ui: "pa_user_info (pr_oidc pr) = Inr (status, body)"
    by (cases "pa_user_info (pr_oidc pr)") (auto simp: callback_base_def)
  have sub: "same_oidc_subject subject (ou_sub v)"
    using b by (simp add: callback_base_def x s ui split: if_splits sum.splits)
  from s obtain tok n where "raw = Some tok" "tok \<noteq> []" "pa_verify (pr_oidc pr) tok = Inr ()"
    "pa_claims (pr_oidc pr) tok = Inr (n, subject)" "nonce \<noteq> [] \<longrightarrow> n = nonce"
    by (auto simp: verified_subject_def split: option.splits sum.splits if_splits)
  moreover have "o_open_id u = subject" "trim_space subject \<noteq> []"
    using sub u by (auto simp: same_oidc_subject_def oidc_to_oauth_user_def)
  ultimately show ?thesis using cfg x by auto
qed

definition demo_urls :: url_lib where
  "demo_urls = \<lparr>ur_parse = (\<lambda>s. Inr \<lparr>ol_scheme = ''https'', ol_hostname = s, ol_has_user = False, ol_raw_query = [],
     ol_fragment = [], ol_path = []\<rparr>), ur_parse_ip = (\<lambda>_. None), ur_equal_fold = (=), ur_lower = id\<rparr>"

definition demo_oauth :: oauth_row where
  "demo_oauth = \<lparr>oa_id = 1, oa_op = ''op'', oa_type = OauthTypeOidc, oa_client_id = ''c'', oa_client_secret = ''s'',
     oa_auto_register = Some True, oa_scopes = [], oa_issuer = ''issuer'', oa_pkce_enable = Some True,
     oa_pkce_method = PKCEMethodS256\<rparr>"

definition demo_provider :: provider where
  "demo_provider =
     \<lparr>pr_github = \<lparr>pa_exchange = (\<lambda>_ _. Inr None), pa_verify = (\<lambda>_. Inr ()), pa_claims = (\<lambda>_. Inr ([], [])),
        pa_user_info = Inl RecordNotFound\<rparr>, pr_emails = Inl RecordNotFound,
      pr_oidc = \<lparr>pa_exchange = (\<lambda>_ _. Inr (Some ''tok'')), pa_verify = (\<lambda>_. Inr ()), pa_claims = (\<lambda>_. Inr (''n'', ''sub'')),
        pa_user_info = Inr (200, 10, Inr \<lparr>ou_sub = ''sub'', ou_name = ''N'', ou_email = ''e'', ou_email_verified = True,
          ou_preferred_username = ''u'', ou_picture = []\<rparr>)\<rparr>\<rparr>"

definition demo_oauth_env :: env where
  "demo_oauth_env = \<lparr>flt = no_faults, now = 0, uuid_parses = (\<lambda>_. False), uuid_new = []\<rparr>"

lemma oidc_identity_proven_witness:
  "\<exists>u. oauth_callback demo_urls (\<lambda>_. Inr ()) demo_provider demo_oauth_env ''api'' ''code'' ''v'' ''op'' ''n''
      (empty_db\<lparr>oauths := [demo_oauth]\<rparr>) = Inr u \<and> trim_space (o_open_id u) \<noteq> []"
proof -
  let ?d = "empty_db\<lparr>oauths := [demo_oauth]\<rparr>"
  let ?u = "\<lparr>o_open_id = ''sub'', o_name = ''N'', o_username = ''u'', o_email = ''e'', o_verified_email = True, o_picture = []\<rparr>"
  have c: "oauth_callback demo_urls (\<lambda>_. Inr ()) demo_provider demo_oauth_env ''api'' ''code'' ''v'' ''op'' ''n'' ?d = Inr ?u"
  proof -
    have plain: "trim_space t = t" if "t \<in> {''sub'', ''u''}" for t
      by (rule trim_space_plain) (use that in \<open>auto simp: is_space_byte_def\<close>)
    have "validate_oauth_external_origin demo_urls ''api'' = Inr ''api''"
      "validate_oauth_endpoint_url demo_urls (oa_issuer demo_oauth) = Inr ()"
      "valid_oauth_type (oa_type demo_oauth)" "OauthTypeOidc \<noteq> OauthTypeGithub"
      by code_simp+
    then have cfg: "get_oauth_config demo_urls (\<lambda>_. Inr ()) demo_oauth_env ''api'' ''op'' ?d =
        Inr \<lparr>oc_info = demo_oauth, oc_redirect = ''api/api/oidc/callback'', oc_scopes = construct_scopes []\<rparr>"
      by (simp add: get_oauth_config_def info_by_op_def demo_oauth_env_def demo_oauth_def outcome_simps)
    have "verified_subject (pr_oidc demo_provider) True ''n'' (Some ''tok'') = Inr ''sub''"
      by (simp add: verified_subject_def demo_provider_def plain)
    then have "oidc_callback (ur_lower demo_urls) demo_provider ''code'' ''v'' ''n'' = Inr ?u"
      by (simp add: oidc_callback_def callback_base_def same_oidc_subject_def demo_provider_def decode_bounded_def
        maxOauthResponseBody_def oidc_to_oauth_user_def plain)
    then show ?thesis
      using \<open>OauthTypeOidc \<noteq> OauthTypeGithub\<close>
      by (simp add: oauth_callback_def cfg plain) (auto simp add: demo_oauth_def plain)
  qed
  have "\<exists>tok n. validate_oauth_endpoint_url demo_urls (oa_issuer demo_oauth) = Inr () \<and>
    pa_exchange (pr_oidc demo_provider) ''code'' ''v'' = Inr (Some tok) \<and> tok \<noteq> [] \<and>
    pa_verify (pr_oidc demo_provider) tok = Inr () \<and> pa_claims (pr_oidc demo_provider) tok = Inr (n, o_open_id ?u) \<and>
    (''n'' \<noteq> [] \<longrightarrow> n = ''n'') \<and> trim_space (o_open_id ?u) \<noteq> []"
    by (rule oidc_identity_proven [OF c]) (simp_all add: demo_oauth_def OauthTypeOidc_def OauthTypeGithub_def)
  with c show ?thesis by blast
qed

section \<open>Addresses\<close>

definition ipv4_value :: "nat list \<Rightarrow> nat" where
  "ipv4_value a = ((a ! 0 * 256 + a ! 1) * 256 + a ! 2) * 256 + a ! 3"

definition in_prefix :: "nat \<Rightarrow> nat list \<Rightarrow> nat list \<Rightarrow> bool" where
  "in_prefix bits base a \<longleftrightarrow> ipv4_value a div 2 ^ (32 - bits) = ipv4_value base div 2 ^ (32 - bits)"

lemma radix_eq:
  fixes q q' m p p' :: nat
  assumes "q < m" "q' < m"
  shows "p * m + q = p' * m + q' \<longleftrightarrow> p = p' \<and> q = q'"
proof
  assume e: "p * m + q = p' * m + q'"
  from arg_cong [OF e, of "\<lambda>x. x div m"] arg_cong [OF e, of "\<lambda>x. x mod m"] assms
  show "p = p' \<and> q = q'" by simp
qed simp

text \<open>The addresses the OAuth client refuses are exactly the private and local ones: an IPv4 address is refused
  if and only if it lies in 10/8, 172.16/12, 192.168/16, 127/8, 169.254/16, 224/4 or is 0.0.0.0, and writing
  it as an IPv4-mapped IPv6 address does not change the answer.\<close>

lemma disallowed_ipv4_exact:
  assumes "length a = 4" and "\<forall>b \<in> set a. b < 256"
  shows "(is_disallowed_oauth_ip a \<longleftrightarrow>
      in_prefix 8 [10, 0, 0, 0] a \<or> in_prefix 12 [172, 16, 0, 0] a \<or> in_prefix 16 [192, 168, 0, 0] a \<or>
      in_prefix 8 [127, 0, 0, 0] a \<or> in_prefix 16 [169, 254, 0, 0] a \<or> in_prefix 4 [224, 0, 0, 0] a \<or>
      in_prefix 32 [0, 0, 0, 0] a) \<and>
    is_disallowed_oauth_ip (replicate 10 0 @ [255, 255] @ a) = is_disallowed_oauth_ip a"
proof -
  from assms(1) obtain p q r s where a: "a = [p, q, r, s]"
    by (auto simp: length_Suc_conv numeral_eq_Suc)
  have b: "p < 256" "q < 256" "r < 256" "s < 256" using assms(2) by (simp_all add: a)
  have four: "ip_to4 a = Some a" "ip_to4 (replicate 10 0 @ [255, 255] @ a) = Some a"
    by (simp_all add: ip_to4_def a numeral_eq_Suc)
  have v: "ipv4_value a = p * 16777216 + q * 65536 + r * 256 + s" by (simp add: ipv4_value_def a)
  have d24: "ipv4_value a div 16777216 = p" and d16: "ipv4_value a div 65536 = p * 256 + q"
    and d20: "ipv4_value a div 1048576 = p * 16 + q div 16" and d28: "ipv4_value a div 268435456 = p div 16"
  proof -
    show "ipv4_value a div 16777216 = p" by (rule div_nat_eqI) (use b in \<open>simp_all add: v\<close>)
    show "ipv4_value a div 65536 = p * 256 + q" by (rule div_nat_eqI) (use b in \<open>simp_all add: v\<close>)
    show "ipv4_value a div 1048576 = p * 16 + q div 16"
    proof (rule div_nat_eqI)
      have "16 * (q div 16) \<le> q" "q < 16 * (q div 16) + 16"
        using mult_div_mod_eq [of 16 q] mod_less_divisor [of 16 q] by linarith+
      then show "1048576 * (p * 16 + q div 16) \<le> ipv4_value a" "ipv4_value a < 1048576 * Suc (p * 16 + q div 16)"
        unfolding v mult_Suc_right distrib_left using b by linarith+
    qed
    show "ipv4_value a div 268435456 = p div 16"
    proof (rule div_nat_eqI)
      have "16 * (p div 16) \<le> p" "p < 16 * (p div 16) + 16"
        using mult_div_mod_eq [of 16 p] mod_less_divisor [of 16 p] by linarith+
      then show "268435456 * (p div 16) \<le> ipv4_value a" "ipv4_value a < 268435456 * Suc (p div 16)"
        unfolding v mult_Suc_right distrib_left using b by linarith+
    qed
  qed
  have "is_disallowed_oauth_ip a \<longleftrightarrow> p = 127 \<or> (p = 10 \<or> (p = 172 \<and> q div 16 = 1) \<or> (p = 192 \<and> q = 168)) \<or>
      (p = 0 \<and> q = 0 \<and> r = 0 \<and> s = 0) \<or> (p = 169 \<and> q = 254) \<or> p div 16 = 14"
    unfolding is_disallowed_oauth_ip_def ip_is_loopback_def ip_is_private_def ip_is_unspecified_def
      ip_is_link_local_unicast_def ip_is_link_local_multicast_def ip_is_multicast_def four option.case
    by (auto simp: a)
  moreover have "in_prefix 8 [10, 0, 0, 0] a \<longleftrightarrow> p = 10" "in_prefix 8 [127, 0, 0, 0] a \<longleftrightarrow> p = 127"
    by (simp_all add: in_prefix_def d24) (simp_all add: ipv4_value_def)
  moreover have "in_prefix 16 [192, 168, 0, 0] a \<longleftrightarrow> p = 192 \<and> q = 168" "in_prefix 16 [169, 254, 0, 0] a \<longleftrightarrow> p = 169 \<and> q = 254"
    using radix_eq [OF b(2), of 168 p 192] radix_eq [OF b(2), of 254 p 169]
    by (simp_all add: in_prefix_def d16) (simp_all add: ipv4_value_def)
  moreover have "in_prefix 12 [172, 16, 0, 0] a \<longleftrightarrow> p = 172 \<and> q div 16 = 1"
    using radix_eq [of "q div 16" 16 1 p 172] b by (simp add: in_prefix_def d20) (simp add: ipv4_value_def)
  moreover have "in_prefix 4 [224, 0, 0, 0] a \<longleftrightarrow> p div 16 = 14"
    by (simp add: in_prefix_def d28) (simp add: ipv4_value_def)
  moreover have "in_prefix 32 [0, 0, 0, 0] a \<longleftrightarrow> p = 0 \<and> q = 0 \<and> r = 0 \<and> s = 0"
    by (simp add: in_prefix_def v) (simp add: ipv4_value_def)
  moreover have "is_disallowed_oauth_ip (replicate 10 0 @ [255, 255] @ a) = is_disallowed_oauth_ip a"
    by (simp only: is_disallowed_oauth_ip_def ip_is_loopback_def ip_is_private_def ip_is_unspecified_def
      ip_is_link_local_unicast_def ip_is_link_local_multicast_def ip_is_multicast_def four option.case)
  ultimately show ?thesis by blast
qed

lemma disallowed_ipv4_exact_witness:
  "is_disallowed_oauth_ip [172, 31, 255, 255] \<and> \<not> is_disallowed_oauth_ip [172, 32, 0, 0]"
  using disallowed_ipv4_exact [of "[172, 31, 255, 255]"] disallowed_ipv4_exact [of "[172, 32, 0, 0]"]
  by (simp add: in_prefix_def ipv4_value_def)

end
