(* ===== verification/TwoFactor.thy ===== *)
theory TwoFactor
  imports Revocation GoBase64
begin

text \<open>
  The second factor (\<open>src/service/two_factor.go\<close>, \<open>src/config/two_factor.go\<close>): the key file, enrolment, time-based
  codes, and the challenges of a two-step login.  The cipher, the keyed hash, SHA-256, the random source and the
  rendering of a URL are arguments; Go's base64 and base32 and the counter arithmetic are written out.  The
  clock of an operation is \<open>now\<close> in seconds and \<open>tw_nanos\<close> within the second.
\<close>

section \<open>Configuration and key file\<close>

record two_factor_config =
  tc_enabled :: bool
  tc_issuer :: string
  tc_key_file :: string
  tc_challenge_ttl :: int

definition effective_challenge_ttl :: "two_factor_config \<Rightarrow> int" where
  "effective_challenge_ttl c = (if tc_challenge_ttl c = 0 then 300 * 1000000000 else tc_challenge_ttl c)"

definition validate_two_factor_config ::
    "(string \<Rightarrow> nat \<Rightarrow> bool) \<Rightarrow> (string \<Rightarrow> bool) \<Rightarrow> two_factor_config \<Rightarrow> err + unit" where
  "validate_two_factor_config valid_text valid_file c =
     (if \<not> tc_enabled c then Inr ()
      else check (valid_text (tc_issuer c) 80) (ErrNew ''two-factor.issuer is invalid'') (
           check (valid_file (tc_key_file c)) (ErrNew ''two-factor.key-file is invalid'') (
           let ttl = effective_challenge_ttl c in
           check (\<not> (ttl < 60 * 1000000000 \<or> ttl > 600 * 1000000000))
             (ErrNew ''two-factor.challenge-ttl must be between one and ten minutes'') (Inr ()))))"

text \<open>A file as Lstat and ReadFile see it, and None where there is none.\<close>

record key_file =
  kf_regular :: bool
  kf_mode :: nat
  kf_bytes :: string

definition read_two_factor_key :: "faults \<Rightarrow> key_file option \<Rightarrow> err + string" where
  "read_two_factor_key f file =
     (case file of
        None \<Rightarrow> Inl (ErrNew ''file does not exist'')
      | Some k \<Rightarrow>
          check (kf_regular k \<and> kf_mode k mod 64 = 0) (ErrNew ''two-factor key file must be regular and mode 0600'') (
          stmt f (Stmt 5) (
          check (length (kf_bytes k) = 32) (ErrNew ''two-factor key file must contain exactly 32 bytes'') (Inr (kf_bytes k)))))"

text \<open>
  loadOrCreateTwoFactorKey.  The file may be there at the first look (\<open>seen\<close>), or another process may have
  made it by the time of the exclusive create (\<open>raced\<close>).  The result is the key and the file afterwards; the
  program points are MkdirAll, Lstat, the random source, create, write, ReadFile, close, and the second Lstat.
\<close>

definition load_or_create_key ::
    "faults \<Rightarrow> string \<Rightarrow> key_file option \<Rightarrow> key_file option \<Rightarrow> (err + string) \<times> key_file option" where
  "load_or_create_key f random seen raced =
     (if f (Stmt 1) then (Inl (DbErr (Stmt 1)), seen)
      else if f (Stmt 2) then (Inl (DbErr (Stmt 2)), seen)
      else case seen of
        Some k \<Rightarrow> (read_two_factor_key f seen, seen)
      | None \<Rightarrow>
          if f (Stmt 3) then (Inl (DbErr (Stmt 3)), raced)
          else case raced of
            Some k \<Rightarrow> ((if f (Stmt 8) then Inl (DbErr (Stmt 8)) else read_two_factor_key f raced), raced)
          | None \<Rightarrow>
              if f (Stmt 4) then (Inl (DbErr (Stmt 4)), None)
              else if f (Stmt 6) then (Inl (DbErr (Stmt 6)), None)
              else if f (Stmt 7) then (Inl (DbErr (Stmt 7)), None)
              else (Inr random, Some \<lparr>kf_regular = True, kf_mode = 384, kf_bytes = random\<rparr>))"

section \<open>The service\<close>

record aead =
  ad_nonce_size :: nat
  ad_seal :: "string \<Rightarrow> string \<Rightarrow> string \<Rightarrow> string"
  ad_open :: "string \<Rightarrow> string \<Rightarrow> string \<Rightarrow> err + string"

text \<open>What the package documents of an AEAD: Open undoes Seal, and a sealed text is longer than its plain text.\<close>

definition aead_laws :: "aead \<Rightarrow> bool" where
  "aead_laws a \<longleftrightarrow> (\<forall>n p ad. length n = ad_nonce_size a \<longrightarrow>
     ad_open a n (ad_seal a n p ad) ad = Inr p \<and> length p < length (ad_seal a n p ad))"

record two_factor_svc =
  tw_config :: two_factor_config
  tw_aead :: "aead option"
  tw_hmac :: "string \<Rightarrow> string \<Rightarrow> string"
  tw_sha :: "string \<Rightarrow> string"
  tw_url :: "string \<Rightarrow> string \<Rightarrow> string \<Rightarrow> (string \<times> string) list \<Rightarrow> string"
  tw_nanos :: int

definition init_two_factor ::
    "two_factor_svc \<Rightarrow> err + string \<Rightarrow> (string \<Rightarrow> err + aead) \<Rightarrow> err + two_factor_svc" where
  "init_two_factor s key new_gcm =
     (if \<not> tc_enabled (tw_config s) then Inr s
      else ebind key (\<lambda>k. ebind (new_gcm k) (\<lambda>a. Inr (s\<lparr>tw_aead := Some a\<rparr>))))"

text \<open>The service pointer may be nil.\<close>

definition available :: "two_factor_svc option \<Rightarrow> bool" where
  "available os = (case os of None \<Rightarrow> False | Some s \<Rightarrow> tc_enabled (tw_config s) \<and> tw_aead s \<noteq> None)"

definition enabled_for_user :: "two_factor_svc option \<Rightarrow> env \<Rightarrow> point \<Rightarrow> nat \<Rightarrow> db \<Rightarrow> bool" where
  "enabled_for_user os e p uid d =
     (if \<not> available os \<or> uid = 0 then False
      else (if flt e p then 0 else count_where (\<lambda>r. tf_user_id r = uid \<and> tf_enabled r) (two_factors d)) = 1)"

section \<open>Encryption of secrets\<close>

definition secret_aad :: "nat \<Rightarrow> string" where
  "secret_aad uid = ''kessoku:totp:user:'' @ decimal uid"

definition encrypt_secret :: "two_factor_svc option \<Rightarrow> err + string \<Rightarrow> nat \<Rightarrow> string \<Rightarrow> err + string" where
  "encrypt_secret os random uid plain =
     (case os of
        Some s \<Rightarrow>
          (case tw_aead s of
             Some a \<Rightarrow>
               if available os
               then ebind random (\<lambda>nonce. Inr (b64_encode std_alphabet False (nonce @ ad_seal a nonce plain (secret_aad uid))))
               else Inl ErrTwoFactorUnavailable
           | None \<Rightarrow> Inl ErrTwoFactorUnavailable)
      | None \<Rightarrow> Inl ErrTwoFactorUnavailable)"

definition decrypt_secret :: "aead \<Rightarrow> nat \<Rightarrow> string \<Rightarrow> err + string" where
  "decrypt_secret a uid encoded =
     (case b64_decode std_alphabet False encoded of
        None \<Rightarrow> Inl ErrTwoFactorUnavailable
      | Some c \<Rightarrow>
          if length c \<le> ad_nonce_size a then Inl ErrTwoFactorUnavailable
          else ad_open a (take (ad_nonce_size a) c) (drop (ad_nonce_size a) c) (secret_aad uid))"

section \<open>Codes\<close>

text \<open>Go's integer division truncates.\<close>

definition go_quot :: "int \<Rightarrow> int \<Rightarrow> int" where
  "go_quot a b = (if a < 0 then - ((- a) div b) else a div b)"

definition counter_bytes :: "int \<Rightarrow> string" where
  "counter_bytes step =
     (let n = nat (step mod 2 ^ 64) in map (\<lambda>i. char_of (n div 256 ^ i)) [7, 6, 5, 4, 3, 2, 1, 0])"

text \<open>binary.BigEndian.Uint32 of four bytes.\<close>

definition be_uint32 :: "string \<Rightarrow> nat" where
  "be_uint32 bs = foldl (\<lambda>n c. n * 256 + of_char c) 0 (take 4 bs)"

definition totp_value :: "(string \<Rightarrow> string \<Rightarrow> string) \<Rightarrow> string \<Rightarrow> int \<Rightarrow> nat" where
  "totp_value hmac secret step =
     (let sum = hmac secret (counter_bytes step);
          index = of_char (last sum) mod 16
      in (be_uint32 (drop index sum) mod 2 ^ 31) mod 1000000)"

definition go_trim :: "string \<Rightarrow> string \<Rightarrow> string" where
  "go_trim s cutset = rev (dropWhile (\<lambda>c. c \<in> set cutset) (rev (dropWhile (\<lambda>c. c \<in> set cutset) s)))"

definition code_well_formed :: "string \<Rightarrow> bool" where
  "code_well_formed code \<longleftrightarrow> length code = 6 \<and> go_trim code ''0123456789'' = []"

text \<open>The step a code is accepted for: the first of three that is later than the last one used.\<close>

definition verify_totp :: "(string \<Rightarrow> string \<Rightarrow> string) \<Rightarrow> string \<Rightarrow> string \<Rightarrow> int \<Rightarrow> int \<Rightarrow> int option" where
  "verify_totp hmac secret code t last_used =
     (if \<not> code_well_formed code then None
      else let current = go_quot t 30 in
        find (\<lambda>step. \<not> step \<le> last_used \<and> totp_value hmac secret step = undecimal code)
          [current - 1, current, current + 1])"

section \<open>Enrolment\<close>

text \<open>base32.StdEncoding without padding: five bytes are eight digits.\<close>

definition base32_alphabet :: string where "base32_alphabet = ''ABCDEFGHIJKLMNOPQRSTUVWXYZ234567''"

fun bits_of_nat :: "nat \<Rightarrow> nat \<Rightarrow> bool list" where
  "bits_of_nat 0 n = []"
| "bits_of_nat (Suc k) n = bits_of_nat k (n div 2) @ [n mod 2 = 1]"

fun base32_digits :: "bool list \<Rightarrow> string" where
  "base32_digits [] = []"
| "base32_digits (b # bs) =
     (let quintet = take 5 ((b # bs) @ [False, False, False, False])
      in base32_alphabet ! foldl (\<lambda>n b. n * 2 + (if b then 1 else 0)) 0 quintet # base32_digits (drop 4 bs))"

definition base32_encode :: "string \<Rightarrow> string" where
  "base32_encode bytes = base32_digits (concat (map (\<lambda>c. bits_of_nat 8 (of_char c)) bytes))"

definition setup_row :: "nat \<Rightarrow> two_factor_row list \<Rightarrow> two_factor_row" where
  "setup_row uid t = \<lparr>tf_id = next_id tf_id t, tf_user_id = uid, tf_secret = [], tf_pending_secret = [],
     tf_pending_expires_at = 0, tf_enabled = False, tf_last_used_step = 0\<rparr>"

text \<open>The statements that change the table of factors.\<close>

definition add_factor :: "nat \<Rightarrow> db \<Rightarrow> db" where
  "add_factor uid d = d\<lparr>two_factors := two_factors d @ [setup_row uid (two_factors d)]\<rparr>"

definition pending_set :: "nat \<Rightarrow> string \<Rightarrow> int \<Rightarrow> db \<Rightarrow> db" where
  "pending_set i c x d = d\<lparr>two_factors := update_where (\<lambda>r. tf_id r = i)
     (\<lambda>r. r\<lparr>tf_pending_secret := c, tf_pending_expires_at := x\<rparr>) (two_factors d)\<rparr>"

definition factor_on :: "nat \<Rightarrow> string \<Rightarrow> int \<Rightarrow> db \<Rightarrow> db" where
  "factor_on i secret step d = d\<lparr>two_factors := update_where (\<lambda>r. tf_id r = i)
     (\<lambda>r. r\<lparr>tf_secret := secret, tf_pending_secret := [], tf_pending_expires_at := 0, tf_enabled := True,
       tf_last_used_step := step\<rparr>) (two_factors d)\<rparr>"

definition factor_off :: "nat \<Rightarrow> db \<Rightarrow> db" where
  "factor_off i d = d\<lparr>two_factors := update_where (\<lambda>r. tf_id r = i)
     (\<lambda>r. r\<lparr>tf_secret := [], tf_pending_secret := [], tf_pending_expires_at := 0, tf_enabled := False,
       tf_last_used_step := 0\<rparr>) (two_factors d)\<rparr>"

text \<open>FirstOrCreate: the row of the user, made when there is none.\<close>

definition first_or_create_factor :: "env \<Rightarrow> point \<Rightarrow> nat \<Rightarrow> db \<Rightarrow> err + two_factor_row \<times> db" where
  "first_or_create_factor e p uid d =
     stmt (flt e) p
       (case find (\<lambda>r. tf_user_id r = uid) (two_factors d) of
          Some r \<Rightarrow> Inr (r, d)
        | None \<Rightarrow> Inr (setup_row uid (two_factors d), add_factor uid d))"

definition otpauth_uri :: "two_factor_svc \<Rightarrow> user_row \<Rightarrow> string \<Rightarrow> string" where
  "otpauth_uri s u secret =
     tw_url s ''otpauth'' ''totp'' (''/'' @ tc_issuer (tw_config s) @ '':'' @ u_username u)
       [(''secret'', secret), (''issuer'', tc_issuer (tw_config s)), (''algorithm'', ''SHA1''), (''digits'', ''6''),
        (''period'', ''30'')]"

definition begin_setup ::
    "two_factor_svc option \<Rightarrow> env \<Rightarrow> err + string \<Rightarrow> err + string \<Rightarrow> user_row option \<Rightarrow> db
      \<Rightarrow> (err + string \<times> string) \<times> db" where
  "begin_setup os e random nonce ou d =
     (case os of
        None \<Rightarrow> (Inl ErrTwoFactorUnavailable, d)
      | Some s \<Rightarrow>
          if \<not> available os then (Inl ErrTwoFactorUnavailable, d)
          else (case ou of
            None \<Rightarrow> (Inl ErrAuthentication, d)
          | Some u \<Rightarrow>
              if u_id u = 0 then (Inl ErrAuthentication, d)
              else if enabled_for_user os e (Outside 101) (u_id u) d
              then (Inl (ErrNew ''two-factor authentication is already enabled''), d)
              else (case random of
                Inl er \<Rightarrow> (Inl er, d)
              | Inr raw \<Rightarrow>
                  (case encrypt_secret os nonce (u_id u) raw of
                    Inl er \<Rightarrow> (Inl er, d)
                  | Inr ciphertext \<Rightarrow>
                      (case first_or_create_factor e (Outside 102) (u_id u) d of
                        Inl er \<Rightarrow> (Inl er, d)
                      | Inr (record, d1) \<Rightarrow>
                          if flt e (Outside 103) then (Inl (DbErr (Outside 103)), d1)
                          else (Inr (base32_encode raw, otpauth_uri s u (base32_encode raw)),
                                pending_set (tf_id record) ciphertext (now e + 600) d1))))))"

text \<open>The row a code is checked against, and what a good code yields; every failure is the same error.\<close>

definition locked_factor ::
    "env \<Rightarrow> point \<Rightarrow> err \<Rightarrow> (two_factor_row \<Rightarrow> bool) \<Rightarrow> db \<Rightarrow> err + two_factor_row" where
  "locked_factor e p er P d =
     (if flt e p then Inl er else case find P (two_factors d) of None \<Rightarrow> Inl er | Some r \<Rightarrow> Inr r)"

definition secret_or :: "err \<Rightarrow> err + string \<Rightarrow> err + string" where
  "secret_or er m = (case m of Inl _ \<Rightarrow> Inl er | Inr s \<Rightarrow> Inr s)"

definition confirm_setup_body ::
    "two_factor_svc \<Rightarrow> aead \<Rightarrow> env \<Rightarrow> nat \<Rightarrow> string \<Rightarrow> db \<Rightarrow> err + unit \<times> db" where
  "confirm_setup_body s a e uid code d =
     ebind (locked_factor e (Stmt 41) ErrTwoFactorCode (\<lambda>r. tf_user_id r = uid) d) (\<lambda>record.
     check (\<not> (tf_enabled record \<or> tf_pending_expires_at record < now e \<or> tf_pending_secret record = [])) ErrTwoFactorCode (
     ebind (secret_or ErrTwoFactorCode (decrypt_secret a uid (tf_pending_secret record))) (\<lambda>secret.
     case verify_totp (tw_hmac s) secret code (now e) 0 of
       None \<Rightarrow> Inl ErrTwoFactorCode
     | Some step \<Rightarrow>
         stmt (flt e) (Stmt 42) (
         ebind (bump_auth_version_and_revoke e (Stmt 43) (Stmt 44) uid ''two_factor_enabled''
                  (factor_on (tf_id record) (tf_pending_secret record) step d)) (\<lambda>d2. Inr ((), d2))))))"

text \<open>A signed-in user and an available service: what the three guarded operations start with.\<close>

definition with_factor ::
    "two_factor_svc option \<Rightarrow> user_row option \<Rightarrow> db
      \<Rightarrow> (two_factor_svc \<Rightarrow> aead \<Rightarrow> user_row \<Rightarrow> (err + unit) \<times> db) \<Rightarrow> (err + unit) \<times> db" where
  "with_factor os ou d op =
     (case os of
        None \<Rightarrow> (Inl ErrTwoFactorUnavailable, d)
      | Some s \<Rightarrow>
          (case tw_aead s of
             None \<Rightarrow> (Inl ErrTwoFactorUnavailable, d)
           | Some a \<Rightarrow>
               if \<not> available os then (Inl ErrTwoFactorUnavailable, d)
               else (case ou of
                       None \<Rightarrow> (Inl ErrAuthentication, d)
                     | Some u \<Rightarrow> if u_id u = 0 then (Inl ErrAuthentication, d) else op s a u)))"

definition confirm_setup ::
    "two_factor_svc option \<Rightarrow> env \<Rightarrow> user_row option \<Rightarrow> string \<Rightarrow> string \<Rightarrow> db \<Rightarrow> (err + unit) \<times> db" where
  "confirm_setup os e ou request_id code d =
     with_factor os ou d (\<lambda>s a u.
       audited e (u_id u) request_id ''auth.two_factor.enabled'' ''user'' (decimal (u_id u))
         [(''revocation_reason'', MStr ''two_factor_enabled'')] ''AUTH_TWO_FACTOR_ENABLE_FAILED''
         (\<lambda>_. transaction (flt e) (confirm_setup_body s a e (u_id u) code)) d)"

definition disable_body :: "two_factor_svc \<Rightarrow> aead \<Rightarrow> env \<Rightarrow> nat \<Rightarrow> string \<Rightarrow> db \<Rightarrow> err + unit \<times> db" where
  "disable_body s a e uid code d =
     ebind (locked_factor e (Stmt 45) ErrTwoFactorCode (\<lambda>r. tf_user_id r = uid \<and> tf_enabled r) d) (\<lambda>record.
     ebind (secret_or ErrTwoFactorCode (decrypt_secret a uid (tf_secret record))) (\<lambda>secret.
     case verify_totp (tw_hmac s) secret code (now e) (tf_last_used_step record) of
       None \<Rightarrow> Inl ErrTwoFactorCode
     | Some _ \<Rightarrow>
         stmt (flt e) (Stmt 46) (
         ebind (bump_auth_version_and_revoke e (Stmt 47) (Stmt 48) uid ''two_factor_disabled''
                  (factor_off (tf_id record) d)) (\<lambda>d2. Inr ((), d2)))))"

definition disable_two_factor ::
    "two_factor_svc option \<Rightarrow> env \<Rightarrow> user_row option \<Rightarrow> string \<Rightarrow> string \<Rightarrow> db \<Rightarrow> (err + unit) \<times> db" where
  "disable_two_factor os e ou request_id code d =
     with_factor os ou d (\<lambda>s a u.
       audited e (u_id u) request_id ''auth.two_factor.disabled'' ''user'' (decimal (u_id u))
         [(''revocation_reason'', MStr ''two_factor_disabled'')] ''AUTH_TWO_FACTOR_DISABLE_FAILED''
         (\<lambda>_. transaction (flt e) (disable_body s a e (u_id u) code)) d)"

section \<open>Login challenges\<close>

record challenge_binding =
  tb_client :: string
  tb_device_id :: string
  tb_uuid :: string
  tb_platform :: string

definition challenge_hash :: "two_factor_svc \<Rightarrow> string \<Rightarrow> string" where
  "challenge_hash s token = hex_encode (tw_sha s token)"

definition expire :: "int \<Rightarrow> db \<Rightarrow> db" where
  "expire t d = d\<lparr>challenges := delete_where (\<lambda>r. ch_expires_at r < t) (challenges d)\<rparr>"

definition add_challenge :: "challenge_row \<Rightarrow> db \<Rightarrow> db" where
  "add_challenge r d = d\<lparr>challenges := challenges d @ [r\<lparr>ch_id := next_id ch_id (challenges d)\<rparr>]\<rparr>"

definition insert_challenge :: "challenge_row \<Rightarrow> db \<Rightarrow> err + db" where
  "insert_challenge r d =
     (if ch_token_hash r \<in> ch_token_hash ` set (challenges d) then Inl UniqueViolation
      else Inr (add_challenge r d))"

definition challenge_record :: "two_factor_svc \<Rightarrow> env \<Rightarrow> user_row \<Rightarrow> challenge_binding \<Rightarrow> string \<Rightarrow> challenge_row" where
  "challenge_record s e u b token =
     \<lparr>ch_id = 0, ch_token_hash = challenge_hash s token, ch_user_id = u_id u, ch_username = u_username u,
      ch_client = tb_client b, ch_device_id = tb_device_id b, ch_uuid = tb_uuid b, ch_platform = tb_platform b,
      ch_expires_at = (now e * 1000000000 + tw_nanos s + effective_challenge_ttl (tw_config s)) div 1000000000,
      ch_attempts = 0, ch_used_at = 0\<rparr>"

definition create_login_challenge ::
    "two_factor_svc option \<Rightarrow> env \<Rightarrow> err + string \<Rightarrow> user_row \<Rightarrow> challenge_binding \<Rightarrow> db \<Rightarrow> (err + string) \<times> db" where
  "create_login_challenge os e random u b d =
     (case os of
        None \<Rightarrow> (Inl ErrTwoFactorRequired, d)
      | Some s \<Rightarrow>
          if \<not> enabled_for_user os e (Outside 104) (u_id u) d then (Inl ErrTwoFactorRequired, d)
          else if flt e (Outside 105) then (Inl (DbErr (Outside 105)), d)
          else (let d1 = expire (now e) d in
            case random of
              Inl er \<Rightarrow> (Inl er, d1)
            | Inr bytes \<Rightarrow>
                (let token = b64_encode url_alphabet False bytes;
                     record = challenge_record s e u b token
                 in if flt e (Outside 106) then (Inl (DbErr (Outside 106)), d1)
                    else case insert_challenge record d1 of
                      Inl er \<Rightarrow> (Inl er, d1)
                    | Inr d2 \<Rightarrow> (Inr token, d2))))"

definition challenge_usable :: "int \<Rightarrow> string \<Rightarrow> challenge_binding \<Rightarrow> challenge_row \<Rightarrow> bool" where
  "challenge_usable t username b c \<longleftrightarrow>
     \<not> (ch_used_at c \<noteq> 0 \<or> ch_expires_at c < t \<or> ch_attempts c \<ge> 5 \<or> ch_username c \<noteq> username \<or>
       ch_client c \<noteq> tb_client b \<or> ch_device_id c \<noteq> tb_device_id b \<or> ch_uuid c \<noteq> tb_uuid b \<or>
       ch_platform c \<noteq> tb_platform b)"

definition update_challenge :: "nat \<Rightarrow> (challenge_row \<Rightarrow> challenge_row) \<Rightarrow> db \<Rightarrow> db" where
  "update_challenge cid f d = d\<lparr>challenges := update_where (\<lambda>r. ch_id r = cid) f (challenges d)\<rparr>"

definition wrong_code :: "challenge_row \<Rightarrow> db \<Rightarrow> db" where
  "wrong_code c = update_challenge (ch_id c) (\<lambda>r. r\<lparr>ch_attempts := ch_attempts r + 1\<rparr>)"

definition spend_step :: "nat \<Rightarrow> int \<Rightarrow> db \<Rightarrow> db" where
  "spend_step i step d = d\<lparr>two_factors := update_where (\<lambda>r. tf_id r = i) (\<lambda>r. r\<lparr>tf_last_used_step := step\<rparr>) (two_factors d)\<rparr>"

definition use_challenge :: "nat \<Rightarrow> int \<Rightarrow> db \<Rightarrow> db" where
  "use_challenge cid t = update_challenge cid (\<lambda>r. r\<lparr>ch_used_at := t, ch_attempts := ch_attempts r + 1\<rparr>)"

text \<open>
  The transaction of CompleteLoginChallenge: a wrong code commits the attempt and is an error all the same, so
  what the transaction returns is itself an outcome.
\<close>

definition complete_body ::
    "two_factor_svc \<Rightarrow> aead \<Rightarrow> env \<Rightarrow> string \<Rightarrow> string \<Rightarrow> string \<Rightarrow> challenge_binding \<Rightarrow> db
      \<Rightarrow> err + (err + user_row) \<times> db" where
  "complete_body s a e token username code b d =
     ebind (if flt e (Stmt 51) then Inl ErrTwoFactorChallenge
            else case find (\<lambda>r. ch_token_hash r = challenge_hash s token) (challenges d) of
                   None \<Rightarrow> Inl ErrTwoFactorChallenge | Some c \<Rightarrow> Inr c) (\<lambda>c.
     check (challenge_usable (now e) username b c) ErrTwoFactorChallenge (
     ebind (locked_factor e (Stmt 52) ErrTwoFactorChallenge (\<lambda>r. tf_user_id r = ch_user_id c \<and> tf_enabled r) d) (\<lambda>factor.
     ebind (secret_or ErrTwoFactorChallenge (decrypt_secret a (ch_user_id c) (tf_secret factor))) (\<lambda>secret.
     case verify_totp (tw_hmac s) secret code (now e) (tf_last_used_step factor) of
       None \<Rightarrow>
         stmt (flt e) (Stmt 53) (Inr (Inl ErrTwoFactorCode, wrong_code c d))
     | Some step \<Rightarrow>
         stmt (flt e) (Stmt 54) (stmt (flt e) (Stmt 55) (
         let d2 = use_challenge (ch_id c) (now e) (spend_step (tf_id factor) step d) in
         stmt (flt e) (Stmt 56) (
         case find (\<lambda>u. u_id u = ch_user_id c) (users d2) of
           None \<Rightarrow> Inl RecordNotFound
         | Some u \<Rightarrow> Inr (Inr u, d2))))))))"

definition complete_login_challenge ::
    "two_factor_svc option \<Rightarrow> env \<Rightarrow> string \<Rightarrow> string \<Rightarrow> string \<Rightarrow> challenge_binding \<Rightarrow> db \<Rightarrow> (err + user_row) \<times> db" where
  "complete_login_challenge os e token username code b d =
     (case os of
        None \<Rightarrow> (Inl ErrTwoFactorChallenge, d)
      | Some s \<Rightarrow>
          (case tw_aead s of
             None \<Rightarrow> (Inl ErrTwoFactorChallenge, d)
           | Some a \<Rightarrow>
               if \<not> available os \<or> length token < 32 \<or> length token > 128 then (Inl ErrTwoFactorChallenge, d)
               else (case transaction (flt e) (complete_body s a e token username code b) d of
                       (Inl er, d1) \<Rightarrow> (Inl er, d1)
                     | (Inr r, d1) \<Rightarrow> (r, d1))))"

end
