(* ===== verification/TwoFactorProps.thy ===== *)
theory TwoFactorProps
  imports TwoFactor
begin

text \<open>
  Properties of the second factor.  The operations of the service form a labelled step relation; the label says
  whether the operation looked at a code for a challenge, and whether the code was right.  The locale
  \<open>factor_relation\<close> collects the table updates the operations are made of; its two interpretations are that a
  time step is spent once and that a challenge is good for five codes.
\<close>

section \<open>Inversion\<close>

lemma available_Some: "available os \<Longrightarrow> \<exists>s a. os = Some s \<and> tw_aead s = Some a"
  by (auto simp: available_def split: option.splits)

lemma locked_factor_Inr [outcome_simps]:
  "locked_factor e p er P d = Inr r \<longleftrightarrow> \<not> flt e p \<and> find P (two_factors d) = Some r"
  by (auto simp: locked_factor_def split: option.splits)

lemma secret_or_Inr [outcome_simps]: "secret_or er m = Inr x \<longleftrightarrow> m = Inr x"
  by (auto simp: secret_or_def split: sum.splits)

lemma option_case_Inr [outcome_simps]:
  "(case m of None \<Rightarrow> Inl er | Some x \<Rightarrow> f x) = Inr y \<longleftrightarrow> (\<exists>x. m = Some x \<and> f x = Inr y)"
  by (cases m) auto

text \<open>The challenge of a token, its usability, and the factor of its user.\<close>

definition presented ::
    "two_factor_svc \<Rightarrow> env \<Rightarrow> string \<Rightarrow> string \<Rightarrow> challenge_binding \<Rightarrow> db \<Rightarrow> challenge_row \<Rightarrow> two_factor_row \<Rightarrow> bool" where
  "presented s e token username b d c f \<longleftrightarrow>
     find (\<lambda>r. ch_token_hash r = challenge_hash s token) (challenges d) = Some c \<and>
     challenge_usable (now e) username b c \<and>
     find (\<lambda>r. tf_user_id r = ch_user_id c \<and> tf_enabled r) (two_factors d) = Some f"

lemma complete_body_Inr:
  "complete_body s a e token username code b d = Inr (out, d') \<Longrightarrow>
     \<exists>c f secret. presented s e token username b d c f \<and> decrypt_secret a (ch_user_id c) (tf_secret f) = Inr secret \<and>
       ((verify_totp (tw_hmac s) secret code (now e) (tf_last_used_step f) = None \<and> out = Inl ErrTwoFactorCode \<and>
         d' = wrong_code c d) \<or>
        (\<exists>step u. verify_totp (tw_hmac s) secret code (now e) (tf_last_used_step f) = Some step \<and> out = Inr u \<and>
         find (\<lambda>u. u_id u = ch_user_id c) (users d) = Some u \<and> d' = use_challenge (ch_id c) (now e) (spend_step (tf_id f) step d)))"
  by (auto simp: complete_body_def outcome_simps presented_def Let_def use_challenge_def spend_step_def update_challenge_def
      split: option.splits if_splits)

text \<open>Outside that branch the error is never that of a wrong code.\<close>

lemma ebind_avoid: "m \<noteq> Inl er \<Longrightarrow> (\<And>x. f x \<noteq> Inl er) \<Longrightarrow> ebind m f \<noteq> Inl er"
  by (cases m) simp_all

lemma stmt_avoid: "er \<noteq> DbErr p \<Longrightarrow> m \<noteq> Inl er \<Longrightarrow> stmt fl p m \<noteq> Inl er"
  by (auto simp: stmt_def)

lemma check_avoid: "er \<noteq> er' \<Longrightarrow> m \<noteq> Inl er \<Longrightarrow> check ok er' m \<noteq> Inl er"
  by (auto simp: check_def)

lemma option_avoid: "x \<noteq> Inl er \<Longrightarrow> (\<And>y. f y \<noteq> Inl er) \<Longrightarrow> (case m of None \<Rightarrow> x | Some y \<Rightarrow> f y) \<noteq> Inl er"
  by (cases m) simp_all

lemma complete_body_avoid: "complete_body s a e token username code b d \<noteq> Inl ErrTwoFactorCode"
  unfolding complete_body_def Let_def
  by (intro ebind_avoid stmt_avoid check_avoid option_avoid)
    (auto simp: locked_factor_def secret_or_def split: option.splits sum.splits)

text \<open>What a call of CompleteLoginChallenge can do to the database.\<close>

lemma complete_cases:
  assumes "complete_login_challenge os e token username code b d = (out, d')"
  obtains (same) er where "d' = d" "out = Inl er" "er \<noteq> ErrTwoFactorCode"
  | (wrong) s a c f secret where "os = Some s" "tw_aead s = Some a" "presented s e token username b d c f"
      "decrypt_secret a (ch_user_id c) (tf_secret f) = Inr secret"
      "verify_totp (tw_hmac s) secret code (now e) (tf_last_used_step f) = None"
      "out = Inl ErrTwoFactorCode" "d' = wrong_code c d"
  | (right) s a c f secret step u where "os = Some s" "tw_aead s = Some a" "presented s e token username b d c f"
      "decrypt_secret a (ch_user_id c) (tf_secret f) = Inr secret"
      "verify_totp (tw_hmac s) secret code (now e) (tf_last_used_step f) = Some step"
      "out = Inr u" "find (\<lambda>u. u_id u = ch_user_id c) (users d) = Some u" "d' = use_challenge (ch_id c) (now e) (spend_step (tf_id f) step d)"
proof (cases "os = None \<or> tw_aead (the os) = None \<or> \<not> available os \<or> length token < 32 \<or> length token > 128")
  case True
  then have "d' = d" "out = Inl ErrTwoFactorChallenge"
    using assms by (auto simp: complete_login_challenge_def split: option.splits)
  then show ?thesis using same by simp
next
  case False
  then obtain s a where s: "os = Some s" "tw_aead s = Some a" by auto
  with assms False have t: "(case transaction (flt e) (complete_body s a e token username code b) d of
      (Inl er, d1) \<Rightarrow> (Inl er, d1) | (Inr r, d1) \<Rightarrow> (r, d1)) = (out, d')"
    by (simp add: complete_login_challenge_def)
  show ?thesis
  proof (cases "transaction (flt e) (complete_body s a e token username code b) d")
    case (Pair r d1)
    show ?thesis
    proof (cases r)
      case (Inl er)
      with Pair t have "d' = d" "out = Inl er" by (auto dest: transaction_Inl_state)
      moreover have "er \<noteq> ErrTwoFactorCode"
        using Pair Inl complete_body_avoid [of s a e token username code b d]
        by (auto simp: transaction_def split: sum.splits if_splits)
      ultimately show ?thesis using same by blast
    next
      case (Inr r')
      with Pair t have "(r', d1) = (out, d')" by simp
      with Pair Inr have "complete_body s a e token username code b d = Inr (out, d')"
        by (simp add: transaction_eq_Inr)
      from complete_body_Inr [OF this] s show ?thesis using wrong right by blast
    qed
  qed
qed

lemma begin_setup_cases:
  obtains (same) "snd (begin_setup os e random nonce ou d) = d"
  | (made) u where "find (\<lambda>r. tf_user_id r = u) (two_factors d) = None"
      "snd (begin_setup os e random nonce ou d) = add_factor u d"
  | (pending) i c x where "snd (begin_setup os e random nonce ou d) = pending_set i c x d"
  | (both) u i c x where "find (\<lambda>r. tf_user_id r = u) (two_factors d) = None"
      "snd (begin_setup os e random nonce ou d) = pending_set i c x (add_factor u d)"
proof -
  have "snd (begin_setup os e random nonce ou d) = d \<or>
      (\<exists>u. find (\<lambda>r. tf_user_id r = u) (two_factors d) = None \<and>
        (snd (begin_setup os e random nonce ou d) = add_factor u d \<or>
         (\<exists>i c x. snd (begin_setup os e random nonce ou d) = pending_set i c x (add_factor u d)))) \<or>
      (\<exists>i c x. snd (begin_setup os e random nonce ou d) = pending_set i c x d)"
    unfolding begin_setup_def first_or_create_factor_def stmt_def Let_def
    by (auto split: option.splits sum.splits if_splits; blast)
  then show thesis using that by blast
qed

lemma confirm_body_Inr:
  assumes "confirm_setup_body s a e uid code d = Inr (x, d')"
  obtains r secret step d1 where "find (\<lambda>r. tf_user_id r = uid) (two_factors d) = Some r" "\<not> tf_enabled r"
    "now e \<le> tf_pending_expires_at r" "decrypt_secret a uid (tf_pending_secret r) = Inr secret"
    "verify_totp (tw_hmac s) secret code (now e) 0 = Some step"
    "d1 = factor_on (tf_id r) (tf_pending_secret r) step d"
    "bump_auth_version_and_revoke e (Stmt 43) (Stmt 44) uid ''two_factor_enabled'' d1 = Inr d'"
  using assms by (auto simp: confirm_setup_body_def outcome_simps Let_def simp del: bump_eq_Inr)

lemma disable_body_Inr:
  assumes "disable_body s a e uid code d = Inr (x, d')"
  obtains r secret step d1 where "find (\<lambda>r. tf_user_id r = uid \<and> tf_enabled r) (two_factors d) = Some r"
    "decrypt_secret a uid (tf_secret r) = Inr secret"
    "verify_totp (tw_hmac s) secret code (now e) (tf_last_used_step r) = Some step"
    "d1 = factor_off (tf_id r) d"
    "bump_auth_version_and_revoke e (Stmt 47) (Stmt 48) uid ''two_factor_disabled'' d1 = Inr d'"
  using assms by (auto simp: disable_body_def outcome_simps Let_def simp del: bump_eq_Inr)

lemma challenge_record_fresh [simp]:
  "ch_attempts (challenge_record s e u b token) = 0" "ch_used_at (challenge_record s e u b token) = 0"
  "ch_token_hash (challenge_record s e u b token) = challenge_hash s token"
  by (simp_all add: challenge_record_def)

lemma create_challenge_cases:
  obtains (same) "snd (create_login_challenge os e random u b d) = d"
  | (expired) "snd (create_login_challenge os e random u b d) = expire (now e) d"
  | (issued) s token where "os = Some s" "fst (create_login_challenge os e random u b d) = Inr token"
      "challenge_hash s token \<notin> ch_token_hash ` set (challenges (expire (now e) d))"
      "snd (create_login_challenge os e random u b d) = add_challenge (challenge_record s e u b token) (expire (now e) d)"
proof (cases os)
  case None
  then show ?thesis using same by (simp add: create_login_challenge_def)
next
  case (Some s)
  show ?thesis
  proof (cases "enabled_for_user os e (Outside 104) (u_id u) d \<and> \<not> flt e (Outside 105)")
    case False
    then show ?thesis using same Some by (auto simp: create_login_challenge_def)
  next
    case ready: True
    show ?thesis
    proof (cases random)
      case (Inl er)
      then show ?thesis using expired ready Some by (simp add: create_login_challenge_def)
    next
      case (Inr bytes)
      let ?token = "b64_encode url_alphabet False bytes"
      have r: "create_login_challenge os e random u b d =
          (if flt e (Outside 106) then (Inl (DbErr (Outside 106)), expire (now e) d)
           else case insert_challenge (challenge_record s e u b ?token) (expire (now e) d) of
                  Inl er \<Rightarrow> (Inl er, expire (now e) d) | Inr d2 \<Rightarrow> (Inr ?token, d2))"
        using Inr ready Some by (simp add: create_login_challenge_def Let_def)
      show ?thesis
      proof (cases "flt e (Outside 106) \<or> challenge_hash s ?token \<in> ch_token_hash ` set (challenges (expire (now e) d))")
        case True
        then show ?thesis by (intro expired) (auto simp: r insert_challenge_def)
      next
        case False
        then show ?thesis by (intro issued [OF Some, of ?token]) (auto simp: r insert_challenge_def)
      qed
    qed
  qed
qed

section \<open>The operations as labelled steps\<close>

text \<open>
  A label is the token hash whose challenge a code was compared for, with whether it was right.  \<open>off\<close> says
  whose factor may be disabled or removed in the run, \<open>new\<close> which token hashes may be issued.  Any other
  operation may happen in between, as long as it only removes rows of the two tables.
\<close>

type_synonym look = "(string \<times> bool) option"

definition look_of :: "string \<Rightarrow> err + user_row \<Rightarrow> look" where
  "look_of h out = (case out of Inr _ \<Rightarrow> Some (h, True)
     | Inl er \<Rightarrow> if er = ErrTwoFactorCode then Some (h, False) else None)"

inductive factor_step :: "(nat \<Rightarrow> bool) \<Rightarrow> (string \<Rightarrow> bool) \<Rightarrow> look \<Rightarrow> db \<Rightarrow> db \<Rightarrow> bool"
  for off :: "nat \<Rightarrow> bool" and new :: "string \<Rightarrow> bool" where
  Begin_setup: "factor_step off new None d (snd (begin_setup os e random nonce ou d))"
| Confirm: "factor_step off new None d (snd (confirm_setup os e ou rid code d))"
| Disable: "(\<And>u. ou = Some u \<Longrightarrow> off (u_id u)) \<Longrightarrow> factor_step off new None d (snd (disable_two_factor os e ou rid code d))"
| Challenge: "(\<And>s token. os = Some s \<Longrightarrow> fst (create_login_challenge os e random u b d) = Inr token \<Longrightarrow>
      new (challenge_hash s token)) \<Longrightarrow> factor_step off new None d (snd (create_login_challenge os e random u b d))"
| Complete: "complete_login_challenge (Some s) e token username code b d = (out, d') \<Longrightarrow> now e \<noteq> 0 \<Longrightarrow>
      factor_step off new (look_of (challenge_hash s token) out) d d'"
| Other: "two_factors d' = delete_where P (two_factors d) \<Longrightarrow> challenges d' = delete_where Q (challenges d) \<Longrightarrow>
      (\<And>r. P r \<Longrightarrow> off (tf_user_id r)) \<Longrightarrow> factor_step off new None d d'"

inductive factor_run :: "(nat \<Rightarrow> bool) \<Rightarrow> (string \<Rightarrow> bool) \<Rightarrow> look list \<Rightarrow> db \<Rightarrow> db \<Rightarrow> bool"
  for off new where
  Nil: "factor_run off new [] d d"
| Cons: "factor_run off new ls d d1 \<Longrightarrow> factor_step off new l d1 d2 \<Longrightarrow> factor_run off new (l # ls) d d2"

lemma verify_totp_Some:
  assumes "verify_totp hmac secret code t last_used = Some step"
  shows "last_used < step" "totp_value hmac secret step = undecimal code" "code_well_formed code"
    "\<bar>step - go_quot t 30\<bar> \<le> 1"
  using assms by (auto simp: verify_totp_def Let_def find_Some_iff nth_Cons' split: if_splits)

text \<open>The unique keys of the two tables.\<close>

definition wf_factors :: "db \<Rightarrow> bool" where
  "wf_factors d \<longleftrightarrow> distinct (map tf_id (two_factors d)) \<and> distinct (map tf_user_id (two_factors d)) \<and>
     distinct (map ch_id (challenges d)) \<and> distinct (map ch_token_hash (challenges d))"

locale factor_relation =
  fixes off :: "nat \<Rightarrow> bool" and new :: "string \<Rightarrow> bool" and R :: "look \<Rightarrow> db \<Rightarrow> db \<Rightarrow> bool"
  assumes R_other: "two_factors d' = delete_where P (two_factors d) \<Longrightarrow> challenges d' = delete_where Q (challenges d) \<Longrightarrow>
      (\<And>r. P r \<Longrightarrow> off (tf_user_id r)) \<Longrightarrow> R None d d'"
    and R_trans: "R None d d1 \<Longrightarrow> R None d1 d2 \<Longrightarrow> R None d d2"
    and R_add_factor: "find (\<lambda>r. tf_user_id r = u) (two_factors d) = None \<Longrightarrow> R None d (add_factor u d)"
    and R_pending: "R None d (pending_set i ciphertext x d)"
    and R_on: "find (\<lambda>r. tf_user_id r = u) (two_factors d) = Some r \<Longrightarrow> \<not> tf_enabled r \<Longrightarrow>
      R None d (factor_on (tf_id r) secret step d)"
    and R_off: "find (\<lambda>r. tf_user_id r = u \<and> tf_enabled r) (two_factors d) = Some r \<Longrightarrow> off u \<Longrightarrow>
      R None d (factor_off (tf_id r) d)"
    and R_add_challenge: "new (ch_token_hash c) \<Longrightarrow> ch_token_hash c \<notin> ch_token_hash ` set (challenges d) \<Longrightarrow>
      R None d (add_challenge c d)"
    and R_wrong: "find (\<lambda>r. ch_token_hash r = hash) (challenges d) = Some c \<Longrightarrow> challenge_usable t username b c \<Longrightarrow>
      R (Some (hash, False)) d (wrong_code c d)"
    and R_right: "find (\<lambda>r. ch_token_hash r = hash) (challenges d) = Some c \<Longrightarrow> challenge_usable t username b c \<Longrightarrow>
      t \<noteq> 0 \<Longrightarrow> find (\<lambda>r. tf_user_id r = ch_user_id c \<and> tf_enabled r) (two_factors d) = Some f \<Longrightarrow>
      tf_last_used_step f < step \<Longrightarrow> R (Some (hash, True)) d (use_challenge (ch_id c) t (spend_step (tf_id f) step d))"
begin

lemma R_same: "two_factors d' = two_factors d \<Longrightarrow> challenges d' = challenges d \<Longrightarrow> R None d d'"
  by (rule R_other [of _ "\<lambda>_. False" _ "\<lambda>_. False"]) (simp_all add: delete_where_def)

lemma R_begin: "R None d (snd (begin_setup os e random nonce ou d))"
  by (rule begin_setup_cases [of os e random nonce ou d]) (auto simp: R_same intro: R_add_factor R_pending R_trans)

lemma R_create:
  assumes "\<And>s token. os = Some s \<Longrightarrow> fst (create_login_challenge os e random u b d) = Inr token \<Longrightarrow> new (challenge_hash s token)"
  shows "R None d (snd (create_login_challenge os e random u b d))"
proof -
  have ex: "R None d (expire (now e) d)"
    by (rule R_other [of _ "\<lambda>_. False"]) (simp_all add: expire_def delete_where_def)
  show ?thesis
    by (rule create_challenge_cases [of os e random u b d]) (auto simp: R_same ex assms intro: R_trans [OF ex R_add_challenge])
qed

lemma R_audited:
  assumes "\<And>event x d1 d2. body event d1 = Inr (x, d2) \<Longrightarrow> R None d1 d2"
  shows "R None d (snd (audited e actor rid action tt ti md fc (\<lambda>event. transaction (flt e) (body event)) d))"
proof (cases "begin_security_audit e actor rid action tt ti md d")
  case (Inl er)
  then show ?thesis by (simp add: audited_def R_same)
next
  case (Inr p)
  obtain event where p: "p = (event, d\<lparr>events := events d @ [event]\<rparr>)"
    using Inr by (cases p) (auto simp: begin_eq_Inr)
  let ?d1 = "d\<lparr>events := events d @ [event]\<rparr>"
  have 1: "R None d ?d1" by (rule R_same) simp_all
  have 2: "R None ?d1 (snd (transaction (flt e) (body event) ?d1))"
    by (rule transaction_cases [of "flt e" "body event" ?d1]) (auto simp: R_same intro: assms)
  have 3: "R None d2 (snd (finalize_security_audit e event fc (out, d2)))" for out d2
    using same_but_events_fields [OF finalize_same_but_events [of "(out, d2)" e event fc]] by (auto intro: R_same)
  show ?thesis
    using R_trans [OF R_trans [OF 1 2] 3 [of _ "fst (transaction (flt e) (body event) ?d1)"]]
    by (simp add: audited_def Inr p)
qed

lemma R_bump: "R None d d1 \<Longrightarrow> bump_auth_version_and_revoke e p1 p2 uid reason d1 = Inr d2 \<Longrightarrow> R None d d2"
  by (erule R_trans) (rule R_same; auto simp: bump_eq_Inr revoke_where_def)

lemma R_confirm: "R None d (snd (confirm_setup os e ou rid code d))"
  unfolding confirm_setup_def with_factor_def
  by (auto simp: R_same split: option.splits intro!: R_audited elim!: confirm_body_Inr intro: R_bump R_on)

lemma R_disable:
  assumes "\<And>u. ou = Some u \<Longrightarrow> off (u_id u)"
  shows "R None d (snd (disable_two_factor os e ou rid code d))"
  unfolding disable_two_factor_def with_factor_def
  using assms by (auto simp: R_same split: option.splits intro!: R_audited elim!: disable_body_Inr intro: R_bump R_off)

lemma R_complete:
  assumes "complete_login_challenge (Some s) e token username code b d = (out, d')" "now e \<noteq> 0"
  shows "R (look_of (challenge_hash s token) out) d d'"
  using assms(1)
proof (cases rule: complete_cases)
  case same
  then show ?thesis by (simp add: look_of_def R_same)
next
  case (wrong s' a c f secret)
  then show ?thesis by (auto simp: look_of_def presented_def intro: R_wrong)
next
  case (right s' a c f secret step u)
  then show ?thesis using assms(2) verify_totp_Some(1) [OF right(5)] by (auto simp: look_of_def presented_def intro: R_right)
qed

lemma step_R: "factor_step off new l d d' \<Longrightarrow> R l d d'"
  by (induction rule: factor_step.induct) (blast intro: R_begin R_confirm R_disable R_create R_complete R_other)+

end

section \<open>Keys stay unique\<close>

lemmas update_defs = add_factor_def pending_set_def factor_on_def factor_off_def add_challenge_def wrong_code_def
  use_challenge_def spend_step_def update_challenge_def expire_def

lemma find_None_key: "find (\<lambda>r. k r = u) t = None \<longleftrightarrow> u \<notin> k ` set t"
  by (auto simp: find_None_iff)

lemma wf_updates:
  "find (\<lambda>r. tf_user_id r = u) (two_factors d) = None \<Longrightarrow> wf_factors d \<Longrightarrow> wf_factors (add_factor u d)"
  "wf_factors d \<Longrightarrow> wf_factors (pending_set i ct x d)"
  "wf_factors d \<Longrightarrow> wf_factors (factor_on i secret step d)"
  "wf_factors d \<Longrightarrow> wf_factors (factor_off i d)"
  "ch_token_hash c \<notin> ch_token_hash ` set (challenges d) \<Longrightarrow> wf_factors d \<Longrightarrow> wf_factors (add_challenge c d)"
  "wf_factors d \<Longrightarrow> wf_factors (wrong_code c d)"
  "wf_factors d \<Longrightarrow> wf_factors (use_challenge i t (spend_step j step d))"
  "two_factors d' = delete_where P (two_factors d) \<Longrightarrow> challenges d' = delete_where Q (challenges d) \<Longrightarrow>
     wf_factors d \<Longrightarrow> wf_factors d'"
  using next_id_notin [of tf_id "two_factors d"] next_id_notin [of ch_id "challenges d"]
  by (auto simp: wf_factors_def update_defs map_update_where find_None_key setup_row_def distinct_map_delete_where)

section \<open>A time step is spent once\<close>

definition spent :: "nat \<Rightarrow> int \<Rightarrow> db \<Rightarrow> bool" where
  "spent uid n d \<longleftrightarrow> (\<exists>r \<in> set (two_factors d). tf_user_id r = uid \<and> tf_enabled r \<and> n \<le> tf_last_used_step r)"

definition keeps_spent :: "nat \<Rightarrow> look \<Rightarrow> db \<Rightarrow> db \<Rightarrow> bool" where
  "keeps_spent uid l d d' \<longleftrightarrow> (wf_factors d \<longrightarrow> wf_factors d' \<and> (\<forall>n. spent uid n d \<longrightarrow> spent uid n d'))"

lemma keeps_more:
  assumes "wf_factors d \<Longrightarrow> wf_factors d'" and "set (two_factors d) \<subseteq> set (two_factors d')"
  shows "keeps_spent uid l d d'"
  using assms by (auto simp: keeps_spent_def spent_def)

lemma keeps_update:
  assumes "wf_factors d \<Longrightarrow> wf_factors d'" and t: "two_factors d' = update_where (\<lambda>r. tf_id r = i) f (two_factors d)"
    and f: "\<And>r. wf_factors d \<Longrightarrow> r \<in> set (two_factors d) \<Longrightarrow> tf_id r = i \<Longrightarrow> tf_user_id r = uid \<Longrightarrow> tf_enabled r \<Longrightarrow>
      tf_user_id (f r) = uid \<and> tf_enabled (f r) \<and> tf_last_used_step r \<le> tf_last_used_step (f r)"
  shows "keeps_spent uid l d d'"
  unfolding keeps_spent_def
proof (intro impI conjI allI)
  assume wf: "wf_factors d"
  then show "wf_factors d'" by (rule assms(1))
  fix n assume "spent uid n d"
  then obtain r where r: "r \<in> set (two_factors d)" "tf_user_id r = uid" "tf_enabled r" "n \<le> tf_last_used_step r"
    by (auto simp: spent_def)
  let ?r = "if tf_id r = i then f r else r"
  have "?r \<in> set (two_factors d')" using r(1) by (auto simp: t set_update_where)
  moreover have "tf_user_id ?r = uid \<and> tf_enabled ?r \<and> n \<le> tf_last_used_step ?r"
    using f [OF wf r(1) _ r(2,3)] r(2-4) by auto
  ultimately show "spent uid n d'" unfolding spent_def by blast
qed

lemma wf_same_id: "wf_factors d \<Longrightarrow> r \<in> set (two_factors d) \<Longrightarrow> r' \<in> set (two_factors d) \<Longrightarrow> tf_id r' = tf_id r \<Longrightarrow> r' = r"
  by (auto simp: wf_factors_def intro: key_unique)

interpretation replay: factor_relation "\<lambda>v. v \<noteq> uid" "\<lambda>_. True" "keeps_spent uid" for uid
proof
  fix d d' :: db and P Q
  assume d: "two_factors d' = delete_where P (two_factors d)" "challenges d' = delete_where Q (challenges d)"
    and P: "\<And>r. P r \<Longrightarrow> tf_user_id r \<noteq> uid"
  show "keeps_spent uid None d d'"
    using wf_updates(8) [OF d] P unfolding keeps_spent_def spent_def d(1) set_delete_where by blast
next
  fix d :: db and u assume "find (\<lambda>r. tf_user_id r = u) (two_factors d) = None"
  then show "keeps_spent uid None d (add_factor u d)"
    by (intro keeps_more wf_updates(1)) (auto simp: add_factor_def)
next
  fix d :: db and i ct x show "keeps_spent uid None d (pending_set i ct x d)"
  proof (rule keeps_update [of _ _ i])
    show "two_factors (pending_set i ct x d) = update_where (\<lambda>r. tf_id r = i)
        (\<lambda>r. r\<lparr>tf_pending_secret := ct, tf_pending_expires_at := x\<rparr>) (two_factors d)"
      by (simp add: pending_set_def)
  qed (simp_all add: wf_updates(2))
next
  fix u and d :: db and r secret step
  assume r: "find (\<lambda>r. tf_user_id r = u) (two_factors d) = Some r" "\<not> tf_enabled r"
  show "keeps_spent uid None d (factor_on (tf_id r) secret step d)"
  proof (rule keeps_update [of _ _ "tf_id r"])
    show "two_factors (factor_on (tf_id r) secret step d) = update_where (\<lambda>x. tf_id x = tf_id r) (\<lambda>r. r\<lparr>tf_secret := secret,
        tf_pending_secret := [], tf_pending_expires_at := 0, tf_enabled := True, tf_last_used_step := step\<rparr>) (two_factors d)"
      by (simp add: factor_on_def)
  qed (simp_all add: wf_updates(3), use r wf_same_id [of d r] find_SomeD [OF r(1)] in blast)
next
  fix u and d :: db and r
  assume r: "find (\<lambda>r. tf_user_id r = u \<and> tf_enabled r) (two_factors d) = Some r" "u \<noteq> uid"
  show "keeps_spent uid None d (factor_off (tf_id r) d)"
  proof (rule keeps_update [of _ _ "tf_id r"])
    show "two_factors (factor_off (tf_id r) d) = update_where (\<lambda>x. tf_id x = tf_id r) (\<lambda>r. r\<lparr>tf_secret := [],
        tf_pending_secret := [], tf_pending_expires_at := 0, tf_enabled := False, tf_last_used_step := 0\<rparr>) (two_factors d)"
      by (simp add: factor_off_def)
  qed (simp_all add: wf_updates(4), use r wf_same_id [of d r] find_SomeD [OF r(1)] in blast)
next
  fix c :: challenge_row and d :: db assume "ch_token_hash c \<notin> ch_token_hash ` set (challenges d)"
  then show "keeps_spent uid None d (add_challenge c d)"
    by (intro keeps_more wf_updates(5)) (auto simp: add_challenge_def)
next
  fix hash and d :: db and c :: challenge_row show "keeps_spent uid (Some (hash, False)) d (wrong_code c d)"
    by (intro keeps_more wf_updates(6)) (auto simp: wrong_code_def update_challenge_def)
next
  fix hash and d :: db and c :: challenge_row and t f step
  assume f: "find (\<lambda>r. tf_user_id r = ch_user_id c \<and> tf_enabled r) (two_factors d) = Some f" "tf_last_used_step f < step"
  show "keeps_spent uid (Some (hash, True)) d (use_challenge (ch_id c) t (spend_step (tf_id f) step d))"
  proof (rule keeps_update [of _ _ "tf_id f"])
    show "two_factors (use_challenge (ch_id c) t (spend_step (tf_id f) step d)) =
        update_where (\<lambda>x. tf_id x = tf_id f) (\<lambda>r. r\<lparr>tf_last_used_step := step\<rparr>) (two_factors d)"
      by (simp add: use_challenge_def spend_step_def update_challenge_def)
  qed (simp_all add: wf_updates(7), use f wf_same_id [of d f] find_SomeD [OF f(1)] in fastforce)
qed (auto simp: keeps_spent_def)

section \<open>A challenge is good for five codes\<close>

definition remaining :: "string \<Rightarrow> db \<Rightarrow> nat" where
  "remaining h d = (case find (\<lambda>r. ch_token_hash r = h) (challenges d) of
     None \<Rightarrow> 0 | Some c \<Rightarrow> if ch_used_at c \<noteq> 0 then 0 else 5 - ch_attempts c)"

fun looked_at :: "string \<Rightarrow> look \<Rightarrow> nat" where
  "looked_at h None = 0"
| "looked_at h (Some (h', ok)) = (if h' = h then 1 else 0)"

definition spends_budget :: "string \<Rightarrow> look \<Rightarrow> db \<Rightarrow> db \<Rightarrow> bool" where
  "spends_budget h l d d' \<longleftrightarrow> (wf_factors d \<longrightarrow> wf_factors d' \<and> remaining h d' + looked_at h l \<le> remaining h d \<and>
     (l = Some (h, True) \<longrightarrow> remaining h d' = 0))"

lemma budget_same:
  assumes "wf_factors d \<Longrightarrow> wf_factors d'" and "challenges d' = challenges d"
  shows "spends_budget h None d d'"
  using assms by (simp add: spends_budget_def remaining_def)

lemma remaining_delete:
  "distinct (map ch_token_hash t) \<Longrightarrow> find (\<lambda>r. ch_token_hash r = h) (delete_where P t) \<in>
     {None, find (\<lambda>r. ch_token_hash r = h) t}"
  by (induction t) (auto simp: find_None_iff set_delete_where image_iff)

lemma find_update_where:
  "(\<And>r. Q (f r) = Q r) \<Longrightarrow> find Q (update_where P f t) = map_option (\<lambda>r. if P r then f r else r) (find Q t)"
  by (induction t) auto

text \<open>Looking at a code for a usable challenge costs one of its five.\<close>

lemma remaining_update:
  assumes wf: "wf_factors d" and c: "find (\<lambda>r. ch_token_hash r = hash) (challenges d) = Some c"
    and f: "\<And>r. ch_token_hash (f r) = ch_token_hash r"
  shows "remaining h (update_challenge (ch_id c) f d) =
     (if h = hash then (if ch_used_at (f c) \<noteq> 0 then 0 else 5 - ch_attempts (f c)) else remaining h d)"
proof -
  have c': "c \<in> set (challenges d)" "ch_token_hash c = hash" using find_SomeD [OF c] by auto
  have keys: "r = c" if "r \<in> set (challenges d)" "ch_id r = ch_id c" for r
    by (rule key_unique [of ch_id]) (use wf c'(1) that in \<open>auto simp: wf_factors_def\<close>)
  have fh: "find (\<lambda>r. ch_token_hash r = h) (update_where P f (challenges d)) =
      map_option (\<lambda>r. if P r then f r else r) (find (\<lambda>r. ch_token_hash r = h) (challenges d))" for P
    by (rule find_update_where) (simp add: f)
  show ?thesis
    using c c' by (auto simp: remaining_def update_challenge_def fh split: option.splits dest: find_SomeD keys)
qed

interpretation budget: factor_relation "\<lambda>_. True" "\<lambda>h'. h' \<noteq> h" "spends_budget h" for h
proof
  fix d d' :: db and P Q
  assume d: "two_factors d' = delete_where P (two_factors d)" "challenges d' = delete_where Q (challenges d)"
  show "spends_budget h None d d'"
    using remaining_delete [of "challenges d" h Q] wf_updates(8) [OF d]
    by (auto simp: spends_budget_def remaining_def d wf_factors_def)
next
  fix d :: db and u assume "find (\<lambda>r. tf_user_id r = u) (two_factors d) = None"
  then show "spends_budget h None d (add_factor u d)"
    by (intro budget_same wf_updates(1)) (simp_all add: add_factor_def)
next
  fix d :: db and i ct x show "spends_budget h None d (pending_set i ct x d)"
    by (intro budget_same wf_updates(2)) (simp_all add: pending_set_def)
next
  fix d :: db and r :: two_factor_row and secret step show "spends_budget h None d (factor_on (tf_id r) secret step d)"
    by (intro budget_same wf_updates(3)) (simp_all add: factor_on_def)
next
  fix d :: db and r :: two_factor_row show "spends_budget h None d (factor_off (tf_id r) d)"
    by (intro budget_same wf_updates(4)) (simp_all add: factor_off_def)
next
  fix c :: challenge_row and d :: db
  assume c: "ch_token_hash c \<noteq> h" "ch_token_hash c \<notin> ch_token_hash ` set (challenges d)"
  then have "remaining h (add_challenge c d) = remaining h d"
    by (auto simp: remaining_def add_challenge_def find_append split: option.splits)
  with wf_updates(5) [OF c(2)] show "spends_budget h None d (add_challenge c d)" by (simp add: spends_budget_def)
next
  fix hash and d :: db and c :: challenge_row and t username b
  assume c: "find (\<lambda>r. ch_token_hash r = hash) (challenges d) = Some c" "challenge_usable t username b c"
  show "spends_budget h (Some (hash, False)) d (wrong_code c d)"
    unfolding spends_budget_def
  proof (intro impI conjI)
    assume wf: "wf_factors d"
    then show "wf_factors (wrong_code c d)" by (rule wf_updates(6))
    have r: "remaining h (wrong_code c d) = (if h = hash then (if ch_used_at c \<noteq> 0 then 0 else 4 - ch_attempts c) else remaining h d)"
      unfolding wrong_code_def by (subst remaining_update [OF wf c(1)]) simp_all
    show "remaining h (wrong_code c d) + looked_at h (Some (hash, False)) \<le> remaining h d"
      unfolding r using c by (auto simp: remaining_def challenge_usable_def)
  qed simp
next
  fix hash and d :: db and c :: challenge_row and t username b f step
  assume c: "find (\<lambda>r. ch_token_hash r = hash) (challenges d) = Some c" "challenge_usable t username b c" "t \<noteq> 0"
  let ?d = "spend_step (tf_id f) step d"
  have c': "find (\<lambda>r. ch_token_hash r = hash) (challenges ?d) = Some c" using c(1) by (simp add: spend_step_def)
  show "spends_budget h (Some (hash, True)) d (use_challenge (ch_id c) t ?d)"
    unfolding spends_budget_def
  proof (intro impI conjI)
    assume wf: "wf_factors d"
    then show "wf_factors (use_challenge (ch_id c) t ?d)" by (rule wf_updates(7))
    have wf': "wf_factors ?d" using wf by (simp add: wf_factors_def spend_step_def map_update_where)
    have r: "remaining h (use_challenge (ch_id c) t ?d) = (if h = hash then 0 else remaining h ?d)"
      unfolding use_challenge_def using c(3) by (subst remaining_update [OF wf' c']) simp_all
    show "remaining h (use_challenge (ch_id c) t ?d) + looked_at h (Some (hash, True)) \<le> remaining h d"
      unfolding r using c by (auto simp: remaining_def challenge_usable_def spend_step_def)
    assume "Some (hash, True) = Some (h, True)"
    then show "remaining h (use_challenge (ch_id c) t ?d) = 0" by (simp add: r)
  qed
qed (auto simp: spends_budget_def)

section \<open>Runs\<close>

lemma run_keeps:
  "factor_run (\<lambda>v. v \<noteq> uid) (\<lambda>_. True) ls d d' \<Longrightarrow> wf_factors d \<Longrightarrow> spent uid n d \<Longrightarrow> wf_factors d' \<and> spent uid n d'"
proof (induction rule: factor_run.induct)
  case (Cons ls d d1 l d2)
  then show ?case using replay.step_R [OF Cons.hyps(2)] by (simp add: keeps_spent_def)
qed simp

lemma run_budget:
  "factor_run (\<lambda>_. True) (\<lambda>h'. h' \<noteq> h) ls d d' \<Longrightarrow> wf_factors d \<Longrightarrow>
     wf_factors d' \<and> remaining h d' + sum_list (map (looked_at h) ls) \<le> remaining h d \<and>
     (Some (h, True) \<in> set ls \<longrightarrow> remaining h d' = 0)"
proof (induction rule: factor_run.induct)
  case (Cons ls d d1 l d2)
  then show ?case using budget.step_R [OF Cons.hyps(2)] by (auto simp: spends_budget_def)
qed simp

text \<open>The code was right for a time step next to the present, under the secret of the user's enabled factor.\<close>

definition accepts :: "two_factor_svc option \<Rightarrow> env \<Rightarrow> string \<Rightarrow> nat \<Rightarrow> db \<Rightarrow> int \<Rightarrow> bool" where
  "accepts os e code uid d step \<longleftrightarrow>
     (\<exists>s a r secret. os = Some s \<and> tw_aead s = Some a \<and> r \<in> set (two_factors d) \<and> tf_user_id r = uid \<and> tf_enabled r \<and>
        decrypt_secret a uid (tf_secret r) = Inr secret \<and> totp_value (tw_hmac s) secret step = undecimal code \<and>
        code_well_formed code \<and> \<bar>step - go_quot (now e) 30\<bar> \<le> 1)"

lemma complete_accepts:
  assumes "complete_login_challenge os e token username code b d = (Inr u, d')" and wf: "wf_factors d"
  obtains step where "accepts os e code (u_id u) d step" "spent (u_id u) step d'" "wf_factors d'"
    "\<And>n. spent (u_id u) n d \<Longrightarrow> n < step"
  using assms(1)
proof (cases rule: complete_cases)
  case (right s a c f secret step v)
  have v: "v = u" "u_id u = ch_user_id c" using right(6) find_SomeD [OF right(7)] by auto
  have f: "f \<in> set (two_factors d)" "tf_user_id f = u_id u" "tf_enabled f"
    using right(3) v by (auto simp: presented_def dest!: find_SomeD)
  show ?thesis
  proof (rule that [of step])
    show "accepts os e code (u_id u) d step"
      unfolding accepts_def using right(1,2,4) f v verify_totp_Some [OF right(5)] by auto
    show "spent (u_id u) step d'"
    proof -
      have "f\<lparr>tf_last_used_step := step\<rparr> \<in> set (two_factors d')"
        using f(1) by (auto simp: right(8) use_challenge_def update_challenge_def spend_step_def set_update_where intro!: image_eqI [of _ _ f])
      then show ?thesis unfolding spent_def using f(2,3) by (intro bexI) simp_all
    qed
    show "wf_factors d'" unfolding right(8) by (rule wf_updates(7) [OF wf])
    fix n assume "spent (u_id u) n d"
    then obtain r where r: "r \<in> set (two_factors d)" "tf_user_id r = u_id u" "n \<le> tf_last_used_step r"
      by (auto simp: spent_def)
    have "r = f" by (rule key_unique [of tf_user_id]) (use wf r f in \<open>auto simp: wf_factors_def\<close>)
    then show "n < step" using r(3) verify_totp_Some(1) [OF right(5)] by simp
  qed
qed auto

text \<open>C26: A one-time code is good once: if an account completes a login with a code and later another, with
  anything happening in between except that this account's factor is disabled or removed, then the second
  code was accepted for a strictly later 30-second step than the first, so no code can be replayed.\<close>

theorem totp_step_spent_once:
  assumes "wf_factors d" and "complete_login_challenge os e token username code b d = (Inr u, d1)"
    and "factor_run (\<lambda>v. v \<noteq> u_id u) (\<lambda>_. True) ls d1 d2"
    and "complete_login_challenge os' e' token' username' code' b' d2 = (Inr u', d3)" and "u_id u' = u_id u"
  shows "\<exists>m n. accepts os e code (u_id u) d m \<and> accepts os' e' code' (u_id u) d2 n \<and> m < n"
proof -
  obtain m where m: "accepts os e code (u_id u) d m" "spent (u_id u) m d1" "wf_factors d1"
    by (rule complete_accepts [OF assms(2,1)])
  have "wf_factors d2" "spent (u_id u) m d2" using run_keeps [OF assms(3) m(3,2)] by simp_all
  with m(1) show ?thesis
    by (metis complete_accepts [OF assms(4)] assms(5))
qed

text \<open>The code of a completion is compared: its challenge, factor and secret are found.\<close>

definition compared ::
    "two_factor_svc \<Rightarrow> env \<Rightarrow> string \<Rightarrow> string \<Rightarrow> challenge_binding \<Rightarrow> db \<Rightarrow> bool" where
  "compared s e token username b d \<longleftrightarrow> available (Some s) \<and> 32 \<le> length token \<and> length token \<le> 128 \<and>
     \<not> flt e Begin \<and> \<not> flt e (Stmt 51) \<and> \<not> flt e (Stmt 52) \<and>
     (\<exists>a c f secret. tw_aead s = Some a \<and> presented s e token username b d c f \<and>
        decrypt_secret a (ch_user_id c) (tf_secret f) = Inr secret)"

text \<open>The database fails while the comparison is recorded, or the account of the challenge is gone.\<close>

definition unrecorded :: "two_factor_svc \<Rightarrow> env \<Rightarrow> string \<Rightarrow> db \<Rightarrow> bool" where
  "unrecorded s e token d \<longleftrightarrow> flt e Commit \<or> (\<exists>n \<in> {53, 54, 55, 56}. flt e (Stmt n)) \<or>
     (\<exists>c \<in> set (challenges d). ch_token_hash c = challenge_hash s token \<and> ch_user_id c \<notin> u_id ` set (users d))"

lemma users_kept: "users (use_challenge i t d) = users d" "users (spend_step i step d) = users d"
  by (simp_all add: use_challenge_def update_challenge_def spend_step_def)

lemma compared_counts:
  assumes "compared s e token username b d" "\<not> unrecorded s e token d"
    and "complete_login_challenge (Some s) e token username code b d = (out, d')"
  shows "look_of h out \<noteq> None"
proof -
  obtain a c f secret where a: "tw_aead s = Some a" and p: "presented s e token username b d c f"
    and k: "decrypt_secret a (ch_user_id c) (tf_secret f) = Inr secret"
    using assms(1) by (auto simp: compared_def)
  have c: "c \<in> set (challenges d)" "ch_token_hash c = challenge_hash s token"
    using p by (auto simp: presented_def dest!: find_SomeD)
  then have "ch_user_id c \<in> u_id ` set (users d)" using assms(2) by (auto simp: unrecorded_def)
  then obtain u where u: "find (\<lambda>u. u_id u = ch_user_id c) (users d) = Some u"
    by (cases "find (\<lambda>u. u_id u = ch_user_id c) (users d)") (auto simp: find_None_iff)
  have "\<exists>r d2. complete_body s a e token username code b d = Inr (r, d2) \<and> look_of h r \<noteq> None"
    using assms(1,2) p k u
    by (cases "verify_totp (tw_hmac s) secret code (now e) (tf_last_used_step f)")
      (simp_all add: complete_body_def presented_def compared_def unrecorded_def locked_factor_def secret_or_def stmt_def check_def
        Let_def look_of_def users_kept, auto intro: exI [of Not False] exI [of "\<lambda>x. x" True])
  then show ?thesis using assms a
    by (auto simp: complete_login_challenge_def compared_def unrecorded_def transaction_def)
qed

text \<open>C27: A login challenge cannot be brute-forced: whatever happens in between (short of issuing the same
  token again), at most five completions of one challenge are ever answered, with the account or with
  'wrong code', and after the right code none (the looks are listed latest first).  Any other completion
  answers another error and changes nothing.  The limit is on answers: a code that is compared is answered
  unless a write or the commit of its transaction fails, which rolls the attempt back uncounted, or the
  challenge's account is gone.\<close>

theorem challenge_good_for_five_codes:
  assumes "wf_factors d" and "factor_run (\<lambda>_. True) (\<lambda>h'. h' \<noteq> h) ls d d'"
  shows "sum_list (map (looked_at h) ls) \<le> 5 \<and>
    (\<forall>ls1 ls2. ls = ls1 @ Some (h, True) # ls2 \<longrightarrow> sum_list (map (looked_at h) ls1) = 0) \<and>
    (\<forall>s e token username code b d1 out d2. complete_login_challenge (Some s) e token username code b d1 = (out, d2) \<longrightarrow>
       (look_of h out = None \<longrightarrow> d2 = d1 \<and> (\<exists>er. out = Inl er \<and> er \<noteq> ErrTwoFactorCode)) \<and>
       (compared s e token username b d1 \<and> \<not> unrecorded s e token d1 \<longrightarrow> look_of h out \<noteq> None))"
proof (intro conjI allI impI)
  have "remaining h d \<le> 5" by (auto simp: remaining_def split: option.splits)
  then show "sum_list (map (looked_at h) ls) \<le> 5" using run_budget [OF assms(2,1)] by linarith
  fix ls1 ls2 assume "ls = ls1 @ Some (h, True) # ls2"
  with assms(2) have "sum_list (map (looked_at h) ls1) = 0 \<and> wf_factors d' \<and> remaining h d' = 0"
  proof (induction ls1 arbitrary: ls d')
    case Nil
    then show ?case using run_budget [OF _ assms(1), of h ls d'] by simp
  next
    case (Cons l ls1)
    obtain d1 where run: "factor_run (\<lambda>_. True) (\<lambda>h'. h' \<noteq> h) (ls1 @ Some (h, True) # ls2) d d1"
      and step: "factor_step (\<lambda>_. True) (\<lambda>h'. h' \<noteq> h) l d1 d'"
      using Cons.prems by (auto elim: factor_run.cases)
    show ?case using Cons.IH [OF run refl] budget.step_R [OF step] by (simp add: spends_budget_def)
  qed
  then show "sum_list (map (looked_at h) ls1) = 0" by simp
next
  fix s e token username code b d1 out d2
  assume c: "complete_login_challenge (Some s) e token username code b d1 = (out, d2)"
  show "look_of h out \<noteq> None" if "compared s e token username b d1 \<and> \<not> unrecorded s e token d1"
    using compared_counts [OF _ _ c] that by blast
  assume n: "look_of h out = None"
  from c show "d2 = d1" "\<exists>er. out = Inl er \<and> er \<noteq> ErrTwoFactorCode"
    by (cases rule: complete_cases; use n in \<open>auto simp: look_of_def split: if_splits\<close>)+
qed

section \<open>Enrolment\<close>

lemma decrypt_sealed:
  assumes "aead_laws a" "length n = ad_nonce_size a"
  shows "decrypt_secret a uid (b64_encode std_alphabet False (n @ ad_seal a n p (secret_aad uid))) = Inr p"
proof -
  have "ad_open a n (ad_seal a n p (secret_aad uid)) (secret_aad uid) = Inr p" "length p < length (ad_seal a n p (secret_aad uid))"
    using assms by (simp_all add: aead_laws_def)
  then show ?thesis using assms(2) by (auto simp: decrypt_secret_def std_b64.decode_encode)
qed

lemma sealed_nonempty: "aead_laws a \<Longrightarrow> length n = ad_nonce_size a \<Longrightarrow> ad_seal a n p ad \<noteq> []"
  unfolding aead_laws_def by (metis list.size(3) not_less_zero)

lemma encode_nonempty: "bs \<noteq> [] \<Longrightarrow> b64_encode alph padded bs \<noteq> []"
  by (cases "(alph, padded, bs)" rule: b64_encode.cases) auto

lemma verify_current:
  assumes "code_well_formed code" "undecimal code = totp_value hmac secret (go_quot t 30)" "l < go_quot t 30"
  shows "\<exists>step. verify_totp hmac secret code t l = Some step"
  using assms by (auto simp: verify_totp_def Let_def)

lemma not_enabled_row:
  assumes "wf_factors d" "count_where (\<lambda>r. tf_user_id r = uid \<and> tf_enabled r) (two_factors d) \<noteq> 1"
    and "r \<in> set (two_factors d)" "tf_user_id r = uid"
  shows "\<not> tf_enabled r"
  using assms count_key_with [of tf_user_id "two_factors d" r tf_enabled] by (auto simp: wf_factors_def)

text \<open>What BeginSetup leaves behind when nothing fails.\<close>

lemma begin_setup_done:
  assumes wf: "wf_factors d" and s: "available (Some s)" "tw_aead s = Some a" and f: "flt e = no_faults"
    and u: "u_id u \<noteq> 0" "\<not> enabled_for_user (Some s) e (Outside 101) (u_id u) d"
  obtains uri d1 r where
    "begin_setup (Some s) e (Inr raw) (Inr n) (Some u) d = (Inr (base32_encode raw, uri), d1)"
    "wf_factors d1" "users d1 = users d"
    "find (\<lambda>r. tf_user_id r = u_id u) (two_factors d1) = Some r" "\<not> tf_enabled r"
    "tf_pending_secret r = b64_encode std_alphabet False (n @ ad_seal a n raw (secret_aad (u_id u)))"
    "tf_pending_expires_at r = now e + 600"
proof -
  let ?ct = "b64_encode std_alphabet False (n @ ad_seal a n raw (secret_aad (u_id u)))"
  let ?P = "\<lambda>r. tf_user_id r = u_id u"
  have enc: "encrypt_secret (Some s) (Inr n) (u_id u) raw = Inr ?ct" using s by (simp add: encrypt_secret_def)
  have off: "count_where (\<lambda>r. ?P r \<and> tf_enabled r) (two_factors d) \<noteq> 1"
    using u s f by (simp add: enabled_for_user_def)
  have "\<exists>r d0. first_or_create_factor e (Outside 102) (u_id u) d = Inr (r, d0) \<and> wf_factors d0 \<and> users d0 = users d \<and>
      find ?P (two_factors d0) = Some r \<and> \<not> tf_enabled r"
  proof (cases "find ?P (two_factors d)")
    case None
    then have "find ?P (two_factors (add_factor (u_id u) d)) = Some (setup_row (u_id u) (two_factors d))"
      by (simp add: add_factor_def find_append setup_row_def)
    then show ?thesis using None f wf_updates(1) [OF None wf]
      by (simp add: first_or_create_factor_def add_factor_def setup_row_def)
  next
    case (Some r)
    then show ?thesis using f wf not_enabled_row [OF wf off] find_SomeD [OF Some] by (simp add: first_or_create_factor_def)
  qed
  then obtain r d0 where r: "first_or_create_factor e (Outside 102) (u_id u) d = Inr (r, d0)" "wf_factors d0" "users d0 = users d"
      "find ?P (two_factors d0) = Some r" "\<not> tf_enabled r" by blast
  let ?d1 = "pending_set (tf_id r) ?ct (now e + 600) d0"
  have "begin_setup (Some s) e (Inr raw) (Inr n) (Some u) d =
      (Inr (base32_encode raw, otpauth_uri s u (base32_encode raw)), ?d1)"
    using s u f r(1) enc by (simp add: begin_setup_def)
  moreover have "find ?P (two_factors ?d1) = Some (r\<lparr>tf_pending_secret := ?ct, tf_pending_expires_at := now e + 600\<rparr>)"
    using r(4) by (simp add: pending_set_def find_update_where)
  ultimately show thesis
    using that [of "otpauth_uri s u (base32_encode raw)" ?d1 "r\<lparr>tf_pending_secret := ?ct, tf_pending_expires_at := now e + 600\<rparr>"]
      r wf_updates(2) [OF r(2)] by (simp add: pending_set_def)
qed

text \<open>What ConfirmSetup does with it and the current code.\<close>

lemma confirm_setup_done:
  assumes wf: "wf_factors d" and s: "available (Some s)" "tw_aead s = Some a" and f: "flt e = no_faults"
    and u: "u_id u \<noteq> 0" "count_where (\<lambda>v. u_id v = u_id u) (users d) = 1"
    and r: "find (\<lambda>r. tf_user_id r = u_id u) (two_factors d) = Some r" "\<not> tf_enabled r" "now e \<le> tf_pending_expires_at r"
      "tf_pending_secret r \<noteq> []" "decrypt_secret a (u_id u) (tf_pending_secret r) = Inr secret"
    and step: "verify_totp (tw_hmac s) secret code (now e) 0 = Some step"
  obtains d' where "confirm_setup (Some s) e (Some u) rid code d = (Inr (), d')"
    "enabled_for_user (Some s) e (Outside 104) (u_id u) d'" "no_live_token (u_id u) d'"
proof -
  let ?on = "\<lambda>d. factor_on (tf_id r) (tf_pending_secret r) step d"
  let ?ev = "\<lparr>ev_id = next_id ev_id (events d), ev_actor = u_id u, ev_action = ''auth.two_factor.enabled'',
      ev_target_type = ''user'', ev_target_id = decimal (u_id u), ev_request_id = (if uuid_parses e rid then rid else uuid_new e),
      ev_result = ''intent'', ev_error_code = [], ev_metadata = [(''revocation_reason'', MStr ''two_factor_enabled'')]\<rparr>"
  let ?d1 = "d\<lparr>events := events d @ [?ev]\<rparr>"
  obtain d2 where d2: "bump_auth_version_and_revoke e (Stmt 43) (Stmt 44) (u_id u) ''two_factor_enabled'' (?on ?d1) = Inr d2"
    using u f by (simp add: bump_eq_Inr factor_on_def)
  have body: "confirm_setup_body s a e (u_id u) code ?d1 = Inr ((), d2)"
    using r step f d2 by (simp add: confirm_setup_body_def locked_factor_def secret_or_def)
  obtain d3 where d3: "finalize_security_audit e ?ev ''AUTH_TWO_FACTOR_ENABLE_FAILED'' (Inr (), d2) = (Inr (), d3)"
    using f by (simp add: finalize_eq_Inr)
  have same: "same_but_events d2 d3"
    using finalize_same_but_events [of "(Inr (), d2)" e ?ev "''AUTH_TWO_FACTOR_ENABLE_FAILED''"] d3 by simp
  have "confirm_setup (Some s) e (Some u) rid code d = (Inr (), d3)"
    using s u f body d3
    by (simp add: confirm_setup_def with_factor_def audited_def begin_security_audit_def transaction_def Let_def)
  moreover have "count_where (\<lambda>r. tf_user_id r = u_id u \<and> tf_enabled r) (two_factors d3) = 1"
  proof -
    have t: "two_factors d3 = two_factors (?on d)"
      using d2 same_but_events_fields(8) [OF same] by (simp add: bump_eq_Inr revoke_where_def factor_on_def)
    let ?r = "r\<lparr>tf_secret := tf_pending_secret r, tf_pending_secret := [], tf_pending_expires_at := 0, tf_enabled := True,
        tf_last_used_step := step\<rparr>"
    have m: "?r \<in> set (two_factors (?on d))"
      using find_SomeD [OF r(1)] by (auto simp: factor_on_def set_update_where intro!: image_eqI [of _ _ r])
    show ?thesis
      using count_key_with [of tf_user_id _ ?r tf_enabled, OF _ m] wf_updates(3) [OF wf, of "tf_id r" "tf_pending_secret r" step]
        find_SomeD [OF r(1)] by (simp add: t wf_factors_def)
  qed
  moreover have "no_live_token (u_id u) d3"
    using session_rv.revoke_all [OF d2] same_but_events_fields(2) [OF same] by (simp add: no_live_token_def)
  ultimately show thesis using that s u f by (simp add: enabled_for_user_def)
qed

text \<open>Enrolment works from end to end: the secret an account is shown when it begins is the one its codes are
  checked against.  If the cipher opens what it sealed, then the code of that secret for the current time,
  entered within ten minutes, turns the factor on and ends every session of the account.\<close>

lemma enrolment_roundtrip:
  assumes "aead_laws a" and "available (Some s)" and "tw_aead s = Some a" and "length n = ad_nonce_size a"
    and "wf_factors d" and "u_id u \<noteq> 0" and "count_where (\<lambda>v. u_id v = u_id u) (users d) = 1"
    and "\<not> enabled_for_user (Some s) e1 (Outside 101) (u_id u) d"
    and "flt e1 = no_faults" and "flt e2 = no_faults" and "30 \<le> now e2" and "now e2 \<le> now e1 + 600"
    and "code_well_formed code" and "undecimal code = totp_value (tw_hmac s) raw (go_quot (now e2) 30)"
  shows "\<exists>uri d1 d2. begin_setup (Some s) e1 (Inr raw) (Inr n) (Some u) d = (Inr (base32_encode raw, uri), d1) \<and>
    confirm_setup (Some s) e2 (Some u) rid code d1 = (Inr (), d2) \<and>
    enabled_for_user (Some s) e2 (Outside 104) (u_id u) d2 \<and> no_live_token (u_id u) d2"
proof -
  obtain uri d1 r where b: "begin_setup (Some s) e1 (Inr raw) (Inr n) (Some u) d = (Inr (base32_encode raw, uri), d1)"
    and d1: "wf_factors d1" "users d1 = users d"
    and r: "find (\<lambda>r. tf_user_id r = u_id u) (two_factors d1) = Some r" "\<not> tf_enabled r"
      "tf_pending_secret r = b64_encode std_alphabet False (n @ ad_seal a n raw (secret_aad (u_id u)))"
      "tf_pending_expires_at r = now e1 + 600"
    by (rule begin_setup_done [OF assms(5,2,3,9,6,8), of raw n])
  have sealed: "tf_pending_secret r \<noteq> []" "decrypt_secret a (u_id u) (tf_pending_secret r) = Inr raw"
    using decrypt_sealed [OF assms(1,4)] sealed_nonempty [OF assms(1,4)] by (simp_all add: r(3) encode_nonempty)
  have "0 < go_quot (now e2) 30" using assms(11) by (simp add: go_quot_def)
  then obtain step where step: "verify_totp (tw_hmac s) raw code (now e2) 0 = Some step"
    using verify_current [OF assms(13,14)] by blast
  have "count_where (\<lambda>v. u_id v = u_id u) (users d1) = 1" using assms(7) d1(2) by simp
  from confirm_setup_done [OF d1(1) assms(2,3,10,6) this r(1,2) _ sealed step, of rid] b r(4) assms(12)
  show ?thesis by fastforce
qed

section \<open>A concrete run\<close>

definition demo_aead :: aead where
  "demo_aead = \<lparr>ad_nonce_size = 1, ad_seal = (\<lambda>n p ad. p @ ''t''), ad_open = (\<lambda>n c ad. Inr (butlast c))\<rparr>"

definition demo_factor_svc :: two_factor_svc where
  "demo_factor_svc = \<lparr>tw_config = \<lparr>tc_enabled = True, tc_issuer = ''i'', tc_key_file = ''k'', tc_challenge_ttl = 0\<rparr>,
     tw_aead = Some demo_aead, tw_hmac = (\<lambda>_ _. replicate 20 (CHR 0x00)), tw_sha = (\<lambda>t. take 1 t),
     tw_url = (\<lambda>_ _ _ _. []), tw_nanos = 0\<rparr>"

definition factor_env :: "int \<Rightarrow> env" where
  "factor_env t = \<lparr>flt = no_faults, now = t, uuid_parses = (\<lambda>_. False), uuid_new = ''req''\<rparr>"

definition factor_user :: user_row where
  "factor_user = \<lparr>u_id = 5, u_username = ''ann'', u_email = [], u_password = [], u_nickname = [], u_avatar = [],
     u_language = [], u_theme = [], u_group_id = 0, u_role = RoleUser, u_is_admin = Some False, u_status = 1,
     u_auth_version = 1, u_remark = []\<rparr>"

definition factor_binding :: challenge_binding where
  "factor_binding = \<lparr>tb_client = ''c'', tb_device_id = ''d'', tb_uuid = ''u'', tb_platform = ''p''\<rparr>"

definition factor_challenge :: "nat \<Rightarrow> string \<Rightarrow> challenge_row" where
  "factor_challenge i h = \<lparr>ch_id = i, ch_token_hash = h, ch_user_id = 5, ch_username = ''ann'', ch_client = ''c'',
     ch_device_id = ''d'', ch_uuid = ''u'', ch_platform = ''p'', ch_expires_at = 100000, ch_attempts = 0, ch_used_at = 0\<rparr>"

definition factor_db :: db where
  "factor_db = empty_db\<lparr>users := [factor_user],
     two_factors := [\<lparr>tf_id = 1, tf_user_id = 5, tf_secret = b64_encode std_alphabet False (''n'' @ ''st''), tf_pending_secret = [],
       tf_pending_expires_at = 0, tf_enabled = True, tf_last_used_step = 0\<rparr>],
     challenges := [factor_challenge 1 (hex_encode ''a''), factor_challenge 2 (hex_encode ''b'')]\<rparr>"

lemma demo_totp: "totp_value (\<lambda>_ _. replicate 20 (CHR 0x00)) secret step = 0"
proof -
  have "replicate 4 (CHR 0x00) = [CHR 0x00, CHR 0x00, CHR 0x00, CHR 0x00]" by (simp add: numeral_eq_Suc)
  then show ?thesis by (simp add: totp_value_def be_uint32_def Let_def)
qed

lemma demo_hmac: "tw_hmac demo_factor_svc = (\<lambda>_ _. replicate 20 (CHR 0x00))"
  by (simp add: demo_factor_svc_def)

lemma demo_code: "code_well_formed ''000000''" "undecimal ''000000'' = 0"
  by (simp_all add: code_well_formed_def go_trim_def undecimal_def)

lemma demo_decrypt: "decrypt_secret demo_aead uid (b64_encode std_alphabet False (''n'' @ ''st'')) = Inr ''s''"
  using decrypt_sealed [of demo_aead "''n''" uid "''s''"] by (simp add: aead_laws_def demo_aead_def)

lemma demo_totp_verify: "l < go_quot t 30 - 1 \<Longrightarrow> verify_totp (tw_hmac demo_factor_svc) ''s'' ''000000'' t l = Some (go_quot t 30 - 1)"
  by (simp add: verify_totp_def demo_hmac demo_code demo_totp Let_def)

lemma demo_complete:
  assumes "tok = replicate 32 c" and "c = CHR ''a'' \<or> c = CHR ''b''"
    and "find (\<lambda>r. ch_token_hash r = hex_encode [c]) (challenges d) = Some (factor_challenge i (hex_encode [c]))"
    and "two_factors d = [f]" "tf_user_id f = 5" "tf_enabled f"
    and "tf_secret f = b64_encode std_alphabet False (''n'' @ ''st'')" "tf_last_used_step f < go_quot t 30 - 1" "t \<le> 100000"
    and "users d = [factor_user]"
  shows "complete_login_challenge (Some demo_factor_svc) (factor_env t) tok ''ann'' ''000000'' factor_binding d =
    (Inr factor_user, use_challenge i t (spend_step (tf_id f) (go_quot t 30 - 1) d))"
proof -
  have "challenge_hash demo_factor_svc tok = hex_encode [c]"
    using assms(1) by (simp add: challenge_hash_def demo_factor_svc_def numeral_eq_Suc)
  then have "complete_body demo_factor_svc demo_aead (factor_env t) tok ''ann'' ''000000'' factor_binding d =
      Inr (Inr factor_user, use_challenge i t (spend_step (tf_id f) (go_quot t 30 - 1) d))"
    using assms(3-) demo_decrypt [of 5] demo_totp_verify [of "tf_last_used_step f" t]
    by (simp add: complete_body_def factor_env_def locked_factor_def secret_or_def challenge_usable_def factor_challenge_def
      factor_binding_def use_challenge_def update_challenge_def spend_step_def factor_user_def)
  moreover have "available (Some demo_factor_svc)" "tw_aead demo_factor_svc = Some demo_aead"
    by (simp_all add: available_def demo_factor_svc_def)
  ultimately show ?thesis
    by (simp add: complete_login_challenge_def transaction_def factor_env_def assms(1))
qed

lemma totp_step_spent_once_witness:
  "\<exists>d1 d3 m n. complete_login_challenge (Some demo_factor_svc) (factor_env 900) (replicate 32 (CHR ''a'')) ''ann'' ''000000''
       factor_binding factor_db = (Inr factor_user, d1) \<and>
     complete_login_challenge (Some demo_factor_svc) (factor_env 1000) (replicate 32 (CHR ''b'')) ''ann'' ''000000''
       factor_binding d1 = (Inr factor_user, d3) \<and>
     accepts (Some demo_factor_svc) (factor_env 900) ''000000'' 5 factor_db m \<and>
     accepts (Some demo_factor_svc) (factor_env 1000) ''000000'' 5 d1 n \<and> m < (n :: int)"
proof -
  let ?d1 = "use_challenge 1 900 (spend_step 1 29 factor_db)"
  have 1: "complete_login_challenge (Some demo_factor_svc) (factor_env 900) (replicate 32 (CHR ''a'')) ''ann'' ''000000''
      factor_binding factor_db = (Inr factor_user, ?d1)"
    by (subst demo_complete [of _ "CHR ''a''" _ 1 "hd (two_factors factor_db)"])
      (simp_all add: factor_db_def factor_challenge_def go_quot_def)
  have 2: "complete_login_challenge (Some demo_factor_svc) (factor_env 1000) (replicate 32 (CHR ''b'')) ''ann'' ''000000''
      factor_binding ?d1 = (Inr factor_user, use_challenge 2 1000 (spend_step 1 32 ?d1))"
    by (subst demo_complete [of _ "CHR ''b''" _ 2 "hd (two_factors ?d1)"])
      (simp_all add: factor_db_def factor_challenge_def go_quot_def use_challenge_def update_challenge_def spend_step_def
        hex_encode_def hex_digit_def empty_db_def)
  have wf: "wf_factors factor_db"
    by (simp add: wf_factors_def factor_db_def factor_challenge_def hex_encode_def hex_digit_def)
  show ?thesis
    using totp_step_spent_once [OF wf 1 factor_run.Nil 2 refl] 1 2 by (auto simp: factor_user_def)
qed

lemma challenge_good_for_five_codes_witness:
  "\<exists>d1. factor_run (\<lambda>_. True) (\<lambda>h'. h' \<noteq> hex_encode ''a'') [Some (hex_encode ''a'', True)] factor_db d1 \<and>
     sum_list (map (looked_at (hex_encode ''a'')) [Some (hex_encode ''a'', True)]) \<le> 5"
proof -
  let ?d1 = "use_challenge 1 900 (spend_step 1 29 factor_db)" and ?tok = "replicate 32 (CHR ''a'')"
  have 1: "complete_login_challenge (Some demo_factor_svc) (factor_env 900) ?tok ''ann'' ''000000''
      factor_binding factor_db = (Inr factor_user, ?d1)"
    by (subst demo_complete [of _ "CHR ''a''" _ 1 "hd (two_factors factor_db)"])
      (simp_all add: factor_db_def factor_challenge_def go_quot_def)
  have "challenge_hash demo_factor_svc ?tok = hex_encode ''a''"
    by (simp add: challenge_hash_def demo_factor_svc_def numeral_eq_Suc)
  with factor_step.Complete [OF 1, of "\<lambda>_. True" "\<lambda>h'. h' \<noteq> hex_encode ''a''"]
  have "factor_step (\<lambda>_. True) (\<lambda>h'. h' \<noteq> hex_encode ''a'') (Some (hex_encode ''a'', True)) factor_db ?d1"
    by (simp add: look_of_def factor_env_def)
  then have run: "factor_run (\<lambda>_. True) (\<lambda>h'. h' \<noteq> hex_encode ''a'') [Some (hex_encode ''a'', True)] factor_db ?d1"
    by (rule factor_run.Cons [OF factor_run.Nil])
  have wf: "wf_factors factor_db"
    by (simp add: wf_factors_def factor_db_def factor_challenge_def hex_encode_def hex_digit_def)
  show ?thesis using run challenge_good_for_five_codes [OF wf run, THEN conjunct1] by blast
qed

lemma enrolment_roundtrip_witness:
  "\<exists>uri d1 d2. begin_setup (Some demo_factor_svc) (factor_env 900) (Inr ''s'') (Inr ''n'') (Some factor_user)
       (empty_db\<lparr>users := [factor_user]\<rparr>) = (Inr (base32_encode ''s'', uri), d1) \<and>
     confirm_setup (Some demo_factor_svc) (factor_env 960) (Some factor_user) ''req'' ''000000'' d1 = (Inr (), d2) \<and>
     enabled_for_user (Some demo_factor_svc) (factor_env 960) (Outside 104) (u_id factor_user) d2 \<and>
     no_live_token (u_id factor_user) d2"
  by (rule enrolment_roundtrip [of demo_aead])
    (simp_all add: aead_laws_def demo_aead_def demo_factor_svc_def available_def wf_factors_def empty_db_def factor_user_def
      enabled_for_user_def factor_env_def demo_code demo_totp)

end
