(* ===== verification/LoginFlow.thy ===== *)
theory LoginFlow
  imports LoginLimiter SignIn TwoFactor
begin

text \<open>
  The sign-in handlers: the password logins of the API (\<open>src/http/controller/api/login.go\<close>), of the admin console
  (\<open>src/http/controller/admin/login.go\<close>) and of the web client (\<open>src/http/controller/api/web_client.go\<close>), and the
  OAuth device flow (\<open>src/http/controller/api/ouath.go\<close>, \<open>src/http/controller/admin/oauth.go\<close>).  They compose the
  limiter, the account lookup, the second factor and the session service.  Binding and struct validation of
  a request are done by gin; what they yield is an argument.  A reply keeps the status or code and the
  message key (\<open>ValidationError\<close> stands for the message of the validator); each database operation of a handler has an environment of its own.
\<close>

section \<open>Text of a request\<close>

function valid_utf8 :: "string \<Rightarrow> bool" where
  "valid_utf8 s = (if s = [] then True else if rune_length s = 0 then False else valid_utf8 (drop (rune_length s) s))"
  by pat_completeness auto
termination by (relation "measure length") auto

declare valid_utf8.simps [simp del]

text \<open>unicode.IsControl, on the bytes of a rune.\<close>

definition is_control_rune :: "string \<Rightarrow> bool" where
  "is_control_rune r \<longleftrightarrow> (case r of
     [c] \<Rightarrow> (of_char c :: nat) < 32 \<or> (of_char c :: nat) = 127
   | [a, c] \<Rightarrow> a = CHR 0xC2 \<and> 128 \<le> (of_char c :: nat) \<and> (of_char c :: nat) < 160
   | _ \<Rightarrow> False)"

definition valid_web_client_text :: "string \<Rightarrow> bool \<Rightarrow> bool" where
  "valid_web_client_text v allow_empty \<longleftrightarrow>
     \<not> ((\<not> allow_empty \<and> v = []) \<or> trim_space v \<noteq> v \<or> \<not> valid_utf8 v) \<and> \<not> list_ex is_control_rune (runes v)"

definition valid_web_client_credential :: "string \<Rightarrow> nat \<Rightarrow> nat \<Rightarrow> bool" where
  "valid_web_client_credential v minimum maximum \<longleftrightarrow>
     length v \<ge> minimum \<and> length v \<le> maximum \<and> valid_web_client_text v False"

definition valid_web_client_password :: "string \<Rightarrow> bool" where
  "valid_web_client_password v \<longleftrightarrow>
     \<not> (length v < 4 \<or> length v > 128 \<or> \<not> valid_utf8 v) \<and> \<not> list_ex is_control_rune (runes v)"

definition valid_optional_web_client_text :: "string \<Rightarrow> nat \<Rightarrow> bool" where
  "valid_optional_web_client_text v maximum \<longleftrightarrow> v = [] \<or> length v \<le> maximum \<and> valid_web_client_text v False"

section \<open>Replies and surroundings\<close>

datatype reply =
    Problem nat string
  | NeedsCode string
  | Granted token_row user_row
  | Started string string
  | Authorizing
  | Done string
  | OutOfDigits

definition LoginLogClientWeb :: string where "LoginLogClientWeb = ''webclient''"
definition LoginLogTypeAccount :: string where "LoginLogTypeAccount = ''account''"
definition LoginLogTypeOauth :: string where "LoginLogTypeOauth = ''oauth''"

record login_io =
  io_pwd_disabled :: bool
  io_acct :: acct
  io_factor :: "two_factor_svc option"
  io_svc :: svc
  io_env :: "nat \<Rightarrow> env"
  io_clock :: int
  io_ip :: string
  io_random :: "err + string"

definition login_log :: "nat \<Rightarrow> challenge_binding \<Rightarrow> string \<Rightarrow> string \<Rightarrow> login_log_row" where
  "login_log uid b ip ty = \<lparr>l_id = 0, l_user_id = uid, l_client = tb_client b, l_device_id = tb_device_id b,
     l_uuid = tb_uuid b, l_ip = ip, l_type = ty, l_platform = tb_platform b, l_user_token_id = 0, l_is_deleted = 0\<rparr>"

text \<open>A request of either stage: which stage, who, and what is presented.\<close>

record credentials =
  cr_second :: bool
  cr_username :: string
  cr_password :: string
  cr_challenge :: string
  cr_code :: string
  cr_binding :: challenge_binding

text \<open>The user a request proves to be; None where the code has an error, nil or the empty struct.\<close>

definition identify :: "login_io \<Rightarrow> credentials \<Rightarrow> db \<Rightarrow> user_row option \<times> db" where
  "identify io c d =
     (if cr_second c
      then (case complete_login_challenge (io_factor io) (io_env io 0) (cr_challenge c) (cr_username c) (cr_code c) (cr_binding c) d of
              (Inl _, d1) \<Rightarrow> (None, d1)
            | (Inr u, d1) \<Rightarrow> (found u_id (Some u), d1))
      else if cr_password c \<noteq> []
      then (case info_by_username_password (io_acct io) (io_env io 0) (cr_username c) (cr_password c) d of
              (ou, d1) \<Rightarrow> (found u_id ou, d1))
      else (None, d))"

definition needs_code :: "login_io \<Rightarrow> credentials \<Rightarrow> user_row \<Rightarrow> db \<Rightarrow> bool" where
  "needs_code io c u d \<longleftrightarrow> \<not> cr_second c \<and> enabled_for_user (io_factor io) (io_env io 1) (Outside 104) (u_id u) d"

definition start_challenge ::
    "login_io \<Rightarrow> credentials \<Rightarrow> user_row \<Rightarrow> reply \<Rightarrow> db \<Rightarrow> reply \<times> db" where
  "start_challenge io c u problem d =
     (case create_login_challenge (io_factor io) (io_env io 2) (io_random io) u (cr_binding c) d of
        (Inl _, d1) \<Rightarrow> (problem, d1)
      | (Inr token, d1) \<Rightarrow> (NeedsCode token, d1))"

section \<open>Password login of the API\<close>

record api_login_form =
  af_device_os :: string
  af_device_type :: string
  af_id :: string
  af_type :: string
  af_uuid :: string
  af_username :: string
  af_password :: string
  af_tfa_code :: string
  af_secret :: string

definition api_credentials :: "api_login_form \<Rightarrow> credentials" where
  "api_credentials f =
     \<lparr>cr_second = (af_type f = ''email_code'' \<or> af_type f = ''tfa_code''), cr_username = af_username f,
      cr_password = af_password f, cr_challenge = af_secret f, cr_code = af_tfa_code f,
      cr_binding = \<lparr>tb_client = af_device_type f, tb_device_id = af_id f, tb_uuid = af_uuid f, tb_platform = af_device_os f\<rparr>\<rparr>"

definition api_login ::
    "login_io \<Rightarrow> err + api_login_form \<Rightarrow> (api_login_form \<Rightarrow> bool) \<Rightarrow> limiter \<Rightarrow> db \<Rightarrow> reply \<times> limiter \<times> db" where
  "api_login io form valid ll d =
     (let t = io_clock io; ip = io_ip io in
      if io_pwd_disabled io then (Problem 400 ''PwdLoginDisabled'', ll, d)
      else case check_security_status t ip ll of
        ((banned, need_captcha), ll1) \<Rightarrow>
          if banned \<or> need_captcha then (Problem 400 ''LoginBanned'', ll1, d)
          else case form of
            Inl _ \<Rightarrow> (Problem 400 ''ParamsError'', record_failed_attempt t ip ll1, d)
          | Inr f0 \<Rightarrow>
              let f = f0\<lparr>af_id := normalize_rustdesk_id (af_id f0)\<rparr>; c = api_credentials f in
              if \<not> valid f then (Problem 400 ''ValidationError'', record_failed_attempt t ip ll1, d)
              else case identify io c d of
                (None, d1) \<Rightarrow> (Problem 400 ''UsernameOrPasswordError'', record_failed_attempt t ip ll1, d1)
              | (Some u, d1) \<Rightarrow>
                  if \<not> check_user_enable u then (Problem 400 ''UserDisabled'', ll1, d1)
                  else if needs_code io c u d1
                  then (case start_challenge io c u (Problem 400 ''SystemError'') d1 of (r, d2) \<Rightarrow> (r, ll1, d2))
                  else (case login (io_svc io) (io_env io 3) (Some u)
                               (Some (login_log (u_id u) (cr_binding c) ip LoginLogTypeAccount)) d1 of
                          (None, d2) \<Rightarrow> (Problem 400 ''SystemError'', ll1, d2)
                        | (Some ut, d2) \<Rightarrow> (Granted ut u, remove_attempts ip ll1, d2)))"

section \<open>Password login of the admin console\<close>

record admin_login_form =
  df_username :: string
  df_password :: string
  df_platform :: string
  df_device_id :: string
  df_uuid :: string
  df_captcha :: string
  df_captcha_id :: string
  df_challenge :: string
  df_tfa_code :: string

definition admin_credentials :: "admin_login_form \<Rightarrow> credentials" where
  "admin_credentials f =
     \<lparr>cr_second = (df_challenge f \<noteq> [] \<or> df_tfa_code f \<noteq> []), cr_username = df_username f,
      cr_password = df_password f, cr_challenge = df_challenge f, cr_code = df_tfa_code f,
      cr_binding = \<lparr>tb_client = LoginLogClientWebAdmin, tb_device_id = df_device_id f, tb_uuid = df_uuid f,
        tb_platform = df_platform f\<rparr>\<rparr>"

text \<open>The captcha of the first stage; the limiter consumes it.\<close>

definition admin_captcha :: "int \<Rightarrow> bool \<Rightarrow> admin_login_form \<Rightarrow> limiter \<Rightarrow> bool \<times> limiter" where
  "admin_captcha t need f ll =
     (if need \<and> \<not> cr_second (admin_credentials f)
      then if df_captcha_id f = [] \<or> df_captcha f = [] then (False, ll) else verify_captcha t (df_captcha_id f) (df_captcha f) ll
      else (True, ll))"

definition admin_login ::
    "login_io \<Rightarrow> err + admin_login_form \<Rightarrow> (admin_login_form \<Rightarrow> bool) \<Rightarrow> limiter \<Rightarrow> db \<Rightarrow> reply \<times> limiter \<times> db" where
  "admin_login io form valid ll d =
     (let t = io_clock io; ip = io_ip io in
      if io_pwd_disabled io then (Problem 101 ''PwdLoginDisabled'', ll, d)
      else case check_security_status t ip ll of
        ((banned, need_captcha), ll1) \<Rightarrow>
          if banned then (Problem 101 ''LoginBanned'', ll1, d)
          else case form of
            Inl _ \<Rightarrow> (Problem 101 ''ParamsError'', record_failed_attempt t ip ll1, d)
          | Inr f \<Rightarrow>
              let c = admin_credentials f in
              if \<not> valid f then (Problem 101 ''ValidationError'', record_failed_attempt t ip ll1, d)
              else case admin_captcha t need_captcha f ll1 of
                (False, ll2) \<Rightarrow> (Problem 101 ''CaptchaError'', ll2, d)
              | (True, ll2) \<Rightarrow>
                  (case identify io c d of
                    (None, d1) \<Rightarrow>
                      (case check_security_status t ip (record_failed_attempt t ip ll2) of
                        ((_, need), ll3) \<Rightarrow> (Problem (if need then 110 else 101) ''UsernameOrPasswordError'', ll3, d1))
                  | (Some u, d1) \<Rightarrow>
                      if \<not> check_user_enable u
                      then (Problem (if need_captcha then 110 else 101) ''UserDisabled'', ll2, d1)
                      else if needs_code io c u d1
                      then (case start_challenge io c u (Problem 101 ''SystemError'') d1 of (r, d2) \<Rightarrow> (r, ll2, d2))
                      else (case login (io_svc io) (io_env io 3) (Some u)
                                   (Some (login_log (u_id u) (cr_binding c) ip LoginLogTypeAccount)) d1 of
                              (None, d2) \<Rightarrow> (Problem 101 ''SystemError'', ll2, d2)
                            | (Some ut, d2) \<Rightarrow> (Granted ut u, remove_attempts ip ll2, d2))))"

section \<open>Password login of the web client\<close>

record web_login_request =
  wr_username :: string
  wr_password :: string
  wr_device_id :: string
  wr_uuid :: string
  wr_platform :: string
  wr_challenge :: string
  wr_tfa_code :: string

definition web_credentials :: "web_login_request \<Rightarrow> credentials" where
  "web_credentials f =
     \<lparr>cr_second = (wr_challenge f \<noteq> [] \<or> wr_tfa_code f \<noteq> []), cr_username = wr_username f, cr_password = wr_password f,
      cr_challenge = wr_challenge f, cr_code = wr_tfa_code f,
      cr_binding = \<lparr>tb_client = LoginLogClientWeb, tb_device_id = wr_device_id f, tb_uuid = wr_uuid f,
        tb_platform = wr_platform f\<rparr>\<rparr>"

definition valid_web_login_request :: "web_login_request \<Rightarrow> bool" where
  "valid_web_login_request f \<longleftrightarrow>
     \<not> (\<not> valid_web_client_credential (wr_username f) 2 32 \<or>
        (\<not> cr_second (web_credentials f) \<and> \<not> valid_web_client_password (wr_password f)) \<or>
        \<not> valid_optional_web_client_text (wr_device_id f) 128 \<or> \<not> valid_optional_web_client_text (wr_uuid f) 128 \<or>
        \<not> valid_optional_web_client_text (wr_platform f) 64 \<or> \<not> valid_optional_web_client_text (wr_challenge f) 128 \<or>
        \<not> valid_optional_web_client_text (wr_tfa_code f) 16)"

text \<open>What Login leaves in the user struct it was given.\<close>

definition after_login :: "user_row \<Rightarrow> user_row" where
  "after_login u = (if u_auth_version u = 0 then u\<lparr>u_auth_version := 1\<rparr> else u)"

definition effective_connection_token_ttl :: "int \<Rightarrow> int" where
  "effective_connection_token_ttl ttl = (if ttl \<le> 0 then 15 * minute else ttl)"

text \<open>
  The session goes into a cookie as soon as it is stored; the reply carries a connection token.  The limiter
  of the process may be missing.
\<close>

definition web_login ::
    "login_io \<Rightarrow> int \<Rightarrow> err + web_login_request \<Rightarrow> limiter option \<Rightarrow> db
      \<Rightarrow> (reply \<times> token_row option) \<times> limiter option \<times> db" where
  "web_login io connection_ttl form oll d =
     (let t = io_clock io; ip = io_ip io in
      if io_pwd_disabled io then ((Problem 403 ''PASSWORD_LOGIN_DISABLED'', None), oll, d)
      else case oll of
        None \<Rightarrow> ((Problem 503 ''AUTHENTICATION_UNAVAILABLE'', None), None, d)
      | Some ll \<Rightarrow>
        (case check_security_status t ip ll of
          ((banned, captcha_required), ll1) \<Rightarrow>
            if banned \<or> captcha_required then ((Problem 429 ''AUTHENTICATION_THROTTLED'', None), Some ll1, d)
            else case form of
              Inl _ \<Rightarrow> ((Problem 400 ''REQUEST_INVALID'', None), Some (record_failed_attempt t ip ll1), d)
            | Inr f \<Rightarrow>
                let c = web_credentials f; log = (\<lambda>u. Some (login_log (u_id u) (cr_binding c) ip LoginLogTypeAccount)) in
                if \<not> valid_web_login_request f
                then ((Problem 400 ''REQUEST_INVALID'', None), Some (record_failed_attempt t ip ll1), d)
                else (case identify io c d of
                  (None, d1) \<Rightarrow> ((Problem 401 ''AUTHENTICATION_FAILED'', None), Some (record_failed_attempt t ip ll1), d1)
                | (Some u, d1) \<Rightarrow>
                    if \<not> check_user_enable u
                    then ((Problem 401 ''AUTHENTICATION_FAILED'', None), Some (record_failed_attempt t ip ll1), d1)
                    else if needs_code io c u d1
                    then (case start_challenge io c u (Problem 503 ''TWO_FACTOR_UNAVAILABLE'') d1 of
                            (r, d2) \<Rightarrow> ((r, None), Some ll1, d2))
                    else (case login (io_svc io) (io_env io 3) (Some u) (log u) d1 of
                            (None, d2) \<Rightarrow> ((Problem 503 ''SESSION_UNAVAILABLE'', None), Some ll1, d2)
                          | (Some session, d2) \<Rightarrow>
                              (case login_connection (io_svc io) (io_env io 4) (Some (after_login u)) (log u)
                                      (effective_connection_token_ttl connection_ttl) d2 of
                                 (None, d3) \<Rightarrow> ((Problem 503 ''TOKEN_UNAVAILABLE'', Some session), Some ll1, d3)
                               | (Some token, d3) \<Rightarrow>
                                   ((Granted token u, Some session), Some (remove_attempts ip ll1), d3))))))"


section \<open>The OAuth device flow\<close>

record oauth_io =
  ox_urls :: url_lib
  ox_discover :: "string \<Rightarrow> err + unit"
  ox_code_url :: "oauth_config \<Rightarrow> string \<Rightarrow> string \<Rightarrow> string \<Rightarrow> string"
  ox_provider :: provider
  ox_api_server :: string
  ox_random :: "string \<times> string \<times> string"
  ox_digits :: "nat list"
  ox_acct :: acct
  ox_svc :: svc
  ox_env :: "nat \<Rightarrow> env"
  ox_clock :: int
  ox_ip :: string

record oidc_auth_form =
  of_device_name :: string
  of_device_os :: string
  of_device_type :: string
  of_id :: string
  of_op :: string
  of_uuid :: string

text \<open>BeginAuth followed by SetOauthCache: all three handlers that start an authorisation.\<close>

definition begin_with ::
    "oauth_io \<Rightarrow> string \<Rightarrow> (auth_start \<Rightarrow> oauth_item) \<Rightarrow> db \<Rightarrow> oauth_store \<Rightarrow> reply \<times> oauth_store" where
  "begin_with ox op item d st =
     (case begin_auth (ox_urls ox) (ox_discover ox) (ox_code_url ox) (ox_env ox 0) (ox_clock ox) (ox_random ox)
             (ox_api_server ox) op d st of
        (Inl _, st1) \<Rightarrow> (Problem 400 ''BeginAuthFailed'', st1)
      | (Inr a, st1) \<Rightarrow>
          (case set_oauth_cache (ox_clock ox) (as_state a) (Some (item a)) 300 st1 of
             (Some _, st2) \<Rightarrow> (Problem 400 ''OauthFailed'', st2)
           | (None, st2) \<Rightarrow> (Started (as_state a) (as_url a), st2)))"

definition login_item :: "oidc_auth_form \<Rightarrow> auth_start \<Rightarrow> oauth_item" where
  "login_item f a = empty_item\<lparr>oi_action := OauthActionTypeLogin, oi_id := of_id f, oi_op := of_op f, oi_uuid := of_uuid f,
     oi_device_name := of_device_name f, oi_device_os := of_device_os f, oi_device_type := of_device_type f,
     oi_verifier := as_verifier a, oi_nonce := as_nonce a\<rparr>"

definition oidc_auth :: "oauth_io \<Rightarrow> err + oidc_auth_form \<Rightarrow> db \<Rightarrow> oauth_store \<Rightarrow> reply \<times> oauth_store" where
  "oidc_auth ox form d st =
     (case form of
        Inl _ \<Rightarrow> (Problem 400 ''ParamsError'', st)
      | Inr f0 \<Rightarrow> let f = f0\<lparr>of_id := normalize_rustdesk_id (of_id f0)\<rparr> in begin_with ox (of_op f) (login_item f) d st)"

definition admin_oidc_auth :: "oauth_io \<Rightarrow> err + oidc_auth_form \<Rightarrow> db \<Rightarrow> oauth_store \<Rightarrow> reply \<times> oauth_store" where
  "admin_oidc_auth ox form d st =
     (case form of
        Inl _ \<Rightarrow> (Problem 101 ''ParamsError'', st)
      | Inr f \<Rightarrow> begin_with ox (of_op f)
          (login_item (f\<lparr>of_device_name := [], of_device_type := LoginLogClientWebAdmin\<rparr>)) d st)"

definition user_third_of :: "env \<Rightarrow> point \<Rightarrow> nat \<Rightarrow> string \<Rightarrow> db \<Rightarrow> third_row option" where
  "user_third_of e p uid op d = found th_id (if flt e p then None else find (\<lambda>r. th_user_id r = uid \<and> th_op r = op) (thirds d))"

definition to_bind :: "oauth_io \<Rightarrow> err + string \<Rightarrow> user_row \<Rightarrow> db \<Rightarrow> oauth_store \<Rightarrow> reply \<times> oauth_store" where
  "to_bind ox form u d st =
     (case form of
        Inl _ \<Rightarrow> (Problem 101 ''ParamsError'', st)
      | Inr op \<Rightarrow>
          if user_third_of (ox_env ox 1) (Outside 111) (u_id u) op d \<noteq> None then (Problem 101 ''OauthHasBindOtherUser'', st)
          else begin_with ox op (\<lambda>a. empty_item\<lparr>oi_action := OauthActionTypeBind, oi_op := op, oi_user_id := u_id u,
                 oi_verifier := as_verifier a, oi_nonce := as_nonce a\<rparr>) d st)"

text \<open>A signed-in user approves the login of another device.\<close>

definition confirm_oauth :: "oauth_io \<Rightarrow> err + string \<Rightarrow> user_row \<Rightarrow> oauth_store \<Rightarrow> reply \<times> oauth_store" where
  "confirm_oauth ox form u st =
     (case form of
        Inl _ \<Rightarrow> (Problem 101 ''ParamsError'', st)
      | Inr code \<Rightarrow>
          if code = [] then (Problem 101 ''ParamsError'', st)
          else case get_oauth_cache (ox_clock ox) code st of
            (None, st1) \<Rightarrow> (Problem 101 ''OauthExpired'', st1)
          | (Some v, st1) \<Rightarrow>
              if oi_action v \<noteq> OauthActionTypeLogin \<or> oi_op v \<noteq> OauthTypeWebauth \<or> oi_user_id v \<noteq> 0
              then (Problem 101 ''ParamsError'', st1)
              else (case set_oauth_cache (ox_clock ox) code (Some (v\<lparr>oi_user_id := u_id u\<rparr>)) 0 st1 of
                      (Some _, st2) \<Rightarrow> (Problem 101 ''OperationFailed'', st2)
                    | (None, st2) \<Rightarrow> (Done ''Confirmed'', st2)))"

text \<open>A signed-in user binds the identity a callback has left in the store.\<close>

definition bind_confirm :: "oauth_io \<Rightarrow> err + string \<Rightarrow> user_row \<Rightarrow> oauth_store \<Rightarrow> db \<Rightarrow> reply \<times> oauth_store \<times> db" where
  "bind_confirm ox form u st d =
     (case form of
        Inl _ \<Rightarrow> (Problem 101 ''ParamsError'', st, d)
      | Inr code \<Rightarrow>
          if code = [] then (Problem 101 ''ParamsError'', st, d)
          else case get_oauth_cache (ox_clock ox) code st of
            (None, st1) \<Rightarrow> (Problem 101 ''OauthExpired'', st1, d)
          | (Some v, st1) \<Rightarrow>
              if oi_action v \<noteq> OauthActionTypeLogin \<or> oi_user_id v \<noteq> 0 \<or> oi_open_id v = []
              then (Problem 101 ''ParamsError'', st1, d)
              else (case bind_oauth_user (ac_lower (ox_acct ox)) (ox_env ox 1) (u_id u) (Some (item_to_oauth_user v)) (oi_op v) d of
                      (Inl _, d1) \<Rightarrow> (Problem 101 ''BindFail'', st1, d1)
                    | (Inr _, d1) \<Rightarrow> (Done ''BindSuccess'', delete_oauth_cache code st1, d1)))"

text \<open>The device polls with the state it was given, its id and its UUID.\<close>

definition oidc_auth_query ::
    "oauth_io \<Rightarrow> err + string \<times> string \<times> string \<Rightarrow> oauth_store \<Rightarrow> db \<Rightarrow> reply \<times> oauth_store \<times> db" where
  "oidc_auth_query ox form st d =
     (case form of
        Inl _ \<Rightarrow> (Problem 400 ''ParamsError'', st, d)
      | Inr (code, i, uuid) \<Rightarrow>
          (case take_oauth_login_result (ox_clock ox) code (normalize_rustdesk_id i) uuid st of
             (None, st1) \<Rightarrow> (Problem 400 ''OauthExpired'', st1, d)
           | (Some v, st1) \<Rightarrow>
               if oi_user_id v = 0 then (Authorizing, st1, d)
               else (let ou = info_by_id (ox_env ox 1) (Outside 112) (oi_user_id v) d;
                         uid = (case ou of None \<Rightarrow> 0 | Some u \<Rightarrow> u_id u)
                     in case login (ox_svc ox) (ox_env ox 2) ou
                               (Some (login_log uid \<lparr>tb_client = oi_device_type v, tb_device_id = oi_id v, tb_uuid = oi_uuid v,
                                  tb_platform = oi_device_os v\<rparr> (ox_ip ox) LoginLogTypeOauth)) d of
                          (Some ut, d1) \<Rightarrow> (case ou of Some u \<Rightarrow> (Granted ut u, st1, d1) | None \<Rightarrow> (Problem 400 ''LoginFailed'', st1, d1))
                        | (None, d1) \<Rightarrow> (Problem 400 ''LoginFailed'', st1, d1))))"

text \<open>The callback, for an authorisation that binds and for one that signs in.\<close>

definition callback_bind ::
    "oauth_io \<Rightarrow> string \<Rightarrow> oauth_item \<Rightarrow> oauth_user \<Rightarrow> oauth_store \<Rightarrow> db \<Rightarrow> reply \<times> oauth_store \<times> db" where
  "callback_bind ox key v ou st d =
     (if (case user_third_info (ox_env ox 2) (Outside 113) (oi_op v) (o_open_id ou) d of None \<Rightarrow> False | Some r \<Rightarrow> th_user_id r > 0)
      then (Problem 200 ''OauthHasBindOtherUser'', st, d)
      else case found u_id (info_by_id (ox_env ox 2) (Outside 114) (oi_user_id v) d) of
        None \<Rightarrow> (Problem 200 ''ItemNotFound'', st, d)
      | Some _ \<Rightarrow>
          (case bind_oauth_user (ac_lower (ox_acct ox)) (ox_env ox 3) (oi_user_id v) (Some ou) (oi_op v) d of
             (Inl _, d1) \<Rightarrow> (Problem 200 ''BindFail'', st, d1)
           | (Inr _, d1) \<Rightarrow> (Done ''BindSuccess'', delete_oauth_cache key st, d1)))"

definition finish_callback ::
    "oauth_io \<Rightarrow> string \<Rightarrow> oauth_item \<Rightarrow> user_row option \<Rightarrow> oauth_store \<Rightarrow> db \<Rightarrow> reply \<times> oauth_store \<times> db" where
  "finish_callback ox key v user st d =
     (case set_oauth_cache (ox_clock ox) key
             (Some (v\<lparr>oi_user_id := (case user of None \<Rightarrow> 0 | Some u \<Rightarrow> u_id u)\<rparr>)) 0 st of
        (Some _, st1) \<Rightarrow> (Problem 200 ''OauthFailed'', st1, d)
      | (None, st1) \<Rightarrow> (Done ''OauthSuccess'', st1, d))"

definition auto_register :: "env \<Rightarrow> point \<Rightarrow> string \<Rightarrow> db \<Rightarrow> bool" where
  "auto_register e p op d \<longleftrightarrow>
     (case found oa_id (info_by_op e p op d) of None \<Rightarrow> False | Some r \<Rightarrow> oa_auto_register r = Some True)"

definition callback_login ::
    "oauth_io \<Rightarrow> string \<Rightarrow> oauth_item \<Rightarrow> oauth_user \<Rightarrow> oauth_store \<Rightarrow> db \<Rightarrow> reply \<times> oauth_store \<times> db" where
  "callback_login ox key v ou st d =
     (if oi_user_id v \<noteq> 0 then (Problem 200 ''OauthHasBeenSuccess'', st, d)
      else case info_by_oauth_id (ox_env ox 2) (oi_op v) (o_open_id ou) d of
        Some u \<Rightarrow> finish_callback ox key v (Some u) st d
      | None \<Rightarrow>
          if \<not> auto_register (ox_env ox 3) (Outside 115) (oi_op v) d
          then (case set_oauth_cache (ox_clock ox) key (Some (item_from_oauth_user ou v)) 0 st of
                  (Some _, st1) \<Rightarrow> (Problem 200 ''OauthFailed'', st1, d)
                | (None, st1) \<Rightarrow> (Done ''bind'', st1, d))
          else (case register_by_oauth (ox_acct ox) (ox_env ox 4) (ox_digits ox) ou (oi_op v) d of
                  (None, d1) \<Rightarrow> (OutOfDigits, st, d1)
                | (Some (Inl _), d1) \<Rightarrow> (Problem 200 ''RegisterFailed'', st, d1)
                | (Some (Inr user), d1) \<Rightarrow> finish_callback ox key v user st d1))"

definition oauth_callback_page ::
    "oauth_io \<Rightarrow> string \<Rightarrow> string \<Rightarrow> oauth_store \<Rightarrow> db \<Rightarrow> reply \<times> oauth_store \<times> db" where
  "oauth_callback_page ox state code st d =
     (if length state \<noteq> 32 \<or> code = [] \<or> length code > 8192 then (Problem 200 ''ParamsError'', st, d)
      else case claim_oauth_callback (ox_clock ox) state st of
        (None, st1) \<Rightarrow> (Problem 200 ''OauthExpired'', st1, d)
      | (Some v, st1) \<Rightarrow>
          (case oauth_callback (ox_urls ox) (ox_discover ox) (ox_provider ox) (ox_env ox 1) (ox_api_server ox) code
                  (oi_verifier v) (oi_op v) (oi_nonce v) d of
             Inl _ \<Rightarrow> (Problem 200 ''OauthFailed'', st1, d)
           | Inr ou \<Rightarrow>
               if oi_action v = OauthActionTypeBind then callback_bind ox state v ou st1 d
               else if oi_action v = OauthActionTypeLogin then callback_login ox state v ou st1 d
               else (Problem 200 ''ParamsError'', st1, d)))"

end
