(* ===== verification/LoginFlowProps.thy ===== *)
theory LoginFlowProps
  imports LoginFlow TwoFactorProps SignInProps SessionsProps OauthProps
begin

text \<open>
  Properties of the sign-in handlers.  The three password logins are one function on requests, \<open>serve\<close>; a run of
  requests (and of whatever else the server does in between) carries a log of the passwords it accepted.  The
  OAuth device flow is a step relation over the store of pending authorisations, with a log of what was begun
  and what was proven.
\<close>

section \<open>Frames\<close>

lemma bind_login_challenges: "challenges (snd (bind_login_identity e i uuid uid d)) = challenges d"
  by (subst bind_login_frame) simp

lemma persist_challenges: "challenges (snd (persist_issued_token sv e ou ollog it d)) = challenges d"
proof -
  have body: "challenges d2 = challenges d1" if "persist_body e r l d1 = Inr (x, d2)" for r l x d1 d2
    using that by (auto simp: persist_body_def create_token_row_def outcome_simps Let_def split: if_splits)
  have "challenges (snd (transaction (flt e) (persist_body e r l) d)) = challenges d" for r l
    by (rule transaction_cases [of "flt e" "persist_body e r l" d]) (auto dest: body)
  moreover have "challenges d1 = challenges d" if "transaction (flt e) (persist_body e r l) d = (x, d1)" for r l x d1
    using that calculation [of r l] by simp
  ultimately show ?thesis
    by (auto simp: persist_issued_token_def Let_def bind_login_challenges split: option.splits sum.splits prod.splits)
qed

lemma initialize_challenges: "initialize_auth_version e u d = Inr (u', d') \<Longrightarrow> challenges d' = challenges d"
  by (auto simp: initialize_auth_version_def outcome_simps split: if_splits)

lemma generate_challenges: "challenges (snd (generate_token_for_client sv e ou client d)) = challenges d"
  by (auto simp: generate_token_for_client_def Let_def split: option.splits sum.splits dest: initialize_challenges)

lemma login_challenges: "challenges (snd (login sv e ou ollog d)) = challenges d"
  using generate_challenges [of sv e ou "case ollog of None \<Rightarrow> [] | Some l \<Rightarrow> l_client l" d]
  by (auto simp: login_def Let_def persist_challenges split: prod.splits sum.splits)

lemma login_connection_challenges: "challenges (snd (login_connection sv e ou ollog ttl d)) = challenges d"
  by (auto simp: login_connection_def persist_challenges split: option.splits sum.splits dest: initialize_challenges)

lemma update_user_challenges: "challenges (snd (update_user ac e actor rid ou d)) = challenges d"
proof -
  have body: "challenges d2 = challenges d1" if "update_user_body ac e u event d1 = Inr (x, d2)" for u event x d1 d2
    using that
    by (rule update_user_bodyE)
      (auto simp: acquire_Inr rewrite_security_audit_intent_def update_user_row_def update_scopes_def update_sessions_def
        remove_administrator_scopes_def remove_resource_scopes_def remove_admin_rows_def revoke_where_def outcome_simps
        Let_def split: if_splits)
  have "challenges (snd (transaction (flt e) (update_user_body ac e u event) d1)) = challenges d1" for u event d1
    by (rule transaction_cases [of "flt e" "update_user_body ac e u event" d1]) (auto dest: body)
  then show ?thesis
    by (auto simp: update_user_def split: option.splits intro!: audited_field)
qed

lemma map_to_local_challenges: "challenges (snd (map_to_local_user ac e lu d)) = challenges d"
proof -
  have body: "challenges d2 = challenges d1" if "create_ldap_user_body e u p s d1 = Inr (x, d2)" for u p s x d1 d2
    using that
    by (auto simp: create_ldap_user_body_def insert_ldap_identity_def insert_user_def outcome_simps Let_def split: if_splits)
  have t: "challenges d1 = challenges d" if "transaction (flt e) (create_ldap_user_body e u p s) d = (x, d1)" for u p s x d1
    using that by (auto simp: transaction_def dest: body split: sum.splits if_splits)
  have u: "challenges (snd (case update_user ac e 0 [] ou d of (Inr _, d1) \<Rightarrow> (Inr (Some a), d1)
      | (Inl _, d1) \<Rightarrow> (Inr (Some b), d1))) = challenges d" for ou a b
    using update_user_challenges [of ac e 0 "[]" ou d] by (auto split: prod.split sum.split)
  have v: "challenges (snd (case transaction (flt e) (create_ldap_user_body e u p s) d of
      (Inl er, d1) \<Rightarrow> (Inl (ErrJoin (ErrNew m) er), d1)
    | (Inr uid, d1) \<Rightarrow> (Inr (found u_id (info_by_id e (Outside 83) uid d1)), d1))) = challenges d" for u p s m
    using t [of u p s] by (auto split: prod.split sum.split)
  show ?thesis
  proof (cases "ldap_identity_fingerprints ac (du_dn lu)")
    case (Inr p)
    obtain provider subject where p: "p = (provider, subject)" by (cases p)
    let ?idn = "found ld_id (first_where e (Outside 81) (\<lambda>r. ld_provider r = provider \<and> ld_subject r = subject) (ldap_ids d))"
    show ?thesis
    proof (cases ?idn)
      case None
      show ?thesis
        unfolding map_to_local_user_def Inr p Let_def sum.case prod.case None option.case
        by (simp add: v)
    next
      case (Some i)
      show ?thesis
        unfolding map_to_local_user_def Inr p Let_def sum.case prod.case Some option.case
        by (cases "found u_id (info_by_id e (Outside 84) (ld_user_id i) d)") (simp_all add: u)
    qed
  qed (simp add: map_to_local_user_def)
qed

lemma ldap_authenticate_challenges: "challenges (snd (ldap_authenticate ac e username password d)) = challenges d"
proof -
  have "challenges d1 = challenges d" if "map_to_local_user ac e lu d = (x, d1)" for lu x d1
    using map_to_local_challenges [of ac e lu d] that by simp
  then show ?thesis
    by (auto simp: ldap_authenticate_def Let_def split: sum.split option.split prod.split)
qed

lemma password_challenges: "challenges (snd (info_by_username_password ac e username password d)) = challenges d"
proof -
  let ?local = "\<lambda>d1. case info_by_username e (Outside 71) username d1 of
        None \<Rightarrow> (None, d1)
      | Some u \<Rightarrow>
          (case verify_password ac (u_password u) password of
             (ok, new_hash, er) \<Rightarrow>
               if er \<noteq> None \<or> \<not> ok then (None, d1)
               else if new_hash \<noteq> []
               then (Some ((before_save u)\<lparr>u_password := new_hash\<rparr>),
                     if flt e (Outside 72) then d1
                     else d1\<lparr>users := update_where (\<lambda>x. u_id x = u_id u) (\<lambda>x. x\<lparr>u_password := new_hash\<rparr>) (users d1)\<rparr>)
               else (Some u, d1))"
  have l: "challenges (snd (?local d1)) = challenges d1" for d1
    by (cases "info_by_username e (Outside 71) username d1"; cases "verify_password ac (u_password (the
      (info_by_username e (Outside 71) username d1))) password") simp_all
  show ?thesis
  proof (cases "lf_enable (ac_ldap ac)")
    case True
    show ?thesis
      unfolding info_by_username_password_def Let_def
      using True l ldap_authenticate_challenges [of ac e username password d]
      by (cases "ldap_authenticate ac e username password d"; cases "fst (ldap_authenticate ac e username password d)") simp_all
  next
    case False
    then show ?thesis unfolding info_by_username_password_def Let_def using l by simp
  qed
qed

section \<open>The three handlers as one\<close>

datatype login_request =
    ApiLogin login_io "err + api_login_form" "api_login_form \<Rightarrow> bool"
  | AdminLogin login_io "err + admin_login_form" "admin_login_form \<Rightarrow> bool"
  | WebLogin login_io int "err + web_login_request"

text \<open>What of a request the second stage reads: its surroundings, and its credentials once it is bound.\<close>

fun request_io :: "login_request \<Rightarrow> login_io" where
  "request_io (ApiLogin io _ _) = io"
| "request_io (AdminLogin io _ _) = io"
| "request_io (WebLogin io _ _) = io"

fun request_credentials :: "login_request \<Rightarrow> credentials option" where
  "request_credentials (ApiLogin _ (Inr f) _) = Some (api_credentials (f\<lparr>af_id := normalize_rustdesk_id (af_id f)\<rparr>))"
| "request_credentials (AdminLogin _ (Inr f) _) = Some (admin_credentials f)"
| "request_credentials (WebLogin _ _ (Inr f)) = Some (web_credentials f)"
| "request_credentials _ = None"

fun serve :: "login_request \<Rightarrow> limiter \<Rightarrow> db \<Rightarrow> reply \<times> limiter \<times> db" where
  "serve (ApiLogin io form valid) ll d = api_login io form valid ll d"
| "serve (AdminLogin io form valid) ll d = admin_login io form valid ll d"
| "serve (WebLogin io ttl form) ll d =
     (case web_login io ttl form (Some ll) d of ((r, _), oll, d') \<Rightarrow> (r, (case oll of None \<Rightarrow> ll | Some l \<Rightarrow> l), d'))"

definition banned_now :: "login_io \<Rightarrow> limiter \<Rightarrow> bool" where
  "banned_now io ll \<longleftrightarrow> fst (fst (check_security_status (io_clock io) (io_ip io) ll))"

text \<open>The outcomes of a request as far as accounts and challenges go.\<close>

definition login_outcome :: "login_io \<Rightarrow> limiter \<Rightarrow> credentials option \<Rightarrow> db \<Rightarrow> reply \<Rightarrow> db \<Rightarrow> bool" where
  "login_outcome io ll oc d r d' \<longleftrightarrow>
     (d' = d \<and> (\<exists>n m. r = Problem n m)) \<or>
     (\<exists>c ou d1. oc = Some c \<and> \<not> io_pwd_disabled io \<and> \<not> banned_now io ll \<and> identify io c d = (ou, d1) \<and>
       ((challenges d' = challenges d1 \<and> (\<exists>n m. r = Problem n m)) \<or>
        (\<exists>u n m. ou = Some u \<and> check_user_enable u \<and> needs_code io c u d1 \<and> start_challenge io c u (Problem n m) d1 = (r, d')) \<or>
        (\<exists>u. ou = Some u \<and> check_user_enable u \<and> \<not> needs_code io c u d1 \<and> challenges d' = challenges d1 \<and>
           (\<exists>ut. r = Granted ut u))))"

lemma login_outcome_refused: "login_outcome io ll oc d (Problem n m) d"
  by (auto simp: login_outcome_def)

lemma login_outcome_tried:
  "\<not> io_pwd_disabled io \<Longrightarrow> \<not> banned_now io ll \<Longrightarrow> identify io c d = (ou, d1) \<Longrightarrow> challenges d' = challenges d1 \<Longrightarrow>
    login_outcome io ll (Some c) d (Problem n m) d'"
  by (auto simp: login_outcome_def)

lemma login_outcome_challenge:
  "\<not> io_pwd_disabled io \<Longrightarrow> \<not> banned_now io ll \<Longrightarrow> identify io c d = (Some u, d1) \<Longrightarrow> check_user_enable u \<Longrightarrow>
    needs_code io c u d1 \<Longrightarrow> start_challenge io c u (Problem n m) d1 = (r, d') \<Longrightarrow> login_outcome io ll (Some c) d r d'"
  by (auto simp: login_outcome_def)

lemma login_outcome_granted:
  "\<not> io_pwd_disabled io \<Longrightarrow> \<not> banned_now io ll \<Longrightarrow> identify io c d = (Some u, d1) \<Longrightarrow> check_user_enable u \<Longrightarrow>
    \<not> needs_code io c u d1 \<Longrightarrow> challenges d' = challenges d1 \<Longrightarrow> login_outcome io ll (Some c) d (Granted ut u) d'"
  by (auto simp: login_outcome_def)

lemma login_challenges_eq: "login sv e ou ol d = (out, d') \<Longrightarrow> challenges d' = challenges d"
  using login_challenges [of sv e ou ol d] by simp

lemma login_connection_challenges_eq: "login_connection sv e ou ol ttl d = (out, d') \<Longrightarrow> challenges d' = challenges d"
  using login_connection_challenges [of sv e ou ol ttl d] by simp

lemmas login_outcomes = login_outcome_refused login_outcome_tried login_outcome_challenge login_outcome_granted

lemma api_outcome:
  assumes "api_login io form valid ll d = (r, ll', d')"
  shows "login_outcome io ll (request_credentials (ApiLogin io form valid)) d r d'"
proof (cases form)
  case (Inr f)
  obtain banned need ll1 where st: "check_security_status (io_clock io) (io_ip io) ll = ((banned, need), ll1)"
    by (metis prod.exhaust)
  let ?f = "f\<lparr>af_id := normalize_rustdesk_id (af_id f)\<rparr>" and ?c = "api_credentials (f\<lparr>af_id := normalize_rustdesk_id (af_id f)\<rparr>)"
  obtain ou d1 where i: "identify io ?c d = (ou, d1)" by fastforce
  show ?thesis
  proof (cases "io_pwd_disabled io \<or> banned \<or> need \<or> \<not> valid ?f")
    case True
    then show ?thesis using assms by (auto simp: api_login_def Let_def st Inr login_outcome_refused split: if_splits)
  next
    case False
    then have ok: "\<not> io_pwd_disabled io" "\<not> banned_now io ll" by (simp_all add: banned_now_def st)
    show ?thesis
      using assms False ok i unfolding Inr
      by (auto simp: api_login_def Let_def st i dest: login_challenges_eq split: option.splits if_splits prod.splits
          intro: login_outcomes)
  qed
qed (use assms in \<open>auto simp: api_login_def Let_def login_outcome_refused split: if_splits prod.splits\<close>)

lemma admin_outcome:
  assumes "admin_login io form valid ll d = (r, ll', d')"
  shows "login_outcome io ll (request_credentials (AdminLogin io form valid)) d r d'"
proof (cases form)
  case (Inr f)
  obtain banned need ll1 where st: "check_security_status (io_clock io) (io_ip io) ll = ((banned, need), ll1)"
    by (metis prod.exhaust)
  obtain solved ll2 where cp: "admin_captcha (io_clock io) need f ll1 = (solved, ll2)" by fastforce
  obtain ou d1 where i: "identify io (admin_credentials f) d = (ou, d1)" by fastforce
  show ?thesis
  proof (cases "io_pwd_disabled io \<or> banned \<or> \<not> valid f \<or> \<not> solved")
    case True
    then show ?thesis using assms by (auto simp: admin_login_def Let_def st cp Inr login_outcome_refused split: if_splits)
  next
    case False
    then have ok: "\<not> io_pwd_disabled io" "\<not> banned_now io ll" by (simp_all add: banned_now_def st)
    show ?thesis
      using assms False ok i unfolding Inr
      by (auto simp: admin_login_def Let_def st cp i dest: login_challenges_eq split: option.splits if_splits prod.splits
          intro: login_outcomes)
  qed
qed (use assms in \<open>auto simp: admin_login_def Let_def login_outcome_refused split: if_splits prod.splits\<close>)

lemma web_outcome:
  assumes "web_login io ttl form (Some ll) d = ((r, cookie), oll, d')"
  shows "login_outcome io ll (request_credentials (WebLogin io ttl form)) d r d'"
proof (cases form)
  case (Inr f)
  obtain banned need ll1 where st: "check_security_status (io_clock io) (io_ip io) ll = ((banned, need), ll1)"
    by (metis prod.exhaust)
  obtain ou d1 where i: "identify io (web_credentials f) d = (ou, d1)" by fastforce
  show ?thesis
  proof (cases "io_pwd_disabled io \<or> banned \<or> need \<or> \<not> valid_web_login_request f")
    case True
    then show ?thesis using assms by (auto simp: web_login_def Let_def st Inr login_outcome_refused split: if_splits)
  next
    case False
    then have ok: "\<not> io_pwd_disabled io" "\<not> banned_now io ll" by (simp_all add: banned_now_def st)
    show ?thesis
      using assms False ok i unfolding Inr
      by (auto simp: web_login_def Let_def st i split: option.splits if_splits prod.splits intro: login_outcomes(1-3))
        (auto simp: i dest!: login_challenges_eq login_connection_challenges_eq
          intro!: login_outcome_tried [OF ok i] login_outcome_granted [OF ok])
  qed
qed (use assms in \<open>auto simp: web_login_def Let_def login_outcome_refused split: if_splits prod.splits\<close>)

lemma serve_outcome:
  assumes "serve q ll d = (r, ll', d')"
  shows "login_outcome (request_io q) ll (request_credentials q) d r d'"
  using assms
  by (cases q) (auto dest: api_outcome admin_outcome web_outcome split: prod.splits)

section \<open>What a granted login has shown\<close>

text \<open>The password of a first-stage request was accepted: for whom, and from where.\<close>

type_synonym password_proof = "nat \<times> string \<times> challenge_binding"

definition password_proof :: "user_row \<Rightarrow> credentials \<Rightarrow> password_proof" where
  "password_proof u c = (u_id u, u_username u, cr_binding c)"

definition password_accepted :: "login_io \<Rightarrow> credentials \<Rightarrow> db \<Rightarrow> user_row option" where
  "password_accepted io c d =
     (if \<not> cr_second c \<and> cr_password c \<noteq> []
      then found u_id (fst (info_by_username_password (io_acct io) (io_env io 0) (cr_username c) (cr_password c) d))
      else None)"

definition challenge_proof :: "challenge_row \<Rightarrow> password_proof" where
  "challenge_proof r = (ch_user_id r, ch_username r,
     \<lparr>tb_client = ch_client r, tb_device_id = ch_device_id r, tb_uuid = ch_uuid r, tb_platform = ch_platform r\<rparr>)"

text \<open>The second factor is off for the user: the service is off, the count failed, or there is no one enabled row.\<close>

definition factor_off_for :: "login_io \<Rightarrow> nat \<Rightarrow> db \<Rightarrow> bool" where
  "factor_off_for io uid d \<longleftrightarrow> \<not> available (io_factor io) \<or> flt (io_env io 1) (Outside 104) \<or>
     count_where (\<lambda>r. tf_user_id r = uid \<and> tf_enabled r) (two_factors d) \<noteq> 1"

text \<open>A code accepted for a challenge of the database, issued for this user, name, client, device and platform.\<close>

definition code_accepted :: "login_io \<Rightarrow> credentials \<Rightarrow> user_row \<Rightarrow> db \<Rightarrow> bool" where
  "code_accepted io c u d \<longleftrightarrow>
     (\<exists>s r. io_factor io = Some s \<and> r \<in> set (challenges d) \<and> ch_token_hash r = challenge_hash s (cr_challenge c) \<and>
        challenge_usable (now (io_env io 0)) (cr_username c) (cr_binding c) r \<and>
        challenge_proof r = (u_id u, cr_username c, cr_binding c)) \<and>
     (\<exists>step. accepts (io_factor io) (io_env io 0) (cr_code c) (u_id u) d step)"

lemma usable_proof: "challenge_usable t username b r \<Longrightarrow> challenge_proof r = (ch_user_id r, username, b)"
  by (cases b) (auto simp: challenge_usable_def challenge_proof_def)

lemma identify_second:
  assumes "identify io c d = (Some u, d1)" and "cr_second c"
  shows "code_accepted io c u d"
proof -
  obtain out where "complete_login_challenge (io_factor io) (io_env io 0) (cr_challenge c) (cr_username c) (cr_code c)
      (cr_binding c) d = (out, d1)" and u: "out = Inr u"
    using assms by (auto simp: identify_def found_Some split: prod.splits sum.splits)
  then show ?thesis
  proof (cases rule: complete_cases)
    case (right s a r f secret step v)
    have v: "v = u" "ch_user_id r = u_id u" using u right(6) find_SomeD [OF right(7)] by auto
    have r: "r \<in> set (challenges d)" "ch_token_hash r = challenge_hash s (cr_challenge c)"
      "challenge_usable (now (io_env io 0)) (cr_username c) (cr_binding c) r"
      and f: "f \<in> set (two_factors d)" "tf_user_id f = u_id u" "tf_enabled f"
      using right(3) v by (auto simp: presented_def dest!: find_SomeD)
    have "accepts (io_factor io) (io_env io 0) (cr_code c) (u_id u) d step"
      unfolding accepts_def using right(1,2,4) f v verify_totp_Some [OF right(5)] by auto
    with r v right(1) usable_proof [OF r(3)] show ?thesis unfolding code_accepted_def by (metis (no_types))
  qed (use u in auto)
qed

lemma identify_first:
  assumes "identify io c d = (Some u, d1)" and "\<not> cr_second c"
  shows "password_accepted io c d = Some u" "challenges d1 = challenges d"
  using assms password_challenges [of "io_acct io" "io_env io 0" "cr_username c" "cr_password c" d]
  by (auto simp: identify_def password_accepted_def split: if_splits prod.splits)

lemma update_challenge_proofs:
  assumes "\<And>r. challenge_proof (f r) = challenge_proof r"
  shows "challenge_proof ` set (challenges (update_challenge cid f d)) = challenge_proof ` set (challenges d)"
proof -
  have "challenge_proof ` f ` S = challenge_proof ` S" for S by (simp add: image_image assms)
  then show ?thesis by (auto simp: update_challenge_def set_update_where image_Un)
qed

lemma attempt_proofs:
  "challenge_proof ` set (challenges (wrong_code c d)) = challenge_proof ` set (challenges d)"
  "challenge_proof ` set (challenges (use_challenge i t d)) = challenge_proof ` set (challenges d)"
  "challenges (spend_step i step d) = challenges d"
  unfolding wrong_code_def use_challenge_def
  by (rule update_challenge_proofs, simp add: challenge_proof_def)+ (simp add: spend_step_def)

lemma identify_proofs:
  assumes "identify io c d = (ou, d1)"
  shows "challenge_proof ` set (challenges d1) = challenge_proof ` set (challenges d)"
proof (cases "cr_second c")
  case True
  with assms obtain out where "complete_login_challenge (io_factor io) (io_env io 0) (cr_challenge c) (cr_username c)
      (cr_code c) (cr_binding c) d = (out, d1)"
    by (auto simp: identify_def split: prod.splits sum.splits)
  then show ?thesis
    by (cases rule: complete_cases) (simp_all add: attempt_proofs)
next
  case False
  then have "challenges d1 = challenges d"
    using assms password_challenges [of "io_acct io" "io_env io 0" "cr_username c" "cr_password c" d]
    by (auto simp: identify_def split: if_splits prod.splits)
  then show ?thesis by simp
qed

lemma start_challenge_proofs:
  assumes "start_challenge io c u (Problem n m) d = (r, d')"
  shows "challenge_proof ` set (challenges d') \<subseteq> insert (password_proof u c) (challenge_proof ` set (challenges d))"
    and "(\<exists>tok. r = NeedsCode tok) \<or> challenge_proof ` set (challenges d') \<subseteq> challenge_proof ` set (challenges d)"
proof -
  let ?o = "create_login_challenge (io_factor io) (io_env io 2) (io_random io) u (cr_binding c) d"
  have r: "r = (case fst ?o of Inl _ \<Rightarrow> Problem n m | Inr tok \<Rightarrow> NeedsCode tok)" "d' = snd ?o"
    using assms by (auto simp: start_challenge_def split: prod.splits sum.splits)
  have "challenge_proof ` set (challenges (snd ?o)) \<subseteq> challenge_proof ` set (challenges d) \<or>
      (\<exists>tok. fst ?o = Inr tok) \<and>
        challenge_proof ` set (challenges (snd ?o)) \<subseteq> insert (password_proof u c) (challenge_proof ` set (challenges d))"
  proof (cases rule: create_challenge_cases [of "io_factor io" "io_env io 2" "io_random io" u "cr_binding c" d])
    case (issued s token)
    have "challenge_proof (challenge_record s (io_env io 2) u (cr_binding c) token) = password_proof u c"
      by (cases "cr_binding c") (simp add: challenge_proof_def challenge_record_def password_proof_def)
    moreover have "challenge_proof (x\<lparr>ch_id := i\<rparr>) = challenge_proof x" for x i by (simp add: challenge_proof_def)
    ultimately show ?thesis
      using issued(2) unfolding issued(4) by (auto simp: add_challenge_def expire_def set_delete_where)
  qed (auto simp: expire_def set_delete_where)
  then show "challenge_proof ` set (challenges d') \<subseteq> insert (password_proof u c) (challenge_proof ` set (challenges d))"
    "(\<exists>tok. r = NeedsCode tok) \<or> challenge_proof ` set (challenges d') \<subseteq> challenge_proof ` set (challenges d)"
    unfolding r by auto
qed

lemma start_challenge_not_granted: "start_challenge io c u (Problem n m) d \<noteq> (Granted ut v, d')"
  by (auto simp: start_challenge_def split: prod.splits sum.splits)

section \<open>Runs of requests\<close>

text \<open>The log grows when a password is accepted and the reply asks for a code.\<close>

definition logged :: "login_request \<Rightarrow> limiter \<Rightarrow> db \<Rightarrow> password_proof list" where
  "logged q ll d =
     (case (fst (serve q ll d), request_credentials q) of
        (NeedsCode _, Some c) \<Rightarrow>
          (case password_accepted (request_io q) c d of None \<Rightarrow> [] | Some u \<Rightarrow> [password_proof u c])
      | _ \<Rightarrow> [])"

text \<open>Other operations of the server may remove challenges or count attempts, but not make new ones.\<close>

inductive login_run :: "password_proof list \<Rightarrow> db \<Rightarrow> bool" where
  Start: "challenges d = [] \<Longrightarrow> login_run [] d"
| Request: "login_run ps d \<Longrightarrow> serve q ll d = (r, ll', d') \<Longrightarrow> login_run (logged q ll d @ ps) d'"
| Other: "login_run ps d \<Longrightarrow> challenge_proof ` set (challenges d') \<subseteq> challenge_proof ` set (challenges d) \<Longrightarrow> login_run ps d'"

lemma serve_proofs:
  assumes "serve q ll d = (r, ll', d')"
  shows "challenge_proof ` set (challenges d') \<subseteq> set (logged q ll d) \<union> challenge_proof ` set (challenges d)"
  using serve_outcome [OF assms] unfolding login_outcome_def
proof (elim disjE exE conjE)
  fix c ou d1 u n m
  let ?io = "request_io q"
  assume c: "request_credentials q = Some c" and i: "identify ?io c d = (ou, d1)" and u: "ou = Some u"
    and n: "needs_code ?io c u d1" and s: "start_challenge ?io c u (Problem n m) d1 = (r, d')"
  have first: "\<not> cr_second c" using n by (simp add: needs_code_def)
  note f = identify_first [OF i [unfolded u] first]
  show ?thesis
  proof (cases "\<exists>tok. r = NeedsCode tok")
    case True
    then have "logged q ll d = [password_proof u c]" by (auto simp: logged_def assms c f)
    then show ?thesis using start_challenge_proofs(1) [OF s] by (simp add: f)
  next
    case False
    then show ?thesis using start_challenge_proofs(2) [OF s] by (auto simp: f)
  qed
qed (auto dest: identify_proofs)

lemma run_proofs: "login_run ps d \<Longrightarrow> challenge_proof ` set (challenges d) \<subseteq> set ps"
  by (induction rule: login_run.induct) (use serve_proofs in fastforce)+

text \<open>C2: A password login grants a session only to someone who has shown everything the account asks for.  In every
  run of the API, admin and web-client logins, a granted session means that password login is on, the address
  is not banned and the account is enabled, and either the password was just accepted and the account's second
  factor is off, or a code was just accepted for a usable challenge and the account's password had been accepted
  earlier in the run, under the same user name, client, device id, UUID and platform.\<close>

theorem login_shows_every_factor:
  assumes "login_run ps d" and "serve q ll d = (Granted ut u, ll', d')"
  shows "\<exists>c. request_credentials q = Some c \<and> \<not> io_pwd_disabled (request_io q) \<and> \<not> banned_now (request_io q) ll \<and>
    u_status u = COMMON_STATUS_ENABLE \<and>
    (if cr_second c
     then code_accepted (request_io q) c u d \<and> (u_id u, cr_username c, cr_binding c) \<in> set ps
     else password_accepted (request_io q) c d = Some u \<and>
       factor_off_for (request_io q) (u_id u) (snd (identify (request_io q) c d)))"
proof -
  let ?io = "request_io q"
  from serve_outcome [OF assms(2)] obtain c d1 where c: "request_credentials q = Some c"
    and ok: "\<not> io_pwd_disabled ?io" "\<not> banned_now ?io ll" "check_user_enable u" "\<not> needs_code ?io c u d1"
    and i: "identify ?io c d = (Some u, d1)"
    by (auto simp: login_outcome_def start_challenge_not_granted)
  show ?thesis
  proof (cases "cr_second c")
    case True
    from identify_second [OF i True] have ca: "code_accepted ?io c u d" .
    then have "(u_id u, cr_username c, cr_binding c) \<in> challenge_proof ` set (challenges d)"
      unfolding code_accepted_def by (metis imageI)
    then show ?thesis using run_proofs [OF assms(1)] c ok ca True by (auto simp: check_user_enable_def)
  next
    case False
    have "u_id u \<noteq> 0" using identify_first [OF i False] by (auto simp: password_accepted_def found_Some split: if_splits)
    then have "factor_off_for ?io (u_id u) d1"
      using ok(4) False by (auto simp: needs_code_def enabled_for_user_def factor_off_for_def)
    then show ?thesis using identify_first [OF i False] c ok False i by (auto simp: check_user_enable_def)
  qed
qed

section \<open>A failing count\<close>

fun without_factor :: "login_request \<Rightarrow> login_request" where
  "without_factor (ApiLogin io form valid) = ApiLogin (io\<lparr>io_factor := None\<rparr>) form valid"
| "without_factor (AdminLogin io form valid) = AdminLogin (io\<lparr>io_factor := None\<rparr>) form valid"
| "without_factor (WebLogin io ttl form) = WebLogin (io\<lparr>io_factor := None\<rparr>) ttl form"

lemma identify_first_without: "\<not> cr_second c \<Longrightarrow> identify (io\<lparr>io_factor := None\<rparr>) c d = identify io c d"
  by (simp add: identify_def)

lemma needs_code_failed: "flt (io_env io 1) (Outside 104) \<Longrightarrow> \<not> needs_code io c u d"
  by (simp add: needs_code_def enabled_for_user_def)

lemma needs_code_without: "\<not> needs_code (io\<lparr>io_factor := None\<rparr>) c u d"
  by (simp add: needs_code_def enabled_for_user_def available_def)

text \<open>C38: The second factor fails open: when the query that counts the enabled factors of an account fails, a
  first-stage login on any of the three handlers does exactly what it would do on a server without a second
  factor, for every account and every database, so the password alone is then enough.\<close>

theorem second_factor_fails_open:
  assumes "request_credentials q = Some c" and "\<not> cr_second c" and "flt (io_env (request_io q) 1) (Outside 104)"
  shows "serve q ll d = serve (without_factor q) ll d"
proof -
  let ?io = "request_io q"
  obtain ou d1 where i: "identify ?io c d = (ou, d1)" by fastforce
  obtain banned need ll1 where st: "check_security_status (io_clock ?io) (io_ip ?io) ll = ((banned, need), ll1)"
    by (metis prod.exhaust)
  note facts = st i identify_first_without [OF assms(2), of ?io d, unfolded i] needs_code_failed [OF assms(3)] needs_code_without
  show ?thesis
  proof (cases q)
    case (ApiLogin io form valid)
    with assms obtain f where "form = Inr f" "c = api_credentials (f\<lparr>af_id := normalize_rustdesk_id (af_id f)\<rparr>)"
      by (cases form) auto
    then show ?thesis using facts by (cases ou) (simp_all add: ApiLogin api_login_def Let_def)
  next
    case (AdminLogin io form valid)
    with assms obtain f where f: "form = Inr f" "c = admin_credentials f" by (cases form) auto
    obtain solved ll2 where "admin_captcha (io_clock io) need f ll1 = (solved, ll2)" by fastforce
    with f show ?thesis using facts by (cases ou; cases solved) (simp_all add: AdminLogin admin_login_def Let_def)
  next
    case (WebLogin io ttl form)
    with assms obtain f where "form = Inr f" "c = web_credentials f" by (cases form) auto
    then show ?thesis using facts by (cases ou) (simp_all add: WebLogin web_login_def Let_def split: option.split prod.split)
  qed
qed

section \<open>Witnesses\<close>

text \<open>An account with a password; its count of factors fails.\<close>

definition login_env :: "bool \<Rightarrow> env" where
  "login_env broken = (session_env 1000)\<lparr>flt := (\<lambda>p. broken \<and> p = Outside 104)\<rparr>"

definition demo_login_io :: "bool \<Rightarrow> login_io" where
  "demo_login_io broken = \<lparr>io_pwd_disabled = False, io_acct = (demo_acct False)\<lparr>ac_compare := (\<lambda>_ p. if p = ''pw'' then BcryptOk else
       BcryptMismatch)\<rparr>, io_factor = Some demo_factor_svc, io_svc = demo_svc,
     io_env = (\<lambda>i. if i = 1 then login_env broken else session_env 1000), io_clock = 0, io_ip = [],
     io_random = Inl RecordNotFound\<rparr>"

definition demo_login_form :: admin_login_form where
  "demo_login_form = \<lparr>df_username = decimal 5, df_password = ''pw'', df_platform = [], df_device_id = [], df_uuid = [],
     df_captcha = [], df_captcha_id = [], df_challenge = [], df_tfa_code = []\<rparr>"

lemma demo_identify:
  "\<not> cr_second (admin_credentials demo_login_form)"
  "identify (demo_login_io broken) (admin_credentials demo_login_form) session_db = (Some session_user, session_db)"
proof -
  show "\<not> cr_second (admin_credentials demo_login_form)" by (simp add: admin_credentials_def demo_login_form_def)
  show "identify (demo_login_io broken) (admin_credentials demo_login_form) session_db = (Some session_user, session_db)"
    by (simp add: identify_def admin_credentials_def demo_login_form_def demo_login_io_def info_by_username_password_def
        demo_acct_def demo_ldap_def info_by_username_def first_where_def found_def verify_password_def session_db_def
        session_user_def demo_user_def session_env_def)
qed

lemma demo_serve:
  "\<exists>ll' d'. serve (AdminLogin (demo_login_io broken) (Inr demo_login_form) (\<lambda>_. True)) (new_login_limiter demo_policy) session_db =
     (Granted (session_row\<lparr>t_token := ''A''\<rparr>) session_user, ll', d')"
proof -
  let ?c = "admin_credentials demo_login_form"
  obtain ll1 where st: "check_security_status 0 [] (new_login_limiter demo_policy) = ((False, False), ll1)"
    by (simp add: check_security_status_def new_login_limiter_def demo_policy_def is_disabled_def is_banned_def
        prune_attempts_def attempts_of_def Let_def)
  have n: "\<not> needs_code (demo_login_io broken) ?c session_user session_db"
    by (simp add: needs_code_def enabled_for_user_def session_db_def empty_db_def)
  have l: "login (io_svc (demo_login_io broken)) (io_env (demo_login_io broken) 3) (Some session_user)
      (Some (login_log (u_id session_user) (cr_binding ?c) [] LoginLogTypeAccount)) session_db =
    (Some (session_row\<lparr>t_token := ''A''\<rparr>),
      session_db\<lparr>tokens := [session_row], login_logs := [session_log\<lparr>l_id := 1, l_user_token_id := 1\<rparr>]\<rparr>)"
    using demo_login
    by (simp add: demo_login_io_def login_log_def admin_credentials_def demo_login_form_def LoginLogClientWebAdmin_def
        LoginLogTypeAccount_def session_log_def session_user_def demo_user_def)
  have e: "check_user_enable session_user" by (simp add: check_user_enable_def session_user_def demo_user_def)
  have io: "\<not> io_pwd_disabled (demo_login_io broken)" "io_clock (demo_login_io broken) = 0" "io_ip (demo_login_io broken) = []"
    by (simp_all add: demo_login_io_def)
  show ?thesis
    using st n l e demo_identify by (simp add: admin_login_def Let_def admin_captcha_def io)
qed

lemma login_shows_every_factor_witness:
  "\<exists>c. password_accepted (demo_login_io False) c session_db = Some session_user \<and>
     factor_off_for (demo_login_io False) 5 (snd (identify (demo_login_io False) c session_db))"
proof -
  let ?q = "AdminLogin (demo_login_io False) (Inr demo_login_form) (\<lambda>_. True)"
  obtain ll' d' where s: "serve ?q (new_login_limiter demo_policy) session_db =
      (Granted (session_row\<lparr>t_token := ''A''\<rparr>) session_user, ll', d')"
    using demo_serve by blast
  have run: "login_run [] session_db" by (rule login_run.Start) (simp add: session_db_def empty_db_def)
  have uid: "u_id session_user = 5" by (simp add: session_user_def demo_user_def)
  show ?thesis
    using login_shows_every_factor [OF run s] demo_identify(1) unfolding uid request_credentials.simps request_io.simps
    by auto
qed

lemma second_factor_fails_open_witness:
  "\<exists>ut u ll' d'. serve (AdminLogin ((demo_login_io True)\<lparr>io_factor := None\<rparr>) (Inr demo_login_form) (\<lambda>_. True))
     (new_login_limiter demo_policy) session_db = (Granted ut u, ll', d')"
proof -
  let ?q = "AdminLogin (demo_login_io True) (Inr demo_login_form) (\<lambda>_. True)"
  have f: "flt (io_env (request_io ?q) 1) (Outside 104)" by (simp add: demo_login_io_def login_env_def)
  have "serve ?q (new_login_limiter demo_policy) session_db = serve (without_factor ?q) (new_login_limiter demo_policy) session_db"
    by (rule second_factor_fails_open [OF _ demo_identify(1) f]) simp
  then show ?thesis using demo_serve [of True] unfolding without_factor.simps by metis
qed

end
