(* ===== verification/OauthFlowProps.thy ===== *)
theory OauthFlowProps
  imports LoginFlowProps
begin

text \<open>
  The OAuth device flow from end to end.  A run of its handlers keeps two logs about each pending state since it
  was last begun: which device began it, and which accounts were proven for it, by a callback of the provider
  or by a signed-in user who approved it.
\<close>

section \<open>What a pending authorisation stands for\<close>

type_synonym begun = "(string \<times> string \<times> string) set"
type_synonym proven = "(string \<times> nat) set"

definition item_justified :: "begun \<Rightarrow> proven \<Rightarrow> string \<Rightarrow> oauth_item \<Rightarrow> bool" where
  "item_justified B P k i \<longleftrightarrow> oi_action i = OauthActionTypeLogin \<longrightarrow>
     (k, oi_id i, oi_uuid i) \<in> B \<and> (oi_user_id i = 0 \<or> (k, oi_user_id i) \<in> P)"

definition pending :: "begun \<Rightarrow> proven \<Rightarrow> oauth_store \<Rightarrow> bool" where
  "pending B P st \<longleftrightarrow> store_ok st \<and> (\<forall>(k, i) \<in> set st. item_justified B P k i)"

definition restart :: "string \<Rightarrow> string \<Rightarrow> string \<Rightarrow> begun \<Rightarrow> begun" where
  "restart s i uuid B = insert (s, i, uuid) {b \<in> B. fst b \<noteq> s}"

definition forget :: "string \<Rightarrow> proven \<Rightarrow> proven" where
  "forget s P = {p \<in> P. fst p \<noteq> s}"

text \<open>The account an accepted identity leads to.\<close>

definition callback_account :: "oauth_io \<Rightarrow> string \<Rightarrow> oauth_user \<Rightarrow> db \<Rightarrow> user_row \<Rightarrow> bool" where
  "callback_account ox op ou d u \<longleftrightarrow>
     info_by_oauth_id (ox_env ox 2) op (o_open_id ou) d = Some u \<or>
     (info_by_oauth_id (ox_env ox 2) op (o_open_id ou) d = None \<and> auto_register (ox_env ox 3) (Outside 115) op d \<and>
      (\<exists>d1. register_by_oauth (ox_acct ox) (ox_env ox 4) (ox_digits ox) ou op d = (Some (Inr (Some u)), d1)))"

text \<open>What a callback proves for its state: the provider vouched for an identity, which leads to this account.\<close>

definition callback_proofs :: "oauth_io \<Rightarrow> string \<Rightarrow> string \<Rightarrow> oauth_store \<Rightarrow> db \<Rightarrow> proven" where
  "callback_proofs ox s code st d =
     {(s, u_id u) |u. \<exists>v ou. fst (claim_oauth_callback (ox_clock ox) s st) = Some v \<and>
        oauth_callback (ox_urls ox) (ox_discover ox) (ox_provider ox) (ox_env ox 1) (ox_api_server ox) code
          (oi_verifier v) (oi_op v) (oi_nonce v) d = Inr ou \<and> callback_account ox (oi_op v) ou d u}"

inductive oauth_flow :: "begun \<Rightarrow> proven \<Rightarrow> oauth_store \<Rightarrow> bool" where
  Start: "oauth_flow {} {} []"
| Begin: "oauth_flow B P st \<Longrightarrow> oidc_auth ox (Inr f) d st = (Started s url, st') \<Longrightarrow>
    oauth_flow (restart s (normalize_rustdesk_id (of_id f)) (of_uuid f) B) (forget s P) st'"
| Begin_admin: "oauth_flow B P st \<Longrightarrow> admin_oidc_auth ox (Inr f) d st = (Started s url, st') \<Longrightarrow>
    oauth_flow (restart s (of_id f) (of_uuid f) B) (forget s P) st'"
| Begin_refused: "oauth_flow B P st \<Longrightarrow> oidc_auth ox form d st = (r, st') \<or> admin_oidc_auth ox form d st = (r, st') \<Longrightarrow>
    (\<And>s url. r \<noteq> Started s url) \<Longrightarrow> oauth_flow B P st'"
| Begin_bind: "oauth_flow B P st \<Longrightarrow> to_bind ox bform u d st = (r, st') \<Longrightarrow> oauth_flow B P st'"
| Callback: "oauth_flow B P st \<Longrightarrow> oauth_callback_page ox s code st d = (r, st', d') \<Longrightarrow>
    oauth_flow B (callback_proofs ox s code st d \<union> P) st'"
| Confirm: "oauth_flow B P st \<Longrightarrow> confirm_oauth ox cform u st = (r, st') \<Longrightarrow>
    oauth_flow B (case cform of Inr code \<Rightarrow> if r = Done ''Confirmed'' then insert (code, u_id u) P else P | Inl _ \<Rightarrow> P) st'"
| Bind_confirm: "oauth_flow B P st \<Longrightarrow> bind_confirm ox cform u st d = (r, st', d') \<Longrightarrow> oauth_flow B P st'"
| Query: "oauth_flow B P st \<Longrightarrow> oidc_auth_query ox q st d = (r, st', d') \<Longrightarrow> oauth_flow B P st'"

section \<open>The store under the handlers\<close>

lemma pending_purge: "pending B P st \<Longrightarrow> pending B P (purge_expired t st)"
  by (auto simp: pending_def purge_ok) (auto simp: purge_expired_def)

lemma pending_delete: "pending B P st \<Longrightarrow> pending B P (AList.delete k st)"
  by (auto simp: pending_def delete_ok) (auto simp: AList.delete_eq)

lemma pending_map_of: "pending B P st \<Longrightarrow> map_of st k = Some i \<Longrightarrow> item_justified B P k i \<and> k \<noteq> [] \<and> oi_expires_at i \<noteq> None"
  by (auto simp: pending_def dest: map_of_SomeD map_of_key)

lemma pending_update:
  assumes "pending B P st" "item_justified B P k i" "oi_expires_at i \<noteq> None" "map_of st k \<noteq> None"
  shows "pending B P (AList.update k i st)"
proof -
  have "k \<noteq> []" using assms(1,4) by (auto dest: pending_map_of)
  then have "store_ok (AList.update k i st)" using assms by (intro update_ok) (auto simp: pending_def)
  then show ?thesis using assms(1,2) set_update_sub [of k i st] by (auto simp: pending_def)
qed

lemma justified_expiry: "item_justified B P k (i\<lparr>oi_expires_at := x\<rparr>) = item_justified B P k i"
  by (simp add: item_justified_def)

lemma justified_claimed: "item_justified B P k (i\<lparr>oi_claimed := x\<rparr>) = item_justified B P k i"
  by (simp add: item_justified_def)

lemma pending_set:
  assumes "pending B P st" "item_justified B P k i"
  shows "pending B P (snd (set_oauth_cache t k (Some i) x st))"
proof -
  have ok: "store_ok (snd (set_oauth_cache t k (Some i) x st))" using assms(1) by (intro set_cache_ok) (simp add: pending_def)
  have "\<forall>(k', j) \<in> set (snd (set_oauth_cache t k (Some i) x st)). item_justified B P k' j"
  proof (rule ballI, clarify)
    fix k' j assume j: "(k', j) \<in> set (snd (set_oauth_cache t k (Some i) x st))"
    have "(k', j) \<in> set st \<or> (k', j) \<in> set (purge_expired t st) \<or> (k' = k \<and> item_justified B P k j)"
      using j assms(2)
      by (auto simp: set_oauth_cache_def Let_def justified_expiry split: if_splits dest!: subsetD [OF set_update_sub])
    then show "item_justified B P k' j" using assms(1) pending_purge [OF assms(1), of t] by (auto simp: pending_def)
  qed
  with ok show ?thesis by (simp add: pending_def)
qed

lemma pending_restart:
  assumes "pending B P st" "set_oauth_cache t s (Some i) x st = (None, st')"
    and "oi_action i = OauthActionTypeLogin" "oi_user_id i = 0"
  shows "pending (restart s (oi_id i) (oi_uuid i) B) (forget s P) st'"
proof -
  have ok: "store_ok st'" using set_cache_ok [of st t s "Some i" x] assms(1,2) by (simp add: pending_def)
  obtain j where st': "st' = AList.update s j (purge_expired t st)" and j: "oi_action j = OauthActionTypeLogin"
      "oi_user_id j = 0" "oi_id j = oi_id i" "oi_uuid j = oi_uuid i"
    using assms(2-4) by (auto simp: set_oauth_cache_def Let_def split: if_splits)
  have other: "\<forall>(k, v) \<in> set (purge_expired t st). item_justified B P k v"
    using pending_purge [OF assms(1), of t] by (auto simp: pending_def)
  have "item_justified (restart s (oi_id i) (oi_uuid i) B) (forget s P) k v" if "(k, v) \<in> set st'" for k v
  proof (cases "k = s")
    case True
    have "map_of st' s = Some v" using that ok True by (auto simp: store_ok_def)
    then have "v = j" by (simp add: st' update_conv')
    then show ?thesis using j True by (auto simp: item_justified_def restart_def)
  next
    case False
    then have "(k, v) \<in> set (purge_expired t st)" using that by (auto simp: st' dest: subsetD [OF set_update_sub])
    then show ?thesis using other False by (auto simp: item_justified_def restart_def forget_def)
  qed
  with ok show ?thesis by (auto simp: pending_def)
qed

lemma pending_begin_auth:
  "pending B P st \<Longrightarrow> begin_auth ul discover code_url e t random api_server op d st = (r, st') \<Longrightarrow> pending B P st'"
proof -
  assume p: "pending B P st" and b: "begin_auth ul discover code_url e t random api_server op d st = (r, st')"
  have e: "pending B P (snd (reserve_oauth_state t k st))" for k
    unfolding reserve_oauth_state_def
    by (rule pending_set [OF p]) (simp add: item_justified_def empty_item_def OauthActionTypeLogin_def)
  have s: "pending B P st1" if "reserve_oauth_state t k st = (x, st1)" for k x st1 using e [of k] that by simp
  show ?thesis
    using b p
    by (auto simp: begin_auth_def delete_oauth_cache_def Let_def dest!: s intro: pending_delete
        split: sum.splits prod.splits option.splits if_splits)
qed

lemma begin_with_started:
  assumes "pending B P st" "begin_with ox op item d st = (Started s url, st')"
    and "\<And>a. oi_action (item a) = OauthActionTypeLogin \<and> oi_user_id (item a) = 0 \<and> oi_id (item a) = i \<and> oi_uuid (item a) = uuid"
  shows "pending (restart s i uuid B) (forget s P) st'"
proof -
  from assms(2) obtain a st1 where b: "begin_auth (ox_urls ox) (ox_discover ox) (ox_code_url ox) (ox_env ox 0) (ox_clock ox)
      (ox_random ox) (ox_api_server ox) op d st = (Inr a, st1)" and s: "s = as_state a"
    and c: "set_oauth_cache (ox_clock ox) s (Some (item a)) 300 st1 = (None, st')"
    by (auto simp: begin_with_def split: sum.splits prod.splits option.splits)
  from pending_restart [OF pending_begin_auth [OF assms(1) b] c] assms(3) show ?thesis by simp
qed

lemma begin_with_other:
  assumes "pending B P st" "begin_with ox op item d st = (r, st')"
    and "(\<forall>s url. r \<noteq> Started s url) \<or> (\<forall>a. oi_action (item a) \<noteq> OauthActionTypeLogin)"
  shows "pending B P st'"
proof -
  obtain x st1 where b: "begin_auth (ox_urls ox) (ox_discover ox) (ox_code_url ox) (ox_env ox 0) (ox_clock ox)
      (ox_random ox) (ox_api_server ox) op d st = (x, st1)" by fastforce
  note p1 = pending_begin_auth [OF assms(1) b]
  show ?thesis
  proof (cases x)
    case (Inr a)
    obtain y st2 where c: "set_oauth_cache (ox_clock ox) (as_state a) (Some (item a)) 300 st1 = (y, st2)" by fastforce
    have st': "st' = st2" "y = None \<Longrightarrow> r = Started (as_state a) (as_url a)"
      using assms(2) by (auto simp: begin_with_def b c Inr split: option.splits)
    show ?thesis
    proof (cases y)
      case None
      then have "item_justified B P (as_state a) (item a)" using assms(3) st' by (auto simp: item_justified_def)
      from pending_set [OF p1 this] c show ?thesis using st' by (metis snd_conv)
    next
      case (Some er)
      then have "st' = st1 \<or> st' = purge_expired (ox_clock ox) st1"
        using c st' by (auto simp: set_oauth_cache_def Let_def split: if_splits)
      then show ?thesis using p1 pending_purge by auto
    qed
  qed (use assms(2) p1 in \<open>auto simp: begin_with_def b\<close>)
qed

lemma pending_get:
  "pending B P st \<Longrightarrow> get_oauth_cache t k st = (x, st') \<Longrightarrow> pending B P st' \<and> (\<forall>v. x = Some v \<longrightarrow> item_justified B P k v)"
  by (auto simp: get_oauth_cache_def Let_def pending_purge dest: pending_map_of [OF pending_purge])

lemma pending_claim:
  assumes "pending B P st" "claim_oauth_callback t k st = (x, st')"
  shows "pending B P st'" "x = Some v \<Longrightarrow> item_justified B P k v"
  using assms
  by (auto simp: claim_oauth_callback_def Let_def justified_claimed intro!: pending_purge pending_update
      split: option.splits if_splits dest: pending_map_of [OF pending_purge])

lemma pending_take:
  assumes "pending B P st" "take_oauth_login_result t k i uuid st = (x, st')"
  shows "pending B P st'"
    and "x = Some v \<Longrightarrow> (k, i, uuid) \<in> B \<and> (oi_user_id v = 0 \<or> (k, oi_user_id v) \<in> P \<and> map_of st' k = None)"
  using assms
  by (auto simp: take_oauth_login_result_def Let_def item_justified_def delete_conv' intro!: pending_purge pending_delete
      split: option.splits if_splits dest!: pending_map_of [OF pending_purge])

lemma pending_more: "pending B P st \<Longrightarrow> P \<subseteq> Q \<Longrightarrow> pending B Q st"
  by (fastforce simp: pending_def item_justified_def)

lemma justified_more: "item_justified B P k i \<Longrightarrow> P \<subseteq> Q \<Longrightarrow> item_justified B Q k i"
  by (auto simp: item_justified_def)

lemma pending_set_eq: "pending B P st \<Longrightarrow> item_justified B P k i \<Longrightarrow> set_oauth_cache t k (Some i) x st = (y, st') \<Longrightarrow> pending B P st'"
  using pending_set [of B P st k i t x] by simp

lemma pending_finish:
  assumes "pending B P st" "item_justified B P k v" "finish_callback ox k v user st d = (r, st', d')"
    and "\<And>u. user = Some u \<Longrightarrow> (k, u_id u) \<in> P"
  shows "pending B P st'"
proof -
  have "item_justified B P k (v\<lparr>oi_user_id := (case user of None \<Rightarrow> 0 | Some u \<Rightarrow> u_id u)\<rparr>)"
    using assms(2,4) by (auto simp: item_justified_def split: option.splits)
  from pending_set_eq [OF assms(1) this] assms(3) show ?thesis
    by (auto simp: finish_callback_def split: option.splits prod.splits)
qed

lemma pending_callback_login:
  assumes "pending B P st" "item_justified B P k v" "callback_login ox k v ou st d = (r, st', d')"
    and proofs: "\<And>u. callback_account ox (oi_op v) ou d u \<Longrightarrow> (k, u_id u) \<in> P"
  shows "pending B P st'"
proof (cases "oi_user_id v \<noteq> 0")
  case False
  then have fresh: "oi_user_id v = 0" by simp
  show ?thesis
  proof (cases "info_by_oauth_id (ox_env ox 2) (oi_op v) (o_open_id ou) d")
    case (Some u)
    then have "callback_account ox (oi_op v) ou d u" by (simp add: callback_account_def)
    then show ?thesis
      using assms(3) pending_finish [OF assms(1,2), of ox "Some u" d r st' d'] proofs
      by (auto simp: callback_login_def fresh Some)
  next
    case none: None
    show ?thesis
    proof (cases "auto_register (ox_env ox 3) (Outside 115) (oi_op v) d")
      case False
      have "item_justified B P k (item_from_oauth_user ou v)"
        using assms(2) by (simp add: item_justified_def item_from_oauth_user_def)
      from pending_set_eq [OF assms(1) this] assms(3) show ?thesis
        by (auto simp: callback_login_def fresh none False split: option.splits prod.splits)
    next
      case True
      obtain x d1 where reg: "register_by_oauth (ox_acct ox) (ox_env ox 4) (ox_digits ox) ou (oi_op v) d = (x, d1)" by fastforce
      show ?thesis
      proof (cases "\<exists>user. x = Some (Inr user)")
        case reg_ok: True
        then obtain user where x: "x = Some (Inr user)" by blast
        have "(k, u_id u) \<in> P" if "user = Some u" for u
          using that none True reg x by (intro proofs) (auto simp: callback_account_def)
        then show ?thesis
          using assms(3) pending_finish [OF assms(1,2), of ox user d1 r st' d']
          by (auto simp: callback_login_def fresh none True reg x)
      next
        case False
        then show ?thesis using assms(1,3)
          by (cases x) (auto simp: callback_login_def fresh none True reg split: sum.splits)
      qed
    qed
  qed
qed (use assms(1,3) in \<open>auto simp: callback_login_def\<close>)

lemma pending_callback_bind:
  assumes "pending B P st" "callback_bind ox k v ou st d = (r, st', d')"
  shows "pending B P st'"
  using assms
  by (auto simp: callback_bind_def delete_oauth_cache_def pending_delete split: option.splits if_splits sum.splits prod.splits)

lemma pending_callback:
  assumes p: "pending B P st" and c: "oauth_callback_page ox s code st d = (r, st', d')"
  shows "pending B (callback_proofs ox s code st d \<union> P) st'"
proof -
  let ?Q = "callback_proofs ox s code st d \<union> P"
  have q: "pending B ?Q st" by (rule pending_more [OF p]) simp
  obtain x st1 where cl: "claim_oauth_callback (ox_clock ox) s st = (x, st1)" by fastforce
  note q1 = pending_claim [OF q cl]
  show ?thesis
  proof (cases "length s \<noteq> 32 \<or> code = [] \<or> length code > 8192 \<or> x = None")
    case True
    then show ?thesis using c q q1(1) by (auto simp: oauth_callback_page_def cl split: if_splits)
  next
    case False
    then obtain v where x: "x = Some v" by blast
    let ?o = "oauth_callback (ox_urls ox) (ox_discover ox) (ox_provider ox) (ox_env ox 1) (ox_api_server ox) code
      (oi_verifier v) (oi_op v) (oi_nonce v) d"
    show ?thesis
    proof (cases ?o)
      case (Inl er)
      then show ?thesis using c False q1(1) by (auto simp: oauth_callback_page_def cl x Inl [unfolded One_nat_def])
    next
      case (Inr ou)
      have "(s, u_id u) \<in> ?Q" if "callback_account ox (oi_op v) ou d u" for u
        using that Inr cl x by (auto simp: callback_proofs_def)
      then show ?thesis
        using c False q1 pending_callback_login [OF q1(1), of s v ox ou d r st' d'] pending_callback_bind [OF q1(1)]
        by (auto simp: oauth_callback_page_def cl x Inr [unfolded One_nat_def] split: if_splits)
    qed
  qed
qed

lemma pending_confirm:
  assumes p: "pending B P st" and c: "confirm_oauth ox cform u st = (r, st')"
  shows "pending B (case cform of Inr code \<Rightarrow> if r = Done ''Confirmed'' then insert (code, u_id u) P else P | Inl _ \<Rightarrow> P) st'"
proof (cases cform)
  case (Inr code)
  obtain x st1 where g: "get_oauth_cache (ox_clock ox) code st = (x, st1)" by fastforce
  note p1 = pending_get [OF p g]
  show ?thesis
  proof (cases "code = [] \<or> x = None \<or> oi_action (the x) \<noteq> OauthActionTypeLogin \<or> oi_op (the x) \<noteq> OauthTypeWebauth \<or>
      oi_user_id (the x) \<noteq> 0")
    case True
    then show ?thesis using c p p1 by (cases x) (auto simp: confirm_oauth_def Inr g split: if_splits)
  next
    case False
    then obtain v where x: "x = Some v" by (cases x) auto
    let ?Q = "insert (code, u_id u) P" and ?i = "v\<lparr>oi_user_id := u_id u\<rparr>"
    obtain y st2 where s: "set_oauth_cache (ox_clock ox) code (Some ?i) 0 st1 = (y, st2)" by fastforce
    have "item_justified B ?Q code ?i" using p1 x by (auto simp: item_justified_def)
    from pending_set_eq [OF pending_more [OF conjunct1 [OF p1]] this s] have q2: "pending B ?Q st2" by auto
    have fail: "y \<noteq> None \<Longrightarrow> st2 = st1 \<or> st2 = purge_expired (ox_clock ox) st1"
      using s by (auto simp: set_oauth_cache_def Let_def split: if_splits)
    show ?thesis
    proof (cases y)
      case None
      then show ?thesis using c False q2 by (auto simp: confirm_oauth_def Inr g x s)
    next
      case (Some er)
      then have "r = Problem 101 ''OperationFailed''" "st' = st2"
        using c False by (auto simp: confirm_oauth_def Inr g x s)
      then show ?thesis using fail Some p1 pending_purge [of B P st1] by (auto simp: Inr)
    qed
  qed
qed (use p c in \<open>auto simp: confirm_oauth_def\<close>)

lemma pending_bind_confirm:
  assumes "pending B P st" "bind_confirm ox cform u st d = (r, st', d')"
  shows "pending B P st'"
  using assms
  by (auto simp: bind_confirm_def delete_oauth_cache_def pending_delete split: option.splits if_splits sum.splits prod.splits
      dest: pending_get)

lemma pending_query:
  assumes "pending B P st" "oidc_auth_query ox q st d = (r, st', d')"
  shows "pending B P st'"
  using assms
  by (auto simp: oidc_auth_query_def Let_def split: option.splits if_splits sum.splits prod.splits dest: pending_take(1))

lemma flow_pending: "oauth_flow B P st \<Longrightarrow> pending B P st"
proof (induction rule: oauth_flow.induct)
  case Start
  show ?case by (simp add: pending_def empty_ok)
next
  case (Begin B P st ox f d s url st')
  from Begin(2) show ?case
    by (auto simp: oidc_auth_def Let_def intro!: begin_with_started [OF Begin(3)] simp: login_item_def empty_item_def)
next
  case (Begin_admin B P st ox f d s url st')
  from Begin_admin(2) show ?case
    by (auto simp: admin_oidc_auth_def intro!: begin_with_started [OF Begin_admin(3)] simp: login_item_def empty_item_def)
next
  case (Begin_refused B P st ox form d r st')
  from Begin_refused(2,3,4) show ?case
    by (auto simp: oidc_auth_def admin_oidc_auth_def Let_def intro: begin_with_other split: sum.splits)
next
  case (Begin_bind B P st ox bform u d r st')
  have "OauthActionTypeBind \<noteq> OauthActionTypeLogin" by (simp add: OauthActionTypeBind_def OauthActionTypeLogin_def)
  with Begin_bind(2,3) show ?case
    by (auto simp: to_bind_def elim!: begin_with_other split: sum.splits if_splits)
qed (auto intro: pending_callback pending_confirm pending_bind_confirm pending_query)

section \<open>The session\<close>

text \<open>C16: A session is minted through OAuth only for an account proven for this very authorisation, and only to the
  device that began it: in every run of the handlers that begin, approve, bind, complete and poll
  authorisations, when a poll is answered with a token, the state was begun by a device of that id and UUID, and
  since then a callback whose identity the provider vouched for led to the account of the token, or a signed-in
  user of that account approved it; and the state is gone, so that no second poll gets a session.\<close>

theorem oauth_session_proven:
  assumes "oauth_flow B P st" and "oidc_auth_query ox (Inr (code, i, uuid)) st d = (Granted ut u, st', d')"
  shows "(code, normalize_rustdesk_id i, uuid) \<in> B \<and> (code, u_id u) \<in> P \<and> map_of st' code = None"
proof -
  obtain x st1 where t: "take_oauth_login_result (ox_clock ox) code (normalize_rustdesk_id i) uuid st = (x, st1)" by fastforce
  from assms(2) obtain v where v: "x = Some v" "oi_user_id v \<noteq> 0" "st' = st1"
    and u: "info_by_id (ox_env ox 1) (Outside 112) (oi_user_id v) d = Some u"
    by (auto simp: oidc_auth_query_def t Let_def split: option.splits if_splits prod.splits)
  have "u_id u = oi_user_id v" using u info_by_id_SomeD by blast
  then show ?thesis using pending_take(2) [OF flow_pending [OF assms(1)] t v(1)] v by simp
qed

definition demo_oauth_io :: oauth_io where
  "demo_oauth_io = \<lparr>ox_urls = demo_urls, ox_discover = (\<lambda>_. Inr ()), ox_code_url = (\<lambda>_ _ _ _. []),
     ox_provider = demo_provider, ox_api_server = ''api'', ox_random = (''st'', ''n'', ''v''), ox_digits = [],
     ox_acct = demo_acct False, ox_svc = demo_svc, ox_env = (\<lambda>_. session_env 1000), ox_clock = 0, ox_ip = []\<rparr>"

definition demo_oidc_form :: oidc_auth_form where
  "demo_oidc_form = \<lparr>of_device_name = [], of_device_os = [], of_device_type = [], of_id = ''d'', of_op = OauthTypeWebauth,
     of_uuid = ''u''\<rparr>"

lemma demo_begin:
  "\<exists>st. admin_oidc_auth demo_oauth_io (Inr demo_oidc_form) session_db [] = (Started ''st'' ''api/dash/#/oauth/st'', st) \<and>
     fst (confirm_oauth demo_oauth_io (Inr ''st'') session_user st) = Done ''Confirmed'' \<and>
     fst (take_oauth_login_result 0 ''st'' ''d'' ''u'' (snd (confirm_oauth demo_oauth_io (Inr ''st'') session_user st))) =
       Some (empty_item\<lparr>oi_user_id := 5, oi_id := ''d'', oi_op := OauthTypeWebauth, oi_action := OauthActionTypeLogin,
         oi_uuid := ''u'', oi_device_type := ''webadmin'', oi_expires_at := Some 300000000000\<rparr>)"
proof -
  have "validate_oauth_external_origin demo_urls ''api'' = Inr ''api''" by code_simp
  then show ?thesis
    by (simp add: admin_oidc_auth_def begin_with_def begin_auth_def demo_oauth_io_def demo_oidc_form_def login_item_def
        confirm_oauth_def store_ops Let_def LoginLogClientWebAdmin_def session_user_def demo_user_def)
qed

lemma demo_oauth_login:
  "\<exists>ut d. login demo_svc (session_env 1000) (Some session_user) (Some (session_log\<lparr>l_device_id := ''d'', l_uuid := ''u'',
     l_type := LoginLogTypeOauth\<rparr>)) session_db = (Some ut, d)"
proof -
  have "fst (persist_issued_token demo_svc (session_env 1000) (Some session_user) (Some (session_log\<lparr>l_device_id := ''d'',
      l_uuid := ''u'', l_type := LoginLogTypeOauth\<rparr>)) demo_issued session_db) \<noteq> None"
    by code_simp
  then have "\<exists>ut. fst (login demo_svc (session_env 1000) (Some session_user) (Some (session_log\<lparr>l_device_id := ''d'',
      l_uuid := ''u'', l_type := LoginLogTypeOauth\<rparr>)) session_db) = Some ut"
    using demo_generate by (auto simp: login_def session_log_def)
  then show ?thesis by (metis prod.collapse)
qed

lemma oauth_session_proven_witness:
  "\<exists>B P st ut d'. oauth_flow B P st \<and> B = {(''st'', ''d'', ''u'')} \<and> P = {(''st'', 5)} \<and>
     (\<exists>st'. oidc_auth_query demo_oauth_io (Inr (''st'', ''d'', ''u'')) st session_db = (Granted ut session_user, st', d') \<and>
        map_of st' ''st'' = None)"
proof -
  obtain st1 where b: "admin_oidc_auth demo_oauth_io (Inr demo_oidc_form) session_db [] = (Started ''st'' ''api/dash/#/oauth/st'', st1)"
    and c: "fst (confirm_oauth demo_oauth_io (Inr ''st'') session_user st1) = Done ''Confirmed''"
    and t: "fst (take_oauth_login_result 0 ''st'' ''d'' ''u'' (snd (confirm_oauth demo_oauth_io (Inr ''st'') session_user st1))) =
       Some (empty_item\<lparr>oi_user_id := 5, oi_id := ''d'', oi_op := OauthTypeWebauth, oi_action := OauthActionTypeLogin,
         oi_uuid := ''u'', oi_device_type := ''webadmin'', oi_expires_at := Some 300000000000\<rparr>)"
    using demo_begin by blast
  define st where "st = snd (confirm_oauth demo_oauth_io (Inr ''st'') session_user st1)"
  have uid: "u_id session_user = 5" by (simp add: session_user_def demo_user_def)
  have c': "confirm_oauth demo_oauth_io (Inr ''st'') session_user st1 = (Done ''Confirmed'', st)"
    using c by (simp add: st_def prod_eq_iff)
  have flow: "oauth_flow {(''st'', ''d'', ''u'')} {(''st'', 5)} st"
    using oauth_flow.Confirm [OF oauth_flow.Begin_admin [OF oauth_flow.Start b] c'] uid
    by (simp add: restart_def forget_def demo_oidc_form_def)
  obtain st2 where tk: "take_oauth_login_result 0 ''st'' ''d'' ''u'' st =
      (Some (empty_item\<lparr>oi_user_id := 5, oi_id := ''d'', oi_op := OauthTypeWebauth, oi_action := OauthActionTypeLogin,
         oi_uuid := ''u'', oi_device_type := ''webadmin'', oi_expires_at := Some 300000000000\<rparr>), st2)"
    using t unfolding st_def by (metis prod.collapse)
  have n: "normalize_rustdesk_id ''d'' = ''d''" by code_simp
  have i: "info_by_id (session_env 1000) (Outside 112) 5 session_db = Some session_user"
    by (simp add: info_by_id_def find_user_def session_env_def session_db_def uid)
  obtain ut d' where l: "login demo_svc (session_env 1000) (Some session_user) (Some (session_log\<lparr>l_device_id := ''d'',
      l_uuid := ''u'', l_type := LoginLogTypeOauth\<rparr>)) session_db = (Some ut, d')"
    using demo_oauth_login by blast
  have q: "oidc_auth_query demo_oauth_io (Inr (''st'', ''d'', ''u'')) st session_db = (Granted ut session_user, st2, d')"
    using tk n i l uid
    by (simp add: oidc_auth_query_def demo_oauth_io_def Let_def login_log_def session_log_def empty_item_def)
  show ?thesis using oauth_session_proven [OF flow q] flow q by blast
qed

end
