(* ===== verification/PairingRegistry.thy ===== *)
theory PairingRegistry
  imports TokenManager
begin

text \<open>
  The registry of paired servers (\<open>src/internal/servercontrolregistry/registry.go\<close>, \<open>types.go\<close>): an SQLite
  database with one metadata row, the enrollments of pairing codes and the managed instances.  Every mutation
  runs under a file lock in one transaction; the check of the file modes comes after the commit.  The raw
  SHA-256 is an argument, the clock of an operation is a time in nanoseconds, \<open>uuid_parses\<close> of an environment
  is \<open>uuid.Parse\<close>.  Rows are kept in insertion order; a listing sorts them.
\<close>

section \<open>Constants and errors\<close>

definition SchemaVersion :: nat where "SchemaVersion = 1"
definition PurposeControlAgent :: string where "PurposeControlAgent = ''control-agent''"
definition PurposeRelay :: string where "PurposeRelay = ''relay''"
definition ActionPair :: string where "ActionPair = ''pair''"
definition ActionAdopt :: string where "ActionAdopt = ''adopt''"
definition ActionRotate :: string where "ActionRotate = ''rotate''"
definition ActionEnroll :: string where "ActionEnroll = ''enroll''"

text \<open>The five values of the state column.\<close>

datatype enrollment_state = StatePending | StateBound | StateClaimed | StateRevoked | StateExpired

definition ErrNotFound :: err where "ErrNotFound = ErrNew ''server-control registry record not found''"
definition ErrConflict :: err where "ErrConflict = ErrNew ''server-control registry conflict''"
definition ErrExpired :: err where "ErrExpired = ErrNew ''pairing enrollment expired''"
definition ErrRevoked :: err where "ErrRevoked = ErrNew ''pairing enrollment revoked''"
definition ErrSecret :: err where "ErrSecret = ErrNew ''pairing secret rejected''"
definition ErrBinding :: err where "ErrBinding = ErrNew ''pairing claim binding rejected''"
definition ErrRecoveryWindow :: err where "ErrRecoveryWindow = ErrNew ''pairing recovery window closed''"
definition ErrIdentityClone :: err where "ErrIdentityClone = ErrNew ''server-control registry host identity mismatch''"
definition ErrFutureSchema :: err where "ErrFutureSchema = ErrNew ''server-control registry schema is newer than this binary''"
definition ErrUnsafePermissions :: err where "ErrUnsafePermissions = ErrNew ''unsafe server-control registry permissions''"
definition ErrUnsupportedPurpose :: err where "ErrUnsupportedPurpose = ErrNew ''unsupported pairing purpose or action''"

text \<open>fmt.Errorf with \<open>%w\<close> keeps the sentinel first.\<close>

definition wrapped :: "err \<Rightarrow> string \<Rightarrow> err" where "wrapped er m = ErrJoin er (ErrNew m)"

section \<open>Rows\<close>

record enrollment =
  en_id :: string
  en_purpose :: string
  en_action :: string
  en_managed_id :: string
  en_name :: string
  en_origin_id :: string
  en_origin :: string
  en_tls_name :: string
  en_target :: string
  en_config_digest :: string
  en_secret_digest :: string
  en_expires :: int
  en_recovery_ttl :: int
  en_state :: enrollment_state
  en_request_digest :: string
  en_key_fingerprint :: string
  en_csr_digest :: string
  en_instance :: string
  en_recovery_until :: int
  en_relay_spec :: string
  en_created :: int
  en_updated :: int

record managed_instance =
  mi_id :: string
  mi_name :: string
  mi_uuid :: string
  mi_origin :: string
  mi_tls_name :: string
  mi_ca_file :: string
  mi_client_cert :: string
  mi_client_key :: string
  mi_control_key :: string
  mi_control_key_id :: string
  mi_issuer :: string
  mi_party :: string
  mi_cert_sha :: string
  mi_key_sha :: string
  mi_read_only :: bool
  mi_state :: string
  mi_generation :: nat
  mi_created :: int
  mi_updated :: int

record registry_meta =
  rm_schema :: nat
  rm_generation :: nat
  rm_installation :: string
  rm_host :: string
  rm_updated :: int

text \<open>The database: whether the registry's tables exist, whether other tables do, and the rows.\<close>

record registry =
  rg_tables :: bool
  rg_foreign :: bool
  rg_meta :: "registry_meta option"
  rg_enrollments :: "enrollment list"
  rg_managed :: "managed_instance list"

section \<open>Digests and shapes\<close>

definition sha_text :: "(string \<Rightarrow> string) \<Rightarrow> string \<Rightarrow> string" where
  "sha_text sha s = ''sha256:'' @ hex_encode (sha s)"

definition valid_sha256 :: "string \<Rightarrow> bool" where
  "valid_sha256 v \<longleftrightarrow> \<not> (length v \<noteq> 71 \<or> \<not> has_prefix v ''sha256:'') \<and> hex_decode (drop 7 v) \<noteq> None \<and>
     list_all (\<lambda>c. \<not> (65 \<le> (of_char c :: nat) \<and> (of_char c :: nat) \<le> 90)) v"

definition valid_purpose :: "string \<Rightarrow> bool" where
  "valid_purpose v \<longleftrightarrow> v = PurposeControlAgent \<or> v = PurposeRelay"

definition valid_purpose_action :: "string \<Rightarrow> string \<Rightarrow> bool" where
  "valid_purpose_action purpose action \<longleftrightarrow>
     (if purpose = PurposeControlAgent then action = ActionPair \<or> action = ActionAdopt \<or> action = ActionRotate
      else purpose = PurposeRelay \<and> action = ActionEnroll)"

text \<open>The digest of a secret that is the canonical unpadded base64url of 32 bytes.\<close>

definition secret_digest :: "(string \<Rightarrow> string) \<Rightarrow> string \<Rightarrow> err + string" where
  "secret_digest sha secret =
     (case b64_decode url_alphabet False secret of
        None \<Rightarrow> Inl (ErrNew ''SP1 secret must be canonical base64url for 32 bytes'')
      | Some raw \<Rightarrow>
          check (length raw = 32 \<and> b64_encode url_alphabet False raw = secret)
            (ErrNew ''SP1 secret must be canonical base64url for 32 bytes'') (Inr (sha_text sha raw)))"

record claim_request =
  cq_version :: int
  cq_purpose :: string
  cq_action :: string
  cq_enrollment :: string
  cq_config_digest :: string
  cq_secret :: string
  cq_request_digest :: string
  cq_key_fingerprint :: string
  cq_csr :: string
  cq_instance :: "string option"

definition expected_request_digest :: "(string \<Rightarrow> string) \<Rightarrow> claim_request \<Rightarrow> string" where
  "expected_request_digest sha q =
     (let instance_id = (case cq_instance q of None \<Rightarrow> [] | Some i \<Rightarrow> i); nl = [CHR 0x0A]
      in sha_text sha (''starry-pairing-claim-v1'' @ nl @ cq_purpose q @ nl @ cq_action q @ nl @ cq_enrollment q @ nl
           @ cq_config_digest q @ nl @ cq_key_fingerprint q @ nl @ sha_text sha (cq_csr q) @ nl @ instance_id))"

definition valid_claim_shape :: "(string \<Rightarrow> string) \<Rightarrow> claim_request \<Rightarrow> err + unit" where
  "valid_claim_shape sha q =
     check (\<not> (cq_version q \<noteq> 1 \<or> \<not> valid_purpose_action (cq_purpose q) (cq_action q))) ErrUnsupportedPurpose (
     check (\<not> (cq_enrollment q = [] \<or> \<not> valid_sha256 (cq_config_digest q) \<or> \<not> valid_sha256 (cq_request_digest q) \<or>
               \<not> valid_sha256 (cq_key_fingerprint q))) ErrBinding (
     check (\<not> (length (cq_csr q) < 1 \<or> length (cq_csr q) > 32768)) ErrBinding (
     case secret_digest sha (cq_secret q) of
       Inl _ \<Rightarrow> Inl ErrSecret
     | Inr _ \<Rightarrow>
     check (\<not> (cq_purpose q = PurposeControlAgent \<and>
               (case cq_instance q of None \<Rightarrow> True | Some i \<Rightarrow> trim_space i = []))) ErrBinding (
     check (\<not> (cq_purpose q = PurposeRelay \<and> cq_instance q \<noteq> None)) ErrBinding (
     check (expected_request_digest sha q = cq_request_digest q) ErrBinding (Inr ()))))))"

section \<open>Transactions of the registry\<close>

definition bump_generation :: "int \<Rightarrow> registry \<Rightarrow> registry" where
  "bump_generation t s = s\<lparr>rg_meta := map_option (\<lambda>m. m\<lparr>rm_generation := rm_generation m + 1, rm_updated := unix_seconds t\<rparr>) (rg_meta s)\<rparr>"

text \<open>
  mutateConditional: the lock, the operation in a transaction, the new generation when something changed, and
  the file modes after the commit, whose failure is reported although the change is stored.
\<close>

definition mutate_conditional ::
    "env \<Rightarrow> int \<Rightarrow> (registry \<Rightarrow> err + (bool \<times> 'a) \<times> registry) \<Rightarrow> registry \<Rightarrow> (err + 'a) \<times> registry" where
  "mutate_conditional e t op s =
     (if flt e (Outside 121) then (Inl (DbErr (Outside 121)), s)
      else case transaction (flt e) (\<lambda>s0.
              ebind (op s0) (\<lambda>((changed, x), s1).
                if changed then stmt (flt e) (Stmt 109) (Inr (x, bump_generation t s1)) else Inr (x, s1))) s of
        (Inl er, s1) \<Rightarrow> (Inl er, s1)
      | (Inr x, s1) \<Rightarrow> ((if flt e (Outside 122) then Inl (DbErr (Outside 122)) else Inr x), s1))"

definition mutate :: "env \<Rightarrow> int \<Rightarrow> (registry \<Rightarrow> err + 'a \<times> registry) \<Rightarrow> registry \<Rightarrow> (err + 'a) \<times> registry" where
  "mutate e t op = mutate_conditional e t (\<lambda>s. ebind (op s) (\<lambda>(x, s1). Inr ((True, x), s1)))"

definition load_enrollment :: "env \<Rightarrow> point \<Rightarrow> string \<Rightarrow> registry \<Rightarrow> err + enrollment" where
  "load_enrollment e p i s =
     stmt (flt e) p (case find (\<lambda>r. en_id r = i) (rg_enrollments s) of None \<Rightarrow> Inl ErrNotFound | Some r \<Rightarrow> Inr r)"

definition load_managed :: "env \<Rightarrow> point \<Rightarrow> string \<Rightarrow> registry \<Rightarrow> err + managed_instance" where
  "load_managed e p i s =
     stmt (flt e) p (case find (\<lambda>r. mi_id r = i) (rg_managed s) of None \<Rightarrow> Inl ErrNotFound | Some r \<Rightarrow> Inr r)"

section \<open>Enrollments\<close>

record enrollment_create =
  ec_id :: string
  ec_purpose :: string
  ec_action :: string
  ec_managed_id :: string
  ec_name :: string
  ec_origin_id :: string
  ec_origin :: string
  ec_tls_name :: string
  ec_target :: string
  ec_config_digest :: string
  ec_secret_digest :: string
  ec_expires_at :: int
  ec_recovery_ttl :: int
  ec_relay_spec :: string

definition validate_enrollment_create :: "env \<Rightarrow> enrollment_create \<Rightarrow> err + unit" where
  "validate_enrollment_create e c =
     check (\<not> (\<not> uuid_parses e (ec_id c) \<or> \<not> valid_purpose_action (ec_purpose c) (ec_action c) \<or>
               \<not> valid_sha256 (ec_config_digest c) \<or> \<not> valid_sha256 (ec_secret_digest c))) ErrBinding (
     check (\<not> unix_seconds (ec_expires_at c) < 1) ErrExpired (
     if ec_purpose c = PurposeControlAgent
     then check (\<not> (ec_managed_id c = [] \<or> ec_name c = [] \<or> ec_origin_id c = [] \<or> ec_origin c = [] \<or>
                    ec_tls_name c = [] \<or> ec_relay_spec c \<noteq> [])) ErrBinding (Inr ())
     else check (\<not> (ec_managed_id c = [] \<or> ec_relay_spec c = [])) ErrBinding (Inr ())))"

definition new_enrollment :: "int \<Rightarrow> enrollment_create \<Rightarrow> enrollment" where
  "new_enrollment t c =
     (let ttl = (if ec_recovery_ttl c \<le> 0 \<or> ec_recovery_ttl c > 600 * second then 600 * second else ec_recovery_ttl c)
      in \<lparr>en_id = ec_id c, en_purpose = ec_purpose c, en_action = ec_action c, en_managed_id = ec_managed_id c,
          en_name = ec_name c, en_origin_id = ec_origin_id c, en_origin = ec_origin c, en_tls_name = ec_tls_name c,
          en_target = ec_target c, en_config_digest = ec_config_digest c, en_secret_digest = ec_secret_digest c,
          en_expires = unix_seconds (ec_expires_at c), en_recovery_ttl = ttl div second, en_state = StatePending,
          en_request_digest = [], en_key_fingerprint = [], en_csr_digest = [], en_instance = [], en_recovery_until = 0,
          en_relay_spec = ec_relay_spec c, en_created = unix_seconds t, en_updated = unix_seconds t\<rparr>)"

definition code_over :: "int \<Rightarrow> string \<Rightarrow> enrollment \<Rightarrow> bool" where
  "code_over n managed_id r \<longleftrightarrow> en_purpose r = PurposeControlAgent \<and> en_managed_id r = managed_id \<and>
     ((en_state r = StatePending \<and> en_expires r \<le> n) \<or> (en_state r = StateBound \<and> en_recovery_until r \<le> n))"

definition expire_codes :: "int \<Rightarrow> string \<Rightarrow> registry \<Rightarrow> registry" where
  "expire_codes n managed_id s = s\<lparr>rg_enrollments :=
     update_where (code_over n managed_id) (\<lambda>r. r\<lparr>en_state := StateExpired, en_updated := n\<rparr>) (rg_enrollments s)\<rparr>"

definition code_active :: "enrollment \<Rightarrow> bool" where
  "code_active r \<longleftrightarrow> en_state r = StatePending \<or> en_state r = StateBound"

definition add_enrollment :: "enrollment \<Rightarrow> registry \<Rightarrow> registry" where
  "add_enrollment r s = s\<lparr>rg_enrollments := rg_enrollments s @ [r]\<rparr>"

definition insert_enrollment :: "enrollment \<Rightarrow> registry \<Rightarrow> err + registry" where
  "insert_enrollment r s =
     (if en_id r \<in> en_id ` set (rg_enrollments s) then Inl UniqueViolation else Inr (add_enrollment r s))"

text \<open>What CreateEnrollment checks for a control agent, after expiring the codes that are over.\<close>

definition control_enrollment_allowed :: "env \<Rightarrow> enrollment_create \<Rightarrow> registry \<Rightarrow> err + unit" where
  "control_enrollment_allowed e c s =
     stmt (flt e) (Stmt 102) (
     check (count_where (\<lambda>r. en_managed_id r = ec_managed_id c \<and> code_active r) (rg_enrollments s) = 0)
       (wrapped ErrConflict ''managed instance already has a pending claim'') (
     stmt (flt e) (Stmt 103) (
     let found = find (\<lambda>m. mi_id m = ec_managed_id c) (rg_managed s) in
     if ec_action c = ActionPair \<or> ec_action c = ActionAdopt
     then check (found = None) (wrapped ErrConflict ''managed instance already exists'') (Inr ())
     else if ec_action c = ActionRotate
     then (case found of
             None \<Rightarrow> Inl (wrapped ErrConflict ''managed instance does not exist'')
           | Some m \<Rightarrow> check (ec_target c = mi_uuid m) (wrapped ErrBinding ''rotation instance binding changed'') (Inr ()))
     else Inr ())))"

definition create_enrollment_body :: "env \<Rightarrow> int \<Rightarrow> enrollment_create \<Rightarrow> registry \<Rightarrow> err + enrollment \<times> registry" where
  "create_enrollment_body e t c s =
     ebind (if ec_purpose c = PurposeControlAgent
            then stmt (flt e) (Stmt 101) (
                 let s1 = expire_codes (unix_seconds t) (ec_managed_id c) s in
                 ebind (control_enrollment_allowed e c s1) (\<lambda>_. Inr s1))
            else Inr s) (\<lambda>s1.
     stmt (flt e) (Stmt 104) (
     ebind (insert_enrollment (new_enrollment t c) s1) (\<lambda>s2. Inr (new_enrollment t c, s2))))"

definition create_enrollment :: "env \<Rightarrow> int \<Rightarrow> enrollment_create \<Rightarrow> registry \<Rightarrow> (err + enrollment) \<times> registry" where
  "create_enrollment e t c s =
     (case validate_enrollment_create e c of
        Inl er \<Rightarrow> (Inl er, s)
      | Inr _ \<Rightarrow>
          if \<not> ec_expires_at c > t then (Inl ErrExpired, s)
          else mutate e t (create_enrollment_body e t c) s)"

section \<open>Claims\<close>

definition bind_enrollment :: "int \<Rightarrow> claim_request \<Rightarrow> string \<Rightarrow> string \<Rightarrow> enrollment \<Rightarrow> enrollment" where
  "bind_enrollment n q csr_digest instance_uuid r = r\<lparr>en_state := StateBound, en_request_digest := cq_request_digest q,
     en_key_fingerprint := cq_key_fingerprint q, en_csr_digest := csr_digest, en_instance := instance_uuid,
     en_recovery_until := n + en_recovery_ttl r, en_updated := n\<rparr>"

definition update_enrollment :: "(enrollment \<Rightarrow> bool) \<Rightarrow> (enrollment \<Rightarrow> enrollment) \<Rightarrow> registry \<Rightarrow> registry" where
  "update_enrollment P f s = s\<lparr>rg_enrollments := update_where P f (rg_enrollments s)\<rparr>"

definition begin_claim_body ::
    "(string \<Rightarrow> string) \<Rightarrow> env \<Rightarrow> int \<Rightarrow> claim_request \<Rightarrow> string \<Rightarrow> registry \<Rightarrow> err + (bool \<times> enrollment \<times> bool) \<times> registry" where
  "begin_claim_body sha e t q digest s =
     ebind (load_enrollment e (Stmt 105) (cq_enrollment q) s) (\<lambda>r.
     let n = unix_seconds t in
     check (en_state r \<noteq> StateRevoked) ErrRevoked (
     check (\<not> (en_state r = StateExpired \<or> (en_state r = StatePending \<and> n \<ge> en_expires r))) ErrExpired (
     check (\<not> (en_purpose r \<noteq> cq_purpose q \<or> en_action r \<noteq> cq_action q \<or> en_config_digest r \<noteq> cq_config_digest q)) ErrBinding (
     check (en_secret_digest r = digest) ErrSecret (
     let instance_uuid = (case cq_instance q of None \<Rightarrow> [] | Some i \<Rightarrow> i); csr_digest = sha_text sha (cq_csr q) in
     check (\<not> (en_target r \<noteq> [] \<and> en_target r \<noteq> instance_uuid)) ErrBinding (
     if en_state r = StatePending
     then stmt (flt e) (Stmt 106) (
          check (count_where (\<lambda>x. en_id x = cq_enrollment q \<and> en_state x = StatePending) (rg_enrollments s) = 1) ErrConflict (
          Inr ((True, bind_enrollment n q csr_digest instance_uuid r, False),
               update_enrollment (\<lambda>x. en_id x = cq_enrollment q \<and> en_state x = StatePending)
                 (\<lambda>x. x\<lparr>en_state := StateBound, en_request_digest := cq_request_digest q,
                    en_key_fingerprint := cq_key_fingerprint q, en_csr_digest := csr_digest, en_instance := instance_uuid,
                    en_recovery_until := n + en_recovery_ttl r, en_updated := n\<rparr>) s)))
     else check (\<not> en_recovery_until r \<le> n) ErrRecoveryWindow (
          check (\<not> (en_request_digest r \<noteq> cq_request_digest q \<or> en_key_fingerprint r \<noteq> cq_key_fingerprint q \<or>
                    en_csr_digest r \<noteq> csr_digest \<or> en_instance r \<noteq> instance_uuid)) ErrBinding (
          Inr ((False, r, True), s)))))))))"

text \<open>The binding is the enrollment and whether an earlier claim is being repeated.\<close>

definition begin_claim ::
    "(string \<Rightarrow> string) \<Rightarrow> env \<Rightarrow> int \<Rightarrow> claim_request \<Rightarrow> registry \<Rightarrow> (err + enrollment \<times> bool) \<times> registry" where
  "begin_claim sha e t q s =
     (case valid_claim_shape sha q of
        Inl er \<Rightarrow> (Inl er, s)
      | Inr _ \<Rightarrow>
          if \<not> uuid_parses e (cq_enrollment q) \<or> (case cq_instance q of None \<Rightarrow> False | Some i \<Rightarrow> \<not> uuid_parses e i)
          then (Inl ErrBinding, s)
          else case secret_digest sha (cq_secret q) of
            Inl _ \<Rightarrow> (Inl ErrSecret, s)
          | Inr digest \<Rightarrow> mutate_conditional e t (begin_claim_body sha e t q digest) s)"

definition same_managed_identity :: "managed_instance \<Rightarrow> managed_instance \<Rightarrow> bool" where
  "same_managed_identity l r \<longleftrightarrow> mi_id l = mi_id r \<and> mi_name l = mi_name r \<and> mi_uuid l = mi_uuid r \<and>
     mi_origin l = mi_origin r \<and> mi_tls_name l = mi_tls_name r \<and> mi_ca_file l = mi_ca_file r \<and>
     mi_client_cert l = mi_client_cert r \<and> mi_client_key l = mi_client_key r \<and>
     mi_control_key l = mi_control_key r \<and> mi_control_key_id l = mi_control_key_id r \<and>
     mi_issuer l = mi_issuer r \<and> mi_party l = mi_party r \<and>
     mi_cert_sha l = mi_cert_sha r \<and> mi_key_sha l = mi_key_sha r"

text \<open>INSERT ... ON CONFLICT(managed_id) DO UPDATE; the instance UUID is unique.\<close>

definition put_managed :: "managed_instance \<Rightarrow> registry \<Rightarrow> registry" where
  "put_managed m s = s\<lparr>rg_managed :=
     (if mi_id m \<in> mi_id ` set (rg_managed s)
      then update_where (\<lambda>r. mi_id r = mi_id m) (\<lambda>r. m\<lparr>mi_read_only := True, mi_created := mi_created r\<rparr>) (rg_managed s)
      else rg_managed s @ [m\<lparr>mi_read_only := True\<rparr>])\<rparr>"

definition upsert_managed :: "managed_instance \<Rightarrow> registry \<Rightarrow> err + registry" where
  "upsert_managed m s =
     (if list_ex (\<lambda>r. mi_uuid r = mi_uuid m \<and> mi_id r \<noteq> mi_id m) (rg_managed s) then Inl UniqueViolation
      else Inr (put_managed m s))"

definition finish_enrollment :: "string \<Rightarrow> int \<Rightarrow> registry \<Rightarrow> registry" where
  "finish_enrollment i n = update_enrollment (\<lambda>x. en_id x = i) (\<lambda>x. x\<lparr>en_state := StateClaimed, en_updated := n\<rparr>)"

definition managed_row :: "int \<Rightarrow> nat \<Rightarrow> managed_instance \<Rightarrow> managed_instance" where
  "managed_row n generation m = m\<lparr>mi_generation := generation, mi_updated := n,
     mi_created := (if mi_created m = 0 then n else mi_created m)\<rparr>"

lemma managed_row_keeps [simp]:
  "mi_id (managed_row n g m) = mi_id m" "mi_uuid (managed_row n g m) = mi_uuid m"
  by (simp_all add: managed_row_def)

definition complete_control_body ::
    "env \<Rightarrow> int \<Rightarrow> string \<Rightarrow> managed_instance \<Rightarrow> registry \<Rightarrow> err + (bool \<times> managed_instance) \<times> registry" where
  "complete_control_body e t i m s =
     ebind (load_enrollment e (Stmt 105) i s) (\<lambda>r.
     check (\<not> (en_purpose r \<noteq> PurposeControlAgent \<or> (en_state r \<noteq> StateBound \<and> en_state r \<noteq> StateClaimed) \<or>
               en_managed_id r \<noteq> mi_id m \<or> en_instance r \<noteq> mi_uuid m)) ErrBinding (
     if en_state r = StateClaimed
     then (case load_managed e (Stmt 107) (mi_id m) s of
             Inl _ \<Rightarrow> Inl ErrBinding
           | Inr existing \<Rightarrow> check (same_managed_identity existing m) ErrBinding (Inr ((False, existing), s)))
     else stmt (flt e) (Stmt 108) (
          case rg_meta s of
            None \<Rightarrow> Inl RecordNotFound
          | Some meta \<Rightarrow>
              let n = unix_seconds t; result = managed_row n (rm_generation meta + 1) m
              in stmt (flt e) (Stmt 110) (
                 ebind (upsert_managed result s) (\<lambda>s1.
                 stmt (flt e) (Stmt 111) (Inr ((True, result), finish_enrollment i n s1)))))))"

definition complete_control_claim ::
    "env \<Rightarrow> int \<Rightarrow> string \<Rightarrow> managed_instance \<Rightarrow> registry \<Rightarrow> (err + managed_instance) \<times> registry" where
  "complete_control_claim e t i m s =
     (if mi_id m = [] \<or> mi_uuid m = [] \<or> mi_origin m = [] \<or> \<not> mi_read_only m \<or> mi_state m \<noteq> ''paired_read_only''
      then (Inl (ErrNew ''managed control instance must be complete and initially read-only''), s)
      else mutate_conditional e t (complete_control_body e t i m) s)"

definition complete_relay_body :: "env \<Rightarrow> int \<Rightarrow> string \<Rightarrow> registry \<Rightarrow> err + (bool \<times> unit) \<times> registry" where
  "complete_relay_body e t i s =
     ebind (load_enrollment e (Stmt 105) i s) (\<lambda>r.
     check (\<not> (en_purpose r \<noteq> PurposeRelay \<or> (en_state r \<noteq> StateBound \<and> en_state r \<noteq> StateClaimed))) ErrBinding (
     if en_state r = StateClaimed then Inr ((False, ()), s)
     else stmt (flt e) (Stmt 111) (Inr ((True, ()), finish_enrollment i (unix_seconds t) s))))"

definition complete_relay_claim :: "env \<Rightarrow> int \<Rightarrow> string \<Rightarrow> registry \<Rightarrow> (err + unit) \<times> registry" where
  "complete_relay_claim e t i = mutate_conditional e t (complete_relay_body e t i)"

definition revoke_body :: "env \<Rightarrow> int \<Rightarrow> string \<Rightarrow> registry \<Rightarrow> err + unit \<times> registry" where
  "revoke_body e t i s =
     stmt (flt e) (Stmt 112) (
     check (count_where (\<lambda>r. en_id r = i \<and> code_active r) (rg_enrollments s) = 1) ErrNotFound (
     Inr ((), update_enrollment (\<lambda>r. en_id r = i \<and> code_active r)
                (\<lambda>r. r\<lparr>en_state := StateRevoked, en_updated := unix_seconds t\<rparr>) s)))"

definition revoke_enrollment :: "env \<Rightarrow> int \<Rightarrow> string \<Rightarrow> registry \<Rightarrow> (err + unit) \<times> registry" where
  "revoke_enrollment e t i = mutate e t (revoke_body e t i)"

section \<open>Managed instances\<close>

definition managed_instances :: "env \<Rightarrow> registry \<Rightarrow> err + managed_instance list" where
  "managed_instances e s = stmt (flt e) (Outside 123)
     (Inr (map (\<lambda>i. the (find (\<lambda>m. mi_id m = i) (rg_managed s))) (sort_strings (map mi_id (rg_managed s)))))"

definition set_write :: "int \<Rightarrow> string \<Rightarrow> bool \<Rightarrow> nat \<Rightarrow> registry \<Rightarrow> registry" where
  "set_write n i read_only g s = s\<lparr>rg_managed := update_where (\<lambda>m. mi_id m = i)
     (\<lambda>m. m\<lparr>mi_read_only := read_only, mi_state := (if read_only then ''paired_read_only'' else ''paired_write_enabled''),
        mi_generation := g, mi_updated := n\<rparr>) (rg_managed s)\<rparr>"

text \<open>Without a metadata row the subquery yields NULL, which the column refuses.\<close>

definition set_managed_body :: "env \<Rightarrow> int \<Rightarrow> string \<Rightarrow> bool \<Rightarrow> registry \<Rightarrow> err + unit \<times> registry" where
  "set_managed_body e t i read_only s =
     stmt (flt e) (Stmt 113) (
     case rg_meta s of
       None \<Rightarrow> if i \<in> mi_id ` set (rg_managed s) then Inl (ErrNew ''NOT NULL constraint failed'') else Inl ErrNotFound
     | Some meta \<Rightarrow>
         check (count_where (\<lambda>m. mi_id m = i) (rg_managed s) = 1) ErrNotFound (
         Inr ((), set_write (unix_seconds t) i read_only (rm_generation meta + 1) s)))"

definition set_managed_read_only ::
    "env \<Rightarrow> int \<Rightarrow> string \<Rightarrow> bool \<Rightarrow> registry \<Rightarrow> (err + managed_instance) \<times> registry" where
  "set_managed_read_only e t i read_only s =
     (case mutate e t (set_managed_body e t i read_only) s of
        (Inl er, s1) \<Rightarrow> (Inl er, s1)
      | (Inr _, s1) \<Rightarrow> (load_managed e (Outside 124) i s1, s1))"

section \<open>Opening\<close>

definition registry_metadata :: "env \<Rightarrow> point \<Rightarrow> registry \<Rightarrow> err + registry_meta" where
  "registry_metadata e p s = stmt (flt e) p (case rg_meta s of None \<Rightarrow> Inl RecordNotFound | Some m \<Rightarrow> Inr m)"

definition validate_existing :: "env \<Rightarrow> string \<Rightarrow> registry \<Rightarrow> err + unit" where
  "validate_existing e host s =
     stmt (flt e) (Outside 125) (
     check (rg_tables s) (wrapped ErrNotFound ''registry metadata is absent'') (
     ebind (registry_metadata e (Outside 126) s) (\<lambda>m.
     check (\<not> rm_schema m > SchemaVersion) (wrapped ErrFutureSchema ''database'') (
     check (rm_schema m = SchemaVersion) (ErrNew ''unsupported server-control registry schema'') (
     check (rm_host m = host) (wrapped ErrIdentityClone ''installation must be explicitly adopted'') (Inr ()))))))"

definition fresh_registry :: "int \<Rightarrow> string \<Rightarrow> string \<Rightarrow> registry \<Rightarrow> registry" where
  "fresh_registry t host installation s = s\<lparr>rg_tables := True,
     rg_meta := Some \<lparr>rm_schema = SchemaVersion, rm_generation = 1, rm_installation = installation, rm_host = host,
       rm_updated = unix_seconds t\<rparr>, rg_enrollments := [], rg_managed := []\<rparr>"

definition initialize :: "env \<Rightarrow> int \<Rightarrow> string \<Rightarrow> registry \<Rightarrow> (err + unit) \<times> registry" where
  "initialize e t host s =
     (if flt e (Outside 125) then (Inl (DbErr (Outside 125)), s)
      else if \<not> rg_tables s
      then (if flt e (Outside 127) then (Inl (DbErr (Outside 127)), s)
            else if rg_foreign s
            then (Inl (ErrNew ''refusing to initialize a non-empty database without registry metadata''), s)
            else transaction (flt e) (\<lambda>s0.
                   stmt (flt e) (Stmt 114) (stmt (flt e) (Stmt 115) (Inr ((), fresh_registry t host (uuid_new e) s0)))) s)
      else (validate_existing e host s, s))"

text \<open>
  The identity file of a host: whether its path is absolute and clean, what Lstat says of it (a regular file that
  is no link) and its size, and what reading it gives.
\<close>

record host_file =
  hf_clean :: bool
  hf_regular :: bool
  hf_size :: int
  hf_read :: "err + string"

definition derive_host_fingerprint :: "(string \<Rightarrow> string) \<Rightarrow> string \<Rightarrow> host_file \<Rightarrow> err + string" where
  "derive_host_fingerprint sha identity f =
     ebind (if trim_space identity = []
            then check (hf_clean f) (ErrNew ''host identity file must be an absolute clean path'') (
                 check (\<not> (\<not> hf_regular f \<or> hf_size f < 1 \<or> hf_size f > 1024))
                   (ErrNew ''host identity file must be a non-symlink regular file of at most 1024 bytes'') (
                 ebind (hf_read f) (\<lambda>raw. Inr (trim_space raw))))
            else Inr (trim_space identity)) (\<lambda>found.
     check (\<not> (found = [] \<or> length found > 1024)) (ErrNew ''invalid host identity for registry clone detection'') (
     Inr (sha_text sha (''kessoku-server-control-host-v1'' @ [CHR 0x0A] @ found))))"

text \<open>
  Open and OpenExisting after the checks of the directory, which are an argument: \<open>files\<close> is what preparing or
  validating the database file gives (None: it failed, and with \<open>initialize_it\<close> an absent file becomes an
  empty database).
\<close>

definition open_registry ::
    "env \<Rightarrow> int \<Rightarrow> bool \<Rightarrow> err + string \<Rightarrow> err + unit \<Rightarrow> registry \<Rightarrow> (err + unit) \<times> registry" where
  "open_registry e t initialize_it fingerprint files s =
     (case fingerprint of
        Inl er \<Rightarrow> (Inl er, s)
      | Inr host \<Rightarrow>
     (case files of
        Inl er \<Rightarrow> (Inl er, s)
      | Inr _ \<Rightarrow>
          if flt e (Outside 128) then (Inl (DbErr (Outside 128)), s)
          else case (if initialize_it then Inr () else validate_existing e host s) of
            Inl er \<Rightarrow> (Inl er, s)
          | Inr _ \<Rightarrow>
              if flt e (Outside 121) then (Inl (DbErr (Outside 121)), s)
              else case (if initialize_it then initialize e t host s else (validate_existing e host s, s)) of
                (Inl er, s1) \<Rightarrow> (Inl er, s1)
              | (Inr _, s1) \<Rightarrow> ((if flt e (Outside 122) then Inl (DbErr (Outside 122)) else Inr ()), s1)))"

definition adopt_host_body :: "env \<Rightarrow> int \<Rightarrow> string \<Rightarrow> string \<Rightarrow> registry \<Rightarrow> (err + unit) \<times> registry" where
  "adopt_host_body e t expected host s =
     (if flt e (Outside 128) then (Inl (DbErr (Outside 128)), s)
      else case rg_meta s of
        None \<Rightarrow> (Inl RecordNotFound, s)
      | Some m \<Rightarrow>
          if rm_schema m > SchemaVersion then (Inl ErrFutureSchema, s)
          else if rm_schema m \<noteq> SchemaVersion \<or> rm_installation m \<noteq> expected then (Inl ErrBinding, s)
          else if flt e (Outside 129) then (Inl (DbErr (Outside 129)), s)
          else ((if flt e (Outside 122) then Inl (DbErr (Outside 122)) else Inr ()),
                s\<lparr>rg_meta := Some (m\<lparr>rm_host := host, rm_generation := rm_generation m + 1, rm_updated := unix_seconds t\<rparr>)\<rparr>))"

definition adopt_host :: "env \<Rightarrow> int \<Rightarrow> string \<Rightarrow> err + string \<Rightarrow> registry \<Rightarrow> (err + unit) \<times> registry" where
  "adopt_host e t expected fingerprint s =
     (if \<not> uuid_parses e expected then (Inl (ErrNew ''expected installation id must be a UUID''), s)
      else case fingerprint of
        Inl er \<Rightarrow> (Inl er, s)
      | Inr host \<Rightarrow> if flt e (Outside 121) then (Inl (DbErr (Outside 121)), s) else adopt_host_body e t expected host s)"

text \<open>Purge: None is a registry that is gone.\<close>

definition purge ::
    "env \<Rightarrow> string \<Rightarrow> string \<Rightarrow> bool \<Rightarrow> bool \<Rightarrow> bool \<Rightarrow> registry \<Rightarrow> (err + unit) \<times> registry option" where
  "purge e expected confirmation service_stopped data_loss_understood tombstone s =
     (if \<not> uuid_parses e expected then (Inl (ErrNew ''expected installation id must be a UUID''), Some s)
      else if \<not> service_stopped \<or> \<not> data_loss_understood \<or> confirmation \<noteq> ''confirm:purge:'' @ expected
      then (Inl (ErrNew ''explicit stopped-service and data-loss confirmations are required''), Some s)
      else if flt e (Outside 132) then (Inl (DbErr (Outside 132)), Some s)
      else if tombstone then (Inl (ErrNew ''refusing to overwrite an existing purge tombstone''), Some s)
      else if flt e (Outside 121) then (Inl (DbErr (Outside 121)), Some s)
      else if flt e (Outside 128) then (Inl (DbErr (Outside 128)), Some s)
      else case rg_meta s of
        None \<Rightarrow> (Inl RecordNotFound, Some s)
      | Some m \<Rightarrow>
          if rm_schema m \<noteq> SchemaVersion \<or> rm_installation m \<noteq> expected then (Inl ErrBinding, Some s)
          else if flt e (Outside 130) then (Inl (DbErr (Outside 130)), Some s)
          else ((if flt e (Outside 131) then Inl (ErrNew ''registry was detached but purge cleanup failed'') else Inr ()), None))"

end
