(* ===== verification/ControlService.thy ===== *)
theory ControlService
  imports PairingRegistry
begin

text \<open>
  The server-control service (\<open>src/service/starryControl.go\<close>): the table of Starry instances, static ones from
  the configuration and managed ones from the pairing registry, the audited calls to their control agents, the
  review tokens of configuration plans and the expectations that tie an agent's operation to its audit event.
  The registry file is part of the state (\<open>ct_disk\<close>), and so is the list of the requests sent to agents
  (\<open>ct_sent\<close>, the latest first).  What an agent answers, the HMAC, JSON, the key files and the file checks of
  the registry are arguments.  \<open>ci_env k\<close> is the environment of the \<open>k\<close>-th step of a handler.
\<close>

section \<open>Errors\<close>

text \<open>errors.Is and errors.As walk a joined error from the left.\<close>

fun err_is :: "err \<Rightarrow> err \<Rightarrow> bool" where
  "err_is (ErrJoin a b) t = (ErrJoin a b = t \<or> err_is a t \<or> err_is b t)"
| "err_is er t = (er = t)"

fun first_coded :: "err \<Rightarrow> string option" where
  "first_coded (ErrCoded c) = Some c"
| "first_coded (ErrJoin a b) = (case first_coded a of None \<Rightarrow> first_coded b | Some c \<Rightarrow> Some c)"
| "first_coded er = None"

definition stable_control_error_code :: "err \<Rightarrow> string" where
  "stable_control_error_code er =
     (case first_coded er of
        Some (c # cs) \<Rightarrow> c # cs
      | _ \<Rightarrow> if err_is er ErrReadOnly then ''CONTROL_READ_ONLY''
             else if err_is er ErrInstanceNotFound then ''INSTANCE_NOT_FOUND''
             else if err_is er ErrRequestInvalid then ''REQUEST_INVALID''
             else ''STARRY_CONTROL_UNAVAILABLE'')"

section \<open>Instances, plans and operations\<close>

record starry_instance =
  si_id :: string
  si_name :: string
  si_enabled :: bool
  si_base_url :: string
  si_expected_id :: string
  si_tls_name :: string
  si_ca_file :: string
  si_client_cert :: string
  si_client_key :: string
  si_control_key :: string
  si_control_key_id :: string
  si_issuer :: string
  si_party :: string

record server_control_instance =
  sc_id :: string
  sc_name :: string
  sc_enabled :: bool
  sc_managed :: bool
  sc_read_only :: bool
  sc_available :: bool
  sc_error_code :: string

record config_plan =
  pl_plan_id :: string
  pl_base_etag :: string
  pl_base_generation :: nat
  pl_candidate_digest :: string
  pl_changes :: nat
  pl_risk :: string
  pl_expires_at :: "int option"
  pl_review_token :: string

record apply_request =
  ap_plan_id :: string
  ap_candidate_digest :: string
  ap_if_match :: string
  ap_review_token :: string
  ap_risk_confirmation :: string

record rollback_request =
  rb_revision_id :: string
  rb_if_match :: string
  rb_risk_confirmation :: string

record activation_ack =
  ak_generation :: nat
  ak_schema_version :: int
  ak_source_digest :: string
  ak_effective_digest :: string
  ak_subsystems :: "(string \<times> bool) list"

record control_operation =
  op_id :: string
  op_kind :: string
  op_state :: string
  op_ack :: "activation_ack option"
  op_error :: "string option"

record config_revision =
  rv_id :: string
  rv_candidate_digest :: string

record operation_expectation =
  ex_operation :: string
  ex_instance :: string
  ex_kind :: string
  ex_digest :: string
  ex_audit_id :: nat
  ex_expires :: int

record relay_revoke =
  rr_enrollment :: string
  rr_config_digest :: string

record relay_activate =
  ra_enrollment :: string
  ra_operation :: string
  ra_generation :: nat
  ra_snapshot :: string

text \<open>What an agent can be asked (\<open>ServerControlProvider\<close>); a response the service only passes on is a string.\<close>

datatype agent_call = AskCapabilities | AskStatus | AskRelays | AskVerifyPeer string string nat string "string list"
  | AskSimulate string | AskConfig | AskSchema | AskValidate string | AskPlan string | AskApply apply_request
  | AskOperation string | AskHistory | AskRollback rollback_request | AskReload string | AskRelayEnrollments
  | AskRelayPrepare string string | AskRelayComplete claim_request | AskRelayActivate relay_activate | AskRelayRevoke relay_revoke

definition call_mutates :: "agent_call \<Rightarrow> bool" where
  "call_mutates c \<longleftrightarrow> (case c of AskApply _ \<Rightarrow> True | AskRollback _ \<Rightarrow> True | AskReload _ \<Rightarrow> True | AskRelayPrepare _ _ \<Rightarrow> True
     | AskRelayComplete _ \<Rightarrow> True | AskRelayActivate _ \<Rightarrow> True | AskRelayRevoke _ \<Rightarrow> True | _ \<Rightarrow> False)"

section \<open>The service\<close>

record request_meta =
  rq_actor :: nat
  rq_id :: string
  rq_service :: bool

definition metadata_from_context :: "request_meta option \<Rightarrow> request_meta option" where
  "metadata_from_context ctx =
     (case ctx of
        None \<Rightarrow> None
      | Some m \<Rightarrow> let has_actor = rq_actor m > 0 \<and> \<not> rq_service m; is_service = rq_actor m = 0 \<and> rq_service m
                 in if rq_id m \<noteq> [] \<and> (has_actor \<or> is_service) then Some m else None)"

record pairing_origin =
  po_id :: string
  po_name :: string
  po_origin :: string
  po_tls_name :: string

record control_config =
  cc_read_only :: bool
  cc_instances :: "starry_instance list"
  cc_pairing_enabled :: bool
  cc_broker_origin :: string
  cc_broker_spki :: string
  cc_origins :: "pairing_origin list"
  cc_code_ttl :: int
  cc_recovery_ttl :: int
  cc_center_key :: string
  cc_auth_keys :: "(string \<Rightarrow> bool) option"

text \<open>The arguments of one request: environments, clock, context, files and what NewProvider says of an instance.\<close>

record control_io =
  ci_env :: "nat \<Rightarrow> env"
  ci_time :: int
  ci_context :: "request_meta option"
  ci_host :: "err + string"
  ci_files :: "bool \<Rightarrow> err + unit"
  ci_export :: "managed_instance \<Rightarrow> err option"
  ci_key_fingerprint :: "string \<Rightarrow> err + string"
  ci_new_provider :: "starry_instance \<Rightarrow> err option"

record control =
  ct_db :: db
  ct_expectations :: "operation_expectation list"
  ct_instances :: "(string \<times> server_control_instance) list"
  ct_providers :: "(string \<times> starry_instance) list"
  ct_provider_errs :: "(string \<times> err) list"
  ct_managed_ids :: "string list"
  ct_registry_open :: bool
  ct_registry_err :: "err option"
  ct_registry_gen :: nat
  ct_closed :: bool
  ct_disk :: registry
  ct_sent :: "(string \<times> agent_call) list"

definition static_ids :: "control_config \<Rightarrow> string list" where
  "static_ids cfg = map si_id (cc_instances cfg)"

definition put_instance :: "server_control_instance \<Rightarrow> control \<Rightarrow> control" where
  "put_instance x s = s\<lparr>ct_instances := AList.update (sc_id x) x (ct_instances s)\<rparr>"

definition put_provider :: "starry_instance \<Rightarrow> control \<Rightarrow> control" where
  "put_provider x s = s\<lparr>ct_providers := AList.update (si_id x) x (ct_providers s)\<rparr>"

definition put_provider_err :: "string \<Rightarrow> err \<Rightarrow> control \<Rightarrow> control" where
  "put_provider_err i er s = s\<lparr>ct_provider_errs := AList.update i er (ct_provider_errs s)\<rparr>"

text \<open>Asking an agent: the request is sent, the answer is an argument.\<close>

definition ask :: "string \<Rightarrow> agent_call \<Rightarrow> err + 'a \<Rightarrow> control \<Rightarrow> (err + 'a) \<times> control" where
  "ask i c answer s = (answer, s\<lparr>ct_sent := (i, c) # ct_sent s\<rparr>)"

text \<open>A chain of fallible steps on the service's state; what a failed step did stays.\<close>

definition cbind :: "(err + 'a) \<times> control \<Rightarrow> ('a \<Rightarrow> control \<Rightarrow> (err + 'b) \<times> control) \<Rightarrow> (err + 'b) \<times> control" where
  "cbind m f = (case m of (Inl er, s) \<Rightarrow> (Inl er, s) | (Inr x, s) \<Rightarrow> f x s)"

section \<open>Managed instances\<close>

definition managed_config :: "managed_instance \<Rightarrow> starry_instance" where
  "managed_config m = \<lparr>si_id = mi_id m, si_name = mi_name m,
     si_enabled = (mi_state m = ''paired_read_only'' \<or> mi_state m = ''paired_write_enabled''),
     si_base_url = mi_origin m, si_expected_id = mi_uuid m, si_tls_name = mi_tls_name m, si_ca_file = mi_ca_file m,
     si_client_cert = mi_client_cert m, si_client_key = mi_client_key m, si_control_key = mi_control_key m,
     si_control_key_id = mi_control_key_id m, si_issuer = mi_issuer m, si_party = mi_party m\<rparr>"

definition managed_summary :: "managed_instance \<Rightarrow> server_control_instance" where
  "managed_summary m = \<lparr>sc_id = mi_id m, sc_name = mi_name m, sc_enabled = si_enabled (managed_config m), sc_managed = True,
     sc_read_only = mi_read_only m, sc_available = False, sc_error_code = []\<rparr>"

text \<open>A control key may not be one of the access-token keys.\<close>

definition key_not_isolated :: "control_config \<Rightarrow> control_io \<Rightarrow> string \<Rightarrow> bool" where
  "key_not_isolated cfg io file =
     (case cc_auth_keys cfg of
        None \<Rightarrow> False
      | Some uses \<Rightarrow> (case ci_key_fingerprint io file of Inl _ \<Rightarrow> True | Inr fp \<Rightarrow> uses fp))"

definition load_item :: "control_config \<Rightarrow> control_io \<Rightarrow> managed_instance \<Rightarrow> control \<Rightarrow> control" where
  "load_item cfg io m s =
     (if mi_id m \<in> set (static_ids cfg)
      then put_provider_err (mi_id m) (ErrNew ''managed instance id collides with a static instance'') s
      else let inst = managed_config m; summary = managed_summary m;
               s1 = s\<lparr>ct_managed_ids := mi_id m # ct_managed_ids s\<rparr>
           in if key_not_isolated cfg io (si_control_key inst)
              then put_instance (summary\<lparr>sc_error_code := ''CONTROL_KEYRING_NOT_ISOLATED''\<rparr>)
                     (put_provider_err (mi_id m) (ErrNew ''managed control keyring is invalid or not isolated'') s1)
              else case ci_new_provider io inst of
                Some er \<Rightarrow> put_instance (summary\<lparr>sc_error_code := ''INSTANCE_CONFIG_INVALID''\<rparr>) (put_provider_err (mi_id m) er s1)
              | None \<Rightarrow> put_instance (summary\<lparr>sc_available := True\<rparr>) (put_provider inst s1))"

definition forget_managed :: "control \<Rightarrow> control" where
  "forget_managed s = s\<lparr>
     ct_instances := fold AList.delete (ct_managed_ids s) (ct_instances s),
     ct_providers := fold AList.delete (ct_managed_ids s) (ct_providers s),
     ct_provider_errs := fold AList.delete (ct_managed_ids s) (ct_provider_errs s),
     ct_managed_ids := []\<rparr>"

definition load_managed_items :: "control_config \<Rightarrow> control_io \<Rightarrow> managed_instance list \<Rightarrow> control \<Rightarrow> control" where
  "load_managed_items cfg io items s = fold (load_item cfg io) items (forget_managed s)"

fun exports_fail :: "control_io \<Rightarrow> managed_instance list \<Rightarrow> err option" where
  "exports_fail io [] = None"
| "exports_fail io (m # ms) =
     (case ci_export io m of
        Some er \<Rightarrow> Some (ErrJoin (ErrNew ''refresh static export for managed instance'') er)
      | None \<Rightarrow> exports_fail io ms)"

text \<open>openManagedRegistryIfCreated: only an existing registry is opened; Inr tells whether it was opened now.\<close>

definition open_managed_registry_if_created ::
    "control_config \<Rightarrow> control_io \<Rightarrow> nat \<Rightarrow> control \<Rightarrow> (err + bool) \<times> control" where
  "open_managed_registry_if_created cfg io k s =
     (if \<not> cc_pairing_enabled cfg then (Inr False, s)
      else if ct_registry_open s then (Inr False, s)
      else if ct_closed s then (Inl (ErrNew ''server-control service is closed''), s)
      else case open_registry (ci_env io k) (ci_time io) False (ci_host io) (ci_files io False) (ct_disk s) of
        (Inl er, disk) \<Rightarrow> (Inl er, s\<lparr>ct_disk := disk, ct_registry_err := Some er\<rparr>)
      | (Inr _, disk) \<Rightarrow> (Inr True, s\<lparr>ct_disk := disk, ct_registry_open := True, ct_registry_err := None\<rparr>))"

definition reload_managed :: "control_config \<Rightarrow> control_io \<Rightarrow> nat \<Rightarrow> control \<Rightarrow> (err + unit) \<times> control" where
  "reload_managed cfg io k s =
     (case registry_metadata (ci_env io k) (Outside 126) (ct_disk s) of
        Inl er \<Rightarrow> (Inl er, s)
      | Inr meta \<Rightarrow>
     (case managed_instances (ci_env io k) (ct_disk s) of
        Inl er \<Rightarrow> (Inl er, s)
      | Inr managed \<Rightarrow>
     (case exports_fail io managed of
        Some er \<Rightarrow> (Inl er, s)
      | None \<Rightarrow>
          if rm_generation meta = ct_registry_gen s then (Inr (), s)
          else (Inr (), (load_managed_items cfg io managed s)\<lparr>ct_registry_gen := rm_generation meta, ct_registry_err := None\<rparr>))))"

definition refresh_managed_instances ::
    "control_config \<Rightarrow> control_io \<Rightarrow> nat \<Rightarrow> control \<Rightarrow> (err + unit) \<times> control" where
  "refresh_managed_instances cfg io k s =
     cbind (if \<not> ct_registry_open s \<and> cc_pairing_enabled cfg then open_managed_registry_if_created cfg io k s
            else (Inr False, s)) (\<lambda>_ s1.
     if \<not> ct_registry_open s1
     then (case ct_registry_err s1 of
             Some er \<Rightarrow> if cc_pairing_enabled cfg then (Inl er, s1) else (Inr (), s1)
           | None \<Rightarrow> (Inr (), s1))
     else reload_managed cfg io k s1)"

definition find_provider :: "string \<Rightarrow> bool \<Rightarrow> control \<Rightarrow> err + starry_instance" where
  "find_provider i mutates s =
     (case map_of (ct_instances s) i of
        None \<Rightarrow> Inl ErrInstanceNotFound
      | Some x \<Rightarrow>
          check (sc_enabled x) ErrUnavailable (
          check (\<not> (mutates \<and> sc_read_only x)) ErrReadOnly (
          case map_of (ct_providers s) i of None \<Rightarrow> Inl ErrUnavailable | Some p \<Rightarrow> Inr p)))"

text \<open>provider: a refresh that fails is fatal only while the registry is open.\<close>

definition provider_for :: "control_config \<Rightarrow> control_io \<Rightarrow> nat \<Rightarrow> string \<Rightarrow> bool \<Rightarrow> control \<Rightarrow> (err + starry_instance) \<times> control" where
  "provider_for cfg io k i mutates s =
     (case refresh_managed_instances cfg io k s of
        (Inl er, s1) \<Rightarrow> if ct_registry_open s1 then (Inl er, s1) else (find_provider i mutates s1, s1)
      | (Inr _, s1) \<Rightarrow> (find_provider i mutates s1, s1))"

definition initialize_managed_registry :: "control_config \<Rightarrow> control_io \<Rightarrow> nat \<Rightarrow> control \<Rightarrow> control" where
  "initialize_managed_registry cfg io k s =
     (case open_registry (ci_env io k) (ci_time io) False (ci_host io) (ci_files io False) (ct_disk s) of
        (Inl er, disk) \<Rightarrow> s\<lparr>ct_disk := disk, ct_registry_err := Some er\<rparr>
      | (Inr _, disk) \<Rightarrow>
          (case refresh_managed_instances cfg io k (s\<lparr>ct_disk := disk, ct_registry_open := True, ct_registry_err := None\<rparr>) of
             (Inl er, s1) \<Rightarrow> s1\<lparr>ct_registry_err := Some er\<rparr>
           | (Inr _, s1) \<Rightarrow> s1))"

section \<open>Starting and stopping\<close>

definition static_summary :: "control_config \<Rightarrow> starry_instance \<Rightarrow> server_control_instance" where
  "static_summary cfg inst = \<lparr>sc_id = si_id inst, sc_name = si_name inst, sc_enabled = si_enabled inst, sc_managed = False,
     sc_read_only = cc_read_only cfg, sc_available = False, sc_error_code = []\<rparr>"

definition isolation_error :: "control_config \<Rightarrow> control_io \<Rightarrow> string \<Rightarrow> (err \<times> string) option" where
  "isolation_error cfg io file =
     (case cc_auth_keys cfg of
        None \<Rightarrow> None
      | Some uses \<Rightarrow>
          (case ci_key_fingerprint io file of
             Inl er \<Rightarrow> Some (ErrJoin (ErrNew ''read control signing key for isolation check'') er, ''INSTANCE_CONFIG_INVALID'')
           | Inr fp \<Rightarrow> if uses fp then Some (ErrNew ''control and access-token keyrings must use different Ed25519 keys'',
                                          ''CONTROL_KEYRING_NOT_ISOLATED'') else None))"

definition add_static :: "control_config \<Rightarrow> control_io \<Rightarrow> starry_instance \<Rightarrow> control \<Rightarrow> control" where
  "add_static cfg io inst s =
     (let summary = static_summary cfg inst
      in if si_id inst = [] then s
         else if map_of (ct_instances s) (si_id inst) \<noteq> None
         then put_instance (summary\<lparr>sc_error_code := ''INSTANCE_CONFIG_INVALID''\<rparr>)
                (put_provider_err (si_id inst) (ErrNew ''duplicate Starry instance id'') s)
         else if \<not> si_enabled inst then put_instance summary s
         else case isolation_error cfg io (si_control_key inst) of
           Some (er, code) \<Rightarrow> put_instance (summary\<lparr>sc_error_code := code\<rparr>) (put_provider_err (si_id inst) er s)
         | None \<Rightarrow>
             (case ci_new_provider io inst of
                Some er \<Rightarrow> put_instance (summary\<lparr>sc_error_code := ''INSTANCE_CONFIG_INVALID''\<rparr>) (put_provider_err (si_id inst) er s)
              | None \<Rightarrow> put_instance (summary\<lparr>sc_available := True\<rparr>) (put_provider inst s)))"

definition new_control_service :: "control_config \<Rightarrow> control_io \<Rightarrow> db \<Rightarrow> operation_expectation list \<Rightarrow> registry \<Rightarrow> control" where
  "new_control_service cfg io d exs disk =
     initialize_managed_registry cfg io 0 (fold (add_static cfg io) (cc_instances cfg)
       \<lparr>ct_db = d, ct_expectations = exs, ct_instances = [], ct_providers = [], ct_provider_errs = [], ct_managed_ids = [],
        ct_registry_open = False, ct_registry_err = None, ct_registry_gen = 0, ct_closed = False, ct_disk = disk, ct_sent = []\<rparr>)"

definition close_control :: "control \<Rightarrow> control" where
  "close_control s = s\<lparr>ct_registry_open := False, ct_closed := True\<rparr>"

definition list_instances ::
    "control_config \<Rightarrow> control_io \<Rightarrow> nat \<Rightarrow> (string \<Rightarrow> string) \<Rightarrow> control \<Rightarrow> server_control_instance list \<times> control" where
  "list_instances cfg io k label s =
     (let s1 = snd (refresh_managed_instances cfg io k s);
          named = (\<lambda>x. let l = trim_space (label (sc_id x)) in if l \<noteq> [] then x\<lparr>sc_name := l\<rparr> else x)
      in (map (\<lambda>i. named (the (map_of (ct_instances s1) i))) (sort_strings (map fst (ct_instances s1))), s1))"

section \<open>Audited calls\<close>

definition audit_intent ::
    "env \<Rightarrow> request_meta option \<Rightarrow> string \<Rightarrow> string \<Rightarrow> metadata \<Rightarrow> db \<Rightarrow> err + audit_row \<times> db" where
  "audit_intent e ctx action i md d =
     (case metadata_from_context ctx of
        None \<Rightarrow> Inl (ErrNew ''missing audit context or database'')
      | Some rq \<Rightarrow>
          let event = \<lparr>ev_id = next_id ev_id (events d), ev_actor = rq_actor rq, ev_action = action,
                       ev_target_type = ''starry_instance'', ev_target_id = i, ev_request_id = rq_id rq,
                       ev_result = ''intent'', ev_error_code = [], ev_metadata = md\<rparr>
          in stmt (flt e) AuditBegin (Inr (event, d\<lparr>events := events d @ [event]\<rparr>)))"

definition set_result :: "string \<Rightarrow> string \<Rightarrow> audit_row \<Rightarrow> audit_row" where
  "set_result result code r = r\<lparr>ev_result := result, ev_error_code := code\<rparr>"

definition finish_audit :: "env \<Rightarrow> audit_row \<Rightarrow> err option \<Rightarrow> db \<Rightarrow> err + db" where
  "finish_audit e event failure d =
     stmt (flt e) AuditEnd (Inr (d\<lparr>events := update_where (\<lambda>r. ev_id r = ev_id event)
       (case failure of None \<Rightarrow> set_result ''success'' [] | Some er \<Rightarrow> set_result ''failure'' (stable_control_error_code er))
       (events d)\<rparr>))"

definition audited_control_call ::
    "control_io \<Rightarrow> string \<Rightarrow> string \<Rightarrow> metadata \<Rightarrow> (control \<Rightarrow> (err + 'a) \<times> control) \<Rightarrow> control \<Rightarrow> (err + 'a) \<times> control" where
  "audited_control_call io action i md op s =
     (case audit_intent (ci_env io 0) (ci_context io) action i md (ct_db s) of
        Inl er \<Rightarrow> (Inl (ErrJoin (ErrNew ''persist server-control audit intent'') er), s)
      | Inr (event, d) \<Rightarrow>
          (case op (s\<lparr>ct_db := d\<rparr>) of
             (Inl er, s1) \<Rightarrow>
               (case finish_audit (ci_env io 0) event (Some er) (ct_db s1) of
                  Inl a \<Rightarrow> (Inl (ErrJoin er (ErrJoin (ErrNew ''finish server-control audit event'') a)), s1)
                | Inr d1 \<Rightarrow> (Inl er, s1\<lparr>ct_db := d1\<rparr>))
           | (Inr x, s1) \<Rightarrow>
               (case finish_audit (ci_env io 0) event None (ct_db s1) of
                  Inl a \<Rightarrow> (Inl (ErrJoin (ErrNew ''finish server-control audit event'') a), s1)
                | Inr d1 \<Rightarrow> (Inr x, s1\<lparr>ct_db := d1\<rparr>))))"

text \<open>Most methods look the provider up and pass one request on.\<close>

definition forward_call ::
    "control_config \<Rightarrow> control_io \<Rightarrow> string \<Rightarrow> metadata \<Rightarrow> bool \<Rightarrow> string \<Rightarrow> agent_call \<Rightarrow> (starry_instance \<Rightarrow> err + 'a)
      \<Rightarrow> control \<Rightarrow> (err + 'a) \<times> control" where
  "forward_call cfg io action md mutates i c answer =
     audited_control_call io action i md (\<lambda>s. cbind (provider_for cfg io 1 i mutates s) (\<lambda>p. ask i c (answer p)))"

definition control_capabilities :: "control_config \<Rightarrow> control_io \<Rightarrow> string \<Rightarrow> (starry_instance \<Rightarrow> err + string) \<Rightarrow> control \<Rightarrow> (err + string) \<times> control" where
  "control_capabilities cfg io i = forward_call cfg io ''server_control.capabilities.read'' [] False i AskCapabilities"

definition control_status :: "control_config \<Rightarrow> control_io \<Rightarrow> string \<Rightarrow> (starry_instance \<Rightarrow> err + string) \<Rightarrow> control \<Rightarrow> (err + string) \<times> control" where
  "control_status cfg io i = forward_call cfg io ''server_control.status.read'' [] False i AskStatus"

definition control_relays :: "control_config \<Rightarrow> control_io \<Rightarrow> string \<Rightarrow> (starry_instance \<Rightarrow> err + string) \<Rightarrow> control \<Rightarrow> (err + string) \<times> control" where
  "control_relays cfg io i = forward_call cfg io ''server_control.relays.read'' [] False i AskRelays"

definition simulate_allocation ::
    "control_config \<Rightarrow> control_io \<Rightarrow> string \<Rightarrow> string \<Rightarrow> string \<Rightarrow> (starry_instance \<Rightarrow> err + string) \<Rightarrow> control \<Rightarrow> (err + string) \<times> control" where
  "simulate_allocation cfg io i transport input =
     forward_call cfg io ''server_control.simulate'' [(''transport'', MStr transport)] False i (AskSimulate input)"

definition get_config :: "control_config \<Rightarrow> control_io \<Rightarrow> string \<Rightarrow> (starry_instance \<Rightarrow> err + string) \<Rightarrow> control \<Rightarrow> (err + string) \<times> control" where
  "get_config cfg io i = forward_call cfg io ''server_control.config.read'' [] False i AskConfig"

definition get_config_schema :: "control_config \<Rightarrow> control_io \<Rightarrow> string \<Rightarrow> (starry_instance \<Rightarrow> err + string) \<Rightarrow> control \<Rightarrow> (err + string) \<times> control" where
  "get_config_schema cfg io i = forward_call cfg io ''server_control.config_schema.read'' [] False i AskSchema"

definition config_history ::
    "control_config \<Rightarrow> control_io \<Rightarrow> string \<Rightarrow> (starry_instance \<Rightarrow> err + config_revision list) \<Rightarrow> control \<Rightarrow> (err + config_revision list) \<times> control" where
  "config_history cfg io i = forward_call cfg io ''server_control.config_history.read'' [] False i AskHistory"

definition reload_runtime ::
    "control_config \<Rightarrow> control_io \<Rightarrow> string \<Rightarrow> string \<Rightarrow> (starry_instance \<Rightarrow> err + activation_ack) \<Rightarrow> control \<Rightarrow> (err + activation_ack) \<times> control" where
  "reload_runtime cfg io i digest =
     forward_call cfg io ''server_control.runtime.reload'' [(''expected_source_digest'', MStr digest)] True i (AskReload digest)"

record config_candidate =
  cd_document :: string
  cd_format :: string
  cd_base_etag :: string

definition candidate_metadata :: "(string \<Rightarrow> string) \<Rightarrow> config_candidate \<Rightarrow> metadata" where
  "candidate_metadata sha c = [(''etag'', MStr (cd_base_etag c)), (''format'', MStr (cd_format c)),
     (''candidate_digest'', MStr (sha_text sha (cd_document c)))]"

definition validate_config ::
    "(string \<Rightarrow> string) \<Rightarrow> control_config \<Rightarrow> control_io \<Rightarrow> string \<Rightarrow> config_candidate \<Rightarrow> (starry_instance \<Rightarrow> err + string)
      \<Rightarrow> control \<Rightarrow> (err + string) \<times> control" where
  "validate_config sha cfg io i c =
     forward_call cfg io ''server_control.config.validate'' (candidate_metadata sha c) False i (AskValidate (cd_document c))"

section \<open>Review tokens of plans\<close>

record plan_claims =
  pc_instance :: string
  pc_actor :: nat
  pc_plan_id :: string
  pc_candidate_digest :: string
  pc_base_etag :: string
  pc_base_generation :: nat
  pc_schema_digest :: string
  pc_change_count :: int
  pc_risk :: string
  pc_expires :: int

text \<open>The key of this process, HMAC-SHA-256, and how the claims are written and read as JSON.\<close>

record review_lib =
  rl_key :: string
  rl_mac :: "string \<Rightarrow> string \<Rightarrow> string"
  rl_write :: "plan_claims \<Rightarrow> string"
  rl_read :: "string \<Rightarrow> plan_claims option"

definition all_zero_bytes :: "string \<Rightarrow> bool" where
  "all_zero_bytes v \<longleftrightarrow> list_all (\<lambda>c. (of_char c :: nat) = 0) v"

definition valid_control_digest :: "string \<Rightarrow> bool" where
  "valid_control_digest v \<longleftrightarrow> \<not> (length v \<noteq> 71 \<or> \<not> has_prefix v ''sha256:'') \<and>
     list_all (\<lambda>c. let n = (of_char c :: nat) in \<not> (n < 48 \<or> (n > 57 \<and> n < 97) \<or> n > 102)) (drop 7 v)"

definition seal_plan_review ::
    "review_lib \<Rightarrow> request_meta option \<Rightarrow> string \<Rightarrow> config_plan \<Rightarrow> string \<Rightarrow> err + string" where
  "seal_plan_review lib ctx i plan schema_digest =
     (case (metadata_from_context ctx, pl_expires_at plan) of
        (Some rq, Some expires) \<Rightarrow>
          check (\<not> (all_zero_bytes (rl_key lib) \<or> pl_plan_id plan = [] \<or> pl_candidate_digest plan = [] \<or> pl_base_etag plan = [] \<or>
                    \<not> valid_control_digest schema_digest)) (ErrNew ''server-control plan review signing is unavailable'') (
          let claims = \<lparr>pc_instance = i, pc_actor = rq_actor rq, pc_plan_id = pl_plan_id plan,
                 pc_candidate_digest = pl_candidate_digest plan, pc_base_etag = pl_base_etag plan,
                 pc_base_generation = pl_base_generation plan, pc_schema_digest = schema_digest,
                 pc_change_count = int (pl_changes plan), pc_risk = pl_risk plan, pc_expires = unix_seconds expires\<rparr>;
              payload = rl_write lib claims
          in Inr (b64_encode url_alphabet False payload @ ''.'' @ b64_encode url_alphabet False (rl_mac lib (rl_key lib) payload)))
      | _ \<Rightarrow> Inl (ErrNew ''server-control plan review signing is unavailable''))"

definition plan_review_error :: "string \<Rightarrow> err" where
  "plan_review_error code = ErrCoded code"

definition claims_match :: "request_meta option \<Rightarrow> string \<Rightarrow> int \<Rightarrow> apply_request \<Rightarrow> plan_claims \<Rightarrow> bool" where
  "claims_match ctx i t input claims \<longleftrightarrow>
     (case metadata_from_context ctx of None \<Rightarrow> False | Some rq \<Rightarrow> pc_actor claims = rq_actor rq) \<and>
     pc_instance claims = i \<and> pc_plan_id claims = ap_plan_id input \<and> pc_candidate_digest claims = ap_candidate_digest input \<and>
     pc_base_etag claims = ap_if_match input \<and> \<not> pc_expires claims < unix_seconds t \<and>
     \<not> pc_expires claims > unix_seconds (t + 660 * second) \<and> valid_control_digest (pc_schema_digest claims) \<and>
     \<not> pc_change_count claims < 0 \<and>
     (pc_risk claims = ''low'' \<or> pc_risk claims = ''medium'' \<or> pc_risk claims = ''high'' \<or> pc_risk claims = ''critical'')"

definition verify_plan_review ::
    "review_lib \<Rightarrow> request_meta option \<Rightarrow> string \<Rightarrow> int \<Rightarrow> apply_request \<Rightarrow> err + plan_claims" where
  "verify_plan_review lib ctx i t input =
     check (\<not> (ap_review_token input = [] \<or> length (ap_review_token input) > 2048 \<or> all_zero_bytes (rl_key lib)))
       (plan_review_error ''PLAN_REVIEW_REQUIRED'') (
     case split_on (CHR ''.'') (ap_review_token input) of
       [a, b] \<Rightarrow>
         (case (b64_decode url_alphabet False a, b64_decode url_alphabet False b) of
            (Some payload, Some signature) \<Rightarrow>
              check (signature = rl_mac lib (rl_key lib) payload) (plan_review_error ''PLAN_REVIEW_INVALID'') (
              (case rl_read lib payload of
                 None \<Rightarrow> Inl (plan_review_error ''PLAN_REVIEW_INVALID'')
               | Some claims \<Rightarrow>
                   check (claims_match ctx i t input claims) (plan_review_error ''PLAN_REVIEW_INVALID'') (
                   check (\<not> ((pc_risk claims = ''high'' \<or> pc_risk claims = ''critical'') \<and>
                             ap_risk_confirmation input \<noteq> ''confirm:'' @ pc_plan_id claims @ '':'' @ pc_candidate_digest claims))
                     (plan_review_error ''HIGH_RISK_CONFIRMATION_REQUIRED'') (Inr claims))))
          | _ \<Rightarrow> Inl (plan_review_error ''PLAN_REVIEW_INVALID''))
     | _ \<Rightarrow> Inl (plan_review_error ''PLAN_REVIEW_INVALID''))"

definition plan_config ::
    "review_lib \<Rightarrow> (string \<Rightarrow> string) \<Rightarrow> control_config \<Rightarrow> control_io \<Rightarrow> string \<Rightarrow> config_candidate
      \<Rightarrow> (starry_instance \<Rightarrow> err + config_plan) \<Rightarrow> (starry_instance \<Rightarrow> err + string) \<Rightarrow> control \<Rightarrow> (err + config_plan) \<times> control" where
  "plan_config lib sha cfg io i c plan_answer schema_answer =
     audited_control_call io ''server_control.config.plan'' i (candidate_metadata sha c) (\<lambda>s.
       cbind (provider_for cfg io 1 i False s) (\<lambda>p s1.
       cbind (ask i (AskPlan (cd_document c)) (plan_answer p) s1) (\<lambda>plan s2.
       cbind (ask i AskCapabilities (schema_answer p) s2) (\<lambda>schema_digest s3.
       (ebind (seal_plan_review lib (ci_context io) i plan schema_digest) (\<lambda>token. Inr (plan\<lparr>pl_review_token := token\<rparr>)), s3)))))"

section \<open>Operations an agent runs\<close>

definition control_operation_audit_result :: "control_operation \<Rightarrow> string \<times> string" where
  "control_operation_audit_result o' =
     (if op_state o' = ''pending'' \<or> op_state o' = ''running'' then (''pending'', [])
      else if op_state o' = ''succeeded'' then (''success'', [])
      else if op_state o' = ''rolled_back'' \<or> op_state o' = ''failed'' \<or> op_state o' = ''manual_intervention_required''
      then (case op_error o' of
              Some (c # cs) \<Rightarrow> (''failure'', c # cs)
            | _ \<Rightarrow> (''failure'', ''STARRY_OPERATION_FAILED''))
      else (''failure'', ''STARRY_OPERATION_INVALID''))"

definition validate_expected_control_operation :: "control_operation \<Rightarrow> string \<Rightarrow> string \<Rightarrow> err + unit" where
  "validate_expected_control_operation o' kind digest =
     check (\<not> (op_id o' = [] \<or> op_kind o' \<noteq> kind \<or> digest = []))
       (ErrNew ''Starry operation did not match the authorized request'') (
     check (case op_ack o' of None \<Rightarrow> True | Some a \<Rightarrow> ak_source_digest a = digest)
       (ErrNew ''Starry operation source digest did not match the authorized request'') (Inr ()))"

definition control_audit_metadata_with_ack :: "metadata \<Rightarrow> activation_ack \<Rightarrow> metadata" where
  "control_audit_metadata_with_ack md a = AList.update ''activation_ack'' (MObj
     [(''generation'', MNum (int (ak_generation a))), (''schema_version'', MNum (ak_schema_version a)),
      (''source_digest'', MStr (ak_source_digest a)), (''effective_digest'', MStr (ak_effective_digest a)),
      (''subsystem_acks'', MList (map (\<lambda>(n, ok). MObj [(''subsystem'', MStr n), (''accepted'', MBool ok)]) (ak_subsystems a)))]) md"

definition record_result :: "string \<times> string \<Rightarrow> activation_ack option \<Rightarrow> metadata \<Rightarrow> audit_row \<Rightarrow> audit_row" where
  "record_result result ack md r = (set_result (fst result) (snd result) r)
     \<lparr>ev_metadata := (case ack of None \<Rightarrow> ev_metadata r | Some a \<Rightarrow> control_audit_metadata_with_ack md a)\<rparr>"

definition week_seconds :: int where "week_seconds = 7 * 24 * 3600"

definition add_expectation :: "operation_expectation \<Rightarrow> control \<Rightarrow> err + control" where
  "add_expectation x s =
     (if ex_audit_id x \<in> ex_audit_id ` set (ct_expectations s) then Inl UniqueViolation
      else Inr (s\<lparr>ct_expectations := ct_expectations s @ [x]\<rparr>))"

definition expectation_for :: "control_io \<Rightarrow> string \<Rightarrow> string \<Rightarrow> string \<Rightarrow> audit_row \<Rightarrow> control_operation \<Rightarrow> operation_expectation" where
  "expectation_for io i kind digest event o' = \<lparr>ex_operation = op_id o', ex_instance = i, ex_kind = kind, ex_digest = digest,
     ex_audit_id = ev_id event, ex_expires = unix_seconds (ci_time io) + week_seconds\<rparr>"

definition persist_expectation ::
    "control_io \<Rightarrow> string \<Rightarrow> string \<Rightarrow> string \<Rightarrow> audit_row \<Rightarrow> control_operation \<Rightarrow> control \<Rightarrow> (err + unit) \<times> control" where
  "persist_expectation io i kind digest event o' =
     transaction (flt (ci_env io 4)) (\<lambda>s.
       stmt (flt (ci_env io 4)) (Stmt 151) (
       ebind (add_expectation (expectation_for io i kind digest event o') s) (\<lambda>s1.
       stmt (flt (ci_env io 4)) (Stmt 152) (
       Inr ((), s1\<lparr>ct_db := (ct_db s1)\<lparr>events := update_where (\<lambda>r. ev_id r = ev_id event)
         (record_result (control_operation_audit_result o') (op_ack o') (ev_metadata event)) (events (ct_db s1))\<rparr>\<rparr>)))))"

text \<open>startControlOperation; an operation and its source digest come from the agent.\<close>

definition start_control_operation ::
    "control_io \<Rightarrow> string \<Rightarrow> string \<Rightarrow> string \<Rightarrow> metadata
      \<Rightarrow> (control \<Rightarrow> (err + control_operation \<times> string) \<times> control) \<Rightarrow> control \<Rightarrow> (err + control_operation) \<times> control" where
  "start_control_operation io action i kind md start s =
     (case audit_intent (ci_env io 0) (ci_context io) action i md (ct_db s) of
        Inl er \<Rightarrow> (Inl (ErrJoin (ErrNew ''persist server-control audit intent'') er), s)
      | Inr (event, d) \<Rightarrow>
          (case start (s\<lparr>ct_db := d\<rparr>) of
             (out, s1) \<Rightarrow>
               (case ebind out (\<lambda>(o', digest). ebind (validate_expected_control_operation o' kind digest) (\<lambda>_. Inr (o', digest))) of
                  Inl er \<Rightarrow>
                    (case finish_audit (ci_env io 0) event (Some er) (ct_db s1) of
                       Inl a \<Rightarrow> (Inl (ErrJoin er (ErrJoin (ErrNew ''finish server-control audit event'') a)), s1)
                     | Inr d1 \<Rightarrow> (Inl er, s1\<lparr>ct_db := d1\<rparr>))
                | Inr (o', digest) \<Rightarrow>
                    (case persist_expectation io i kind digest event o' s1 of
                       (Inr _, s2) \<Rightarrow> (Inr o', s2)
                     | (Inl er, s2) \<Rightarrow>
                         let failed = ErrJoin (ErrNew ''persist Starry operation expectation'') er
                         in (case finish_audit (ci_env io 0) event (Some failed) (ct_db s2) of
                               Inl _ \<Rightarrow> (Inl failed, s2)
                             | Inr d2 \<Rightarrow> (Inl failed, s2\<lparr>ct_db := d2\<rparr>))))))"

definition apply_metadata :: "apply_request \<Rightarrow> err + plan_claims \<Rightarrow> metadata" where
  "apply_metadata input review =
     [(''plan_id'', MStr (ap_plan_id input)), (''etag'', MStr (ap_if_match input)),
      (''candidate_digest'', MStr (ap_candidate_digest input))] @
     (case review of
        Inl _ \<Rightarrow> []
      | Inr c \<Rightarrow> [(''before'', MObj [(''etag'', MStr (pc_base_etag c)), (''generation'', MNum (int (pc_base_generation c)))]),
                  (''after'', MObj [(''source_digest'', MStr (pc_candidate_digest c))]), (''risk'', MStr (pc_risk c)),
                  (''schema_digest'', MStr (pc_schema_digest c)), (''change_count'', MNum (pc_change_count c))])"

definition apply_config ::
    "review_lib \<Rightarrow> control_config \<Rightarrow> control_io \<Rightarrow> string \<Rightarrow> apply_request \<Rightarrow> (starry_instance \<Rightarrow> err + string)
      \<Rightarrow> (starry_instance \<Rightarrow> err + control_operation) \<Rightarrow> control \<Rightarrow> (err + control_operation) \<times> control" where
  "apply_config lib cfg io i input schema_answer apply_answer =
     (let review = verify_plan_review lib (ci_context io) i (ci_time io) input
      in start_control_operation io ''server_control.config.apply'' i ''config_apply'' (apply_metadata input review) (\<lambda>s.
           cbind (provider_for cfg io 1 i True s) (\<lambda>p s1.
           case review of
             Inl er \<Rightarrow> (Inl er, s1)
           | Inr claims \<Rightarrow>
               cbind (ask i AskCapabilities (schema_answer p) s1) (\<lambda>schema_digest s2.
               if schema_digest \<noteq> pc_schema_digest claims then (Inl (plan_review_error ''PLAN_REVIEW_SCHEMA_CHANGED''), s2)
               else cbind (ask i (AskApply input) (apply_answer p) s2) (\<lambda>o' s3. (Inr (o', ap_candidate_digest input), s3))))))"

definition rollback_config ::
    "control_config \<Rightarrow> control_io \<Rightarrow> string \<Rightarrow> rollback_request \<Rightarrow> (starry_instance \<Rightarrow> err + config_revision list)
      \<Rightarrow> (starry_instance \<Rightarrow> err + control_operation) \<Rightarrow> control \<Rightarrow> (err + control_operation) \<times> control" where
  "rollback_config cfg io i input history_answer rollback_answer =
     start_control_operation io ''server_control.config.rollback'' i ''config_rollback''
       [(''revision_id'', MStr (rb_revision_id input)), (''etag'', MStr (rb_if_match input))] (\<lambda>s.
       if rb_risk_confirmation input \<noteq> ''confirm:rollback:'' @ i @ '':'' @ rb_revision_id input
       then (Inl (ErrCoded ''HIGH_RISK_CONFIRMATION_REQUIRED''), s)
       else cbind (provider_for cfg io 1 i True s) (\<lambda>p s1.
            cbind (ask i AskHistory (history_answer p) s1) (\<lambda>revisions s2.
            case find (\<lambda>r. rv_id r = rb_revision_id input) revisions of
              None \<Rightarrow> (Inl ErrRequestInvalid, s2)
            | Some r \<Rightarrow>
                if rv_candidate_digest r = [] then (Inl ErrRequestInvalid, s2)
                else cbind (ask i (AskRollback input) (rollback_answer p) s2) (\<lambda>o' s3. (Inr (o', rv_candidate_digest r), s3)))))"

definition operation_expectations :: "control_io \<Rightarrow> string \<Rightarrow> string \<Rightarrow> control \<Rightarrow> err + operation_expectation list" where
  "operation_expectations io i operation_id s =
     stmt (flt (ci_env io 4)) (Outside 153) (
     let found = filter (\<lambda>x. ex_instance x = i \<and> ex_operation x = operation_id \<and> ex_expires x > unix_seconds (ci_time io))
                   (ct_expectations s)
     in case found of
          [] \<Rightarrow> Inl ErrRequestInvalid
        | x # xs \<Rightarrow> check (list_all (\<lambda>y. ex_kind y = ex_kind x \<and> ex_digest y = ex_digest x) xs)
                      (ErrNew ''conflicting Starry operation expectations'') (Inr found))"

fun finalize_each ::
    "env \<Rightarrow> control_operation \<Rightarrow> operation_expectation list \<Rightarrow> control \<Rightarrow> err + unit \<times> control" where
  "finalize_each e o' [] s = Inr ((), s)"
| "finalize_each e o' (x # xs) s =
     (case op_ack o' of
        None \<Rightarrow>
          stmt (flt e) (Stmt 155) (
          finalize_each e o' xs (s\<lparr>ct_db := (ct_db s)\<lparr>events := update_where (\<lambda>r. ev_id r = ex_audit_id x)
            (record_result (control_operation_audit_result o') None []) (events (ct_db s))\<rparr>\<rparr>))
      | Some a \<Rightarrow>
          stmt (flt e) (Stmt 154) (
          case find (\<lambda>r. ev_id r = ex_audit_id x) (events (ct_db s)) of
            None \<Rightarrow> Inl RecordNotFound
          | Some r \<Rightarrow>
              stmt (flt e) (Stmt 155) (
              finalize_each e o' xs (s\<lparr>ct_db := (ct_db s)\<lparr>events := update_where (\<lambda>r. ev_id r = ex_audit_id x)
                (record_result (control_operation_audit_result o') (Some a) (ev_metadata r)) (events (ct_db s))\<rparr>\<rparr>))))"

definition finalize_control_operation ::
    "control_io \<Rightarrow> operation_expectation list \<Rightarrow> control_operation \<Rightarrow> control \<Rightarrow> (err + unit) \<times> control" where
  "finalize_control_operation io xs o' s =
     (if fst (control_operation_audit_result o') = ''pending'' then (Inr (), s)
      else transaction (flt (ci_env io 4)) (finalize_each (ci_env io 4) o' xs) s)"

definition poll_operation ::
    "control_config \<Rightarrow> control_io \<Rightarrow> string \<Rightarrow> string \<Rightarrow> (starry_instance \<Rightarrow> err + control_operation)
      \<Rightarrow> control \<Rightarrow> (err + control_operation) \<times> control" where
  "poll_operation cfg io i operation_id answer =
     audited_control_call io ''server_control.operation.read'' i [(''operation_id'', MStr operation_id)] (\<lambda>s.
       case operation_expectations io i operation_id s of
         Inl er \<Rightarrow> (Inl er, s)
       | Inr expectations \<Rightarrow>
           cbind (provider_for cfg io 1 i False s) (\<lambda>p s1.
           cbind (ask i (AskOperation operation_id) (answer p) s1) (\<lambda>o' s2.
           case validate_expected_control_operation o' (ex_kind (hd expectations)) (ex_digest (hd expectations)) of
             Inl er \<Rightarrow> (Inl er, s2)
           | Inr _ \<Rightarrow> cbind (finalize_control_operation io expectations o' s2) (\<lambda>_ s3. (Inr o', s3)))))"

section \<open>Peers\<close>

text \<open>
  VerifyPeerIdentity and VerifyPeerActivation: the enabled instances are asked in the order of their ids; the first
  one that knows the peer decides.  The list of ids is taken before the providers are refreshed.
\<close>

record peer_query =
  pq_id :: string
  pq_uuid :: string
  pq_epoch :: nat
  pq_activation :: string
  pq_leases :: "string list"

definition join_errors :: "err option \<Rightarrow> err \<Rightarrow> err" where
  "join_errors combined er = (case combined of None \<Rightarrow> er | Some c \<Rightarrow> ErrJoin c er)"

fun ask_each ::
    "control_config \<Rightarrow> control_io \<Rightarrow> peer_query \<Rightarrow> (starry_instance \<Rightarrow> err + bool) \<Rightarrow> string list \<Rightarrow> nat \<Rightarrow> nat \<Rightarrow> err option
      \<Rightarrow> control \<Rightarrow> (err + bool) \<times> control" where
  "ask_each cfg io q answer [] k checked combined s =
     ((case combined of Some er \<Rightarrow> Inl er | None \<Rightarrow> if checked = 0 then Inl ErrUnavailable else Inr False), s)"
| "ask_each cfg io q answer (i # is) k checked combined s =
     (case provider_for cfg io k i False s of
        (Inl er, s1) \<Rightarrow> ask_each cfg io q answer is (Suc k) checked (Some (join_errors combined er)) s1
      | (Inr p, s1) \<Rightarrow>
          (case ask i (AskVerifyPeer (pq_id q) (pq_uuid q) (pq_epoch q) (pq_activation q) (pq_leases q)) (answer p) s1 of
             (Inl er, s2) \<Rightarrow> ask_each cfg io q answer is (Suc k) checked (Some (join_errors combined er)) s2
           | (Inr registered, s2) \<Rightarrow>
               if registered then (Inr True, s2) else ask_each cfg io q answer is (Suc k) (Suc checked) combined s2))"

definition enabled_ids :: "control \<Rightarrow> string list" where
  "enabled_ids s = sort_strings (map fst (filter (\<lambda>(i, x). sc_enabled x) (ct_instances s)))"

definition verify_peer ::
    "control_config \<Rightarrow> control_io \<Rightarrow> peer_query \<Rightarrow> (starry_instance \<Rightarrow> err + bool) \<Rightarrow> control \<Rightarrow> (err + bool) \<times> control" where
  "verify_peer cfg io q answer s =
     (if enabled_ids s = [] then (Inl ErrUnavailable, s) else ask_each cfg io q answer (enabled_ids s) 1 0 None s)"

definition verify_peer_identity ::
    "control_config \<Rightarrow> control_io \<Rightarrow> string \<Rightarrow> string \<Rightarrow> (starry_instance \<Rightarrow> err + bool) \<Rightarrow> control \<Rightarrow> (err + bool) \<times> control" where
  "verify_peer_identity cfg io device_id device_uuid answer s =
     (if device_id = [] \<or> device_uuid = [] then (Inl ErrRequestInvalid, s)
      else verify_peer cfg io \<lparr>pq_id = device_id, pq_uuid = device_uuid, pq_epoch = 0, pq_activation = [], pq_leases = []\<rparr> answer s)"

definition verify_peer_activation ::
    "control_config \<Rightarrow> control_io \<Rightarrow> string \<Rightarrow> string \<Rightarrow> nat \<Rightarrow> string \<Rightarrow> string list \<Rightarrow> (starry_instance \<Rightarrow> err + bool)
      \<Rightarrow> control \<Rightarrow> (err + bool) \<times> control" where
  "verify_peer_activation cfg io device_id device_uuid epoch activation route_leases answer s =
     (if device_id = [] \<or> device_uuid = [] \<or> epoch = 0 \<or> activation = [] \<or> route_leases = [] then (Inl ErrRequestInvalid, s)
      else verify_peer cfg io \<lparr>pq_id = device_id, pq_uuid = device_uuid, pq_epoch = epoch, pq_activation = activation,
             pq_leases = route_leases\<rparr> answer s)"

section \<open>Log sources\<close>

record control_log_source =
  ls_id :: string
  ls_label :: string
  ls_component :: string
  ls_instance :: string
  ls_file :: string

definition source_visible :: "string \<Rightarrow> control_log_source \<Rightarrow> bool" where
  "source_visible i src \<longleftrightarrow> ls_instance src = [] \<or> ls_instance src = ''*'' \<or> ls_instance src = i"

definition log_source :: "control_log_source list \<Rightarrow> string \<Rightarrow> string \<Rightarrow> control \<Rightarrow> err + control_log_source" where
  "log_source sources i source_id s =
     (if map_of (ct_instances s) i = None then Inl ErrInstanceNotFound
      else case find (\<lambda>src. ls_id src = source_id \<and> source_visible i src) sources of
        None \<Rightarrow> Inl ErrRequestInvalid
      | Some src \<Rightarrow> Inr src)"

definition upper_char :: "char \<Rightarrow> char" where
  "upper_char c = (let n = (of_char c :: nat) in if 97 \<le> n \<and> n \<le> 122 then char_of (n - 32) else c)"

text \<open>strings.ToUpper on a line of ASCII.\<close>

definition detect_log_level :: "string \<Rightarrow> string" where
  "detect_log_level line =
     (let upper = map upper_char line;
          levels = [(''PANIC'', ''panic''), (''FATAL'', ''fatal''), (''ERROR'', ''error''), (''WARN'', ''warn''), (''DEBUG'', ''debug''),
                    (''TRACE'', ''trace''), (''INFO'', ''info'')]
      in case find (\<lambda>(u, l). contains_str upper u) levels of None \<Rightarrow> ''info'' | Some (u, l) \<Rightarrow> l)"

text \<open>Logs: the last lines of a file of at most 2 MB, each of at most 16 KB, redacted and numbered.\<close>

definition log_limit :: "int \<Rightarrow> int" where
  "log_limit n = (if n < 1 then 400 else if n > 2000 then 2000 else n)"

definition drop_first_line :: "string \<Rightarrow> string" where
  "drop_first_line data = (if CHR 0x0A \<in> set data then tl (dropWhile (\<lambda>c. c \<noteq> CHR 0x0A) data) else data)"

fun unix_lines :: "string \<Rightarrow> string" where
  "unix_lines [] = []"
| "unix_lines [c] = [c]"
| "unix_lines (a # b # r) = (if a = CHR 0x0D \<and> b = CHR 0x0A then CHR 0x0A # unix_lines r else a # unix_lines (b # r))"

record log_entry =
  le_sequence :: nat
  le_level :: string
  le_text :: string

definition ellipsis :: string where "ellipsis = [CHR 0xE2, CHR 0x80, CHR 0xA6]"

definition cut_line :: "string \<Rightarrow> string" where
  "cut_line line = (if length line > 16384 then take 16384 line @ ellipsis else line)"

definition log_entries :: "(string \<Rightarrow> string) \<Rightarrow> int \<Rightarrow> string \<Rightarrow> log_entry list \<times> bool" where
  "log_entries redact limit file =
     (let start = int (length file) - 2097152;
          data = (if start > 0 then drop_first_line (drop (nat start) file) else file);
          split = split_on (CHR 0x0A) (unix_lines data);
          lines0 = (if last split = [] then butlast split else split);
          n = nat (log_limit limit);
          lines1 = (if length lines0 > n then drop (length lines0 - n) lines0 else lines0);
          text = map (\<lambda>l. redact (cut_line l)) lines1
      in (map (\<lambda>(k, l). \<lparr>le_sequence = k, le_level = detect_log_level l, le_text = l\<rparr>) (zip [1..<Suc (length text)] text),
          start > 0 \<or> length lines0 > n \<or> list_ex (\<lambda>l. length l > 16384) lines1))"

end
