(* ===== verification/PairingService.thy ===== *)
theory PairingService
  imports ControlService
begin

text \<open>
  Pairing through the service (\<open>src/service/starryPairing.go\<close>) with the identities of
  \<open>src/internal/servercontrolregistry/pki.go\<close>: codes for control agents and relays, their revocation, the claim a
  server makes and the write policy of a managed instance.  X.509, key files, JSON and the agents' answers are
  arguments; the secret of a code is the base64url of 32 random bytes.
\<close>

section \<open>Shapes\<close>

definition alnum :: "char \<Rightarrow> bool" where
  "alnum c = (let n = (of_char c :: nat) in (48 \<le> n \<and> n \<le> 57) \<or> (65 \<le> n \<and> n \<le> 90) \<or> (97 \<le> n \<and> n \<le> 122))"

fun managed_id_ok :: "string \<Rightarrow> bool" where
  "managed_id_ok [] = False"
| "managed_id_ok (c # cs) =
     (alnum c \<and> length cs \<le> 127 \<and> list_all (\<lambda>d. alnum d \<or> d = CHR ''_'' \<or> d = CHR ''.'' \<or> d = CHR ''-'') cs)"

definition valid_center_public_key :: "string \<Rightarrow> bool" where
  "valid_center_public_key v \<longleftrightarrow>
     (case (case b64_decode std_alphabet True v of None \<Rightarrow> b64_decode std_alphabet False v | Some d \<Rightarrow> Some d) of
        None \<Rightarrow> False | Some d \<Rightarrow> length d = 32)"

definition pairing_problem :: "string \<Rightarrow> err" where "pairing_problem code = ErrCoded code"

text \<open>fmt.Errorf with the problem first and the text of the cause; without a cause the problem alone.\<close>

definition pairing_problem_with_cause :: "string \<Rightarrow> err option \<Rightarrow> err" where
  "pairing_problem_with_cause code cause =
     (case cause of None \<Rightarrow> pairing_problem code | Some er \<Rightarrow> wrapped (pairing_problem code) ''cause'')"

definition registry_problem :: "err \<Rightarrow> err" where
  "registry_problem er =
     (if err_is er ErrNotFound \<or> err_is er ErrExpired
      then pairing_problem_with_cause ''PAIRING_ENROLLMENT_EXPIRED_OR_UNKNOWN'' (Some er)
      else if err_is er ErrRevoked then pairing_problem_with_cause ''PAIRING_ENROLLMENT_REVOKED'' (Some er)
      else if err_is er ErrSecret \<or> err_is er ErrBinding \<or> err_is er ErrConflict \<or> err_is er ErrRecoveryWindow
      then pairing_problem_with_cause ''PAIRING_REPLAY_OR_BINDING_REJECTED'' (Some er)
      else pairing_problem_with_cause ''PAIRING_REGISTRY_UNAVAILABLE'' (Some er))"

definition problem :: "(err \<Rightarrow> err) \<Rightarrow> err + 'a \<Rightarrow> err + 'a" where
  "problem f m = (case m of Inl er \<Rightarrow> Inl (f er) | Inr x \<Rightarrow> Inr x)"

section \<open>Identities\<close>

record control_identity_options =
  io_managed_id :: string
  io_enrollment_id :: string
  io_name :: string
  io_agent_origin :: string
  io_tls_name :: string
  io_broker_origin :: string
  io_center_key :: string

text \<open>The key files of an identity: their paths, the signer's key id and digest.\<close>

record identity_files =
  if_ca :: string
  if_client_cert :: string
  if_client_key :: string
  if_control_key :: string
  if_control_key_id :: string
  if_control_key_sha :: string

record prepared_identity =
  pi_options :: control_identity_options
  pi_files :: identity_files
  pi_party :: string
  pi_digest :: string

text \<open>
  A certificate request: the fingerprint of its key and the hosts it names, addresses as \<open>net.ParseIP\<close> reads them.
  The rest are arguments: SHA-256, JSON strings, the key files of an identity, parsing and signing requests,
  \<open>net.ParseIP\<close> and \<open>strings.EqualFold\<close>.
\<close>

record csr =
  csr_fingerprint :: "string option"
  csr_addresses :: "string list"
  csr_dns_names :: "string list"

record pki =
  pk_sha :: "string \<Rightarrow> string"
  pk_quote :: "string \<Rightarrow> string"
  pk_files :: "control_identity_options \<Rightarrow> err + identity_files"
  pk_csr :: "string \<Rightarrow> err + csr"
  pk_address :: "string \<Rightarrow> string option"
  pk_equal_fold :: "string \<Rightarrow> string \<Rightarrow> bool"
  pk_sign :: "prepared_identity \<Rightarrow> string \<Rightarrow> err + string"
  pk_certificate :: "prepared_identity \<Rightarrow> err + string"

definition configuration_document :: "pki \<Rightarrow> control_identity_options \<Rightarrow> string \<Rightarrow> string" where
  "configuration_document p opt party =
     ''{\"agent_origin\":'' @ pk_quote p (io_agent_origin opt) @ '',\"allowed_client_uri_sans\":['' @ pk_quote p party @
     ''],\"center_public_key\":'' @ pk_quote p (io_center_key opt) @
     '',\"service_jwt_audience_prefix\":'' @ pk_quote p ''urn:starry-control:'' @
     '',\"service_jwt_issuer\":'' @ pk_quote p (io_broker_origin opt) @ ''}''"

definition prepare_control_identity :: "env \<Rightarrow> pki \<Rightarrow> control_identity_options \<Rightarrow> err + prepared_identity" where
  "prepare_control_identity e p opt0 =
     check (managed_id_ok (io_managed_id opt0)) (ErrNew ''invalid managed instance id'') (
     check (uuid_parses e (io_enrollment_id opt0)) (ErrNew ''invalid pairing enrollment id'') (
     check (\<not> (io_name opt0 = [] \<or> io_agent_origin opt0 = [] \<or> io_tls_name opt0 = [] \<or> io_broker_origin opt0 = []))
       (ErrNew ''incomplete control identity options'') (
     let opt = opt0\<lparr>io_center_key := trim_space (io_center_key opt0)\<rparr>
     in check (\<not> (length (io_center_key opt) < 43 \<or> length (io_center_key opt) > 128))
          (ErrNew ''center public key does not satisfy the frozen SP1 contract'') (
        ebind (pk_files p opt) (\<lambda>files.
        let party = ''spiffe://kessoku/server-control/'' @ io_managed_id opt
        in Inr \<lparr>pi_options = opt, pi_files = files, pi_party = party,
                pi_digest = sha_text (pk_sha p) (configuration_document p opt party)\<rparr>)))))"

definition csr_contains_host :: "pki \<Rightarrow> csr \<Rightarrow> string \<Rightarrow> bool" where
  "csr_contains_host p r host =
     (case pk_address p host of
        Some a \<Rightarrow> a \<in> set (csr_addresses r)
      | None \<Rightarrow> list_ex (\<lambda>candidate. pk_equal_fold p candidate host) (csr_dns_names r))"

definition issue_agent_certificate :: "pki \<Rightarrow> prepared_identity \<Rightarrow> claim_request \<Rightarrow> err + string" where
  "issue_agent_certificate p prepared q =
     ebind (valid_claim_shape (pk_sha p) q) (\<lambda>_.
     check (cq_config_digest q = pi_digest prepared) ErrBinding (
     ebind (pk_csr p (cq_csr q)) (\<lambda>r.
     check (csr_fingerprint r = Some (cq_key_fingerprint q)) ErrBinding (
     check (csr_contains_host p r (io_tls_name (pi_options prepared)))
       (ErrNew ''Agent CSR does not contain the pre-approved TLS server name'') (
     pk_sign p prepared (cq_csr q))))))"

definition managed_from :: "pki \<Rightarrow> prepared_identity \<Rightarrow> string \<Rightarrow> string \<Rightarrow> managed_instance" where
  "managed_from p prepared instance_uuid certificate =
     (let opt = pi_options prepared; f = pi_files prepared
      in \<lparr>mi_id = io_managed_id opt, mi_name = io_name opt, mi_uuid = instance_uuid, mi_origin = io_agent_origin opt,
          mi_tls_name = io_tls_name opt, mi_ca_file = if_ca f, mi_client_cert = if_client_cert f,
          mi_client_key = if_client_key f, mi_control_key = if_control_key f, mi_control_key_id = if_control_key_id f,
          mi_issuer = io_broker_origin opt, mi_party = pi_party prepared,
          mi_cert_sha = sha_text (pk_sha p) certificate, mi_key_sha = if_control_key_sha f, mi_read_only = True,
          mi_state = ''paired_read_only'', mi_generation = 0, mi_created = 0, mi_updated = 0\<rparr>)"

definition prepared_instance :: "env \<Rightarrow> pki \<Rightarrow> prepared_identity \<Rightarrow> string \<Rightarrow> err + managed_instance" where
  "prepared_instance e p prepared instance_uuid =
     check (uuid_parses e instance_uuid) ErrBinding (
     ebind (pk_certificate p prepared) (\<lambda>certificate. Inr (managed_from p prepared instance_uuid certificate)))"

section \<open>Codes\<close>

record pairing_code_payload =
  cp_purpose :: string
  cp_broker_origin :: string
  cp_broker_spki :: string
  cp_enrollment :: string
  cp_config_digest :: string
  cp_expires :: int
  cp_secret :: string

record pairing_code_result =
  pr_purpose :: string
  pr_enrollment :: string
  pr_config_digest :: string
  pr_expires :: int
  pr_state :: enrollment_state
  pr_code :: string

definition encode_payload :: "(pairing_code_payload \<Rightarrow> string) \<Rightarrow> pairing_code_payload \<Rightarrow> err + string" where
  "encode_payload write p =
     check (\<not> (\<not> valid_purpose (cp_purpose p) \<or> \<not> valid_sha256 (cp_broker_spki p) \<or> \<not> valid_sha256 (cp_config_digest p)))
       (ErrNew ''invalid SP1 payload'') (
     check (case b64_decode url_alphabet False (cp_secret p) of
              None \<Rightarrow> False | Some raw \<Rightarrow> \<not> (length raw \<noteq> 32 \<or> cp_expires p < 1)) (ErrNew ''invalid SP1 secret or expiry'') (
     Inr (''SP1.'' @ b64_encode url_alphabet False (write p))))"

definition encode_pairing_code ::
    "control_config \<Rightarrow> (pairing_code_payload \<Rightarrow> string) \<Rightarrow> enrollment \<Rightarrow> string \<Rightarrow> err + pairing_code_result" where
  "encode_pairing_code cfg write r secret =
     ebind (encode_payload write \<lparr>cp_purpose = en_purpose r, cp_broker_origin = cc_broker_origin cfg, cp_broker_spki = cc_broker_spki cfg,
       cp_enrollment = en_id r, cp_config_digest = en_config_digest r, cp_expires = en_expires r, cp_secret = secret\<rparr>) (\<lambda>code.
     Inr \<lparr>pr_purpose = en_purpose r, pr_enrollment = en_id r, pr_config_digest = en_config_digest r, pr_expires = en_expires r,
          pr_state = en_state r, pr_code = code\<rparr>)"

definition effective_code_ttl :: "control_config \<Rightarrow> int" where
  "effective_code_ttl cfg = (if cc_code_ttl cfg \<le> 0 then 600 * second else cc_code_ttl cfg)"

definition effective_recovery_ttl :: "control_config \<Rightarrow> int" where
  "effective_recovery_ttl cfg = (if cc_recovery_ttl cfg \<le> 0 then 600 * second else cc_recovery_ttl cfg)"

text \<open>randomPairingSecret; None is a random source that failed.\<close>

definition random_pairing_secret :: "string option \<Rightarrow> err + string" where
  "random_pairing_secret rnd =
     (case rnd of None \<Rightarrow> Inl (ErrNew ''random source'') | Some raw \<Rightarrow> Inr (b64_encode url_alphabet False raw))"

section \<open>The registry of the service\<close>

definition pairing_registry :: "control_config \<Rightarrow> control \<Rightarrow> err + unit" where
  "pairing_registry cfg s =
     check (cc_pairing_enabled cfg) (pairing_problem ''PAIRING_DISABLED'') (
     check (ct_registry_open s) (pairing_problem_with_cause ''PAIRING_REGISTRY_UNAVAILABLE'' (ct_registry_err s)) (Inr ()))"

definition ensure_pairing_registry ::
    "control_config \<Rightarrow> control_io \<Rightarrow> nat \<Rightarrow> bool \<Rightarrow> control \<Rightarrow> (err + unit) \<times> control" where
  "ensure_pairing_registry cfg io k allow s =
     (if \<not> cc_pairing_enabled cfg then (Inl (pairing_problem ''PAIRING_DISABLED''), s)
      else if ct_registry_open s then (Inr (), s)
      else if \<not> allow \<or> \<not> (case ct_registry_err s of None \<Rightarrow> False | Some er \<Rightarrow> err_is er ErrNotFound)
      then (Inl (pairing_problem_with_cause ''PAIRING_REGISTRY_UNAVAILABLE'' (ct_registry_err s)), s)
      else if ct_closed s then (Inl (pairing_problem ''PAIRING_REGISTRY_UNAVAILABLE''), s)
      else case open_registry (ci_env io k) (ci_time io) True (ci_host io) (ci_files io True) (ct_disk s) of
        (Inl er, disk) \<Rightarrow> (Inl (pairing_problem_with_cause ''PAIRING_REGISTRY_UNAVAILABLE'' (Some er)),
                           s\<lparr>ct_disk := disk, ct_registry_err := Some er\<rparr>)
      | (Inr _, disk) \<Rightarrow>
          (case refresh_managed_instances cfg io k (s\<lparr>ct_disk := disk, ct_registry_open := True, ct_registry_err := None\<rparr>) of
             (Inl er, s1) \<Rightarrow> (Inl (pairing_problem_with_cause ''PAIRING_REGISTRY_UNAVAILABLE'' (Some er)),
                              s1\<lparr>ct_registry_err := Some er\<rparr>)
           | (Inr _, s1) \<Rightarrow> (Inr (), s1)))"

text \<open>An operation on the registry file; its errors are translated.\<close>

definition on_registry :: "(registry \<Rightarrow> (err + 'a) \<times> registry) \<Rightarrow> control \<Rightarrow> (err + 'a) \<times> control" where
  "on_registry op s = (case op (ct_disk s) of (out, disk) \<Rightarrow> (problem registry_problem out, s\<lparr>ct_disk := disk\<rparr>))"

section \<open>Codes of control agents\<close>

record control_pairing_create =
  cr_managed_id :: string
  cr_name :: string
  cr_origin_id :: string
  cr_action :: string
  cr_target :: string
  cr_confirmation :: string

text \<open>The action a request asks for, when its shape is right and the administrator confirmed it.\<close>

definition create_checks :: "control_config \<Rightarrow> env \<Rightarrow> control_pairing_create \<Rightarrow> err + string \<times> pairing_origin" where
  "create_checks cfg e input =
     check (cc_pairing_enabled cfg) (pairing_problem ''PAIRING_DISABLED'') (
     check (\<not> (\<not> managed_id_ok (cr_managed_id input) \<or> trim_space (cr_name input) = [] \<or> length (cr_name input) > 256)) ErrRequestInvalid (
     let action = (if cr_action input = [] then ActionPair else cr_action input)
     in check (\<not> (action \<noteq> ActionPair \<and> action \<noteq> ActionAdopt \<and> action \<noteq> ActionRotate)) ErrRequestInvalid (
        check (\<not> (action = ActionPair \<and> cr_target input \<noteq> [])) ErrRequestInvalid (
        check (\<not> (action \<noteq> ActionPair \<and> \<not> uuid_parses e (cr_target input))) ErrRequestInvalid (
        check (cr_confirmation input = ''confirm:'' @ action @ '':'' @ cr_managed_id input @ '':'' @ cr_origin_id input)
          (pairing_problem ''PAIRING_CONFIRMATION_REQUIRED'') (
        case find (\<lambda>o'. po_id o' = cr_origin_id input) (cc_origins cfg) of
          None \<Rightarrow> Inl (pairing_problem ''AGENT_ORIGIN_NOT_ALLOWLISTED'')
        | Some origin \<Rightarrow>
            check (\<not> (cr_managed_id input \<in> set (static_ids cfg) \<and> action \<noteq> ActionRotate))
              (pairing_problem ''MANAGED_INSTANCE_ID_CONFLICT'') (
            check (valid_center_public_key (cc_center_key cfg)) (pairing_problem ''CENTER_PUBLIC_KEY_UNAVAILABLE'') (
            Inr (action, origin)))))))))"

definition control_code ::
    "control_config \<Rightarrow> control_io \<Rightarrow> control_pairing_create \<Rightarrow> string \<Rightarrow> pairing_origin \<Rightarrow> string \<Rightarrow> string \<Rightarrow> string \<Rightarrow> enrollment_create" where
  "control_code cfg io input action origin enrollment_id config_digest digest =
     \<lparr>ec_id = enrollment_id, ec_purpose = PurposeControlAgent, ec_action = action, ec_managed_id = cr_managed_id input,
      ec_name = trim_space (cr_name input), ec_origin_id = po_id origin, ec_origin = po_origin origin,
      ec_tls_name = po_tls_name origin, ec_target = cr_target input, ec_config_digest = config_digest,
      ec_secret_digest = digest, ec_expires_at = ci_time io + effective_code_ttl cfg,
      ec_recovery_ttl = effective_recovery_ttl cfg, ec_relay_spec = []\<rparr>"

definition create_control_pairing ::
    "control_config \<Rightarrow> pki \<Rightarrow> (pairing_code_payload \<Rightarrow> string) \<Rightarrow> control_io \<Rightarrow> string option \<Rightarrow> control_pairing_create
      \<Rightarrow> control \<Rightarrow> (err + pairing_code_result) \<times> control" where
  "create_control_pairing cfg p write io rnd input s =
     (case create_checks cfg (ci_env io 2) input of
        Inl er \<Rightarrow> (Inl er, s)
      | Inr (action, origin) \<Rightarrow>
     cbind (ensure_pairing_registry cfg io 1 (action = ActionPair) s) (\<lambda>_ s1.
     let enrollment_id = uuid_new (ci_env io 2)
     in case prepare_control_identity (ci_env io 2) p \<lparr>io_managed_id = cr_managed_id input, io_enrollment_id = enrollment_id,
               io_name = trim_space (cr_name input), io_agent_origin = po_origin origin, io_tls_name = po_tls_name origin,
               io_broker_origin = cc_broker_origin cfg, io_center_key = cc_center_key cfg\<rparr> of
          Inl er \<Rightarrow> (Inl (pairing_problem_with_cause ''PAIRING_IDENTITY_UNAVAILABLE'' (Some er)), s1)
        | Inr prepared \<Rightarrow>
       (case random_pairing_secret rnd of
          Inl er \<Rightarrow> (Inl (pairing_problem_with_cause ''PAIRING_RANDOM_UNAVAILABLE'' (Some er)), s1)
        | Inr secret \<Rightarrow>
       (case secret_digest (pk_sha p) secret of
          Inl er \<Rightarrow> (Inl er, s1)
        | Inr digest \<Rightarrow>
            cbind (on_registry (create_enrollment (ci_env io 2) (ci_time io)
                     (control_code cfg io input action origin enrollment_id (pi_digest prepared) digest)) s1) (\<lambda>r s2.
            (encode_pairing_code cfg write r secret, s2))))))"

definition create_control_pairing_audited ::
    "control_config \<Rightarrow> pki \<Rightarrow> (pairing_code_payload \<Rightarrow> string) \<Rightarrow> control_io \<Rightarrow> string option \<Rightarrow> control_pairing_create
      \<Rightarrow> control \<Rightarrow> (err + pairing_code_result) \<times> control" where
  "create_control_pairing_audited cfg p write io rnd input =
     audited_control_call io ''server_control.pairing.create'' (cr_managed_id input)
       [(''purpose'', MStr PurposeControlAgent), (''action'', MStr (cr_action input)), (''managed_id'', MStr (cr_managed_id input)),
        (''agent_origin_id'', MStr (cr_origin_id input))]
       (create_control_pairing cfg p write io rnd input)"

definition revoke_control_pairing ::
    "control_config \<Rightarrow> control_io \<Rightarrow> string \<Rightarrow> string \<Rightarrow> control \<Rightarrow> (err + unit) \<times> control" where
  "revoke_control_pairing cfg io i confirmation s =
     (if \<not> uuid_parses (ci_env io 2) i then (Inl ErrRequestInvalid, s)
      else if confirmation \<noteq> ''confirm:revoke-pairing:'' @ i then (Inl (pairing_problem ''PAIRING_CONFIRMATION_REQUIRED''), s)
      else case pairing_registry cfg s of
        Inl er \<Rightarrow> (Inl er, s)
      | Inr _ \<Rightarrow>
     (case load_enrollment (ci_env io 2) (Outside 141) i (ct_disk s) of
        Inl er \<Rightarrow> (Inl (registry_problem er), s)
      | Inr r \<Rightarrow>
          if en_purpose r \<noteq> PurposeControlAgent then (Inl (pairing_problem ''PAIRING_PURPOSE_MISMATCH''), s)
          else if \<not> code_active r then (Inl (pairing_problem ''PAIRING_CODE_NOT_REVOCABLE''), s)
          else on_registry (revoke_enrollment (ci_env io 2) (ci_time io) i) s))"

definition revoke_control_pairing_audited ::
    "control_config \<Rightarrow> control_io \<Rightarrow> string \<Rightarrow> string \<Rightarrow> control \<Rightarrow> (err + unit) \<times> control" where
  "revoke_control_pairing_audited cfg io i confirmation =
     audited_control_call io ''server_control.pairing.revoke'' i
       [(''purpose'', MStr PurposeControlAgent), (''enrollment_id'', MStr i)] (revoke_control_pairing cfg io i confirmation)"

section \<open>Codes of relays\<close>

text \<open>
  What an administrator approves of a relay (\<open>RelayEnrollmentPrepareRequest\<close> without the version and the
  lifetime), the agent's answers and the bundle it hands out at the end.
\<close>

record relay_terms =
  rt_node_id :: string
  rt_relay_server :: string
  rt_public_endpoint :: string
  rt_relay_pool :: string
  rt_profile :: string
  rt_wss_endpoint :: "string option"
  rt_activate :: bool
  rt_max_sessions :: int
  rt_bandwidth :: nat
  rt_draining :: bool
  rt_udp_port :: "int option"

record relay_prepare =
  rp_version :: int
  rp_terms :: relay_terms
  rp_expires_in :: int

record relay_prepared =
  rd_enrollment :: string
  rd_config_digest :: string
  rd_expires :: int

record relay_bundle =
  bd_terms :: relay_terms
  bd_material :: string

text \<open>JSON: the canonical form of the terms, and writing and reading a whole request.\<close>

record relay_json =
  rj_canonical :: "relay_terms \<Rightarrow> string"
  rj_write :: "relay_prepare \<Rightarrow> string"
  rj_read :: "string \<Rightarrow> relay_prepare option"

definition relay_configuration_digest :: "(string \<Rightarrow> string) \<Rightarrow> relay_json \<Rightarrow> relay_prepare \<Rightarrow> string" where
  "relay_configuration_digest sha j input = sha_text sha (rj_canonical j (rp_terms input))"

definition validate_relay_pairing_bundle :: "relay_json \<Rightarrow> string \<Rightarrow> relay_bundle \<Rightarrow> err + unit" where
  "validate_relay_pairing_bundle j spec bundle =
     (case rj_read j spec of
        None \<Rightarrow> Inl (ErrNew ''relay specification'')
      | Some approved \<Rightarrow>
          check (rp_terms approved = bd_terms bundle)
            (ErrNew ''Relay claim bundle differs from the Agent-authorized prepare request'') (Inr ()))"

record relay_agent =
  ga_prepare :: "starry_instance \<Rightarrow> err + relay_prepared"
  ga_complete :: "starry_instance \<Rightarrow> err + relay_bundle"
  ga_activate :: "starry_instance \<Rightarrow> err + string"
  ga_revoke :: "starry_instance \<Rightarrow> err + string"

definition revoke_prepared :: "string \<Rightarrow> relay_prepared \<Rightarrow> control \<Rightarrow> control" where
  "revoke_prepared i prepared s = snd (ask i
     (AskRelayRevoke \<lparr>rr_enrollment = rd_enrollment prepared, rr_config_digest = rd_config_digest prepared\<rparr>) (Inr () :: err + unit) s)"

definition relay_code :: "control_config \<Rightarrow> string \<Rightarrow> relay_prepare \<Rightarrow> relay_prepared \<Rightarrow> string \<Rightarrow> string \<Rightarrow> enrollment_create" where
  "relay_code cfg i input prepared digest spec =
     \<lparr>ec_id = rd_enrollment prepared, ec_purpose = PurposeRelay, ec_action = ActionEnroll, ec_managed_id = i,
      ec_name = rt_node_id (rp_terms input), ec_origin_id = [], ec_origin = [], ec_tls_name = [], ec_target = [],
      ec_config_digest = rd_config_digest prepared, ec_secret_digest = digest, ec_expires_at = rd_expires prepared * second,
      ec_recovery_ttl = effective_recovery_ttl cfg, ec_relay_spec = spec\<rparr>"

definition create_relay_pairing ::
    "control_config \<Rightarrow> pki \<Rightarrow> relay_json \<Rightarrow> (pairing_code_payload \<Rightarrow> string) \<Rightarrow> control_io \<Rightarrow> relay_agent \<Rightarrow> string option
      \<Rightarrow> string \<Rightarrow> relay_prepare \<Rightarrow> string \<Rightarrow> string \<Rightarrow> control \<Rightarrow> (err + pairing_code_result) \<times> control" where
  "create_relay_pairing cfg p j write io agent rnd i input idempotency confirmation s =
     (case pairing_registry cfg s of
        Inl er \<Rightarrow> (Inl er, s)
      | Inr _ \<Rightarrow>
     if rt_activate (rp_terms input) \<and> confirmation \<noteq> ''confirm:activate-after-health:'' @ i @ '':'' @ rt_node_id (rp_terms input)
     then (Inl (pairing_problem ''HIGH_RISK_CONFIRMATION_REQUIRED''), s)
     else cbind (provider_for cfg io 1 i True s) (\<lambda>inst s1.
          cbind (ask i (AskRelayPrepare (rj_write j input) idempotency) (ga_prepare agent inst) s1) (\<lambda>prepared s2.
          if rd_config_digest prepared \<noteq> relay_configuration_digest (pk_sha p) j input
          then (Inl (pairing_problem ''RELAY_CONFIGURATION_DRIFT''), revoke_prepared i prepared s2)
          else if \<not> rd_expires prepared * second > ci_time io \<or> rd_expires prepared * second > ci_time io + 3600 * second
          then (Inl (pairing_problem ''RELAY_ENROLLMENT_EXPIRY_INVALID''), revoke_prepared i prepared s2)
          else case random_pairing_secret rnd of
            Inl er \<Rightarrow> (Inl (pairing_problem_with_cause ''PAIRING_RANDOM_UNAVAILABLE'' (Some er)), s2)
          | Inr secret \<Rightarrow>
         (case secret_digest (pk_sha p) secret of
            Inl er \<Rightarrow> (Inl (pairing_problem_with_cause ''PAIRING_RANDOM_UNAVAILABLE'' (Some er)), s2)
          | Inr digest \<Rightarrow>
         (case on_registry (create_enrollment (ci_env io 2) (ci_time io)
                 (relay_code cfg i input prepared digest (rj_write j input))) s2 of
            (Inl er, s3) \<Rightarrow> (Inl er, revoke_prepared i prepared s3)
          | (Inr r, s3) \<Rightarrow> (encode_pairing_code cfg write r secret, s3))))))"

definition create_relay_pairing_audited ::
    "control_config \<Rightarrow> pki \<Rightarrow> relay_json \<Rightarrow> (pairing_code_payload \<Rightarrow> string) \<Rightarrow> control_io \<Rightarrow> relay_agent \<Rightarrow> string option
      \<Rightarrow> string \<Rightarrow> relay_prepare \<Rightarrow> string \<Rightarrow> string \<Rightarrow> control \<Rightarrow> (err + pairing_code_result) \<times> control" where
  "create_relay_pairing_audited cfg p j write io agent rnd i input idempotency confirmation =
     audited_control_call io ''server_control.relay_enrollment.prepare'' i
       [(''node_id'', MStr (rt_node_id (rp_terms input))), (''profile'', MStr (rt_profile (rp_terms input))),
        (''activate_after_health'', MBool (rt_activate (rp_terms input)))]
       (create_relay_pairing cfg p j write io agent rnd i input idempotency confirmation)"

definition activate_relay_enrollment ::
    "control_config \<Rightarrow> control_io \<Rightarrow> relay_agent \<Rightarrow> string \<Rightarrow> relay_activate \<Rightarrow> string \<Rightarrow> control \<Rightarrow> (err + string) \<times> control" where
  "activate_relay_enrollment cfg io agent i input confirmation s =
     (if confirmation \<noteq> ''confirm:relay-activate:'' @ ra_enrollment input @ '':'' @ ra_operation input @ '':'' @ decimal (ra_generation input)
      then (Inl (pairing_problem ''HIGH_RISK_CONFIRMATION_REQUIRED''), s)
      else cbind (provider_for cfg io 1 i True s) (\<lambda>inst. ask i (AskRelayActivate input) (ga_activate agent inst)))"

definition activate_relay_enrollment_audited ::
    "control_config \<Rightarrow> control_io \<Rightarrow> relay_agent \<Rightarrow> string \<Rightarrow> relay_activate \<Rightarrow> string \<Rightarrow> control \<Rightarrow> (err + string) \<times> control" where
  "activate_relay_enrollment_audited cfg io agent i input confirmation =
     audited_control_call io ''server_control.relay_enrollment.activate'' i
       [(''enrollment_id'', MStr (ra_enrollment input)), (''operation_id'', MStr (ra_operation input)),
        (''config_generation'', MNum (int (ra_generation input))), (''health_snapshot_id'', MStr (ra_snapshot input))]
       (activate_relay_enrollment cfg io agent i input confirmation)"

text \<open>A relay enrollment the agent revoked is revoked in the registry too, when it is there.\<close>

definition sync_local_relay_revocation :: "control_io \<Rightarrow> string \<Rightarrow> relay_revoke \<Rightarrow> control \<Rightarrow> (err + unit) \<times> control" where
  "sync_local_relay_revocation io i input s =
     (if \<not> ct_registry_open s then (Inr (), s)
      else case load_enrollment (ci_env io 2) (Outside 141) (rr_enrollment input) (ct_disk s) of
        Inl er \<Rightarrow> if err_is er ErrNotFound then (Inr (), s) else (Inl (registry_problem er), s)
      | Inr r \<Rightarrow>
          if en_purpose r \<noteq> PurposeRelay \<or> en_managed_id r \<noteq> i \<or> en_config_digest r \<noteq> rr_config_digest input
          then (Inl (pairing_problem ''PAIRING_RELAY_BINDING_MISMATCH''), s)
          else if \<not> code_active r then (Inr (), s)
          else on_registry (revoke_enrollment (ci_env io 2) (ci_time io) (rr_enrollment input)) s)"

definition revoke_relay_enrollment ::
    "control_config \<Rightarrow> control_io \<Rightarrow> relay_agent \<Rightarrow> string \<Rightarrow> relay_revoke \<Rightarrow> control \<Rightarrow> (err + string) \<times> control" where
  "revoke_relay_enrollment cfg io agent i input s =
     cbind (provider_for cfg io 1 i True s) (\<lambda>inst s1.
     cbind (ask i (AskRelayRevoke input) (ga_revoke agent inst) s1) (\<lambda>result s2.
     cbind (sync_local_relay_revocation io i input s2) (\<lambda>_ s3. (Inr result, s3))))"

definition revoke_relay_enrollment_audited ::
    "control_config \<Rightarrow> control_io \<Rightarrow> relay_agent \<Rightarrow> string \<Rightarrow> relay_revoke \<Rightarrow> control \<Rightarrow> (err + string) \<times> control" where
  "revoke_relay_enrollment_audited cfg io agent i input =
     audited_control_call io ''server_control.relay_enrollment.revoke'' i [(''enrollment_id'', MStr (rr_enrollment input))]
       (revoke_relay_enrollment cfg io agent i input)"

definition list_relay_enrollments ::
    "control_config \<Rightarrow> control_io \<Rightarrow> string \<Rightarrow> (starry_instance \<Rightarrow> err + string) \<Rightarrow> control \<Rightarrow> (err + string) \<times> control" where
  "list_relay_enrollments cfg io i = forward_call cfg io ''server_control.relay_enrollment.list'' [] False i AskRelayEnrollments"

section \<open>Claims\<close>

datatype claim_bundle = ControlBundle string string | RelayBundle relay_bundle

text \<open>After BeginClaim bound the request: the identity of the enrollment is prepared again, its certificate issued, the
  instance stored, exported and loaded.\<close>

definition claim_control ::
    "control_config \<Rightarrow> pki \<Rightarrow> control_io \<Rightarrow> claim_request \<Rightarrow> enrollment \<Rightarrow> control \<Rightarrow> (err + claim_bundle) \<times> control" where
  "claim_control cfg p io q r s =
     (case prepare_control_identity (ci_env io 2) p \<lparr>io_managed_id = en_managed_id r, io_enrollment_id = en_id r,
             io_name = en_name r, io_agent_origin = en_origin r, io_tls_name = en_tls_name r,
             io_broker_origin = cc_broker_origin cfg, io_center_key = cc_center_key cfg\<rparr> of
        Inl er \<Rightarrow> (Inl (pairing_problem_with_cause ''PAIRING_CONFIGURATION_DRIFT'' (Some er)), s)
      | Inr prepared \<Rightarrow>
          if pi_digest prepared \<noteq> en_config_digest r then (Inl (pairing_problem ''PAIRING_CONFIGURATION_DRIFT''), s)
          else case problem registry_problem (issue_agent_certificate p prepared q) of
            Inl er \<Rightarrow> (Inl er, s)
          | Inr certificate \<Rightarrow>
         (case problem registry_problem (prepared_instance (ci_env io 2) p prepared (en_instance r)) of
            Inl er \<Rightarrow> (Inl er, s)
          | Inr m \<Rightarrow>
              cbind (on_registry (complete_control_claim (ci_env io 3) (ci_time io) (cq_enrollment q) m) s) (\<lambda>m1 s1.
              case ci_export io m1 of
                Some er \<Rightarrow> (Inl (pairing_problem_with_cause ''STATIC_EXPORT_FAILED'' (Some er)), s1)
              | None \<Rightarrow>
                  (case refresh_managed_instances cfg io 4 s1 of
                     (Inl er, s2) \<Rightarrow> (Inl (pairing_problem_with_cause ''MANAGED_PROVIDER_RELOAD_FAILED'' (Some er)), s2)
                   | (Inr _, s2) \<Rightarrow> (Inr (ControlBundle (en_instance r) certificate), s2)))))"

definition claim_relay ::
    "control_config \<Rightarrow> relay_json \<Rightarrow> control_io \<Rightarrow> relay_agent \<Rightarrow> claim_request \<Rightarrow> enrollment \<Rightarrow> control \<Rightarrow> (err + claim_bundle) \<times> control" where
  "claim_relay cfg j io agent q r s =
     cbind (provider_for cfg io 4 (en_managed_id r) True s) (\<lambda>inst s1.
     cbind (ask (en_managed_id r) (AskRelayComplete q) (ga_complete agent inst) s1) (\<lambda>bundle s2.
     case validate_relay_pairing_bundle j (en_relay_spec r) bundle of
       Inl er \<Rightarrow> (Inl (pairing_problem_with_cause ''RELAY_CONFIGURATION_DRIFT'' (Some er)), s2)
     | Inr _ \<Rightarrow>
         cbind (on_registry (complete_relay_claim (ci_env io 3) (ci_time io) (cq_enrollment q)) s2) (\<lambda>_ s3.
         (Inr (RelayBundle bundle), s3))))"

definition claim_pairing ::
    "control_config \<Rightarrow> pki \<Rightarrow> relay_json \<Rightarrow> control_io \<Rightarrow> relay_agent \<Rightarrow> claim_request \<Rightarrow> control \<Rightarrow> (err + claim_bundle) \<times> control" where
  "claim_pairing cfg p j io agent q s =
     (case pairing_registry cfg s of
        Inl er \<Rightarrow> (Inl er, s)
      | Inr _ \<Rightarrow>
          audited_control_call io ''server_control.pairing.claim'' (cq_enrollment q)
            [(''purpose'', MStr (cq_purpose q)), (''enrollment_id'', MStr (cq_enrollment q))] (\<lambda>s0.
            cbind (on_registry (begin_claim (pk_sha p) (ci_env io 1) (ci_time io) q) s0) (\<lambda>(r, repeated) s1.
            if cq_purpose q = PurposeControlAgent then claim_control cfg p io q r s1
            else if cq_purpose q = PurposeRelay then claim_relay cfg j io agent q r s1
            else (Inl ErrRequestInvalid, s1))) s)"

section \<open>The write policy of a managed instance\<close>

definition bool_text :: "bool \<Rightarrow> string" where
  "bool_text b = (if b then ''true'' else ''false'')"

definition write_policy_metadata :: "control_io \<Rightarrow> string \<Rightarrow> bool \<Rightarrow> control \<Rightarrow> metadata" where
  "write_policy_metadata io i enabled s =
     [(''before'', MObj [(''read_only'', (if ct_registry_open s then (case load_managed (ci_env io 2) (Outside 142) i (ct_disk s) of
         Inl _ \<Rightarrow> MStr ''unknown'' | Inr m \<Rightarrow> MBool (mi_read_only m)) else MStr ''unknown''))]),
      (''after'', MObj [(''read_only'', MBool (\<not> enabled))])]"

definition set_managed_write_enabled ::
    "control_config \<Rightarrow> control_io \<Rightarrow> string \<Rightarrow> bool \<Rightarrow> string \<Rightarrow> control \<Rightarrow> (err + server_control_instance option) \<times> control" where
  "set_managed_write_enabled cfg io i enabled confirmation s =
     audited_control_call io ''server_control.managed.write_policy'' i (write_policy_metadata io i enabled s) (\<lambda>s0.
       case pairing_registry cfg s0 of
         Inl er \<Rightarrow> (Inl er, s0)
       | Inr _ \<Rightarrow>
           if confirmation \<noteq> ''confirm:managed-write:'' @ i @ '':'' @ bool_text enabled
           then (Inl (pairing_problem ''HIGH_RISK_CONFIRMATION_REQUIRED''), s0)
           else cbind (on_registry (set_managed_read_only (ci_env io 2) (ci_time io) i (\<not> enabled)) s0) (\<lambda>_ s1.
                cbind (refresh_managed_instances cfg io 4 s1) (\<lambda>_ s2.
                (Inr (map_of (ct_instances s2) i), s2)))) s"

record pairing_broker_status =
  ps_enabled :: bool
  ps_available :: bool
  ps_schema :: nat
  ps_generation :: nat
  ps_installation :: string
  ps_error_code :: string

definition pairing_status :: "control_config \<Rightarrow> control_io \<Rightarrow> control \<Rightarrow> pairing_broker_status \<times> control" where
  "pairing_status cfg io s =
     (let base = \<lparr>ps_enabled = cc_pairing_enabled cfg, ps_available = False, ps_schema = 0, ps_generation = 0,
                  ps_installation = [], ps_error_code = []\<rparr>
      in if \<not> cc_pairing_enabled cfg then (base\<lparr>ps_error_code := ''PAIRING_DISABLED''\<rparr>, s)
         else let s1 = snd (refresh_managed_instances cfg io 1 s)
         in if \<not> ct_registry_open s1
            then (base\<lparr>ps_error_code := (case ct_registry_err s1 of
                    Some er \<Rightarrow> if err_is er ErrNotFound then ''PAIRING_REGISTRY_NOT_INITIALIZED'' else ''PAIRING_REGISTRY_UNAVAILABLE''
                  | None \<Rightarrow> ''PAIRING_REGISTRY_UNAVAILABLE'')\<rparr>, s1)
            else case registry_metadata (ci_env io 2) (Outside 126) (ct_disk s1) of
              Inl _ \<Rightarrow> (base\<lparr>ps_error_code := ''PAIRING_REGISTRY_UNAVAILABLE''\<rparr>, s1)
            | Inr m \<Rightarrow> (base\<lparr>ps_available := True, ps_schema := rm_schema m, ps_generation := rm_generation m,
                            ps_installation := rm_installation m\<rparr>, s1))"

definition pairing_status_audited :: "control_config \<Rightarrow> control_io \<Rightarrow> control \<Rightarrow> (err + pairing_broker_status) \<times> control" where
  "pairing_status_audited cfg io = audited_control_call io ''server_control.pairing.status'' ''*'' [] (\<lambda>s.
     case pairing_status cfg io s of (r, s1) \<Rightarrow> (Inr r, s1))"

definition pairing_enabled :: "control_config \<Rightarrow> control_io \<Rightarrow> control \<Rightarrow> bool \<times> control" where
  "pairing_enabled cfg io s =
     (if \<not> cc_pairing_enabled cfg then (False, s)
      else let s1 = snd (refresh_managed_instances cfg io 1 s) in (ct_registry_open s1, s1))"

end
