(* ===== verification/PairingRegistryProps.thy ===== *)
theory PairingRegistryProps
  imports PairingRegistry
begin

text \<open>
  Properties of the registry of paired servers.  Every operation is a step; a step either leaves the registry as
  it was or is one of seven updates under a new generation.  The log of a run lists the claims that were
  answered, the latest first.
\<close>

section \<open>What an operation can do\<close>

text \<open>An answered claim: the enrollment, what it was bound to, when, and whether it repeats an earlier one.\<close>

record answered_claim =
  an_enrollment :: enrollment
  an_request :: claim_request
  an_time :: int
  an_repeated :: bool

definition answered :: "int \<Rightarrow> claim_request \<Rightarrow> err + enrollment \<times> bool \<Rightarrow> answered_claim list" where
  "answered t q out = (case out of Inl _ \<Rightarrow> []
     | Inr (r, repeated) \<Rightarrow> [\<lparr>an_enrollment = r, an_request = q, an_time = t, an_repeated = repeated\<rparr>])"

inductive registry_step :: "(string \<Rightarrow> string) \<Rightarrow> answered_claim list \<Rightarrow> registry \<Rightarrow> registry \<Rightarrow> bool" for sha where
  Create: "registry_step sha [] s (snd (create_enrollment e t c s))"
| Claim: "begin_claim sha e t q s = (out, s') \<Longrightarrow> registry_step sha (answered t q out) s s'"
| Complete_control: "registry_step sha [] s (snd (complete_control_claim e t i m s))"
| Complete_relay: "registry_step sha [] s (snd (complete_relay_claim e t i s))"
| Revoke: "registry_step sha [] s (snd (revoke_enrollment e t i s))"
| Write: "registry_step sha [] s (snd (set_managed_read_only e t i read_only s))"
| Adopt: "registry_step sha [] s (snd (adopt_host e t expected fingerprint s))"

inductive registry_run :: "(string \<Rightarrow> string) \<Rightarrow> answered_claim list \<Rightarrow> registry \<Rightarrow> registry \<Rightarrow> bool" for sha where
  Nil: "registry_run sha [] s s"
| Cons: "registry_run sha cs s s1 \<Longrightarrow> registry_step sha c s1 s2 \<Longrightarrow> registry_run sha (c @ cs) s s2"

lemma mutate_conditional_cases:
  assumes "mutate_conditional e t op s = (out, s')"
  obtains (same) "s' = s" "\<And>x. out = Inr x \<Longrightarrow> op s = Inr ((False, x), s)"
  | (unchanged) x s1 where "op s = Inr ((False, x), s1)" "s' = s1"
  | (changed) x s1 where "op s = Inr ((True, x), s1)" "s' = bump_generation t s1" "\<And>y. out = Inr y \<Longrightarrow> y = x"
proof (cases "flt e (Outside 121)")
  case False
  let ?body = "\<lambda>s0. ebind (op s0) (\<lambda>((changed, x), s1).
    if changed then stmt (flt e) (Stmt 109) (Inr (x, bump_generation t s1)) else Inr (x, s1))"
  obtain r s1 where tx: "transaction (flt e) ?body s = (r, s1)" by fastforce
  show ?thesis
  proof (cases r)
    case (Inl er)
    then have "s' = s" "out = Inl er"
      using assms False tx transaction_Inl_state [of "flt e" ?body s er s1] by (auto simp: mutate_conditional_def)
    then show ?thesis using same by simp
  next
    case (Inr x)
    then have "?body s = Inr (x, s1)" using tx by (simp add: transaction_eq_Inr)
    then obtain ch y s2 where z: "op s = Inr ((ch, y), s2)"
      by (cases "op s") auto
    then have "(if ch then stmt (flt e) (Stmt 109) (Inr (y, bump_generation t s2)) else Inr (y, s2)) = Inr (x, s1)"
      using \<open>?body s = Inr (x, s1)\<close> by simp
    then have op: "op s = Inr ((ch, x), s2)" "s1 = (if ch then bump_generation t s2 else s2)"
      using z by (auto simp: stmt_eq_Inr split: if_splits)
    have "s' = s1" "\<And>y. out = Inr y \<Longrightarrow> y = x" using assms False tx Inr by (auto simp: mutate_conditional_def split: if_splits)
    show ?thesis
    proof (cases ch)
      case True
      then show ?thesis using changed [of x s2] op \<open>s' = s1\<close> \<open>\<And>y. out = Inr y \<Longrightarrow> y = x\<close> by simp
    next
      case False
      then show ?thesis using unchanged [of x s2] op \<open>s' = s1\<close> by simp
    qed
  qed
qed (use assms same in \<open>auto simp: mutate_conditional_def\<close>)

lemma mutate_cases:
  assumes "mutate e t op s = (out, s')"
  obtains (same) "s' = s" "\<And>x. out \<noteq> Inr x"
  | (changed) x s1 where "op s = Inr (x, s1)" "s' = bump_generation t s1" "\<And>y. out = Inr y \<Longrightarrow> y = x"
  using assms unfolding mutate_def
proof (cases rule: mutate_conditional_cases)
  case same': same
  then have "\<And>x. out \<noteq> Inr x" by (auto simp: outcome_simps)
  then show ?thesis using same same' by blast
next
  case (unchanged x s1)
  then show ?thesis by (auto simp: outcome_simps)
next
  case c: (changed x s1)
  then show ?thesis using changed by (auto simp: outcome_simps)
qed

lemma load_enrollment_Inr:
  "load_enrollment e p i s = Inr r \<longleftrightarrow> \<not> flt e p \<and> find (\<lambda>r. en_id r = i) (rg_enrollments s) = Some r"
  by (auto simp: load_enrollment_def outcome_simps split: option.splits)

lemma load_managed_Inr:
  "load_managed e p i s = Inr m \<longleftrightarrow> \<not> flt e p \<and> find (\<lambda>m. mi_id m = i) (rg_managed s) = Some m"
  by (auto simp: load_managed_def outcome_simps split: option.splits)

text \<open>The enrollment a claim would bind, and what the request shows of it.\<close>

definition claim_matches :: "(string \<Rightarrow> string) \<Rightarrow> claim_request \<Rightarrow> enrollment \<Rightarrow> bool" where
  "claim_matches sha q r \<longleftrightarrow> en_id r = cq_enrollment q \<and> en_purpose r = cq_purpose q \<and> en_action r = cq_action q \<and>
     en_config_digest r = cq_config_digest q \<and> secret_digest sha (cq_secret q) = Inr (en_secret_digest r) \<and>
     (en_target r \<noteq> [] \<longrightarrow> cq_instance q = Some (en_target r))"

text \<open>What binding keeps of a request.\<close>

definition claim_binding :: "enrollment \<Rightarrow> string \<times> string \<times> string \<times> string \<times> int" where
  "claim_binding r = (en_request_digest r, en_key_fingerprint r, en_csr_digest r, en_instance r, en_recovery_until r)"

definition bound_by :: "(string \<Rightarrow> string) \<Rightarrow> claim_request \<Rightarrow> enrollment \<Rightarrow> bool" where
  "bound_by sha q r \<longleftrightarrow> en_request_digest r = cq_request_digest q \<and> en_key_fingerprint r = cq_key_fingerprint q \<and>
     en_csr_digest r = sha_text sha (cq_csr q) \<and> en_instance r = (case cq_instance q of None \<Rightarrow> [] | Some i \<Rightarrow> i)"

definition bound_row :: "(string \<Rightarrow> string) \<Rightarrow> int \<Rightarrow> claim_request \<Rightarrow> enrollment \<Rightarrow> enrollment" where
  "bound_row sha n q r = bind_enrollment n q (sha_text sha (cq_csr q)) (case cq_instance q of None \<Rightarrow> [] | Some i \<Rightarrow> i) r"

definition bind_row :: "(string \<Rightarrow> string) \<Rightarrow> int \<Rightarrow> claim_request \<Rightarrow> enrollment \<Rightarrow> registry \<Rightarrow> registry" where
  "bind_row sha n q r0 = update_enrollment (\<lambda>x. en_id x = cq_enrollment q \<and> en_state x = StatePending)
     (\<lambda>x. x\<lparr>en_state := StateBound, en_request_digest := cq_request_digest q, en_key_fingerprint := cq_key_fingerprint q,
        en_csr_digest := sha_text sha (cq_csr q), en_instance := (case cq_instance q of None \<Rightarrow> [] | Some i \<Rightarrow> i),
        en_recovery_until := n + en_recovery_ttl r0, en_updated := n\<rparr>)"

lemma begin_claim_body_Inr:
  assumes "begin_claim_body sha e t q digest s = Inr ((ch, x), s')" and "secret_digest sha (cq_secret q) = Inr digest"
  obtains (bind) r where "ch" "find (\<lambda>r. en_id r = cq_enrollment q) (rg_enrollments s) = Some r" "claim_matches sha q r"
      "en_state r = StatePending" "unix_seconds t < en_expires r" "x = (bound_row sha (unix_seconds t) q r, False)"
      "s' = bind_row sha (unix_seconds t) q r s"
  | (repeat) r where "\<not> ch" "find (\<lambda>r. en_id r = cq_enrollment q) (rg_enrollments s) = Some r" "claim_matches sha q r"
      "en_state r = StateBound \<or> en_state r = StateClaimed" "unix_seconds t < en_recovery_until r" "bound_by sha q r"
      "x = (r, True)" "s' = s"
proof -
  let ?n = "unix_seconds t" and ?i = "case cq_instance q of None \<Rightarrow> [] | Some i \<Rightarrow> i"
  from assms(1) obtain r where f: "find (\<lambda>r. en_id r = cq_enrollment q) (rg_enrollments s) = Some r"
    and r: "en_state r \<noteq> StateRevoked" "\<not> (en_state r = StateExpired \<or> (en_state r = StatePending \<and> ?n \<ge> en_expires r))"
      "\<not> (en_purpose r \<noteq> cq_purpose q \<or> en_action r \<noteq> cq_action q \<or> en_config_digest r \<noteq> cq_config_digest q)"
      "en_secret_digest r = digest" "\<not> (en_target r \<noteq> [] \<and> en_target r \<noteq> ?i)"
    and rest: "(if en_state r = StatePending
     then stmt (flt e) (Stmt 106) (
          check (count_where (\<lambda>x. en_id x = cq_enrollment q \<and> en_state x = StatePending) (rg_enrollments s) = 1) ErrConflict (
          Inr ((True, bound_row sha ?n q r, False), bind_row sha ?n q r s)))
     else check (\<not> en_recovery_until r \<le> ?n) ErrRecoveryWindow (
          check (\<not> (en_request_digest r \<noteq> cq_request_digest q \<or> en_key_fingerprint r \<noteq> cq_key_fingerprint q \<or>
                    en_csr_digest r \<noteq> sha_text sha (cq_csr q) \<or> en_instance r \<noteq> ?i)) ErrBinding (
          Inr ((False, r, True), s)))) = Inr ((ch, x), s')"
    unfolding begin_claim_body_def ebind_eq_Inr load_enrollment_Inr Let_def check_eq_Inr bound_row_def bind_row_def by blast
  have i: "en_target r \<noteq> [] \<Longrightarrow> cq_instance q = Some (en_target r)" using r(5) by (cases "cq_instance q") auto
  have m: "claim_matches sha q r" using r(3,4) i assms(2) find_SomeD [OF f] by (simp add: claim_matches_def)
  show thesis
  proof (cases "en_state r = StatePending")
    case True
    then show thesis using rest f m bind [of r] r(2) by (simp add: outcome_simps del: One_nat_def)
  next
    case False
    then have "en_state r = StateBound \<or> en_state r = StateClaimed" using r(1,2) by (cases "en_state r") auto
    moreover have "\<not> ch" "unix_seconds t < en_recovery_until r" "bound_by sha q r" "x = (r, True)" "s' = s"
      using rest False by (auto simp: check_eq_Inr bound_by_def)
    ultimately show thesis using repeat f m by blast
  qed
qed

lemma begin_claim_cases:
  assumes "begin_claim sha e t q s = (out, s')"
  obtains (refused) er where "s' = s" "out = Inl er"
  | (bind) r where "find (\<lambda>r. en_id r = cq_enrollment q) (rg_enrollments s) = Some r" "claim_matches sha q r"
      "en_state r = StatePending" "unix_seconds t < en_expires r"
      "s' = bump_generation t (bind_row sha (unix_seconds t) q r s)"
      "\<And>x. out = Inr x \<Longrightarrow> x = (bound_row sha (unix_seconds t) q r, False)"
  | (repeat) r where "find (\<lambda>r. en_id r = cq_enrollment q) (rg_enrollments s) = Some r" "claim_matches sha q r"
      "en_state r = StateBound \<or> en_state r = StateClaimed" "unix_seconds t < en_recovery_until r" "bound_by sha q r"
      "s' = s" "\<And>x. out = Inr x \<Longrightarrow> x = (r, True)"
proof (cases "\<exists>digest. secret_digest sha (cq_secret q) = Inr digest \<and>
    (out, s') = mutate_conditional e t (begin_claim_body sha e t q digest) s")
  case True
  then obtain digest where d: "secret_digest sha (cq_secret q) = Inr digest"
    and m: "mutate_conditional e t (begin_claim_body sha e t q digest) s = (out, s')" by auto
  from m show thesis
  proof (cases rule: mutate_conditional_cases)
    case same
    show thesis
    proof (cases out)
      case (Inl er)
      then show thesis using refused same by blast
    next
      case (Inr x)
      then have "begin_claim_body sha e t q digest s = Inr ((False, x), s)" using same by blast
      from begin_claim_body_Inr [OF this d] show thesis
        by cases (use repeat same Inr in auto)
    qed
  next
    case (unchanged x s1)
    have out: "y = x" if "out = Inr y" for y
      using that m unchanged(1) by (auto simp: mutate_conditional_def transaction_def outcome_simps split: if_splits)
    from begin_claim_body_Inr [OF unchanged(1) d] show thesis
      by cases (use repeat unchanged out in auto)
  next
    case (changed x s1)
    from begin_claim_body_Inr [OF changed(1) d] show thesis
      by cases (use bind changed in auto)
  qed
next
  case False
  then have "s' = s \<and> (\<exists>er. out = Inl er)"
    using assms by (auto simp: begin_claim_def split: sum.splits if_splits)
  then show thesis using refused by blast
qed

text \<open>
  A committed update of the registry, before the new generation is stored: a code of a control agent, a code of a
  relay, the binding of a claim, the two completions, a revocation and the write policy of an instance.
\<close>

inductive registry_update :: "(string \<Rightarrow> string) \<Rightarrow> int \<Rightarrow> registry \<Rightarrow> registry \<Rightarrow> bool" for sha t where
  Control_code: "ec_purpose c = PurposeControlAgent \<Longrightarrow> s0 = expire_codes (unix_seconds t) (ec_managed_id c) s \<Longrightarrow>
     (\<forall>r \<in> set (rg_enrollments s0). en_managed_id r = ec_managed_id c \<longrightarrow> \<not> code_active r) \<Longrightarrow>
     (if ec_action c = ActionRotate then \<exists>m \<in> set (rg_managed s). mi_id m = ec_managed_id c \<and> mi_uuid m = ec_target c
      else ec_managed_id c \<notin> mi_id ` set (rg_managed s)) \<Longrightarrow>
     ec_id c \<notin> en_id ` set (rg_enrollments s) \<Longrightarrow> registry_update sha t s (add_enrollment (new_enrollment t c) s0)"
| Relay_code: "ec_purpose c = PurposeRelay \<Longrightarrow> ec_id c \<notin> en_id ` set (rg_enrollments s) \<Longrightarrow>
     registry_update sha t s (add_enrollment (new_enrollment t c) s)"
| Bind: "find (\<lambda>r. en_id r = cq_enrollment q) (rg_enrollments s) = Some r \<Longrightarrow> claim_matches sha q r \<Longrightarrow>
     en_state r = StatePending \<Longrightarrow> unix_seconds t < en_expires r \<Longrightarrow>
     registry_update sha t s (bind_row sha (unix_seconds t) q r s)"
| Control_done: "find (\<lambda>r. en_id r = i) (rg_enrollments s) = Some r \<Longrightarrow> en_purpose r = PurposeControlAgent \<Longrightarrow>
     en_state r = StateBound \<Longrightarrow> en_managed_id r = mi_id m \<Longrightarrow> en_instance r = mi_uuid m \<Longrightarrow> mi_uuid m \<noteq> [] \<Longrightarrow>
     (\<forall>x \<in> set (rg_managed s). mi_uuid x = mi_uuid m \<longrightarrow> mi_id x = mi_id m) \<Longrightarrow>
     registry_update sha t s (finish_enrollment i (unix_seconds t) (put_managed m s))"
| Relay_done: "find (\<lambda>r. en_id r = i) (rg_enrollments s) = Some r \<Longrightarrow> en_purpose r = PurposeRelay \<Longrightarrow>
     en_state r = StateBound \<Longrightarrow> registry_update sha t s (finish_enrollment i (unix_seconds t) s)"
| Revoked: "registry_update sha t s (update_enrollment (\<lambda>r. en_id r = i \<and> code_active r)
     (\<lambda>r. r\<lparr>en_state := StateRevoked, en_updated := unix_seconds t\<rparr>) s)"
| Policy: "registry_update sha t s (set_write (unix_seconds t) i read_only g s)"

lemma purpose_distinct [simp]: "PurposeControlAgent \<noteq> PurposeRelay" "PurposeRelay \<noteq> PurposeControlAgent"
  by (simp_all add: PurposeControlAgent_def PurposeRelay_def)

lemma action_distinct [simp]:
  "ActionPair \<noteq> ActionRotate" "ActionAdopt \<noteq> ActionRotate" "ActionRotate \<noteq> ActionPair" "ActionRotate \<noteq> ActionAdopt"
  "ActionPair \<noteq> ActionEnroll" "ActionAdopt \<noteq> ActionEnroll" "ActionRotate \<noteq> ActionEnroll" "ActionPair \<noteq> ActionAdopt"
  by (simp_all add: ActionPair_def ActionAdopt_def ActionRotate_def ActionEnroll_def)

lemma expire_codes_keeps [simp]:
  "rg_managed (expire_codes n i s) = rg_managed s" "rg_meta (expire_codes n i s) = rg_meta s"
  "map en_id (rg_enrollments (expire_codes n i s)) = map en_id (rg_enrollments s)"
  by (simp_all add: expire_codes_def map_update_where)

lemma expire_codes_ids [simp]: "en_id ` set (rg_enrollments (expire_codes n i s)) = en_id ` set (rg_enrollments s)"
  by (metis expire_codes_keeps(3) set_map)

lemma allowed_Inr:
  assumes "control_enrollment_allowed e c s = Inr u" and "valid_purpose_action PurposeControlAgent (ec_action c)"
  shows "(\<forall>r \<in> set (rg_enrollments s). en_managed_id r = ec_managed_id c \<longrightarrow> \<not> code_active r) \<and>
    (if ec_action c = ActionRotate then \<exists>m \<in> set (rg_managed s). mi_id m = ec_managed_id c \<and> mi_uuid m = ec_target c
     else ec_managed_id c \<notin> mi_id ` set (rg_managed s))"
proof -
  from assms(1) have active: "\<forall>r \<in> set (rg_enrollments s). en_managed_id r = ec_managed_id c \<longrightarrow> \<not> code_active r"
    and rest: "(let found = find (\<lambda>m. mi_id m = ec_managed_id c) (rg_managed s) in
     if ec_action c = ActionPair \<or> ec_action c = ActionAdopt
     then check (found = None) (wrapped ErrConflict ''managed instance already exists'') (Inr ())
     else if ec_action c = ActionRotate
     then (case found of
             None \<Rightarrow> Inl (wrapped ErrConflict ''managed instance does not exist'')
           | Some m \<Rightarrow> check (ec_target c = mi_uuid m) (wrapped ErrBinding ''rotation instance binding changed'') (Inr ()))
     else Inr ()) = Inr u"
    unfolding control_enrollment_allowed_def stmt_eq_Inr check_eq_Inr count_where_0 by blast+
  from assms(2) have act: "ec_action c = ActionPair \<or> ec_action c = ActionAdopt \<or> ec_action c = ActionRotate"
    by (simp add: valid_purpose_action_def)
  show ?thesis
  proof (cases "find (\<lambda>m. mi_id m = ec_managed_id c) (rg_managed s)")
    case None
    then have "ec_managed_id c \<notin> mi_id ` set (rg_managed s)" by (auto simp: find_None_iff)
    from act show ?thesis using active rest None \<open>ec_managed_id c \<notin> _\<close> by (elim disjE) simp_all
  next
    case (Some m)
    from act show ?thesis
      using active rest Some find_SomeD [OF Some] by (elim disjE) (auto simp: check_eq_Inr)
  qed
qed

lemma create_enrollment_update:
  assumes "create_enrollment e t c s = (out, s')"
  shows "s' = s \<or> (\<exists>s1. registry_update sha t s s1 \<and> s' = bump_generation t s1)"
proof (cases "\<exists>u. validate_enrollment_create e c = Inr u \<and> ec_expires_at c > t")
  case True
  then have v: "valid_purpose_action (ec_purpose c) (ec_action c)"
    and m: "mutate e t (create_enrollment_body e t c) s = (out, s')"
    using assms by (auto simp: create_enrollment_def validate_enrollment_create_def outcome_simps)
  from m show ?thesis
  proof (cases rule: mutate_cases)
    case (changed x s1)
    show ?thesis
    proof (cases "ec_purpose c = PurposeControlAgent")
      case True
      let ?s0 = "expire_codes (unix_seconds t) (ec_managed_id c) s"
      from changed(1) True obtain u where a: "control_enrollment_allowed e c ?s0 = Inr u"
        and i: "insert_enrollment (new_enrollment t c) ?s0 = Inr s1"
        by (auto simp: create_enrollment_body_def outcome_simps Let_def)
      have "ec_id c \<notin> en_id ` set (rg_enrollments s)" "s1 = add_enrollment (new_enrollment t c) ?s0"
        using i by (auto simp: insert_enrollment_def new_enrollment_def Let_def simp del: image_iff split: if_splits)
      moreover note allowed_Inr [OF a, unfolded expire_codes_keeps] v True
      ultimately have "registry_update sha t s s1"
        using registry_update.Control_code [OF True refl] by metis
      then show ?thesis using changed by blast
    next
      case False
      then have p: "ec_purpose c = PurposeRelay" using v by (simp add: valid_purpose_action_def)
      from changed(1) False have "insert_enrollment (new_enrollment t c) s = Inr s1"
        by (auto simp: create_enrollment_body_def outcome_simps)
      then have "ec_id c \<notin> en_id ` set (rg_enrollments s)" "s1 = add_enrollment (new_enrollment t c) s"
        by (auto simp: insert_enrollment_def new_enrollment_def Let_def split: if_splits)
      then show ?thesis using changed registry_update.Relay_code [OF p] by blast
    qed
  qed blast
next
  case False
  then have "s' = s" using assms by (auto simp: create_enrollment_def split: sum.splits if_splits)
  then show ?thesis by blast
qed

lemma complete_control_update:
  assumes "complete_control_claim e t i m s = (out, s')"
  shows "s' = s \<or> (\<exists>s1. registry_update sha t s s1 \<and> s' = bump_generation t s1)"
proof (cases "mi_id m = [] \<or> mi_uuid m = [] \<or> mi_origin m = [] \<or> \<not> mi_read_only m \<or> mi_state m \<noteq> ''paired_read_only''")
  case False
  then have "mutate_conditional e t (complete_control_body e t i m) s = (out, s')" and u: "mi_uuid m \<noteq> []"
    using assms by (auto simp: complete_control_claim_def)
  then show ?thesis
  proof (cases rule: mutate_conditional_cases)
    case (unchanged x s1)
    then have "s1 = s" by (auto simp: complete_control_body_def outcome_simps Let_def split: option.splits sum.splits if_splits)
    then show ?thesis using unchanged by blast
  next
    case (changed x s1)
    from changed(1) obtain r where f: "find (\<lambda>r. en_id r = i) (rg_enrollments s) = Some r"
      and r: "\<not> (en_purpose r \<noteq> PurposeControlAgent \<or> (en_state r \<noteq> StateBound \<and> en_state r \<noteq> StateClaimed) \<or>
               en_managed_id r \<noteq> mi_id m \<or> en_instance r \<noteq> mi_uuid m)"
      by (auto simp: complete_control_body_def outcome_simps load_enrollment_Inr)
    have "en_state r \<noteq> StateClaimed"
      using changed(1) f r by (auto simp: complete_control_body_def outcome_simps load_enrollment_Inr split: sum.splits)
    then have b: "en_state r = StateBound" using r by blast
    with changed(1) f r obtain g s2 where up: "upsert_managed (managed_row (unix_seconds t) g m) s = Inr s2"
      and "s1 = finish_enrollment i (unix_seconds t) s2"
      by (auto simp: complete_control_body_def outcome_simps load_enrollment_Inr Let_def split: option.splits)
    moreover from up have "s2 = put_managed (managed_row (unix_seconds t) g m) s"
      by (auto simp: upsert_managed_def split: if_splits)
    moreover from up have "\<forall>x \<in> set (rg_managed s). mi_uuid x = mi_uuid m \<longrightarrow> mi_id x = mi_id m"
      by (auto simp: upsert_managed_def list_ex_iff split: if_splits)
    ultimately have "registry_update sha t s s1"
      using registry_update.Control_done [OF f, of "managed_row (unix_seconds t) g m"] r b u by simp
    then show ?thesis using changed by blast
  qed blast
qed (use assms in \<open>auto simp: complete_control_claim_def\<close>)

lemma complete_relay_update:
  assumes "complete_relay_claim e t i s = (out, s')"
  shows "s' = s \<or> (\<exists>s1. registry_update sha t s s1 \<and> s' = bump_generation t s1)"
  using assms [unfolded complete_relay_claim_def]
proof (cases rule: mutate_conditional_cases)
  case (unchanged x s1)
  then have "s1 = s" by (auto simp: complete_relay_body_def outcome_simps split: if_splits)
  then show ?thesis using unchanged by blast
next
  case (changed x s1)
  from changed(1) obtain r where "find (\<lambda>r. en_id r = i) (rg_enrollments s) = Some r" "en_purpose r = PurposeRelay"
    "en_state r = StateBound" "s1 = finish_enrollment i (unix_seconds t) s"
    by (auto simp: complete_relay_body_def outcome_simps load_enrollment_Inr split: if_splits)
  then show ?thesis using changed registry_update.Relay_done by blast
qed blast

lemma revoke_update:
  assumes "revoke_enrollment e t i s = (out, s')"
  shows "s' = s \<or> (\<exists>s1. registry_update sha t s s1 \<and> s' = bump_generation t s1)"
  using assms [unfolded revoke_enrollment_def]
proof (cases rule: mutate_cases)
  case (changed x s1)
  then show ?thesis using registry_update.Revoked by (fastforce simp: revoke_body_def outcome_simps)
qed blast

lemma set_managed_update:
  assumes "set_managed_read_only e t i read_only s = (out, s')"
  shows "s' = s \<or> (\<exists>s1. registry_update sha t s s1 \<and> s' = bump_generation t s1)"
proof -
  obtain o1 where "mutate e t (set_managed_body e t i read_only) s = (o1, s')"
    using assms by (auto simp: set_managed_read_only_def split: prod.splits sum.splits)
  then show ?thesis
  proof (cases rule: mutate_cases)
    case (changed x s1)
    then have "\<exists>g. s1 = set_write (unix_seconds t) i read_only g s"
      by (auto simp: set_managed_body_def outcome_simps split: option.splits if_splits)
    then show ?thesis using changed registry_update.Policy by blast
  qed blast
qed

lemma begin_claim_update:
  assumes "begin_claim sha e t q s = (out, s')"
  shows "s' = s \<or> (\<exists>s1. registry_update sha t s s1 \<and> s' = bump_generation t s1)"
  using assms
proof (cases rule: begin_claim_cases)
  case (bind r)
  then show ?thesis using registry_update.Bind by blast
qed blast+

lemma adopt_cases:
  assumes "adopt_host e t expected fingerprint s = (out, s')"
  shows "s' = s \<or> (\<exists>m host. rg_meta s = Some m \<and>
    s' = s\<lparr>rg_meta := Some (m\<lparr>rm_host := host, rm_generation := rm_generation m + 1, rm_updated := unix_seconds t\<rparr>)\<rparr>)"
  using assms by (auto simp: adopt_host_def adopt_host_body_def split: sum.splits option.splits if_splits)

lemma registry_step_cases:
  assumes "registry_step sha c s s'"
  obtains (same) "s' = s"
  | (update) t s1 where "registry_update sha t s s1" "s' = bump_generation t s1"
  | (adopt) m host t where "rg_meta s = Some m"
      "s' = s\<lparr>rg_meta := Some (m\<lparr>rm_host := host, rm_generation := rm_generation m + 1, rm_updated := unix_seconds t\<rparr>)\<rparr>"
  using assms
proof cases
  case (Create e t c)
  then show ?thesis using create_enrollment_update [OF prod.collapse [symmetric]] same update by blast
next
  case (Claim e t q out)
  then show ?thesis using begin_claim_update same update by blast
next
  case (Complete_control e t i m)
  then show ?thesis using complete_control_update [OF prod.collapse [symmetric]] same update by blast
next
  case (Complete_relay e t i)
  then show ?thesis using complete_relay_update [OF prod.collapse [symmetric]] same update by blast
next
  case (Revoke e t i)
  then show ?thesis using revoke_update [OF prod.collapse [symmetric]] same update by blast
next
  case (Write e t i read_only)
  then show ?thesis using set_managed_update [OF prod.collapse [symmetric]] same update by blast
next
  case (Adopt e t expected fingerprint)
  then show ?thesis using adopt_cases [OF prod.collapse [symmetric]] same adopt by blast
qed

section \<open>The life of an enrollment\<close>

text \<open>What never changes of an enrollment: everything the code stands for.\<close>

definition code_terms :: "enrollment \<Rightarrow> enrollment" where
  "code_terms r = r\<lparr>en_state := StatePending, en_request_digest := [], en_key_fingerprint := [], en_csr_digest := [],
     en_instance := [], en_recovery_until := 0, en_updated := 0\<rparr>"

definition code_final :: "enrollment \<Rightarrow> bool" where
  "code_final r \<longleftrightarrow> en_state r = StateClaimed \<or> en_state r = StateRevoked \<or> en_state r = StateExpired"

text \<open>
  A row may become a later one: the terms stay, a binding once made stays, a bound row does not become pending
  again, a final row stays as it is.
\<close>

definition row_evolves :: "enrollment \<Rightarrow> enrollment \<Rightarrow> bool" where
  "row_evolves r r' \<longleftrightarrow> code_terms r' = code_terms r \<and>
     (en_state r \<noteq> StatePending \<longrightarrow> en_state r' \<noteq> StatePending \<and> claim_binding r' = claim_binding r) \<and>
     (code_final r \<longrightarrow> r' = r)"

lemma row_evolves_refl [simp]: "row_evolves r r"
  by (simp add: row_evolves_def)

lemma row_evolves_trans: "row_evolves r1 r2 \<Longrightarrow> row_evolves r2 r3 \<Longrightarrow> row_evolves r1 r3"
  by (auto simp: row_evolves_def)

lemma code_terms_keeps:
  assumes "code_terms r' = code_terms r"
  shows "en_id r' = en_id r" "en_purpose r' = en_purpose r" "en_action r' = en_action r" "en_managed_id r' = en_managed_id r"
    "en_target r' = en_target r" "en_secret_digest r' = en_secret_digest r" "en_expires r' = en_expires r"
    "en_config_digest r' = en_config_digest r"
  using arg_cong [OF assms, of en_id] arg_cong [OF assms, of en_purpose] arg_cong [OF assms, of en_action]
    arg_cong [OF assms, of en_managed_id] arg_cong [OF assms, of en_target] arg_cong [OF assms, of en_secret_digest]
    arg_cong [OF assms, of en_expires] arg_cong [OF assms, of en_config_digest]
  by (simp_all add: code_terms_def)

definition rows_evolve :: "enrollment list \<Rightarrow> enrollment list \<Rightarrow> bool" where
  "rows_evolve rs rs' \<longleftrightarrow> (\<forall>r \<in> set rs. \<exists>r' \<in> set rs'. row_evolves r r')"

lemma rows_evolve_refl [simp]: "rows_evolve rs rs"
  by (auto simp: rows_evolve_def intro: row_evolves_refl)

lemma rows_evolve_trans: "rows_evolve a b \<Longrightarrow> rows_evolve b c \<Longrightarrow> rows_evolve a c"
  unfolding rows_evolve_def by (meson row_evolves_trans)

lemma rows_evolve_append: "rows_evolve a b \<Longrightarrow> rows_evolve a (b @ c)"
  by (auto simp: rows_evolve_def)

lemma rows_evolve_update:
  "(\<And>r. r \<in> set rs \<Longrightarrow> P r \<Longrightarrow> row_evolves r (f r)) \<Longrightarrow> rows_evolve rs (update_where P f rs)"
  unfolding rows_evolve_def set_update_where
proof
  fix r assume *: "\<And>r. r \<in> set rs \<Longrightarrow> P r \<Longrightarrow> row_evolves r (f r)" "r \<in> set rs"
  then have "row_evolves r (if P r then f r else r)" by simp
  then show "\<exists>r' \<in> (\<lambda>r. if P r then f r else r) ` set rs. row_evolves r r'" using *(2) by blast
qed

definition ids_distinct :: "registry \<Rightarrow> bool" where
  "ids_distinct s \<longleftrightarrow> distinct (map en_id (rg_enrollments s))"

lemma found_row:
  assumes "ids_distinct s" and "find (\<lambda>r. en_id r = i) (rg_enrollments s) = Some r"
  shows "r \<in> set (rg_enrollments s)" "en_id r = i" "x \<in> set (rg_enrollments s) \<Longrightarrow> en_id x = i \<Longrightarrow> x = r"
  using find_SomeD [OF assms(2)] key_unique [of en_id "rg_enrollments s" x r] assms(1) by (auto simp: ids_distinct_def)

lemma expire_evolves: "rows_evolve (rg_enrollments s) (rg_enrollments (expire_codes n i s))"
  unfolding expire_codes_def
  by (auto intro!: rows_evolve_update
      simp: row_evolves_def code_terms_def claim_binding_def code_final_def code_over_def)

lemma bind_evolves: "rows_evolve (rg_enrollments s) (rg_enrollments (bind_row sha n q r s))"
  unfolding bind_row_def update_enrollment_def
  by (auto intro!: rows_evolve_update simp: row_evolves_def code_terms_def code_final_def)

lemma revoke_evolves: "rows_evolve (rg_enrollments s) (rg_enrollments (update_enrollment (\<lambda>r. en_id r = i \<and> code_active r)
     (\<lambda>r. r\<lparr>en_state := StateRevoked, en_updated := n\<rparr>) s))"
  unfolding update_enrollment_def
  by (auto intro!: rows_evolve_update
      simp: row_evolves_def code_terms_def claim_binding_def code_final_def code_active_def)

lemma finish_evolves:
  assumes "ids_distinct s" "find (\<lambda>r. en_id r = i) (rg_enrollments s) = Some r" "en_state r = StateBound"
  shows "rows_evolve (rg_enrollments s) (rg_enrollments (finish_enrollment i n s))"
proof -
  have "row_evolves x (x\<lparr>en_state := StateClaimed, en_updated := n\<rparr>)" if "x \<in> set (rg_enrollments s)" "en_id x = i" for x
    using found_row(3) [OF assms(1,2) that] assms(3)
    by (simp add: row_evolves_def code_terms_def claim_binding_def code_final_def)
  then show ?thesis by (auto simp: finish_enrollment_def update_enrollment_def intro: rows_evolve_update)
qed

lemma put_managed_rows [simp]:
  "rg_enrollments (put_managed m s) = rg_enrollments s" "rg_meta (put_managed m s) = rg_meta s"
  "ids_distinct (put_managed m s) = ids_distinct s"
  by (simp_all add: put_managed_def ids_distinct_def)

lemma set_write_rows [simp]:
  "rg_enrollments (set_write n i read_only g s) = rg_enrollments s" "rg_meta (set_write n i read_only g s) = rg_meta s"
  "ids_distinct (set_write n i read_only g s) = ids_distinct s"
  by (simp_all add: set_write_def ids_distinct_def)

lemma bump_rows [simp]:
  "rg_enrollments (bump_generation t s) = rg_enrollments s" "rg_managed (bump_generation t s) = rg_managed s"
  "ids_distinct (bump_generation t s) = ids_distinct s"
  by (simp_all add: bump_generation_def ids_distinct_def)

lemma update_enrollment_rows [simp]:
  "rg_managed (update_enrollment P f s) = rg_managed s" "rg_meta (update_enrollment P f s) = rg_meta s"
  "rg_enrollments (update_enrollment P f s) = update_where P f (rg_enrollments s)"
  by (simp_all add: update_enrollment_def)

lemma add_enrollment_rows [simp]:
  "rg_managed (add_enrollment r s) = rg_managed s" "rg_meta (add_enrollment r s) = rg_meta s"
  "rg_enrollments (add_enrollment r s) = rg_enrollments s @ [r]"
  by (simp_all add: add_enrollment_def)

lemma new_enrollment_fields [simp]:
  "en_id (new_enrollment t c) = ec_id c" "en_state (new_enrollment t c) = StatePending"
  "en_purpose (new_enrollment t c) = ec_purpose c" "en_action (new_enrollment t c) = ec_action c"
  "en_managed_id (new_enrollment t c) = ec_managed_id c" "en_target (new_enrollment t c) = ec_target c"
  by (simp_all add: new_enrollment_def Let_def)

lemma update_ids [simp]:
  "ids_distinct (bind_row sha n q r s) = ids_distinct s" "ids_distinct (finish_enrollment i n s) = ids_distinct s"
  "ids_distinct (update_enrollment P (\<lambda>r. r\<lparr>en_state := st, en_updated := n\<rparr>) s) = ids_distinct s"
  "ids_distinct (expire_codes n i s) = ids_distinct s"
  by (simp_all add: ids_distinct_def bind_row_def finish_enrollment_def map_update_where)

lemma add_ids: "ids_distinct (add_enrollment r s) \<longleftrightarrow> ids_distinct s \<and> en_id r \<notin> en_id ` set (rg_enrollments s)"
  by (auto simp: ids_distinct_def)

lemma update_evolves:
  assumes "registry_update sha t s s1" and "ids_distinct s"
  shows "rows_evolve (rg_enrollments s) (rg_enrollments s1) \<and> ids_distinct s1"
  using assms(1)
proof cases
  case (Control_code c s0)
  then show ?thesis using rows_evolve_append [OF expire_evolves] assms(2) by (simp add: add_ids)
next
  case (Relay_code c)
  then show ?thesis using rows_evolve_append assms(2) by (simp add: add_ids)
next
  case (Bind q r)
  then show ?thesis using bind_evolves assms(2) by simp
next
  case (Control_done i r m)
  then show ?thesis using finish_evolves [of "put_managed m s" i r] assms(2) by simp
next
  case (Relay_done i r)
  then show ?thesis using finish_evolves [of s i r] assms(2) by simp
next
  case (Revoked i)
  then show ?thesis using revoke_evolves [of s] assms(2) by simp
next
  case (Policy i read_only g)
  then show ?thesis using assms(2) by simp
qed

section \<open>The invariant of the registry\<close>

text \<open>The pairs of a managed id and the instance it stands for.\<close>

definition instances :: "registry \<Rightarrow> (string \<times> string) list" where
  "instances s = map (\<lambda>m. (mi_id m, mi_uuid m)) (rg_managed s)"

lemma instances_keeps [simp]:
  "instances (update_enrollment P f s) = instances s" "instances (add_enrollment r s) = instances s"
  "instances (bump_generation t s) = instances s" "instances (expire_codes n i s) = instances s"
  "instances (set_write n i read_only g s) = instances s"
  by (simp_all add: instances_def) (simp add: set_write_def map_update_where)

lemma instances_bound [simp]:
  "instances (bind_row sha n q r s) = instances s" "instances (finish_enrollment i n s) = instances s"
  by (simp_all add: bind_row_def finish_enrollment_def)

lemma instances_put_absent: "mi_id m \<notin> fst ` set (instances s) \<Longrightarrow> instances (put_managed m s) = instances s @ [(mi_id m, mi_uuid m)]"
  by (simp add: instances_def put_managed_def image_image)

lemma instances_put_present:
  assumes "(mi_id m, mi_uuid m) \<in> set (instances s)" "distinct (map fst (instances s))"
  shows "instances (put_managed m s) = instances s"
proof -
  have d: "distinct (map mi_id (rg_managed s))" using assms(2) by (simp add: instances_def comp_def)
  obtain m0 where m0: "m0 \<in> set (rg_managed s)" "mi_id m0 = mi_id m" "mi_uuid m0 = mi_uuid m"
    using assms(1) by (auto simp: instances_def)
  have "mi_uuid x = mi_uuid m" if "x \<in> set (rg_managed s)" "mi_id x = mi_id m" for x
    using key_unique [OF d that(1) m0(1)] that m0 by simp
  moreover have "mi_id m \<in> mi_id ` set (rg_managed s)" using m0 by (metis imageI)
  ultimately show ?thesis by (simp add: instances_def put_managed_def update_where_def)
qed

definition control_active :: "enrollment \<Rightarrow> bool" where
  "control_active r \<longleftrightarrow> en_purpose r = PurposeControlAgent \<and> code_active r"

text \<open>What an open code of a control agent presupposes of the managed instances.\<close>

definition code_fits :: "(string \<times> string) list \<Rightarrow> enrollment \<Rightarrow> bool" where
  "code_fits is r \<longleftrightarrow> (if en_action r = ActionRotate then (en_managed_id r, en_target r) \<in> set is
     else en_managed_id r \<notin> fst ` set is)"

definition instances_inv :: "registry \<Rightarrow> bool" where
  "instances_inv s \<longleftrightarrow> distinct (map fst (instances s)) \<and> distinct (map snd (instances s)) \<and> [] \<notin> snd ` set (instances s)"

definition open_codes_inv :: "registry \<Rightarrow> bool" where
  "open_codes_inv s \<longleftrightarrow> (\<forall>r \<in> set (rg_enrollments s). control_active r \<longrightarrow> code_fits (instances s) r \<and>
     (\<forall>r2 \<in> set (rg_enrollments s). control_active r2 \<and> en_managed_id r2 = en_managed_id r \<longrightarrow> r2 = r))"

definition bound_target_inv :: "registry \<Rightarrow> bool" where
  "bound_target_inv s \<longleftrightarrow> (\<forall>r \<in> set (rg_enrollments s).
     (en_state r = StateBound \<or> en_state r = StateClaimed) \<and> en_target r \<noteq> [] \<longrightarrow> en_instance r = en_target r)"

definition provenance_inv :: "registry \<Rightarrow> bool" where
  "provenance_inv s \<longleftrightarrow> (\<forall>(i, u) \<in> set (instances s). \<exists>r \<in> set (rg_enrollments s). en_purpose r = PurposeControlAgent \<and>
     en_state r = StateClaimed \<and> en_managed_id r = i \<and> en_instance r = u)"

definition registry_inv :: "registry \<Rightarrow> bool" where
  "registry_inv s \<longleftrightarrow> ids_distinct s \<and> instances_inv s \<and> open_codes_inv s \<and> bound_target_inv s \<and> provenance_inv s"

lemma control_done_instances:
  assumes inv: "registry_inv s" and f: "find (\<lambda>r. en_id r = i) (rg_enrollments s) = Some r"
    and r: "en_purpose r = PurposeControlAgent" "en_state r = StateBound" "en_managed_id r = mi_id m" "en_instance r = mi_uuid m"
    and u: "\<forall>x \<in> set (rg_managed s). mi_uuid x = mi_uuid m \<longrightarrow> mi_id x = mi_id m"
  obtains (paired) "en_action r \<noteq> ActionRotate" "mi_id m \<notin> fst ` set (instances s)" "mi_uuid m \<notin> snd ` set (instances s)"
      "instances (put_managed m s) = instances s @ [(mi_id m, mi_uuid m)]"
  | (rotated) "en_action r = ActionRotate" "en_target r = mi_uuid m" "(mi_id m, mi_uuid m) \<in> set (instances s)"
      "instances (put_managed m s) = instances s"
proof -
  have in_s: "r \<in> set (rg_enrollments s)" using find_SomeD [OF f] by simp
  moreover have "control_active r" using r by (simp add: control_active_def code_active_def)
  ultimately have fits: "code_fits (instances s) r" using inv by (simp add: registry_inv_def open_codes_inv_def)
  show thesis
  proof (cases "en_action r = ActionRotate")
    case True
    then have p: "(mi_id m, en_target r) \<in> set (instances s)" using fits r by (simp add: code_fits_def)
    then have "en_target r \<noteq> []" using inv by (force simp: registry_inv_def instances_inv_def)
    then have "en_target r = mi_uuid m" using inv in_s r by (auto simp: registry_inv_def bound_target_inv_def)
    then show thesis using rotated True p instances_put_present [of m s] inv by (simp add: registry_inv_def instances_inv_def)
  next
    case False
    then have new: "mi_id m \<notin> fst ` set (instances s)" using fits r by (simp add: code_fits_def)
    have "mi_uuid m \<notin> snd ` set (instances s)"
    proof
      assume "mi_uuid m \<in> snd ` set (instances s)"
      then obtain x where x: "x \<in> set (rg_managed s)" "mi_uuid x = mi_uuid m" by (auto simp: instances_def)
      then have "mi_id m = mi_id x" using u by simp
      then show False using x(1) new by (simp add: instances_def image_image)
    qed
    then show thesis using paired False new instances_put_absent by blast
  qed
qed

lemma instances_inv_update:
  assumes inv: "registry_inv s" and "registry_update sha t s s1"
  shows "instances_inv s1"
  using assms(2)
proof cases
  case (Control_done i r m)
  have i: "instances_inv s" using inv by (simp add: registry_inv_def)
  have "instances_inv (put_managed m s)"
    using inv Control_done(2-6) Control_done(8)
  proof (cases rule: control_done_instances)
    case paired
    then show ?thesis using i Control_done(7) unfolding instances_inv_def by simp
  next
    case rotated
    then show ?thesis using i by (simp add: instances_inv_def)
  qed
  then show ?thesis using Control_done(1) by (simp add: instances_inv_def)
qed (use inv in \<open>simp_all add: registry_inv_def instances_inv_def\<close>)

text \<open>An update that opens no code and moves no instance keeps the open codes in order.\<close>

definition opens_none :: "registry \<Rightarrow> registry \<Rightarrow> bool" where
  "opens_none s s1 \<longleftrightarrow> (\<forall>r1 \<in> set (rg_enrollments s1). control_active r1 \<longrightarrow>
     (\<exists>r \<in> set (rg_enrollments s). control_active r \<and> code_terms r1 = code_terms r))"

lemma code_fits_terms:
  assumes "code_terms r1 = code_terms r"
  shows "code_fits is r1 = code_fits is r"
  by (simp add: code_fits_def code_terms_keeps [OF assms])

lemma opens_none_codes:
  assumes "open_codes_inv s" "instances s1 = instances s" "ids_distinct s1" "opens_none s s1"
  shows "open_codes_inv s1"
  unfolding open_codes_inv_def
proof (intro ballI impI conjI)
  fix r1 assume r1: "r1 \<in> set (rg_enrollments s1)" "control_active r1"
  then obtain r where r: "r \<in> set (rg_enrollments s)" "control_active r" "code_terms r1 = code_terms r"
    using assms(4) unfolding opens_none_def by blast
  then show "code_fits (instances s1) r1"
    using assms(1,2) code_fits_terms [OF r(3)] unfolding open_codes_inv_def by simp
  fix r2 assume r2: "r2 \<in> set (rg_enrollments s1)" "control_active r2 \<and> en_managed_id r2 = en_managed_id r1"
  then obtain r' where r': "r' \<in> set (rg_enrollments s)" "control_active r'" "code_terms r2 = code_terms r'"
    using assms(4) unfolding opens_none_def by blast
  have "en_managed_id r' = en_managed_id r" using r(3) r'(3) r2(2) code_terms_keeps(4) by metis
  then have "r' = r" using assms(1) r r' unfolding open_codes_inv_def by blast
  then have "en_id r2 = en_id r1" using r(3) r'(3) code_terms_keeps(1) by metis
  then show "r2 = r1" using key_unique [of en_id "rg_enrollments s1"] r1 r2 assms(3) by (simp add: ids_distinct_def)
qed

lemma opens_none_update:
  assumes "rg_enrollments s1 = update_where P f (rg_enrollments s)"
    and "\<And>r. r \<in> set (rg_enrollments s) \<Longrightarrow> P r \<Longrightarrow> control_active (f r) \<Longrightarrow> control_active r \<and> code_terms (f r) = code_terms r"
  shows "opens_none s s1"
  unfolding opens_none_def
proof (intro ballI impI)
  fix r1 assume "r1 \<in> set (rg_enrollments s1)" and a: "control_active r1"
  then obtain r where r: "r \<in> set (rg_enrollments s)" "r1 = (if P r then f r else r)"
    by (auto simp: assms(1) set_update_where)
  then have "control_active r \<and> code_terms r1 = code_terms r" using a assms(2) [of r] by (cases "P r") simp_all
  then show "\<exists>r \<in> set (rg_enrollments s). control_active r \<and> code_terms r1 = code_terms r" using r(1) by blast
qed

lemma opens_none_expire: "opens_none s (expire_codes n i s)"
  by (rule opens_none_update) (simp add: expire_codes_def, simp add: control_active_def code_active_def)

lemma opens_none_bind: "opens_none s (bind_row sha n q r s)"
  by (rule opens_none_update) (simp add: bind_row_def, simp add: control_active_def code_active_def code_terms_def)

lemma opens_none_finish: "opens_none s (finish_enrollment j n s)"
  by (rule opens_none_update) (simp add: finish_enrollment_def, simp add: control_active_def code_active_def)

lemma opens_none_revoke: "opens_none s (update_enrollment P (\<lambda>r. r\<lparr>en_state := StateRevoked, en_updated := n\<rparr>) s)"
  by (rule opens_none_update) (simp, simp add: control_active_def code_active_def)

lemmas opens_none_ops = opens_none_expire opens_none_bind opens_none_finish opens_none_revoke

lemma open_codes_add_relay:
  "open_codes_inv s \<Longrightarrow> en_purpose r = PurposeRelay \<Longrightarrow> open_codes_inv (add_enrollment r s)"
  by (auto simp: open_codes_inv_def control_active_def)

lemma open_codes_add_control:
  assumes "open_codes_inv s" "\<forall>x \<in> set (rg_enrollments s). en_managed_id x = en_managed_id r \<longrightarrow> \<not> code_active x"
    "code_fits (instances s) r"
  shows "open_codes_inv (add_enrollment r s)"
  using assms by (auto simp: open_codes_inv_def control_active_def)

lemma open_codes_finish:
  assumes inv: "registry_inv s" and f: "find (\<lambda>r. en_id r = i) (rg_enrollments s) = Some r"
    and r: "en_purpose r = PurposeControlAgent" "en_state r = StateBound" "en_managed_id r = mi_id m" "en_instance r = mi_uuid m"
    and u: "\<forall>x \<in> set (rg_managed s). mi_uuid x = mi_uuid m \<longrightarrow> mi_id x = mi_id m"
  shows "open_codes_inv (finish_enrollment i n (put_managed m s))" (is "open_codes_inv ?s1")
proof -
  have o: "open_codes_inv s" "ids_distinct s" using inv by (simp_all add: registry_inv_def)
  have "instances (finish_enrollment i n s) = instances s" by (simp add: finish_enrollment_def)
  with o have "open_codes_inv (finish_enrollment i n s)" using opens_none_codes opens_none_finish by simp
  moreover have rows: "rg_enrollments ?s1 = rg_enrollments (finish_enrollment i n s)" by (simp add: finish_enrollment_def)
  have inst: "instances ?s1 = instances (put_managed m s)" "instances (finish_enrollment i n s) = instances s"
    by (simp_all add: finish_enrollment_def)
  have other: "en_managed_id x \<noteq> mi_id m" if x: "x \<in> set (rg_enrollments ?s1)" "control_active x" for x
  proof
    assume m: "en_managed_id x = mi_id m"
    obtain y where y: "y \<in> set (rg_enrollments s)" "x = (if en_id y = i then y\<lparr>en_state := StateClaimed, en_updated := n\<rparr> else y)"
      using x(1) unfolding rows finish_enrollment_def update_enrollment_rows set_update_where put_managed_rows by blast
    then have "x = y" "en_id y \<noteq> i" using x(2) by (auto simp: control_active_def code_active_def split: if_splits)
    moreover have "control_active r" using r by (simp add: control_active_def code_active_def)
    ultimately have "y = r" using o y m r x(2) find_SomeD [OF f] unfolding open_codes_inv_def by metis
    then show False using \<open>en_id y \<noteq> i\<close> find_SomeD [OF f] by simp
  qed
  from inv f r u show ?thesis
  proof (cases rule: control_done_instances)
    case rotated
    then show ?thesis using calculation rows inst by (simp add: open_codes_inv_def)
  next
    case paired
    then have "code_fits (instances ?s1) x = code_fits (instances s) x" if "x \<in> set (rg_enrollments ?s1)" "control_active x" for x
      using other [OF that] inst by (auto simp: code_fits_def)
    then show ?thesis using calculation rows inst unfolding open_codes_inv_def by metis
  qed
qed

lemma open_codes_update:
  assumes inv: "registry_inv s" and up: "registry_update sha t s s1"
  shows "open_codes_inv s1"
proof -
  have o: "open_codes_inv s" "ids_distinct s" using inv by (simp_all add: registry_inv_def)
  from up show ?thesis
  proof cases
    case (Control_code c s0)
    have "open_codes_inv s0"
      using o opens_none_codes [of s s0] opens_none_ops(1) Control_code(3) by simp
    moreover have "code_fits (instances s) (new_enrollment t c)"
      using Control_code(5) by (force simp: code_fits_def instances_def image_image split: if_splits)
    ultimately show ?thesis using open_codes_add_control [of s0] Control_code by simp
  next
    case (Relay_code c)
    then show ?thesis using o open_codes_add_relay by simp
  next
    case (Bind q r)
    then show ?thesis using o opens_none_codes [of s s1] opens_none_ops(2) by simp
  next
    case (Control_done i r m)
    then show ?thesis using open_codes_finish [OF inv] by simp
  next
    case (Relay_done i r)
    then show ?thesis using o opens_none_codes [of s s1] opens_none_ops(3) by simp
  next
    case (Revoked i)
    then show ?thesis using o opens_none_codes [of s s1] opens_none_ops(4) by simp
  next
    case (Policy i read_only g)
    then show ?thesis using o by (simp add: open_codes_inv_def)
  qed
qed

lemma bound_target_rows:
  assumes "bound_target_inv s" "rg_enrollments s1 = update_where P f (rg_enrollments s)"
    and "\<And>r. r \<in> set (rg_enrollments s) \<Longrightarrow> P r \<Longrightarrow> en_target (f r) \<noteq> [] \<Longrightarrow>
      en_state (f r) = StateBound \<or> en_state (f r) = StateClaimed \<Longrightarrow> en_instance (f r) = en_target (f r)"
  shows "bound_target_inv s1"
  unfolding bound_target_inv_def
proof (intro ballI impI)
  fix x assume "x \<in> set (rg_enrollments s1)" and x: "(en_state x = StateBound \<or> en_state x = StateClaimed) \<and> en_target x \<noteq> []"
  then obtain r where r: "r \<in> set (rg_enrollments s)" "x = (if P r then f r else r)"
    unfolding assms(2) set_update_where by blast
  then show "en_instance x = en_target x"
    using x assms(1) assms(3) [of r] by (cases "P r") (auto simp: bound_target_inv_def)
qed

lemma bound_target_update:
  assumes inv: "registry_inv s" and up: "registry_update sha t s s1"
  shows "bound_target_inv s1"
proof -
  have b: "bound_target_inv s" and d: "ids_distinct s" using inv by (simp_all add: registry_inv_def)
  from up show ?thesis
  proof cases
    case (Control_code c s0)
    have "bound_target_inv s0"
      by (rule bound_target_rows [OF b]) (simp add: Control_code(3) expire_codes_def, simp)
    then show ?thesis using Control_code by (auto simp: bound_target_inv_def)
  next
    case (Relay_code c)
    then show ?thesis using b by (auto simp: bound_target_inv_def)
  next
    case (Bind q r)
    show ?thesis
    proof (rule bound_target_rows [OF b], simp add: Bind(1) bind_row_def)
      fix x assume "x \<in> set (rg_enrollments s)" "en_id x = cq_enrollment q \<and> en_state x = StatePending"
      then have "x = r" using found_row(3) [OF d Bind(2)] by blast
      moreover assume "en_target (x\<lparr>en_state := StateBound, en_request_digest := cq_request_digest q,
        en_key_fingerprint := cq_key_fingerprint q, en_csr_digest := sha_text sha (cq_csr q),
        en_instance := case cq_instance q of None \<Rightarrow> [] | Some i \<Rightarrow> i,
        en_recovery_until := unix_seconds t + en_recovery_ttl r, en_updated := unix_seconds t\<rparr>) \<noteq> []"
      ultimately show "en_instance (x\<lparr>en_state := StateBound, en_request_digest := cq_request_digest q,
        en_key_fingerprint := cq_key_fingerprint q, en_csr_digest := sha_text sha (cq_csr q),
        en_instance := case cq_instance q of None \<Rightarrow> [] | Some i \<Rightarrow> i,
        en_recovery_until := unix_seconds t + en_recovery_ttl r, en_updated := unix_seconds t\<rparr>) = en_target
        (x\<lparr>en_state := StateBound, en_request_digest := cq_request_digest q,
        en_key_fingerprint := cq_key_fingerprint q, en_csr_digest := sha_text sha (cq_csr q),
        en_instance := case cq_instance q of None \<Rightarrow> [] | Some i \<Rightarrow> i,
        en_recovery_until := unix_seconds t + en_recovery_ttl r, en_updated := unix_seconds t\<rparr>)"
        using Bind(3) by (simp add: claim_matches_def)
    qed
  next
    case (Control_done i r m)
    show ?thesis
    proof (rule bound_target_rows [OF b], simp add: Control_done(1) finish_enrollment_def)
      show "en_instance (x\<lparr>en_state := StateClaimed, en_updated := unix_seconds t\<rparr>) =
          en_target (x\<lparr>en_state := StateClaimed, en_updated := unix_seconds t\<rparr>)"
        if "x \<in> set (rg_enrollments s)" "en_id x = i" "en_target (x\<lparr>en_state := StateClaimed, en_updated := unix_seconds t\<rparr>) \<noteq> []" for x
        using found_row(1,3) [OF d Control_done(2)] that b Control_done(4) by (simp add: bound_target_inv_def)
    qed
  next
    case (Relay_done i r)
    show ?thesis
    proof (rule bound_target_rows [OF b], simp add: Relay_done(1) finish_enrollment_def)
      show "en_instance (x\<lparr>en_state := StateClaimed, en_updated := unix_seconds t\<rparr>) =
          en_target (x\<lparr>en_state := StateClaimed, en_updated := unix_seconds t\<rparr>)"
        if "x \<in> set (rg_enrollments s)" "en_id x = i" "en_target (x\<lparr>en_state := StateClaimed, en_updated := unix_seconds t\<rparr>) \<noteq> []" for x
        using found_row(1,3) [OF d Relay_done(2)] that b Relay_done(4) by (simp add: bound_target_inv_def)
    qed
  next
    case (Revoked i)
    show ?thesis by (rule bound_target_rows [OF b]) (simp add: Revoked, simp)
  next
    case (Policy i read_only g)
    then show ?thesis using b by (simp add: bound_target_inv_def)
  qed
qed

lemma claimed_stays:
  assumes "rows_evolve rs rs'" "r \<in> set rs" "en_state r = StateClaimed"
  shows "r \<in> set rs'"
  using assms by (auto simp: rows_evolve_def row_evolves_def code_final_def)

lemma provenance_update:
  assumes inv: "registry_inv s" and up: "registry_update sha t s s1"
  shows "provenance_inv s1"
proof -
  have d: "ids_distinct s" and p: "provenance_inv s" using inv by (simp_all add: registry_inv_def)
  have e: "rows_evolve (rg_enrollments s) (rg_enrollments s1)" using update_evolves [OF up d] by simp
  have keep: "\<exists>r \<in> set (rg_enrollments s1). en_purpose r = PurposeControlAgent \<and> en_state r = StateClaimed \<and>
      en_managed_id r = i \<and> en_instance r = u" if "(i, u) \<in> set (instances s)" for i u
    using p that claimed_stays [OF e] unfolding provenance_inv_def by fastforce
  have "instances s1 = instances s \<Longrightarrow> ?thesis" using keep unfolding provenance_inv_def by auto
  moreover have ?thesis if "instances s1 \<noteq> instances s"
  proof -
    from up that obtain i r m where c: "find (\<lambda>r. en_id r = i) (rg_enrollments s) = Some r"
      "en_purpose r = PurposeControlAgent" "en_state r = StateBound" "en_managed_id r = mi_id m" "en_instance r = mi_uuid m"
      "\<forall>x \<in> set (rg_managed s). mi_uuid x = mi_uuid m \<longrightarrow> mi_id x = mi_id m"
      and s1: "s1 = finish_enrollment i (unix_seconds t) (put_managed m s)"
      by cases simp_all
    let ?r = "r\<lparr>en_state := StateClaimed, en_updated := unix_seconds t\<rparr>"
    have "(if en_id r = i then ?r else r) \<in> set (rg_enrollments s1)"
      unfolding s1 finish_enrollment_def update_enrollment_rows set_update_where put_managed_rows
      using find_SomeD [OF c(1)] by blast
    then have new: "?r \<in> set (rg_enrollments s1)" using find_SomeD [OF c(1)] by simp
    have "set (instances s1) \<subseteq> insert (mi_id m, mi_uuid m) (set (instances s))"
      using inv c by (cases rule: control_done_instances) (auto simp: s1)
    moreover have "\<exists>r \<in> set (rg_enrollments s1). en_purpose r = PurposeControlAgent \<and> en_state r = StateClaimed \<and>
      en_managed_id r = mi_id m \<and> en_instance r = mi_uuid m"
      using new c by (intro bexI [of _ ?r]) simp_all
    ultimately show ?thesis using keep unfolding provenance_inv_def by blast
  qed
  ultimately show ?thesis by blast
qed

end
