(* ===== verification/PairingRuns.thy ===== *)
theory PairingRuns
  imports PairingRegistryProps
begin

text \<open>
  Runs of the pairing registry from a state in which its invariant holds: the life of an enrollment, the answers to
  its claims, the identity of a paired server and the generation counter.
\<close>

section \<open>Runs of the registry\<close>

lemma registry_inv_bump [simp]: "registry_inv (bump_generation t s) = registry_inv s"
  by (simp add: registry_inv_def instances_inv_def open_codes_inv_def bound_target_inv_def provenance_inv_def)

lemma registry_inv_meta [simp]: "registry_inv (s\<lparr>rg_meta := m\<rparr>) = registry_inv s"
  by (simp add: registry_inv_def instances_inv_def open_codes_inv_def bound_target_inv_def provenance_inv_def
      ids_distinct_def instances_def)

lemma registry_inv_update: "registry_inv s \<Longrightarrow> registry_update sha t s s1 \<Longrightarrow> registry_inv s1"
  using update_evolves instances_inv_update open_codes_update bound_target_update provenance_update
  by (metis registry_inv_def)

lemma registry_inv_fresh [simp]: "registry_inv (fresh_registry t host installation s)"
  by (simp add: registry_inv_def ids_distinct_def instances_inv_def open_codes_inv_def bound_target_inv_def
      provenance_inv_def instances_def fresh_registry_def)

lemma registry_inv_step: "registry_step sha c s s' \<Longrightarrow> registry_inv s \<Longrightarrow> registry_inv s'"
  by (erule registry_step_cases) (auto dest: registry_inv_update)

lemma registry_inv_run: "registry_run sha cs s s' \<Longrightarrow> registry_inv s \<Longrightarrow> registry_inv s'"
  by (induction rule: registry_run.induct) (auto intro: registry_inv_step)

lemma step_evolves:
  assumes "registry_step sha c s s'" "registry_inv s"
  shows "rows_evolve (rg_enrollments s) (rg_enrollments s')"
  using assms(1)
proof (cases rule: registry_step_cases)
  case (update t s1)
  then show ?thesis using update_evolves [of sha t s s1] assms(2) by (simp add: registry_inv_def)
qed simp_all

lemma run_evolves: "registry_run sha cs s s' \<Longrightarrow> registry_inv s \<Longrightarrow> rows_evolve (rg_enrollments s) (rg_enrollments s')"
  by (induction rule: registry_run.induct)
    (auto intro: rows_evolve_trans step_evolves registry_inv_run)

text \<open>
  The life of a pairing code.  Whatever operations follow, under whatever failures, an enrollment keeps what it
  was issued for (purpose, action, managed id, name, origin, target, configuration digest, secret digest and
  expiry); what a claim bound it to never changes; a bound code is never pending again; and a claimed, revoked or
  expired one stays as it is.
\<close>

lemma enrollment_life:
  assumes "registry_run sha cs s s'" and "registry_inv s" and "r \<in> set (rg_enrollments s)"
  shows "\<exists>r' \<in> set (rg_enrollments s'). code_terms r' = code_terms r \<and>
    (en_state r \<noteq> StatePending \<longrightarrow> en_state r' \<noteq> StatePending \<and> claim_binding r' = claim_binding r) \<and>
    (en_state r = StateClaimed \<or> en_state r = StateRevoked \<or> en_state r = StateExpired \<longrightarrow> r' = r)"
  using run_evolves [OF assms(1,2)] assms(3) by (auto simp: rows_evolve_def row_evolves_def code_final_def)

text \<open>What the log of a run says of the table.\<close>

definition answer_ok :: "(string \<Rightarrow> string) \<Rightarrow> answered_claim \<Rightarrow> bool" where
  "answer_ok sha a \<longleftrightarrow> claim_matches sha (an_request a) (an_enrollment a) \<and> bound_by sha (an_request a) (an_enrollment a) \<and>
     unix_seconds (an_time a) < (if an_repeated a then en_recovery_until (an_enrollment a) else en_expires (an_enrollment a))"

definition answered_inv :: "(string \<Rightarrow> string) \<Rightarrow> answered_claim list \<Rightarrow> registry \<Rightarrow> bool" where
  "answered_inv sha cs s \<longleftrightarrow> (\<forall>a \<in> set cs. \<exists>r \<in> set (rg_enrollments s). code_terms r = code_terms (an_enrollment a) \<and>
     claim_binding r = claim_binding (an_enrollment a) \<and> en_state r \<noteq> StatePending \<and>
     answer_ok sha a)"

lemma answered_inv_evolves:
  assumes "answered_inv sha cs s" and "rows_evolve (rg_enrollments s) (rg_enrollments s')"
  shows "answered_inv sha cs s'"
  unfolding answered_inv_def
proof
  fix a assume "a \<in> set cs"
  then obtain r where r: "r \<in> set (rg_enrollments s)" "code_terms r = code_terms (an_enrollment a)"
    "claim_binding r = claim_binding (an_enrollment a)" "en_state r \<noteq> StatePending"
    "answer_ok sha a"
    using assms(1) unfolding answered_inv_def by blast
  obtain r' where r': "r' \<in> set (rg_enrollments s')" "row_evolves r r'"
    using assms(2) r(1) unfolding rows_evolve_def by blast
  show "\<exists>r \<in> set (rg_enrollments s'). code_terms r = code_terms (an_enrollment a) \<and>
     claim_binding r = claim_binding (an_enrollment a) \<and> en_state r \<noteq> StatePending \<and>
     answer_ok sha a"
    using r r' by (intro bexI [of _ r']) (simp_all add: row_evolves_def)
qed

lemma bind_row_bound:
  assumes "find (\<lambda>r. en_id r = cq_enrollment q) (rg_enrollments s) = Some r" "en_state r = StatePending"
  shows "bound_row sha n q r \<in> set (rg_enrollments (bind_row sha n q r s))"
proof -
  have "(\<lambda>x. if en_id x = cq_enrollment q \<and> en_state x = StatePending
      then x\<lparr>en_state := StateBound, en_request_digest := cq_request_digest q,
        en_key_fingerprint := cq_key_fingerprint q, en_csr_digest := sha_text sha (cq_csr q),
        en_instance := case cq_instance q of None \<Rightarrow> [] | Some i \<Rightarrow> i,
        en_recovery_until := n + en_recovery_ttl r, en_updated := n\<rparr> else x) r \<in> set (rg_enrollments (bind_row sha n q r s))"
    unfolding bind_row_def update_enrollment_rows set_update_where by (rule imageI) (use find_SomeD [OF assms(1)] in simp)
  then show ?thesis using find_SomeD [OF assms(1)] assms(2) by (simp add: bound_row_def bind_enrollment_def)
qed

lemma bound_row_facts:
  "code_terms (bound_row sha n q r) = code_terms r" "bound_by sha q (bound_row sha n q r)"
  "en_state (bound_row sha n q r) = StateBound" "claim_matches sha q (bound_row sha n q r) = claim_matches sha q r"
  "en_expires (bound_row sha n q r) = en_expires r"
  by (simp_all add: bound_row_def bind_enrollment_def code_terms_def bound_by_def claim_matches_def)

lemma answered_invI:
  "r \<in> set (rg_enrollments s) \<Longrightarrow> r = an_enrollment a \<Longrightarrow> en_state r \<noteq> StatePending \<Longrightarrow> answer_ok sha a \<Longrightarrow>
    answered_inv sha [a] s"
  by (auto simp: answered_inv_def)

lemma answered_step:
  assumes "registry_step sha c s s'" "registry_inv s"
  shows "answered_inv sha c s'"
  using assms(1)
proof cases
  case (Claim e t q out)
  show ?thesis
  proof (cases out)
    case (Inl er)
    then show ?thesis using Claim by (simp add: answered_def answered_inv_def)
  next
    case (Inr x)
    from Claim(2) show ?thesis
    proof (cases rule: begin_claim_cases)
      case (bind r)
      then have x: "x = (bound_row sha (unix_seconds t) q r, False)" using Inr by blast
      have "bound_row sha (unix_seconds t) q r \<in> set (rg_enrollments s')"
        using bind_row_bound [OF bind(1,3)] bind(5) by simp
      then show ?thesis
        unfolding Claim(1) Inr x answered_def by simp (erule answered_invI, simp_all add: bind bound_row_facts answer_ok_def)
    next
      case (repeat r)
      then have x: "x = (r, True)" using Inr by blast
      have "en_state r \<noteq> StatePending" using repeat(3) by auto
      moreover have "r \<in> set (rg_enrollments s')" using find_SomeD [OF repeat(1)] repeat(6) by simp
      ultimately show ?thesis
        unfolding Claim(1) Inr x answered_def by simp (erule answered_invI, simp_all add: repeat(2,4,5) answer_ok_def)
    qed (use Inr in simp)
  qed
qed (simp_all add: answered_inv_def)

lemma answered_append: "answered_inv sha (c @ cs) s \<longleftrightarrow> answered_inv sha c s \<and> answered_inv sha cs s"
  by (auto simp: answered_inv_def)

lemma answered_run: "registry_run sha cs s s' \<Longrightarrow> registry_inv s \<Longrightarrow> answered_inv sha cs s'"
proof (induction rule: registry_run.induct)
  case (Nil s)
  then show ?case by (simp add: answered_inv_def)
next
  case (Cons cs s s1 c s2)
  then have "registry_inv s1" using registry_inv_run by blast
  then show ?case using Cons answered_step answered_inv_evolves step_evolves by (simp add: answered_append)
qed

lemma answered_invD:
  assumes "answered_inv sha cs s" and "a \<in> set cs"
  shows "answer_ok sha a" "\<exists>r \<in> set (rg_enrollments s). code_terms r = code_terms (an_enrollment a) \<and>
    claim_binding r = claim_binding (an_enrollment a) \<and> en_state r \<noteq> StatePending"
  using assms unfolding answered_inv_def by blast+

lemma answered_same:
  assumes inv: "answered_inv sha cs s" "ids_distinct s" and "a \<in> set cs" "b \<in> set cs"
    and id: "en_id (an_enrollment b) = en_id (an_enrollment a)"
  shows "code_terms (an_enrollment b) = code_terms (an_enrollment a) \<and>
    claim_binding (an_enrollment b) = claim_binding (an_enrollment a)"
proof -
  obtain r r' where r: "r \<in> set (rg_enrollments s)" "code_terms r = code_terms (an_enrollment a)"
      "claim_binding r = claim_binding (an_enrollment a)"
    and r': "r' \<in> set (rg_enrollments s)" "code_terms r' = code_terms (an_enrollment b)"
      "claim_binding r' = claim_binding (an_enrollment b)"
    using answered_invD(2) [OF inv(1) assms(3)] answered_invD(2) [OF inv(1) assms(4)] by blast
  have "en_id r' = en_id r" using code_terms_keeps(1) [OF r(2)] code_terms_keeps(1) [OF r'(2)] id by simp
  then have "r' = r" using key_unique [of en_id "rg_enrollments s" r' r] inv(2) r r' by (simp add: ids_distinct_def)
  then show ?thesis using r r' by simp
qed

text \<open>A first answer finds the enrollment pending.\<close>

lemma first_answer:
  assumes "registry_step sha c s s'" "a \<in> set c" "\<not> an_repeated a" and inv: "registry_inv s"
  shows "c = [a] \<and> (\<forall>r \<in> set (rg_enrollments s). en_id r = en_id (an_enrollment a) \<longrightarrow> en_state r = StatePending)"
  using assms(1)
proof cases
  case (Claim e t q out)
  then obtain r where out: "out = Inr (r, False)" and c: "c = [a]" and a: "an_enrollment a = r"
    using assms(2,3) by (auto simp: answered_def split: sum.splits)
  from Claim(2) show ?thesis
  proof (cases rule: begin_claim_cases)
    case (bind r0)
    then have "r = bound_row sha (unix_seconds t) q r0" using out by blast
    then have "en_id r = cq_enrollment q"
      using code_terms_keeps(1) [OF bound_row_facts(1)] bind(2) by (simp add: claim_matches_def)
    then show ?thesis using c a found_row(3) [OF _ bind(1)] bind(3) inv by (simp add: registry_inv_def) metis
  qed (use out in auto)
qed (use assms(2) in auto)

lemma first_answers:
  "registry_run sha cs s s' \<Longrightarrow> registry_inv s \<Longrightarrow>
    length (filter (\<lambda>a. en_id (an_enrollment a) = i \<and> \<not> an_repeated a) cs) \<le> 1"
proof (induction rule: registry_run.induct)
  case (Cons cs s s1 c s2)
  let ?P = "\<lambda>a. en_id (an_enrollment a) = i \<and> \<not> an_repeated a"
  have inv: "registry_inv s1" "answered_inv sha cs s1"
    using Cons registry_inv_run answered_run by blast+
  show ?case
  proof (cases "filter ?P c")
    case Nil
    then show ?thesis using Cons by simp
  next
    case (Cons a rest)
    then have "a \<in> set (filter ?P c)" by simp
    then have a: "a \<in> set c" "?P a" by auto
    note first = first_answer [OF \<open>registry_step sha c s1 s2\<close> a(1) _ inv(1)]
    have "filter ?P cs = []"
    proof (rule ccontr)
      assume "filter ?P cs \<noteq> []"
      then obtain b where b: "b \<in> set cs" "?P b" by (auto simp: filter_empty_conv)
      obtain r where r: "r \<in> set (rg_enrollments s1)" "code_terms r = code_terms (an_enrollment b)" "en_state r \<noteq> StatePending"
        using answered_invD(2) [OF inv(2) b(1)] by blast
      then show False using first a b code_terms_keeps(1) [OF r(2)] by simp
    qed
    then show ?thesis using first a by simp
  qed
qed simp

text \<open>C5: A pairing code is claimed once.  In any run of the registry, under any failures and clocks, at most one
  answer to a claim of an enrollment is a first one, given before the code expired.  Any other answer repeats it,
  inside the recovery window: every answered request held the secret whose digest the enrollment stores, and all of
  them name the same request digest, key, certificate request and instance.\<close>

theorem pairing_code_claimed_once:
  assumes "registry_run sha cs s s'" and "registry_inv s"
  shows "length (filter (\<lambda>a. en_id (an_enrollment a) = i \<and> \<not> an_repeated a) cs) \<le> 1 \<and>
    (\<forall>a \<in> set cs. secret_digest sha (cq_secret (an_request a)) = Inr (en_secret_digest (an_enrollment a)) \<and>
       unix_seconds (an_time a) < (if an_repeated a then en_recovery_until (an_enrollment a) else en_expires (an_enrollment a)) \<and>
       (\<forall>b \<in> set cs. en_id (an_enrollment b) = en_id (an_enrollment a) \<longrightarrow>
          en_secret_digest (an_enrollment b) = en_secret_digest (an_enrollment a) \<and>
          en_recovery_until (an_enrollment b) = en_recovery_until (an_enrollment a) \<and>
          cq_request_digest (an_request b) = cq_request_digest (an_request a) \<and>
          cq_key_fingerprint (an_request b) = cq_key_fingerprint (an_request a) \<and>
          sha_text sha (cq_csr (an_request b)) = sha_text sha (cq_csr (an_request a)) \<and>
          en_instance (an_enrollment b) = en_instance (an_enrollment a)))"
proof (intro conjI ballI impI)
  show "length (filter (\<lambda>a. en_id (an_enrollment a) = i \<and> \<not> an_repeated a) cs) \<le> 1"
    using assms by (rule first_answers)
next
  fix a assume a: "a \<in> set cs"
  have inv: "answered_inv sha cs s'" "ids_distinct s'"
    using answered_run [OF assms] registry_inv_run [OF assms] by (simp_all add: registry_inv_def)
  note ok = answered_invD [OF inv(1)]
  show "secret_digest sha (cq_secret (an_request a)) = Inr (en_secret_digest (an_enrollment a))"
    "unix_seconds (an_time a) < (if an_repeated a then en_recovery_until (an_enrollment a) else en_expires (an_enrollment a))"
    using ok(1) [OF a] by (simp_all add: answer_ok_def claim_matches_def)
  fix b assume b: "b \<in> set cs" "en_id (an_enrollment b) = en_id (an_enrollment a)"
  have same: "code_terms (an_enrollment b) = code_terms (an_enrollment a)"
    "claim_binding (an_enrollment b) = claim_binding (an_enrollment a)"
    using answered_same [OF inv a b(1)] b(2) by simp_all
  then show "en_secret_digest (an_enrollment b) = en_secret_digest (an_enrollment a)"
    "en_recovery_until (an_enrollment b) = en_recovery_until (an_enrollment a)"
    "en_instance (an_enrollment b) = en_instance (an_enrollment a)"
    using code_terms_keeps(6) [OF same(1)] by (simp_all add: claim_binding_def)
  show "cq_request_digest (an_request b) = cq_request_digest (an_request a)"
    "cq_key_fingerprint (an_request b) = cq_key_fingerprint (an_request a)"
    "sha_text sha (cq_csr (an_request b)) = sha_text sha (cq_csr (an_request a))"
    using same(2) ok(1) [OF a] ok(1) [OF b(1)] by (simp_all add: answer_ok_def bound_by_def claim_binding_def)
qed

text \<open>A rotation of an instance claimed since a table of enrollments.\<close>

definition rotated_since :: "enrollment list \<Rightarrow> registry \<Rightarrow> managed_instance \<Rightarrow> bool" where
  "rotated_since rs s m \<longleftrightarrow> (\<exists>r \<in> set (rg_enrollments s). r \<notin> set rs \<and> en_action r = ActionRotate \<and> en_state r = StateClaimed \<and>
     en_managed_id r = mi_id m \<and> en_target r = mi_uuid m \<and> en_instance r = mi_uuid m)"

lemma same_identity_trans: "same_managed_identity a b \<Longrightarrow> same_managed_identity b c \<Longrightarrow> same_managed_identity a c"
  by (auto simp: same_managed_identity_def)

lemma same_identity_refl [simp]: "same_managed_identity m m"
  by (simp add: same_managed_identity_def)

lemma rotated_since_evolves:
  "rotated_since rs s m \<Longrightarrow> rows_evolve (rg_enrollments s) (rg_enrollments s') \<Longrightarrow> rotated_since rs s' m"
  unfolding rotated_since_def using claimed_stays by meson

lemma identity_control_done:
  assumes inv: "registry_inv s" and f: "find (\<lambda>r. en_id r = i) (rg_enrollments s) = Some r"
    and r: "en_purpose r = PurposeControlAgent" "en_state r = StateBound" "en_managed_id r = mi_id m0" "en_instance r = mi_uuid m0"
    and u: "\<forall>x \<in> set (rg_managed s). mi_uuid x = mi_uuid m0 \<longrightarrow> mi_id x = mi_id m0"
    and s1: "s1 = finish_enrollment i n (put_managed m0 s)" and m: "m \<in> set (rg_managed s)"
    and old: "\<forall>x \<in> set rs. \<exists>y \<in> set (rg_enrollments s). row_evolves x y"
  shows "\<exists>m' \<in> set (rg_managed s1). mi_id m' = mi_id m \<and> mi_uuid m' = mi_uuid m \<and>
    (same_managed_identity m m' \<or> rotated_since rs s1 m)"
proof (cases "mi_id m = mi_id m0")
  case False
  then have "m \<in> set (rg_managed s1)"
    using m by (auto simp: s1 finish_enrollment_def put_managed_def set_update_where)
  then show ?thesis using same_identity_refl by blast
next
  case True
  then have "mi_id m0 \<in> fst ` set (instances s)" using m by (simp add: instances_def image_image) (metis imageI)
  with inv f r u have rot: "en_action r = ActionRotate" "en_target r = mi_uuid m0" "(mi_id m0, mi_uuid m0) \<in> set (instances s)"
    by (cases rule: control_done_instances; blast)+
  have "distinct (map fst (instances s))" using inv by (simp add: registry_inv_def instances_inv_def)
  moreover have "(mi_id m, mi_uuid m) \<in> set (instances s)" using m by (simp add: instances_def)
  ultimately have uuid: "mi_uuid m = mi_uuid m0"
    using key_unique [of fst "instances s" "(mi_id m0, mi_uuid m0)" "(mi_id m, mi_uuid m)"] rot(3) True
    by simp
  let ?r = "r\<lparr>en_state := StateClaimed, en_updated := n\<rparr>"
  have "(if en_id r = i then ?r else r) \<in> set (rg_enrollments s1)"
    unfolding s1 finish_enrollment_def update_enrollment_rows set_update_where put_managed_rows
    using find_SomeD [OF f] by blast
  then have new: "?r \<in> set (rg_enrollments s1)" using find_SomeD [OF f] by simp
  have "?r \<notin> set rs"
  proof
    assume "?r \<in> set rs"
    then obtain y where y: "y \<in> set (rg_enrollments s)" "row_evolves ?r y" using old by blast
    then have "y = ?r" by (simp add: row_evolves_def code_final_def)
    then have "y = r" using found_row(3) [OF _ f y(1)] inv find_SomeD [OF f] by (simp add: registry_inv_def)
    moreover have "en_state y = StateClaimed" using \<open>y = ?r\<close> by simp
    ultimately show False using r(2) by simp
  qed
  then have "rotated_since rs s1 m" unfolding rotated_since_def using new rot r True uuid by (intro bexI [of _ ?r]) simp_all
  moreover have "mi_id m0 \<in> mi_id ` set (rg_managed s)" using m True by (metis imageI)
  then have "m0\<lparr>mi_read_only := True, mi_created := mi_created m\<rparr> \<in> set (rg_managed s1)"
    using m True by (simp add: s1 finish_enrollment_def put_managed_def set_update_where image_iff) (rule bexI [of _ m], simp_all)
  ultimately show ?thesis using True uuid by (intro bexI [of _ "m0\<lparr>mi_read_only := True, mi_created := mi_created m\<rparr>"]) simp_all
qed

lemma identity_update:
  assumes up: "registry_update sha t s s1" and inv: "registry_inv s" and m: "m \<in> set (rg_managed s)"
    and old: "\<forall>x \<in> set rs. \<exists>y \<in> set (rg_enrollments s). row_evolves x y"
  shows "\<exists>m' \<in> set (rg_managed s1). mi_id m' = mi_id m \<and> mi_uuid m' = mi_uuid m \<and>
    (same_managed_identity m m' \<or> rotated_since rs s1 m)"
  using up
proof cases
  case (Control_done i r m0)
  then show ?thesis using identity_control_done [OF inv Control_done(2-6) Control_done(8) Control_done(1) m old] by blast
next
  case (Policy i read_only g)
  let ?w = "m\<lparr>mi_read_only := read_only, mi_state := (if read_only then ''paired_read_only'' else ''paired_write_enabled''),
        mi_generation := g, mi_updated := unix_seconds t\<rparr>"
  have "(if mi_id m = i then ?w else m) \<in> set (rg_managed s1)"
    using m by (simp add: Policy set_write_def set_update_where)
  then show ?thesis
    by (intro bexI [of _ "if mi_id m = i then ?w else m"]) (simp_all add: same_managed_identity_def)
qed (use m same_identity_refl in \<open>auto simp: bind_row_def finish_enrollment_def\<close>)

lemma identity_run:
  "registry_run sha cs s s' \<Longrightarrow> registry_inv s \<Longrightarrow> m \<in> set (rg_managed s) \<Longrightarrow>
    \<exists>m' \<in> set (rg_managed s'). mi_id m' = mi_id m \<and> mi_uuid m' = mi_uuid m \<and>
      (same_managed_identity m m' \<or> rotated_since (rg_enrollments s) s' m)"
proof (induction rule: registry_run.induct)
  case (Cons cs s s1 c s2)
  then obtain m1 where m1: "m1 \<in> set (rg_managed s1)" "mi_id m1 = mi_id m" "mi_uuid m1 = mi_uuid m"
    "same_managed_identity m m1 \<or> rotated_since (rg_enrollments s) s1 m" by blast
  have inv: "registry_inv s1" and ev: "rows_evolve (rg_enrollments s) (rg_enrollments s1)"
    using Cons registry_inv_run run_evolves by blast+
  have "\<exists>m2 \<in> set (rg_managed s2). mi_id m2 = mi_id m1 \<and> mi_uuid m2 = mi_uuid m1 \<and>
      (same_managed_identity m1 m2 \<or> rotated_since (rg_enrollments s) s2 m1)"
    using Cons(2)
  proof (cases rule: registry_step_cases)
    case (update t s0)
    then show ?thesis
      using identity_update [OF update(1) inv m1(1), of "rg_enrollments s"] ev
      by (simp add: rows_evolve_def rotated_since_def)
  qed (use m1 same_identity_refl in auto)
  moreover have "rotated_since (rg_enrollments s) s1 m \<Longrightarrow> rotated_since (rg_enrollments s) s2 m"
    using rotated_since_evolves step_evolves [OF Cons(2) inv] by blast
  ultimately obtain m2 where m2: "m2 \<in> set (rg_managed s2)" "mi_id m2 = mi_id m" "mi_uuid m2 = mi_uuid m"
      "same_managed_identity m1 m2 \<or> rotated_since (rg_enrollments s) s2 m"
    and keep: "rotated_since (rg_enrollments s) s1 m \<Longrightarrow> rotated_since (rg_enrollments s) s2 m"
    using m1(2,3) by (auto simp: rotated_since_def)
  then have "same_managed_identity m m2 \<or> rotated_since (rg_enrollments s) s2 m"
    using m1(4) same_identity_trans by blast
  then show ?case using m2 by blast
qed (use same_identity_refl in blast)

text \<open>C19: A paired server keeps its instance.  Whatever operations follow, a managed id stands for the same instance
  UUID, and no other id for it; and its credentials stay the ones it has, unless a rotation code bound to that very
  instance was claimed in between.\<close>

theorem paired_identity_kept:
  assumes "registry_run sha cs s s'" and "registry_inv s" and "m \<in> set (rg_managed s)"
  shows "\<exists>m' \<in> set (rg_managed s'). mi_id m' = mi_id m \<and> mi_uuid m' = mi_uuid m \<and>
    (\<forall>x \<in> set (rg_managed s'). mi_id x = mi_id m \<or> mi_uuid x = mi_uuid m \<longrightarrow> x = m') \<and>
    (same_managed_identity m m' \<or>
     (\<exists>r \<in> set (rg_enrollments s'). r \<notin> set (rg_enrollments s) \<and> en_action r = ActionRotate \<and> en_state r = StateClaimed \<and>
        en_managed_id r = mi_id m \<and> en_target r = mi_uuid m \<and> en_instance r = mi_uuid m))"
proof -
  obtain m' where m': "m' \<in> set (rg_managed s')" "mi_id m' = mi_id m" "mi_uuid m' = mi_uuid m"
    and cred: "same_managed_identity m m' \<or> rotated_since (rg_enrollments s) s' m"
    using identity_run [OF assms] by blast
  have d: "distinct (map mi_id (rg_managed s'))" "distinct (map mi_uuid (rg_managed s'))"
    using registry_inv_run [OF assms(1,2)] by (simp_all add: registry_inv_def instances_inv_def instances_def comp_def)
  have "x = m'" if "x \<in> set (rg_managed s')" "mi_id x = mi_id m \<or> mi_uuid x = mi_uuid m" for x
    using key_unique [OF d(1) that(1) m'(1)] key_unique [OF d(2) that(1) m'(1)] that(2) m' by auto
  then show ?thesis using m' cred unfolding rotated_since_def by blast
qed

text \<open>The generation counter.\<close>

definition generation_of :: "registry \<Rightarrow> nat" where
  "generation_of s = (case rg_meta s of None \<Rightarrow> 0 | Some m \<Rightarrow> rm_generation m)"

lemma update_meta: "registry_update sha t s s1 \<Longrightarrow> rg_meta s1 = rg_meta s"
  by (erule registry_update.cases) (simp_all add: bind_row_def finish_enrollment_def)

lemma step_generation:
  assumes "registry_step sha c s s'" and "rg_meta s \<noteq> None"
  shows "rg_meta s' \<noteq> None \<and> (s' = s \<or> generation_of s' = generation_of s + 1)"
  using assms(1)
proof (cases rule: registry_step_cases)
  case (update t s1)
  then show ?thesis using update_meta [OF update(1)] assms(2)
    by (auto simp: bump_generation_def generation_of_def)
qed (use assms(2) in \<open>auto simp: generation_of_def\<close>)

text \<open>The generation identifies the registry.  Along a run the generation never falls, every operation raises it
  by at most one, and two states of a run with the same generation are the same: a registry read twice at one
  generation holds the same codes, instances and host.\<close>

theorem generation_identifies_registry:
  assumes "registry_run sha cs s s'" and "rg_meta s \<noteq> None"
  shows "rg_meta s' \<noteq> None \<and> generation_of s \<le> generation_of s' \<and> (generation_of s' = generation_of s \<longrightarrow> s' = s)"
  using assms
proof (induction rule: registry_run.induct)
  case (Cons cs s s1 c s2)
  then show ?case using step_generation [of sha c s1 s2] by fastforce
qed simp

text \<open>A relay code that was never claimed keeps its server from being rotated.  The code is over for its holder, who
  is told that it expired, but no operation marks it expired: every attempt to issue a control code for the same
  managed id, a rotation of its credentials included, is refused as a conflict, at any later time.\<close>

theorem stale_relay_code_blocks_control:
  assumes "r \<in> set (rg_enrollments s)" and "en_purpose r = PurposeRelay" and "en_state r = StatePending"
    and "validate_enrollment_create e c = Inr u" and "ec_purpose c = PurposeControlAgent"
    and "ec_managed_id c = en_managed_id r" and "t < ec_expires_at c" and "\<And>p. \<not> flt e p"
  shows "create_enrollment e t c s = (Inl (wrapped ErrConflict ''managed instance already has a pending claim''), s)"
proof -
  let ?s0 = "expire_codes (unix_seconds t) (ec_managed_id c) s"
  have "\<not> code_over (unix_seconds t) (ec_managed_id c) r" using assms(2) by (simp add: code_over_def)
  then have "r \<in> set (rg_enrollments ?s0)"
    using assms(1) by (simp add: expire_codes_def set_update_where image_iff)
  then have "count_where (\<lambda>r. en_managed_id r = ec_managed_id c \<and> code_active r) (rg_enrollments ?s0) \<noteq> 0"
    using assms(3,6) by (auto simp: count_where_0 code_active_def)
  then have "control_enrollment_allowed e c ?s0 = Inl (wrapped ErrConflict ''managed instance already has a pending claim'')"
    using assms(8) by (simp add: control_enrollment_allowed_def)
  then show ?thesis using assms(4,5,7,8)
    by (simp add: create_enrollment_def mutate_def mutate_conditional_def create_enrollment_body_def transaction_def Let_def)
qed

section \<open>Operations that succeed\<close>

lemma mutate_conditional_ok:
  assumes "\<And>p. \<not> flt e p" and "op s = Inr ((ch, x), s1)"
  shows "mutate_conditional e t op s = (Inr x, if ch then bump_generation t s1 else s1)"
  using assms by (simp add: mutate_conditional_def transaction_def)

lemma mutate_ok:
  assumes "\<And>p. \<not> flt e p" and "op s = Inr (x, s1)"
  shows "mutate e t op s = (Inr x, bump_generation t s1)"
  unfolding mutate_def using mutate_conditional_ok [of e "\<lambda>s. ebind (op s) (\<lambda>(x, s1). Inr ((True, x), s1))" s True x s1] assms
  by simp

lemma create_pair_ok:
  assumes f: "\<And>p. \<not> flt e p" and "validate_enrollment_create e c = Inr ()" and "t < ec_expires_at c"
    and "ec_purpose c = PurposeControlAgent" and "ec_action c = ActionPair"
    and "ec_managed_id c \<notin> mi_id ` set (rg_managed s)" and "ec_id c \<notin> en_id ` set (rg_enrollments s)"
    and free: "\<forall>r \<in> set (rg_enrollments s). en_managed_id r = ec_managed_id c \<longrightarrow> \<not> code_active r"
  shows "create_enrollment e t c s = (Inr (new_enrollment t c),
    bump_generation t (add_enrollment (new_enrollment t c) (expire_codes (unix_seconds t) (ec_managed_id c) s)))"
proof -
  let ?s0 = "expire_codes (unix_seconds t) (ec_managed_id c) s"
  have "count_where (\<lambda>r. en_managed_id r = ec_managed_id c \<and> code_active r) (rg_enrollments ?s0) = 0"
    using free by (auto simp: count_where_0 expire_codes_def set_update_where code_active_def)
  moreover have "find (\<lambda>m. mi_id m = ec_managed_id c) (rg_managed s) = None" using assms(6) by (force simp: find_None_iff)
  ultimately have "control_enrollment_allowed e c ?s0 = Inr ()"
    using f assms(5) by (simp add: control_enrollment_allowed_def)
  then have "create_enrollment_body e t c s = Inr (new_enrollment t c, add_enrollment (new_enrollment t c) ?s0)"
    using f assms(4,7) by (simp add: create_enrollment_body_def insert_enrollment_def Let_def)
  from mutate_ok [of e "create_enrollment_body e t c" s, OF f this] show ?thesis using assms(2,3) by (simp add: create_enrollment_def)
qed

text \<open>A request whose form is right: the checks before the registry is read.\<close>

definition well_formed :: "(string \<Rightarrow> string) \<Rightarrow> env \<Rightarrow> claim_request \<Rightarrow> bool" where
  "well_formed sha e q \<longleftrightarrow> valid_claim_shape sha q = Inr () \<and> uuid_parses e (cq_enrollment q) \<and>
     (case cq_instance q of None \<Rightarrow> True | Some i \<Rightarrow> uuid_parses e i)"

lemma begin_claim_body_checks:
  assumes "\<And>p. \<not> flt e p" and "find (\<lambda>r. en_id r = cq_enrollment q) (rg_enrollments s) = Some r"
    and "claim_matches sha q r" and "secret_digest sha (cq_secret q) = Inr digest"
    and "en_state r \<noteq> StateRevoked" and "\<not> (en_state r = StateExpired \<or> (en_state r = StatePending \<and> unix_seconds t \<ge> en_expires r))"
  shows "begin_claim_body sha e t q digest s =
    (if en_state r = StatePending
     then check (count_where (\<lambda>x. en_id x = cq_enrollment q \<and> en_state x = StatePending) (rg_enrollments s) = 1) ErrConflict (
          Inr ((True, bound_row sha (unix_seconds t) q r, False), bind_row sha (unix_seconds t) q r s))
     else check (\<not> en_recovery_until r \<le> unix_seconds t) ErrRecoveryWindow (
          check (\<not> (en_request_digest r \<noteq> cq_request_digest q \<or> en_key_fingerprint r \<noteq> cq_key_fingerprint q \<or>
             en_csr_digest r \<noteq> sha_text sha (cq_csr q) \<or>
             en_instance r \<noteq> (case cq_instance q of None \<Rightarrow> [] | Some i \<Rightarrow> i))) ErrBinding (
          Inr ((False, r, True), s))))"
proof -
  have l: "load_enrollment e (Stmt 105) (cq_enrollment q) s = Inr r" using assms(1,2) by (simp add: load_enrollment_def)
  have d: "en_secret_digest r = digest" "en_purpose r = cq_purpose q" "en_action r = cq_action q"
    "en_config_digest r = cq_config_digest q" using assms(3,4) by (simp_all add: claim_matches_def)
  have tg: "\<not> (en_target r \<noteq> [] \<and> en_target r \<noteq> (case cq_instance q of None \<Rightarrow> [] | Some i \<Rightarrow> i))"
    using assms(3) by (auto simp: claim_matches_def)
  show ?thesis
    unfolding begin_claim_body_def l ebind_Inr Let_def bound_row_def bind_row_def
    using assms(1,5,6) d tg by (simp del: One_nat_def de_Morgan_conj)
qed

lemma begin_claim_as_body:
  assumes "\<And>p. \<not> flt e p" "well_formed sha e q" "secret_digest sha (cq_secret q) = Inr digest"
    and "begin_claim_body sha e t q digest s = Inr ((ch, x), s1)"
  shows "begin_claim sha e t q s = (Inr x, if ch then bump_generation t s1 else s1)"
  using mutate_conditional_ok [of e "begin_claim_body sha e t q digest" s, OF assms(1,4)] assms(2,3)
  by (cases "cq_instance q") (simp_all add: begin_claim_def well_formed_def)

lemma begin_claim_first:
  assumes f: "\<And>p. \<not> flt e p" and w: "well_formed sha e q" and d: "ids_distinct s"
    and r: "find (\<lambda>r. en_id r = cq_enrollment q) (rg_enrollments s) = Some r" "claim_matches sha q r"
      "en_state r = StatePending" "unix_seconds t < en_expires r"
  shows "begin_claim sha e t q s =
    (Inr (bound_row sha (unix_seconds t) q r, False), bump_generation t (bind_row sha (unix_seconds t) q r s))"
proof -
  obtain digest where g: "secret_digest sha (cq_secret q) = Inr digest" using r(2) by (simp add: claim_matches_def)
  have "count_where (\<lambda>x. en_id x = cq_enrollment q \<and> en_state x = StatePending) (rg_enrollments s) = 1"
    using count_key_with [of en_id "rg_enrollments s" r "\<lambda>x. en_state x = StatePending"] d r(3) found_row(1,2) [OF d r(1)]
    by (simp add: ids_distinct_def)
  then have "begin_claim_body sha e t q digest s =
      Inr ((True, bound_row sha (unix_seconds t) q r, False), bind_row sha (unix_seconds t) q r s)"
    using begin_claim_body_checks [OF f r(1,2) g, of t] r(3,4) by simp
  from begin_claim_as_body [OF f w g this] show ?thesis by simp
qed

lemma begin_claim_repeat:
  assumes f: "\<And>p. \<not> flt e p" and w: "well_formed sha e q"
    and r: "find (\<lambda>r. en_id r = cq_enrollment q) (rg_enrollments s) = Some r" "claim_matches sha q r"
      "en_state r = StateBound \<or> en_state r = StateClaimed" "unix_seconds t < en_recovery_until r" "bound_by sha q r"
  shows "begin_claim sha e t q s = (Inr (r, True), s)"
proof -
  obtain digest where g: "secret_digest sha (cq_secret q) = Inr digest" using r(2) by (simp add: claim_matches_def)
  have st: "en_state r \<noteq> StatePending" "en_state r \<noteq> StateRevoked" "en_state r \<noteq> StateExpired" using r(3) by auto
  then have "begin_claim_body sha e t q digest s = Inr ((False, r, True), s)"
    using begin_claim_body_checks [OF f r(1,2) g, of t] r(4,5) by (simp add: bound_by_def)
  from begin_claim_as_body [OF f w g this] show ?thesis by simp
qed

text \<open>What CompleteControlClaim wants of an instance.\<close>

definition complete_instance :: "managed_instance \<Rightarrow> bool" where
  "complete_instance m \<longleftrightarrow> mi_id m \<noteq> [] \<and> mi_uuid m \<noteq> [] \<and> mi_origin m \<noteq> [] \<and> mi_read_only m \<and> mi_state m = ''paired_read_only''"

lemma complete_control_first:
  assumes f: "\<And>p. \<not> flt e p" and m: "complete_instance m" and meta: "rg_meta s = Some meta"
    and r: "find (\<lambda>r. en_id r = i) (rg_enrollments s) = Some r" "en_purpose r = PurposeControlAgent" "en_state r = StateBound"
      "en_managed_id r = mi_id m" "en_instance r = mi_uuid m"
    and u: "\<forall>x \<in> set (rg_managed s). mi_uuid x = mi_uuid m \<longrightarrow> mi_id x = mi_id m"
  shows "complete_control_claim e t i m s = (Inr (managed_row (unix_seconds t) (rm_generation meta + 1) m),
    bump_generation t (finish_enrollment i (unix_seconds t) (put_managed (managed_row (unix_seconds t) (rm_generation meta + 1) m) s)))"
proof -
  let ?m = "managed_row (unix_seconds t) (rm_generation meta + 1) m"
  have "load_enrollment e (Stmt 105) i s = Inr r" using f r(1) by (simp add: load_enrollment_def)
  moreover have "upsert_managed ?m s = Inr (put_managed ?m s)" using u by (auto simp: upsert_managed_def list_ex_iff)
  ultimately have "complete_control_body e t i m s = Inr ((True, ?m), finish_enrollment i (unix_seconds t) (put_managed ?m s))"
    using f r meta by (simp add: complete_control_body_def Let_def)
  from mutate_conditional_ok [of e "complete_control_body e t i m" s, OF f this] show ?thesis using m by (simp add: complete_control_claim_def complete_instance_def)
qed

lemma complete_control_repeat:
  assumes f: "\<And>p. \<not> flt e p" and m: "complete_instance m"
    and r: "find (\<lambda>r. en_id r = i) (rg_enrollments s) = Some r" "en_purpose r = PurposeControlAgent" "en_state r = StateClaimed"
      "en_managed_id r = mi_id m" "en_instance r = mi_uuid m"
    and x: "find (\<lambda>x. mi_id x = mi_id m) (rg_managed s) = Some x" "same_managed_identity x m"
  shows "complete_control_claim e t i m s = (Inr x, s)"
proof -
  have "load_enrollment e (Stmt 105) i s = Inr r" "load_managed e (Stmt 107) (mi_id m) s = Inr x"
    using f r(1) x(1) by (simp_all add: load_enrollment_def load_managed_def)
  then have "complete_control_body e t i m s = Inr ((False, x), s)"
    using r x by (simp add: complete_control_body_def)
  from mutate_conditional_ok [of e "complete_control_body e t i m" s, OF f this] show ?thesis using m by (simp add: complete_control_claim_def complete_instance_def)
qed

text \<open>A free managed id, and a request and an instance that answer a code.\<close>

definition id_free :: "string \<Rightarrow> registry \<Rightarrow> bool" where
  "id_free i s \<longleftrightarrow> i \<notin> mi_id ` set (rg_managed s) \<and> (\<forall>r \<in> set (rg_enrollments s). en_managed_id r = i \<longrightarrow> \<not> code_active r)"

definition answers_code :: "(string \<Rightarrow> string) \<Rightarrow> enrollment_create \<Rightarrow> claim_request \<Rightarrow> managed_instance \<Rightarrow> bool" where
  "answers_code sha c q m \<longleftrightarrow> cq_enrollment q = ec_id c \<and> cq_purpose q = ec_purpose c \<and> cq_action q = ec_action c \<and>
     cq_config_digest q = ec_config_digest c \<and> secret_digest sha (cq_secret q) = Inr (ec_secret_digest c) \<and>
     complete_instance m \<and> mi_id m = ec_managed_id c \<and> cq_instance q = Some (mi_uuid m)"

lemma find_snoc_key: "i \<notin> k ` set xs \<Longrightarrow> k r = i \<Longrightarrow> find (\<lambda>x. k x = i) (xs @ [r]) = Some r"
  by (induction xs) auto

lemma find_update_key:
  assumes "find (\<lambda>x. k x = i) xs = Some r" "\<And>x. k (f x) = k x"
  shows "find (\<lambda>x. k x = i) (update_where P f xs) = Some (if P r then f r else r)"
  using assms(1) by (induction xs) (auto simp: assms(2) split: if_splits)

lemma put_managed_found:
  assumes "mi_id m \<notin> mi_id ` set (rg_managed s)"
  shows "find (\<lambda>x. mi_id x = mi_id m) (rg_managed (put_managed m s)) = Some (m\<lparr>mi_read_only := True\<rparr>)"
  using find_snoc_key [OF assms, of "m\<lparr>mi_read_only := True\<rparr>"] assms by (simp add: put_managed_def)

text \<open>The three states of a pairing: the code issued, the claim bound, the instance stored.\<close>

definition issued_state :: "int \<Rightarrow> enrollment_create \<Rightarrow> registry \<Rightarrow> registry" where
  "issued_state t c s = bump_generation t (add_enrollment (new_enrollment t c) (expire_codes (unix_seconds t) (ec_managed_id c) s))"

definition claimed_row :: "(string \<Rightarrow> string) \<Rightarrow> int \<Rightarrow> int \<Rightarrow> enrollment_create \<Rightarrow> claim_request \<Rightarrow> enrollment" where
  "claimed_row sha t t1 c q = bound_row sha (unix_seconds t1) q (new_enrollment t c)"

definition claimed_state :: "(string \<Rightarrow> string) \<Rightarrow> int \<Rightarrow> int \<Rightarrow> enrollment_create \<Rightarrow> claim_request \<Rightarrow> registry \<Rightarrow> registry" where
  "claimed_state sha t t1 c q s =
     bump_generation t1 (bind_row sha (unix_seconds t1) q (new_enrollment t c) (issued_state t c s))"

lemma issued_found:
  assumes "ec_id c \<notin> en_id ` set (rg_enrollments s)"
  shows "find (\<lambda>r. en_id r = ec_id c) (rg_enrollments (issued_state t c s)) = Some (new_enrollment t c)"
  using find_snoc_key [of "ec_id c" en_id "rg_enrollments (expire_codes (unix_seconds t) (ec_managed_id c) s)" "new_enrollment t c"] assms
  by (simp add: issued_state_def)

lemma claimed_found:
  assumes "ec_id c \<notin> en_id ` set (rg_enrollments s)" "cq_enrollment q = ec_id c"
  shows "find (\<lambda>r. en_id r = ec_id c) (rg_enrollments (claimed_state sha t t1 c q s)) = Some (claimed_row sha t t1 c q)"
  using find_update_key [OF issued_found [OF assms(1), of t]] assms(2)
  by (simp add: claimed_state_def bind_row_def claimed_row_def bound_row_def bind_enrollment_def)

lemma claimed_row_fields:
  "en_purpose (claimed_row sha t t1 c q) = ec_purpose c" "en_state (claimed_row sha t t1 c q) = StateBound"
  "en_managed_id (claimed_row sha t t1 c q) = ec_managed_id c"
  "en_instance (claimed_row sha t t1 c q) = (case cq_instance q of None \<Rightarrow> [] | Some i \<Rightarrow> i)"
  "bound_by sha q (claimed_row sha t t1 c q)" "en_target (claimed_row sha t t1 c q) = ec_target c"
  "claim_matches sha q (claimed_row sha t t1 c q) = claim_matches sha q (new_enrollment t c)"
  by (simp_all add: claimed_row_def bound_row_facts) (simp_all add: bound_row_def bind_enrollment_def)

lemma claim_matches_new:
  "answers_code sha c q m \<Longrightarrow> ec_target c = [] \<Longrightarrow> claim_matches sha q (new_enrollment t c)"
  by (simp add: answers_code_def claim_matches_def) (simp add: new_enrollment_def Let_def)

text \<open>C32: Pairing a server.  On a registry in order and without failures, a valid code for a free managed id is issued;
  a well-formed claim that shows its secret before the code expires is bound; completing it stores the instance,
  read-only, under the managed id; and while the recovery window is open, the server that lost the answer may repeat
  both steps: it gets the same binding and the stored instance, and the registry does not change.\<close>

theorem pairing_roundtrip:
  assumes "registry_inv s" and "rg_meta s = Some meta" and "\<And>p. \<not> flt e p"
    and "validate_enrollment_create e c = Inr ()" and "ec_purpose c = PurposeControlAgent" and "ec_action c = ActionPair"
    and "ec_target c = []" and "ec_id c \<notin> en_id ` set (rg_enrollments s)" and "id_free (ec_managed_id c) s"
    and "t < ec_expires_at c" and "well_formed sha e q" and "answers_code sha c q m"
    and "mi_uuid m \<notin> mi_uuid ` set (rg_managed s)" and "unix_seconds t1 < unix_seconds (ec_expires_at c)"
  shows "\<exists>r s1 b s2 x s3. create_enrollment e t c s = (Inr r, s1) \<and> begin_claim sha e t1 q s1 = (Inr (b, False), s2) \<and>
    complete_control_claim e t1 (ec_id c) m s2 = (Inr x, s3) \<and>
    (\<exists>y \<in> set (rg_managed s3). mi_id y = ec_managed_id c \<and> mi_uuid y = mi_uuid m \<and> mi_read_only y \<and> same_managed_identity y m) \<and>
    (\<forall>t2. unix_seconds t2 < en_recovery_until b \<longrightarrow>
       (\<exists>b' y. begin_claim sha e t2 q s3 = (Inr (b', True), s3) \<and> claim_binding b' = claim_binding b \<and>
          complete_control_claim e t2 (ec_id c) m s3 = (Inr y, s3) \<and> same_managed_identity y m))"
proof -
  let ?s1 = "issued_state t c s" and ?r = "new_enrollment t c"
  let ?s2 = "claimed_state sha t t1 c q s" and ?b = "claimed_row sha t t1 c q"
  have ids: "cq_enrollment q = ec_id c" and mi: "complete_instance m" "mi_id m = ec_managed_id c" "cq_instance q = Some (mi_uuid m)"
    using assms(12) by (simp_all add: answers_code_def)
  have d: "ids_distinct s" using assms(1) by (simp add: registry_inv_def)
  then have d1: "ids_distinct ?s1" using assms(8) by (simp add: issued_state_def add_ids)
  have create: "create_enrollment e t c s = (Inr ?r, ?s1)"
    using create_pair_ok [OF assms(3,4,10,5,6)] assms(8,9) by (simp add: issued_state_def id_free_def)
  note cm = claim_matches_new [OF assms(12,7), of t]
  have exp: "en_expires ?r = unix_seconds (ec_expires_at c)" by (simp add: new_enrollment_def Let_def)
  have claim: "begin_claim sha e t1 q ?s1 = (Inr (?b, False), ?s2)"
    using begin_claim_first [OF assms(3,11) d1 _ cm, of t1] issued_found [OF assms(8), of t] ids assms(14) exp
    by (simp add: claimed_row_def claimed_state_def)
  obtain meta2 where meta2: "rg_meta ?s2 = Some meta2"
    using assms(2) by (simp add: claimed_state_def issued_state_def bump_generation_def bind_row_def)
  note found = claimed_found [OF assms(8) ids, of sha t t1]
  have man: "rg_managed ?s2 = rg_managed s" by (simp add: claimed_state_def issued_state_def bind_row_def)
  let ?m = "managed_row (unix_seconds t1) (rm_generation meta2 + 1) m"
  let ?s3 = "bump_generation t1 (finish_enrollment (ec_id c) (unix_seconds t1) (put_managed ?m ?s2))"
  have new: "\<forall>x \<in> set (rg_managed s). mi_uuid x \<noteq> mi_uuid m" using assms(13) by (metis imageI)
  have complete: "complete_control_claim e t1 (ec_id c) m ?s2 = (Inr ?m, ?s3)"
    by (rule complete_control_first [OF assms(3) mi(1) meta2 found])
      (use assms(5) mi man new in \<open>simp_all add: claimed_row_fields\<close>)
  let ?c = "?b\<lparr>en_state := StateClaimed, en_updated := unix_seconds t1\<rparr>" and ?y = "?m\<lparr>mi_read_only := True\<rparr>"
  have "en_id ?b = ec_id c" using find_SomeD [OF found] by simp
  then have found3: "find (\<lambda>r. en_id r = ec_id c) (rg_enrollments ?s3) = Some ?c"
    using find_update_key [OF found] by (simp add: finish_enrollment_def)
  have "mi_id ?m \<notin> mi_id ` set (rg_managed ?s2)" using assms(9) man mi(2) by (simp add: id_free_def)
  from put_managed_found [OF this] have y: "find (\<lambda>x. mi_id x = mi_id m) (rg_managed ?s3) = Some ?y"
    by (simp add: finish_enrollment_def)
  have same: "same_managed_identity ?y m" by (simp add: same_managed_identity_def managed_row_def)
  have again: "begin_claim sha e t2 q ?s3 = (Inr (?c, True), ?s3)" if "unix_seconds t2 < en_recovery_until ?b" for t2
    using begin_claim_repeat [OF assms(3,11), of ?s3 ?c t2] found3 ids cm that claimed_row_fields(5,7) [of sha q t t1 c]
    by (simp add: claim_matches_def bound_by_def)
  have redo: "complete_control_claim e t2 (ec_id c) m ?s3 = (Inr ?y, ?s3)" for t2
    by (rule complete_control_repeat [OF assms(3) mi(1) found3 _ _ _ _ y same])
      (use assms(5) mi in \<open>simp_all add: claimed_row_fields\<close>)
  have "?y \<in> set (rg_managed ?s3)" "mi_id ?y = ec_managed_id c" using find_SomeD [OF y] mi(2) by simp_all
  moreover have "claim_binding ?c = claim_binding ?b" by (simp add: claim_binding_def)
  ultimately show ?thesis using create claim complete again redo same by (fastforce intro: bexI [of _ ?y])
qed

section \<open>An example run\<close>

definition zero_sha :: "string \<Rightarrow> string" where "zero_sha = (\<lambda>_. replicate 32 (CHR 0x00))"
definition zero_digest :: string where "zero_digest = sha_text zero_sha []"
definition zero_secret :: string where "zero_secret = b64_encode url_alphabet False (replicate 32 (CHR 0x00))"

definition pairing_env :: env where
  "pairing_env = \<lparr>flt = no_faults, now = 0, uuid_parses = (\<lambda>_. True), uuid_new = []\<rparr>"

definition example_code :: "string \<Rightarrow> string \<Rightarrow> string \<Rightarrow> enrollment_create" where
  "example_code i act target = \<lparr>ec_id = i, ec_purpose = PurposeControlAgent, ec_action = act, ec_managed_id = ''m'', ec_name = ''n'',
     ec_origin_id = ''o'', ec_origin = ''https'', ec_tls_name = ''tls'', ec_target = target, ec_config_digest = zero_digest,
     ec_secret_digest = zero_digest, ec_expires_at = 900 * second, ec_recovery_ttl = 600 * second, ec_relay_spec = []\<rparr>"

definition example_claim :: "string \<Rightarrow> string \<Rightarrow> claim_request" where
  "example_claim i act = \<lparr>cq_version = 1, cq_purpose = PurposeControlAgent, cq_action = act, cq_enrollment = i,
     cq_config_digest = zero_digest, cq_secret = zero_secret, cq_request_digest = zero_digest,
     cq_key_fingerprint = zero_digest, cq_csr = ''csr'', cq_instance = Some ''u''\<rparr>"

definition example_instance :: "string \<Rightarrow> managed_instance" where
  "example_instance cert = \<lparr>mi_id = ''m'', mi_name = ''n'', mi_uuid = ''u'', mi_origin = ''https'', mi_tls_name = ''tls'',
     mi_ca_file = [], mi_client_cert = [], mi_client_key = [], mi_control_key = [], mi_control_key_id = [], mi_issuer = [],
     mi_party = [], mi_cert_sha = cert, mi_key_sha = [], mi_read_only = True, mi_state = ''paired_read_only'',
     mi_generation = 0, mi_created = 0, mi_updated = 0\<rparr>"

definition example_registry :: registry where
  "example_registry = fresh_registry 0 ''h'' ''i''
     \<lparr>rg_tables = False, rg_foreign = False, rg_meta = None, rg_enrollments = [], rg_managed = []\<rparr>"

lemma zero_digest_value: "zero_digest = ''sha256:'' @ replicate 64 (CHR ''0'')"
  by code_simp

lemma example_secret: "secret_digest zero_sha zero_secret = Inr zero_digest"
  by code_simp

lemma example_shape: "valid_sha256 zero_digest"
  by code_simp

lemma zero_sha_text [simp]: "sha_text zero_sha x = zero_digest"
  by (simp add: sha_text_def zero_sha_def zero_digest_def)

lemma pairing_env_simps [simp]: "\<not> flt pairing_env p" "uuid_parses pairing_env i"
  by (simp_all add: pairing_env_def)

lemma trim_u: "trim_space ''u'' = ''u''"
  by code_simp

lemma example_claim_ok: "well_formed zero_sha pairing_env (example_claim ''e'' ActionPair)"
  by (simp add: well_formed_def valid_claim_shape_def example_claim_def valid_purpose_action_def example_shape
      example_secret trim_u expected_request_digest_def Let_def)

lemma example_code_ok: "validate_enrollment_create pairing_env (example_code ''e'' ActionPair []) = Inr ()"
  by (simp add: validate_enrollment_create_def example_code_def valid_purpose_action_def example_shape unix_seconds_def second_def)

lemma example_registry_simps:
  "registry_inv example_registry" "rg_enrollments example_registry = []" "rg_managed example_registry = []"
  "rg_meta example_registry \<noteq> None"
  by (simp_all add: example_registry_def) (simp_all add: fresh_registry_def)

lemma example_answers: "answers_code zero_sha (example_code ''e'' ActionPair []) (example_claim ''e'' ActionPair) (example_instance x)"
  by (simp add: answers_code_def example_code_def example_claim_def example_secret complete_instance_def example_instance_def)

lemma example_times: "0 < ec_expires_at (example_code i a g)" "unix_seconds second = 1"
  "unix_seconds (ec_expires_at (example_code i a g)) = 900"
  by (simp_all add: example_code_def unix_seconds_def second_def)

lemma pairing_roundtrip_witness:
  "\<exists>r s1 b s2 x s3. create_enrollment pairing_env 0 (example_code ''e'' ActionPair []) example_registry = (Inr r, s1) \<and>
    begin_claim zero_sha pairing_env second (example_claim ''e'' ActionPair) s1 = (Inr (b, False), s2) \<and>
    complete_control_claim pairing_env second ''e'' (example_instance ''cert'') s2 = (Inr x, s3) \<and>
    (\<exists>y \<in> set (rg_managed s3). mi_id y = ''m'' \<and> mi_uuid y = ''u'' \<and> mi_read_only y)"
proof -
  obtain meta where meta: "rg_meta example_registry = Some meta" using example_registry_simps(4) by blast
  have f: "ec_purpose (example_code ''e'' ActionPair []) = PurposeControlAgent" "ec_action (example_code ''e'' ActionPair []) = ActionPair"
    "ec_target (example_code ''e'' ActionPair []) = []" "ec_id (example_code ''e'' ActionPair []) = ''e''"
    "ec_managed_id (example_code ''e'' ActionPair []) = ''m''" "mi_uuid (example_instance ''cert'') = ''u''"
    by (simp_all add: example_code_def example_instance_def)
  have t: "unix_seconds second < unix_seconds (ec_expires_at (example_code ''e'' ActionPair []))" by (simp add: example_times)
  show ?thesis
    using pairing_roundtrip [OF example_registry_simps(1) meta pairing_env_simps(1) example_code_ok f(1,2,3) _ _
      example_times(1) example_claim_ok example_answers _ t, of "''cert''"]
    by (simp add: example_registry_simps id_free_def f) blast
qed

text \<open>The states of the example: the code issued, claimed, and the instance stored.\<close>

abbreviation "code0 \<equiv> example_code ''e'' ActionPair []"
abbreviation "claim0 \<equiv> example_claim ''e'' ActionPair"
definition example_issued :: registry where "example_issued = issued_state 0 code0 example_registry"
definition example_claimed :: registry where "example_claimed = claimed_state zero_sha 0 second code0 claim0 example_registry"
definition example_row :: enrollment where "example_row = claimed_row zero_sha 0 second code0 claim0"

definition example_log :: "answered_claim list" where
  "example_log = [\<lparr>an_enrollment = example_row, an_request = claim0, an_time = second, an_repeated = True\<rparr>,
     \<lparr>an_enrollment = example_row, an_request = claim0, an_time = second, an_repeated = False\<rparr>]"

lemma example_ids: "ec_id code0 = ''e''" "cq_enrollment claim0 = ''e''" "ec_target code0 = []"
  by (simp_all add: example_code_def example_claim_def)

lemma example_create: "create_enrollment pairing_env 0 code0 example_registry = (Inr (new_enrollment 0 code0), example_issued)"
  using create_pair_ok [OF pairing_env_simps(1) example_code_ok example_times(1), of example_registry]
  by (simp add: example_issued_def issued_state_def example_registry_simps) (simp add: example_code_def)

lemma example_matches: "claim_matches zero_sha claim0 (new_enrollment t code0)"
  by (rule claim_matches_new [OF example_answers]) (simp add: example_code_def)

lemma example_issued_ids: "ids_distinct example_issued"
  by (simp add: example_issued_def issued_state_def ids_distinct_def expire_codes_def example_registry_simps)

lemma example_expires: "en_expires (new_enrollment 0 code0) = 900" "en_recovery_until example_row = 601"
  by (simp_all add: example_row_def claimed_row_def bound_row_def bind_enrollment_def new_enrollment_def Let_def example_times)
    (simp_all add: example_code_def second_def)

lemma example_found: "find (\<lambda>r. en_id r = ''e'') (rg_enrollments example_issued) = Some (new_enrollment 0 code0)"
  "find (\<lambda>r. en_id r = ''e'') (rg_enrollments example_claimed) = Some example_row"
  using issued_found [of code0 example_registry 0] claimed_found [of code0 example_registry claim0 zero_sha 0 second]
  by (simp_all add: example_issued_def example_claimed_def example_row_def example_registry_simps example_ids)

lemma example_bind: "begin_claim zero_sha pairing_env second claim0 example_issued = (Inr (example_row, False), example_claimed)"
  using begin_claim_first [OF pairing_env_simps(1) example_claim_ok example_issued_ids _ example_matches, of 0 second] example_found(1)
  by (simp add: example_ids example_times example_expires example_row_def claimed_row_def example_claimed_def claimed_state_def
      example_issued_def)

lemma example_again: "begin_claim zero_sha pairing_env second claim0 example_claimed = (Inr (example_row, True), example_claimed)"
  using begin_claim_repeat [OF pairing_env_simps(1) example_claim_ok, of example_claimed example_row second] example_found(2)
    claimed_row_fields(2,5,7) [where t = 0 and ?t1.0 = second and c = code0 and q = claim0 and sha = zero_sha] example_matches [of 0]
  by (simp add: example_ids example_times example_expires example_row_def [symmetric])

lemma example_run: "registry_run zero_sha example_log example_registry example_claimed"
proof -
  have "registry_step zero_sha [] example_registry example_issued"
    using registry_step.Create [of zero_sha example_registry pairing_env 0 code0] example_create by simp
  then have "registry_run zero_sha [] example_registry example_issued"
    using registry_run.Cons [OF registry_run.Nil] by fastforce
  from registry_run.Cons [OF this registry_step.Claim [OF example_bind]]
  have "registry_run zero_sha (answered second claim0 (Inr (example_row, False))) example_registry example_claimed" by simp
  from registry_run.Cons [OF this registry_step.Claim [OF example_again]]
  show ?thesis by (simp add: example_log_def answered_def)
qed

lemma pairing_code_claimed_once_witness:
  "length (filter (\<lambda>a. en_id (an_enrollment a) = ''e'' \<and> \<not> an_repeated a) example_log) = 1 \<and> length example_log = 2 \<and>
    en_recovery_until (an_enrollment (example_log ! 0)) = 601"
  using pairing_code_claimed_once [OF example_run example_registry_simps(1), of "''e''"] find_SomeD [OF example_found(2)]
  by (simp add: example_log_def example_expires)

lemma example_first_step: "registry_run zero_sha [] example_registry example_issued"
  using registry_run.Cons [OF registry_run.Nil registry_step.Create [of zero_sha example_registry pairing_env 0 code0]] example_create
  by simp

lemma example_later: "registry_run zero_sha (answered second claim0 (Inr (example_row, False))) example_issued example_claimed"
  using registry_run.Cons [OF registry_run.Nil registry_step.Claim [OF example_bind]] by simp

lemma enrollment_life_witness:
  "\<exists>r' \<in> set (rg_enrollments example_claimed). code_terms r' = code_terms (new_enrollment 0 code0)"
  using enrollment_life [OF example_later registry_inv_run [OF example_first_step example_registry_simps(1)],
      of "new_enrollment 0 code0"] find_SomeD [OF example_found(1)] by blast

lemma generation_identifies_registry_witness:
  "generation_of example_registry \<le> generation_of example_claimed"
  using generation_identifies_registry [OF example_run example_registry_simps(4)] by blast

definition example_pending_relay :: registry where
  "example_pending_relay = add_enrollment (new_enrollment 0 (code0\<lparr>ec_purpose := PurposeRelay, ec_action := ActionEnroll\<rparr>)) example_registry"

lemma stale_relay_code_blocks_control_witness:
  "create_enrollment pairing_env second (example_code ''f'' ActionRotate ''u'') example_pending_relay =
    (Inl (wrapped ErrConflict ''managed instance already has a pending claim''), example_pending_relay)"
proof (rule stale_relay_code_blocks_control [OF _ _ _ _ _ _ _ pairing_env_simps(1)])
  let ?r = "new_enrollment 0 (code0\<lparr>ec_purpose := PurposeRelay, ec_action := ActionEnroll\<rparr>)"
  show "?r \<in> set (rg_enrollments example_pending_relay)" "en_purpose ?r = PurposeRelay" "en_state ?r = StatePending"
    by (simp_all add: example_pending_relay_def)
  show "validate_enrollment_create pairing_env (example_code ''f'' ActionRotate ''u'') = Inr ()"
    by (simp add: validate_enrollment_create_def example_code_def valid_purpose_action_def example_shape unix_seconds_def second_def)
  show "ec_managed_id (example_code ''f'' ActionRotate ''u'') = en_managed_id ?r" by (simp add: example_code_def)
qed (simp_all add: example_code_def second_def)

definition example_paired :: registry where
  "example_paired = example_registry\<lparr>rg_enrollments := [(new_enrollment 0 code0)\<lparr>en_state := StateClaimed, en_instance := ''u''\<rparr>],
     rg_managed := [example_instance ''cert'']\<rparr>"

lemma example_paired_inv: "registry_inv example_paired" "example_instance ''cert'' \<in> set (rg_managed example_paired)"
  by (simp_all add: registry_inv_def ids_distinct_def instances_inv_def open_codes_inv_def bound_target_inv_def
      provenance_inv_def instances_def example_paired_def control_active_def code_active_def)
    (simp_all add: example_instance_def example_code_def)

lemma paired_identity_kept_witness:
  "\<exists>m' \<in> set (rg_managed (snd (set_managed_read_only pairing_env second ''m'' False example_paired))).
    mi_id m' = ''m'' \<and> mi_uuid m' = ''u''"
  using paired_identity_kept [OF registry_run.Cons [OF registry_run.Nil registry_step.Write
        [of zero_sha example_paired pairing_env second "''m''" False]] example_paired_inv]
  by (fastforce simp: example_instance_def)

text \<open>C17: The registry stays in order.  In every registry that a run reaches from a fresh one: enrollment ids, managed
  ids and instance UUIDs are unique; a managed id has at most one open control code; an open pair or adopt code
  stands for an id that is not managed yet, an open rotation names the instance that is; and every managed instance
  was put there by a claimed control code that names it.\<close>

theorem registry_in_order:
  assumes "registry_run sha cs (fresh_registry t host installation s0) s"
  shows "distinct (map en_id (rg_enrollments s)) \<and> distinct (map mi_id (rg_managed s)) \<and> distinct (map mi_uuid (rg_managed s)) \<and>
    (\<forall>r \<in> set (rg_enrollments s). en_purpose r = PurposeControlAgent \<and> code_active r \<longrightarrow>
       (if en_action r = ActionRotate then \<exists>m \<in> set (rg_managed s). mi_id m = en_managed_id r \<and> mi_uuid m = en_target r
        else en_managed_id r \<notin> mi_id ` set (rg_managed s)) \<and>
       (\<forall>r2 \<in> set (rg_enrollments s). en_purpose r2 = PurposeControlAgent \<and> code_active r2 \<and>
          en_managed_id r2 = en_managed_id r \<longrightarrow> r2 = r)) \<and>
    (\<forall>m \<in> set (rg_managed s). \<exists>r \<in> set (rg_enrollments s). en_purpose r = PurposeControlAgent \<and> en_state r = StateClaimed \<and>
       en_managed_id r = mi_id m \<and> en_instance r = mi_uuid m)"
proof -
  have inv: "registry_inv s" using registry_inv_run [OF assms] by simp
  have "distinct (map en_id (rg_enrollments s))" "distinct (map mi_id (rg_managed s))" "distinct (map mi_uuid (rg_managed s))"
    using inv by (simp_all add: registry_inv_def ids_distinct_def instances_inv_def instances_def comp_def)
  moreover have "(if en_action r = ActionRotate then \<exists>m \<in> set (rg_managed s). mi_id m = en_managed_id r \<and> mi_uuid m = en_target r
        else en_managed_id r \<notin> mi_id ` set (rg_managed s)) \<and>
       (\<forall>r2 \<in> set (rg_enrollments s). en_purpose r2 = PurposeControlAgent \<and> code_active r2 \<and>
          en_managed_id r2 = en_managed_id r \<longrightarrow> r2 = r)"
    if "r \<in> set (rg_enrollments s)" "en_purpose r = PurposeControlAgent \<and> code_active r" for r
  proof -
    have "code_fits (instances s) r" "\<forall>r2 \<in> set (rg_enrollments s). control_active r2 \<and> en_managed_id r2 = en_managed_id r \<longrightarrow> r2 = r"
      using inv that by (auto simp: registry_inv_def open_codes_inv_def control_active_def)
    then show ?thesis by (auto simp: code_fits_def instances_def control_active_def image_image split: if_splits)
  qed
  moreover have "\<exists>r \<in> set (rg_enrollments s). en_purpose r = PurposeControlAgent \<and> en_state r = StateClaimed \<and>
       en_managed_id r = mi_id m \<and> en_instance r = mi_uuid m" if "m \<in> set (rg_managed s)" for m
    using inv that by (auto simp: registry_inv_def provenance_inv_def instances_def)
  ultimately show ?thesis by blast
qed

lemma registry_in_order_witness:
  "distinct (map en_id (rg_enrollments example_claimed)) \<and> example_row \<in> set (rg_enrollments example_claimed)"
  using registry_in_order [OF example_run [unfolded example_registry_def]] find_SomeD [OF example_found(2)] by blast

text \<open>A registry belongs to a host.  It opens on the host whose fingerprint it stores, and on any other is refused
  as a clone, unchanged; adopting it takes its installation id, keeps every code and instance, and from then on it
  opens on the new host only.\<close>

lemma registry_bound_to_host:
  assumes "\<And>p. \<not> flt e p" and "rg_tables s" and "rg_meta s = Some m" and "rm_schema m = SchemaVersion"
    and "uuid_parses e (rm_installation m)"
  shows "initialize e t host s = (if rm_host m = host then Inr () else
      Inl (wrapped ErrIdentityClone ''installation must be explicitly adopted''), s) \<and>
    (\<forall>expected. expected \<noteq> rm_installation m \<longrightarrow> (\<exists>er. adopt_host e t expected (Inr new_host) s = (Inl er, s))) \<and>
    (\<exists>s1. adopt_host e t (rm_installation m) (Inr new_host) s = (Inr (), s1) \<and>
       rg_enrollments s1 = rg_enrollments s \<and> rg_managed s1 = rg_managed s \<and> generation_of s1 = generation_of s + 1 \<and>
       (\<forall>h. initialize e t1 h s1 = (if h = new_host then Inr () else
          Inl (wrapped ErrIdentityClone ''installation must be explicitly adopted''), s1)))"
  using assms
  by (auto simp: initialize_def validate_existing_def registry_metadata_def adopt_host_def adopt_host_body_def generation_of_def check_def)

lemma registry_bound_to_host_witness:
  "fst (initialize pairing_env 0 ''h'' example_registry) = Inr () \<and>
    fst (initialize pairing_env 0 ''other'' example_registry) = Inl (wrapped ErrIdentityClone ''installation must be explicitly adopted'')"
proof -
  have m: "rg_tables example_registry"
    "rg_meta example_registry = Some \<lparr>rm_schema = SchemaVersion, rm_generation = 1, rm_installation = ''i'', rm_host = ''h'', rm_updated = 0\<rparr>"
    by (simp_all add: example_registry_def fresh_registry_def unix_seconds_def)
  show ?thesis
    using registry_bound_to_host [OF pairing_env_simps(1) m _ pairing_env_simps(2), of 0 "''h''" "''n''" 0]
      registry_bound_to_host [OF pairing_env_simps(1) m _ pairing_env_simps(2), of 0 "''other''" "''n''" 0]
    by simp
qed

end
