(* ===== verification/Listing.thy ===== *)
theory Listing
  imports Prelude "HOL-Library.Word"
begin

text \<open>
  Pages and date ranges of listings (\<open>src/service/service.go\<close>, \<open>src/service/date_range.go\<close>).  A page number
  and a page size are 64-bit unsigned numbers of the request; the offset and the limit given to the database are
  signed.  Times are nanoseconds, as in the rest of the model; reading RFC 3339 is an argument.
\<close>

section \<open>Pages\<close>

definition MaxPageSize :: "64 word" where "MaxPageSize = 1000"

definition page_size_of :: "64 word \<Rightarrow> 64 word" where
  "page_size_of n = (let n1 = (if n = 0 then 10 else n) in if n1 > MaxPageSize then MaxPageSize else n1)"

text \<open>Paginate: None stands for the condition \<open>1 = 0\<close>; otherwise the offset, and always the limit.\<close>

definition maximum_int :: "64 word" where "maximum_int = drop_bit 1 (- 1)"

definition paginate :: "64 word \<Rightarrow> 64 word \<Rightarrow> int option \<times> int" where
  "paginate page page_size =
     (let page_index = (if page = 0 then 1 else page) - 1; sz = page_size_of page_size
      in if page_index > maximum_int div sz then (None, sint sz) else (Some (sint (page_index * sz)), sint sz))"

text \<open>What the database returns for it: a negative offset or limit would be ignored.\<close>

definition page_rows :: "64 word \<Rightarrow> 64 word \<Rightarrow> 'a list \<Rightarrow> 'a list" where
  "page_rows page page_size rows =
     (case paginate page page_size of
        (None, _) \<Rightarrow> []
      | (Some offset, limit) \<Rightarrow>
          let rest = (if offset < 0 then rows else drop (nat offset) rows)
          in if limit < 0 then rest else take (nat limit) rest)"

text \<open>The same numbers without a width: a page number of 0 counts as 1, a size of 0 as 10 and one over 1000 as 1000.\<close>

definition page_number :: "64 word \<Rightarrow> nat" where
  "page_number page = (if page = 0 then 0 else unat page - 1)"

definition page_length :: "64 word \<Rightarrow> nat" where
  "page_length n = (if n = 0 then 10 else min 1000 (unat n))"

lemma page_size_of_length: "unat (page_size_of n) = page_length n"
proof -
  have "unat (1000 :: 64 word) = 1000" by simp
  then show ?thesis
    by (auto simp: page_size_of_def page_length_def MaxPageSize_def Let_def word_less_nat_alt)
qed

lemma page_length_bounds: "0 < page_length n" "page_length n \<le> 1000"
  by (auto simp: page_length_def unat_gt_0)

lemma unat_maximum_int: "unat maximum_int = 2 ^ 63 - 1"
proof -
  have m: "maximum_int = 9223372036854775807" by (simp add: maximum_int_def mask_eq_exp_minus_1)
  show ?thesis unfolding m by simp
qed

lemma sint_small:
  fixes w :: "64 word"
  assumes "unat w < 2 ^ 63"
  shows "sint w = int (unat w)"
proof -
  have "uint w < 2 ^ 63" using assms by (metis of_nat_less_iff of_nat_numeral of_nat_power of_nat_unat)
  then have "signed_take_bit 63 (uint w) = uint w" using uint_ge_0 [of w] by (intro signed_take_bit_int_eq_self) linarith+
  then show ?thesis by (simp add: sint_uint)
qed

text \<open>Offsets never wrap: the test before the multiplication keeps them in the signed range.\<close>

lemma offset_exact:
  assumes "\<not> page_index > maximum_int div sz"
  shows "unat page_index * unat sz < 2 ^ 63" "unat (page_index * sz) = unat page_index * unat sz"
proof -
  have "unat page_index \<le> (2 ^ 63 - 1) div unat sz"
    using assms by (simp add: word_less_nat_alt not_less unat_div unat_maximum_int)
  then have "unat page_index * unat sz \<le> (2 ^ 63 - 1) div unat sz * unat sz" by simp
  also have "\<dots> \<le> 2 ^ 63 - 1" by simp
  finally show less: "unat page_index * unat sz < 2 ^ 63" by simp
  then have "unat page_index * unat sz < 2 ^ LENGTH(64)" by simp
  then show "unat (page_index * sz) = unat page_index * unat sz" by (simp only: unat_mult_lem)
qed

lemma offset_too_far:
  assumes "page_index > maximum_int div sz" and "0 < unat sz"
  shows "2 ^ 63 \<le> unat page_index * unat sz"
proof -
  have "(2 ^ 63 - 1) div unat sz < unat page_index" using assms(1) by (simp add: word_less_nat_alt unat_div unat_maximum_int)
  then have "2 ^ 63 - 1 < unat page_index * unat sz" using assms(2) by (simp add: div_less_iff_less_mult)
  then show ?thesis by simp
qed

lemma page_index: "unat ((if page = 0 then 1 else page) - 1) = page_number page"
proof (cases "page = 0")
  case False
  then have "1 \<le> page" by (simp add: word_le_nat_alt unat_gt_0 Suc_le_eq)
  then show ?thesis using False by (simp add: page_number_def unat_sub)
qed (simp add: page_number_def)

lemma paginate_exact:
  "paginate page n = ((if page_number page * page_length n < 2 ^ 63 then Some (int (page_number page * page_length n)) else None),
     int (page_length n))"
proof -
  let ?i = "(if page = 0 then 1 else page) - 1" and ?s = "page_size_of n"
  have s: "sint ?s = int (page_length n)"
    using sint_small [of ?s] page_length_bounds [of n] by (simp add: page_size_of_length del: of_nat_unat)
  show ?thesis
  proof (cases "?i > maximum_int div ?s")
    case True
    then have "\<not> page_number page * page_length n < 2 ^ 63"
      using offset_too_far [OF True] page_length_bounds(1) [of n] page_index [of page] by (simp only: page_size_of_length not_less)
    then show ?thesis using True s by (simp add: paginate_def Let_def)
  next
    case False
    note e = offset_exact [OF False, unfolded page_index page_size_of_length]
    then have "sint (?i * ?s) = int (page_number page * page_length n)" using sint_small [of "?i * ?s"] by (simp only:)
    then show ?thesis using False s e(1) by (simp add: paginate_def Let_def)
  qed
qed

lemma page_rows_exact:
  assumes "length rows < 2 ^ 63"
  shows "page_rows page n rows = take (page_length n) (drop (page_number page * page_length n) rows)"
proof (cases "page_number page * page_length n < 2 ^ 63")
  case True
  then show ?thesis by (simp add: page_rows_def paginate_exact Let_def del: of_nat_mult)
next
  case False
  then have "drop (page_number page * page_length n) rows = []" using assms by simp
  then show ?thesis using False by (simp add: page_rows_def paginate_exact)
qed

text \<open>C40: Pages cover a listing.  For every 64-bit page number and size, whatever a request sends, the rows a page
  returns are the ones that page of the listing has, where a page number of 0 counts as 1, a size of 0 as 10 and a size
  over 1000 as 1000.  The offset given to the database never wraps around or turns negative, the limit lies between 1
  and 1000, and successive pages from the first are the listing from its start, without a gap or an overlap.\<close>

theorem pages_cover_listing:
  assumes "length rows < 2 ^ 63"
  shows "page_rows page n rows = take (page_length n) (drop (page_number page * page_length n) rows) \<and>
    snd (paginate page n) \<in> {1..1000} \<and> fst (paginate page n) \<in> insert None (Some ` {0..<2 ^ 63}) \<and>
    concat (map (\<lambda>k. page_rows (of_nat (Suc k)) n rows) [0..<unat page]) = take (unat page * page_length n) rows"
proof -
  have "concat (map (\<lambda>k. page_rows (of_nat (Suc k)) n rows) [0..<m]) = take (m * page_length n) rows" if "m \<le> unat page" for m
    using that
  proof (induction m)
    case (Suc m)
    have "Suc m < 2 ^ LENGTH(64)" using Suc.prems unsigned_less [of page] by (metis le_less_trans)
    then have u: "unat (of_nat (Suc m) :: 64 word) = Suc m" by (rule of_nat_inverse [OF refl])
    then have "(of_nat (Suc m) :: 64 word) \<noteq> 0" by (metis unat_0 nat.distinct(1))
    then have "page_number (of_nat (Suc m) :: 64 word) = m" using u by (simp add: page_number_def)
    then have "page_rows (of_nat (Suc m)) n rows = take (page_length n) (drop (m * page_length n) rows)"
      using page_rows_exact [OF assms, of "of_nat (Suc m)" n] by (simp only:)
    moreover have "take (Suc m * page_length n) rows = take (m * page_length n) rows @ take (page_length n) (drop (m * page_length n) rows)"
      by (metis take_add add.commute mult_Suc)
    ultimately show ?case using Suc by (simp only: upt_Suc map_append concat_append) simp
  qed simp
  then show ?thesis
    using page_rows_exact [OF assms] page_length_bounds [of n] by (auto simp: paginate_exact simp del: of_nat_mult)
qed

lemma pages_cover_listing_witness:
  "page_rows 2 2 [1, 2, 3, 4, 5 :: nat] = [3, 4] \<and> page_rows (- 1) 0 [1, 2, 3 :: nat] = []"
proof -
  have p: "page_rows 2 2 [1, 2, 3, 4, 5 :: nat] = take (page_length 2) (drop (page_number 2 * page_length 2) [1, 2, 3, 4, 5])"
    "page_rows (- 1) 0 [1, 2, 3 :: nat] = take (page_length 0) (drop (page_number (- 1) * page_length 0) [1, 2, 3])"
    using pages_cover_listing [of "[1, 2, 3, 4, 5 :: nat]" 2 2] pages_cover_listing [of "[1, 2, 3 :: nat]" "- 1" 0] by simp_all
  have "page_length 2 = 2" "page_number 2 = 1" "page_length 0 = 10" "page_number (- 1) \<ge> 1"
    by (simp_all add: page_length_def page_number_def unsigned_minus_1_eq_mask mask_eq_exp_minus_1)
  then show ?thesis using p by simp
qed

section \<open>Date ranges\<close>

record created_at_range =
  cr_from :: "int option"
  cr_to :: "int option"

definition parse_bound :: "(string \<Rightarrow> int option) \<Rightarrow> string \<Rightarrow> err + int option" where
  "parse_bound rfc3339 raw =
     (let r = trim_space raw
      in if r = [] then Inr None
         else if length r > 64 then Inl (ErrNew ''date filter is too long'')
         else case rfc3339 r of None \<Rightarrow> Inl (ErrNew ''date filter must use RFC3339'') | Some t \<Rightarrow> Inr (Some t))"

definition parse_created_at_range :: "(string \<Rightarrow> int option) \<Rightarrow> string \<Rightarrow> string \<Rightarrow> err + created_at_range" where
  "parse_created_at_range rfc3339 from_text to_text =
     ebind (parse_bound rfc3339 from_text) (\<lambda>f.
     ebind (parse_bound rfc3339 to_text) (\<lambda>t.
     check (case (f, t) of (Some a, Some b) \<Rightarrow> a < b | _ \<Rightarrow> True) (ErrNew ''date filter start must be before end'')
       (Inr \<lparr>cr_from = f, cr_to = t\<rparr>)))"

definition in_range :: "created_at_range \<Rightarrow> int \<Rightarrow> bool" where
  "in_range r t \<longleftrightarrow> (case cr_from r of None \<Rightarrow> True | Some a \<Rightarrow> t \<ge> a) \<and> (case cr_to r of None \<Rightarrow> True | Some b \<Rightarrow> t < b)"

end
