(* ===== verification/ControlLogs.thy ===== *)
theory ControlLogs
  imports ControlService Listing
begin

text \<open>
  What administrators read of the service itself (\<open>src/service/starryControl.go\<close>): the list of instances, the
  audit events of server control, and the log files they may see.  Opening and reading a file, the paths of the
  operating system, the regular expressions of the redaction and \<open>netip.ParseAddr\<close> are arguments; the level of the
  process's logger is a component of the state of its own, \<open>None\<close> when the service has no logger.
\<close>

section \<open>Instances and events\<close>

definition instances_context ::
    "control_config \<Rightarrow> control_io \<Rightarrow> (string \<Rightarrow> string) \<Rightarrow> control \<Rightarrow> (err + server_control_instance list) \<times> control" where
  "instances_context cfg io label =
     audited_control_call io ''server_control.instances.read'' ''*'' [] (\<lambda>s.
       case list_instances cfg io 1 label s of (xs, s1) \<Rightarrow> (Inr xs, s1))"

record audit_event_list =
  ae_page :: "64 word"
  ae_page_size :: "64 word"
  ae_total :: nat
  ae_events :: "audit_row list"

text \<open>The time of an event is an argument: the model's rows do not carry it.\<close>

definition audit_events ::
    "control_io \<Rightarrow> (audit_row \<Rightarrow> int) \<Rightarrow> 64 word \<Rightarrow> 64 word \<Rightarrow> created_at_range \<Rightarrow> control \<Rightarrow> (err + audit_event_list) \<times> control" where
  "audit_events io created page page_size dates =
     audited_control_call io ''server_control.audit_events.read'' ''*''
       [(''page'', MNum (uint page)), (''page_size'', MNum (uint page_size))] (\<lambda>s.
       let found = filter (\<lambda>r. ev_target_type r = ''starry_instance'' \<and> in_range dates (created r)) (events (ct_db s))
       in (stmt (flt (ci_env io 1)) (Outside 156) (stmt (flt (ci_env io 1)) (Outside 157)
            (Inr \<lparr>ae_page = page, ae_page_size = page_size, ae_total = length found,
                  ae_events = page_rows page page_size (rev found)\<rparr>)), s))"

section \<open>Log sources\<close>

text \<open>filepath.Abs, Dir, Base and Clean.\<close>

record log_paths =
  lf_abs :: "string \<Rightarrow> string option"
  lf_dir :: "string \<Rightarrow> string"
  lf_base :: "string \<Rightarrow> string"
  lf_clean :: "string \<Rightarrow> string"

definition control_log_configuration ::
    "log_paths \<Rightarrow> string \<Rightarrow> control_log_source list \<Rightarrow> string \<Rightarrow> string \<times> control_log_source list" where
  "control_log_configuration fs directory sources logger_path =
     (let path = trim_space logger_path
      in if path = [] then (directory, sources)
         else case lf_abs fs path of
           None \<Rightarrow> (directory, sources)
         | Some absolute \<Rightarrow>
             let logger_directory = lf_dir fs absolute;
                 dir = (if directory = [] then logger_directory else directory)
             in case lf_abs fs dir of
               None \<Rightarrow> (dir, sources)
             | Some absolute_dir \<Rightarrow>
                 if lf_clean fs absolute_dir \<noteq> lf_clean fs logger_directory then (dir, sources)
                 else if list_ex (\<lambda>x. ls_id x = ''kessoku'' \<or> ls_component x = ''kessoku'') sources then (dir, sources)
                 else (dir, sources @ [\<lparr>ls_id = ''kessoku'', ls_label = ''Kessoku'', ls_component = ''kessoku'', ls_instance = ''*'',
                         ls_file = lf_base fs absolute\<rparr>]))"

record public_source =
  ps_id :: string
  ps_label :: string
  ps_component :: string
  ps_instance :: string
  ps_source_available :: bool
  ps_level_mutable :: bool
  ps_current_level :: string

definition public_log_source :: "string option \<Rightarrow> control_log_source \<Rightarrow> public_source" where
  "public_log_source level src =
     \<lparr>ps_id = ls_id src, ps_label = ls_label src, ps_component = ls_component src, ps_instance = ls_instance src,
      ps_source_available = False, ps_level_mutable = (ls_component src = ''kessoku''),
      ps_current_level = (if ls_component src = ''kessoku'' then (case level of None \<Rightarrow> [] | Some l \<Rightarrow> l) else [])\<rparr>"

text \<open>openControlLog and reading: an absent file, a failure, or the contents.\<close>

datatype log_file = NoFile | Unreadable err | Contents string

definition opens :: "log_file \<Rightarrow> bool" where
  "opens f \<longleftrightarrow> (case f of Contents _ \<Rightarrow> True | _ \<Rightarrow> False)"

definition log_sources ::
    "control_log_source list \<Rightarrow> control_io \<Rightarrow> (control_log_source \<Rightarrow> log_file) \<Rightarrow> string option \<Rightarrow> string \<Rightarrow> control
      \<Rightarrow> (err + public_source list) \<times> control" where
  "log_sources sources io file level i =
     audited_control_call io ''server_control.logs.sources'' i [] (\<lambda>s.
       (if map_of (ct_instances s) i = None then Inl ErrInstanceNotFound
        else Inr (map (\<lambda>src. (public_log_source level src)\<lparr>ps_source_available := opens (file src)\<rparr>)
               (filter (source_visible i) sources)), s))"

record log_result =
  lr_source :: public_source
  lr_entries :: "log_entry list"
  lr_truncated :: bool

definition control_logs ::
    "control_log_source list \<Rightarrow> control_io \<Rightarrow> (string \<Rightarrow> string) \<Rightarrow> (control_log_source \<Rightarrow> log_file) \<Rightarrow> string option
      \<Rightarrow> string \<Rightarrow> string \<Rightarrow> int \<Rightarrow> control \<Rightarrow> (err + log_result) \<times> control" where
  "control_logs sources io redact file level i source_id limit =
     audited_control_call io ''server_control.logs.read'' i [(''source_id'', MStr source_id), (''limit'', MNum limit)] (\<lambda>s.
       (ebind (log_source sources i source_id s) (\<lambda>src.
          let public = public_log_source level src
          in case file src of
               NoFile \<Rightarrow> Inr \<lparr>lr_source = public, lr_entries = [], lr_truncated = False\<rparr>
             | Unreadable er \<Rightarrow> Inl er
             | Contents data \<Rightarrow>
                 (case log_entries redact limit data of
                    (entries, truncated) \<Rightarrow> Inr \<lparr>lr_source = public\<lparr>ps_source_available := True\<rparr>, lr_entries = entries,
                                              lr_truncated = truncated\<rparr>)), s))"

text \<open>logrus.ParseLevel of a lower-case name, and the level's own name.\<close>

definition parse_level :: "string \<Rightarrow> string option" where
  "parse_level l =
     (if l = ''warn'' \<or> l = ''warning'' then Some ''warning''
      else if l \<in> {''panic'', ''fatal'', ''error'', ''info'', ''debug'', ''trace''} then Some l else None)"

definition lower_char :: "char \<Rightarrow> char" where
  "lower_char c = (let n = (of_char c :: nat) in if 65 \<le> n \<and> n \<le> 90 then char_of (n + 32) else c)"

definition log_level_change ::
    "control_config \<Rightarrow> control_log_source list \<Rightarrow> string option \<Rightarrow> string \<Rightarrow> string \<Rightarrow> string \<Rightarrow> control \<Rightarrow> err + string \<times> public_source" where
  "log_level_change cfg sources level i source_id wanted s =
     check (\<not> cc_read_only cfg) ErrReadOnly (
     ebind (log_source sources i source_id s) (\<lambda>src.
     check (\<not> (ls_component src \<noteq> ''kessoku'' \<or> level = None)) ErrRequestInvalid (
     case parse_level (map lower_char wanted) of
       None \<Rightarrow> Inl ErrRequestInvalid
     | Some l \<Rightarrow> Inr (l, (public_log_source (Some l) src)\<lparr>ps_source_available := True\<rparr>))))"

text \<open>SetLogLevel: the level changes with the operation, also when its audit event cannot be finished.\<close>

definition set_log_level ::
    "control_config \<Rightarrow> control_log_source list \<Rightarrow> control_io \<Rightarrow> string option \<Rightarrow> string \<Rightarrow> string \<Rightarrow> string \<Rightarrow> control
      \<Rightarrow> ((err + public_source) \<times> control) \<times> string option" where
  "set_log_level cfg sources io level i source_id wanted s =
     (let md = [(''source_id'', MStr source_id), (''level'', MStr wanted)];
          call = ''server_control.logs.level.update''
      in (audited_control_call io call i md (\<lambda>s0.
            (ebind (log_level_change cfg sources level i source_id wanted s0) (\<lambda>(l, public). Inr public), s0)) s,
          case audit_intent (ci_env io 0) (ci_context io) call i md (ct_db s) of
            Inl _ \<Rightarrow> level
          | Inr (_, d) \<Rightarrow>
              (case log_level_change cfg sources level i source_id wanted (s\<lparr>ct_db := d\<rparr>) of Inl _ \<Rightarrow> level | Inr (l, _) \<Rightarrow> Some l)))"

section \<open>Redaction\<close>

definition redact_ip :: "(string \<Rightarrow> bool) \<Rightarrow> string \<Rightarrow> string" where
  "redact_ip parses v =
     (let candidate = (if v \<noteq> [] \<and> hd v = CHR ''['' \<and> last v = CHR '']'' then butlast (tl v) else v)
      in if parses candidate then ''[REDACTED_IP]'' else v)"

text \<open>ReplaceAllString of the four expressions, in this order.\<close>

record redaction =
  rd_bearer :: "string \<Rightarrow> string"
  rd_structured :: "string \<Rightarrow> string"
  rd_ipv4 :: "(string \<Rightarrow> string) \<Rightarrow> string \<Rightarrow> string"
  rd_ipv6 :: "(string \<Rightarrow> string) \<Rightarrow> string \<Rightarrow> string"

definition redact_log_line :: "redaction \<Rightarrow> (string \<Rightarrow> bool) \<Rightarrow> string \<Rightarrow> string" where
  "redact_log_line rx parses line =
     rd_ipv6 rx (redact_ip parses) (rd_ipv4 rx (redact_ip parses) (rd_structured rx (rd_bearer rx line)))"

section \<open>What a reader of logs gets\<close>

text \<open>At most 2000 lines, numbered from 1, each one redacted after it was cut to 16 KB, whatever the file holds.\<close>

lemma log_limit_bounds: "1 \<le> log_limit n" "log_limit n \<le> 2000"
  by (simp_all add: log_limit_def)

lemma cut_line_length: "length (cut_line line) \<le> 16387"
  by (simp add: cut_line_def ellipsis_def)

lemma log_entries_bounded:
  assumes "log_entries redact limit file = (entries, truncated)"
  shows "length entries \<le> 2000" "map le_sequence entries = [1..<Suc (length entries)]"
    "x \<in> set entries \<Longrightarrow> \<exists>line. length line \<le> 16387 \<and> le_text x = redact line \<and> le_level x = detect_log_level (redact line)"
proof -
  have "\<exists>rows. length rows \<le> nat (log_limit limit) \<and> fst (log_entries redact limit file) =
      map (\<lambda>(k, l). \<lparr>le_sequence = k, le_level = detect_log_level l, le_text = l\<rparr>)
       (zip [1..<Suc (length (map (\<lambda>l. redact (cut_line l)) rows))] (map (\<lambda>l. redact (cut_line l)) rows))"
    unfolding log_entries_def Let_def fst_conv by (rule exI, rule conjI [rotated], rule refl) (simp split: if_split)
  then obtain rows where rows: "length rows \<le> nat (log_limit limit)"
    "entries = map (\<lambda>(k, l). \<lparr>le_sequence = k, le_level = detect_log_level l, le_text = l\<rparr>)
       (zip [1..<Suc (length rows)] (map (\<lambda>l. redact (cut_line l)) rows))"
    using assms by auto
  have "nat (log_limit limit) \<le> 2000" using log_limit_bounds(2) [of limit] by simp
  then show "length entries \<le> 2000" using rows by simp
  show "map le_sequence entries = [1..<Suc (length entries)]"
    unfolding rows(2) by (rule nth_equalityI) (simp_all del: upt_Suc)
  show "\<exists>line. length line \<le> 16387 \<and> le_text x = redact line \<and> le_level x = detect_log_level (redact line)" if "x \<in> set entries"
    using that unfolding rows(2) by (auto dest!: set_zip_rightD) (metis cut_line_length)
qed



end
