(* ===== verification/ControlServiceProps.thy ===== *)
theory ControlServiceProps
  imports PairingService PairingRuns TokenManagerProps ControlLogs
begin

text \<open>
  Properties of the server-control service: the cache of managed instances agrees with the registry, an agent is
  asked to change something only where writing is enabled, a configuration is applied only after its review, and
  what the audit trail says of a call.
\<close>

section \<open>The cache of managed instances\<close>

text \<open>What loading a managed row gives: the listed instance and, unless its credentials are refused, its provider.\<close>

definition item_error :: "control_config \<Rightarrow> control_io \<Rightarrow> managed_instance \<Rightarrow> string option" where
  "item_error cfg io m =
     (if key_not_isolated cfg io (mi_control_key m) then Some ''CONTROL_KEYRING_NOT_ISOLATED''
      else case ci_new_provider io (managed_config m) of Some er \<Rightarrow> Some ''INSTANCE_CONFIG_INVALID'' | None \<Rightarrow> None)"

definition item_instance :: "control_config \<Rightarrow> control_io \<Rightarrow> managed_instance \<Rightarrow> server_control_instance" where
  "item_instance cfg io m = (case item_error cfg io m of
     Some code \<Rightarrow> managed_summary m\<lparr>sc_error_code := code\<rparr> | None \<Rightarrow> managed_summary m\<lparr>sc_available := True\<rparr>)"

lemma managed_fields [simp]:
  "si_id (managed_config m) = mi_id m" "sc_id (managed_summary m) = mi_id m" "si_control_key (managed_config m) = mi_control_key m"
  "sc_read_only (item_instance cfg io m) = mi_read_only m" "sc_enabled (item_instance cfg io m) = si_enabled (managed_config m)"
  "sc_id (item_instance cfg io m) = mi_id m"
  by (simp_all add: managed_config_def managed_summary_def item_instance_def split: option.splits)

lemma load_item_views:
  assumes "mi_id m \<notin> set (static_ids cfg)"
  shows "map_of (ct_instances (load_item cfg io m s)) = (map_of (ct_instances s))(mi_id m \<mapsto> item_instance cfg io m)"
    and "map_of (ct_providers (load_item cfg io m s)) = (if item_error cfg io m = None
      then (map_of (ct_providers s))(mi_id m \<mapsto> managed_config m) else map_of (ct_providers s))"
    and "ct_managed_ids (load_item cfg io m s) = mi_id m # ct_managed_ids s"
  using assms
  by (simp_all add: load_item_def Let_def put_instance_def put_provider_def put_provider_err_def update_conv' item_instance_def
      item_error_def split: option.splits)

lemma load_item_static:
  "mi_id m \<in> set (static_ids cfg) \<Longrightarrow> ct_instances (load_item cfg io m s) = ct_instances s \<and>
    ct_providers (load_item cfg io m s) = ct_providers s \<and> ct_managed_ids (load_item cfg io m s) = ct_managed_ids s"
  by (simp add: load_item_def put_provider_err_def)

text \<open>Only the tables of the service change when managed rows are loaded.\<close>

definition same_outside :: "control \<Rightarrow> control \<Rightarrow> bool" where
  "same_outside s s' \<longleftrightarrow> ct_db s' = ct_db s \<and> ct_expectations s' = ct_expectations s \<and> ct_disk s' = ct_disk s \<and>
     ct_sent s' = ct_sent s \<and> ct_closed s' = ct_closed s"

lemma same_outside_refl [simp]: "same_outside s s"
  by (simp add: same_outside_def)

lemma same_outside_trans: "same_outside s1 s2 \<Longrightarrow> same_outside s2 s3 \<Longrightarrow> same_outside s1 s3"
  by (simp add: same_outside_def)

lemma load_item_outside: "same_outside s (load_item cfg io m s) \<and> ct_registry_open (load_item cfg io m s) = ct_registry_open s"
  by (simp add: same_outside_def load_item_def Let_def put_instance_def put_provider_def put_provider_err_def split: option.splits)

lemma load_items_outside:
  "same_outside s (fold (load_item cfg io) ms s) \<and> ct_registry_open (fold (load_item cfg io) ms s) = ct_registry_open s"
proof (induction ms arbitrary: s)
  case (Cons m ms)
  then show ?case using load_item_outside [of s cfg io m] Cons.IH [of "load_item cfg io m s"] same_outside_trans by auto
qed simp

lemma load_managed_outside:
  "same_outside s (load_managed_items cfg io ms s) \<and> ct_registry_open (load_managed_items cfg io ms s) = ct_registry_open s"
  using load_items_outside [of "forget_managed s" cfg io ms]
  by (simp add: load_managed_items_def same_outside_def forget_managed_def)

lemma map_of_fold_delete: "map_of (fold AList.delete is al) = (\<lambda>k. if k \<in> set is then None else map_of al k)"
  by (induction "is" arbitrary: al) (auto simp: delete_conv' fun_eq_iff)

lemma map_of_fold_delete_apply: "map_of (fold AList.delete is al) k = (if k \<in> set is then None else map_of al k)"
  by (simp add: map_of_fold_delete)

text \<open>The managed rows in the tables, for ids without duplicates.\<close>

lemma load_items_views:
  assumes "distinct (map mi_id ms)"
  shows "map_of (ct_instances (fold (load_item cfg io) ms s)) i =
      (if i \<in> set (static_ids cfg) then map_of (ct_instances s) i
       else case find (\<lambda>m. mi_id m = i) ms of None \<Rightarrow> map_of (ct_instances s) i | Some m \<Rightarrow> Some (item_instance cfg io m))"
    and "map_of (ct_providers (fold (load_item cfg io) ms s)) i =
      (if i \<in> set (static_ids cfg) then map_of (ct_providers s) i
       else case find (\<lambda>m. mi_id m = i) ms of None \<Rightarrow> map_of (ct_providers s) i
         | Some m \<Rightarrow> if item_error cfg io m = None then Some (managed_config m) else map_of (ct_providers s) i)"
    and "set (ct_managed_ids (fold (load_item cfg io) ms s)) =
      set (ct_managed_ids s) \<union> (mi_id ` set ms - set (static_ids cfg))"
  using assms
proof (induction ms arbitrary: s)
  case (Cons m ms)
  {
    case 1
    have "find (\<lambda>x. mi_id x = i) ms = None" if "i = mi_id m" using 1 that by (simp add: find_None_iff) (metis imageI)
    then show ?case using Cons.IH(1) [of "load_item cfg io m s"] 1 load_item_views(1) [of m cfg io s] load_item_static [of m cfg io s]
      by (cases "mi_id m \<in> set (static_ids cfg)") (auto split: option.splits)
  next
    case 2
    have "find (\<lambda>x. mi_id x = i) ms = None" if "i = mi_id m" using 2 that by (simp add: find_None_iff) (metis imageI)
    then show ?case using Cons.IH(2) [of "load_item cfg io m s"] 2 load_item_views(2) [of m cfg io s] load_item_static [of m cfg io s]
      by (cases "mi_id m \<in> set (static_ids cfg)") (auto split: option.splits)
  next
    case 3
    then show ?case using Cons.IH(3) [of "load_item cfg io m s"] load_item_views(3) [of m cfg io s] load_item_static [of m cfg io s]
      by (cases "mi_id m \<in> set (static_ids cfg)") auto
  }
qed simp_all

text \<open>The entries of the managed ids are the rows: the same policy, and a provider for the row's own credentials.\<close>

definition entry_of :: "managed_instance option \<Rightarrow> server_control_instance option \<Rightarrow> starry_instance option \<Rightarrow> bool" where
  "entry_of row x p \<longleftrightarrow> (case row of
     None \<Rightarrow> x = None
   | Some m \<Rightarrow> (\<exists>y. x = Some y \<and> sc_read_only y = mi_read_only m \<and> sc_enabled y = si_enabled (managed_config m)) \<and>
       (\<forall>q. p = Some q \<longrightarrow> q = managed_config m))"

definition coherent :: "control_config \<Rightarrow> control \<Rightarrow> bool" where
  "coherent cfg s \<longleftrightarrow> (\<forall>i. i \<notin> set (static_ids cfg) \<longrightarrow>
     entry_of (find (\<lambda>m. mi_id m = i) (rg_managed (ct_disk s))) (map_of (ct_instances s) i) (map_of (ct_providers s) i))"

text \<open>
  The invariant of the service: static entries carry the policy of the configuration; every other entry belongs to
  an id that is known as managed; the generation remembered is not ahead of the registry, and when it is the
  registry's the entries are its rows.
\<close>

definition static_ok :: "control_config \<Rightarrow> control \<Rightarrow> bool" where
  "static_ok cfg s \<longleftrightarrow> (\<forall>i \<in> set (static_ids cfg). \<forall>x. map_of (ct_instances s) i = Some x \<longrightarrow>
     sc_read_only x = cc_read_only cfg \<and> (sc_enabled x \<longrightarrow> (\<exists>inst \<in> set (cc_instances cfg). si_id inst = i \<and> si_enabled inst)))"

definition managed_known :: "control_config \<Rightarrow> control \<Rightarrow> bool" where
  "managed_known cfg s \<longleftrightarrow> set (ct_managed_ids s) \<inter> set (static_ids cfg) = {} \<and>
     (\<forall>i. i \<notin> set (static_ids cfg) \<and> (map_of (ct_instances s) i \<noteq> None \<or> map_of (ct_providers s) i \<noteq> None) \<longrightarrow>
        i \<in> set (ct_managed_ids s))"

definition generation_ok :: "control_config \<Rightarrow> control \<Rightarrow> bool" where
  "generation_ok cfg s \<longleftrightarrow>
     (if ct_registry_open s
      then rg_meta (ct_disk s) \<noteq> None \<and> ct_registry_gen s \<le> generation_of (ct_disk s) \<and>
        (ct_registry_gen s = generation_of (ct_disk s) \<longrightarrow> coherent cfg s)
      else \<not> ct_closed s \<longrightarrow> ct_managed_ids s = [] \<and> ct_registry_gen s = 0)"

definition disk_ok :: "registry \<Rightarrow> bool" where
  "disk_ok d \<longleftrightarrow> registry_inv d \<and> (rg_tables d \<longrightarrow> rg_meta d \<noteq> None) \<and> (rg_meta d \<noteq> None \<longrightarrow> 0 < generation_of d)"

definition cache_ok :: "control_config \<Rightarrow> control \<Rightarrow> bool" where
  "cache_ok cfg s \<longleftrightarrow> static_ok cfg s \<and> managed_known cfg s \<and> generation_ok cfg s \<and> disk_ok (ct_disk s)"

text \<open>A listing of the managed instances holds each row once.\<close>

lemma find_map_rows:
  assumes "distinct (map mi_id rows)" "distinct ids" "set ids = mi_id ` set rows"
  shows "find (\<lambda>m. mi_id m = i) (map (\<lambda>j. the (find (\<lambda>m. mi_id m = j) rows)) ids) = find (\<lambda>m. mi_id m = i) rows"
    and "distinct (map mi_id (map (\<lambda>j. the (find (\<lambda>m. mi_id m = j) rows)) ids))"
    and "mi_id ` set (map (\<lambda>j. the (find (\<lambda>m. mi_id m = j) rows)) ids) = mi_id ` set rows"
proof -
  have row: "mi_id (the (find (\<lambda>m. mi_id m = j) rows)) = j \<and> find (\<lambda>m. mi_id m = j) rows \<noteq> None" if j: "j \<in> set ids" for j
  proof -
    obtain m where "m \<in> set rows" "mi_id m = j" using j assms(3) by auto
    then show ?thesis using find_key [OF assms(1)] by simp
  qed
  then have ids: "map mi_id (map (\<lambda>j. the (find (\<lambda>m. mi_id m = j) rows)) ids) = ids"
    by (simp add: map_idI)
  then show "distinct (map mi_id (map (\<lambda>j. the (find (\<lambda>m. mi_id m = j) rows)) ids))" using assms(2) by simp
  show "mi_id ` set (map (\<lambda>j. the (find (\<lambda>m. mi_id m = j) rows)) ids) = mi_id ` set rows"
    using arg_cong [OF ids, of set] assms(3) by (simp add: image_image)
  show "find (\<lambda>m. mi_id m = i) (map (\<lambda>j. the (find (\<lambda>m. mi_id m = j) rows)) ids) = find (\<lambda>m. mi_id m = i) rows"
  proof (cases "i \<in> set ids")
    case True
    then have "the (find (\<lambda>m. mi_id m = i) rows) \<in> set (map (\<lambda>j. the (find (\<lambda>m. mi_id m = j) rows)) ids)" by simp
    then show ?thesis using find_key [of mi_id _ "the (find (\<lambda>m. mi_id m = i) rows)" i] ids assms(2) row [OF True] by auto
  next
    case False
    have "find (\<lambda>m. mi_id m = i) (map (\<lambda>j. the (find (\<lambda>m. mi_id m = j) rows)) ids) = None"
      using row False by (auto simp: find_None_iff)
    moreover have "find (\<lambda>m. mi_id m = i) rows = None" using False assms(3) by (simp add: find_None_iff) (metis imageI)
    ultimately show ?thesis by simp
  qed
qed

lemma managed_listing:
  assumes "managed_instances e d = Inr ms" "registry_inv d"
  shows "find (\<lambda>m. mi_id m = i) ms = find (\<lambda>m. mi_id m = i) (rg_managed d)" "distinct (map mi_id ms)"
    "mi_id ` set ms = mi_id ` set (rg_managed d)"
proof -
  have d: "distinct (map mi_id (rg_managed d))"
    using assms(2) by (simp add: registry_inv_def instances_inv_def instances_def comp_def)
  have ms: "ms = map (\<lambda>i. the (find (\<lambda>m. mi_id m = i) (rg_managed d))) (sort_strings (map mi_id (rg_managed d)))"
    using assms(1) by (simp add: managed_instances_def stmt_eq_Inr)
  have perm: "mset (sort_strings (map mi_id (rg_managed d))) = mset (map mi_id (rg_managed d))" by simp
  then have s: "set (sort_strings (map mi_id (rg_managed d))) = mi_id ` set (rg_managed d)"
    using mset_eq_setD by fastforce
  have ds: "distinct (sort_strings (map mi_id (rg_managed d)))" using d perm mset_eq_imp_distinct_iff by blast
  show "find (\<lambda>m. mi_id m = i) ms = find (\<lambda>m. mi_id m = i) (rg_managed d)" "distinct (map mi_id ms)"
    "mi_id ` set ms = mi_id ` set (rg_managed d)"
    unfolding ms using find_map_rows [OF d ds s] by simp_all
qed

section \<open>Refreshing keeps the invariant\<close>

text \<open>What every step of the service keeps outside its tables: the closing flag and the requests sent.\<close>

definition quiet :: "control \<Rightarrow> control \<Rightarrow> bool" where
  "quiet s s' \<longleftrightarrow> ct_closed s' = ct_closed s \<and> ct_sent s' = ct_sent s"

lemma quiet_refl [simp]: "quiet s s"
  by (simp add: quiet_def)

lemma quiet_trans: "quiet s1 s2 \<Longrightarrow> quiet s2 s3 \<Longrightarrow> quiet s1 s3"
  by (simp add: quiet_def)

lemma cache_ok_fields [simp]:
  "cache_ok cfg (s\<lparr>ct_db := d\<rparr>) = cache_ok cfg s" "cache_ok cfg (s\<lparr>ct_registry_err := er\<rparr>) = cache_ok cfg s"
  "cache_ok cfg (s\<lparr>ct_sent := n\<rparr>) = cache_ok cfg s" "cache_ok cfg (s\<lparr>ct_expectations := xs\<rparr>) = cache_ok cfg s"
  by (simp_all add: cache_ok_def static_ok_def managed_known_def generation_ok_def coherent_def)

lemma open_existing_disk:
  "open_registry e t False fp files d = (out, d') \<Longrightarrow> d' = d"
  by (auto simp: open_registry_def split: sum.splits if_splits)

lemma open_existing_ok:
  assumes "open_registry e t False fp files d = (Inr u, d')" "disk_ok d"
  shows "rg_meta d \<noteq> None"
  using assms by (auto simp: open_registry_def validate_existing_def disk_ok_def outcome_simps split: sum.splits if_splits)

lemma cache_ok_opened:
  assumes "cache_ok cfg s" "\<not> ct_registry_open s" "\<not> ct_closed s" "disk_ok d" "rg_meta d \<noteq> None"
  shows "cache_ok cfg (s\<lparr>ct_disk := d, ct_registry_open := True, ct_registry_err := er\<rparr>)"
  using assms by (auto simp: cache_ok_def static_ok_def managed_known_def generation_ok_def disk_ok_def)

lemma open_if_created_ok:
  assumes "cache_ok cfg s" "open_managed_registry_if_created cfg io k s = (out, s')"
  shows "cache_ok cfg s' \<and> quiet s s' \<and> ct_disk s' = ct_disk s \<and> ct_db s' = ct_db s \<and> ct_expectations s' = ct_expectations s"
proof (cases "\<not> cc_pairing_enabled cfg \<or> ct_registry_open s \<or> ct_closed s")
  case True
  then show ?thesis using assms by (auto simp: open_managed_registry_if_created_def split: if_splits)
next
  case False
  obtain r d where o: "open_registry (ci_env io k) (ci_time io) False (ci_host io) (ci_files io False) (ct_disk s) = (r, d)"
    by fastforce
  then have d: "d = ct_disk s" by (rule open_existing_disk)
  have ok: "disk_ok (ct_disk s)" using assms(1) by (simp add: cache_ok_def)
  show ?thesis
  proof (cases r)
    case (Inl er)
    then have "s' = s\<lparr>ct_registry_err := Some er\<rparr>" using assms(2) False o d by (simp add: open_managed_registry_if_created_def)
    then show ?thesis using assms(1) by (simp add: quiet_def)
  next
    case (Inr u)
    then have "s' = s\<lparr>ct_disk := ct_disk s, ct_registry_open := True, ct_registry_err := None\<rparr>"
      using assms(2) False o d by (simp add: open_managed_registry_if_created_def)
    then show ?thesis
      using cache_ok_opened [OF assms(1) _ _ ok open_existing_ok [OF _ ok]] False o Inr by (simp add: quiet_def)
  qed
qed

lemma load_managed_views:
  assumes "cache_ok cfg s" "distinct (map mi_id ms)"
  shows "map_of (ct_instances (load_managed_items cfg io ms s)) i =
      (if i \<in> set (static_ids cfg) then map_of (ct_instances s) i
       else map_option (item_instance cfg io) (find (\<lambda>m. mi_id m = i) ms))"
    and "map_of (ct_providers (load_managed_items cfg io ms s)) i =
      (if i \<in> set (static_ids cfg) then map_of (ct_providers s) i
       else case find (\<lambda>m. mi_id m = i) ms of None \<Rightarrow> None | Some m \<Rightarrow> if item_error cfg io m = None then Some (managed_config m) else None)"
    and "set (ct_managed_ids (load_managed_items cfg io ms s)) = mi_id ` set ms - set (static_ids cfg)"
proof -
  have known: "set (ct_managed_ids s) \<inter> set (static_ids cfg) = {}"
    "\<And>i. i \<notin> set (static_ids cfg) \<Longrightarrow> i \<notin> set (ct_managed_ids s) \<Longrightarrow> map_of (ct_instances s) i = None \<and> map_of (ct_providers s) i = None"
    using assms(1) by (auto simp: cache_ok_def managed_known_def)
  have forget: "map_of (ct_instances (forget_managed s)) i = (if i \<in> set (static_ids cfg) then map_of (ct_instances s) i else None)"
    "map_of (ct_providers (forget_managed s)) i = (if i \<in> set (static_ids cfg) then map_of (ct_providers s) i else None)"
    "ct_managed_ids (forget_managed s) = []"
    using known(1) known(2) [of i] by (auto simp: forget_managed_def map_of_fold_delete_apply)
  note views = load_items_views [OF assms(2), where s = "forget_managed s" and cfg = cfg and io = io]
  show "map_of (ct_instances (load_managed_items cfg io ms s)) i =
      (if i \<in> set (static_ids cfg) then map_of (ct_instances s) i
       else map_option (item_instance cfg io) (find (\<lambda>m. mi_id m = i) ms))"
    using views(1) [of i] forget(1) by (simp add: load_managed_items_def split: option.splits)
  show "map_of (ct_providers (load_managed_items cfg io ms s)) i =
      (if i \<in> set (static_ids cfg) then map_of (ct_providers s) i
       else case find (\<lambda>m. mi_id m = i) ms of None \<Rightarrow> None | Some m \<Rightarrow> if item_error cfg io m = None then Some (managed_config m) else None)"
    using views(2) [of i] forget(2) by (simp add: load_managed_items_def split: option.splits)
  show "set (ct_managed_ids (load_managed_items cfg io ms s)) = mi_id ` set ms - set (static_ids cfg)"
    using views(3) forget(3) by (simp add: load_managed_items_def)
qed

lemma load_managed_ok:
  assumes ok: "cache_ok cfg s" and "ct_registry_open s"
    and ms: "managed_instances e (ct_disk s) = Inr ms" and meta: "rg_meta (ct_disk s) = Some meta"
  shows "cache_ok cfg ((load_managed_items cfg io ms s)\<lparr>ct_registry_gen := rm_generation meta, ct_registry_err := None\<rparr>) \<and>
    coherent cfg ((load_managed_items cfg io ms s)\<lparr>ct_registry_gen := rm_generation meta, ct_registry_err := None\<rparr>)"
    (is "cache_ok cfg ?s \<and> coherent cfg ?s")
proof -
  have inv: "registry_inv (ct_disk s)" using ok by (simp add: cache_ok_def disk_ok_def)
  note list = managed_listing [OF ms inv]
  note views = load_managed_views [OF ok list(2), of io]
  have disk: "ct_disk ?s = ct_disk s" "ct_registry_open ?s"
    using load_managed_outside [of s cfg io ms] assms(2) by (simp_all add: same_outside_def)
  have coh: "coherent cfg ?s"
    unfolding coherent_def
  proof (intro allI impI)
    fix i assume i: "i \<notin> set (static_ids cfg)"
    show "entry_of (find (\<lambda>m. mi_id m = i) (rg_managed (ct_disk ?s))) (map_of (ct_instances ?s) i) (map_of (ct_providers ?s) i)"
      using views(1,2) [of i] i list(1) [of i] disk by (auto simp: entry_of_def split: option.splits)
  qed
  have "static_ok cfg ?s" using ok views(1) by (simp add: cache_ok_def static_ok_def)
  moreover have "managed_known cfg ?s"
  proof -
    have "i \<in> mi_id ` set ms" if "find (\<lambda>m. mi_id m = i) ms \<noteq> None" for i
      using that by (auto simp: find_None_iff)
    then show ?thesis using views by (auto simp: managed_known_def split: option.splits)
  qed
  moreover have "generation_ok cfg ?s" using coh disk meta by (simp add: generation_ok_def generation_of_def)
  ultimately show ?thesis using coh ok disk by (simp add: cache_ok_def)
qed

lemma reload_managed_ok:
  assumes ok: "cache_ok cfg s" and op: "ct_registry_open s" and r: "reload_managed cfg io k s = (out, s')"
  shows "cache_ok cfg s' \<and> quiet s s' \<and> ct_disk s' = ct_disk s \<and> ct_db s' = ct_db s \<and>
    ct_expectations s' = ct_expectations s \<and> ct_registry_open s' \<and> ((\<exists>u. out = Inr u) \<longrightarrow> coherent cfg s')"
proof (cases "\<exists>meta ms. registry_metadata (ci_env io k) (Outside 126) (ct_disk s) = Inr meta \<and>
    managed_instances (ci_env io k) (ct_disk s) = Inr ms \<and> exports_fail io ms = None")
  case False
  then have "s' = s \<and> (\<exists>er. out = Inl er)"
    using r by (auto simp: reload_managed_def split: sum.splits option.splits)
  then show ?thesis using ok op by auto
next
  case True
  then obtain meta ms where m: "registry_metadata (ci_env io k) (Outside 126) (ct_disk s) = Inr meta"
    "managed_instances (ci_env io k) (ct_disk s) = Inr ms" "exports_fail io ms = None" by blast
  then have meta: "rg_meta (ct_disk s) = Some meta"
    by (auto simp: registry_metadata_def stmt_eq_Inr split: option.splits)
  show ?thesis
  proof (cases "rm_generation meta = ct_registry_gen s")
    case True
    then have "s' = s" using r m by (simp add: reload_managed_def)
    moreover have "coherent cfg s" using ok op True meta by (simp add: cache_ok_def generation_ok_def generation_of_def)
    ultimately show ?thesis using ok op by simp
  next
    case False
    then have s': "s' = (load_managed_items cfg io ms s)\<lparr>ct_registry_gen := rm_generation meta, ct_registry_err := None\<rparr>"
      using r m by (simp add: reload_managed_def)
    then show ?thesis
      using load_managed_ok [OF ok op m(2) meta, of io] load_managed_outside [of s cfg io ms] op
      by (simp add: quiet_def same_outside_def)
  qed
qed

lemma refresh_ok:
  assumes ok: "cache_ok cfg s" and r: "refresh_managed_instances cfg io k s = (out, s')"
  shows "cache_ok cfg s' \<and> quiet s s' \<and> ct_disk s' = ct_disk s \<and> ct_db s' = ct_db s \<and> ct_expectations s' = ct_expectations s \<and>
    ((\<exists>u. out = Inr u) \<and> ct_registry_open s' \<longrightarrow> coherent cfg s')"
proof -
  obtain o1 s1 where o: "(if \<not> ct_registry_open s \<and> cc_pairing_enabled cfg then open_managed_registry_if_created cfg io k s
            else (Inr False, s)) = (o1, s1)" by fastforce
  then have s1: "cache_ok cfg s1 \<and> quiet s s1 \<and> ct_disk s1 = ct_disk s \<and> ct_db s1 = ct_db s \<and> ct_expectations s1 = ct_expectations s"
    using open_if_created_ok [OF ok] ok by (auto split: if_splits)
  show ?thesis
  proof (cases "(\<exists>er. o1 = Inl er) \<or> \<not> ct_registry_open s1")
    case True
    then have "s' = s1 \<and> ((\<exists>er. o1 = Inl er) \<longrightarrow> (\<exists>er. out = Inl er))"
      using r o by (cases o1) (auto simp: refresh_managed_instances_def cbind_def split: option.splits if_splits)
    then show ?thesis using s1 True by auto
  next
    case False
    then obtain b where "o1 = Inr b" by (cases o1) auto
    then have "reload_managed cfg io k s1 = (out, s')" using r o False by (simp add: refresh_managed_instances_def cbind_def)
    then show ?thesis using reload_managed_ok [of cfg s1 io k out s'] s1 False quiet_trans by auto
  qed
qed

section \<open>What an agent is asked\<close>

text \<open>
  Where writing is enabled: a static instance that is enabled, when the configuration is not read-only; otherwise a
  row of the registry that is paired and not read-only.
\<close>

definition writable :: "control_config \<Rightarrow> registry \<Rightarrow> string \<Rightarrow> bool" where
  "writable cfg d i \<longleftrightarrow> (if i \<in> set (static_ids cfg)
     then \<not> cc_read_only cfg \<and> (\<exists>inst \<in> set (cc_instances cfg). si_id inst = i \<and> si_enabled inst)
     else \<exists>m \<in> set (rg_managed d). mi_id m = i \<and> \<not> mi_read_only m \<and> si_enabled (managed_config m))"

lemma provider_for_ok:
  assumes ok: "cache_ok cfg s" and p: "provider_for cfg io k i mutates s = (out, s')"
  shows "cache_ok cfg s' \<and> quiet s s' \<and> ct_disk s' = ct_disk s \<and> ct_db s' = ct_db s \<and> ct_expectations s' = ct_expectations s \<and>
    (mutates \<and> \<not> ct_closed s \<and> (\<exists>q. out = Inr q) \<longrightarrow> writable cfg (ct_disk s') i)"
proof -
  obtain r s1 where rf: "refresh_managed_instances cfg io k s = (r, s1)" by fastforce
  note s1 = refresh_ok [OF ok rf]
  have s': "s' = s1" using p rf by (auto simp: provider_for_def split: sum.splits if_splits)
  have "writable cfg (ct_disk s1) i" if mut: "mutates" "\<not> ct_closed s" and q: "out = Inr q" for q
  proof -
    have found: "find_provider i mutates s1 = Inr q" and open_ok: "ct_registry_open s1 \<Longrightarrow> \<exists>u. r = Inr u"
      using p rf q by (auto simp: provider_for_def split: sum.splits if_splits)
    then obtain x where x: "map_of (ct_instances s1) i = Some x" "sc_enabled x" "\<not> sc_read_only x"
      using mut by (auto simp: find_provider_def outcome_simps split: option.splits)
    show ?thesis
    proof (cases "i \<in> set (static_ids cfg)")
      case True
      then show ?thesis using s1 x by (auto simp: cache_ok_def static_ok_def writable_def)
    next
      case False
      have "ct_registry_open s1"
      proof (rule ccontr)
        assume "\<not> ct_registry_open s1"
        then have "ct_managed_ids s1 = []" using s1 mut by (auto simp: cache_ok_def generation_ok_def quiet_def)
        then show False using s1 x False by (auto simp: cache_ok_def managed_known_def)
      qed
      then have "entry_of (find (\<lambda>m. mi_id m = i) (rg_managed (ct_disk s1))) (Some x) (map_of (ct_providers s1) i)"
        using s1 open_ok False x by (auto simp: coherent_def)
      then obtain m where "find (\<lambda>m. mi_id m = i) (rg_managed (ct_disk s1)) = Some m" "sc_read_only x = mi_read_only m"
        "sc_enabled x = si_enabled (managed_config m)"
        by (auto simp: entry_of_def split: option.splits)
      then show ?thesis using x False find_SomeD by (fastforce simp: writable_def)
    qed
  qed
  then show ?thesis using s1 s' by auto
qed

text \<open>A piece of a handler keeps the invariant, and what it asks an agent to change is writable at its end.\<close>

definition asked :: "control_config \<Rightarrow> control \<Rightarrow> control \<Rightarrow> bool" where
  "asked cfg s s' \<longleftrightarrow> cache_ok cfg s' \<and> ct_closed s' = ct_closed s \<and>
     (\<exists>new. ct_sent s' = new @ ct_sent s \<and> (\<forall>(i, c) \<in> set new. call_mutates c \<longrightarrow> writable cfg (ct_disk s') i))"

lemma asked_refl [simp]: "cache_ok cfg s \<Longrightarrow> asked cfg s s"
  by (simp add: asked_def)

lemma asked_quiet: "cache_ok cfg s' \<Longrightarrow> quiet s s' \<Longrightarrow> asked cfg s s'"
  by (simp add: asked_def quiet_def)

lemma asked_after_quiet: "quiet s s1 \<Longrightarrow> asked cfg s1 s2 \<Longrightarrow> asked cfg s s2"
  by (simp add: asked_def quiet_def)

lemma writable_managed: "rg_managed d' = rg_managed d \<Longrightarrow> writable cfg d' i = writable cfg d i"
  by (simp add: writable_def)

lemma asked_trans:
  assumes "asked cfg s s1" "asked cfg s1 s2" "rg_managed (ct_disk s2) = rg_managed (ct_disk s1)"
  shows "asked cfg s s2"
proof -
  obtain n1 n2 where n: "ct_sent s1 = n1 @ ct_sent s" "ct_sent s2 = n2 @ ct_sent s1"
    "\<forall>(i, c) \<in> set n1. call_mutates c \<longrightarrow> writable cfg (ct_disk s1) i"
    "\<forall>(i, c) \<in> set n2. call_mutates c \<longrightarrow> writable cfg (ct_disk s2) i"
    using assms(1,2) by (auto simp: asked_def)
  then have "\<forall>(i, c) \<in> set (n2 @ n1). call_mutates c \<longrightarrow> writable cfg (ct_disk s2) i"
    using writable_managed [OF assms(3)] by auto
  then show ?thesis using assms n by (auto simp: asked_def)
qed

lemma asked_ask:
  "cache_ok cfg s \<Longrightarrow> call_mutates c \<longrightarrow> writable cfg (ct_disk s) i \<Longrightarrow> asked cfg s (snd (ask i c answer s))"
  by (simp add: asked_def ask_def)

lemma ask_keeps [simp]:
  "ct_disk (snd (ask i c answer s)) = ct_disk s" "cache_ok cfg (snd (ask i c answer s)) = cache_ok cfg s"
  "ct_closed (snd (ask i c answer s)) = ct_closed s" "ct_db (snd (ask i c answer s)) = ct_db s"
  "ct_expectations (snd (ask i c answer s)) = ct_expectations s"
  by (simp_all add: ask_def)

lemma cbind_cases:
  assumes "cbind m f = (out, s')"
  obtains (stop) er where "m = (Inl er, s')" "out = Inl er" | (go) x s1 where "m = (Inr x, s1)" "f x s1 = (out, s')"
  using assms by (cases m; cases "fst m") (auto simp: cbind_def)

text \<open>A step is calm when it asks nothing it may not and leaves the registry's instances alone.\<close>

definition calm :: "control_config \<Rightarrow> control \<Rightarrow> control \<Rightarrow> bool" where
  "calm cfg s s' \<longleftrightarrow> asked cfg s s' \<and> rg_managed (ct_disk s') = rg_managed (ct_disk s)"

lemma calm_refl [simp]: "cache_ok cfg s \<Longrightarrow> calm cfg s s"
  by (simp add: calm_def)

lemma calm_trans: "calm cfg s s1 \<Longrightarrow> calm cfg s1 s2 \<Longrightarrow> calm cfg s s2"
  using asked_trans by (auto simp: calm_def)

lemma calm_ok: "calm cfg s s' \<Longrightarrow> cache_ok cfg s'" "calm cfg s s' \<Longrightarrow> ct_closed s' = ct_closed s"
  by (simp_all add: calm_def asked_def)

lemma calm_provider:
  assumes "cache_ok cfg s" "provider_for cfg io k i mutates s = (out, s')"
  shows "calm cfg s s'"
  using provider_for_ok [OF assms] by (simp add: calm_def asked_quiet)

text \<open>Looking a provider up and asking it.\<close>

lemma provider_then_calm:
  assumes ok: "cache_ok cfg s" "\<not> ct_closed s" and r: "cbind (provider_for cfg io k i mutates s) f = (out, s')"
    and step: "\<And>p s1. cache_ok cfg s1 \<Longrightarrow> \<not> ct_closed s1 \<Longrightarrow> (mutates \<Longrightarrow> writable cfg (ct_disk s1) i) \<Longrightarrow> f p s1 = (out, s') \<Longrightarrow> calm cfg s1 s'"
  shows "calm cfg s s'"
  using r
proof (cases rule: cbind_cases)
  case (stop er)
  then show ?thesis using calm_provider [OF ok(1)] by blast
next
  case (go p s1)
  note c = calm_provider [OF ok(1) go(1)]
  have "mutates \<Longrightarrow> writable cfg (ct_disk s1) i" using provider_for_ok [OF ok(1) go(1)] ok(2) by blast
  then show ?thesis using step [OF _ _ _ go(2)] c calm_ok [OF c] ok(2) calm_trans by blast
qed

lemma ask_then_calm:
  assumes "cache_ok cfg s" and "call_mutates c \<Longrightarrow> writable cfg (ct_disk s) i" and r: "cbind (ask i c answer s) f = (out, s')"
    and step: "\<And>x s1. s1 = snd (ask i c answer s) \<Longrightarrow> f x s1 = (out, s') \<Longrightarrow> calm cfg s1 s'"
  shows "calm cfg s s'"
proof -
  have "call_mutates c \<longrightarrow> writable cfg (ct_disk s) i" using assms(2) by blast
  from asked_ask [OF assms(1) this, of answer] have c: "calm cfg s (snd (ask i c answer s))" by (simp add: calm_def)
  from r show ?thesis
  proof (cases rule: cbind_cases)
    case (stop er)
    then show ?thesis using c by (metis snd_conv)
  next
    case (go x s1)
    then have "s1 = snd (ask i c answer s)" by (simp add: ask_def)
    then show ?thesis using c step [OF _ go(2)] calm_trans by blast
  qed
qed

section \<open>Handlers\<close>

lemma asked_db [simp]:
  "asked cfg (s\<lparr>ct_db := d\<rparr>) s' = asked cfg s s'" "asked cfg s (s'\<lparr>ct_db := d\<rparr>) = asked cfg s s'"
  "asked cfg s (s'\<lparr>ct_expectations := xs\<rparr>) = asked cfg s s'"
  by (simp_all add: asked_def)

lemma calm_db [simp]:
  "calm cfg (s\<lparr>ct_db := d\<rparr>) s' = calm cfg s s'" "calm cfg s (s'\<lparr>ct_db := d\<rparr>) = calm cfg s s'"
  "calm cfg s (s'\<lparr>ct_expectations := xs\<rparr>) = calm cfg s s'"
  by (simp_all add: calm_def)

lemma state_eta [intro]:
  fixes s :: "'a control_scheme"
  shows "\<exists>d. s = s\<lparr>ct_db := d\<rparr>" "\<exists>d xs. s = s\<lparr>ct_db := d, ct_expectations := xs\<rparr>"
    "\<exists>d' xs. s\<lparr>ct_db := d\<rparr> = s\<lparr>ct_db := d', ct_expectations := xs\<rparr>"
    "\<exists>d' ys. s\<lparr>ct_expectations := xs, ct_db := d\<rparr> = s\<lparr>ct_db := d', ct_expectations := ys\<rparr>"
  by (rule exI [of _ "ct_db s"], simp) (rule exI [of _ "ct_db s"], rule exI [of _ "ct_expectations s"], simp,
    rule exI [of _ d], rule exI [of _ "ct_expectations s"], simp, rule exI [of _ d], rule exI [of _ xs], simp)

lemma audited_cases:
  assumes "audited_control_call io action i md op s = (out, s')"
  obtains (refused) "s' = s" "\<exists>er. out = Inl er"
  | (called) d event o1 s1 d' where "audit_intent (ci_env io 0) (ci_context io) action i md (ct_db s) = Inr (event, d)"
      "op (s\<lparr>ct_db := d\<rparr>) = (o1, s1)" "s' = s1\<lparr>ct_db := d'\<rparr>"
proof (cases "audit_intent (ci_env io 0) (ci_context io) action i md (ct_db s)")
  case (Inl er)
  then show thesis using refused assms by (auto simp: audited_control_call_def)
next
  case (Inr p)
  obtain event d where p: "p = (event, d)" by fastforce
  obtain o1 s1 where o: "op (s\<lparr>ct_db := d\<rparr>) = (o1, s1)" by fastforce
  have "\<exists>d'. s' = s1\<lparr>ct_db := d'\<rparr>"
  proof (cases o1)
    case (Inl er)
    have "s1 = s1\<lparr>ct_db := ct_db s1\<rparr>" by simp
    then show ?thesis using assms Inr p o Inl by (auto simp: state_eta audited_control_call_def split: sum.splits)
  next
    case (Inr x)
    have "s1 = s1\<lparr>ct_db := ct_db s1\<rparr>" by simp
    then show ?thesis using assms \<open>audit_intent _ _ _ _ _ _ = _\<close> p o Inr by (auto simp: state_eta audited_control_call_def split: sum.splits)
  qed
  then show thesis using called Inr p o by blast
qed

lemma audited_asked:
  assumes "audited_control_call io action i md op s = (out, s')" and "cache_ok cfg s" and "\<not> ct_closed s"
    and "\<And>s0 o1 s1. cache_ok cfg s0 \<Longrightarrow> \<not> ct_closed s0 \<Longrightarrow> op s0 = (o1, s1) \<Longrightarrow> asked cfg s0 s1"
  shows "asked cfg s s'"
  using assms(1)
proof (cases rule: audited_cases)
  case refused
  then show ?thesis using assms(2) by simp
next
  case (called d event o1 s1 d')
  have "asked cfg (s\<lparr>ct_db := d\<rparr>) s1" by (rule assms(4)) (use assms(2,3) called in simp_all)
  then show ?thesis using called by simp
qed

lemma calm_asked: "calm cfg s s' \<Longrightarrow> asked cfg s s'"
  by (simp add: calm_def)

lemma transaction_state:
  assumes "transaction f body s = (out, s')"
  shows "s' = s \<or> (\<exists>x. body s = Inr (x, s'))"
  using assms by (auto simp: transaction_def split: sum.splits if_splits)

lemma persist_expectation_state:
  assumes "persist_expectation io i kind digest event o' s = (out, s')"
  shows "\<exists>d xs. s' = s\<lparr>ct_db := d, ct_expectations := xs\<rparr>"
proof -
  have "s' = s \<or> (\<exists>s1. add_expectation (expectation_for io i kind digest event o') s = Inr s1 \<and>
      (\<exists>d. s' = s1\<lparr>ct_db := d\<rparr>))"
    using transaction_state [OF assms [unfolded persist_expectation_def]] by (auto simp: outcome_simps)
  moreover have "s = s\<lparr>ct_db := ct_db s, ct_expectations := ct_expectations s\<rparr>" by simp
  ultimately show ?thesis by (auto simp: add_expectation_def state_eta split: if_splits)
qed

lemma start_operation_cases:
  assumes "start_control_operation io action i kind md start s = (out, s')"
  obtains (refused) "s' = s" | (called) d o1 s1 d' xs where "start (s\<lparr>ct_db := d\<rparr>) = (o1, s1)" "s' = s1\<lparr>ct_db := d', ct_expectations := xs\<rparr>"
proof (cases "audit_intent (ci_env io 0) (ci_context io) action i md (ct_db s)")
  case (Inl er)
  then show thesis using refused assms by (auto simp: start_control_operation_def)
next
  case (Inr p)
  obtain event d where p: "p = (event, d)" by fastforce
  obtain o1 s1 where o: "start (s\<lparr>ct_db := d\<rparr>) = (o1, s1)" by fastforce
  let ?v = "ebind o1 (\<lambda>(o', digest). ebind (validate_expected_control_operation o' kind digest) (\<lambda>_. Inr (o', digest)))"
  have id: "s1 = s1\<lparr>ct_db := ct_db s1, ct_expectations := ct_expectations s1\<rparr>" "s1\<lparr>ct_db := d1\<rparr> = s1\<lparr>ct_db := d1, ct_expectations := ct_expectations s1\<rparr>" for d1 by simp_all
  have "\<exists>d' xs. s' = s1\<lparr>ct_db := d', ct_expectations := xs\<rparr>"
  proof (cases ?v)
    case (Inl er)
    then show ?thesis using assms Inr p o id by (auto simp: state_eta start_control_operation_def split: sum.splits)
  next
    case v: (Inr y)
    obtain o2 digest where y: "y = (o2, digest)" by fastforce
    obtain r s2 where pe: "persist_expectation io i kind digest event o2 s1 = (r, s2)" by fastforce
    obtain d2 xs where s2: "s2 = s1\<lparr>ct_db := d2, ct_expectations := xs\<rparr>" using persist_expectation_state [OF pe] by blast
    show ?thesis
    proof (cases r)
      case (Inl er)
      then show ?thesis using assms Inr p o v y pe s2 by (auto simp: state_eta start_control_operation_def Let_def split: sum.splits)
    next
      case (Inr u)
      then show ?thesis using assms \<open>audit_intent _ _ _ _ _ _ = _\<close> p o v y pe s2 by (auto simp: state_eta start_control_operation_def)
    qed
  qed
  then show thesis using called o by blast
qed

lemma start_operation_asked:
  assumes "start_control_operation io action i kind md start s = (out, s')" and "cache_ok cfg s" and "\<not> ct_closed s"
    and "\<And>s0 o1 s1. cache_ok cfg s0 \<Longrightarrow> \<not> ct_closed s0 \<Longrightarrow> start s0 = (o1, s1) \<Longrightarrow> asked cfg s0 s1"
  shows "asked cfg s s'"
  using assms(1)
proof (cases rule: start_operation_cases)
  case refused
  then show ?thesis using assms(2) by simp
next
  case (called d o1 s1 d' xs)
  have "asked cfg (s\<lparr>ct_db := d\<rparr>) s1" by (rule assms(4)) (use assms(2,3) called in simp_all)
  then show ?thesis using called by simp
qed

lemma call_mutates_simps [simp]:
  "\<not> call_mutates AskCapabilities" "\<not> call_mutates (AskPlan x)" "\<not> call_mutates AskHistory" "\<not> call_mutates (AskOperation x)"
  "\<not> call_mutates (AskVerifyPeer x y n a l)"
  by (simp_all add: call_mutates_def)

lemma forward_asked:
  assumes "forward_call cfg io action md mutates i c answer s = (out, s')" "cache_ok cfg s" "\<not> ct_closed s"
    and "call_mutates c \<Longrightarrow> mutates"
  shows "asked cfg s s'"
  using assms(1) [unfolded forward_call_def] assms(2,3)
proof (rule audited_asked)
  fix s0 o1 s1 assume s0: "cache_ok cfg s0" "\<not> ct_closed s0"
    and r: "cbind (provider_for cfg io 1 i mutates s0) (\<lambda>p. ask i c (answer p)) = (o1, s1)"
  have "calm cfg s0 s1"
  proof (rule provider_then_calm [OF s0 r])
    fix p s2 assume s2: "cache_ok cfg s2" "mutates \<Longrightarrow> writable cfg (ct_disk s2) i" "ask i c (answer p) s2 = (o1, s1)"
    then have "call_mutates c \<longrightarrow> writable cfg (ct_disk s2) i" using assms(4) by blast
    from asked_ask [OF s2(1) this, of "answer p"] show "calm cfg s2 s1"
      using s2(3) ask_keeps(1) [of i c "answer p" s2] by (simp add: calm_def)
  qed
  then show "asked cfg s0 s1" by (rule calm_asked)
qed

lemma apply_asked:
  assumes "apply_config lib cfg io i input schema_answer apply_answer s = (out, s')" "cache_ok cfg s" "\<not> ct_closed s"
  shows "asked cfg s s'"
  using assms(1) [unfolded apply_config_def Let_def] assms(2,3)
proof (rule start_operation_asked)
  let ?review = "verify_plan_review lib (ci_context io) i (ci_time io) input"
  fix s0 o1 s1 assume s0: "cache_ok cfg s0" "\<not> ct_closed s0"
    and r: "cbind (provider_for cfg io 1 i True s0) (\<lambda>p s1.
           case ?review of
             Inl er \<Rightarrow> (Inl er, s1)
           | Inr claims \<Rightarrow>
               cbind (ask i AskCapabilities (schema_answer p) s1) (\<lambda>schema_digest s2.
               if schema_digest \<noteq> pc_schema_digest claims then (Inl (plan_review_error ''PLAN_REVIEW_SCHEMA_CHANGED''), s2)
               else cbind (ask i (AskApply input) (apply_answer p) s2) (\<lambda>o' s3. (Inr (o', ap_candidate_digest input), s3)))) = (o1, s1)"
  have "calm cfg s0 s1"
  proof (rule provider_then_calm [OF s0 r])
    fix p s2 assume s2: "cache_ok cfg s2" "True \<Longrightarrow> writable cfg (ct_disk s2) i"
      and r2: "(case ?review of
             Inl er \<Rightarrow> (Inl er, s2)
           | Inr claims \<Rightarrow>
               cbind (ask i AskCapabilities (schema_answer p) s2) (\<lambda>schema_digest s2.
               if schema_digest \<noteq> pc_schema_digest claims then (Inl (plan_review_error ''PLAN_REVIEW_SCHEMA_CHANGED''), s2)
               else cbind (ask i (AskApply input) (apply_answer p) s2) (\<lambda>o' s3. (Inr (o', ap_candidate_digest input), s3)))) = (o1, s1)"
    show "calm cfg s2 s1"
    proof (cases ?review)
      case (Inl er)
      then show ?thesis using r2 s2(1) by simp
    next
      case (Inr claims)
      then have "cbind (ask i AskCapabilities (schema_answer p) s2) (\<lambda>schema_digest s2.
               if schema_digest \<noteq> pc_schema_digest claims then (Inl (plan_review_error ''PLAN_REVIEW_SCHEMA_CHANGED''), s2)
               else cbind (ask i (AskApply input) (apply_answer p) s2) (\<lambda>o' s3. (Inr (o', ap_candidate_digest input), s3))) = (o1, s1)"
        using r2 by simp
      then show ?thesis
      proof (rule ask_then_calm [OF s2(1), rotated])
        fix x s3 assume s3: "s3 = snd (ask i AskCapabilities (schema_answer p) s2)"
          and r3: "(if x \<noteq> pc_schema_digest claims then (Inl (plan_review_error ''PLAN_REVIEW_SCHEMA_CHANGED''), s3)
               else cbind (ask i (AskApply input) (apply_answer p) s3) (\<lambda>o' s3. (Inr (o', ap_candidate_digest input), s3))) = (o1, s1)"
        have ok3: "cache_ok cfg s3" "writable cfg (ct_disk s3) i" using s2 s3 by simp_all
        show "calm cfg s3 s1"
        proof (cases "x = pc_schema_digest claims")
          case False
          then show ?thesis using r3 ok3(1) by auto
        next
          case True
          then have "cbind (ask i (AskApply input) (apply_answer p) s3) (\<lambda>o' s3. (Inr (o', ap_candidate_digest input), s3)) = (o1, s1)"
            using r3 by simp
          then show ?thesis by (rule ask_then_calm [OF ok3(1), rotated]) (use ok3 in auto)
        qed
      qed simp
    qed
  qed
  then show "asked cfg s0 s1" by (rule calm_asked)
qed

section \<open>The registry changes under the service\<close>

lemma disk_ok_step:
  assumes "registry_step sha c d d'" "disk_ok d"
  shows "disk_ok d'"
proof -
  have inv: "registry_inv d'" using registry_inv_step [OF assms(1)] assms(2) by (simp add: disk_ok_def)
  show ?thesis
    using assms(1)
  proof (cases rule: registry_step_cases)
    case same
    then show ?thesis using assms(2) by simp
  next
    case (update t s1)
    have "rg_tables s1 = rg_tables d" using update(1)
      by cases (simp_all add: expire_codes_def add_enrollment_def bind_row_def finish_enrollment_def update_enrollment_def set_write_def put_managed_def)
    then show ?thesis using update_meta [OF update(1)] update(2) assms(2) inv
      by (auto simp: disk_ok_def bump_generation_def generation_of_def split: option.splits)
  next
    case (adopt m host t)
    then show ?thesis using assms(2) inv by (auto simp: disk_ok_def generation_of_def)
  qed
qed

lemma cache_ok_step:
  assumes "cache_ok cfg s" "registry_step sha c (ct_disk s) d"
  shows "cache_ok cfg (s\<lparr>ct_disk := d\<rparr>)"
proof -
  have "disk_ok d" using disk_ok_step [OF assms(2)] assms(1) by (simp add: cache_ok_def)
  moreover have "generation_ok cfg (s\<lparr>ct_disk := d\<rparr>)"
  proof (cases "ct_registry_open s")
    case True
    then have g: "rg_meta (ct_disk s) \<noteq> None" "ct_registry_gen s \<le> generation_of (ct_disk s)"
      "ct_registry_gen s = generation_of (ct_disk s) \<longrightarrow> coherent cfg s"
      using assms(1) by (simp_all add: cache_ok_def generation_ok_def)
    from step_generation [OF assms(2) g(1)] show ?thesis
      using g True by (auto simp: generation_ok_def coherent_def)
  next
    case False
    then show ?thesis using assms(1) by (simp add: cache_ok_def generation_ok_def)
  qed
  ultimately show ?thesis using assms(1) by (simp add: cache_ok_def static_ok_def managed_known_def)
qed

text \<open>The operations on codes leave the managed instances alone.\<close>

lemma codes_keep_managed:
  "rg_managed (snd (create_enrollment e t c d)) = rg_managed d"
  "rg_managed (snd (begin_claim sha e t q d)) = rg_managed d"
  "rg_managed (snd (complete_relay_claim e t i d)) = rg_managed d"
  "rg_managed (snd (revoke_enrollment e t i d)) = rg_managed d"
proof -
  have body: "rg_managed s1 = rg_managed d" if b: "create_enrollment_body e t c d = Inr (x, s1)" for x s1
  proof -
    obtain s2 where "(if ec_purpose c = PurposeControlAgent
            then stmt (flt e) (Stmt 101) (
                 let s1 = expire_codes (unix_seconds t) (ec_managed_id c) d in
                 ebind (control_enrollment_allowed e c s1) (\<lambda>_. Inr s1))
            else Inr d) = Inr s2" "insert_enrollment (new_enrollment t c) s2 = Inr s1"
      using b by (auto simp: create_enrollment_body_def outcome_simps)
    then have "s2 = expire_codes (unix_seconds t) (ec_managed_id c) d \<or> s2 = d" "rg_managed s1 = rg_managed s2"
      by (auto simp: outcome_simps insert_enrollment_def add_enrollment_def Let_def split: if_splits)
    then show ?thesis by auto
  qed
  obtain o1 d1 where c: "create_enrollment e t c d = (o1, d1)" by fastforce
  have "d1 = d \<or> mutate e t (create_enrollment_body e t c) d = (o1, d1)"
    using c by (auto simp: create_enrollment_def split: sum.splits if_splits)
  then have "rg_managed d1 = rg_managed d"
  proof
    assume "mutate e t (create_enrollment_body e t c) d = (o1, d1)"
    then show ?thesis by (cases rule: mutate_cases) (auto dest: body)
  qed simp
  then show "rg_managed (snd (create_enrollment e t c d)) = rg_managed d" using c by simp
  obtain o2 d2 where b: "begin_claim sha e t q d = (o2, d2)" by fastforce
  then show "rg_managed (snd (begin_claim sha e t q d)) = rg_managed d"
    by (cases rule: begin_claim_cases) (simp_all add: b bind_row_def)
  obtain o3 d3 where r: "complete_relay_claim e t i d = (o3, d3)" by fastforce
  then show "rg_managed (snd (complete_relay_claim e t i d)) = rg_managed d"
    unfolding complete_relay_claim_def
    by (cases rule: mutate_conditional_cases) (auto simp: r [unfolded complete_relay_claim_def] complete_relay_body_def outcome_simps finish_enrollment_def split: if_splits)
  obtain o4 d4 where v: "revoke_enrollment e t i d = (o4, d4)" by fastforce
  then show "rg_managed (snd (revoke_enrollment e t i d)) = rg_managed d"
    unfolding revoke_enrollment_def
    by (cases rule: mutate_cases) (auto simp: v [unfolded revoke_enrollment_def] revoke_body_def outcome_simps update_enrollment_def)
qed

lemma on_registry_quiet:
  assumes "cache_ok cfg s" "registry_step sha c (ct_disk s) (snd (op (ct_disk s)))"
  shows "cache_ok cfg (snd (on_registry op s)) \<and> quiet s (snd (on_registry op s)) \<and>
    ct_disk (snd (on_registry op s)) = snd (op (ct_disk s))"
  using cache_ok_step [OF assms] by (cases "op (ct_disk s)") (simp add: on_registry_def quiet_def)

lemma on_registry_calm:
  assumes "cache_ok cfg s" "registry_step sha c (ct_disk s) (snd (op (ct_disk s)))"
    and "\<And>d. rg_managed (snd (op d)) = rg_managed d"
  shows "calm cfg s (snd (on_registry op s))"
  using on_registry_quiet [where op = op, OF assms(1,2)] assms(3) by (simp add: calm_def asked_quiet)

lemma calm_cbind:
  assumes "cbind m f = (out, s')" and "calm cfg s (snd m)"
    and "\<And>x s1. m = (Inr x, s1) \<Longrightarrow> calm cfg s s1 \<Longrightarrow> f x s1 = (out, s') \<Longrightarrow> calm cfg s1 s'"
  shows "calm cfg s s'"
  using assms(1)
proof (cases rule: cbind_cases)
  case (stop er)
  then show ?thesis using assms(2) by simp
next
  case (go x s1)
  then show ?thesis using assms(2) assms(3) [OF go(1) _ go(2)] calm_trans by simp
qed

lemma code_calm:
  assumes "cache_ok cfg s"
  shows "calm cfg s (snd (on_registry (create_enrollment e t c) s))"
    and "calm cfg s (snd (on_registry (complete_relay_claim e t i) s))"
    and "calm cfg s (snd (on_registry (revoke_enrollment e t i) s))"
    and "calm cfg s (snd (on_registry (begin_claim sha e t q) s))"
  by (rule on_registry_calm [where op = "create_enrollment e t c", OF assms registry_step.Create], simp add: codes_keep_managed)
    (rule on_registry_calm [where op = "complete_relay_claim e t i", OF assms registry_step.Complete_relay], simp add: codes_keep_managed,
     rule on_registry_calm [where op = "revoke_enrollment e t i", OF assms registry_step.Revoke], simp add: codes_keep_managed,
     rule on_registry_calm [where op = "begin_claim sha e t q", OF assms registry_step.Claim [OF prod.collapse [symmetric]]],
     simp add: codes_keep_managed)

lemma rollback_asked:
  assumes "rollback_config cfg io i input history_answer rollback_answer s = (out, s')" "cache_ok cfg s" "\<not> ct_closed s"
  shows "asked cfg s s'"
  using assms(1) [unfolded rollback_config_def] assms(2,3)
proof (rule start_operation_asked)
  let ?found = "\<lambda>p revisions s2.
            case find (\<lambda>r. rv_id r = rb_revision_id input) revisions of
              None \<Rightarrow> (Inl ErrRequestInvalid, s2)
            | Some r \<Rightarrow>
                if rv_candidate_digest r = [] then (Inl ErrRequestInvalid, s2)
                else cbind (ask i (AskRollback input) (rollback_answer p) s2) (\<lambda>o' s3. (Inr (o', rv_candidate_digest r), s3))"
  fix s0 o1 s1 assume s0: "cache_ok cfg s0" "\<not> ct_closed s0"
    and r: "(if rb_risk_confirmation input \<noteq> ''confirm:rollback:'' @ i @ '':'' @ rb_revision_id input
       then (Inl (ErrCoded ''HIGH_RISK_CONFIRMATION_REQUIRED''), s0)
       else cbind (provider_for cfg io 1 i True s0) (\<lambda>p s1. cbind (ask i AskHistory (history_answer p) s1) (?found p))) = (o1, s1)"
  have "calm cfg s0 s1"
  proof (cases "rb_risk_confirmation input = ''confirm:rollback:'' @ i @ '':'' @ rb_revision_id input")
    case False
    then show ?thesis using r s0(1) by auto
  next
    case True
    then have "cbind (provider_for cfg io 1 i True s0) (\<lambda>p s1. cbind (ask i AskHistory (history_answer p) s1) (?found p)) = (o1, s1)"
      using r by simp
    then show ?thesis
    proof (rule provider_then_calm [OF s0])
      fix p s2 assume s2: "cache_ok cfg s2" "True \<Longrightarrow> writable cfg (ct_disk s2) i"
        and r2: "cbind (ask i AskHistory (history_answer p) s2) (?found p) = (o1, s1)"
      show "calm cfg s2 s1"
        using s2(1) _ r2
      proof (rule ask_then_calm)
        fix x s3 assume s3: "s3 = snd (ask i AskHistory (history_answer p) s2)" and r3: "?found p x s3 = (o1, s1)"
        have ok3: "cache_ok cfg s3" "writable cfg (ct_disk s3) i" using s2 s3 by simp_all
        show "calm cfg s3 s1"
        proof (cases "\<exists>r. find (\<lambda>r. rv_id r = rb_revision_id input) x = Some r \<and> rv_candidate_digest r \<noteq> []")
          case False
          then show ?thesis using r3 ok3(1) by (auto split: option.splits if_splits)
        next
          case True
          then obtain r where "find (\<lambda>r. rv_id r = rb_revision_id input) x = Some r" "rv_candidate_digest r \<noteq> []" by blast
          then have "cbind (ask i (AskRollback input) (rollback_answer p) s3) (\<lambda>o' s3. (Inr (o', rv_candidate_digest r), s3)) = (o1, s1)"
            using r3 by simp
          then show ?thesis by (rule ask_then_calm [OF ok3(1), rotated]) (use ok3 in auto)
        qed
      qed simp
    qed
  qed
  then show "asked cfg s0 s1" by (rule calm_asked)
qed

lemma finalize_each_state:
  "finalize_each e o' xs s = Inr ((), s') \<Longrightarrow> \<exists>d. s' = s\<lparr>ct_db := d\<rparr>"
proof (induction xs arbitrary: s)
  case Nil
  then show ?case using state_eta(1) by simp
next
  case (Cons x xs)
  then obtain d where "finalize_each e o' xs (s\<lparr>ct_db := d\<rparr>) = Inr ((), s')"
    by (auto simp: outcome_simps split: option.splits)
  then show ?case using Cons.IH by fastforce
qed

lemma finalize_calm:
  assumes "cache_ok cfg s"
  shows "calm cfg s (snd (finalize_control_operation io xs o' s))"
proof -
  obtain out s' where f: "finalize_control_operation io xs o' s = (out, s')" by fastforce
  have "s' = s \<or> (\<exists>d. s' = s\<lparr>ct_db := d\<rparr>)"
  proof (cases "fst (control_operation_audit_result o') = ''pending''")
    case False
    then show ?thesis using f transaction_state [of "flt (ci_env io 4)" "finalize_each (ci_env io 4) o' xs" s out s'] finalize_each_state
      by (auto simp: finalize_control_operation_def)
  qed (use f in \<open>simp add: finalize_control_operation_def\<close>)
  then show ?thesis using assms f by auto
qed

lemma poll_asked:
  assumes "poll_operation cfg io i operation_id answer s = (out, s')" "cache_ok cfg s" "\<not> ct_closed s"
  shows "asked cfg s s'"
  using assms(1) [unfolded poll_operation_def] assms(2,3)
proof (rule audited_asked)
  let ?rest = "\<lambda>expectations o' s2.
           case validate_expected_control_operation o' (ex_kind (hd expectations)) (ex_digest (hd expectations)) of
             Inl er \<Rightarrow> (Inl er, s2)
           | Inr _ \<Rightarrow> cbind (finalize_control_operation io expectations o' s2) (\<lambda>_ s3. (Inr o', s3))"
  fix s0 o1 s1 assume s0: "cache_ok cfg s0" "\<not> ct_closed s0"
    and r: "(case operation_expectations io i operation_id s0 of
         Inl er \<Rightarrow> (Inl er, s0)
       | Inr expectations \<Rightarrow>
           cbind (provider_for cfg io 1 i False s0) (\<lambda>p s1.
           cbind (ask i (AskOperation operation_id) (answer p) s1) (?rest expectations))) = (o1, s1)"
  have "calm cfg s0 s1"
  proof (cases "operation_expectations io i operation_id s0")
    case (Inl er)
    then show ?thesis using r s0(1) by simp
  next
    case (Inr xs)
    then have "cbind (provider_for cfg io 1 i False s0) (\<lambda>p s1.
           cbind (ask i (AskOperation operation_id) (answer p) s1) (?rest xs)) = (o1, s1)" using r by simp
    then show ?thesis
    proof (rule provider_then_calm [OF s0])
      fix p s2 assume s2: "cache_ok cfg s2" and r2: "cbind (ask i (AskOperation operation_id) (answer p) s2) (?rest xs) = (o1, s1)"
      show "calm cfg s2 s1"
        using s2 _ r2
      proof (rule ask_then_calm)
        fix x s3 assume s3: "s3 = snd (ask i (AskOperation operation_id) (answer p) s2)" and r3: "?rest xs x s3 = (o1, s1)"
        have ok3: "cache_ok cfg s3" using s2 s3 by simp
        show "calm cfg s3 s1"
        proof (cases "validate_expected_control_operation x (ex_kind (hd xs)) (ex_digest (hd xs))")
          case (Inl er)
          then show ?thesis using r3 ok3 by simp
        next
          case (Inr u)
          then have "cbind (finalize_control_operation io xs x s3) (\<lambda>_ s3. (Inr x, s3)) = (o1, s1)" using r3 by simp
          then show ?thesis by (rule calm_cbind) (use finalize_calm [OF ok3] calm_ok in auto)
        qed
      qed simp
    qed
  qed
  then show "asked cfg s0 s1" by (rule calm_asked)
qed

lemma plan_asked:
  assumes "plan_config lib sha cfg io i c plan_answer schema_answer s = (out, s')" "cache_ok cfg s" "\<not> ct_closed s"
  shows "asked cfg s s'"
  using assms(1) [unfolded plan_config_def] assms(2,3)
proof (rule audited_asked)
  let ?seal = "\<lambda>plan schema_digest s3.
       (ebind (seal_plan_review lib (ci_context io) i plan schema_digest) (\<lambda>token. Inr (plan\<lparr>pl_review_token := token\<rparr>)), s3)"
  fix s0 o1 s1 assume s0: "cache_ok cfg s0" "\<not> ct_closed s0"
    and r: "cbind (provider_for cfg io 1 i False s0) (\<lambda>p s1.
       cbind (ask i (AskPlan (cd_document c)) (plan_answer p) s1) (\<lambda>plan s2.
       cbind (ask i AskCapabilities (schema_answer p) s2) (?seal plan))) = (o1, s1)"
  have "calm cfg s0 s1"
  proof (rule provider_then_calm [OF s0 r])
    fix p s2 assume s2: "cache_ok cfg s2"
      and r2: "cbind (ask i (AskPlan (cd_document c)) (plan_answer p) s2) (\<lambda>plan s2.
       cbind (ask i AskCapabilities (schema_answer p) s2) (?seal plan)) = (o1, s1)"
    show "calm cfg s2 s1"
      using s2 _ r2
    proof (rule ask_then_calm)
      fix x s3 assume s3: "s3 = snd (ask i (AskPlan (cd_document c)) (plan_answer p) s2)"
        and r3: "cbind (ask i AskCapabilities (schema_answer p) s3) (?seal x) = (o1, s1)"
      have ok: "cache_ok cfg s3" using s2 s3 by simp
      show "calm cfg s3 s1" using ok _ r3 by (rule ask_then_calm) (use ok in auto)
    qed simp
  qed
  then show "asked cfg s0 s1" by (rule calm_asked)
qed

lemma ask_each_calm:
  assumes "ask_each cfg io q answer ids k checked combined s = (out, s')" "cache_ok cfg s" "\<not> ct_closed s"
  shows "calm cfg s s'"
  using assms
proof (induction ids arbitrary: k checked combined s)
  case (Cons i ids)
  obtain r s1 where p: "provider_for cfg io k i False s = (r, s1)" by fastforce
  note c1 = calm_provider [OF Cons.prems(2) p]
  have s1: "cache_ok cfg s1" "\<not> ct_closed s1" using calm_ok [OF c1] Cons.prems(3) by simp_all
  have "calm cfg s1 s'"
  proof (cases r)
    case (Inl er)
    then show ?thesis using Cons.IH [OF _ s1] Cons.prems(1) p by simp
  next
    case (Inr x)
    let ?c = "AskVerifyPeer (pq_id q) (pq_uuid q) (pq_epoch q) (pq_activation q) (pq_leases q)"
    obtain o2 s2 where ask: "ask i ?c (answer x) s1 = (o2, s2)" by fastforce
    have c2: "calm cfg s1 s2" using asked_ask [OF s1(1), of ?c i "answer x"] ask_keeps(1) [of i ?c "answer x" s1] ask by (simp add: calm_def)
    have s2: "cache_ok cfg s2" "\<not> ct_closed s2" using calm_ok [OF c2] s1 by simp_all
    have "calm cfg s2 s'"
    proof (cases o2)
      case (Inl er)
      then show ?thesis using Cons.IH [OF _ s2] Cons.prems(1) p \<open>r = Inr x\<close> ask by simp
    next
      case (Inr registered)
      then show ?thesis using Cons.IH [OF _ s2] Cons.prems(1) p \<open>r = Inr x\<close> ask s2(1) by (cases registered) auto
    qed
    then show ?thesis using c2 calm_trans by blast
  qed
  then show ?case using c1 calm_trans by blast
qed (auto split: option.splits if_splits)

lemma verify_peer_calm:
  assumes "cache_ok cfg s" "\<not> ct_closed s"
  shows "calm cfg s (snd (verify_peer cfg io q answer s))"
  using assms ask_each_calm [OF prod.collapse [symmetric] assms] by (simp add: verify_peer_def)

lemma initialize_cases:
  assumes "initialize e t host d = (r, d')"
  shows "(d' = d \<and> ((\<exists>u. r = Inr u) \<longrightarrow> rg_tables d)) \<or> (\<exists>installation. d' = fresh_registry t host installation d)"
proof (cases "flt e (Outside 125) \<or> rg_tables d \<or> flt e (Outside 127) \<or> rg_foreign d")
  case True
  then show ?thesis using assms by (auto simp: initialize_def split: if_splits)
next
  case False
  then have "transaction (flt e) (\<lambda>s0. stmt (flt e) (Stmt 114) (stmt (flt e) (Stmt 115)
      (Inr ((), fresh_registry t host (uuid_new e) s0)))) d = (r, d')"
    using assms by (simp add: initialize_def)
  then show ?thesis
    by (cases r) (auto simp: outcome_simps dest: transaction_Inl_state)
qed

lemma disk_ok_fresh: "disk_ok (fresh_registry t host installation d) \<and> rg_meta (fresh_registry t host installation d) \<noteq> None"
  by (simp add: disk_ok_def) (simp add: fresh_registry_def generation_of_def)

lemma open_initializing_ok:
  assumes "open_registry e t True fp files d = (r, d')" "disk_ok d"
  shows "disk_ok d' \<and> ((\<exists>u. r = Inr u) \<longrightarrow> rg_meta d' \<noteq> None) \<and> (d' = d \<or> \<not> rg_tables d)"
proof -
  have "(r, d') = (r, d) \<and> (\<exists>er. r = Inl er) \<or> (\<exists>host r1. initialize e t host d = (r1, d') \<and> ((\<exists>u. r = Inr u) \<longrightarrow> (\<exists>u. r1 = Inr u)))"
    using assms(1) by (auto simp: open_registry_def split: sum.splits if_splits prod.splits)
  then show ?thesis
  proof
    assume "\<exists>host r1. initialize e t host d = (r1, d') \<and> ((\<exists>u. r = Inr u) \<longrightarrow> (\<exists>u. r1 = Inr u))"
    then obtain host r1 where r1: "initialize e t host d = (r1, d')" "(\<exists>u. r = Inr u) \<longrightarrow> (\<exists>u. r1 = Inr u)" by blast
    have "\<not> rg_tables d \<or> d' = d" using r1(1) by (auto simp: initialize_def split: if_splits)
    from initialize_cases [OF r1(1)] show ?thesis
    proof
      assume "d' = d \<and> ((\<exists>u. r1 = Inr u) \<longrightarrow> rg_tables d)"
      then show ?thesis using r1(2) assms(2) by (auto simp: disk_ok_def)
    next
      assume "\<exists>installation. d' = fresh_registry t host installation d"
      then have "disk_ok d' \<and> rg_meta d' \<noteq> None" using disk_ok_fresh by blast
      then show ?thesis using \<open>\<not> rg_tables d \<or> d' = d\<close> by blast
    qed
  qed (use assms(2) in auto)
qed

lemma cache_ok_closed_registry:
  "cache_ok cfg s \<Longrightarrow> \<not> ct_registry_open s \<Longrightarrow> disk_ok d \<Longrightarrow> cache_ok cfg (s\<lparr>ct_disk := d\<rparr>)"
  by (simp add: cache_ok_def static_ok_def managed_known_def generation_ok_def)

lemma ensure_registry_quiet:
  assumes ok: "cache_ok cfg s" and r: "ensure_pairing_registry cfg io k allow s = (out, s')"
  shows "cache_ok cfg s' \<and> quiet s s'"
proof (cases "\<not> cc_pairing_enabled cfg \<or> ct_registry_open s \<or>
    \<not> allow \<or> \<not> (case ct_registry_err s of None \<Rightarrow> False | Some er \<Rightarrow> err_is er ErrNotFound) \<or> ct_closed s")
  case True
  then have "s' = s" using r by (auto simp: ensure_pairing_registry_def split: if_splits)
  then show ?thesis using ok by simp
next
  case False
  obtain o1 d where o: "open_registry (ci_env io k) (ci_time io) True (ci_host io) (ci_files io True) (ct_disk s) = (o1, d)" by fastforce
  have disk: "disk_ok (ct_disk s)" using ok by (simp add: cache_ok_def)
  note d = open_initializing_ok [OF o disk]
  show ?thesis
  proof (cases o1)
    case (Inl er)
    then have "s' = s\<lparr>ct_disk := d, ct_registry_err := Some er\<rparr>" using r False o by (simp add: ensure_pairing_registry_def)
    then show ?thesis using cache_ok_closed_registry [OF ok _ conjunct1 [OF d]] False by (simp add: quiet_def)
  next
    case (Inr u)
    let ?s = "s\<lparr>ct_disk := d, ct_registry_open := True, ct_registry_err := None\<rparr>"
    obtain r2 s2 where rf: "refresh_managed_instances cfg io k ?s = (r2, s2)" by fastforce
    have "cache_ok cfg ?s" using cache_ok_opened [OF ok] False d Inr by blast
    then have s2: "cache_ok cfg s2 \<and> quiet ?s s2" using refresh_ok [OF _ rf] by blast
    have "s' = s2 \<or> (\<exists>er. s' = s2\<lparr>ct_registry_err := er\<rparr>)"
      using r False o Inr rf by (auto simp: ensure_pairing_registry_def split: sum.splits)
    then show ?thesis using s2 by (auto simp: quiet_def)
  qed
qed

lemma quiet_asked: "cache_ok cfg s' \<and> quiet s s' \<Longrightarrow> asked cfg s s'"
  by (simp add: asked_quiet)

text \<open>A chain of quiet steps.\<close>

lemma quiet_cbind:
  assumes "cbind m f = (out, s')" and "cache_ok cfg (snd m) \<and> quiet s (snd m)"
    and "\<And>x s1. m = (Inr x, s1) \<Longrightarrow> cache_ok cfg s1 \<Longrightarrow> f x s1 = (out, s') \<Longrightarrow> cache_ok cfg s' \<and> quiet s1 s'"
  shows "cache_ok cfg s' \<and> quiet s s'"
  using assms(1)
proof (cases rule: cbind_cases)
  case (stop er)
  then show ?thesis using assms(2) by simp
next
  case (go x s1)
  then have "cache_ok cfg s1" "quiet s s1" using assms(2) by simp_all
  then show ?thesis using assms(3) [OF go(1) _ go(2)] quiet_trans by blast
qed

lemma refresh_quiet:
  "cache_ok cfg s \<Longrightarrow> cache_ok cfg (snd (refresh_managed_instances cfg io k s)) \<and> quiet s (snd (refresh_managed_instances cfg io k s))"
  using refresh_ok [OF _ prod.collapse [symmetric]] by blast

lemma registry_op_quiet:
  assumes "cache_ok cfg s"
  shows "cache_ok cfg (snd (on_registry (create_enrollment e t c) s)) \<and> quiet s (snd (on_registry (create_enrollment e t c) s))"
    and "cache_ok cfg (snd (on_registry (revoke_enrollment e t i) s)) \<and> quiet s (snd (on_registry (revoke_enrollment e t i) s))"
    and "cache_ok cfg (snd (on_registry (set_managed_read_only e t i ro) s)) \<and> quiet s (snd (on_registry (set_managed_read_only e t i ro) s))"
    and "cache_ok cfg (snd (on_registry (complete_control_claim e t i m) s)) \<and> quiet s (snd (on_registry (complete_control_claim e t i m) s))"
  using on_registry_quiet [where op = "create_enrollment e t c", OF assms registry_step.Create]
    on_registry_quiet [where op = "revoke_enrollment e t i", OF assms registry_step.Revoke]
    on_registry_quiet [where op = "set_managed_read_only e t i ro", OF assms registry_step.Write]
    on_registry_quiet [where op = "complete_control_claim e t i m", OF assms registry_step.Complete_control] by blast+

lemma create_pairing_asked:
  assumes "create_control_pairing cfg p write io rnd input s = (out, s')" "cache_ok cfg s"
  shows "asked cfg s s'"
proof (cases "create_checks cfg (ci_env io 2) input")
  case (Inl er)
  then show ?thesis using assms by (simp add: create_control_pairing_def)
next
  case (Inr y)
  obtain action origin where y: "y = (action, origin)" by fastforce
  define rest where "rest = (\<lambda>s1. let enrollment_id = uuid_new (ci_env io 2)
     in case prepare_control_identity (ci_env io 2) p \<lparr>io_managed_id = cr_managed_id input, io_enrollment_id = enrollment_id,
               io_name = trim_space (cr_name input), io_agent_origin = po_origin origin, io_tls_name = po_tls_name origin,
               io_broker_origin = cc_broker_origin cfg, io_center_key = cc_center_key cfg\<rparr> of
          Inl er \<Rightarrow> (Inl (pairing_problem_with_cause ''PAIRING_IDENTITY_UNAVAILABLE'' (Some er)), s1)
        | Inr prepared \<Rightarrow>
       (case random_pairing_secret rnd of
          Inl er \<Rightarrow> (Inl (pairing_problem_with_cause ''PAIRING_RANDOM_UNAVAILABLE'' (Some er)), s1)
        | Inr secret \<Rightarrow>
       (case secret_digest (pk_sha p) secret of
          Inl er \<Rightarrow> (Inl er, s1)
        | Inr digest \<Rightarrow>
            cbind (on_registry (create_enrollment (ci_env io 2) (ci_time io)
                     (control_code cfg io input action origin enrollment_id (pi_digest prepared) digest)) s1) (\<lambda>r s2.
            (encode_pairing_code cfg write r secret, s2)))))"
  have rest: "cache_ok cfg s' \<and> quiet s1 s'" if "cache_ok cfg s1" "rest s1 = (out, s')" for s1
  proof -
    have "s' = s1 \<or> (\<exists>c secret. cbind (on_registry (create_enrollment (ci_env io 2) (ci_time io) c) s1) (\<lambda>r s2.
            (encode_pairing_code cfg write r secret, s2)) = (out, s'))"
      using that(2) by (auto simp: rest_def Let_def split: sum.splits)
    then show ?thesis
    proof
      assume "\<exists>c secret. cbind (on_registry (create_enrollment (ci_env io 2) (ci_time io) c) s1) (\<lambda>r s2.
            (encode_pairing_code cfg write r secret, s2)) = (out, s')"
      then obtain c secret where "cbind (on_registry (create_enrollment (ci_env io 2) (ci_time io) c) s1) (\<lambda>r s2.
            (encode_pairing_code cfg write r secret, s2)) = (out, s')" by blast
      then show ?thesis by (rule quiet_cbind) (use registry_op_quiet(1) [OF that(1)] in auto)
    qed (use that(1) in simp)
  qed
  have "cbind (ensure_pairing_registry cfg io 1 (action = ActionPair) s) (\<lambda>_. rest) = (out, s')"
    using assms(1) Inr y by (simp add: create_control_pairing_def rest_def)
  then have "cache_ok cfg s' \<and> quiet s s'"
    by (rule quiet_cbind) (use ensure_registry_quiet [OF assms(2) prod.collapse [symmetric]] rest in auto)
  then show ?thesis by (rule quiet_asked)
qed

lemma revoke_pairing_asked:
  assumes "revoke_control_pairing cfg io i confirmation s = (out, s')" "cache_ok cfg s"
  shows "asked cfg s s'"
proof -
  have "s' = s \<or> on_registry (revoke_enrollment (ci_env io 2) (ci_time io) i) s = (out, s')"
    using assms(1) by (auto simp: revoke_control_pairing_def split: sum.splits if_splits)
  then show ?thesis using registry_op_quiet(2) [OF assms(2)] assms(2) quiet_asked by (metis asked_refl snd_conv)
qed

lemma write_policy_asked:
  assumes "set_managed_write_enabled cfg io i enabled confirmation s = (out, s')" "cache_ok cfg s" "\<not> ct_closed s"
  shows "asked cfg s s'"
  using assms(1) [unfolded set_managed_write_enabled_def] assms(2,3)
proof (rule audited_asked)
  let ?rest = "\<lambda>_ s1. cbind (refresh_managed_instances cfg io 4 s1) (\<lambda>_ s2. (Inr (map_of (ct_instances s2) i), s2))"
  fix s0 o1 s1 assume s0: "cache_ok cfg s0"
    and r: "(case pairing_registry cfg s0 of
         Inl er \<Rightarrow> (Inl er, s0)
       | Inr _ \<Rightarrow>
           if confirmation \<noteq> ''confirm:managed-write:'' @ i @ '':'' @ bool_text enabled
           then (Inl (pairing_problem ''HIGH_RISK_CONFIRMATION_REQUIRED''), s0)
           else cbind (on_registry (set_managed_read_only (ci_env io 2) (ci_time io) i (\<not> enabled)) s0) ?rest) = (o1, s1)"
  have "s1 = s0 \<or> cbind (on_registry (set_managed_read_only (ci_env io 2) (ci_time io) i (\<not> enabled)) s0) ?rest = (o1, s1)"
    using r by (auto split: sum.splits if_splits)
  then have "cache_ok cfg s1 \<and> quiet s0 s1"
  proof
    assume "cbind (on_registry (set_managed_read_only (ci_env io 2) (ci_time io) i (\<not> enabled)) s0) ?rest = (o1, s1)"
    then show ?thesis
    proof (rule quiet_cbind [OF _ registry_op_quiet(3) [OF s0]])
      fix x s2 assume "cache_ok cfg s2" "?rest x s2 = (o1, s1)"
      from this(2) show "cache_ok cfg s1 \<and> quiet s2 s1"
        by (rule quiet_cbind) (use refresh_quiet [OF \<open>cache_ok cfg s2\<close>] in auto)
    qed
  qed (use s0 in simp)
  then show "asked cfg s0 s1" by (rule quiet_asked)
qed

lemma ask_calm:
  assumes "cache_ok cfg s" "call_mutates c \<longrightarrow> writable cfg (ct_disk s) i"
  shows "calm cfg s (snd (ask i c answer s))"
  using asked_ask [OF assms, of answer] by (simp add: calm_def)

lemma revoke_prepared_calm:
  "cache_ok cfg s \<Longrightarrow> writable cfg (ct_disk s) i \<Longrightarrow> calm cfg s (revoke_prepared i prepared s)"
  unfolding revoke_prepared_def by (rule ask_calm) simp_all

lemma calm_writable: "calm cfg s s' \<Longrightarrow> writable cfg (ct_disk s') i = writable cfg (ct_disk s) i"
  by (rule writable_managed) (simp add: calm_def)

definition relay_rest ::
    "control_config \<Rightarrow> pki \<Rightarrow> relay_json \<Rightarrow> (pairing_code_payload \<Rightarrow> string) \<Rightarrow> control_io \<Rightarrow> string option \<Rightarrow> string \<Rightarrow> relay_prepare
      \<Rightarrow> relay_prepared \<Rightarrow> control \<Rightarrow> (err + pairing_code_result) \<times> control" where
  "relay_rest cfg p j write io rnd i input prepared s2 =
     (if rd_config_digest prepared \<noteq> relay_configuration_digest (pk_sha p) j input
          then (Inl (pairing_problem ''RELAY_CONFIGURATION_DRIFT''), revoke_prepared i prepared s2)
          else if \<not> rd_expires prepared * second > ci_time io \<or> rd_expires prepared * second > ci_time io + 3600 * second
          then (Inl (pairing_problem ''RELAY_ENROLLMENT_EXPIRY_INVALID''), revoke_prepared i prepared s2)
          else case random_pairing_secret rnd of
            Inl er \<Rightarrow> (Inl (pairing_problem_with_cause ''PAIRING_RANDOM_UNAVAILABLE'' (Some er)), s2)
          | Inr secret \<Rightarrow>
         (case secret_digest (pk_sha p) secret of
            Inl er \<Rightarrow> (Inl (pairing_problem_with_cause ''PAIRING_RANDOM_UNAVAILABLE'' (Some er)), s2)
          | Inr digest \<Rightarrow>
         (case on_registry (create_enrollment (ci_env io 2) (ci_time io)
                 (relay_code cfg i input prepared digest (rj_write j input))) s2 of
            (Inl er, s3) \<Rightarrow> (Inl er, revoke_prepared i prepared s3)
          | (Inr r, s3) \<Rightarrow> (encode_pairing_code cfg write r secret, s3))))"

lemma relay_rest_calm:
  assumes "relay_rest cfg p j write io rnd i input prepared s = (out, s')" "cache_ok cfg s" "writable cfg (ct_disk s) i"
  shows "calm cfg s s'"
proof -
  have "s' = s \<or> s' = revoke_prepared i prepared s \<or> (\<exists>c. let s3 = snd (on_registry (create_enrollment (ci_env io 2) (ci_time io) c) s)
      in s' = s3 \<or> s' = revoke_prepared i prepared s3)"
  proof (cases "rd_config_digest prepared \<noteq> relay_configuration_digest (pk_sha p) j input \<or>
      \<not> rd_expires prepared * second > ci_time io \<or> rd_expires prepared * second > ci_time io + 3600 * second")
    case True
    then show ?thesis using assms(1) by (auto simp: relay_rest_def split: if_splits)
  next
    case False
    show ?thesis
    proof (cases "\<exists>secret digest. random_pairing_secret rnd = Inr secret \<and> secret_digest (pk_sha p) secret = Inr digest")
      case no: False
      then show ?thesis using assms(1) False by (auto simp: relay_rest_def split: sum.splits)
    next
      case True
      then obtain secret digest where k: "random_pairing_secret rnd = Inr secret" "secret_digest (pk_sha p) secret = Inr digest" by blast
      obtain r s3 where c: "on_registry (create_enrollment (ci_env io 2) (ci_time io)
          (relay_code cfg i input prepared digest (rj_write j input))) s = (r, s3)" by fastforce
      have "s' = s3 \<or> s' = revoke_prepared i prepared s3"
        using assms(1) False k c by (cases r) (auto simp: relay_rest_def)
      then show ?thesis using c by (metis snd_conv)
    qed
  qed
  then show ?thesis
  proof (elim disjE exE)
    fix c
    let ?s3 = "snd (on_registry (create_enrollment (ci_env io 2) (ci_time io) c) s)"
    assume c: "let s3 = ?s3 in s' = s3 \<or> s' = revoke_prepared i prepared s3"
    note k = code_calm(1) [OF assms(2), of "ci_env io 2" "ci_time io" c]
    have "calm cfg ?s3 (revoke_prepared i prepared ?s3)"
      using revoke_prepared_calm [OF calm_ok(1) [OF k]] calm_writable [OF k] assms(3) by blast
    then show ?thesis using c k calm_trans by (auto simp: Let_def)
  qed (use assms(2,3) revoke_prepared_calm in auto)
qed

lemma create_relay_asked:
  assumes "create_relay_pairing cfg p j write io agent rnd i input idempotency confirmation s = (out, s')" "cache_ok cfg s" "\<not> ct_closed s"
  shows "asked cfg s s'"
proof (cases "pairing_registry cfg s = Inr () \<and>
    (rt_activate (rp_terms input) \<longrightarrow> confirmation = ''confirm:activate-after-health:'' @ i @ '':'' @ rt_node_id (rp_terms input))")
  case False
  then have "s' = s" using assms(1) by (cases "pairing_registry cfg s") (auto simp: create_relay_pairing_def)
  then show ?thesis using assms(2) by simp
next
  case True
  then have "cbind (provider_for cfg io 1 i True s) (\<lambda>inst s1.
      cbind (ask i (AskRelayPrepare (rj_write j input) idempotency) (ga_prepare agent inst) s1) (relay_rest cfg p j write io rnd i input)) = (out, s')"
    using assms(1) by (auto simp: create_relay_pairing_def relay_rest_def [abs_def] simp del: One_nat_def)
  then have "calm cfg s s'"
  proof (rule provider_then_calm [OF assms(2,3)])
    fix inst s1 assume s1: "cache_ok cfg s1" "True \<Longrightarrow> writable cfg (ct_disk s1) i"
      and r: "cbind (ask i (AskRelayPrepare (rj_write j input) idempotency) (ga_prepare agent inst) s1) (relay_rest cfg p j write io rnd i input) = (out, s')"
    show "calm cfg s1 s'"
      using s1(1) _ r
    proof (rule ask_then_calm)
      fix x s2 assume "s2 = snd (ask i (AskRelayPrepare (rj_write j input) idempotency) (ga_prepare agent inst) s1)"
        "relay_rest cfg p j write io rnd i input x s2 = (out, s')"
      then show "calm cfg s2 s'" using relay_rest_calm s1 by simp
    qed (use s1 in simp)
  qed
  then show ?thesis by (rule calm_asked)
qed

lemma activate_relay_asked:
  assumes "activate_relay_enrollment cfg io agent i input confirmation s = (out, s')" "cache_ok cfg s" "\<not> ct_closed s"
  shows "asked cfg s s'"
proof (cases "confirmation = ''confirm:relay-activate:'' @ ra_enrollment input @ '':'' @ ra_operation input @ '':'' @ decimal (ra_generation input)")
  case False
  then show ?thesis using assms by (auto simp: activate_relay_enrollment_def)
next
  case True
  then have "cbind (provider_for cfg io 1 i True s) (\<lambda>inst. ask i (AskRelayActivate input) (ga_activate agent inst)) = (out, s')"
    using assms(1) by (simp add: activate_relay_enrollment_def)
  then have "calm cfg s s'"
    by (rule provider_then_calm [OF assms(2,3)]) (use ask_calm in \<open>metis snd_conv\<close>)
  then show ?thesis by (rule calm_asked)
qed

lemma sync_relay_calm:
  assumes "cache_ok cfg s"
  shows "calm cfg s (snd (sync_local_relay_revocation io i input s))"
proof -
  have "snd (sync_local_relay_revocation io i input s) = s \<or> snd (sync_local_relay_revocation io i input s) =
      snd (on_registry (revoke_enrollment (ci_env io 2) (ci_time io) (rr_enrollment input)) s)"
    by (auto simp: sync_local_relay_revocation_def split: sum.splits)
  then show ?thesis using code_calm(3) [OF assms] assms by auto
qed

lemma revoke_relay_asked:
  assumes "revoke_relay_enrollment cfg io agent i input s = (out, s')" "cache_ok cfg s" "\<not> ct_closed s"
  shows "asked cfg s s'"
proof -
  have "calm cfg s s'"
    using assms(1) [unfolded revoke_relay_enrollment_def]
  proof (rule provider_then_calm [OF assms(2,3)])
    fix inst s1 assume s1: "cache_ok cfg s1" "True \<Longrightarrow> writable cfg (ct_disk s1) i"
      and r: "cbind (ask i (AskRelayRevoke input) (ga_revoke agent inst) s1) (\<lambda>result s2.
        cbind (sync_local_relay_revocation io i input s2) (\<lambda>_ s3. (Inr result, s3))) = (out, s')"
    show "calm cfg s1 s'"
      using s1(1) _ r
    proof (rule ask_then_calm)
      fix x s2 assume s2: "s2 = snd (ask i (AskRelayRevoke input) (ga_revoke agent inst) s1)"
        and r2: "cbind (sync_local_relay_revocation io i input s2) (\<lambda>_ s3. (Inr x, s3)) = (out, s')"
      have ok: "cache_ok cfg s2" using s2 s1 by simp
      show "calm cfg s2 s'"
        using r2 by (rule calm_cbind) (use sync_relay_calm [OF ok] calm_ok in auto)
    qed (use s1 in simp)
  qed
  then show ?thesis by (rule calm_asked)
qed

lemma claim_control_quiet:
  assumes "claim_control cfg p io q r s = (out, s')" "cache_ok cfg s"
  shows "cache_ok cfg s' \<and> quiet s s'"
proof -
  define rest where "rest = (\<lambda>cert m1 s1. case ci_export io m1 of
                Some er \<Rightarrow> (Inl (pairing_problem_with_cause ''STATIC_EXPORT_FAILED'' (Some er)), s1)
              | None \<Rightarrow>
                  (case refresh_managed_instances cfg io 4 s1 of
                     (Inl er, s2) \<Rightarrow> (Inl (pairing_problem_with_cause ''MANAGED_PROVIDER_RELOAD_FAILED'' (Some er)), s2)
                   | (Inr _, s2) \<Rightarrow> (Inr (ControlBundle (en_instance r) cert), s2)))"
  have rest: "cache_ok cfg s' \<and> quiet s1 s'" if "cache_ok cfg s1" "rest cert m1 s1 = (out, s')" for cert m1 s1
  proof -
    have "s' = s1 \<or> s' = snd (refresh_managed_instances cfg io 4 s1)"
      using that(2) by (auto simp: rest_def split: option.splits sum.splits prod.splits)
    then show ?thesis using that(1) refresh_quiet by auto
  qed
  have "s' = s \<or> (\<exists>m cert. cbind (on_registry (complete_control_claim (ci_env io 3) (ci_time io) (cq_enrollment q) m) s) (rest cert) = (out, s'))"
    using assms(1) by (auto simp: claim_control_def rest_def split: sum.splits if_splits)
  then show ?thesis
  proof (elim disjE exE)
    fix m cert assume "cbind (on_registry (complete_control_claim (ci_env io 3) (ci_time io) (cq_enrollment q) m) s) (rest cert) = (out, s')"
    then show ?thesis by (rule quiet_cbind) (use registry_op_quiet(4) [OF assms(2)] rest in auto)
  qed (use assms(2) in simp)
qed

lemma claim_relay_calm:
  assumes "claim_relay cfg j io agent q r s = (out, s')" "cache_ok cfg s" "\<not> ct_closed s"
  shows "calm cfg s s'"
  using assms(1) [unfolded claim_relay_def]
proof (rule provider_then_calm [OF assms(2,3)])
  let ?rest = "\<lambda>bundle s2. case validate_relay_pairing_bundle j (en_relay_spec r) bundle of
       Inl er \<Rightarrow> (Inl (pairing_problem_with_cause ''RELAY_CONFIGURATION_DRIFT'' (Some er)), s2)
     | Inr _ \<Rightarrow>
         cbind (on_registry (complete_relay_claim (ci_env io 3) (ci_time io) (cq_enrollment q)) s2) (\<lambda>_ s3.
         (Inr (RelayBundle bundle), s3))"
  fix inst s1 assume s1: "cache_ok cfg s1" "True \<Longrightarrow> writable cfg (ct_disk s1) (en_managed_id r)"
    and r: "cbind (ask (en_managed_id r) (AskRelayComplete q) (ga_complete agent inst) s1) ?rest = (out, s')"
  show "calm cfg s1 s'"
    using s1(1) _ r
  proof (rule ask_then_calm)
    fix x s2 assume s2: "s2 = snd (ask (en_managed_id r) (AskRelayComplete q) (ga_complete agent inst) s1)" and r2: "?rest x s2 = (out, s')"
    have ok: "cache_ok cfg s2" using s2 s1 by simp
    show "calm cfg s2 s'"
    proof (cases "validate_relay_pairing_bundle j (en_relay_spec r) x")
      case (Inl er)
      then show ?thesis using r2 ok by simp
    next
      case (Inr u)
      then have "cbind (on_registry (complete_relay_claim (ci_env io 3) (ci_time io) (cq_enrollment q)) s2) (\<lambda>_ s3.
         (Inr (RelayBundle x), s3)) = (out, s')" using r2 by simp
      then show ?thesis by (rule calm_cbind) (use code_calm(2) [OF ok] calm_ok in auto)
    qed
  qed (use s1 in simp)
qed

lemma claim_asked:
  assumes "claim_pairing cfg p j io agent q s = (out, s')" "cache_ok cfg s" "\<not> ct_closed s"
  shows "asked cfg s s'"
proof (cases "pairing_registry cfg s")
  case (Inl er)
  then show ?thesis using assms by (simp add: claim_pairing_def)
next
  case (Inr u)
  let ?rest = "\<lambda>(r, repeated) s1.
            if cq_purpose q = PurposeControlAgent then claim_control cfg p io q r s1
            else if cq_purpose q = PurposeRelay then claim_relay cfg j io agent q r s1
            else (Inl ErrRequestInvalid, s1)"
  have "audited_control_call io ''server_control.pairing.claim'' (cq_enrollment q)
      [(''purpose'', MStr (cq_purpose q)), (''enrollment_id'', MStr (cq_enrollment q))] (\<lambda>s0.
      cbind (on_registry (begin_claim (pk_sha p) (ci_env io 1) (ci_time io) q) s0) ?rest) s = (out, s')"
    using assms(1) Inr by (simp add: claim_pairing_def)
  then show ?thesis
    using assms(2,3)
  proof (rule audited_asked)
    fix s0 o1 s1 assume s0: "cache_ok cfg s0" "\<not> ct_closed s0"
      and r: "cbind (on_registry (begin_claim (pk_sha p) (ci_env io 1) (ci_time io) q) s0) ?rest = (o1, s1)"
    note started = code_calm(4) [OF s0(1), of "pk_sha p" "ci_env io 1" "ci_time io" q]
      on_registry_quiet [where op = "begin_claim (pk_sha p) (ci_env io 1) (ci_time io) q", OF s0(1) registry_step.Claim [OF prod.collapse [symmetric]]]
    show "asked cfg s0 s1"
    proof (cases "cq_purpose q = PurposeControlAgent")
      case True
      have "cache_ok cfg s1 \<and> quiet s0 s1"
        using r
      proof (rule quiet_cbind)
        fix x s2 assume "cache_ok cfg s2" "?rest x s2 = (o1, s1)"
        then show "cache_ok cfg s1 \<and> quiet s2 s1" using claim_control_quiet True by (cases x) auto
      qed (use started(2) in blast)
      then show ?thesis by (rule quiet_asked)
    next
      case False
      have "calm cfg s0 s1"
        using r
      proof (rule calm_cbind)
        fix x s2 assume c: "calm cfg s0 s2" and x: "?rest x s2 = (o1, s1)"
        have "cache_ok cfg s2" "\<not> ct_closed s2" using calm_ok [OF c] s0 by simp_all
        then show "calm cfg s2 s1" using claim_relay_calm x False by (cases x) (auto split: if_splits)
      qed (use started(1) in blast)
      then show ?thesis by (rule calm_asked)
    qed
  qed
qed

section \<open>Runs of the service\<close>

lemma add_static_fields:
  "ct_disk (add_static cfg io inst s) = ct_disk s" "ct_managed_ids (add_static cfg io inst s) = ct_managed_ids s"
  "ct_registry_open (add_static cfg io inst s) = ct_registry_open s" "ct_registry_gen (add_static cfg io inst s) = ct_registry_gen s"
  "ct_closed (add_static cfg io inst s) = ct_closed s" "ct_sent (add_static cfg io inst s) = ct_sent s"
  by (simp_all add: add_static_def Let_def put_instance_def put_provider_err_def put_provider_def split: option.splits prod.splits)

lemma add_static_views:
  "map_of (ct_instances (add_static cfg io inst s)) i = map_of (ct_instances s) i \<or> (i = si_id inst \<and>
     (\<exists>x. map_of (ct_instances (add_static cfg io inst s)) i = Some x \<and> sc_read_only x = cc_read_only cfg \<and> sc_enabled x = si_enabled inst))"
  "map_of (ct_providers (add_static cfg io inst s)) i = map_of (ct_providers s) i \<or> i = si_id inst"
  by (auto simp: add_static_def Let_def put_instance_def put_provider_err_def put_provider_def update_conv' static_summary_def
      split: option.splits prod.splits)

lemma add_statics_ok:
  assumes "set insts \<subseteq> set (cc_instances cfg)" "cache_ok cfg s" "\<not> ct_registry_open s"
  shows "cache_ok cfg (fold (add_static cfg io) insts s)"
  using assms
proof (induction insts arbitrary: s)
  case (Cons inst insts)
  have mine: "inst \<in> set (cc_instances cfg)" "si_id inst \<in> set (static_ids cfg)" using Cons.prems(1) by (auto simp: static_ids_def)
  have static: "static_ok cfg (add_static cfg io inst s)"
    unfolding static_ok_def
  proof (intro ballI allI impI)
    fix i x assume i: "i \<in> set (static_ids cfg)" and x: "map_of (ct_instances (add_static cfg io inst s)) i = Some x"
    show "sc_read_only x = cc_read_only cfg \<and> (sc_enabled x \<longrightarrow> (\<exists>inst\<in>set (cc_instances cfg). si_id inst = i \<and> si_enabled inst))"
    proof (cases "map_of (ct_instances s) i = Some x")
      case True
      then show ?thesis using i Cons.prems(2) by (auto simp: cache_ok_def static_ok_def)
    next
      case False
      then show ?thesis using add_static_views(1) [of cfg io inst s i] x mine(1) by auto
    qed
  qed
  have known: "managed_known cfg (add_static cfg io inst s)"
    using Cons.prems(2) add_static_views [of cfg io inst s] mine(2)
    by (auto simp: cache_ok_def managed_known_def add_static_fields) (metis not_Some_eq)+
  have "cache_ok cfg (add_static cfg io inst s)"
    using static known Cons.prems(2,3) by (simp add: cache_ok_def generation_ok_def add_static_fields)
  then show ?case using Cons by (simp add: add_static_fields)
qed simp

lemma initialize_managed_ok:
  assumes ok: "cache_ok cfg s" and "\<not> ct_registry_open s" "\<not> ct_closed s"
  shows "cache_ok cfg (initialize_managed_registry cfg io k s) \<and> quiet s (initialize_managed_registry cfg io k s)"
proof -
  obtain r d where o: "open_registry (ci_env io k) (ci_time io) False (ci_host io) (ci_files io False) (ct_disk s) = (r, d)" by fastforce
  have d: "d = ct_disk s" using o by (rule open_existing_disk)
  have disk: "disk_ok (ct_disk s)" using ok by (simp add: cache_ok_def)
  show ?thesis
  proof (cases r)
    case (Inl er)
    then show ?thesis using o d ok by (simp add: initialize_managed_registry_def quiet_def)
  next
    case (Inr u)
    let ?s = "s\<lparr>ct_disk := d, ct_registry_open := True, ct_registry_err := None\<rparr>"
    have "rg_meta d \<noteq> None" using open_existing_ok [OF _ disk] o Inr d by simp
    then have s0: "cache_ok cfg ?s" using disk d by (intro cache_ok_opened [OF ok assms(2,3)]) simp_all
    obtain r2 s2 where rf: "refresh_managed_instances cfg io k ?s = (r2, s2)" by fastforce
    have "cache_ok cfg s2 \<and> quiet ?s s2" using refresh_ok [OF s0 rf] by blast
    then show ?thesis using o Inr rf by (cases r2) (auto simp: initialize_managed_registry_def quiet_def)
  qed
qed

lemma new_control_ok:
  assumes "disk_ok disk"
  shows "cache_ok cfg (new_control_service cfg io d exs disk) \<and> ct_sent (new_control_service cfg io d exs disk) = [] \<and>
    \<not> ct_closed (new_control_service cfg io d exs disk)"
proof -
  let ?s0 = "\<lparr>ct_db = d, ct_expectations = exs, ct_instances = [], ct_providers = [], ct_provider_errs = [], ct_managed_ids = [],
        ct_registry_open = False, ct_registry_err = None, ct_registry_gen = 0, ct_closed = False, ct_disk = disk, ct_sent = []\<rparr>"
  have ok: "cache_ok cfg ?s0" using assms by (simp add: cache_ok_def static_ok_def managed_known_def generation_ok_def)
  have fields: "ct_registry_open (fold (add_static cfg io) insts s) = ct_registry_open s \<and>
      ct_closed (fold (add_static cfg io) insts s) = ct_closed s \<and> ct_sent (fold (add_static cfg io) insts s) = ct_sent s" for insts s
    by (induction insts arbitrary: s) (simp_all add: add_static_fields)
  have "cache_ok cfg (fold (add_static cfg io) (cc_instances cfg) ?s0)" using add_statics_ok [OF _ ok] by simp
  from initialize_managed_ok [OF this] fields [of "cc_instances cfg" ?s0] show ?thesis
    by (simp add: new_control_service_def quiet_def)
qed

text \<open>
  One event of a running service: a handler's call, under any environment, time, files and answers of the agents;
  another process's operation on the registry; or other work on the database.
\<close>

inductive control_step :: "control_config \<Rightarrow> control \<Rightarrow> control \<Rightarrow> bool" for cfg where
  Other_process: "registry_step sha c (ct_disk s) d \<Longrightarrow> control_step cfg s (s\<lparr>ct_disk := d\<rparr>)"
| Database: "control_step cfg s (s\<lparr>ct_db := d\<rparr>)"
| List: "control_step cfg s (snd (list_instances cfg io k label s))"
| Capabilities: "control_step cfg s (snd (control_capabilities cfg io i a s))"
| Status: "control_step cfg s (snd (control_status cfg io i a s))"
| Relays: "control_step cfg s (snd (control_relays cfg io i a s))"
| Simulate: "control_step cfg s (snd (simulate_allocation cfg io i transport input a s))"
| Get_config: "control_step cfg s (snd (get_config cfg io i a s))"
| Schema: "control_step cfg s (snd (get_config_schema cfg io i a s))"
| History: "control_step cfg s (snd (config_history cfg io i h s))"
| Reload: "control_step cfg s (snd (reload_runtime cfg io i digest k s))"
| Validate: "control_step cfg s (snd (validate_config sha cfg io i candidate a s))"
| Plan: "control_step cfg s (snd (plan_config lib sha cfg io i candidate plan a s))"
| Apply: "control_step cfg s (snd (apply_config lib cfg io i ap a operation s))"
| Rollback: "control_step cfg s (snd (rollback_config cfg io i rb h operation s))"
| Poll: "control_step cfg s (snd (poll_operation cfg io i operation_id operation s))"
| Verify_identity: "control_step cfg s (snd (verify_peer_identity cfg io device_id device_uuid b s))"
| Verify_activation: "control_step cfg s (snd (verify_peer_activation cfg io device_id device_uuid epoch activation route_ids b s))"
| Create_pairing: "control_step cfg s (snd (create_control_pairing_audited cfg p write io rnd create s))"
| Revoke_pairing: "control_step cfg s (snd (revoke_control_pairing_audited cfg io i confirmation s))"
| Create_relay: "control_step cfg s (snd (create_relay_pairing_audited cfg p j write io agent rnd i prepare idempotency confirmation s))"
| Activate_relay: "control_step cfg s (snd (activate_relay_enrollment_audited cfg io agent i act confirmation s))"
| Revoke_relay: "control_step cfg s (snd (revoke_relay_enrollment_audited cfg io agent i relay s))"
| Claim: "control_step cfg s (snd (claim_pairing cfg p j io agent q s))"
| Write_policy: "control_step cfg s (snd (set_managed_write_enabled cfg io i enabled confirmation s))"
| List_relays: "control_step cfg s (snd (list_relay_enrollments cfg io i a s))"
| Instances: "control_step cfg s (snd (instances_context cfg io label s))"
| Audit_events: "control_step cfg s (snd (audit_events io created page page_size dates s))"
| Log_sources: "control_step cfg s (snd (log_sources sources io file level i s))"
| Logs: "control_step cfg s (snd (control_logs sources io redact file level i source_id limit s))"
| Log_level: "control_step cfg s (snd (fst (set_log_level cfg sources io level i source_id wanted s)))"
| Audited_status: "control_step cfg s (snd (pairing_status_audited cfg io s))"
| Pairing_status: "control_step cfg s (snd (pairing_status cfg io s))"
| Pairing_enabled: "control_step cfg s (snd (pairing_enabled cfg io s))"

inductive control_run :: "control_config \<Rightarrow> control \<Rightarrow> control \<Rightarrow> bool" for cfg where
  Start: "control_run cfg s s"
| Step: "control_run cfg s s1 \<Longrightarrow> control_step cfg s1 s2 \<Longrightarrow> control_run cfg s s2"

lemma audited_snd_asked:
  assumes "cache_ok cfg s" "\<not> ct_closed s" and "\<And>s0. cache_ok cfg s0 \<Longrightarrow> asked cfg s0 (snd (op s0))"
  shows "asked cfg s (snd (audited_control_call io action i md op s))"
  by (rule audited_asked [OF prod.collapse [symmetric] assms(1,2)]) (use assms(3) in \<open>metis snd_conv\<close>)

lemma list_asked: "cache_ok cfg s \<Longrightarrow> asked cfg s (snd (list_instances cfg io k label s))"
  using quiet_asked [OF refresh_quiet] by (simp add: list_instances_def Let_def)

lemma status_asked: "cache_ok cfg s \<Longrightarrow> asked cfg s (snd (pairing_status cfg io s))"
  using quiet_asked [OF refresh_quiet] by (simp add: pairing_status_def Let_def split: sum.splits)

lemma step_asked:
  assumes "control_step cfg s s'" and ok: "cache_ok cfg s" "\<not> ct_closed s"
  shows "asked cfg s s'"
  using assms(1)
proof cases
  case (Other_process sha c d)
  then show ?thesis using cache_ok_step [OF ok(1)] by (simp add: asked_def)
next
  case (List io k label)
  then show ?thesis using list_asked [OF ok(1)] by simp
next
  case (Pairing_status io)
  then show ?thesis using status_asked [OF ok(1)] by simp
next
  case (Pairing_enabled io)
  then show ?thesis using ok quiet_asked [OF refresh_quiet [OF ok(1)]] by (simp add: pairing_enabled_def Let_def)
next
  case (Audited_status io)
  show ?thesis unfolding Audited_status pairing_status_audited_def split_beta
    by (rule audited_snd_asked [OF ok]) (simp add: status_asked)
next
  case (Instances io label)
  show ?thesis unfolding Instances instances_context_def split_beta
    by (rule audited_snd_asked [OF ok]) (simp add: list_asked)
next
  case (Audit_events io created page page_size dates)
  show ?thesis unfolding Audit_events audit_events_def Let_def
    by (rule audited_snd_asked [OF ok]) simp
next
  case (Log_sources sources io f level i)
  show ?thesis unfolding Log_sources log_sources_def
    by (rule audited_snd_asked [OF ok]) simp
next
  case (Logs sources io redact f level i source_id limit)
  show ?thesis unfolding Logs control_logs_def
    by (rule audited_snd_asked [OF ok]) simp
next
  case (Log_level sources io level i source_id wanted)
  show ?thesis unfolding Log_level set_log_level_def Let_def fst_conv
    by (rule audited_snd_asked [OF ok]) simp
next
  case (Verify_identity io device_id device_uuid b)
  then show ?thesis using ok calm_asked [OF verify_peer_calm [OF ok]] by (simp add: verify_peer_identity_def)
next
  case (Verify_activation io device_id device_uuid epoch activation route_ids b)
  then show ?thesis using ok calm_asked [OF verify_peer_calm [OF ok]] by (simp add: verify_peer_activation_def)
next
  case (Create_pairing p w io rnd create)
  then show ?thesis
    using audited_asked [OF prod.collapse [symmetric] ok create_pairing_asked] by (simp add: create_control_pairing_audited_def)
next
  case (Revoke_pairing io i confirmation)
  then show ?thesis
    using audited_asked [OF prod.collapse [symmetric] ok revoke_pairing_asked] by (simp add: revoke_control_pairing_audited_def)
next
  case (Create_relay p j w io agent rnd i prepare idempotency confirmation)
  then show ?thesis
    using audited_asked [OF prod.collapse [symmetric] ok create_relay_asked] by (simp add: create_relay_pairing_audited_def)
next
  case (Activate_relay io agent i act confirmation)
  then show ?thesis
    using audited_asked [OF prod.collapse [symmetric] ok activate_relay_asked] by (simp add: activate_relay_enrollment_audited_def)
next
  case (Revoke_relay io agent i relay)
  then show ?thesis
    using audited_asked [OF prod.collapse [symmetric] ok revoke_relay_asked] by (simp add: revoke_relay_enrollment_audited_def)
qed (insert ok, auto simp: control_capabilities_def control_status_def control_relays_def simulate_allocation_def get_config_def
    get_config_schema_def config_history_def reload_runtime_def validate_config_def list_relay_enrollments_def call_mutates_def
    intro: forward_asked [OF prod.collapse [symmetric]] plan_asked [OF prod.collapse [symmetric]] apply_asked [OF prod.collapse [symmetric]]
      rollback_asked [OF prod.collapse [symmetric]] poll_asked [OF prod.collapse [symmetric]] claim_asked [OF prod.collapse [symmetric]]
      write_policy_asked [OF prod.collapse [symmetric]])

lemma control_run_ok: "control_run cfg s s' \<Longrightarrow> cache_ok cfg s \<Longrightarrow> \<not> ct_closed s \<Longrightarrow> cache_ok cfg s' \<and> \<not> ct_closed s'"
  by (induction rule: control_run.induct) (auto dest: step_asked simp: asked_def)

end
