(* ===== verification/ControlClaims.thy ===== *)
theory ControlClaims
  imports ControlServiceProps
begin

text \<open>
  The claims about the server-control service, over its runs and its handlers.
\<close>

section \<open>Changes go only where writing is enabled\<close>

text \<open>C6: An agent is asked to change something only where writing is enabled.  From any start of the service on an
  intact registry, through any calls of its handlers, any operations of other processes on the registry file, any
  failures and any answers of the agents: whatever a step sends to an instance that changes it (applying or rolling
  back a configuration, reloading, preparing, completing, activating or revoking a relay) goes to a statically
  configured, enabled instance of a configuration that is not read-only, or to an instance whose row in the registry
  is paired and write-enabled at that moment.\<close>

theorem agents_changed_only_when_writable:
  assumes "disk_ok disk" and "control_run cfg (new_control_service cfg io d exs disk) s" and "control_step cfg s s'"
  shows "\<exists>new. ct_sent s' = new @ ct_sent s \<and> (\<forall>(i, c) \<in> set new. call_mutates c \<longrightarrow> writable cfg (ct_disk s') i)"
proof -
  have "cache_ok cfg s \<and> \<not> ct_closed s" using control_run_ok [OF assms(2)] new_control_ok [OF assms(1)] by blast
  then show ?thesis using step_asked [OF assms(3)] by (simp add: asked_def)
qed

definition example_starry :: starry_instance where
  "example_starry = \<lparr>si_id = ''a'', si_name = ''A'', si_enabled = True, si_base_url = [], si_expected_id = [], si_tls_name = [],
     si_ca_file = [], si_client_cert = [], si_client_key = [], si_control_key = [], si_control_key_id = [], si_issuer = [],
     si_party = []\<rparr>"

definition example_config :: control_config where
  "example_config = \<lparr>cc_read_only = False, cc_instances = [example_starry], cc_pairing_enabled = False, cc_broker_origin = [],
     cc_broker_spki = [], cc_origins = [], cc_code_ttl = 0, cc_recovery_ttl = 0, cc_center_key = [], cc_auth_keys = None\<rparr>"

definition example_io :: control_io where
  "example_io = \<lparr>ci_env = (\<lambda>_. pairing_env), ci_time = 0, ci_context = Some \<lparr>rq_actor = 1, rq_id = ''r'', rq_service = False\<rparr>,
     ci_host = Inr ''h'', ci_files = (\<lambda>_. Inl ErrNotFound), ci_export = (\<lambda>_. None), ci_key_fingerprint = (\<lambda>_. Inr []),
     ci_new_provider = (\<lambda>_. None)\<rparr>"

definition empty_disk :: registry where
  "empty_disk = \<lparr>rg_tables = False, rg_foreign = False, rg_meta = None, rg_enrollments = [], rg_managed = []\<rparr>"

lemma empty_disk_ok: "disk_ok empty_disk"
  using registry_inv_fresh by (simp add: disk_ok_def empty_disk_def registry_inv_def ids_distinct_def instances_inv_def open_codes_inv_def
      bound_target_inv_def provenance_inv_def instances_def)

definition example_control :: control where
  "example_control = new_control_service example_config example_io empty_db [] empty_disk"

lemma example_reload:
  "ct_sent (snd (reload_runtime example_config example_io ''a'' ''d'' k example_control)) = [(''a'', AskReload ''d'')]"
  "ct_sent example_control = []"
  by (simp_all add: example_control_def example_config_def example_starry_def example_io_def new_control_service_def
      initialize_managed_registry_def open_registry_def add_static_def static_summary_def isolation_error_def put_instance_def
      put_provider_def reload_runtime_def forward_call_def audited_control_call_def audit_intent_def metadata_from_context_def
      provider_for_def refresh_managed_instances_def cbind_def find_provider_def ask_def finish_audit_def empty_db_def
      check_def stmt_def Let_def split: sum.splits)

lemma agents_changed_only_when_writable_witness:
  "writable example_config (ct_disk (snd (reload_runtime example_config example_io ''a'' ''d'' (\<lambda>_. Inl ErrUnavailable) example_control))) ''a''"
  using agents_changed_only_when_writable [OF empty_disk_ok, of example_config example_io empty_db "[]", folded example_control_def,
      OF control_run.Start control_step.Reload [where io = example_io and i = "''a''" and digest = "''d''" and k = "\<lambda>_. Inl ErrUnavailable"]]
    example_reload(1) [of "\<lambda>_. Inl ErrUnavailable"] example_reload(2) by (simp add: call_mutates_def)

section \<open>Calls are audited\<close>

text \<open>The steps that leave the database alone.\<close>

lemma refresh_keeps_db: "ct_db (snd (refresh_managed_instances cfg io k s)) = ct_db s"
proof -
  have opened: "ct_db (snd (open_managed_registry_if_created cfg io k s)) = ct_db s"
    by (simp add: open_managed_registry_if_created_def split: sum.splits prod.splits)
  have reloaded: "ct_db (snd (reload_managed cfg io k s1)) = ct_db s1" for s1
    using load_managed_outside [of s1 cfg io]
    by (simp add: reload_managed_def same_outside_def split: sum.splits option.splits)
  show ?thesis
    using opened by (auto simp: refresh_managed_instances_def cbind_def reloaded split: prod.splits sum.splits option.splits)
qed

lemma provider_keeps_db: "ct_db (snd (provider_for cfg io k i mutates s)) = ct_db s"
proof -
  obtain r s1 where rf: "refresh_managed_instances cfg io k s = (r, s1)" by fastforce
  then show ?thesis using refresh_keeps_db [of cfg io k s] by (cases r) (simp_all add: provider_for_def)
qed

lemma ensure_keeps_db: "ct_db (snd (ensure_pairing_registry cfg io k allow s)) = ct_db s"
proof -
  obtain r d where o: "open_registry (ci_env io k) (ci_time io) True (ci_host io) (ci_files io True) (ct_disk s) = (r, d)" by fastforce
  obtain r2 s2 where rf: "refresh_managed_instances cfg io k (s\<lparr>ct_disk := d, ct_registry_open := True, ct_registry_err := None\<rparr>) = (r2, s2)"
    by fastforce
  then have "ct_db s2 = ct_db s" using refresh_keeps_db [of cfg io k "s\<lparr>ct_disk := d, ct_registry_open := True, ct_registry_err := None\<rparr>"] by simp
  then show ?thesis using o rf by (cases r; cases r2) (simp_all add: ensure_pairing_registry_def)
qed

lemma cbind_keeps_db:
  assumes "ct_db (snd m) = d" and "\<And>x s1. ct_db s1 = d \<Longrightarrow> ct_db (snd (f x s1)) = d"
  shows "ct_db (snd (cbind m f)) = d"
proof -
  obtain r s1 where m: "m = (r, s1)" by fastforce
  then show ?thesis using assms by (cases r) (simp_all add: cbind_def)
qed

lemma on_registry_keeps_db: "ct_db (snd (on_registry op s)) = ct_db s"
  by (cases "op (ct_disk s)") (simp add: on_registry_def)

lemma revoke_prepared_keeps_db: "ct_db (revoke_prepared i prepared s) = ct_db s"
  by (simp add: revoke_prepared_def)

lemma sync_keeps_db: "ct_db (snd (sync_local_relay_revocation io i input s)) = ct_db s"
  using on_registry_keeps_db [of "revoke_enrollment (ci_env io 2) (ci_time io) (rr_enrollment input)" s]
  by (auto simp: sync_local_relay_revocation_def split: sum.splits)

lemmas db_kept = refresh_keeps_db provider_keeps_db ensure_keeps_db on_registry_keeps_db revoke_prepared_keeps_db sync_keeps_db

lemma relay_rest_keeps_db: "ct_db (snd (relay_rest cfg p j enc io rnd i input prepared s)) = ct_db s"
proof -
  have "ct_db (snd (case on_registry op s of (Inl er, s3) \<Rightarrow> (Inl er, revoke_prepared i prepared s3)
      | (Inr r, s3) \<Rightarrow> (f r, s3))) = ct_db s" for op :: "registry \<Rightarrow> (err + enrollment) \<times> registry" and f :: "enrollment \<Rightarrow> err + pairing_code_result"
  proof -
    obtain r s3 where "on_registry op s = (r, s3)" by fastforce
    then show ?thesis using on_registry_keeps_db [of op s] by (cases r) (simp_all add: revoke_prepared_keeps_db)
  qed
  then show ?thesis by (simp add: relay_rest_def revoke_prepared_keeps_db split: sum.splits)
qed

lemma claim_keeps_db:
  "ct_db (snd (claim_control cfg p io q r s)) = ct_db s" "ct_db (snd (claim_relay cfg j io agent q r s)) = ct_db s"
proof -
  have rest: "ct_db (snd (case ci_export io m1 of
                Some er \<Rightarrow> (Inl (pairing_problem_with_cause ''STATIC_EXPORT_FAILED'' (Some er)), s1)
              | None \<Rightarrow>
                  (case refresh_managed_instances cfg io 4 s1 of
                     (Inl er, s2) \<Rightarrow> (Inl (pairing_problem_with_cause ''MANAGED_PROVIDER_RELOAD_FAILED'' (Some er)), s2)
                   | (Inr _, s2) \<Rightarrow> (Inr b, s2)))) = ct_db s1" for m1 s1 and b :: claim_bundle
  proof -
    obtain r2 s2 where "refresh_managed_instances cfg io 4 s1 = (r2, s2)" by fastforce
    then show ?thesis using refresh_keeps_db [of cfg io 4 s1] by (cases r2) (simp_all split: option.splits)
  qed
  show "ct_db (snd (claim_control cfg p io q r s)) = ct_db s"
    unfolding claim_control_def
    by (simp split: sum.splits) (auto intro!: cbind_keeps_db simp: on_registry_keeps_db rest)
  show "ct_db (snd (claim_relay cfg j io agent q r s)) = ct_db s"
    unfolding claim_relay_def
    by (intro cbind_keeps_db) (auto simp: db_kept split: sum.splits intro!: cbind_keeps_db)
qed

lemma handler_keeps_db:
  "ct_db (snd (cbind (provider_for cfg io k i mutates s) (\<lambda>p. ask i c (answer p)))) = ct_db s"
  "ct_db (snd (cbind (provider_for cfg io k i mutates s) (\<lambda>p s1. cbind (ask i c1 (plan p) s1) (\<lambda>x s2.
     cbind (ask i c2 (schema p) s2) (\<lambda>y s3. (seal p x y, s3)))))) = ct_db s"
  "ct_db (snd (create_control_pairing cfg p enc io rnd create_input s)) = ct_db s"
  "ct_db (snd (revoke_control_pairing cfg io e confirmation s)) = ct_db s"
  "ct_db (snd (create_relay_pairing cfg p j enc io agent rnd i prepare idempotency confirmation s)) = ct_db s"
  "ct_db (snd (activate_relay_enrollment cfg io agent i act confirmation s)) = ct_db s"
  "ct_db (snd (revoke_relay_enrollment cfg io agent i relay s)) = ct_db s"
proof -
  show "ct_db (snd (cbind (provider_for cfg io k i mutates s) (\<lambda>p. ask i c (answer p)))) = ct_db s"
    by (intro cbind_keeps_db) (simp_all add: db_kept)
  show "ct_db (snd (cbind (provider_for cfg io k i mutates s) (\<lambda>p s1. cbind (ask i c1 (plan p) s1) (\<lambda>x s2.
     cbind (ask i c2 (schema p) s2) (\<lambda>y s3. (seal p x y, s3)))))) = ct_db s"
    by (intro cbind_keeps_db) (simp_all add: db_kept)
  show "ct_db (snd (create_control_pairing cfg p enc io rnd create_input s)) = ct_db s"
    by (auto simp: create_control_pairing_def Let_def db_kept split: sum.splits intro!: cbind_keeps_db)
  show "ct_db (snd (revoke_control_pairing cfg io e confirmation s)) = ct_db s"
    by (simp add: revoke_control_pairing_def db_kept split: sum.splits)
  show "ct_db (snd (create_relay_pairing cfg p j enc io agent rnd i prepare idempotency confirmation s)) = ct_db s"
    unfolding create_relay_pairing_def relay_rest_def [symmetric]
    by (auto simp: db_kept relay_rest_keeps_db split: sum.splits intro!: cbind_keeps_db)
  show "ct_db (snd (activate_relay_enrollment cfg io agent i act confirmation s)) = ct_db s"
    by (auto simp: activate_relay_enrollment_def db_kept intro!: cbind_keeps_db)
  show "ct_db (snd (revoke_relay_enrollment cfg io agent i relay s)) = ct_db s"
    unfolding revoke_relay_enrollment_def by (intro cbind_keeps_db) (simp_all add: db_kept)
qed

text \<open>
  What the trail says of a call: nothing happened without a recorded intent; otherwise the call left one new event,
  last in the trail, that carries its actor, request, action, target and details, and whose result is the call's.
  \<open>old\<close> is what the events before it look like afterwards.
\<close>

definition refused :: "control_io \<Rightarrow> control \<Rightarrow> (err + 'a) \<times> control \<Rightarrow> bool" where
  "refused io s r \<longleftrightarrow>
     (metadata_from_context (ci_context io) = None \<or> flt (ci_env io 0) AuditBegin) \<and> snd r = s \<and> isl (fst r)"

definition event_of :: "control_io \<Rightarrow> string \<Rightarrow> string \<Rightarrow> audit_row \<Rightarrow> bool" where
  "event_of io action i ev \<longleftrightarrow> (case metadata_from_context (ci_context io) of
     None \<Rightarrow> False
   | Some rq \<Rightarrow> ev_actor ev = rq_actor rq \<and> ev_request_id ev = rq_id rq \<and> ev_action ev = action \<and> ev_target_id ev = i)"

definition recorded_after ::
    "control_io \<Rightarrow> string \<Rightarrow> string \<Rightarrow> metadata \<Rightarrow> audit_row list \<Rightarrow> control \<Rightarrow> (err + 'a) \<times> control \<Rightarrow> bool" where
  "recorded_after io action i md old s r \<longleftrightarrow>
     (\<exists>ev. event_of io action i ev \<and> ev_metadata ev = md \<and> ct_db (snd r) = (ct_db s)\<lparr>events := old @ [ev]\<rparr> \<and>
        (if flt (ci_env io 0) AuditEnd then ev_result ev = ''intent'' \<and> isl (fst r)
         else case fst r of Inl er \<Rightarrow> ev_result ev = ''failure'' \<and> ev_error_code ev = stable_control_error_code er
           | Inr _ \<Rightarrow> ev_result ev = ''success''))"

definition recorded ::
    "control_io \<Rightarrow> string \<Rightarrow> string \<Rightarrow> metadata \<Rightarrow> control \<Rightarrow> (err + 'a) \<times> control \<Rightarrow> bool" where
  "recorded io action i md s r \<longleftrightarrow> refused io s r \<or> recorded_after io action i md (events (ct_db s)) s r"

text \<open>
  An operation the agent runs is recorded when it starts with the result it has by then, which is pending while it
  runs, together with the expectation that names the event; a start that fails is recorded as a call is.
\<close>

definition settled_by :: "control_operation \<Rightarrow> audit_row \<Rightarrow> audit_row" where
  "settled_by o' r = record_result (control_operation_audit_result o') (op_ack o') (ev_metadata r) r"

definition started ::
    "control_io \<Rightarrow> string \<Rightarrow> string \<Rightarrow> string \<Rightarrow> metadata \<Rightarrow> control \<Rightarrow> (err + control_operation) \<times> control \<Rightarrow> bool" where
  "started io action i kind md s r \<longleftrightarrow> refused io s r \<or>
     (case fst r of
        Inl _ \<Rightarrow> recorded_after io action i md (events (ct_db s)) s r \<and> ct_expectations (snd r) = ct_expectations s
      | Inr o' \<Rightarrow>
          (\<exists>ev x. event_of io action i ev \<and> ev_metadata ev = md \<and>
             ct_db (snd r) = (ct_db s)\<lparr>events := events (ct_db s) @ [settled_by o' ev]\<rparr> \<and>
             ct_expectations (snd r) = ct_expectations s @ [x] \<and> ex_audit_id x = ev_id ev \<and> ex_operation x = op_id o' \<and>
             ex_instance x = i \<and> ex_kind x = kind \<and> op_kind o' = kind \<and>
             (\<forall>a. op_ack o' = Some a \<longrightarrow> ak_source_digest a = ex_digest x)))"

text \<open>
  Polling is recorded as a call is, and an operation that has ended by then settles the events that await it, and
  no other: those of the unexpired expectations of this instance and operation.
\<close>

definition awaiting :: "control_io \<Rightarrow> string \<Rightarrow> string \<Rightarrow> control \<Rightarrow> operation_expectation list" where
  "awaiting io i operation_id s = filter (\<lambda>x. ex_instance x = i \<and> ex_operation x = operation_id \<and>
     ex_expires x > unix_seconds (ci_time io)) (ct_expectations s)"

definition settle :: "operation_expectation list \<Rightarrow> control_operation \<Rightarrow> audit_row list \<Rightarrow> audit_row list" where
  "settle xs o' evs = (if fst (control_operation_audit_result o') = ''pending'' then evs
     else map (\<lambda>r. if ev_id r \<in> ex_audit_id ` set xs then settled_by o' r else r) evs)"

definition polled ::
    "control_io \<Rightarrow> string \<Rightarrow> string \<Rightarrow> control \<Rightarrow> (err + control_operation) \<times> control \<Rightarrow> bool" where
  "polled io i operation_id s r \<longleftrightarrow> refused io s r \<or>
     (\<exists>old. recorded_after io ''server_control.operation.read'' i [(''operation_id'', MStr operation_id)] old s r \<and>
        (let xs = awaiting io i operation_id s;
             answered = (\<lambda>o'. xs \<noteq> [] \<and> old = settle xs o' (events (ct_db s)) \<and>
               (\<forall>x \<in> set xs. validate_expected_control_operation o' (ex_kind x) (ex_digest x) = Inr ()))
         in case fst r of Inr o' \<Rightarrow> answered o' | Inl _ \<Rightarrow> old = events (ct_db s) \<or> flt (ci_env io 0) AuditEnd \<and> (\<exists>o'. answered o')))"

text \<open>Events have ids of their own, and what awaits an operation names a stored event.\<close>

definition trail_ok :: "control \<Rightarrow> bool" where
  "trail_ok s \<longleftrightarrow> distinct (map ev_id (events (ct_db s))) \<and>
     ex_audit_id ` set (ct_expectations s) \<subseteq> ev_id ` set (events (ct_db s))"

lemma update_last_event:
  "map ev_id old = map ev_id evs \<Longrightarrow>
     update_where (\<lambda>r. ev_id r = next_id ev_id evs) f (old @ [x]) = old @ [if ev_id x = next_id ev_id evs then f x else x]"
proof -
  assume "map ev_id old = map ev_id evs"
  then have "ev_id ` set old = ev_id ` set evs" by (metis list.set_map)
  then have "update_where (\<lambda>r. ev_id r = next_id ev_id evs) f old = old"
    unfolding update_where_def by (intro map_idI) (use next_id_notin [of ev_id evs] in \<open>metis imageI\<close>)
  then show ?thesis by (simp add: update_where_def)
qed

lemma set_result_fields [simp]:
  "ev_result (set_result a c r) = a" "ev_error_code (set_result a c r) = c" "ev_actor (set_result a c r) = ev_actor r"
  "ev_request_id (set_result a c r) = ev_request_id r" "ev_action (set_result a c r) = ev_action r"
  "ev_target_id (set_result a c r) = ev_target_id r" "ev_metadata (set_result a c r) = ev_metadata r"
  by (simp_all add: set_result_def)

text \<open>The intent that is stored first.\<close>

lemma intent_cases:
  obtains (no) er where "audit_intent (ci_env io 0) (ci_context io) action i md (ct_db s) = Inl er"
      "metadata_from_context (ci_context io) = None \<or> flt (ci_env io 0) AuditBegin"
  | (yes) event where "event_of io action i event" "ev_metadata event = md" "ev_result event = ''intent''"
      "ev_id event = next_id ev_id (events (ct_db s))"
      "audit_intent (ci_env io 0) (ci_context io) action i md (ct_db s) =
         Inr (event, (ct_db s)\<lparr>events := events (ct_db s) @ [event]\<rparr>)"
proof (cases "audit_intent (ci_env io 0) (ci_context io) action i md (ct_db s)")
  case (Inl er)
  then have "metadata_from_context (ci_context io) = None \<or> flt (ci_env io 0) AuditBegin"
    by (auto simp: audit_intent_def stmt_def Let_def split: option.splits if_splits)
  with Inl show thesis by (rule no)
next
  case (Inr z)
  then show thesis
    by (intro yes [of "fst z"]) (auto simp: audit_intent_def stmt_eq_Inr Let_def event_of_def split: option.splits)
qed

text \<open>What the trail holds once a result is stored, or is not.\<close>

lemma finished_event:
  assumes "ct_db s1 = (ct_db s)\<lparr>events := old @ [event]\<rparr>" "map ev_id old = map ev_id (events (ct_db s))"
    and "ev_id event = next_id ev_id (events (ct_db s))"
  shows "finish_audit (ci_env io 0) event f (ct_db s1) = (if flt (ci_env io 0) AuditEnd then Inl (DbErr AuditEnd)
      else Inr ((ct_db s)\<lparr>events := old @ [(case f of None \<Rightarrow> set_result ''success'' []
        | Some er \<Rightarrow> set_result ''failure'' (stable_control_error_code er)) event]\<rparr>))"
  using update_last_event [OF assms(2), of _ event] by (simp add: finish_audit_def assms(1,3) stmt_def)

lemma event_of_result [simp]: "event_of io action i (set_result a c ev) = event_of io action i ev"
  by (simp add: event_of_def split: option.split)

lemma finish_recorded:
  assumes "event_of io action i event" "ev_metadata event = md" "ev_result event = ''intent''"
      "ev_id event = next_id ev_id (events (ct_db s))"
    and "ct_db s1 = (ct_db s)\<lparr>events := old @ [event]\<rparr>" "map ev_id old = map ev_id (events (ct_db s))"
    and "r = (case finish_audit (ci_env io 0) event (case out of Inl er \<Rightarrow> Some er | Inr _ \<Rightarrow> None) (ct_db s1) of
        Inl a \<Rightarrow> (Inl (g a), s1) | Inr d1 \<Rightarrow> (out, s1\<lparr>ct_db := d1\<rparr>))"
  shows "recorded_after io action i md old s r"
    and "fst r = out \<or> flt (ci_env io 0) AuditEnd \<and> isl (fst r)" "ct_expectations (snd r) = ct_expectations s1"
proof -
  note fin = finished_event [OF assms(5,6,4), where f = "case out of Inl er \<Rightarrow> Some er | Inr _ \<Rightarrow> None"]
  show "recorded_after io action i md old s r"
  proof (cases "flt (ci_env io 0) AuditEnd")
    case True
    then show ?thesis unfolding assms(7) fin recorded_after_def using assms(1,2,3,5) by auto
  next
    case False
    then show ?thesis unfolding assms(7) fin recorded_after_def using assms(1,2)
      by (cases out) (auto intro!: exI [of _ "set_result a c event" for a c])
  qed
  show "fst r = out \<or> flt (ci_env io 0) AuditEnd \<and> isl (fst r)" "ct_expectations (snd r) = ct_expectations s1"
    unfolding assms(7) fin by simp_all
qed

lemma audited_after:
  assumes "audit_intent (ci_env io 0) (ci_context io) action i md (ct_db s) =
      Inr (event, (ct_db s)\<lparr>events := events (ct_db s) @ [event]\<rparr>)"
    and e: "event_of io action i event" "ev_metadata event = md" "ev_result event = ''intent''"
      "ev_id event = next_id ev_id (events (ct_db s))"
    and "op (s\<lparr>ct_db := (ct_db s)\<lparr>events := events (ct_db s) @ [event]\<rparr>\<rparr>) = (out, s1)"
    and old: "ct_db s1 = (ct_db s)\<lparr>events := old @ [event]\<rparr>" "map ev_id old = map ev_id (events (ct_db s))"
  shows "recorded_after io action i md old s (audited_control_call io action i md op s)"
    and "fst (audited_control_call io action i md op s) = out \<or>
      flt (ci_env io 0) AuditEnd \<and> isl (fst (audited_control_call io action i md op s))"
proof -
  have call: "audited_control_call io action i md op s =
      (case finish_audit (ci_env io 0) event (case out of Inl er \<Rightarrow> Some er | Inr _ \<Rightarrow> None) (ct_db s1) of
         Inl a \<Rightarrow> (Inl (case out of Inl er \<Rightarrow> ErrJoin er (ErrJoin (ErrNew ''finish server-control audit event'') a)
           | Inr _ \<Rightarrow> ErrJoin (ErrNew ''finish server-control audit event'') a), s1)
       | Inr d1 \<Rightarrow> (out, s1\<lparr>ct_db := d1\<rparr>))"
    using assms(1,6) by (cases out) (simp_all add: audited_control_call_def split: sum.split)
  from finish_recorded(1,2) [OF e old call]
  show "recorded_after io action i md old s (audited_control_call io action i md op s)"
    "fst (audited_control_call io action i md op s) = out \<or>
      flt (ci_env io 0) AuditEnd \<and> isl (fst (audited_control_call io action i md op s))" .
qed

lemma audited_recorded:
  assumes "\<And>s0. ct_db (snd (op s0)) = ct_db s0"
  shows "recorded io action i md s (audited_control_call io action i md op s)"
proof (cases rule: intent_cases [of io action i md s])
  case no
  then show ?thesis by (auto simp: audited_control_call_def recorded_def refused_def)
next
  case (yes event)
  obtain out s1 where o: "op (s\<lparr>ct_db := (ct_db s)\<lparr>events := events (ct_db s) @ [event]\<rparr>\<rparr>) = (out, s1)" by fastforce
  have "ct_db s1 = (ct_db s)\<lparr>events := events (ct_db s) @ [event]\<rparr>"
    using assms [of "s\<lparr>ct_db := (ct_db s)\<lparr>events := events (ct_db s) @ [event]\<rparr>\<rparr>"] o by simp
  from audited_after(1) [where old = "events (ct_db s)" and s = s and op = op and event = event, OF yes(5,1,2,3,4) o this refl]
  show ?thesis by (simp add: recorded_def)
qed

text \<open>The steps of a start leave the trail and the expectations alone.\<close>

definition kept :: "control \<Rightarrow> control \<Rightarrow> bool" where
  "kept s s' \<longleftrightarrow> ct_db s' = ct_db s \<and> ct_expectations s' = ct_expectations s"

lemma kept_refl [simp]: "kept s s"
  by (simp add: kept_def)

lemma refresh_kept: "kept s (snd (refresh_managed_instances cfg io k s))"
proof -
  have opened: "ct_expectations (snd (open_managed_registry_if_created cfg io k s)) = ct_expectations s"
    by (simp add: open_managed_registry_if_created_def split: sum.splits prod.splits)
  have reloaded: "ct_expectations (snd (reload_managed cfg io k s1)) = ct_expectations s1" for s1
    using load_managed_outside [of s1 cfg io]
    by (simp add: reload_managed_def same_outside_def split: sum.splits option.splits)
  have "ct_expectations (snd (refresh_managed_instances cfg io k s)) = ct_expectations s"
    using opened by (auto simp: refresh_managed_instances_def cbind_def reloaded split: prod.splits sum.splits option.splits)
  then show ?thesis by (simp add: kept_def refresh_keeps_db)
qed

lemma provider_kept: "kept s (snd (provider_for cfg io k i mutates s))"
proof -
  obtain r s1 where rf: "refresh_managed_instances cfg io k s = (r, s1)" by fastforce
  then show ?thesis using refresh_kept [of s cfg io k] by (cases r) (simp_all add: provider_for_def)
qed

lemma ask_kept: "kept s s1 \<Longrightarrow> kept s (snd (ask i c answer s1))"
  by (simp add: kept_def ask_def)

lemma cbind_kept:
  assumes "kept s (snd m)" and "\<And>x s1. m = (Inr x, s1) \<Longrightarrow> kept s s1 \<Longrightarrow> kept s (snd (f x s1))"
  shows "kept s (snd (cbind m f))"
proof -
  obtain r s1 where m: "m = (r, s1)" by fastforce
  then show ?thesis using assms by (cases r) (simp_all add: cbind_def)
qed

lemma record_result_fields [simp]:
  "ev_id (record_result res a md r) = ev_id r" "ev_id (settled_by o' r) = ev_id r"
  by (simp_all add: record_result_def settled_by_def set_result_def)

lemma persist_cases:
  assumes "ct_db s1 = (ct_db s)\<lparr>events := events (ct_db s) @ [event]\<rparr>" "ev_id event = next_id ev_id (events (ct_db s))"
    and "persist_expectation io i kind digest event o' s1 = (out, s2)"
  shows "case out of Inl _ \<Rightarrow> s2 = s1
    | Inr _ \<Rightarrow> ct_db s2 = (ct_db s)\<lparr>events := events (ct_db s) @ [settled_by o' event]\<rparr> \<and>
        ct_expectations s2 = ct_expectations s1 @ [expectation_for io i kind digest event o']"
proof (cases out)
  case (Inl er)
  then show ?thesis using assms(3) transaction_Inl_state by (fastforce simp: persist_expectation_def)
next
  case (Inr u)
  have "update_where (\<lambda>r. ev_id r = ev_id event) f (events (ct_db s) @ [event]) = events (ct_db s) @ [f event]" for f
    using update_last_event [OF refl, where f = f and evs = "events (ct_db s)" and x = event] assms(2) by simp
  then show ?thesis using Inr assms(1,3)
    by (auto simp: persist_expectation_def outcome_simps add_expectation_def settled_by_def split: if_splits)
qed

lemma start_recorded:
  assumes "\<And>s0. kept s0 (snd (start s0))"
  shows "started io action i kind md s (start_control_operation io action i kind md start s)"
proof (cases rule: intent_cases [of io action i md s])
  case no
  then show ?thesis by (auto simp: start_control_operation_def started_def refused_def)
next
  case (yes event)
  let ?s0 = "s\<lparr>ct_db := (ct_db s)\<lparr>events := events (ct_db s) @ [event]\<rparr>\<rparr>"
  obtain out s1 where o: "start ?s0 = (out, s1)" by fastforce
  let ?v = "ebind out (\<lambda>(o', digest). ebind (validate_expected_control_operation o' kind digest) (\<lambda>_. Inr (o', digest)))"
  let ?r = "start_control_operation io action i kind md start s"
  have k: "ct_db s1 = (ct_db s)\<lparr>events := events (ct_db s) @ [event]\<rparr>" "ct_expectations s1 = ct_expectations s"
    using assms [of ?s0] o by (simp_all add: kept_def)
  have failed: "started io action i kind md s ?r"
    if r: "?r = (case finish_audit (ci_env io 0) event (case (Inl er :: err + control_operation) of Inl er \<Rightarrow> Some er | Inr _ \<Rightarrow> None) (ct_db s1) of
        Inl a \<Rightarrow> (Inl (g a), s1) | Inr d1 \<Rightarrow> (Inl er, s1\<lparr>ct_db := d1\<rparr>))" for er g
  proof -
    note f = finish_recorded [where old = "events (ct_db s)" and s = s and event = event, OF yes(1,2,3,4) k(1) refl r]
    then show ?thesis using k(2) by (cases "fst ?r") (auto simp: started_def)
  qed
  show ?thesis
  proof (cases ?v)
    case (Inl er)
    then show ?thesis
      by (intro failed [where er = er]) (simp add: start_control_operation_def yes(5) o)
  next
    case (Inr z)
    obtain o' digest where z: "z = (o', digest)" by fastforce
    have v: "validate_expected_control_operation o' kind digest = Inr ()"
      using Inr z by (auto simp: outcome_simps)
    obtain p s2 where p: "persist_expectation io i kind digest event o' s1 = (p, s2)" by fastforce
    note pc = persist_cases [OF k(1) yes(4) p]
    show ?thesis
    proof (cases p)
      case f: (Inl er)
      then show ?thesis using pc
        by (intro failed [where er = "ErrJoin (ErrNew ''persist Starry operation expectation'') er"])
          (simp add: start_control_operation_def yes(5) o Inr z p Let_def)
    next
      case ok: (Inr u)
      have r: "?r = (Inr o', s2)" using ok p Inr z by (simp add: start_control_operation_def yes(5) o)
      show ?thesis unfolding started_def r fst_conv snd_conv sum.case
        by (rule disjI2, rule exI [of _ event], rule exI [of _ "expectation_for io i kind digest event o'"])
          (use pc ok k(2) yes(1,2) v in \<open>auto simp: expectation_for_def validate_expected_control_operation_def outcome_simps split: option.splits\<close>)
    qed
  qed
qed

lemma settled_twice [simp]: "settled_by o' (settled_by o' r) = settled_by o' r"
proof -
  have "AList.update k v (AList.update k v al) = AList.update k v al" for k :: string and v and al :: "(string \<times> meta_value) list"
    by (induction al) auto
  then show ?thesis
    by (simp add: settled_by_def record_result_def set_result_def control_audit_metadata_with_ack_def split: option.split)
qed

lemma settle_one:
  assumes "distinct (map ev_id evs)" "\<And>r. r \<in> set evs \<Longrightarrow> ev_id r = k \<Longrightarrow> f r = settled_by o' r"
  shows "update_where (\<lambda>r. ev_id r = k) f evs = map (\<lambda>r. if ev_id r = k then settled_by o' r else r) evs"
  using assms(2) by (auto simp: update_where_def)

lemma finalize_each_settles:
  assumes "finalize_each e o' xs s = Inr (u, s')" "distinct (map ev_id (events (ct_db s)))"
  shows "s' = s\<lparr>ct_db := (ct_db s)\<lparr>events :=
    map (\<lambda>r. if ev_id r \<in> ex_audit_id ` set xs then settled_by o' r else r) (events (ct_db s))\<rparr>\<rparr>"
  using assms
proof (induction xs arbitrary: s)
  case (Cons x xs)
  let ?one = "map (\<lambda>r. if ev_id r = ex_audit_id x then settled_by o' r else r) (events (ct_db s))"
  have uniq: "r = q" if "r \<in> set (events (ct_db s))" "q \<in> set (events (ct_db s))" "ev_id r = ev_id q" for r q
    using key_unique [OF Cons.prems(2) that(1,2)] that(3) by simp
  have "finalize_each e o' xs (s\<lparr>ct_db := (ct_db s)\<lparr>events := ?one\<rparr>\<rparr>) = Inr (u, s')"
  proof (cases "op_ack o'")
    case None
    then have "update_where (\<lambda>r. ev_id r = ex_audit_id x) (record_result (control_operation_audit_result o') None [])
        (events (ct_db s)) = ?one"
      by (intro settle_one [OF Cons.prems(2)]) (simp add: settled_by_def record_result_def)
    with None show ?thesis using Cons.prems(1) by (simp add: outcome_simps)
  next
    case (Some a)
    then obtain q where q: "find (\<lambda>r. ev_id r = ex_audit_id x) (events (ct_db s)) = Some q"
      and rest: "finalize_each e o' xs (s\<lparr>ct_db := (ct_db s)\<lparr>events := update_where (\<lambda>r. ev_id r = ex_audit_id x)
        (record_result (control_operation_audit_result o') (Some a) (ev_metadata q)) (events (ct_db s))\<rparr>\<rparr>) = Inr (u, s')"
      using Cons.prems(1) by (auto simp: outcome_simps split: option.splits)
    have "q \<in> set (events (ct_db s))" "ev_id q = ex_audit_id x" using find_SomeD [OF q] by simp_all
    then have "update_where (\<lambda>r. ev_id r = ex_audit_id x) (record_result (control_operation_audit_result o') (Some a) (ev_metadata q))
        (events (ct_db s)) = ?one"
      using uniq [of _ q] Some by (intro settle_one [OF Cons.prems(2)]) (auto simp: settled_by_def)
    with rest show ?thesis by simp
  qed
  moreover have "distinct (map ev_id ?one)" using Cons.prems(2) by (simp add: comp_def if_distrib cong: if_cong)
  ultimately have "s' = s\<lparr>ct_db := (ct_db s)\<lparr>events :=
      map (\<lambda>r. if ev_id r \<in> ex_audit_id ` set xs then settled_by o' r else r) ?one\<rparr>\<rparr>"
    using Cons.IH [of "s\<lparr>ct_db := (ct_db s)\<lparr>events := ?one\<rparr>\<rparr>"] by simp
  moreover have "map (\<lambda>r. if ev_id r \<in> ex_audit_id ` set xs then settled_by o' r else r) ?one =
      map (\<lambda>r. if ev_id r \<in> ex_audit_id ` set (x # xs) then settled_by o' r else r) (events (ct_db s))"
    by auto
  ultimately show ?case by simp
qed simp

lemma settle_ids [simp]: "map ev_id (settle xs o' evs) = map ev_id evs"
  by (simp add: settle_def)

lemma expected_same:
  assumes "operation_expectations io i operation_id s = Inr xs"
    and "validate_expected_control_operation o' (ex_kind (hd xs)) (ex_digest (hd xs)) = Inr ()"
  shows "xs = awaiting io i operation_id s" "xs \<noteq> []"
    and "\<forall>x \<in> set xs. validate_expected_control_operation o' (ex_kind x) (ex_digest x) = Inr ()"
proof -
  obtain x ys where xs: "xs = x # ys" "xs = awaiting io i operation_id s"
    and same: "\<forall>y \<in> set ys. ex_kind y = ex_kind x \<and> ex_digest y = ex_digest x"
    using assms(1) by (cases "awaiting io i operation_id s")
      (auto simp: operation_expectations_def awaiting_def [symmetric] outcome_simps Let_def list_all_iff)
  then show "xs = awaiting io i operation_id s" "xs \<noteq> []" by simp_all
  show "\<forall>x \<in> set xs. validate_expected_control_operation o' (ex_kind x) (ex_digest x) = Inr ()"
    using assms(2) same by (auto simp: xs(1))
qed

lemma finalize_cases:
  assumes "finalize_control_operation io xs o' s2 = (r, s3)"
    and "ct_db s2 = (ct_db s)\<lparr>events := events (ct_db s) @ [event]\<rparr>" "distinct (map ev_id (events (ct_db s2)))"
    and "ev_id event \<notin> ex_audit_id ` set xs"
  shows "case r of Inl _ \<Rightarrow> ct_db s3 = ct_db s2
    | Inr _ \<Rightarrow> ct_db s3 = (ct_db s)\<lparr>events := settle xs o' (events (ct_db s)) @ [event]\<rparr>"
proof (cases "fst (control_operation_audit_result o') = ''pending''")
  case True
  then show ?thesis using assms(1,2) by (auto simp: finalize_control_operation_def settle_def)
next
  case False
  then have t: "transaction (flt (ci_env io 4)) (finalize_each (ci_env io 4) o' xs) s2 = (r, s3)"
    using assms(1) by (simp add: finalize_control_operation_def)
  show ?thesis
  proof (cases r)
    case (Inl er)
    then show ?thesis using t transaction_Inl_state by fastforce
  next
    case (Inr u)
    then have "finalize_each (ci_env io 4) o' xs s2 = Inr (u, s3)" using t by (simp add: outcome_simps)
    from finalize_each_settles [OF this assms(3)] show ?thesis using assms(2,4) Inr False by (simp add: settle_def)
  qed
qed

lemma poll_polled:
  assumes "trail_ok s"
  shows "polled io i operation_id s (poll_operation cfg io i operation_id answer s)"
proof (cases rule: intent_cases [of io "''server_control.operation.read''" i "[(''operation_id'', MStr operation_id)]" s])
  case no
  then show ?thesis by (auto simp: poll_operation_def audited_control_call_def polled_def refused_def)
next
  case (yes event)
  let ?s0 = "s\<lparr>ct_db := (ct_db s)\<lparr>events := events (ct_db s) @ [event]\<rparr>\<rparr>" and ?xs = "awaiting io i operation_id s"
  let ?answered = "\<lambda>old o'. ?xs \<noteq> [] \<and> old = settle ?xs o' (events (ct_db s)) \<and>
    (\<forall>x \<in> set ?xs. validate_expected_control_operation o' (ex_kind x) (ex_digest x) = Inr ())"
  let ?op = "\<lambda>s. case operation_expectations io i operation_id s of
         Inl er \<Rightarrow> (Inl er, s)
       | Inr expectations \<Rightarrow>
           cbind (provider_for cfg io 1 i False s) (\<lambda>p s1.
           cbind (ask i (AskOperation operation_id) (answer p) s1) (\<lambda>o' s2.
           case validate_expected_control_operation o' (ex_kind (hd expectations)) (ex_digest (hd expectations)) of
             Inl er \<Rightarrow> (Inl er, s2)
           | Inr _ \<Rightarrow> cbind (finalize_control_operation io expectations o' s2) (\<lambda>_ s3. (Inr o', s3))))"
  obtain out s1 where o: "?op ?s0 = (out, s1)" by fastforce
  have ids: "distinct (map ev_id (events (ct_db ?s0)))" and new: "ev_id event \<notin> ex_audit_id ` set ?xs"
    using assms yes(4) next_id_notin [of ev_id "events (ct_db s)"] by (auto simp: trail_ok_def awaiting_def)
  have "\<exists>old. ct_db s1 = (ct_db s)\<lparr>events := old @ [event]\<rparr> \<and> map ev_id old = map ev_id (events (ct_db s)) \<and>
      (case out of Inl _ \<Rightarrow> old = events (ct_db s) | Inr o' \<Rightarrow> ?answered old o')"
  proof (cases "operation_expectations io i operation_id ?s0")
    case (Inl er)
    then show ?thesis using o by auto
  next
    case (Inr es)
    obtain pr s2 where pr: "provider_for cfg io 1 i False ?s0 = (pr, s2)" by fastforce
    have k2: "ct_db s2 = (ct_db s)\<lparr>events := events (ct_db s) @ [event]\<rparr>"
      using provider_kept [of ?s0 cfg io 1 i False] unfolding pr kept_def by simp
    show ?thesis
    proof (cases pr)
      case (Inl er)
      then show ?thesis using o Inr pr k2 by (auto simp: cbind_def)
    next
      case p: (Inr p)
      let ?s3 = "s2\<lparr>ct_sent := (i, AskOperation operation_id) # ct_sent s2\<rparr>"
      show ?thesis
      proof (cases "answer p")
        case (Inl er)
        then have "out = Inl er \<and> s1 = ?s3" using o Inr pr p by (auto simp: cbind_def ask_def)
        then show ?thesis using k2 by auto
      next
        case a: (Inr o')
        show ?thesis
        proof (cases "validate_expected_control_operation o' (ex_kind (hd es)) (ex_digest (hd es))")
          case (Inl er)
          then have "out = Inl er \<and> s1 = ?s3" using o Inr pr p a by (auto simp: cbind_def ask_def)
          then show ?thesis using k2 by auto
        next
          case v: (Inr u)
          then have v': "validate_expected_control_operation o' (ex_kind (hd es)) (ex_digest (hd es)) = Inr ()" by simp
          note es = expected_same [OF Inr v']
          obtain r s4 where f: "finalize_control_operation io es o' ?s3 = (r, s4)" by fastforce
          have "es = ?xs" using es(1) by (simp add: awaiting_def)
          then have xs: "ev_id event \<notin> ex_audit_id ` set es" using new by simp
          have d: "distinct (map ev_id (events (ct_db ?s3)))" using ids k2 by simp
          have "ct_db ?s3 = (ct_db s)\<lparr>events := events (ct_db s) @ [event]\<rparr>" using k2 by simp
          note fc = finalize_cases [OF f this d xs]
          have "(case r of Inl er \<Rightarrow> out = Inl er | Inr _ \<Rightarrow> out = Inr o') \<and> s1 = s4"
            using o Inr pr p a v' f by (cases r) (auto simp: cbind_def ask_def)
          then show ?thesis using fc k2 es(2,3) \<open>es = ?xs\<close> by (cases r) auto
        qed
      qed
    qed
  qed
  then obtain old where old: "ct_db s1 = (ct_db s)\<lparr>events := old @ [event]\<rparr>" "map ev_id old = map ev_id (events (ct_db s))"
    and ans: "case out of Inl _ \<Rightarrow> old = events (ct_db s) | Inr o' \<Rightarrow> ?answered old o'" by blast
  note a = audited_after [where old = old and s = s and op = ?op and event = event, OF yes(5,1,2,3,4) o old]
  show ?thesis unfolding polled_def poll_operation_def
    by (rule disjI2, rule exI [of _ old], rule conjI, rule a(1)) (use a(2) ans in \<open>auto simp: Let_def split: sum.splits\<close>)
qed

lemmas calls = control_capabilities_def control_status_def control_relays_def simulate_allocation_def get_config_def
  get_config_schema_def config_history_def reload_runtime_def validate_config_def list_relay_enrollments_def

lemma forward_recorded: "recorded io action i md s (forward_call cfg io action md mutates i c answer s)"
  unfolding forward_call_def by (intro audited_recorded handler_keeps_db)

lemma reads_recorded:
  "recorded io ''server_control.capabilities.read'' i [] s (control_capabilities cfg io i answer s)"
  "recorded io ''server_control.status.read'' i [] s (control_status cfg io i answer s)"
  "recorded io ''server_control.relays.read'' i [] s (control_relays cfg io i answer s)"
  "recorded io ''server_control.simulate'' i [(''transport'', MStr transport)] s (simulate_allocation cfg io i transport input answer s)"
  "recorded io ''server_control.config.read'' i [] s (get_config cfg io i answer s)"
  "recorded io ''server_control.config_schema.read'' i [] s (get_config_schema cfg io i answer s)"
  "recorded io ''server_control.config_history.read'' i [] s (config_history cfg io i revisions s)"
  "recorded io ''server_control.config.validate'' i (candidate_metadata sha cd) s (validate_config sha cfg io i cd answer s)"
  "recorded io ''server_control.relay_enrollment.list'' i [] s (list_relay_enrollments cfg io i relays s)"
  "recorded io ''server_control.runtime.reload'' i [(''expected_source_digest'', MStr digest)] s (reload_runtime cfg io i digest ack s)"
  unfolding calls by (rule forward_recorded)+

lemma local_reads_recorded:
  "recorded io ''server_control.instances.read'' ''*'' [] s (instances_context cfg io label s)"
  "recorded io ''server_control.audit_events.read'' ''*'' [(''page'', MNum (uint page)), (''page_size'', MNum (uint page_size))] s
     (audit_events io created page page_size dates s)"
  "recorded io ''server_control.logs.sources'' i [] s (log_sources sources io file level i s)"
  "recorded io ''server_control.logs.read'' i [(''source_id'', MStr source), (''limit'', MNum limit)] s
     (control_logs sources io redact file level i source limit s)"
  "recorded io ''server_control.logs.level.update'' i [(''source_id'', MStr source), (''level'', MStr wanted)] s
     (fst (set_log_level cfg sources io level i source wanted s))"
  "recorded io ''server_control.pairing.status'' ''*'' [] s (pairing_status_audited cfg io s)"
proof -
  have "ct_db (snd (case list_instances cfg io 1 label s0 of (xs, s1) \<Rightarrow> (Inr xs :: err + server_control_instance list, s1))) = ct_db s0" for s0
    by (simp add: list_instances_def Let_def refresh_keeps_db)
  then show "recorded io ''server_control.instances.read'' ''*'' [] s (instances_context cfg io label s)"
    unfolding instances_context_def by (rule audited_recorded)
  have "ct_db (snd (case pairing_status cfg io s0 of (r, s1) \<Rightarrow> (Inr r :: err + pairing_broker_status, s1))) = ct_db s0" for s0
    by (auto simp: pairing_status_def Let_def refresh_keeps_db split: sum.split)
  then show "recorded io ''server_control.pairing.status'' ''*'' [] s (pairing_status_audited cfg io s)"
    unfolding pairing_status_audited_def by (rule audited_recorded)
qed (auto simp: audit_events_def log_sources_def control_logs_def set_log_level_def Let_def intro!: audited_recorded)

lemma writes_recorded:
  "recorded io ''server_control.config.plan'' i (candidate_metadata sha cd) s (plan_config lib sha cfg io i cd plan schema s)"
  "recorded io ''server_control.pairing.create'' (cr_managed_id create)
     [(''purpose'', MStr PurposeControlAgent), (''action'', MStr (cr_action create)), (''managed_id'', MStr (cr_managed_id create)),
      (''agent_origin_id'', MStr (cr_origin_id create))] s (create_control_pairing_audited cfg p enc io rnd create s)"
  "recorded io ''server_control.pairing.revoke'' e [(''purpose'', MStr PurposeControlAgent), (''enrollment_id'', MStr e)] s
     (revoke_control_pairing_audited cfg io e confirmation s)"
  "recorded io ''server_control.relay_enrollment.prepare'' i
     [(''node_id'', MStr (rt_node_id (rp_terms prepare))), (''profile'', MStr (rt_profile (rp_terms prepare))),
      (''activate_after_health'', MBool (rt_activate (rp_terms prepare)))] s
     (create_relay_pairing_audited cfg p j enc io agent rnd i prepare idempotency confirmation s)"
  "recorded io ''server_control.relay_enrollment.activate'' i
     [(''enrollment_id'', MStr (ra_enrollment act)), (''operation_id'', MStr (ra_operation act)),
      (''config_generation'', MNum (int (ra_generation act))), (''health_snapshot_id'', MStr (ra_snapshot act))] s
     (activate_relay_enrollment_audited cfg io agent i act confirmation s)"
  "recorded io ''server_control.relay_enrollment.revoke'' i [(''enrollment_id'', MStr (rr_enrollment relay))] s
     (revoke_relay_enrollment_audited cfg io agent i relay s)"
  "recorded io ''server_control.managed.write_policy'' i (write_policy_metadata io i enabled s) s
     (set_managed_write_enabled cfg io i enabled confirmation s)"
  unfolding plan_config_def create_control_pairing_audited_def revoke_control_pairing_audited_def
    create_relay_pairing_audited_def activate_relay_enrollment_audited_def revoke_relay_enrollment_audited_def
    set_managed_write_enabled_def
  by (intro audited_recorded handler_keeps_db)+ (auto simp: db_kept split: sum.splits intro!: cbind_keeps_db)

lemma claim_recorded:
  "case pairing_registry cfg s of Inl er \<Rightarrow> claim_pairing cfg p j io agent q s = (Inl er, s)
     | Inr _ \<Rightarrow> recorded io ''server_control.pairing.claim'' (cq_enrollment q)
      [(''purpose'', MStr (cq_purpose q)), (''enrollment_id'', MStr (cq_enrollment q))] s (claim_pairing cfg p j io agent q s)"
proof (cases "pairing_registry cfg s")
  case (Inr u)
  then show ?thesis
    by (simp add: claim_pairing_def) (intro audited_recorded cbind_keeps_db, auto simp: db_kept claim_keeps_db split: prod.splits)
qed (simp add: claim_pairing_def)

lemma operations_started:
  "started io ''server_control.config.apply'' i ''config_apply''
     (apply_metadata input (verify_plan_review lib (ci_context io) i (ci_time io) input)) s
     (apply_config lib cfg io i input schema applied s)"
  "started io ''server_control.config.rollback'' i ''config_rollback''
     [(''revision_id'', MStr (rb_revision_id back)), (''etag'', MStr (rb_if_match back))] s
     (rollback_config cfg io i back revisions rolled s)"
proof -
  show "started io ''server_control.config.apply'' i ''config_apply''
     (apply_metadata input (verify_plan_review lib (ci_context io) i (ci_time io) input)) s
     (apply_config lib cfg io i input schema applied s)"
    unfolding apply_config_def Let_def
    by (intro start_recorded cbind_kept provider_kept) (auto split: sum.split intro!: cbind_kept ask_kept)
  show "started io ''server_control.config.rollback'' i ''config_rollback''
     [(''revision_id'', MStr (rb_revision_id back)), (''etag'', MStr (rb_if_match back))] s
     (rollback_config cfg io i back revisions rolled s)"
    unfolding rollback_config_def
    by (intro start_recorded) (auto split: option.split intro!: cbind_kept provider_kept ask_kept)
qed

text \<open>C20: Every audited call of the control service leaves a true record.  Each of the 27 either is refused before it did
  anything, when its context names no actor or the intent cannot be stored, or leaves one new event after the
  others, with its actor, request, action, target and details and with its result, failures by their stable code;
  when the result cannot be stored the event keeps its intent and the caller is told of a failure.  Applying and
  rolling back store with the event the agent's operation and its result so far, pending while it runs.  Polling
  one that has ended settles exactly the events that await it, if events have ids of their own and expectations
  name stored events.  A claim that finds no open registry is refused unrecorded; peer verification is not audited.\<close>

theorem control_calls_recorded:
  shows "(trail_ok s \<longrightarrow> polled io i operation s (poll_operation cfg io i operation polled_answer s)) \<and>
    (recorded io ''server_control.capabilities.read'' i [] s (control_capabilities cfg io i answer s)) \<and>
    (recorded io ''server_control.status.read'' i [] s (control_status cfg io i answer s)) \<and>
    (recorded io ''server_control.relays.read'' i [] s (control_relays cfg io i answer s)) \<and>
    (recorded io ''server_control.simulate'' i [(''transport'', MStr transport)] s (simulate_allocation cfg io i transport input answer s)) \<and>
    (recorded io ''server_control.config.read'' i [] s (get_config cfg io i answer s)) \<and>
    (recorded io ''server_control.config_schema.read'' i [] s (get_config_schema cfg io i answer s)) \<and>
    (recorded io ''server_control.config_history.read'' i [] s (config_history cfg io i revisions s)) \<and>
    (recorded io ''server_control.config.validate'' i (candidate_metadata sha cd) s (validate_config sha cfg io i cd answer s)) \<and>
    (recorded io ''server_control.relay_enrollment.list'' i [] s (list_relay_enrollments cfg io i relays s)) \<and>
    (recorded io ''server_control.runtime.reload'' i [(''expected_source_digest'', MStr digest)] s (reload_runtime cfg io i digest ack s)) \<and>
    (recorded io ''server_control.instances.read'' ''*'' [] s (instances_context cfg io label s)) \<and>
    (recorded io ''server_control.audit_events.read'' ''*'' [(''page'', MNum (uint page)), (''page_size'', MNum (uint page_size))] s
      (audit_events io created page page_size dates s)) \<and>
    (recorded io ''server_control.logs.sources'' i [] s (log_sources sources io file level i s)) \<and>
    (recorded io ''server_control.logs.read'' i [(''source_id'', MStr source), (''limit'', MNum limit)] s
      (control_logs sources io redact file level i source limit s)) \<and>
    (recorded io ''server_control.logs.level.update'' i [(''source_id'', MStr source), (''level'', MStr wanted)] s
      (fst (set_log_level cfg sources io level i source wanted s))) \<and>
    (recorded io ''server_control.pairing.status'' ''*'' [] s (pairing_status_audited cfg io s)) \<and>
    (recorded io ''server_control.config.plan'' i (candidate_metadata sha cd) s (plan_config lib sha cfg io i cd plan schema s)) \<and>
    (recorded io ''server_control.pairing.create'' (cr_managed_id create)
      [(''purpose'', MStr PurposeControlAgent), (''action'', MStr (cr_action create)), (''managed_id'', MStr (cr_managed_id create)),
       (''agent_origin_id'', MStr (cr_origin_id create))] s (create_control_pairing_audited cfg p enc io rnd create s)) \<and>
    (recorded io ''server_control.pairing.revoke'' e [(''purpose'', MStr PurposeControlAgent), (''enrollment_id'', MStr e)] s
      (revoke_control_pairing_audited cfg io e confirmation s)) \<and>
    (recorded io ''server_control.relay_enrollment.prepare'' i
      [(''node_id'', MStr (rt_node_id (rp_terms prepare))), (''profile'', MStr (rt_profile (rp_terms prepare))),
       (''activate_after_health'', MBool (rt_activate (rp_terms prepare)))] s
      (create_relay_pairing_audited cfg p j enc io agent rnd i prepare idempotency confirmation s)) \<and>
    (recorded io ''server_control.relay_enrollment.activate'' i
      [(''enrollment_id'', MStr (ra_enrollment act)), (''operation_id'', MStr (ra_operation act)),
       (''config_generation'', MNum (int (ra_generation act))), (''health_snapshot_id'', MStr (ra_snapshot act))] s
      (activate_relay_enrollment_audited cfg io agent i act confirmation s)) \<and>
    (recorded io ''server_control.relay_enrollment.revoke'' i [(''enrollment_id'', MStr (rr_enrollment relay))] s
      (revoke_relay_enrollment_audited cfg io agent i relay s)) \<and>
    (recorded io ''server_control.managed.write_policy'' i (write_policy_metadata io i enabled s) s
      (set_managed_write_enabled cfg io i enabled confirmation s)) \<and>
    (case pairing_registry cfg s of Inl er \<Rightarrow> claim_pairing cfg p j io agent q s = (Inl er, s)
     | Inr _ \<Rightarrow> recorded io ''server_control.pairing.claim'' (cq_enrollment q)
      [(''purpose'', MStr (cq_purpose q)), (''enrollment_id'', MStr (cq_enrollment q))] s (claim_pairing cfg p j io agent q s)) \<and>
    (started io ''server_control.config.apply'' i ''config_apply''
      (apply_metadata candidate (verify_plan_review lib (ci_context io) i (ci_time io) candidate)) s
      (apply_config lib cfg io i candidate schema applied s)) \<and>
    (started io ''server_control.config.rollback'' i ''config_rollback''
      [(''revision_id'', MStr (rb_revision_id back)), (''etag'', MStr (rb_if_match back))] s
      (rollback_config cfg io i back revisions rolled s))"
  by (intro conjI impI) (rule reads_recorded local_reads_recorded writes_recorded claim_recorded operations_started
      poll_polled, assumption?)+

text \<open>An applied configuration whose event is still pending, and the poll that hears of its success.\<close>

definition pending_event :: audit_row where
  "pending_event = \<lparr>ev_id = 1, ev_actor = 1, ev_action = ''server_control.config.apply'', ev_target_type = ''starry_instance'',
     ev_target_id = ''a'', ev_request_id = ''r'', ev_result = ''pending'', ev_error_code = [], ev_metadata = []\<rparr>"

definition awaiting_control :: control where
  "awaiting_control = example_control\<lparr>ct_db := empty_db\<lparr>events := [pending_event]\<rparr>,
     ct_expectations := [\<lparr>ex_operation = ''o'', ex_instance = ''a'', ex_kind = ''config_apply'', ex_digest = ''d'', ex_audit_id = 1,
       ex_expires = 10\<rparr>]\<rparr>"

definition ended_operation :: control_operation where
  "ended_operation = \<lparr>op_id = ''o'', op_kind = ''config_apply'', op_state = ''succeeded'', op_ack = None, op_error = None\<rparr>"

lemma control_calls_recorded_witness:
  "trail_ok awaiting_control \<and> polled example_io ''a'' ''o'' awaiting_control
     (poll_operation example_config example_io ''a'' ''o'' (\<lambda>_. Inr ended_operation) awaiting_control)"
proof -
  have "trail_ok awaiting_control" by (simp add: trail_ok_def awaiting_control_def pending_event_def)
  then show ?thesis using control_calls_recorded [where s = awaiting_control and io = example_io and cfg = example_config
      and i = "''a''" and operation = "''o''" and polled_answer = "\<lambda>_. Inr ended_operation", THEN conjunct1] by simp
qed

section \<open>Plans are applied after their review\<close>

definition sealed_claims :: "string \<Rightarrow> request_meta \<Rightarrow> config_plan \<Rightarrow> int \<Rightarrow> string \<Rightarrow> plan_claims" where
  "sealed_claims i rq plan expires schema_digest = \<lparr>pc_instance = i, pc_actor = rq_actor rq, pc_plan_id = pl_plan_id plan,
     pc_candidate_digest = pl_candidate_digest plan, pc_base_etag = pl_base_etag plan,
     pc_base_generation = pl_base_generation plan, pc_schema_digest = schema_digest,
     pc_change_count = int (pl_changes plan), pc_risk = pl_risk plan, pc_expires = unix_seconds expires\<rparr>"

lemma split_token:
  "split_on (CHR ''.'') (b64_encode url_alphabet False a @ CHR ''.'' # b64_encode url_alphabet False b) =
     [b64_encode url_alphabet False a, b64_encode url_alphabet False b]"
  using split_on_append_sep [of "CHR ''.''" "b64_encode url_alphabet False a" "b64_encode url_alphabet False b"]
    split_on_no_sep [of "CHR ''.''" "b64_encode url_alphabet False b"] url_b64.encode_no_dot by simp

lemma seal_Inr:
  assumes "seal_plan_review lib ctx i plan schema_digest = Inr token"
  obtains rq expires where "metadata_from_context ctx = Some rq" "pl_expires_at plan = Some expires" "\<not> all_zero_bytes (rl_key lib)"
    "valid_control_digest schema_digest"
    "token = b64_encode url_alphabet False (rl_write lib (sealed_claims i rq plan expires schema_digest)) @ ''.'' @
       b64_encode url_alphabet False (rl_mac lib (rl_key lib) (rl_write lib (sealed_claims i rq plan expires schema_digest)))"
  using assms
  by (auto simp: seal_plan_review_def sealed_claims_def outcome_simps Let_def split: option.splits)

text \<open>The requests a sealed plan is good for.\<close>

definition review_fits ::
    "string \<Rightarrow> request_meta \<Rightarrow> config_plan \<Rightarrow> int \<Rightarrow> request_meta option \<Rightarrow> string \<Rightarrow> int \<Rightarrow> apply_request \<Rightarrow> bool" where
  "review_fits i rq plan expires ctx' i' t input \<longleftrightarrow>
     (\<exists>rq'. metadata_from_context ctx' = Some rq' \<and> rq_actor rq' = rq_actor rq) \<and> i' = i \<and>
     ap_plan_id input = pl_plan_id plan \<and> ap_candidate_digest input = pl_candidate_digest plan \<and>
     ap_if_match input = pl_base_etag plan \<and> unix_seconds t \<le> unix_seconds expires \<and>
     unix_seconds expires \<le> unix_seconds (t + 660 * second) \<and>
     pl_risk plan \<in> {''low'', ''medium'', ''high'', ''critical''}"

text \<open>A review token is good for exactly what was reviewed.  The token that planning a configuration gives to an
  administrator, presented again, is accepted with the claims that were sealed in it exactly when the request is the same
  administrator's, for the same instance, plan, candidate and base revision, the plan has not expired and does not
  expire more than eleven minutes from now, and its risk is a known one; a plan of high or critical risk needs the
  confirmation of its plan id and candidate digest besides.  JSON is assumed to read what it wrote.\<close>

theorem review_token_binds:
  assumes seal: "seal_plan_review lib ctx i plan schema_digest = Inr token"
    and rq: "metadata_from_context ctx = Some rq" "pl_expires_at plan = Some expires"
    and json: "rl_read lib (rl_write lib (sealed_claims i rq plan expires schema_digest)) =
      Some (sealed_claims i rq plan expires schema_digest)"
    and short: "length token \<le> 2048" and input: "ap_review_token input = token"
  shows "verify_plan_review lib ctx' i' t input =
    (if \<not> review_fits i rq plan expires ctx' i' t input then Inl (plan_review_error ''PLAN_REVIEW_INVALID'')
     else if pl_risk plan \<in> {''high'', ''critical''} \<and>
       ap_risk_confirmation input \<noteq> ''confirm:'' @ pl_plan_id plan @ '':'' @ pl_candidate_digest plan
     then Inl (plan_review_error ''HIGH_RISK_CONFIRMATION_REQUIRED'')
     else Inr (sealed_claims i rq plan expires schema_digest))"
proof -
  let ?c = "sealed_claims i rq plan expires schema_digest"
  let ?payload = "rl_write lib ?c"
  obtain key: "\<not> all_zero_bytes (rl_key lib)" and digest: "valid_control_digest schema_digest"
    and token: "token = b64_encode url_alphabet False ?payload @ ''.'' @ b64_encode url_alphabet False (rl_mac lib (rl_key lib) ?payload)"
    using seal rq by (auto elim: seal_Inr)
  have "token \<noteq> []" using token by simp
  have fits: "claims_match ctx' i' t input ?c = review_fits i rq plan expires ctx' i' t input"
    using digest by (auto simp: claims_match_def review_fits_def sealed_claims_def split: option.splits)
  have "verify_plan_review lib ctx' i' t input =
      check (claims_match ctx' i' t input ?c) (plan_review_error ''PLAN_REVIEW_INVALID'') (
      check (\<not> ((pc_risk ?c = ''high'' \<or> pc_risk ?c = ''critical'') \<and>
                             ap_risk_confirmation input \<noteq> ''confirm:'' @ pc_plan_id ?c @ '':'' @ pc_candidate_digest ?c))
                     (plan_review_error ''HIGH_RISK_CONFIRMATION_REQUIRED'') (Inr ?c))"
    unfolding verify_plan_review_def
    using key short \<open>token \<noteq> []\<close> by (simp add: input check_def) (simp add: token split_token url_b64.decode_encode json)
  then show ?thesis by (simp add: fits check_def) (auto simp: sealed_claims_def)
qed

lemma start_operation_sent:
  assumes "start_control_operation io action i kind md start s = (out, s')" and "ct_sent s' = new @ ct_sent s" "new \<noteq> []"
  obtains s0 o1 s1 where "ct_sent s0 = ct_sent s" "start s0 = (o1, s1)" "ct_sent s1 = new @ ct_sent s0"
  using assms(1)
proof (cases rule: start_operation_cases)
  case refused
  then show ?thesis using assms(2,3) by simp
next
  case (called d o1 s1 d' xs)
  then show ?thesis using that [of "s\<lparr>ct_db := d\<rparr>"] assms(2) by simp
qed

lemma refresh_keeps_sent: "ct_sent (snd (refresh_managed_instances cfg io k s)) = ct_sent s"
proof -
  have opened: "ct_sent (snd (open_managed_registry_if_created cfg io k s)) = ct_sent s"
    by (simp add: open_managed_registry_if_created_def split: sum.splits prod.splits)
  have reloaded: "ct_sent (snd (reload_managed cfg io k s1)) = ct_sent s1" for s1
    using load_managed_outside [of s1 cfg io]
    by (simp add: reload_managed_def same_outside_def split: sum.splits option.splits)
  show ?thesis
    using opened by (auto simp: refresh_managed_instances_def cbind_def reloaded split: prod.splits sum.splits option.splits)
qed

lemma provider_keeps_sent: "ct_sent (snd (provider_for cfg io k i mutates s)) = ct_sent s"
proof -
  obtain r s1 where rf: "refresh_managed_instances cfg io k s = (r, s1)" by fastforce
  then show ?thesis using refresh_keeps_sent [of cfg io k s] by (cases r) (simp_all add: provider_for_def)
qed

lemma apply_sent:
  assumes "apply_config lib cfg io i input schema_answer apply_answer s = (out, s')"
    and "ct_sent s' = new @ ct_sent s" and "(j, AskApply a) \<in> set new"
  shows "j = i \<and> a = input \<and> (\<exists>claims p. verify_plan_review lib (ci_context io) i (ci_time io) input = Inr claims \<and>
    schema_answer p = Inr (pc_schema_digest claims))"
proof -
  let ?review = "verify_plan_review lib (ci_context io) i (ci_time io) input"
  have "new \<noteq> []" using assms(3) by auto
  then obtain s0 o1 s1 where s0: "ct_sent s0 = ct_sent s"
    and r: "cbind (provider_for cfg io 1 i True s0) (\<lambda>p s1.
           case ?review of
             Inl er \<Rightarrow> (Inl er, s1)
           | Inr claims \<Rightarrow>
               cbind (ask i AskCapabilities (schema_answer p) s1) (\<lambda>schema_digest s2.
               if schema_digest \<noteq> pc_schema_digest claims then (Inl (plan_review_error ''PLAN_REVIEW_SCHEMA_CHANGED''), s2)
               else cbind (ask i (AskApply input) (apply_answer p) s2) (\<lambda>o' s3. (Inr (o', ap_candidate_digest input), s3)))) = (o1, s1)"
    and s1: "ct_sent s1 = new @ ct_sent s0"
    by (rule start_operation_sent [OF assms(1) [unfolded apply_config_def Let_def] assms(2)])
  obtain q s2 where p: "provider_for cfg io 1 i True s0 = (q, s2)" by fastforce
  have s2: "ct_sent s2 = ct_sent s0" using provider_keeps_sent [of cfg io 1 i True s0] p by simp
  show ?thesis
  proof (cases "\<exists>p claims. q = Inr p \<and> ?review = Inr claims \<and> schema_answer p = Inr (pc_schema_digest claims)")
    case True
    then obtain p claims where g: "q = Inr p" "?review = Inr claims" "schema_answer p = Inr (pc_schema_digest claims)" by blast
    then have "ct_sent s1 = (i, AskApply input) # (i, AskCapabilities) # ct_sent s2"
      using r [unfolded p] by (cases "apply_answer p") (auto simp: cbind_def ask_def)
    then have "new = [(i, AskApply input), (i, AskCapabilities)]" using s1 s2 by simp
    then show ?thesis using g assms(3) by auto
  next
    case False
    have "ct_sent s1 = ct_sent s2 \<or> ct_sent s1 = (i, AskCapabilities) # ct_sent s2"
    proof (cases q)
      case (Inl er)
      then show ?thesis using r [unfolded p] by (auto simp: cbind_def)
    next
      case (Inr p')
      then show ?thesis using r [unfolded p] False
        by (cases ?review; cases "schema_answer p'") (auto simp: cbind_def ask_def)
    qed
    then have "new = [] \<or> new = [(i, AskCapabilities)]" using s1 s2 by auto
    then show ?thesis using assms(3) by auto
  qed
qed

lemma verify_Inr:
  assumes "verify_plan_review lib ctx i t input = Inr claims"
  obtains payload signature where
    "map (b64_decode url_alphabet False) (split_on (CHR ''.'') (ap_review_token input)) = [Some payload, Some signature]"
    "signature = rl_mac lib (rl_key lib) payload" "rl_read lib payload = Some claims" "claims_match ctx i t input claims"
    "\<not> (pc_risk claims \<in> {''high'', ''critical''} \<and>
       ap_risk_confirmation input \<noteq> ''confirm:'' @ pc_plan_id claims @ '':'' @ pc_candidate_digest claims)"
proof -
  obtain a b where ab: "split_on (CHR ''.'') (ap_review_token input) = [a, b]"
    using assms by (auto simp: verify_plan_review_def outcome_simps split: list.splits)
  obtain payload signature where d: "b64_decode url_alphabet False a = Some payload" "b64_decode url_alphabet False b = Some signature"
    using assms by (auto simp: verify_plan_review_def outcome_simps ab split: option.splits)
  then show thesis
    using that [of payload signature] assms ab
    by (auto simp: verify_plan_review_def outcome_simps split: option.splits)
qed

text \<open>C9: A configuration is applied only after its review.  The agent is asked to apply a configuration only with the
  request the administrator sent to that instance, and only when the request carries a token whose payload is
  authenticated under the key of this process and holds claims that name this administrator, this instance and this
  plan, candidate and base revision, that have not expired, whose schema digest is the one the agent reports now, and
  that, for a plan of high or critical risk, the administrator confirmed.\<close>

theorem apply_needs_review:
  assumes "apply_config lib cfg io i input schema_answer apply_answer s = (out, s')"
    and "ct_sent s' = new @ ct_sent s" and "(j, AskApply a) \<in> set new"
  shows "j = i \<and> a = input \<and> (\<exists>rq claims payload signature p.
    metadata_from_context (ci_context io) = Some rq \<and>
    map (b64_decode url_alphabet False) (split_on (CHR ''.'') (ap_review_token input)) = [Some payload, Some signature] \<and>
    signature = rl_mac lib (rl_key lib) payload \<and> rl_read lib payload = Some claims \<and>
    pc_actor claims = rq_actor rq \<and> pc_instance claims = i \<and> pc_plan_id claims = ap_plan_id input \<and>
    pc_candidate_digest claims = ap_candidate_digest input \<and> pc_base_etag claims = ap_if_match input \<and>
    unix_seconds (ci_time io) \<le> pc_expires claims \<and> schema_answer p = Inr (pc_schema_digest claims) \<and>
    \<not> (pc_risk claims \<in> {''high'', ''critical''} \<and>
       ap_risk_confirmation input \<noteq> ''confirm:'' @ ap_plan_id input @ '':'' @ ap_candidate_digest input))"
proof -
  obtain claims p where mine: "j = i" "a = input" and ok: "verify_plan_review lib (ci_context io) i (ci_time io) input = Inr claims"
    and schema: "schema_answer p = Inr (pc_schema_digest claims)"
    using apply_sent [OF assms] by blast
  from ok show ?thesis
  proof (cases rule: verify_Inr)
    case (1 payload signature)
    from 1(4) obtain rq where "metadata_from_context (ci_context io) = Some rq" "pc_actor claims = rq_actor rq"
      by (auto simp: claims_match_def split: option.splits)
    moreover note claims = 1(4) [unfolded claims_match_def]
    ultimately have "metadata_from_context (ci_context io) = Some rq \<and>
      map (b64_decode url_alphabet False) (split_on (CHR ''.'') (ap_review_token input)) = [Some payload, Some signature] \<and>
      signature = rl_mac lib (rl_key lib) payload \<and> rl_read lib payload = Some claims \<and>
      pc_actor claims = rq_actor rq \<and> pc_instance claims = i \<and> pc_plan_id claims = ap_plan_id input \<and>
      pc_candidate_digest claims = ap_candidate_digest input \<and> pc_base_etag claims = ap_if_match input \<and>
      unix_seconds (ci_time io) \<le> pc_expires claims \<and> schema_answer p = Inr (pc_schema_digest claims) \<and>
      \<not> (pc_risk claims \<in> {''high'', ''critical''} \<and>
         ap_risk_confirmation input \<noteq> ''confirm:'' @ ap_plan_id input @ '':'' @ ap_candidate_digest input)"
      using 1 schema by simp
    then show ?thesis using mine by - (rule conjI, assumption, rule conjI, assumption, (rule exI)+, assumption)
  qed
qed

definition example_plan :: config_plan where
  "example_plan = \<lparr>pl_plan_id = ''plan'', pl_base_etag = ''etag'', pl_base_generation = 1, pl_candidate_digest = ''cand'', pl_changes = 1,
     pl_risk = ''high'', pl_expires_at = Some (600 * second), pl_review_token = []\<rparr>"

definition example_meta :: request_meta where
  "example_meta = \<lparr>rq_actor = 1, rq_id = ''r'', rq_service = False\<rparr>"

definition example_claims :: plan_claims where
  "example_claims = sealed_claims ''a'' example_meta example_plan (600 * second) zero_digest"

definition example_lib :: review_lib where
  "example_lib = \<lparr>rl_key = ''k'', rl_mac = (\<lambda>_ _. ''m''), rl_write = (\<lambda>_. ''p''), rl_read = (\<lambda>_. Some example_claims)\<rparr>"

definition example_apply :: apply_request where
  "example_apply = \<lparr>ap_plan_id = ''plan'', ap_candidate_digest = ''cand'', ap_if_match = ''etag'', ap_review_token = ''cA.bQ'',
     ap_risk_confirmation = ''confirm:plan:cand''\<rparr>"

lemma example_digest_ok: "valid_control_digest zero_digest"
  by code_simp

lemma example_context: "metadata_from_context (Some example_meta) = Some example_meta"
  by (simp add: metadata_from_context_def example_meta_def)

lemma example_encode: "b64_encode url_alphabet False ''p'' = ''cA''" "b64_encode url_alphabet False ''m'' = ''bQ''"
  by code_simp+

lemma example_seal: "seal_plan_review example_lib (Some example_meta) ''a'' example_plan zero_digest = Inr ''cA.bQ''"
  by (simp add: seal_plan_review_def example_context check_def example_digest_ok example_plan_def example_lib_def all_zero_bytes_def
      example_encode del: b64_encode.simps)

lemma review_token_binds_witness:
  "verify_plan_review example_lib (Some example_meta) ''a'' 0 example_apply = Inr example_claims"
  using review_token_binds [OF example_seal example_context, of "600 * second" example_apply "Some example_meta" "''a''" 0]
  by (simp add: example_apply_def example_plan_def example_lib_def review_fits_def example_context unix_seconds_def second_def
      example_claims_def)

definition example_operation :: control_operation where
  "example_operation = \<lparr>op_id = ''o'', op_kind = ''config_apply'', op_state = ''pending'', op_ack = None, op_error = None\<rparr>"

lemma example_applied:
  "ct_sent (snd (apply_config example_lib example_config example_io ''a'' example_apply (\<lambda>_. Inr zero_digest)
      (\<lambda>_. Inr example_operation) example_control)) = [(''a'', AskApply example_apply), (''a'', AskCapabilities)]"
  by code_simp

lemma apply_needs_review_witness:
  "\<exists>rq (claims :: plan_claims). metadata_from_context (ci_context example_io) = Some rq \<and> pc_actor claims = rq_actor rq \<and>
     pc_instance claims = ''a'' \<and> pc_plan_id claims = ''plan'' \<and> pc_schema_digest claims = zero_digest"
proof -
  let ?s' = "snd (apply_config example_lib example_config example_io ''a'' example_apply (\<lambda>_. Inr zero_digest)
      (\<lambda>_. Inr example_operation) example_control)"
  have "ct_sent ?s' = [(''a'', AskApply example_apply), (''a'', AskCapabilities)] @ ct_sent example_control"
    using example_applied example_reload(2) by simp
  from apply_needs_review [OF prod.collapse [symmetric] this list.set_intros(1)]
  obtain rq and claims :: plan_claims where "metadata_from_context (ci_context example_io) = Some rq" "pc_actor claims = rq_actor rq" "pc_instance claims = ''a''"
    "pc_plan_id claims = ap_plan_id example_apply" "(Inr zero_digest :: err + string) = Inr (pc_schema_digest claims)"
    by (elim conjE exE) blast
  moreover have "ap_plan_id example_apply = ''plan''" by (simp add: example_apply_def)
  ultimately show ?thesis by (metis sum.sel(2))
qed

section \<open>What the agents say of a peer\<close>

definition query_call :: "peer_query \<Rightarrow> agent_call" where
  "query_call q = AskVerifyPeer (pq_id q) (pq_uuid q) (pq_epoch q) (pq_activation q) (pq_leases q)"

text \<open>An instance was asked about the peer, through the provider the service then had for it, and answered.\<close>

definition answered_peer ::
    "control_config \<Rightarrow> control_io \<Rightarrow> peer_query \<Rightarrow> (starry_instance \<Rightarrow> err + bool) \<Rightarrow> (string \<times> agent_call) list \<Rightarrow> bool \<Rightarrow> string \<Rightarrow> bool" where
  "answered_peer cfg io q answer new b i \<longleftrightarrow> (i, query_call q) \<in> set new \<and>
     (\<exists>k s p. fst (provider_for cfg io k i False s) = Inr p \<and> answer p = Inr b)"

lemma answered_peer_append: "answered_peer cfg io q answer new b i \<Longrightarrow> answered_peer cfg io q answer (older @ new) b i"
  "answered_peer cfg io q answer new b i \<Longrightarrow> answered_peer cfg io q answer (new @ older) b i"
  by (auto simp: answered_peer_def)

lemma ask_each_verdict:
  assumes "ask_each cfg io q answer ids k checked combined s = (Inr b, s')"
  shows "\<exists>new. ct_sent s' = new @ ct_sent s \<and> set new \<subseteq> (\<lambda>i. (i, query_call q)) ` set ids \<and>
    (if b then \<exists>i \<in> set ids. answered_peer cfg io q answer new True i
     else combined = None \<and> (checked > 0 \<or> ids \<noteq> []) \<and> (\<forall>i \<in> set ids. answered_peer cfg io q answer new False i))"
  using assms
proof (induction ids arbitrary: k checked combined s)
  case Nil
  then show ?case by (auto split: option.splits if_splits)
next
  case (Cons i ids)
  obtain r s1 where p: "provider_for cfg io k i False s = (r, s1)" by fastforce
  have s1: "ct_sent s1 = ct_sent s" using provider_keeps_sent [of cfg io k i False s] p by simp
  show ?case
  proof (cases r)
    case (Inl er)
    then have "ask_each cfg io q answer ids (Suc k) checked (Some (join_errors combined er)) s1 = (Inr b, s')"
      using Cons.prems p by simp
    from Cons.IH [OF this] s1 show ?thesis by (fastforce split: if_splits)
  next
    case (Inr x)
    let ?s2 = "s1\<lparr>ct_sent := (i, query_call q) # ct_sent s1\<rparr>"
    have sent: "ct_sent ?s2 = [(i, query_call q)] @ ct_sent s" using s1 by simp
    have mine: "answered_peer cfg io q answer [(i, query_call q)] b0 i" if "answer x = Inr b0" for b0
      using that p Inr by (auto simp: answered_peer_def) (metis fst_conv)
    show ?thesis
    proof (cases "answer x")
      case (Inl er)
      then have "ask_each cfg io q answer ids (Suc k) checked (Some (join_errors combined er)) ?s2 = (Inr b, s')"
        using Cons.prems p \<open>r = Inr x\<close> by (simp add: ask_def query_call_def)
      from Cons.IH [OF this] obtain new where "ct_sent s' = new @ ct_sent ?s2" "set new \<subseteq> (\<lambda>i. (i, query_call q)) ` set ids" "b"
        "\<exists>i \<in> set ids. answered_peer cfg io q answer new True i" by (auto split: if_splits)
      then have "\<exists>i \<in> set ids. answered_peer cfg io q answer (new @ [(i0, query_call q)]) True i" for i0
        using answered_peer_append(2) by blast
      then show ?thesis using sent \<open>ct_sent s' = _\<close> \<open>set new \<subseteq> _\<close> \<open>b\<close>
        by (intro exI [of _ "new @ [(i, query_call q)]"]) auto
    next
      case (Inr registered)
      show ?thesis
      proof (cases registered)
        case True
        then have "b \<and> s' = ?s2" using Cons.prems p \<open>r = Inr x\<close> Inr by (simp add: ask_def query_call_def)
        then show ?thesis using sent mine [OF Inr] True by (intro exI [of _ "[(i, query_call q)]"]) simp
      next
        case False
        then have "ask_each cfg io q answer ids (Suc k) (Suc checked) combined ?s2 = (Inr b, s')"
          using Cons.prems p \<open>r = Inr x\<close> Inr by (simp add: ask_def query_call_def)
        from Cons.IH [OF this] obtain new where ih: "ct_sent s' = new @ ct_sent ?s2 \<and> set new \<subseteq> (\<lambda>i. (i, query_call q)) ` set ids \<and>
          (if b then \<exists>i \<in> set ids. answered_peer cfg io q answer new True i
           else combined = None \<and> (Suc checked > 0 \<or> ids \<noteq> []) \<and> (\<forall>i \<in> set ids. answered_peer cfg io q answer new False i))" by blast
        then have new: "ct_sent s' = new @ ct_sent ?s2" "set new \<subseteq> (\<lambda>i. (i, query_call q)) ` set ids"
          "if b then \<exists>i \<in> set ids. answered_peer cfg io q answer new True i
           else combined = None \<and> (\<forall>i \<in> set ids. answered_peer cfg io q answer new False i)" by (cases b; simp)+
        have "if b then \<exists>i \<in> set ids. answered_peer cfg io q answer (new @ [(i0, query_call q)]) True i
           else combined = None \<and> (\<forall>i \<in> set ids. answered_peer cfg io q answer (new @ [(i0, query_call q)]) False i)" for i0
          using new(3) answered_peer_append(2) by (cases b) (simp_all, blast+)
        moreover have "answered_peer cfg io q answer (new @ [(i, query_call q)]) False i"
          using mine [OF Inr] False answered_peer_append(1) by simp
        ultimately show ?thesis using sent new(1,2)
          by (intro exI [of _ "new @ [(i, query_call q)]"]) (cases b; auto)
      qed
    qed
  qed
qed

text \<open>The agents decide whether a peer is registered.  The service answers yes only when an instance that was listed
  as enabled was asked exactly this question, through its provider, and said yes.  It answers no only when at least one instance is
  enabled and every enabled one was asked and said no: an instance that cannot be reached or fails turns a no into an
  error.  Nothing else is sent.\<close>

theorem peer_verdict_from_agents:
  assumes "verify_peer cfg io q answer s = (Inr b, s')"
  shows "\<exists>new. ct_sent s' = new @ ct_sent s \<and> set new \<subseteq> (\<lambda>i. (i, query_call q)) ` set (enabled_ids s) \<and> enabled_ids s \<noteq> [] \<and>
    (if b then \<exists>i \<in> set (enabled_ids s). answered_peer cfg io q answer new True i
     else \<forall>i \<in> set (enabled_ids s). answered_peer cfg io q answer new False i)"
proof -
  have "enabled_ids s \<noteq> []" "ask_each cfg io q answer (enabled_ids s) 1 0 None s = (Inr b, s')"
    using assms by (auto simp: verify_peer_def split: if_splits)
  from this(1) ask_each_verdict [OF this(2)] show ?thesis by (auto split: if_splits)
qed

lemma peer_verdict_from_agents_witness:
  "\<exists>new. ct_sent (snd (verify_peer example_config example_io \<lparr>pq_id = ''1'', pq_uuid = ''u'', pq_epoch = 0, pq_activation = [], pq_leases = []\<rparr>
      (\<lambda>_. Inr False) example_control)) = new @ ct_sent example_control \<and>
    answered_peer example_config example_io \<lparr>pq_id = ''1'', pq_uuid = ''u'', pq_epoch = 0, pq_activation = [], pq_leases = []\<rparr>
      (\<lambda>_. Inr False) new False ''a''"
proof -
  let ?r = "verify_peer example_config example_io \<lparr>pq_id = ''1'', pq_uuid = ''u'', pq_epoch = 0, pq_activation = [], pq_leases = []\<rparr>
      (\<lambda>_. Inr False) example_control"
  have "fst ?r = Inr False" "enabled_ids example_control = [''a'']" by code_simp+
  then have "?r = (Inr False, snd ?r)" by (metis prod.collapse)
  from peer_verdict_from_agents [OF this] \<open>enabled_ids example_control = _\<close> show ?thesis by auto
qed

end
