(* ===== verification/GoJson.thy ===== *)
theory GoJson
  imports PeersProps
begin

text \<open>
  The two JSON routines the address books use on lists of strings: \<open>json.Marshal\<close> of a \<open>[]string\<close> and
  \<open>json.Unmarshal\<close> into one (Go's encoding/json).  Strings are byte strings; a nil slice is None.  What the
  reader refuses for any reason is None.
\<close>

section \<open>Writing\<close>

definition escape_digit :: "nat \<Rightarrow> char" where
  "escape_digit n = (if n < 10 then char_of (48 + n) else char_of (87 + n))"

definition json_rune :: "string \<Rightarrow> string" where
  "json_rune r =
     (case r of
        [c] \<Rightarrow>
          if c = CHR 0x22 \<or> c = CHR 0x5C then [CHR 0x5C, c]
          else if c = CHR 0x08 then [CHR 0x5C, CHR ''b'']
          else if c = CHR 0x0C then [CHR 0x5C, CHR ''f'']
          else if c = CHR 0x0A then [CHR 0x5C, CHR ''n'']
          else if c = CHR 0x0D then [CHR 0x5C, CHR ''r'']
          else if c = CHR 0x09 then [CHR 0x5C, CHR ''t'']
          else if (of_char c :: nat) < 32 \<or> c = CHR ''<'' \<or> c = CHR ''>'' \<or> c = CHR ''&''
          then [CHR 0x5C, CHR ''u'', CHR ''0'', CHR ''0'', escape_digit (of_char c div 16), escape_digit (of_char c mod 16)]
          else [c]
      | _ \<Rightarrow>
          if r = [CHR 0xE2, CHR 0x80, CHR 0xA8] then [CHR 0x5C] @ ''u2028''
          else if r = [CHR 0xE2, CHR 0x80, CHR 0xA9] then [CHR 0x5C] @ ''u2029''
          else r)"

function json_body :: "string \<Rightarrow> string" where
  "json_body s =
     (if s = [] then []
      else if rune_length s = 0 then [CHR 0x5C] @ ''ufffd'' @ json_body (tl s)
      else json_rune (take (rune_length s) s) @ json_body (drop (rune_length s) s))"
  by pat_completeness auto
termination by (relation "measure length") auto

declare json_body.simps [simp del]

definition json_string :: "string \<Rightarrow> string" where
  "json_string s = CHR 0x22 # json_body s @ [CHR 0x22]"

fun json_items :: "string list \<Rightarrow> string" where
  "json_items [] = []"
| "json_items [x] = json_string x"
| "json_items (x # y # xs) = json_string x @ CHR '','' # json_items (y # xs)"

definition marshal_strings :: "string list option \<Rightarrow> string" where
  "marshal_strings xs = (case xs of None \<Rightarrow> ''null'' | Some ys \<Rightarrow> CHR ''['' # json_items ys @ [CHR '']''])"

section \<open>Reading\<close>

definition escape_value :: "char \<Rightarrow> nat option" where
  "escape_value c = (let b = of_char c :: nat in
     if 48 \<le> b \<and> b \<le> 57 then Some (b - 48) else if 97 \<le> b \<and> b \<le> 102 then Some (b - 87)
     else if 65 \<le> b \<and> b \<le> 70 then Some (b - 55) else None)"

definition hex4 :: "string \<Rightarrow> (nat \<times> string) option" where
  "hex4 s =
     (case s of a # b # c # d # t \<Rightarrow>
        (case (escape_value a, escape_value b, escape_value c, escape_value d) of
           (Some w, Some x, Some y, Some z) \<Rightarrow> Some (4096 * w + 256 * x + 16 * y + z, t)
         | _ \<Rightarrow> None)
      | _ \<Rightarrow> None)"

definition surrogate :: "nat \<Rightarrow> bool" where
  "surrogate v \<longleftrightarrow> 0xD800 \<le> v \<and> v < 0xE000"

definition utf8 :: "nat \<Rightarrow> string" where
  "utf8 v =
     (if v < 0x80 then [char_of v]
      else if v < 0x800 then [char_of (0xC0 + v div 64), char_of (0x80 + v mod 64)]
      else if surrogate v \<or> v > 0x10FFFF then replacement_rune
      else if v < 0x10000 then [char_of (0xE0 + v div 4096), char_of (0x80 + v div 64 mod 64), char_of (0x80 + v mod 64)]
      else [char_of (0xF0 + v div 262144), char_of (0x80 + v div 4096 mod 64), char_of (0x80 + v div 64 mod 64),
            char_of (0x80 + v mod 64)])"

text \<open>An escaped character after \<open>\u\<close>: the rune and the rest; a surrogate counts only as the first half of a pair.\<close>

definition unicode_escape :: "string \<Rightarrow> (string \<times> string) option" where
  "unicode_escape s =
     (case hex4 s of
        None \<Rightarrow> None
      | Some (v, t) \<Rightarrow>
          if surrogate v then
            (case t of
               c # d # t1 \<Rightarrow>
                 if c = CHR 0x5C \<and> d = CHR ''u'' then
                   (case hex4 t1 of
                      Some (w, t2) \<Rightarrow>
                        if v < 0xDC00 \<and> 0xDC00 \<le> w \<and> w < 0xE000
                        then Some (utf8 (0x10000 + (v - 0xD800) * 1024 + (w - 0xDC00)), t2)
                        else Some (replacement_rune, t)
                    | None \<Rightarrow> Some (replacement_rune, t))
                 else Some (replacement_rune, t)
             | _ \<Rightarrow> Some (replacement_rune, t))
          else Some (utf8 v, t))"

definition simple_escape :: "char \<Rightarrow> string option" where
  "simple_escape d =
     (if d = CHR 0x22 \<or> d = CHR 0x5C \<or> d = CHR ''/'' then Some [d]
      else if d = CHR ''b'' then Some [CHR 0x08] else if d = CHR ''f'' then Some [CHR 0x0C]
      else if d = CHR ''n'' then Some [CHR 0x0A] else if d = CHR ''r'' then Some [CHR 0x0D]
      else if d = CHR ''t'' then Some [CHR 0x09] else None)"

text \<open>One character of a string literal, and what follows it; None for a literal that is not well formed.\<close>

definition next_char :: "string \<Rightarrow> (string \<times> string) option" where
  "next_char s =
     (case s of
        [] \<Rightarrow> None
      | c # t \<Rightarrow>
          if c = CHR 0x5C then
            (case t of
               [] \<Rightarrow> None
             | d # u \<Rightarrow> if d = CHR ''u'' then unicode_escape u
                         else (case simple_escape d of None \<Rightarrow> None | Some x \<Rightarrow> Some (x, u)))
          else if (of_char c :: nat) < 32 then None
          else if rune_length s = 0 then Some (replacement_rune, t)
          else Some (take (rune_length s) s, drop (rune_length s) s))"

lemma hex4_shorter: "hex4 s = Some (v, t) \<Longrightarrow> length t < length s"
  by (auto simp: hex4_def split: list.splits option.splits)

lemma unicode_escape_shorter: "unicode_escape s = Some (x, t) \<Longrightarrow> length t < length s"
  by (auto simp: unicode_escape_def split: option.splits list.splits if_splits dest!: hex4_shorter)

lemma next_char_shorter: "next_char s = Some (x, t) \<Longrightarrow> length t < length s"
  by (auto simp: next_char_def split: list.splits if_splits option.splits dest!: unicode_escape_shorter)

function unquote :: "string \<Rightarrow> (string \<times> string) option" where
  "unquote s =
     (case s of
        [] \<Rightarrow> None
      | c # t \<Rightarrow>
          if c = CHR 0x22 then Some ([], t)
          else case next_char s of
            None \<Rightarrow> None
          | Some (x, u) \<Rightarrow> (case unquote u of None \<Rightarrow> None | Some (y, r) \<Rightarrow> Some (x @ y, r)))"
  by pat_completeness auto
termination by (relation "measure length") (auto dest: next_char_shorter)

declare unquote.simps [simp del]

lemma unquote_shorter: "unquote s = Some (x, t) \<Longrightarrow> length t < length s"
proof (induction s arbitrary: x rule: unquote.induct)
  case (1 s)
  note u = "1.prems" [unfolded unquote.simps [of s]]
  show ?case
  proof (cases s)
    case (Cons c w)
    show ?thesis
    proof (cases "c = CHR 0x22")
      case False
      with u Cons obtain y v z where n: "next_char s = Some (y, v)" and v: "unquote v = Some (z, t)"
        by (auto split: option.splits)
      have "length t < length v" by (rule "1.IH" [OF Cons False n _ v]) simp
      with next_char_shorter [OF n] show ?thesis by simp
    qed (use u Cons in auto)
  qed (use u in simp)
qed

definition json_space :: "char \<Rightarrow> bool" where
  "json_space c \<longleftrightarrow> c = CHR 0x20 \<or> c = CHR 0x09 \<or> c = CHR 0x0A \<or> c = CHR 0x0D"

definition skip_space :: "string \<Rightarrow> string" where
  "skip_space s = dropWhile json_space s"

lemma skip_space_le: "length (skip_space s) \<le> length s"
  by (simp add: skip_space_def length_dropWhile_le)

text \<open>An element is a string or null, which leaves the empty string.\<close>

definition element :: "string \<Rightarrow> (string \<times> string) option" where
  "element s =
     (if has_prefix s ''null'' then Some ([], drop 4 s)
      else case s of c # t \<Rightarrow> if c = CHR 0x22 then unquote t else None | [] \<Rightarrow> None)"

lemma element_shorter: "element s = Some (x, t) \<Longrightarrow> length t < length s"
  by (auto simp: element_def has_prefix_iff split: if_splits list.splits dest: unquote_shorter)

lemma element_step:
  assumes "element (skip_space s) = Some (x, t)" and "skip_space t = c # u"
  shows "length u < length s"
proof -
  have "length t < length s" using element_shorter [OF assms(1)] skip_space_le [of s] by linarith
  moreover have "length u < length t" using assms(2) skip_space_le [of t] by simp
  ultimately show ?thesis by simp
qed

function elements :: "string \<Rightarrow> (string list \<times> string) option" where
  "elements s =
     (case element (skip_space s) of
        None \<Rightarrow> None
      | Some (x, t) \<Rightarrow>
          (case skip_space t of
             c # u \<Rightarrow>
               if c = CHR '']'' then Some ([x], u)
               else if c = CHR '','' then (case elements u of None \<Rightarrow> None | Some (xs, r) \<Rightarrow> Some (x # xs, r))
               else None
           | [] \<Rightarrow> None))"
  by pat_completeness auto
termination by (relation "measure length") (auto intro: element_step)

declare elements.simps [simp del]

definition unmarshal_strings :: "string \<Rightarrow> string list option" where
  "unmarshal_strings s =
     (let t = skip_space s in
      if has_prefix t ''null'' then (if skip_space (drop 4 t) = [] then Some [] else None)
      else case t of
        c # u \<Rightarrow>
          if c \<noteq> CHR ''['' then None
          else (case skip_space u of
                  d # r \<Rightarrow> if d = CHR '']'' then (if skip_space r = [] then Some [] else None)
                    else (case elements u of
                            Some (xs, w) \<Rightarrow> if skip_space w = [] then Some xs else None
                          | None \<Rightarrow> None)
                | [] \<Rightarrow> None)
      | [] \<Rightarrow> None)"

section \<open>What was written is read back\<close>

text \<open>Valid UTF-8: every rune decodes.\<close>

inductive valid_utf8 :: "string \<Rightarrow> bool" where
  empty: "valid_utf8 []"
| rune: "s \<noteq> [] \<Longrightarrow> 0 < rune_length s \<Longrightarrow> valid_utf8 (drop (rune_length s) s) \<Longrightarrow> valid_utf8 s"

lemma rune_length_cases:
  assumes "0 < rune_length s"
  obtains (one) c t where "s = c # t" "(of_char c :: nat) < 128"
  | (two) c c1 t where "s = c # c1 # t" "0xC2 \<le> (of_char c :: nat)" "(of_char c :: nat) \<le> 0xDF" "byte_in 0x80 0xBF c1"
  | (three) c c1 c2 t lo hi where "s = c # c1 # c2 # t" "0xE0 \<le> (of_char c :: nat)" "(of_char c :: nat) \<le> 0xEF"
      "second_range (of_char c) = (lo, hi)" "byte_in lo hi c1" "byte_in 0x80 0xBF c2"
  | (four) c c1 c2 c3 t lo hi where "s = c # c1 # c2 # c3 # t" "0xF0 \<le> (of_char c :: nat)" "(of_char c :: nat) \<le> 0xF4"
      "second_range (of_char c) = (lo, hi)" "byte_in lo hi c1" "byte_in 0x80 0xBF c2" "byte_in 0x80 0xBF c3"
proof (cases s)
  case (Cons c r)
  obtain lo hi where r: "second_range (of_char c) = (lo, hi)" by fastforce
  note e = assms [unfolded Cons rune_length_def Let_def list.case r prod.case]
  show thesis
  proof (cases "(of_char c :: nat) < 128")
    case False
    show thesis
    proof (cases "0xC2 \<le> (of_char c :: nat) \<and> (of_char c :: nat) \<le> 0xDF")
      case True
      with e False Cons two show thesis by (cases r) (simp_all split: if_split_asm)
    next
      case no2: False
      show thesis
      proof (cases "0xE0 \<le> (of_char c :: nat) \<and> (of_char c :: nat) \<le> 0xEF")
        case True
        with e False no2 Cons r three show thesis
          by (cases r; cases "tl r") (simp_all split: if_split_asm)
      next
        case no3: False
        with e False no2 have "0xF0 \<le> (of_char c :: nat) \<and> (of_char c :: nat) \<le> 0xF4"
          by (simp split: if_split_asm)
        with e False no2 no3 Cons r four show thesis
          by (cases r; cases "tl r"; cases "tl (tl r)") (simp_all split: if_split_asm)
      qed
    qed
  qed (use Cons one in blast)
qed (use assms in \<open>simp add: rune_length_def\<close>)

lemma rune_length_of:
  "(of_char c :: nat) < 128 \<Longrightarrow> rune_length (c # t) = 1"
  "0xC2 \<le> (of_char c :: nat) \<Longrightarrow> (of_char c :: nat) \<le> 0xDF \<Longrightarrow> byte_in 0x80 0xBF c1 \<Longrightarrow> rune_length (c # c1 # t) = 2"
  "0xE0 \<le> (of_char c :: nat) \<Longrightarrow> (of_char c :: nat) \<le> 0xEF \<Longrightarrow> second_range (of_char c) = (lo, hi) \<Longrightarrow>
     byte_in lo hi c1 \<Longrightarrow> byte_in 0x80 0xBF c2 \<Longrightarrow> rune_length (c # c1 # c2 # t) = 3"
  "0xF0 \<le> (of_char c :: nat) \<Longrightarrow> (of_char c :: nat) \<le> 0xF4 \<Longrightarrow> second_range (of_char c) = (lo, hi) \<Longrightarrow>
     byte_in lo hi c1 \<Longrightarrow> byte_in 0x80 0xBF c2 \<Longrightarrow> byte_in 0x80 0xBF c3 \<Longrightarrow> rune_length (c # c1 # c2 # c3 # t) = 4"
  by (simp_all add: rune_length_def Let_def)

lemma whole_take: "0 < rune_length s \<Longrightarrow> whole_rune (take (rune_length s) s)"
  using rune_length_le [of s] by (auto simp: whole_rune_def rune_length_take)

lemma rune_shape:
  assumes "0 < rune_length s"
  obtains (ascii) c t where "s = c # t" "rune_length s = 1" "(of_char c :: nat) < 128"
  | (long) c d t where "s = c # d # t" "1 < rune_length s" "128 \<le> (of_char c :: nat)"
  using assms
proof (cases rule: rune_length_cases)
  case one then show thesis using ascii by (simp add: rune_length_of)
next
  case two then show thesis using long by (simp add: rune_length_of)
next
  case three then show thesis using long by (simp add: rune_length_of)
next
  case four then show thesis using long by (simp add: rune_length_of)
qed

lemma escape_value_digit: "n < 16 \<Longrightarrow> escape_value (escape_digit n) = Some n"
  by (auto simp: escape_value_def escape_digit_def Let_def)

lemma escape_value_zero: "escape_value CHR ''0'' = Some 0"
  by (simp add: escape_value_def)

lemma next_char_escaped:
  "(of_char c :: nat) < 128 \<Longrightarrow> next_char (json_rune [c] @ t) = Some ([c], t)"
  by (auto simp: json_rune_def next_char_def simple_escape_def unicode_escape_def hex4_def escape_value_digit
      escape_value_zero surrogate_def utf8_def rune_length_def Let_def)

lemma next_char_plain:
  assumes "0 < rune_length s" "r = take (rune_length s) s" "128 \<le> (of_char (hd r) :: nat)"
  shows "next_char (r @ t) = Some (r, t)"
proof -
  have l: "length r = rune_length s" using assms(2) rune_length_le [of s] by simp
  have n: "rune_length (r @ t) = length r"
    using rune_length_append [OF whole_take [OF assms(1)]] by (simp add: assms(2))
  obtain c q where c: "r = c # q" using l assms(1) by (cases r) auto
  then have "c \<noteq> CHR 0x5C" "\<not> (of_char c :: nat) < 32" using assms(3) by auto
  moreover have "rune_length (c # q @ t) = Suc (length q)" using n c by simp
  ultimately show ?thesis unfolding c by (simp add: next_char_def)
qed

lemma separators:
  "next_char (([CHR 0x5C] @ ''u2028'') @ t) = Some ([CHR 0xE2, CHR 0x80, CHR 0xA8], t)"
  "next_char (([CHR 0x5C] @ ''u2029'') @ t) = Some ([CHR 0xE2, CHR 0x80, CHR 0xA9], t)"
  by (simp_all add: next_char_def unicode_escape_def hex4_def escape_value_def surrogate_def utf8_def char_of_eq_iff)

lemma next_char_rune:
  assumes "0 < rune_length s"
  shows "next_char (json_rune (take (rune_length s) s) @ t) = Some (take (rune_length s) s, t)"
  using assms
proof (cases rule: rune_shape)
  case (ascii c u)
  then show ?thesis by (simp add: next_char_escaped)
next
  case (long c d u)
  let ?r = "take (rune_length s) s"
  from long obtain v where r: "?r = c # d # v" by (auto simp: take_Cons' numeral_eq_Suc)
  then have plain: "next_char (?r @ t) = Some (?r, t)" using long(3) by (intro next_char_plain [OF assms refl]) simp
  have "json_rune ?r = (if ?r = [CHR 0xE2, CHR 0x80, CHR 0xA8] then [CHR 0x5C] @ ''u2028''
      else if ?r = [CHR 0xE2, CHR 0x80, CHR 0xA9] then [CHR 0x5C] @ ''u2029'' else ?r)"
    unfolding r by (simp add: json_rune_def)
  then show ?thesis using plain separators [of t] by auto
qed

lemma json_rune_head:
  assumes "0 < rune_length s"
  shows "\<exists>c t. json_rune (take (rune_length s) s) = c # t \<and> c \<noteq> CHR 0x22"
  using assms
proof (cases rule: rune_shape)
  case (long c d u)
  then obtain v where "take (rune_length s) s = c # d # v" by (auto simp: take_Cons' numeral_eq_Suc)
  then show ?thesis using long by (auto simp: json_rune_def)
qed (simp add: json_rune_def)

lemma unquote_body:
  "valid_utf8 s \<Longrightarrow> unquote (json_body s @ CHR 0x22 # t) = Some (s, t)"
proof (induction rule: valid_utf8.induct)
  case empty
  then show ?case by (simp add: json_body.simps unquote.simps)
next
  case (rune s)
  let ?n = "rune_length s"
  have j: "json_body s = json_rune (take ?n s) @ json_body (drop ?n s)"
    using rune.hyps by (subst json_body.simps) simp
  have "\<exists>c u. json_rune (take ?n s) = c # u \<and> c \<noteq> CHR 0x22" by (rule json_rune_head [OF rune.hyps(2)])
  then show ?case
    using next_char_rune [OF rune.hyps(2), of "json_body (drop ?n s) @ CHR 0x22 # t"] rune.IH
    by (subst unquote.simps) (auto simp: j)
qed

lemma skip_space_quote [simp]: "skip_space (CHR 0x22 # t) = CHR 0x22 # t"
  by (simp add: skip_space_def json_space_def)

lemma skip_space_punct [simp]: "skip_space (CHR '']'' # t) = CHR '']'' # t" "skip_space (CHR '','' # t) = CHR '','' # t"
    "skip_space (CHR ''['' # t) = CHR ''['' # t" "skip_space (CHR ''n'' # t) = CHR ''n'' # t" "skip_space [] = []"
  by (simp_all add: skip_space_def json_space_def)

lemma element_json_string: "valid_utf8 x \<Longrightarrow> element (json_string x @ t) = Some (x, t)"
  by (simp add: element_def json_string_def has_prefix_def unquote_body)

lemma elements_items:
  "xs \<noteq> [] \<Longrightarrow> list_all valid_utf8 xs \<Longrightarrow> elements (json_items xs @ CHR '']'' # t) = Some (xs, t)"
proof (induction xs rule: json_items.induct)
  case (2 x)
  then show ?case using element_json_string [of x "CHR '']'' # t"]
    by (subst elements.simps) (simp add: json_string_def)
next
  case (3 x y xs)
  then show ?case using element_json_string [of x "CHR '','' # json_items (y # xs) @ CHR '']'' # t"]
    by (subst elements.simps) (simp add: json_string_def)
qed simp

lemma unmarshal_marshal:
  "list_all valid_utf8 xs \<Longrightarrow> unmarshal_strings (marshal_strings (Some xs)) = Some xs"
proof (cases xs)
  case (Cons x ys)
  assume v: "list_all valid_utf8 xs"
  have "\<exists>w. json_items xs = CHR 0x22 # w" unfolding Cons by (cases ys) (simp_all add: json_string_def)
  then obtain w where w: "json_items xs = CHR 0x22 # w" by blast
  then show ?thesis using elements_items [of xs "[]"] v Cons
    by (simp add: unmarshal_strings_def marshal_strings_def has_prefix_def)
qed (simp add: unmarshal_strings_def marshal_strings_def has_prefix_def)

lemma unmarshal_null: "unmarshal_strings (marshal_strings None) = Some []"
  by (simp add: unmarshal_strings_def marshal_strings_def has_prefix_def)

end
