(* ===== verification/AddressBook.thy ===== *)
theory AddressBook
  imports GoJson Users Oauth Listing
begin

text \<open>
  Address books (\<open>src/service/addressBook.go\<close>, \<open>src/service/tag.go\<close>, \<open>src/service/group.go\<close>): the rows of a
  user's personal book (collection 0) and of the collections a user owns, the rules that share a collection with
  a user or a group, and the tags of a book.  A lookup whose error the code ignores returns no row when it fails.
  The order in which a range visits the keys of a Go map is the argument \<open>rng\<close>; the order of names in the
  database's collation is the argument \<open>by_name\<close>.  Points \<open>Outside\<close> are reads, points \<open>Stmt\<close> are writes; a statement inside a
  loop has one point per round.
\<close>

section \<open>Lookups and listings\<close>

definition info_by_user_id_and_id_and_cid :: "env \<Rightarrow> point \<Rightarrow> nat \<Rightarrow> string \<Rightarrow> nat \<Rightarrow> db \<Rightarrow> abook_row option" where
  "info_by_user_id_and_id_and_cid e p uid i cid d =
     found ab_row_id (first_where e p
       (\<lambda>b. ab_user_id b = uid \<and> ab_id b = normalize_rustdesk_id i \<and> ab_collection_id b = cid) (abooks d))"

definition info_by_row_id :: "env \<Rightarrow> point \<Rightarrow> nat \<Rightarrow> db \<Rightarrow> abook_row option" where
  "info_by_row_id e p i d = found ab_row_id (first_where e p (\<lambda>b. ab_row_id b = i) (abooks d))"

text \<open>A listing: Count, then the page; the session keeps the first error, so a failed Count leaves both empty.\<close>

definition list_page :: "env \<Rightarrow> point \<Rightarrow> point \<Rightarrow> ('r list \<Rightarrow> 'r list) \<Rightarrow> ('r \<Rightarrow> bool) \<Rightarrow> 64 word \<Rightarrow> 64 word \<Rightarrow> 'r list \<Rightarrow> nat \<times> 'r list" where
  "list_page e pc pf order P page page_size t =
     (if flt e pc then (0, [])
      else (count_where P t, if flt e pf then [] else page_rows page page_size (order (filter P t))))"

definition list_by_user_id_and_collection_id :: "env \<Rightarrow> nat \<Rightarrow> nat \<Rightarrow> 64 word \<Rightarrow> 64 word \<Rightarrow> db \<Rightarrow> nat \<times> abook_row list" where
  "list_by_user_id_and_collection_id e uid cid page page_size d =
     list_page e (Outside 301) (Outside 302) id (\<lambda>b. ab_user_id b = uid \<and> ab_collection_id b = cid) page page_size (abooks d)"

definition collection_info_by_id :: "env \<Rightarrow> point \<Rightarrow> nat \<Rightarrow> db \<Rightarrow> collection_row option" where
  "collection_info_by_id e p i d = found c_id (first_where e p (\<lambda>c. c_id c = i) (collections d))"

definition list_collection_by_user_id :: "env \<Rightarrow> nat \<Rightarrow> db \<Rightarrow> nat \<times> collection_row list" where
  "list_collection_by_user_id e uid d =
     list_page e (Outside 303) (Outside 304) id (\<lambda>c. c_user_id c = uid) 1 100 (collections d)"

definition list_collection_by_ids :: "env \<Rightarrow> point \<Rightarrow> nat list \<Rightarrow> db \<Rightarrow> collection_row list" where
  "list_collection_by_ids e p ids d = (if flt e p then [] else filter (\<lambda>c. c_id c \<in> set ids) (collections d))"

definition rule_info_by_id :: "env \<Rightarrow> point \<Rightarrow> nat \<Rightarrow> db \<Rightarrow> rule_row option" where
  "rule_info_by_id e p i d = found r_id (first_where e p (\<lambda>r. r_id r = i) (rules d))"

definition rule_info_by_to_id_and_cid :: "env \<Rightarrow> point \<Rightarrow> int \<Rightarrow> nat \<Rightarrow> nat \<Rightarrow> db \<Rightarrow> rule_row option" where
  "rule_info_by_to_id_and_cid e p t to cid d =
     found r_id (first_where e p (\<lambda>r. r_type r = t \<and> r_to_id r = to \<and> r_collection_id r = cid) (rules d))"

definition tag_info_by_id :: "env \<Rightarrow> point \<Rightarrow> nat \<Rightarrow> db \<Rightarrow> tag_row option" where
  "tag_info_by_id e p i d = found tg_id (first_where e p (\<lambda>t. tg_id t = i) (tags d))"

definition tag_info_by_name :: "env \<Rightarrow> point \<Rightarrow> nat \<Rightarrow> string \<Rightarrow> nat \<Rightarrow> db \<Rightarrow> tag_row option" where
  "tag_info_by_name e p uid name cid d =
     found tg_id (first_where e p (\<lambda>t. tg_user_id t = uid \<and> tg_name t = name \<and> tg_collection_id t = cid) (tags d))"

definition list_tags_by_user_id_and_collection_id ::
    "(tag_row list \<Rightarrow> tag_row list) \<Rightarrow> env \<Rightarrow> nat \<Rightarrow> nat \<Rightarrow> db \<Rightarrow> nat \<times> tag_row list" where
  "list_tags_by_user_id_and_collection_id by_name e uid cid d =
     list_page e (Outside 305) (Outside 306) by_name (\<lambda>t. tg_user_id t = uid \<and> tg_collection_id t = cid) 1 1000 (tags d)"

section \<open>Who may use a shared collection\<close>

definition ShareAddressBookRuleTypeGroup :: int where "ShareAddressBookRuleTypeGroup = 2"
definition ShareAddressBookRuleRuleRead :: int where "ShareAddressBookRuleRuleRead = 1"
definition ShareAddressBookRuleRuleReadWrite :: int where "ShareAddressBookRuleRuleReadWrite = 2"
definition ShareAddressBookRuleRuleFullControl :: int where "ShareAddressBookRuleRuleFullControl = 3"

definition collection_read_rules :: "env \<Rightarrow> user_row \<Rightarrow> db \<Rightarrow> rule_row list" where
  "collection_read_rules e u d =
     (if flt e (Outside 307) then []
      else filter (\<lambda>r. r_type r = ShareAddressBookRuleTypePersonal \<and> r_to_id r = u_id u \<and> r_rule r > 0) (rules d)) @
     (if flt e (Outside 308) then []
      else filter (\<lambda>r. r_type r = ShareAddressBookRuleTypeGroup \<and> r_to_id r = u_group_id u \<and> r_rule r > 0) (rules d))"

definition user_max_rule :: "env \<Rightarrow> user_row \<Rightarrow> nat \<Rightarrow> nat \<Rightarrow> db \<Rightarrow> int" where
  "user_max_rule e u uid cid d =
     (if u_id u = uid then ShareAddressBookRuleRuleFullControl
      else
        let personal = found r_id (first_where e (Outside 309)
              (\<lambda>r. r_type r = ShareAddressBookRuleTypePersonal \<and> r_collection_id r = cid \<and> r_to_id r = u_id u) (rules d));
            m = (case personal of None \<Rightarrow> 0 | Some r \<Rightarrow> r_rule r)
        in if personal \<noteq> None \<and> m = ShareAddressBookRuleRuleFullControl then m
           else case found r_id (first_where e (Outside 310)
              (\<lambda>r. r_type r = ShareAddressBookRuleTypeGroup \<and> r_collection_id r = cid \<and> r_to_id r = u_group_id u) (rules d)) of
             None \<Rightarrow> m
           | Some r \<Rightarrow> if r_rule r > m then r_rule r else m)"

definition check_user_read_privilege :: "env \<Rightarrow> user_row \<Rightarrow> nat \<Rightarrow> nat \<Rightarrow> db \<Rightarrow> bool" where
  "check_user_read_privilege e u uid cid d \<longleftrightarrow> user_max_rule e u uid cid d \<ge> ShareAddressBookRuleRuleRead"

definition check_user_write_privilege :: "env \<Rightarrow> user_row \<Rightarrow> nat \<Rightarrow> nat \<Rightarrow> db \<Rightarrow> bool" where
  "check_user_write_privilege e u uid cid d \<longleftrightarrow> user_max_rule e u uid cid d \<ge> ShareAddressBookRuleRuleReadWrite"

definition check_user_full_control_privilege :: "env \<Rightarrow> user_row \<Rightarrow> nat \<Rightarrow> nat \<Rightarrow> db \<Rightarrow> bool" where
  "check_user_full_control_privilege e u uid cid d \<longleftrightarrow> user_max_rule e u uid cid d \<ge> ShareAddressBookRuleRuleFullControl"

text \<open>The owner of a collection that does not exist is user 0.\<close>

definition check_collection_owner :: "env \<Rightarrow> nat \<Rightarrow> nat \<Rightarrow> db \<Rightarrow> bool" where
  "check_collection_owner e uid cid d \<longleftrightarrow>
     (case collection_info_by_id e (Outside 311) cid d of None \<Rightarrow> 0 | Some c \<Rightarrow> c_user_id c) = uid"

section \<open>Rows of a book\<close>

text \<open>An insert: a key of 0 asks the database for one; the column default of an empty id is \<open>0\<close>.\<close>

definition insert_abook :: "abook_row \<Rightarrow> db \<Rightarrow> err + db" where
  "insert_abook b d =
     (let b1 = (if ab_id b = [] then b\<lparr>ab_id := ''0''\<rparr> else b);
          b2 = (if ab_row_id b1 = 0 then b1\<lparr>ab_row_id := next_id ab_row_id (abooks d)\<rparr> else b1)
      in if ab_row_id b2 \<in> ab_row_id ` set (abooks d) then Inl UniqueViolation
         else Inr (d\<lparr>abooks := insort_key ab_row_id b2 (abooks d)\<rparr>))"

definition create_abook :: "env \<Rightarrow> point \<Rightarrow> abook_row \<Rightarrow> db \<Rightarrow> (err + unit) \<times> db" where
  "create_abook e p b d =
     (if flt e p then (Inl (DbErr p), d)
      else case insert_abook (b\<lparr>ab_id := normalize_rustdesk_id (ab_id b)\<rparr>) d of
        Inl er \<Rightarrow> (Inl er, d) | Inr d1 \<Rightarrow> (Inr (), d1))"

definition delete_abook :: "env \<Rightarrow> point \<Rightarrow> abook_row \<Rightarrow> db \<Rightarrow> (err + unit) \<times> db" where
  "delete_abook e p b d =
     (if ab_row_id b = 0 then (Inl (ErrNew ''WHERE conditions required''), d)
      else if flt e p then (Inl (DbErr p), d)
      else (Inr (), d\<lparr>abooks := delete_where (\<lambda>x. ab_row_id x = ab_row_id b) (abooks d)\<rparr>))"

text \<open>UpdateAll writes every column of the struct.\<close>

definition update_all_abook :: "env \<Rightarrow> point \<Rightarrow> abook_row \<Rightarrow> db \<Rightarrow> (err + unit) \<times> db" where
  "update_all_abook e p b d =
     (let b1 = b\<lparr>ab_id := normalize_rustdesk_id (ab_id b)\<rparr> in
      if ab_row_id b1 = 0 then (Inl (ErrNew ''WHERE conditions required''), d)
      else if flt e p then (Inl (DbErr p), d)
      else (Inr (), d\<lparr>abooks := update_where (\<lambda>x. ab_row_id x = ab_row_id b1) (\<lambda>_. b1) (abooks d)\<rparr>))"

text \<open>The columns a map of updates may name: \<open>None\<close> for a name that is not in the map.\<close>

record abook_updates =
  au_password :: "string option"
  au_hash :: "string option"
  au_alias :: "string option"
  au_tags :: "string option"

definition apply_updates :: "abook_updates \<Rightarrow> abook_row \<Rightarrow> abook_row" where
  "apply_updates m b = b\<lparr>
     ab_password := (case au_password m of None \<Rightarrow> ab_password b | Some x \<Rightarrow> x),
     ab_hash := (case au_hash m of None \<Rightarrow> ab_hash b | Some x \<Rightarrow> x),
     ab_alias := (case au_alias m of None \<Rightarrow> ab_alias b | Some x \<Rightarrow> x),
     ab_tags := (case au_tags m of None \<Rightarrow> ab_tags b | Some x \<Rightarrow> x)\<rparr>"

definition update_abook_by_map :: "env \<Rightarrow> point \<Rightarrow> abook_row \<Rightarrow> abook_updates \<Rightarrow> db \<Rightarrow> (err + unit) \<times> db" where
  "update_abook_by_map e p b m d =
     (if flt e p then (Inl (DbErr p), d)
      else (Inr (), d\<lparr>abooks := update_where (\<lambda>x. ab_row_id x = ab_row_id b) (apply_updates m) (abooks d)\<rparr>))"

definition batch_update_tags :: "env \<Rightarrow> point \<Rightarrow> abook_row list \<Rightarrow> string list option \<Rightarrow> db \<Rightarrow> (err + unit) \<times> db" where
  "batch_update_tags e p bs names d =
     (let ids = map ab_row_id bs; v = marshal_strings names in
      if flt e p then (Inl (DbErr p), d)
      else (Inr (), d\<lparr>abooks := update_where (\<lambda>x. ab_row_id x \<in> set ids) (\<lambda>x. x\<lparr>ab_tags := v\<rparr>) (abooks d)\<rparr>))"

definition empty_abook :: abook_row where
  "empty_abook = \<lparr>ab_row_id = 0, ab_id = '''', ab_username = '''', ab_password = '''', ab_hostname = '''', ab_alias = '''',
     ab_platform = '''', ab_tags = '''', ab_hash = '''', ab_user_id = 0, ab_force_relay = False, ab_rdp_port = '''',
     ab_rdp_username = '''', ab_online = False, ab_login_name = '''', ab_same_server = False, ab_collection_id = 0\<rparr>"

definition from_peer :: "peer_row \<Rightarrow> abook_row" where
  "from_peer p = empty_abook\<lparr>ab_id := p_id p, ab_username := p_username p, ab_hostname := p_hostname p,
     ab_user_id := p_user_id p, ab_platform := platform_from_os (p_os p)\<rparr>"

section \<open>Collections\<close>

definition create_collection :: "env \<Rightarrow> collection_row \<Rightarrow> db \<Rightarrow> (err + unit) \<times> db" where
  "create_collection e c d =
     (let c1 = (if c_id c = 0 then c\<lparr>c_id := next_id c_id (collections d)\<rparr> else c) in
      if flt e (Stmt 301) then (Inl (DbErr (Stmt 301)), d)
      else if c_id c1 \<in> c_id ` set (collections d) then (Inl UniqueViolation, d)
      else (Inr (), d\<lparr>collections := insort_key c_id c1 (collections d)\<rparr>))"

text \<open>\<open>Updates\<close> with a struct skips its zero fields.\<close>

definition update_collection :: "env \<Rightarrow> collection_row \<Rightarrow> db \<Rightarrow> (err + unit) \<times> db" where
  "update_collection e c d =
     (if c_id c = 0 then (Inl (ErrNew ''WHERE conditions required''), d)
      else if flt e (Stmt 302) then (Inl (DbErr (Stmt 302)), d)
      else (Inr (), d\<lparr>collections := update_where (\<lambda>x. c_id x = c_id c)
             (\<lambda>x. x\<lparr>c_user_id := patch 0 (c_user_id c) (c_user_id x), c_name := patch [] (c_name c) (c_name x)\<rparr>)
             (collections d)\<rparr>))"

definition delete_collection_body :: "env \<Rightarrow> bool \<Rightarrow> nat \<Rightarrow> db \<Rightarrow> err + unit \<times> db" where
  "delete_collection_body e has_table cid d =
     stmt (flt e) (Stmt 303) (
     stmt (flt e) (Stmt 304) (
     stmt (flt e) (Stmt 305) (
     let d1 = d\<lparr>rules := delete_where (\<lambda>r. r_collection_id r = cid) (rules d),
                abooks := delete_where (\<lambda>b. ab_collection_id b = cid) (abooks d),
                tags := delete_where (\<lambda>t. tg_collection_id t = cid) (tags d)\<rparr> in
     ebind (remove_resource_scopes e (Stmt 306) has_table ScopeCollection [cid] d1) (\<lambda>d2.
     stmt (flt e) (Stmt 307) (
     if cid = 0 then Inl (ErrNew ''WHERE conditions required'')
     else Inr ((), d2\<lparr>collections := delete_where (\<lambda>c. c_id c = cid) (collections d2)\<rparr>))))))"

definition delete_collection :: "env \<Rightarrow> bool \<Rightarrow> collection_row \<Rightarrow> db \<Rightarrow> (err + unit) \<times> db" where
  "delete_collection e has_table c d = transaction (flt e) (delete_collection_body e has_table (c_id c)) d"

section \<open>Rules\<close>

definition create_rule :: "env \<Rightarrow> rule_row \<Rightarrow> db \<Rightarrow> (err + unit) \<times> db" where
  "create_rule e r d =
     (let r1 = (if r_id r = 0 then r\<lparr>r_id := next_id r_id (rules d)\<rparr> else r);
          r2 = (if r_type r1 = 0 then r1\<lparr>r_type := 1\<rparr> else r1) in
      if flt e (Stmt 308) then (Inl (DbErr (Stmt 308)), d)
      else if r_id r2 \<in> r_id ` set (rules d) then (Inl UniqueViolation, d)
      else (Inr (), d\<lparr>rules := insort_key r_id r2 (rules d)\<rparr>))"

definition patch_rule :: "rule_row \<Rightarrow> rule_row \<Rightarrow> rule_row" where
  "patch_rule r x = x\<lparr>r_user_id := patch 0 (r_user_id r) (r_user_id x),
     r_collection_id := patch 0 (r_collection_id r) (r_collection_id x), r_rule := patch 0 (r_rule r) (r_rule x),
     r_type := patch 0 (r_type r) (r_type x), r_to_id := patch 0 (r_to_id r) (r_to_id x)\<rparr>"

definition update_rule :: "env \<Rightarrow> rule_row \<Rightarrow> db \<Rightarrow> (err + unit) \<times> db" where
  "update_rule e r d =
     (if r_id r = 0 then (Inl (ErrNew ''WHERE conditions required''), d)
      else if flt e (Stmt 309) then (Inl (DbErr (Stmt 309)), d)
      else (Inr (), d\<lparr>rules := update_where (\<lambda>x. r_id x = r_id r) (patch_rule r) (rules d)\<rparr>))"

definition delete_rule :: "env \<Rightarrow> rule_row \<Rightarrow> db \<Rightarrow> (err + unit) \<times> db" where
  "delete_rule e r d =
     (if r_id r = 0 then (Inl (ErrNew ''WHERE conditions required''), d)
      else if flt e (Stmt 310) then (Inl (DbErr (Stmt 310)), d)
      else (Inr (), d\<lparr>rules := delete_where (\<lambda>x. r_id x = r_id r) (rules d)\<rparr>))"

section \<open>Tags\<close>

definition insert_tag :: "tag_row \<Rightarrow> db \<Rightarrow> err + db" where
  "insert_tag t d =
     (let t1 = (if tg_id t = 0 then t\<lparr>tg_id := next_id tg_id (tags d)\<rparr> else t) in
      if tg_id t1 \<in> tg_id ` set (tags d) then Inl UniqueViolation
      else Inr (d\<lparr>tags := insort_key tg_id t1 (tags d)\<rparr>))"

definition create_tag :: "env \<Rightarrow> point \<Rightarrow> tag_row \<Rightarrow> db \<Rightarrow> (err + unit) \<times> db" where
  "create_tag e p t d =
     (if flt e p then (Inl (DbErr p), d)
      else case insert_tag t d of Inl er \<Rightarrow> (Inl er, d) | Inr d1 \<Rightarrow> (Inr (), d1))"

definition delete_tag :: "env \<Rightarrow> point \<Rightarrow> tag_row \<Rightarrow> db \<Rightarrow> (err + unit) \<times> db" where
  "delete_tag e p t d =
     (if tg_id t = 0 then (Inl (ErrNew ''WHERE conditions required''), d)
      else if flt e p then (Inl (DbErr p), d)
      else (Inr (), d\<lparr>tags := delete_where (\<lambda>x. tg_id x = tg_id t) (tags d)\<rparr>))"

definition update_tag :: "env \<Rightarrow> point \<Rightarrow> tag_row \<Rightarrow> db \<Rightarrow> (err + unit) \<times> db" where
  "update_tag e p t d =
     (if tg_id t = 0 then (Inl (ErrNew ''WHERE conditions required''), d)
      else if flt e p then (Inl (DbErr p), d)
      else (Inr (), d\<lparr>tags := update_where (\<lambda>x. tg_id x = tg_id t) (\<lambda>_. t) (tags d)\<rparr>))"

text \<open>
  updateTags: every tag of the personal book is deleted, recoloured or left; a name met once leaves the pending
  names, so a second row of that name is deleted; what is left pending is created.
\<close>

fun sync_tag_rows :: "env \<Rightarrow> nat \<Rightarrow> tag_row list \<Rightarrow> (string \<times> nat) list \<Rightarrow> db \<Rightarrow> err + (string \<times> nat) list \<times> db" where
  "sync_tag_rows e i [] pending d = Inr (pending, d)"
| "sync_tag_rows e i (t # ts) pending d =
     (case map_of pending (tg_name t) of
        None \<Rightarrow>
          stmt (flt e) (Stmt (4 * i + 3)) (
            sync_tag_rows e (Suc i) ts pending (d\<lparr>tags := delete_where (\<lambda>x. tg_id x = tg_id t) (tags d)\<rparr>))
      | Some color \<Rightarrow>
          let rest = filter (\<lambda>nc. fst nc \<noteq> tg_name t) pending in
          if color \<noteq> tg_color t then
            stmt (flt e) (Stmt (4 * i + 3)) (
              sync_tag_rows e (Suc i) ts rest
                (d\<lparr>tags := update_where (\<lambda>x. tg_id x = tg_id t) (\<lambda>x. x\<lparr>tg_color := color\<rparr>) (tags d)\<rparr>))
          else sync_tag_rows e (Suc i) ts rest d)"

fun create_pending_tags :: "env \<Rightarrow> nat \<Rightarrow> nat \<Rightarrow> (string \<times> nat) list \<Rightarrow> string list \<Rightarrow> db \<Rightarrow> err + db" where
  "create_pending_tags e uid i pending [] d = Inr d"
| "create_pending_tags e uid i pending (name # names) d =
     (case map_of pending name of
        None \<Rightarrow> create_pending_tags e uid (Suc i) pending names d
      | Some color \<Rightarrow>
          stmt (flt e) (Stmt (4 * i + 3)) (
          ebind (insert_tag \<lparr>tg_id = 0, tg_name = name, tg_user_id = uid, tg_color = color, tg_collection_id = 0\<rparr> d)
            (create_pending_tags e uid (Suc i) pending names)))"

definition update_tags_body :: "(string list \<Rightarrow> string list) \<Rightarrow> env \<Rightarrow> nat \<Rightarrow> (string \<times> nat) list \<Rightarrow> db \<Rightarrow> err + unit \<times> db" where
  "update_tags_body rng e uid wanted d =
     stmt (flt e) (Outside 312) (
     let mine = filter (\<lambda>t. tg_user_id t = uid \<and> tg_collection_id t = 0) (tags d) in
     ebind (sync_tag_rows e 0 mine wanted d) (\<lambda>(pending, d1).
     ebind (create_pending_tags e uid (length mine) pending (rng (map fst pending)) d1) (\<lambda>d2.
     Inr ((), d2))))"

section \<open>Synchronising the personal book\<close>

text \<open>The newest verified inventory of a device, the lowest key among equally new ones.\<close>

fun newest_report :: "peer_row list \<Rightarrow> peer_row option" where
  "newest_report [] = None"
| "newest_report (p # ps) =
     (case newest_report ps of
        None \<Rightarrow> Some p
      | Some q \<Rightarrow> if p_last_sysinfo_time q > p_last_sysinfo_time p then Some q else Some p)"

definition verified_report :: "string \<Rightarrow> peer_row \<Rightarrow> bool" where
  "verified_report i p \<longleftrightarrow> p_id p = i \<and> p_uuid p \<noteq> [] \<and> p_last_sysinfo_time p > 0 \<and>
     p_identity_source p \<in> {PeerIdentitySourceLogin, PeerIdentitySourceStarry}"

definition enrich_verified_peer_metadata :: "env \<Rightarrow> point \<Rightarrow> abook_row \<Rightarrow> db \<Rightarrow> err + bool \<times> abook_row" where
  "enrich_verified_peer_metadata e p b d =
     stmt (flt e) p
       (case newest_report (filter (verified_report (ab_id b)) (peers d)) of
          None \<Rightarrow> Inr (False, b)
        | Some q \<Rightarrow> Inr (True, b\<lparr>ab_platform := platform_from_os (p_os q), ab_username := p_username q,
                              ab_hostname := p_hostname q\<rparr>))"

text \<open>\<open>Updates\<close> with the uploaded struct, less the row's key, owner and collection.\<close>

definition patch_abook :: "abook_row \<Rightarrow> abook_row \<Rightarrow> abook_row" where
  "patch_abook b x = x\<lparr>ab_id := patch [] (ab_id b) (ab_id x), ab_username := patch [] (ab_username b) (ab_username x),
     ab_password := patch [] (ab_password b) (ab_password x), ab_hostname := patch [] (ab_hostname b) (ab_hostname x),
     ab_alias := patch [] (ab_alias b) (ab_alias x), ab_platform := patch [] (ab_platform b) (ab_platform x),
     ab_tags := patch [] (ab_tags b) (ab_tags x), ab_hash := patch [] (ab_hash b) (ab_hash x),
     ab_force_relay := patch False (ab_force_relay b) (ab_force_relay x),
     ab_rdp_port := patch [] (ab_rdp_port b) (ab_rdp_port x),
     ab_rdp_username := patch [] (ab_rdp_username b) (ab_rdp_username x),
     ab_online := patch False (ab_online b) (ab_online x), ab_login_name := patch [] (ab_login_name b) (ab_login_name x),
     ab_same_server := patch False (ab_same_server b) (ab_same_server x)\<rparr>"

definition fill_from_peer :: "peer_row option \<Rightarrow> abook_row \<Rightarrow> abook_row" where
  "fill_from_peer op b =
     (case found p_row_id op of
        None \<Rightarrow> b
      | Some p \<Rightarrow> b\<lparr>ab_platform := platform_from_os (p_os p), ab_username := p_username p, ab_hostname := p_hostname p\<rparr>)"

definition sync_book :: "env \<Rightarrow> nat \<Rightarrow> nat \<Rightarrow> abook_row \<Rightarrow> abook_row option \<Rightarrow> db \<Rightarrow> err + db" where
  "sync_book e uid i b stored d =
     ebind (enrich_verified_peer_metadata e (Stmt (4 * i)) (b\<lparr>ab_user_id := uid, ab_collection_id := 0\<rparr>) d) (\<lambda>(enriched, b1).
     case stored of
       None \<Rightarrow>
         let b2 = b1\<lparr>ab_row_id := 0\<rparr>;
             b3 = (if \<not> enriched \<and> (ab_platform b2 = [] \<or> ab_username b2 = [] \<or> ab_hostname b2 = [])
                   then fill_from_peer (find_by_user_id_and_id e (Outside (4 * i)) uid (ab_id b2) d) b2 else b2)
         in stmt (flt e) (Stmt (4 * i + 1)) (insert_abook b3 d)
     | Some x \<Rightarrow>
         stmt (flt e) (Stmt (4 * i + 1))
           (Inr (d\<lparr>abooks := update_where (\<lambda>r. ab_row_id r = ab_row_id x) (patch_abook b1) (abooks d)\<rparr>)))"

fun sync_books :: "env \<Rightarrow> nat \<Rightarrow> nat \<Rightarrow> (string \<times> abook_row) list \<Rightarrow> (string \<times> abook_row) list \<Rightarrow> string list \<Rightarrow> db \<Rightarrow> err + db" where
  "sync_books e uid i up stored [] d = Inr d"
| "sync_books e uid i up stored (k # ks) d =
     (case map_of up k of
        None \<Rightarrow> sync_books e uid (Suc i) up stored ks d
      | Some b \<Rightarrow> ebind (sync_book e uid i b (map_of stored k) d) (sync_books e uid (Suc i) up stored ks))"

fun drop_books :: "env \<Rightarrow> nat \<Rightarrow> (string \<times> abook_row) list \<Rightarrow> (string \<times> abook_row) list \<Rightarrow> string list \<Rightarrow> db \<Rightarrow> err + db" where
  "drop_books e i up stored [] d = Inr d"
| "drop_books e i up stored (k # ks) d =
     (case (map_of up k, map_of stored k) of
        (None, Some x) \<Rightarrow>
          stmt (flt e) (Stmt (4 * i + 2))
            (drop_books e (Suc i) up stored ks (d\<lparr>abooks := delete_where (\<lambda>r. ab_row_id r = ab_row_id x) (abooks d)\<rparr>))
      | _ \<Rightarrow> drop_books e (Suc i) up stored ks d)"

text \<open>A Go map filled from a list: the last row of an id stays.\<close>

definition by_id :: "abook_row list \<Rightarrow> (string \<times> abook_row) list" where
  "by_id bs = fold (\<lambda>b m. AList.update (ab_id b) b m) bs []"

definition update_address_book_body ::
    "(string list \<Rightarrow> string list) \<Rightarrow> env \<Rightarrow> abook_row list \<Rightarrow> nat \<Rightarrow> db \<Rightarrow> err + unit \<times> db" where
  "update_address_book_body rng e bs uid d =
     stmt (flt e) (Outside 313) (
     let up = by_id (map (\<lambda>b. b\<lparr>ab_id := normalize_rustdesk_id (ab_id b)\<rparr>) bs);
         stored = by_id (filter (\<lambda>b. ab_user_id b = uid \<and> ab_collection_id b = 0) (abooks d)) in
     ebind (sync_books e uid 0 up stored (rng (map fst up)) d) (\<lambda>d1.
     ebind (drop_books e 0 up stored (rng (map fst stored)) d1) (\<lambda>d2.
     Inr ((), d2))))"

definition update_address_book_and_tags ::
    "(string list \<Rightarrow> string list) \<Rightarrow> env \<Rightarrow> abook_row list \<Rightarrow> nat \<Rightarrow> (string \<times> nat) list \<Rightarrow> db \<Rightarrow> (err + unit) \<times> db" where
  "update_address_book_and_tags rng e bs uid wanted d =
     transaction (flt e) (\<lambda>d. ebind (update_address_book_body rng e bs uid d) (\<lambda>(_, d1).
       update_tags_body rng e uid wanted d1)) d"

section \<open>User groups\<close>

definition group_info_by_id :: "env \<Rightarrow> point \<Rightarrow> nat \<Rightarrow> db \<Rightarrow> group_row option" where
  "group_info_by_id e p i d = found g_id (first_where e p (\<lambda>g. g_id g = i) (groups d))"

text \<open>The column default of the type is 1.\<close>

definition create_group :: "env \<Rightarrow> group_row \<Rightarrow> db \<Rightarrow> (err + unit) \<times> db" where
  "create_group e g d =
     (let g1 = (if g_id g = 0 then g\<lparr>g_id := next_id g_id (groups d)\<rparr> else g);
          g2 = (if g_type g1 = 0 then g1\<lparr>g_type := 1\<rparr> else g1) in
      if flt e (Stmt 311) then (Inl (DbErr (Stmt 311)), d)
      else if g_id g2 \<in> g_id ` set (groups d) then (Inl UniqueViolation, d)
      else (Inr (), d\<lparr>groups := insort_key g_id g2 (groups d)\<rparr>))"

definition update_group :: "env \<Rightarrow> group_row \<Rightarrow> db \<Rightarrow> (err + unit) \<times> db" where
  "update_group e g d =
     (if g_id g = 0 then (Inl (ErrNew ''WHERE conditions required''), d)
      else if flt e (Stmt 312) then (Inl (DbErr (Stmt 312)), d)
      else (Inr (), d\<lparr>groups := update_where (\<lambda>x. g_id x = g_id g)
             (\<lambda>x. x\<lparr>g_name := patch [] (g_name g) (g_name x), g_type := patch 0 (g_type g) (g_type x)\<rparr>) (groups d)\<rparr>))"

definition delete_group_body :: "env \<Rightarrow> bool \<Rightarrow> nat \<Rightarrow> db \<Rightarrow> err + unit \<times> db" where
  "delete_group_body e has_table gid d =
     ebind (remove_resource_scopes e (Stmt 313) has_table ScopeGroup [gid] d) (\<lambda>d1.
     stmt (flt e) (Stmt 314) (
     if gid = 0 then Inl (ErrNew ''WHERE conditions required'')
     else Inr ((), d1\<lparr>groups := delete_where (\<lambda>g. g_id g = gid) (groups d1)\<rparr>)))"

definition delete_group :: "env \<Rightarrow> bool \<Rightarrow> group_row \<Rightarrow> db \<Rightarrow> (err + unit) \<times> db" where
  "delete_group e has_table g d = transaction (flt e) (delete_group_body e has_table (g_id g)) d"

end
