(* ===== verification/BookApi.thy ===== *)
theory BookApi
  imports AddressBook
begin

text \<open>
  The address-book endpoints of the clients (\<open>src/http/controller/api/ab.go\<close>, \<open>src/http/request/api/peer.go\<close>).  A body
  that does not decode is None; an answer of \<open>response.Error\<close> is \<open>ErrCoded\<close> with its message key, joined with the
  error it quotes.  The caller \<open>u\<close> is the user the authentication put into the request.
\<close>

section \<open>Forms\<close>

record book_form =
  bf_id :: string
  bf_username :: string
  bf_password :: string
  bf_hostname :: string
  bf_alias :: string
  bf_platform :: string
  bf_tags :: "string list option"
  bf_hash :: string
  bf_force_relay :: bool
  bf_rdp_port :: string
  bf_rdp_username :: string
  bf_online :: bool
  bf_login_name :: string
  bf_same_server :: bool

definition to_abook :: "'a book_form_scheme \<Rightarrow> abook_row" where
  "to_abook f = \<lparr>ab_row_id = 0, ab_id = normalize_rustdesk_id (bf_id f), ab_username = bf_username f,
     ab_password = bf_password f, ab_hostname = bf_hostname f, ab_alias = bf_alias f, ab_platform = bf_platform f,
     ab_tags = marshal_strings (bf_tags f), ab_hash = bf_hash f, ab_user_id = 0, ab_force_relay = bf_force_relay f,
     ab_rdp_port = bf_rdp_port f, ab_rdp_username = bf_rdp_username f, ab_online = bf_online f,
     ab_login_name = bf_login_name f, ab_same_server = bf_same_server f, ab_collection_id = 0\<rparr>"

text \<open>The form of a single device, where the relay flag is a text.\<close>

record personal_form =
  pf_id :: string
  pf_username :: string
  pf_password :: string
  pf_hostname :: string
  pf_alias :: string
  pf_platform :: string
  pf_tags :: "string list option"
  pf_hash :: string
  pf_rdp_port :: string
  pf_rdp_username :: string
  pf_online :: bool
  pf_login_name :: string
  pf_same_server :: bool
  pf_force_relay :: string

definition personal_to_abook :: "personal_form \<Rightarrow> abook_row" where
  "personal_to_abook f = \<lparr>ab_row_id = 0, ab_id = normalize_rustdesk_id (pf_id f), ab_username = pf_username f,
     ab_password = pf_password f, ab_hostname = pf_hostname f, ab_alias = pf_alias f, ab_platform = pf_platform f,
     ab_tags = marshal_strings (pf_tags f), ab_hash = pf_hash f, ab_user_id = 0,
     ab_force_relay = (pf_force_relay f = ''true''),
     ab_rdp_port = pf_rdp_port f, ab_rdp_username = pf_rdp_username f, ab_online = pf_online f,
     ab_login_name = pf_login_name f, ab_same_server = pf_same_server f, ab_collection_id = 0\<rparr>"

record upload_form =
  up_tags :: "string list"
  up_peers :: "book_form option list"
  up_tag_colors :: string

record tag_color_form =
  tc_name :: string
  tc_color :: nat

record tag_rename_form =
  tr_old :: string
  tr_new :: string

record personal_update =
  pu_id :: string
  pu_password :: "string option"
  pu_hash :: "string option"
  pu_tags :: "string list option"
  pu_alias :: "string option"

section \<open>Checks of the input\<close>

definition valid_name :: "string \<Rightarrow> bool" where
  "valid_name name \<longleftrightarrow> length name \<noteq> 0 \<and> length name \<le> 128"

definition valid_address_book_peer :: "abook_row \<Rightarrow> bool" where
  "valid_address_book_peer b \<longleftrightarrow>
     (if length (ab_tags b) > 65536 then False
      else case (if length (ab_tags b) > 0 then unmarshal_strings (ab_tags b) else Some []) of
        None \<Rightarrow> False
      | Some names \<Rightarrow>
          if length names > 100 then False
          else if \<not> list_all valid_name names then False
          else length (ab_id b) > 0 \<and> length (ab_id b) \<le> 128 \<and> length (ab_username b) \<le> 512 \<and>
            length (ab_password b) \<le> 4096 \<and> length (ab_hostname b) \<le> 512 \<and> length (ab_alias b) \<le> 512 \<and>
            length (ab_platform b) \<le> 128 \<and> length (ab_tags b) \<le> 65536 \<and> length (ab_hash b) \<le> 512 \<and>
            length (ab_rdp_port b) \<le> 32 \<and> length (ab_rdp_username b) \<le> 512 \<and> length (ab_login_name b) \<le> 512)"

definition params_error :: err where "params_error = ErrCoded ''ParamsError''"

section \<open>The identifier of a book\<close>

text \<open>\<open>uint(n)\<close> and \<open>int(n)\<close> between 64-bit types.\<close>

definition to_uint :: "int \<Rightarrow> nat" where "to_uint n = unat (word_of_int n :: 64 word)"
definition to_int :: "nat \<Rightarrow> int" where "to_int n = sint (word_of_nat n :: 64 word)"

definition compose_guid :: "nat \<Rightarrow> nat \<Rightarrow> nat \<Rightarrow> string" where
  "compose_guid gid uid cid = itoa (to_int gid) @ ''-'' @ itoa (to_int uid) @ ''-'' @ itoa (to_int cid)"

definition parse_guid :: "string \<Rightarrow> nat \<times> nat \<times> nat" where
  "parse_guid guid =
     (let parts = split_on CHR ''-'' guid in
      if length parts < 2 then (0, 0, 0)
      else case (if length parts \<noteq> 3 then Some 0 else map_option to_uint (go_atoi (parts ! 2))) of
        None \<Rightarrow> (0, 0, 0)
      | Some cid \<Rightarrow>
          (case go_atoi (parts ! 0) of
             None \<Rightarrow> (0, 0, 0)
           | Some g \<Rightarrow>
               (case go_atoi (parts ! 1) of
                  None \<Rightarrow> (0, 0, 0)
                | Some v \<Rightarrow> (to_uint g, to_uint v, cid))))"

definition check_guid :: "env \<Rightarrow> user_row \<Rightarrow> string \<Rightarrow> db \<Rightarrow> err + nat \<times> nat \<times> nat" where
  "check_guid e cu guid d =
     (let (gid, uid, cid) = parse_guid guid in
      if gid = 0 \<or> uid = 0 then Inl params_error
      else case found u_id (if u_id cu = uid then Some cu else info_by_id e (Outside 321) uid d) of
        None \<Rightarrow> Inl params_error
      | Some u \<Rightarrow>
          if u_group_id u \<noteq> gid then Inl params_error
          else if cid = 0 \<and> u_id cu \<noteq> uid then Inl params_error
          else if cid > 0 then
            (case collection_info_by_id e (Outside 322) cid d of
               None \<Rightarrow> Inl params_error
             | Some c \<Rightarrow> if c_user_id c \<noteq> uid then Inl params_error else Inr (gid, uid, cid))
          else Inr (gid, uid, cid))"

text \<open>What the endpoints of a book have in common: the identifier, then the privilege it needs.\<close>

definition with_book ::
    "env \<Rightarrow> user_row \<Rightarrow> string \<Rightarrow> (nat \<Rightarrow> nat \<Rightarrow> bool) \<Rightarrow> db \<Rightarrow> (nat \<Rightarrow> nat \<Rightarrow> (err + 'a) \<times> db) \<Rightarrow> (err + 'a) \<times> db" where
  "with_book e u guid allowed d op =
     (case check_guid e u guid d of
        Inl er \<Rightarrow> (Inl er, d)
      | Inr (_, uid, cid) \<Rightarrow> if \<not> allowed uid cid then (Inl (ErrCoded ''NoAccess''), d) else op uid cid)"

definition failed_op :: "(err + unit) \<times> db \<Rightarrow> (err + unit) \<times> db" where
  "failed_op out = (case out of (Inl er, d) \<Rightarrow> (Inl (ErrJoin (ErrCoded ''OperationFailed'') er), d) | (Inr x, d) \<Rightarrow> (Inr (), d))"

section \<open>The personal book as a whole\<close>

definition ab_list ::
    "(tag_row list \<Rightarrow> tag_row list) \<Rightarrow> env \<Rightarrow> user_row \<Rightarrow> db \<Rightarrow> abook_row list \<times> string list \<times> (string \<times> nat) list" where
  "ab_list by_name e u d =
     (let al = snd (list_by_user_id_and_collection_id e (u_id u) 0 1 1000 d);
          ts = snd (list_tags_by_user_id_and_collection_id by_name e (u_id u) 0 d)
      in (al, map tg_name ts, fold (\<lambda>t m. AList.update (tg_name t) (tg_color t) m) ts []))"

fun checked_peers :: "book_form option list \<Rightarrow> err + abook_row list" where
  "checked_peers [] = Inr []"
| "checked_peers (None # fs) = Inl params_error"
| "checked_peers (Some f # fs) =
     (if length (case bf_tags f of None \<Rightarrow> [] | Some ts \<Rightarrow> ts) > 100 then Inl params_error
      else if \<not> valid_address_book_peer (to_abook f) then Inl params_error
      else ebind (checked_peers fs) (\<lambda>bs. Inr (to_abook f # bs)))"

text \<open>Reading the two JSON texts of an upload; the colours are a Go map, so their keys are distinct.\<close>

record upload_reader =
  ur_form :: "string \<Rightarrow> upload_form option"
  ur_colors :: "string \<Rightarrow> (string \<times> nat) list option"

definition up_ab ::
    "(string list \<Rightarrow> string list) \<Rightarrow> upload_reader \<Rightarrow> env \<Rightarrow> user_row \<Rightarrow> string option \<Rightarrow> db \<Rightarrow> (err + unit) \<times> db" where
  "up_ab rng rd e u body d =
     (case body of
        None \<Rightarrow> (Inl params_error, d)
      | Some text \<Rightarrow>
          (case ur_form rd text of
             None \<Rightarrow> (Inl params_error, d)
           | Some abd \<Rightarrow>
               (case ur_colors rd (up_tag_colors abd) of
                  None \<Rightarrow> (Inl params_error, d)
                | Some tc \<Rightarrow>
                    if length (up_peers abd) > MaxBatchSize \<or> length (up_tags abd) > 100 \<or> length tc > 100 \<or>
                       length (up_tag_colors abd) > 65536
                    then (Inl params_error, d)
                    else case checked_peers (up_peers abd) of
                      Inl er \<Rightarrow> (Inl er, d)
                    | Inr bs \<Rightarrow>
                        if \<not> list_all valid_name (up_tags abd) \<or> \<not> distinct (up_tags abd) then (Inl params_error, d)
                        else if length tc \<noteq> length (up_tags abd) then (Inl params_error, d)
                        else if \<not> list_all (\<lambda>nc. valid_name (fst nc) \<and> fst nc \<in> set (up_tags abd)) tc
                        then (Inl params_error, d)
                        else failed_op (update_address_book_and_tags rng e bs (u_id u) tc d))))"

section \<open>Tags\<close>

definition p_tags :: "(tag_row list \<Rightarrow> tag_row list) \<Rightarrow> env \<Rightarrow> user_row \<Rightarrow> string \<Rightarrow> db \<Rightarrow> (err + tag_row list) \<times> db" where
  "p_tags by_name e u guid d =
     with_book e u guid (\<lambda>uid cid. check_user_read_privilege e u uid cid d) d (\<lambda>uid cid.
       (Inr (snd (list_tags_by_user_id_and_collection_id by_name e uid cid d)), d))"

definition tag_add :: "env \<Rightarrow> user_row \<Rightarrow> string \<Rightarrow> tag_color_form option \<Rightarrow> db \<Rightarrow> (err + unit) \<times> db" where
  "tag_add e u guid form d =
     (case form of
        None \<Rightarrow> (Inl params_error, d)
      | Some t \<Rightarrow>
          if \<not> valid_name (tc_name t) then (Inl params_error, d)
          else with_book e u guid (\<lambda>uid cid. check_user_write_privilege e u uid cid d) d (\<lambda>uid cid.
            case tag_info_by_name e (Outside 323) uid (tc_name t) cid d of
              Some _ \<Rightarrow> (Inl (ErrCoded ''ItemExists''), d)
            | None \<Rightarrow>
                failed_op (create_tag e (Stmt 323)
                  \<lparr>tg_id = 0, tg_name = tc_name t, tg_user_id = uid, tg_color = tc_color t, tg_collection_id = cid\<rparr> d)))"

definition tag_rename :: "env \<Rightarrow> user_row \<Rightarrow> string \<Rightarrow> tag_rename_form option \<Rightarrow> db \<Rightarrow> (err + unit) \<times> db" where
  "tag_rename e u guid form d =
     (case form of
        None \<Rightarrow> (Inl params_error, d)
      | Some t \<Rightarrow>
          if \<not> valid_name (tr_old t) \<or> \<not> valid_name (tr_new t) then (Inl params_error, d)
          else with_book e u guid (\<lambda>uid cid. check_user_write_privilege e u uid cid d) d (\<lambda>uid cid.
            case tag_info_by_name e (Outside 323) uid (tr_old t) cid d of
              None \<Rightarrow> (Inl (ErrCoded ''ItemNotFound''), d)
            | Some tag \<Rightarrow>
                if tag_info_by_name e (Outside 324) uid (tr_new t) cid d \<noteq> None then (Inl (ErrCoded ''ItemExists''), d)
                else failed_op (update_tag e (Stmt 324) (tag\<lparr>tg_name := tr_new t\<rparr>) d)))"

definition tag_update :: "env \<Rightarrow> user_row \<Rightarrow> string \<Rightarrow> tag_color_form option \<Rightarrow> db \<Rightarrow> (err + unit) \<times> db" where
  "tag_update e u guid form d =
     (case form of
        None \<Rightarrow> (Inl params_error, d)
      | Some t \<Rightarrow>
          if \<not> valid_name (tc_name t) then (Inl params_error, d)
          else with_book e u guid (\<lambda>uid cid. check_user_write_privilege e u uid cid d) d (\<lambda>uid cid.
            case tag_info_by_name e (Outside 323) uid (tc_name t) cid d of
              None \<Rightarrow> (Inl (ErrCoded ''ItemNotFound''), d)
            | Some tag \<Rightarrow> failed_op (update_tag e (Stmt 325) (tag\<lparr>tg_color := tc_color t\<rparr>) d)))"

text \<open>The loop of a deletion stops at the first name it cannot delete; what it deleted before stays deleted.\<close>

fun tag_del_loop :: "env \<Rightarrow> nat \<Rightarrow> nat \<Rightarrow> nat \<Rightarrow> string list \<Rightarrow> db \<Rightarrow> (err + unit) \<times> db" where
  "tag_del_loop e uid cid i [] d = (Inr (), d)"
| "tag_del_loop e uid cid i (name # names) d =
     (case tag_info_by_name e (Outside (1000 + i)) uid name cid d of
        None \<Rightarrow> (Inl (ErrCoded ''ItemNotFound''), d)
      | Some tag \<Rightarrow>
          (case failed_op (delete_tag e (Stmt (1000 + i)) tag d) of
             (Inl er, d1) \<Rightarrow> (Inl er, d1)
           | (Inr _, d1) \<Rightarrow> tag_del_loop e uid cid (Suc i) names d1))"

definition tag_del :: "env \<Rightarrow> user_row \<Rightarrow> string \<Rightarrow> string list option \<Rightarrow> db \<Rightarrow> (err + unit) \<times> db" where
  "tag_del e u guid form d =
     (case form of
        None \<Rightarrow> (Inl params_error, d)
      | Some names \<Rightarrow>
          if length names = 0 \<or> length names > MaxBatchSize then (Inl params_error, d)
          else if \<not> list_all valid_name names then (Inl params_error, d)
          else with_book e u guid (\<lambda>uid cid. check_user_full_control_privilege e u uid cid d) d
            (\<lambda>uid cid. tag_del_loop e uid cid 0 names d))"

section \<open>Devices of a book\<close>

definition book_peers :: "env \<Rightarrow> user_row \<Rightarrow> string \<Rightarrow> db \<Rightarrow> (err + nat \<times> abook_row list) \<times> db" where
  "book_peers e u guid d =
     with_book e u guid (\<lambda>uid cid. check_user_read_privilege e u uid cid d) d (\<lambda>uid cid.
       (Inr (list_by_user_id_and_collection_id e uid cid 1 1000 d), d))"

definition peer_add :: "env \<Rightarrow> user_row \<Rightarrow> string \<Rightarrow> personal_form option \<Rightarrow> db \<Rightarrow> (err + unit) \<times> db" where
  "peer_add e u guid form d =
     (case form of
        None \<Rightarrow> (Inl params_error, d)
      | Some f \<Rightarrow>
          if \<not> valid_address_book_peer (personal_to_abook f) then (Inl params_error, d)
          else with_book e u guid (\<lambda>uid cid. check_user_write_privilege e u uid cid d) d (\<lambda>uid cid.
            let b = (personal_to_abook f)\<lparr>ab_row_id := 0, ab_user_id := uid, ab_collection_id := cid\<rparr>;
                b1 = (if ab_platform b = [] \<or> ab_username b = [] \<or> ab_hostname b = []
                      then fill_from_peer (find_by_user_id_and_id e (Outside 325) (u_id u) (ab_id b) d) b else b)
            in failed_op (create_abook e (Stmt 326) b1 d)))"

fun peer_del_loop :: "env \<Rightarrow> nat \<Rightarrow> nat \<Rightarrow> nat \<Rightarrow> string list \<Rightarrow> db \<Rightarrow> (err + unit) \<times> db" where
  "peer_del_loop e uid cid i [] d = (Inr (), d)"
| "peer_del_loop e uid cid i (x # xs) d =
     (case info_by_user_id_and_id_and_cid e (Outside (1000 + i)) uid x cid d of
        None \<Rightarrow> (Inl (ErrCoded ''ItemNotFound''), d)
      | Some b \<Rightarrow>
          (case failed_op (delete_abook e (Stmt (1000 + i)) b d) of
             (Inl er, d1) \<Rightarrow> (Inl er, d1)
           | (Inr _, d1) \<Rightarrow> peer_del_loop e uid cid (Suc i) xs d1))"

definition peer_del :: "env \<Rightarrow> user_row \<Rightarrow> string \<Rightarrow> string list option \<Rightarrow> db \<Rightarrow> (err + unit) \<times> db" where
  "peer_del e u guid form d =
     (case form of
        None \<Rightarrow> (Inl params_error, d)
      | Some ids \<Rightarrow>
          if length ids = 0 \<or> length ids > MaxBatchSize then (Inl params_error, d)
          else if \<not> list_all valid_name ids then (Inl params_error, d)
          else with_book e u guid (\<lambda>uid cid. check_user_full_control_privilege e u uid cid d) d
            (\<lambda>uid cid. peer_del_loop e uid cid 0 ids d))"

definition over :: "nat \<Rightarrow> string option \<Rightarrow> bool" where
  "over n s \<longleftrightarrow> (case s of None \<Rightarrow> False | Some x \<Rightarrow> length x > n)"

definition peer_update :: "env \<Rightarrow> user_row \<Rightarrow> string \<Rightarrow> personal_update option \<Rightarrow> db \<Rightarrow> (err + unit) \<times> db" where
  "peer_update e u guid form d =
     (case form of
        None \<Rightarrow> (Inl params_error, d)
      | Some f \<Rightarrow>
          with_book e u guid (\<lambda>uid cid. check_user_write_privilege e u uid cid d) d (\<lambda>uid cid.
            if over 4096 (pu_password f) \<or> over 512 (pu_hash f) \<or> over 512 (pu_alias f) \<or>
               (case pu_tags f of None \<Rightarrow> False | Some ts \<Rightarrow> length ts > 100 \<or> \<not> list_all valid_name ts)
            then (Inl params_error, d)
            else case info_by_user_id_and_id_and_cid e (Outside 326) uid (normalize_rustdesk_id (pu_id f)) cid d of
              None \<Rightarrow> (Inl (ErrCoded ''ItemNotFound''), d)
            | Some b \<Rightarrow>
                failed_op (update_abook_by_map e (Stmt 327) b
                  \<lparr>au_password = pu_password f, au_hash = pu_hash f, au_alias = pu_alias f,
                   au_tags = map_option (\<lambda>ts. marshal_strings (Some ts)) (pu_tags f)\<rparr> d)))"

section \<open>Which books there are\<close>

record profile =
  pr_guid :: string
  pr_name :: string
  pr_owner :: string
  pr_rule :: int

definition personal_profile :: "bool \<Rightarrow> user_row \<Rightarrow> profile option" where
  "personal_profile enabled u =
     (if enabled then Some \<lparr>pr_guid = compose_guid (u_group_id u) (u_id u) 0, pr_name = u_username u, pr_owner = '''', pr_rule = 3\<rparr>
      else None)"

text \<open>The strongest rule of each shared collection, and the owners named by the first rule of each.\<close>

fun gather_rules :: "rule_row list \<Rightarrow> (nat \<times> int) list \<Rightarrow> nat list \<Rightarrow> (nat \<times> int) list \<times> nat list" where
  "gather_rules [] books owners = (books, owners)"
| "gather_rules (r # rs) books owners =
     (case map_of books (r_collection_id r) of
        Some m \<Rightarrow>
          gather_rules rs (if m < r_rule r then AList.update (r_collection_id r) (r_rule r) books else books) owners
      | None \<Rightarrow> gather_rules rs (AList.update (r_collection_id r) (r_rule r) books) (r_user_id r # owners))"

fun shared_payloads :: "(nat \<times> int) list \<Rightarrow> nat list \<Rightarrow> user_row list \<Rightarrow> collection_row list \<Rightarrow> profile list option" where
  "shared_payloads books owners us [] = Some []"
| "shared_payloads books owners us (c # cs) =
     (if c_user_id c \<notin> set owners then shared_payloads books owners us cs
      else case find (\<lambda>v. u_id v = c_user_id c) us of
        None \<Rightarrow> None
      | Some v \<Rightarrow>
          (case shared_payloads books owners us cs of
             None \<Rightarrow> None
           | Some ps \<Rightarrow>
               Some (\<lparr>pr_guid = compose_guid (u_group_id v) (u_id v) (c_id c), pr_name = c_name c, pr_owner = u_username v,
                      pr_rule = (case map_of books (c_id c) of None \<Rightarrow> 0 | Some m \<Rightarrow> m)\<rparr> # ps)))"

text \<open>None is the panic on the nil user of an owner the database did not return.\<close>

definition shared_profiles :: "env \<Rightarrow> user_row \<Rightarrow> db \<Rightarrow> profile list option" where
  "shared_profiles e u d =
     (let own = map (\<lambda>c. \<lparr>pr_guid = compose_guid (u_group_id u) (u_id u) (c_id c), pr_name = c_name c,
                           pr_owner = u_username u, pr_rule = ShareAddressBookRuleRuleFullControl\<rparr>)
                  (snd (list_collection_by_user_id e (u_id u) d));
          (books, owners) = gather_rules (collection_read_rules e u d) [] [];
          shared = list_collection_by_ids e (Outside 327) (map fst books) d;
          us = (if flt e (Outside 328) then [] else filter (\<lambda>v. u_id v \<in> set owners) (users d))
      in map_option (\<lambda>ps. own @ ps) (shared_payloads books owners us shared))"

end
