(* ===== verification/BookAdmin.thy ===== *)
theory BookAdmin
  imports BookApi
begin

text \<open>
  The address books, collections, rules, tags and user groups of the administration
  (\<open>src/http/controller/admin/\<close>: addressBook.go, addressBookCollection.go, addressBookCollectionRule.go, tag.go,
  group.go; \<open>my/\<close> for a user's own).  \<open>u\<close> is the user of the session, \<open>rid\<close> the request id an audit entry takes.
  A body that does not bind is None; a struct the validator refuses answers \<open>ErrCoded ''Validation''\<close>.  The routes that
  only super administrators reach say so in their definition.  SQL's LIKE is an argument.
\<close>

definition deny_scoped_access :: "env \<Rightarrow> user_row \<Rightarrow> string \<Rightarrow> string \<Rightarrow> nat \<Rightarrow> db \<Rightarrow> (err + 'a) \<times> db" where
  "deny_scoped_access e u rid target_type target d =
     (Inl (ErrCoded ''NoAccess''), record_denied e (u_id u) rid target_type (decimal target) d)"

definition not_found :: "db \<Rightarrow> (err + 'a) \<times> db" where "not_found d = (Inl (ErrCoded ''ItemNotFound''), d)"
definition invalid_form :: "db \<Rightarrow> (err + 'a) \<times> db" where "invalid_form d = (Inl (ErrCoded ''Validation''), d)"
definition bad_params :: "db \<Rightarrow> (err + 'a) \<times> db" where "bad_params d = (Inl params_error, d)"
definition no_access :: "db \<Rightarrow> (err + 'a) \<times> db" where "no_access d = (Inl (ErrCoded ''NoAccess''), d)"

text \<open>The middlewares in front of the routes.\<close>

definition admin_privilege :: "user_row \<Rightarrow> db \<Rightarrow> (err + 'a) \<times> db \<Rightarrow> (err + 'a) \<times> db" where
  "admin_privilege u d op = (if \<not> is_admin_role (Some u) then no_access d else op)"

definition super_admin_privilege :: "user_row \<Rightarrow> db \<Rightarrow> (err + 'a) \<times> db \<Rightarrow> (err + 'a) \<times> db" where
  "super_admin_privilege u d op = (if \<not> is_super_admin (Some u) then no_access d else op)"

section \<open>Address books of the administration\<close>

record admin_book_form = book_form +
  af_row_id :: nat
  af_user_id :: nat
  af_user_ids :: "nat list"
  af_collection_id :: nat

definition admin_to_abook :: "admin_book_form \<Rightarrow> abook_row" where
  "admin_to_abook f = (to_abook f)\<lparr>ab_row_id := af_row_id f, ab_user_id := af_user_id f, ab_collection_id := af_collection_id f\<rparr>"

definition admin_to_abooks :: "admin_book_form \<Rightarrow> abook_row list" where
  "admin_to_abooks f = map (\<lambda>uid. (admin_to_abook f)\<lparr>ab_user_id := uid\<rparr>) (af_user_ids f)"

text \<open>What a scoped administrator may put rows into, and whose rows they become.\<close>

definition scoped_collection ::
    "env \<Rightarrow> user_row \<Rightarrow> string \<Rightarrow> nat \<Rightarrow> db \<Rightarrow> (nat \<Rightarrow> (err + unit) \<times> db) \<Rightarrow> (err + unit) \<times> db" where
  "scoped_collection e u rid cid d op =
     (if \<not> can_manage_collection e (Some u) cid d then deny_scoped_access e u rid ''address_book_collection'' cid d
      else case collection_info_by_id e (Outside 331) cid d of
        None \<Rightarrow> not_found d
      | Some c \<Rightarrow> op (c_user_id c))"

definition admin_book_create :: "env \<Rightarrow> user_row \<Rightarrow> string \<Rightarrow> admin_book_form option \<Rightarrow> db \<Rightarrow> (err + unit) \<times> db" where
  "admin_book_create e u rid form d =
     (case form of
        None \<Rightarrow> bad_params d
      | Some f \<Rightarrow>
          if bf_id f = [] then invalid_form d
          else (let continue = (\<lambda>t.
              if ab_user_id t = 0 then bad_params d
              else if ab_collection_id t > 0 \<and> \<not> check_collection_owner e (ab_user_id t) (ab_collection_id t) d then bad_params d
              else if info_by_user_id_and_id_and_cid e (Outside 332) (ab_user_id t) (ab_id t) (ab_collection_id t) d \<noteq> None
              then (Inl (ErrCoded ''ItemExists''), d)
              else failed_op (create_abook e (Stmt 331) t d));
            t = admin_to_abook f
          in if \<not> is_super_admin (Some u)
             then scoped_collection e u rid (ab_collection_id t) d (\<lambda>owner. continue (t\<lparr>ab_user_id := owner\<rparr>))
             else continue t))"

text \<open>The batch ignores the errors of its statements.\<close>

fun create_missing :: "env \<Rightarrow> nat \<Rightarrow> abook_row list \<Rightarrow> db \<Rightarrow> db" where
  "create_missing e i [] d = d"
| "create_missing e i (t # ts) d =
     create_missing e (Suc i) ts
       (if info_by_user_id_and_id_and_cid e (Outside (1000 + i)) (ab_user_id t) (ab_id t) (ab_collection_id t) d = None
        then snd (create_abook e (Stmt (1000 + i)) t d) else d)"

definition with_owner :: "abook_row list \<Rightarrow> abook_row list" where
  "with_owner bs = filter (\<lambda>b. ab_user_id b \<noteq> 0) bs"

definition admin_book_batch_create :: "env \<Rightarrow> user_row \<Rightarrow> string \<Rightarrow> admin_book_form option \<Rightarrow> db \<Rightarrow> (err + unit) \<times> db" where
  "admin_book_batch_create e u rid form d =
     (case form of
        None \<Rightarrow> bad_params d
      | Some f \<Rightarrow>
          if bf_id f = [] then invalid_form d
          else (let ul = length (af_user_ids f) in
            if ul = 0 then bad_params d
            else let f1 = (if ul > 1 then f\<lparr>bf_tags := Some [], af_collection_id := 0\<rparr> else f) in
              if \<not> is_super_admin (Some u) then
                (if ul \<noteq> 1 then deny_scoped_access e u rid ''address_book_collection'' (af_collection_id f1) d
                 else scoped_collection e u rid (af_collection_id f1) d (\<lambda>owner.
                   (Inr (), create_missing e 0 (with_owner (admin_to_abooks (f1\<lparr>af_user_ids := [owner]\<rparr>))) d)))
              else (Inr (), create_missing e 0 (with_owner (admin_to_abooks f1)) d)))"

definition admin_book_update :: "env \<Rightarrow> user_row \<Rightarrow> string \<Rightarrow> admin_book_form option \<Rightarrow> db \<Rightarrow> (err + unit) \<times> db" where
  "admin_book_update e u rid form d =
     (case form of
        None \<Rightarrow> bad_params d
      | Some f \<Rightarrow>
          if bf_id f = [] then invalid_form d
          else if af_row_id f = 0 then not_found d
          else case info_by_row_id e (Outside 333) (af_row_id f) d of
            None \<Rightarrow> not_found d
          | Some ex \<Rightarrow>
              if \<not> can_manage_address_book e (Some u) (Some ex) d
              then deny_scoped_access e u rid ''address_book'' (ab_row_id ex) d
              else (let t0 = admin_to_abook f;
                        t = (if \<not> is_super_admin (Some u)
                             then t0\<lparr>ab_user_id := ab_user_id ex, ab_collection_id := ab_collection_id ex\<rparr> else t0)
                    in if ab_collection_id t > 0 \<and> \<not> check_collection_owner e (ab_user_id t) (ab_collection_id t) d
                       then bad_params d
                       else failed_op (update_all_abook e (Stmt 332) t d)))"

definition admin_book_delete :: "env \<Rightarrow> user_row \<Rightarrow> string \<Rightarrow> admin_book_form option \<Rightarrow> db \<Rightarrow> (err + unit) \<times> db" where
  "admin_book_delete e u rid form d =
     (case form of
        None \<Rightarrow> bad_params d
      | Some f \<Rightarrow>
          if af_row_id f = 0 then invalid_form d
          else case info_by_row_id e (Outside 333) (af_row_id f) d of
            None \<Rightarrow> not_found d
          | Some t \<Rightarrow>
              if \<not> can_manage_address_book e (Some u) (Some t) d
              then deny_scoped_access e u rid ''address_book'' (ab_row_id t) d
              else failed_op (delete_abook e (Stmt 333) t d))"

record from_peers_form =
  fp_collection_id :: nat
  fp_peer_ids :: "nat list"
  fp_tags :: "string list option"
  fp_user_id :: nat

text \<open>The devices of a batch: those listed, if the listing found each of them.\<close>

definition listed_peers :: "env \<Rightarrow> (peer_row \<Rightarrow> bool) \<Rightarrow> nat list \<Rightarrow> db \<Rightarrow> peer_row list option" where
  "listed_peers e mine ids d =
     (let pl = length ids;
          (total, ps) = list_page e (Outside 334) (Outside 335) id (\<lambda>p. p_row_id p \<in> set ids \<and> mine p) 1 (word_of_nat pl) (peers d)
      in if total = 0 \<or> pl \<noteq> total then None else Some ps)"

definition admin_book_batch_create_from_peers ::
    "env \<Rightarrow> user_row \<Rightarrow> string \<Rightarrow> from_peers_form option \<Rightarrow> db \<Rightarrow> (err + unit) \<times> db" where
  "admin_book_batch_create_from_peers e u rid form d =
     (case form of
        None \<Rightarrow> bad_params d
      | Some f \<Rightarrow>
          if fp_user_id f = 0 then bad_params d
          else (let continue = (\<lambda>owner.
              if fp_collection_id f \<noteq> 0 \<and> collection_info_by_id e (Outside 336) (fp_collection_id f) d = None then not_found d
              else if length (fp_peer_ids f) = 0 \<or> \<not> all_peers_manageable e (Some u) (fp_peer_ids f) d
              then deny_scoped_access e u rid ''peer'' 0 d
              else case listed_peers e (\<lambda>_. True) (fp_peer_ids f) d of
                None \<Rightarrow> not_found d
              | Some ps \<Rightarrow>
                  (Inr (), create_missing e 0 (map (\<lambda>p. (from_peer p)\<lparr>ab_tags := marshal_strings (fp_tags f),
                      ab_collection_id := fp_collection_id f, ab_user_id := owner\<rparr>) ps) d))
          in if \<not> is_super_admin (Some u) then scoped_collection e u rid (fp_collection_id f) d continue
             else continue (fp_user_id f)))"

record book_query =
  bq_user_id :: int
  bq_collection_id :: "int option"
  bq_username :: string
  bq_hostname :: string
  bq_id :: string
  bq_page :: "64 word"
  bq_page_size :: "64 word"

definition book_query_matches :: "(string \<Rightarrow> string \<Rightarrow> bool) \<Rightarrow> book_query \<Rightarrow> abook_row \<Rightarrow> bool" where
  "book_query_matches like q b \<longleftrightarrow>
     (let i = normalize_rustdesk_id (bq_id q) in
      (i \<noteq> [] \<longrightarrow> like (ab_id b) (''%'' @ i @ ''%'')) \<and>
      (bq_username q \<noteq> [] \<longrightarrow> like (ab_username b) (''%'' @ bq_username q @ ''%'')) \<and>
      (bq_hostname q \<noteq> [] \<longrightarrow> like (ab_hostname b) (''%'' @ bq_hostname q @ ''%'')) \<and>
      (case bq_collection_id q of None \<Rightarrow> True | Some c \<Rightarrow> c \<ge> 0 \<longrightarrow> int (ab_collection_id b) = c))"

definition admin_book_list ::
    "(string \<Rightarrow> string \<Rightarrow> bool) \<Rightarrow> env \<Rightarrow> user_row \<Rightarrow> book_query \<Rightarrow> db \<Rightarrow> nat \<times> abook_row list" where
  "admin_book_list like e u q d =
     list_page e (Outside 337) (Outside 338) id
       (\<lambda>b. apply_address_book_scope (Some u) d b \<and> book_query_matches like q b \<and>
            (bq_user_id q > 0 \<longrightarrow> int (ab_user_id b) = bq_user_id q))
       (bq_page q) (bq_page_size q) (abooks d)"

section \<open>A user's own address books\<close>

definition my_book_list ::
    "(string \<Rightarrow> string \<Rightarrow> bool) \<Rightarrow> env \<Rightarrow> user_row \<Rightarrow> book_query \<Rightarrow> db \<Rightarrow> nat \<times> abook_row list" where
  "my_book_list like e u q d =
     list_page e (Outside 337) (Outside 338) id (\<lambda>b. book_query_matches like q b \<and> ab_user_id b = u_id u)
       (bq_page q) (bq_page_size q) (abooks d)"

definition my_book_create :: "env \<Rightarrow> user_row \<Rightarrow> admin_book_form option \<Rightarrow> db \<Rightarrow> (err + unit) \<times> db" where
  "my_book_create e u form d =
     (case form of
        None \<Rightarrow> bad_params d
      | Some f \<Rightarrow>
          if bf_id f = [] then invalid_form d
          else (let t = (admin_to_abook f)\<lparr>ab_user_id := u_id u\<rparr> in
            if ab_collection_id t > 0 \<and> \<not> check_collection_owner e (ab_user_id t) (ab_collection_id t) d then bad_params d
            else if info_by_user_id_and_id_and_cid e (Outside 332) (ab_user_id t) (ab_id t) (ab_collection_id t) d \<noteq> None
            then (Inl (ErrCoded ''ItemExists''), d)
            else failed_op (create_abook e (Stmt 331) t d)))"

definition my_book_update :: "env \<Rightarrow> user_row \<Rightarrow> admin_book_form option \<Rightarrow> db \<Rightarrow> (err + unit) \<times> db" where
  "my_book_update e u form d =
     (case form of
        None \<Rightarrow> bad_params d
      | Some f \<Rightarrow>
          if bf_id f = [] then invalid_form d
          else if af_row_id f = 0 then bad_params d
          else if af_user_id f \<noteq> u_id u then no_access d
          else case info_by_row_id e (Outside 333) (af_row_id f) d of
            None \<Rightarrow> not_found d
          | Some ex \<Rightarrow>
              if ab_user_id ex \<noteq> u_id u then no_access d
              else (let t = admin_to_abook f in
                if ab_collection_id t > 0 \<and> \<not> check_collection_owner e (ab_user_id t) (ab_collection_id t) d then bad_params d
                else failed_op (update_all_abook e (Stmt 332) t d)))"

definition my_book_delete :: "env \<Rightarrow> user_row \<Rightarrow> admin_book_form option \<Rightarrow> db \<Rightarrow> (err + unit) \<times> db" where
  "my_book_delete e u form d =
     (case form of
        None \<Rightarrow> bad_params d
      | Some f \<Rightarrow>
          if af_row_id f = 0 then invalid_form d
          else case info_by_row_id e (Outside 333) (af_row_id f) d of
            None \<Rightarrow> not_found d
          | Some ex \<Rightarrow>
              if ab_user_id ex \<noteq> u_id u then no_access d else failed_op (delete_abook e (Stmt 333) ex d))"

definition my_book_batch_create_from_peers :: "env \<Rightarrow> user_row \<Rightarrow> from_peers_form option \<Rightarrow> db \<Rightarrow> (err + unit) \<times> db" where
  "my_book_batch_create_from_peers e u form d =
     (case form of
        None \<Rightarrow> bad_params d
      | Some f \<Rightarrow>
          (let continue =
             (if length (fp_peer_ids f) = 0 then bad_params d
              else case listed_peers e (\<lambda>p. p_user_id p = u_id u) (fp_peer_ids f) d of
                None \<Rightarrow> not_found d
              | Some ps \<Rightarrow>
                  (Inr (), create_missing e 0 (map (\<lambda>p. (from_peer p)\<lparr>ab_tags := marshal_strings (fp_tags f),
                      ab_collection_id := fp_collection_id f\<rparr>) ps) d))
          in if fp_collection_id f = 0 then continue
             else case collection_info_by_id e (Outside 336) (fp_collection_id f) d of
               None \<Rightarrow> not_found d
             | Some c \<Rightarrow> if c_user_id c \<noteq> u_id u then no_access d else continue))"

record batch_tags_form =
  bt_row_ids :: "nat list"
  bt_tags :: "string list option"

definition my_book_batch_update_tags :: "env \<Rightarrow> user_row \<Rightarrow> batch_tags_form option \<Rightarrow> db \<Rightarrow> (err + unit) \<times> db" where
  "my_book_batch_update_tags e u form d =
     (case form of
        None \<Rightarrow> bad_params d
      | Some f \<Rightarrow>
          (let (total, bs) = list_page e (Outside 339) (Outside 340) id
                 (\<lambda>b. ab_row_id b \<in> set (bt_row_ids f) \<and> ab_user_id b = u_id u) 1 999 (abooks d)
           in if total = 0 then not_found d else failed_op (batch_update_tags e (Stmt 334) bs (bt_tags f) d)))"

section \<open>Collections\<close>

definition collection_form_valid :: "collection_row \<Rightarrow> bool" where
  "collection_form_valid c \<longleftrightarrow> c_name c \<noteq> []"

definition admin_collection_create :: "env \<Rightarrow> user_row \<Rightarrow> collection_row option \<Rightarrow> db \<Rightarrow> (err + unit) \<times> db" where
  "admin_collection_create e u form d =
     super_admin_privilege u d
     (case form of
        None \<Rightarrow> bad_params d
      | Some f \<Rightarrow>
          if \<not> collection_form_valid f then invalid_form d
          else if c_user_id f = 0 then bad_params d
          else failed_op (create_collection e f d))"

definition admin_collection_list :: "env \<Rightarrow> user_row \<Rightarrow> int \<Rightarrow> 64 word \<Rightarrow> 64 word \<Rightarrow> db \<Rightarrow> nat \<times> collection_row list" where
  "admin_collection_list e u owner page page_size d =
     list_page e (Outside 337) (Outside 338) id
       (\<lambda>c. apply_collection_scope (Some u) d c \<and> (owner > 0 \<longrightarrow> int (c_user_id c) = owner)) page page_size (collections d)"

definition admin_collection_update :: "env \<Rightarrow> user_row \<Rightarrow> string \<Rightarrow> collection_row option \<Rightarrow> db \<Rightarrow> (err + unit) \<times> db" where
  "admin_collection_update e u rid form d =
     (case form of
        None \<Rightarrow> bad_params d
      | Some f \<Rightarrow>
          if \<not> collection_form_valid f then invalid_form d
          else if c_id f = 0 then bad_params d
          else case collection_info_by_id e (Outside 341) (c_id f) d of
            None \<Rightarrow> not_found d
          | Some current \<Rightarrow>
              if \<not> can_manage_collection e (Some u) (c_id current) d
              then deny_scoped_access e u rid ''address_book_collection'' (c_id current) d
              else failed_op (update_collection e
                (if \<not> is_super_admin (Some u) then f\<lparr>c_user_id := c_user_id current\<rparr> else f) d))"

definition admin_collection_delete :: "env \<Rightarrow> bool \<Rightarrow> user_row \<Rightarrow> nat option \<Rightarrow> db \<Rightarrow> (err + unit) \<times> db" where
  "admin_collection_delete e has_table u form d =
     super_admin_privilege u d
     (case form of
        None \<Rightarrow> bad_params d
      | Some i \<Rightarrow>
          if i = 0 then invalid_form d
          else case collection_info_by_id e (Outside 341) i d of
            None \<Rightarrow> not_found d
          | Some ex \<Rightarrow> failed_op (delete_collection e has_table ex d))"

definition my_collection_create :: "env \<Rightarrow> user_row \<Rightarrow> collection_row option \<Rightarrow> db \<Rightarrow> (err + unit) \<times> db" where
  "my_collection_create e u form d =
     (case form of
        None \<Rightarrow> bad_params d
      | Some f \<Rightarrow>
          if \<not> collection_form_valid f then invalid_form d
          else failed_op (create_collection e (f\<lparr>c_user_id := u_id u\<rparr>) d))"

definition my_collection_list :: "env \<Rightarrow> user_row \<Rightarrow> 64 word \<Rightarrow> 64 word \<Rightarrow> db \<Rightarrow> nat \<times> collection_row list" where
  "my_collection_list e u page page_size d =
     list_page e (Outside 337) (Outside 338) id (\<lambda>c. c_user_id c = u_id u) page page_size (collections d)"

definition my_collection_update :: "env \<Rightarrow> user_row \<Rightarrow> collection_row option \<Rightarrow> db \<Rightarrow> (err + unit) \<times> db" where
  "my_collection_update e u form d =
     (case form of
        None \<Rightarrow> bad_params d
      | Some f \<Rightarrow>
          if \<not> collection_form_valid f then invalid_form d
          else if c_id f = 0 then bad_params d
          else case collection_info_by_id e (Outside 341) (c_id f) d of
            None \<Rightarrow> not_found d
          | Some ex \<Rightarrow>
              if c_user_id ex \<noteq> u_id u then no_access d
              else failed_op (update_collection e (f\<lparr>c_user_id := u_id u\<rparr>) d))"

definition my_collection_delete :: "env \<Rightarrow> bool \<Rightarrow> user_row \<Rightarrow> nat option \<Rightarrow> db \<Rightarrow> (err + unit) \<times> db" where
  "my_collection_delete e has_table u form d =
     (case form of
        None \<Rightarrow> bad_params d
      | Some i \<Rightarrow>
          if i = 0 then invalid_form d
          else case collection_info_by_id e (Outside 341) i d of
            None \<Rightarrow> not_found d
          | Some ex \<Rightarrow>
              if c_user_id ex \<noteq> u_id u then no_access d else failed_op (delete_collection e has_table ex d))"

section \<open>Rules\<close>

text \<open>The validator's tags of the rule struct, and the test of the type that follows it.\<close>

definition rule_form_valid :: "rule_row \<Rightarrow> bool" where
  "rule_form_valid r \<longleftrightarrow> r_collection_id r \<noteq> 0 \<and> 1 \<le> r_rule r \<and> r_rule r \<le> 3 \<and> 1 \<le> r_type r \<and> r_type r \<le> 2 \<and> 0 < r_to_id r"

definition rule_type_known :: "rule_row \<Rightarrow> bool" where
  "rule_type_known r \<longleftrightarrow> r_type r = ShareAddressBookRuleTypePersonal \<or> r_type r = ShareAddressBookRuleTypeGroup"

text \<open>The two versions of CheckForm differ in their first test; the key of its answer is the error.\<close>

definition check_rule_form :: "env \<Rightarrow> rule_row \<Rightarrow> db \<Rightarrow> err option" where
  "check_rule_form e t d =
     (if r_collection_id t > 0 \<and> \<not> check_collection_owner e (r_user_id t) (r_collection_id t) d then Some params_error
      else
        let target =
          (if r_type t = ShareAddressBookRuleTypePersonal then
             (if r_to_id t = r_user_id t then Some (ErrCoded ''CannotShareToSelf'')
              else if found u_id (info_by_id e (Outside 342) (r_to_id t) d) = None then Some (ErrCoded ''ItemNotFound'') else None)
           else if r_type t = ShareAddressBookRuleTypeGroup then
             (if group_info_by_id e (Outside 343) (r_to_id t) d = None then Some (ErrCoded ''ItemNotFound'') else None)
           else Some params_error)
        in case target of
          Some er \<Rightarrow> Some er
        | None \<Rightarrow>
            (case rule_info_by_to_id_and_cid e (Outside 344) (r_type t) (r_to_id t) (r_collection_id t) d of
               None \<Rightarrow> None
             | Some ex \<Rightarrow>
                 if r_id t = 0 then Some (ErrCoded ''ItemExists'')
                 else if r_id t \<noteq> r_id ex then Some (ErrCoded ''ItemExists'') else None))"

definition admin_check_form :: "env \<Rightarrow> rule_row \<Rightarrow> db \<Rightarrow> err option" where
  "admin_check_form e t d = (if r_user_id t = 0 then Some params_error else check_rule_form e t d)"

definition my_check_form :: "env \<Rightarrow> user_row \<Rightarrow> rule_row \<Rightarrow> db \<Rightarrow> err option" where
  "my_check_form e u t d = (if r_user_id t \<noteq> u_id u then Some (ErrCoded ''NoAccess'') else check_rule_form e t d)"

definition cannot_share :: "env \<Rightarrow> user_row \<Rightarrow> rule_row \<Rightarrow> db \<Rightarrow> bool" where
  "cannot_share e u t d \<longleftrightarrow>
     (r_type t = ShareAddressBookRuleTypePersonal \<and> \<not> can_share_with_user e (Some u) (r_to_id t) d) \<or>
     (r_type t = ShareAddressBookRuleTypeGroup \<and> \<not> can_share_with_group e (Some u) (r_to_id t) d)"

definition checked_rule :: "err option \<Rightarrow> db \<Rightarrow> (err + unit) \<times> db \<Rightarrow> (err + unit) \<times> db" where
  "checked_rule verdict d op = (case verdict of Some er \<Rightarrow> (Inl er, d) | None \<Rightarrow> failed_op op)"

definition admin_rule_create :: "env \<Rightarrow> user_row \<Rightarrow> string \<Rightarrow> rule_row option \<Rightarrow> db \<Rightarrow> (err + unit) \<times> db" where
  "admin_rule_create e u rid form d =
     (case form of
        None \<Rightarrow> bad_params d
      | Some f \<Rightarrow>
          if \<not> rule_form_valid f then invalid_form d
          else if \<not> rule_type_known f then bad_params d
          else if \<not> is_super_admin (Some u) then
            (if \<not> can_manage_collection e (Some u) (r_collection_id f) d
             then deny_scoped_access e u rid ''address_book_collection'' (r_collection_id f) d
             else let t = f\<lparr>r_user_id := (case collection_info_by_id e (Outside 345) (r_collection_id f) d of
                                None \<Rightarrow> 0 | Some c \<Rightarrow> c_user_id c)\<rparr>
               in if cannot_share e u t d then deny_scoped_access e u rid ''address_book_share_target'' (r_to_id t) d
                  else checked_rule (admin_check_form e t d) d (create_rule e t d))
          else checked_rule (admin_check_form e f d) d (create_rule e f d))"

definition admin_rule_update :: "env \<Rightarrow> user_row \<Rightarrow> string \<Rightarrow> rule_row option \<Rightarrow> db \<Rightarrow> (err + unit) \<times> db" where
  "admin_rule_update e u rid form d =
     (case form of
        None \<Rightarrow> bad_params d
      | Some f \<Rightarrow>
          if \<not> rule_form_valid f then invalid_form d
          else if r_id f = 0 then bad_params d
          else case rule_info_by_id e (Outside 346) (r_id f) d of
            None \<Rightarrow> not_found d
          | Some current \<Rightarrow>
              if \<not> can_manage_rule e (Some u) (Some current) d
              then deny_scoped_access e u rid ''address_book_collection_rule'' (r_id current) d
              else if \<not> is_super_admin (Some u) then
                (let t = f\<lparr>r_collection_id := r_collection_id current, r_user_id := r_user_id current\<rparr>
                 in if cannot_share e u t d then deny_scoped_access e u rid ''address_book_share_target'' (r_to_id t) d
                    else checked_rule (admin_check_form e t d) d (update_rule e t d))
              else checked_rule (admin_check_form e f d) d (update_rule e f d))"

definition admin_rule_delete :: "env \<Rightarrow> user_row \<Rightarrow> string \<Rightarrow> nat option \<Rightarrow> db \<Rightarrow> (err + unit) \<times> db" where
  "admin_rule_delete e u rid form d =
     (case form of
        None \<Rightarrow> bad_params d
      | Some i \<Rightarrow>
          if i = 0 then invalid_form d
          else case rule_info_by_id e (Outside 346) i d of
            None \<Rightarrow> not_found d
          | Some ex \<Rightarrow>
              if \<not> can_manage_rule e (Some u) (Some ex) d
              then deny_scoped_access e u rid ''address_book_collection_rule'' (r_id ex) d
              else failed_op (delete_rule e ex d))"

definition admin_rule_list :: "env \<Rightarrow> user_row \<Rightarrow> int \<Rightarrow> int \<Rightarrow> 64 word \<Rightarrow> 64 word \<Rightarrow> db \<Rightarrow> nat \<times> rule_row list" where
  "admin_rule_list e u owner cid page page_size d =
     list_page e (Outside 337) (Outside 338) id
       (\<lambda>r. apply_rule_scope (Some u) d r \<and> (owner > 0 \<longrightarrow> int (r_user_id r) = owner) \<and>
            (cid > 0 \<longrightarrow> int (r_collection_id r) = cid)) page page_size (rules d)"

definition my_rule_list :: "env \<Rightarrow> user_row \<Rightarrow> int \<Rightarrow> 64 word \<Rightarrow> 64 word \<Rightarrow> db \<Rightarrow> nat \<times> rule_row list" where
  "my_rule_list e u cid page page_size d =
     list_page e (Outside 337) (Outside 338) id
       (\<lambda>r. r_user_id r = u_id u \<and> (cid > 0 \<longrightarrow> int (r_collection_id r) = cid)) page page_size (rules d)"

definition my_rule_create :: "env \<Rightarrow> user_row \<Rightarrow> rule_row option \<Rightarrow> db \<Rightarrow> (err + unit) \<times> db" where
  "my_rule_create e u form d =
     (case form of
        None \<Rightarrow> bad_params d
      | Some f \<Rightarrow>
          if \<not> rule_form_valid f then invalid_form d
          else if \<not> rule_type_known f then bad_params d
          else let t = f\<lparr>r_user_id := u_id u\<rparr> in checked_rule (my_check_form e u t d) d (create_rule e t d))"

definition my_rule_update :: "env \<Rightarrow> user_row \<Rightarrow> rule_row option \<Rightarrow> db \<Rightarrow> (err + unit) \<times> db" where
  "my_rule_update e u form d =
     (case form of
        None \<Rightarrow> bad_params d
      | Some f \<Rightarrow>
          if \<not> rule_form_valid f then invalid_form d
          else if r_id f = 0 then bad_params d
          else case rule_info_by_id e (Outside 346) (r_id f) d of
            None \<Rightarrow> not_found d
          | Some ex \<Rightarrow>
              if r_user_id ex \<noteq> u_id u then no_access d
              else checked_rule (my_check_form e u f d) d (update_rule e f d))"

definition my_rule_delete :: "env \<Rightarrow> user_row \<Rightarrow> nat option \<Rightarrow> db \<Rightarrow> (err + unit) \<times> db" where
  "my_rule_delete e u form d =
     (case form of
        None \<Rightarrow> bad_params d
      | Some i \<Rightarrow>
          if i = 0 then invalid_form d
          else case rule_info_by_id e (Outside 346) i d of
            None \<Rightarrow> not_found d
          | Some ex \<Rightarrow> if r_user_id ex \<noteq> u_id u then no_access d else failed_op (delete_rule e ex d))"

section \<open>Tags\<close>

definition tag_form_valid :: "tag_row \<Rightarrow> bool" where
  "tag_form_valid t \<longleftrightarrow> tg_name t \<noteq> [] \<and> tg_color t \<noteq> 0"

definition may_manage_tag :: "env \<Rightarrow> user_row \<Rightarrow> tag_row \<Rightarrow> db \<Rightarrow> bool" where
  "may_manage_tag e u t d \<longleftrightarrow> is_super_admin (Some u) \<or> can_manage_collection e (Some u) (tg_collection_id t) d"

definition admin_tag_create :: "env \<Rightarrow> user_row \<Rightarrow> string \<Rightarrow> tag_row option \<Rightarrow> db \<Rightarrow> (err + unit) \<times> db" where
  "admin_tag_create e u rid form d =
     (case form of
        None \<Rightarrow> bad_params d
      | Some f \<Rightarrow>
          if \<not> tag_form_valid f then invalid_form d
          else if \<not> is_super_admin (Some u) \<and> \<not> can_manage_collection e (Some u) (tg_collection_id f) d
          then deny_scoped_access e u rid ''address_book_collection'' (tg_collection_id f) d
          else let t = (if \<not> is_super_admin (Some u)
                        then f\<lparr>tg_user_id := (case collection_info_by_id e (Outside 347) (tg_collection_id f) d of
                               None \<Rightarrow> 0 | Some c \<Rightarrow> c_user_id c)\<rparr> else f)
            in if tg_user_id t = 0 then bad_params d else failed_op (create_tag e (Stmt 335) t d))"

definition admin_tag_update :: "env \<Rightarrow> user_row \<Rightarrow> string \<Rightarrow> tag_row option \<Rightarrow> db \<Rightarrow> (err + unit) \<times> db" where
  "admin_tag_update e u rid form d =
     (case form of
        None \<Rightarrow> bad_params d
      | Some f \<Rightarrow>
          if \<not> tag_form_valid f then invalid_form d
          else if tg_id f = 0 then bad_params d
          else case tag_info_by_id e (Outside 348) (tg_id f) d of
            None \<Rightarrow> not_found d
          | Some ex \<Rightarrow>
              if \<not> may_manage_tag e u ex d then deny_scoped_access e u rid ''tag'' (tg_id ex) d
              else failed_op (update_tag e (Stmt 336)
                (if \<not> is_super_admin (Some u)
                 then f\<lparr>tg_user_id := tg_user_id ex, tg_collection_id := tg_collection_id ex\<rparr> else f) d))"

text \<open>The deletion quotes the error of its statement without a key.\<close>

definition admin_tag_delete :: "env \<Rightarrow> user_row \<Rightarrow> string \<Rightarrow> nat option \<Rightarrow> db \<Rightarrow> (err + unit) \<times> db" where
  "admin_tag_delete e u rid form d =
     (case form of
        None \<Rightarrow> bad_params d
      | Some i \<Rightarrow>
          if i = 0 then invalid_form d
          else case tag_info_by_id e (Outside 348) i d of
            None \<Rightarrow> not_found d
          | Some ex \<Rightarrow>
              if \<not> may_manage_tag e u ex d then deny_scoped_access e u rid ''tag'' (tg_id ex) d
              else delete_tag e (Stmt 337) ex d)"

definition admin_tag_list :: "env \<Rightarrow> user_row \<Rightarrow> int \<Rightarrow> int option \<Rightarrow> 64 word \<Rightarrow> 64 word \<Rightarrow> db \<Rightarrow> nat \<times> tag_row list" where
  "admin_tag_list e u owner cid page page_size d =
     list_page e (Outside 337) (Outside 338) id
       (\<lambda>t. apply_tag_scope (Some u) d t \<and> (owner > 0 \<longrightarrow> int (tg_user_id t) = owner) \<and>
            (case cid of None \<Rightarrow> True | Some c \<Rightarrow> c \<ge> 0 \<longrightarrow> int (tg_collection_id t) = c)) page page_size (tags d)"

definition my_tag_list :: "env \<Rightarrow> user_row \<Rightarrow> int option \<Rightarrow> 64 word \<Rightarrow> 64 word \<Rightarrow> db \<Rightarrow> nat \<times> tag_row list" where
  "my_tag_list e u cid page page_size d =
     list_page e (Outside 337) (Outside 338) id
       (\<lambda>t. tg_user_id t = u_id u \<and>
            (case cid of None \<Rightarrow> True | Some c \<Rightarrow> c \<ge> 0 \<longrightarrow> int (tg_collection_id t) = c)) page page_size (tags d)"

definition my_tag_create :: "env \<Rightarrow> user_row \<Rightarrow> tag_row option \<Rightarrow> db \<Rightarrow> (err + unit) \<times> db" where
  "my_tag_create e u form d =
     (case form of
        None \<Rightarrow> bad_params d
      | Some f \<Rightarrow>
          if \<not> tag_form_valid f then invalid_form d
          else let t = f\<lparr>tg_user_id := u_id u\<rparr> in
            if tg_collection_id t > 0 \<and> \<not> check_collection_owner e (u_id u) (tg_collection_id t) d then no_access d
            else failed_op (create_tag e (Stmt 335) t d))"

definition my_tag_update :: "env \<Rightarrow> user_row \<Rightarrow> tag_row option \<Rightarrow> db \<Rightarrow> (err + unit) \<times> db" where
  "my_tag_update e u form d =
     (case form of
        None \<Rightarrow> bad_params d
      | Some f \<Rightarrow>
          if \<not> tag_form_valid f then invalid_form d
          else if tg_id f = 0 then bad_params d
          else case tag_info_by_id e (Outside 348) (tg_id f) d of
            None \<Rightarrow> not_found d
          | Some ex \<Rightarrow>
              if tg_user_id ex \<noteq> u_id u then no_access d
              else let t = f\<lparr>tg_user_id := u_id u\<rparr> in
                if tg_collection_id t > 0 \<and> \<not> check_collection_owner e (u_id u) (tg_collection_id t) d then no_access d
                else failed_op (update_tag e (Stmt 336) t d))"

definition my_tag_delete :: "env \<Rightarrow> user_row \<Rightarrow> nat option \<Rightarrow> db \<Rightarrow> (err + unit) \<times> db" where
  "my_tag_delete e u form d =
     (case form of
        None \<Rightarrow> bad_params d
      | Some i \<Rightarrow>
          if i = 0 then invalid_form d
          else case tag_info_by_id e (Outside 348) i d of
            None \<Rightarrow> not_found d
          | Some ex \<Rightarrow> if tg_user_id ex \<noteq> u_id u then no_access d else delete_tag e (Stmt 337) ex d)"

section \<open>User groups\<close>

definition admin_group_create :: "env \<Rightarrow> user_row \<Rightarrow> group_row option \<Rightarrow> db \<Rightarrow> (err + unit) \<times> db" where
  "admin_group_create e u form d =
     super_admin_privilege u d
     (case form of
        None \<Rightarrow> bad_params d
      | Some f \<Rightarrow> if g_name f = [] then invalid_form d else failed_op (create_group e f d))"

definition admin_group_update :: "env \<Rightarrow> user_row \<Rightarrow> string \<Rightarrow> group_row option \<Rightarrow> db \<Rightarrow> (err + unit) \<times> db" where
  "admin_group_update e u rid form d =
     (case form of
        None \<Rightarrow> bad_params d
      | Some f \<Rightarrow>
          if g_id f = 0 then bad_params d
          else if g_name f = [] then invalid_form d
          else case group_info_by_id e (Outside 349) (g_id f) d of
            None \<Rightarrow> not_found d
          | Some current \<Rightarrow>
              if \<not> can_manage_group e (Some u) (g_id current) d then deny_scoped_access e u rid ''group'' (g_id current) d
              else failed_op (update_group e (if \<not> is_super_admin (Some u) then f\<lparr>g_type := g_type current\<rparr> else f) d))"

definition admin_group_delete :: "env \<Rightarrow> bool \<Rightarrow> user_row \<Rightarrow> nat option \<Rightarrow> db \<Rightarrow> (err + unit) \<times> db" where
  "admin_group_delete e has_table u form d =
     super_admin_privilege u d
     (case form of
        None \<Rightarrow> bad_params d
      | Some i \<Rightarrow>
          if i = 0 then invalid_form d
          else case group_info_by_id e (Outside 349) i d of
            None \<Rightarrow> not_found d
          | Some g \<Rightarrow> failed_op (delete_group e has_table g d))"

definition admin_group_list :: "env \<Rightarrow> user_row \<Rightarrow> 64 word \<Rightarrow> 64 word \<Rightarrow> db \<Rightarrow> nat \<times> group_row list" where
  "admin_group_list e u page page_size d =
     list_page e (Outside 337) (Outside 338) id (apply_group_scope (Some u) d) page page_size (groups d)"

section \<open>Routes\<close>

datatype book_request =
    TagAdd "tag_color_form option" | TagRename "tag_rename_form option" | TagUpdate "tag_color_form option"
  | TagDel "string list option" | PeerAdd "personal_form option" | PeerDel "string list option"
  | PeerUpdate "personal_update option"

fun book_call :: "env \<Rightarrow> user_row \<Rightarrow> string \<Rightarrow> book_request \<Rightarrow> db \<Rightarrow> (err + unit) \<times> db" where
  "book_call e u guid (TagAdd f) d = tag_add e u guid f d"
| "book_call e u guid (TagRename f) d = tag_rename e u guid f d"
| "book_call e u guid (TagUpdate f) d = tag_update e u guid f d"
| "book_call e u guid (TagDel f) d = tag_del e u guid f d"
| "book_call e u guid (PeerAdd f) d = peer_add e u guid f d"
| "book_call e u guid (PeerDel f) d = peer_del e u guid f d"
| "book_call e u guid (PeerUpdate f) d = peer_update e u guid f d"

datatype my_request =
    MyBookCreate "admin_book_form option" | MyBookUpdate "admin_book_form option" | MyBookDelete "admin_book_form option"
  | MyBookFromPeers "from_peers_form option" | MyBookTags "batch_tags_form option"
  | MyTagCreate "tag_row option" | MyTagUpdate "tag_row option" | MyTagDelete "nat option"
  | MyCollectionCreate "collection_row option" | MyCollectionUpdate "collection_row option" | MyCollectionDelete "nat option"
  | MyRuleCreate "rule_row option" | MyRuleUpdate "rule_row option" | MyRuleDelete "nat option"

fun my_call :: "env \<Rightarrow> bool \<Rightarrow> user_row \<Rightarrow> my_request \<Rightarrow> db \<Rightarrow> (err + unit) \<times> db" where
  "my_call e ht u (MyBookCreate f) d = my_book_create e u f d"
| "my_call e ht u (MyBookUpdate f) d = my_book_update e u f d"
| "my_call e ht u (MyBookDelete f) d = my_book_delete e u f d"
| "my_call e ht u (MyBookFromPeers f) d = my_book_batch_create_from_peers e u f d"
| "my_call e ht u (MyBookTags f) d = my_book_batch_update_tags e u f d"
| "my_call e ht u (MyTagCreate f) d = my_tag_create e u f d"
| "my_call e ht u (MyTagUpdate f) d = my_tag_update e u f d"
| "my_call e ht u (MyTagDelete f) d = my_tag_delete e u f d"
| "my_call e ht u (MyCollectionCreate f) d = my_collection_create e u f d"
| "my_call e ht u (MyCollectionUpdate f) d = my_collection_update e u f d"
| "my_call e ht u (MyCollectionDelete f) d = my_collection_delete e ht u f d"
| "my_call e ht u (MyRuleCreate f) d = my_rule_create e u f d"
| "my_call e ht u (MyRuleUpdate f) d = my_rule_update e u f d"
| "my_call e ht u (MyRuleDelete f) d = my_rule_delete e u f d"

datatype admin_request =
    AdminBookCreate "admin_book_form option" | AdminBookUpdate "admin_book_form option" | AdminBookDelete "admin_book_form option"
  | AdminBookBatch "admin_book_form option" | AdminBookFromPeers "from_peers_form option"
  | AdminTagCreate "tag_row option" | AdminTagUpdate "tag_row option" | AdminTagDelete "nat option"
  | AdminCollectionCreate "collection_row option" | AdminCollectionUpdate "collection_row option" | AdminCollectionDelete "nat option"
  | AdminRuleCreate "rule_row option" | AdminRuleUpdate "rule_row option" | AdminRuleDelete "nat option"
  | AdminGroupCreate "group_row option" | AdminGroupUpdate "group_row option" | AdminGroupDelete "nat option"

fun admin_call :: "env \<Rightarrow> bool \<Rightarrow> user_row \<Rightarrow> string \<Rightarrow> admin_request \<Rightarrow> db \<Rightarrow> (err + unit) \<times> db" where
  "admin_call e ht u rid (AdminBookCreate f) d = admin_privilege u d (admin_book_create e u rid f d)"
| "admin_call e ht u rid (AdminBookUpdate f) d = admin_privilege u d (admin_book_update e u rid f d)"
| "admin_call e ht u rid (AdminBookDelete f) d = admin_privilege u d (admin_book_delete e u rid f d)"
| "admin_call e ht u rid (AdminBookBatch f) d = admin_privilege u d (admin_book_batch_create e u rid f d)"
| "admin_call e ht u rid (AdminBookFromPeers f) d = admin_privilege u d (admin_book_batch_create_from_peers e u rid f d)"
| "admin_call e ht u rid (AdminTagCreate f) d = admin_privilege u d (admin_tag_create e u rid f d)"
| "admin_call e ht u rid (AdminTagUpdate f) d = admin_privilege u d (admin_tag_update e u rid f d)"
| "admin_call e ht u rid (AdminTagDelete f) d = admin_privilege u d (admin_tag_delete e u rid f d)"
| "admin_call e ht u rid (AdminCollectionCreate f) d = admin_collection_create e u f d"
| "admin_call e ht u rid (AdminCollectionUpdate f) d = admin_privilege u d (admin_collection_update e u rid f d)"
| "admin_call e ht u rid (AdminCollectionDelete f) d = admin_collection_delete e ht u f d"
| "admin_call e ht u rid (AdminRuleCreate f) d = admin_privilege u d (admin_rule_create e u rid f d)"
| "admin_call e ht u rid (AdminRuleUpdate f) d = admin_privilege u d (admin_rule_update e u rid f d)"
| "admin_call e ht u rid (AdminRuleDelete f) d = admin_privilege u d (admin_rule_delete e u rid f d)"
| "admin_call e ht u rid (AdminGroupCreate f) d = admin_group_create e u f d"
| "admin_call e ht u rid (AdminGroupUpdate f) d = admin_privilege u d (admin_group_update e u rid f d)"
| "admin_call e ht u rid (AdminGroupDelete f) d = admin_group_delete e ht u f d"

end
