(* ===== verification/BookProps.thy ===== *)
theory BookProps
  imports BookAdmin
begin

text \<open>
  What the address-book endpoints can reach: \<open>within\<close> confines a change of the database to the rows a frame
  names, the operations of the service are confined to their own row, and the handlers of the clients, of a user
  and of a scoped administrator to what the caller may touch.
\<close>

section \<open>Frames\<close>

text \<open>Rows are named by their user and their collection; a collection by its owner and its key.\<close>

record frame =
  fr_rows :: "nat \<Rightarrow> nat \<Rightarrow> bool"
  fr_rules :: "nat \<Rightarrow> nat \<Rightarrow> bool"
  fr_collections :: "nat \<Rightarrow> nat \<Rightarrow> bool"
  fr_scopes :: "scope_row \<Rightarrow> bool"
  fr_groups :: "nat \<Rightarrow> bool"
  fr_events :: bool

definition within :: "frame \<Rightarrow> db \<Rightarrow> db \<Rightarrow> bool" where
  "within fr d d' \<longleftrightarrow>
     d' = d\<lparr>abooks := abooks d', tags := tags d', rules := rules d', collections := collections d', scopes := scopes d',
            groups := groups d', events := events d'\<rparr> \<and>
     filter (\<lambda>b. \<not> fr_rows fr (ab_user_id b) (ab_collection_id b)) (abooks d') =
       filter (\<lambda>b. \<not> fr_rows fr (ab_user_id b) (ab_collection_id b)) (abooks d) \<and>
     filter (\<lambda>t. \<not> fr_rows fr (tg_user_id t) (tg_collection_id t)) (tags d') =
       filter (\<lambda>t. \<not> fr_rows fr (tg_user_id t) (tg_collection_id t)) (tags d) \<and>
     filter (\<lambda>r. \<not> fr_rules fr (r_user_id r) (r_collection_id r)) (rules d') =
       filter (\<lambda>r. \<not> fr_rules fr (r_user_id r) (r_collection_id r)) (rules d) \<and>
     filter (\<lambda>c. \<not> fr_collections fr (c_user_id c) (c_id c)) (collections d') =
       filter (\<lambda>c. \<not> fr_collections fr (c_user_id c) (c_id c)) (collections d) \<and>
     filter (\<lambda>s. \<not> fr_scopes fr s) (scopes d') = filter (\<lambda>s. \<not> fr_scopes fr s) (scopes d) \<and>
     filter (\<lambda>g. \<not> fr_groups fr (g_id g)) (groups d') = filter (\<lambda>g. \<not> fr_groups fr (g_id g)) (groups d) \<and>
     (\<not> fr_events fr \<longrightarrow> events d' = events d)"

lemma within_refl [simp, intro]: "within fr d d"
  by (simp add: within_def)

lemma within_trans:
  assumes "within fr d d'" and "within fr d' d''"
  shows "within fr d d''"
proof -
  have e: "d' = d\<lparr>abooks := abooks d', tags := tags d', rules := rules d', collections := collections d', scopes := scopes d',
            groups := groups d', events := events d'\<rparr>"
    "d'' = d'\<lparr>abooks := abooks d'', tags := tags d'', rules := rules d'', collections := collections d'', scopes := scopes d'',
            groups := groups d'', events := events d''\<rparr>"
    using assms by (simp_all add: within_def)
  have "d'' = d\<lparr>abooks := abooks d'', tags := tags d'', rules := rules d'', collections := collections d'', scopes := scopes d'',
            groups := groups d'', events := events d''\<rparr>"
    by (subst e(2), subst e(1)) simp
  with assms show ?thesis by (simp add: within_def)
qed

lemma filter_insort_out: "\<not> P x \<Longrightarrow> filter P (insort_key k x t) = filter P t"
  by (induction t) auto

lemma filter_update_out:
  "(\<And>r. r \<in> set t \<Longrightarrow> Q r \<Longrightarrow> \<not> P r \<and> \<not> P (f r)) \<Longrightarrow> filter P (update_where Q f t) = filter P t"
  by (induction t) auto

lemma filter_delete_out: "(\<And>r. r \<in> set t \<Longrightarrow> Q r \<Longrightarrow> \<not> P r) \<Longrightarrow> filter P (delete_where Q t) = filter P t"
  by (induction t) auto

text \<open>The same for the one row of a key.\<close>

lemma filter_update_key:
  assumes "distinct (map k t)" "x \<in> set t" "k x = i" "\<not> P x" "\<not> P (f x)"
  shows "filter P (update_where (\<lambda>r. k r = i) f t) = filter P t"
proof (rule filter_update_out)
  fix r assume "r \<in> set t" "k r = i"
  then have "r = x" using assms(1-3) key_unique by metis
  then show "\<not> P r \<and> \<not> P (f r)" using assms(4,5) by simp
qed

lemma filter_delete_key:
  assumes "distinct (map k t)" "x \<in> set t" "k x = i" "\<not> P x"
  shows "filter P (delete_where (\<lambda>r. k r = i) t) = filter P t"
proof (rule filter_delete_out)
  fix r assume "r \<in> set t" "k r = i"
  then have "r = x" using assms(1-3) key_unique by metis
  then show "\<not> P r" using assms(4) by simp
qed

lemma next_id_clash: "next_id k t = k x \<Longrightarrow> x \<in> set t \<Longrightarrow> False"
  using next_id_notin [of k t] by auto

lemma set_insort [simp]: "set (insort_key k x t) = insert x (set t)"
  by (rule set_insort_key)

section \<open>Keys\<close>

definition book_keys :: "db \<Rightarrow> bool" where
  "book_keys d \<longleftrightarrow> distinct (map ab_row_id (abooks d)) \<and> distinct (map tg_id (tags d)) \<and>
     distinct (map r_id (rules d)) \<and> distinct (map c_id (collections d)) \<and> distinct (map g_id (groups d))"

lemma distinct_insort_map: "distinct (map k t) \<Longrightarrow> k x \<notin> k ` set t \<Longrightarrow> distinct (map k (insort_key k x t))"
  by (induction t) auto

lemma distinct_update_map: "distinct (map k t) \<Longrightarrow> (\<And>r. Q r \<Longrightarrow> k (f r) = k r) \<Longrightarrow> distinct (map k (update_where Q f t))"
proof -
  assume d: "distinct (map k t)" and "\<And>r. Q r \<Longrightarrow> k (f r) = k r"
  then have "map k (update_where Q f t) = map k t" by (simp add: update_where_def)
  with d show ?thesis by simp
qed

lemmas distinct_table = distinct_insort_map distinct_update_map distinct_map_delete_where

section \<open>Operations stay in their frame\<close>

definition confined :: "frame \<Rightarrow> db \<Rightarrow> db \<Rightarrow> bool" where
  "confined fr d d' \<longleftrightarrow> (book_keys d \<longrightarrow> within fr d d' \<and> book_keys d')"

lemma confined_refl [simp, intro]: "confined fr d d"
  by (simp add: confined_def)

lemma confined_trans: "confined fr d d' \<Longrightarrow> confined fr d' d'' \<Longrightarrow> confined fr d d''"
  unfolding confined_def using within_trans by blast

lemma confined_books:
  assumes "book_keys d \<Longrightarrow> filter (\<lambda>b. \<not> fr_rows fr (ab_user_id b) (ab_collection_id b)) t =
      filter (\<lambda>b. \<not> fr_rows fr (ab_user_id b) (ab_collection_id b)) (abooks d)"
    and "book_keys d \<Longrightarrow> distinct (map ab_row_id t)"
  shows "confined fr d (d\<lparr>abooks := t\<rparr>)"
  using assms by (simp add: confined_def within_def book_keys_def)

lemma confined_tags:
  assumes "book_keys d \<Longrightarrow> filter (\<lambda>b. \<not> fr_rows fr (tg_user_id b) (tg_collection_id b)) t =
      filter (\<lambda>b. \<not> fr_rows fr (tg_user_id b) (tg_collection_id b)) (tags d)"
    and "book_keys d \<Longrightarrow> distinct (map tg_id t)"
  shows "confined fr d (d\<lparr>tags := t\<rparr>)"
  using assms by (simp add: confined_def within_def book_keys_def)

lemma confined_rules:
  assumes "book_keys d \<Longrightarrow> filter (\<lambda>b. \<not> fr_rules fr (r_user_id b) (r_collection_id b)) t =
      filter (\<lambda>b. \<not> fr_rules fr (r_user_id b) (r_collection_id b)) (rules d)"
    and "book_keys d \<Longrightarrow> distinct (map r_id t)"
  shows "confined fr d (d\<lparr>rules := t\<rparr>)"
  using assms by (simp add: confined_def within_def book_keys_def)

lemma confined_collections:
  assumes "book_keys d \<Longrightarrow> filter (\<lambda>b. \<not> fr_collections fr (c_user_id b) (c_id b)) t =
      filter (\<lambda>b. \<not> fr_collections fr (c_user_id b) (c_id b)) (collections d)"
    and "book_keys d \<Longrightarrow> distinct (map c_id t)"
  shows "confined fr d (d\<lparr>collections := t\<rparr>)"
  using assms by (simp add: confined_def within_def book_keys_def)

lemma insert_abook_confined:
  "insert_abook b d = Inr d' \<Longrightarrow> fr_rows fr (ab_user_id b) (ab_collection_id b) \<Longrightarrow> confined fr d d'"
  by (auto simp: insert_abook_def Let_def book_keys_def split: if_splits
      intro!: confined_books filter_insort_out distinct_insort_map elim: next_id_clash)

lemma create_abook_confined:
  "fr_rows fr (ab_user_id b) (ab_collection_id b) \<Longrightarrow> confined fr d (snd (create_abook e p b d))"
  by (auto simp: create_abook_def split: sum.split intro: insert_abook_confined)

lemma delete_abook_confined:
  assumes "b \<in> set (abooks d)" "fr_rows fr (ab_user_id b) (ab_collection_id b)"
  shows "confined fr d (snd (delete_abook e p b d))"
  using assms by (auto simp: delete_abook_def book_keys_def
      intro!: confined_books filter_delete_key distinct_map_delete_where)

lemma update_all_abook_confined:
  assumes "x \<in> set (abooks d)" "ab_row_id x = ab_row_id b" "fr_rows fr (ab_user_id x) (ab_collection_id x)"
    "fr_rows fr (ab_user_id b) (ab_collection_id b)"
  shows "confined fr d (snd (update_all_abook e p b d))"
  using assms by (auto simp: update_all_abook_def book_keys_def Let_def
      intro!: confined_books filter_update_key distinct_update_map)

lemma update_abook_by_map_confined:
  assumes "b \<in> set (abooks d)" "fr_rows fr (ab_user_id b) (ab_collection_id b)"
  shows "confined fr d (snd (update_abook_by_map e p b m d))"
  using assms by (auto simp: update_abook_by_map_def book_keys_def apply_updates_def
      intro!: confined_books filter_update_key distinct_update_map)

lemma batch_update_tags_confined:
  assumes "\<And>b. b \<in> set bs \<Longrightarrow> b \<in> set (abooks d) \<and> fr_rows fr (ab_user_id b) (ab_collection_id b)"
  shows "confined fr d (snd (batch_update_tags e p bs names d))"
proof -
  have "filter (\<lambda>b. \<not> fr_rows fr (ab_user_id b) (ab_collection_id b))
      (update_where (\<lambda>x. ab_row_id x \<in> set (map ab_row_id bs)) (\<lambda>x. x\<lparr>ab_tags := v\<rparr>) (abooks d)) =
    filter (\<lambda>b. \<not> fr_rows fr (ab_user_id b) (ab_collection_id b)) (abooks d)" if "book_keys d" for v
  proof (rule filter_update_out)
    fix r assume "r \<in> set (abooks d)" "ab_row_id r \<in> set (map ab_row_id bs)"
    then obtain b where b: "b \<in> set bs" "ab_row_id r = ab_row_id b" by auto
    have "r = b"
      by (rule key_unique [of ab_row_id "abooks d"]) (use that \<open>r \<in> set (abooks d)\<close> assms [OF b(1)] b(2) in \<open>simp_all add: book_keys_def\<close>)
    then have "r \<in> set bs" using b(1) by simp
    then show "\<not> \<not> fr_rows fr (ab_user_id r) (ab_collection_id r) \<and>
        \<not> \<not> fr_rows fr (ab_user_id (r\<lparr>ab_tags := v\<rparr>)) (ab_collection_id (r\<lparr>ab_tags := v\<rparr>))" using assms by simp
  qed
  then show ?thesis unfolding batch_update_tags_def Let_def
    by (auto simp: book_keys_def simp del: set_map intro!: confined_books distinct_update_map)
qed

lemma create_tag_confined:
  "fr_rows fr (tg_user_id t) (tg_collection_id t) \<Longrightarrow> confined fr d (snd (create_tag e p t d))"
  by (auto simp: create_tag_def insert_tag_def Let_def book_keys_def
      intro!: confined_tags filter_insort_out distinct_insort_map elim: next_id_clash)

lemma delete_tag_confined:
  assumes "t \<in> set (tags d)" "fr_rows fr (tg_user_id t) (tg_collection_id t)"
  shows "confined fr d (snd (delete_tag e p t d))"
  using assms by (auto simp: delete_tag_def book_keys_def
      intro!: confined_tags filter_delete_key distinct_map_delete_where)

lemma update_tag_confined:
  assumes "x \<in> set (tags d)" "tg_id x = tg_id t" "fr_rows fr (tg_user_id x) (tg_collection_id x)"
    "fr_rows fr (tg_user_id t) (tg_collection_id t)"
  shows "confined fr d (snd (update_tag e p t d))"
  using assms by (auto simp: update_tag_def book_keys_def
      intro!: confined_tags filter_update_key distinct_update_map)

lemma create_rule_confined:
  "fr_rules fr (r_user_id r) (r_collection_id r) \<Longrightarrow> confined fr d (snd (create_rule e r d))"
  by (auto simp: create_rule_def Let_def book_keys_def
      intro!: confined_rules filter_insort_out distinct_insort_map elim: next_id_clash)

lemma update_rule_confined:
  assumes "x \<in> set (rules d)" "r_id x = r_id r" "fr_rules fr (r_user_id x) (r_collection_id x)"
    "fr_rules fr (r_user_id (patch_rule r x)) (r_collection_id (patch_rule r x))"
  shows "confined fr d (snd (update_rule e r d))"
  using assms by (auto simp: update_rule_def book_keys_def simp: patch_rule_def
      intro!: confined_rules filter_update_key distinct_update_map)

lemma delete_rule_confined:
  assumes "r \<in> set (rules d)" "fr_rules fr (r_user_id r) (r_collection_id r)"
  shows "confined fr d (snd (delete_rule e r d))"
  using assms by (auto simp: delete_rule_def book_keys_def
      intro!: confined_rules filter_delete_key distinct_map_delete_where)

lemma create_collection_confined:
  "(\<And>i. fr_collections fr (c_user_id c) i) \<Longrightarrow> confined fr d (snd (create_collection e c d))"
  by (auto simp: create_collection_def Let_def book_keys_def
      intro!: confined_collections filter_insort_out distinct_insort_map elim: next_id_clash)

lemma update_collection_confined:
  assumes "x \<in> set (collections d)" "c_id x = c_id c" "fr_collections fr (c_user_id x) (c_id x)"
    "fr_collections fr (patch 0 (c_user_id c) (c_user_id x)) (c_id x)"
  shows "confined fr d (snd (update_collection e c d))"
  using assms by (auto simp: update_collection_def book_keys_def
      intro!: confined_collections filter_update_key distinct_update_map)

lemma update_group_confined:
  assumes "fr_groups fr (g_id g)"
  shows "confined fr d (snd (update_group e g d))"
  using assms by (auto simp: update_group_def book_keys_def confined_def within_def
      intro!: filter_update_out distinct_update_map)

lemma delete_collection_confined:
  assumes "c \<in> set (collections d)" "fr_collections fr (c_user_id c) (c_id c)"
    and "\<And>v. fr_rows fr v (c_id c)" "\<And>v. fr_rules fr v (c_id c)"
    and "\<And>s. sc_type s = ScopeCollection \<Longrightarrow> sc_target s = c_id c \<Longrightarrow> fr_scopes fr s"
  shows "confined fr d (snd (delete_collection e has_table c d))"
proof (cases rule: transaction_cases [of "flt e" "delete_collection_body e has_table (c_id c)" d])
  case (ok x d')
  have c: "filter (\<lambda>x. \<not> fr_collections fr (c_user_id x) (c_id x)) (delete_where (\<lambda>x. c_id x = c_id c) (collections d)) =
      filter (\<lambda>x. \<not> fr_collections fr (c_user_id x) (c_id x)) (collections d)" if "book_keys d"
    using that assms(1,2) by (intro filter_delete_key) (auto simp: book_keys_def)
  from ok(2) have "d' = d\<lparr>rules := delete_where (\<lambda>r. r_collection_id r = c_id c) (rules d),
      abooks := delete_where (\<lambda>b. ab_collection_id b = c_id c) (abooks d),
      tags := delete_where (\<lambda>t. tg_collection_id t = c_id c) (tags d),
      scopes := (if has_table then delete_where (\<lambda>r. sc_type r = ScopeCollection \<and> sc_target r = c_id c) (scopes d) else scopes d),
      collections := delete_where (\<lambda>x. c_id x = c_id c) (collections d)\<rparr>"
    by (auto simp: delete_collection_body_def outcome_simps remove_resource_scopes_def Let_def split: if_splits)
  with c assms have "confined fr d d'"
    by (auto simp: confined_def within_def book_keys_def distinct_map_delete_where intro!: filter_delete_out)
  with ok(1) show ?thesis by (simp add: delete_collection_def)
qed (simp add: delete_collection_def)

lemma failed_op_state [simp]: "snd (failed_op out) = snd out"
  by (auto simp: failed_op_def split: prod.split sum.split)

lemma denied_confined: "fr_events fr \<Longrightarrow> confined fr d (snd (deny_scoped_access e u rid ty i d))"
  by (auto simp: deny_scoped_access_def record_denied_def begin_security_audit_def finish_security_audit_def stmt_def
      Let_def confined_def within_def book_keys_def split: sum.splits if_splits)

end
