(* ===== verification/BookAccess.thy ===== *)
theory BookAccess
  imports BookProps
begin

text \<open>
  Who changes which rows: the endpoints of one book, of a user's own books, and of a scoped administrator.
\<close>

section \<open>The endpoints of one book\<close>

lemma found_first:
  "found k (first_where e p P t) = Some x \<Longrightarrow> x \<in> set t \<and> P x"
  by (auto simp: found_def first_where_def split: option.splits if_splits dest: find_SomeD)

lemma row_found:
  "info_by_user_id_and_id_and_cid e p uid i cid d = Some b \<Longrightarrow>
     b \<in> set (abooks d) \<and> ab_user_id b = uid \<and> ab_id b = normalize_rustdesk_id i \<and> ab_collection_id b = cid"
  "info_by_row_id e p j d = Some b \<Longrightarrow> b \<in> set (abooks d) \<and> ab_row_id b = j"
  "collection_info_by_id e p j d = Some c \<Longrightarrow> c \<in> set (collections d) \<and> c_id c = j"
  "rule_info_by_id e p j d = Some r \<Longrightarrow> r \<in> set (rules d) \<and> r_id r = j"
  "rule_info_by_to_id_and_cid e p ty to cid d = Some r \<Longrightarrow>
     r \<in> set (rules d) \<and> r_type r = ty \<and> r_to_id r = to \<and> r_collection_id r = cid"
  "tag_info_by_id e p j d = Some t \<Longrightarrow> t \<in> set (tags d) \<and> tg_id t = j"
  "tag_info_by_name e p uid n cid d = Some t \<Longrightarrow>
     t \<in> set (tags d) \<and> tg_user_id t = uid \<and> tg_name t = n \<and> tg_collection_id t = cid"
  "group_info_by_id e p j d = Some g \<Longrightarrow> g \<in> set (groups d) \<and> g_id g = j"
  by (auto simp: info_by_user_id_and_id_and_cid_def info_by_row_id_def collection_info_by_id_def rule_info_by_id_def
      rule_info_by_to_id_and_cid_def tag_info_by_id_def tag_info_by_name_def group_info_by_id_def dest: found_first)

definition grants :: "user_row \<Rightarrow> nat \<Rightarrow> rule_row \<Rightarrow> bool" where
  "grants u cid r \<longleftrightarrow> r_collection_id r = cid \<and>
     (r_type r = ShareAddressBookRuleTypePersonal \<and> r_to_id r = u_id u \<or>
      r_type r = ShareAddressBookRuleTypeGroup \<and> r_to_id r = u_group_id u)"

lemma max_rule_granted:
  assumes "n \<le> user_max_rule e u uid cid d" "0 < n" "u_id u \<noteq> uid"
  shows "\<exists>r \<in> set (rules d). grants u cid r \<and> n \<le> r_rule r"
  using assms by (auto simp: user_max_rule_def grants_def Let_def split: if_splits option.splits dest!: found_first)

text \<open>Whose book a caller may use, and for what.\<close>

definition may_use :: "user_row \<Rightarrow> int \<Rightarrow> nat \<Rightarrow> nat \<Rightarrow> db \<Rightarrow> bool" where
  "may_use u n uid cid d \<longleftrightarrow>
     (if cid = 0 then u_id u = uid
      else (\<exists>c \<in> set (collections d). c_id c = cid \<and> c_user_id c = uid) \<and>
           (u_id u = uid \<or> (\<exists>r \<in> set (rules d). grants u cid r \<and> n \<le> r_rule r)))"

lemma check_guid_Inr:
  assumes "check_guid e u guid d = Inr (g, uid, cid)"
  shows "parse_guid guid = (g, uid, cid)" "0 < g" "0 < uid"
    "if cid = 0 then u_id u = uid else \<exists>c \<in> set (collections d). c_id c = cid \<and> c_user_id c = uid"
  using assms by (auto simp: check_guid_def Let_def split: prod.splits if_splits option.splits dest: row_found(3))

definition book_frame :: "nat \<Rightarrow> nat \<Rightarrow> frame" where
  "book_frame uid cid = \<lparr>fr_rows = (\<lambda>u c. u = uid \<and> c = cid), fr_rules = (\<lambda>_ _. False), fr_collections = (\<lambda>_ _. False),
     fr_scopes = (\<lambda>_. False), fr_groups = (\<lambda>_. False), fr_events = False\<rparr>"

lemma book_frame_rows [simp]: "fr_rows (book_frame uid cid) u c \<longleftrightarrow> u = uid \<and> c = cid"
  by (simp add: book_frame_def)

definition book_effect :: "user_row \<Rightarrow> int \<Rightarrow> string \<Rightarrow> db \<Rightarrow> db \<Rightarrow> bool" where
  "book_effect u n guid d d' \<longleftrightarrow> d' = d \<or>
     (\<exists>g uid cid. parse_guid guid = (g, uid, cid) \<and> may_use u n uid cid d \<and> confined (book_frame uid cid) d d')"

lemma book_effect_refl [simp, intro]: "book_effect u n guid d d"
  by (simp add: book_effect_def)

lemma with_book_effect:
  assumes "0 < n" and "\<And>uid cid. al uid cid \<Longrightarrow> n \<le> user_max_rule e u uid cid d"
    and "\<And>uid cid. confined (book_frame uid cid) d (snd (op uid cid))"
  shows "book_effect u n guid d (snd (with_book e u guid al d op))"
proof (cases "check_guid e u guid d")
  case (Inr p)
  obtain g uid cid where p: "p = (g, uid, cid)" by (cases p)
  note c = check_guid_Inr [OF Inr [unfolded p]]
  show ?thesis
  proof (cases "al uid cid")
    case True
    have "may_use u n uid cid d"
      using c(4) max_rule_granted [OF assms(2) [OF True] assms(1)] unfolding may_use_def by (cases "u_id u = uid") auto
    then show ?thesis using Inr p True c(1) assms(3) by (auto simp: with_book_def book_effect_def)
  qed (simp add: with_book_def Inr p)
qed (simp add: with_book_def)

lemma failed_op_confined: "confined fr d (snd out) \<Longrightarrow> confined fr d (snd (failed_op out))"
  by simp

lemma tag_del_loop_confined: "confined (book_frame uid cid) d (snd (tag_del_loop e uid cid i names d))"
proof (induction names arbitrary: i d)
  case (Cons n names)
  show ?case
  proof (cases "tag_info_by_name e (Outside (1000 + i)) uid n cid d")
    case (Some t)
    let ?o = "failed_op (delete_tag e (Stmt (1000 + i)) t d)"
    have "confined (book_frame uid cid) d (snd ?o)"
      using row_found(7) [OF Some] by (auto intro: delete_tag_confined)
    then show ?thesis using Cons.IH Some by (cases ?o; cases "fst ?o") (auto intro: confined_trans)
  qed simp
qed simp

lemma peer_del_loop_confined: "confined (book_frame uid cid) d (snd (peer_del_loop e uid cid i names d))"
proof (induction names arbitrary: i d)
  case (Cons n names)
  show ?case
  proof (cases "info_by_user_id_and_id_and_cid e (Outside (1000 + i)) uid n cid d")
    case (Some b)
    let ?o = "failed_op (delete_abook e (Stmt (1000 + i)) b d)"
    have "confined (book_frame uid cid) d (snd ?o)"
      using row_found(1) [OF Some] by (auto intro: delete_abook_confined)
    then show ?thesis using Cons.IH Some by (cases ?o; cases "fst ?o") (auto intro: confined_trans)
  qed simp
qed simp

lemma fill_from_peer_book [simp]:
  "ab_user_id (fill_from_peer op b) = ab_user_id b" "ab_collection_id (fill_from_peer op b) = ab_collection_id b"
  by (simp_all add: fill_from_peer_def split: option.split)

lemma retag_confined:
  assumes "t \<in> set (tags d)" "fr_rows fr (tg_user_id t) (tg_collection_id t)"
  shows "confined fr d (snd (update_tag e p (t\<lparr>tg_name := n\<rparr>) d))" "confined fr d (snd (update_tag e p (t\<lparr>tg_color := c\<rparr>) d))"
  using assms by (auto intro!: update_tag_confined [of t])

definition needed_rule :: "book_request \<Rightarrow> int" where
  "needed_rule r = (case r of TagDel _ \<Rightarrow> ShareAddressBookRuleRuleFullControl | PeerDel _ \<Rightarrow> ShareAddressBookRuleRuleFullControl
     | _ \<Rightarrow> ShareAddressBookRuleRuleReadWrite)"

lemmas book_handler_defs = tag_add_def tag_rename_def tag_update_def tag_del_def peer_add_def peer_del_def peer_update_def
  needed_rule_def ShareAddressBookRuleRuleReadWrite_def ShareAddressBookRuleRuleFullControl_def
  check_user_write_privilege_def check_user_full_control_privilege_def

lemma book_call_effect: "book_effect u (needed_rule r) guid d (snd (book_call e u guid r d))"
proof (cases r)
  case (TagAdd f)
  then show ?thesis
    by (auto simp: book_handler_defs split: option.split
        intro!: with_book_effect failed_op_confined create_tag_confined)
next
  case (TagRename f)
  then show ?thesis
    by (auto simp: book_handler_defs split: option.split dest!: row_found(7)
        intro!: with_book_effect retag_confined)
next
  case (TagUpdate f)
  then show ?thesis
    by (auto simp: book_handler_defs split: option.split dest!: row_found(7)
        intro!: with_book_effect retag_confined)
next
  case (TagDel f)
  then show ?thesis
    by (auto simp: book_handler_defs split: option.split intro!: with_book_effect tag_del_loop_confined)
next
  case (PeerAdd f)
  then show ?thesis
    by (auto simp: book_handler_defs Let_def split: option.split
        intro!: with_book_effect failed_op_confined create_abook_confined)
next
  case (PeerDel f)
  then show ?thesis
    by (auto simp: book_handler_defs split: option.split intro!: with_book_effect peer_del_loop_confined)
next
  case (PeerUpdate f)
  then show ?thesis
    by (auto simp: book_handler_defs split: option.split dest!: row_found(1)
        intro!: with_book_effect update_abook_by_map_confined)
qed

section \<open>A user's own books\<close>

definition owned :: "nat \<Rightarrow> db \<Rightarrow> nat \<Rightarrow> bool" where
  "owned uid d cid \<longleftrightarrow> (\<exists>c \<in> set (collections d). c_user_id c = uid \<and> c_id c = cid)"

definition own_frame :: "nat \<Rightarrow> db \<Rightarrow> frame" where
  "own_frame uid d = \<lparr>fr_rows = (\<lambda>v c. v = uid \<or> owned uid d c), fr_rules = (\<lambda>v c. v = uid \<or> owned uid d c),
     fr_collections = (\<lambda>v _. v = uid), fr_scopes = (\<lambda>s. sc_type s = ScopeCollection \<and> owned uid d (sc_target s)),
     fr_groups = (\<lambda>_. False), fr_events = False\<rparr>"

lemma own_frame_simps [simp]:
  "fr_rows (own_frame uid d) v c \<longleftrightarrow> v = uid \<or> owned uid d c"
  "fr_rules (own_frame uid d) v c \<longleftrightarrow> v = uid \<or> owned uid d c"
  "fr_collections (own_frame uid d) v c \<longleftrightarrow> v = uid"
  "fr_scopes (own_frame uid d) s \<longleftrightarrow> sc_type s = ScopeCollection \<and> owned uid d (sc_target s)"
  by (simp_all add: own_frame_def)

lemma reply_states [simp]:
  "snd (not_found d) = d" "snd (invalid_form d) = d" "snd (bad_params d) = d" "snd (no_access d) = d"
  by (simp_all add: not_found_def invalid_form_def bad_params_def no_access_def)

lemma checked_rule_state: "snd (checked_rule v d op) = (if v = None then snd op else d)"
  by (simp add: checked_rule_def split: option.split)

lemma create_missing_confined:
  "(\<And>t. t \<in> set ts \<Longrightarrow> fr_rows fr (ab_user_id t) (ab_collection_id t)) \<Longrightarrow> confined fr d (create_missing e i ts d)"
proof (induction ts arbitrary: i d)
  case (Cons t ts)
  let ?d = "if info_by_user_id_and_id_and_cid e (Outside (1000 + i)) (ab_user_id t) (ab_id t) (ab_collection_id t) d = None
        then snd (create_abook e (Stmt (1000 + i)) t d) else d"
  have "confined fr d ?d" using Cons.prems by (auto intro: create_abook_confined)
  moreover have "confined fr ?d (create_missing e (Suc i) ts ?d)" using Cons by simp
  ultimately show ?case by (auto intro: confined_trans)
qed simp

lemma page_rows_subset: "set (page_rows page n rows) \<subseteq> set rows"
  by (auto simp: page_rows_def Let_def split: option.split prod.split dest: in_set_takeD in_set_dropD)

lemma list_page_rows:
  "x \<in> set (snd (list_page e pc pf id P page n t)) \<Longrightarrow> x \<in> set t \<and> P x"
  using page_rows_subset [of page n "filter P t"] by (auto simp: list_page_def split: if_splits)

lemma listed_peers_rows:
  assumes "listed_peers e mine ids d = Some ps" "p \<in> set ps"
  shows "p \<in> set (peers d)" "mine p"
proof -
  have "ps = snd (list_page e (Outside 334) (Outside 335) id (\<lambda>p. p_row_id p \<in> set ids \<and> mine p) 1
      (word_of_nat (length ids)) (peers d))"
    using assms(1) by (auto simp: listed_peers_def Let_def split: prod.splits if_splits)
  from assms(2) [unfolded this] have "p \<in> set (peers d) \<and> p_row_id p \<in> set ids \<and> mine p" by (rule list_page_rows)
  then show "p \<in> set (peers d)" "mine p" by simp_all
qed

lemma own_peers_rows: "listed_peers e (\<lambda>p. p_user_id p = v) ids d = Some ps \<Longrightarrow> p \<in> set ps \<Longrightarrow> p_user_id p = v"
  by (rule listed_peers_rows(2))

lemma from_peer_user [simp]: "ab_user_id (from_peer p) = p_user_id p"
  by (simp add: from_peer_def)

lemma my_rule_patch: "r_user_id t = v \<Longrightarrow> r_user_id x = v \<Longrightarrow> r_user_id (patch_rule t x) = v"
  by (simp add: patch_rule_def patch_def)

lemma my_tags_confined: "confined (own_frame (u_id u) d) d (snd (my_book_batch_update_tags e u form d))"
proof -
  obtain total bs where l: "list_page e (Outside 339) (Outside 340) id
      (\<lambda>b. ab_row_id b \<in> set (bt_row_ids (the form)) \<and> ab_user_id b = u_id u) 1 999 (abooks d) = (total, bs)" by fastforce
  have "b \<in> set (abooks d) \<and> ab_user_id b = u_id u" if "b \<in> set bs" for b
  proof -
    have "b \<in> set (snd (list_page e (Outside 339) (Outside 340) id
        (\<lambda>b. ab_row_id b \<in> set (bt_row_ids (the form)) \<and> ab_user_id b = u_id u) 1 999 (abooks d)))"
      unfolding l using that by simp
    from list_page_rows [OF this] show ?thesis by simp
  qed
  then show ?thesis using l
    by (auto simp: my_book_batch_update_tags_def Let_def split: option.splits intro!: batch_update_tags_confined)
qed

lemma my_peers_confined: "confined (own_frame (u_id u) d) d (snd (my_book_batch_create_from_peers e u form d))"
  by (auto simp: my_book_batch_create_from_peers_def Let_def split: option.split
      intro!: create_missing_confined) (drule own_peers_rows, assumption, simp)+

lemma my_call_confined: "confined (own_frame (u_id u) d) d (snd (my_call e ht u r d))"
proof (cases r)
  case (MyBookCreate f)
  then show ?thesis by (auto simp: my_book_create_def Let_def split: option.split intro!: create_abook_confined)
next
  case (MyBookUpdate f)
  then show ?thesis
    by (auto simp: my_book_update_def Let_def admin_to_abook_def split: option.split dest!: row_found(2)
        intro: update_all_abook_confined)
next
  case (MyBookDelete f)
  then show ?thesis
    by (auto simp: my_book_delete_def split: option.split dest!: row_found(2) intro!: delete_abook_confined)
next
  case (MyBookFromPeers f)
  then show ?thesis by (simp add: my_peers_confined)
next
  case (MyBookTags f)
  then show ?thesis by (simp add: my_tags_confined)
next
  case (MyTagCreate f)
  then show ?thesis by (auto simp: my_tag_create_def Let_def split: option.split intro!: create_tag_confined)
next
  case (MyTagUpdate f)
  then show ?thesis
    by (auto simp: my_tag_update_def Let_def split: option.split dest!: row_found(6) intro: update_tag_confined)
next
  case (MyTagDelete f)
  then show ?thesis
    by (auto simp: my_tag_delete_def split: option.split dest!: row_found(6) intro!: delete_tag_confined)
next
  case (MyCollectionCreate f)
  then show ?thesis by (auto simp: my_collection_create_def split: option.split intro!: create_collection_confined)
next
  case (MyCollectionUpdate f)
  then show ?thesis
    by (auto simp: my_collection_update_def patch_def split: option.split dest!: row_found(3) intro: update_collection_confined)
next
  case (MyCollectionDelete f)
  then show ?thesis
    by (auto simp: my_collection_delete_def owned_def split: option.split dest!: row_found(3) intro!: delete_collection_confined)
next
  case (MyRuleCreate f)
  then show ?thesis
    by (auto simp: my_rule_create_def Let_def checked_rule_state split: option.split intro!: create_rule_confined)
next
  case (MyRuleUpdate f)
  then show ?thesis
    by (auto simp: my_rule_update_def checked_rule_state my_check_form_def my_rule_patch split: option.split if_splits
        dest!: row_found(4) intro: update_rule_confined)
next
  case (MyRuleDelete f)
  then show ?thesis
    by (auto simp: my_rule_delete_def split: option.split dest!: row_found(4) intro!: delete_rule_confined)
qed

section \<open>Scoped administrators\<close>

definition scope_frame :: "nat \<Rightarrow> db \<Rightarrow> frame" where
  "scope_frame admin d = \<lparr>fr_rows = (\<lambda>_ c. c \<in> set (scope_ids admin ScopeCollection d)),
     fr_rules = (\<lambda>_ c. c \<in> set (scope_ids admin ScopeCollection d)),
     fr_collections = (\<lambda>_ c. c \<in> set (scope_ids admin ScopeCollection d)), fr_scopes = (\<lambda>_. False),
     fr_groups = (\<lambda>g. g \<in> set (scope_ids admin ScopeGroup d)), fr_events = True\<rparr>"

lemma scope_frame_simps [simp]:
  "fr_rows (scope_frame a d) v c \<longleftrightarrow> c \<in> set (scope_ids a ScopeCollection d)"
  "fr_rules (scope_frame a d) v c \<longleftrightarrow> c \<in> set (scope_ids a ScopeCollection d)"
  "fr_collections (scope_frame a d) v c \<longleftrightarrow> c \<in> set (scope_ids a ScopeCollection d)"
  "fr_groups (scope_frame a d) g \<longleftrightarrow> g \<in> set (scope_ids a ScopeGroup d)"
  "fr_events (scope_frame a d)"
  by (simp_all add: scope_frame_def)

lemma can_manage_scope_granted:
  assumes "\<not> is_super_admin (Some u)" "can_manage_scope e (Some u) ty i d"
  shows "i \<in> set (scope_ids (u_id u) ty d)"
proof -
  have "0 < count_where (\<lambda>r. sc_admin r = u_id u \<and> sc_type r = ty \<and> sc_target r = i) (scopes d)"
    using assms by (auto simp: can_manage_scope_def count_query_def split: if_splits)
  then show ?thesis by (force simp: count_where_pos scope_ids_def)
qed

lemma can_manage_granted:
  "can_manage_collection e (Some u) i d \<Longrightarrow> \<not> is_super_admin (Some u) \<Longrightarrow> i \<in> set (scope_ids (u_id u) ScopeCollection d)"
  "can_manage_group e (Some u) i d \<Longrightarrow> \<not> is_super_admin (Some u) \<Longrightarrow> i \<in> set (scope_ids (u_id u) ScopeGroup d)"
  by (auto simp: can_manage_collection_def can_manage_group_def intro: can_manage_scope_granted)

lemma scoped_collection_confined:
  assumes "\<not> is_super_admin (Some u)"
    and "\<And>owner. cid \<in> set (scope_ids (u_id u) ScopeCollection d) \<Longrightarrow> confined (scope_frame (u_id u) d) d (snd (op owner))"
  shows "confined (scope_frame (u_id u) d) d (snd (scoped_collection e u rid cid d op))"
  using assms by (auto simp: scoped_collection_def split: option.split intro: denied_confined can_manage_granted)

lemma admin_privilege_confined:
  "confined fr d (snd out) \<Longrightarrow> confined fr d (snd (admin_privilege u d out))"
  by (simp add: admin_privilege_def)

lemma super_privilege_scoped: "\<not> is_super_admin (Some u) \<Longrightarrow> snd (super_admin_privilege u d out) = d"
  by (simp add: super_admin_privilege_def)

lemma manage_row_granted:
  "can_manage_address_book e (Some u) (Some b) d \<Longrightarrow> \<not> is_super_admin (Some u) \<Longrightarrow>
     ab_collection_id b \<in> set (scope_ids (u_id u) ScopeCollection d)"
  "can_manage_rule e (Some u) (Some r) d \<Longrightarrow> \<not> is_super_admin (Some u) \<Longrightarrow>
     r_collection_id r \<in> set (scope_ids (u_id u) ScopeCollection d)"
  "may_manage_tag e u t d \<Longrightarrow> \<not> is_super_admin (Some u) \<Longrightarrow>
     tg_collection_id t \<in> set (scope_ids (u_id u) ScopeCollection d)"
  by (auto simp: can_manage_address_book_def can_manage_rule_def may_manage_tag_def intro: can_manage_granted)

lemma to_abooks_collection:
  "t \<in> set (with_owner (admin_to_abooks f)) \<Longrightarrow> ab_collection_id t = af_collection_id f"
  by (auto simp: with_owner_def admin_to_abooks_def admin_to_abook_def)

lemma admin_to_abook_ids [simp]:
  "ab_collection_id (admin_to_abook f) = af_collection_id f" "ab_row_id (admin_to_abook f) = af_row_id f"
  "ab_user_id (admin_to_abook f) = af_user_id f"
  by (simp_all add: admin_to_abook_def)

lemma patch_same [simp]: "patch z x x = x"
  by (simp add: patch_def)

lemma admin_call_confined:
  assumes "\<not> is_super_admin (Some u)"
  shows "confined (scope_frame (u_id u) d) d (snd (admin_call e ht u rid r d))"
proof (cases r)
  case (AdminBookCreate f)
  then show ?thesis using assms
    by (auto simp: admin_book_create_def Let_def split: option.split
        intro!: admin_privilege_confined scoped_collection_confined create_abook_confined)
next
  case (AdminBookUpdate f)
  show ?thesis
  proof (cases "f = None \<or> info_by_row_id e (Outside 333) (af_row_id (the f)) d = None")
    case True
    then show ?thesis using AdminBookUpdate
      by (auto simp: admin_book_update_def split: option.split intro!: admin_privilege_confined)
  next
    case False
    then obtain g x where f: "f = Some g" and x: "info_by_row_id e (Outside 333) (af_row_id g) d = Some x" by auto
    note row = row_found(2) [OF x]
    have "confined (scope_frame (u_id u) d) d (snd (update_all_abook e (Stmt 332)
        ((admin_to_abook g)\<lparr>ab_user_id := ab_user_id x, ab_collection_id := ab_collection_id x\<rparr>) d))"
      if "can_manage_address_book e (Some u) (Some x) d"
      using row manage_row_granted(1) [OF that assms] by (auto intro!: update_all_abook_confined [of x])
    then show ?thesis using assms x
      by (simp add: AdminBookUpdate f admin_book_update_def Let_def admin_privilege_def denied_confined)
  qed
next
  case (AdminBookDelete f)
  then show ?thesis using assms
    by (auto simp: admin_book_delete_def split: option.split dest!: row_found(2)
        intro!: admin_privilege_confined denied_confined delete_abook_confined) (erule manage_row_granted(1), assumption)+
next
  case (AdminBookBatch f)
  then show ?thesis using assms
    by (auto simp: admin_book_batch_create_def Let_def to_abooks_collection split: option.split
        intro!: admin_privilege_confined denied_confined scoped_collection_confined create_missing_confined)
next
  case (AdminBookFromPeers f)
  then show ?thesis using assms
    by (auto simp: admin_book_batch_create_from_peers_def Let_def split: option.split
        intro!: admin_privilege_confined denied_confined scoped_collection_confined create_missing_confined)
next
  case (AdminTagCreate f)
  then show ?thesis using assms
    by (auto simp: admin_tag_create_def Let_def split: option.split
        intro!: admin_privilege_confined denied_confined create_tag_confined) (erule can_manage_granted(1), assumption)+
next
  case (AdminTagUpdate f)
  then show ?thesis using assms
    by (auto simp: admin_tag_update_def split: option.split dest!: row_found(6)
        intro!: admin_privilege_confined denied_confined)
      (rule update_tag_confined, assumption, simp_all, (erule manage_row_granted(3), assumption)+)
next
  case (AdminTagDelete f)
  then show ?thesis using assms
    by (auto simp: admin_tag_delete_def split: option.split dest!: row_found(6)
        intro!: admin_privilege_confined denied_confined delete_tag_confined) (erule manage_row_granted(3), assumption)+
next
  case (AdminCollectionUpdate f)
  then show ?thesis using assms
    by (auto simp: admin_collection_update_def split: option.split dest!: row_found(3)
        intro!: admin_privilege_confined denied_confined)
      (rule update_collection_confined, assumption, simp_all, (erule can_manage_granted(1), assumption)+)
next
  case (AdminRuleCreate f)
  then show ?thesis using assms
    by (auto simp: admin_rule_create_def Let_def checked_rule_state split: option.split
        intro!: admin_privilege_confined denied_confined create_rule_confined) (erule can_manage_granted(1), assumption)+
next
  case (AdminRuleUpdate f)
  then show ?thesis using assms
    by (auto simp: admin_rule_update_def Let_def checked_rule_state patch_rule_def split: option.split dest!: row_found(4)
        intro!: admin_privilege_confined denied_confined)
      (rule update_rule_confined, assumption, simp_all add: patch_rule_def, (erule manage_row_granted(2), assumption)+)
next
  case (AdminRuleDelete f)
  then show ?thesis using assms
    by (auto simp: admin_rule_delete_def split: option.split dest!: row_found(4)
        intro!: admin_privilege_confined denied_confined delete_rule_confined) (erule manage_row_granted(2), assumption)+
next
  case (AdminGroupUpdate f)
  then show ?thesis using assms
    by (auto simp: admin_group_update_def split: option.split dest!: row_found(8)
        intro!: admin_privilege_confined denied_confined update_group_confined) (erule can_manage_granted(2), assumption)+
qed (use assms in \<open>simp_all add: super_privilege_scoped admin_collection_create_def admin_collection_delete_def
    admin_group_create_def admin_group_delete_def\<close>)

end
