(* ===== verification/BookSync.thy ===== *)
theory BookSync
  imports BookAccess "HOL-Library.Multiset"
begin

text \<open>
  What an upload of the personal book leaves behind: exactly the uploaded devices, each once, and exactly the
  uploaded tags with their colours, while no row of another book changes.  The rows are followed as multisets, of
  device ids and of pairs of a name and a colour.
\<close>

section \<open>Tables as multisets\<close>

lemma filter_update_map:
  "(\<And>r. r \<in> set t \<Longrightarrow> Q r \<Longrightarrow> P (f r) = P r \<and> g (f r) = g r) \<Longrightarrow>
     map g (filter P (update_where Q f t)) = map g (filter P t)"
  by (induction t) auto

lemma mset_delete_key:
  "distinct (map k t) \<Longrightarrow> y \<in> set t \<Longrightarrow> k y = i \<Longrightarrow> mset t = add_mset y (mset (delete_where (\<lambda>r. k r = i) t))"
proof (induction t)
  case (Cons x t)
  show ?case
  proof (cases "k x = i")
    case True
    then have "k ` set t \<inter> {i} = {}" using Cons.prems(1) by auto
    then have "delete_where (\<lambda>r. k r = i) t = t" by (auto simp: delete_where_def filter_id_conv)
    moreover have "y = x" using Cons.prems True by auto
    ultimately show ?thesis using True by simp
  qed (use Cons in auto)
qed simp

section \<open>The Go maps of an upload\<close>

definition range_order :: "(string list \<Rightarrow> string list) \<Rightarrow> bool" where
  "range_order rng \<longleftrightarrow> (\<forall>ks. distinct ks \<longrightarrow> distinct (rng ks) \<and> set (rng ks) = set ks)"

lemma by_id_snoc: "by_id (bs @ [b]) = AList.update (ab_id b) b (by_id bs)"
  by (simp add: by_id_def)

lemma by_id_facts:
  "distinct (map fst (by_id bs))" "fst ` set (by_id bs) = ab_id ` set bs"
  "map_of (by_id bs) k = Some b \<Longrightarrow> b \<in> set bs \<and> ab_id b = k"
proof (induction bs arbitrary: b rule: rev_induct)
  case (snoc x bs)
  case 1 then show ?case using snoc by (simp add: by_id_snoc distinct_update)
  case 2 show ?case using snoc by (auto simp: by_id_snoc dom_update [symmetric] dom_map_of_conv_image_fst [symmetric] update_conv')
  case 3 then show ?case using snoc by (auto simp: by_id_snoc update_conv' split: if_splits)
qed (simp_all add: by_id_def)

lemma by_id_dom: "map_of (by_id bs) k = None \<longleftrightarrow> k \<notin> ab_id ` set bs"
  by (simp add: map_of_eq_None_iff by_id_facts(2))

lemma by_id_keys: "distinct (map ab_id bs) \<Longrightarrow> mset (map fst (by_id bs)) = mset (map ab_id bs)"
  by (rule set_eq_iff_mset_eq_distinct [THEN iffD1]) (simp_all add: by_id_facts)

section \<open>The personal book\<close>

definition personal :: "nat \<Rightarrow> db \<Rightarrow> abook_row list" where
  "personal uid d = filter (\<lambda>b. ab_user_id b = uid \<and> ab_collection_id b = 0) (abooks d)"

definition personal_tags :: "nat \<Rightarrow> db \<Rightarrow> tag_row list" where
  "personal_tags uid d = filter (\<lambda>t. tg_user_id t = uid \<and> tg_collection_id t = 0) (tags d)"

definition device_ids :: "nat \<Rightarrow> db \<Rightarrow> string multiset" where
  "device_ids uid d = mset (map ab_id (personal uid d))"

definition colours :: "nat \<Rightarrow> db \<Rightarrow> (string \<times> nat) multiset" where
  "colours uid d = mset (map (\<lambda>t. (tg_name t, tg_color t)) (personal_tags uid d))"

text \<open>The row a stored entry was read from is still there.\<close>

definition alive :: "nat \<Rightarrow> (string \<times> abook_row) list \<Rightarrow> db \<Rightarrow> string \<Rightarrow> bool" where
  "alive uid stored d k \<longleftrightarrow>
     (case map_of stored k of None \<Rightarrow> True
      | Some x \<Rightarrow> \<exists>y \<in> set (abooks d). ab_row_id y = ab_row_id x \<and> ab_user_id y = uid \<and> ab_collection_id y = 0 \<and> ab_id y = k)"

lemma insert_abook_effect:
  assumes "insert_abook b d = Inr d'" "ab_id b \<noteq> []"
  shows "device_ids (ab_user_id b) d' = (if ab_collection_id b = 0 then add_mset (ab_id b) (device_ids (ab_user_id b) d)
      else device_ids (ab_user_id b) d)"
    and "set (abooks d) \<subseteq> set (abooks d')" "tags d' = tags d" "peers d' = peers d"
  using assms by (auto simp: insert_abook_def Let_def device_ids_def personal_def split: if_splits)

lemma enrich_keeps:
  assumes "enrich_verified_peer_metadata e p b d = Inr (en, b1)"
  shows "ab_id b1 = ab_id b" "ab_user_id b1 = ab_user_id b" "ab_collection_id b1 = ab_collection_id b"
  using assms by (auto simp: enrich_verified_peer_metadata_def outcome_simps split: option.splits)

lemma fill_keeps [simp]: "ab_id (fill_from_peer op b) = ab_id b"
  by (simp add: fill_from_peer_def split: option.split)

lemma patch_keeps:
  "ab_row_id (patch_abook b x) = ab_row_id x" "ab_user_id (patch_abook b x) = ab_user_id x"
  "ab_collection_id (patch_abook b x) = ab_collection_id x" "ab_id b = ab_id x \<Longrightarrow> ab_id (patch_abook b x) = ab_id x"
  by (simp_all add: patch_abook_def patch_def)

lemma sync_book_effect:
  assumes "sync_book e uid i b (map_of stored k) d = Inr d'" "ab_id b = k" "k \<noteq> []"
    and keys: "book_keys d" and alive: "\<And>j. alive uid stored d j"
  shows "within (book_frame uid 0) d d' \<and> book_keys d'" "alive uid stored d' j" "tags d' = tags d"
    "device_ids uid d' = device_ids uid d + (if map_of stored k = None then {#k#} else {#})"
proof -
  from assms(1) obtain en b1 where
    b1: "enrich_verified_peer_metadata e (Stmt (4 * i)) (b\<lparr>ab_user_id := uid, ab_collection_id := 0\<rparr>) d = Inr (en, b1)"
    by (auto simp: sync_book_def outcome_simps)
  have id: "ab_id b1 = k" "ab_user_id b1 = uid" "ab_collection_id b1 = 0" using enrich_keeps [OF b1] assms(2) by simp_all
  have "(within (book_frame uid 0) d d' \<and> book_keys d') \<and> alive uid stored d' j \<and> tags d' = tags d \<and>
      device_ids uid d' = device_ids uid d + (if map_of stored k = None then {#k#} else {#})"
  proof (cases "map_of stored k")
    case None
    with assms(1) b1 obtain b3 where ins: "insert_abook b3 d = Inr d'"
      and b3: "ab_id b3 = k" "ab_user_id b3 = uid" "ab_collection_id b3 = 0"
      using id by (auto simp: sync_book_def outcome_simps Let_def split: if_splits)
    have "confined (book_frame uid 0) d d'" using insert_abook_confined [OF ins] b3 by simp
    moreover have "alive uid stored d' j"
      using alive [of j] insert_abook_effect(2) [OF ins] b3 assms(3) by (auto simp: alive_def split: option.splits)
    ultimately show ?thesis using insert_abook_effect [OF ins] b3 assms(3) keys None by (simp add: confined_def)
  next
    case (Some x)
    have d': "d' = d\<lparr>abooks := update_where (\<lambda>r. ab_row_id r = ab_row_id x) (patch_abook b1) (abooks d)\<rparr>"
      using assms(1) b1 Some by (auto simp: sync_book_def outcome_simps)
    obtain y where y: "y \<in> set (abooks d)" "ab_row_id y = ab_row_id x" "ab_user_id y = uid" "ab_collection_id y = 0" "ab_id y = k"
      using alive [of k] Some by (auto simp: alive_def)
    have only: "r = y" if "r \<in> set (abooks d)" "ab_row_id r = ab_row_id x" for r
      using that y(1,2) keys key_unique [of ab_row_id "abooks d" r y] by (simp add: book_keys_def)
    have p: "ab_id (patch_abook b1 y) = k" using id(1) y(5) by (simp add: patch_keeps)
    have "confined (book_frame uid 0) d d'" unfolding d'
    proof (rule confined_books)
      show "filter (\<lambda>b. \<not> fr_rows (book_frame uid 0) (ab_user_id b) (ab_collection_id b))
          (update_where (\<lambda>r. ab_row_id r = ab_row_id x) (patch_abook b1) (abooks d)) =
        filter (\<lambda>b. \<not> fr_rows (book_frame uid 0) (ab_user_id b) (ab_collection_id b)) (abooks d)"
        by (rule filter_update_key [where x = y]) (use y keys in \<open>simp_all add: patch_keeps book_keys_def\<close>)
      show "distinct (map ab_row_id (update_where (\<lambda>r. ab_row_id r = ab_row_id x) (patch_abook b1) (abooks d)))"
        by (rule distinct_update_map) (use keys in \<open>simp_all add: patch_keeps book_keys_def\<close>)
    qed
    moreover have "alive uid stored d' j"
    proof (cases "map_of stored j")
      case (Some z)
      then obtain w where w: "w \<in> set (abooks d)" "ab_row_id w = ab_row_id z" "ab_user_id w = uid" "ab_collection_id w = 0" "ab_id w = j"
        using alive [of j] by (auto simp: alive_def)
      let ?w = "if ab_row_id w = ab_row_id x then patch_abook b1 w else w"
      have "?w \<in> set (abooks d')" using w(1) unfolding d' by (simp add: set_update_where)
      moreover have "ab_id ?w = j" using only [OF w(1)] p w(5) y(5) by auto
      ultimately show ?thesis using w Some by (auto simp: alive_def patch_keeps intro!: bexI [of _ ?w])
    qed (simp add: alive_def)
    moreover have rows: "abooks d' = update_where (\<lambda>r. ab_row_id r = ab_row_id x) (patch_abook b1) (abooks d)"
      by (simp add: d')
    have "device_ids uid d' = device_ids uid d" unfolding device_ids_def personal_def rows
    proof (rule arg_cong [where f = mset], rule filter_update_map)
      fix r assume "r \<in> set (abooks d)" "ab_row_id r = ab_row_id x"
      then have "r = y" by (rule only)
      then show "(ab_user_id (patch_abook b1 r) = uid \<and> ab_collection_id (patch_abook b1 r) = 0) =
          (ab_user_id r = uid \<and> ab_collection_id r = 0) \<and> ab_id (patch_abook b1 r) = ab_id r"
        using p y(5) by (simp add: patch_keeps)
    qed
    ultimately show ?thesis using keys Some by (simp add: confined_def d')
  qed
  then show "within (book_frame uid 0) d d' \<and> book_keys d'" "alive uid stored d' j" "tags d' = tags d"
    "device_ids uid d' = device_ids uid d + (if map_of stored k = None then {#k#} else {#})" by simp_all
qed

lemma sync_books_effect:
  assumes "sync_books e uid i up stored ks d = Inr d'"
    and up: "\<And>k b. map_of up k = Some b \<Longrightarrow> ab_id b = k \<and> k \<noteq> []" and "set ks \<subseteq> fst ` set up"
    and "book_keys d" "\<And>j. alive uid stored d j"
  shows "within (book_frame uid 0) d d' \<and> book_keys d' \<and> (\<forall>j. alive uid stored d' j) \<and> tags d' = tags d \<and>
    device_ids uid d' = device_ids uid d + mset (filter (\<lambda>k. map_of stored k = None) ks)"
  using assms(1,3-)
proof (induction ks arbitrary: i d)
  case (Cons k ks)
  from Cons.prems(2) obtain b where b: "map_of up k = Some b"
    by (cases "map_of up k") (auto simp: map_of_eq_None_iff)
  with Cons.prems(1) obtain d1 where d1: "sync_book e uid i b (map_of stored k) d = Inr d1"
    and rest: "sync_books e uid (Suc i) up stored ks d1 = Inr d'" by (auto simp: outcome_simps)
  have k: "ab_id b = k" "k \<noteq> []" using up [OF b] by simp_all
  note s = sync_book_effect [OF d1 k Cons.prems(3) Cons.prems(4)]
  have "set ks \<subseteq> fst ` set up" using Cons.prems(2) by simp
  from Cons.IH [OF rest this conjunct2 [OF s(1)] s(2)]
  show ?case using s(1,3,4) within_trans by (auto simp: add.assoc)
qed auto

lemma drop_books_effect:
  assumes "drop_books e i up stored ks d = Inr d'" "distinct ks" "book_keys d"
    and "\<And>k. k \<in> set ks \<Longrightarrow> alive uid stored d k \<and> map_of stored k \<noteq> None"
  shows "within (book_frame uid 0) d d' \<and> book_keys d' \<and> tags d' = tags d \<and>
    device_ids uid d = device_ids uid d' + mset (filter (\<lambda>k. map_of up k = None) ks)"
  using assms
proof (induction ks arbitrary: i d)
  case (Cons k ks)
  obtain x where x: "map_of stored k = Some x" using Cons.prems(4) [of k] by auto
  show ?case
  proof (cases "map_of up k")
    case (Some b)
    then show ?thesis using Cons x by auto
  next
    case None
    let ?d = "d\<lparr>abooks := delete_where (\<lambda>r. ab_row_id r = ab_row_id x) (abooks d)\<rparr>"
    from Cons.prems(1) None x have rest: "drop_books e (Suc i) up stored ks ?d = Inr d'" by (auto simp: outcome_simps)
    obtain y where y: "y \<in> set (abooks d)" "ab_row_id y = ab_row_id x" "ab_user_id y = uid" "ab_collection_id y = 0" "ab_id y = k"
      using Cons.prems(4) [of k] x by (auto simp: alive_def)
    have dk: "distinct (map ab_row_id (abooks d))" using Cons.prems(3) by (simp add: book_keys_def)
    have c: "confined (book_frame uid 0) d ?d"
      by (rule confined_books)
        (use y dk in \<open>auto intro!: filter_delete_key [where x = y] distinct_map_delete_where\<close>)
    have "alive uid stored ?d j \<and> map_of stored j \<noteq> None" if j: "j \<in> set ks" for j
    proof -
      obtain z where z: "map_of stored j = Some z" using Cons.prems(4) [of j] j by auto
      then obtain w where w: "w \<in> set (abooks d)" "ab_row_id w = ab_row_id z" "ab_user_id w = uid" "ab_collection_id w = 0" "ab_id w = j"
        using Cons.prems(4) [of j] j by (auto simp: alive_def)
      have "ab_row_id w \<noteq> ab_row_id x"
        using key_unique [OF dk w(1) y(1)] w(5) y(2,5) j Cons.prems(2) by auto
      then have "w \<in> set (abooks ?d)" using w(1) by (simp add: set_delete_where)
      then show ?thesis using w z by (auto simp: alive_def)
    qed
    from Cons.IH [OF rest _ _ this] Cons.prems(2,3) c
    have ih: "within (book_frame uid 0) ?d d' \<and> book_keys d' \<and> tags d' = tags ?d \<and>
        device_ids uid ?d = device_ids uid d' + mset (filter (\<lambda>k. map_of up k = None) ks)" by (simp add: confined_def)
    have "mset (abooks d) = add_mset y (mset (abooks ?d))" using mset_delete_key [OF dk y(1,2)] by simp
    then have "device_ids uid d = add_mset k (device_ids uid ?d)"
      using y(3-5) by (simp add: device_ids_def personal_def mset_filter)
    with ih c Cons.prems(3) None show ?thesis
      using within_trans [of "book_frame uid 0" d ?d d'] by (simp add: confined_def)
  qed
qed auto

lemma mset_filters:
  fixes us ss :: "'a list"
  assumes "distinct us" "distinct ss"
  shows "mset ss + mset (filter (\<lambda>k. k \<notin> set ss) us) = mset us + mset (filter (\<lambda>k. k \<notin> set us) ss)"
proof (rule multiset_eqI)
  fix k :: 'a
  have c: "count (mset xs) k = (if k \<in> set xs then 1 else 0)" if "distinct xs" for xs
    using that by (metis distinct_count_atmost_1)
  show "count (mset ss + mset (filter (\<lambda>k. k \<notin> set ss) us)) k = count (mset us + mset (filter (\<lambda>k. k \<notin> set us) ss)) k"
    using assms by (simp only: count_union c distinct_filter set_filter mem_Collect_eq) auto
qed

lemma update_address_book_effect:
  assumes "update_address_book_body rng e bs uid d = Inr (u, d')" and rng: "range_order rng" and "book_keys d"
    and dist: "distinct (map ab_id (personal uid d))"
    and ne: "\<And>b. b \<in> set bs \<Longrightarrow> normalize_rustdesk_id (ab_id b) \<noteq> []"
  shows "within (book_frame uid 0) d d' \<and> book_keys d' \<and> tags d' = tags d \<and>
    device_ids uid d' = mset_set ((\<lambda>b. normalize_rustdesk_id (ab_id b)) ` set bs)"
proof -
  define ns where "ns = map (\<lambda>b. b\<lparr>ab_id := normalize_rustdesk_id (ab_id b)\<rparr>) bs"
  define up where "up = by_id ns"
  define stored where "stored = by_id (personal uid d)"
  from assms(1) obtain d1 where d1: "sync_books e uid 0 up stored (rng (map fst up)) d = Inr d1"
    and d2: "drop_books e 0 up stored (rng (map fst stored)) d1 = Inr d'"
    by (auto simp: update_address_book_body_def outcome_simps Let_def up_def stored_def ns_def personal_def)
  have du: "distinct (map fst up)" "distinct (map fst stored)" by (simp_all add: up_def stored_def by_id_facts)
  have ru: "distinct (rng (map fst up))" "set (rng (map fst up)) = fst ` set up"
    and rs: "distinct (rng (map fst stored))" "set (rng (map fst stored)) = fst ` set stored"
    using rng du by (simp_all add: range_order_def)
  have live: "alive uid stored d j" for j
    by (auto simp: alive_def stored_def personal_def split: option.split dest!: by_id_facts(3))
  have up: "ab_id b = k \<and> k \<noteq> []" if "map_of up k = Some b" for k b
    using by_id_facts(3) [OF that [unfolded up_def]] ne by (auto simp: ns_def)
  have s: "within (book_frame uid 0) d d1 \<and> book_keys d1 \<and> (\<forall>j. alive uid stored d1 j) \<and> tags d1 = tags d \<and>
    device_ids uid d1 = device_ids uid d + mset (filter (\<lambda>k. map_of stored k = None) (rng (map fst up)))"
    by (rule sync_books_effect [OF d1]) (use up ru(2) assms(3) live in \<open>simp_all\<close>)
  have "alive uid stored d1 k \<and> map_of stored k \<noteq> None" if "k \<in> set (rng (map fst stored))" for k
    using that s by (simp add: rs(2) map_of_eq_None_iff)
  from drop_books_effect [OF d2 rs(1) _ this] s
  have dr: "within (book_frame uid 0) d1 d' \<and> book_keys d' \<and> tags d' = tags d1 \<and>
    device_ids uid d1 = device_ids uid d' + mset (filter (\<lambda>k. map_of up k = None) (rng (map fst stored)))" by blast
  have m: "device_ids uid d = mset (rng (map fst stored))"
    using by_id_keys [OF dist] du(2) rs set_eq_iff_mset_eq_distinct [of "map fst stored" "rng (map fst stored)"]
    by (simp add: device_ids_def stored_def)
  have "map_of stored k = None \<longleftrightarrow> k \<notin> set (rng (map fst stored))" "map_of up k = None \<longleftrightarrow> k \<notin> set (rng (map fst up))" for k
    by (simp_all add: rs ru map_of_eq_None_iff)
  then have "device_ids uid d' + mset (filter (\<lambda>k. map_of up k = None) (rng (map fst stored))) =
      mset (rng (map fst up)) + mset (filter (\<lambda>k. map_of up k = None) (rng (map fst stored)))"
    using mset_filters [OF ru(1) rs(1)] s dr m by simp
  then have "device_ids uid d' = mset (rng (map fst up))" by simp
  also have "\<dots> = mset_set (set (rng (map fst up)))" using ru(1) by (simp add: mset_set_set)
  also have "set (rng (map fst up)) = (\<lambda>b. normalize_rustdesk_id (ab_id b)) ` set bs"
    unfolding ru(2) unfolding up_def by_id_facts(2) ns_def by (auto simp: image_iff)
  finally show ?thesis using s dr within_trans by metis
qed

section \<open>The tags of the personal book\<close>

definition tag_pair :: "tag_row \<Rightarrow> string \<times> nat" where
  "tag_pair t = (tg_name t, tg_color t)"

definition own_tag :: "nat \<Rightarrow> tag_row \<Rightarrow> bool" where
  "own_tag uid t \<longleftrightarrow> tg_user_id t = uid \<and> tg_collection_id t = 0"

lemma tag_funs: "(\<lambda>t. (tg_name t, tg_color t)) = tag_pair" "(\<lambda>t. tg_user_id t = uid \<and> tg_collection_id t = 0) = own_tag uid"
  by (auto simp: fun_eq_iff tag_pair_def own_tag_def)

lemma colours_alt: "colours uid d = image_mset tag_pair (filter_mset (own_tag uid) (mset (tags d)))"
  unfolding colours_def personal_tags_def tag_funs by (simp add: mset_filter)

lemma colours_delete:
  assumes "book_keys d" "t \<in> set (tags d)" "own_tag uid t"
  shows "colours uid d = add_mset (tag_pair t) (colours uid (d\<lparr>tags := delete_where (\<lambda>x. tg_id x = tg_id t) (tags d)\<rparr>))"
    "confined (book_frame uid 0) d (d\<lparr>tags := delete_where (\<lambda>x. tg_id x = tg_id t) (tags d)\<rparr>)"
proof -
  have dk: "distinct (map tg_id (tags d))" using assms(1) by (simp add: book_keys_def)
  show "colours uid d = add_mset (tag_pair t) (colours uid (d\<lparr>tags := delete_where (\<lambda>x. tg_id x = tg_id t) (tags d)\<rparr>))"
    using mset_delete_key [OF dk assms(2) refl] assms(3) by (simp add: colours_alt)
  show "confined (book_frame uid 0) d (d\<lparr>tags := delete_where (\<lambda>x. tg_id x = tg_id t) (tags d)\<rparr>)"
    by (rule confined_tags)
      (use dk assms in \<open>auto simp: own_tag_def intro!: filter_delete_key [where x = t] distinct_map_delete_where\<close>)
qed

lemma update_as_delete:
  "distinct (map k t) \<Longrightarrow> y \<in> set t \<Longrightarrow> k y = i \<Longrightarrow>
     mset (update_where (\<lambda>r. k r = i) f t) = add_mset (f y) (mset (delete_where (\<lambda>r. k r = i) t))"
proof (induction t)
  case (Cons x t)
  show ?case
  proof (cases "k x = i")
    case True
    then have "k ` set t \<inter> {i} = {}" using Cons.prems(1) by auto
    then have "delete_where (\<lambda>r. k r = i) t = t" "update_where (\<lambda>r. k r = i) f t = t"
      by (auto simp: delete_where_def filter_id_conv intro: update_where_id)
    moreover have "y = x" using Cons.prems True by auto
    ultimately show ?thesis using True by simp
  qed (use Cons in auto)
qed simp

lemma colours_update:
  fixes c :: nat
  assumes "book_keys d" "t \<in> set (tags d)" "own_tag uid t"
  defines "d' \<equiv> d\<lparr>tags := update_where (\<lambda>x. tg_id x = tg_id t) (\<lambda>x. x\<lparr>tg_color := c\<rparr>) (tags d)\<rparr>"
  shows "add_mset (tag_pair t) (colours uid d') = add_mset (tg_name t, c) (colours uid d)" "confined (book_frame uid 0) d d'"
proof -
  have dk: "distinct (map tg_id (tags d))" using assms(1) by (simp add: book_keys_def)
  show "add_mset (tag_pair t) (colours uid d') = add_mset (tg_name t, c) (colours uid d)"
    using mset_delete_key [OF dk assms(2) refl] update_as_delete [OF dk assms(2) refl, of "\<lambda>x. x\<lparr>tg_color := c\<rparr>"] assms(3)
    by (simp add: colours_alt d'_def tag_pair_def own_tag_def)
  show "confined (book_frame uid 0) d d'" unfolding d'_def
    by (rule confined_tags)
      (use dk assms(2,3) in \<open>auto simp: own_tag_def intro!: filter_update_key [where x = t] distinct_update_map\<close>)
qed

lemma pending_rest:
  assumes "map_of pending n = Some c" "distinct (map fst pending)"
  shows "mset pending = add_mset (n, c) (mset (filter (\<lambda>nc. fst nc \<noteq> n) pending))"
  using assms
proof (induction pending)
  case (Cons p ps)
  show ?case
  proof (cases "fst p = n")
    case True
    then have "filter (\<lambda>nc. fst nc \<noteq> n) ps = ps" using Cons.prems(2) by (auto simp: filter_id_conv image_iff)
    then show ?thesis using True Cons.prems by (cases p) auto
  next
    case False
    then have "map_of ps n = Some c" "distinct (map fst ps)" using Cons.prems by (cases p; simp)+
    from Cons.IH [OF this] show ?thesis using False by simp
  qed
qed simp

lemma sync_tag_rows_effect:
  assumes "sync_tag_rows e i ts pending d = Inr (rest, d')" "book_keys d" "distinct (map fst pending)"
    and "distinct (map tg_id ts)" "\<And>t. t \<in> set ts \<Longrightarrow> t \<in> set (tags d) \<and> own_tag uid t"
  shows "within (book_frame uid 0) d d' \<and> book_keys d' \<and> abooks d' = abooks d \<and> distinct (map fst rest) \<and>
    colours uid d' + mset rest + mset (map tag_pair ts) = colours uid d + mset pending"
  using assms
proof (induction ts arbitrary: i pending d)
  case (Cons t ts)
  have t: "t \<in> set (tags d)" "own_tag uid t" using Cons.prems(5) by simp_all
  have other: "s \<in> set (tags d) \<and> tg_id s \<noteq> tg_id t \<and> own_tag uid s" if "s \<in> set ts" for s
    using that Cons.prems(4,5) by (auto simp: image_iff)
  have dts: "distinct (map tg_id ts)" using Cons.prems(4) by simp
  let ?left = "filter (\<lambda>nc. fst nc \<noteq> tg_name t) pending"
  have dl: "distinct (map fst ?left)" using Cons.prems(3) by (simp add: distinct_map_filter)
  let ?goal = "\<lambda>d1 pend. within (book_frame uid 0) d1 d' \<and> book_keys d' \<and> abooks d' = abooks d1 \<and> distinct (map fst rest) \<and>
    colours uid d' + mset rest + mset (map tag_pair ts) = colours uid d1 + mset pend"
  show ?case
  proof (cases "map_of pending (tg_name t)")
    case None
    let ?d = "d\<lparr>tags := delete_where (\<lambda>x. tg_id x = tg_id t) (tags d)\<rparr>"
    note del = colours_delete [OF Cons.prems(2) t]
    from Cons.prems(1) None have r: "sync_tag_rows e (Suc i) ts pending ?d = Inr (rest, d')" by (auto simp: outcome_simps)
    have "s \<in> set (tags ?d) \<and> own_tag uid s" if "s \<in> set ts" for s using other [OF that] by (simp add: set_delete_where)
    from Cons.IH [OF r _ Cons.prems(3) dts this] del(2) Cons.prems(2) have "?goal ?d pending" by (simp add: confined_def)
    then show ?thesis using del Cons.prems(2) within_trans [of "book_frame uid 0" d ?d d'] by (auto simp: confined_def)
  next
    case (Some c)
    define left where "left = mset ?left"
    have pm: "mset pending = add_mset (tg_name t, c) left" unfolding left_def by (rule pending_rest [OF Some Cons.prems(3)])
    show ?thesis
    proof (cases "c = tg_color t")
      case True
      with Cons.prems(1) Some have r: "sync_tag_rows e (Suc i) ts ?left d = Inr (rest, d')" by (auto simp: Let_def)
      have "s \<in> set (tags d) \<and> own_tag uid s" if "s \<in> set ts" for s using other [OF that] by simp
      from Cons.IH [OF r Cons.prems(2) dl dts this, folded left_def] show ?thesis
        unfolding pm using True by (auto simp: tag_pair_def)
    next
      case False
      let ?d = "d\<lparr>tags := update_where (\<lambda>x. tg_id x = tg_id t) (\<lambda>x. x\<lparr>tg_color := c\<rparr>) (tags d)\<rparr>"
      note up = colours_update [OF Cons.prems(2) t, of c]
      from Cons.prems(1) Some False have r: "sync_tag_rows e (Suc i) ts ?left ?d = Inr (rest, d')"
        by (auto simp: Let_def outcome_simps)
      have "s \<in> set (tags ?d) \<and> own_tag uid s" if "s \<in> set ts" for s
      proof -
        have "(if tg_id s = tg_id t then s\<lparr>tg_color := c\<rparr> else s) = s" using other [OF that] by simp
        then have "s \<in> (\<lambda>x. if tg_id x = tg_id t then x\<lparr>tg_color := c\<rparr> else x) ` set (tags d)"
          using other [OF that] by (intro image_eqI [of _ _ s]) simp_all
        then show ?thesis using other [OF that] by (simp add: set_update_where)
      qed
      from Cons.IH [OF r _ dl dts this] up(2) Cons.prems(2) have g: "?goal ?d ?left" by (simp add: confined_def)
      have "colours uid d' + mset rest + mset (map tag_pair (t # ts)) = add_mset (tag_pair t) (colours uid ?d) + left"
        using g [folded left_def] by simp
      also have "\<dots> = colours uid d + mset pending" unfolding pm using up(1) by simp
      finally show ?thesis using g up(2) Cons.prems(2) within_trans [of "book_frame uid 0" d ?d d'] by (simp add: confined_def)
    qed
  qed
qed auto

lemma create_pending_effect:
  assumes "create_pending_tags e uid i pending names d = Inr d'" "book_keys d" "set names \<subseteq> fst ` set pending"
  shows "within (book_frame uid 0) d d' \<and> book_keys d' \<and> abooks d' = abooks d \<and>
    colours uid d' = colours uid d + mset (map (\<lambda>n. (n, the (map_of pending n))) names)"
  using assms
proof (induction names arbitrary: i d)
  case (Cons n names)
  from Cons.prems(3) obtain c where c: "map_of pending n = Some c"
    by (cases "map_of pending n") (auto simp: map_of_eq_None_iff)
  let ?t = "\<lparr>tg_id = 0, tg_name = n, tg_user_id = uid, tg_color = c, tg_collection_id = 0\<rparr>"
  from Cons.prems(1) c obtain d1 where d1: "insert_tag ?t d = Inr d1"
    and r: "create_pending_tags e uid (Suc i) pending names d1 = Inr d'" by (auto simp: outcome_simps)
  have "confined (book_frame uid 0) d d1" using create_tag_confined [of "book_frame uid 0" ?t d "e\<lparr>flt := no_faults\<rparr>" Begin] d1
    by (simp add: create_tag_def)
  moreover have "abooks d1 = abooks d" "colours uid d1 = add_mset (n, c) (colours uid d)"
    using d1 by (auto simp: insert_tag_def Let_def colours_alt tag_pair_def own_tag_def split: if_splits)
  moreover have "set names \<subseteq> fst ` set pending" using Cons.prems(3) by simp
  ultimately show ?case using Cons.IH [OF r] Cons.prems(2) c within_trans [of "book_frame uid 0" d d1 d']
    by (auto simp: confined_def)
qed auto

lemma update_tags_effect:
  assumes "update_tags_body rng e uid wanted d = Inr (u, d')" "range_order rng" "book_keys d" "distinct (map fst wanted)"
  shows "within (book_frame uid 0) d d' \<and> book_keys d' \<and> abooks d' = abooks d \<and> colours uid d' = mset wanted"
proof -
  let ?mine = "filter (\<lambda>t. tg_user_id t = uid \<and> tg_collection_id t = 0) (tags d)"
  from assms(1) obtain pending d1 where s: "sync_tag_rows e 0 ?mine wanted d = Inr (pending, d1)"
    and c: "create_pending_tags e uid (length ?mine) pending (rng (map fst pending)) d1 = Inr d'"
    by (auto simp: update_tags_body_def outcome_simps Let_def)
  have "distinct (map tg_id ?mine)" using assms(3) by (simp add: book_keys_def distinct_map_filter)
  from sync_tag_rows_effect [OF s assms(3,4) this, of uid]
  have e: "within (book_frame uid 0) d d1" "book_keys d1" "abooks d1 = abooks d" "distinct (map fst pending)"
    "colours uid d1 + mset pending + mset (map tag_pair ?mine) = colours uid d + mset wanted"
    by (auto simp: own_tag_def)
  have "colours uid d = mset (map tag_pair ?mine)" by (simp only: colours_def personal_tags_def tag_funs)
  with e(5) have w: "colours uid d1 + mset pending = mset wanted" by simp
  have r: "distinct (rng (map fst pending))" "set (rng (map fst pending)) = set (map fst pending)"
    using assms(2) e(4) by (simp_all add: range_order_def)
  then have "mset (rng (map fst pending)) = mset (map fst pending)"
    using e(4) set_eq_iff_mset_eq_distinct by metis
  then have "mset (map (\<lambda>n. (n, the (map_of pending n))) (rng (map fst pending))) =
      mset (map (\<lambda>n. (n, the (map_of pending n))) (map fst pending))" by (metis mset_map)
  also have "map (\<lambda>n. (n, the (map_of pending n))) (map fst pending) = pending"
    unfolding map_map by (rule map_idI) (use e(4) in \<open>auto simp: map_of_is_SomeI\<close>)
  finally show ?thesis
    using create_pending_effect [OF c e(2)] r(2) e w within_trans [of "book_frame uid 0" d d1 d'] by auto
qed

section \<open>The upload\<close>

lemma update_address_book_and_tags_effect:
  assumes "update_address_book_and_tags rng e bs uid wanted d = (Inr u, d')" and "range_order rng" "book_keys d"
    and "distinct (map ab_id (personal uid d))" "\<And>b. b \<in> set bs \<Longrightarrow> normalize_rustdesk_id (ab_id b) \<noteq> []"
    and "distinct (map fst wanted)"
  shows "within (book_frame uid 0) d d' \<and> book_keys d' \<and> colours uid d' = mset wanted \<and>
    device_ids uid d' = mset_set ((\<lambda>b. normalize_rustdesk_id (ab_id b)) ` set bs)"
proof -
  from assms(1) obtain v d1 where b: "update_address_book_body rng e bs uid d = Inr (v, d1)"
    and t: "update_tags_body rng e uid wanted d1 = Inr (u, d')"
    by (auto simp: update_address_book_and_tags_def outcome_simps)
  note be = update_address_book_effect [OF b assms(2-5)]
  from update_tags_effect [OF t assms(2) _ assms(6)] be within_trans [of "book_frame uid 0" d d1 d']
  show ?thesis by (auto simp: device_ids_def personal_def)
qed

end
