(* ===== verification/BookRules.thy ===== *)
theory BookRules
  imports BookAccess "HOL-Library.Multiset"
begin

text \<open>
  The rules that share a collection: a user or a group has at most one for a collection, whatever the order of
  calls, and so the privilege check, which looks at the first rule it finds, decides by the strongest one.
\<close>

section \<open>What leaves the rules alone\<close>

lemma rules_kept [simp]:
  "rules (snd (create_abook e p b d)) = rules d" "rules (snd (delete_abook e p b d)) = rules d"
  "rules (snd (update_all_abook e p b d)) = rules d" "rules (snd (update_abook_by_map e p b m d)) = rules d"
  "rules (snd (batch_update_tags e p bs names d)) = rules d" "rules (snd (create_tag e p t d)) = rules d"
  "rules (snd (delete_tag e p t d)) = rules d" "rules (snd (update_tag e p t d)) = rules d"
  "rules (snd (create_collection e c d)) = rules d" "rules (snd (update_collection e c d)) = rules d"
  "rules (snd (create_group e g d)) = rules d" "rules (snd (update_group e g d)) = rules d"
  "rules (snd (deny_scoped_access e u rid ty i d)) = rules d"
  by (auto simp: create_abook_def insert_abook_def delete_abook_def update_all_abook_def update_abook_by_map_def
      batch_update_tags_def create_tag_def insert_tag_def delete_tag_def update_tag_def create_collection_def
      update_collection_def create_group_def update_group_def deny_scoped_access_def record_denied_def
      begin_security_audit_def finish_security_audit_def stmt_def Let_def split: sum.split)

lemma rules_delete_group [simp]: "rules (snd (delete_group e ht g d)) = rules d"
proof (cases rule: transaction_cases [of "flt e" "delete_group_body e ht (g_id g)" d])
  case (ok x d')
  then have "rules d' = rules d"
    by (auto simp: delete_group_body_def remove_resource_scopes_def outcome_simps split: if_splits)
  with ok(1) show ?thesis by (simp add: delete_group_def)
qed (simp add: delete_group_def)

lemma rules_create_missing [simp]: "rules (create_missing e i ts d) = rules d"
  by (induction ts arbitrary: i d) auto

lemma rules_tag_del_loop [simp]: "rules (snd (tag_del_loop e uid cid i names d)) = rules d"
proof (induction names arbitrary: i d)
  case (Cons n names)
  show ?case
  proof (cases "tag_info_by_name e (Outside (1000 + i)) uid n cid d")
    case (Some t)
    let ?o = "failed_op (delete_tag e (Stmt (1000 + i)) t d)"
    have "rules (snd ?o) = rules d" by simp
    then show ?thesis using Some Cons.IH [of "Suc i" "snd ?o"] by (cases ?o; cases "fst ?o") auto
  qed simp
qed simp

lemma rules_peer_del_loop [simp]: "rules (snd (peer_del_loop e uid cid i names d)) = rules d"
proof (induction names arbitrary: i d)
  case (Cons n names)
  show ?case
  proof (cases "info_by_user_id_and_id_and_cid e (Outside (1000 + i)) uid n cid d")
    case (Some t)
    let ?o = "failed_op (delete_abook e (Stmt (1000 + i)) t d)"
    have "rules (snd ?o) = rules d" by simp
    then show ?thesis using Some Cons.IH [of "Suc i" "snd ?o"] by (cases ?o; cases "fst ?o") auto
  qed simp
qed simp

lemma rules_with_book:
  "(\<And>uid cid. rules (snd (op uid cid)) = rules d) \<Longrightarrow> rules (snd (with_book e u guid al d op)) = rules d"
  by (simp add: with_book_def split: sum.split prod.split)

lemma rules_book_call [simp]: "rules (snd (book_call e u guid r d)) = rules d"
  by (cases r) (auto simp: tag_add_def tag_rename_def tag_update_def tag_del_def peer_add_def peer_del_def
      peer_update_def Let_def split: option.split intro!: rules_with_book)

section \<open>The invariant\<close>

definition rule_key :: "rule_row \<Rightarrow> int \<times> nat \<times> nat" where
  "rule_key r = (r_type r, r_to_id r, r_collection_id r)"

definition rules_inv :: "rule_row list \<Rightarrow> bool" where
  "rules_inv rs \<longleftrightarrow> distinct (map r_id rs) \<and> distinct (map rule_key rs) \<and>
     (\<forall>r \<in> set rs. r_id r \<noteq> 0 \<and> 1 \<le> r_rule r \<and> r_rule r \<le> 3)"

lemma rules_inv_delete: "rules_inv rs \<Longrightarrow> rules_inv (delete_where P rs)"
  by (auto simp: rules_inv_def distinct_map_delete_where set_delete_where)

text \<open>No other rule has the key of a form that CheckForm accepts.\<close>

lemma accepted_form:
  assumes "check_rule_form e t d = None" "\<not> flt e (Outside 344)" "rules_inv (rules d)"
    and "r \<in> set (rules d)" "rule_key r = rule_key t"
  shows "r_id t = r_id r"
proof -
  let ?P = "\<lambda>x. r_type x = r_type t \<and> r_to_id x = r_to_id t \<and> r_collection_id x = r_collection_id t"
  have "find ?P (rules d) \<noteq> None" using assms(4,5) by (auto simp: find_None_iff rule_key_def)
  then obtain x where x: "find ?P (rules d) = Some x" by auto
  then have px: "x \<in> set (rules d)" "?P x" using find_SomeD [OF x] by auto
  then have "x = r" using assms(3-5) key_unique [of rule_key "rules d" x r] by (auto simp: rules_inv_def rule_key_def)
  moreover have "r_id x \<noteq> 0" using px(1) assms(3) by (simp add: rules_inv_def)
  then have "rule_info_by_to_id_and_cid e (Outside 344) (r_type t) (r_to_id t) (r_collection_id t) d = Some x"
    using x assms(2) by (simp add: rule_info_by_to_id_and_cid_def found_def first_where_def)
  ultimately show ?thesis using assms(1)
    by (auto simp: check_rule_form_def Let_def split: if_splits option.splits)
qed

lemma rules_inv_create:
  assumes "rules_inv (rules d)" "check_rule_form e t d = None" "\<not> flt e (Outside 344)" "rule_form_valid t"
  shows "rules_inv (rules (snd (create_rule e t d)))"
proof -
  define t1 where "t1 = (if r_id t = 0 then t\<lparr>r_id := next_id r_id (rules d)\<rparr> else t)"
  have v: "r_type t \<noteq> 0" "1 \<le> r_rule t" "r_rule t \<le> 3" using assms(4) by (auto simp: rule_form_valid_def)
  have t1: "rule_key t1 = rule_key t" "r_rule t1 = r_rule t" "r_type t1 \<noteq> 0" "r_id t1 \<noteq> 0"
    using v next_id_pos [of r_id "rules d"] by (auto simp: t1_def rule_key_def)
  have c: "snd (create_rule e t d) = d \<or> (r_id t1 \<notin> r_id ` set (rules d) \<and>
      snd (create_rule e t d) = d\<lparr>rules := insort_key r_id t1 (rules d)\<rparr>)"
    using t1(3) by (auto simp: create_rule_def Let_def t1_def)
  have "rules_inv (insort_key r_id t1 (rules d))" if new: "r_id t1 \<notin> r_id ` set (rules d)"
  proof -
    have "rule_key t1 \<notin> rule_key ` set (rules d)"
    proof
      assume "rule_key t1 \<in> rule_key ` set (rules d)"
      then obtain r where r: "r \<in> set (rules d)" "rule_key r = rule_key t" using t1(1) by auto
      then have "r_id t = r_id r" using accepted_form assms(1-3) by blast
      then show False using r(1) new assms(1) by (auto simp: t1_def rules_inv_def split: if_splits)
    qed
    moreover have "mset (map rule_key (insort_key r_id t1 (rules d))) = mset (map rule_key (t1 # rules d))" by simp
    then have "distinct (map rule_key (insort_key r_id t1 (rules d))) \<longleftrightarrow> distinct (map rule_key (t1 # rules d))"
      by (rule mset_eq_imp_distinct_iff)
    ultimately show ?thesis using assms(1) new t1 v distinct_insort_map [OF _ new]
      by (auto simp: rules_inv_def)
  qed
  with c assms(1) show ?thesis by auto
qed

lemma rules_inv_update:
  assumes "rules_inv (rules d)" "check_rule_form e t d = None" "\<not> flt e (Outside 344)"
    and "1 \<le> r_rule t" "r_rule t \<le> 3" "r_type t \<noteq> 0" "r_to_id t \<noteq> 0"
    and x: "x \<in> set (rules d)" "r_id x = r_id t" "r_collection_id t = 0 \<Longrightarrow> r_collection_id x = 0"
  shows "rules_inv (rules (snd (update_rule e t d)))"
proof -
  let ?rs = "update_where (\<lambda>y. r_id y = r_id t) (patch_rule t) (rules d)"
  have p: "rule_key (patch_rule t x) = rule_key t" "r_rule (patch_rule t x) = r_rule t" "r_id (patch_rule t y) = r_id y" for y
    using assms(4-7) x(3) by (auto simp: rule_key_def patch_rule_def patch_def)
  have only: "y = x" if "y \<in> set (rules d)" "r_id y = r_id t" for y
    using that x assms(1) key_unique [of r_id "rules d" y x] by (simp add: rules_inv_def)
  have keys: "map rule_key ?rs = map (\<lambda>y. if y = x then rule_key t else rule_key y) (rules d)"
    unfolding update_where_def map_map
  proof (rule map_cong [OF refl])
    fix y assume "y \<in> set (rules d)"
    then have "r_id y = r_id t \<longleftrightarrow> y = x" using only [of y] x(2) by blast
    then show "(rule_key \<circ> (\<lambda>r. if r_id r = r_id t then patch_rule t r else r)) y = (if y = x then rule_key t else rule_key y)"
      using p(1) by simp
  qed
  have inj: "inj_on (\<lambda>y. if y = x then rule_key t else rule_key y) (set (rules d))"
  proof (rule inj_onI)
    fix y z assume yz: "y \<in> set (rules d)" "z \<in> set (rules d)"
      and eq: "(if y = x then rule_key t else rule_key y) = (if z = x then rule_key t else rule_key z)"
    have w: "w = x" if "w \<in> set (rules d)" "rule_key w = rule_key t" for w
      using accepted_form [OF assms(2,3,1) that] only [OF that(1)] by simp
    consider "y = x" "z = x" | "y = x" "z \<noteq> x" | "y \<noteq> x" "z = x" | "y \<noteq> x" "z \<noteq> x" by blast
    then show "y = z"
    proof cases
      case 2 then show ?thesis using eq w [OF yz(2)] by simp
    next
      case 3 then show ?thesis using eq w [OF yz(1)] by simp
    next
      case 4
      then have "rule_key y = rule_key z" using eq by simp
      then show ?thesis using yz assms(1) key_unique [of rule_key "rules d" y z] by (simp add: rules_inv_def)
    qed simp
  qed
  have "distinct (map rule_key ?rs)"
    unfolding keys using inj assms(1) by (simp add: distinct_map rules_inv_def)
  moreover have "distinct (map r_id ?rs)"
    using assms(1) p(3) by (intro distinct_update_map) (auto simp: rules_inv_def)
  moreover have "\<forall>r \<in> set ?rs. r_id r \<noteq> 0 \<and> 1 \<le> r_rule r \<and> r_rule r \<le> 3"
  proof
    fix r assume "r \<in> set ?rs"
    then obtain y where y: "y \<in> set (rules d)" "r = (if r_id y = r_id t then patch_rule t y else y)" by (auto simp: set_update_where)
    then show "r_id r \<noteq> 0 \<and> 1 \<le> r_rule r \<and> r_rule r \<le> 3"
      using assms(1,4,5) only [OF y(1)] p(2,3) by (cases "r_id y = r_id t") (auto simp: rules_inv_def)
  qed
  ultimately have "rules_inv ?rs" by (simp add: rules_inv_def)
  then show ?thesis using assms(1) by (auto simp: update_rule_def)
qed

lemma rules_deleteD: "rules (snd (delete_rule e r d)) = delete_where (\<lambda>x. r_id x = r_id r) (rules d) \<or> snd (delete_rule e r d) = d"
  by (simp add: delete_rule_def)

lemma rules_inv_delete_rule: "rules_inv (rules d) \<Longrightarrow> rules_inv (rules (snd (delete_rule e r d)))"
  using rules_deleteD [of e r d] rules_inv_delete [of "rules d"] by metis

lemma rules_inv_delete_collection:
  assumes "rules_inv (rules d)"
  shows "rules_inv (rules (snd (delete_collection e ht c d)))"
proof (cases rule: transaction_cases [of "flt e" "delete_collection_body e ht (c_id c)" d])
  case (ok x d')
  then have "rules d' = delete_where (\<lambda>r. r_collection_id r = c_id c) (rules d)"
    by (auto simp: delete_collection_body_def remove_resource_scopes_def outcome_simps Let_def split: if_splits)
  with ok(1) rules_inv_delete [OF assms] show ?thesis by (simp add: delete_collection_def)
qed (simp add: delete_collection_def assms)

lemma form_bounds:
  "rule_form_valid f \<Longrightarrow> 1 \<le> r_rule f \<and> r_rule f \<le> 3 \<and> r_type f \<noteq> 0 \<and> r_to_id f \<noteq> 0 \<and> r_collection_id f \<noteq> 0"
  by (auto simp: rule_form_valid_def)

lemma checked_create_inv:
  assumes "rules_inv (rules d)" "\<not> flt e (Outside 344)" "rule_form_valid t"
    and "verdict = None \<Longrightarrow> check_rule_form e t d = None"
  shows "rules_inv (rules (snd (checked_rule verdict d (create_rule e t d))))"
  using assms rules_inv_create by (auto simp: checked_rule_state)

lemma checked_update_inv:
  assumes "rules_inv (rules d)" "\<not> flt e (Outside 344)" "rule_form_valid f"
    and "r_rule t = r_rule f" "r_type t = r_type f" "r_to_id t = r_to_id f" "r_id t = r_id f"
    and "x \<in> set (rules d)" "r_id x = r_id f" "r_collection_id t = r_collection_id f \<or> r_collection_id t = r_collection_id x"
    and "verdict = None \<Longrightarrow> check_rule_form e t d = None"
  shows "rules_inv (rules (snd (checked_rule verdict d (update_rule e t d))))"
  using assms rules_inv_update [of d e t x] form_bounds [OF assms(3)] by (auto simp: checked_rule_state)

lemma check_forms:
  "my_check_form e u t d = None \<Longrightarrow> check_rule_form e t d = None"
  "admin_check_form e t d = None \<Longrightarrow> check_rule_form e t d = None"
  by (simp_all add: my_check_form_def admin_check_form_def split: if_splits)

lemma my_rules_inv:
  assumes "rules_inv (rules d)" "\<not> flt e (Outside 344)"
  shows "rules_inv (rules (snd (my_call e ht u r d)))"
proof (cases r)
  case (MyBookFromPeers f)
  then show ?thesis using assms
    by (simp add: my_book_batch_create_from_peers_def Let_def split: option.split)
next
  case (MyBookTags f)
  then show ?thesis using assms
    by (simp add: my_book_batch_update_tags_def Let_def split: option.split prod.split)
next
  case (MyCollectionDelete f)
  then show ?thesis using assms
    by (simp add: my_collection_delete_def rules_inv_delete_collection split: option.split)
next
  case (MyRuleCreate f)
  then show ?thesis using assms
    by (auto simp: my_rule_create_def Let_def rule_form_valid_def split: option.split
        intro!: checked_create_inv check_forms(1))
next
  case (MyRuleUpdate f)
  show ?thesis
  proof (cases f)
    case (Some g)
    show ?thesis
    proof (cases "rule_info_by_id e (Outside 346) (r_id g) d")
      case x: (Some x)
      have "rules_inv (rules (snd (checked_rule (my_check_form e u g d) d (update_rule e g d))))" if "rule_form_valid g"
        using assms row_found(4) [OF x] that by (intro checked_update_inv [of d e g g x]) (auto dest: check_forms)
      then show ?thesis using assms x by (simp add: MyRuleUpdate Some my_rule_update_def)
    qed (use assms in \<open>simp add: MyRuleUpdate Some my_rule_update_def\<close>)
  qed (use assms in \<open>simp add: MyRuleUpdate my_rule_update_def\<close>)
next
  case (MyRuleDelete f)
  then show ?thesis using assms by (simp add: my_rule_delete_def rules_inv_delete_rule split: option.split)
qed (use assms in \<open>simp_all add: my_book_create_def my_book_update_def my_book_delete_def my_tag_create_def my_tag_update_def
    my_tag_delete_def my_collection_create_def my_collection_update_def Let_def split: option.split\<close>)

lemma rules_scoped_collection:
  "(\<And>owner. rules (snd (op owner)) = rules d) \<Longrightarrow> rules (snd (scoped_collection e u rid cid d op)) = rules d"
  by (simp add: scoped_collection_def split: option.split)

lemma admin_privilege_rules: "rules_inv (rules d) \<Longrightarrow> rules_inv (rules (snd out)) \<Longrightarrow> rules_inv (rules (snd (admin_privilege u d out)))"
  by (simp add: admin_privilege_def)

lemma super_privilege_rules: "rules_inv (rules d) \<Longrightarrow> rules_inv (rules (snd out)) \<Longrightarrow> rules_inv (rules (snd (super_admin_privilege u d out)))"
  by (simp add: super_admin_privilege_def)

lemma admin_books_keep_rules [simp]:
  "rules (snd (admin_book_create e u rid f d)) = rules d"
  "rules (snd (admin_book_update e u rid f d)) = rules d"
  "rules (snd (admin_book_delete e u rid f d)) = rules d"
  "rules (snd (admin_book_batch_create e u rid f d)) = rules d"
  "rules (snd (admin_book_batch_create_from_peers e u rid g d)) = rules d"
  by (auto simp: admin_book_create_def admin_book_update_def admin_book_delete_def admin_book_batch_create_def
      admin_book_batch_create_from_peers_def Let_def split: option.split intro!: rules_scoped_collection)

lemma admin_rules_inv:
  assumes "rules_inv (rules d)" "\<not> flt e (Outside 344)"
  shows "rules_inv (rules (snd (admin_call e ht u rid r d)))"
proof (cases r)
  case (AdminCollectionDelete f)
  then show ?thesis using assms
    by (auto simp: admin_collection_delete_def split: option.split
        intro!: super_privilege_rules rules_inv_delete_collection)
next
  case (AdminRuleCreate f)
  then show ?thesis using assms
    by (auto simp: admin_rule_create_def Let_def rule_form_valid_def split: option.split
        intro!: admin_privilege_rules checked_create_inv check_forms(2))
next
  case (AdminRuleUpdate f)
  show ?thesis
  proof (cases f)
    case (Some g)
    show ?thesis
    proof (cases "rule_info_by_id e (Outside 346) (r_id g) d")
      case x: (Some x)
      have "rules_inv (rules (snd (checked_rule (admin_check_form e t d) d (update_rule e t d))))"
        if "rule_form_valid g" "t = g \<or> t = g\<lparr>r_collection_id := r_collection_id x, r_user_id := r_user_id x\<rparr>" for t
        using assms row_found(4) [OF x] that by (intro checked_update_inv [of d e g t x]) (auto dest: check_forms)
      then show ?thesis using assms x
        by (simp add: AdminRuleUpdate Some admin_rule_update_def admin_privilege_def Let_def)
    qed (use assms in \<open>simp add: AdminRuleUpdate Some admin_rule_update_def admin_privilege_def\<close>)
  qed (use assms in \<open>simp add: AdminRuleUpdate admin_rule_update_def admin_privilege_def\<close>)
next
  case (AdminRuleDelete f)
  then show ?thesis using assms
    by (simp add: admin_rule_delete_def admin_privilege_def rules_inv_delete_rule split: option.split)
qed (use assms in \<open>simp_all add: admin_privilege_def super_admin_privilege_def admin_tag_create_def admin_tag_update_def
    admin_tag_delete_def admin_collection_create_def admin_collection_update_def admin_group_create_def
    admin_group_update_def admin_group_delete_def Let_def split: option.split\<close>)

section \<open>The strongest rule\<close>

lemma rows_of_key:
  assumes "distinct (map k t)" "\<And>r. P r \<longleftrightarrow> k r = i"
  shows "{r \<in> set t. P r} = set_option (find P t)"
proof (cases "find P t")
  case None
  then have "\<forall>x \<in> set t. \<not> P x" by (auto simp: find_None_iff)
  then show ?thesis using None by auto
next
  case (Some x)
  then have "x \<in> set t" "P x" using find_SomeD [OF Some] by auto
  then have "r = x" if "r \<in> set t" "P r" for r
    using that assms(2) by (intro key_unique [OF assms(1)]) simp_all
  then have "{r \<in> set t. P r} = {x}" using \<open>x \<in> set t\<close> \<open>P x\<close> by blast
  then show ?thesis by (simp add: Some)
qed

lemma strongest_rule:
  assumes inv: "rules_inv (rules d)" and "\<not> flt e (Outside 309)" "\<not> flt e (Outside 310)" and "u_id u \<noteq> uid"
  shows "user_max_rule e u uid cid d = Max (insert 0 (r_rule ` {r \<in> set (rules d). grants u cid r}))"
proof -
  define P where "P = (\<lambda>r :: rule_row. r_type r = ShareAddressBookRuleTypePersonal \<and> r_collection_id r = cid \<and> r_to_id r = u_id u)"
  define G where "G = (\<lambda>r :: rule_row. r_type r = ShareAddressBookRuleTypeGroup \<and> r_collection_id r = cid \<and> r_to_id r = u_group_id u)"
  let ?p = "find P (rules d)" and ?g = "find G (rules d)"
  have k: "distinct (map rule_key (rules d))" using inv by (simp add: rules_inv_def)
  have "{r \<in> set (rules d). P r} = set_option ?p"
    by (rule rows_of_key [OF k, where i = "(ShareAddressBookRuleTypePersonal, u_id u, cid)"]) (auto simp: P_def rule_key_def)
  moreover have "{r \<in> set (rules d). G r} = set_option ?g"
    by (rule rows_of_key [OF k, where i = "(ShareAddressBookRuleTypeGroup, u_group_id u, cid)"]) (auto simp: G_def rule_key_def)
  moreover have "{r \<in> set (rules d). grants u cid r} = {r \<in> set (rules d). P r} \<union> {r \<in> set (rules d). G r}"
    by (auto simp: grants_def P_def G_def)
  ultimately have set: "{r \<in> set (rules d). grants u cid r} = set_option ?p \<union> set_option ?g" by simp
  have b: "r_id r \<noteq> 0 \<and> 1 \<le> r_rule r \<and> r_rule r \<le> 3" if "?p = Some r \<or> ?g = Some r" for r
    using that inv by (auto simp: rules_inv_def dest!: find_SomeD)
  have f: "found r_id (first_where e (Outside 309) P (rules d)) = ?p"
    using assms(2) b by (cases ?p) (simp_all add: found_def first_where_def)
  have g: "found r_id (first_where e (Outside 310) G (rules d)) = ?g"
    using assms(3) b by (cases ?g) (simp_all add: found_def first_where_def)
  show ?thesis
    unfolding set user_max_rule_def Let_def P_def [symmetric] G_def [symmetric] f g
    using assms(4) b [of "the ?p"] b [of "the ?g"]
    by (cases ?p; cases ?g) (auto simp: ShareAddressBookRuleRuleFullControl_def max_def)
qed

section \<open>Runs of calls\<close>

datatype book_event =
    ByClient user_row string book_request
  | ByUser user_row my_request
  | ByAdministrator user_row string admin_request

fun book_step :: "bool \<Rightarrow> env \<times> book_event \<Rightarrow> db \<Rightarrow> db" where
  "book_step ht (e, ByClient u guid r) d = snd (book_call e u guid r d)"
| "book_step ht (e, ByUser u r) d = snd (my_call e ht u r d)"
| "book_step ht (e, ByAdministrator u rid r) d = snd (admin_call e ht u rid r d)"

lemma book_step_rules:
  "rules_inv (rules d) \<Longrightarrow> \<not> flt (fst ev) (Outside 344) \<Longrightarrow> rules_inv (rules (book_step ht ev d))"
  by (cases ev; cases "snd ev") (auto intro: my_rules_inv admin_rules_inv)

lemma book_run_rules:
  "rules_inv (rules d) \<Longrightarrow> (\<And>ev. ev \<in> set evs \<Longrightarrow> \<not> flt (fst ev) (Outside 344)) \<Longrightarrow>
     rules_inv (rules (fold (book_step ht) evs d))"
  by (induction evs arbitrary: d) (auto intro: book_step_rules)

end
