(* ===== verification/BookListed.thy ===== *)
theory BookListed
  imports BookRules
begin

text \<open>
  The identifier of a book is read back from its text, and what the list of shared books gathers: the strongest
  rule of each collection and the owners it looks up.
\<close>

section \<open>Decimal texts\<close>

lemma decimal_digits: "list_all digit_char (decimal n) \<and> decimal n \<noteq> []"
proof (induction n rule: decimal.induct)
  case (1 n)
  have d: "digit_char (char_of (48 + m))" if "m < 10" for m :: nat using that by (simp add: digit_char_def)
  show ?case
  proof (cases "n < 10")
    case True
    then show ?thesis using d by (simp add: decimal.simps [of n])
  next
    case False
    then show ?thesis using "1.IH" [OF False] d [of "n mod 10"] by (subst (1 2) decimal.simps) simp
  qed
qed

lemma minus_not_digit: "\<not> digit_char CHR ''-''" "\<not> digit_char CHR ''+''"
  by (simp_all add: digit_char_def)

lemma decimal_no_minus: "CHR ''-'' \<notin> set (decimal n)" "CHR ''+'' \<notin> set (decimal n)"
  using decimal_digits [of n] minus_not_digit by (auto simp: list_all_iff)

lemma go_atoi_decimal:
  assumes "n < 2 ^ 63"
  shows "go_atoi (decimal n) = Some (int n)"
proof -
  have "int n < 2 ^ 63" using assms by (metis of_nat_less_iff of_nat_numeral of_nat_power)
  moreover obtain c s where cs: "decimal n = c # s" using decimal_digits [of n] by (cases "decimal n") auto
  moreover have "c \<noteq> CHR ''-''" "c \<noteq> CHR ''+''" using decimal_no_minus [of n] cs by auto
  ultimately show ?thesis using decimal_digits [of n] undecimal_decimal [of n]
    by (simp add: go_atoi_def)
qed

lemma to_int_small: "n < 2 ^ 63 \<Longrightarrow> to_int n = int n"
  by (simp add: to_int_def sint_small unat_of_nat)

lemma to_uint_small: "n < 2 ^ 63 \<Longrightarrow> to_uint (int n) = n"
  by (simp add: to_uint_def unat_of_nat)

lemma parse_compose:
  assumes "g < 2 ^ 63" "uid < 2 ^ 63" "cid < 2 ^ 63"
  shows "parse_guid (compose_guid g uid cid) = (g, uid, cid)"
proof -
  have "split_on CHR ''-'' (decimal g @ CHR ''-'' # decimal uid @ CHR ''-'' # decimal cid) = [decimal g, decimal uid, decimal cid]"
    by (simp add: split_on_append_sep split_on_no_sep decimal_no_minus)
  then show ?thesis using assms
    by (simp add: parse_guid_def compose_guid_def itoa_def to_int_small to_uint_small go_atoi_decimal)
qed

section \<open>What the list gathers\<close>

text \<open>\<open>best\<close>: the strongest rule gathered for a collection so far.\<close>

definition best :: "rule_row list \<Rightarrow> (nat \<times> int) list \<Rightarrow> nat \<Rightarrow> int \<Rightarrow> bool" where
  "best rs books c m \<longleftrightarrow>
     (map_of books c = Some m \<or> (\<exists>r \<in> set rs. r_collection_id r = c \<and> r_rule r = m)) \<and>
     (\<forall>k. map_of books c = Some k \<longrightarrow> k \<le> m) \<and> (\<forall>r \<in> set rs. r_collection_id r = c \<longrightarrow> r_rule r \<le> m)"

lemma gathered_best:
  "gather_rules rs books owners = (B, Ow) \<Longrightarrow> map_of B c = Some m \<Longrightarrow> best rs books c m"
proof (induction rs books owners rule: gather_rules.induct)
  case (2 r rs books owners)
  show ?case
  proof (cases "map_of books (r_collection_id r)")
    case None
    have "best rs (AList.update (r_collection_id r) (r_rule r) books) c m"
      using 2(1) [OF None] 2(3,4) None by simp
    then show ?thesis using None unfolding best_def by (auto simp: update_conv' split: if_splits)
  next
    case (Some k)
    have "best rs (if k < r_rule r then AList.update (r_collection_id r) (r_rule r) books else books) c m"
      using 2(2) [OF Some] 2(3,4) Some by (auto split: if_splits)
    then show ?thesis using Some unfolding best_def by (auto simp: update_conv' split: if_splits)
  qed
qed (auto simp: best_def)

lemma gathered_keys:
  "gather_rules rs books owners = (B, Ow) \<Longrightarrow> fst ` set B = fst ` set books \<union> r_collection_id ` set rs"
  by (induction rs books owners rule: gather_rules.induct)
    (auto simp: dom_update dom_map_of_conv_image_fst [symmetric] update_conv' split: option.splits if_splits)

lemma gathered_owners:
  "gather_rules rs books owners = (B, Ow) \<Longrightarrow> set owners \<subseteq> set Ow \<and>
     (\<forall>c \<in> r_collection_id ` set rs - fst ` set books. \<exists>r \<in> set rs. r_collection_id r = c \<and> r_user_id r \<in> set Ow)"
proof (induction rs books owners rule: gather_rules.induct)
  case (2 r rs books owners)
  show ?case
  proof (cases "map_of books (r_collection_id r)")
    case None
    then show ?thesis using 2(1) [OF None] 2(3) None by (auto simp: dom_update)
  next
    case (Some k)
    then have "r_collection_id r \<in> fst ` set books" by (metis map_of_eq_None_iff option.distinct(1))
    then show ?thesis using 2(2) [OF Some] 2(3) Some by (auto simp: dom_update insert_absorb split: if_splits)
  qed
qed auto

lemma payload_panics:
  "shared_payloads B Ow us cs = None \<longleftrightarrow>
     (\<exists>c \<in> set cs. c_user_id c \<in> set Ow \<and> find (\<lambda>v. u_id v = c_user_id c) us = None)"
  by (induction cs) (auto split: option.splits)

definition payload :: "(nat \<times> int) list \<Rightarrow> collection_row \<Rightarrow> user_row \<Rightarrow> profile" where
  "payload B c v = \<lparr>pr_guid = compose_guid (u_group_id v) (u_id v) (c_id c), pr_name = c_name c, pr_owner = u_username v,
     pr_rule = (case map_of B (c_id c) of None \<Rightarrow> 0 | Some m \<Rightarrow> m)\<rparr>"

lemma payload_step:
  "shared_payloads B Ow us (c # cs) =
     (if c_user_id c \<notin> set Ow then shared_payloads B Ow us cs
      else case find (\<lambda>v. u_id v = c_user_id c) us of None \<Rightarrow> None
           | Some v \<Rightarrow> map_option (\<lambda>ps. payload B c v # ps) (shared_payloads B Ow us cs))"
  by (simp add: payload_def split: option.split)

text \<open>The payloads in their order, each with the collection it was made from.\<close>

lemma payload_list:
  "shared_payloads B Ow us cs = Some ps \<Longrightarrow>
     list_all2 (\<lambda>c p. \<exists>v. find (\<lambda>v. u_id v = c_user_id c) us = Some v \<and> p = payload B c v)
       (filter (\<lambda>c. c_user_id c \<in> set Ow) cs) ps"
proof (induction cs arbitrary: ps)
  case (Cons c cs)
  show ?case
  proof (cases "c_user_id c \<in> set Ow")
    case True
    then obtain v qs where q: "find (\<lambda>v. u_id v = c_user_id c) us = Some v" "shared_payloads B Ow us cs = Some qs" "ps = payload B c v # qs"
      using Cons.prems by (auto simp: payload_step simp del: shared_payloads.simps split: option.splits)
    then show ?thesis using True Cons.IH [OF q(2)] by auto
  next
    case False
    then show ?thesis using Cons by (auto simp: payload_step simp del: shared_payloads.simps)
  qed
qed simp

end
