(* ===== verification/BookClaims.thy ===== *)
theory BookClaims
  imports BookSync BookListed
begin

text \<open>
  The properties of the address books: who changes and who reads a shared collection, what the endpoints of a
  user and of a scoped administrator reach, that one rule decides, what an upload leaves, that the identifier of
  a book and the stored tags are read back, and where the list of shared books fails.
\<close>

section \<open>A small installation\<close>

text \<open>User 3 owns collection 5 and shares it with user 2, for reading and writing; user 1 is the super administrator.\<close>

definition book_rule :: "nat \<Rightarrow> nat \<Rightarrow> int \<Rightarrow> rule_row" where
  "book_rule owner to n = \<lparr>r_id = 0, r_user_id = owner, r_collection_id = 5, r_rule = n, r_type = 1, r_to_id = to\<rparr>"

definition demo_entry :: "nat \<Rightarrow> string \<Rightarrow> nat \<Rightarrow> nat \<Rightarrow> abook_row" where
  "demo_entry i name uid cid = empty_abook\<lparr>ab_row_id := i, ab_id := name, ab_user_id := uid, ab_collection_id := cid, ab_tags := ''null''\<rparr>"

definition book_db :: db where
  "book_db = scope_db\<lparr>collections := [\<lparr>c_id = 5, c_user_id = 3, c_name = ''c''\<rparr>],
     rules := [(book_rule 3 2 2)\<lparr>r_id := 1\<rparr>],
     abooks := [demo_entry 1 ''a'' 3 5, demo_entry 2 ''b'' 3 0], scopes := [\<lparr>sc_id = 1, sc_admin = 2, sc_type = ScopeCollection, sc_target = 5\<rparr>]\<rparr>"

lemma plain_ids: "normalize_rustdesk_id ''a'' = ''a''" "normalize_rustdesk_id ''b'' = ''b''" "normalize_rustdesk_id ''c'' = ''c''"
  by code_simp+

lemma book_db_keys: "book_keys book_db"
  by (simp add: book_db_def book_keys_def scope_db_def empty_db_def demo_entry_def empty_abook_def book_rule_def)

section \<open>Shared collections\<close>

text \<open>C7: A request of a client that changes anything names, in its identifier, a book the caller may change: his
  personal one, a collection he owns, or an existing collection of the named owner that a rule shares with him or
  with his group for writing, and for full control when the request deletes.  Nothing but the entries and the
  tags of that one book changes, whichever statements fail.\<close>

theorem shared_book_needs_rule:
  assumes "book_keys d" and "snd (book_call e u guid r d) \<noteq> d"
  shows "\<exists>g uid cid. parse_guid guid = (g, uid, cid) \<and> may_use u (needed_rule r) uid cid d \<and>
    within (book_frame uid cid) d (snd (book_call e u guid r d))"
  using book_call_effect [of u r guid d e] assms by (auto simp: book_effect_def confined_def)

definition shared_guid :: string where "shared_guid = ''1-3-5''"

lemma parse_shared_guid: "parse_guid shared_guid = (1, 3, 5)"
  by code_simp

lemma shared_delete_refused: "book_call scope_env (demo_user 2 RoleUser) shared_guid (PeerDel (Some [''a''])) book_db = (Inl (ErrCoded ''NoAccess''), book_db)"
  by code_simp

lemma shared_book_needs_rule_witness:
  "\<exists>g uid cid. parse_guid shared_guid = (g, uid, cid) \<and>
    may_use (demo_user 2 RoleUser) (needed_rule (TagAdd (Some \<lparr>tc_name = ''t'', tc_color = 7\<rparr>))) uid cid book_db \<and>
    within (book_frame uid cid) book_db
      (snd (book_call scope_env (demo_user 2 RoleUser) shared_guid (TagAdd (Some \<lparr>tc_name = ''t'', tc_color = 7\<rparr>)) book_db))"
proof (rule shared_book_needs_rule [OF book_db_keys])
  have "tags (snd (book_call scope_env (demo_user 2 RoleUser) shared_guid (TagAdd (Some \<lparr>tc_name = ''t'', tc_color = 7\<rparr>)) book_db)) \<noteq> tags book_db"
    by code_simp
  then show "snd (book_call scope_env (demo_user 2 RoleUser) shared_guid (TagAdd (Some \<lparr>tc_name = ''t'', tc_color = 7\<rparr>)) book_db) \<noteq> book_db"
    by auto
qed

text \<open>What a caller reads of a book.\<close>

definition may_read :: "user_row \<Rightarrow> nat \<Rightarrow> nat \<Rightarrow> db \<Rightarrow> bool" where
  "may_read u uid cid d \<longleftrightarrow> may_use u ShareAddressBookRuleRuleRead uid cid d"

lemma with_book_Inr:
  assumes "with_book e u guid al d op = (Inr x, d')"
  obtains g uid cid where "check_guid e u guid d = Inr (g, uid, cid)" "al uid cid" "op uid cid = (Inr x, d')"
  using assms by (auto simp: with_book_def split: sum.splits prod.splits if_splits)

lemma first_page: "page_rows 1 1000 rows = take 1000 rows"
proof -
  have "page_number 1 = 0" "page_length 1000 = 1000" by (simp_all add: page_number_def page_length_def)
  then show ?thesis by (simp add: page_rows_def paginate_exact Let_def)
qed

lemma first_page_list:
  "list_by_user_id_and_collection_id e uid cid 1 1000 d =
     (if flt e (Outside 301) then (0, [])
      else (count_where (\<lambda>b. ab_user_id b = uid \<and> ab_collection_id b = cid) (abooks d),
            if flt e (Outside 302) then [] else take 1000 (filter (\<lambda>b. ab_user_id b = uid \<and> ab_collection_id b = cid) (abooks d))))"
  by (simp add: list_by_user_id_and_collection_id_def list_page_def first_page)

lemma read_granted:
  assumes "check_guid e u guid d = Inr (g, uid, cid)" "check_user_read_privilege e u uid cid d"
  shows "parse_guid guid = (g, uid, cid) \<and> may_read u uid cid d"
  using check_guid_Inr [OF assms(1)] max_rule_granted [of ShareAddressBookRuleRuleRead e u uid cid d] assms(2)
  unfolding may_read_def may_use_def check_user_read_privilege_def
  by (cases "u_id u = uid") (auto simp: ShareAddressBookRuleRuleRead_def split: if_splits)

text \<open>C23: What a client is shown of a book are entries of the book its identifier names, at most a thousand of
  them, and only of a book that is the caller's own or that a rule shares with him or with his group; the number
  beside them is that of all its entries.\<close>

theorem shared_book_reads:
  assumes "book_peers e u guid d = (Inr (n, bs), d')"
  shows "d' = d \<and> length bs \<le> 1000 \<and> (\<exists>g uid cid. parse_guid guid = (g, uid, cid) \<and> may_read u uid cid d \<and>
    (\<forall>b \<in> set bs. b \<in> set (abooks d) \<and> ab_user_id b = uid \<and> ab_collection_id b = cid) \<and>
    (n = 0 \<and> bs = [] \<or> n = count_where (\<lambda>b. ab_user_id b = uid \<and> ab_collection_id b = cid) (abooks d)))"
proof -
  obtain g uid cid where c: "check_guid e u guid d = Inr (g, uid, cid)" "check_user_read_privilege e u uid cid d"
    and eq: "(Inr (list_by_user_id_and_collection_id e uid cid 1 1000 d), d) = (Inr (n, bs), d' :: db)"
    using assms [unfolded book_peers_def] by (rule with_book_Inr) blast
  from eq have r: "list_by_user_id_and_collection_id e uid cid 1 1000 d = (n, bs)" "d' = d" by blast+
  let ?P = "\<lambda>b. ab_user_id b = uid \<and> ab_collection_id b = cid"
  have n: "n = 0 \<and> bs = [] \<or> n = count_where ?P (abooks d)" and bs: "bs = [] \<or> bs = take 1000 (filter ?P (abooks d))"
    using r(1) by (simp_all add: first_page_list split: if_splits)
  from bs have "length bs \<le> 1000" by (elim disjE) simp_all
  moreover from bs have "set bs \<subseteq> {b \<in> set (abooks d). ?P b}"
    using set_take_subset [of 1000 "filter ?P (abooks d)"] by (elim disjE) simp_all
  ultimately show ?thesis using read_granted [OF c] r(2) n by blast
qed

lemma shared_guid_checked:
  "check_guid scope_env (demo_user 2 RoleUser) shared_guid book_db = Inr (1, 3, 5)"
  "check_user_read_privilege scope_env (demo_user 2 RoleUser) 3 5 book_db"
  by code_simp+

lemma shared_page: "list_by_user_id_and_collection_id scope_env 3 5 1 1000 book_db = (1, [demo_entry 1 ''a'' 3 5])"
  by (simp add: first_page_list scope_env_def book_db_def demo_entry_def empty_abook_def)

lemma shared_book_reads_witness:
  "length [demo_entry 1 ''a'' 3 5] \<le> 1000 \<and> may_read (demo_user 2 RoleUser) 3 5 book_db"
proof -
  have "book_peers scope_env (demo_user 2 RoleUser) shared_guid book_db = (Inr (1, [demo_entry 1 ''a'' 3 5]), book_db)"
    by (simp add: book_peers_def with_book_def shared_guid_checked shared_page)
  from shared_book_reads [OF this] show ?thesis by (auto simp: parse_shared_guid)
qed

section \<open>A user's own books\<close>

text \<open>C8: Whatever a user sends to the endpoints of his own address books, and whichever statements fail, only rows of
  his change: entries, tags and rules that carry his user id or lie in a collection he owns, his collections, and
  grants of administrators on a collection he deletes.  Every other row of the database keeps its content and its
  place, and keys stay unique.\<close>

theorem own_books_only:
  assumes "book_keys d"
  shows "within (own_frame (u_id u) d) d (snd (my_call e ht u r d)) \<and> book_keys (snd (my_call e ht u r d))"
  using my_call_confined [of u d e ht r] assms by (simp add: confined_def)

lemma own_books_only_witness:
  "within (own_frame 3 book_db) book_db (snd (my_call scope_env True (demo_user 3 RoleUser) (MyCollectionDelete (Some 5)) book_db)) \<and>
   rules (snd (my_call scope_env True (demo_user 3 RoleUser) (MyCollectionDelete (Some 5)) book_db)) = [] \<and>
   map ab_row_id (abooks (snd (my_call scope_env True (demo_user 3 RoleUser) (MyCollectionDelete (Some 5)) book_db))) = [2]"
proof (intro conjI)
  have "u_id (demo_user 3 RoleUser) = 3" by (simp add: demo_user_def)
  then show "within (own_frame 3 book_db) book_db (snd (my_call scope_env True (demo_user 3 RoleUser) (MyCollectionDelete (Some 5)) book_db))"
    using own_books_only [OF book_db_keys, of "demo_user 3 RoleUser"] by metis
  show "rules (snd (my_call scope_env True (demo_user 3 RoleUser) (MyCollectionDelete (Some 5)) book_db)) = []" by code_simp
  show "map ab_row_id (abooks (snd (my_call scope_env True (demo_user 3 RoleUser) (MyCollectionDelete (Some 5)) book_db))) = [2]"
    by code_simp
qed

section \<open>Scoped administrators\<close>

definition target_in_scope :: "nat \<Rightarrow> db \<Rightarrow> rule_row \<Rightarrow> bool" where
  "target_in_scope admin d r \<longleftrightarrow>
     r_type r = ShareAddressBookRuleTypePersonal \<and> r_to_id r \<in> set (effective_user_ids admin d) \<or>
     r_type r = ShareAddressBookRuleTypeGroup \<and> r_to_id r \<in> set (scope_ids admin ScopeGroup d)"

lemma share_target:
  assumes "\<not> is_super_admin (Some u)" "\<not> cannot_share e u t d" "rule_form_valid t"
  shows "target_in_scope (u_id u) d t"
proof -
  have ty: "r_type t = ShareAddressBookRuleTypePersonal \<or> r_type t = ShareAddressBookRuleTypeGroup"
    using assms(3) by (auto simp: rule_form_valid_def ShareAddressBookRuleTypePersonal_def ShareAddressBookRuleTypeGroup_def)
  have "i \<in> set (effective_user_ids (u_id u) d)" if "can_share_with_user e (Some u) i d" for i
  proof -
    from that obtain v where v: "info_by_id e (Outside 2) i d = Some v"
      and m: "can_manage_user e (Some u) (Some v) d"
      by (cases "info_by_id e (Outside 2) i d") (auto simp: can_share_with_user_def can_manage_user_def)
    have "u_id v = i" using v by (auto simp: info_by_id_def find_user_def dest: find_SomeD split: if_splits)
    moreover have "0 < count_where (\<lambda>x. u_id x = u_id v \<and> u_id x \<in> set (effective_user_ids (u_id u) d)) (users d)"
      using m assms(1) by (auto simp: can_manage_user_def count_query_def split: if_splits)
    ultimately show ?thesis by (auto simp: count_where_pos)
  qed
  moreover have "i \<in> set (scope_ids (u_id u) ScopeGroup d)" if "can_share_with_group e (Some u) i d" for i
    using can_manage_granted(2) [OF _ assms(1)] that by (simp add: can_share_with_group_def)
  ultimately show ?thesis using ty assms(2) unfolding target_in_scope_def cannot_share_def by blast
qed

lemma created_rules:
  "r \<in> set (rules (snd (checked_rule v d (create_rule e t d)))) \<Longrightarrow> r \<in> set (rules d) \<or>
     (rule_form_valid t \<longrightarrow> r_type r = r_type t \<and> r_to_id r = r_to_id t)"
  by (auto simp: checked_rule_state create_rule_def Let_def rule_form_valid_def split: if_splits)

lemma updated_rules:
  "r \<in> set (rules (snd (checked_rule v d (update_rule e t d)))) \<Longrightarrow> r \<in> set (rules d) \<or>
     (rule_form_valid t \<longrightarrow> r_type r = r_type t \<and> r_to_id r = r_to_id t)"
  by (auto simp: checked_rule_state update_rule_def set_update_where patch_rule_def patch_def rule_form_valid_def split: if_splits)

text \<open>The one call that stores a rule.\<close>

lemma unchanged_rules:
  "(\<And>f. req \<noteq> AdminRuleCreate f) \<Longrightarrow> (\<And>f. req \<noteq> AdminRuleUpdate f) \<Longrightarrow> \<not> is_super_admin (Some u) \<Longrightarrow>
     set (rules (snd (admin_call e ht u rid req d))) \<subseteq> set (rules d)"
  by (cases req) (auto simp: admin_privilege_def super_admin_privilege_def admin_tag_create_def admin_tag_update_def
      admin_tag_delete_def admin_collection_create_def admin_collection_update_def admin_collection_delete_def
      admin_group_create_def admin_group_update_def admin_group_delete_def admin_rule_delete_def delete_rule_def
      set_delete_where Let_def split: option.splits if_splits)

lemma created_target:
  assumes "\<not> is_super_admin (Some u)" "r \<in> set (rules (snd (admin_rule_create e u rid f d)))" "r \<notin> set (rules d)"
  shows "target_in_scope (u_id u) d r"
proof -
  from assms obtain g where g: "f = Some g" "rule_form_valid g" by (auto simp: admin_rule_create_def split: option.splits if_splits)
  define t where "t = g\<lparr>r_user_id := (case collection_info_by_id e (Outside 345) (r_collection_id g) d of None \<Rightarrow> 0 | Some c \<Rightarrow> c_user_id c)\<rparr>"
  have t: "rule_form_valid t" "\<not> cannot_share e u t d"
    and r: "r \<in> set (rules (snd (checked_rule (admin_check_form e t d) d (create_rule e t d))))"
    using assms g unfolding admin_rule_create_def g(1) option.case Let_def t_def [symmetric]
    by (simp_all add: t_def rule_form_valid_def split: if_split_asm)
  from share_target [OF assms(1) t(2,1)] created_rules [OF r] assms(3) t(1) show ?thesis
    by (auto simp: target_in_scope_def)
qed

lemma updated_target:
  assumes "\<not> is_super_admin (Some u)" "r \<in> set (rules (snd (admin_rule_update e u rid f d)))" "r \<notin> set (rules d)"
  shows "target_in_scope (u_id u) d r"
proof -
  from assms obtain g x where g: "f = Some g" "rule_form_valid g" and x: "rule_info_by_id e (Outside 346) (r_id g) d = Some x"
    by (auto simp: admin_rule_update_def split: option.splits if_splits)
  let ?t = "g\<lparr>r_collection_id := r_collection_id x, r_user_id := r_user_id x\<rparr>"
  have t: "\<not> cannot_share e u ?t d" and r: "r \<in> set (rules (snd (checked_rule (admin_check_form e ?t d) d (update_rule e ?t d))))"
    using assms g x by (auto simp: admin_rule_update_def Let_def split: if_splits)
  have "target_in_scope (u_id u) d (?t\<lparr>r_collection_id := r_collection_id g\<rparr>)"
    using share_target [OF assms(1), of e "?t\<lparr>r_collection_id := r_collection_id g\<rparr>" d] t g(2)
    by (simp add: cannot_share_def rule_form_valid_def)
  moreover have "r_type r = r_type g \<and> r_to_id r = r_to_id g"
    using r assms(3) g(2) by (auto simp: checked_rule_state update_rule_def set_update_where patch_rule_def patch_def
        rule_form_valid_def split: if_splits)
  ultimately show ?thesis by (simp add: target_in_scope_def)
qed

lemma scoped_rule_targets:
  assumes "\<not> is_super_admin (Some u)" and "r \<in> set (rules (snd (admin_call e ht u rid req d)))" and "r \<notin> set (rules d)"
  shows "target_in_scope (u_id u) d r"
proof (cases "(\<exists>f. req = AdminRuleCreate f) \<or> (\<exists>f. req = AdminRuleUpdate f)")
  case True
  then show ?thesis using assms created_target [OF assms(1)] updated_target [OF assms(1)]
    by (auto simp: admin_privilege_def split: if_splits)
next
  case False
  then show ?thesis using unchanged_rules [of req u e ht rid d] assms by blast
qed

text \<open>C22: A caller who is not a super administrator reaches, through the administration of address books, only what his
  scopes name: entries, tags, rules and collections of a collection granted to him, user groups granted to him,
  and the audit trail.  A rule he stores shares with a user he administers or with a group granted to him.  A
  caller who is no administrator at all changes nothing.\<close>

theorem scoped_books_bounded:
  assumes "book_keys d" and "effective_role (Some u) \<noteq> RoleSuperAdmin" and "admin_call e ht u rid req d = (out, d')"
  shows "within (scope_frame (u_id u) d) d d' \<and> book_keys d' \<and>
    (\<forall>r \<in> set (rules d') - set (rules d). target_in_scope (u_id u) d r) \<and>
    (effective_role (Some u) = RoleUser \<longrightarrow> d' = d)"
proof -
  have s: "\<not> is_super_admin (Some u)" using assms(2) by (simp add: is_super_admin_def)
  have "d' = d" if "effective_role (Some u) = RoleUser"
    using that assms(3)
    by (cases req) (simp_all add: admin_privilege_def is_admin_role_def is_super_admin_def super_admin_privilege_def no_access_def
        admin_collection_create_def admin_collection_delete_def admin_group_create_def admin_group_delete_def)
  then show ?thesis using admin_call_confined [OF s, of d e ht rid req] scoped_rule_targets [OF s, of _ e ht rid req d] assms(1)
    unfolding assms(3) snd_conv confined_def by blast
qed

lemma scoped_books_bounded_witness:
  "within (scope_frame 2 book_db) book_db
     (snd (admin_call scope_env True (demo_user 2 RoleAdmin) ''r'' (AdminRuleDelete (Some 1)) book_db)) \<and>
   rules (snd (admin_call scope_env True (demo_user 2 RoleAdmin) ''r'' (AdminRuleDelete (Some 1)) book_db)) = []"
proof
  have "u_id (demo_user 2 RoleAdmin) = 2" "effective_role (Some (demo_user 2 RoleAdmin)) \<noteq> RoleSuperAdmin"
    by (simp_all add: demo_user_def effective_role_def)
  then show "within (scope_frame 2 book_db) book_db
     (snd (admin_call scope_env True (demo_user 2 RoleAdmin) ''r'' (AdminRuleDelete (Some 1)) book_db))"
    using scoped_books_bounded [OF book_db_keys _ surjective_pairing, of "demo_user 2 RoleAdmin" scope_env True "''r''" "AdminRuleDelete (Some 1)"]
    by (simp only:) blast
  show "rules (snd (admin_call scope_env True (demo_user 2 RoleAdmin) ''r'' (AdminRuleDelete (Some 1)) book_db)) = []"
    by code_simp
qed

section \<open>One rule decides\<close>

text \<open>C13: After any sequence of requests to the three groups of endpoints, by whomever and with whatever failing
  statements (the look-up of duplicates excepted), a target has at most one rule for a collection, so the
  privilege check, which reads one personal and one group rule, finds the strongest rule that concerns the caller,
  or 0 where there is none.\<close>

theorem privilege_is_strongest_rule:
  assumes "rules_inv (rules d)" and "\<forall>ev \<in> set evs. \<not> flt (fst ev) (Outside 344)"
    and "\<not> flt e (Outside 309)" "\<not> flt e (Outside 310)" and "u_id u \<noteq> uid"
  shows "user_max_rule e u uid cid (fold (book_step ht) evs d) =
    Max (insert 0 (r_rule ` {r \<in> set (rules (fold (book_step ht) evs d)). grants u cid r}))"
  using strongest_rule [OF book_run_rules [OF assms(1)] assms(3,4,5)] assms(2) by blast

definition sharing_events :: "(env \<times> book_event) list" where
  "sharing_events = [(scope_env, ByUser (demo_user 3 RoleUser) (MyRuleCreate (Some (book_rule 0 2 3)))),
     (scope_env, ByUser (demo_user 3 RoleUser)
        (MyRuleCreate (Some \<lparr>r_id = 0, r_user_id = 0, r_collection_id = 5, r_rule = 3, r_type = 2, r_to_id = 1\<rparr>)))]"

lemma privilege_is_strongest_rule_witness:
  "user_max_rule scope_env (demo_user 2 RoleUser) 3 5 (fold (book_step True) sharing_events book_db) = 3 \<and>
   Max (insert 0 (r_rule ` {r \<in> set (rules (fold (book_step True) sharing_events book_db)). grants (demo_user 2 RoleUser) 5 r})) = 3"
proof -
  have "user_max_rule scope_env (demo_user 2 RoleUser) 3 5 (fold (book_step True) sharing_events book_db) =
    Max (insert 0 (r_rule ` {r \<in> set (rules (fold (book_step True) sharing_events book_db)). grants (demo_user 2 RoleUser) 5 r}))"
    by (rule privilege_is_strongest_rule)
      (simp_all add: rules_inv_def rule_key_def book_db_def book_rule_def sharing_events_def scope_env_def demo_user_def)
  moreover have "user_max_rule scope_env (demo_user 2 RoleUser) 3 5 (fold (book_step True) sharing_events book_db) = 3"
    by code_simp
  ultimately show ?thesis by simp
qed

section \<open>Uploading the personal book\<close>

lemma checked_peers_Inr:
  "checked_peers fs = Inr bs \<Longrightarrow> \<exists>gs. fs = map Some gs \<and> bs = map to_abook gs \<and> list_all valid_address_book_peer bs"
proof (induction fs arbitrary: bs rule: checked_peers.induct)
  case (3 f fs)
  from 3(2) obtain cs where cs: "checked_peers fs = Inr cs" and bs: "bs = to_abook f # cs" "valid_address_book_peer (to_abook f)"
    by (auto simp: outcome_simps split: if_splits)
  have "\<exists>gs. fs = map Some gs \<and> cs = map to_abook gs \<and> list_all valid_address_book_peer cs"
    using 3(1) [OF _ _ cs] 3(2) by (auto split: if_splits)
  then obtain gs where "fs = map Some gs" "cs = map to_abook gs" "list_all valid_address_book_peer cs" by blast
  then show ?case using bs by (intro exI [of _ "f # gs"]) simp
qed auto

lemma valid_peer_id: "valid_address_book_peer b \<Longrightarrow> ab_id b \<noteq> []"
  by (auto simp: valid_address_book_peer_def split: if_splits option.splits)

lemma to_abook_id: "normalize_rustdesk_id (ab_id (to_abook f)) = ab_id (to_abook f)"
  by (simp add: to_abook_def normalize_idem)

lemma failed_op_Inr: "failed_op out = (Inr x, d) \<longleftrightarrow> out = (Inr (), d)"
  by (cases out; cases "fst out") (auto simp: failed_op_def)

lemma failed_op_Inl: "failed_op out = (Inl er, d) \<Longrightarrow> \<exists>er'. out = (Inl er', d)"
  by (cases out; cases "fst out") (auto simp: failed_op_def)

text \<open>The colours are decoded into a Go map: no name occurs twice.\<close>

definition reads_maps :: "upload_reader \<Rightarrow> bool" where
  "reads_maps rd \<longleftrightarrow> (\<forall>s tc. ur_colors rd s = Some tc \<longrightarrow> distinct (map fst tc))"

text \<open>C10: An upload of the personal book either fails and changes nothing, or leaves in it exactly the uploaded
  devices, each once, and exactly the uploaded tags with their colours, whatever was stored before and in
  whichever order Go visits its maps; no row of another book changes.  The stored book must not already hold a
  device twice.\<close>

theorem upload_replaces_personal_book:
  assumes "up_ab rng rd e u body d = (out, d')" and "range_order rng" "reads_maps rd"
    and "book_keys d" "distinct (map ab_id (personal (u_id u) d))"
  shows "(case out of
      Inl _ \<Rightarrow> d' = d
    | Inr _ \<Rightarrow> \<exists>s form fs tc. body = Some s \<and> ur_form rd s = Some form \<and> up_peers form = map Some fs \<and>
        ur_colors rd (up_tag_colors form) = Some tc \<and> set (map fst tc) = set (up_tags form) \<and>
        device_ids (u_id u) d' = mset_set ((\<lambda>f. normalize_rustdesk_id (bf_id f)) ` set fs) \<and>
        colours (u_id u) d' = mset tc \<and> within (book_frame (u_id u) 0) d d')"
proof (cases out)
  case (Inl er)
  with assms(1) have "d' = d"
    by (auto simp: up_ab_def update_address_book_and_tags_def split: option.splits sum.splits if_splits
        dest!: failed_op_Inl transaction_Inl_state)
  then show ?thesis using Inl by simp
next
  case (Inr x)
  with assms(1) obtain s form tc bs where f: "body = Some s" "ur_form rd s = Some form"
      "ur_colors rd (up_tag_colors form) = Some tc" "checked_peers (up_peers form) = Inr bs"
      "list_all (\<lambda>nc. valid_name (fst nc) \<and> fst nc \<in> set (up_tags form)) tc"
      "length tc = length (up_tags form)" "distinct (up_tags form)"
    and up: "update_address_book_and_tags rng e bs (u_id u) tc d = (Inr (), d')"
    by (auto simp: up_ab_def failed_op_Inr split: option.splits sum.splits if_splits)
  from checked_peers_Inr [OF f(4)] obtain fs where fs: "up_peers form = map Some fs" "bs = map to_abook fs"
    and v: "list_all valid_address_book_peer bs" by blast
  have ids: "(\<lambda>b. normalize_rustdesk_id (ab_id b)) ` set bs = (\<lambda>f. normalize_rustdesk_id (bf_id f)) ` set fs"
    by (simp add: fs(2) image_image to_abook_id) (simp add: to_abook_def)
  have ne: "normalize_rustdesk_id (ab_id b) \<noteq> []" if "b \<in> set bs" for b
    using that v fs(2) valid_peer_id by (auto simp: list_all_iff to_abook_id)
  have di: "distinct (map fst tc)" using assms(3) f(3) by (simp add: reads_maps_def)
  have "set (map fst tc) = set (up_tags form)"
    using f(5) distinct_card [OF di] distinct_card [OF f(7)] f(6) by (intro card_subset_eq) (auto simp: list_all_iff)
  with update_address_book_and_tags_effect [OF up assms(2,4,5) ne di] ids
  show ?thesis using Inr f(1,2,3) fs(1) by auto
qed

definition demo_form :: "string \<Rightarrow> book_form" where
  "demo_form i = \<lparr>bf_id = i, bf_username = '''', bf_password = '''', bf_hostname = '''', bf_alias = '''', bf_platform = '''',
     bf_tags = Some [''t''], bf_hash = '''', bf_force_relay = False, bf_rdp_port = '''', bf_rdp_username = '''', bf_online = False,
     bf_login_name = '''', bf_same_server = False\<rparr>"

definition demo_upload :: upload_form where
  "demo_upload = \<lparr>up_tags = [''t''], up_peers = [Some (demo_form ''c'')], up_tag_colors = ''''\<rparr>"

definition demo_reader :: upload_reader where
  "demo_reader = \<lparr>ur_form = (\<lambda>_. Some demo_upload), ur_colors = (\<lambda>_. Some [(''t'', 9)])\<rparr>"

lemma demo_reader_maps: "reads_maps demo_reader"
  by (simp add: reads_maps_def demo_reader_def)

lemma id_range: "range_order id"
  by (simp add: range_order_def)

lemma demo_book_distinct: "distinct (map ab_id (personal (u_id (demo_user 3 RoleUser)) book_db))"
  by (simp add: personal_def book_db_def demo_entry_def empty_abook_def demo_user_def)

lemma demo_abook_tags:
  "ab_tags (to_abook (demo_form ''c'')) = marshal_strings (Some [''t''])" "unmarshal_strings (marshal_strings (Some [''t''])) = Some [''t'']"
  "length (marshal_strings (Some [''t''])) = 5" "normalize_rustdesk_id ''c'' = ''c''"
  by code_simp+

lemma demo_abook_valid: "valid_address_book_peer (to_abook (demo_form ''c''))"
  unfolding valid_address_book_peer_def demo_abook_tags(1)
  by (simp add: demo_abook_tags(2,3,4) valid_name_def) (simp add: to_abook_def demo_form_def demo_abook_tags(4))

lemma demo_upload_checked:
  "checked_peers (up_peers demo_upload) = Inr [to_abook (demo_form ''c'')]" "list_all valid_name (up_tags demo_upload)"
  using demo_abook_valid by (simp_all add: demo_upload_def valid_name_def outcome_simps) (simp add: demo_form_def)

lemma demo_upload_ok:
  "fst (update_address_book_and_tags id scope_env [to_abook (demo_form ''c'')] (u_id (demo_user 3 RoleUser)) [(''t'', 9)] book_db) = Inr ()"
  by code_simp

lemma upload_replaces_personal_book_witness:
  "device_ids 3 (snd (up_ab id demo_reader scope_env (demo_user 3 RoleUser) (Some ''x'') book_db)) = {#''c''#}"
proof -
  have "fst (failed_op out) = Inr ()" if "fst out = Inr ()" for out :: "(err + unit) \<times> db"
    using that by (cases out) (simp add: failed_op_def)
  note this [OF demo_upload_ok]
  then have ok: "fst (up_ab id demo_reader scope_env (demo_user 3 RoleUser) (Some ''x'') book_db) = Inr ()"
    using demo_upload_checked by (simp add: up_ab_def demo_reader_def) (simp add: demo_upload_def MaxBatchSize_def)
  obtain out d' where o: "up_ab id demo_reader scope_env (demo_user 3 RoleUser) (Some ''x'') book_db = (out, d')" by fastforce
  then have "out = Inr ()" using ok by simp
  note r = upload_replaces_personal_book [OF o id_range demo_reader_maps book_db_keys demo_book_distinct, unfolded this sum.case]
  have "u_id (demo_user 3 RoleUser) = 3" by (simp add: demo_user_def)
  with r have "device_ids 3 d' = {#''c''#}"
    by (auto simp: demo_reader_def demo_upload_def) (simp add: demo_form_def plain_ids)
  then show ?thesis unfolding o by simp
qed

section \<open>Which books a user is shown\<close>

text \<open>Ids fit in 63 bits, as the identifiers pass through signed integers; every user belongs to a group.\<close>

definition book_ids :: "db \<Rightarrow> bool" where
  "book_ids d \<longleftrightarrow> distinct (map u_id (users d)) \<and> (\<forall>c \<in> set (collections d). 0 < c_id c \<and> c_id c < 2 ^ 63) \<and>
     (\<forall>v \<in> set (users d). 0 < u_id v \<and> u_id v < 2 ^ 63 \<and> 0 < u_group_id v \<and> u_group_id v < 2 ^ 63)"

lemma listed_guid:
  assumes "book_keys d" "book_ids d" "\<And>n. \<not> flt e (Outside n)" "u \<in> set (users d)" "v \<in> set (users d)"
    and "c \<in> set (collections d)" "c_user_id c = u_id v"
  shows "check_guid e u (compose_guid (u_group_id v) (u_id v) (c_id c)) d = Inr (u_group_id v, u_id v, c_id c)"
proof -
  have v: "find_user (u_id v) d = Some v" using assms(2,5) by (simp add: book_ids_def find_user_def find_key)
  have c: "collection_info_by_id e (Outside 322) (c_id c) d = Some c"
    using assms(1,2,3,6) by (simp add: book_keys_def book_ids_def collection_info_by_id_def found_def first_where_def find_key)
  have same: "v = u" if "u_id u = u_id v"
    using assms(2,4,5) that by (auto simp: book_ids_def distinct_map inj_on_def)
  have b: "0 < u_id v" "0 < u_group_id v" "0 < c_id c" "u_id v < 2 ^ 63" "u_group_id v < 2 ^ 63" "c_id c < 2 ^ 63"
    using assms(2,5,6) by (auto simp: book_ids_def)
  have f: "found u_id (if u_id u = u_id v then Some u else info_by_id e (Outside 321) (u_id v) d) = Some v"
  proof (cases "u_id u = u_id v")
    case True
    then show ?thesis using same [OF True] b(1) by (simp add: found_def)
  next
    case False
    then show ?thesis using assms(3) v b(1) by (simp add: found_def info_by_id_def)
  qed
  show ?thesis using c assms(7) b(1,2,3) unfolding check_guid_def parse_compose [OF b(5,4,6)] Let_def prod.case f by simp
qed

lemma read_rules:
  "(\<And>n. \<not> flt e (Outside n)) \<Longrightarrow>
     set (collection_read_rules e u d) = {r \<in> set (rules d). grants u (r_collection_id r) r \<and> 0 < r_rule r}"
  by (auto simp: collection_read_rules_def grants_def)

lemma gathered_strongest:
  assumes "rules_inv (rules d)" "\<And>n. \<not> flt e (Outside n)" "u_id u \<noteq> uid"
    and "gather_rules (collection_read_rules e u d) [] [] = (B, Ow)" "map_of B cid = Some m"
  shows "m = user_max_rule e u uid cid d"
proof -
  have "best (collection_read_rules e u d) [] cid m" by (rule gathered_best [OF assms(4,5)])
  then have m: "m \<in> r_rule ` {r \<in> set (rules d). grants u cid r}" "0 < m"
    and ub: "\<And>r. r \<in> set (rules d) \<Longrightarrow> grants u cid r \<Longrightarrow> r_rule r \<le> m"
    using assms(1) by (auto simp: best_def read_rules [OF assms(2)] grants_def rules_inv_def)
  then have "Max (insert 0 (r_rule ` {r \<in> set (rules d). grants u cid r})) = m"
    by (intro Max_eqI) auto
  then show ?thesis using strongest_rule [OF assms(1,2,2,3)] by simp
qed

lemma first_hundred: "page_rows 1 100 rows = take 100 rows"
  by (simp add: page_rows_def paginate_exact page_number_def page_length_def)

text \<open>Profile \<open>p\<close> is the entry of collection \<open>c\<close>: its name, its owner's name, and an identifier that the access check of
  the endpoints resolves, for this caller, to exactly this collection and its owner.\<close>

definition listed :: "env \<Rightarrow> user_row \<Rightarrow> db \<Rightarrow> collection_row \<Rightarrow> profile \<Rightarrow> bool" where
  "listed e u d c p \<longleftrightarrow> pr_name p = c_name c \<and> 0 < c_id c \<and>
     (\<exists>v \<in> set (users d). u_id v = c_user_id c \<and> pr_owner p = u_username v \<and>
        check_guid e u (pr_guid p) d = Inr (u_group_id v, c_user_id c, c_id c))"

lemma reads_granted:
  assumes "u_id u \<noteq> uid" "\<And>n. \<not> flt e (Outside n)" "check_user_read_privilege e u uid cid d"
  shows "cid \<in> r_collection_id ` set (collection_read_rules e u d)"
proof -
  obtain r where "r \<in> set (rules d)" "grants u cid r" "1 \<le> r_rule r"
    using max_rule_granted [of 1 e u uid cid d] assms
    by (auto simp: check_user_read_privilege_def ShareAddressBookRuleRuleRead_def)
  then show ?thesis unfolding read_rules [OF assms(2)] by (intro image_eqI [of _ _ r]) (auto simp: grants_def)
qed

text \<open>Where every granting rule carries the owner's id, the owner is among those looked up.\<close>

lemma owner_gathered:
  assumes "gather_rules (collection_read_rules e u d) [] [] = (B, Ow)" "\<And>n. \<not> flt e (Outside n)"
    and "cid \<in> r_collection_id ` set (collection_read_rules e u d)"
    and "\<forall>r \<in> set (rules d). grants u cid r \<longrightarrow> r_user_id r = uid"
  shows "uid \<in> set Ow"
proof -
  obtain r where "r \<in> set (collection_read_rules e u d)" "r_collection_id r = cid" "r_user_id r \<in> set Ow"
    using gathered_owners [OF assms(1)] assms(3) by fastforce
  then show ?thesis using assms(4) by (auto simp: read_rules [OF assms(2)])
qed

text \<open>C18: The list of shared books and the access checks agree.  First come the caller's own collections, the first hundred,
  with full control; then, without repetition, collections that rules share: each entry names its collection and its
  owner by an identifier that the checks resolve to that very collection, and where it is another's the caller may
  read it, with exactly the privilege listed.  Every collection of somebody else that he may read is there, if the
  rules granting it to him carry its owner's id.  This assumes that every read succeeds, at most one rule per target
  and collection (C13 keeps that), unique keys, ids below 2^63, users in a group, and the caller's row stored.\<close>

theorem shared_profiles_match_access:
  assumes "shared_profiles e u d = Some ps" and "\<And>n. \<not> flt e (Outside n)" "u \<in> set (users d)"
    and "rules_inv (rules d)" "book_keys d" "book_ids d"
  shows "\<exists>shared qs rs. ps = qs @ rs \<and> distinct shared \<and> set shared \<subseteq> set (collections d) \<and>
    list_all2 (\<lambda>c p. listed e u d c p \<and> pr_rule p = ShareAddressBookRuleRuleFullControl)
      (take 100 (filter (\<lambda>c. c_user_id c = u_id u) (collections d))) qs \<and>
    list_all2 (\<lambda>c p. listed e u d c p \<and> (c_user_id c \<noteq> u_id u \<longrightarrow>
        check_user_read_privilege e u (c_user_id c) (c_id c) d \<and> pr_rule p = user_max_rule e u (c_user_id c) (c_id c) d)) shared rs \<and>
    (\<forall>c \<in> set (collections d). c_user_id c \<noteq> u_id u \<and> check_user_read_privilege e u (c_user_id c) (c_id c) d \<and>
      (\<forall>r \<in> set (rules d). grants u (c_id c) r \<longrightarrow> r_user_id r = c_user_id c) \<longrightarrow> c \<in> set shared)"
proof -
  obtain B Ow where B: "gather_rules (collection_read_rules e u d) [] [] = (B, Ow)" by fastforce
  let ?cs = "list_collection_by_ids e (Outside 327) (map fst B) d" and ?us = "filter (\<lambda>v. u_id v \<in> set Ow) (users d)"
  let ?own = "take 100 (filter (\<lambda>c. c_user_id c = u_id u) (collections d))"
  let ?mine = "\<lambda>c. \<lparr>pr_guid = compose_guid (u_group_id u) (u_id u) (c_id c), pr_name = c_name c,
        pr_owner = u_username u, pr_rule = ShareAddressBookRuleRuleFullControl\<rparr>"
  let ?shared = "filter (\<lambda>c. c_user_id c \<in> set Ow) ?cs"
  obtain rs where q: "shared_payloads B Ow ?us ?cs = Some rs" and ps: "ps = map ?mine ?own @ rs"
    using assms(1,2) B by (auto simp: shared_profiles_def list_collection_by_user_id_def list_page_def first_hundred)
  have keys: "fst ` set B = r_collection_id ` set (collection_read_rules e u d)" using gathered_keys [OF B] by simp
  have cs: "?cs = filter (\<lambda>c. c_id c \<in> fst ` set B) (collections d)" using assms(2) by (simp add: list_collection_by_ids_def)
  have own: "listed e u d c (?mine c)" if "c \<in> set ?own" for c
  proof -
    have c: "c \<in> set (collections d)" "c_user_id c = u_id u" using that by (auto dest: in_set_takeD)
    from listed_guid [OF assms(5,6,2,3,3) this] show ?thesis using c assms(3,6) by (auto simp: listed_def book_ids_def)
  qed
  have shared: "listed e u d c p \<and> (c_user_id c \<noteq> u_id u \<longrightarrow>
      check_user_read_privilege e u (c_user_id c) (c_id c) d \<and> pr_rule p = user_max_rule e u (c_user_id c) (c_id c) d)"
    if "c \<in> set ?shared" and p: "\<exists>v. find (\<lambda>v. u_id v = c_user_id c) ?us = Some v \<and> p = payload B c v" for c p
  proof -
    obtain v where f: "find (\<lambda>v. u_id v = c_user_id c) ?us = Some v" "p = payload B c v" using p by blast
    then have v: "v \<in> set (users d)" "u_id v = c_user_id c" "p = payload B c v" using find_SomeD [OF f(1)] by auto
    have c: "c \<in> set (collections d)" "c_id c \<in> fst ` set B" using that(1) by (auto simp: cs)
    then obtain m where m: "map_of B (c_id c) = Some m" by (metis map_of_eq_None_iff not_None_eq)
    have "0 < m" using gathered_best [OF B m] by (auto simp: best_def read_rules [OF assms(2)])
    moreover have "m = user_max_rule e u (c_user_id c) (c_id c) d" if "c_user_id c \<noteq> u_id u"
      using gathered_strongest [OF assms(4,2) _ B m] that by auto
    moreover have "0 < c_id c" using assms(6) c(1) by (auto simp: book_ids_def)
    ultimately show ?thesis using v m listed_guid [OF assms(5,6,2,3) v(1) c(1) v(2) [symmetric]]
      by (auto simp: listed_def payload_def check_user_read_privilege_def ShareAddressBookRuleRuleRead_def)
  qed
  have all: "c \<in> set ?shared" if "c \<in> set (collections d)" "c_user_id c \<noteq> u_id u"
      "check_user_read_privilege e u (c_user_id c) (c_id c) d" "\<forall>r \<in> set (rules d). grants u (c_id c) r \<longrightarrow> r_user_id r = c_user_id c" for c
  proof -
    have "c_id c \<in> r_collection_id ` set (collection_read_rules e u d)" using reads_granted [OF _ assms(2) that(3)] that(2) by auto
    then show ?thesis using that(1) owner_gathered [OF B assms(2) _ that(4)] by (simp add: cs keys)
  qed
  have "distinct (collections d)" using assms(5) by (simp add: book_keys_def distinct_map)
  then have "distinct ?shared \<and> set ?shared \<subseteq> set (collections d)" by (auto simp: cs)
  moreover have "list_all2 (\<lambda>c p. listed e u d c p \<and> pr_rule p = ShareAddressBookRuleRuleFullControl) ?own (map ?mine ?own)"
    using own by (auto simp: list_all2_map2 list_all2_same)
  moreover have "list_all2 (\<lambda>c p. listed e u d c p \<and> (c_user_id c \<noteq> u_id u \<longrightarrow>
      check_user_read_privilege e u (c_user_id c) (c_id c) d \<and> pr_rule p = user_max_rule e u (c_user_id c) (c_id c) d)) ?shared rs"
    by (rule list.rel_mono_strong [OF payload_list [OF q]]) (rule shared)
  ultimately show ?thesis using ps all by blast
qed

lemma demo_profiles:
  "shared_profiles scope_env (demo_user 2 RoleAdmin) book_db =
     Some [\<lparr>pr_guid = ''1-3-5'', pr_name = ''c'', pr_owner = ''3'', pr_rule = 2\<rparr>]"
proof -
  have "collection_read_rules scope_env (demo_user 2 RoleAdmin) book_db = [(book_rule 3 2 2)\<lparr>r_id := 1\<rparr>]"
    by (simp add: collection_read_rules_def scope_env_def book_db_def book_rule_def demo_user_def
        ShareAddressBookRuleTypePersonal_def ShareAddressBookRuleTypeGroup_def)
  moreover have "list_collection_by_user_id scope_env (u_id (demo_user 2 RoleAdmin)) book_db = (0, [])"
    by (simp add: list_collection_by_user_id_def list_page_def scope_env_def book_db_def demo_user_def count_where_def
        page_rows_def paginate_exact)
  moreover have "compose_guid 1 3 5 = ''1-3-5''" "decimal 3 = ''3''" by code_simp+
  ultimately show ?thesis
    by (simp add: shared_profiles_def list_collection_by_ids_def scope_env_def book_rule_def)
      (simp add: book_db_def scope_db_def demo_user_def)
qed

lemma shared_profiles_match_access_witness:
  "listed scope_env (demo_user 2 RoleAdmin) book_db \<lparr>c_id = 5, c_user_id = 3, c_name = ''c''\<rparr>
       \<lparr>pr_guid = ''1-3-5'', pr_name = ''c'', pr_owner = ''3'', pr_rule = 2\<rparr> \<and>
     user_max_rule scope_env (demo_user 2 RoleAdmin) 3 5 book_db = 2"
proof -
  let ?u = "demo_user 2 RoleAdmin" and ?c = "\<lparr>c_id = 5, c_user_id = 3, c_name = ''c''\<rparr>"
  let ?p = "\<lparr>pr_guid = ''1-3-5'', pr_name = ''c'', pr_owner = ''3'', pr_rule = 2\<rparr>"
  let ?own = "\<lambda>c p. listed scope_env ?u book_db c p \<and> pr_rule p = ShareAddressBookRuleRuleFullControl"
  let ?sh = "\<lambda>c p. listed scope_env ?u book_db c p \<and> (c_user_id c \<noteq> u_id ?u \<longrightarrow>
      check_user_read_privilege scope_env ?u (c_user_id c) (c_id c) book_db \<and>
      pr_rule p = user_max_rule scope_env ?u (c_user_id c) (c_id c) book_db)"
  have h: "?u \<in> set (users book_db)" "rules_inv (rules book_db)" "book_ids book_db" "\<And>n. \<not> flt scope_env (Outside n)"
    by (simp_all add: book_db_def scope_db_def scope_env_def rules_inv_def rule_key_def book_rule_def book_ids_def demo_user_def)
  obtain shared qs rs where r: "[?p] = qs @ rs" "set shared \<subseteq> set (collections book_db)"
      "list_all2 ?own (take 100 (filter (\<lambda>c. c_user_id c = u_id ?u) (collections book_db))) qs" "list_all2 ?sh shared rs"
    using shared_profiles_match_access [OF demo_profiles h(4,1,2) book_db_keys h(3)] by blast
  have c: "collections book_db = [?c]" and u: "u_id ?u = 2" by (simp_all add: book_db_def demo_user_def)
  have "qs = []" using r(3) by (simp add: c u)
  then obtain c where "shared = [c]" "?sh c ?p" using r(1,4) by (auto simp: list_all2_Cons2)
  moreover then have "c = ?c" using r(2) by (simp add: c)
  ultimately show ?thesis using u by simp
qed

text \<open>C39: Where a rule shares with the caller a collection whose owner has no row any more, and the rules that grant this
  collection to the caller name that owner, listing the shared books panics on the missing user, whatever else is
  stored, when every read succeeds.  (Only an owner some granting rule names is looked up; a collection of any
  other owner is skipped.)\<close>

theorem shared_profiles_panics:
  assumes "\<And>n. \<not> flt e (Outside n)" and "r \<in> set (rules d)" "grants u (c_id c) r" "0 < r_rule r" "c \<in> set (collections d)"
    and "\<forall>r \<in> set (rules d). grants u (c_id c) r \<longrightarrow> r_user_id r = c_user_id c" "c_user_id c \<notin> u_id ` set (users d)"
  shows "shared_profiles e u d = None"
proof -
  obtain B Ow where B: "gather_rules (collection_read_rules e u d) [] [] = (B, Ow)" by fastforce
  have k: "c_id c \<in> r_collection_id ` set (collection_read_rules e u d)"
    using assms(2,3,4) unfolding read_rules [OF assms(1)] by (intro image_eqI [of _ _ r]) (auto simp: grants_def)
  have "c_user_id c \<in> set Ow" by (rule owner_gathered [OF B assms(1) k assms(6)])
  moreover have "c \<in> set (list_collection_by_ids e (Outside 327) (map fst B) d)"
    using assms(1,5) k gathered_keys [OF B] by (simp add: list_collection_by_ids_def)
  moreover have "find (\<lambda>v. u_id v = c_user_id c) (filter (\<lambda>v. u_id v \<in> set Ow) (users d)) = None"
    using assms(7) by (auto simp: find_None_iff image_iff)
  ultimately have "shared_payloads B Ow (filter (\<lambda>v. u_id v \<in> set Ow) (users d)) (list_collection_by_ids e (Outside 327) (map fst B) d) = None"
    by (auto simp: payload_panics)
  then show ?thesis using assms(1) B by (simp add: shared_profiles_def Let_def)
qed

definition orphan_requests :: "db \<Rightarrow> db" where
  "orphan_requests d =
     fold (\<lambda>req d. snd (admin_call scope_env True (demo_user 1 RoleSuperAdmin) ''r'' req d))
       [AdminCollectionCreate (Some \<lparr>c_id = 0, c_user_id = 9, c_name = ''z''\<rparr>),
        AdminRuleCreate (Some \<lparr>r_id = 0, r_user_id = 9, r_collection_id = 6, r_rule = 1, r_type = 1, r_to_id = 2\<rparr>)] d"

lemma shared_profiles_panics_witness:
  "shared_profiles scope_env (demo_user 2 RoleUser) (orphan_requests book_db) = None"
proof (rule shared_profiles_panics)
  have r: "rules (orphan_requests book_db) = [(book_rule 3 2 2)\<lparr>r_id := 1\<rparr>,
      \<lparr>r_id = 2, r_user_id = 9, r_collection_id = 6, r_rule = 1, r_type = 1, r_to_id = 2\<rparr>]" by code_simp
  have c: "collections (orphan_requests book_db) = [\<lparr>c_id = 5, c_user_id = 3, c_name = ''c''\<rparr>, \<lparr>c_id = 6, c_user_id = 9, c_name = ''z''\<rparr>]"
    by code_simp
  have u: "map u_id (users (orphan_requests book_db)) = [1, 2, 3]" by code_simp
  show "\<lparr>r_id = 2, r_user_id = 9, r_collection_id = 6, r_rule = 1, r_type = 1, r_to_id = 2\<rparr> \<in> set (rules (orphan_requests book_db))"
    by (simp add: r)
  show "\<lparr>c_id = 6, c_user_id = 9, c_name = ''z''\<rparr> \<in> set (collections (orphan_requests book_db))" by (simp add: c)
  show "c_user_id \<lparr>c_id = 6, c_user_id = 9, c_name = ''z''\<rparr> \<notin> u_id ` set (users (orphan_requests book_db))"
    using u by (simp flip: set_map)
  show "\<forall>r \<in> set (rules (orphan_requests book_db)). grants (demo_user 2 RoleUser) (c_id \<lparr>c_id = 6, c_user_id = 9, c_name = ''z''\<rparr>) r \<longrightarrow>
      r_user_id r = c_user_id \<lparr>c_id = 6, c_user_id = 9, c_name = ''z''\<rparr>"
    by (simp add: r book_rule_def grants_def)
qed (simp_all add: scope_env_def grants_def ShareAddressBookRuleTypePersonal_def demo_user_def)

section \<open>Stored tags\<close>

text \<open>C31: The tags of a device are stored as a JSON text, and reading it gives the names the client sent, whatever
  characters of well-formed UTF-8 they hold; a device with these tags passes the checks when there are at most a
  hundred of them, each is a valid name, the text keeps to its bound and the other fields keep to theirs.\<close>

theorem tags_read_back:
  assumes "bf_tags f = Some names" "list_all valid_utf8 names"
  shows "unmarshal_strings (ab_tags (to_abook f)) = Some names \<and>
    (valid_address_book_peer (to_abook f) \<longleftrightarrow>
       length names \<le> 100 \<and> list_all valid_name names \<and> length (marshal_strings (Some names)) \<le> 65536 \<and>
       normalize_rustdesk_id (bf_id f) \<noteq> [] \<and> length (normalize_rustdesk_id (bf_id f)) \<le> 128 \<and> length (bf_username f) \<le> 512 \<and>
       length (bf_password f) \<le> 4096 \<and> length (bf_hostname f) \<le> 512 \<and> length (bf_alias f) \<le> 512 \<and>
       length (bf_platform f) \<le> 128 \<and> length (bf_hash f) \<le> 512 \<and> length (bf_rdp_port f) \<le> 32 \<and>
       length (bf_rdp_username f) \<le> 512 \<and> length (bf_login_name f) \<le> 512)"
proof -
  have t: "ab_tags (to_abook f) = marshal_strings (Some names)" using assms(1) by (simp add: to_abook_def)
  have "marshal_strings (Some names) \<noteq> []" by (cases names) (simp_all add: marshal_strings_def)
  then show ?thesis using unmarshal_marshal [OF assms(2)] unfolding valid_address_book_peer_def t
    by (auto simp: to_abook_def)
qed

lemma tags_read_back_witness:
  "unmarshal_strings (ab_tags (to_abook (demo_form ''c''))) = Some [''t''] \<and> valid_address_book_peer (to_abook (demo_form ''c''))"
proof -
  have "bf_tags (demo_form ''c'') = Some [''t'']" by (simp add: demo_form_def)
  moreover have "rune_length ''t'' = 1" by code_simp
  then have "valid_utf8 ''t''" using valid_utf8.rune [of "''t''"] by (simp add: valid_utf8.empty)
  ultimately show ?thesis using tags_read_back [of "demo_form ''c''" "[''t'']"] demo_abook_valid by simp
qed

end
