(* ===== verification/Spec2Isabelle.thy ===== *)
theory Spec2Isabelle
  imports LoginLimiter DeviceRuns TokenManagerProps AdminScopeProps SessionsProps
    AccountClaims SignInProps OauthProps TwoFactorProps OauthFlowProps ControlClaims BookClaims
begin

text \<open>
  A verification development for kessoku, the API server of a RustDesk deployment: accounts and sessions, signing in
  by password, through LDAP and through OAuth, access tokens, the login limiter, administrator scopes, device
  identities, presence leases, address books and their sharing, local maintenance, and the remote control of rendezvous servers through paired agents.

  \<^bold>\<open>The program.\<close>  HTTP controllers (gin) call the services under \<open>src/service/\<close>, which read and write a
  relational database through gorm.  A request carries an access token; \<open>UserService\<close> authenticates it against
  the token table and the token manager of \<open>src/internal/auth/\<close>.  Administrators act within the grants of
  \<open>AdminScopeService\<close>.  Devices report themselves (\<open>PeerService\<close>) and, with a newer client, hold presence
  leases (\<open>PresenceService\<close>).  Every change of an account, of grants or of a device ends the sessions it
  invalidates and leaves a record in the security audit trail.  The login limiter is in memory.

  \<^bold>\<open>Conventions.\<close>  The database is the record \<open>db\<close> of \<open>Store\<close>: one list of rows per table, in ascending order of
  the primary key, with the statement forms of \<open>Prelude\<close> (first row that matches, update where, delete where,
  insert).  A Go function that returns an error is a function into \<open>err + T\<close>; one that changes the database
  returns its result and the new database.  Every statement may fail for reasons outside the program: \<open>flt\<close> of
  an \<open>env\<close> says which program points fail, and the theorems quantify over it.  A transaction either commits what
  its body did or leaves the database as it was.  The clock is read once per operation (\<open>now\<close>).  Code that is not in
  the repository is an argument: the JWT package, Ed25519, SHA-256, bcrypt, random sources, UUIDs, URL parsing,
  the captcha provider, the registry's verifiers.  What a theorem needs of them is a named hypothesis (such as
  \<open>jwt_laws\<close>), and its witness instantiates it with a concrete function.

  \<^bold>\<open>Theories.\<close>
  \<^item> \<open>Prelude\<close>: outcomes, tables, statements, transactions and their lemmas.
  \<^item> \<open>GoBase64\<close>: the three encodings of \<open>encoding/base64\<close> the code uses; decoding undoes encoding.
  \<^item> \<open>Store\<close>: the rows of \<open>src/model/\<close>, the database, the security audit trail (\<open>src/service/securityAudit.go\<close>).
  \<^item> \<open>LoginLimiter\<close>: \<open>src/utils/login_limiter.go\<close>; its invariant, its refinement to one machine per address, bans under
    any mix of its operations, captchas.
  \<^item> \<open>Presence\<close>, \<open>PresenceProps\<close>: \<open>src/service/presence.go\<close>; the operations as a step relation, its reachable
    states, and the refinement to the abstract activation machine.
  \<^item> \<open>TokenManager\<close>, \<open>TokenManagerProps\<close>: \<open>src/internal/auth/\<close>; what a verified token proves, that an issued token
    verifies, the key ring.
  \<^item> \<open>Revocation\<close>: ending sessions; the contract \<open>session_revoker\<close> the account operations rely on.
  \<^item> \<open>AdminScope\<close>, \<open>AdminScopeProps\<close>: \<open>src/service/adminScope.go\<close>; replacing grants, decisions and listings.
  \<^item> \<open>Peers\<close>, \<open>PeersProps\<close>: \<open>src/service/peer.go\<close>, \<open>src/utils/rustdesk.go\<close>; identities are never reassigned.
  \<^item> \<open>Retention\<close>: \<open>src/service/data_retention.go\<close> for leases and tokens; it removes no live token.
  \<^item> \<open>DeviceRuns\<close>: every operation that writes a device row as one step relation, with the administrator's form
    (\<open>src/http/request/admin/peer.go\<close>); a retired activation stays retired as long as its device is not removed.
  \<^item> \<open>Settings\<close>: \<open>src/service/system_setting.go\<close>; lifetimes of sessions stay within the manager's bounds.
  \<^item> \<open>Sessions\<close>, \<open>SessionsProps\<close>: authentication, login, logout and introspection of \<open>src/service/user.go\<close>.
  \<^item> \<open>Directory\<close>: \<open>src/service/ldap.go\<close> without the database: connections, searches, entries as users.
  \<^item> \<open>Oauth\<close>, \<open>OauthProps\<close>: \<open>src/service/oauth.go\<close>, \<open>src/model/oauth.go\<close>; the store of pending authorisations
    under every sequence of its operations, what a callback has proven, the addresses the client refuses.
  \<^item> \<open>Users\<close>: creation, update, removal and passwords of accounts (\<open>src/service/user.go\<close>, \<open>src/utils/password.go\<close>).
  \<^item> \<open>SignIn\<close>, \<open>SignInProps\<close>: sign-in by password, directory and OAuth, and the account it creates or updates.
  \<^item> \<open>TwoFactor\<close>, \<open>TwoFactorProps\<close>: \<open>src/service/two_factor.go\<close>; codes are good once, challenges for five
    answers, enrolment from end to end.  The locale \<open>factor_relation\<close> collects the table updates.
  \<^item> \<open>LoginFlow\<close>, \<open>LoginFlowProps\<close>: the sign-in handlers of \<open>src/http/controller/\<close> (password logins, the OAuth
    device flow), which compose the limiter, the accounts, the second factor and the sessions.
  \<^item> \<open>OauthFlowProps\<close>: the device flow over every interleaving of its handlers; what a session got through it proves.
  \<^item> \<open>PairingRegistry\<close>: \<open>src/internal/servercontrolregistry/\<close>, the registry of paired servers in its own database:
    pairing codes, their claims, the managed instances, its generation and the binding to a host.
    \<open>PairingRegistryProps\<close> has its operations as a step relation and its invariant, \<open>PairingRuns\<close> what holds of runs:
    a code is claimed once, a paired identity is kept, the generation identifies the contents.
  \<^item> \<open>ControlService\<close>: \<open>src/service/starryControl.go\<close>, the table of instances, the audited calls to their agents, plans
    and their review tokens, operations, peer queries; \<open>PairingService\<close>: \<open>src/service/starryPairing.go\<close> and the
    decisions of \<open>pki.go\<close>; \<open>ControlLogs\<close>: the log files and events administrators may read.
    \<open>ControlServiceProps\<close> relates the service's table to the registry and runs all handlers together with operations
    of other processes on the registry; \<open>ControlClaims\<close> states what follows: changes reach an agent only where writing
    is enabled, configurations are applied after their review, every audited call leaves
    a true event, verdicts on peers are the agents'.
  \<^item> \<open>Listing\<close>: pages and date ranges (\<open>src/service/service.go\<close>, \<open>date_range.go\<close>) on 64-bit words.
  \<^item> \<open>GoJson\<close>: \<open>json.Marshal\<close> and \<open>json.Unmarshal\<close> of string lists; reading undoes writing on well-formed UTF-8.
  \<^item> \<open>AddressBook\<close>: \<open>src/service/addressBook.go\<close>, \<open>tag.go\<close>, \<open>group.go\<close>: entries, shared collections and their rules, tags,
    the synchronisation of a personal book.  \<open>BookApi\<close>: the clients' endpoints (\<open>src/http/controller/api/ab.go\<close>) with
    the identifiers of books; \<open>BookAdmin\<close>: the administration's and a user's own (\<open>src/http/controller/admin/\<close>).
    \<open>BookProps\<close> says what a change is confined to (\<open>frame\<close>) and that every operation keeps to its frame; \<open>BookAccess\<close>
    finds the frame of each request; \<open>BookRules\<close>: one rule per target and collection, so the strongest is found;
    \<open>BookSync\<close>: what an upload leaves; \<open>BookListed\<close>: what the list of shared books gathers; \<open>BookClaims\<close>: the
    properties.
  \<^item> \<open>Maintenance\<close>: \<open>src/service/maintenance.go\<close> and the schema gate \<open>src/internal/database/schema.go\<close>.
  \<^item> \<open>AccountProps\<close>, \<open>AccountClaims\<close>: the account operations as one step relation.  The locale \<open>account_relation\<close>
    states what a relation on databases must satisfy to hold across every operation; its two interpretations
    are the survival of an enabled super administrator and the finality of a revocation.

  \<^bold>\<open>Bounds.\<close>  The Go type \<open>uint\<close> of keys and versions is \<open>nat\<close>, since rows never reach \<open>2\<^sup>6\<^sup>4\<close>; durations are wrapped
    where the code multiplies them (\<open>wrap64\<close>).  The one loop without a bound in the code, the search of a free
    username, takes the list of digits the random source will yield; enough of them always give a name.

  \<^bold>\<open>Not modelled.\<close>  HTTP binding and rendering (other than the handlers of signing in and of the address books), command line, generated files, file uploads and the GeoIP reader are
  input and output; so is the removal of old log rows by the retention worker.  The migrations of the schema at
  start-up are left out.  The mutual-TLS client of a control agent (\<open>src/internal/starrycontrol/starry/\<close>), X.509 and key
  files are arguments of the server-control theories.
\<close>

end
